(* ===== verification/Vervet_Enums.thy ===== *)
theory Vervet_Enums
  imports Main
begin

text \<open>
  The enumerations of \<open>backend/prisma/schema.prisma\<close>, a constructor per value, named by the
  enumeration and the value as the code writes them (\<open>WebhookStatus.ACTIVE\<close> is
  \<open>WebhookStatus_ACTIVE\<close>), and the names the code prints them under.  Risk levels are ordered
  by severity.
\<close>

datatype PartnerType =
    PartnerType_EXCHANGE
  | PartnerType_WALLET
  | PartnerType_PAYMENT_PROCESSOR
  | PartnerType_MERCHANT
  | PartnerType_FINTECH
  | PartnerType_OTHER

datatype PartnerStatus =
    PartnerStatus_ACTIVE
  | PartnerStatus_SUSPENDED
  | PartnerStatus_DISABLED

datatype PartnerOnboardingStage =
    PartnerOnboardingStage_ACCOUNT_CREATED
  | PartnerOnboardingStage_API_ACCESS_READY
  | PartnerOnboardingStage_TRUST_SETUP_READY
  | PartnerOnboardingStage_DATA_MAPPING_IN_PROGRESS
  | PartnerOnboardingStage_BOOTSTRAP_IMPORT_COMPLETED
  | PartnerOnboardingStage_LIVE_FEED_CONNECTED
  | PartnerOnboardingStage_PRODUCTION_APPROVED

datatype PartnerFeedHealthStatus =
    PartnerFeedHealthStatus_UNKNOWN
  | PartnerFeedHealthStatus_HEALTHY
  | PartnerFeedHealthStatus_DEGRADED
  | PartnerFeedHealthStatus_DISCONNECTED

datatype PartnerPricingPlan =
    PartnerPricingPlan_STARTER
  | PartnerPricingPlan_GROWTH
  | PartnerPricingPlan_SCALE
  | PartnerPricingPlan_ENTERPRISE

datatype PartnerUserStatus =
    PartnerUserStatus_ACTIVE
  | PartnerUserStatus_DISABLED

datatype PartnerUserRole =
    PartnerUserRole_OWNER
  | PartnerUserRole_ADMIN
  | PartnerUserRole_DEVELOPER
  | PartnerUserRole_ANALYST
  | PartnerUserRole_READ_ONLY

datatype PartnerUserInviteStatus =
    PartnerUserInviteStatus_PENDING
  | PartnerUserInviteStatus_ACCEPTED
  | PartnerUserInviteStatus_REVOKED

datatype ProductionApprovalRequestStatus =
    ProductionApprovalRequestStatus_PENDING
  | ProductionApprovalRequestStatus_APPROVED
  | ProductionApprovalRequestStatus_REJECTED
  | ProductionApprovalRequestStatus_CANCELLED

datatype PartnerProductionCorridorStatus =
    PartnerProductionCorridorStatus_GRANTED
  | PartnerProductionCorridorStatus_REVOKED

datatype SigningKeyAlgorithm =
    SigningKeyAlgorithm_ED25519
  | SigningKeyAlgorithm_ES256K
  | SigningKeyAlgorithm_RSA_PSS_SHA256

datatype SigningKeyStatus =
    SigningKeyStatus_ACTIVE
  | SigningKeyStatus_ROTATING
  | SigningKeyStatus_REVOKED
  | SigningKeyStatus_EXPIRED

datatype IdentifierKind =
    IdentifierKind_PARTNER_HANDLE
  | IdentifierKind_PARTNER_UID
  | IdentifierKind_EMAIL_HASH
  | IdentifierKind_PHONE_HASH
  | IdentifierKind_BUSINESS_ID
  | IdentifierKind_PAYMENT_HANDLE

datatype IdentifierStatus =
    IdentifierStatus_ACTIVE
  | IdentifierStatus_DISABLED
  | IdentifierStatus_REVOKED

datatype IdentifierVisibility =
    IdentifierVisibility_PRIVATE
  | IdentifierVisibility_SEARCHABLE
  | IdentifierVisibility_RESOLVABLE

datatype RecipientStatus =
    RecipientStatus_ACTIVE
  | RecipientStatus_SUSPENDED
  | RecipientStatus_CLOSED

datatype ChainFamily =
    ChainFamily_EVM
  | ChainFamily_TRON
  | ChainFamily_SOLANA
  | ChainFamily_OTHER

datatype TokenStandard =
    TokenStandard_NATIVE
  | TokenStandard_ERC20
  | TokenStandard_TRC20
  | TokenStandard_SPL
  | TokenStandard_OTHER

datatype MemoPolicy =
    MemoPolicy_NONE
  | MemoPolicy_OPTIONAL
  | MemoPolicy_REQUIRED

datatype AttestationType =
    AttestationType_DESTINATION_ASSIGNMENT
  | AttestationType_DESTINATION_ROTATION
  | AttestationType_DESTINATION_REVOCATION
  | AttestationType_IDENTIFIER_BINDING

datatype VerificationStatus =
    VerificationStatus_PENDING
  | VerificationStatus_VERIFIED
  | VerificationStatus_FAILED
  | VerificationStatus_REVOKED
  | VerificationStatus_EXPIRED

datatype DestinationStatus =
    DestinationStatus_PENDING
  | DestinationStatus_ACTIVE
  | DestinationStatus_REVOKED
  | DestinationStatus_EXPIRED

datatype QueryType =
    QueryType_RESOLVE
  | QueryType_CONFIRM_ADDRESS
  | QueryType_VERIFY_ADDRESS
  | QueryType_BATCH_VERIFY

datatype ResolutionBatchInputFormat =
    ResolutionBatchInputFormat_CSV
  | ResolutionBatchInputFormat_ROWS
  | ResolutionBatchInputFormat_JSON

datatype ResolutionOutcome =
    ResolutionOutcome_RESOLVED
  | ResolutionOutcome_NO_MATCH
  | ResolutionOutcome_MISMATCH
  | ResolutionOutcome_AMBIGUOUS
  | ResolutionOutcome_UNVERIFIED
  | ResolutionOutcome_BLOCKED
  | ResolutionOutcome_ERROR

datatype RiskLevel =
    RiskLevel_LOW
  | RiskLevel_MEDIUM
  | RiskLevel_HIGH
  | RiskLevel_CRITICAL

datatype RiskSignalKind =
    RiskSignalKind_ADDRESS_NOT_ATTESTED
  | RiskSignalKind_ADDRESS_MISMATCH
  | RiskSignalKind_NEW_DESTINATION
  | RiskSignalKind_RECENT_ROTATION
  | RiskSignalKind_IDENTIFIER_MISMATCH
  | RiskSignalKind_ADDRESS_LOOKALIKE
  | RiskSignalKind_EXPIRED_ATTESTATION
  | RiskSignalKind_KEY_REVOKED
  | RiskSignalKind_ENUMERATION_SUSPECTED
  | RiskSignalKind_MULTIPLE_ACTIVE_DESTINATIONS
  | RiskSignalKind_UNSUPPORTED_ASSET_NETWORK

datatype WebhookEventType =
    WebhookEventType_DESTINATION_UPDATED
  | WebhookEventType_DESTINATION_REVOKED
  | WebhookEventType_SIGNING_KEY_ROTATED
  | WebhookEventType_RECIPIENT_STATUS_CHANGED

datatype WebhookStatus =
    WebhookStatus_ACTIVE
  | WebhookStatus_PAUSED
  | WebhookStatus_DISABLED

datatype DeliveryStatus =
    DeliveryStatus_PENDING
  | DeliveryStatus_PROCESSING
  | DeliveryStatus_SUCCEEDED
  | DeliveryStatus_FAILED
  | DeliveryStatus_ABANDONED

datatype AuditActorType =
    AuditActorType_SYSTEM
  | AuditActorType_PARTNER
  | AuditActorType_USER

datatype AuditExportFormat =
    AuditExportFormat_CSV
  | AuditExportFormat_JSON

datatype AuditExportStatus =
    AuditExportStatus_PENDING
  | AuditExportStatus_READY
  | AuditExportStatus_FAILED
  | AuditExportStatus_EXPIRED

section \<open>Risk levels are ordered by severity\<close>

fun risk_rank :: "RiskLevel \<Rightarrow> nat" where
  "risk_rank RiskLevel_LOW = 0"
| "risk_rank RiskLevel_MEDIUM = 1"
| "risk_rank RiskLevel_HIGH = 2"
| "risk_rank RiskLevel_CRITICAL = 3"

lemma risk_rank_inject: "risk_rank a = risk_rank b \<Longrightarrow> a = b"
  by (cases a; cases b) simp_all

instantiation RiskLevel :: linorder
begin

definition less_eq_RiskLevel :: "RiskLevel \<Rightarrow> RiskLevel \<Rightarrow> bool" where
  "less_eq_RiskLevel a b \<longleftrightarrow> risk_rank a \<le> risk_rank b"

definition less_RiskLevel :: "RiskLevel \<Rightarrow> RiskLevel \<Rightarrow> bool" where
  "less_RiskLevel a b \<longleftrightarrow> risk_rank a < risk_rank b"

instance
  by standard (auto simp: less_eq_RiskLevel_def less_RiskLevel_def intro: risk_rank_inject)

end

lemma risk_LOW_le [simp]: "RiskLevel_LOW \<le> r"
  by (simp add: less_eq_RiskLevel_def)

lemma risk_le_CRITICAL [simp]: "r \<le> RiskLevel_CRITICAL"
  by (cases r) (simp_all add: less_eq_RiskLevel_def)

section \<open>Printed names\<close>

fun name_WebhookEventType :: "WebhookEventType \<Rightarrow> string" where
  "name_WebhookEventType WebhookEventType_DESTINATION_UPDATED = ''DESTINATION_UPDATED''"
| "name_WebhookEventType WebhookEventType_DESTINATION_REVOKED = ''DESTINATION_REVOKED''"
| "name_WebhookEventType WebhookEventType_SIGNING_KEY_ROTATED = ''SIGNING_KEY_ROTATED''"
| "name_WebhookEventType WebhookEventType_RECIPIENT_STATUS_CHANGED = ''RECIPIENT_STATUS_CHANGED''"

fun name_WebhookStatus :: "WebhookStatus \<Rightarrow> string" where
  "name_WebhookStatus WebhookStatus_ACTIVE = ''ACTIVE''"
| "name_WebhookStatus WebhookStatus_PAUSED = ''PAUSED''"
| "name_WebhookStatus WebhookStatus_DISABLED = ''DISABLED''"

fun name_DeliveryStatus :: "DeliveryStatus \<Rightarrow> string" where
  "name_DeliveryStatus DeliveryStatus_PENDING = ''PENDING''"
| "name_DeliveryStatus DeliveryStatus_PROCESSING = ''PROCESSING''"
| "name_DeliveryStatus DeliveryStatus_SUCCEEDED = ''SUCCEEDED''"
| "name_DeliveryStatus DeliveryStatus_FAILED = ''FAILED''"
| "name_DeliveryStatus DeliveryStatus_ABANDONED = ''ABANDONED''"

fun name_AuditActorType :: "AuditActorType \<Rightarrow> string" where
  "name_AuditActorType AuditActorType_SYSTEM = ''SYSTEM''"
| "name_AuditActorType AuditActorType_PARTNER = ''PARTNER''"
| "name_AuditActorType AuditActorType_USER = ''USER''"

fun name_AuditExportFormat :: "AuditExportFormat \<Rightarrow> string" where
  "name_AuditExportFormat AuditExportFormat_CSV = ''CSV''"
| "name_AuditExportFormat AuditExportFormat_JSON = ''JSON''"

fun name_AuditExportStatus :: "AuditExportStatus \<Rightarrow> string" where
  "name_AuditExportStatus AuditExportStatus_PENDING = ''PENDING''"
| "name_AuditExportStatus AuditExportStatus_READY = ''READY''"
| "name_AuditExportStatus AuditExportStatus_FAILED = ''FAILED''"
| "name_AuditExportStatus AuditExportStatus_EXPIRED = ''EXPIRED''"

fun name_RiskSignalKind :: "RiskSignalKind \<Rightarrow> string" where
  "name_RiskSignalKind RiskSignalKind_ADDRESS_NOT_ATTESTED = ''ADDRESS_NOT_ATTESTED''"
| "name_RiskSignalKind RiskSignalKind_ADDRESS_MISMATCH = ''ADDRESS_MISMATCH''"
| "name_RiskSignalKind RiskSignalKind_NEW_DESTINATION = ''NEW_DESTINATION''"
| "name_RiskSignalKind RiskSignalKind_RECENT_ROTATION = ''RECENT_ROTATION''"
| "name_RiskSignalKind RiskSignalKind_IDENTIFIER_MISMATCH = ''IDENTIFIER_MISMATCH''"
| "name_RiskSignalKind RiskSignalKind_ADDRESS_LOOKALIKE = ''ADDRESS_LOOKALIKE''"
| "name_RiskSignalKind RiskSignalKind_EXPIRED_ATTESTATION = ''EXPIRED_ATTESTATION''"
| "name_RiskSignalKind RiskSignalKind_KEY_REVOKED = ''KEY_REVOKED''"
| "name_RiskSignalKind RiskSignalKind_ENUMERATION_SUSPECTED = ''ENUMERATION_SUSPECTED''"
| "name_RiskSignalKind RiskSignalKind_MULTIPLE_ACTIVE_DESTINATIONS = ''MULTIPLE_ACTIVE_DESTINATIONS''"
| "name_RiskSignalKind RiskSignalKind_UNSUPPORTED_ASSET_NETWORK = ''UNSUPPORTED_ASSET_NETWORK''"

fun name_RiskLevel :: "RiskLevel \<Rightarrow> string" where
  "name_RiskLevel RiskLevel_LOW = ''LOW''"
| "name_RiskLevel RiskLevel_MEDIUM = ''MEDIUM''"
| "name_RiskLevel RiskLevel_HIGH = ''HIGH''"
| "name_RiskLevel RiskLevel_CRITICAL = ''CRITICAL''"

fun name_ResolutionOutcome :: "ResolutionOutcome \<Rightarrow> string" where
  "name_ResolutionOutcome ResolutionOutcome_RESOLVED = ''RESOLVED''"
| "name_ResolutionOutcome ResolutionOutcome_NO_MATCH = ''NO_MATCH''"
| "name_ResolutionOutcome ResolutionOutcome_MISMATCH = ''MISMATCH''"
| "name_ResolutionOutcome ResolutionOutcome_AMBIGUOUS = ''AMBIGUOUS''"
| "name_ResolutionOutcome ResolutionOutcome_UNVERIFIED = ''UNVERIFIED''"
| "name_ResolutionOutcome ResolutionOutcome_BLOCKED = ''BLOCKED''"
| "name_ResolutionOutcome ResolutionOutcome_ERROR = ''ERROR''"

fun name_TokenStandard :: "TokenStandard \<Rightarrow> string" where
  "name_TokenStandard TokenStandard_NATIVE = ''NATIVE''"
| "name_TokenStandard TokenStandard_ERC20 = ''ERC20''"
| "name_TokenStandard TokenStandard_TRC20 = ''TRC20''"
| "name_TokenStandard TokenStandard_SPL = ''SPL''"
| "name_TokenStandard TokenStandard_OTHER = ''OTHER''"

fun name_PartnerType :: "PartnerType \<Rightarrow> string" where
  "name_PartnerType PartnerType_EXCHANGE = ''EXCHANGE''"
| "name_PartnerType PartnerType_WALLET = ''WALLET''"
| "name_PartnerType PartnerType_PAYMENT_PROCESSOR = ''PAYMENT_PROCESSOR''"
| "name_PartnerType PartnerType_MERCHANT = ''MERCHANT''"
| "name_PartnerType PartnerType_FINTECH = ''FINTECH''"
| "name_PartnerType PartnerType_OTHER = ''OTHER''"

fun name_PartnerOnboardingStage :: "PartnerOnboardingStage \<Rightarrow> string" where
  "name_PartnerOnboardingStage PartnerOnboardingStage_ACCOUNT_CREATED = ''ACCOUNT_CREATED''"
| "name_PartnerOnboardingStage PartnerOnboardingStage_API_ACCESS_READY = ''API_ACCESS_READY''"
| "name_PartnerOnboardingStage PartnerOnboardingStage_TRUST_SETUP_READY = ''TRUST_SETUP_READY''"
| "name_PartnerOnboardingStage PartnerOnboardingStage_DATA_MAPPING_IN_PROGRESS = ''DATA_MAPPING_IN_PROGRESS''"
| "name_PartnerOnboardingStage PartnerOnboardingStage_BOOTSTRAP_IMPORT_COMPLETED = ''BOOTSTRAP_IMPORT_COMPLETED''"
| "name_PartnerOnboardingStage PartnerOnboardingStage_LIVE_FEED_CONNECTED = ''LIVE_FEED_CONNECTED''"
| "name_PartnerOnboardingStage PartnerOnboardingStage_PRODUCTION_APPROVED = ''PRODUCTION_APPROVED''"

fun name_PartnerFeedHealthStatus :: "PartnerFeedHealthStatus \<Rightarrow> string" where
  "name_PartnerFeedHealthStatus PartnerFeedHealthStatus_UNKNOWN = ''UNKNOWN''"
| "name_PartnerFeedHealthStatus PartnerFeedHealthStatus_HEALTHY = ''HEALTHY''"
| "name_PartnerFeedHealthStatus PartnerFeedHealthStatus_DEGRADED = ''DEGRADED''"
| "name_PartnerFeedHealthStatus PartnerFeedHealthStatus_DISCONNECTED = ''DISCONNECTED''"

fun name_PartnerPricingPlan :: "PartnerPricingPlan \<Rightarrow> string" where
  "name_PartnerPricingPlan PartnerPricingPlan_STARTER = ''STARTER''"
| "name_PartnerPricingPlan PartnerPricingPlan_GROWTH = ''GROWTH''"
| "name_PartnerPricingPlan PartnerPricingPlan_SCALE = ''SCALE''"
| "name_PartnerPricingPlan PartnerPricingPlan_ENTERPRISE = ''ENTERPRISE''"

fun name_PartnerUserStatus :: "PartnerUserStatus \<Rightarrow> string" where
  "name_PartnerUserStatus PartnerUserStatus_ACTIVE = ''ACTIVE''"
| "name_PartnerUserStatus PartnerUserStatus_DISABLED = ''DISABLED''"

fun name_PartnerUserInviteStatus :: "PartnerUserInviteStatus \<Rightarrow> string" where
  "name_PartnerUserInviteStatus PartnerUserInviteStatus_PENDING = ''PENDING''"
| "name_PartnerUserInviteStatus PartnerUserInviteStatus_ACCEPTED = ''ACCEPTED''"
| "name_PartnerUserInviteStatus PartnerUserInviteStatus_REVOKED = ''REVOKED''"

fun name_ProductionApprovalRequestStatus :: "ProductionApprovalRequestStatus \<Rightarrow> string" where
  "name_ProductionApprovalRequestStatus ProductionApprovalRequestStatus_PENDING = ''PENDING''"
| "name_ProductionApprovalRequestStatus ProductionApprovalRequestStatus_APPROVED = ''APPROVED''"
| "name_ProductionApprovalRequestStatus ProductionApprovalRequestStatus_REJECTED = ''REJECTED''"
| "name_ProductionApprovalRequestStatus ProductionApprovalRequestStatus_CANCELLED = ''CANCELLED''"

fun name_PartnerProductionCorridorStatus :: "PartnerProductionCorridorStatus \<Rightarrow> string" where
  "name_PartnerProductionCorridorStatus PartnerProductionCorridorStatus_GRANTED = ''GRANTED''"
| "name_PartnerProductionCorridorStatus PartnerProductionCorridorStatus_REVOKED = ''REVOKED''"

fun name_ChainFamily :: "ChainFamily \<Rightarrow> string" where
  "name_ChainFamily ChainFamily_EVM = ''EVM''"
| "name_ChainFamily ChainFamily_TRON = ''TRON''"
| "name_ChainFamily ChainFamily_SOLANA = ''SOLANA''"
| "name_ChainFamily ChainFamily_OTHER = ''OTHER''"

fun name_MemoPolicy :: "MemoPolicy \<Rightarrow> string" where
  "name_MemoPolicy MemoPolicy_NONE = ''NONE''"
| "name_MemoPolicy MemoPolicy_OPTIONAL = ''OPTIONAL''"
| "name_MemoPolicy MemoPolicy_REQUIRED = ''REQUIRED''"

fun name_DestinationStatus :: "DestinationStatus \<Rightarrow> string" where
  "name_DestinationStatus DestinationStatus_PENDING = ''PENDING''"
| "name_DestinationStatus DestinationStatus_ACTIVE = ''ACTIVE''"
| "name_DestinationStatus DestinationStatus_REVOKED = ''REVOKED''"
| "name_DestinationStatus DestinationStatus_EXPIRED = ''EXPIRED''"

fun name_RecipientStatus :: "RecipientStatus \<Rightarrow> string" where
  "name_RecipientStatus RecipientStatus_ACTIVE = ''ACTIVE''"
| "name_RecipientStatus RecipientStatus_SUSPENDED = ''SUSPENDED''"
| "name_RecipientStatus RecipientStatus_CLOSED = ''CLOSED''"

fun name_IdentifierKind :: "IdentifierKind \<Rightarrow> string" where
  "name_IdentifierKind IdentifierKind_PARTNER_HANDLE = ''PARTNER_HANDLE''"
| "name_IdentifierKind IdentifierKind_PARTNER_UID = ''PARTNER_UID''"
| "name_IdentifierKind IdentifierKind_EMAIL_HASH = ''EMAIL_HASH''"
| "name_IdentifierKind IdentifierKind_PHONE_HASH = ''PHONE_HASH''"
| "name_IdentifierKind IdentifierKind_BUSINESS_ID = ''BUSINESS_ID''"
| "name_IdentifierKind IdentifierKind_PAYMENT_HANDLE = ''PAYMENT_HANDLE''"

fun name_IdentifierStatus :: "IdentifierStatus \<Rightarrow> string" where
  "name_IdentifierStatus IdentifierStatus_ACTIVE = ''ACTIVE''"
| "name_IdentifierStatus IdentifierStatus_DISABLED = ''DISABLED''"
| "name_IdentifierStatus IdentifierStatus_REVOKED = ''REVOKED''"

fun name_IdentifierVisibility :: "IdentifierVisibility \<Rightarrow> string" where
  "name_IdentifierVisibility IdentifierVisibility_PRIVATE = ''PRIVATE''"
| "name_IdentifierVisibility IdentifierVisibility_SEARCHABLE = ''SEARCHABLE''"
| "name_IdentifierVisibility IdentifierVisibility_RESOLVABLE = ''RESOLVABLE''"

fun name_AttestationType :: "AttestationType \<Rightarrow> string" where
  "name_AttestationType AttestationType_DESTINATION_ASSIGNMENT = ''DESTINATION_ASSIGNMENT''"
| "name_AttestationType AttestationType_DESTINATION_ROTATION = ''DESTINATION_ROTATION''"
| "name_AttestationType AttestationType_DESTINATION_REVOCATION = ''DESTINATION_REVOCATION''"
| "name_AttestationType AttestationType_IDENTIFIER_BINDING = ''IDENTIFIER_BINDING''"

fun name_VerificationStatus :: "VerificationStatus \<Rightarrow> string" where
  "name_VerificationStatus VerificationStatus_PENDING = ''PENDING''"
| "name_VerificationStatus VerificationStatus_VERIFIED = ''VERIFIED''"
| "name_VerificationStatus VerificationStatus_FAILED = ''FAILED''"
| "name_VerificationStatus VerificationStatus_REVOKED = ''REVOKED''"
| "name_VerificationStatus VerificationStatus_EXPIRED = ''EXPIRED''"

fun name_QueryType :: "QueryType \<Rightarrow> string" where
  "name_QueryType QueryType_RESOLVE = ''RESOLVE''"
| "name_QueryType QueryType_CONFIRM_ADDRESS = ''CONFIRM_ADDRESS''"
| "name_QueryType QueryType_VERIFY_ADDRESS = ''VERIFY_ADDRESS''"
| "name_QueryType QueryType_BATCH_VERIFY = ''BATCH_VERIFY''"

fun name_PartnerStatus :: "PartnerStatus \<Rightarrow> string" where
  "name_PartnerStatus PartnerStatus_ACTIVE = ''ACTIVE''"
| "name_PartnerStatus PartnerStatus_SUSPENDED = ''SUSPENDED''"
| "name_PartnerStatus PartnerStatus_DISABLED = ''DISABLED''"

fun name_SigningKeyStatus :: "SigningKeyStatus \<Rightarrow> string" where
  "name_SigningKeyStatus SigningKeyStatus_ACTIVE = ''ACTIVE''"
| "name_SigningKeyStatus SigningKeyStatus_ROTATING = ''ROTATING''"
| "name_SigningKeyStatus SigningKeyStatus_REVOKED = ''REVOKED''"
| "name_SigningKeyStatus SigningKeyStatus_EXPIRED = ''EXPIRED''"

fun name_ResolutionBatchInputFormat :: "ResolutionBatchInputFormat \<Rightarrow> string" where
  "name_ResolutionBatchInputFormat ResolutionBatchInputFormat_CSV = ''CSV''"
| "name_ResolutionBatchInputFormat ResolutionBatchInputFormat_ROWS = ''ROWS''"
| "name_ResolutionBatchInputFormat ResolutionBatchInputFormat_JSON = ''JSON''"

fun name_PartnerUserRole :: "PartnerUserRole \<Rightarrow> string" where
  "name_PartnerUserRole PartnerUserRole_OWNER = ''OWNER''"
| "name_PartnerUserRole PartnerUserRole_ADMIN = ''ADMIN''"
| "name_PartnerUserRole PartnerUserRole_DEVELOPER = ''DEVELOPER''"
| "name_PartnerUserRole PartnerUserRole_ANALYST = ''ANALYST''"
| "name_PartnerUserRole PartnerUserRole_READ_ONLY = ''READ_ONLY''"

fun name_SigningKeyAlgorithm :: "SigningKeyAlgorithm \<Rightarrow> string" where
  "name_SigningKeyAlgorithm SigningKeyAlgorithm_ED25519 = ''ED25519''"
| "name_SigningKeyAlgorithm SigningKeyAlgorithm_ES256K = ''ES256K''"
| "name_SigningKeyAlgorithm SigningKeyAlgorithm_RSA_PSS_SHA256 = ''RSA_PSS_SHA256''"

end
