(* ===== verification/Js_Strings.thy ===== *)
theory Js_Strings
  imports Main
begin

text \<open>
  The JavaScript string operations the backend uses: \<open>trim\<close>, \<open>toLowerCase\<close>,
  \<open>toUpperCase\<close>, \<open>startsWith\<close>, \<open>slice\<close>, \<open>split\<close> and \<open>join\<close>.  A string is a
  list of characters with code points below 256 (one UTF-16 unit each), so that \<open>length\<close> is the
  \<open>length\<close> the source reads.  Within that range the case mappings are those of ECMAScript, but
  for the two characters whose upper case lies outside the range (code points 181 and 255), which
  are left as they are.
\<close>

section \<open>White space\<close>

definition is_ws :: "char \<Rightarrow> bool" where
  "is_ws c = (let n = (of_char c :: nat) in (9 \<le> n \<and> n \<le> 13) \<or> n = 32 \<or> n = 160)"

definition js_trim_start :: "string \<Rightarrow> string" where
  "js_trim_start s = dropWhile is_ws s"

definition js_trim_end :: "string \<Rightarrow> string" where
  "js_trim_end s = rev (dropWhile is_ws (rev s))"

definition js_trim :: "string \<Rightarrow> string" where
  "js_trim s = js_trim_end (js_trim_start s)"

section \<open>Case mapping\<close>

definition is_upper_code :: "nat \<Rightarrow> bool" where
  "is_upper_code n \<longleftrightarrow> (65 \<le> n \<and> n \<le> 90) \<or> (192 \<le> n \<and> n \<le> 222 \<and> n \<noteq> 215)"

definition is_lower_code :: "nat \<Rightarrow> bool" where
  "is_lower_code n \<longleftrightarrow> (97 \<le> n \<and> n \<le> 122) \<or> (224 \<le> n \<and> n \<le> 254 \<and> n \<noteq> 247)"

definition to_lower_char :: "char \<Rightarrow> char" where
  "to_lower_char c =
     (let n = (of_char c :: nat) in if is_upper_code n then char_of (n + 32) else c)"

definition to_upper_char :: "char \<Rightarrow> string" where
  "to_upper_char c =
     (let n = (of_char c :: nat) in
      if n = 223 then ''SS''
      else if is_lower_code n then [char_of (n - 32)] else [c])"

definition js_lower :: "string \<Rightarrow> string" where
  "js_lower s = map to_lower_char s"

definition js_upper :: "string \<Rightarrow> string" where
  "js_upper s = concat (map to_upper_char s)"

section \<open>Parts of strings\<close>

definition js_starts_with :: "string \<Rightarrow> string \<Rightarrow> bool" where
  "js_starts_with p s = (take (length p) s = p)"

definition js_ends_with :: "string \<Rightarrow> string \<Rightarrow> bool" where
  "js_ends_with p s = (length p \<le> length s \<and> drop (length s - length p) s = p)"

text \<open>\<open>split_on c s\<close> is \<open>s.split(c)\<close> for a separator of one character.\<close>

fun split_on :: "char \<Rightarrow> string \<Rightarrow> string list" where
  "split_on c [] = [[]]"
| "split_on c (x # xs) =
     (if x = c then [] # split_on c xs
      else (case split_on c xs of [] \<Rightarrow> [[x]] | y # ys \<Rightarrow> (x # y) # ys))"

text \<open>\<open>ss.join(sep)\<close>.\<close>

fun join_with :: "string \<Rightarrow> string list \<Rightarrow> string" where
  "join_with sep [] = []"
| "join_with sep [x] = x"
| "join_with sep (x # y # zs) = x @ sep @ join_with sep (y # zs)"

text \<open>A text between single quotes, as the source's messages put names.\<close>

definition quoted :: "string \<Rightarrow> string" where
  "quoted s = CHR 0x27 # s @ [CHR 0x27]"

text \<open>The decimal digits of a number, as template literals print it.\<close>

function show_nat :: "nat \<Rightarrow> string" where
  "show_nat n = (if n < 10 then [char_of (48 + n)] else show_nat (n div 10) @ [char_of (48 + n mod 10)])"
  by pat_completeness auto
termination
  by (relation "measure id") auto

declare show_nat.simps [simp del]

definition show_int :: "int \<Rightarrow> string" where
  "show_int i = (if i < 0 then CHR ''-'' # show_nat (nat (- i)) else show_nat (nat i))"

section \<open>Facts about characters\<close>

lemma of_char_less_256 [simp]: "(of_char c :: nat) < 256"
  by (cases c) (simp add: of_char_def)

lemma of_char_char_of_nat: "n < 256 \<Longrightarrow> (of_char (char_of n :: char) :: nat) = n"
  by (simp add: of_char_of)

lemma of_char_to_lower:
  "(of_char (to_lower_char c) :: nat) =
     (if is_upper_code (of_char c) then of_char c + 32 else of_char c)"
  by (auto simp: to_lower_char_def Let_def is_upper_code_def of_char_char_of_nat)

lemma char_eqI: "(of_char c :: nat) = of_char d \<Longrightarrow> c = d"
  by (metis char_of_char)

lemma to_lower_char_idem [simp]: "to_lower_char (to_lower_char c) = to_lower_char c"
  by (rule char_eqI) (auto simp: of_char_to_lower is_upper_code_def)

lemma is_ws_to_lower [simp]: "is_ws (to_lower_char c) = is_ws c"
  by (auto simp: is_ws_def of_char_to_lower is_upper_code_def Let_def)

lemma to_upper_char_not_Nil [simp]: "to_upper_char c \<noteq> []"
  by (simp add: to_upper_char_def Let_def)

lemma to_upper_char_chars:
  "d \<in> set (to_upper_char c) \<Longrightarrow> to_upper_char d = [d]"
  by (auto simp: to_upper_char_def Let_def is_lower_code_def of_char_char_of_nat split: if_splits)

lemma to_upper_char_ws:
  "d \<in> set (to_upper_char c) \<Longrightarrow> is_ws d = is_ws c"
  by (auto simp: to_upper_char_def is_ws_def Let_def is_lower_code_def of_char_char_of_nat
      split: if_splits)

section \<open>Facts about trimming and case\<close>

lemma js_trim_start_idem [simp]: "js_trim_start (js_trim_start s) = js_trim_start s"
  by (simp add: js_trim_start_def)

lemma dropWhile_hd_no: "s = [] \<or> \<not> P (hd s) \<Longrightarrow> dropWhile P s = s"
  by (cases s) auto

lemma rdrop_hd:
  "s = [] \<or> \<not> P (hd s) \<Longrightarrow> rev (dropWhile P (rev s)) = [] \<or> \<not> P (hd (rev (dropWhile P (rev s))))"
  by (cases s) (auto simp: dropWhile_append)

lemma dropWhile_rev_dropWhile:
  "dropWhile P (rev (dropWhile P (rev (dropWhile P s)))) = rev (dropWhile P (rev (dropWhile P s)))"
proof -
  have "dropWhile P s = [] \<or> \<not> P (hd (dropWhile P s))"
    by (metis hd_dropWhile)
  then show ?thesis by (intro dropWhile_hd_no rdrop_hd)
qed

lemma js_trim_idem [simp]: "js_trim (js_trim s) = js_trim s"
  by (simp add: js_trim_def js_trim_start_def js_trim_end_def dropWhile_rev_dropWhile)

lemma js_trim_Nil [simp]: "js_trim [] = []"
  by (simp add: js_trim_def js_trim_start_def js_trim_end_def)

lemma length_js_trim_le: "length (js_trim s) \<le> length s"
  by (simp add: js_trim_def js_trim_start_def js_trim_end_def)
     (metis length_dropWhile_le length_rev order_trans)

lemma js_lower_Nil_iff [simp]: "js_lower s = [] \<longleftrightarrow> s = []"
  by (simp add: js_lower_def)

lemma js_lower_idem [simp]: "js_lower (js_lower s) = js_lower s"
  by (simp add: js_lower_def)

lemma length_js_lower [simp]: "length (js_lower s) = length s"
  by (simp add: js_lower_def)

lemma dropWhile_ws_map_lower:
  "dropWhile is_ws (map to_lower_char s) = map to_lower_char (dropWhile is_ws s)"
  by (induction s) auto

lemma js_trim_lower: "js_trim (js_lower s) = js_lower (js_trim s)"
  by (simp add: js_trim_def js_trim_start_def js_trim_end_def js_lower_def
      dropWhile_ws_map_lower rev_map)

lemma concat_upper_fixed:
  "\<forall>d \<in> set t. to_upper_char d = [d] \<Longrightarrow> concat (map to_upper_char t) = t"
  by (induction t) auto

lemma js_upper_idem [simp]: "js_upper (js_upper s) = js_upper s"
  unfolding js_upper_def
  by (rule concat_upper_fixed) (auto dest: to_upper_char_chars)

lemma js_upper_Nil_iff [simp]: "js_upper s = [] \<longleftrightarrow> s = []"
  by (auto simp: js_upper_def)

lemma dropWhile_ws_block:
  "\<lbrakk>b \<noteq> []; \<forall>d \<in> set b. is_ws d = w\<rbrakk>
   \<Longrightarrow> dropWhile is_ws (b @ t) = (if w then dropWhile is_ws t else b @ t)"
  by (cases w) (auto simp: neq_Nil_conv dropWhile_append2)

lemma dropWhile_ws_concat_upper:
  "dropWhile is_ws (concat (map to_upper_char s)) = concat (map to_upper_char (dropWhile is_ws s))"
proof (induction s)
  case Nil
  then show ?case by simp
next
  case (Cons c s)
  have "\<forall>d \<in> set (to_upper_char c). is_ws d = is_ws c"
    by (auto simp: to_upper_char_ws)
  from dropWhile_ws_block [OF to_upper_char_not_Nil this, of "concat (map to_upper_char s)"] Cons
  show ?case by simp
qed

lemma rev_to_upper_char [simp]: "rev (to_upper_char c) = to_upper_char c"
  by (simp add: to_upper_char_def Let_def)

lemma js_trim_upper: "js_trim (js_upper s) = js_upper (js_trim s)"
proof -
  have rc: "rev (concat (map to_upper_char t)) = concat (map to_upper_char (rev t))" for t
    by (induction t) auto
  show ?thesis
    by (simp add: js_trim_def js_trim_start_def js_trim_end_def js_upper_def
        dropWhile_ws_concat_upper rc)
qed

lemma set_js_trim: "set (js_trim s) \<subseteq> set s"
  by (auto simp: js_trim_def js_trim_start_def js_trim_end_def dest!: set_dropWhileD)

text \<open>Texts with no white space, which trimming leaves alone.\<close>

lemma js_trim_no_ws: "\<forall>c \<in> set s. \<not> is_ws c \<Longrightarrow> js_trim s = s"
proof -
  assume h: "\<forall>c \<in> set s. \<not> is_ws c"
  have keep: "dropWhile is_ws t = t" if "\<forall>c \<in> set t. \<not> is_ws c" for t
    using that by (cases t) auto
  from h show ?thesis
    by (simp add: js_trim_def js_trim_start_def js_trim_end_def keep)
qed

section \<open>Facts about splitting and joining\<close>

lemma split_on_not_Nil [simp]: "split_on c s \<noteq> []"
  by (cases s) (auto split: list.splits)

lemma split_on_no_sep: "c \<notin> set s \<Longrightarrow> split_on c s = [s]"
  by (induction s) auto

lemma split_on_append:
  "c \<notin> set s \<Longrightarrow> split_on c (s @ c # t) = s # split_on c t"
  by (induction s) auto

lemma split_on_join:
  "\<lbrakk>ss \<noteq> []; \<forall>s \<in> set ss. c \<notin> set s\<rbrakk> \<Longrightarrow> split_on c (join_with [c] ss) = ss"
proof (induction ss)
  case Nil
  then show ?case by simp
next
  case (Cons x zs)
  then show ?case
    by (cases zs) (auto simp: split_on_no_sep split_on_append)
qed

lemma js_starts_with_append [simp]: "js_starts_with p (p @ s)"
  by (simp add: js_starts_with_def)

lemma js_starts_with_iff: "js_starts_with p s \<longleftrightarrow> (\<exists>t. s = p @ t)"
  unfolding js_starts_with_def by (metis append_eq_conv_conj append_take_drop_id)

lemma digit_char_inject:
  "\<lbrakk>a < 10; b < 10; (char_of (48 + a) :: char) = char_of (48 + b)\<rbrakk> \<Longrightarrow> a = (b :: nat)"
  using of_char_char_of_nat [of "48 + a"] of_char_char_of_nat [of "48 + b"] by simp

lemma show_nat_inject: "show_nat m = show_nat n \<Longrightarrow> m = n"
proof (induction m arbitrary: n rule: less_induct)
  case (less m)
  have ne: "show_nat k \<noteq> []" for k by (subst show_nat.simps) simp
  consider "m < 10" "n < 10" | "m < 10" "n \<ge> 10" | "m \<ge> 10" "n < 10" | "m \<ge> 10" "n \<ge> 10"
    by linarith
  then show ?case
  proof cases
    case 1
    with less.prems digit_char_inject [of m n] show ?thesis by (simp add: show_nat.simps)
  next
    case 2
    with less.prems ne [of "n div 10"] show ?thesis
      by (simp add: show_nat.simps [of m] show_nat.simps [of n])
  next
    case 3
    with less.prems ne [of "m div 10"] show ?thesis
      by (simp add: show_nat.simps [of m] show_nat.simps [of n])
  next
    case 4
    with less.prems have h: "show_nat (m div 10) = show_nat (n div 10)"
      "(char_of (48 + m mod 10) :: char) = char_of (48 + n mod 10)"
      by (simp_all add: show_nat.simps [of m] show_nat.simps [of n])
    have "m div 10 = n div 10" by (rule less.IH) (use 4 h(1) in auto)
    moreover have "m mod 10 = n mod 10" using digit_char_inject [OF _ _ h(2)] by simp
    ultimately show ?thesis by (metis div_mult_mod_eq)
  qed
qed

end
