(* ===== verification/Vervet_Prelude.thy ===== *)
theory Vervet_Prelude
  imports Js_Strings "HOL-Library.Product_Lexorder"
begin

text \<open>
  What every component shares: the exceptions a handler throws, JSON values, database tables as
  lists of rows in insertion order with the queries Prisma is used for (\<open>findFirst\<close>,
  \<open>findMany\<close>, \<open>count\<close>, \<open>updateMany\<close>, \<open>deleteMany\<close>, \<open>upsert\<close>), and the
  lemmas about them.  A nullable or optional field is an \<open>option\<close>, times are milliseconds since
  the epoch, and identifiers are strings.
\<close>

named_theorems frame_simps \<open>what an operation leaves unchanged\<close>
named_theorems op_defs \<open>definitions of the small operations\<close>

type_synonym time = int
type_synonym ident = string

section \<open>Exceptions\<close>

datatype http_error =
    BadRequest string
  | Unauthorized string
  | Forbidden string
  | NotFound string
  | Conflict string
  | TooManyRequests string
  | InternalError string
  | UniqueViolation       \<comment> \<open>Prisma's \<open>P2002\<close>\<close>
  | RecordNotFound        \<comment> \<open>Prisma's \<open>P2025\<close>\<close>
  | JsError string        \<comment> \<open>any other thrown \<open>Error\<close>\<close>

type_synonym 'a result = "http_error + 'a"

primrec error_message :: "http_error \<Rightarrow> string" where
  "error_message (BadRequest m) = m"
| "error_message (Unauthorized m) = m"
| "error_message (Forbidden m) = m"
| "error_message (NotFound m) = m"
| "error_message (Conflict m) = m"
| "error_message (TooManyRequests m) = m"
| "error_message (InternalError m) = m"
| "error_message UniqueViolation = ''Unique constraint failed''"
| "error_message RecordNotFound = ''Record to update not found''"
| "error_message (JsError m) = m"

definition is_ok :: "'e + 'a \<Rightarrow> bool" where
  "is_ok r = (case r of Inl _ \<Rightarrow> False | Inr _ \<Rightarrow> True)"

text \<open>A list of results: the first failure, or all values.\<close>

fun results :: "'a result list \<Rightarrow> 'a list result" where
  "results [] = Inr []"
| "results (r # rs) =
     (case r of Inl e \<Rightarrow> Inl e
      | Inr x \<Rightarrow> (case results rs of Inl e \<Rightarrow> Inl e | Inr xs \<Rightarrow> Inr (x # xs)))"

lemma results_Inr: "\<forall>r \<in> set rs. is_ok r \<Longrightarrow> \<exists>xs. results rs = Inr xs \<and> map Inr xs = rs"
proof (induction rs)
  case (Cons r rs)
  then obtain xs where "results rs = Inr xs" "map Inr xs = rs" by auto
  moreover obtain x where "r = Inr x" using Cons.prems by (cases r) (auto simp: is_ok_def)
  ultimately show ?case by simp
qed simp

lemma is_ok_simps [simp]: "is_ok (Inl e) = False" "is_ok (Inr x) = True"
  by (simp_all add: is_ok_def)

section \<open>JSON values\<close>

datatype json =
    JNull
  | JBool bool
  | JNum int
  | JStr string
  | JArr "json list"
  | JObj "(string \<times> json) list"

definition j_nullable :: "string option \<Rightarrow> json" where
  "j_nullable v = (case v of None \<Rightarrow> JNull | Some s \<Rightarrow> JStr s)"

definition j_null_time :: "time option \<Rightarrow> json" where
  "j_null_time v = (case v of None \<Rightarrow> JNull | Some t \<Rightarrow> JNum t)"

definition j_null_num :: "int option \<Rightarrow> json" where
  "j_null_num v = (case v of None \<Rightarrow> JNull | Some t \<Rightarrow> JNum t)"

text \<open>\<open>value[key]\<close> for an object, \<open>None\<close> standing for \<open>undefined\<close>.\<close>

fun j_get :: "json \<Rightarrow> string \<Rightarrow> json option" where
  "j_get (JObj fs) k = map_of fs k"
| "j_get _ k = None"

section \<open>Optional values\<close>

text \<open>\<open>v ?? d\<close>.\<close>

definition or_else :: "'a option \<Rightarrow> 'a \<Rightarrow> 'a" where
  "or_else v d = (case v of None \<Rightarrow> d | Some x \<Rightarrow> x)"

lemma or_else_simps [simp]: "or_else None d = d" "or_else (Some x) d = x"
  by (simp_all add: or_else_def)

text \<open>\<open>v?.trim() || null\<close>: the trimmed text, null when it is missing or blank.\<close>

definition trim_or_null :: "string option \<Rightarrow> string option" where
  "trim_or_null v =
     (case v of None \<Rightarrow> None | Some s \<Rightarrow> (if js_trim s = [] then None else Some (js_trim s)))"

lemma trim_or_null_simps [simp]:
  "trim_or_null None = None"
  "js_trim s \<noteq> [] \<Longrightarrow> trim_or_null (Some s) = Some (js_trim s)"
  "js_trim s = [] \<Longrightarrow> trim_or_null (Some s) = None"
  by (simp_all add: trim_or_null_def)

text \<open>\<open>!v\<close> for a nullable string: null, undefined or empty.\<close>

definition falsy :: "string option \<Rightarrow> bool" where
  "falsy v = (case v of None \<Rightarrow> True | Some s \<Rightarrow> s = [])"

text \<open>An optional query filter: an absent one matches every row.\<close>

definition filter_eq :: "'a option \<Rightarrow> 'a \<Rightarrow> bool" where
  "filter_eq f x = (case f of None \<Rightarrow> True | Some y \<Rightarrow> x = y)"

section \<open>Lists\<close>

text \<open>\<open>[...new Set(xs)]\<close>: the first occurrences, in order.\<close>

definition js_uniq :: "'a list \<Rightarrow> 'a list" where
  "js_uniq xs = rev (remdups (rev xs))"

lemma set_js_uniq [simp]: "set (js_uniq xs) = set xs"
  by (simp add: js_uniq_def)

lemma distinct_js_uniq [simp]: "distinct (js_uniq xs)"
  by (simp add: js_uniq_def)

lemma js_uniq_distinct: "distinct xs \<Longrightarrow> js_uniq xs = xs"
  by (simp add: js_uniq_def distinct_remdups_id)

lemma js_uniq_Nil_iff [simp]: "js_uniq xs = [] \<longleftrightarrow> xs = []"
  by (simp add: js_uniq_def)

lemma length_js_uniq: "length (js_uniq xs) = card (set xs)"
  using distinct_card [OF distinct_js_uniq, of xs] by simp

lemma find_filter_hd:
  "List.find P xs = (case filter P xs of [] \<Rightarrow> None | y # _ \<Rightarrow> Some y)"
  by (induction xs) simp_all

lemma find_SomeD: "List.find P xs = Some x \<Longrightarrow> x \<in> set xs \<and> P x"
  by (auto simp: find_Some_iff)

lemma find_unique:
  assumes "x \<in> set xs" "P x" "\<And>y. \<lbrakk>y \<in> set xs; P y\<rbrakk> \<Longrightarrow> y = x"
  shows "List.find P xs = Some x"
proof -
  obtain y where y: "List.find P xs = Some y"
    using assms(1,2) by (cases "List.find P xs") (auto simp: find_None_iff)
  from find_SomeD [OF y] have "y = x" using assms(3) [of y] by blast
  with y show ?thesis by simp
qed

section \<open>Tables\<close>

definition update_where :: "('a \<Rightarrow> bool) \<Rightarrow> ('a \<Rightarrow> 'a) \<Rightarrow> 'a list \<Rightarrow> 'a list" where
  "update_where P f rows = map (\<lambda>r. if P r then f r else r) rows"

definition delete_where :: "('a \<Rightarrow> bool) \<Rightarrow> 'a list \<Rightarrow> 'a list" where
  "delete_where P rows = filter (\<lambda>r. \<not> P r) rows"

definition count_where :: "('a \<Rightarrow> bool) \<Rightarrow> 'a list \<Rightarrow> nat" where
  "count_where P rows = length (filter P rows)"

text \<open>\<open>upsert\<close>: update the row the unique key selects, or append a new one.\<close>

definition upsert_by :: "('a \<Rightarrow> bool) \<Rightarrow> ('a \<Rightarrow> 'a) \<Rightarrow> 'a \<Rightarrow> 'a list \<Rightarrow> 'a list" where
  "upsert_by P f new rows =
     (if List.find P rows = None then rows @ [new] else update_where P f rows)"

text \<open>\<open>orderBy\<close> with \<open>desc\<close> on a time; PostgreSQL puts nulls last going up, first going down.\<close>

definition order_desc :: "('a \<Rightarrow> time) \<Rightarrow> 'a list \<Rightarrow> 'a list" where
  "order_desc k rows = sort_key (\<lambda>r. - k r) rows"

definition nulls_last :: "time option \<Rightarrow> bool \<times> time" where
  "nulls_last v = (case v of None \<Rightarrow> (True, 0) | Some t \<Rightarrow> (False, t))"

definition nulls_first_desc :: "time option \<Rightarrow> bool \<times> time" where
  "nulls_first_desc v = (case v of None \<Rightarrow> (False, 0) | Some t \<Rightarrow> (True, - t))"

lemma length_update_where [simp]: "length (update_where P f rows) = length rows"
  by (simp add: update_where_def)

lemma update_where_Nil [simp]: "update_where P f [] = []"
  by (simp add: update_where_def)

lemma update_where_Cons [simp]:
  "update_where P f (x # xs) = (if P x then f x else x) # update_where P f xs"
  by (simp add: update_where_def)

lemma set_update_where:
  "set (update_where P f rows) = {f r | r. r \<in> set rows \<and> P r} \<union> {r \<in> set rows. \<not> P r}"
  by (auto simp: update_where_def)

lemma in_update_whereE:
  assumes "r \<in> set (update_where P f rows)"
  obtains q where "q \<in> set rows" "P q" "r = f q" | "r \<in> set rows" "\<not> P r"
  using assms by (auto simp: set_update_where)

lemma map_update_where:
  "(\<And>r. P r \<Longrightarrow> g (f r) = g r) \<Longrightarrow> map g (update_where P f rows) = map g rows"
  by (simp add: update_where_def)

lemma update_where_id: "(\<And>r. r \<in> set rows \<Longrightarrow> \<not> P r) \<Longrightarrow> update_where P f rows = rows"
  by (induction rows) (auto simp: update_where_def)

lemma filter_update_where_other:
  "(\<And>r. P r \<Longrightarrow> Q r = Q (f r)) \<Longrightarrow> (\<And>r. P r \<Longrightarrow> \<not> Q r) \<Longrightarrow>
   filter Q (update_where P f rows) = filter Q rows"
  by (induction rows) (auto simp: update_where_def)

lemma set_delete_where [simp]: "set (delete_where P rows) = {r \<in> set rows. \<not> P r}"
  by (auto simp: delete_where_def)

lemma count_where_zero_iff: "count_where P rows = 0 \<longleftrightarrow> (\<forall>r \<in> set rows. \<not> P r)"
  by (auto simp: count_where_def filter_empty_conv)

lemma count_where_append [simp]: "count_where P (xs @ ys) = count_where P xs + count_where P ys"
  by (simp add: count_where_def)

lemma count_where_Nil [simp]: "count_where P [] = 0"
  by (simp add: count_where_def)

lemma count_where_Cons [simp]:
  "count_where P (x # xs) = (if P x then Suc (count_where P xs) else count_where P xs)"
  by (simp add: count_where_def)

lemma count_where_cong: "(\<And>r. r \<in> set rows \<Longrightarrow> P r = Q r) \<Longrightarrow> count_where P rows = count_where Q rows"
  by (induction rows) (auto simp: count_where_def)

lemma set_order_desc [simp]: "set (order_desc k rows) = set rows"
  by (simp add: order_desc_def)

lemma find_update_where_same:
  "\<lbrakk>List.find P rows = Some r; \<And>q. P q \<Longrightarrow> P (f q)\<rbrakk>
   \<Longrightarrow> List.find P (update_where P f rows) = Some (f r)"
  by (induction rows) (auto split: if_splits)

lemma find_append: "List.find P (xs @ ys) = (case List.find P xs of None \<Rightarrow> List.find P ys | Some x \<Rightarrow> Some x)"
  by (induction xs) auto

lemma find_absent: "k \<notin> f ` set xs \<Longrightarrow> List.find (\<lambda>x. f x = k) xs = None"
  by (auto simp: find_None_iff)

text \<open>A row appended under a new id is the row found by it.\<close>

lemma find_appended: "k \<notin> f ` set xs \<Longrightarrow>
    List.find (\<lambda>x. f x = k) (xs @ [y]) = (if f y = k then Some y else None)"
  by (simp add: find_append find_absent)

section \<open>The contract of a unique key\<close>

text \<open>
  Several services keep one row per key and write it with \<open>upsert\<close>.  What they rely on: both
  branches write a row with the key asked for.  Then the row is found afterwards, keys stay
  unique, and rows with other keys are untouched.
\<close>

locale keyed_upsert =
  fixes key :: "'row \<Rightarrow> 'key"
    and k :: "'key"
    and upd :: "'row \<Rightarrow> 'row"
    and new :: "'row"
  assumes key_upd: "key r = k \<Longrightarrow> key (upd r) = k"
    and key_new: "key new = k"
begin

definition put :: "'row list \<Rightarrow> 'row list" where
  "put rows = upsert_by (\<lambda>r. key r = k) upd new rows"

lemma put_find:
  "List.find (\<lambda>r. key r = k) (put rows) =
     Some (case List.find (\<lambda>r. key r = k) rows of None \<Rightarrow> new | Some r \<Rightarrow> upd r)"
  by (auto simp: put_def upsert_by_def find_append key_new key_upd find_update_where_same
      split: option.splits)

lemma map_key_update: "map key (update_where (\<lambda>r. key r = k) upd rows) = map key rows"
  by (rule map_update_where) (simp add: key_upd)

lemma put_distinct: "distinct (map key rows) \<Longrightarrow> distinct (map key (put rows))"
  by (auto simp: put_def upsert_by_def map_key_update key_new find_None_iff)

lemma put_keys: "set (map key (put rows)) = insert k (set (map key rows))"
  by (auto simp: put_def upsert_by_def map_key_update key_new simp del: set_map
      dest!: find_SomeD) (auto simp: key_new)

lemma put_other: "key r \<noteq> k \<Longrightarrow> r \<in> set (put rows) \<longleftrightarrow> r \<in> set rows"
  using key_new key_upd by (auto simp: put_def upsert_by_def set_update_where)

lemma put_other_find:
  "k' \<noteq> k \<Longrightarrow> List.find (\<lambda>r. key r = k') (put rows) = List.find (\<lambda>r. key r = k') rows"
proof -
  assume ne: "k' \<noteq> k"
  have "List.find (\<lambda>r. key r = k') (update_where (\<lambda>r. key r = k) upd rows) =
        List.find (\<lambda>r. key r = k') rows"
    by (induction rows) (use ne key_upd in auto)
  then show ?thesis using ne
    by (auto simp: put_def upsert_by_def find_append key_new split: option.splits)
qed

end

end
