(* ===== verification/Environment.thy ===== *)
theory Environment
  imports Vervet_Prelude
begin

text \<open>
  \<open>backend/src/config/environment.ts\<close>: the settings every service reads and their validation
  at start-up.  A setting of the process environment is a string; the validator also accepts
  numbers and booleans, so a raw setting is one of those (\<open>CfgOther\<close> stands for any other
  value).  What the services rely on is that a validated configuration has positive windows,
  limits and lifetimes and non-empty secrets.
\<close>

section \<open>Raw settings\<close>

datatype cfg_value = CfgStr string | CfgNum int | CfgBool bool | CfgOther

type_synonym config = "string \<Rightarrow> cfg_value option"

text \<open>\<open>a ?? b\<close> on settings.\<close>

definition nullish :: "'a option \<Rightarrow> 'a option \<Rightarrow> 'a option" where
  "nullish a b = (case a of None \<Rightarrow> b | Some x \<Rightarrow> Some x)"

definition rbind :: "'a result \<Rightarrow> ('a \<Rightarrow> 'b result) \<Rightarrow> 'b result" where
  "rbind r f = (case r of Inl e \<Rightarrow> Inl e | Inr x \<Rightarrow> f x)"

lemma rbind_simps [simp]: "rbind (Inl e) f = Inl e" "rbind (Inr x) f = f x"
  by (simp_all add: rbind_def)

lemma rbind_InrE:
  assumes "rbind r f = Inr y"
  obtains x where "r = Inr x" "f x = Inr y"
  using assms by (cases r) simp_all

text \<open>
  \<open>Number.parseInt(value, 10)\<close>: leading white space, a sign, then the longest run of digits;
  \<open>None\<close> is \<open>NaN\<close>.  Integers are exact here; a JavaScript number is below \<open>2^53\<close>.
\<close>

definition is_digit :: "char \<Rightarrow> bool" where
  "is_digit c = (let n = (of_char c :: nat) in 48 \<le> n \<and> n \<le> 57)"

definition digits_value :: "string \<Rightarrow> int" where
  "digits_value ds = foldl (\<lambda>n c. 10 * n + (of_char c - 48)) 0 ds"

definition parseInt :: "string \<Rightarrow> int option" where
  "parseInt value =
     (let s = js_trim_start value;
          neg = (take 1 s = ''-'');
          body = (if take 1 s = ''-'' \<or> take 1 s = ''+'' then drop 1 s else s);
          ds = takeWhile is_digit body in
      if ds = [] then None else Some (if neg then - digits_value ds else digits_value ds))"

section \<open>The validated settings\<close>

datatype NodeEnvironment = NodeEnv_development | NodeEnv_test | NodeEnv_production

record EnvironmentVariables =
  NODE_ENV :: NodeEnvironment
  PORT :: int
  CORS_ALLOWED_ORIGINS :: "string list"
  DATABASE_URL :: string
  DATABASE_POOL_MAX :: int
  DATABASE_APPLICATION_NAME :: string
  ADMIN_API_TOKEN :: string
  WEBHOOK_SIGNING_MASTER_SECRET :: string
  WEBHOOK_ALLOW_PRIVATE_TARGETS :: bool
  WEBHOOK_DELIVERY_PROCESSOR_ENABLED :: bool
  WEBHOOK_DELIVERY_PROCESSOR_INTERVAL_MS :: int
  WEBHOOK_DELIVERY_PROCESSOR_BATCH_SIZE :: int
  WEBHOOK_DELIVERY_PROCESSING_STALE_MS :: int
  ATTESTATION_REQUEST_MAX_AGE_MS :: int
  ATTESTATION_REQUEST_NONCE_TTL_MS :: int
  PARTNER_API_CREDENTIAL_LAST_USED_MIN_INTERVAL_MS :: int
  PARTNER_DASHBOARD_SESSION_TTL_MS :: int
  PARTNER_DASHBOARD_SESSION_LAST_USED_MIN_INTERVAL_MS :: int
  PARTNER_USER_INVITE_TTL_MS :: int
  PARTNER_SECURITY_DEFAULT_SESSION_IDLE_TIMEOUT_MINUTES :: int
  PARTNER_SECURITY_DEFAULT_CREDENTIAL_ROTATION_DAYS :: int
  PARTNER_SECURITY_DEFAULT_DISCLOSURE_MODE :: string
  PARTNER_SECURITY_DEFAULT_RAW_VERIFICATION_RETENTION_MODE :: string
  PARTNER_SECURITY_DEFAULT_RAW_VERIFICATION_RETENTION_HOURS :: int
  PARTNER_SECURITY_DEFAULT_ENCRYPT_AUDIT_EXPORTS :: bool
  RESOLUTION_REQUEST_RETENTION_MS :: int
  RESOLUTION_LOOKUP_RATE_LIMIT_WINDOW_MS :: int
  RESOLUTION_LOOKUP_RATE_LIMIT_MAX_REQUESTS :: int
  RESOLUTION_LOOKUP_ENUMERATION_WINDOW_MS :: int
  RESOLUTION_LOOKUP_ENUMERATION_MAX_IDENTIFIERS :: int
  RESOLUTION_BATCH_MAX_ROWS :: int
  AUDIT_EXPORT_RETENTION_MS :: int
  DATA_ENCRYPTION_MASTER_SECRET :: string
  BLIND_INDEX_MASTER_SECRET :: string
  ENCRYPTED_SUBMISSION_MASTER_SECRET :: string

section \<open>Parsers\<close>

definition parseNodeEnvironment :: "cfg_value option \<Rightarrow> NodeEnvironment" where
  "parseNodeEnvironment value =
     (case value of
        Some (CfgStr s) \<Rightarrow>
          (if s = ''development'' then NodeEnv_development
           else if s = ''test'' then NodeEnv_test
           else if s = ''production'' then NodeEnv_production
           else NodeEnv_development)
      | _ \<Rightarrow> NodeEnv_development)"

definition parsePositiveInteger :: "cfg_value option \<Rightarrow> int \<Rightarrow> string \<Rightarrow> int result" where
  "parsePositiveInteger value defaultValue key =
     (let failure = Inl (JsError (key @ '' must be a positive integer.'')) in
      case value of
        None \<Rightarrow> Inr defaultValue
      | Some (CfgNum n) \<Rightarrow> (if n > 0 then Inr n else failure)
      | Some (CfgStr s) \<Rightarrow>
          (case parseInt s of
             None \<Rightarrow> failure
           | Some n \<Rightarrow> (if n > 0 then Inr n else failure))
      | _ \<Rightarrow> failure)"

definition parsePort :: "cfg_value option \<Rightarrow> int result" where
  "parsePort value =
     (let failure = Inl (JsError ''PORT must be a positive integer.'') in
      case value of
        None \<Rightarrow> Inr 3000
      | Some (CfgNum n) \<Rightarrow> (if n > 0 then Inr n else failure)
      | Some (CfgStr s) \<Rightarrow>
          (case parseInt s of
             None \<Rightarrow> failure
           | Some n \<Rightarrow> (if n > 0 then Inr n else failure))
      | _ \<Rightarrow> failure)"

definition parseRequiredString :: "cfg_value option \<Rightarrow> string \<Rightarrow> string result" where
  "parseRequiredString value key =
     (case value of
        Some (CfgStr s) \<Rightarrow>
          (if length (js_trim s) = 0 then Inl (JsError (key @ '' must be provided.''))
           else Inr (js_trim s))
      | _ \<Rightarrow> Inl (JsError (key @ '' must be provided.'')))"

definition parseBoolean :: "cfg_value option \<Rightarrow> bool \<Rightarrow> string \<Rightarrow> bool result" where
  "parseBoolean value defaultValue key =
     (let failure = Inl (JsError (key @ '' must be 'true' or 'false'.'')) in
      case value of
        None \<Rightarrow> Inr defaultValue
      | Some (CfgBool b) \<Rightarrow> Inr b
      | Some (CfgStr s) \<Rightarrow>
          (if s = ''true'' then Inr True else if s = ''false'' then Inr False else failure)
      | _ \<Rightarrow> failure)"

definition parseDisclosureMode :: "cfg_value option \<Rightarrow> string \<Rightarrow> string \<Rightarrow> string result" where
  "parseDisclosureMode value defaultValue key =
     (case value of
        None \<Rightarrow> Inr defaultValue
      | Some v \<Rightarrow>
          (if v = CfgStr ''MASKED_LABEL'' then Inr ''MASKED_LABEL''
           else if v = CfgStr ''VERIFICATION_ONLY'' then Inr ''VERIFICATION_ONLY''
           else Inl (JsError (key @ '' must be 'MASKED_LABEL' or 'VERIFICATION_ONLY'.''))))"

definition parseRawVerificationRetentionMode ::
    "cfg_value option \<Rightarrow> string \<Rightarrow> string \<Rightarrow> string result" where
  "parseRawVerificationRetentionMode value defaultValue key =
     (case value of
        None \<Rightarrow> Inr defaultValue
      | Some v \<Rightarrow>
          (if v = CfgStr ''NO_RETAIN'' then Inr ''NO_RETAIN''
           else if v = CfgStr ''SHORT_RETENTION'' then Inr ''SHORT_RETENTION''
           else if v = CfgStr ''STANDARD_RETENTION'' then Inr ''STANDARD_RETENTION''
           else Inl (JsError
             (key @ '' must be 'NO_RETAIN', 'SHORT_RETENTION', or 'STANDARD_RETENTION'.''))))"

definition parseStringList :: "cfg_value option \<Rightarrow> string list \<Rightarrow> string \<Rightarrow> string list result" where
  "parseStringList value defaultValue key =
     (case value of
        None \<Rightarrow> Inr defaultValue
      | Some (CfgStr s) \<Rightarrow>
          Inr (filter (\<lambda>entry. length entry > 0) (map js_trim (split_on (CHR '','') s)))
      | _ \<Rightarrow> Inl (JsError (key @ '' must be a comma-separated string.'')))"

definition validateEnvironment :: "config \<Rightarrow> EnvironmentVariables result" where
  "validateEnvironment config =
     (let nodeEnvironment = parseNodeEnvironment (config ''NODE_ENV'') in
     rbind (parsePort (config ''PORT'')) (\<lambda>v2.
     rbind (parseStringList (config ''CORS_ALLOWED_ORIGINS'') (if nodeEnvironment = NodeEnv_development then [''http://localhost:3001''] else []) ''CORS_ALLOWED_ORIGINS'') (\<lambda>v3.
     rbind (parseRequiredString (config ''DATABASE_URL'') ''DATABASE_URL'') (\<lambda>v4.
     rbind (parsePositiveInteger (config ''DATABASE_POOL_MAX'') 10 ''DATABASE_POOL_MAX'') (\<lambda>v5.
     rbind (parseRequiredString (nullish (config ''DATABASE_APPLICATION_NAME'') (Some (CfgStr ''vervet-backend''))) ''DATABASE_APPLICATION_NAME'') (\<lambda>v6.
     rbind (parseRequiredString (config ''ADMIN_API_TOKEN'') ''ADMIN_API_TOKEN'') (\<lambda>v7.
     rbind (parseRequiredString (config ''WEBHOOK_SIGNING_MASTER_SECRET'') ''WEBHOOK_SIGNING_MASTER_SECRET'') (\<lambda>v8.
     rbind (parseBoolean (config ''WEBHOOK_ALLOW_PRIVATE_TARGETS'') (nodeEnvironment \<noteq> NodeEnv_production) ''WEBHOOK_ALLOW_PRIVATE_TARGETS'') (\<lambda>v9.
     rbind (parseBoolean (config ''WEBHOOK_DELIVERY_PROCESSOR_ENABLED'') (nodeEnvironment \<noteq> NodeEnv_test) ''WEBHOOK_DELIVERY_PROCESSOR_ENABLED'') (\<lambda>v10.
     rbind (parsePositiveInteger (config ''WEBHOOK_DELIVERY_PROCESSOR_INTERVAL_MS'') 30000 ''WEBHOOK_DELIVERY_PROCESSOR_INTERVAL_MS'') (\<lambda>v11.
     rbind (parsePositiveInteger (config ''WEBHOOK_DELIVERY_PROCESSOR_BATCH_SIZE'') 50 ''WEBHOOK_DELIVERY_PROCESSOR_BATCH_SIZE'') (\<lambda>v12.
     rbind (parsePositiveInteger (config ''WEBHOOK_DELIVERY_PROCESSING_STALE_MS'') 60000 ''WEBHOOK_DELIVERY_PROCESSING_STALE_MS'') (\<lambda>v13.
     rbind (parsePositiveInteger (config ''ATTESTATION_REQUEST_MAX_AGE_MS'') 300000 ''ATTESTATION_REQUEST_MAX_AGE_MS'') (\<lambda>v14.
     rbind (parsePositiveInteger (config ''ATTESTATION_REQUEST_NONCE_TTL_MS'') 600000 ''ATTESTATION_REQUEST_NONCE_TTL_MS'') (\<lambda>v15.
     rbind (parsePositiveInteger (config ''PARTNER_API_CREDENTIAL_LAST_USED_MIN_INTERVAL_MS'') 60000 ''PARTNER_API_CREDENTIAL_LAST_USED_MIN_INTERVAL_MS'') (\<lambda>v16.
     rbind (parsePositiveInteger (config ''PARTNER_DASHBOARD_SESSION_TTL_MS'') 43200000 ''PARTNER_DASHBOARD_SESSION_TTL_MS'') (\<lambda>v17.
     rbind (parsePositiveInteger (config ''PARTNER_DASHBOARD_SESSION_LAST_USED_MIN_INTERVAL_MS'') 60000 ''PARTNER_DASHBOARD_SESSION_LAST_USED_MIN_INTERVAL_MS'') (\<lambda>v18.
     rbind (parsePositiveInteger (config ''PARTNER_USER_INVITE_TTL_MS'') 604800000 ''PARTNER_USER_INVITE_TTL_MS'') (\<lambda>v19.
     rbind (parsePositiveInteger (config ''PARTNER_SECURITY_DEFAULT_SESSION_IDLE_TIMEOUT_MINUTES'') 720 ''PARTNER_SECURITY_DEFAULT_SESSION_IDLE_TIMEOUT_MINUTES'') (\<lambda>v20.
     rbind (parsePositiveInteger (config ''PARTNER_SECURITY_DEFAULT_CREDENTIAL_ROTATION_DAYS'') 90 ''PARTNER_SECURITY_DEFAULT_CREDENTIAL_ROTATION_DAYS'') (\<lambda>v21.
     rbind (parseDisclosureMode (config ''PARTNER_SECURITY_DEFAULT_DISCLOSURE_MODE'') ''VERIFICATION_ONLY'' ''PARTNER_SECURITY_DEFAULT_DISCLOSURE_MODE'') (\<lambda>v22.
     rbind (parseRawVerificationRetentionMode (config ''PARTNER_SECURITY_DEFAULT_RAW_VERIFICATION_RETENTION_MODE'') ''SHORT_RETENTION'' ''PARTNER_SECURITY_DEFAULT_RAW_VERIFICATION_RETENTION_MODE'') (\<lambda>v23.
     rbind (parsePositiveInteger (config ''PARTNER_SECURITY_DEFAULT_RAW_VERIFICATION_RETENTION_HOURS'') 24 ''PARTNER_SECURITY_DEFAULT_RAW_VERIFICATION_RETENTION_HOURS'') (\<lambda>v24.
     rbind (parseBoolean (config ''PARTNER_SECURITY_DEFAULT_ENCRYPT_AUDIT_EXPORTS'') True ''PARTNER_SECURITY_DEFAULT_ENCRYPT_AUDIT_EXPORTS'') (\<lambda>v25.
     rbind (parsePositiveInteger (config ''RESOLUTION_REQUEST_RETENTION_MS'') 2592000000 ''RESOLUTION_REQUEST_RETENTION_MS'') (\<lambda>v26.
     rbind (parsePositiveInteger (config ''RESOLUTION_LOOKUP_RATE_LIMIT_WINDOW_MS'') 60000 ''RESOLUTION_LOOKUP_RATE_LIMIT_WINDOW_MS'') (\<lambda>v27.
     rbind (parsePositiveInteger (config ''RESOLUTION_LOOKUP_RATE_LIMIT_MAX_REQUESTS'') 120 ''RESOLUTION_LOOKUP_RATE_LIMIT_MAX_REQUESTS'') (\<lambda>v28.
     rbind (parsePositiveInteger (config ''RESOLUTION_LOOKUP_ENUMERATION_WINDOW_MS'') 300000 ''RESOLUTION_LOOKUP_ENUMERATION_WINDOW_MS'') (\<lambda>v29.
     rbind (parsePositiveInteger (config ''RESOLUTION_LOOKUP_ENUMERATION_MAX_IDENTIFIERS'') 40 ''RESOLUTION_LOOKUP_ENUMERATION_MAX_IDENTIFIERS'') (\<lambda>v30.
     rbind (parsePositiveInteger (config ''RESOLUTION_BATCH_MAX_ROWS'') 250 ''RESOLUTION_BATCH_MAX_ROWS'') (\<lambda>v31.
     rbind (parsePositiveInteger (config ''AUDIT_EXPORT_RETENTION_MS'') 604800000 ''AUDIT_EXPORT_RETENTION_MS'') (\<lambda>v32.
     rbind (parseRequiredString (nullish (config ''DATA_ENCRYPTION_MASTER_SECRET'') (config ''WEBHOOK_SIGNING_MASTER_SECRET'')) ''DATA_ENCRYPTION_MASTER_SECRET'') (\<lambda>v33.
     rbind (parseRequiredString (nullish (config ''BLIND_INDEX_MASTER_SECRET'') (nullish (config ''DATA_ENCRYPTION_MASTER_SECRET'') (config ''WEBHOOK_SIGNING_MASTER_SECRET''))) ''BLIND_INDEX_MASTER_SECRET'') (\<lambda>v34.
     rbind (parseRequiredString (nullish (config ''ENCRYPTED_SUBMISSION_MASTER_SECRET'') (nullish (config ''DATA_ENCRYPTION_MASTER_SECRET'') (config ''WEBHOOK_SIGNING_MASTER_SECRET''))) ''ENCRYPTED_SUBMISSION_MASTER_SECRET'') (\<lambda>v35.
     Inr \<lparr>NODE_ENV = nodeEnvironment,
       PORT = v2,
       CORS_ALLOWED_ORIGINS = v3,
       DATABASE_URL = v4,
       DATABASE_POOL_MAX = v5,
       DATABASE_APPLICATION_NAME = v6,
       ADMIN_API_TOKEN = v7,
       WEBHOOK_SIGNING_MASTER_SECRET = v8,
       WEBHOOK_ALLOW_PRIVATE_TARGETS = v9,
       WEBHOOK_DELIVERY_PROCESSOR_ENABLED = v10,
       WEBHOOK_DELIVERY_PROCESSOR_INTERVAL_MS = v11,
       WEBHOOK_DELIVERY_PROCESSOR_BATCH_SIZE = v12,
       WEBHOOK_DELIVERY_PROCESSING_STALE_MS = v13,
       ATTESTATION_REQUEST_MAX_AGE_MS = v14,
       ATTESTATION_REQUEST_NONCE_TTL_MS = v15,
       PARTNER_API_CREDENTIAL_LAST_USED_MIN_INTERVAL_MS = v16,
       PARTNER_DASHBOARD_SESSION_TTL_MS = v17,
       PARTNER_DASHBOARD_SESSION_LAST_USED_MIN_INTERVAL_MS = v18,
       PARTNER_USER_INVITE_TTL_MS = v19,
       PARTNER_SECURITY_DEFAULT_SESSION_IDLE_TIMEOUT_MINUTES = v20,
       PARTNER_SECURITY_DEFAULT_CREDENTIAL_ROTATION_DAYS = v21,
       PARTNER_SECURITY_DEFAULT_DISCLOSURE_MODE = v22,
       PARTNER_SECURITY_DEFAULT_RAW_VERIFICATION_RETENTION_MODE = v23,
       PARTNER_SECURITY_DEFAULT_RAW_VERIFICATION_RETENTION_HOURS = v24,
       PARTNER_SECURITY_DEFAULT_ENCRYPT_AUDIT_EXPORTS = v25,
       RESOLUTION_REQUEST_RETENTION_MS = v26,
       RESOLUTION_LOOKUP_RATE_LIMIT_WINDOW_MS = v27,
       RESOLUTION_LOOKUP_RATE_LIMIT_MAX_REQUESTS = v28,
       RESOLUTION_LOOKUP_ENUMERATION_WINDOW_MS = v29,
       RESOLUTION_LOOKUP_ENUMERATION_MAX_IDENTIFIERS = v30,
       RESOLUTION_BATCH_MAX_ROWS = v31,
       AUDIT_EXPORT_RETENTION_MS = v32,
       DATA_ENCRYPTION_MASTER_SECRET = v33,
       BLIND_INDEX_MASTER_SECRET = v34,
       ENCRYPTED_SUBMISSION_MASTER_SECRET = v35\<rparr>)))))))))))))))))))))))))))))))))))"

section \<open>A validated configuration is usable\<close>

lemma parsePositiveInteger_pos:
  "\<lbrakk>parsePositiveInteger v d k = Inr n; d > 0\<rbrakk> \<Longrightarrow> n > 0"
  by (auto simp: parsePositiveInteger_def Let_def split: option.splits cfg_value.splits if_splits)

lemma parsePort_pos: "parsePort v = Inr n \<Longrightarrow> n > 0"
  by (auto simp: parsePort_def Let_def split: option.splits cfg_value.splits if_splits)

lemma parseRequiredString_ok:
  "parseRequiredString v k = Inr s \<Longrightarrow> s \<noteq> [] \<and> js_trim s = s"
  by (auto simp: parseRequiredString_def split: option.splits cfg_value.splits if_splits)

lemma parseDisclosureMode_ok:
  "\<lbrakk>parseDisclosureMode v d k = Inr s; d \<in> {''MASKED_LABEL'', ''VERIFICATION_ONLY''}\<rbrakk>
   \<Longrightarrow> s \<in> {''MASKED_LABEL'', ''VERIFICATION_ONLY''}"
  by (auto simp: parseDisclosureMode_def split: option.splits if_splits)

text \<open>The numeric settings that bound windows, limits and lifetimes, and the secrets.\<close>

definition positive_settings :: "EnvironmentVariables \<Rightarrow> int list" where
  "positive_settings v =
     [PORT v, DATABASE_POOL_MAX v, WEBHOOK_DELIVERY_PROCESSOR_INTERVAL_MS v,
      WEBHOOK_DELIVERY_PROCESSOR_BATCH_SIZE v, WEBHOOK_DELIVERY_PROCESSING_STALE_MS v,
      ATTESTATION_REQUEST_MAX_AGE_MS v, ATTESTATION_REQUEST_NONCE_TTL_MS v,
      PARTNER_DASHBOARD_SESSION_TTL_MS v, PARTNER_USER_INVITE_TTL_MS v,
      PARTNER_SECURITY_DEFAULT_RAW_VERIFICATION_RETENTION_HOURS v,
      RESOLUTION_REQUEST_RETENTION_MS v, RESOLUTION_LOOKUP_RATE_LIMIT_WINDOW_MS v,
      RESOLUTION_LOOKUP_RATE_LIMIT_MAX_REQUESTS v, RESOLUTION_LOOKUP_ENUMERATION_WINDOW_MS v,
      RESOLUTION_LOOKUP_ENUMERATION_MAX_IDENTIFIERS v, RESOLUTION_BATCH_MAX_ROWS v]"

definition secret_settings :: "EnvironmentVariables \<Rightarrow> string list" where
  "secret_settings v =
     [ADMIN_API_TOKEN v, WEBHOOK_SIGNING_MASTER_SECRET v, DATA_ENCRYPTION_MASTER_SECRET v,
      BLIND_INDEX_MASTER_SECRET v, ENCRYPTED_SUBMISSION_MASTER_SECRET v]"

lemma validated_parts:
  assumes "validateEnvironment c = Inr v"
  shows "list_all (\<lambda>n. n > 0) (positive_settings v) \<and>
         list_all (\<lambda>s. s \<noteq> [] \<and> js_trim s = s) (secret_settings v)"
proof -
  from assms have "list_all (\<lambda>n. n > 0) (positive_settings v) \<and>
      list_all (\<lambda>s. s \<noteq> [] \<and> js_trim s = s) (secret_settings v)"
    unfolding validateEnvironment_def Let_def
    apply (elim rbind_InrE)
    apply (drule sum.inject(2) [THEN iffD1])
    apply hypsubst
    apply (simp (no_asm) only: positive_settings_def secret_settings_def EnvironmentVariables.simps
        list.pred_inject simp_thms)
    apply (intro conjI TrueI; (erule parsePort_pos | erule parsePositiveInteger_pos, simp (no_asm); fail)?)
    apply (erule parseRequiredString_ok [THEN conjunct1] parseRequiredString_ok [THEN conjunct2])+
    done
  then show ?thesis .
qed

text \<open>Whatever the process environment holds, a configuration the validator accepts has
  strictly positive ports, pool sizes, windows, limits, lifetimes and batch sizes, and every
  master secret (the derived ones through their fall-backs included) is non-blank and trimmed.\<close>

lemma validateEnvironment_usable:
  assumes "validateEnvironment c = Inr v"
  shows "list_all (\<lambda>n. n > 0) (positive_settings v) \<and>
         list_all (\<lambda>s. s \<noteq> [] \<and> js_trim s = s) (secret_settings v)"
  using assms by (rule validated_parts)

definition sample_config :: config where
  "sample_config =
     (\<lambda>_. None)
       (''DATABASE_URL'' \<mapsto> CfgStr ''postgres://db'',
        ''ADMIN_API_TOKEN'' \<mapsto> CfgStr '' token '',
        ''WEBHOOK_SIGNING_MASTER_SECRET'' \<mapsto> CfgStr ''secret'',
        ''PORT'' \<mapsto> CfgStr '' 8080tcp'')"

lemma validateEnvironment_usable_sample:
  "\<exists>v. validateEnvironment sample_config = Inr v \<and> PORT v = 8080 \<and>
       list_all (\<lambda>n. n > 0) (positive_settings v) \<and>
       list_all (\<lambda>s. s \<noteq> [] \<and> js_trim s = s) (secret_settings v)"
proof -
  have "map_sum id PORT (validateEnvironment sample_config) = Inr 8080" by code_simp
  then obtain v where v: "validateEnvironment sample_config = Inr v" "PORT v = 8080"
    by (cases "validateEnvironment sample_config") auto
  with validateEnvironment_usable [OF v(1)] show ?thesis by blast
qed

end
