(* ===== verification/Js_Json.thy ===== *)
theory Js_Json
  imports Vervet_Prelude
begin

text \<open>
  Dates, JSON text and hexadecimal as the code prints them: \<open>Date.prototype.toISOString\<close> on a number of
  milliseconds since the epoch (proleptic Gregorian calendar) and \<open>JSON.stringify\<close>, plain and
  with an indent of two.
\<close>

section \<open>Dates\<close>

definition pad_nat :: "nat \<Rightarrow> nat \<Rightarrow> string" where
  "pad_nat w n = (let s = show_nat n in replicate (w - length s) (CHR ''0'') @ s)"

text \<open>Year, month and day of a day number, day 0 being 1 January 1970.\<close>

definition civil_date :: "int \<Rightarrow> int \<times> int \<times> int" where
  "civil_date days =
     (let z = days + 719468;
          era = z div 146097;
          doe = z mod 146097;
          yoe = (doe - doe div 1460 + doe div 36524 - doe div 146096) div 365;
          doy = doe - (365 * yoe + yoe div 4 - yoe div 100);
          mp = (5 * doy + 2) div 153;
          d = doy - (153 * mp + 2) div 5 + 1;
          m = (if mp < 10 then mp + 3 else mp - 9);
          y = yoe + era * 400 + (if m \<le> 2 then 1 else 0)
      in (y, m, d))"

definition iso_year :: "int \<Rightarrow> string" where
  "iso_year y =
     (if 0 \<le> y \<and> y \<le> 9999 then pad_nat 4 (nat y)
      else (if y < 0 then ''-'' else ''+'') @ pad_nat 6 (nat \<bar>y\<bar>))"

definition toISOString :: "time \<Rightarrow> string" where
  "toISOString t =
     (let days = t div 86400000; ms = t mod 86400000; (y, m, d) = civil_date days in
      iso_year y @ ''-'' @ pad_nat 2 (nat m) @ ''-'' @ pad_nat 2 (nat d) @ ''T'' @
      pad_nat 2 (nat (ms div 3600000)) @ '':'' @ pad_nat 2 (nat (ms div 60000 mod 60)) @ '':'' @
      pad_nat 2 (nat (ms div 1000 mod 60)) @ ''.'' @ pad_nat 3 (nat (ms mod 1000)) @ ''Z'')"

lemma toISOString_samples:
  "toISOString 0 = ''1970-01-01T00:00:00.000Z''"
  "toISOString 951782400123 = ''2000-02-29T00:00:00.123Z''"
  "toISOString (-1) = ''1969-12-31T23:59:59.999Z''"
  by code_simp+

definition j_time :: "time \<Rightarrow> json" where
  "j_time t = JStr (toISOString t)"

definition j_iso_nullable :: "time option \<Rightarrow> json" where
  "j_iso_nullable v = (case v of None \<Rightarrow> JNull | Some t \<Rightarrow> j_time t)"

section \<open>\<open>JSON.stringify\<close>\<close>

definition hex_digit :: "nat \<Rightarrow> char" where
  "hex_digit n = char_of (if n < 10 then 48 + n else 87 + n)"

definition json_char :: "char \<Rightarrow> string" where
  "json_char c =
     (let n = (of_char c :: nat) in
      if n = 34 then [char_of (92::nat), c]
      else if n = 92 then [c, c]
      else if n = 8 then [char_of (92::nat), CHR ''b'']
      else if n = 9 then [char_of (92::nat), CHR ''t'']
      else if n = 10 then [char_of (92::nat), CHR ''n'']
      else if n = 12 then [char_of (92::nat), CHR ''f'']
      else if n = 13 then [char_of (92::nat), CHR ''r'']
      else if n < 32 then char_of (92::nat) # ''u00'' @ [hex_digit (n div 16), hex_digit (n mod 16)]
      else [c])"

definition newline :: string where
  "newline = [CHR 0x0A]"

definition dquote :: char where
  "dquote = CHR 0x22"

definition json_string :: "string \<Rightarrow> string" where
  "json_string s = [dquote] @ concat (map json_char s) @ [dquote]"

fun json_stringify :: "json \<Rightarrow> string" where
  "json_stringify JNull = ''null''"
| "json_stringify (JBool b) = (if b then ''true'' else ''false'')"
| "json_stringify (JNum n) = show_int n"
| "json_stringify (JStr s) = json_string s"
| "json_stringify (JArr xs) = ''['' @ join_with '','' (map json_stringify xs) @ '']''"
| "json_stringify (JObj fs) =
     ''{'' @ join_with '','' (map (\<lambda>(k, v). json_string k @ '':'' @ json_stringify v) fs) @ ''}''"

text \<open>\<open>JSON.stringify(value, null, 2)\<close> at an indentation of \<open>n\<close> spaces.\<close>

definition json_block :: "nat \<Rightarrow> string \<Rightarrow> string \<Rightarrow> string list \<Rightarrow> string" where
  "json_block n l r items =
     (if items = [] then l @ r
      else l @ newline @
        join_with ('','' @ newline) (map (\<lambda>i. replicate (n + 2) (CHR '' '') @ i) items) @
        newline @ replicate n (CHR '' '') @ r)"

fun json_pretty :: "nat \<Rightarrow> json \<Rightarrow> string" where
  "json_pretty n (JArr xs) = json_block n ''['' '']'' (map (json_pretty (n + 2)) xs)"
| "json_pretty n (JObj fs) =
     json_block n ''{'' ''}''
       (map (\<lambda>(k, v). json_string k @ '': '' @ json_pretty (n + 2) v) fs)"
| "json_pretty n v = json_stringify v"

lemma json_stringify_sample:
  "json_stringify (JObj [(''a'', JArr [JNum (-3), JNull]), (''b'', JStr ''x'')]) =
   ''{'' @ json_string ''a'' @ '':[-3,null],'' @ json_string ''b'' @ '':'' @ json_string ''x'' @ ''}''"
  by code_simp

section \<open>Bytes and hexadecimal\<close>

type_synonym bytes = "nat list"

definition is_bytes :: "bytes \<Rightarrow> bool" where
  "is_bytes bs \<longleftrightarrow> (\<forall>b \<in> set bs. b < 256)"

definition to_hex :: "bytes \<Rightarrow> string" where
  "to_hex bs = concat (map (\<lambda>b. [hex_digit (b div 16), hex_digit (b mod 16)]) bs)"

definition hex_value :: "char \<Rightarrow> nat option" where
  "hex_value c = (let n = (of_char c :: nat) in
     if 48 \<le> n \<and> n \<le> 57 then Some (n - 48)
     else if 97 \<le> n \<and> n \<le> 102 then Some (n - 87)
     else if 65 \<le> n \<and> n \<le> 70 then Some (n - 55) else None)"

text \<open>\<open>Buffer.from(value, 'hex')\<close> stops at the first pair that is not hexadecimal.\<close>

fun of_hex :: "string \<Rightarrow> bytes" where
  "of_hex (a # b # cs) =
     (case (hex_value a, hex_value b) of
        (Some x, Some y) \<Rightarrow> (16 * x + y) # of_hex cs
      | _ \<Rightarrow> [])"
| "of_hex _ = []"

lemma hex_value_digit: "n < 16 \<Longrightarrow> hex_value (hex_digit n) = Some n"
  by (auto simp: hex_value_def hex_digit_def of_char_char_of_nat Let_def)

lemma of_hex_to_hex: "is_bytes bs \<Longrightarrow> of_hex (to_hex bs) = bs"
  by (induction bs) (auto simp: is_bytes_def to_hex_def hex_value_digit less_mult_imp_div_less)

lemma hex_digit_no_dollar: "n < 16 \<Longrightarrow> hex_digit n \<noteq> CHR ''$''"
  using hex_value_digit [of n] by (auto simp: hex_value_def Let_def)

lemma to_hex_no_dollar: "is_bytes bs \<Longrightarrow> CHR ''$'' \<notin> set (to_hex bs)"
  using hex_digit_no_dollar [symmetric]
  by (auto simp: to_hex_def is_bytes_def less_mult_imp_div_less)

lemma length_to_hex: "length (to_hex bs) = 2 * length bs"
  by (induction bs) (auto simp: to_hex_def)

lemma hex_digit_no_colon: "n < 16 \<Longrightarrow> hex_digit n \<noteq> CHR '':''"
  using hex_value_digit [of n] by (auto simp: hex_value_def Let_def)

end
