(* ===== verification/Vervet_Schema.thy ===== *)
theory Vervet_Schema
  imports Vervet_Enums Environment Js_Json "HOL-Library.Word"
begin

text \<open>
  The database of \<open>backend/prisma/schema.prisma\<close>, a record per table with its columns
  (\<open>updatedAt\<close>, which Prisma maintains, is kept only where the modelled code reads it)
  and the record \<open>db\<close> of all tables, each a list of rows in insertion order.  The record
  \<open>env\<close> gathers what a service is given from outside the repository: the validated
  configuration, the id generator, the cryptographic primitives, the date and number parsers of
  the platform, the URL and IP parsers and the resolver.
\<close>

section \<open>Rows\<close>

record Partner =
  pa_id :: ident
  pa_slug :: string
  pa_displayName :: string
  pa_partnerType :: PartnerType
  pa_status :: PartnerStatus
  pa_pricingPlan :: PartnerPricingPlan
  pa_isDirectoryListed :: bool
  pa_apiConsumerEnabled :: bool
  pa_dataPartnerEnabled :: bool
  pa_fullAttestationPartnerEnabled :: bool
  pa_webhooksEnabled :: bool
  pa_batchVerificationEnabled :: bool
  pa_auditExportsEnabled :: bool
  pa_sandboxEnabled :: bool
  pa_productionEnabled :: bool
  pa_onboardingStage :: PartnerOnboardingStage
  pa_feedHealthStatus :: PartnerFeedHealthStatus
  pa_countryCode :: "string option"
  pa_metadata :: "json option"
  pa_createdAt :: time

record PartnerApiCredential =
  cr_id :: ident
  cr_partnerId :: ident
  cr_label :: string
  cr_keyPrefix :: string
  cr_secretHash :: string
  cr_scopes :: "string list"
  cr_status :: PartnerStatus
  cr_lastUsedAt :: "time option"
  cr_createdAt :: time
  cr_revokedAt :: "time option"

record PartnerSecuritySettings =
  ss_id :: ident
  ss_partnerId :: ident
  ss_sessionIdleTimeoutMinutes :: int
  ss_enforceMfa :: bool
  ss_ipAllowlist :: "string list"
  ss_credentialRotationDays :: int
  ss_defaultDisclosureMode :: string
  ss_allowFullLabelDisclosure :: bool
  ss_enableEncryptedSubmission :: bool
  ss_rawVerificationRetentionMode :: string
  ss_rawVerificationRetentionHours :: int
  ss_encryptAuditExports :: bool
  ss_enterpriseByokEnabled :: bool
  ss_customerKeyArn :: "string option"
  ss_customerKeyStatus :: "string option"
  ss_createdAt :: time

record PartnerSigningKey =
  sk_id :: ident
  sk_partnerId :: ident
  sk_keyId :: string
  sk_algorithm :: SigningKeyAlgorithm
  sk_publicKeyPem :: string
  sk_fingerprint :: string
  sk_status :: SigningKeyStatus
  sk_validFrom :: time
  sk_validTo :: "time option"
  sk_rotatesAt :: "time option"
  sk_revokedAt :: "time option"
  sk_createdAt :: time

record Recipient =
  rc_id :: ident
  rc_partnerId :: ident
  rc_externalRecipientId :: string
  rc_displayName :: "string option"
  rc_displayNameCiphertext :: "string option"
  rc_status :: RecipientStatus
  rc_profile :: "json option"
  rc_createdAt :: time
  rc_updatedAt :: time

record RecipientIdentifier =
  id_id :: ident
  id_recipientId :: ident
  id_partnerId :: ident
  id_kind :: IdentifierKind
  id_rawValue :: string
  id_rawValueCiphertext :: "string option"
  id_normalizedValue :: string
  id_normalizedValueBlindIndex :: "string option"
  id_status :: IdentifierStatus
  id_visibility :: IdentifierVisibility
  id_isPrimary :: bool
  id_verifiedAt :: "time option"
  id_expiresAt :: "time option"
  id_createdAt :: time
  id_updatedAt :: time

record Chain =
  ch_id :: ident
  ch_slug :: string
  ch_displayName :: string
  ch_family :: ChainFamily
  ch_caip2 :: "string option"
  ch_isActive :: bool
  ch_metadata :: "json option"
  ch_createdAt :: time

record Asset =
  as_id :: ident
  as_code :: string
  as_symbol :: string
  as_displayName :: string
  as_isActive :: bool
  as_metadata :: "json option"
  as_createdAt :: time

record AssetNetwork =
  an_id :: ident
  an_assetId :: ident
  an_chainId :: ident
  an_standard :: TokenStandard
  an_contractAddressRaw :: "string option"
  an_contractAddressNormalized :: string
  an_decimals :: "int option"
  an_memoPolicy :: MemoPolicy
  an_memoLabel :: "string option"
  an_isActive :: bool
  an_metadata :: "json option"
  an_createdAt :: time

record RecipientDestination =
  de_id :: ident
  de_recipientId :: ident
  de_assetNetworkId :: ident
  de_addressRaw :: string
  de_addressRawCiphertext :: "string option"
  de_addressNormalized :: string
  de_addressNormalizedBlindIndex :: "string option"
  de_memoValue :: string
  de_status :: DestinationStatus
  de_isDefault :: bool
  de_effectiveFrom :: time
  de_lastAttestedAt :: "time option"
  de_expiresAt :: "time option"
  de_revokedAt :: "time option"
  de_createdAt :: time
  de_updatedAt :: time

record Attestation =
  at_id :: ident
  at_partnerId :: ident
  at_signingKeyId :: ident
  at_attestationType :: AttestationType
  at_recipientId :: ident
  at_identifierId :: "ident option"
  at_assetNetworkId :: "ident option"
  at_destinationId :: "ident option"
  at_recipientIdentifierSnapshot :: string
  at_displayNameSnapshot :: "string option"
  at_addressRaw :: "string option"
  at_addressNormalized :: "string option"
  at_memoValue :: string
  at_canonicalPayload :: string
  at_payload :: json
  at_payloadHash :: string
  at_signature :: string
  at_sequenceNumber :: int
  at_issuedAt :: time
  at_effectiveFrom :: time
  at_expiresAt :: "time option"
  at_verificationStatus :: VerificationStatus
  at_verifiedAt :: "time option"
  at_revokedAt :: "time option"
  at_supersedesAttestationId :: "ident option"
  at_ingestedAt :: time

record ResolutionRequest =
  rr_id :: ident
  rr_queryType :: QueryType
  rr_requesterPartnerId :: "ident option"
  rr_resolutionBatchRunId :: "ident option"
  rr_recipientIdentifierInput :: string
  rr_recipientIdentifierNormalized :: string
  rr_platformInput :: "string option"
  rr_chainInput :: string
  rr_assetInput :: string
  rr_providedAddressRaw :: "string option"
  rr_providedAddressNormalized :: "string option"
  rr_resolvedRecipientId :: "ident option"
  rr_resolvedIdentifierId :: "ident option"
  rr_resolvedDestinationId :: "ident option"
  rr_resolvedAttestationId :: "ident option"
  rr_outcome :: ResolutionOutcome
  rr_riskLevel :: RiskLevel
  rr_recommendation :: "string option"
  rr_flags :: "string list"
  rr_clientReference :: "string option"
  rr_idempotencyKey :: "string option"
  rr_requestFingerprint :: "string option"
  rr_requestedAt :: time
  rr_respondedAt :: "time option"
  rr_retentionExpiresAt :: "time option"
  rr_responseData :: "json option"
  rr_metadata :: "json option"

record ResolutionBatchRun =
  br_id :: ident
  br_partnerId :: ident
  br_requestedByUserId :: "ident option"
  br_inputFormat :: ResolutionBatchInputFormat
  br_chainInput :: string
  br_assetInput :: string
  br_stopOnFirstHighRisk :: bool
  br_requireExactAttestedMatch :: bool
  br_rowCount :: int
  br_verifiedCount :: int
  br_warningCount :: int
  br_blockedCount :: int
  br_unsupportedCount :: int
  br_durationMs :: "int option"
  br_createdAt :: time
  br_completedAt :: "time option"

record ResolutionBatchRow =
  bw_id :: ident
  bw_batchRunId :: ident
  bw_rowIndex :: int
  bw_clientReference :: "string option"
  bw_recipientIdentifierInput :: string
  bw_submittedAddressRaw :: string
  bw_outcome :: ResolutionOutcome
  bw_riskLevel :: RiskLevel
  bw_recommendation :: "string option"
  bw_flags :: "string list"
  bw_retentionExpiresAt :: "time option"
  bw_responseData :: "json option"
  bw_createdAt :: time

record RiskSignal =
  rs_id :: ident
  rs_resolutionRequestId :: ident
  rs_kind :: RiskSignalKind
  rs_severity :: RiskLevel
  rs_details :: "json option"
  rs_createdAt :: time

record PartnerRequestNonce =
  nn_id :: ident
  nn_credentialId :: ident
  nn_nonce :: string
  nn_requestHash :: string
  nn_createdAt :: time
  nn_expiresAt :: time

record WebhookEndpoint =
  ep_id :: ident
  ep_partnerId :: ident
  ep_label :: string
  ep_url :: string
  ep_signingSecretHash :: string
  ep_signingSecretVersion :: int
  ep_eventTypes :: "WebhookEventType list"
  ep_status :: WebhookStatus
  ep_lastDeliveredAt :: "time option"
  ep_createdAt :: time

record WebhookDelivery =
  dl_id :: ident
  dl_endpointId :: ident
  dl_eventType :: WebhookEventType
  dl_payload :: json
  dl_payloadHash :: string
  dl_status :: DeliveryStatus
  dl_attemptCount :: int
  dl_nextAttemptAt :: "time option"
  dl_lastAttemptAt :: "time option"
  dl_responseCode :: "int option"
  dl_lastError :: "string option"
  dl_createdAt :: time

record AuditLog =
  al_id :: ident
  al_actorType :: AuditActorType
  al_actorPartnerId :: "ident option"
  al_subjectPartnerId :: "ident option"
  al_actorIdentifier :: "string option"
  al_action :: string
  al_entityType :: string
  al_entityId :: ident
  al_summary :: "string option"
  al_metadata :: "json option"
  al_createdAt :: time

record AuditExportJob =
  xj_id :: ident
  xj_partnerId :: ident
  xj_requestedByUserId :: "ident option"
  xj_format :: AuditExportFormat
  xj_status :: AuditExportStatus
  xj_filters :: "json option"
  xj_downloadFilename :: "string option"
  xj_downloadMimeType :: "string option"
  xj_downloadContent :: "string option"
  xj_expiresAt :: "time option"
  xj_completedAt :: "time option"
  xj_createdAt :: time

record PartnerUser =
  us_id :: ident
  us_partnerId :: ident
  us_email :: string
  us_fullName :: string
  us_role :: PartnerUserRole
  us_scopes :: "string list"
  us_passwordHash :: string
  us_status :: PartnerUserStatus
  us_lastLoginAt :: "time option"
  us_disabledAt :: "time option"
  us_createdAt :: time

record PartnerUserInvite =
  iv_id :: ident
  iv_partnerId :: ident
  iv_email :: string
  iv_fullName :: "string option"
  iv_role :: PartnerUserRole
  iv_scopes :: "string list"
  iv_keyPrefix :: string
  iv_secretHash :: string
  iv_status :: PartnerUserInviteStatus
  iv_createdByUserId :: "ident option"
  iv_expiresAt :: time
  iv_acceptedAt :: "time option"
  iv_revokedAt :: "time option"
  iv_createdAt :: time

record DashboardSession =
  se_id :: ident
  se_partnerUserId :: ident
  se_keyPrefix :: string
  se_secretHash :: string
  se_expiresAt :: time
  se_revokedAt :: "time option"
  se_lastUsedAt :: "time option"
  se_createdAt :: time

record PartnerProductionApprovalRequest =
  pr_id :: ident
  pr_partnerId :: ident
  pr_requestedByUserId :: "ident option"
  pr_status :: ProductionApprovalRequestStatus
  pr_requestNote :: "string option"
  pr_reviewNote :: "string option"
  pr_reviewedByIdentifier :: "string option"
  pr_requestedAt :: time
  pr_reviewedAt :: "time option"
  pr_createdAt :: time

record PartnerProductionApprovalRequestCorridor =
  rq_id :: ident
  rq_requestId :: ident
  rq_assetNetworkId :: ident
  rq_createdAt :: time

record PartnerProductionApprovalApprovedCorridor =
  aq_id :: ident
  aq_requestId :: ident
  aq_assetNetworkId :: ident
  aq_createdAt :: time

record PartnerProductionCorridor =
  pc_id :: ident
  pc_partnerId :: ident
  pc_assetNetworkId :: ident
  pc_status :: PartnerProductionCorridorStatus
  pc_note :: "string option"
  pc_grantedByIdentifier :: "string option"
  pc_grantedAt :: time
  pc_revokedAt :: "time option"
  pc_createdAt :: time

section \<open>The database\<close>

record db =
  partners :: "Partner list"
  apiCredentials :: "PartnerApiCredential list"
  securitySettings :: "PartnerSecuritySettings list"
  signingKeys :: "PartnerSigningKey list"
  recipients :: "Recipient list"
  identifiers :: "RecipientIdentifier list"
  chains :: "Chain list"
  assets :: "Asset list"
  assetNetworks :: "AssetNetwork list"
  destinations :: "RecipientDestination list"
  attestations :: "Attestation list"
  resolutionRequests :: "ResolutionRequest list"
  batchRuns :: "ResolutionBatchRun list"
  batchRows :: "ResolutionBatchRow list"
  riskSignals :: "RiskSignal list"
  requestNonces :: "PartnerRequestNonce list"
  webhookEndpoints :: "WebhookEndpoint list"
  webhookDeliveries :: "WebhookDelivery list"
  auditLogs :: "AuditLog list"
  auditExports :: "AuditExportJob list"
  partnerUsers :: "PartnerUser list"
  userInvites :: "PartnerUserInvite list"
  dashboardSessions :: "DashboardSession list"
  approvalRequests :: "PartnerProductionApprovalRequest list"
  requestedCorridors :: "PartnerProductionApprovalRequestCorridor list"
  approvedCorridors :: "PartnerProductionApprovalApprovedCorridor list"
  productionCorridors :: "PartnerProductionCorridor list"
  nextId :: nat  \<comment> \<open>ids and random values drawn so far\<close>

definition empty_db :: db where
  "empty_db =
     \<lparr>partners = [], apiCredentials = [], securitySettings = [], signingKeys = [], recipients = [],
      identifiers = [], chains = [], assets = [], assetNetworks = [], destinations = [],
      attestations = [], resolutionRequests = [], batchRuns = [], batchRows = [],
      riskSignals = [], requestNonces = [], webhookEndpoints = [], webhookDeliveries = [],
      auditLogs = [], auditExports = [], partnerUsers = [], userInvites = [],
      dashboardSessions = [], approvalRequests = [], requestedCorridors = [], approvedCorridors = [],
      productionCorridors = [], nextId = 0\<rparr>"

section \<open>The authenticated partner a guard attaches to a request\<close>

datatype PartnerAccessActorType = API_CREDENTIAL | PARTNER_USER

record AuthenticatedPartnerCapabilities =
  cap_apiConsumerEnabled :: bool
  cap_dataPartnerEnabled :: bool
  cap_fullAttestationPartnerEnabled :: bool
  cap_webhooksEnabled :: bool
  cap_batchVerificationEnabled :: bool
  cap_auditExportsEnabled :: bool
  cap_sandboxEnabled :: bool
  cap_productionEnabled :: bool

record AuthenticatedPartnerPlanEntitlements =
  ent_verificationAnalyticsEnabled :: bool
  ent_bulkVerificationEnabled :: bool
  ent_prioritySupportEnabled :: bool
  ent_dedicatedIntegrationSupportEnabled :: bool
  ent_customPricing :: bool

record AuthenticatedPartner =
  ap_actorIdentifier :: string
  ap_actorType :: PartnerAccessActorType
  ap_credentialId :: "ident option"
  ap_dashboardSessionId :: "ident option"
  ap_partnerId :: ident
  ap_partnerSlug :: string
  ap_partnerStatus :: PartnerStatus
  ap_partnerPricingPlan :: PartnerPricingPlan
  ap_partnerCapabilities :: AuthenticatedPartnerCapabilities
  ap_partnerPlanEntitlements :: AuthenticatedPartnerPlanEntitlements
  ap_partnerFeedHealthStatus :: PartnerFeedHealthStatus
  ap_partnerOnboardingStage :: PartnerOnboardingStage
  ap_partnerUserEmail :: "string option"
  ap_partnerUserId :: "ident option"
  ap_partnerUserRole :: "PartnerUserRole option"
  ap_scopes :: "string list"

section \<open>What the services are given\<close>

datatype ip_address = IPv4 "32 word" | IPv6 "128 word"

record parsed_url =
  url_protocol :: string
  url_username :: string
  url_password :: string
  url_hostname :: string
  url_href :: string

record env =
  cfg :: EnvironmentVariables
  cuid :: "nat \<Rightarrow> ident"
  randomHex :: "nat \<Rightarrow> string"
  randomIv :: "nat \<Rightarrow> string"
  sha256_hex :: "string \<Rightarrow> string"
  hmac_base64url :: "string \<Rightarrow> string \<Rightarrow> string"
  hmac_hex :: "string \<Rightarrow> string \<Rightarrow> string"
  scrypt :: "string \<Rightarrow> string \<Rightarrow> nat list"
  gcm_encrypt :: "string \<Rightarrow> string \<Rightarrow> string \<Rightarrow> string \<times> string"
  gcm_decrypt :: "string \<Rightarrow> string \<Rightarrow> string \<Rightarrow> string \<Rightarrow> string option"
  base64_bytes :: "string \<Rightarrow> nat list"
  aes_gcm_open :: "string \<Rightarrow> nat list \<Rightarrow> string option \<Rightarrow> nat list \<Rightarrow> nat list \<Rightarrow> string option"
  randomBase64url :: "nat \<Rightarrow> nat \<Rightarrow> string"
  validPublicKey :: "string \<Rightarrow> bool"
  verifySignature :: "SigningKeyAlgorithm \<Rightarrow> string \<Rightarrow> string \<Rightarrow> string \<Rightarrow> bool result"
  parseDate :: "string \<Rightarrow> time option"
  js_Number :: "string \<Rightarrow> time option"
  parseUrl :: "string \<Rightarrow> parsed_url option"
  parseIp :: "string \<Rightarrow> ip_address option"
  dns_lookup :: "string \<Rightarrow> ip_address list option"
  sql_contains :: "bool \<Rightarrow> string \<Rightarrow> string \<Rightarrow> bool"
  collation_key :: "string \<Rightarrow> nat list"

text \<open>A fresh id; random values are drawn from the same counter.\<close>

definition fresh :: "env \<Rightarrow> db \<Rightarrow> ident \<times> db" where
  "fresh E s = (cuid E (nextId s), s\<lparr>nextId := Suc (nextId s)\<rparr>)"

text \<open>Rows already stored have ids drawn earlier, so a fresh id is new.\<close>

definition drawn :: "env \<Rightarrow> nat \<Rightarrow> ident list \<Rightarrow> bool" where
  "drawn E n xs \<longleftrightarrow> (\<forall>i \<in> set xs. \<exists>m < n. i = cuid E m)"

lemma drawn_simps [simp]:
  "drawn E n []"
  "drawn E n (i # xs) \<longleftrightarrow> (\<exists>m < n. i = cuid E m) \<and> drawn E n xs"
  "drawn E n (xs @ ys) \<longleftrightarrow> drawn E n xs \<and> drawn E n ys"
  by (auto simp: drawn_def)

lemma drawn_at [intro]: "m < n \<Longrightarrow> \<exists>k < n. cuid E m = cuid E k"
  by blast

lemma drawn_mono: "\<lbrakk>drawn E m xs; m \<le> n\<rbrakk> \<Longrightarrow> drawn E n xs"
  unfolding drawn_def by (meson order_less_le_trans)

lemma drawn_fresh: "\<lbrakk>drawn E n xs; inj (cuid E); n \<le> m\<rbrakk> \<Longrightarrow> cuid E m \<notin> set xs"
  unfolding drawn_def by (metis inj_eq leD)

section \<open>A concrete environment\<close>

text \<open>
  An environment on which examples are evaluated: the default configuration of the validator,
  counters for ids, an invertible text encoding in the place of encryption, and length-preserving
  stand-ins for the hashes.
\<close>

definition demo_encode :: "string \<Rightarrow> string" where
  "demo_encode v = to_hex (map of_char v)"

definition demo_decode :: "string \<Rightarrow> string" where
  "demo_decode v = map char_of (of_hex v)"

lemma demo_decode_encode: "demo_decode (demo_encode v) = v"
proof -
  have "is_bytes (map of_char v)" by (simp add: is_bytes_def)
  then show ?thesis by (simp add: demo_decode_def demo_encode_def of_hex_to_hex comp_def)
qed

definition demo_config :: EnvironmentVariables where
  "demo_config =
     \<lparr>NODE_ENV = NodeEnv_production, PORT = 3000, CORS_ALLOWED_ORIGINS = [],
      DATABASE_URL = ''postgres://db'', DATABASE_POOL_MAX = 10,
      DATABASE_APPLICATION_NAME = ''vervet-backend'', ADMIN_API_TOKEN = ''token'',
      WEBHOOK_SIGNING_MASTER_SECRET = ''secret'', WEBHOOK_ALLOW_PRIVATE_TARGETS = False,
      WEBHOOK_DELIVERY_PROCESSOR_ENABLED = True, WEBHOOK_DELIVERY_PROCESSOR_INTERVAL_MS = 30000,
      WEBHOOK_DELIVERY_PROCESSOR_BATCH_SIZE = 50, WEBHOOK_DELIVERY_PROCESSING_STALE_MS = 60000,
      ATTESTATION_REQUEST_MAX_AGE_MS = 300000, ATTESTATION_REQUEST_NONCE_TTL_MS = 600000,
      PARTNER_API_CREDENTIAL_LAST_USED_MIN_INTERVAL_MS = 60000,
      PARTNER_DASHBOARD_SESSION_TTL_MS = 43200000,
      PARTNER_DASHBOARD_SESSION_LAST_USED_MIN_INTERVAL_MS = 60000,
      PARTNER_USER_INVITE_TTL_MS = 604800000,
      PARTNER_SECURITY_DEFAULT_SESSION_IDLE_TIMEOUT_MINUTES = 720,
      PARTNER_SECURITY_DEFAULT_CREDENTIAL_ROTATION_DAYS = 90,
      PARTNER_SECURITY_DEFAULT_DISCLOSURE_MODE = ''VERIFICATION_ONLY'',
      PARTNER_SECURITY_DEFAULT_RAW_VERIFICATION_RETENTION_MODE = ''SHORT_RETENTION'',
      PARTNER_SECURITY_DEFAULT_RAW_VERIFICATION_RETENTION_HOURS = 24,
      PARTNER_SECURITY_DEFAULT_ENCRYPT_AUDIT_EXPORTS = True,
      RESOLUTION_REQUEST_RETENTION_MS = 2592000000,
      RESOLUTION_LOOKUP_RATE_LIMIT_WINDOW_MS = 60000,
      RESOLUTION_LOOKUP_RATE_LIMIT_MAX_REQUESTS = 120,
      RESOLUTION_LOOKUP_ENUMERATION_WINDOW_MS = 300000,
      RESOLUTION_LOOKUP_ENUMERATION_MAX_IDENTIFIERS = 40,
      RESOLUTION_BATCH_MAX_ROWS = 250, AUDIT_EXPORT_RETENTION_MS = 604800000,
      DATA_ENCRYPTION_MASTER_SECRET = ''secret'', BLIND_INDEX_MASTER_SECRET = ''secret'',
      ENCRYPTED_SUBMISSION_MASTER_SECRET = ''secret''\<rparr>"

definition demo_env :: env where
  "demo_env =
     \<lparr>cfg = demo_config,
      cuid = (\<lambda>n. ''c'' @ show_nat n),
      randomHex = (\<lambda>n. ''5a17''),
      randomIv = (\<lambda>n. ''iv''),
      sha256_hex = (\<lambda>s. s),
      hmac_base64url = (\<lambda>k m. k @ ''/'' @ m),
      hmac_hex = (\<lambda>k m. k @ ''/'' @ m),
      scrypt = (\<lambda>secret salt. take 64 (map of_char secret @ replicate 64 0)),
      gcm_encrypt = (\<lambda>k iv v. (''tag'', demo_encode v)),
      gcm_decrypt = (\<lambda>k iv tag c. Some (demo_decode c)),
      base64_bytes = (\<lambda>s. map of_char s),
      aes_gcm_open = (\<lambda>k iv aad tag c. Some (map char_of c)),
      randomBase64url = (\<lambda>n bytes. ''r'' @ show_nat n),
      validPublicKey = (\<lambda>pem. pem = ''pem''),
      verifySignature = (\<lambda>alg pem payload signature. Inr (signature = ''signed'')),
      parseDate = (\<lambda>s. if s = ''2026-01-01T00:00:00.000Z'' then Some 1767225600000 else None),
      js_Number = (\<lambda>s. parseInt s),
      parseUrl = (\<lambda>s. None),
      parseIp = (\<lambda>s. None),
      dns_lookup = (\<lambda>s. None),
      sql_contains = (\<lambda>insensitive p v. p = v),
      collation_key = (\<lambda>s. map of_char s)\<rparr>"

lemma demo_cuid_inj: "inj (cuid demo_env)"
  by (rule injI) (auto simp: demo_env_def dest: show_nat_inject)

definition demo_partner :: AuthenticatedPartner where
  "demo_partner =
     \<lparr>ap_actorIdentifier = ''key:demo'', ap_actorType = API_CREDENTIAL,
      ap_credentialId = Some ''cred'', ap_dashboardSessionId = None, ap_partnerId = ''p'',
      ap_partnerSlug = ''demo'', ap_partnerStatus = PartnerStatus_ACTIVE,
      ap_partnerPricingPlan = PartnerPricingPlan_GROWTH,
      ap_partnerCapabilities =
        \<lparr>cap_apiConsumerEnabled = True, cap_dataPartnerEnabled = True,
         cap_fullAttestationPartnerEnabled = True, cap_webhooksEnabled = True,
         cap_batchVerificationEnabled = True, cap_auditExportsEnabled = True,
         cap_sandboxEnabled = True, cap_productionEnabled = True\<rparr>,
      ap_partnerPlanEntitlements =
        \<lparr>ent_verificationAnalyticsEnabled = True, ent_bulkVerificationEnabled = True,
         ent_prioritySupportEnabled = False, ent_dedicatedIntegrationSupportEnabled = False,
         ent_customPricing = False\<rparr>,
      ap_partnerFeedHealthStatus = PartnerFeedHealthStatus_HEALTHY,
      ap_partnerOnboardingStage = PartnerOnboardingStage_PRODUCTION_APPROVED,
      ap_partnerUserEmail = None, ap_partnerUserId = None, ap_partnerUserRole = None,
      ap_scopes = []\<rparr>"

end
