(* ===== verification/Request_Hardening.thy ===== *)
theory Request_Hardening
  imports Vervet_Schema
begin

text \<open>
  \<open>backend/src/security/request-hardening.service.ts\<close>: replay protection of attestation requests
  (a timestamp that must be fresh and a nonce that must be new for its credential) and the rate
  and enumeration limits on resolution lookups.
\<close>

section \<open>Replay protection\<close>

definition parseRequestNonce :: "string option \<Rightarrow> string result" where
  "parseRequestNonce value =
     (case value of
        None \<Rightarrow> Inl (BadRequest ''Missing X-Request-Nonce header.'')
      | Some v \<Rightarrow>
          (if length (js_trim v) = 0 then Inl (BadRequest ''Missing X-Request-Nonce header.'')
           else let nonce = js_trim v in
             if length nonce > 200 then Inl (BadRequest ''X-Request-Nonce is too long.'')
             else Inr nonce))"

text \<open>A JavaScript \<open>Date\<close> is valid up to \<open>8.64e15\<close> milliseconds from the epoch.\<close>

definition valid_date :: "time \<Rightarrow> time option" where
  "valid_date t = (if \<bar>t\<bar> \<le> 8640000000000000 then Some t else None)"

definition parseRequestTimestamp :: "env \<Rightarrow> string option \<Rightarrow> time result" where
  "parseRequestTimestamp E value =
     (case value of
        None \<Rightarrow> Inl (BadRequest ''Missing X-Request-Timestamp header.'')
      | Some v \<Rightarrow>
          (if length (js_trim v) = 0 then Inl (BadRequest ''Missing X-Request-Timestamp header.'')
           else let rawValue = js_trim v;
                    parsedDate = (case js_Number E rawValue of
                      Some numericValue \<Rightarrow> valid_date numericValue
                    | None \<Rightarrow> parseDate E rawValue)
                in case parsedDate of
                     None \<Rightarrow> Inl (BadRequest ''X-Request-Timestamp is invalid.'')
                   | Some t \<Rightarrow> Inr t))"

record ReplayParams =
  rp_authenticatedPartner :: AuthenticatedPartner
  rp_requestNonce :: "string option"
  rp_requestTimestamp :: "string option"
  rp_requestHash :: string

definition nonce_key :: "PartnerRequestNonce \<Rightarrow> ident \<times> string" where
  "nonce_key n = (nn_credentialId n, nn_nonce n)"

text \<open>The insert of a nonce, which the unique key \<open>[credentialId, nonce]\<close> may refuse.\<close>

definition insert_nonce :: "env \<Rightarrow> time \<Rightarrow> ident \<Rightarrow> string \<Rightarrow> string \<Rightarrow> db \<Rightarrow> unit result \<times> db" where
  "insert_nonce E now credentialId nonce requestHash s =
     (if (credentialId, nonce) \<in> nonce_key ` set (requestNonces s) then (Inl UniqueViolation, s)
      else
        let (i, s1) = fresh E s;
            row = \<lparr>nn_id = i, nn_credentialId = credentialId, nn_nonce = nonce,
                   nn_requestHash = requestHash, nn_createdAt = now,
                   nn_expiresAt = now + ATTESTATION_REQUEST_NONCE_TTL_MS (cfg E)\<rparr>
        in (Inr (), s1\<lparr>requestNonces := requestNonces s1 @ [row]\<rparr>))"

definition isUniqueConstraintError :: "http_error \<Rightarrow> bool" where
  "isUniqueConstraintError error \<longleftrightarrow> error = UniqueViolation"

definition assertAttestationReplayProtection ::
    "env \<Rightarrow> time \<Rightarrow> ReplayParams \<Rightarrow> db \<Rightarrow> unit result \<times> db" where
  "assertAttestationReplayProtection E now params s =
     (case parseRequestNonce (rp_requestNonce params) of
        Inl e \<Rightarrow> (Inl e, s)
      | Inr nonce \<Rightarrow>
     (case parseRequestTimestamp E (rp_requestTimestamp params) of
        Inl e \<Rightarrow> (Inl e, s)
      | Inr timestamp \<Rightarrow>
     (case ap_credentialId (rp_authenticatedPartner params) of
        None \<Rightarrow> (Inl (BadRequest ''Attestation replay protection requires an API credential.''), s)
      | Some credentialId \<Rightarrow>
          if credentialId = [] then
            (Inl (BadRequest ''Attestation replay protection requires an API credential.''), s)
          else if \<bar>now - timestamp\<bar> > ATTESTATION_REQUEST_MAX_AGE_MS (cfg E) then
            (Inl (BadRequest ''Request timestamp is outside the accepted freshness window.''), s)
          else
            (case insert_nonce E now credentialId nonce (rp_requestHash params) s of
               (Inr _, s1) \<Rightarrow> (Inr (), s1)
             | (Inl error, s1) \<Rightarrow>
                 if \<not> isUniqueConstraintError error then (Inl error, s1)
                 else
                   (case List.find (\<lambda>n. nonce_key n = (credentialId, nonce)) (requestNonces s1) of
                      None \<Rightarrow> (Inl (Conflict
                        ''Request nonce was already used and could not be replay-protected safely.''), s1)
                    | Some existingRequestNonce \<Rightarrow>
                        if nn_requestHash existingRequestNonce \<noteq> rp_requestHash params
                        then (Inl (Conflict
                          ''Request nonce was already used for a different attestation payload.''), s1)
                        else (Inl (Conflict ''Request nonce was already used.''), s1))))))"

definition cleanupExpiredRequestNonces :: "time \<Rightarrow> db \<Rightarrow> nat \<times> db" where
  "cleanupExpiredRequestNonces now s =
     (count_where (\<lambda>n. nn_expiresAt n < now) (requestNonces s),
      s\<lparr>requestNonces := delete_where (\<lambda>n. nn_expiresAt n < now) (requestNonces s)\<rparr>)"

section \<open>Lookup limits\<close>

datatype BlockReason = rate_limit | enumeration

record BlockedLookup =
  bl_reason :: BlockReason
  bl_riskLevel :: RiskLevel
  bl_flags :: "RiskSignalKind list"
  bl_recommendation :: string
  bl_metadata :: json

datatype ResolutionLookupDecision = Allowed | Blocked BlockedLookup

record LookupParams =
  lk_partnerId :: ident
  lk_queryType :: QueryType
  lk_recipientIdentifierNormalized :: "string option"
  lk_providedAddressNormalized :: "string option"

definition buildDistinctLookupKey :: "QueryType \<Rightarrow> string option \<Rightarrow> string option \<Rightarrow> string result" where
  "buildDistinctLookupKey queryType recipientIdentifierNormalized providedAddressNormalized =
     (if queryType = QueryType_CONFIRM_ADDRESS then
        (case trim_or_null providedAddressNormalized of
           None \<Rightarrow> Inl (BadRequest ''Address-based lookups require a normalized address.'')
         | Some normalizedAddress \<Rightarrow> Inr (''address:'' @ normalizedAddress))
      else
        (case trim_or_null recipientIdentifierNormalized of
           None \<Rightarrow> Inl (BadRequest ''Recipient-based lookups require a normalized identifier.'')
         | Some normalizedIdentifier \<Rightarrow> Inr (''recipient:'' @ normalizedIdentifier)))"

text \<open>The key of an earlier lookup, from the two columns selected.\<close>

definition request_lookup_key :: "ResolutionRequest \<Rightarrow> string result" where
  "request_lookup_key request =
     buildDistinctLookupKey
       (if \<not> falsy (rr_providedAddressNormalized request) \<and> rr_recipientIdentifierNormalized request = []
        then QueryType_CONFIRM_ADDRESS else QueryType_RESOLVE)
       (Some (rr_recipientIdentifierNormalized request)) (rr_providedAddressNormalized request)"

definition requests_since :: "ident \<Rightarrow> time \<Rightarrow> db \<Rightarrow> ResolutionRequest list" where
  "requests_since partnerId start s =
     filter (\<lambda>r. rr_requesterPartnerId r = Some partnerId \<and> start \<le> rr_requestedAt r) (resolutionRequests s)"

definition rateLimitDecision :: "env \<Rightarrow> nat \<Rightarrow> BlockedLookup" where
  "rateLimitDecision E requestCount =
     \<lparr>bl_reason = rate_limit, bl_riskLevel = RiskLevel_HIGH, bl_flags = [],
      bl_recommendation = ''retry_later'',
      bl_metadata = JObj [(''control'', JStr ''rate_limit''), (''requestCount'', JNum (int requestCount)),
        (''windowMs'', JNum (RESOLUTION_LOOKUP_RATE_LIMIT_WINDOW_MS (cfg E))),
        (''maxRequests'', JNum (RESOLUTION_LOOKUP_RATE_LIMIT_MAX_REQUESTS (cfg E)))]\<rparr>"

definition enumerationDecision :: "env \<Rightarrow> nat \<Rightarrow> BlockedLookup" where
  "enumerationDecision E distinctIdentifiers =
     \<lparr>bl_reason = enumeration, bl_riskLevel = RiskLevel_CRITICAL,
      bl_flags = [RiskSignalKind_ENUMERATION_SUSPECTED], bl_recommendation = ''retry_later'',
      bl_metadata = JObj [(''control'', JStr ''anti_enumeration''),
        (''distinctIdentifiers'', JNum (int distinctIdentifiers)),
        (''windowMs'', JNum (RESOLUTION_LOOKUP_ENUMERATION_WINDOW_MS (cfg E))),
        (''maxDistinctIdentifiers'', JNum (RESOLUTION_LOOKUP_ENUMERATION_MAX_IDENTIFIERS (cfg E)))]\<rparr>"

definition evaluateResolutionLookup ::
    "env \<Rightarrow> time \<Rightarrow> LookupParams \<Rightarrow> db \<Rightarrow> ResolutionLookupDecision result" where
  "evaluateResolutionLookup E now params s =
     (let rateWindowStart = now - RESOLUTION_LOOKUP_RATE_LIMIT_WINDOW_MS (cfg E);
          requestCount = length (requests_since (lk_partnerId params) rateWindowStart s) in
      if int requestCount \<ge> RESOLUTION_LOOKUP_RATE_LIMIT_MAX_REQUESTS (cfg E)
      then Inr (Blocked (rateLimitDecision E requestCount))
      else
        let enumerationWindowStart = now - RESOLUTION_LOOKUP_ENUMERATION_WINDOW_MS (cfg E) in
        case buildDistinctLookupKey (lk_queryType params) (lk_recipientIdentifierNormalized params)
               (lk_providedAddressNormalized params) of
          Inl e \<Rightarrow> Inl e
        | Inr distinctLookupKey \<Rightarrow>
            let recentLookups =
                  take (nat (RESOLUTION_LOOKUP_ENUMERATION_MAX_IDENTIFIERS (cfg E) + 10))
                    (requests_since (lk_partnerId params) enumerationWindowStart s) in
            case results (map request_lookup_key recentLookups) of
              Inl e \<Rightarrow> Inl e
            | Inr recentLookupKeys \<Rightarrow>
                if distinctLookupKey \<in> set recentLookupKeys then Inr Allowed
                else
                  let distinctIdentifiers = length (js_uniq recentLookupKeys) in
                  if int distinctIdentifiers \<ge> RESOLUTION_LOOKUP_ENUMERATION_MAX_IDENTIFIERS (cfg E)
                  then Inr (Blocked (enumerationDecision E distinctIdentifiers))
                  else Inr Allowed)"

section \<open>A captured request cannot be replayed\<close>

text \<open>What may happen between two requests: other requests and clean-ups.\<close>

datatype hardening_event = Attest time ReplayParams | Cleanup time

primrec event_time :: "hardening_event \<Rightarrow> time" where
  "event_time (Attest t _) = t"
| "event_time (Cleanup t) = t"

fun hardening_run :: "env \<Rightarrow> hardening_event list \<Rightarrow> db \<Rightarrow> db" where
  "hardening_run E [] s = s"
| "hardening_run E (Attest t P # evs) s = hardening_run E evs (snd (assertAttestationReplayProtection E t P s))"
| "hardening_run E (Cleanup t # evs) s = hardening_run E evs (snd (cleanupExpiredRequestNonces t s))"

lemma insert_nonce_keeps: "n \<in> set (requestNonces s) \<Longrightarrow> n \<in> set (requestNonces (snd (insert_nonce E t c v h s)))"
  by (simp add: insert_nonce_def fresh_def Let_def)

lemma assert_keeps:
  "n \<in> set (requestNonces s) \<Longrightarrow>
   n \<in> set (requestNonces (snd (assertAttestationReplayProtection E t P s)))"
  using insert_nonce_keeps [of n s E t]
  by (auto simp: assertAttestationReplayProtection_def split: sum.splits option.splits prod.splits)
     (metis snd_conv)+

lemma run_keeps:
  "\<lbrakk>n \<in> set (requestNonces s); \<forall>ev \<in> set evs. event_time ev \<le> nn_expiresAt n\<rbrakk>
   \<Longrightarrow> n \<in> set (requestNonces (hardening_run E evs s))"
  by (induction E evs s rule: hardening_run.induct)
     (auto simp: assert_keeps cleanupExpiredRequestNonces_def)

text \<open>What an accepted request proves, and what it leaves behind.\<close>

lemma assert_accepted:
  assumes "fst (assertAttestationReplayProtection E t P s) = Inr ()"
  obtains nonce timestamp c where
    "parseRequestNonce (rp_requestNonce P) = Inr nonce"
    "parseRequestTimestamp E (rp_requestTimestamp P) = Inr timestamp"
    "ap_credentialId (rp_authenticatedPartner P) = Some c"
    "\<bar>t - timestamp\<bar> \<le> ATTESTATION_REQUEST_MAX_AGE_MS (cfg E)"
    "(c, nonce) \<notin> nonce_key ` set (requestNonces s)"
    "\<exists>n \<in> set (requestNonces (snd (assertAttestationReplayProtection E t P s))).
       nonce_key n = (c, nonce) \<and> nn_expiresAt n = t + ATTESTATION_REQUEST_NONCE_TTL_MS (cfg E)"
proof -
  obtain nonce where n: "parseRequestNonce (rp_requestNonce P) = Inr nonce"
    using assms by (auto simp: assertAttestationReplayProtection_def split: sum.splits)
  obtain timestamp where ts: "parseRequestTimestamp E (rp_requestTimestamp P) = Inr timestamp"
    using assms n by (auto simp: assertAttestationReplayProtection_def split: sum.splits)
  obtain c where c: "ap_credentialId (rp_authenticatedPartner P) = Some c" "c \<noteq> []"
    using assms n ts by (auto simp: assertAttestationReplayProtection_def split: option.splits if_splits)
  have fresh_ts: "\<not> \<bar>t - timestamp\<bar> > ATTESTATION_REQUEST_MAX_AGE_MS (cfg E)"
    using assms n ts c by (auto simp: assertAttestationReplayProtection_def split: if_splits)
  have new: "(c, nonce) \<notin> nonce_key ` set (requestNonces s)"
    using assms n ts c fresh_ts
    by (auto simp: assertAttestationReplayProtection_def insert_nonce_def isUniqueConstraintError_def
        split: if_splits option.splits)
  have "\<exists>n \<in> set (requestNonces (snd (assertAttestationReplayProtection E t P s))).
       nonce_key n = (c, nonce) \<and> nn_expiresAt n = t + ATTESTATION_REQUEST_NONCE_TTL_MS (cfg E)"
    using n ts c fresh_ts new
    by (simp add: assertAttestationReplayProtection_def insert_nonce_def fresh_def Let_def nonce_key_def)
  with that n ts c(1) fresh_ts new show ?thesis by auto
qed

text \<open>C33: a captured request cannot be replayed.  If nonces are kept at least twice as long as the
  accepted age of a timestamp, then once a request has been accepted, every later request of the
  same credential with the same nonce and timestamp is refused, whatever requests and clean-ups
  came in between and whatever body it carries.\<close>

theorem replayed_request_refused:
  assumes "2 * ATTESTATION_REQUEST_MAX_AGE_MS (cfg E) \<le> ATTESTATION_REQUEST_NONCE_TTL_MS (cfg E)"
    and "fst (assertAttestationReplayProtection E t1 P s) = Inr ()"
    and "\<forall>ev \<in> set evs. event_time ev \<le> t2"
    and "ap_credentialId (rp_authenticatedPartner Q) = ap_credentialId (rp_authenticatedPartner P)"
    and "rp_requestNonce Q = rp_requestNonce P" and "rp_requestTimestamp Q = rp_requestTimestamp P"
  shows "\<not> is_ok (fst (assertAttestationReplayProtection E t2 Q
            (hardening_run E evs (snd (assertAttestationReplayProtection E t1 P s)))))"
proof
  let ?s1 = "snd (assertAttestationReplayProtection E t1 P s)"
  let ?s2 = "hardening_run E evs ?s1"
  assume "is_ok (fst (assertAttestationReplayProtection E t2 Q ?s2))"
  then have ok: "fst (assertAttestationReplayProtection E t2 Q ?s2) = Inr ()"
    by (auto simp: is_ok_def split: sum.splits)
  obtain nonce timestamp c where p: "parseRequestNonce (rp_requestNonce P) = Inr nonce"
    "parseRequestTimestamp E (rp_requestTimestamp P) = Inr timestamp"
    "ap_credentialId (rp_authenticatedPartner P) = Some c"
    "\<bar>t1 - timestamp\<bar> \<le> ATTESTATION_REQUEST_MAX_AGE_MS (cfg E)"
    "\<exists>n \<in> set (requestNonces ?s1). nonce_key n = (c, nonce) \<and>
       nn_expiresAt n = t1 + ATTESTATION_REQUEST_NONCE_TTL_MS (cfg E)"
    by (rule assert_accepted [OF assms(2)])
  obtain n where n: "n \<in> set (requestNonces ?s1)" "nonce_key n = (c, nonce)"
    "nn_expiresAt n = t1 + ATTESTATION_REQUEST_NONCE_TTL_MS (cfg E)" using p(5) by auto
  obtain nonce' timestamp' c' where q: "parseRequestNonce (rp_requestNonce Q) = Inr nonce'"
    "parseRequestTimestamp E (rp_requestTimestamp Q) = Inr timestamp'"
    "ap_credentialId (rp_authenticatedPartner Q) = Some c'"
    "\<bar>t2 - timestamp'\<bar> \<le> ATTESTATION_REQUEST_MAX_AGE_MS (cfg E)"
    "(c', nonce') \<notin> nonce_key ` set (requestNonces ?s2)"
    by (rule assert_accepted [OF ok])
  have "t2 \<le> nn_expiresAt n" using p(2,4) q(2,4) n(3) assms(1,6) by simp
  then have "n \<in> set (requestNonces ?s2)"
    using assms(3) by (intro run_keeps [OF n(1)]) auto
  then show False using p(1,3) q(1,3,5) n(2) assms(4,5) by force
qed

definition demo_request :: ReplayParams where
  "demo_request =
     \<lparr>rp_authenticatedPartner = demo_partner, rp_requestNonce = Some '' n1 '',
      rp_requestTimestamp = Some ''1000000'', rp_requestHash = ''h''\<rparr>"

theorem replayed_request_refused_witness:
  "fst (assertAttestationReplayProtection demo_env 1200000 demo_request empty_db) = Inr () \<and>
   \<not> is_ok (fst (assertAttestationReplayProtection demo_env 1300000 (demo_request\<lparr>rp_requestHash := ''x''\<rparr>)
     (hardening_run demo_env [Cleanup 1250000]
       (snd (assertAttestationReplayProtection demo_env 1200000 demo_request empty_db)))))"
proof -
  have ttl: "2 * ATTESTATION_REQUEST_MAX_AGE_MS (cfg demo_env) \<le> ATTESTATION_REQUEST_NONCE_TTL_MS (cfg demo_env)"
    by (simp add: demo_env_def demo_config_def)
  have parse: "parseRequestNonce (Some '' n1 '') = Inr ''n1''"
    "parseRequestTimestamp demo_env (Some ''1000000'') = Inr 1000000"
    by code_simp+
  have ok: "fst (assertAttestationReplayProtection demo_env 1200000 demo_request empty_db) = Inr ()"
    using parse
    by (simp add: assertAttestationReplayProtection_def insert_nonce_def fresh_def Let_def demo_request_def
        demo_partner_def empty_db_def demo_env_def demo_config_def)
  have "\<forall>ev \<in> set [Cleanup 1250000]. event_time ev \<le> 1300000" by simp
  from replayed_request_refused [OF ttl ok this, of "demo_request\<lparr>rp_requestHash := ''x''\<rparr>"] ok
  show ?thesis by simp
qed

section \<open>The lookup limits, exactly\<close>

text \<open>The lookup limits, exactly.  A lookup is refused with \<open>HIGH\<close> risk when the partner has
  made its maximum of requests in the rate window; otherwise it is refused as enumeration, with
  \<open>CRITICAL\<close> risk, if and only if its key is not among the keys of the requests examined and these
  already number the maximum of distinct keys.  The requests examined are the first \<open>max + 10\<close> the
  query returns, so they are all requests of the window only when there are no more than that.\<close>

theorem lookup_limits_exact:
  fixes params :: LookupParams and E :: env and now :: time and s :: db
  defines "rows \<equiv> requests_since (lk_partnerId params)
             (now - RESOLUTION_LOOKUP_ENUMERATION_WINDOW_MS (cfg E)) s"
    and "maxIds \<equiv> RESOLUTION_LOOKUP_ENUMERATION_MAX_IDENTIFIERS (cfg E)"
    and "n \<equiv> length (requests_since (lk_partnerId params)
             (now - RESOLUTION_LOOKUP_RATE_LIMIT_WINDOW_MS (cfg E)) s)"
  assumes "buildDistinctLookupKey (lk_queryType params) (lk_recipientIdentifierNormalized params)
             (lk_providedAddressNormalized params) = Inr key"
    and "\<forall>r \<in> set rows. is_ok (request_lookup_key r)"
  shows "\<exists>keys. set keys = {k. \<exists>r \<in> set (take (nat (maxIds + 10)) rows). request_lookup_key r = Inr k} \<and>
     (int (length rows) \<le> maxIds + 10 \<longrightarrow> set keys = {k. \<exists>r \<in> set rows. request_lookup_key r = Inr k}) \<and>
     evaluateResolutionLookup E now params s =
       (if int n \<ge> RESOLUTION_LOOKUP_RATE_LIMIT_MAX_REQUESTS (cfg E) then Inr (Blocked (rateLimitDecision E n))
        else if key \<in> set keys \<or> int (card (set keys)) < maxIds then Inr Allowed
        else Inr (Blocked (enumerationDecision E (card (set keys))))) \<and>
     bl_riskLevel (rateLimitDecision E n) = RiskLevel_HIGH \<and>
     bl_riskLevel (enumerationDecision E (card (set keys))) = RiskLevel_CRITICAL"
proof -
  let ?recent = "take (nat (maxIds + 10)) rows"
  obtain keys where keys: "results (map request_lookup_key ?recent) = Inr keys"
    "map Inr keys = map request_lookup_key ?recent"
    using results_Inr [of "map request_lookup_key ?recent"] assms(5) by (auto dest: in_set_takeD)
  have "Inr ` set keys = request_lookup_key ` set ?recent"
    using arg_cong [OF keys(2), of set] by simp
  then have set_keys: "set keys = {k. \<exists>r \<in> set ?recent. request_lookup_key r = Inr k}"
    by (auto simp: image_iff set_eq_iff) (metis sum.inject(2))+
  have all: "int (length rows) \<le> maxIds + 10 \<Longrightarrow> ?recent = rows" by simp
  have "evaluateResolutionLookup E now params s =
       (if int n \<ge> RESOLUTION_LOOKUP_RATE_LIMIT_MAX_REQUESTS (cfg E) then Inr (Blocked (rateLimitDecision E n))
        else if key \<in> set keys \<or> int (card (set keys)) < maxIds then Inr Allowed
        else Inr (Blocked (enumerationDecision E (card (set keys)))))"
    using keys(1) assms(4)
    by (auto simp: evaluateResolutionLookup_def Let_def rows_def maxIds_def n_def length_js_uniq)
  with set_keys all show ?thesis
    by (intro exI [of _ keys]) (simp add: rateLimitDecision_def enumerationDecision_def)
qed

theorem lookup_limits_exact_witness:
  "evaluateResolutionLookup demo_env 5
     \<lparr>lk_partnerId = ''p'', lk_queryType = QueryType_RESOLVE,
      lk_recipientIdentifierNormalized = Some ''bob'', lk_providedAddressNormalized = None\<rparr> empty_db = Inr Allowed"
proof -
  let ?params = "\<lparr>lk_partnerId = ''p'', lk_queryType = QueryType_RESOLVE,
      lk_recipientIdentifierNormalized = Some ''bob'', lk_providedAddressNormalized = None\<rparr>"
  have key: "buildDistinctLookupKey (lk_queryType ?params) (lk_recipientIdentifierNormalized ?params)
      (lk_providedAddressNormalized ?params) = Inr ''recipient:bob''" by code_simp
  have cfg: "RESOLUTION_LOOKUP_RATE_LIMIT_MAX_REQUESTS (cfg demo_env) = 120"
    "RESOLUTION_LOOKUP_ENUMERATION_MAX_IDENTIFIERS (cfg demo_env) = 40"
    by (simp_all add: demo_env_def demo_config_def)
  have none: "requests_since p t empty_db = []" for p t by (simp add: requests_since_def empty_db_def)
  have ok: "\<forall>r \<in> set (requests_since (lk_partnerId ?params)
      (5 - RESOLUTION_LOOKUP_ENUMERATION_WINDOW_MS (cfg demo_env)) empty_db). is_ok (request_lookup_key r)"
    by (simp add: none)
  from lookup_limits_exact [OF key ok] show ?thesis by (auto simp: none cfg)
qed

end
