(* ===== verification/Secure_Fields.thy ===== *)
theory Secure_Fields
  imports Vervet_Schema
begin

text \<open>
  \<open>backend/src/common/security/sealed-data.util.ts\<close> and \<open>secret-hash.util.ts\<close>: text sealed
  with AES-256-GCM under a key derived from a master secret, and secrets stored as salted scrypt
  hashes.  The primitives are fields of the environment: \<open>gcm_encrypt\<close> and \<open>gcm_decrypt\<close> work
  on the \<open>base64url\<close> text of the nonce, the tag and the ciphertext that the code stores, \<open>scrypt\<close>
  returns the derived bytes.  What is proved is the framing around them: the versioned,
  colon-separated form and the \<open>$\<close>-separated form, and that opening and verifying invert
  sealing and hashing.
\<close>

section \<open>Sealed strings\<close>

definition versionPrefix :: string where
  "versionPrefix = ''encv1''"

definition deriveKey :: "env \<Rightarrow> string \<Rightarrow> string" where
  "deriveKey E secret = sha256_hex E (''vervet:data-seal:'' @ secret)"

definition isSealedValue :: "string \<Rightarrow> bool" where
  "isSealedValue value = js_starts_with (versionPrefix @ '':'') value"

text \<open>\<open>n\<close> selects the random nonce.\<close>

definition sealString :: "env \<Rightarrow> nat \<Rightarrow> string \<Rightarrow> string \<Rightarrow> string" where
  "sealString E n value secret =
     (let iv = randomIv E n;
          (authTag, encryptedValue) = gcm_encrypt E (deriveKey E secret) iv value
      in join_with '':'' [versionPrefix, iv, authTag, encryptedValue])"

definition openSealedString :: "env \<Rightarrow> string \<Rightarrow> string \<Rightarrow> string result" where
  "openSealedString E value secret =
     (if \<not> isSealedValue value then Inr value
      else case split_on (CHR '':'') value of
        version # ivEncoded # authTagEncoded # payloadEncoded # _ \<Rightarrow>
          (if version \<noteq> versionPrefix \<or> ivEncoded = [] \<or> authTagEncoded = [] \<or> payloadEncoded = []
           then Inl (JsError ''Sealed value is malformed.'')
           else case gcm_decrypt E (deriveKey E secret) ivEncoded authTagEncoded payloadEncoded of
             None \<Rightarrow> Inl (JsError ''Unsupported state or unable to authenticate data'')
           | Some value \<Rightarrow> Inr value)
      | _ \<Rightarrow> Inl (JsError ''Sealed value is malformed.''))"

text \<open>
  What Node's AES-GCM and \<open>base64url\<close> promise: decryption under the same key, nonce and tag
  returns the plaintext; encoded text has no colon; the tag and the nonce are never empty, and the
  ciphertext is empty just for the empty plaintext.
\<close>

definition gcm_contract :: "env \<Rightarrow> bool" where
  "gcm_contract E \<longleftrightarrow>
     (\<forall>k n v. let (tag, c) = gcm_encrypt E k (randomIv E n) v in
        gcm_decrypt E k (randomIv E n) tag c = Some v \<and>
        tag \<noteq> [] \<and> CHR '':'' \<notin> set tag \<and> CHR '':'' \<notin> set c \<and> (c = [] \<longleftrightarrow> v = [])) \<and>
     (\<forall>n. randomIv E n \<noteq> [] \<and> CHR '':'' \<notin> set (randomIv E n))"

lemma demo_encode_no_colon: "CHR '':'' \<notin> set (demo_encode v)"
  using hex_digit_no_colon [symmetric]
  by (auto simp: demo_encode_def to_hex_def less_mult_imp_div_less)

lemma demo_encode_Nil: "demo_encode v = [] \<longleftrightarrow> v = []"
  by (cases v) (simp_all add: demo_encode_def to_hex_def)

lemma demo_gcm_contract: "gcm_contract demo_env"
  by (simp add: gcm_contract_def demo_env_def demo_decode_encode demo_encode_no_colon
      demo_encode_Nil)

lemma isSealedValue_seal: "isSealedValue (sealString E n v k)"
  by (simp add: isSealedValue_def sealString_def versionPrefix_def js_starts_with_def Let_def
      split: prod.splits)

lemma openSealedString_plain: "\<not> isSealedValue v \<Longrightarrow> openSealedString E v k = Inr v"
  by (simp add: openSealedString_def)

lemma split_sealed:
  assumes "gcm_contract E"
  obtains tag c where "split_on (CHR '':'') (sealString E n v k) = [versionPrefix, randomIv E n, tag, c]"
    "gcm_decrypt E (deriveKey E k) (randomIv E n) tag c = Some v"
    "tag \<noteq> []" "c = [] \<longleftrightarrow> v = []" "randomIv E n \<noteq> []"
proof -
  obtain tag c where e: "gcm_encrypt E (deriveKey E k) (randomIv E n) v = (tag, c)"
    by (cases "gcm_encrypt E (deriveKey E k) (randomIv E n) v")
  have f: "gcm_decrypt E (deriveKey E k) (randomIv E n) tag c = Some v" "tag \<noteq> []"
      "CHR '':'' \<notin> set tag" "CHR '':'' \<notin> set c" "c = [] \<longleftrightarrow> v = []"
      "randomIv E n \<noteq> []" "CHR '':'' \<notin> set (randomIv E n)"
    using assms [unfolded gcm_contract_def, THEN conjunct1, rule_format, of "deriveKey E k" n v]
      assms [unfolded gcm_contract_def, THEN conjunct2, rule_format, of n] e
    by simp_all
  have "split_on (CHR '':'') (join_with [CHR '':''] [versionPrefix, randomIv E n, tag, c]) =
        [versionPrefix, randomIv E n, tag, c]"
    by (rule split_on_join) (use f in \<open>auto simp: versionPrefix_def\<close>)
  then show ?thesis using that [of tag c] f e by (simp add: sealString_def Let_def)
qed

lemma open_sealed_text:
  assumes "gcm_contract E"
  shows "openSealedString E (sealString E n v k) k =
           (if v = [] then Inl (JsError ''Sealed value is malformed.'') else Inr v)"
proof -
  obtain tag c where
    "split_on (CHR '':'') (sealString E n v k) = [versionPrefix, randomIv E n, tag, c]"
    "gcm_decrypt E (deriveKey E k) (randomIv E n) tag c = Some v"
    "tag \<noteq> []" "c = [] \<longleftrightarrow> v = []" "randomIv E n \<noteq> []"
    by (rule split_sealed [OF assms])
  with isSealedValue_seal [of E n v k] show ?thesis
    by (simp add: openSealedString_def)
qed

text \<open>Sealing round trip.  Whatever nonce is drawn, opening a sealed text under the same
  master secret returns exactly the text, for every text but the empty one, which sealing accepts
  and opening rejects as malformed.  A text without the version prefix is passed through.\<close>

theorem open_sealString:
  assumes "gcm_contract E"
  shows "openSealedString E (sealString E n v k) k =
           (if v = [] then Inl (JsError ''Sealed value is malformed.'') else Inr v)"
  using assms by (rule open_sealed_text)

theorem open_sealString_witness:
  "openSealedString demo_env (sealString demo_env 7 ''a:b'' ''k'') ''k'' = Inr ''a:b'' \<and>
   openSealedString demo_env (sealString demo_env 7 [] ''k'') ''k'' =
     Inl (JsError ''Sealed value is malformed.'')"
  using open_sealString [OF demo_gcm_contract, of 7 "''a:b''" "''k''"]
    open_sealString [OF demo_gcm_contract, of 7 "[]" "''k''"] by simp

section \<open>Stored secrets\<close>

text \<open>\<open>n\<close> selects the random salt.\<close>

definition hashSecret :: "env \<Rightarrow> nat \<Rightarrow> string \<Rightarrow> string" where
  "hashSecret E n secret =
     (let salt = randomHex E n; hash = to_hex (scrypt E secret salt)
      in ''scrypt$'' @ salt @ ''$'' @ hash)"

definition verifySecret :: "env \<Rightarrow> string \<Rightarrow> string \<Rightarrow> bool" where
  "verifySecret E secret storedHash =
     (case split_on (CHR ''$'') storedHash of
        algorithm # salt # expectedHash # _ \<Rightarrow>
          (if algorithm \<noteq> ''scrypt'' \<or> salt = [] \<or> expectedHash = [] then False
           else
             let actualHash = scrypt E secret salt; expectedHashBuffer = of_hex expectedHash in
             if length actualHash \<noteq> length expectedHashBuffer then False
             else actualHash = expectedHashBuffer)
      | _ \<Rightarrow> False)"

text \<open>What Node promises: 64 derived bytes, a salt printed in hexadecimal.\<close>

definition scrypt_contract :: "env \<Rightarrow> bool" where
  "scrypt_contract E \<longleftrightarrow>
     (\<forall>secret salt. is_bytes (scrypt E secret salt) \<and> length (scrypt E secret salt) = 64) \<and>
     (\<forall>n. randomHex E n \<noteq> [] \<and> CHR ''$'' \<notin> set (randomHex E n))"

lemma split_hashSecret:
  assumes "scrypt_contract E"
  shows "split_on (CHR ''$'') (hashSecret E n secret) =
         [''scrypt'', randomHex E n, to_hex (scrypt E secret (randomHex E n))]"
proof -
  let ?h = "to_hex (scrypt E secret (randomHex E n))"
  have "split_on (CHR ''$'') (join_with [CHR ''$''] [''scrypt'', randomHex E n, ?h]) =
        [''scrypt'', randomHex E n, ?h]"
    by (rule split_on_join)
       (use assms to_hex_no_dollar in \<open>auto simp: scrypt_contract_def\<close>)
  then show ?thesis by (simp add: hashSecret_def Let_def)
qed

text \<open>Stored secrets.  A secret is accepted against the hash stored for another (or the same)
  secret exactly when scrypt derives the same bytes from both under the stored salt; in particular
  the right secret is always accepted, whatever the salt.\<close>

lemma verify_hashSecret:
  assumes "scrypt_contract E"
  shows "verifySecret E attempt (hashSecret E n secret) \<longleftrightarrow>
           scrypt E attempt (randomHex E n) = scrypt E secret (randomHex E n)"
proof -
  let ?b = "scrypt E secret (randomHex E n)"
  have b: "is_bytes ?b" "length ?b = 64" "randomHex E n \<noteq> []"
    using assms by (simp_all add: scrypt_contract_def)
  have "to_hex ?b \<noteq> []" using b(2) length_to_hex [of ?b] by auto
  with b show ?thesis
    by (auto simp: verifySecret_def split_hashSecret [OF assms] of_hex_to_hex Let_def)
qed

lemma demo_scrypt_contract: "scrypt_contract demo_env"
  by (auto simp: scrypt_contract_def demo_env_def is_bytes_def dest!: in_set_takeD)

lemma verify_hashSecret_sample:
  "verifySecret demo_env ''pw'' (hashSecret demo_env 3 ''pw'') \<and>
   \<not> verifySecret demo_env ''px'' (hashSecret demo_env 3 ''pw'')"
  using verify_hashSecret [OF demo_scrypt_contract, of "''pw''" 3 "''pw''"]
    verify_hashSecret [OF demo_scrypt_contract, of "''px''" 3 "''pw''"]
  by (simp add: demo_env_def)

end
