(* ===== verification/Protected_Fields.thy ===== *)
theory Protected_Fields
  imports Secure_Fields
begin

text \<open>
  The fields the directory keeps protected: blind indexes
  (\<open>common/security/blind-index.util.ts\<close>), columns stored both as text and sealed (the helpers
  \<open>sealOptionalString\<close> and \<open>readProtectedString\<close> every directory service repeats), and the
  fields a partner may submit encrypted (\<open>encrypted-field.util.ts\<close>,
  \<open>encrypted-submission.service.ts\<close> and the \<open>readSensitiveInput\<close> of the handlers).  AES-GCM
  and base64 decoding are fields of the environment.
\<close>

section \<open>Blind indexes and sealed columns\<close>

definition buildBlindIndex :: "env \<Rightarrow> string \<Rightarrow> string \<Rightarrow> string" where
  "buildBlindIndex E value secret = hmac_base64url E secret value"

definition blindIndexOf :: "env \<Rightarrow> string \<Rightarrow> string" where
  "blindIndexOf E value = buildBlindIndex E value (BLIND_INDEX_MASTER_SECRET (cfg E))"

text \<open>\<open>n\<close> selects the random nonce of the seal.\<close>

definition sealOptionalString :: "env \<Rightarrow> nat \<Rightarrow> string option \<Rightarrow> string option" where
  "sealOptionalString E n value =
     (case value of
        None \<Rightarrow> None
      | Some v \<Rightarrow> (if v = [] then None
                   else Some (sealString E n v (DATA_ENCRYPTION_MASTER_SECRET (cfg E)))))"

definition readProtectedString :: "env \<Rightarrow> string option \<Rightarrow> string option \<Rightarrow> string option result" where
  "readProtectedString E plaintextValue ciphertextValue =
     (if \<not> falsy plaintextValue then Inr plaintextValue
      else case ciphertextValue of
        None \<Rightarrow> Inr None
      | Some c \<Rightarrow>
          (if c = [] then Inr None
           else map_sum id Some (openSealedString E c (DATA_ENCRYPTION_MASTER_SECRET (cfg E)))))"

section \<open>Encrypted fields\<close>

record EncryptedFieldEnvelope =
  ef_alg :: string
  ef_keyId :: string
  ef_iv :: string
  ef_ciphertext :: string
  ef_authTag :: "string option"
  ef_aad :: "string option"

definition gcmAuthTagBytes :: nat where
  "gcmAuthTagBytes = 16"

definition deriveEncryptedSubmissionKey :: "env \<Rightarrow> string \<Rightarrow> string \<Rightarrow> string" where
  "deriveEncryptedSubmissionKey E masterSecret keyId =
     sha256_hex E (''vervet:encrypted-submission:'' @ keyId @ '':'' @ masterSecret)"

definition decodeBase64 :: "env \<Rightarrow> string \<Rightarrow> nat list" where
  "decodeBase64 E value =
     base64_bytes E (map (\<lambda>c. if c = CHR ''-'' then CHR ''+'' else if c = CHR ''_'' then CHR ''/'' else c) value)"

definition openEncryptedField :: "env \<Rightarrow> EncryptedFieldEnvelope \<Rightarrow> string \<Rightarrow> string result" where
  "openEncryptedField E envelope masterSecret =
     (if ef_alg envelope \<noteq> ''AES-256-GCM'' then Inl (JsError ''Unsupported encrypted field algorithm.'')
      else
        let iv = decodeBase64 E (ef_iv envelope);
            ciphertextWithMaybeTag = decodeBase64 E (ef_ciphertext envelope);
            separate = \<not> falsy (ef_authTag envelope);
            cut = length ciphertextWithMaybeTag - gcmAuthTagBytes
        in
        if \<not> separate \<and> length ciphertextWithMaybeTag \<le> gcmAuthTagBytes
        then Inl (JsError ''Encrypted field ciphertext must include encrypted bytes plus auth tag.'')
        else
          let authTag = (if separate then decodeBase64 E (or_else (ef_authTag envelope) [])
                         else drop cut ciphertextWithMaybeTag);
              ciphertext = (if separate then ciphertextWithMaybeTag else take cut ciphertextWithMaybeTag)
          in
          if length iv \<noteq> 12 then Inl (JsError ''Encrypted field iv must be 12 bytes.'')
          else if length authTag \<noteq> gcmAuthTagBytes
          then Inl (JsError ''Encrypted field authTag must be 16 bytes.'')
          else
            (case aes_gcm_open E (deriveEncryptedSubmissionKey E masterSecret (ef_keyId envelope)) iv
                    (if falsy (ef_aad envelope) then None else ef_aad envelope) authTag ciphertext of
               None \<Rightarrow> Inl (JsError ''Unsupported state or unable to authenticate data'')
             | Some v \<Rightarrow> Inr v))"

section \<open>The submission policy of a partner\<close>

datatype EncryptedSubmissionKeyProvider =
    PLATFORM_MANAGED
  | EXTERNAL_KMS (customerKeyArn: string) (customerKeyStatus: "string option")

record PartnerEncryptedSubmissionPolicy =
  pp_enabled :: bool
  pp_keyProvider :: EncryptedSubmissionKeyProvider

definition resolveKeyProvider :: "bool \<Rightarrow> string option \<Rightarrow> string option \<Rightarrow> EncryptedSubmissionKeyProvider" where
  "resolveKeyProvider enterpriseByokEnabled keyArn keyStatus =
     (let arn = map_option js_trim keyArn; status = map_option js_trim keyStatus in
      if enterpriseByokEnabled \<and> \<not> falsy arn then EXTERNAL_KMS (or_else arn []) status
      else PLATFORM_MANAGED)"

definition getPartnerPolicy :: "ident \<Rightarrow> db \<Rightarrow> PartnerEncryptedSubmissionPolicy" where
  "getPartnerPolicy partnerId s =
     (case List.find (\<lambda>r. ss_partnerId r = partnerId) (securitySettings s) of
        None \<Rightarrow> \<lparr>pp_enabled = False, pp_keyProvider = resolveKeyProvider False None None\<rparr>
      | Some settings \<Rightarrow>
          \<lparr>pp_enabled = ss_enableEncryptedSubmission settings,
           pp_keyProvider = resolveKeyProvider (ss_enterpriseByokEnabled settings)
             (ss_customerKeyArn settings) (ss_customerKeyStatus settings)\<rparr>)"

definition getPlatformManagedSecret :: "env \<Rightarrow> string" where
  "getPlatformManagedSecret E = ENCRYPTED_SUBMISSION_MASTER_SECRET (cfg E)"

definition resolveExternalKmsSecret :: "env \<Rightarrow> string" where
  "resolveExternalKmsSecret E = getPlatformManagedSecret E"

definition resolveDecryptionSecret :: "env \<Rightarrow> EncryptedSubmissionKeyProvider \<Rightarrow> string" where
  "resolveDecryptionSecret E keyProvider =
     (case keyProvider of
        EXTERNAL_KMS _ _ \<Rightarrow> resolveExternalKmsSecret E
      | PLATFORM_MANAGED \<Rightarrow> getPlatformManagedSecret E)"

definition openField ::
    "env \<Rightarrow> EncryptedFieldEnvelope \<Rightarrow> PartnerEncryptedSubmissionPolicy \<Rightarrow> string \<Rightarrow> string result" where
  "openField E encryptedValue policy fieldLabel =
     (if \<not> pp_enabled policy
      then Inl (Forbidden ''Encrypted submission is not enabled for this partner.'')
      else case openEncryptedField E encryptedValue (resolveDecryptionSecret E (pp_keyProvider policy)) of
        Inl _ \<Rightarrow> Inl (BadRequest (fieldLabel @ '' encrypted payload could not be decrypted.''))
      | Inr v \<Rightarrow> Inr v)"

section \<open>Sensitive inputs\<close>

text \<open>The handlers take a sensitive field as text or encrypted, and never both.\<close>

definition readSensitiveInput ::
    "env \<Rightarrow> PartnerEncryptedSubmissionPolicy \<Rightarrow> string option \<Rightarrow> EncryptedFieldEnvelope option \<Rightarrow>
     string \<Rightarrow> nat option \<Rightarrow> string result" where
  "readSensitiveInput E policy plain encryptedValue fieldLabel maxLength =
     (let plainValue = trim_or_null plain in
      if plainValue \<noteq> None \<and> encryptedValue \<noteq> None
      then Inl (BadRequest (fieldLabel @ '' must be submitted either as plaintext or encrypted, not both.''))
      else if plainValue = None \<and> encryptedValue = None
      then Inl (BadRequest (fieldLabel @ '' is required.''))
      else
        case (case encryptedValue of
                Some e \<Rightarrow> openField E e policy fieldLabel
              | None \<Rightarrow> Inr (or_else plainValue [])) of
          Inl e \<Rightarrow> Inl e
        | Inr value \<Rightarrow>
            (if length (js_trim value) = 0 then Inl (BadRequest (fieldLabel @ '' is required.''))
             else let trimmedValue = js_trim value in
               case maxLength of
                 Some m \<Rightarrow>
                   if length trimmedValue > m
                   then Inl (BadRequest (fieldLabel @ '' must be at most '' @ show_nat m @ '' characters.''))
                   else Inr trimmedValue
               | None \<Rightarrow> Inr trimmedValue))"

definition describeSubmittedSensitiveValue ::
    "string option \<Rightarrow> EncryptedFieldEnvelope option \<Rightarrow> string \<Rightarrow> string \<Rightarrow> string" where
  "describeSubmittedSensitiveValue plainValue encryptedValue encryptedLabel missingLabel =
     (case trim_or_null plainValue of
        Some v \<Rightarrow> v
      | None \<Rightarrow> (if encryptedValue \<noteq> None then encryptedLabel else missingLabel))"

section \<open>Facts\<close>

lemma readSensitiveInput_plain:
  "js_trim v \<noteq> [] \<Longrightarrow> (\<forall>m. maxLength = Some m \<longrightarrow> length (js_trim v) \<le> m) \<Longrightarrow>
   readSensitiveInput E policy (Some v) None fieldLabel maxLength = Inr (js_trim v)"
  by (cases maxLength) (simp_all add: readSensitiveInput_def Let_def)

lemma readSensitiveInput_trimmed:
  "readSensitiveInput E policy plain enc fieldLabel maxLength = Inr v \<Longrightarrow>
     js_trim v = v \<and> v \<noteq> [] \<and> (\<forall>m. maxLength = Some m \<longrightarrow> length v \<le> m)"
  by (auto simp: readSensitiveInput_def Let_def split: sum.splits option.splits if_splits)

text \<open>A protected column reads back what was written to it.\<close>

lemma readProtectedString_plain [simp]:
  "v \<noteq> [] \<Longrightarrow> readProtectedString E (Some v) c = Inr (Some v)"
  by (simp add: readProtectedString_def falsy_def)

lemma readProtectedString_sealed:
  "gcm_contract E \<Longrightarrow> falsy p \<Longrightarrow>
   readProtectedString E p (sealOptionalString E n (Some v)) = Inr (if v = [] then None else Some v)"
proof (cases "v = []")
  case False
  have "sealString E n v (DATA_ENCRYPTION_MASTER_SECRET (cfg E)) \<noteq> []"
    by (simp add: sealString_def versionPrefix_def Let_def split: prod.splits)
  moreover assume "gcm_contract E" "falsy p"
  ultimately show ?thesis using False
    by (simp add: readProtectedString_def sealOptionalString_def open_sealed_text)
qed (simp add: readProtectedString_def sealOptionalString_def)

lemma openEncryptedField_Inr:
  assumes "ef_alg f = ''AES-256-GCM''" and "length (decodeBase64 E (ef_iv f)) = 12"
    and "length tag = 16" and "c \<noteq> []"
    and "if falsy (ef_authTag f) then decodeBase64 E (ef_ciphertext f) = c @ tag
         else decodeBase64 E (ef_ciphertext f) = c \<and> decodeBase64 E (or_else (ef_authTag f) []) = tag"
  shows "openEncryptedField E f secret =
     (case aes_gcm_open E (deriveEncryptedSubmissionKey E secret (ef_keyId f)) (decodeBase64 E (ef_iv f))
             (if falsy (ef_aad f) then None else ef_aad f) tag c of
        None \<Rightarrow> Inl (JsError ''Unsupported state or unable to authenticate data'') | Some v \<Rightarrow> Inr v)"
  using assms by (auto simp: openEncryptedField_def gcmAuthTagBytes_def Let_def split: if_splits)

text \<open>C38: encrypted submissions.  Suppose AES-GCM opens a ciphertext and 16 byte tag to \<open>v\<close> under the
  key the platform derives from the key id of the field, whether the field carries the tag on its own
  or appended to the ciphertext.  Then, for a partner that has encrypted submission enabled (with a
  key of its own or not), submitting the field encrypted is the same as submitting \<open>v\<close> as text:
  the same value or the same error about its length.  For every other partner it is refused, and
  submitting both forms is refused.\<close>

theorem encrypted_submission_same_as_plain:
  assumes "ef_alg f = ''AES-256-GCM''" and "length (decodeBase64 E (ef_iv f)) = 12"
    and "length tag = 16" and "c \<noteq> []"
    and "if falsy (ef_authTag f) then decodeBase64 E (ef_ciphertext f) = c @ tag
         else decodeBase64 E (ef_ciphertext f) = c \<and> decodeBase64 E (or_else (ef_authTag f) []) = tag"
    and "aes_gcm_open E (deriveEncryptedSubmissionKey E (ENCRYPTED_SUBMISSION_MASTER_SECRET (cfg E)) (ef_keyId f))
           (decodeBase64 E (ef_iv f)) (if falsy (ef_aad f) then None else ef_aad f) tag c = Some v"
  shows "let policy = getPartnerPolicy p s in
     (if pp_enabled policy
      then readSensitiveInput E policy None (Some f) l m = readSensitiveInput E policy (Some v) None l m
      else readSensitiveInput E policy None (Some f) l m =
             Inl (Forbidden ''Encrypted submission is not enabled for this partner.'')) \<and>
     (pp_enabled policy \<longleftrightarrow>
        (\<exists>r. List.find (\<lambda>r. ss_partnerId r = p) (securitySettings s) = Some r \<and> ss_enableEncryptedSubmission r)) \<and>
     (js_trim v \<noteq> [] \<longrightarrow> (\<exists>e. readSensitiveInput E policy (Some v) (Some f) l m = Inl (BadRequest e)))"
proof -
  let ?policy = "getPartnerPolicy p s"
  have secret: "resolveDecryptionSecret E k = ENCRYPTED_SUBMISSION_MASTER_SECRET (cfg E)" for k
    by (cases k) (simp_all add: resolveDecryptionSecret_def resolveExternalKmsSecret_def getPlatformManagedSecret_def)
  have opened: "openField E f ?policy l =
      (if pp_enabled ?policy then Inr v
       else Inl (Forbidden ''Encrypted submission is not enabled for this partner.''))"
    using assms(6) by (simp add: openField_def secret openEncryptedField_Inr [OF assms(1-5)])
  have "pp_enabled ?policy \<longleftrightarrow>
        (\<exists>r. List.find (\<lambda>r. ss_partnerId r = p) (securitySettings s) = Some r \<and> ss_enableEncryptedSubmission r)"
    by (auto simp: getPartnerPolicy_def split: option.splits)
  moreover have "pp_enabled ?policy \<Longrightarrow>
      readSensitiveInput E ?policy None (Some f) l m = readSensitiveInput E ?policy (Some v) None l m"
    using opened by (cases "js_trim v = []") (simp_all add: readSensitiveInput_def Let_def)
  moreover have "\<not> pp_enabled ?policy \<Longrightarrow> readSensitiveInput E ?policy None (Some f) l m =
             Inl (Forbidden ''Encrypted submission is not enabled for this partner.'')"
    using opened by (simp add: readSensitiveInput_def Let_def)
  moreover have "js_trim v \<noteq> [] \<Longrightarrow> readSensitiveInput E ?policy (Some v) (Some f) l m =
       Inl (BadRequest (l @ '' must be submitted either as plaintext or encrypted, not both.''))"
    by (simp add: readSensitiveInput_def Let_def)
  ultimately show ?thesis by (simp only: Let_def simp_thms split: if_split) blast
qed

definition demo_field :: EncryptedFieldEnvelope where
  "demo_field =
     \<lparr>ef_alg = ''AES-256-GCM'', ef_keyId = ''v1'', ef_iv = ''abcdefabcdef'',
      ef_ciphertext = ''bob0123456789abcdef'', ef_authTag = None, ef_aad = None\<rparr>"

definition demo_settings :: PartnerSecuritySettings where
  "demo_settings =
     \<lparr>ss_id = ''s'', ss_partnerId = ''p'', ss_sessionIdleTimeoutMinutes = 720, ss_enforceMfa = False,
      ss_ipAllowlist = [], ss_credentialRotationDays = 90, ss_defaultDisclosureMode = ''MASKED_LABEL'',
      ss_allowFullLabelDisclosure = False, ss_enableEncryptedSubmission = True,
      ss_rawVerificationRetentionMode = ''SHORT_RETENTION'', ss_rawVerificationRetentionHours = 24,
      ss_encryptAuditExports = True, ss_enterpriseByokEnabled = True,
      ss_customerKeyArn = Some ''arn:key'', ss_customerKeyStatus = None, ss_createdAt = 0\<rparr>"

theorem encrypted_submission_same_as_plain_witness:
  "readSensitiveInput demo_env (getPartnerPolicy ''p'' (empty_db\<lparr>securitySettings := [demo_settings]\<rparr>))
     None (Some demo_field) ''Address'' None = Inr ''bob'' \<and>
   readSensitiveInput demo_env (getPartnerPolicy ''p'' empty_db) None (Some demo_field) ''Address'' None =
     Inl (Forbidden ''Encrypted submission is not enabled for this partner.'')"
proof -
  let ?tag = "map of_char ''0123456789abcdef'' :: nat list"
  let ?c = "map of_char ''bob'' :: nat list"
  have field: "ef_alg demo_field = ''AES-256-GCM''" "falsy (ef_authTag demo_field)"
    by (simp_all add: demo_field_def falsy_def)
  have bytes: "length (decodeBase64 demo_env (ef_iv demo_field)) = 12" "length ?tag = 16" "?c \<noteq> []"
    "decodeBase64 demo_env (ef_ciphertext demo_field) = ?c @ ?tag"
    by code_simp+
  have opens: "aes_gcm_open demo_env k iv aad tag ?c = Some ''bob''" for k iv aad tag
    by (simp add: demo_env_def) code_simp
  have plain: "readSensitiveInput demo_env policy (Some ''bob'') None ''Address'' None = Inr ''bob''" for policy
    using readSensitiveInput_plain [of "''bob''" None] by (simp add: js_trim_no_ws is_ws_def)
  have layout: "if falsy (ef_authTag demo_field)
      then decodeBase64 demo_env (ef_ciphertext demo_field) = ?c @ ?tag
      else decodeBase64 demo_env (ef_ciphertext demo_field) = ?c \<and>
        decodeBase64 demo_env (or_else (ef_authTag demo_field) []) = ?tag"
    using field(2) bytes(4) by simp
  note same = encrypted_submission_same_as_plain
    [OF field(1) bytes(1-3) layout opens, of "''p''" _ "''Address''" None, unfolded Let_def]
  have enabled: "pp_enabled (getPartnerPolicy ''p'' (empty_db\<lparr>securitySettings := [demo_settings]\<rparr>))"
    and disabled: "\<not> pp_enabled (getPartnerPolicy ''p'' empty_db)"
    by (simp_all add: getPartnerPolicy_def empty_db_def demo_settings_def)
  show ?thesis
    using conjunct1 [OF same [of "empty_db\<lparr>securitySettings := [demo_settings]\<rparr>"]]
      conjunct1 [OF same [of empty_db]] enabled disabled plain by simp
qed

end
