(* ===== verification/Normalization.thy ===== *)
theory Normalization
  imports Vervet_Prelude Vervet_Enums
begin

text \<open>
  \<open>backend/src/common/normalization/normalization.service.ts\<close>: the canonical form of partner
  slugs, recipient identifiers, chains, assets, memos and addresses, and the look-alike test for
  addresses.  Every lookup of the network compares canonical forms, so what matters is that a
  canonical form is a fixed point of its normaliser (the locale \<open>canonical_form\<close>, interpreted
  on each normaliser) and that addresses keep their identity.
\<close>

section \<open>The normalisers\<close>

definition requireTrimmed :: "string \<Rightarrow> string \<Rightarrow> string result" where
  "requireTrimmed value fieldName =
     (let trimmedValue = js_trim value in
      if trimmedValue = [] then Inl (BadRequest (fieldName @ '' must not be empty.''))
      else Inr trimmedValue)"

definition chainAliases :: "(string \<times> string) list" where
  "chainAliases =
     [(''base mainnet'', ''base''),
      (''base-mainnet'', ''base''),
      (''bnb smart chain'', ''bnb-smart-chain''),
      (''bnb-smart-chain'', ''bnb-smart-chain''),
      (''binance smart chain'', ''bnb-smart-chain''),
      (''binance-smart-chain'', ''bnb-smart-chain''),
      (''bsc'', ''bnb-smart-chain''),
      (''bep20'', ''bnb-smart-chain'')]"

definition normalizePartnerSlug :: "string \<Rightarrow> string result" where
  "normalizePartnerSlug value = map_sum id js_lower (requireTrimmed value ''partnerSlug'')"

definition normalizeIdentifier :: "string \<Rightarrow> string result" where
  "normalizeIdentifier value = map_sum id js_lower (requireTrimmed value ''recipientIdentifier'')"

definition normalizeChain :: "string \<Rightarrow> string result" where
  "normalizeChain value =
     map_sum id (\<lambda>v. let n = js_lower v in or_else (map_of chainAliases n) n)
       (requireTrimmed value ''chain'')"

definition normalizeAssetCode :: "string \<Rightarrow> string result" where
  "normalizeAssetCode value = map_sum id js_lower (requireTrimmed value ''assetCode'')"

definition normalizeAssetSymbol :: "string \<Rightarrow> string result" where
  "normalizeAssetSymbol value = map_sum id js_upper (requireTrimmed value ''assetSymbol'')"

definition normalizeMemo :: "string option \<Rightarrow> string" where
  "normalizeMemo value = or_else (map_option js_trim value) []"

definition evmChains :: "string list" where
  "evmChains = [''ethereum'', ''base'', ''arbitrum'', ''optimism'', ''polygon'', ''bnb-smart-chain'']"

definition detectChainFamily :: "string \<Rightarrow> ChainFamily result" where
  "detectChainFamily chainSlug =
     map_sum id (\<lambda>n. if n \<in> set evmChains then ChainFamily_EVM
                     else if n = ''tron'' then ChainFamily_TRON
                     else if n = ''solana'' then ChainFamily_SOLANA
                     else ChainFamily_OTHER)
       (normalizeChain chainSlug)"

section \<open>Address formats\<close>

definition is_hex :: "char \<Rightarrow> bool" where
  "is_hex c = (let n = (of_char c :: nat) in
     (48 \<le> n \<and> n \<le> 57) \<or> (65 \<le> n \<and> n \<le> 70) \<or> (97 \<le> n \<and> n \<le> 102))"

text \<open>\<open>[1-9A-HJ-NP-Za-km-z]\<close>\<close>

definition is_base58 :: "char \<Rightarrow> bool" where
  "is_base58 c = (let n = (of_char c :: nat) in
     (49 \<le> n \<and> n \<le> 57) \<or> (65 \<le> n \<and> n \<le> 72) \<or> (74 \<le> n \<and> n \<le> 78) \<or>
     (80 \<le> n \<and> n \<le> 90) \<or> (97 \<le> n \<and> n \<le> 107) \<or> (109 \<le> n \<and> n \<le> 122))"

definition evmAddressPattern :: "string \<Rightarrow> bool" where
  "evmAddressPattern s \<longleftrightarrow> take 2 s = ''0x'' \<and> length s = 42 \<and> list_all is_hex (drop 2 s)"

definition tronAddressPattern :: "string \<Rightarrow> bool" where
  "tronAddressPattern s \<longleftrightarrow> take 1 s = ''T'' \<and> length s = 34 \<and> list_all is_base58 (drop 1 s)"

definition solanaAddressPattern :: "string \<Rightarrow> bool" where
  "solanaAddressPattern s \<longleftrightarrow> 32 \<le> length s \<and> length s \<le> 44 \<and> list_all is_base58 s"

definition normalizeAddress :: "string \<Rightarrow> string \<Rightarrow> string result" where
  "normalizeAddress chainSlug address =
     (case requireTrimmed address ''address'' of
        Inl e \<Rightarrow> Inl e
      | Inr trimmedAddress \<Rightarrow>
        (case detectChainFamily chainSlug of
           Inl e \<Rightarrow> Inl e
         | Inr ChainFamily_EVM \<Rightarrow>
             if evmAddressPattern trimmedAddress then Inr (js_lower trimmedAddress)
             else Inl (BadRequest ''Invalid EVM address format.'')
         | Inr ChainFamily_TRON \<Rightarrow>
             if tronAddressPattern trimmedAddress then Inr trimmedAddress
             else Inl (BadRequest ''Invalid Tron address format.'')
         | Inr ChainFamily_SOLANA \<Rightarrow>
             if solanaAddressPattern trimmedAddress then Inr trimmedAddress
             else Inl (BadRequest ''Invalid Solana address format.'')
         | Inr ChainFamily_OTHER \<Rightarrow> Inr trimmedAddress))"

definition normalizeContractAddress :: "string \<Rightarrow> string option \<Rightarrow> string result" where
  "normalizeContractAddress chainSlug contractAddress =
     (case contractAddress of
        None \<Rightarrow> Inr []
      | Some a \<Rightarrow> (if a = [] then Inr [] else normalizeAddress chainSlug a))"

section \<open>The look-alike test\<close>

text \<open>The loop of \<open>countSharedPrefixLength\<close>: it stops at the first difference or at an end.\<close>

fun countSharedPrefixLength :: "string \<Rightarrow> string \<Rightarrow> nat" where
  "countSharedPrefixLength (a # as) (b # bs) =
     (if a = b then Suc (countSharedPrefixLength as bs) else 0)"
| "countSharedPrefixLength _ _ = 0"

text \<open>
  The loop of \<open>countSharedSuffixLength\<close> at position \<open>index\<close>, reading \<open>left[left.length - 1 -
  index]\<close>; \<open>maxLength\<close> bounds it.
\<close>

function suffixLoop :: "string \<Rightarrow> string \<Rightarrow> nat \<Rightarrow> nat" where
  "suffixLoop left right index =
     (if index < min (length left) (length right) \<and>
         left ! (length left - 1 - index) = right ! (length right - 1 - index)
      then suffixLoop left right (index + 1) else index)"
  by pat_completeness auto
termination
  by (relation "measure (\<lambda>(l, r, i). min (length l) (length r) - i)") auto

declare suffixLoop.simps [simp del]

definition countSharedSuffixLength :: "string \<Rightarrow> string \<Rightarrow> nat" where
  "countSharedSuffixLength left right = suffixLoop left right 0"

definition addressLooksLikeReference :: "string \<Rightarrow> string \<Rightarrow> bool" where
  "addressLooksLikeReference candidateAddress referenceAddress =
     (let candidate = js_trim candidateAddress; reference = js_trim referenceAddress in
      if length candidate < 10 \<or> length reference < 10 \<or> candidate = reference then False
      else countSharedPrefixLength candidate reference \<ge> 4 \<and>
           countSharedSuffixLength candidate reference \<ge> 4)"

section \<open>Canonical forms\<close>

text \<open>
  What the services rely on when they store a value in canonical form and later look one up: a
  canonical form is left alone, and surrounding white space never matters.
\<close>

locale canonical_form =
  fixes norm :: "string \<Rightarrow> string result"
  assumes norm_idem: "norm v = Inr c \<Longrightarrow> norm c = Inr c"
    and norm_trim: "norm (js_trim v) = norm v"
begin

lemma norm_fixed_iff: "(\<exists>v. norm v = Inr c) \<longleftrightarrow> norm c = Inr c"
  using norm_idem by blast

text \<open>A value stored under its canonical form is found by exactly the spellings equal to it.\<close>

lemma norm_same_iff: "norm v = Inr c \<Longrightarrow> norm w = norm v \<longleftrightarrow> norm w = norm c"
  using norm_idem by simp

lemma norm_trim_Inr: "norm (js_trim v) = Inr c \<longleftrightarrow> norm v = Inr c"
  by (simp add: norm_trim)

end

lemma requireTrimmed_trim [simp]: "requireTrimmed (js_trim v) f = requireTrimmed v f"
  by (simp add: requireTrimmed_def)

lemma requireTrimmed_Inr:
  "requireTrimmed v f = Inr c \<longleftrightarrow> c = js_trim v \<and> js_trim v \<noteq> []"
  by (auto simp: requireTrimmed_def Let_def)

lemma map_sum_Inr: "map_sum id g r = Inr c \<longleftrightarrow> (\<exists>x. r = Inr x \<and> c = g x)"
  by (cases r) auto

text \<open>A normaliser that trims, then applies a case mapping.\<close>

lemma canonical_form_case:
  assumes idem: "\<And>s. g (g s) = g s" and trim: "\<And>s. js_trim (g s) = g (js_trim s)"
    and nonempty: "\<And>s. g s = [] \<longleftrightarrow> s = []"
  shows "canonical_form (\<lambda>v. map_sum id g (requireTrimmed v f))"
  by (unfold_locales)
     (auto simp: map_sum_Inr requireTrimmed_Inr idem trim nonempty)

interpretation slug_form: canonical_form normalizePartnerSlug
  unfolding normalizePartnerSlug_def [abs_def]
  by (rule canonical_form_case) (simp_all add: js_trim_lower)

interpretation identifier_form: canonical_form normalizeIdentifier
  unfolding normalizeIdentifier_def [abs_def]
  by (rule canonical_form_case) (simp_all add: js_trim_lower)

interpretation code_form: canonical_form normalizeAssetCode
  unfolding normalizeAssetCode_def [abs_def]
  by (rule canonical_form_case) (simp_all add: js_trim_lower)

interpretation symbol_form: canonical_form normalizeAssetSymbol
  unfolding normalizeAssetSymbol_def [abs_def]
  by (rule canonical_form_case) (simp_all add: js_trim_upper)

text \<open>For chains the alias table comes after the case mapping: its targets are canonical.\<close>

lemma aliases_canonical:
  "(k, v) \<in> set chainAliases \<Longrightarrow>
     js_trim v = v \<and> js_lower v = v \<and> v \<noteq> [] \<and> or_else (map_of chainAliases v) v = v"
  by (simp add: chainAliases_def) (elim disjE; simp; code_simp)

lemma normalizeChain_Inr:
  "normalizeChain v = Inr c \<longleftrightarrow>
     js_trim v \<noteq> [] \<and> c = or_else (map_of chainAliases (js_lower (js_trim v))) (js_lower (js_trim v))"
  by (auto simp: normalizeChain_def map_sum_Inr requireTrimmed_Inr Let_def)

interpretation chain_form: canonical_form normalizeChain
proof
  fix v c
  assume "normalizeChain v = Inr c"
  then have ne: "js_trim v \<noteq> []"
    and c: "c = or_else (map_of chainAliases (js_lower (js_trim v))) (js_lower (js_trim v))"
    by (simp_all add: normalizeChain_Inr)
  show "normalizeChain c = Inr c"
  proof (cases "map_of chainAliases (js_lower (js_trim v))")
    case None
    with c ne show ?thesis by (simp add: normalizeChain_Inr js_trim_lower)
  next
    case (Some a)
    with c aliases_canonical [OF map_of_SomeD [OF Some]] show ?thesis
      by (simp add: normalizeChain_Inr)
  qed
next
  fix v
  show "normalizeChain (js_trim v) = normalizeChain v"
    by (simp add: normalizeChain_def)
qed

section \<open>Addresses\<close>

lemma is_hex_lower: "is_hex c \<Longrightarrow> is_hex (to_lower_char c)"
  by (auto simp: is_hex_def of_char_to_lower is_upper_code_def Let_def)

lemma is_hex_not_ws: "is_hex c \<Longrightarrow> \<not> is_ws c"
  by (auto simp: is_hex_def is_ws_def Let_def)

lemma lower_0x: "map to_lower_char ''0x'' = ''0x''"
  by (simp add: to_lower_char_def is_upper_code_def)

lemma evmAddressPattern_lower: "evmAddressPattern s \<Longrightarrow> evmAddressPattern (js_lower s)"
  using lower_0x
  by (auto simp: evmAddressPattern_def js_lower_def list_all_iff is_hex_lower take_map drop_map
      simp del: list.map)

lemma detectChainFamily_normalizeChain:
  "normalizeChain c = Inr n \<Longrightarrow> detectChainFamily n = detectChainFamily c"
  by (simp add: detectChainFamily_def chain_form.norm_idem)

lemma normalizeAddress_EVM_Inr:
  "detectChainFamily c = Inr ChainFamily_EVM \<Longrightarrow>
     normalizeAddress c a = Inr n \<longleftrightarrow> evmAddressPattern (js_trim a) \<and> n = js_lower (js_trim a)"
  by (auto simp: normalizeAddress_def requireTrimmed_def Let_def evmAddressPattern_def
      split: if_splits)

interpretation address_form: canonical_form "normalizeAddress chain" for chain
proof
  fix v c
  assume "normalizeAddress chain v = Inr c"
  then show "normalizeAddress chain c = Inr c"
    by (auto simp: normalizeAddress_def requireTrimmed_Inr js_trim_lower evmAddressPattern_lower
        split: sum.splits ChainFamily.splits if_splits)
       (auto simp: requireTrimmed_def js_trim_lower Let_def split: if_splits)
next
  fix v
  show "normalizeAddress chain (js_trim v) = normalizeAddress chain v"
    by (simp add: normalizeAddress_def)
qed

section \<open>The look-alike test against its specification\<close>

lemma sharedPrefix_ge: "n \<le> countSharedPrefixLength a b \<longleftrightarrow>
    n \<le> length a \<and> n \<le> length b \<and> take n a = take n b"
proof (induction a b arbitrary: n rule: countSharedPrefixLength.induct)
  case (1 a as b bs)
  then show ?case by (cases n) auto
qed auto

lemma suffixLoop_start: "i \<le> suffixLoop l r i"
proof (induction l r i rule: suffixLoop.induct)
  case (1 l r i)
  then show ?case by (subst suffixLoop.simps) auto
qed

lemma suffixLoop_ge:
  "i \<le> n \<Longrightarrow> n \<le> suffixLoop l r i \<longleftrightarrow>
     (n = i \<or> (n \<le> length l \<and> n \<le> length r \<and>
       (\<forall>j. i \<le> j \<and> j < n \<longrightarrow> l ! (length l - 1 - j) = r ! (length r - 1 - j))))"
proof (induction l r i rule: suffixLoop.induct)
  case (1 l r i)
  let ?c = "i < min (length l) (length r) \<and> l ! (length l - 1 - i) = r ! (length r - 1 - i)"
  show ?case
  proof (cases ?c)
    case False
    then show ?thesis using "1.prems"
      by (subst suffixLoop.simps) (auto intro!: exI [of _ i])
  next
    case True
    then have unf: "suffixLoop l r i = suffixLoop l r (i + 1)"
      by (subst suffixLoop.simps) simp
    show ?thesis
    proof (cases "n = i")
      case eq: True
      from eq show ?thesis by (simp add: suffixLoop_start)
    next
      case False
      with "1.prems" have "i + 1 \<le> n" by simp
      with "1.IH" [OF True] unf have
        "n \<le> suffixLoop l r i \<longleftrightarrow> (n = i + 1 \<or> (n \<le> length l \<and> n \<le> length r \<and>
          (\<forall>j. i + 1 \<le> j \<and> j < n \<longrightarrow> l ! (length l - 1 - j) = r ! (length r - 1 - j))))"
        by simp
      also have "\<dots> \<longleftrightarrow> (n \<le> length l \<and> n \<le> length r \<and>
          (\<forall>j. i \<le> j \<and> j < n \<longrightarrow> l ! (length l - 1 - j) = r ! (length r - 1 - j)))"
      proof (rule iffI)
        assume h: "n = i + 1 \<or> (n \<le> length l \<and> n \<le> length r \<and>
          (\<forall>j. i + 1 \<le> j \<and> j < n \<longrightarrow> l ! (length l - 1 - j) = r ! (length r - 1 - j)))"
        have "l ! (length l - 1 - j) = r ! (length r - 1 - j)" if "i \<le> j" "j < n" for j
          using h that True by (cases "j = i") simp_all
        moreover have "n \<le> length l" "n \<le> length r" using h True by auto
        ultimately show "n \<le> length l \<and> n \<le> length r \<and>
          (\<forall>j. i \<le> j \<and> j < n \<longrightarrow> l ! (length l - 1 - j) = r ! (length r - 1 - j))" by blast
      next
        assume "n \<le> length l \<and> n \<le> length r \<and>
          (\<forall>j. i \<le> j \<and> j < n \<longrightarrow> l ! (length l - 1 - j) = r ! (length r - 1 - j))"
        then show "n = i + 1 \<or> (n \<le> length l \<and> n \<le> length r \<and>
          (\<forall>j. i + 1 \<le> j \<and> j < n \<longrightarrow> l ! (length l - 1 - j) = r ! (length r - 1 - j)))"
          by simp
      qed
      finally show ?thesis using False by simp
    qed
  qed
qed

lemma sharedSuffix_ge: "n \<le> countSharedSuffixLength a b \<longleftrightarrow>
    n \<le> length a \<and> n \<le> length b \<and> drop (length a - n) a = drop (length b - n) b"
proof -
  have "(\<forall>j<n. a ! (length a - 1 - j) = b ! (length b - 1 - j)) \<longleftrightarrow>
        drop (length a - n) a = drop (length b - n) b" if n: "n \<le> length a" "n \<le> length b"
  proof -
    have "drop (length a - n) a = drop (length b - n) b \<longleftrightarrow>
        (\<forall>i<n. a ! (length a - n + i) = b ! (length b - n + i))"
      using n by (auto simp: list_eq_iff_nth_eq)
    also have "\<dots> \<longleftrightarrow> (\<forall>j<n. a ! (length a - 1 - j) = b ! (length b - 1 - j))"
    proof safe
      fix j assume h: "\<forall>i<n. a ! (length a - n + i) = b ! (length b - n + i)" and "j < n"
      from h [rule_format, of "n - 1 - j"] \<open>j < n\<close> n
      show "a ! (length a - 1 - j) = b ! (length b - 1 - j)" by simp
    next
      fix i assume h: "\<forall>j<n. a ! (length a - 1 - j) = b ! (length b - 1 - j)" and "i < n"
      from h [rule_format, of "n - 1 - i"] \<open>i < n\<close> n
      show "a ! (length a - n + i) = b ! (length b - n + i)" by simp
    qed
    finally show ?thesis by simp
  qed
  then show ?thesis
    by (auto simp: countSharedSuffixLength_def suffixLoop_ge [of 0])
qed

section \<open>Properties\<close>

text \<open>Stored forms are fixed points.  Whatever text a client sends, the canonical form the
  services store (of a partner slug, an identifier, a chain, an asset code or symbol, and of an
  address on any chain) normalises to itself, so a value written in canonical form is found again
  by normalising any spelling of it; surrounding white space never changes the result.\<close>

theorem canonical_forms_fixed:
  "(\<forall>norm \<in> {normalizePartnerSlug, normalizeIdentifier, normalizeChain, normalizeAssetCode,
            normalizeAssetSymbol, normalizeAddress chain, normalizeContractAddress chain \<circ> Some}.
      case norm v of Inl _ \<Rightarrow> True | Inr c \<Rightarrow> norm c = Inr c) \<and>
   normalizeAddress chain (js_trim v) = normalizeAddress chain v \<and>
   normalizeChain (js_trim v) = normalizeChain v \<and>
   normalizeIdentifier (js_trim v) = normalizeIdentifier v"
proof -
  have contract: "case normalizeContractAddress chain (Some v) of Inl _ \<Rightarrow> True
      | Inr c \<Rightarrow> normalizeContractAddress chain (Some c) = Inr c"
    using address_form.norm_idem [of chain v]
    by (auto simp: normalizeContractAddress_def split: sum.splits)
  show ?thesis
    using contract slug_form.norm_idem identifier_form.norm_idem chain_form.norm_idem code_form.norm_idem
      symbol_form.norm_idem address_form.norm_idem
    by (auto simp: chain_form.norm_trim identifier_form.norm_trim address_form.norm_trim split: sum.splits)
qed

theorem canonical_forms_fixed_witness:
  "normalizeChain '' BSC '' = Inr ''bnb-smart-chain'' \<and>
   normalizeChain ''bnb-smart-chain'' = Inr ''bnb-smart-chain''"
proof -
  have "normalizeChain '' BSC '' = Inr ''bnb-smart-chain''" by code_simp
  with canonical_forms_fixed [of "''ethereum''" "'' BSC ''"] show ?thesis by simp
qed

text \<open>Addresses keep their identity.  Two addresses accepted on a chain get the same canonical
  form exactly when they are the same address: compared without regard to case on EVM chains and
  character by character on every other chain.  On an EVM chain an accepted address is \<open>0x\<close>
  followed by forty hexadecimal digits and its canonical form is lower case.\<close>

theorem normalized_address_identity:
  assumes "normalizeAddress chain a = Inr m" and "normalizeAddress chain b = Inr n"
  shows "(m = n \<longleftrightarrow>
            (if detectChainFamily chain = Inr ChainFamily_EVM
             then js_lower (js_trim a) = js_lower (js_trim b) else js_trim a = js_trim b)) \<and>
         (detectChainFamily chain = Inr ChainFamily_EVM \<longrightarrow>
            take 2 m = ''0x'' \<and> length m = 42 \<and> list_all is_hex (drop 2 m) \<and> js_lower m = m)"
proof (cases "detectChainFamily chain = Inr ChainFamily_EVM")
  case True
  with assms evmAddressPattern_lower [of "js_trim a"] show ?thesis
    by (auto simp: normalizeAddress_EVM_Inr evmAddressPattern_def)
next
  case False
  with assms show ?thesis
    by (auto simp: normalizeAddress_def requireTrimmed_Inr split: sum.splits ChainFamily.splits if_splits)
qed

definition demo_evm :: string where
  "demo_evm = ''0xABCDEFabcdef0123456789ABCDEFabcdef012345''"

theorem normalized_address_identity_witness:
  "js_lower (js_trim demo_evm) = js_lower (js_trim ('' '' @ js_lower demo_evm)) \<and>
   normalizeAddress ''base'' demo_evm = normalizeAddress ''base'' ('' '' @ js_lower demo_evm) \<and>
   is_ok (normalizeAddress ''base'' demo_evm)"
proof -
  have fam: "detectChainFamily ''base'' = Inr ChainFamily_EVM" by code_simp
  have a: "normalizeAddress ''base'' demo_evm = Inr (js_lower demo_evm)"
    "normalizeAddress ''base'' ('' '' @ js_lower demo_evm) = Inr (js_lower demo_evm)" by code_simp+
  from normalized_address_identity [OF a] fam
  have "js_lower (js_trim demo_evm) = js_lower (js_trim ('' '' @ js_lower demo_evm))" by simp
  then show ?thesis unfolding a by simp
qed

text \<open>The look-alike test, exactly.  A candidate is reported as looking like a reference if and
  only if, trimmed, both have at least ten characters, they differ, and they share their first four
  and their last four characters; the test is symmetric.\<close>

lemma addressLooksLikeReference_iff:
  "(addressLooksLikeReference a b \<longleftrightarrow>
     (let x = js_trim a; y = js_trim b in
      10 \<le> length x \<and> 10 \<le> length y \<and> x \<noteq> y \<and> take 4 x = take 4 y \<and>
      drop (length x - 4) x = drop (length y - 4) y)) \<and>
   (addressLooksLikeReference a b \<longleftrightarrow> addressLooksLikeReference b a)"
proof -
  have iff: "addressLooksLikeReference a b \<longleftrightarrow>
     (let x = js_trim a; y = js_trim b in
      10 \<le> length x \<and> 10 \<le> length y \<and> x \<noteq> y \<and> take 4 x = take 4 y \<and>
      drop (length x - 4) x = drop (length y - 4) y)" for a b
    by (auto simp: addressLooksLikeReference_def sharedPrefix_ge sharedSuffix_ge Let_def)
  show ?thesis unfolding iff [of a b] iff [of b a] by (auto simp: Let_def)
qed

end
