(* ===== verification/Recipients.thy ===== *)
theory Recipients
  imports Normalization Protected_Fields "HOL-Library.Product_Lexorder"
begin

text \<open>
  \<open>backend/src/recipients/recipients.service.ts\<close>: the recipients of a partner and their
  identifiers.  The queries of the resolver (\<open>findResolvableIdentifier\<close>,
  \<open>getActiveDestinations\<close>), the upserts attestations are ingested with, and the partner's own
  operations.  A relation Prisma includes is a lookup by id; foreign keys make it succeed.
\<close>

section \<open>Relations\<close>

definition recipient_row :: "db \<Rightarrow> ident \<Rightarrow> Recipient option" where
  "recipient_row s i = List.find (\<lambda>r. rc_id r = i) (recipients s)"

definition partner_row :: "db \<Rightarrow> ident \<Rightarrow> Partner option" where
  "partner_row s i = List.find (\<lambda>p. pa_id p = i) (partners s)"

definition recipient_owner :: "db \<Rightarrow> ident \<Rightarrow> (Recipient \<times> Partner) option" where
  "recipient_owner s i =
     (case recipient_row s i of
        None \<Rightarrow> None
      | Some r \<Rightarrow> map_option (Pair r) (partner_row s (rc_partnerId r)))"

type_synonym corridor = "AssetNetwork \<times> Asset \<times> Chain"

definition network_of :: "db \<Rightarrow> AssetNetwork \<Rightarrow> corridor option" where
  "network_of s n =
     (case List.find (\<lambda>a. as_id a = an_assetId n) (assets s) of
        None \<Rightarrow> None
      | Some a \<Rightarrow> map_option (\<lambda>c. (n, a, c)) (List.find (\<lambda>c. ch_id c = an_chainId n) (chains s)))"

definition destination_network :: "db \<Rightarrow> RecipientDestination \<Rightarrow> corridor option" where
  "destination_network s d =
     Option.bind (List.find (\<lambda>n. an_id n = de_assetNetworkId d) (assetNetworks s)) (network_of s)"

section \<open>The upserts of attestation ingestion\<close>

record UpsertRecipientParams =
  ur_partnerId :: ident
  ur_externalRecipientId :: string
  ur_displayName :: "string option"

record UpsertIdentifierParams =
  ui_partnerId :: ident
  ui_recipientId :: ident
  ui_kind :: IdentifierKind
  ui_value :: string

definition recipient_key :: "Recipient \<Rightarrow> ident \<times> string" where
  "recipient_key r = (rc_partnerId r, rc_externalRecipientId r)"

definition identifier_key :: "RecipientIdentifier \<Rightarrow> ident \<times> IdentifierKind \<times> string" where
  "identifier_key i = (id_partnerId i, id_kind i, id_normalizedValue i)"

definition recipient_update ::
    "time \<Rightarrow> string option \<Rightarrow> string option \<Rightarrow> Recipient \<Rightarrow> Recipient" where
  "recipient_update now displayName ciphertext r =
     r\<lparr>rc_displayName := displayName, rc_displayNameCiphertext := ciphertext,
       rc_status := RecipientStatus_ACTIVE, rc_updatedAt := now\<rparr>"

definition recipient_create ::
    "time \<Rightarrow> ident \<Rightarrow> ident \<Rightarrow> string \<Rightarrow> string option \<Rightarrow> string option \<Rightarrow> json option \<Rightarrow> Recipient" where
  "recipient_create now i partnerId externalRecipientId displayName ciphertext profile =
     \<lparr>rc_id = i, rc_partnerId = partnerId, rc_externalRecipientId = externalRecipientId,
      rc_displayName = displayName, rc_displayNameCiphertext = ciphertext,
      rc_status = RecipientStatus_ACTIVE, rc_profile = profile, rc_createdAt = now,
      rc_updatedAt = now\<rparr>"

text \<open>The row an upsert returns.\<close>

definition upserted :: "('a \<Rightarrow> bool) \<Rightarrow> 'a \<Rightarrow> 'a list \<Rightarrow> 'a" where
  "upserted P new rows = (case List.find P rows of None \<Rightarrow> new | Some r \<Rightarrow> r)"

definition upsertRecipient :: "env \<Rightarrow> time \<Rightarrow> UpsertRecipientParams \<Rightarrow> db \<Rightarrow> Recipient \<times> db" where
  "upsertRecipient E now params s =
     (let externalRecipientId = js_trim (ur_externalRecipientId params);
          displayName = trim_or_null (ur_displayName params);
          ciphertext = sealOptionalString E (nextId s) displayName;
          (i, s1) = fresh E (s\<lparr>nextId := Suc (nextId s)\<rparr>);
          new = recipient_create now i (ur_partnerId params) externalRecipientId displayName ciphertext None;
          same = (\<lambda>r. recipient_key r = (ur_partnerId params, externalRecipientId));
          rows = upsert_by same (recipient_update now displayName ciphertext) new (recipients s1)
      in (upserted same new rows, s1\<lparr>recipients := rows\<rparr>))"

definition identifier_update ::
    "time \<Rightarrow> ident \<Rightarrow> string \<Rightarrow> string option \<Rightarrow> string \<Rightarrow> RecipientIdentifier \<Rightarrow> RecipientIdentifier" where
  "identifier_update now recipientId rawValue ciphertext blindIndex i =
     i\<lparr>id_recipientId := recipientId, id_rawValue := rawValue, id_rawValueCiphertext := ciphertext,
       id_normalizedValueBlindIndex := Some blindIndex, id_status := IdentifierStatus_ACTIVE,
       id_visibility := IdentifierVisibility_RESOLVABLE, id_isPrimary := True,
       id_verifiedAt := Some now, id_updatedAt := now\<rparr>"

definition identifier_create ::
    "time \<Rightarrow> ident \<Rightarrow> ident \<Rightarrow> ident \<Rightarrow> IdentifierKind \<Rightarrow> string \<Rightarrow> string option \<Rightarrow> string \<Rightarrow> string \<Rightarrow>
     IdentifierVisibility \<Rightarrow> RecipientIdentifier" where
  "identifier_create now i recipientId partnerId kind rawValue ciphertext normalizedValue blindIndex visibility =
     \<lparr>id_id = i, id_recipientId = recipientId, id_partnerId = partnerId, id_kind = kind,
      id_rawValue = rawValue, id_rawValueCiphertext = ciphertext,
      id_normalizedValue = normalizedValue, id_normalizedValueBlindIndex = Some blindIndex,
      id_status = IdentifierStatus_ACTIVE, id_visibility = visibility, id_isPrimary = True,
      id_verifiedAt = Some now, id_expiresAt = None, id_createdAt = now, id_updatedAt = now\<rparr>"

definition upsertIdentifier ::
    "env \<Rightarrow> time \<Rightarrow> UpsertIdentifierParams \<Rightarrow> db \<Rightarrow> RecipientIdentifier result \<times> db" where
  "upsertIdentifier E now params s =
     (let rawValue = js_trim (ui_value params) in
      case normalizeIdentifier (ui_value params) of
        Inl e \<Rightarrow> (Inl e, s)
      | Inr normalizedValue \<Rightarrow>
          let blindIndex = blindIndexOf E normalizedValue;
              ciphertext = sealOptionalString E (nextId s) (Some rawValue);
              (i, s1) = fresh E (s\<lparr>nextId := Suc (nextId s)\<rparr>);
              new = identifier_create now i (ui_recipientId params) (ui_partnerId params) (ui_kind params)
                      rawValue ciphertext normalizedValue blindIndex IdentifierVisibility_RESOLVABLE;
              same = (\<lambda>r. identifier_key r = (ui_partnerId params, ui_kind params, normalizedValue));
              rows = upsert_by same
                (identifier_update now (ui_recipientId params) rawValue ciphertext blindIndex) new (identifiers s1)
          in (Inr (upserted same new rows), s1\<lparr>identifiers := rows\<rparr>))"

section \<open>The queries of the resolver\<close>

definition findResolvableIdentifier ::
    "env \<Rightarrow> string \<Rightarrow> db \<Rightarrow> (RecipientIdentifier \<times> Recipient \<times> Partner) option" where
  "findResolvableIdentifier E normalizedIdentifier s =
     (let blindIndex = blindIndexOf E normalizedIdentifier;
          matches = (\<lambda>i.
            (id_normalizedValueBlindIndex i = Some blindIndex \<or> id_normalizedValue i = normalizedIdentifier) \<and>
            id_status i = IdentifierStatus_ACTIVE \<and> id_visibility i = IdentifierVisibility_RESOLVABLE \<and>
            (case recipient_owner s (id_recipientId i) of
               None \<Rightarrow> False
             | Some (r, p) \<Rightarrow> rc_status r = RecipientStatus_ACTIVE \<and> pa_status p = PartnerStatus_ACTIVE))
      in case List.find matches (identifiers s) of
           None \<Rightarrow> None
         | Some i \<Rightarrow> map_option (Pair i) (recipient_owner s (id_recipientId i)))"

text \<open>\<open>expiresAt\<close> is null or later than now.\<close>

definition not_expired :: "time \<Rightarrow> time option \<Rightarrow> bool" where
  "not_expired now expiresAt = (case expiresAt of None \<Rightarrow> True | Some t \<Rightarrow> now < t)"

definition buildCurrentDestinationWhere :: "time \<Rightarrow> RecipientDestination \<Rightarrow> bool" where
  "buildCurrentDestinationWhere now d \<longleftrightarrow>
     de_status d = DestinationStatus_ACTIVE \<and> de_effectiveFrom d \<le> now \<and> not_expired now (de_expiresAt d)"

text \<open>\<open>[{ isDefault: 'desc' }, { lastAttestedAt: 'desc' }]\<close>\<close>

definition default_first :: "RecipientDestination list \<Rightarrow> RecipientDestination list" where
  "default_first ds = sort_key (\<lambda>d. (\<not> de_isDefault d, nulls_first_desc (de_lastAttestedAt d))) ds"

definition getActiveDestinations :: "ident \<Rightarrow> ident \<Rightarrow> time \<Rightarrow> db \<Rightarrow> RecipientDestination list" where
  "getActiveDestinations recipientId assetNetworkId now s =
     default_first (filter (\<lambda>d. de_recipientId d = recipientId \<and> de_assetNetworkId d = assetNetworkId \<and>
       de_status d = DestinationStatus_ACTIVE \<and> de_effectiveFrom d \<le> now \<and>
       not_expired now (de_expiresAt d)) (destinations s))"

section \<open>What a partner sees\<close>

definition network_json :: "corridor \<Rightarrow> json" where
  "network_json net =
     (case net of (n, a, c) \<Rightarrow>
        JObj [(''id'', JStr (an_id n)), (''assetCode'', JStr (as_code a)), (''assetSymbol'', JStr (as_symbol a)),
          (''chain'', JStr (ch_slug c)), (''chainDisplayName'', JStr (ch_displayName c)),
          (''tokenStandard'', JStr (name_TokenStandard (an_standard n))),
          (''contractAddress'', j_nullable (an_contractAddressRaw n))])"

text \<open>\<open>value || null\<close>\<close>

definition blank_null :: "string \<Rightarrow> json" where
  "blank_null v = (if v = [] then JNull else JStr v)"

definition serialize_identifier :: "env \<Rightarrow> RecipientIdentifier \<Rightarrow> json result" where
  "serialize_identifier E i =
     rbind (readProtectedString E (Some (id_rawValue i)) (id_rawValueCiphertext i)) (\<lambda>rawValue. Inr (JObj
       [(''id'', JStr (id_id i)), (''kind'', JStr (name_IdentifierKind (id_kind i))),
        (''rawValue'', j_nullable rawValue), (''normalizedValue'', JStr (id_normalizedValue i)),
        (''status'', JStr (name_IdentifierStatus (id_status i))),
        (''visibility'', JStr (name_IdentifierVisibility (id_visibility i))),
        (''isPrimary'', JBool (id_isPrimary i)), (''verifiedAt'', j_iso_nullable (id_verifiedAt i)),
        (''expiresAt'', j_iso_nullable (id_expiresAt i)), (''updatedAt'', j_time (id_updatedAt i))]))"

definition serialize_current_destination ::
    "env \<Rightarrow> RecipientDestination \<times> corridor \<Rightarrow> json result" where
  "serialize_current_destination E dn =
     (case dn of (d, net) \<Rightarrow>
        rbind (readProtectedString E (Some (de_addressRaw d)) (de_addressRawCiphertext d)) (\<lambda>address. Inr (JObj
          [(''id'', JStr (de_id d)), (''address'', j_nullable address), (''memo'', blank_null (de_memoValue d)),
           (''status'', JStr (name_DestinationStatus (de_status d))), (''isDefault'', JBool (de_isDefault d)),
           (''effectiveFrom'', j_time (de_effectiveFrom d)), (''expiresAt'', j_iso_nullable (de_expiresAt d)),
           (''lastAttestedAt'', j_iso_nullable (de_lastAttestedAt d)), (''assetNetwork'', network_json net)])))"

text \<open>The identifiers and current destinations \<open>include\<close> loads.\<close>

definition primary_first :: "RecipientIdentifier list \<Rightarrow> RecipientIdentifier list" where
  "primary_first is = sort_key (\<lambda>i. (\<not> id_isPrimary i, - id_updatedAt i)) is"

definition recipient_identifiers :: "db \<Rightarrow> ident \<Rightarrow> RecipientIdentifier list" where
  "recipient_identifiers s recipientId =
     primary_first (filter (\<lambda>i. id_recipientId i = recipientId) (identifiers s))"

definition with_network :: "db \<Rightarrow> RecipientDestination list \<Rightarrow> (RecipientDestination \<times> corridor) list" where
  "with_network s ds = List.map_filter (\<lambda>d. map_option (Pair d) (destination_network s d)) ds"

definition current_destinations :: "time \<Rightarrow> db \<Rightarrow> ident \<Rightarrow> (RecipientDestination \<times> corridor) list" where
  "current_destinations now s recipientId =
     with_network s (default_first (filter (\<lambda>d. de_recipientId d = recipientId \<and> buildCurrentDestinationWhere now d)
       (destinations s)))"

definition serializeRecipient :: "env \<Rightarrow> time \<Rightarrow> db \<Rightarrow> Recipient \<Rightarrow> (string \<times> json) list result" where
  "serializeRecipient E now s r =
     (let ds = current_destinations now s (rc_id r) in
      rbind (readProtectedString E (rc_displayName r) (rc_displayNameCiphertext r)) (\<lambda>displayName.
      rbind (results (map (serialize_identifier E) (recipient_identifiers s (rc_id r)))) (\<lambda>ids.
      rbind (results (map (serialize_current_destination E) ds)) (\<lambda>dests. Inr
        [(''id'', JStr (rc_id r)), (''externalRecipientId'', JStr (rc_externalRecipientId r)),
         (''displayName'', j_nullable displayName), (''status'', JStr (name_RecipientStatus (rc_status r))),
         (''profile'', or_else (rc_profile r) JNull), (''createdAt'', j_time (rc_createdAt r)),
         (''updatedAt'', j_time (rc_updatedAt r)), (''activeDestinationsCount'', JNum (int (length ds))),
         (''identifiers'', JArr ids), (''currentDestinations'', JArr dests)]))))"

record ListPartnerRecipientsParams =
  lr_limit :: nat
  lr_search :: "string option"
  lr_status :: "RecipientStatus option"

definition buildRecipientSearchWhere :: "env \<Rightarrow> string option \<Rightarrow> db \<Rightarrow> Recipient \<Rightarrow> bool" where
  "buildRecipientSearchWhere E search s r =
     (case trim_or_null search of
        None \<Rightarrow> True
      | Some trimmedSearch \<Rightarrow>
          let normalizedSearch = js_lower trimmedSearch in
          sql_contains E True trimmedSearch (rc_externalRecipientId r) \<or>
          (case rc_displayName r of None \<Rightarrow> False | Some n \<Rightarrow> sql_contains E True trimmedSearch n) \<or>
          (\<exists>i \<in> set (identifiers s). id_recipientId i = rc_id r \<and>
             (sql_contains E True trimmedSearch (id_rawValue i) \<or>
              sql_contains E False normalizedSearch (id_normalizedValue i))))"

definition listPartnerRecipients ::
    "env \<Rightarrow> time \<Rightarrow> ident \<Rightarrow> ListPartnerRecipientsParams \<Rightarrow> db \<Rightarrow> json list result" where
  "listPartnerRecipients E now partnerId params s =
     (let rows = take (lr_limit params)
            (sort_key (\<lambda>r. (- rc_updatedAt r, - rc_createdAt r))
              (filter (\<lambda>r. rc_partnerId r = partnerId \<and> filter_eq (lr_status params) (rc_status r) \<and>
                           buildRecipientSearchWhere E (lr_search params) s r) (recipients s)))
      in results (map (\<lambda>r. map_sum id JObj (serializeRecipient E now s r)) rows))"

definition attestation_summary :: "Attestation \<Rightarrow> json" where
  "attestation_summary a =
     JObj [(''id'', JStr (at_id a)), (''attestationType'', JStr (name_AttestationType (at_attestationType a))),
       (''verificationStatus'', JStr (name_VerificationStatus (at_verificationStatus a))),
       (''issuedAt'', j_time (at_issuedAt a)), (''expiresAt'', j_iso_nullable (at_expiresAt a)),
       (''revokedAt'', j_iso_nullable (at_revokedAt a))]"

definition request_summary :: "ResolutionRequest \<Rightarrow> json" where
  "request_summary r =
     JObj [(''id'', JStr (rr_id r)), (''queryType'', JStr (name_QueryType (rr_queryType r))),
       (''outcome'', JStr (name_ResolutionOutcome (rr_outcome r))),
       (''riskLevel'', JStr (name_RiskLevel (rr_riskLevel r))),
       (''recommendation'', j_nullable (rr_recommendation r)), (''requestedAt'', j_time (rr_requestedAt r))]"

definition getPartnerRecipient :: "env \<Rightarrow> time \<Rightarrow> ident \<Rightarrow> ident \<Rightarrow> db \<Rightarrow> json option result" where
  "getPartnerRecipient E now partnerId recipientId s =
     (case List.find (\<lambda>r. rc_id r = recipientId \<and> rc_partnerId r = partnerId) (recipients s) of
        None \<Rightarrow> Inr None
      | Some recipient \<Rightarrow>
          let recentAttestations = take 10 (order_desc at_issuedAt
                (filter (\<lambda>a. at_recipientId a = recipientId \<and> at_partnerId a = partnerId) (attestations s)));
              recentVerificationAttempts = take 10 (order_desc rr_requestedAt
                (filter (\<lambda>r. rr_resolvedRecipientId r = Some recipientId \<and> rr_requesterPartnerId r = Some partnerId)
                  (resolutionRequests s)))
          in rbind (serializeRecipient E now s recipient) (\<lambda>fields. Inr (Some (JObj (fields @
               [(''recentAttestations'', JArr (map attestation_summary recentAttestations)),
                (''recentVerificationAttempts'', JArr (map request_summary recentVerificationAttempts))])))))"

text \<open>Every write answers with the row read back.\<close>

definition reload :: "string \<Rightarrow> json option result \<Rightarrow> db \<Rightarrow> json result \<times> db" where
  "reload missing loaded s =
     (case loaded of
        Inl e \<Rightarrow> (Inl e, s)
      | Inr None \<Rightarrow> (Inl (NotFound missing), s)
      | Inr (Some j) \<Rightarrow> (Inr j, s))"

section \<open>The partner's operations\<close>

record CreateRecipientDto =
  cr_externalRecipientId :: string
  cr_displayName :: "string option"
  cr_primaryIdentifier :: string
  cr_identifierKind :: "IdentifierKind option"
  cr_visibility :: "IdentifierVisibility option"
  cr_profile :: "json option"

definition partner_identifier ::
    "env \<Rightarrow> ident \<Rightarrow> IdentifierKind \<Rightarrow> string \<Rightarrow> RecipientIdentifier \<Rightarrow> bool" where
  "partner_identifier E partnerId kind normalizedIdentifier i \<longleftrightarrow>
     id_partnerId i = partnerId \<and> id_kind i = kind \<and>
     (id_normalizedValueBlindIndex i = Some (blindIndexOf E normalizedIdentifier) \<or>
      id_normalizedValue i = normalizedIdentifier)"

text \<open>The transaction: the recipient, then its primary identifier.\<close>

definition insert_recipient ::
    "env \<Rightarrow> time \<Rightarrow> ident \<Rightarrow> CreateRecipientDto \<Rightarrow> string \<Rightarrow> db \<Rightarrow> ident \<times> db" where
  "insert_recipient E now partnerId dto normalizedIdentifier s =
     (let primaryIdentifier = js_trim (cr_primaryIdentifier dto);
          displayName = trim_or_null (cr_displayName dto);
          kind = or_else (cr_identifierKind dto) IdentifierKind_PARTNER_HANDLE;
          visibility = or_else (cr_visibility dto) IdentifierVisibility_RESOLVABLE;
          (i, s1) = fresh E (s\<lparr>nextId := Suc (nextId s)\<rparr>);
          recipient = recipient_create now i partnerId (js_trim (cr_externalRecipientId dto)) displayName
            (sealOptionalString E (nextId s) displayName) (cr_profile dto);
          (j, s2) = fresh E (s1\<lparr>recipients := recipients s1 @ [recipient], nextId := Suc (nextId s1)\<rparr>);
          identifier = identifier_create now j i partnerId kind primaryIdentifier
            (sealOptionalString E (nextId s1) (Some primaryIdentifier)) normalizedIdentifier
            (blindIndexOf E normalizedIdentifier) visibility
      in (i, s2\<lparr>identifiers := identifiers s2 @ [identifier]\<rparr>))"

definition createPartnerRecipient ::
    "env \<Rightarrow> time \<Rightarrow> ident \<Rightarrow> CreateRecipientDto \<Rightarrow> db \<Rightarrow> json result \<times> db" where
  "createPartnerRecipient E now partnerId dto s =
     (let externalRecipientId = js_trim (cr_externalRecipientId dto);
          primaryIdentifier = js_trim (cr_primaryIdentifier dto);
          kind = or_else (cr_identifierKind dto) IdentifierKind_PARTNER_HANDLE
      in
      if length externalRecipientId = 0 then (Inl (BadRequest ''Recipient identifier is required.''), s)
      else if length primaryIdentifier = 0 then (Inl (BadRequest ''Primary identifier is required.''), s)
      else if List.find (\<lambda>r. recipient_key r = (partnerId, externalRecipientId)) (recipients s) \<noteq> None
      then (Inl (Conflict (''Recipient '' @ quoted externalRecipientId @ '' already exists for this partner.'')), s)
      else
        case normalizeIdentifier primaryIdentifier of
          Inl e \<Rightarrow> (Inl e, s)
        | Inr normalizedIdentifier \<Rightarrow>
            if List.find (partner_identifier E partnerId kind normalizedIdentifier) (identifiers s) \<noteq> None
            then (Inl (Conflict (''Identifier '' @ quoted primaryIdentifier @
                    '' is already registered for this partner.'')), s)
            else
              let (i, s1) = insert_recipient E now partnerId dto normalizedIdentifier s in
              reload ''Created recipient could not be loaded.'' (getPartnerRecipient E now partnerId i s1) s1)"

record UpdateRecipientDto =
  up_displayName :: "string option"
  up_profile :: "json option"

definition recipient_changes ::
    "env \<Rightarrow> nat \<Rightarrow> time \<Rightarrow> UpdateRecipientDto \<Rightarrow> Recipient \<Rightarrow> Recipient" where
  "recipient_changes E n now dto r =
     (let r1 = (case up_displayName dto of
                  None \<Rightarrow> r
                | Some d \<Rightarrow> r\<lparr>rc_displayName := trim_or_null (Some d),
                              rc_displayNameCiphertext := sealOptionalString E n (trim_or_null (Some d))\<rparr>);
          r2 = (case up_profile dto of None \<Rightarrow> r1 | Some p \<Rightarrow> r1\<lparr>rc_profile := Some p\<rparr>)
      in r2\<lparr>rc_updatedAt := now\<rparr>)"

definition update_recipient :: "ident \<Rightarrow> (Recipient \<Rightarrow> Recipient) \<Rightarrow> db \<Rightarrow> db" where
  "update_recipient i f s = s\<lparr>recipients := update_where (\<lambda>r. rc_id r = i) f (recipients s)\<rparr>"

definition find_partner_recipient :: "ident \<Rightarrow> ident \<Rightarrow> db \<Rightarrow> Recipient option" where
  "find_partner_recipient partnerId recipientId s =
     List.find (\<lambda>r. rc_id r = recipientId \<and> rc_partnerId r = partnerId) (recipients s)"

definition updatePartnerRecipient ::
    "env \<Rightarrow> time \<Rightarrow> ident \<Rightarrow> ident \<Rightarrow> UpdateRecipientDto \<Rightarrow> db \<Rightarrow> json result \<times> db" where
  "updatePartnerRecipient E now partnerId recipientId dto s =
     (case find_partner_recipient partnerId recipientId s of
        None \<Rightarrow> (Inl (NotFound ''Recipient was not found for the partner.''), s)
      | Some existingRecipient \<Rightarrow>
          if up_displayName dto = None \<and> up_profile dto = None
          then (Inl (BadRequest ''At least one recipient field must be updated.''), s)
          else
            let s1 = update_recipient (rc_id existingRecipient) (recipient_changes E (nextId s) now dto)
                       (s\<lparr>nextId := Suc (nextId s)\<rparr>)
            in reload ''Updated recipient could not be loaded.''
                 (getPartnerRecipient E now partnerId recipientId s1) s1)"

definition disablePartnerRecipient ::
    "env \<Rightarrow> time \<Rightarrow> ident \<Rightarrow> ident \<Rightarrow> db \<Rightarrow> json result \<times> db" where
  "disablePartnerRecipient E now partnerId recipientId s =
     (case find_partner_recipient partnerId recipientId s of
        None \<Rightarrow> (Inl (NotFound ''Recipient was not found for the partner.''), s)
      | Some recipient \<Rightarrow>
          if rc_status recipient \<noteq> RecipientStatus_ACTIVE
          then (Inl (Conflict ''Recipient is already inactive.''), s)
          else
            let s1 = update_recipient (rc_id recipient)
                       (\<lambda>r. r\<lparr>rc_status := RecipientStatus_SUSPENDED, rc_updatedAt := now\<rparr>) s
            in reload ''Updated recipient could not be loaded.''
                 (getPartnerRecipient E now partnerId recipientId s1) s1)"

section \<open>Unique keys\<close>

text \<open>Both upserts write a row with the key asked for, so they meet the contract of a unique key.\<close>

interpretation recipient_upsert: keyed_upsert recipient_key k
    "recipient_update now d c" "recipient_create now i (fst k) (snd k) d c p"
  for k now d c i p
  by unfold_locales (simp_all add: recipient_key_def recipient_update_def recipient_create_def)

interpretation identifier_upsert: keyed_upsert identifier_key k "identifier_update now r v c b"
    "identifier_create now i r (fst k) (fst (snd k)) v c (snd (snd k)) b vis"
  for k now r v c b i vis
  by unfold_locales (simp_all add: identifier_key_def identifier_update_def identifier_create_def)

section \<open>The life of a recipient\<close>

lemma createPartnerRecipient_Inr:
  assumes "fst (createPartnerRecipient E now p dto s) = Inr j"
  obtains n where "normalizeIdentifier (js_trim (cr_primaryIdentifier dto)) = Inr n"
    "\<forall>r \<in> set (recipients s). recipient_key r \<noteq> (p, js_trim (cr_externalRecipientId dto))"
    "\<forall>i \<in> set (identifiers s). \<not> partner_identifier E p
       (or_else (cr_identifierKind dto) IdentifierKind_PARTNER_HANDLE) n i"
    "snd (createPartnerRecipient E now p dto s) = snd (insert_recipient E now p dto n s)"
proof -
  obtain n where n: "normalizeIdentifier (js_trim (cr_primaryIdentifier dto)) = Inr n"
    using assms by (auto simp: createPartnerRecipient_def Let_def split: if_splits sum.splits)
  show ?thesis
    by (rule that [of n])
      (use assms n in \<open>auto simp: createPartnerRecipient_def Let_def find_None_iff reload_def
         split: if_splits sum.splits option.splits prod.splits\<close>)
qed

lemma insert_recipient_tables:
  "insert_recipient E now p dto n s =
     (let i = cuid E (Suc (nextId s)); j = cuid E (Suc (Suc (Suc (nextId s))));
          d = trim_or_null (cr_displayName dto); v = js_trim (cr_primaryIdentifier dto) in
      (i, s\<lparr>recipients := recipients s @ [recipient_create now i p (js_trim (cr_externalRecipientId dto)) d
               (sealOptionalString E (nextId s) d) (cr_profile dto)],
            identifiers := identifiers s @ [identifier_create now j i p
               (or_else (cr_identifierKind dto) IdentifierKind_PARTNER_HANDLE) v
               (sealOptionalString E (Suc (Suc (nextId s))) (Some v)) n (blindIndexOf E n)
               (or_else (cr_visibility dto) IdentifierVisibility_RESOLVABLE)],
            nextId := Suc (Suc (Suc (Suc (nextId s))))\<rparr>))"
  by (simp add: insert_recipient_def fresh_def Let_def)

text \<open>The identifier that answers a lookup, when only one spells it.\<close>

definition spells :: "env \<Rightarrow> string \<Rightarrow> RecipientIdentifier \<Rightarrow> bool" where
  "spells E n i \<longleftrightarrow> id_normalizedValueBlindIndex i = Some (blindIndexOf E n) \<or> id_normalizedValue i = n"

lemma find_filtered:
  "List.find P xs = (case filter Q xs of [] \<Rightarrow> None | [y] \<Rightarrow> if P y then Some y else None | _ \<Rightarrow> List.find P xs)"
  if "\<And>x. P x \<Longrightarrow> Q x"
proof (cases "filter Q xs")
  case Nil
  then show ?thesis using that by (auto simp: filter_empty_conv find_None_iff)
next
  case (Cons y ys)
  have "filter P xs = filter P (filter Q xs)" using that by (auto intro: filter_cong)
  with Cons show ?thesis by (cases ys) (auto simp: find_filter_hd)
qed

lemma findResolvableIdentifier_one:
  assumes "filter (spells E n) (identifiers s) = [i]"
  shows "findResolvableIdentifier E n s =
     (case recipient_owner s (id_recipientId i) of
        None \<Rightarrow> None
      | Some (r, p) \<Rightarrow>
          if id_status i = IdentifierStatus_ACTIVE \<and> id_visibility i = IdentifierVisibility_RESOLVABLE \<and>
             rc_status r = RecipientStatus_ACTIVE \<and> pa_status p = PartnerStatus_ACTIVE
          then Some (i, r, p) else None)"
proof -
  have i: "spells E n i" 
  proof -
    have "i \<in> set (filter (spells E n) (identifiers s))" using assms by simp
    then show ?thesis by simp
  qed
  show ?thesis
    unfolding findResolvableIdentifier_def Let_def
    by (subst find_filtered [where Q = "spells E n"])
       (use i in \<open>auto simp: assms spells_def split: option.splits prod.splits\<close>)
qed

lemma recipient_row_update:
  assumes "\<And>r. rc_id (f r) = rc_id r"
  shows "recipient_row (update_recipient i f s) k =
           map_option (\<lambda>r. if k = i then f r else r) (recipient_row s k)"
proof -
  have "List.find (\<lambda>r. rc_id r = k) (update_where (\<lambda>r. rc_id r = i) f rows) =
        map_option (\<lambda>r. if k = i then f r else r) (List.find (\<lambda>r. rc_id r = k) rows)" for rows
    by (induction rows) (auto simp: assms)
  then show ?thesis by (simp add: recipient_row_def update_recipient_def)
qed

lemma find_partner_recipient_row:
  assumes "distinct (map rc_id (recipients s))"
  shows "find_partner_recipient p i s =
           (case recipient_row s i of None \<Rightarrow> None | Some r \<Rightarrow> if rc_partnerId r = p then Some r else None)"
proof -
  have "List.find (\<lambda>r. rc_id r = i \<and> rc_partnerId r = p) rows =
     (case List.find (\<lambda>r. rc_id r = i) rows of None \<Rightarrow> None | Some r \<Rightarrow> if rc_partnerId r = p then Some r else None)"
    if "distinct (map rc_id rows)" for rows
    using that by (induction rows) (auto simp: find_None_iff split: option.splits dest!: find_SomeD)
  with assms show ?thesis by (simp add: find_partner_recipient_def recipient_row_def)
qed

text \<open>The life of a recipient.  When a partner creates a recipient under an identifier no other
  row spells, every lookup of any spelling of that identifier finds the new recipient, provided it
  was created visible and the partner is active; creating it once more conflicts and changes
  nothing; only the partner that owns it can disable it, and once it does, the identifier no longer
  resolves.\<close>

theorem recipient_lifecycle:
  fixes s :: db and E :: env and now :: time and p :: ident and dto :: CreateRecipientDto
  defines "s1 \<equiv> snd (createPartnerRecipient E now p dto s)"
  assumes "fst (createPartnerRecipient E now p dto s) = Inr j"
    and "inj (cuid E)" and "drawn E (nextId s) (map rc_id (recipients s))"
    and "distinct (map rc_id (recipients s))"
    and "partner_row s p = Some P" and "pa_status P = PartnerStatus_ACTIVE"
    and "or_else (cr_visibility dto) IdentifierVisibility_RESOLVABLE = IdentifierVisibility_RESOLVABLE"
    and "normalizeIdentifier v = normalizeIdentifier (cr_primaryIdentifier dto)"
    and "normalizeIdentifier v = Inr n" and "filter (spells E n) (identifiers s) = []"
  shows "\<exists>i r. findResolvableIdentifier E n s1 = Some (i, r, P) \<and> rc_partnerId r = p \<and>
           rc_externalRecipientId r = js_trim (cr_externalRecipientId dto) \<and> id_normalizedValue i = n \<and>
           (\<exists>e. createPartnerRecipient E t p dto s1 = (Inl (Conflict e), s1)) \<and>
           (q \<noteq> p \<longrightarrow> disablePartnerRecipient E t q (rc_id r) s1 =
              (Inl (NotFound ''Recipient was not found for the partner.''), s1)) \<and>
           findResolvableIdentifier E n (snd (disablePartnerRecipient E t p (rc_id r) s1)) = None"
proof -
  obtain m where m: "normalizeIdentifier (js_trim (cr_primaryIdentifier dto)) = Inr m"
    and s1: "s1 = snd (insert_recipient E now p dto m s)"
    unfolding s1_def by (rule createPartnerRecipient_Inr [OF assms(2)])
  have "m = n" using m assms(9,10) by (simp add: identifier_form.norm_trim)
  define i where "i = cuid E (Suc (nextId s))"
  obtain r new where tables: "recipients s1 = recipients s @ [r]" "identifiers s1 = identifiers s @ [new]"
    "partners s1 = partners s" and r: "rc_id r = i" "rc_partnerId r = p" "rc_status r = RecipientStatus_ACTIVE"
    "rc_externalRecipientId r = js_trim (cr_externalRecipientId dto)"
    and new: "id_recipientId new = i" "id_normalizedValue new = n" "id_status new = IdentifierStatus_ACTIVE"
    "id_visibility new = IdentifierVisibility_RESOLVABLE"
    using assms(8) \<open>m = n\<close>
    by (auto simp: s1 insert_recipient_tables Let_def i_def recipient_create_def identifier_create_def)
  have fresh: "i \<notin> rc_id ` set (recipients s)"
    using drawn_fresh [OF assms(4,3), of "Suc (nextId s)"] by (simp add: i_def)
  have row: "recipient_row s1 i = Some r"
    using fresh r(1) find_appended [of i rc_id "recipients s" r] by (simp add: recipient_row_def tables)
  have owner: "recipient_owner s1 i = Some (r, P)"
    using row r(2) assms(6) by (simp add: recipient_owner_def partner_row_def tables)
  have dist: "distinct (map rc_id (recipients s1))" using assms(5) fresh r(1) by (simp add: tables)
  have one: "filter (spells E n) (identifiers s1) = [new]"
    using assms(11) new(2) by (simp add: tables spells_def)
  have found: "findResolvableIdentifier E n s1 = Some (new, r, P)"
    using findResolvableIdentifier_one [OF one] owner r(3) new assms(7) by simp
  have again: "\<exists>e. createPartnerRecipient E t p dto s1 = (Inl (Conflict e), s1)"
  proof -
    have "List.find (\<lambda>r. recipient_key r = (p, js_trim (cr_externalRecipientId dto))) (recipients s1) \<noteq> None"
      using r by (auto simp: find_None_iff tables recipient_key_def)
    moreover have "js_trim (cr_externalRecipientId dto) \<noteq> []" "js_trim (cr_primaryIdentifier dto) \<noteq> []"
      using assms(2) by (auto simp: createPartnerRecipient_def Let_def split: if_splits)
    ultimately show ?thesis by (simp add: createPartnerRecipient_def Let_def)
  qed
  have other: "q \<noteq> p \<Longrightarrow> disablePartnerRecipient E t q i s1 =
      (Inl (NotFound ''Recipient was not found for the partner.''), s1)"
    using find_partner_recipient_row [OF dist, of q i] row r(2) by (simp add: disablePartnerRecipient_def)
  let ?s2 = "snd (disablePartnerRecipient E t p i s1)"
  have s2: "?s2 = update_recipient i (\<lambda>r. r\<lparr>rc_status := RecipientStatus_SUSPENDED, rc_updatedAt := t\<rparr>) s1"
    using find_partner_recipient_row [OF dist, of p i] row r
    by (simp add: disablePartnerRecipient_def reload_def Let_def split: sum.splits option.splits)
  have "recipient_owner ?s2 i =
      Some (r\<lparr>rc_status := RecipientStatus_SUSPENDED, rc_updatedAt := t\<rparr>, P)"
    using row r(2) assms(6)
    by (simp add: s2 recipient_owner_def recipient_row_update)
       (simp add: update_recipient_def partner_row_def tables)
  moreover have "filter (spells E n) (identifiers ?s2) = [new]" using one by (simp add: s2 update_recipient_def)
  ultimately have "findResolvableIdentifier E n ?s2 = None"
    using findResolvableIdentifier_one [of E n ?s2 new] new(1) by simp
  with found again other r new show ?thesis by (intro exI [of _ new] exI [of _ r]) simp
qed

definition demo_partner_row :: Partner where
  "demo_partner_row =
     \<lparr>pa_id = ''p'', pa_slug = ''demo'', pa_displayName = ''Demo'', pa_partnerType = PartnerType_EXCHANGE,
      pa_status = PartnerStatus_ACTIVE, pa_pricingPlan = PartnerPricingPlan_GROWTH,
      pa_isDirectoryListed = True, pa_apiConsumerEnabled = True, pa_dataPartnerEnabled = True,
      pa_fullAttestationPartnerEnabled = True, pa_webhooksEnabled = True,
      pa_batchVerificationEnabled = True, pa_auditExportsEnabled = True, pa_sandboxEnabled = True,
      pa_productionEnabled = True, pa_onboardingStage = PartnerOnboardingStage_PRODUCTION_APPROVED,
      pa_feedHealthStatus = PartnerFeedHealthStatus_HEALTHY, pa_countryCode = None, pa_metadata = None,
      pa_createdAt = 0\<rparr>"

definition demo_directory :: db where
  "demo_directory = empty_db\<lparr>partners := [demo_partner_row]\<rparr>"

definition demo_recipient_dto :: CreateRecipientDto where
  "demo_recipient_dto =
     \<lparr>cr_externalRecipientId = ''user-1'', cr_displayName = None, cr_primaryIdentifier = ''bob'',
      cr_identifierKind = None, cr_visibility = None, cr_profile = None\<rparr>"

lemma demo_spelling: "js_trim ''bob'' = ''bob''" "normalizeIdentifier ''bob'' = Inr ''bob''"
    "js_trim ''user-1'' = ''user-1''"
  by code_simp+

lemma demo_recipient_created:
  "\<exists>j. fst (createPartnerRecipient demo_env 1 ''p'' demo_recipient_dto demo_directory) = Inr j"
  by (simp add: createPartnerRecipient_def demo_recipient_dto_def demo_spelling demo_directory_def
      empty_db_def insert_recipient_tables Let_def reload_def getPartnerRecipient_def serializeRecipient_def
      recipient_create_def identifier_create_def readProtectedString_def sealOptionalString_def falsy_def
      recipient_identifiers_def primary_first_def serialize_identifier_def current_destinations_def
      with_network_def default_first_def)

theorem recipient_lifecycle_witness:
  "\<exists>r. map_option fst (findResolvableIdentifier demo_env ''bob''
          (snd (createPartnerRecipient demo_env 1 ''p'' demo_recipient_dto demo_directory))) \<noteq> None \<and>
       findResolvableIdentifier demo_env ''bob'' (snd (disablePartnerRecipient demo_env 2 ''p'' r
          (snd (createPartnerRecipient demo_env 1 ''p'' demo_recipient_dto demo_directory)))) = None"
proof -
  obtain j where j: "fst (createPartnerRecipient demo_env 1 ''p'' demo_recipient_dto demo_directory) = Inr j"
    using demo_recipient_created ..
  have "drawn demo_env (nextId demo_directory) (map rc_id (recipients demo_directory))"
    "distinct (map rc_id (recipients demo_directory))"
    "partner_row demo_directory ''p'' = Some demo_partner_row"
    "pa_status demo_partner_row = PartnerStatus_ACTIVE"
    "or_else (cr_visibility demo_recipient_dto) IdentifierVisibility_RESOLVABLE = IdentifierVisibility_RESOLVABLE"
    "normalizeIdentifier ''bob'' = normalizeIdentifier (cr_primaryIdentifier demo_recipient_dto)"
    "normalizeIdentifier ''bob'' = Inr ''bob''"
    "filter (spells demo_env ''bob'') (identifiers demo_directory) = []"
    by (simp_all add: demo_directory_def empty_db_def partner_row_def demo_partner_row_def demo_recipient_dto_def
        demo_spelling)
  from recipient_lifecycle [OF j demo_cuid_inj this, of 2 "''q''"] show ?thesis
    by (elim exE conjE) (rule exI, simp)
qed

end
