(* ===== verification/Audit_Service.thy ===== *)
theory Audit_Service
  imports Secure_Fields
begin

text \<open>
  \<open>backend/src/audit/audit.service.ts\<close>: the append-only audit log every other service writes to,
  its partner-scoped queries, and audit exports (CSV or JSON, sealed at rest when the partner or
  the configuration asks for it, kept for seven days).
\<close>

section \<open>Recording\<close>

record RecordAuditEventInput =
  ai_actorType :: AuditActorType
  ai_actorPartnerId :: "ident option"
  ai_subjectPartnerId :: "ident option"
  ai_actorIdentifier :: "string option"
  ai_action :: string
  ai_entityType :: string
  ai_entityId :: ident
  ai_summary :: "string option"
  ai_metadata :: "json option"

definition audit_row :: "ident \<Rightarrow> time \<Rightarrow> RecordAuditEventInput \<Rightarrow> AuditLog" where
  "audit_row i now input =
     \<lparr>al_id = i, al_actorType = ai_actorType input, al_actorPartnerId = ai_actorPartnerId input,
      al_subjectPartnerId = ai_subjectPartnerId input,
      al_actorIdentifier = ai_actorIdentifier input, al_action = ai_action input,
      al_entityType = ai_entityType input, al_entityId = ai_entityId input,
      al_summary = ai_summary input, al_metadata = ai_metadata input, al_createdAt = now\<rparr>"

definition recordEvent :: "env \<Rightarrow> time \<Rightarrow> RecordAuditEventInput \<Rightarrow> db \<Rightarrow> db" where
  "recordEvent E now input s =
     (let (i, s1) = fresh E s in
      s1\<lparr>auditLogs := auditLogs s1 @ [audit_row i now input]\<rparr>)"

lemma recordEvent_eq:
  "recordEvent E now input s =
     s\<lparr>auditLogs := auditLogs s @ [audit_row (cuid E (nextId s)) now input], nextId := Suc (nextId s)\<rparr>"
  by (simp add: recordEvent_def fresh_def Let_def)

section \<open>Queries\<close>

text \<open>The columns every query selects.\<close>

record audit_view =
  av_id :: ident
  av_actorType :: AuditActorType
  av_actorIdentifier :: "string option"
  av_action :: string
  av_entityType :: string
  av_entityId :: ident
  av_summary :: "string option"
  av_metadata :: "json option"
  av_createdAt :: time

definition audit_view_of :: "AuditLog \<Rightarrow> audit_view" where
  "audit_view_of l =
     \<lparr>av_id = al_id l, av_actorType = al_actorType l, av_actorIdentifier = al_actorIdentifier l,
      av_action = al_action l, av_entityType = al_entityType l, av_entityId = al_entityId l,
      av_summary = al_summary l, av_metadata = al_metadata l, av_createdAt = al_createdAt l\<rparr>"

record ListPartnerAuditLogsParams =
  lp_action :: "string option"
  lp_actorType :: "AuditActorType option"
  lp_entityId :: "ident option"
  lp_entityType :: "string option"
  lp_limit :: nat

definition listPartnerAuditLogs :: "ident \<Rightarrow> ListPartnerAuditLogsParams \<Rightarrow> db \<Rightarrow> audit_view list" where
  "listPartnerAuditLogs partnerId params s =
     map audit_view_of (take (lp_limit params) (order_desc al_createdAt
       (filter (\<lambda>l. al_subjectPartnerId l = Some partnerId \<and>
                    filter_eq (lp_action params) (al_action l) \<and>
                    filter_eq (lp_actorType params) (al_actorType l) \<and>
                    filter_eq (lp_entityId params) (al_entityId l) \<and>
                    filter_eq (lp_entityType params) (al_entityType l)) (auditLogs s))))"

definition getPartnerAuditLog :: "ident \<Rightarrow> ident \<Rightarrow> db \<Rightarrow> audit_view option" where
  "getPartnerAuditLog partnerId eventId s =
     map_option audit_view_of
       (List.find (\<lambda>l. al_id l = eventId \<and> al_subjectPartnerId l = Some partnerId) (auditLogs s))"

section \<open>The CSV form\<close>

definition csv_quote :: "string \<Rightarrow> string" where
  "csv_quote value =
     [dquote] @ concat (map (\<lambda>c. if c = dquote then [dquote, dquote] else [c]) value) @ [dquote]"

definition csv_header :: "string list" where
  "csv_header = [''id'', ''actorType'', ''actorIdentifier'', ''action'', ''entityType'',
     ''entityId'', ''summary'', ''metadata'', ''createdAt'']"

definition csv_fields :: "audit_view \<Rightarrow> string list" where
  "csv_fields l =
     [av_id l, name_AuditActorType (av_actorType l), or_else (av_actorIdentifier l) [],
      av_action l, av_entityType l, av_entityId l, or_else (av_summary l) [],
      json_stringify (or_else (av_metadata l) JNull), toISOString (av_createdAt l)]"

definition serializeAuditLogsCsv :: "audit_view list \<Rightarrow> string" where
  "serializeAuditLogsCsv logs =
     (let rows = map (\<lambda>l. join_with '','' (map csv_quote (csv_fields l))) logs in
      join_with newline (join_with '','' csv_header # rows))"

definition audit_json :: "audit_view \<Rightarrow> json" where
  "audit_json l =
     JObj [(''id'', JStr (av_id l)), (''actorType'', JStr (name_AuditActorType (av_actorType l))),
       (''actorIdentifier'', j_nullable (av_actorIdentifier l)), (''action'', JStr (av_action l)),
       (''entityType'', JStr (av_entityType l)), (''entityId'', JStr (av_entityId l)),
       (''summary'', j_nullable (av_summary l)), (''metadata'', or_else (av_metadata l) JNull),
       (''createdAt'', j_time (av_createdAt l))]"

section \<open>Exports\<close>

record CreateAuditExportDto =
  cx_format :: AuditExportFormat
  cx_actorType :: "AuditActorType option"
  cx_action :: "string option"
  cx_entityType :: "string option"
  cx_dateFrom :: "string option"
  cx_dateTo :: "string option"

definition readAuditExportContent :: "env \<Rightarrow> string option \<Rightarrow> string option result" where
  "readAuditExportContent E value =
     (case value of
        None \<Rightarrow> Inr None
      | Some v \<Rightarrow>
          (if v = [] then Inr None
           else map_sum id Some (openSealedString E v (DATA_ENCRYPTION_MASTER_SECRET (cfg E)))))"

definition shouldEncryptAuditExports :: "env \<Rightarrow> ident \<Rightarrow> db \<Rightarrow> bool" where
  "shouldEncryptAuditExports E partnerId s =
     (case List.find (\<lambda>r. ss_partnerId r = partnerId) (securitySettings s) of
        Some partnerSettings \<Rightarrow> ss_encryptAuditExports partnerSettings
      | None \<Rightarrow> PARTNER_SECURITY_DEFAULT_ENCRYPT_AUDIT_EXPORTS (cfg E))"

text \<open>A truthy date string becomes a bound; a string that is no date makes the query fail.\<close>

definition date_bound :: "env \<Rightarrow> string option \<Rightarrow> time option result" where
  "date_bound E v =
     (if falsy v then Inr None
      else case parseDate E (or_else v []) of
        None \<Rightarrow> Inl (JsError ''Invalid Date'')
      | Some t \<Rightarrow> Inr (Some t))"

definition export_query ::
    "ident \<Rightarrow> CreateAuditExportDto \<Rightarrow> time option \<Rightarrow> time option \<Rightarrow> db \<Rightarrow> audit_view list" where
  "export_query partnerId dto dateFrom dateTo s =
     map audit_view_of (order_desc al_createdAt
       (filter (\<lambda>l. al_subjectPartnerId l = Some partnerId \<and>
                    filter_eq (cx_actorType dto) (al_actorType l) \<and>
                    filter_eq (map_option js_trim (cx_action dto)) (al_action l) \<and>
                    filter_eq (map_option js_trim (cx_entityType dto)) (al_entityType l) \<and>
                    (case dateFrom of None \<Rightarrow> True | Some t \<Rightarrow> t \<le> al_createdAt l) \<and>
                    (case dateTo of None \<Rightarrow> True | Some t \<Rightarrow> al_createdAt l \<le> t)) (auditLogs s)))"

definition export_filters :: "CreateAuditExportDto \<Rightarrow> json" where
  "export_filters dto =
     JObj [(''actorType'', j_nullable (map_option name_AuditActorType (cx_actorType dto))),
       (''action'', j_nullable (map_option js_trim (cx_action dto))),
       (''entityType'', j_nullable (map_option js_trim (cx_entityType dto))),
       (''dateFrom'', j_nullable (cx_dateFrom dto)), (''dateTo'', j_nullable (cx_dateTo dto))]"

definition export_text :: "AuditExportFormat \<Rightarrow> audit_view list \<Rightarrow> string" where
  "export_text fmt logs =
     (if fmt = AuditExportFormat_JSON then json_pretty 0 (JArr (map audit_json logs))
      else serializeAuditLogsCsv logs)"

text \<open>The columns a handler returns of an export, its content opened.\<close>

definition export_opened :: "env \<Rightarrow> AuditExportJob \<Rightarrow> AuditExportJob result" where
  "export_opened E x =
     map_sum id (\<lambda>c. x\<lparr>xj_downloadContent := c\<rparr>) (readAuditExportContent E (xj_downloadContent x))"

definition createAuditExport ::
    "env \<Rightarrow> time \<Rightarrow> ident \<Rightarrow> ident option \<Rightarrow> CreateAuditExportDto \<Rightarrow> db \<Rightarrow> AuditExportJob result \<times> db" where
  "createAuditExport E now partnerId requestedByUserId dto s =
     (case date_bound E (cx_dateFrom dto) of
        Inl e \<Rightarrow> (Inl e, s)
      | Inr dateFrom \<Rightarrow>
     (case date_bound E (cx_dateTo dto) of
        Inl e \<Rightarrow> (Inl e, s)
      | Inr dateTo \<Rightarrow>
        let auditLogs = export_query partnerId dto dateFrom dateTo s;
            serializedContent = export_text (cx_format dto) auditLogs;
            isJson = (cx_format dto = AuditExportFormat_JSON);
            fileExtension = (if isJson then ''json'' else ''csv'');
            mimeType = (if isJson then ''application/json'' else ''text/csv'');
            encryptAuditExports = shouldEncryptAuditExports E partnerId s;
            s1 = s\<lparr>nextId := Suc (nextId s)\<rparr>;
            storedContent =
              (if encryptAuditExports
               then sealString E (nextId s) serializedContent (DATA_ENCRYPTION_MASTER_SECRET (cfg E))
               else serializedContent);
            (i, s2) = fresh E s1;
            auditExport =
              \<lparr>xj_id = i, xj_partnerId = partnerId, xj_requestedByUserId = requestedByUserId,
               xj_format = cx_format dto, xj_status = AuditExportStatus_READY,
               xj_filters = Some (export_filters dto),
               xj_downloadFilename =
                 Some (''audit-export-'' @ take 10 (toISOString now) @ ''.'' @ fileExtension),
               xj_downloadMimeType = Some mimeType,
               xj_downloadContent = Some storedContent,
               xj_expiresAt = Some (now + 7 * 24 * 60 * 60 * 1000),
               xj_completedAt = Some now, xj_createdAt = now\<rparr>
        in (export_opened E auditExport, s2\<lparr>auditExports := auditExports s2 @ [auditExport]\<rparr>)))"

definition listPartnerAuditExports :: "env \<Rightarrow> ident \<Rightarrow> db \<Rightarrow> AuditExportJob list result" where
  "listPartnerAuditExports E partnerId s =
     results (map (export_opened E)
       (order_desc xj_createdAt (filter (\<lambda>x. xj_partnerId x = partnerId) (auditExports s))))"

definition expire_export :: "AuditExportJob \<Rightarrow> AuditExportJob" where
  "expire_export x = x\<lparr>xj_status := AuditExportStatus_EXPIRED, xj_downloadContent := None\<rparr>"

definition getAuditExportDownload ::
    "env \<Rightarrow> time \<Rightarrow> ident \<Rightarrow> ident \<Rightarrow> db \<Rightarrow> AuditExportJob result \<times> db" where
  "getAuditExportDownload E now partnerId exportId s =
     (case List.find (\<lambda>x. xj_id x = exportId \<and> xj_partnerId x = partnerId) (auditExports s) of
        None \<Rightarrow> (Inl (NotFound ''Audit export was not found for the partner.''), s)
      | Some auditExport \<Rightarrow>
          (if (case xj_expiresAt auditExport of None \<Rightarrow> False | Some t \<Rightarrow> t \<le> now)
           then (Inr (expire_export auditExport),
                 s\<lparr>auditExports := update_where (\<lambda>x. xj_id x = xj_id auditExport) expire_export
                                    (auditExports s)\<rparr>)
           else (export_opened E auditExport, s)))"

definition export_overdue :: "time \<Rightarrow> AuditExportJob \<Rightarrow> bool" where
  "export_overdue now x \<longleftrightarrow>
     (case xj_expiresAt x of None \<Rightarrow> False | Some t \<Rightarrow> t < now) \<and>
     xj_status x \<noteq> AuditExportStatus_EXPIRED"

definition cleanupExpiredAuditExports :: "time \<Rightarrow> db \<Rightarrow> nat \<times> db" where
  "cleanupExpiredAuditExports now s =
     (count_where (export_overdue now) (auditExports s),
      s\<lparr>auditExports := update_where (export_overdue now) expire_export (auditExports s)\<rparr>)"

section \<open>Frames\<close>

lemma recordEvent_auditLogs:
  "auditLogs (recordEvent E now input s) = auditLogs s @ [audit_row (cuid E (nextId s)) now input]"
  by (simp add: recordEvent_def fresh_def Let_def)

lemma recordEvent_nextId [simp]: "nextId (recordEvent E now input s) = Suc (nextId s)"
  by (simp add: recordEvent_def fresh_def Let_def)

lemma recordEvent_frame [simp, frame_simps]:
  "partners (recordEvent E now input s) = partners s"
  "securitySettings (recordEvent E now input s) = securitySettings s"
  "signingKeys (recordEvent E now input s) = signingKeys s"
  "recipients (recordEvent E now input s) = recipients s"
  "identifiers (recordEvent E now input s) = identifiers s"
  "chains (recordEvent E now input s) = chains s"
  "assets (recordEvent E now input s) = assets s"
  "assetNetworks (recordEvent E now input s) = assetNetworks s"
  "destinations (recordEvent E now input s) = destinations s"
  "attestations (recordEvent E now input s) = attestations s"
  "resolutionRequests (recordEvent E now input s) = resolutionRequests s"
  "batchRuns (recordEvent E now input s) = batchRuns s"
  "batchRows (recordEvent E now input s) = batchRows s"
  "riskSignals (recordEvent E now input s) = riskSignals s"
  "requestNonces (recordEvent E now input s) = requestNonces s"
  "webhookEndpoints (recordEvent E now input s) = webhookEndpoints s"
  "webhookDeliveries (recordEvent E now input s) = webhookDeliveries s"
  "auditExports (recordEvent E now input s) = auditExports s"
  "apiCredentials (recordEvent E now input s) = apiCredentials s"
  "partnerUsers (recordEvent E now input s) = partnerUsers s"
  "userInvites (recordEvent E now input s) = userInvites s"
  "dashboardSessions (recordEvent E now input s) = dashboardSessions s"
  "approvalRequests (recordEvent E now input s) = approvalRequests s"
  "requestedCorridors (recordEvent E now input s) = requestedCorridors s"
  "approvedCorridors (recordEvent E now input s) = approvedCorridors s"
  "productionCorridors (recordEvent E now input s) = productionCorridors s"
  by (simp_all add: recordEvent_def fresh_def Let_def)

section \<open>Reading a CSV export back\<close>

text \<open>
  A reader for the exports (RFC 4180): a field between quotes, in which two quotes stand for one,
  or an unquoted field up to the next comma or line break.  It is the specification of the writer.
\<close>

fun csv_quoted :: "string \<Rightarrow> string \<times> string" where
  "csv_quoted [] = ([], [])"
| "csv_quoted (c # cs) =
     (if c \<noteq> dquote then (case csv_quoted cs of (v, r) \<Rightarrow> (c # v, r))
      else (case cs of
        [] \<Rightarrow> ([], [])
      | d # ds \<Rightarrow>
          (if d = dquote then (case csv_quoted ds of (v, r) \<Rightarrow> (dquote # v, r)) else ([], cs))))"

definition csv_plain_char :: "char \<Rightarrow> bool" where
  "csv_plain_char c \<longleftrightarrow> c \<noteq> CHR '','' \<and> [c] \<noteq> newline"

definition csv_field :: "string \<Rightarrow> string \<times> string" where
  "csv_field s =
     (case s of
        [] \<Rightarrow> ([], [])
      | c # cs \<Rightarrow>
          (if c = dquote then csv_quoted cs
           else (takeWhile csv_plain_char s, dropWhile csv_plain_char s)))"

lemma csv_quoted_length: "length (snd (csv_quoted s)) \<le> length s"
proof (induction s rule: csv_quoted.induct)
  case (2 c cs)
  show ?case
  proof (cases "c = dquote")
    case False
    with "2.IH"(1) show ?thesis by (cases "csv_quoted cs") simp
  next
    case True
    show ?thesis
    proof (cases cs)
      case (Cons d ds)
      with "2.IH"(2) True show ?thesis by (cases "csv_quoted ds") (auto intro!: le_SucI)
    qed (simp add: True)
  qed
qed simp

lemma csv_field_length: "length (snd (csv_field s)) \<le> length s"
  using csv_quoted_length [of "tl s"]
  by (auto simp: csv_field_def length_dropWhile_le le_SucI split: list.splits)

lemma csv_field_shorter: "(v, c # cs) = csv_field s \<Longrightarrow> length cs < length s"
  using csv_field_length [of s] by (metis length_Cons less_eq_Suc_le snd_conv)

text \<open>Rows of fields; after a field comes a comma, or the row ends.\<close>

function csv_read :: "string \<Rightarrow> string list list" where
  "csv_read s =
     (case csv_field s of (v, r) \<Rightarrow>
       (case r of
          [] \<Rightarrow> [[v]]
        | c # cs \<Rightarrow>
            (if c = CHR '','' then
               (case csv_read cs of [] \<Rightarrow> [[v]] | row # rows \<Rightarrow> (v # row) # rows)
             else [v] # csv_read cs)))"
  by pat_completeness auto
termination
  by (relation "measure length") (auto dest: csv_field_shorter)

declare csv_read.simps [simp del]

text \<open>\<open>csv_token t v\<close>: the text \<open>t\<close>, before a separator or the end, reads as the field \<open>v\<close>.\<close>

definition csv_token :: "string \<Rightarrow> string \<Rightarrow> bool" where
  "csv_token t v \<longleftrightarrow>
     (\<forall>r. r = [] \<or> hd r = CHR '','' \<or> [hd r] = newline \<longrightarrow> csv_field (t @ r) = (v, r))"

lemma csv_quoted_escape:
  "r = [] \<or> hd r \<noteq> dquote \<Longrightarrow>
   csv_quoted (concat (map (\<lambda>c. if c = dquote then [dquote, dquote] else [c]) v) @ dquote # r) = (v, r)"
  by (induction v) (auto split: list.splits)

lemma separators_not_quote: "CHR '','' \<noteq> dquote" "[c] = newline \<Longrightarrow> c \<noteq> dquote"
  by (auto simp: dquote_def newline_def)

lemma csv_quote_token: "csv_token (csv_quote v) v"
  unfolding csv_token_def
proof (intro allI impI)
  fix r :: string assume "r = [] \<or> hd r = CHR '','' \<or> [hd r] = newline"
  then have "r = [] \<or> hd r \<noteq> dquote" using separators_not_quote by auto
  from csv_quoted_escape [OF this, of v]
  show "csv_field (csv_quote v @ r) = (v, r)"
    by (simp add: csv_field_def csv_quote_def)
qed

lemma takeWhile_plain:
  "\<lbrakk>\<forall>c \<in> set t. P c; r = [] \<or> \<not> P (hd r)\<rbrakk> \<Longrightarrow> takeWhile P (t @ r) = t \<and> dropWhile P (t @ r) = r"
  by (cases r) (auto simp: takeWhile_append2 dropWhile_append2)

lemma csv_plain_token:
  assumes "t \<noteq> []" "\<forall>c \<in> set t. csv_plain_char c \<and> c \<noteq> dquote"
  shows "csv_token t t"
  unfolding csv_token_def
proof (intro allI impI)
  fix r :: string assume "r = [] \<or> hd r = CHR '','' \<or> [hd r] = newline"
  then have "r = [] \<or> \<not> csv_plain_char (hd r)" by (auto simp: csv_plain_char_def)
  with takeWhile_plain [of t csv_plain_char r] assms
  show "csv_field (t @ r) = (t, r)"
    by (cases t) (auto simp: csv_field_def)
qed

lemma csv_read_row:
  assumes "ts \<noteq> []" "list_all2 csv_token ts vs"
    "rest = [] \<or> (\<exists>c cs. rest = c # cs \<and> [c] = newline)"
  shows "csv_read (join_with '','' ts @ rest) =
           (case rest of [] \<Rightarrow> [vs] | c # cs \<Rightarrow> vs # csv_read cs)"
  using assms(2,1)
proof (induction ts vs rule: list_all2_induct)
  case Nil
  then show ?case by simp
next
  case (Cons t ts v vs)
  show ?case
  proof (cases ts)
    case Nil
    then have "vs = []" using Cons.hyps by simp
    moreover have "csv_field (t @ rest) = (v, rest)"
      using Cons.hyps(1) assms(3) by (auto simp: csv_token_def)
    ultimately show ?thesis
      using Nil assms(3) by (subst csv_read.simps) (auto simp: newline_def)
  next
    case (Cons u us)
    let ?r = "CHR '','' # join_with '','' ts @ rest"
    have "csv_field (t @ ?r) = (v, ?r)"
      using Cons.hyps(1) by (simp add: csv_token_def)
    moreover have "join_with '','' (t # ts) @ rest = t @ ?r" using Cons by simp
    ultimately have "csv_read (join_with '','' (t # ts) @ rest) =
        (case csv_read (join_with '','' ts @ rest) of [] \<Rightarrow> [[v]] | row # rows \<Rightarrow> (v # row) # rows)"
      by (subst csv_read.simps) simp
    with Cons.IH Cons show ?thesis by (auto split: list.splits)
  qed
qed

lemma csv_read_document:
  assumes "list_all2 (\<lambda>ts vs. ts \<noteq> [] \<and> list_all2 csv_token ts vs) rows vss" "rows \<noteq> []"
  shows "csv_read (join_with newline (map (join_with '','') rows)) = vss"
  using assms
proof (induction rows vss rule: list_all2_induct)
  case Nil
  then show ?case by simp
next
  case (Cons ts rows vs vss)
  show ?case
  proof (cases rows)
    case Nil
    with Cons.hyps csv_read_row [of ts vs "[]"] show ?thesis by simp
  next
    case (Cons us uss)
    let ?r = "join_with newline (map (join_with '','') rows)"
    have "csv_read (join_with '','' ts @ newline @ ?r) = vs # csv_read ?r"
      using csv_read_row [of ts vs "newline @ ?r"] Cons.hyps(1) by (simp add: newline_def)
    with Cons.IH Cons show ?thesis by simp
  qed
qed

text \<open>C39: CSV exports are faithful.  Reading the CSV text of an export back gives the header row
  and then, entry by entry and in order, exactly the exported fields, whatever quotes, commas or
  line breaks the actor, the summary or the metadata contain.\<close>

theorem csv_export_roundtrip:
  "csv_read (serializeAuditLogsCsv logs) = csv_header # map csv_fields logs"
proof -
  let ?rows = "csv_header # map (\<lambda>l. map csv_quote (csv_fields l)) logs"
  have header: "list_all2 csv_token csv_header csv_header"
    by (simp add: csv_header_def) (intro conjI csv_plain_token; simp add: csv_plain_char_def newline_def dquote_def)
  have row: "list_all2 csv_token (map csv_quote vs) vs" for vs
    by (simp add: list_all2_conv_all_nth csv_quote_token)
  have "list_all2 (\<lambda>ts vs. ts \<noteq> [] \<and> list_all2 csv_token ts vs) ?rows
          (csv_header # map csv_fields logs)"
  proof -
    have "csv_header \<noteq> []" by (simp add: csv_header_def)
    moreover have "map csv_quote (csv_fields l) \<noteq> []" for l by (simp add: csv_fields_def)
    ultimately show ?thesis using header row by (simp add: list.rel_map list_all2_same)
  qed
  then have "csv_read (join_with newline (map (join_with '','') ?rows)) =
          csv_header # map csv_fields logs"
    by (rule csv_read_document) simp
  then show ?thesis by (simp add: serializeAuditLogsCsv_def comp_def Let_def)
qed

section \<open>The life of an export\<close>

lemma join_with_starts: "js_starts_with p x \<Longrightarrow> js_starts_with p (join_with sep (x # xs))"
  by (cases xs) (auto simp: js_starts_with_iff)

lemma export_text_open: "export_text fmt logs \<noteq> [] \<and> \<not> isSealedValue (export_text fmt logs)"
proof (cases "fmt = AuditExportFormat_JSON")
  case True
  then show ?thesis
    by (simp add: export_text_def json_block_def isSealedValue_def versionPrefix_def js_starts_with_def)
next
  case False
  have "js_starts_with ''id,'' (serializeAuditLogsCsv logs)"
    unfolding serializeAuditLogsCsv_def Let_def
    by (rule join_with_starts) (simp add: csv_header_def js_starts_with_def)
  with False show ?thesis
    by (auto simp: export_text_def isSealedValue_def versionPrefix_def js_starts_with_iff)
qed

lemma openSealed_export:
  assumes "gcm_contract E"
  shows "readAuditExportContent E (Some
           (if b then sealString E n (export_text fmt logs) (DATA_ENCRYPTION_MASTER_SECRET (cfg E))
            else export_text fmt logs)) = Inr (Some (export_text fmt logs))"
proof -
  have "sealString E n (export_text fmt logs) (DATA_ENCRYPTION_MASTER_SECRET (cfg E)) \<noteq> []"
    using isSealedValue_seal [of E n "export_text fmt logs" "DATA_ENCRYPTION_MASTER_SECRET (cfg E)"]
    by (auto simp: isSealedValue_def versionPrefix_def js_starts_with_def)
  with open_sealed_text [OF assms] export_text_open show ?thesis
    by (simp add: readAuditExportContent_def openSealedString_plain)
qed

text \<open>What a successful \<open>createAuditExport\<close> stored and returned.\<close>

lemma createAuditExport_Inr:
  assumes "createAuditExport E now p u dto s = (Inr x, s')" and gcm: "gcm_contract E"
  obtains dateFrom dateTo stored where
    "date_bound E (cx_dateFrom dto) = Inr dateFrom" "date_bound E (cx_dateTo dto) = Inr dateTo"
    "xj_downloadContent x = Some (export_text (cx_format dto) (export_query p dto dateFrom dateTo s))"
    "export_opened E stored = Inr x" "auditExports s' = auditExports s @ [stored]"
    "xj_id stored = cuid E (Suc (nextId s))" "xj_id x = xj_id stored" "xj_partnerId stored = p"
    "xj_expiresAt stored = Some (now + 604800000)"
proof -
  obtain dateFrom dateTo where d: "date_bound E (cx_dateFrom dto) = Inr dateFrom"
    "date_bound E (cx_dateTo dto) = Inr dateTo"
    using assms(1) by (auto simp: createAuditExport_def split: sum.splits)
  note o = openSealed_export [OF gcm, of "shouldEncryptAuditExports E p s" "nextId s" "cx_format dto"
      "export_query p dto dateFrom dateTo s"]
  show ?thesis
    by (rule that [OF d, of "last (auditExports s')"])
       (use assms(1) d o in \<open>auto simp: createAuditExport_def Let_def fresh_def export_opened_def\<close>)
qed

lemma createAuditExport_ok:
  assumes "gcm_contract E" "falsy (cx_dateFrom dto)" "falsy (cx_dateTo dto)"
  shows "\<exists>x s'. createAuditExport E now p u dto s = (Inr x, s')"
  using openSealed_export [OF assms(1), of "shouldEncryptAuditExports E p s" "nextId s"
      "cx_format dto" "export_query p dto None None s"] assms(2,3)
  by (simp add: createAuditExport_def date_bound_def Let_def fresh_def export_opened_def)

text \<open>The life of an audit export.  The partner who created it downloads, until seven days
  have passed, exactly the text of its matching log entries, whether it was sealed at rest or not;
  from then on the download is an expired job without content, and the stored content is erased;
  another partner never finds it.\<close>

theorem export_lifecycle:
  assumes "createAuditExport E now p u dto s = (Inr x, s')"
    and "gcm_contract E" and "inj (cuid E)"
    and "drawn E (nextId s) (map xj_id (auditExports s))"
  shows "(\<exists>dateFrom dateTo. xj_downloadContent x =
             Some (export_text (cx_format dto) (export_query p dto dateFrom dateTo s))) \<and>
         (\<forall>t < now + 604800000. getAuditExportDownload E t p (xj_id x) s' = (Inr x, s')) \<and>
         (\<forall>t \<ge> now + 604800000. \<exists>y s''. getAuditExportDownload E t p (xj_id x) s' = (Inr y, s'') \<and>
             xj_status y = AuditExportStatus_EXPIRED \<and> xj_downloadContent y = None \<and>
             (\<forall>row \<in> set (auditExports s''). xj_id row = xj_id x \<longrightarrow> xj_downloadContent row = None)) \<and>
         (\<forall>t q. q \<noteq> p \<longrightarrow> \<not> is_ok (fst (getAuditExportDownload E t q (xj_id x) s')))"
proof -
  obtain dateFrom dateTo stored where x:
    "xj_downloadContent x = Some (export_text (cx_format dto) (export_query p dto dateFrom dateTo s))"
    "export_opened E stored = Inr x" "auditExports s' = auditExports s @ [stored]"
    "xj_id stored = cuid E (Suc (nextId s))" "xj_id x = xj_id stored" "xj_partnerId stored = p"
    "xj_expiresAt stored = Some (now + 604800000)"
    by (rule createAuditExport_Inr [OF assms(1,2)])
  have new: "xj_id r \<noteq> xj_id stored" if "r \<in> set (auditExports s)" for r
    using drawn_fresh [OF assms(4,3), of "Suc (nextId s)"] that x(4) by (auto simp: rev_image_eqI)
  have find: "List.find (\<lambda>r. xj_id r = xj_id stored \<and> xj_partnerId r = q) (auditExports s') =
                (if q = p then Some stored else None)" for q
  proof -
    have "List.find (\<lambda>r. xj_id r = xj_id stored \<and> xj_partnerId r = q) (auditExports s) = None"
      using new by (auto simp: find_None_iff)
    with x(3,6) show ?thesis by (simp add: find_append)
  qed
  have erased: "xj_downloadContent row = None"
    if "row \<in> set (update_where (\<lambda>r. xj_id r = xj_id stored) expire_export (auditExports s'))"
      "xj_id row = xj_id stored" for row
    using that by (auto simp: set_update_where expire_export_def)
  show ?thesis
    using x find erased by (auto simp: getAuditExportDownload_def expire_export_def)
qed

definition demo_export :: CreateAuditExportDto where
  "demo_export =
     \<lparr>cx_format = AuditExportFormat_CSV, cx_actorType = None, cx_action = Some '' a.b '',
      cx_entityType = None, cx_dateFrom = None, cx_dateTo = None\<rparr>"

definition demo_event :: RecordAuditEventInput where
  "demo_event =
     \<lparr>ai_actorType = AuditActorType_PARTNER, ai_actorPartnerId = Some ''p'',
      ai_subjectPartnerId = Some ''p'', ai_actorIdentifier = None, ai_action = ''a.b'',
      ai_entityType = ''Thing'', ai_entityId = ''t'', ai_summary = Some ''one, two'',
      ai_metadata = None\<rparr>"

definition demo_audit_db :: db where
  "demo_audit_db = recordEvent demo_env 5 demo_event empty_db"

theorem export_lifecycle_witness:
  "\<exists>x s'. createAuditExport demo_env 1000 ''p'' None demo_export demo_audit_db = (Inr x, s') \<and>
     getAuditExportDownload demo_env 2000 ''p'' (xj_id x) s' = (Inr x, s') \<and>
     \<not> is_ok (fst (getAuditExportDownload demo_env 2000 ''q'' (xj_id x) s')) \<and>
     (\<exists>y s''. getAuditExportDownload demo_env 604801000 ''p'' (xj_id x) s' = (Inr y, s'') \<and>
        xj_downloadContent y = None)"
proof -
  obtain x s' where c:
    "createAuditExport demo_env 1000 ''p'' None demo_export demo_audit_db = (Inr x, s')"
    using createAuditExport_ok [OF demo_gcm_contract, of demo_export 1000 "''p''" None demo_audit_db]
    by (auto simp: demo_export_def falsy_def)
  have "drawn demo_env (nextId demo_audit_db) (map xj_id (auditExports demo_audit_db))"
    by (simp add: demo_audit_db_def empty_db_def)
  from export_lifecycle [OF c demo_gcm_contract demo_cuid_inj this] c show ?thesis
    by (intro exI [of _ x] exI [of _ s']) auto
qed

end
