(* ===== verification/Webhook_Targets.thy ===== *)
theory Webhook_Targets
  imports Vervet_Schema
begin

text \<open>
  The URL guard of \<open>backend/src/webhooks/webhooks.service.ts\<close>: a webhook endpoint must be an
  HTTP(S) URL without credentials and, unless private targets are allowed, must not lead to a
  loopback, link-local, private or otherwise reserved address.  Addresses are machine words;
  Node's \<open>BlockList\<close> compares prefixes, an IPv4 address and its IPv6-mapped form
  (\<open>::ffff:a.b.c.d\<close>) counting as the same address.  URL and IP parsing and name resolution are
  Node's and come from the environment.
\<close>

section \<open>The block list\<close>

definition ip4 :: "nat \<Rightarrow> nat \<Rightarrow> nat \<Rightarrow> nat \<Rightarrow> ip_address" where
  "ip4 a b c d = IPv4 (of_nat (((a * 256 + b) * 256 + c) * 256 + d))"

text \<open>An IPv6 address from its first sixteen bits and its last ones.\<close>

definition ip6 :: "nat \<Rightarrow> nat \<Rightarrow> ip_address" where
  "ip6 hi lo = IPv6 (of_nat (hi * 2 ^ 112 + lo))"

definition blockedWebhookTargets :: "(ip_address \<times> nat) list" where
  "blockedWebhookTargets =
     [(ip4 0 0 0 0, 8),
      (ip4 10 0 0 0, 8),
      (ip4 100 64 0 0, 10),
      (ip4 127 0 0 0, 8),
      (ip4 169 254 0 0, 16),
      (ip4 172 16 0 0, 12),
      (ip4 192 0 0 0, 24),
      (ip4 192 168 0 0, 16),
      (ip4 198 18 0 0, 15),
      (ip4 224 0 0 0, 4),
      (ip4 240 0 0 0, 4),
      (ip6 0 0, 128),
      (ip6 0 1, 128),
      (ip6 0xfc00 0, 7),
      (ip6 0xfe80 0, 10),
      (ip6 0xff00 0, 8)]"

primrec mapped_ipv6 :: "ip_address \<Rightarrow> 128 word" where
  "mapped_ipv6 (IPv4 w) = 0xFFFF00000000 + ucast w"
| "mapped_ipv6 (IPv6 w) = w"

primrec prefix_bits :: "ip_address \<Rightarrow> nat \<Rightarrow> nat" where
  "prefix_bits (IPv4 w) p = 96 + p"
| "prefix_bits (IPv6 w) p = p"

definition in_subnet :: "ip_address \<Rightarrow> ip_address \<times> nat \<Rightarrow> bool" where
  "in_subnet a subnet =
     (let (net, p) = subnet; k = 128 - prefix_bits net p in
      drop_bit k (mapped_ipv6 a) = drop_bit k (mapped_ipv6 net))"

definition blockList_check :: "ip_address \<Rightarrow> bool" where
  "blockList_check a \<longleftrightarrow> list_ex (in_subnet a) blockedWebhookTargets"

section \<open>The guard\<close>

definition assertAllowedWebhookAddress :: "ip_address \<Rightarrow> unit result" where
  "assertAllowedWebhookAddress address =
     (if blockList_check address
      then Inl (BadRequest ''Webhook endpoints must resolve to publicly routable addresses.'')
      else Inr ())"

fun assertAllAllowed :: "ip_address list \<Rightarrow> unit result" where
  "assertAllAllowed [] = Inr ()"
| "assertAllAllowed (a # as) =
     (case assertAllowedWebhookAddress a of Inl e \<Rightarrow> Inl e | Inr _ \<Rightarrow> assertAllAllowed as)"

definition assertPublicWebhookTarget :: "env \<Rightarrow> string \<Rightarrow> unit result" where
  "assertPublicWebhookTarget E hostname =
     (let normalizedHostname = js_lower (js_trim hostname) in
      if normalizedHostname = ''localhost'' \<or> js_ends_with ''.localhost'' normalizedHostname \<or>
         js_ends_with ''.local'' normalizedHostname
      then Inl (BadRequest ''Webhook endpoints must not target loopback or local-network hosts.'')
      else case parseIp E normalizedHostname of
        Some address \<Rightarrow> assertAllowedWebhookAddress address
      | None \<Rightarrow>
          (case dns_lookup E normalizedHostname of
             None \<Rightarrow> Inl (BadRequest ''Webhook endpoint host could not be resolved.'')
           | Some addresses \<Rightarrow>
               (if addresses = []
                then Inl (BadRequest ''Webhook endpoint host could not be resolved.'')
                else assertAllAllowed addresses)))"

definition normalizeAndValidateWebhookUrl :: "env \<Rightarrow> string \<Rightarrow> string result" where
  "normalizeAndValidateWebhookUrl E rawUrl =
     (case parseUrl E (js_trim rawUrl) of
        None \<Rightarrow> Inl (JsError ''Invalid URL'')
      | Some parsedUrl \<Rightarrow>
          (if url_protocol parsedUrl \<notin> set [''http:'', ''https:'']
           then Inl (BadRequest ''Webhook endpoints must use HTTP or HTTPS.'')
           else if url_username parsedUrl \<noteq> [] \<or> url_password parsedUrl \<noteq> []
           then Inl (BadRequest ''Webhook endpoints must not embed credentials in the URL.'')
           else if \<not> WEBHOOK_ALLOW_PRIVATE_TARGETS (cfg E)
           then map_sum id (\<lambda>_. url_href parsedUrl) (assertPublicWebhookTarget E (url_hostname parsedUrl))
           else Inr (url_href parsedUrl)))"

section \<open>What the block list blocks\<close>

text \<open>The reserved ranges, as intervals of addresses.\<close>

definition reserved_ipv4 :: "nat \<Rightarrow> bool" where
  "reserved_ipv4 n \<longleftrightarrow>
     n < 2 ^ 24 \<or>                                                        \<comment> \<open>0.0.0.0/8\<close>
     10 * 2 ^ 24 \<le> n \<and> n < 11 * 2 ^ 24 \<or>                                 \<comment> \<open>10.0.0.0/8\<close>
     100 * 2 ^ 24 + 64 * 2 ^ 16 \<le> n \<and> n < 100 * 2 ^ 24 + 128 * 2 ^ 16 \<or>  \<comment> \<open>100.64.0.0/10\<close>
     127 * 2 ^ 24 \<le> n \<and> n < 128 * 2 ^ 24 \<or>                               \<comment> \<open>127.0.0.0/8\<close>
     169 * 2 ^ 24 + 254 * 2 ^ 16 \<le> n \<and> n < 169 * 2 ^ 24 + 255 * 2 ^ 16 \<or> \<comment> \<open>169.254.0.0/16\<close>
     172 * 2 ^ 24 + 16 * 2 ^ 16 \<le> n \<and> n < 172 * 2 ^ 24 + 32 * 2 ^ 16 \<or>   \<comment> \<open>172.16.0.0/12\<close>
     192 * 2 ^ 24 \<le> n \<and> n < 192 * 2 ^ 24 + 256 \<or>                         \<comment> \<open>192.0.0.0/24\<close>
     192 * 2 ^ 24 + 168 * 2 ^ 16 \<le> n \<and> n < 192 * 2 ^ 24 + 169 * 2 ^ 16 \<or> \<comment> \<open>192.168.0.0/16\<close>
     198 * 2 ^ 24 + 18 * 2 ^ 16 \<le> n \<and> n < 198 * 2 ^ 24 + 20 * 2 ^ 16 \<or>   \<comment> \<open>198.18.0.0/15\<close>
     224 * 2 ^ 24 \<le> n                                                    \<comment> \<open>224.0.0.0/4, 240.0.0.0/4\<close>"

definition reserved_ipv6 :: "nat \<Rightarrow> bool" where
  "reserved_ipv6 n \<longleftrightarrow>
     n = 0 \<or> n = 1 \<or>
     0xfc00 * 2 ^ 112 \<le> n \<and> n < 0xfe00 * 2 ^ 112 \<or>    \<comment> \<open>fc00::/7\<close>
     0xfe80 * 2 ^ 112 \<le> n \<and> n < 0xfec0 * 2 ^ 112 \<or>    \<comment> \<open>fe80::/10\<close>
     0xff00 * 2 ^ 112 \<le> n \<or>                           \<comment> \<open>ff00::/8\<close>
     (0xffff * 2 ^ 32 \<le> n \<and> n < 0x10000 * 2 ^ 32 \<and> reserved_ipv4 (n - 0xffff * 2 ^ 32))"

primrec reserved_address :: "ip_address \<Rightarrow> bool" where
  "reserved_address (IPv4 w) = reserved_ipv4 (unat w)"
| "reserved_address (IPv6 w) = reserved_ipv6 (unat w)"

lemma unat_lt_32: "unat (w :: 32 word) < 4294967296"
  using unsigned_less [of w] by simp

lemma unat_lt_128: "unat (w :: 128 word) < 2 ^ 128"
  using unsigned_less [of w] by simp

lemma unat_mapped: "unat (mapped_ipv6 (IPv4 w)) = 0xFFFF00000000 + unat w"
proof -
  have "unat w < 2 ^ 128" using unat_lt_32 [of w] by simp
  then have "unat (ucast w :: 128 word) = unat w"
    by (simp add: unsigned_ucast_eq take_bit_nat_eq_self)
  then show ?thesis using unat_lt_32 [of w] by (simp add: unat_word_ariths)
qed

lemma drop_bit_same:
  "drop_bit k (v :: 128 word) = drop_bit k w \<longleftrightarrow> unat v div 2 ^ k = unat w div 2 ^ k"
  by (simp only: word_unat_eq_iff unat_drop_bit_eq drop_bit_eq_div [where 'a = nat])

lemma div_interval: "(m::nat) > 0 \<Longrightarrow> n div m = q \<longleftrightarrow> q * m \<le> n \<and> n < (q + 1) * m"
  using div_times_less_eq_dividend [of n m] dividend_less_div_times [of m n]
    div_nat_eqI [of m q n] by (auto simp: algebra_simps)

text \<open>Membership in a subnet is membership in the interval of addresses with its prefix.\<close>

lemma in_subnet_interval:
  "in_subnet a (net, p) \<longleftrightarrow>
     (let m = 2 ^ (128 - prefix_bits net p); q = unat (mapped_ipv6 net) div m in
      q * m \<le> unat (mapped_ipv6 a) \<and> unat (mapped_ipv6 a) < (q + 1) * m)"
  by (simp only: in_subnet_def Let_def prod.case drop_bit_same div_interval zero_less_power
      zero_less_numeral)

lemma unat_ip4:
  "((a * 256 + b) * 256 + c) * 256 + d < 2 ^ 32 \<Longrightarrow>
   unat (mapped_ipv6 (ip4 a b c d)) = 0xFFFF00000000 + (((a * 256 + b) * 256 + c) * 256 + d)"
  unfolding ip4_def unat_mapped unat_of_nat by simp

lemma unat_ip6:
  "hi * 2 ^ 112 + lo < 2 ^ 128 \<Longrightarrow> unat (mapped_ipv6 (ip6 hi lo)) = hi * 2 ^ 112 + lo"
  unfolding ip6_def mapped_ipv6.simps unat_of_nat by simp

lemma prefix_bits_ip [simp]: "prefix_bits (ip4 a b c d) p = 96 + p" "prefix_bits (ip6 hi lo) p = p"
  by (simp_all add: ip4_def ip6_def)

text \<open>The same intervals, shifted to the IPv4-mapped part of the IPv6 space.\<close>

lemma reserved_ipv6_shifted:
  "reserved_ipv6 n \<longleftrightarrow>
     n = 0 \<or> n = 1 \<or>
     0xfc00 * 2 ^ 112 \<le> n \<and> n < 0xfe00 * 2 ^ 112 \<or>
     0xfe80 * 2 ^ 112 \<le> n \<and> n < 0xfec0 * 2 ^ 112 \<or>
     0xff00 * 2 ^ 112 \<le> n \<or>
     281470681743360 \<le> n \<and> n < 281470698520576 \<or>
     281470849515520 \<le> n \<and> n < 281470866292736 \<or>
     281472363659264 \<le> n \<and> n < 281472367853568 \<or>
     281472812449792 \<le> n \<and> n < 281472829227008 \<or>
     281473533739008 \<le> n \<and> n < 281473533804544 \<or>
     281473568473088 \<le> n \<and> n < 281473569521664 \<or>
     281473902968832 \<le> n \<and> n < 281473902969088 \<or>
     281473913978880 \<le> n \<and> n < 281473914044416 \<or>
     281474004811776 \<le> n \<and> n < 281474004942848 \<or>
     281474439839744 \<le> n \<and> n < 281474976710656"
proof (cases "281470681743360 \<le> n \<and> n < 281474976710656")
  case True
  then obtain k where k: "n = 281470681743360 + k" "k < 4294967296"
    using le_Suc_ex [of 281470681743360 n] by auto
  show ?thesis
    unfolding k(1) reserved_ipv6_def reserved_ipv4_def using k(2) by simp
next
  case False
  then have out: "n < 281470681743360 \<or> 281474976710656 \<le> n" by linarith
  then show ?thesis
    unfolding reserved_ipv6_def by (elim disjE) simp_all
qed

lemma blockList_interval:
  "blockList_check a \<longleftrightarrow> reserved_ipv6 (unat (mapped_ipv6 a))"
proof -
  define n where "n = unat (mapped_ipv6 a)"
  have n: "n < 2 ^ 128" unfolding n_def by (rule unat_lt_128)
  have "blockList_check a \<longleftrightarrow> reserved_ipv6 n"
    using n
    apply (simp add: blockList_check_def blockedWebhookTargets_def in_subnet_interval unat_ip4 unat_ip6
        n_def [symmetric] reserved_ipv6_shifted del: One_nat_def)
    apply (rule iffI; elim disjE conjE; simp)
    apply linarith
    done
  then show ?thesis by (simp add: n_def)
qed

lemma reserved_ipv6_mapped:
  "k < 2 ^ 32 \<Longrightarrow> reserved_ipv6 (0xFFFF00000000 + k) \<longleftrightarrow> reserved_ipv4 k"
  by (simp add: reserved_ipv6_def)

lemma blockList_reserved: "blockList_check a \<longleftrightarrow> reserved_address a"
proof (cases a)
  case (IPv4 w)
  then show ?thesis
    using unat_lt_32 [of w] by (simp only: blockList_interval unat_mapped reserved_address.simps)
       (simp add: reserved_ipv6_mapped)
next
  case (IPv6 w)
  then show ?thesis by (simp add: blockList_interval)
qed

lemma assertAllAllowed_Inr:
  "assertAllAllowed xs = Inr () \<longleftrightarrow> (\<forall>a \<in> set xs. \<not> reserved_address a)"
  by (induction xs) (auto simp: assertAllowedWebhookAddress_def blockList_reserved)

text \<open>The addresses a host name stands for: itself if it is a literal, else what it resolves to.\<close>

definition host_addresses :: "env \<Rightarrow> string \<Rightarrow> ip_address list" where
  "host_addresses E h =
     (case parseIp E h of Some a \<Rightarrow> [a] | None \<Rightarrow> or_else (dns_lookup E h) [])"

definition local_name :: "string \<Rightarrow> bool" where
  "local_name h \<longleftrightarrow>
     h = ''localhost'' \<or> js_ends_with ''.localhost'' h \<or> js_ends_with ''.local'' h"

lemma assertPublic_Inr:
  "assertPublicWebhookTarget E host = Inr () \<longleftrightarrow>
     (let h = js_lower (js_trim host) in
      \<not> local_name h \<and> host_addresses E h \<noteq> [] \<and> (\<forall>a \<in> set (host_addresses E h). \<not> reserved_address a))"
  by (auto simp: assertPublicWebhookTarget_def local_name_def host_addresses_def Let_def
      assertAllAllowed_Inr assertAllowedWebhookAddress_def blockList_reserved
      split: option.splits)

text \<open>C37: the webhook target guard, exactly.  When private targets are not allowed, a URL is
  accepted (and stored in its normalised form) if and only if it parses, uses HTTP or HTTPS,
  carries no credentials, does not name a local host, and its host is an address or resolves to at
  least one address, none of them in a reserved range: IPv4 ranges are recognised in their
  IPv6-mapped form too.\<close>

theorem webhook_url_accepted_iff:
  assumes "\<not> WEBHOOK_ALLOW_PRIVATE_TARGETS (cfg E)"
  shows "normalizeAndValidateWebhookUrl E rawUrl = Inr u \<longleftrightarrow>
    (\<exists>p. parseUrl E (js_trim rawUrl) = Some p \<and> u = url_href p \<and>
       url_protocol p \<in> {''http:'', ''https:''} \<and> url_username p = [] \<and> url_password p = [] \<and>
       (let h = js_lower (js_trim (url_hostname p)) in
        \<not> local_name h \<and> host_addresses E h \<noteq> [] \<and>
        (\<forall>a \<in> set (host_addresses E h). \<not> reserved_address a)))"
proof -
  have unit: "map_sum id (\<lambda>_. v) r = Inr u \<longleftrightarrow> r = Inr () \<and> u = v" for v and r :: "unit result"
    by (cases r) auto
  show ?thesis
    using assms
    by (cases "parseUrl E (js_trim rawUrl)")
       (auto simp: normalizeAndValidateWebhookUrl_def unit assertPublic_Inr [unfolded Let_def] Let_def)
qed

definition demo_url :: "string \<Rightarrow> parsed_url" where
  "demo_url h = \<lparr>url_protocol = ''https:'', url_username = [], url_password = [], url_hostname = h,
     url_href = ''https://'' @ h @ ''/''\<rparr>"

text \<open>A resolver that sends \<open>pub\<close> to 8.8.8.8 and every other name to the IPv6 form of 10.0.0.1.\<close>

definition demo_net_env :: env where
  "demo_net_env = demo_env\<lparr>parseUrl := (\<lambda>s. Some (demo_url s)), parseIp := (\<lambda>s. None),
     dns_lookup := (\<lambda>h. Some [if h = ''pub'' then ip4 8 8 8 8 else IPv6 0xFFFF0A000001])\<rparr>"

theorem webhook_url_accepted_iff_witness:
  "normalizeAndValidateWebhookUrl demo_net_env ''pub'' = Inr ''https://pub/'' \<and>
   normalizeAndValidateWebhookUrl demo_net_env ''int'' \<noteq> Inr ''https://int/''"
proof -
  have c: "\<not> WEBHOOK_ALLOW_PRIVATE_TARGETS (cfg demo_net_env)"
    by (simp add: demo_net_env_def demo_env_def demo_config_def)
  have names: "js_trim ''pub'' = ''pub''" "js_trim ''int'' = ''int''" "js_lower ''pub'' = ''pub''"
    "js_lower ''int'' = ''int''" by code_simp+
  have loc: "\<not> local_name ''pub''" "\<not> local_name ''int''" by code_simp+
  have r: "\<not> reserved_address (ip4 8 8 8 8)" "reserved_ipv6 0xFFFF0A000001"
    by (simp_all add: ip4_def reserved_ipv4_def reserved_ipv6_def unat_of_nat)
  have fields: "\<And>s. parseUrl demo_net_env s = Some (demo_url s)"
    "\<And>h. host_addresses demo_net_env h = [if h = ''pub'' then ip4 8 8 8 8 else IPv6 0xFFFF0A000001]"
    by (simp_all add: demo_net_env_def host_addresses_def)
  show ?thesis
    using webhook_url_accepted_iff [OF c, of "''pub''" "''https://pub/''"]
      webhook_url_accepted_iff [OF c, of "''int''" "''https://int/''"]
    by (simp add: names loc r fields demo_url_def)
qed

end
