(* ===== verification/Webhook_Util.thy ===== *)
theory Webhook_Util
  imports Vervet_Schema
begin

text \<open>
  \<open>backend/src/webhooks/delivery-retry.util.ts\<close> and \<open>webhook-signing.util.ts\<close>: the retry
  schedule of webhook deliveries and the signatures put on them.  Attempt counts are integers;
  the doubling is exact, since \<open>2 ** n\<close> is exact on JavaScript numbers until it overflows to
  \<open>Infinity\<close>, far beyond the cap.
\<close>

section \<open>The retry schedule\<close>

definition webhookInitialRetryDelayMs :: int where
  "webhookInitialRetryDelayMs = 60000"

definition webhookMaxRetryDelayMs :: int where
  "webhookMaxRetryDelayMs = 30 * 60000"

definition maxWebhookDeliveryAttempts :: int where
  "maxWebhookDeliveryAttempts = 5"

definition calculateNextWebhookRetryDelayMs :: "int \<Rightarrow> int result" where
  "calculateNextWebhookRetryDelayMs attemptCount =
     (if attemptCount < 1 then Inl (JsError ''attemptCount must be a positive integer.'')
      else Inr (min (webhookInitialRetryDelayMs * 2 ^ nat (attemptCount - 1))
                    webhookMaxRetryDelayMs))"

definition calculateNextWebhookAttemptAt :: "time \<Rightarrow> int \<Rightarrow> time result" where
  "calculateNextWebhookAttemptAt baseTime attemptCount =
     map_sum id (\<lambda>nextRetryDelayMs. baseTime + nextRetryDelayMs)
       (calculateNextWebhookRetryDelayMs attemptCount)"

definition shouldAbandonWebhookDelivery :: "int \<Rightarrow> bool result" where
  "shouldAbandonWebhookDelivery attemptCount =
     (if attemptCount < 1 then Inl (JsError ''attemptCount must be a positive integer.'')
      else Inr (attemptCount \<ge> maxWebhookDeliveryAttempts))"

lemma retry_delay_Inr [simp]:
  "n \<ge> 1 \<Longrightarrow> calculateNextWebhookRetryDelayMs n =
     Inr (min (60000 * 2 ^ nat (n - 1)) 1800000)"
  by (simp add: calculateNextWebhookRetryDelayMs_def webhookInitialRetryDelayMs_def
      webhookMaxRetryDelayMs_def)

lemma next_attempt_Inr [simp]:
  "n \<ge> 1 \<Longrightarrow> calculateNextWebhookAttemptAt t n =
     Inr (t + min (60000 * 2 ^ nat (n - 1)) 1800000)"
  by (simp add: calculateNextWebhookAttemptAt_def)

lemma should_abandon_Inr [simp]:
  "n \<ge> 1 \<Longrightarrow> shouldAbandonWebhookDelivery n = Inr (n \<ge> 5)"
  by (simp add: shouldAbandonWebhookDelivery_def maxWebhookDeliveryAttempts_def)

lemma retry_delay_mono:
  assumes "1 \<le> m" "m \<le> n"
  shows "min (60000 * 2 ^ nat (m - 1)) 1800000 \<le> min (60000 * 2 ^ nat (n - 1)) (1800000 :: int)"
proof -
  have "(2::int) ^ nat (m - 1) \<le> 2 ^ nat (n - 1)"
    using assms by (intro power_increasing) auto
  then show ?thesis by (simp add: min_le_iff_disj)
qed

lemma retry_delay_bounds:
  assumes "1 \<le> n"
  shows "60000 \<le> min (60000 * 2 ^ nat (n - 1)) (1800000 :: int)"
proof -
  have "(1::int) \<le> 2 ^ nat (n - 1)" by simp
  then show ?thesis by simp
qed

text \<open>The exact schedule: the attempts that are retried wait 1, 2, 4 and 8 minutes.\<close>

text \<open>The retry schedule.  For every attempt number from 1 the delay lies between one and
  thirty minutes and never decreases with the attempt number; the attempts the service retries
  (1 to 4) wait exactly 1, 2, 4 and 8 minutes, so the thirty-minute cap is never reached by an
  attempt that is retried; from the fifth on the delivery is abandoned; an attempt number below 1
  is an error.\<close>

theorem retry_schedule:
  "(\<forall>n. \<exists>d. (n < 1 \<longrightarrow> calculateNextWebhookRetryDelayMs n =
                       Inl (JsError ''attemptCount must be a positive integer.'') \<and>
                     \<not> is_ok (shouldAbandonWebhookDelivery n)) \<and>
            (n \<ge> 1 \<longrightarrow> calculateNextWebhookRetryDelayMs n = Inr d \<and> 60000 \<le> d \<and> d \<le> 1800000 \<and>
               (\<forall>m \<ge> n. \<forall>d'. calculateNextWebhookRetryDelayMs m = Inr d' \<longrightarrow> d \<le> d') \<and>
               (shouldAbandonWebhookDelivery n = Inr False \<longleftrightarrow> n \<in> {1, 2, 3, 4}) \<and>
               (n \<in> {1, 2, 3, 4} \<longrightarrow> d = 60000 * 2 ^ nat (n - 1) \<and> d \<le> 480000)))"
proof (intro allI exI conjI impI)
  fix n :: int assume n: "n \<ge> 1"
  let ?d = "if n < 1 then 0 else min (60000 * 2 ^ nat (n - 1)) (1800000 :: int)"
  show "calculateNextWebhookRetryDelayMs n = Inr ?d" "60000 \<le> ?d" "?d \<le> 1800000"
    using n retry_delay_bounds [OF n] by simp_all
  show "?d \<le> d'" if "m \<ge> n" "calculateNextWebhookRetryDelayMs m = Inr d'" for m d'
    using that n retry_delay_mono [OF n that(1)] by simp
  show "shouldAbandonWebhookDelivery n = Inr False \<longleftrightarrow> n \<in> {1, 2, 3, 4}"
    using n by auto
  show "?d = 60000 * 2 ^ nat (n - 1)" "?d \<le> 480000" if "n \<in> {1, 2, 3, 4}"
    using that by auto
qed (simp_all add: calculateNextWebhookRetryDelayMs_def shouldAbandonWebhookDelivery_def)

theorem retry_schedule_witness:
  "calculateNextWebhookRetryDelayMs 3 = Inr 240000 \<and> shouldAbandonWebhookDelivery 5 = Inr True \<and>
   shouldAbandonWebhookDelivery 3 = Inr False"
proof -
  from retry_schedule have "shouldAbandonWebhookDelivery 3 = Inr False \<longleftrightarrow> (3::int) \<in> {1, 2, 3, 4}"
    by (metis one_le_numeral)
  then show ?thesis by simp
qed

section \<open>Signatures\<close>

definition deriveWebhookSigningSecret :: "env \<Rightarrow> ident \<Rightarrow> int \<Rightarrow> string \<Rightarrow> string" where
  "deriveWebhookSigningSecret E endpointId signingSecretVersion masterSecret =
     hmac_base64url E masterSecret (endpointId @ '':'' @ show_int signingSecretVersion)"

definition signWebhookPayload :: "env \<Rightarrow> string \<Rightarrow> string \<Rightarrow> string \<Rightarrow> string" where
  "signWebhookPayload E payload timestamp secret =
     (let signedContent = timestamp @ ''.'' @ payload in ''v1='' @ hmac_hex E secret signedContent)"

definition hashWebhookPayload :: "env \<Rightarrow> string \<Rightarrow> string" where
  "hashWebhookPayload E payload = sha256_hex E payload"

end
