(* ===== verification/Webhooks.thy ===== *)
theory Webhooks
  imports Webhook_Targets Webhook_Util Audit_Service
begin

text \<open>
  \<open>backend/src/webhooks/webhooks.service.ts\<close>: webhook endpoints and their deliveries.  A delivery
  is \<open>PENDING\<close> until a worker claims it (\<open>PROCESSING\<close>), then succeeds, is rescheduled, or is
  abandoned.  The handlers are functions on the database; the parts of \<open>processWebhookDeliveryById\<close>
  that the service runs as separate database operations (read, claim, finish) are separate
  definitions, composed here the way one worker runs them and interleaved in
  \<open>Webhook_Concurrency\<close>.  What the network answers is an argument.
\<close>

section \<open>Views and parameters\<close>

record endpoint_view =
  ev_id :: ident
  ev_label :: string
  ev_url :: string
  ev_eventTypes :: "WebhookEventType list"
  ev_signingSecretVersion :: int
  ev_status :: WebhookStatus
  ev_lastDeliveredAt :: "time option"
  ev_createdAt :: time

definition endpoint_view_of :: "WebhookEndpoint \<Rightarrow> endpoint_view" where
  "endpoint_view_of e =
     \<lparr>ev_id = ep_id e, ev_label = ep_label e, ev_url = ep_url e, ev_eventTypes = ep_eventTypes e,
      ev_signingSecretVersion = ep_signingSecretVersion e, ev_status = ep_status e,
      ev_lastDeliveredAt = ep_lastDeliveredAt e, ev_createdAt = ep_createdAt e\<rparr>"

record delivery_view =
  dv_id :: ident
  dv_endpointId :: ident
  dv_eventType :: WebhookEventType
  dv_status :: DeliveryStatus
  dv_attemptCount :: int
  dv_nextAttemptAt :: "time option"
  dv_lastAttemptAt :: "time option"
  dv_responseCode :: "int option"
  dv_lastError :: "string option"
  dv_createdAt :: time

definition delivery_view_of :: "WebhookDelivery \<Rightarrow> delivery_view" where
  "delivery_view_of d =
     \<lparr>dv_id = dl_id d, dv_endpointId = dl_endpointId d, dv_eventType = dl_eventType d,
      dv_status = dl_status d, dv_attemptCount = dl_attemptCount d,
      dv_nextAttemptAt = dl_nextAttemptAt d, dv_lastAttemptAt = dl_lastAttemptAt d,
      dv_responseCode = dl_responseCode d, dv_lastError = dl_lastError d,
      dv_createdAt = dl_createdAt d\<rparr>"

datatype DeliveryProcessingResult = ABANDONED | RESCHEDULED | SKIPPED | SUCCEEDED

text \<open>What \<open>fetch\<close> does: a response with its status and body, or a rejection, with its message
  when it is an \<open>Error\<close>.  \<open>response.ok\<close> is a status in the 200s.\<close>

datatype fetch_outcome = Response int string | Rejected "string option"

record webhook_request =
  rq_url :: string
  rq_deliveryId :: ident
  rq_event :: string
  rq_signature :: string
  rq_timestamp :: string
  rq_body :: string

type_synonym network = "webhook_request \<Rightarrow> fetch_outcome"

definition response_ok :: "int \<Rightarrow> bool" where
  "response_ok code \<longleftrightarrow> 200 \<le> code \<and> code \<le> 299"

definition stringifyError :: "string option \<Rightarrow> string" where
  "stringifyError error =
     (case error of Some message \<Rightarrow> take 1024 message
      | None \<Rightarrow> ''Unknown webhook delivery error.'')"

definition find_endpoint :: "ident \<Rightarrow> db \<Rightarrow> WebhookEndpoint option" where
  "find_endpoint i s = List.find (\<lambda>e. ep_id e = i) (webhookEndpoints s)"

definition find_delivery :: "ident \<Rightarrow> db \<Rightarrow> WebhookDelivery option" where
  "find_delivery i s = List.find (\<lambda>d. dl_id d = i) (webhookDeliveries s)"

definition endpoint_of :: "WebhookDelivery \<Rightarrow> db \<Rightarrow> WebhookEndpoint option" where
  "endpoint_of d s = find_endpoint (dl_endpointId d) s"

definition delivery_of_partner :: "ident \<Rightarrow> WebhookDelivery \<Rightarrow> db \<Rightarrow> bool" where
  "delivery_of_partner partnerId d s \<longleftrightarrow>
     (case endpoint_of d s of None \<Rightarrow> False | Some e \<Rightarrow> ep_partnerId e = partnerId)"

section \<open>Queries\<close>

definition listWebhookEndpoints :: "ident \<Rightarrow> db \<Rightarrow> endpoint_view list" where
  "listWebhookEndpoints partnerId s =
     map endpoint_view_of (order_desc ep_createdAt
       (filter (\<lambda>e. ep_partnerId e = partnerId) (webhookEndpoints s)))"

record endpoint_detail =
  ed_endpoint :: endpoint_view
  ed_deliveryStats :: "(DeliveryStatus \<times> nat) list"
  ed_deliveries :: "delivery_view list"

definition all_delivery_statuses :: "DeliveryStatus list" where
  "all_delivery_statuses = [DeliveryStatus_PENDING, DeliveryStatus_PROCESSING,
     DeliveryStatus_SUCCEEDED, DeliveryStatus_FAILED, DeliveryStatus_ABANDONED]"

definition getWebhookEndpointDetail :: "ident \<Rightarrow> ident \<Rightarrow> db \<Rightarrow> endpoint_detail option" where
  "getWebhookEndpointDetail partnerId endpointId s =
     (case List.find (\<lambda>e. ep_id e = endpointId \<and> ep_partnerId e = partnerId) (webhookEndpoints s) of
        None \<Rightarrow> None
      | Some endpoint \<Rightarrow>
          let own = filter (\<lambda>d. dl_endpointId d = endpointId) (webhookDeliveries s);
              recentDeliveryStats = filter (\<lambda>(st, n). n > 0)
                (map (\<lambda>st. (st, count_where (\<lambda>d. dl_status d = st) own)) all_delivery_statuses)
          in Some \<lparr>ed_endpoint = endpoint_view_of endpoint,
                   ed_deliveryStats = recentDeliveryStats,
                   ed_deliveries = map delivery_view_of (take 10 (order_desc dl_createdAt own))\<rparr>)"

record ListWebhookDeliveriesParams =
  ld_endpointId :: "ident option"
  ld_eventType :: "WebhookEventType option"
  ld_limit :: nat
  ld_status :: "DeliveryStatus option"

definition listWebhookDeliveries :: "ident \<Rightarrow> ListWebhookDeliveriesParams \<Rightarrow> db \<Rightarrow> delivery_view list" where
  "listWebhookDeliveries partnerId params s =
     map delivery_view_of (take (ld_limit params) (order_desc dl_createdAt
       (filter (\<lambda>d. delivery_of_partner partnerId d s \<and>
                    filter_eq (ld_endpointId params) (dl_endpointId d) \<and>
                    filter_eq (ld_eventType params) (dl_eventType d) \<and>
                    filter_eq (ld_status params) (dl_status d)) (webhookDeliveries s))))"

definition getWebhookDeliveryDetail :: "ident \<Rightarrow> ident \<Rightarrow> db \<Rightarrow> (WebhookDelivery \<times> endpoint_view) option" where
  "getWebhookDeliveryDetail partnerId deliveryId s =
     (case List.find (\<lambda>d. dl_id d = deliveryId \<and> delivery_of_partner partnerId d s) (webhookDeliveries s) of
        None \<Rightarrow> None
      | Some delivery \<Rightarrow>
          map_option (\<lambda>e. (delivery, endpoint_view_of e)) (endpoint_of delivery s))"

definition getPartnerWebhookEndpoint :: "ident \<Rightarrow> ident \<Rightarrow> db \<Rightarrow> WebhookEndpoint result" where
  "getPartnerWebhookEndpoint partnerId endpointId s =
     (case List.find (\<lambda>e. ep_id e = endpointId \<and> ep_partnerId e = partnerId) (webhookEndpoints s) of
        None \<Rightarrow> Inl (NotFound (''Webhook endpoint '' @ quoted endpointId @
                    '' was not found for the authenticated partner.''))
      | Some endpoint \<Rightarrow> Inr endpoint)"

section \<open>Registering and changing endpoints\<close>

definition normalizeWebhookEventTypes :: "WebhookEventType list \<Rightarrow> WebhookEventType list" where
  "normalizeWebhookEventTypes eventTypes = js_uniq eventTypes"

definition getWebhookMasterSecret :: "env \<Rightarrow> string" where
  "getWebhookMasterSecret E = WEBHOOK_SIGNING_MASTER_SECRET (cfg E)"

definition update_endpoint :: "ident \<Rightarrow> (WebhookEndpoint \<Rightarrow> WebhookEndpoint) \<Rightarrow> db \<Rightarrow> db" where
  "update_endpoint i f s =
     s\<lparr>webhookEndpoints := update_where (\<lambda>e. ep_id e = i) f (webhookEndpoints s)\<rparr>"

definition update_delivery :: "ident \<Rightarrow> (WebhookDelivery \<Rightarrow> WebhookDelivery) \<Rightarrow> db \<Rightarrow> db" where
  "update_delivery i f s =
     s\<lparr>webhookDeliveries := update_where (\<lambda>d. dl_id d = i) f (webhookDeliveries s)\<rparr>"

text \<open>An audit event of an authenticated partner, and one of the system about a delivery.\<close>

definition partner_event ::
    "AuthenticatedPartner \<Rightarrow> string \<Rightarrow> string \<Rightarrow> ident \<Rightarrow> string \<Rightarrow> json \<Rightarrow> RecordAuditEventInput" where
  "partner_event p action entityType entityId summary metadata =
     \<lparr>ai_actorType = AuditActorType_PARTNER, ai_actorPartnerId = Some (ap_partnerId p),
      ai_subjectPartnerId = Some (ap_partnerId p),
      ai_actorIdentifier = Some (ap_actorIdentifier p), ai_action = action,
      ai_entityType = entityType, ai_entityId = entityId, ai_summary = Some summary,
      ai_metadata = Some metadata\<rparr>"

definition event_types_json :: "WebhookEventType list \<Rightarrow> json" where
  "event_types_json ts = JArr (map (\<lambda>t. JStr (name_WebhookEventType t)) ts)"

record CreateWebhookEndpointDto =
  ce_label :: string
  ce_url :: string
  ce_eventTypes :: "WebhookEventType list"

definition createWebhookEndpoint ::
    "env \<Rightarrow> time \<Rightarrow> AuthenticatedPartner \<Rightarrow> CreateWebhookEndpointDto \<Rightarrow> db \<Rightarrow>
     (endpoint_view \<times> string) result \<times> db" where
  "createWebhookEndpoint E now p dto s =
     (case normalizeAndValidateWebhookUrl E (ce_url dto) of
        Inl e \<Rightarrow> (Inl e, s)
      | Inr normalizedUrl \<Rightarrow>
        let masterSecret = getWebhookMasterSecret E;
            (i, s1) = fresh E s;
            endpoint =
              \<lparr>ep_id = i, ep_partnerId = ap_partnerId p, ep_label = js_trim (ce_label dto),
               ep_url = normalizedUrl, ep_signingSecretHash = [], ep_signingSecretVersion = 1,
               ep_eventTypes = normalizeWebhookEventTypes (ce_eventTypes dto),
               ep_status = WebhookStatus_ACTIVE, ep_lastDeliveredAt = None, ep_createdAt = now\<rparr>;
            s2 = s1\<lparr>webhookEndpoints := webhookEndpoints s1 @ [endpoint]\<rparr>;
            signingSecret = deriveWebhookSigningSecret E i (ep_signingSecretVersion endpoint) masterSecret;
            h = hashSecret E (nextId s2) signingSecret;
            s3 = update_endpoint i (\<lambda>e. e\<lparr>ep_signingSecretHash := h\<rparr>) (s2\<lparr>nextId := Suc (nextId s2)\<rparr>);
            s4 = recordEvent E now (partner_event p ''webhook.endpoint.created'' ''WebhookEndpoint'' i
                   (''Created webhook endpoint '' @ quoted (ep_label endpoint) @ ''.'')
                   (JObj [(''label'', JStr (ep_label endpoint)),
                          (''status'', JStr (name_WebhookStatus (ep_status endpoint))),
                          (''eventTypes'', event_types_json (ep_eventTypes endpoint)),
                          (''url'', JStr (ep_url endpoint))])) s3
        in (Inr (endpoint_view_of endpoint, signingSecret), s4))"

record UpdateWebhookEndpointDto =
  ue_label :: "string option"
  ue_url :: "string option"
  ue_eventTypes :: "WebhookEventType list option"
  ue_status :: "WebhookStatus option"

text \<open>The update data: the same fields, trimmed, validated and without duplicates.\<close>

definition buildWebhookEndpointUpdateData ::
    "env \<Rightarrow> UpdateWebhookEndpointDto \<Rightarrow> UpdateWebhookEndpointDto result" where
  "buildWebhookEndpointUpdateData E dto =
     (case (case ue_url dto of None \<Rightarrow> Inr None
            | Some u \<Rightarrow> map_sum id Some (normalizeAndValidateWebhookUrl E u)) of
        Inl e \<Rightarrow> Inl e
      | Inr url \<Rightarrow>
          Inr \<lparr>ue_label = map_option js_trim (ue_label dto), ue_url = url,
               ue_eventTypes = map_option normalizeWebhookEventTypes (ue_eventTypes dto),
               ue_status = ue_status dto\<rparr>)"

text \<open>\<open>Object.keys(updateData).sort()\<close>.\<close>

definition changed_fields :: "UpdateWebhookEndpointDto \<Rightarrow> string list" where
  "changed_fields u =
     (if ue_eventTypes u = None then [] else [''eventTypes'']) @
     (if ue_label u = None then [] else [''label'']) @
     (if ue_status u = None then [] else [''status'']) @
     (if ue_url u = None then [] else [''url''])"

definition apply_endpoint_update :: "UpdateWebhookEndpointDto \<Rightarrow> WebhookEndpoint \<Rightarrow> WebhookEndpoint" where
  "apply_endpoint_update u e =
     e\<lparr>ep_label := or_else (ue_label u) (ep_label e),
       ep_url := or_else (ue_url u) (ep_url e),
       ep_eventTypes := or_else (ue_eventTypes u) (ep_eventTypes e),
       ep_status := or_else (ue_status u) (ep_status e)\<rparr>"

definition abandoned_event :: "ident \<Rightarrow> ident \<Rightarrow> string \<Rightarrow> json \<Rightarrow> RecordAuditEventInput" where
  "abandoned_event subjectPartnerId deliveryId summary metadata =
     \<lparr>ai_actorType = AuditActorType_SYSTEM, ai_actorPartnerId = None,
      ai_subjectPartnerId = Some subjectPartnerId, ai_actorIdentifier = None,
      ai_action = ''webhook.delivery.abandoned'', ai_entityType = ''WebhookDelivery'',
      ai_entityId = deliveryId, ai_summary = Some summary, ai_metadata = Some metadata\<rparr>"

definition abandon_pending :: "string \<Rightarrow> WebhookDelivery \<Rightarrow> WebhookDelivery" where
  "abandon_pending lastError d =
     d\<lparr>dl_status := DeliveryStatus_ABANDONED, dl_lastError := Some lastError, dl_nextAttemptAt := None\<rparr>"

definition pending_of :: "ident \<Rightarrow> WebhookDelivery \<Rightarrow> bool" where
  "pending_of endpointId d \<longleftrightarrow> dl_endpointId d = endpointId \<and> dl_status d = DeliveryStatus_PENDING"

definition disabled_audit :: "ident \<Rightarrow> ident \<Rightarrow> string \<Rightarrow> WebhookDelivery \<Rightarrow> RecordAuditEventInput" where
  "disabled_audit endpointId subjectPartnerId lastError delivery =
     abandoned_event subjectPartnerId (dl_id delivery)
       ''Abandoned pending webhook delivery because the endpoint was disabled.''
       (JObj [(''endpointId'', JStr endpointId),
              (''eventType'', JStr (name_WebhookEventType (dl_eventType delivery))),
              (''attemptCount'', JNum (dl_attemptCount delivery)),
              (''lastError'', JStr lastError)])"

definition abandonPendingDeliveriesForEndpoint ::
    "env \<Rightarrow> time \<Rightarrow> ident \<Rightarrow> ident \<Rightarrow> string \<Rightarrow> db \<Rightarrow> nat \<times> db" where
  "abandonPendingDeliveriesForEndpoint E now endpointId subjectPartnerId lastError s =
     (let updatedDeliveries = filter (pending_of endpointId) (webhookDeliveries s) in
      if length updatedDeliveries = 0 then (0, s)
      else
        let s1 = s\<lparr>webhookDeliveries :=
                     update_where (pending_of endpointId) (abandon_pending lastError) (webhookDeliveries s)\<rparr>;
            s2 = foldl (\<lambda>s delivery. recordEvent E now
                          (disabled_audit endpointId subjectPartnerId lastError delivery) s)
                   s1 updatedDeliveries
        in (length updatedDeliveries, s2))"

definition updateWebhookEndpoint ::
    "env \<Rightarrow> time \<Rightarrow> AuthenticatedPartner \<Rightarrow> ident \<Rightarrow> UpdateWebhookEndpointDto \<Rightarrow> db \<Rightarrow>
     endpoint_view result \<times> db" where
  "updateWebhookEndpoint E now p endpointId dto s =
     (case getPartnerWebhookEndpoint (ap_partnerId p) endpointId s of
        Inl e \<Rightarrow> (Inl e, s)
      | Inr existingEndpoint \<Rightarrow>
     (case buildWebhookEndpointUpdateData E dto of
        Inl e \<Rightarrow> (Inl e, s)
      | Inr updateData \<Rightarrow>
        if length (changed_fields updateData) = 0
        then (Inl (BadRequest ''At least one webhook endpoint field must be provided.''), s)
        else
          let changedFields = changed_fields updateData;
              s1 = update_endpoint (ep_id existingEndpoint) (apply_endpoint_update updateData) s;
              endpoint = apply_endpoint_update updateData existingEndpoint;
              disabling = (ep_status existingEndpoint \<noteq> WebhookStatus_DISABLED \<and>
                           ep_status endpoint = WebhookStatus_DISABLED);
              (abandonedDeliveryCount, s2) =
                (if disabling
                 then abandonPendingDeliveriesForEndpoint E now (ep_id endpoint) (ap_partnerId p)
                        ''Endpoint disabled before delivery.'' s1
                 else (0, s1));
              s3 = recordEvent E now (partner_event p
                     (if disabling then ''webhook.endpoint.disabled'' else ''webhook.endpoint.updated'')
                     ''WebhookEndpoint'' (ep_id endpoint)
                     (''Updated webhook endpoint '' @ quoted (ep_label endpoint) @ ''.'')
                     (JObj [(''changedFields'', JArr (map JStr changedFields)),
                            (''previousStatus'', JStr (name_WebhookStatus (ep_status existingEndpoint))),
                            (''status'', JStr (name_WebhookStatus (ep_status endpoint))),
                            (''abandonedDeliveryCount'', JNum (int abandonedDeliveryCount)),
                            (''eventTypes'', event_types_json (ep_eventTypes endpoint)),
                            (''url'', JStr (ep_url endpoint))])) s2
          in (Inr (endpoint_view_of endpoint), s3)))"

definition disableWebhookEndpoint ::
    "env \<Rightarrow> time \<Rightarrow> AuthenticatedPartner \<Rightarrow> ident \<Rightarrow> db \<Rightarrow> endpoint_view result \<times> db" where
  "disableWebhookEndpoint E now p endpointId s =
     updateWebhookEndpoint E now p endpointId
       \<lparr>ue_label = None, ue_url = None, ue_eventTypes = None,
        ue_status = Some WebhookStatus_DISABLED\<rparr> s"

definition rotateWebhookSigningSecret ::
    "env \<Rightarrow> time \<Rightarrow> AuthenticatedPartner \<Rightarrow> ident \<Rightarrow> db \<Rightarrow> (endpoint_view \<times> string) result \<times> db" where
  "rotateWebhookSigningSecret E now p endpointId s =
     (case getPartnerWebhookEndpoint (ap_partnerId p) endpointId s of
        Inl e \<Rightarrow> (Inl e, s)
      | Inr existingEndpoint \<Rightarrow>
        if ep_status existingEndpoint = WebhookStatus_DISABLED
        then (Inl (Conflict ''Cannot rotate the signing secret for a disabled webhook endpoint.''), s)
        else
          let nextVersion = ep_signingSecretVersion existingEndpoint + 1;
              signingSecret = deriveWebhookSigningSecret E (ep_id existingEndpoint) nextVersion
                                (getWebhookMasterSecret E);
              h = hashSecret E (nextId s) signingSecret;
              rotate = (\<lambda>e. e\<lparr>ep_signingSecretHash := h, ep_signingSecretVersion := nextVersion\<rparr>);
              endpoint = rotate existingEndpoint;
              s1 = update_endpoint (ep_id existingEndpoint) rotate (s\<lparr>nextId := Suc (nextId s)\<rparr>);
              s2 = recordEvent E now (partner_event p ''webhook.endpoint.secret_rotated''
                     ''WebhookEndpoint'' (ep_id endpoint)
                     (''Rotated signing secret for webhook endpoint '' @ quoted (ep_label endpoint) @ ''.'')
                     (JObj [(''previousSigningSecretVersion'',
                               JNum (ep_signingSecretVersion existingEndpoint)),
                            (''signingSecretVersion'', JNum (ep_signingSecretVersion endpoint))])) s1
          in (Inr (endpoint_view_of endpoint, signingSecret), s2))"

section \<open>Delivering\<close>

record DispatchWebhookEventParams =
  dp_partnerId :: ident
  dp_eventType :: WebhookEventType
  dp_payload :: json

definition subscribed :: "DispatchWebhookEventParams \<Rightarrow> WebhookEndpoint \<Rightarrow> bool" where
  "subscribed params e \<longleftrightarrow>
     ep_partnerId e = dp_partnerId params \<and> ep_status e = WebhookStatus_ACTIVE \<and>
     dp_eventType params \<in> set (ep_eventTypes e)"

definition new_delivery ::
    "env \<Rightarrow> time \<Rightarrow> DispatchWebhookEventParams \<Rightarrow> ident \<Rightarrow> nat \<Rightarrow> WebhookDelivery" where
  "new_delivery E now params endpointId n =
     \<lparr>dl_id = cuid E n, dl_endpointId = endpointId, dl_eventType = dp_eventType params,
      dl_payload = dp_payload params,
      dl_payloadHash = hashWebhookPayload E (json_stringify (dp_payload params)),
      dl_status = DeliveryStatus_PENDING, dl_attemptCount = 0, dl_nextAttemptAt = Some now,
      dl_lastAttemptAt = None, dl_responseCode = None, dl_lastError = None, dl_createdAt = now\<rparr>"

text \<open>
  \<open>JSON.parse(JSON.stringify(payload))\<close> is the payload itself here: a \<open>json\<close> value has nothing
  that serialisation drops.
\<close>

definition enqueuePartnerWebhookEvent ::
    "env \<Rightarrow> time \<Rightarrow> DispatchWebhookEventParams \<Rightarrow> db \<Rightarrow> nat \<times> db" where
  "enqueuePartnerWebhookEvent E now params s =
     (let endpoints = filter (subscribed params) (webhookEndpoints s); n = length endpoints in
      if n = 0 then (0, s)
      else
        let rows = map2 (\<lambda>e i. new_delivery E now params (ep_id e) i) endpoints
                     [nextId s ..< nextId s + n]
        in (n, s\<lparr>webhookDeliveries := webhookDeliveries s @ rows, nextId := nextId s + n\<rparr>))"

definition buildDeliveryStaleThreshold :: "env \<Rightarrow> time \<Rightarrow> time" where
  "buildDeliveryStaleThreshold E referenceTime =
     referenceTime - WEBHOOK_DELIVERY_PROCESSING_STALE_MS (cfg E)"

definition endpoint_active :: "db \<Rightarrow> WebhookDelivery \<Rightarrow> bool" where
  "endpoint_active s d \<longleftrightarrow>
     (case endpoint_of d s of None \<Rightarrow> False | Some e \<Rightarrow> ep_status e = WebhookStatus_ACTIVE)"

record ProcessPendingDeliveriesParams =
  pp_limit :: "nat option"
  pp_ignoreSchedule :: bool

text \<open>The \<open>where\<close> clause that selects the deliveries of a run.\<close>

definition due_delivery :: "bool \<Rightarrow> time \<Rightarrow> time \<Rightarrow> db \<Rightarrow> WebhookDelivery \<Rightarrow> bool" where
  "due_delivery ignoreSchedule now staleThreshold s d \<longleftrightarrow>
     (dl_status d = DeliveryStatus_PENDING \<and> endpoint_active s d \<and>
        (ignoreSchedule \<or> (case dl_nextAttemptAt d of None \<Rightarrow> True | Some t \<Rightarrow> t \<le> now))) \<or>
     (dl_status d = DeliveryStatus_PROCESSING \<and>
        (case dl_lastAttemptAt d of None \<Rightarrow> False | Some t \<Rightarrow> t \<le> staleThreshold) \<and>
        endpoint_active s d)"

definition selected_deliveries :: "env \<Rightarrow> time \<Rightarrow> ProcessPendingDeliveriesParams \<Rightarrow> db \<Rightarrow> ident list" where
  "selected_deliveries E now params s =
     map dl_id (take (or_else (pp_limit params) 50)
       (sort_key (\<lambda>d. (nulls_last (dl_nextAttemptAt d), dl_createdAt d))
         (filter (due_delivery (pp_ignoreSchedule params) now (buildDeliveryStaleThreshold E now) s)
           (webhookDeliveries s))))"

definition stale_processing :: "time \<Rightarrow> WebhookDelivery \<Rightarrow> bool" where
  "stale_processing staleThreshold d \<longleftrightarrow>
     dl_status d = DeliveryStatus_PROCESSING \<and>
     (case dl_lastAttemptAt d of None \<Rightarrow> True | Some t \<Rightarrow> t \<le> staleThreshold)"

text \<open>The first step of \<open>processWebhookDeliveryById\<close>: read the delivery and decide.\<close>

datatype read_decision =
    Read_skip
  | Read_disabled WebhookDelivery WebhookEndpoint
  | Read_attempt WebhookDelivery WebhookEndpoint

definition readDelivery :: "time \<Rightarrow> ident \<Rightarrow> db \<Rightarrow> read_decision" where
  "readDelivery staleThreshold deliveryId s =
     (case find_delivery deliveryId s of
        None \<Rightarrow> Read_skip
      | Some delivery \<Rightarrow>
     (case endpoint_of delivery s of
        None \<Rightarrow> Read_skip
      | Some endpoint \<Rightarrow>
        if dl_status delivery \<noteq> DeliveryStatus_PENDING \<and> \<not> stale_processing staleThreshold delivery
        then Read_skip
        else if ep_status endpoint = WebhookStatus_DISABLED then Read_disabled delivery endpoint
        else if ep_status endpoint \<noteq> WebhookStatus_ACTIVE then Read_skip
        else Read_attempt delivery endpoint))"

text \<open>The claim: a conditional update, whose count tells whether this worker won it.\<close>

definition claimable :: "time \<Rightarrow> ident \<Rightarrow> WebhookDelivery \<Rightarrow> bool" where
  "claimable staleThreshold i d \<longleftrightarrow>
     dl_id d = i \<and> (dl_status d = DeliveryStatus_PENDING \<or> stale_processing staleThreshold d)"

definition claim :: "time \<Rightarrow> int \<Rightarrow> WebhookDelivery \<Rightarrow> WebhookDelivery" where
  "claim now attemptCount d =
     d\<lparr>dl_status := DeliveryStatus_PROCESSING, dl_attemptCount := attemptCount,
       dl_lastAttemptAt := Some now, dl_nextAttemptAt := None\<rparr>"

definition claimDelivery :: "time \<Rightarrow> time \<Rightarrow> WebhookDelivery \<Rightarrow> db \<Rightarrow> nat \<times> db" where
  "claimDelivery staleThreshold now delivery s =
     (let attemptCount = dl_attemptCount delivery + 1;
          P = claimable staleThreshold (dl_id delivery) in
      (count_where P (webhookDeliveries s),
       s\<lparr>webhookDeliveries := update_where P (claim now attemptCount) (webhookDeliveries s)\<rparr>))"

definition deliveryRequest :: "env \<Rightarrow> time \<Rightarrow> WebhookDelivery \<Rightarrow> WebhookEndpoint \<Rightarrow> webhook_request" where
  "deliveryRequest E now delivery endpoint =
     (let payload = json_stringify (dl_payload delivery);
          timestamp = toISOString now;
          signingSecret = deriveWebhookSigningSecret E (ep_id endpoint)
            (ep_signingSecretVersion endpoint) (getWebhookMasterSecret E);
          signature = signWebhookPayload E payload timestamp signingSecret
      in \<lparr>rq_url = ep_url endpoint, rq_deliveryId = dl_id delivery,
          rq_event = name_WebhookEventType (dl_eventType delivery), rq_signature = signature,
          rq_timestamp = timestamp, rq_body = payload\<rparr>)"

definition markDeliveryAsAbandoned ::
    "env \<Rightarrow> time \<Rightarrow> ident \<Rightarrow> ident \<Rightarrow> ident \<Rightarrow> WebhookEventType \<Rightarrow> int \<Rightarrow> string \<Rightarrow> int option \<Rightarrow> db \<Rightarrow> db" where
  "markDeliveryAsAbandoned E now deliveryId endpointId subjectPartnerId eventType attemptCount
       lastError responseCode s =
     (let s1 = update_delivery deliveryId (\<lambda>d. d\<lparr>dl_status := DeliveryStatus_ABANDONED,
                 dl_responseCode := responseCode, dl_lastError := Some lastError,
                 dl_nextAttemptAt := None\<rparr>) s
      in recordEvent E now (abandoned_event subjectPartnerId deliveryId
           (''Abandoned webhook delivery after '' @ show_int attemptCount @ '' attempts.'')
           (JObj [(''endpointId'', JStr endpointId),
                  (''eventType'', JStr (name_WebhookEventType eventType)),
                  (''attemptCount'', JNum attemptCount),
                  (''responseCode'', j_null_num responseCode),
                  (''lastError'', JStr lastError)])) s1)"

definition handleFailedDeliveryAttempt ::
    "env \<Rightarrow> time \<Rightarrow> int \<Rightarrow> WebhookDelivery \<Rightarrow> WebhookEndpoint \<Rightarrow> string \<Rightarrow> int option \<Rightarrow> db \<Rightarrow>
     DeliveryProcessingResult result \<times> db" where
  "handleFailedDeliveryAttempt E now attemptCount delivery endpoint lastError responseCode s =
     (case shouldAbandonWebhookDelivery attemptCount of
        Inl e \<Rightarrow> (Inl e, s)
      | Inr True \<Rightarrow>
          (Inr ABANDONED,
           markDeliveryAsAbandoned E now (dl_id delivery) (ep_id endpoint) (ep_partnerId endpoint)
             (dl_eventType delivery) attemptCount lastError responseCode s)
      | Inr False \<Rightarrow>
          (case calculateNextWebhookAttemptAt now attemptCount of
             Inl e \<Rightarrow> (Inl e, s)
           | Inr nextAttemptAt \<Rightarrow>
               (Inr RESCHEDULED,
                update_delivery (dl_id delivery) (\<lambda>d. d\<lparr>dl_status := DeliveryStatus_PENDING,
                  dl_responseCode := responseCode, dl_lastError := Some lastError,
                  dl_nextAttemptAt := Some nextAttemptAt\<rparr>) s)))"

text \<open>The last step: what the network answered is written back.\<close>

definition finishDelivery ::
    "env \<Rightarrow> time \<Rightarrow> WebhookDelivery \<Rightarrow> WebhookEndpoint \<Rightarrow> fetch_outcome \<Rightarrow> db \<Rightarrow>
     DeliveryProcessingResult result \<times> db" where
  "finishDelivery E now delivery endpoint outcome s =
     (let attemptCount = dl_attemptCount delivery + 1 in
      case outcome of
        Response code responseBody \<Rightarrow>
          (if response_ok code
           then (Inr SUCCEEDED,
                 update_endpoint (ep_id endpoint) (\<lambda>e. e\<lparr>ep_lastDeliveredAt := Some now\<rparr>)
                   (update_delivery (dl_id delivery) (\<lambda>d. d\<lparr>dl_status := DeliveryStatus_SUCCEEDED,
                      dl_responseCode := Some code, dl_lastError := None\<rparr>) s))
           else handleFailedDeliveryAttempt E now attemptCount delivery endpoint
                  (take 1024 responseBody) (Some code) s)
      | Rejected error \<Rightarrow>
          handleFailedDeliveryAttempt E now attemptCount delivery endpoint
            (stringifyError error) None s)"

definition processWebhookDeliveryById ::
    "env \<Rightarrow> network \<Rightarrow> time \<Rightarrow> ident \<Rightarrow> db \<Rightarrow> DeliveryProcessingResult result \<times> db" where
  "processWebhookDeliveryById E net now deliveryId s =
     (let staleThreshold = buildDeliveryStaleThreshold E now in
      case readDelivery staleThreshold deliveryId s of
        Read_skip \<Rightarrow> (Inr SKIPPED, s)
      | Read_disabled delivery endpoint \<Rightarrow>
          (Inr ABANDONED,
           markDeliveryAsAbandoned E now (dl_id delivery) (ep_id endpoint) (ep_partnerId endpoint)
             (dl_eventType delivery) (dl_attemptCount delivery)
             ''Endpoint disabled before delivery.'' None s)
      | Read_attempt delivery endpoint \<Rightarrow>
          (case claimDelivery staleThreshold now delivery s of (claimed, s1) \<Rightarrow>
             if claimed = 0 then (Inr SKIPPED, s1)
             else finishDelivery E now delivery endpoint
                    (net (deliveryRequest E now delivery endpoint)) s1))"

record run_counts =
  rc_processedCount :: nat
  rc_succeededCount :: nat
  rc_rescheduledCount :: nat
  rc_abandonedCount :: nat
  rc_skippedCount :: nat

fun count_result :: "DeliveryProcessingResult \<Rightarrow> run_counts \<Rightarrow> run_counts" where
  "count_result SUCCEEDED c = c\<lparr>rc_succeededCount := rc_succeededCount c + 1\<rparr>"
| "count_result RESCHEDULED c = c\<lparr>rc_rescheduledCount := rc_rescheduledCount c + 1\<rparr>"
| "count_result ABANDONED c = c\<lparr>rc_abandonedCount := rc_abandonedCount c + 1\<rparr>"
| "count_result SKIPPED c = c\<lparr>rc_skippedCount := rc_skippedCount c + 1\<rparr>"

fun process_each ::
    "env \<Rightarrow> network \<Rightarrow> time \<Rightarrow> ident list \<Rightarrow> run_counts \<Rightarrow> db \<Rightarrow> run_counts result \<times> db" where
  "process_each E net now [] counts s = (Inr counts, s)"
| "process_each E net now (i # is') counts s =
     (case processWebhookDeliveryById E net now i s of
        (Inl e, s1) \<Rightarrow> (Inl e, s1)
      | (Inr r, s1) \<Rightarrow> process_each E net now is' (count_result r counts) s1)"

definition processPendingDeliveries ::
    "env \<Rightarrow> network \<Rightarrow> time \<Rightarrow> ProcessPendingDeliveriesParams \<Rightarrow> db \<Rightarrow> run_counts result \<times> db" where
  "processPendingDeliveries E net now params s =
     (let deliveries = selected_deliveries E now params s in
      process_each E net now deliveries
        \<lparr>rc_processedCount = length deliveries, rc_succeededCount = 0, rc_rescheduledCount = 0,
         rc_abandonedCount = 0, rc_skippedCount = 0\<rparr> s)"

definition dispatchPartnerWebhookEvent ::
    "env \<Rightarrow> network \<Rightarrow> time \<Rightarrow> DispatchWebhookEventParams \<Rightarrow> db \<Rightarrow> unit result \<times> db" where
  "dispatchPartnerWebhookEvent E net now params s =
     (case enqueuePartnerWebhookEvent E now params s of (enqueuedCount, s1) \<Rightarrow>
        if enqueuedCount > 0
        then (case processPendingDeliveries E net now
                     \<lparr>pp_limit = Some enqueuedCount, pp_ignoreSchedule = True\<rparr> s1 of
                (r, s2) \<Rightarrow> (map_sum id (\<lambda>_. ()) r, s2))
        else (Inr (), s1))"

definition replayWebhookDelivery ::
    "env \<Rightarrow> network \<Rightarrow> time \<Rightarrow> AuthenticatedPartner \<Rightarrow> ident \<Rightarrow> db \<Rightarrow>
     (WebhookDelivery \<times> endpoint_view) option result \<times> db" where
  "replayWebhookDelivery E net now p deliveryId s =
     (case List.find (\<lambda>d. dl_id d = deliveryId \<and> delivery_of_partner (ap_partnerId p) d s)
             (webhookDeliveries s) of
        None \<Rightarrow> (Inl (NotFound (''Webhook delivery '' @ quoted deliveryId @
                   '' was not found for the authenticated partner.'')), s)
      | Some delivery \<Rightarrow>
        if map_option ep_status (endpoint_of delivery s) = Some WebhookStatus_DISABLED
        then (Inl (Conflict ''Cannot replay deliveries for a disabled webhook endpoint.''), s)
        else
          let (i, s1) = fresh E s;
              replayed = \<lparr>dl_id = i, dl_endpointId = dl_endpointId delivery,
                 dl_eventType = dl_eventType delivery, dl_payload = dl_payload delivery,
                 dl_payloadHash = dl_payloadHash delivery, dl_status = DeliveryStatus_PENDING,
                 dl_attemptCount = 0, dl_nextAttemptAt = Some now, dl_lastAttemptAt = None,
                 dl_responseCode = None, dl_lastError = None, dl_createdAt = now\<rparr>;
              s2 = s1\<lparr>webhookDeliveries := webhookDeliveries s1 @ [replayed]\<rparr>;
              s3 = recordEvent E now (partner_event p ''webhook.delivery.replayed'' ''WebhookDelivery'' i
                     (''Replayed webhook delivery '' @ quoted deliveryId @ ''.'')
                     (JObj [(''sourceDeliveryId'', JStr deliveryId),
                            (''endpointId'', JStr (dl_endpointId delivery)),
                            (''eventType'', JStr (name_WebhookEventType (dl_eventType delivery)))])) s2
          in (case processPendingDeliveries E net now
                     \<lparr>pp_limit = Some 1, pp_ignoreSchedule = True\<rparr> s3 of
                (Inl e, s4) \<Rightarrow> (Inl e, s4)
              | (Inr _, s4) \<Rightarrow> (Inr (getWebhookDeliveryDetail (ap_partnerId p) i s4), s4)))"

section \<open>Testing an endpoint\<close>

record endpoint_test =
  et_endpointId :: ident
  et_ok :: bool
  et_responseCode :: "int option"
  et_responseBody :: string
  et_testedAt :: string

definition testRequest :: "env \<Rightarrow> time \<Rightarrow> AuthenticatedPartner \<Rightarrow> WebhookEndpoint \<Rightarrow> webhook_request" where
  "testRequest E now p endpoint =
     (let payload = json_stringify (JObj [(''type'', JStr ''webhook.test''),
            (''endpointId'', JStr (ep_id endpoint)), (''partnerId'', JStr (ap_partnerId p)),
            (''generatedAt'', j_time now)]);
          timestamp = toISOString now;
          signingSecret = deriveWebhookSigningSecret E (ep_id endpoint)
            (ep_signingSecretVersion endpoint) (getWebhookMasterSecret E)
      in \<lparr>rq_url = ep_url endpoint, rq_deliveryId = [], rq_event = ''webhook.test'',
          rq_signature = signWebhookPayload E payload timestamp signingSecret,
          rq_timestamp = timestamp, rq_body = payload\<rparr>)"

definition testWebhookEndpoint ::
    "env \<Rightarrow> network \<Rightarrow> time \<Rightarrow> AuthenticatedPartner \<Rightarrow> ident \<Rightarrow> db \<Rightarrow> endpoint_test result \<times> db" where
  "testWebhookEndpoint E net now p endpointId s =
     (case getPartnerWebhookEndpoint (ap_partnerId p) endpointId s of
        Inl e \<Rightarrow> (Inl e, s)
      | Inr endpoint \<Rightarrow>
     (case net (testRequest E now p endpoint) of
        Response code responseBody \<Rightarrow>
          (Inr \<lparr>et_endpointId = ep_id endpoint, et_ok = response_ok code, et_responseCode = Some code,
                et_responseBody = responseBody, et_testedAt = toISOString now\<rparr>,
           recordEvent E now (partner_event p ''webhook.endpoint.tested'' ''WebhookEndpoint''
             (ep_id endpoint) (''Tested webhook endpoint '' @ quoted (ep_label endpoint) @ ''.'')
             (JObj [(''responseCode'', JNum code), (''responseBody'', JStr (take 512 responseBody))])) s)
      | Rejected error \<Rightarrow>
          (Inr \<lparr>et_endpointId = ep_id endpoint, et_ok = False, et_responseCode = None,
                et_responseBody = stringifyError error, et_testedAt = toISOString now\<rparr>,
           recordEvent E now (partner_event p ''webhook.endpoint.test_failed'' ''WebhookEndpoint''
             (ep_id endpoint) (''Webhook test failed for '' @ quoted (ep_label endpoint) @ ''.'')
             (JObj [(''error'', JStr (stringifyError error))])) s)))"

end
