(* ===== verification/Webhook_Facts.thy ===== *)
theory Webhook_Facts
  imports Webhooks
begin

text \<open>
  What the webhook service guarantees: an invariant of its two tables that every operation keeps,
  the exact effect of an attempt, of an event and of disabling an endpoint, and the bounded number
  of attempts of a failing delivery.
\<close>

section \<open>The invariant of the webhook tables\<close>

definition delivery_ok :: "env \<Rightarrow> WebhookDelivery \<Rightarrow> bool" where
  "delivery_ok E d \<longleftrightarrow>
     0 \<le> dl_attemptCount d \<and>
     dl_payloadHash d = hashWebhookPayload E (json_stringify (dl_payload d)) \<and>
     (case dl_status d of
        DeliveryStatus_PENDING \<Rightarrow> dl_nextAttemptAt d \<noteq> None
      | DeliveryStatus_PROCESSING \<Rightarrow>
          dl_nextAttemptAt d = None \<and> dl_lastAttemptAt d \<noteq> None \<and> 1 \<le> dl_attemptCount d
      | DeliveryStatus_SUCCEEDED \<Rightarrow> dl_nextAttemptAt d = None
      | DeliveryStatus_FAILED \<Rightarrow> False
      | DeliveryStatus_ABANDONED \<Rightarrow> dl_nextAttemptAt d = None)"

definition webhooks_wf :: "env \<Rightarrow> db \<Rightarrow> bool" where
  "webhooks_wf E s \<longleftrightarrow>
     distinct (map ep_id (webhookEndpoints s)) \<and> drawn E (nextId s) (map ep_id (webhookEndpoints s)) \<and>
     distinct (map dl_id (webhookDeliveries s)) \<and> drawn E (nextId s) (map dl_id (webhookDeliveries s)) \<and>
     (\<forall>d \<in> set (webhookDeliveries s).
        dl_endpointId d \<in> set (map ep_id (webhookEndpoints s)) \<and> delivery_ok E d)"

lemma wf_update:
  assumes "webhooks_wf E s"
    and "map ep_id (webhookEndpoints s') = map ep_id (webhookEndpoints s)"
    and "nextId s \<le> nextId s'"
    and "webhookDeliveries s' = update_where P f (webhookDeliveries s)"
    and "\<And>d. \<lbrakk>d \<in> set (webhookDeliveries s); P d; delivery_ok E d\<rbrakk> \<Longrightarrow> delivery_ok E (f d)"
    and "\<And>d. dl_id (f d) = dl_id d" "\<And>d. dl_endpointId (f d) = dl_endpointId d"
  shows "webhooks_wf E s'"
proof -
  have ids: "map dl_id (webhookDeliveries s') = map dl_id (webhookDeliveries s)"
    unfolding assms(4) by (rule map_update_where) (rule assms(6))
  have rows: "dl_endpointId d \<in> set (map ep_id (webhookEndpoints s)) \<and> delivery_ok E d"
    if "d \<in> set (webhookDeliveries s')" for d
    using that assms(1,5,7) unfolding assms(4) webhooks_wf_def by (auto elim!: in_update_whereE)
  show ?thesis
    using assms(1) rows unfolding webhooks_wf_def ids assms(2)
    by (auto intro: drawn_mono [OF _ assms(3)])
qed

lemma wf_same:
  "\<lbrakk>webhooks_wf E s; map ep_id (webhookEndpoints s') = map ep_id (webhookEndpoints s);
    nextId s \<le> nextId s'; webhookDeliveries s' = webhookDeliveries s\<rbrakk> \<Longrightarrow> webhooks_wf E s'"
  by (rule wf_update [of E s s' "\<lambda>_. False" id]) (simp_all add: update_where_id)

lemma wf_recordEvent [simp]: "webhooks_wf E s \<Longrightarrow> webhooks_wf E (recordEvent E' now input s)"
  by (rule wf_same) simp_all

lemma wf_update_endpoint:
  assumes "webhooks_wf E s" "\<And>e. ep_id (f e) = ep_id e"
  shows "webhooks_wf E (update_endpoint i f s)"
  by (rule wf_same [OF assms(1)])
     (simp_all add: update_endpoint_def map_update_where [of _ ep_id f, OF assms(2)])

lemma wf_update_delivery:
  assumes "webhooks_wf E s" "\<And>d. dl_id (f d) = dl_id d" "\<And>d. dl_endpointId (f d) = dl_endpointId d"
    and "\<And>d. \<lbrakk>d \<in> set (webhookDeliveries s); dl_id d = i; delivery_ok E d\<rbrakk> \<Longrightarrow> delivery_ok E (f d)"
  shows "webhooks_wf E (update_delivery i f s)"
  by (rule wf_update [OF assms(1), where P = "\<lambda>d. dl_id d = i" and f = f])
     (simp_all add: update_delivery_def assms)

lemma wf_nextId: "webhooks_wf E s \<Longrightarrow> webhooks_wf E (s\<lparr>nextId := Suc (nextId s)\<rparr>)"
  by (rule wf_same) simp_all

text \<open>Rows are found by their id.\<close>

lemma find_delivery_Some:
  assumes "webhooks_wf E s"
  shows "find_delivery i s = Some d \<longleftrightarrow> d \<in> set (webhookDeliveries s) \<and> dl_id d = i"
proof
  assume "find_delivery i s = Some d"
  then show "d \<in> set (webhookDeliveries s) \<and> dl_id d = i"
    by (auto simp: find_delivery_def dest: find_SomeD)
next
  assume d: "d \<in> set (webhookDeliveries s) \<and> dl_id d = i"
  have "inj_on dl_id (set (webhookDeliveries s))"
    using assms by (simp add: webhooks_wf_def distinct_map)
  with d show "find_delivery i s = Some d"
    unfolding find_delivery_def by (intro find_unique) (auto dest: inj_onD)
qed

lemma find_endpoint_Some:
  assumes "webhooks_wf E s"
  shows "find_endpoint i s = Some e \<longleftrightarrow> e \<in> set (webhookEndpoints s) \<and> ep_id e = i"
proof
  assume "find_endpoint i s = Some e"
  then show "e \<in> set (webhookEndpoints s) \<and> ep_id e = i"
    by (auto simp: find_endpoint_def dest: find_SomeD)
next
  assume e: "e \<in> set (webhookEndpoints s) \<and> ep_id e = i"
  have "inj_on ep_id (set (webhookEndpoints s))"
    using assms by (simp add: webhooks_wf_def distinct_map)
  with e show "find_endpoint i s = Some e"
    unfolding find_endpoint_def by (intro find_unique) (auto dest: inj_onD)
qed

lemma endpoint_of_exists:
  assumes "webhooks_wf E s" "d \<in> set (webhookDeliveries s)"
  obtains e where "endpoint_of d s = Some e" "e \<in> set (webhookEndpoints s)" "ep_id e = dl_endpointId d"
proof -
  obtain e where "e \<in> set (webhookEndpoints s)" "ep_id e = dl_endpointId d"
    using assms unfolding webhooks_wf_def by fastforce
  then show ?thesis
    using that find_endpoint_Some [OF assms(1), of "dl_endpointId d" e] by (simp add: endpoint_of_def)
qed

lemma wf_attemptCount:
  "\<lbrakk>webhooks_wf E s; d \<in> set (webhookDeliveries s)\<rbrakk> \<Longrightarrow> 0 \<le> dl_attemptCount d"
  by (auto simp: webhooks_wf_def delivery_ok_def)

section \<open>Every operation keeps the invariant\<close>

lemma delivery_ok_simps [simp]:
  "delivery_ok E d \<Longrightarrow> 0 \<le> dl_attemptCount d"
  by (simp add: delivery_ok_def)

lemma wf_markDeliveryAsAbandoned:
  "webhooks_wf E s \<Longrightarrow> webhooks_wf E (markDeliveryAsAbandoned E now i e p t n err code s)"
  unfolding markDeliveryAsAbandoned_def Let_def
  by (intro wf_recordEvent wf_update_delivery)
     (auto simp: delivery_ok_def split: DeliveryStatus.splits)

lemma wf_handleFailed:
  assumes "webhooks_wf E s" "handleFailedDeliveryAttempt E now n d e err code s = (r, s')"
  shows "webhooks_wf E s'"
proof -
  have "webhooks_wf E (update_delivery (dl_id d) (\<lambda>d. d\<lparr>dl_status := DeliveryStatus_PENDING,
          dl_responseCode := code, dl_lastError := Some err, dl_nextAttemptAt := Some t\<rparr>) s)" for t
    by (rule wf_update_delivery [OF assms(1)]) (auto simp: delivery_ok_def)
  with assms wf_markDeliveryAsAbandoned [OF assms(1)] show ?thesis
    by (auto simp: handleFailedDeliveryAttempt_def split: sum.splits bool.splits)
qed

lemma wf_claimDelivery:
  assumes "webhooks_wf E s" "0 \<le> dl_attemptCount d" "claimDelivery st now d s = (n, s')"
  shows "webhooks_wf E s'"
  using assms(3) unfolding claimDelivery_def Let_def
  by (auto intro!: wf_update [OF assms(1), where f = "claim now (dl_attemptCount d + 1)"
          and P = "claimable st (dl_id d)"] simp: claim_def delivery_ok_def assms(2))

lemma wf_finishDelivery:
  assumes wf: "webhooks_wf E s" and fin: "finishDelivery E now d e out s = (r, s')"
    and claimed: "\<And>x. \<lbrakk>x \<in> set (webhookDeliveries s); dl_id x = dl_id d\<rbrakk> \<Longrightarrow> dl_nextAttemptAt x = None"
  shows "webhooks_wf E s'"
proof (cases "\<exists>code body. out = Response code body \<and> response_ok code")
  case True
  then obtain code body where o: "out = Response code body" "response_ok code" by auto
  have "webhooks_wf E (update_delivery (dl_id d) (\<lambda>d. d\<lparr>dl_status := DeliveryStatus_SUCCEEDED,
          dl_responseCode := Some code, dl_lastError := None\<rparr>) s)"
    by (rule wf_update_delivery [OF wf]) (auto simp: delivery_ok_def claimed)
  then have "webhooks_wf E (update_endpoint (ep_id e) (\<lambda>e. e\<lparr>ep_lastDeliveredAt := Some now\<rparr>)
      (update_delivery (dl_id d) (\<lambda>d. d\<lparr>dl_status := DeliveryStatus_SUCCEEDED,
          dl_responseCode := Some code, dl_lastError := None\<rparr>) s))"
    by (rule wf_update_endpoint) simp
  with fin o show ?thesis by (simp add: finishDelivery_def Let_def)
next
  case False
  with fin wf_handleFailed [OF wf] show ?thesis
    by (auto simp: finishDelivery_def Let_def split: fetch_outcome.splits if_splits)
qed

lemma readDelivery_attempt:
  assumes "webhooks_wf E s" "readDelivery st i s = Read_attempt d e"
  shows "d \<in> set (webhookDeliveries s)" "dl_id d = i" "e \<in> set (webhookEndpoints s)"
    "ep_id e = dl_endpointId d" "ep_status e = WebhookStatus_ACTIVE" "claimable st i d"
    "delivery_ok E d"
  using assms find_delivery_Some [OF assms(1)] find_endpoint_Some [OF assms(1)]
  by (auto simp: readDelivery_def endpoint_of_def claimable_def webhooks_wf_def
      split: option.splits if_splits)

text \<open>After its claim the delivery is \<open>PROCESSING\<close>, without a next attempt.\<close>

lemma claimDelivery_row:
  assumes wf: "webhooks_wf E s" and d: "d \<in> set (webhookDeliveries s)" "claimable st (dl_id d) d"
    and c: "claimDelivery st now d s = (n, s')"
  shows "n = 1" and "webhookDeliveries s' =
      update_where (\<lambda>x. dl_id x = dl_id d) (claim now (dl_attemptCount d + 1)) (webhookDeliveries s)"
proof -
  have inj: "inj_on dl_id (set (webhookDeliveries s))" and dist: "distinct (webhookDeliveries s)"
    using wf by (simp_all add: webhooks_wf_def distinct_map)
  have P: "claimable st (dl_id d) x \<longleftrightarrow> dl_id x = dl_id d" if "x \<in> set (webhookDeliveries s)" for x
    using that d inj by (auto simp: claimable_def dest: inj_onD)
  have "filter (claimable st (dl_id d)) (webhookDeliveries s) = filter (\<lambda>x. x = d) (webhookDeliveries s)"
    using P d(1) inj by (intro filter_cong) (auto dest: inj_onD)
  also have "length \<dots> = 1"
    using dist d(1) by (simp add: distinct_length_filter Int_absorb1 Collect_conv_if)
  finally show "n = 1" using c by (simp add: claimDelivery_def count_where_def Let_def)
  have "update_where (claimable st (dl_id d)) f (webhookDeliveries s) =
        update_where (\<lambda>x. dl_id x = dl_id d) f (webhookDeliveries s)" for f
    unfolding update_where_def using P by (auto intro!: map_cong)
  then show "webhookDeliveries s' =
      update_where (\<lambda>x. dl_id x = dl_id d) (claim now (dl_attemptCount d + 1)) (webhookDeliveries s)"
    using c by (auto simp: claimDelivery_def Let_def)
qed

lemma claimDelivery_frame:
  "claimDelivery st now d s = (n, s') \<Longrightarrow>
     webhookEndpoints s' = webhookEndpoints s \<and> auditLogs s' = auditLogs s \<and> nextId s' = nextId s"
  by (auto simp: claimDelivery_def Let_def)

lemma wf_processById:
  assumes wf: "webhooks_wf E s" and p: "processWebhookDeliveryById E net now i s = (r, s')"
  shows "webhooks_wf E s'"
proof (cases "readDelivery (buildDeliveryStaleThreshold E now) i s")
  case (Read_attempt d e)
  let ?st = "buildDeliveryStaleThreshold E now"
  note ra = readDelivery_attempt [OF wf Read_attempt]
  obtain n s1 where c: "claimDelivery ?st now d s = (n, s1)" by fastforce
  from ra have cl: "d \<in> set (webhookDeliveries s)" "claimable ?st (dl_id d) d" by simp_all
  note row = claimDelivery_row [OF wf cl c]
  have wf1: "webhooks_wf E s1" by (rule wf_claimDelivery [OF wf _ c]) (use ra in simp)
  have "webhooks_wf E s'" if "finishDelivery E now d e (net (deliveryRequest E now d e)) s1 = (r, s')"
    by (rule wf_finishDelivery [OF wf1 that])
       (auto simp: row(2) claim_def elim!: in_update_whereE)
  with p Read_attempt c row(1) show ?thesis by (simp add: processWebhookDeliveryById_def Let_def)
qed (use p wf wf_markDeliveryAsAbandoned [OF wf] in \<open>auto simp: processWebhookDeliveryById_def Let_def\<close>)

lemma wf_process_each:
  "\<lbrakk>webhooks_wf E s; process_each E net now ids c s = (r, s')\<rbrakk> \<Longrightarrow> webhooks_wf E s'"
proof (induction ids arbitrary: c s)
  case (Cons i ids)
  then show ?case
    by (auto split: prod.splits sum.splits dest: wf_processById)
qed simp

lemma wf_processPending:
  "\<lbrakk>webhooks_wf E s; processPendingDeliveries E net now params s = (r, s')\<rbrakk> \<Longrightarrow> webhooks_wf E s'"
  by (auto simp: processPendingDeliveries_def Let_def dest: wf_process_each)

text \<open>New deliveries get new ids.\<close>

definition new_rows ::
    "env \<Rightarrow> time \<Rightarrow> DispatchWebhookEventParams \<Rightarrow> db \<Rightarrow> WebhookDelivery list" where
  "new_rows E now params s =
     (let endpoints = filter (subscribed params) (webhookEndpoints s) in
      map2 (\<lambda>e i. new_delivery E now params (ep_id e) i) endpoints
        [nextId s ..< nextId s + length endpoints])"

lemma enqueue_eq:
  "enqueuePartnerWebhookEvent E now params s =
     (length (filter (subscribed params) (webhookEndpoints s)),
      s\<lparr>webhookDeliveries := webhookDeliveries s @ new_rows E now params s,
        nextId := nextId s + length (filter (subscribed params) (webhookEndpoints s))\<rparr>)"
  by (simp add: enqueuePartnerWebhookEvent_def new_rows_def Let_def)

lemma new_rows_ids:
  "map dl_id (new_rows E now params s) =
     map (cuid E) [nextId s ..< nextId s + length (filter (subscribed params) (webhookEndpoints s))]"
  by (rule nth_equalityI) (simp_all add: new_rows_def new_delivery_def Let_def)

lemma new_rows_endpoints:
  "map dl_endpointId (new_rows E now params s) =
     map ep_id (filter (subscribed params) (webhookEndpoints s))"
  by (rule nth_equalityI) (simp_all add: new_rows_def new_delivery_def Let_def)

lemma new_rows_row:
  "d \<in> set (new_rows E now params s) \<Longrightarrow>
     \<exists>e i. e \<in> set (webhookEndpoints s) \<and> subscribed params e \<and> d = new_delivery E now params (ep_id e) i"
  by (auto simp: new_rows_def Let_def dest!: set_zip_leftD)

lemma wf_append:
  assumes wf: "webhooks_wf E s" and inj: "inj (cuid E)"
    and "webhookEndpoints s' = webhookEndpoints s"
    and "webhookDeliveries s' = webhookDeliveries s @ rows"
    and "map dl_id rows = map (cuid E) [nextId s ..< m]" and "m \<le> nextId s'" "nextId s \<le> m"
    and "\<And>d. d \<in> set rows \<Longrightarrow> dl_endpointId d \<in> set (map ep_id (webhookEndpoints s)) \<and> delivery_ok E d"
  shows "webhooks_wf E s'"
proof -
  have "cuid E k \<notin> set (map dl_id (webhookDeliveries s))" if "nextId s \<le> k" for k
    by (rule drawn_fresh [OF _ inj that]) (use wf in \<open>simp add: webhooks_wf_def\<close>)
  then have fresh_ids: "set (map dl_id (webhookDeliveries s)) \<inter> set (map dl_id rows) = {}"
    unfolding assms(5) by auto (metis image_eqI)
  have "distinct (map dl_id rows)"
    unfolding assms(5) by (simp add: distinct_map inj_on_subset [OF inj])
  moreover have "\<exists>k<nextId s'. cuid E i = cuid E k" if "i < m" for i
    using that assms(6) by (intro exI [of _ i]) simp
  then have "drawn E (nextId s') (map dl_id rows)"
    unfolding assms(5) drawn_def by auto
  moreover have "nextId s \<le> nextId s'" using assms(6,7) by simp
  ultimately show ?thesis
    using wf assms(3,4,8) fresh_ids
    by (auto simp: webhooks_wf_def intro: drawn_mono)
qed

lemma wf_enqueue:
  assumes "webhooks_wf E s" "inj (cuid E)" "enqueuePartnerWebhookEvent E now params s = (n, s')"
  shows "webhooks_wf E s'"
proof (rule wf_append [OF assms(1,2), where rows = "new_rows E now params s"])
  fix d assume "d \<in> set (new_rows E now params s)"
  from new_rows_row [OF this]
  show "dl_endpointId d \<in> set (map ep_id (webhookEndpoints s)) \<and> delivery_ok E d"
    by (auto simp: new_delivery_def delivery_ok_def)
qed (use assms(3) new_rows_ids [of E now params s] in \<open>auto simp: enqueue_eq\<close>)

lemma wf_createEndpoint:
  assumes wf: "webhooks_wf E s" and inj: "inj (cuid E)"
    and c: "createWebhookEndpoint E now p dto s = (r, s')"
  shows "webhooks_wf E s'"
proof (cases "normalizeAndValidateWebhookUrl E (ce_url dto)")
  case (Inr url)
  define e where "e = \<lparr>ep_id = cuid E (nextId s), ep_partnerId = ap_partnerId p,
     ep_label = js_trim (ce_label dto), ep_url = url, ep_signingSecretHash = [],
     ep_signingSecretVersion = 1, ep_eventTypes = normalizeWebhookEventTypes (ce_eventTypes dto),
     ep_status = WebhookStatus_ACTIVE, ep_lastDeliveredAt = None, ep_createdAt = now\<rparr>"
  define s2 where "s2 = s\<lparr>nextId := Suc (nextId s), webhookEndpoints := webhookEndpoints s @ [e]\<rparr>"
  have "drawn E (nextId s) (map ep_id (webhookEndpoints s))" using wf by (simp add: webhooks_wf_def)
  from drawn_fresh [OF this inj order_refl]
  have "cuid E (nextId s) \<notin> set (map ep_id (webhookEndpoints s))" .
  then have "webhooks_wf E s2"
    using wf by (auto simp: webhooks_wf_def s2_def e_def intro: drawn_mono)
  then have "webhooks_wf E (update_endpoint i (\<lambda>e. e\<lparr>ep_signingSecretHash := h\<rparr>)
               (s2\<lparr>nextId := Suc (nextId s2)\<rparr>))" for i h
    by (intro wf_update_endpoint wf_nextId) simp_all
  with c Inr show ?thesis
    by (auto simp: createWebhookEndpoint_def Let_def fresh_def s2_def e_def)
qed (use c wf in \<open>simp add: createWebhookEndpoint_def\<close>)

lemma foldl_recordEvent_frame:
  "webhookEndpoints (foldl (\<lambda>s d. recordEvent E now (f d) s) s ds) = webhookEndpoints s"
  "webhookDeliveries (foldl (\<lambda>s d. recordEvent E now (f d) s) s ds) = webhookDeliveries s"
  "nextId (foldl (\<lambda>s d. recordEvent E now (f d) s) s ds) = nextId s + length ds"
  by (induction ds arbitrary: s) simp_all

lemma wf_abandonPending:
  assumes "webhooks_wf E s" "abandonPendingDeliveriesForEndpoint E now e p err s = (n, s')"
  shows "webhooks_wf E s'"
proof (cases "filter (pending_of e) (webhookDeliveries s) = []")
  case False
  then show ?thesis
    using assms(2)
    by (intro wf_update [OF assms(1), where P = "pending_of e" and f = "abandon_pending err"])
       (auto simp: abandonPendingDeliveriesForEndpoint_def Let_def foldl_recordEvent_frame
         abandon_pending_def delivery_ok_def)
qed (use assms in \<open>simp add: abandonPendingDeliveriesForEndpoint_def Let_def\<close>)

lemma wf_updateEndpoint:
  assumes wf: "webhooks_wf E s" and u: "updateWebhookEndpoint E now p i dto s = (r, s')"
  shows "webhooks_wf E s'"
proof -
  have "webhooks_wf E (update_endpoint j (apply_endpoint_update d) s)" for j d
    by (rule wf_update_endpoint [OF wf]) (simp add: apply_endpoint_update_def)
  with u wf show ?thesis
    by (auto simp: updateWebhookEndpoint_def Let_def split: sum.splits if_splits prod.splits
        intro!: wf_recordEvent intro: wf_abandonPending)
qed

lemma wf_rotate:
  assumes wf: "webhooks_wf E s" and u: "rotateWebhookSigningSecret E now p i s = (r, s')"
  shows "webhooks_wf E s'"
proof -
  have "webhooks_wf E (update_endpoint j (\<lambda>e. e\<lparr>ep_signingSecretHash := h, ep_signingSecretVersion := v\<rparr>)
          (s\<lparr>nextId := Suc (nextId s)\<rparr>))" for j h v
    by (intro wf_update_endpoint wf_nextId wf) simp
  with u wf show ?thesis
    by (auto simp: rotateWebhookSigningSecret_def Let_def split: sum.splits if_splits)
qed

lemma wf_test:
  "\<lbrakk>webhooks_wf E s; testWebhookEndpoint E net now p i s = (r, s')\<rbrakk> \<Longrightarrow> webhooks_wf E s'"
  by (auto simp: testWebhookEndpoint_def split: sum.splits fetch_outcome.splits)

lemma wf_dispatch:
  assumes "webhooks_wf E s" "inj (cuid E)" "dispatchPartnerWebhookEvent E net now params s = (r, s')"
  shows "webhooks_wf E s'"
proof -
  obtain n s1 where e: "enqueuePartnerWebhookEvent E now params s = (n, s1)" by fastforce
  note wf1 = wf_enqueue [OF assms(1,2) e]
  from assms(3) e wf1 show ?thesis
    by (auto simp: dispatchPartnerWebhookEvent_def split: prod.splits if_splits
        dest: wf_processPending [OF wf1])
qed

lemma wf_replay:
  assumes wf: "webhooks_wf E s" and inj: "inj (cuid E)"
    and u: "replayWebhookDelivery E net now p i s = (r, s')"
  shows "webhooks_wf E s'"
proof (cases "List.find (\<lambda>d. dl_id d = i \<and> delivery_of_partner (ap_partnerId p) d s) (webhookDeliveries s)")
  case (Some d)
  then have d: "d \<in> set (webhookDeliveries s)" by (auto dest: find_SomeD)
  let ?new = "\<lparr>dl_id = cuid E (nextId s), dl_endpointId = dl_endpointId d, dl_eventType = dl_eventType d,
      dl_payload = dl_payload d, dl_payloadHash = dl_payloadHash d,
      dl_status = DeliveryStatus_PENDING, dl_attemptCount = 0, dl_nextAttemptAt = Some now,
      dl_lastAttemptAt = None, dl_responseCode = None, dl_lastError = None, dl_createdAt = now\<rparr>"
  have "webhooks_wf E (s\<lparr>nextId := Suc (nextId s), webhookDeliveries := webhookDeliveries s @ [?new]\<rparr>)"
    by (rule wf_append [OF wf inj, where rows = "[?new]" and m = "Suc (nextId s)"])
       (use wf d in \<open>auto simp: webhooks_wf_def delivery_ok_def\<close>)
  then have wf3: "webhooks_wf E (recordEvent E now ev
      (s\<lparr>nextId := Suc (nextId s), webhookDeliveries := webhookDeliveries s @ [?new]\<rparr>))" for ev
    by simp
  from u Some wf show ?thesis
    by (auto simp: replayWebhookDelivery_def Let_def fresh_def split: prod.splits sum.splits if_splits
        dest: wf_processPending [OF wf3])
qed (use u wf in \<open>simp add: replayWebhookDelivery_def\<close>)

section \<open>The webhook service as a state machine\<close>

inductive webhook_step :: "env \<Rightarrow> db \<Rightarrow> db \<Rightarrow> bool" for E :: env where
  create: "createWebhookEndpoint E now p cdto s = (r1, s') \<Longrightarrow> webhook_step E s s'"
| update: "updateWebhookEndpoint E now p i udto s = (r2, s') \<Longrightarrow> webhook_step E s s'"
| disable: "disableWebhookEndpoint E now p i s = (r2, s') \<Longrightarrow> webhook_step E s s'"
| rotate: "rotateWebhookSigningSecret E now p i s = (r1, s') \<Longrightarrow> webhook_step E s s'"
| test: "testWebhookEndpoint E net now p i s = (r3, s') \<Longrightarrow> webhook_step E s s'"
| enqueue: "enqueuePartnerWebhookEvent E now params s = (n, s') \<Longrightarrow> webhook_step E s s'"
| dispatch: "dispatchPartnerWebhookEvent E net now params s = (r4, s') \<Longrightarrow> webhook_step E s s'"
| replay: "replayWebhookDelivery E net now p i s = (r5, s') \<Longrightarrow> webhook_step E s s'"
| process: "processPendingDeliveries E net now pparams s = (r6, s') \<Longrightarrow> webhook_step E s s'"

lemma webhook_step_wf:
  "\<lbrakk>webhook_step E s s'; webhooks_wf E s; inj (cuid E)\<rbrakk> \<Longrightarrow> webhooks_wf E s'"
  by (induction rule: webhook_step.induct)
     (auto simp: disableWebhookEndpoint_def dest: wf_createEndpoint wf_updateEndpoint wf_rotate wf_test
       wf_enqueue wf_dispatch wf_replay wf_processPending)

lemma webhook_steps_wf:
  "\<lbrakk>(webhook_step E)\<^sup>*\<^sup>* s s'; webhooks_wf E s; inj (cuid E)\<rbrakk> \<Longrightarrow> webhooks_wf E s'"
  by (induction rule: rtranclp_induct) (auto dest: webhook_step_wf)

section \<open>The exact effect of an attempt\<close>

text \<open>What an answered attempt makes of a delivery.\<close>

definition succeeded :: "fetch_outcome \<Rightarrow> bool" where
  "succeeded out = (case out of Response code _ \<Rightarrow> response_ok code | Rejected _ \<Rightarrow> False)"

definition outcome_code :: "fetch_outcome \<Rightarrow> int option" where
  "outcome_code out = (case out of Response code _ \<Rightarrow> Some code | Rejected _ \<Rightarrow> None)"

definition outcome_error :: "fetch_outcome \<Rightarrow> string option" where
  "outcome_error out =
     (if succeeded out then None
      else case out of Response _ body \<Rightarrow> Some (take 1024 body) | Rejected err \<Rightarrow> Some (stringifyError err))"

definition attempt_result :: "fetch_outcome \<Rightarrow> WebhookDelivery \<Rightarrow> DeliveryProcessingResult" where
  "attempt_result out d =
     (if succeeded out then SUCCEEDED
      else if dl_attemptCount d + 1 \<ge> 5 then ABANDONED else RESCHEDULED)"

definition attempted :: "time \<Rightarrow> fetch_outcome \<Rightarrow> WebhookDelivery \<Rightarrow> WebhookDelivery" where
  "attempted now out d =
     d\<lparr>dl_status := (case attempt_result out d of SUCCEEDED \<Rightarrow> DeliveryStatus_SUCCEEDED
         | ABANDONED \<Rightarrow> DeliveryStatus_ABANDONED | _ \<Rightarrow> DeliveryStatus_PENDING),
       dl_attemptCount := dl_attemptCount d + 1,
       dl_nextAttemptAt := (if attempt_result out d = RESCHEDULED
         then Some (now + 60000 * 2 ^ nat (dl_attemptCount d)) else None),
       dl_lastAttemptAt := Some now,
       dl_responseCode := outcome_code out,
       dl_lastError := outcome_error out\<rparr>"

lemma attempted_ids [simp]:
  "dl_id (attempted now out d) = dl_id d" "dl_endpointId (attempted now out d) = dl_endpointId d"
  by (simp_all add: attempted_def)

lemma update_where_twice:
  "(\<And>r. P r \<Longrightarrow> P (g r)) \<Longrightarrow> update_where P f (update_where P g rows) = update_where P (\<lambda>r. f (g r)) rows"
  by (simp add: update_where_def)

lemma update_where_cong:
  "(\<And>r. \<lbrakk>r \<in> set rows; P r\<rbrakk> \<Longrightarrow> f r = g r) \<Longrightarrow> update_where P f rows = update_where P g rows"
  by (simp add: update_where_def)

text \<open>The columns of an endpoint that a delivery reads; \<open>lastDeliveredAt\<close> is not one of them.\<close>

definition endpoint_core :: "WebhookEndpoint \<Rightarrow> WebhookEndpoint" where
  "endpoint_core e = e\<lparr>ep_lastDeliveredAt := None\<rparr>"

definition same_endpoints :: "db \<Rightarrow> db \<Rightarrow> bool" where
  "same_endpoints s s' \<longleftrightarrow>
     map endpoint_core (webhookEndpoints s') = map endpoint_core (webhookEndpoints s)"

lemma endpoint_core_eqD:
  assumes "endpoint_core a = endpoint_core b"
  shows "ep_id a = ep_id b" "ep_partnerId a = ep_partnerId b" "ep_url a = ep_url b"
    "ep_status a = ep_status b" "ep_signingSecretVersion a = ep_signingSecretVersion b"
  using assms by (cases a; cases b; simp add: endpoint_core_def)+

lemma find_map_core:
  "List.find (\<lambda>e. ep_id e = i) (map endpoint_core es) =
     map_option endpoint_core (List.find (\<lambda>e. ep_id e = i) es)"
  by (induction es) (simp_all add: endpoint_core_def)

lemma same_endpoints_find:
  assumes "same_endpoints s s'" "find_endpoint i s = Some e"
  obtains e' where "find_endpoint i s' = Some e'" "endpoint_core e' = endpoint_core e"
proof -
  have "map_option endpoint_core (find_endpoint i s') = map_option endpoint_core (find_endpoint i s)"
    unfolding find_endpoint_def find_map_core [symmetric] using assms(1) by (simp add: same_endpoints_def)
  with assms(2) that show ?thesis by auto
qed

lemma deliveryRequest_core:
  "endpoint_core e' = endpoint_core e \<Longrightarrow> deliveryRequest E now d e' = deliveryRequest E now d e"
  by (simp add: deliveryRequest_def endpoint_core_eqD [of e' e])

lemma same_endpoints_refl [simp]: "same_endpoints s s"
  by (simp add: same_endpoints_def)

lemma same_endpoints_trans: "\<lbrakk>same_endpoints a b; same_endpoints b c\<rbrakk> \<Longrightarrow> same_endpoints a c"
  by (simp add: same_endpoints_def)

lemma finishDelivery_effect:
  assumes "0 \<le> dl_attemptCount d" and "finishDelivery E now d e out s = (r, s')"
  shows "r = Inr (attempt_result out d)" "same_endpoints s s'"
    "webhookDeliveries s' = update_where (\<lambda>x. dl_id x = dl_id d)
       (\<lambda>x. x\<lparr>dl_status := dl_status (attempted now out d), dl_responseCode := outcome_code out,
              dl_lastError := outcome_error out,
              dl_nextAttemptAt := (if attempt_result out d = SUCCEEDED then dl_nextAttemptAt x
                                   else dl_nextAttemptAt (attempted now out d))\<rparr>)
       (webhookDeliveries s)"
    "length (auditLogs s') = length (auditLogs s) + (if attempt_result out d = ABANDONED then 1 else 0)"
proof -
  let ?n = "dl_attemptCount d + 1"
  have n: "1 \<le> ?n" "nat (?n - 1) = nat (dl_attemptCount d)" using assms(1) by simp_all
  have cap: "min (60000 * 2 ^ nat (dl_attemptCount d)) 1800000 = 60000 * (2::int) ^ nat (dl_attemptCount d)"
    if "\<not> ?n \<ge> 5"
  proof -
    have "(2::int) ^ nat (dl_attemptCount d) \<le> 2 ^ 3"
      using that assms(1) by (intro power_increasing) simp_all
    then show ?thesis by simp
  qed
  have core: "map endpoint_core (update_where (\<lambda>e. ep_id e = i)
      (\<lambda>e. e\<lparr>ep_lastDeliveredAt := Some now\<rparr>) es) = map endpoint_core es" for i es
    by (rule map_update_where) (simp add: endpoint_core_def)
  note defs = finishDelivery_def handleFailedDeliveryAttempt_def markDeliveryAsAbandoned_def
    update_delivery_def update_endpoint_def same_endpoints_def Let_def attempt_result_def
    attempted_def succeeded_def outcome_code_def outcome_error_def recordEvent_auditLogs
  have "r = Inr (attempt_result out d) \<and> same_endpoints s s' \<and>
    webhookDeliveries s' = update_where (\<lambda>x. dl_id x = dl_id d)
       (\<lambda>x. x\<lparr>dl_status := dl_status (attempted now out d), dl_responseCode := outcome_code out,
              dl_lastError := outcome_error out,
              dl_nextAttemptAt := (if attempt_result out d = SUCCEEDED then dl_nextAttemptAt x
                                   else dl_nextAttemptAt (attempted now out d))\<rparr>)
       (webhookDeliveries s) \<and>
    length (auditLogs s') = length (auditLogs s) + (if attempt_result out d = ABANDONED then 1 else 0)"
  proof (cases out)
    case (Response code body)
    show ?thesis
      using assms(2) n cap Response core
      by (cases "response_ok code"; cases "?n \<ge> 5") (auto simp: defs)
  next
    case (Rejected err)
    show ?thesis
      using assms(2) n cap Rejected by (cases "?n \<ge> 5") (auto simp: defs)
  qed
  then show "r = Inr (attempt_result out d)" "same_endpoints s s'"
    "webhookDeliveries s' = update_where (\<lambda>x. dl_id x = dl_id d)
       (\<lambda>x. x\<lparr>dl_status := dl_status (attempted now out d), dl_responseCode := outcome_code out,
              dl_lastError := outcome_error out,
              dl_nextAttemptAt := (if attempt_result out d = SUCCEEDED then dl_nextAttemptAt x
                                   else dl_nextAttemptAt (attempted now out d))\<rparr>)
       (webhookDeliveries s)"
    "length (auditLogs s') = length (auditLogs s) + (if attempt_result out d = ABANDONED then 1 else 0)"
    by auto
qed

text \<open>A delivery that a worker may attempt now.\<close>

definition attemptable :: "env \<Rightarrow> time \<Rightarrow> db \<Rightarrow> WebhookDelivery \<Rightarrow> WebhookEndpoint \<Rightarrow> bool" where
  "attemptable E now s d e \<longleftrightarrow>
     d \<in> set (webhookDeliveries s) \<and> endpoint_of d s = Some e \<and> ep_status e = WebhookStatus_ACTIVE \<and>
     claimable (buildDeliveryStaleThreshold E now) (dl_id d) d"

lemma process_attemptable:
  fixes net :: network
  assumes wf: "webhooks_wf E s" and a: "attemptable E now s d e"
  defines "out \<equiv> net (deliveryRequest E now d e)"
  obtains s' where
    "processWebhookDeliveryById E net now (dl_id d) s = (Inr (attempt_result out d), s')"
    "webhookDeliveries s' =
       update_where (\<lambda>x. dl_id x = dl_id d) (attempted now out) (webhookDeliveries s)"
    "same_endpoints s s'"
    "length (auditLogs s') = length (auditLogs s) + (if attempt_result out d = ABANDONED then 1 else 0)"
proof -
  let ?st = "buildDeliveryStaleThreshold E now"
  from a have d: "d \<in> set (webhookDeliveries s)" "claimable ?st (dl_id d) d" "endpoint_of d s = Some e"
    "ep_status e = WebhookStatus_ACTIVE" by (simp_all add: attemptable_def)
  have "readDelivery ?st (dl_id d) s = Read_attempt d e"
    using find_delivery_Some [OF wf, of "dl_id d" d] d
    by (auto simp: readDelivery_def claimable_def)
  moreover obtain n s1 where c: "claimDelivery ?st now d s = (n, s1)" by fastforce
  moreover obtain r s' where f: "finishDelivery E now d e out s1 = (r, s')" by fastforce
  moreover note claimDelivery_row [OF wf d(1,2) c]
  ultimately have p: "processWebhookDeliveryById E net now (dl_id d) s = (r, s')"
    by (simp add: processWebhookDeliveryById_def Let_def out_def)
  have n0: "0 \<le> dl_attemptCount d" using wf d(1) by (rule wf_attemptCount)
  note fin = finishDelivery_effect [OF n0 f]
  have inj: "inj_on dl_id (set (webhookDeliveries s))" using wf by (simp add: webhooks_wf_def distinct_map)
  have rows: "webhookDeliveries s' =
      update_where (\<lambda>x. dl_id x = dl_id d) (attempted now out) (webhookDeliveries s)"
    unfolding fin(3) claimDelivery_row(2) [OF wf d(1,2) c]
    by (subst update_where_twice, simp add: claim_def, rule update_where_cong)
       (use inj d(1) in \<open>auto simp: claim_def attempted_def dest!: inj_onD\<close>)
  show ?thesis
    using that [OF _ rows] p fin(1,2,4) claimDelivery_frame [OF c] by (simp add: same_endpoints_def)
qed

section \<open>The exact effect of a run\<close>

text \<open>What the network answers to the attempt on a delivery, in a state.\<close>

definition answer :: "env \<Rightarrow> network \<Rightarrow> time \<Rightarrow> db \<Rightarrow> WebhookDelivery \<Rightarrow> fetch_outcome" where
  "answer E net now s d =
     (case endpoint_of d s of
        None \<Rightarrow> Rejected None
      | Some e \<Rightarrow> net (deliveryRequest E now d e))"

definition all_attemptable :: "env \<Rightarrow> time \<Rightarrow> db \<Rightarrow> ident list \<Rightarrow> bool" where
  "all_attemptable E now s ids \<longleftrightarrow> (\<forall>i \<in> set ids. \<exists>d e. dl_id d = i \<and> attemptable E now s d e)"

lemma answer_same:
  assumes "same_endpoints s s'" "endpoint_of d s = Some e"
  shows "answer E net now s' d = answer E net now s d"
proof -
  obtain e' where e': "find_endpoint (dl_endpointId d) s' = Some e'" "endpoint_core e' = endpoint_core e"
    using same_endpoints_find [OF assms(1)] assms(2) unfolding endpoint_of_def by blast
  with deliveryRequest_core [OF e'(2)] assms(2) show ?thesis by (simp add: answer_def endpoint_of_def)
qed

lemma attemptable_other:
  assumes "attemptable E now s d e" "same_endpoints s s'" "dl_id d \<noteq> i"
    and "webhookDeliveries s' = update_where (\<lambda>x. dl_id x = i) f (webhookDeliveries s)"
  shows "\<exists>e'. attemptable E now s' d e'"
proof -
  obtain e' where e': "find_endpoint (dl_endpointId d) s' = Some e'" "endpoint_core e' = endpoint_core e"
    using same_endpoints_find [OF assms(2)] assms(1) unfolding attemptable_def endpoint_of_def by blast
  have "ep_status e' = ep_status e" using endpoint_core_eqD [OF e'(2)] by simp
  with e' assms show ?thesis
    by (auto simp: attemptable_def endpoint_of_def set_update_where)
qed

lemma process_each_exact:
  assumes "webhooks_wf E s" "distinct ids" "all_attemptable E now s ids"
  shows "\<exists>c' s'. process_each E net now ids c s = (Inr c', s') \<and>
     webhookDeliveries s' = map (\<lambda>d. if dl_id d \<in> set ids
        then attempted now (answer E net now s d) d else d) (webhookDeliveries s) \<and>
     same_endpoints s s' \<and>
     rc_processedCount c' = rc_processedCount c \<and> rc_skippedCount c' = rc_skippedCount c \<and>
     rc_succeededCount c' + rc_rescheduledCount c' + rc_abandonedCount c' =
       rc_succeededCount c + rc_rescheduledCount c + rc_abandonedCount c + length ids \<and>
     length (auditLogs s') + rc_abandonedCount c = length (auditLogs s) + rc_abandonedCount c'"
  using assms
proof (induction ids arbitrary: c s)
  case Nil
  then show ?case by simp
next
  case (Cons i ids)
  obtain d e where d: "dl_id d = i" "attemptable E now s d e"
    using Cons.prems(3) by (auto simp: all_attemptable_def)
  let ?out = "net (deliveryRequest E now d e)"
  obtain s1 where s1:
    "processWebhookDeliveryById E net now (dl_id d) s = (Inr (attempt_result ?out d), s1)"
    "webhookDeliveries s1 = update_where (\<lambda>x. dl_id x = dl_id d) (attempted now ?out) (webhookDeliveries s)"
    "same_endpoints s s1"
    "length (auditLogs s1) = length (auditLogs s) + (if attempt_result ?out d = ABANDONED then 1 else 0)"
    by (rule process_attemptable [OF Cons.prems(1) d(2)])
  have wf1: "webhooks_wf E s1" by (rule wf_processById [OF Cons.prems(1) s1(1)])
  have at: "all_attemptable E now s1 ids"
    unfolding all_attemptable_def
  proof
    fix j assume j: "j \<in> set ids"
    then obtain dj ej where dj: "dl_id dj = j" "attemptable E now s dj ej"
      using Cons.prems(3) by (auto simp: all_attemptable_def)
    have "dl_id dj \<noteq> dl_id d" using j dj(1) d(1) Cons.prems(2) by auto
    from attemptable_other [OF dj(2) s1(3) this s1(2)] dj(1)
    show "\<exists>d e. dl_id d = j \<and> attemptable E now s1 d e" by auto
  qed
  obtain c' s' where IH: "process_each E net now ids (count_result (attempt_result ?out d) c) s1 = (Inr c', s')"
    "webhookDeliveries s' = map (\<lambda>d. if dl_id d \<in> set ids
        then attempted now (answer E net now s1 d) d else d) (webhookDeliveries s1)"
    "same_endpoints s1 s'"
    "rc_processedCount c' = rc_processedCount (count_result (attempt_result ?out d) c)"
    "rc_skippedCount c' = rc_skippedCount (count_result (attempt_result ?out d) c)"
    "rc_succeededCount c' + rc_rescheduledCount c' + rc_abandonedCount c' =
       rc_succeededCount (count_result (attempt_result ?out d) c) +
       rc_rescheduledCount (count_result (attempt_result ?out d) c) +
       rc_abandonedCount (count_result (attempt_result ?out d) c) + length ids"
    "length (auditLogs s') + rc_abandonedCount (count_result (attempt_result ?out d) c) =
       length (auditLogs s1) + rc_abandonedCount c'"
    using Cons.IH [OF wf1 _ at, of "count_result (attempt_result ?out d) c"] Cons.prems(2) by auto
  have inj: "inj_on dl_id (set (webhookDeliveries s))"
    using Cons.prems(1) by (simp add: webhooks_wf_def distinct_map)
  have rows: "webhookDeliveries s' = map (\<lambda>d. if dl_id d \<in> set (i # ids)
        then attempted now (answer E net now s d) d else d) (webhookDeliveries s)"
  proof -
    have "(if dl_id y \<in> set ids then attempted now (answer E net now s1 y) y else y) =
          (if dl_id x \<in> set (i # ids) then attempted now (answer E net now s x) x else x)"
      if x: "x \<in> set (webhookDeliveries s)"
        and y: "y = (if dl_id x = dl_id d then attempted now ?out x else x)" for x y
    proof (cases "dl_id x = i")
      case True
      then have "x = d" using inj x d by (auto simp: attemptable_def dest: inj_onD)
      moreover have "answer E net now s d = ?out"
        using d(2) by (simp add: answer_def attemptable_def)
      ultimately show ?thesis using y True d(1) Cons.prems(2) by simp
    next
      case False
      then have "y = x" using y d(1) by simp
      moreover obtain e' where "endpoint_of x s = Some e'"
        by (rule endpoint_of_exists [OF Cons.prems(1) x])
      ultimately show ?thesis using False answer_same [OF s1(3)] by simp
    qed
    then show ?thesis unfolding IH(2) s1(2) update_where_def map_map by (intro map_cong) simp_all
  qed
  have proc: "process_each E net now (i # ids) c s = (Inr c', s')"
    using s1(1) IH(1) d(1) by simp
  have "same_endpoints s s'" by (rule same_endpoints_trans [OF s1(3) IH(3)])
  moreover have "attempt_result ?out d \<noteq> SKIPPED" by (simp add: attempt_result_def)
  ultimately show ?case
    using proc rows IH(4-7) s1(4) by (cases "attempt_result ?out d") auto
qed

lemma due_attemptable:
  assumes wf: "webhooks_wf E s" and "d \<in> set (webhookDeliveries s)"
    and "due_delivery ig now (buildDeliveryStaleThreshold E now) s d"
  shows "\<exists>e. attemptable E now s d e"
  using assms(2,3)
  by (auto simp: due_delivery_def attemptable_def claimable_def stale_processing_def endpoint_active_def
      split: option.splits)

lemma selected_all_attemptable:
  assumes "webhooks_wf E s"
  shows "distinct (selected_deliveries E now params s)"
    "all_attemptable E now s (selected_deliveries E now params s)"
proof -
  let ?due = "filter (due_delivery (pp_ignoreSchedule params) now (buildDeliveryStaleThreshold E now) s)
                (webhookDeliveries s)"
  let ?sorted = "sort_key (\<lambda>d. (nulls_last (dl_nextAttemptAt d), dl_createdAt d)) ?due"
  have inj: "inj_on dl_id (set (webhookDeliveries s))" and dist: "distinct (webhookDeliveries s)"
    using assms by (simp_all add: webhooks_wf_def distinct_map)
  have "distinct (map dl_id ?sorted)"
    using dist inj by (auto simp: distinct_map intro: inj_on_subset)
  then show "distinct (selected_deliveries E now params s)"
    unfolding selected_deliveries_def take_map [symmetric] by (rule distinct_take)
  have "set (take (or_else (pp_limit params) 50) ?sorted) \<subseteq> set ?due"
    using set_take_subset by fastforce
  then have "\<exists>e. attemptable E now s d e" if "d \<in> set (take (or_else (pp_limit params) 50) ?sorted)" for d
    using due_attemptable [OF assms, of d "pp_ignoreSchedule params" now] that by auto
  then show "all_attemptable E now s (selected_deliveries E now params s)"
    unfolding all_attemptable_def selected_deliveries_def by fastforce
qed

text \<open>One run of the delivery worker, exactly.  It attempts the selected deliveries (at most
  \<open>limit\<close> of those due, 50 by default), each once, and no other: every selected delivery has its
  attempt recorded as the answer to its own signed request demands, and every other delivery is
  untouched.  The reported counts add up to the number processed, none is skipped, and there is
  one new audit entry per abandoned delivery.\<close>

theorem process_run_exact:
  assumes "webhooks_wf E s"
  shows "\<exists>c s'. processPendingDeliveries E net now params s = (Inr c, s') \<and>
     webhookDeliveries s' = map (\<lambda>d. if dl_id d \<in> set (selected_deliveries E now params s)
        then attempted now (answer E net now s d) d else d) (webhookDeliveries s) \<and>
     rc_processedCount c = min (or_else (pp_limit params) 50)
        (count_where (due_delivery (pp_ignoreSchedule params) now (buildDeliveryStaleThreshold E now) s)
           (webhookDeliveries s)) \<and>
     rc_succeededCount c + rc_rescheduledCount c + rc_abandonedCount c = rc_processedCount c \<and>
     rc_skippedCount c = 0 \<and>
     length (auditLogs s') = length (auditLogs s) + rc_abandonedCount c"
proof -
  let ?ids = "selected_deliveries E now params s"
  note sel = selected_all_attemptable [OF assms, of now params]
  obtain c s' where r: "process_each E net now ?ids
      \<lparr>rc_processedCount = length ?ids, rc_succeededCount = 0, rc_rescheduledCount = 0,
       rc_abandonedCount = 0, rc_skippedCount = 0\<rparr> s = (Inr c, s')"
    "webhookDeliveries s' = map (\<lambda>d. if dl_id d \<in> set ?ids
        then attempted now (answer E net now s d) d else d) (webhookDeliveries s)"
    "rc_processedCount c = length ?ids" "rc_skippedCount c = 0"
    "rc_succeededCount c + rc_rescheduledCount c + rc_abandonedCount c = length ?ids"
    "length (auditLogs s') = length (auditLogs s) + rc_abandonedCount c"
    using process_each_exact [OF assms sel, of net
        "\<lparr>rc_processedCount = length ?ids, rc_succeededCount = 0, rc_rescheduledCount = 0,
          rc_abandonedCount = 0, rc_skippedCount = 0\<rparr>"] by auto
  have "length ?ids = min (or_else (pp_limit params) 50)
        (count_where (due_delivery (pp_ignoreSchedule params) now (buildDeliveryStaleThreshold E now) s)
           (webhookDeliveries s))"
    by (simp add: selected_deliveries_def count_where_def)
  with r show ?thesis
    by (auto simp: processPendingDeliveries_def Let_def)
qed

section \<open>A failing delivery\<close>

text \<open>Attempts on one delivery, at given times and with given answers.\<close>

fun attempt_many ::
    "env \<Rightarrow> (time \<times> network) list \<Rightarrow> ident \<Rightarrow> db \<Rightarrow> DeliveryProcessingResult result list \<times> db" where
  "attempt_many E [] i s = ([], s)"
| "attempt_many E ((now, net) # steps) i s =
     (case processWebhookDeliveryById E net now i s of (r, s1) \<Rightarrow>
       (case attempt_many E steps i s1 of (rs, s2) \<Rightarrow> (r # rs, s2)))"

text \<open>The state of a delivery whose endpoint is active, after \<open>k\<close> failures.\<close>

definition failed_times :: "nat \<Rightarrow> ident \<Rightarrow> db \<Rightarrow> bool" where
  "failed_times k i s \<longleftrightarrow>
     (\<exists>d e. find_delivery i s = Some d \<and> endpoint_of d s = Some e \<and>
        ep_status e = WebhookStatus_ACTIVE \<and> dl_attemptCount d = int (min k 5) \<and>
        dl_status d = (if k < 5 then DeliveryStatus_PENDING else DeliveryStatus_ABANDONED))"

definition failure_result :: "nat \<Rightarrow> DeliveryProcessingResult" where
  "failure_result k = (if k < 4 then RESCHEDULED else if k = 4 then ABANDONED else SKIPPED)"

lemma failed_once_more:
  assumes wf: "webhooks_wf E s" and k: "failed_times k i s"
    and fails: "\<And>rq. \<not> succeeded (net rq)"
  shows "\<exists>s'. processWebhookDeliveryById E net now i s = (Inr (failure_result k), s') \<and>
           webhooks_wf E s' \<and> failed_times (Suc k) i s'"
proof -
  obtain d e where d: "find_delivery i s = Some d" "endpoint_of d s = Some e"
    "ep_status e = WebhookStatus_ACTIVE" "dl_attemptCount d = int (min k 5)"
    "dl_status d = (if k < 5 then DeliveryStatus_PENDING else DeliveryStatus_ABANDONED)"
    using k by (auto simp: failed_times_def)
  have di: "d \<in> set (webhookDeliveries s)" "dl_id d = i"
    using d(1) find_delivery_Some [OF wf] by auto
  show ?thesis
  proof (cases "k < 5")
    case False
    then have "processWebhookDeliveryById E net now i s = (Inr SKIPPED, s)"
      using d by (simp add: processWebhookDeliveryById_def readDelivery_def stale_processing_def Let_def)
    with False k wf show ?thesis by (simp add: failure_result_def failed_times_def)
  next
    case True
    then have "attemptable E now s d e" using d di by (simp add: attemptable_def claimable_def)
    from process_attemptable [OF wf this, of net] obtain s' where s':
      "processWebhookDeliveryById E net now i s =
         (Inr (attempt_result (net (deliveryRequest E now d e)) d), s')"
      "webhookDeliveries s' = update_where (\<lambda>x. dl_id x = i)
         (attempted now (net (deliveryRequest E now d e))) (webhookDeliveries s)"
      "same_endpoints s s'" unfolding di(2) by blast
    let ?out = "net (deliveryRequest E now d e)"
    have res: "attempt_result ?out d = failure_result k"
      using fails [of "deliveryRequest E now d e"] True d(4)
      by (auto simp: attempt_result_def failure_result_def)
    have wf': "webhooks_wf E s'" by (rule wf_processById [OF wf s'(1)])
    have "find_delivery i s' = Some (attempted now ?out d)"
      using find_delivery_Some [OF wf', of i] di s'(2) by (auto simp: set_update_where)
    moreover obtain e' where "find_endpoint (dl_endpointId d) s' = Some e'" "ep_status e' = ep_status e"
      using same_endpoints_find [OF s'(3), of "dl_endpointId d" e] d(2) endpoint_core_eqD(4)
      unfolding endpoint_of_def by metis
    ultimately have "failed_times (Suc k) i s'"
      using d(3,4) True res
      by (auto simp: failed_times_def endpoint_of_def attempted_def failure_result_def)
    with s'(1) res wf' show ?thesis by auto
  qed
qed

lemma failed_many:
  assumes "webhooks_wf E s" "failed_times k i s"
    and "\<forall>(now, net) \<in> set steps. \<forall>rq. \<not> succeeded (net rq)"
  shows "\<exists>s'. attempt_many E steps i s =
             (map (\<lambda>j. Inr (failure_result j)) [k ..< k + length steps], s') \<and>
           failed_times (k + length steps) i s'"
  using assms
proof (induction steps arbitrary: k s)
  case Nil
  then show ?case by simp
next
  case (Cons step steps)
  obtain now net where [simp]: "step = (now, net)" by fastforce
  obtain s1 where s1: "processWebhookDeliveryById E net now i s = (Inr (failure_result k), s1)"
    "webhooks_wf E s1" "failed_times (Suc k) i s1"
    using failed_once_more [OF Cons.prems(1,2), of net now] Cons.prems(3) by auto
  have rest: "\<forall>(now, net) \<in> set steps. \<forall>rq. \<not> succeeded (net rq)" using Cons.prems(3) by auto
  obtain s' where s': "attempt_many E steps i s1 =
      (map (\<lambda>j. Inr (failure_result j)) [Suc k ..< Suc k + length steps], s')"
    "failed_times (Suc k + length steps) i s'"
    using Cons.IH [OF s1(2,3) rest] by blast
  have "[k ..< k + length (step # steps)] = k # [Suc k ..< Suc k + length steps]"
    by (simp add: upt_conv_Cons del: upt_Suc)
  with s1(1) s' show ?case by (simp add: add.commute)
qed

text \<open>C35: a failing delivery ends.  Let a pending delivery have been attempted \<open>k\<close> times before (fewer than five), and
  its endpoint be active.  However often and whenever workers try it from then on, with nothing else happening to it or
  its endpoint and no answer of success, each try up to the fourth attempt in all reschedules it, the fifth abandons it,
  and every later try skips it: after \<open>n\<close> tries it has been attempted exactly \<open>min (k + n) 5\<close> times.\<close>

theorem failing_delivery_abandoned:
  assumes "webhooks_wf E s" and "find_delivery i s = Some d"
    and "dl_status d = DeliveryStatus_PENDING" and "dl_attemptCount d = int k" and "k < 5"
    and "endpoint_of d s = Some e" and "ep_status e = WebhookStatus_ACTIVE"
    and "\<forall>(now, net) \<in> set steps. \<forall>rq. \<not> succeeded (net rq)"
  shows "\<exists>s' d'. attempt_many E steps i s =
             (map (\<lambda>j. Inr (if j < 4 then RESCHEDULED else if j = 4 then ABANDONED else SKIPPED))
                [k ..< k + length steps], s') \<and>
           find_delivery i s' = Some d' \<and> dl_attemptCount d' = int (min (k + length steps) 5) \<and>
           dl_status d' = (if k + length steps < 5 then DeliveryStatus_PENDING else DeliveryStatus_ABANDONED)"
proof -
  have "failed_times k i s" using assms(2-7) by (simp add: failed_times_def)
  from failed_many [OF assms(1) this assms(8)] show ?thesis
    by (auto simp: failed_times_def failure_result_def)
qed

section \<open>Events and disabled endpoints\<close>

text \<open>An event reaches its subscribers.  Enqueueing appends exactly one pending delivery, due
  at once and with no attempt made, for every active endpoint of the partner subscribed to the
  event, in the order of the endpoints, with the event's payload and its hash, and touches nothing
  else; its result is their number.\<close>

theorem enqueue_exact:
  "\<exists>rows. enqueuePartnerWebhookEvent E now params s =
       (length (filter (subscribed params) (webhookEndpoints s)),
        s\<lparr>webhookDeliveries := webhookDeliveries s @ rows,
          nextId := nextId s + length (filter (subscribed params) (webhookEndpoints s))\<rparr>) \<and>
     map dl_endpointId rows = map ep_id (filter (subscribed params) (webhookEndpoints s)) \<and>
     list_all (\<lambda>d. dl_status d = DeliveryStatus_PENDING \<and> dl_attemptCount d = 0 \<and>
        dl_nextAttemptAt d = Some now \<and> dl_eventType d = dp_eventType params \<and>
        dl_payload d = dp_payload params \<and>
        dl_payloadHash d = hashWebhookPayload E (json_stringify (dp_payload params))) rows"
proof -
  have "list_all (\<lambda>d. dl_status d = DeliveryStatus_PENDING \<and> dl_attemptCount d = 0 \<and>
        dl_nextAttemptAt d = Some now \<and> dl_eventType d = dp_eventType params \<and>
        dl_payload d = dp_payload params \<and>
        dl_payloadHash d = hashWebhookPayload E (json_stringify (dp_payload params)))
      (new_rows E now params s)"
    unfolding list_all_iff by (auto dest!: new_rows_row simp: new_delivery_def)
  with enqueue_eq [of E now params s] new_rows_endpoints [of E now params s] show ?thesis by blast
qed

lemma getPartnerEndpoint_Inr:
  "getPartnerWebhookEndpoint pid i s = Inr e \<Longrightarrow>
     e \<in> set (webhookEndpoints s) \<and> ep_id e = i \<and> ep_partnerId e = pid"
  by (auto simp: getPartnerWebhookEndpoint_def split: option.splits dest: find_SomeD)

lemma foldl_recordEvent_logs:
  "map al_entityId (auditLogs (foldl (\<lambda>s d. recordEvent E now (f d) s) s ds)) =
     map al_entityId (auditLogs s) @ map (\<lambda>d. ai_entityId (f d)) ds"
  by (induction ds arbitrary: s) (simp_all add: recordEvent_auditLogs audit_row_def)

lemma abandonPending_effect:
  assumes "abandonPendingDeliveriesForEndpoint E now i p err s = (n, s')"
  shows "n = count_where (pending_of i) (webhookDeliveries s)"
    "webhookDeliveries s' = update_where (pending_of i) (abandon_pending err) (webhookDeliveries s)"
    "webhookEndpoints s' = webhookEndpoints s"
    "map al_entityId (auditLogs s') =
       map al_entityId (auditLogs s) @ map dl_id (filter (pending_of i) (webhookDeliveries s))"
proof -
  have "n = count_where (pending_of i) (webhookDeliveries s) \<and>
    webhookDeliveries s' = update_where (pending_of i) (abandon_pending err) (webhookDeliveries s) \<and>
    webhookEndpoints s' = webhookEndpoints s \<and>
    map al_entityId (auditLogs s') =
       map al_entityId (auditLogs s) @ map dl_id (filter (pending_of i) (webhookDeliveries s))"
  proof (cases "filter (pending_of i) (webhookDeliveries s) = []")
    case True
    then have "update_where (pending_of i) (abandon_pending err) (webhookDeliveries s) = webhookDeliveries s"
      by (intro update_where_id) (auto simp: filter_empty_conv)
    with True assms show ?thesis
      by (auto simp: abandonPendingDeliveriesForEndpoint_def count_where_def Let_def)
  next
    case False
    with assms show ?thesis
      by (auto simp: abandonPendingDeliveriesForEndpoint_def count_where_def Let_def
          foldl_recordEvent_frame foldl_recordEvent_logs disabled_audit_def abandoned_event_def)
  qed
  then show "n = count_where (pending_of i) (webhookDeliveries s)"
    "webhookDeliveries s' = update_where (pending_of i) (abandon_pending err) (webhookDeliveries s)"
    "webhookEndpoints s' = webhookEndpoints s"
    "map al_entityId (auditLogs s') =
       map al_entityId (auditLogs s) @ map dl_id (filter (pending_of i) (webhookDeliveries s))"
    by auto
qed

text \<open>Disabling an endpoint.  When its partner disables an endpoint that was not disabled, the
  endpoint is disabled, exactly its pending deliveries are abandoned (so none is left pending),
  every other delivery is unchanged, and the audit log gains one entry per abandoned delivery, in
  order, and then the entry for the endpoint.\<close>

theorem disable_abandons_pending:
  assumes "webhooks_wf E s" and "getPartnerWebhookEndpoint (ap_partnerId p) i s = Inr e"
    and "ep_status e \<noteq> WebhookStatus_DISABLED"
  shows "\<exists>v s'. disableWebhookEndpoint E now p i s = (Inr v, s') \<and>
     ev_status v = WebhookStatus_DISABLED \<and>
     find_endpoint i s' = Some (e\<lparr>ep_status := WebhookStatus_DISABLED\<rparr>) \<and>
     webhookDeliveries s' = map (\<lambda>d. if dl_endpointId d = i \<and> dl_status d = DeliveryStatus_PENDING
        then d\<lparr>dl_status := DeliveryStatus_ABANDONED, dl_nextAttemptAt := None,
               dl_lastError := Some ''Endpoint disabled before delivery.''\<rparr> else d) (webhookDeliveries s) \<and>
     list_all (\<lambda>d. dl_endpointId d = i \<longrightarrow> dl_status d \<noteq> DeliveryStatus_PENDING) (webhookDeliveries s') \<and>
     map al_entityId (auditLogs s') = map al_entityId (auditLogs s) @
       map dl_id (filter (pending_of i) (webhookDeliveries s)) @ [i]"
proof -
  define u where "u = \<lparr>ue_label = None, ue_url = None, ue_eventTypes = None,
        ue_status = Some WebhookStatus_DISABLED\<rparr>"
  let ?e = "apply_endpoint_update u e"
  let ?s1 = "update_endpoint i (apply_endpoint_update u) s"
  have e: "e \<in> set (webhookEndpoints s)" "ep_id e = i" using getPartnerEndpoint_Inr [OF assms(2)] by auto
  have build: "buildWebhookEndpointUpdateData E u = Inr u" "length (changed_fields u) \<noteq> 0"
    by (simp_all add: buildWebhookEndpointUpdateData_def u_def changed_fields_def)
  have ev: "ep_id ?e = i" "ep_status ?e = WebhookStatus_DISABLED"
    "?e = e\<lparr>ep_status := WebhookStatus_DISABLED\<rparr>"
    using e by (simp_all add: apply_endpoint_update_def u_def)
  obtain n s2 where a: "abandonPendingDeliveriesForEndpoint E now i (ap_partnerId p)
      ''Endpoint disabled before delivery.'' ?s1 = (n, s2)" by fastforce
  note eff = abandonPending_effect [OF a]
  have lens: "(length (changed_fields u) = 0) = False" using build(2) by simp
  have disabling: "(ep_status e \<noteq> WebhookStatus_DISABLED \<and> ep_status ?e = WebhookStatus_DISABLED) = True"
    using assms(3) ev(2) by simp
  have "\<exists>A B C D. disableWebhookEndpoint E now p i s =
      (Inr (endpoint_view_of ?e), recordEvent E now (partner_event p A B i C D) s2)"
    unfolding disableWebhookEndpoint_def u_def [symmetric] updateWebhookEndpoint_def assms(2) sum.case
      build(1) lens if_False Let_def e(2) disabling if_True ev(1) a prod.case
    by (intro exI, rule refl)
  then obtain inp where run: "disableWebhookEndpoint E now p i s =
      (Inr (endpoint_view_of ?e), recordEvent E now inp s2)" and inp: "ai_entityId inp = i"
    by (auto simp: partner_event_def)
  have wf2: "webhooks_wf E (recordEvent E now inp s2)"
    by (rule wf_updateEndpoint [OF assms(1) run [unfolded disableWebhookEndpoint_def]])
  have "?e \<in> set (webhookEndpoints (recordEvent E now inp s2))"
    using e eff(3) by (auto simp: update_endpoint_def set_update_where)
  then have "find_endpoint i (recordEvent E now inp s2) = Some ?e"
    using find_endpoint_Some [OF wf2] ev(1) by blast
  moreover have rows: "webhookDeliveries (recordEvent E now inp s2) =
      map (\<lambda>d. if dl_endpointId d = i \<and> dl_status d = DeliveryStatus_PENDING
        then d\<lparr>dl_status := DeliveryStatus_ABANDONED, dl_nextAttemptAt := None,
               dl_lastError := Some ''Endpoint disabled before delivery.''\<rparr> else d) (webhookDeliveries s)"
    using eff(2) by (auto simp: update_endpoint_def update_where_def pending_of_def abandon_pending_def)
  moreover have "list_all (\<lambda>d. dl_endpointId d = i \<longrightarrow> dl_status d \<noteq> DeliveryStatus_PENDING)
      (webhookDeliveries (recordEvent E now inp s2))"
    unfolding rows list.pred_map o_def by (simp add: list_all_iff)
  moreover have "map al_entityId (auditLogs (recordEvent E now inp s2)) = map al_entityId (auditLogs s) @
       map dl_id (filter (pending_of i) (webhookDeliveries s)) @ [i]"
    using eff(4) inp by (simp add: recordEvent_auditLogs audit_row_def update_endpoint_def)
  moreover have "ev_status (endpoint_view_of ?e) = WebhookStatus_DISABLED"
    using ev(2) by (simp add: endpoint_view_of_def)
  ultimately show ?thesis using run unfolding ev(3) by blast
qed

section \<open>Partners see and change only their own\<close>

text \<open>C36: tenant isolation.  On an endpoint that is not the partner's own every operation
  (detail, update, disable, rotate, test) answers that it was not found and changes nothing, and so
  does replaying one of its deliveries; its deliveries are neither shown nor listed.\<close>

theorem webhook_tenant_isolation:
  assumes "webhooks_wf E s"
    and "\<not> (\<exists>e \<in> set (webhookEndpoints s). ep_id e = i \<and> ep_partnerId e = ap_partnerId p)"
  shows "getWebhookEndpointDetail (ap_partnerId p) i s = None \<and>
     (\<exists>m. updateWebhookEndpoint E now p i dto s = (Inl (NotFound m), s) \<and>
          disableWebhookEndpoint E now p i s = (Inl (NotFound m), s) \<and>
          rotateWebhookSigningSecret E now p i s = (Inl (NotFound m), s) \<and>
          testWebhookEndpoint E net now p i s = (Inl (NotFound m), s)) \<and>
     (\<forall>d \<in> set (webhookDeliveries s). dl_endpointId d = i \<longrightarrow>
        (\<exists>m. replayWebhookDelivery E net now p (dl_id d) s = (Inl (NotFound m), s)) \<and>
        getWebhookDeliveryDetail (ap_partnerId p) (dl_id d) s = None) \<and>
     (\<forall>params. \<forall>v \<in> set (listWebhookDeliveries (ap_partnerId p) params s). dv_endpointId v \<noteq> i)"
proof -
  have no: "List.find (\<lambda>e. ep_id e = i \<and> ep_partnerId e = ap_partnerId p) (webhookEndpoints s) = None"
    using assms(2) by (auto simp: find_None_iff)
  have not_own: "\<not> delivery_of_partner (ap_partnerId p) d s" if "dl_endpointId d = i" for d
    using that assms(2) find_SomeD
    by (fastforce simp: delivery_of_partner_def endpoint_of_def find_endpoint_def split: option.splits)
  have inj: "inj_on dl_id (set (webhookDeliveries s))" using assms(1) by (simp add: webhooks_wf_def distinct_map)
  have find_d: "List.find (\<lambda>x. dl_id x = dl_id d \<and> delivery_of_partner (ap_partnerId p) x s)
      (webhookDeliveries s) = None" if "d \<in> set (webhookDeliveries s)" "dl_endpointId d = i" for d
    using that inj not_own by (auto simp: find_None_iff dest: inj_onD)
  have listed: "dv_endpointId v \<noteq> i" if "v \<in> set (listWebhookDeliveries (ap_partnerId p) params s)" for v params
    using that not_own
    by (auto simp: listWebhookDeliveries_def delivery_view_of_def dest!: in_set_takeD)
  show ?thesis
    using no find_d listed
    by (simp add: getWebhookEndpointDetail_def updateWebhookEndpoint_def disableWebhookEndpoint_def
        rotateWebhookSigningSecret_def testWebhookEndpoint_def getPartnerWebhookEndpoint_def
        replayWebhookDelivery_def getWebhookDeliveryDetail_def)
qed

text \<open>The invariant of the webhook tables.  In every state the service can reach from an empty
  database by any sequence of its operations, ids are unique, every delivery belongs to an
  endpoint, carries the hash of its own payload, and agrees with its status: a pending one is
  scheduled, one in process has an attempt and no schedule, a finished one has no schedule, and
  no delivery is ever \<open>FAILED\<close>.\<close>

theorem webhook_tables_invariant:
  assumes "inj (cuid E)" and "(webhook_step E)\<^sup>*\<^sup>* empty_db s"
  shows "webhooks_wf E s"
  using webhook_steps_wf [OF assms(2) _ assms(1)] by (simp add: webhooks_wf_def empty_db_def)

section \<open>Examples\<close>

definition demo_endpoint :: WebhookEndpoint where
  "demo_endpoint =
     \<lparr>ep_id = cuid demo_env 0, ep_partnerId = ''p'', ep_label = ''main'', ep_url = ''https://pub/'',
      ep_signingSecretHash = [], ep_signingSecretVersion = 1,
      ep_eventTypes = [WebhookEventType_DESTINATION_UPDATED], ep_status = WebhookStatus_ACTIVE,
      ep_lastDeliveredAt = None, ep_createdAt = 0\<rparr>"

definition demo_delivery :: WebhookDelivery where
  "demo_delivery =
     \<lparr>dl_id = cuid demo_env 1, dl_endpointId = cuid demo_env 0,
      dl_eventType = WebhookEventType_DESTINATION_UPDATED, dl_payload = JNull,
      dl_payloadHash = hashWebhookPayload demo_env (json_stringify JNull),
      dl_status = DeliveryStatus_PENDING, dl_attemptCount = 0, dl_nextAttemptAt = Some 0,
      dl_lastAttemptAt = None, dl_responseCode = None, dl_lastError = None, dl_createdAt = 0\<rparr>"

definition demo_hooks :: db where
  "demo_hooks = empty_db\<lparr>webhookEndpoints := [demo_endpoint], webhookDeliveries := [demo_delivery],
     nextId := 2\<rparr>"

lemma demo_hooks_wf: "webhooks_wf demo_env demo_hooks"
  by (auto simp: webhooks_wf_def demo_hooks_def empty_db_def demo_endpoint_def demo_delivery_def
      delivery_ok_def intro!: drawn_at)

definition bad_gateway :: network where
  "bad_gateway rq = Response 502 ''bad gateway''"

lemma bad_gateway_fails: "\<not> succeeded (bad_gateway rq)"
  by (simp add: succeeded_def bad_gateway_def response_ok_def)

lemma demo_hooks_find:
  "find_delivery (cuid demo_env 1) demo_hooks = Some demo_delivery"
  "endpoint_of demo_delivery demo_hooks = Some demo_endpoint"
  by (simp_all add: find_delivery_def endpoint_of_def find_endpoint_def demo_hooks_def
      demo_delivery_def demo_endpoint_def)

theorem process_run_exact_witness:
  "\<exists>c s'. processPendingDeliveries demo_env bad_gateway 5000 \<lparr>pp_limit = None, pp_ignoreSchedule = False\<rparr>
       demo_hooks = (Inr c, s') \<and> rc_processedCount c = 1 \<and> rc_skippedCount c = 0"
proof -
  have "due_delivery False 5000 t demo_hooks demo_delivery" for t
    using demo_hooks_find(2)
    by (simp add: due_delivery_def endpoint_active_def demo_delivery_def demo_endpoint_def)
  then have "count_where (due_delivery False 5000 (buildDeliveryStaleThreshold demo_env 5000) demo_hooks)
      (webhookDeliveries demo_hooks) = 1"
    by (simp add: demo_hooks_def)
  with process_run_exact [OF demo_hooks_wf, of bad_gateway 5000
      "\<lparr>pp_limit = None, pp_ignoreSchedule = False\<rparr>"] show ?thesis by auto
qed

theorem failing_delivery_abandoned_witness:
  "\<exists>s' d'. attempt_many demo_env (replicate 6 (5000, bad_gateway)) (cuid demo_env 1) demo_hooks =
     (map (\<lambda>k. Inr (if k < 4 then RESCHEDULED else if k = 4 then ABANDONED else SKIPPED)) [0 ..< 6], s') \<and>
     find_delivery (cuid demo_env 1) s' = Some d' \<and> dl_attemptCount d' = 5 \<and>
     dl_status d' = DeliveryStatus_ABANDONED"
proof -
  have d: "dl_status demo_delivery = DeliveryStatus_PENDING" "dl_attemptCount demo_delivery = int 0"
    and e: "ep_status demo_endpoint = WebhookStatus_ACTIVE"
    by (simp_all add: demo_delivery_def demo_endpoint_def)
  have "\<forall>(now, net) \<in> set (replicate 6 (5000, bad_gateway)). \<forall>rq. \<not> succeeded (net rq)"
    using bad_gateway_fails by (auto dest: in_set_replicate [THEN iffD1])
  from failing_delivery_abandoned [OF demo_hooks_wf demo_hooks_find(1) d _ demo_hooks_find(2) e this]
  show ?thesis by (simp only: length_replicate) simp
qed

theorem disable_abandons_pending_witness:
  "\<exists>v s'. disableWebhookEndpoint demo_env 7 demo_partner (cuid demo_env 0) demo_hooks = (Inr v, s') \<and>
     map dl_status (webhookDeliveries s') = [DeliveryStatus_ABANDONED]"
proof -
  have "getPartnerWebhookEndpoint (ap_partnerId demo_partner) (cuid demo_env 0) demo_hooks = Inr demo_endpoint"
    by (simp add: getPartnerWebhookEndpoint_def demo_hooks_def demo_endpoint_def demo_partner_def)
  moreover have "ep_status demo_endpoint \<noteq> WebhookStatus_DISABLED" by (simp add: demo_endpoint_def)
  moreover have "dl_endpointId demo_delivery = cuid demo_env 0" "dl_status demo_delivery = DeliveryStatus_PENDING"
    by (simp_all add: demo_delivery_def)
  ultimately show ?thesis
    using disable_abandons_pending [OF demo_hooks_wf, of demo_partner "cuid demo_env 0" demo_endpoint 7]
    by (auto simp: demo_hooks_def)
qed

theorem webhook_tenant_isolation_witness:
  "getWebhookEndpointDetail ''q'' (cuid demo_env 0) demo_hooks = None \<and>
   getWebhookDeliveryDetail ''q'' (cuid demo_env 1) demo_hooks = None"
proof -
  let ?q = "demo_partner\<lparr>ap_partnerId := ''q''\<rparr>"
  have "\<not> (\<exists>e \<in> set (webhookEndpoints demo_hooks). ep_id e = cuid demo_env 0 \<and> ep_partnerId e = ap_partnerId ?q)"
    by (simp add: demo_hooks_def demo_endpoint_def)
  moreover have "demo_delivery \<in> set (webhookDeliveries demo_hooks)"
    "dl_endpointId demo_delivery = cuid demo_env 0" "dl_id demo_delivery = cuid demo_env 1"
    by (simp_all add: demo_hooks_def demo_delivery_def)
  ultimately show ?thesis
    using webhook_tenant_isolation [OF demo_hooks_wf, of "cuid demo_env 0" ?q] by force
qed

theorem webhook_tables_invariant_witness:
  "webhooks_wf demo_env
     (snd (enqueuePartnerWebhookEvent demo_env 3
        \<lparr>dp_partnerId = ''p'', dp_eventType = WebhookEventType_DESTINATION_UPDATED, dp_payload = JNull\<rparr>
        empty_db))"
proof (rule webhook_tables_invariant [OF demo_cuid_inj])
  let ?params = "\<lparr>dp_partnerId = ''p'', dp_eventType = WebhookEventType_DESTINATION_UPDATED,
    dp_payload = JNull\<rparr>"
  have "webhook_step demo_env empty_db (snd (enqueuePartnerWebhookEvent demo_env 3 ?params empty_db))"
    by (rule webhook_step.enqueue [where n = "fst (enqueuePartnerWebhookEvent demo_env 3 ?params empty_db)"])
       simp
  then show "(webhook_step demo_env)\<^sup>*\<^sup>* empty_db
      (snd (enqueuePartnerWebhookEvent demo_env 3 ?params empty_db))" by (rule r_into_rtranclp)
qed

end
