(* ===== verification/Webhook_Concurrency.thy ===== *)
theory Webhook_Concurrency
  imports Webhook_Facts
begin

text \<open>
  Several delivery workers on one database (\<open>processWebhookDeliveryById\<close> in
  \<open>backend/src/webhooks/webhooks.service.ts\<close>, run by every instance of the backend).  The
  database operations of a worker (read, claim, write back) are atomic; between them the other
  workers, partners' requests, the clock and crashes intervene.  What is proved is that the
  conditional claim gives each delivery to one worker at a time, as long as a worker that has
  claimed a delivery is done, or dead, before the claim is stale.
\<close>

section \<open>The system\<close>

datatype worker_phase =
    Idle
  | HasRead time WebhookDelivery WebhookEndpoint      \<comment> \<open>read, with its stale threshold\<close>
  | HasDisabled WebhookDelivery WebhookEndpoint       \<comment> \<open>read under a disabled endpoint\<close>
  | Sending time WebhookDelivery WebhookEndpoint      \<comment> \<open>claimed at a time, awaiting the answer\<close>

record system =
  sys_db :: db
  sys_workers :: "nat \<Rightarrow> worker_phase"
  sys_clock :: time

definition stale_ms :: "env \<Rightarrow> int" where
  "stale_ms E = WEBHOOK_DELIVERY_PROCESSING_STALE_MS (cfg E)"

inductive sys_step :: "env \<Rightarrow> system \<Rightarrow> system \<Rightarrow> bool" for E :: env where
  read: "\<lbrakk>sys_workers S w = Idle; st = buildDeliveryStaleThreshold E (sys_clock S);
          readDelivery st i (sys_db S) = Read_attempt d e\<rbrakk>
         \<Longrightarrow> sys_step E S (S\<lparr>sys_workers := (sys_workers S)(w := HasRead st d e)\<rparr>)"
| read_disabled: "\<lbrakk>sys_workers S w = Idle; st = buildDeliveryStaleThreshold E (sys_clock S);
          readDelivery st i (sys_db S) = Read_disabled d e\<rbrakk>
         \<Longrightarrow> sys_step E S (S\<lparr>sys_workers := (sys_workers S)(w := HasDisabled d e)\<rparr>)"
| abandon: "\<lbrakk>sys_workers S w = HasDisabled d e;
          s' = markDeliveryAsAbandoned E (sys_clock S) (dl_id d) (ep_id e) (ep_partnerId e)
                 (dl_eventType d) (dl_attemptCount d) ''Endpoint disabled before delivery.'' None (sys_db S)\<rbrakk>
         \<Longrightarrow> sys_step E S (S\<lparr>sys_db := s', sys_workers := (sys_workers S)(w := Idle)\<rparr>)"
| claim_won: "\<lbrakk>sys_workers S w = HasRead st d e;
          claimDelivery st (sys_clock S) d (sys_db S) = (n, s'); n \<noteq> 0\<rbrakk>
         \<Longrightarrow> sys_step E S (S\<lparr>sys_db := s', sys_workers := (sys_workers S)(w := Sending (sys_clock S) d e)\<rparr>)"
| claim_lost: "\<lbrakk>sys_workers S w = HasRead st d e;
          claimDelivery st (sys_clock S) d (sys_db S) = (0, s')\<rbrakk>
         \<Longrightarrow> sys_step E S (S\<lparr>sys_db := s', sys_workers := (sys_workers S)(w := Idle)\<rparr>)"
| finish: "\<lbrakk>sys_workers S w = Sending t d e;
          finishDelivery E (sys_clock S) d e out (sys_db S) = (r, s')\<rbrakk>
         \<Longrightarrow> sys_step E S (S\<lparr>sys_db := s', sys_workers := (sys_workers S)(w := Idle)\<rparr>)"
| crash: "sys_step E S (S\<lparr>sys_workers := (sys_workers S)(w := Idle)\<rparr>)"
| tick: "\<lbrakk>sys_clock S \<le> now;
          \<And>w t d e. sys_workers S w = Sending t d e \<Longrightarrow> now < t + stale_ms E\<rbrakk>
         \<Longrightarrow> sys_step E S (S\<lparr>sys_clock := now\<rparr>)"
| enqueue: "enqueuePartnerWebhookEvent E (sys_clock S) params (sys_db S) = (n, s')
         \<Longrightarrow> sys_step E S (S\<lparr>sys_db := s'\<rparr>)"
| create: "createWebhookEndpoint E (sys_clock S) p cdto (sys_db S) = (rc, s')
         \<Longrightarrow> sys_step E S (S\<lparr>sys_db := s'\<rparr>)"
| update: "updateWebhookEndpoint E (sys_clock S) p i udto (sys_db S) = (ru, s')
         \<Longrightarrow> sys_step E S (S\<lparr>sys_db := s'\<rparr>)"
| rotate: "rotateWebhookSigningSecret E (sys_clock S) p i (sys_db S) = (rr, s')
         \<Longrightarrow> sys_step E S (S\<lparr>sys_db := s'\<rparr>)"

definition sys_start :: "db \<Rightarrow> time \<Rightarrow> system" where
  "sys_start s now = \<lparr>sys_db = s, sys_workers = (\<lambda>_. Idle), sys_clock = now\<rparr>"

section \<open>The invariant\<close>

text \<open>A row claimed at \<open>t\<close> stays out of reach of a claim until \<open>t\<close> is stale.\<close>

definition guarded :: "time \<Rightarrow> WebhookDelivery \<Rightarrow> bool" where
  "guarded t x \<longleftrightarrow>
     dl_status x \<noteq> DeliveryStatus_PENDING \<and>
     (dl_status x = DeliveryStatus_PROCESSING \<longrightarrow> (\<exists>u \<ge> t. dl_lastAttemptAt x = Some u))"

lemma guarded_not_claimable: "\<lbrakk>guarded t x; st < t\<rbrakk> \<Longrightarrow> \<not> claimable st i x"
  by (auto simp: guarded_def claimable_def stale_processing_def)

definition ids_ok :: "env \<Rightarrow> db \<Rightarrow> bool" where
  "ids_ok E s \<longleftrightarrow> distinct (map dl_id (webhookDeliveries s)) \<and>
                 drawn E (nextId s) (map dl_id (webhookDeliveries s))"

definition sending_ok :: "env \<Rightarrow> system \<Rightarrow> bool" where
  "sending_ok E S \<longleftrightarrow>
     (\<forall>w t d e. sys_workers S w = Sending t d e \<longrightarrow>
        sys_clock S < t + stale_ms E \<and>
        dl_id d \<in> set (map dl_id (webhookDeliveries (sys_db S))) \<and>
        (\<forall>x \<in> set (webhookDeliveries (sys_db S)). dl_id x = dl_id d \<longrightarrow> guarded t x))"

definition reading_ok :: "env \<Rightarrow> system \<Rightarrow> bool" where
  "reading_ok E S \<longleftrightarrow>
     (\<forall>w st d e. sys_workers S w = HasRead st d e \<longrightarrow> st \<le> sys_clock S - stale_ms E)"

definition exclusive :: "system \<Rightarrow> bool" where
  "exclusive S \<longleftrightarrow>
     (\<forall>w w' t t' d d' e e'. sys_workers S w = Sending t d e \<and> sys_workers S w' = Sending t' d' e' \<and>
        dl_id d = dl_id d' \<longrightarrow> w = w')"

definition sys_inv :: "env \<Rightarrow> system \<Rightarrow> bool" where
  "sys_inv E S \<longleftrightarrow> ids_ok E (sys_db S) \<and> sending_ok E S \<and> reading_ok E S \<and> exclusive S"

text \<open>A change of the database that keeps ids and guards keeps the invariant.\<close>

definition guards_kept :: "env \<Rightarrow> ident set \<Rightarrow> db \<Rightarrow> db \<Rightarrow> bool" where
  "guards_kept E free s s' \<longleftrightarrow>
     ids_ok E s' \<and> set (map dl_id (webhookDeliveries s)) \<subseteq> set (map dl_id (webhookDeliveries s')) \<and>
     (\<forall>x' \<in> set (webhookDeliveries s'). dl_id x' \<notin> free \<and> dl_id x' \<in> set (map dl_id (webhookDeliveries s)) \<longrightarrow>
        (\<exists>x \<in> set (webhookDeliveries s). dl_id x = dl_id x' \<and> (\<forall>t. guarded t x \<longrightarrow> guarded t x')))"

lemma sending_kept:
  assumes "sending_ok E S" "guards_kept E free (sys_db S) s'"
    and "\<And>w t d e. ws w = Sending t d e \<Longrightarrow> sys_workers S w = Sending t d e \<and> dl_id d \<notin> free"
  shows "sending_ok E (S\<lparr>sys_db := s', sys_workers := ws\<rparr>)"
  unfolding sending_ok_def
proof (intro allI impI)
  fix w t d e
  assume "sys_workers (S\<lparr>sys_db := s', sys_workers := ws\<rparr>) w = Sending t d e"
  then have w: "sys_workers S w = Sending t d e" "dl_id d \<notin> free" using assms(3) by auto
  have ok: "sys_clock S < t + stale_ms E" "dl_id d \<in> set (map dl_id (webhookDeliveries (sys_db S)))"
    and g: "\<And>x. \<lbrakk>x \<in> set (webhookDeliveries (sys_db S)); dl_id x = dl_id d\<rbrakk> \<Longrightarrow> guarded t x"
    using assms(1) w(1) unfolding sending_ok_def by blast+
  have "guarded t x'" if x': "x' \<in> set (webhookDeliveries s')" "dl_id x' = dl_id d" for x'
  proof -
    obtain x where "x \<in> set (webhookDeliveries (sys_db S))" "dl_id x = dl_id x'"
      "guarded t x \<longrightarrow> guarded t x'"
      using assms(2) x' w(2) ok(2) unfolding guards_kept_def by metis
    with g x'(2) show ?thesis by auto
  qed
  moreover have "dl_id d \<in> set (map dl_id (webhookDeliveries s'))"
    using assms(2) ok(2) unfolding guards_kept_def by blast
  ultimately show "sys_clock (S\<lparr>sys_db := s', sys_workers := ws\<rparr>) < t + stale_ms E \<and>
        dl_id d \<in> set (map dl_id (webhookDeliveries (sys_db (S\<lparr>sys_db := s', sys_workers := ws\<rparr>)))) \<and>
        (\<forall>x \<in> set (webhookDeliveries (sys_db (S\<lparr>sys_db := s', sys_workers := ws\<rparr>))).
           dl_id x = dl_id d \<longrightarrow> guarded t x)"
    using ok(1) by simp
qed

lemma guards_kept_update:
  assumes "ids_ok E s" "webhookDeliveries s' = update_where P f (webhookDeliveries s)"
    and "nextId s \<le> nextId s'" and "\<And>x. dl_id (f x) = dl_id x"
    and "\<And>x t. \<lbrakk>x \<in> set (webhookDeliveries s); P x; dl_id x \<notin> free; guarded t x\<rbrakk> \<Longrightarrow> guarded t (f x)"
  shows "guards_kept E free s s'"
proof -
  have ids: "map dl_id (webhookDeliveries s') = map dl_id (webhookDeliveries s)"
    unfolding assms(2) by (rule map_update_where) (rule assms(4))
  have "\<exists>x \<in> set (webhookDeliveries s). dl_id x = dl_id x' \<and> (\<forall>t. guarded t x \<longrightarrow> guarded t x')"
    if x': "x' \<in> set (webhookDeliveries s')" "dl_id x' \<notin> free" for x'
    using x'(1) unfolding assms(2)
  proof (rule in_update_whereE)
    fix q assume q: "q \<in> set (webhookDeliveries s)" "P q" "x' = f q"
    show ?thesis by (rule bexI [OF _ q(1)]) (use q x'(2) assms(4,5) in auto)
  qed auto
  with assms(1,3) show ?thesis
    unfolding guards_kept_def ids_ok_def ids by (auto intro: drawn_mono)
qed

lemma guards_kept_same:
  "\<lbrakk>ids_ok E s; webhookDeliveries s' = webhookDeliveries s; nextId s \<le> nextId s'\<rbrakk>
   \<Longrightarrow> guards_kept E free s s'"
  by (rule guards_kept_update [where P = "\<lambda>_. False" and f = id]) (simp_all add: update_where_id)

lemma guards_kept_trans:
  assumes "guards_kept E {} s s1" "guards_kept E {} s1 s2"
  shows "guards_kept E {} s s2"
proof -
  have "\<exists>x \<in> set (webhookDeliveries s). dl_id x = dl_id x2 \<and> (\<forall>t. guarded t x \<longrightarrow> guarded t x2)"
    if x2: "x2 \<in> set (webhookDeliveries s2)" "dl_id x2 \<in> set (map dl_id (webhookDeliveries s))" for x2
  proof -
    have "dl_id x2 \<in> set (map dl_id (webhookDeliveries s1))"
      using assms(1) x2(2) unfolding guards_kept_def by blast
    then obtain x1 where x1: "x1 \<in> set (webhookDeliveries s1)" "dl_id x1 = dl_id x2"
      "\<forall>t. guarded t x1 \<longrightarrow> guarded t x2"
      using assms(2) x2(1) unfolding guards_kept_def by blast
    obtain x where "x \<in> set (webhookDeliveries s)" "dl_id x = dl_id x1" "\<forall>t. guarded t x \<longrightarrow> guarded t x1"
      using assms(1) x1(1,2) x2(2) unfolding guards_kept_def by (metis empty_iff)
    with x1 show ?thesis by (intro bexI [of _ x]) auto
  qed
  moreover have "ids_ok E s2" using assms(2) by (simp add: guards_kept_def)
  moreover have "set (map dl_id (webhookDeliveries s)) \<subseteq> set (map dl_id (webhookDeliveries s2))"
    using assms unfolding guards_kept_def by (meson subset_trans)
  ultimately show ?thesis unfolding guards_kept_def by blast
qed

lemma guards_abandon:
  "ids_ok E s \<Longrightarrow> guards_kept E {} s (markDeliveryAsAbandoned E now i ei pi ty n err code s)"
  by (rule guards_kept_update [where P = "\<lambda>d. dl_id d = i" and f = "\<lambda>d. d\<lparr>dl_status := DeliveryStatus_ABANDONED,
         dl_responseCode := code, dl_lastError := Some err, dl_nextAttemptAt := None\<rparr>"])
     (simp_all add: markDeliveryAsAbandoned_def update_delivery_def Let_def guarded_def)

lemma guards_claim:
  assumes "ids_ok E s" "claimDelivery st now d s = (n, s')"
  shows "guards_kept E {dl_id d} s s'"
  by (rule guards_kept_update [OF assms(1), where P = "claimable st (dl_id d)"
        and f = "claim now (dl_attemptCount d + 1)"])
     (use assms(2) in \<open>auto simp: claimDelivery_def Let_def claim_def claimable_def\<close>)

lemma guards_claim_lost:
  assumes "ids_ok E s" "claimDelivery st now d s = (0, s')"
  shows "guards_kept E {} s s'"
  by (rule guards_kept_update [OF assms(1), where P = "claimable st (dl_id d)"
        and f = "claim now (dl_attemptCount d + 1)"])
     (use assms(2) in \<open>auto simp: claimDelivery_def Let_def claim_def count_where_zero_iff\<close>)

text \<open>Writing one delivery back, whatever else happens outside the delivery table.\<close>

definition row_change :: "ident \<Rightarrow> db \<Rightarrow> db \<Rightarrow> bool" where
  "row_change i s s' \<longleftrightarrow>
     (\<exists>f. webhookDeliveries s' = update_where (\<lambda>x. dl_id x = i) f (webhookDeliveries s) \<and>
          (\<forall>x. dl_id (f x) = dl_id x)) \<and> nextId s \<le> nextId s'"

lemma row_change_id: "row_change i s s"
  unfolding row_change_def by (auto intro!: exI [of _ "\<lambda>x. x"] simp: update_where_def)

lemma row_change_update: "(\<And>x. dl_id (f x) = dl_id x) \<Longrightarrow> row_change i s (update_delivery i f s)"
  unfolding row_change_def update_delivery_def by (auto intro!: exI [of _ f])

lemma row_change_record: "row_change i s s' \<Longrightarrow> row_change i s (recordEvent E now inp s')"
  by (simp add: row_change_def)

lemma row_change_endpoint: "row_change i s s' \<Longrightarrow> row_change i s (update_endpoint j f s')"
  by (simp add: row_change_def update_endpoint_def)

lemmas row_change_intros = row_change_id row_change_update row_change_record row_change_endpoint

lemma row_change_failed:
  "handleFailedDeliveryAttempt E now n d e err code s = (r, s') \<Longrightarrow> row_change (dl_id d) s s'"
  by (auto simp: handleFailedDeliveryAttempt_def markDeliveryAsAbandoned_def Let_def
      split: sum.splits bool.splits intro!: row_change_intros)

lemma row_change_finish:
  "finishDelivery E now d e out s = (r, s') \<Longrightarrow> row_change (dl_id d) s s'"
  by (auto simp: finishDelivery_def Let_def split: fetch_outcome.splits if_splits
      intro!: row_change_intros dest: row_change_failed)

lemma guards_finish:
  assumes "ids_ok E s" "finishDelivery E now d e out s = (r, s')"
  shows "guards_kept E {dl_id d} s s'"
proof -
  obtain f where f: "webhookDeliveries s' = update_where (\<lambda>x. dl_id x = dl_id d) f (webhookDeliveries s)"
    "\<And>x. dl_id (f x) = dl_id x" "nextId s \<le> nextId s'"
    using row_change_finish [OF assms(2)] by (auto simp: row_change_def)
  show ?thesis
    by (rule guards_kept_update [OF assms(1) f(1,3,2)]) simp
qed

lemma guards_enqueue:
  assumes ids: "ids_ok E s" and inj: "inj (cuid E)"
    and e: "enqueuePartnerWebhookEvent E now params s = (n, s')"
  shows "guards_kept E {} s s'"
proof -
  let ?rows = "new_rows E now params s"
  have s': "webhookDeliveries s' = webhookDeliveries s @ ?rows" "nextId s' = nextId s + n"
    "map dl_id ?rows = map (cuid E) [nextId s ..< nextId s + n]"
    using e new_rows_ids [of E now params s] by (auto simp: enqueue_eq)
  have new: "cuid E k \<notin> set (map dl_id (webhookDeliveries s))" if "nextId s \<le> k" for k
    by (rule drawn_fresh [OF _ inj that]) (use ids in \<open>simp add: ids_ok_def\<close>)
  have "distinct (map dl_id ?rows)"
    unfolding s'(3) by (simp add: distinct_map inj_on_subset [OF inj])
  moreover have apart: "set (map dl_id (webhookDeliveries s)) \<inter> set (map dl_id ?rows) = {}"
    unfolding s'(3) using new by auto (metis image_eqI)
  moreover have "drawn E (nextId s') (map dl_id ?rows)"
    unfolding s'(2,3) drawn_def by auto
  ultimately have "ids_ok E s'"
    using ids unfolding ids_ok_def s'(1,2) by (auto intro: drawn_mono)
  with apart show ?thesis unfolding guards_kept_def s'(1) by auto
qed

lemma guards_create:
  "\<lbrakk>ids_ok E s; createWebhookEndpoint E now p dto s = (r, s')\<rbrakk> \<Longrightarrow> guards_kept E {} s s'"
  by (rule guards_kept_same)
     (auto simp: createWebhookEndpoint_def update_endpoint_def fresh_def Let_def split: sum.splits)

lemma guards_rotate:
  "\<lbrakk>ids_ok E s; rotateWebhookSigningSecret E now p i s = (r, s')\<rbrakk> \<Longrightarrow> guards_kept E {} s s'"
  by (rule guards_kept_same)
     (auto simp: rotateWebhookSigningSecret_def update_endpoint_def Let_def split: sum.splits if_splits)

lemma guards_abandonPending:
  assumes "ids_ok E s" "abandonPendingDeliveriesForEndpoint E now i p err s = (n, s')"
  shows "guards_kept E {} s s'"
proof -
  have "nextId s \<le> nextId s'"
    using assms(2) by (auto simp: abandonPendingDeliveriesForEndpoint_def Let_def foldl_recordEvent_frame
        split: if_splits)
  with assms(1) show ?thesis
    by (intro guards_kept_update [OF _ abandonPending_effect(2) [OF assms(2)]])
       (auto simp: abandon_pending_def pending_of_def guarded_def)
qed

lemma guards_update:
  assumes ids: "ids_ok E s" and u: "updateWebhookEndpoint E now p i dto s = (r, s')"
  shows "guards_kept E {} s s'"
proof -
  have ep: "guards_kept E {} s (update_endpoint j f s)" for j f
    by (rule guards_kept_same [OF ids]) (simp_all add: update_endpoint_def)
  have rec: "guards_kept E {} s (recordEvent E now inp s1)" if "guards_kept E {} s s1" for inp s1
    by (rule guards_kept_trans [OF that guards_kept_same])
       (use that in \<open>simp_all add: guards_kept_def\<close>)
  have ab: "guards_kept E {} s s2"
    if "abandonPendingDeliveriesForEndpoint E now j q err (update_endpoint k f s) = (n, s2)"
    for j q err k f n s2
    by (rule guards_kept_trans [OF ep guards_abandonPending [OF _ that]])
       (use ep [of k f] in \<open>simp add: guards_kept_def\<close>)
  have "guards_kept E {} s s" by (rule guards_kept_same [OF ids]) simp_all
  with u ep show ?thesis
    by (auto simp: updateWebhookEndpoint_def Let_def split: sum.splits if_splits prod.splits
        intro!: rec intro: ab)
qed

section \<open>Every step keeps the invariant\<close>

lemma sys_inv_start: "ids_ok E s \<Longrightarrow> sys_inv E (sys_start s now)"
  by (simp add: sys_inv_def sys_start_def sending_ok_def reading_ok_def exclusive_def)

lemma exclusive_sub:
  assumes "exclusive S" "\<And>w t d e. ws w = Sending t d e \<Longrightarrow> sys_workers S w = Sending t d e"
  shows "exclusive (S\<lparr>sys_db := s', sys_workers := ws\<rparr>)"
  using assms unfolding exclusive_def by (simp; blast)

lemma reading_sub:
  assumes "reading_ok E S"
    "\<And>w st d e. ws w = HasRead st d e \<Longrightarrow> sys_workers S w = HasRead st d e \<or> st \<le> sys_clock S - stale_ms E"
  shows "reading_ok E (S\<lparr>sys_db := s', sys_workers := ws\<rparr>)"
  using assms unfolding reading_ok_def by (simp; blast)

text \<open>Steps that give no worker a new claim.\<close>

lemma sys_inv_quiet:
  assumes "sys_inv E S" "guards_kept E free (sys_db S) s'"
    and "\<And>w t d e. ws w = Sending t d e \<Longrightarrow> sys_workers S w = Sending t d e \<and> dl_id d \<notin> free"
    and "\<And>w st d e. ws w = HasRead st d e \<Longrightarrow> sys_workers S w = HasRead st d e \<or> st \<le> sys_clock S - stale_ms E"
  shows "sys_inv E (S\<lparr>sys_db := s', sys_workers := ws\<rparr>)"
  using assms sending_kept [OF _ assms(2,3)] exclusive_sub [of S ws s'] reading_sub [of E S ws s']
  unfolding sys_inv_def guards_kept_def by simp

lemma sys_inv_quiet_workers:
  assumes "sys_inv E S"
    and "\<And>w t d e. ws w = Sending t d e \<Longrightarrow> sys_workers S w = Sending t d e"
    and "\<And>w st d e. ws w = HasRead st d e \<Longrightarrow> sys_workers S w = HasRead st d e \<or> st \<le> sys_clock S - stale_ms E"
  shows "sys_inv E (S\<lparr>sys_workers := ws\<rparr>)"
proof -
  have "guards_kept E {} (sys_db S) (sys_db S)"
    by (rule guards_kept_same) (use assms(1) in \<open>simp_all add: sys_inv_def\<close>)
  from sys_inv_quiet [OF assms(1) this, of ws] assms(2,3) show ?thesis by simp
qed

lemma sys_inv_quiet_db:
  assumes "sys_inv E S" "guards_kept E {} (sys_db S) s'"
  shows "sys_inv E (S\<lparr>sys_db := s'\<rparr>)"
  using sys_inv_quiet [OF assms, of "sys_workers S"] by simp

lemma claimed_row:
  assumes "claimDelivery st now d s = (n, s')" "n \<noteq> 0"
  obtains x where "x \<in> set (webhookDeliveries s)" "claimable st (dl_id d) x"
proof -
  have "count_where (claimable st (dl_id d)) (webhookDeliveries s) \<noteq> 0"
    using assms by (auto simp: claimDelivery_def Let_def)
  then show ?thesis using that unfolding count_where_zero_iff by blast
qed

text \<open>A claim is won only on a delivery nobody is sending.\<close>

lemma claim_won_free:
  assumes inv: "sys_inv E S" and w: "sys_workers S w = HasRead st d e"
    and c: "claimDelivery st now d (sys_db S) = (n, s')" and n: "n \<noteq> 0"
    and w': "sys_workers S w' = Sending t d' e'"
  shows "dl_id d' \<noteq> dl_id d"
proof
  assume same: "dl_id d' = dl_id d"
  obtain x where x: "x \<in> set (webhookDeliveries (sys_db S))" "claimable st (dl_id d) x"
    by (rule claimed_row [OF c n])
  have "st < t"
    using inv w w' unfolding sys_inv_def reading_ok_def sending_ok_def by fastforce
  moreover have "dl_id x = dl_id d'" using x(2) same by (simp add: claimable_def)
  then have "guarded t x"
    using inv w' x(1) unfolding sys_inv_def sending_ok_def by blast
  ultimately show False using guarded_not_claimable x(2) by blast
qed

lemma claim_won_guard:
  assumes "ids_ok E s" "claimDelivery st now d s = (n, s')" "n \<noteq> 0"
  shows "dl_id d \<in> set (map dl_id (webhookDeliveries s'))"
    "\<forall>x \<in> set (webhookDeliveries s'). dl_id x = dl_id d \<longrightarrow> guarded now x"
proof -
  let ?f = "claim now (dl_attemptCount d + 1)" and ?P = "claimable st (dl_id d)"
  have s': "webhookDeliveries s' = update_where ?P ?f (webhookDeliveries s)"
    using assms(2) by (auto simp: claimDelivery_def Let_def)
  obtain y where y: "y \<in> set (webhookDeliveries s)" "?P y"
    by (rule claimed_row [OF assms(2,3)])
  have inj: "inj_on dl_id (set (webhookDeliveries s))" using assms(1) by (simp add: ids_ok_def distinct_map)
  have "?f y \<in> set (webhookDeliveries s')" "dl_id (?f y) = dl_id d"
    using y by (auto simp: s' set_update_where claim_def claimable_def)
  then show "dl_id d \<in> set (map dl_id (webhookDeliveries s'))" by (metis image_eqI set_map)
  show "\<forall>x \<in> set (webhookDeliveries s'). dl_id x = dl_id d \<longrightarrow> guarded now x"
  proof (intro ballI impI)
    fix x assume x: "x \<in> set (webhookDeliveries s')" "dl_id x = dl_id d"
    from x(1) show "guarded now x" unfolding s'
    proof (rule in_update_whereE)
      fix q assume "x = ?f q"
      then show ?thesis by (simp add: guarded_def claim_def)
    next
      assume "x \<in> set (webhookDeliveries s)" "\<not> ?P x"
      moreover have "dl_id y = dl_id d" using y(2) by (simp add: claimable_def)
      ultimately show ?thesis using y inj x(2) by (metis inj_onD)
    qed
  qed
qed

lemma sys_inv_claim:
  assumes inv: "sys_inv E S" and stale: "0 < stale_ms E"
    and w: "sys_workers S w = HasRead st d e"
    and c: "claimDelivery st (sys_clock S) d (sys_db S) = (n, s')" and n: "n \<noteq> 0"
  shows "sys_inv E (S\<lparr>sys_db := s', sys_workers := (sys_workers S)(w := Sending (sys_clock S) d e)\<rparr>)"
    (is "sys_inv E ?S'")
proof -
  have ids: "ids_ok E (sys_db S)" using inv by (simp add: sys_inv_def)
  note free = claim_won_free [OF inv w c n]
  note won = claim_won_guard [OF ids c n]
  have others: "sending_ok E (S\<lparr>sys_db := s', sys_workers := (sys_workers S)(w := Idle)\<rparr>)"
    by (rule sending_kept [OF _ guards_claim [OF ids c]])
       (use inv free in \<open>auto simp: sys_inv_def split: if_splits\<close>)
  have "sending_ok E ?S'"
    unfolding sending_ok_def
  proof (intro allI impI)
    fix w' t d' e' assume w': "sys_workers ?S' w' = Sending t d' e'"
    show "sys_clock ?S' < t + stale_ms E \<and>
      dl_id d' \<in> set (map dl_id (webhookDeliveries (sys_db ?S'))) \<and>
      (\<forall>x \<in> set (webhookDeliveries (sys_db ?S')). dl_id x = dl_id d' \<longrightarrow> guarded t x)"
    proof (cases "w' = w")
      case True
      with w' won stale show ?thesis by auto
    next
      case False
      then have "sys_workers (S\<lparr>sys_db := s', sys_workers := (sys_workers S)(w := Idle)\<rparr>) w' = Sending t d' e'"
        using w' by simp
      with others show ?thesis unfolding sending_ok_def by fastforce
    qed
  qed
  moreover have "exclusive ?S'"
    using inv free unfolding sys_inv_def exclusive_def by (auto split: if_splits) metis+
  moreover have "reading_ok E ?S'"
    using inv unfolding sys_inv_def reading_ok_def by auto
  moreover have "ids_ok E s'" using guards_claim [OF ids c] by (simp add: guards_kept_def)
  ultimately show ?thesis by (simp add: sys_inv_def)
qed

lemma sys_step_inv:
  assumes step: "sys_step E S S'" and inv: "sys_inv E S" and inj: "inj (cuid E)" and stale: "0 < stale_ms E"
  shows "sys_inv E S'"
proof -
  have ids: "ids_ok E (sys_db S)" using inv by (simp add: sys_inv_def)
  from step show ?thesis
  proof cases
    case (read w st i d e)
    then show ?thesis
      by (auto intro!: sys_inv_quiet_workers [OF inv] simp: buildDeliveryStaleThreshold_def stale_ms_def
          split: if_splits)
  next
    case (read_disabled w st i d e)
    then show ?thesis by (auto intro!: sys_inv_quiet_workers [OF inv] split: if_splits)
  next
    case (abandon w d e s')
    then show ?thesis
      by (auto intro!: sys_inv_quiet [OF inv guards_abandon [OF ids]] split: if_splits)
  next
    case (claim_won w st d e n s')
    then show ?thesis using sys_inv_claim [OF inv stale] by blast
  next
    case (claim_lost w st d e s')
    then show ?thesis
      by (auto intro!: sys_inv_quiet [OF inv guards_claim_lost [OF ids]] split: if_splits)
  next
    case (finish w t d e out r s')
    have "dl_id d' \<noteq> dl_id d" if "w' \<noteq> w" "sys_workers S w' = Sending t' d' e'" for w' t' d' e'
      using inv that finish(2) unfolding sys_inv_def exclusive_def by blast
    with finish show ?thesis
      by (auto intro!: sys_inv_quiet [OF inv guards_finish [OF ids]] split: if_splits)
  next
    case (crash w)
    then show ?thesis by (auto intro!: sys_inv_quiet_workers [OF inv] split: if_splits)
  next
    case (tick now)
    then show ?thesis
      using inv unfolding sys_inv_def sending_ok_def reading_ok_def exclusive_def by fastforce
  next
    case (enqueue params n s')
    then show ?thesis using sys_inv_quiet_db [OF inv guards_enqueue [OF ids inj]] by blast
  next
    case (create p cdto rc s')
    then show ?thesis using sys_inv_quiet_db [OF inv guards_create [OF ids]] by blast
  next
    case (update p i udto ru s')
    then show ?thesis using sys_inv_quiet_db [OF inv guards_update [OF ids]] by blast
  next
    case (rotate p i rr s')
    then show ?thesis using sys_inv_quiet_db [OF inv guards_rotate [OF ids]] by blast
  qed
qed

lemma sys_steps_inv:
  "\<lbrakk>(sys_step E)\<^sup>*\<^sup>* S S'; sys_inv E S; inj (cuid E); 0 < stale_ms E\<rbrakk> \<Longrightarrow> sys_inv E S'"
  by (induction rule: rtranclp_induct) (auto dest: sys_step_inv)

text \<open>C32: one sender per delivery.  Start any number of idle workers on well-formed tables, and let
  their reads, claims, write-backs and crashes interleave in any order with each other, with
  partners' requests and with the clock.  As long as every worker that has claimed a delivery
  finishes or dies within the stale window, no two workers are ever sending the same delivery,
  and the delivery a worker is sending cannot be claimed by anyone.\<close>

theorem one_sender_per_delivery:
  assumes "(sys_step E)\<^sup>*\<^sup>* (sys_start s now) S" and "webhooks_wf E s"
    and "inj (cuid E)" and "0 < WEBHOOK_DELIVERY_PROCESSING_STALE_MS (cfg E)"
  shows "(\<forall>w w' t t' d d' e e'. sys_workers S w = Sending t d e \<and> sys_workers S w' = Sending t' d' e' \<and>
            dl_id d = dl_id d' \<longrightarrow> w = w') \<and>
         (\<forall>w w' t st d d' e e'. sys_workers S w = Sending t d e \<and> sys_workers S w' = HasRead st d' e' \<and>
            dl_id d = dl_id d' \<longrightarrow> fst (claimDelivery st (sys_clock S) d' (sys_db S)) = 0)"
proof -
  have "ids_ok E s" using assms(2) by (simp add: webhooks_wf_def ids_ok_def)
  then have inv: "sys_inv E S"
    using sys_steps_inv [OF assms(1) sys_inv_start assms(3)] assms(4) by (simp add: stale_ms_def)
  have "fst (claimDelivery st (sys_clock S) d' (sys_db S)) = 0"
    if "sys_workers S w = Sending t d e" "sys_workers S w' = HasRead st d' e'" "dl_id d = dl_id d'"
    for w w' t st d d' e e'
  proof (rule ccontr)
    assume "fst (claimDelivery st (sys_clock S) d' (sys_db S)) \<noteq> 0"
    from claim_won_free [OF inv that(2) prod.collapse [symmetric] this that(1)] that(3)
    show False by simp
  qed
  with inv show ?thesis unfolding sys_inv_def exclusive_def by blast
qed

theorem one_sender_per_delivery_witness:
  "fst (claimDelivery (-60000) 0 demo_delivery
     (snd (claimDelivery (-60000) 0 demo_delivery demo_hooks))) = 0"
proof -
  let ?st = "buildDeliveryStaleThreshold demo_env 0"
  let ?S0 = "sys_start demo_hooks 0"
  let ?s1 = "snd (claimDelivery ?st 0 demo_delivery demo_hooks)"
  have read: "readDelivery ?st (cuid demo_env 1) demo_hooks = Read_attempt demo_delivery demo_endpoint"
    using demo_hooks_find by (simp add: readDelivery_def demo_delivery_def demo_endpoint_def)
  have won: "fst (claimDelivery ?st 0 demo_delivery demo_hooks) = 1"
    by (simp add: claimDelivery_def Let_def demo_hooks_def claimable_def demo_delivery_def)
  define S1 where "S1 = ?S0\<lparr>sys_workers := (sys_workers ?S0)(0 := HasRead ?st demo_delivery demo_endpoint)\<rparr>"
  define S2 where "S2 = S1\<lparr>sys_workers := (sys_workers S1)(1 := HasRead ?st demo_delivery demo_endpoint)\<rparr>"
  define S3 where "S3 = S2\<lparr>sys_db := ?s1,
     sys_workers := (sys_workers S2)(0 := Sending (sys_clock S2) demo_delivery demo_endpoint)\<rparr>"
  have "sys_step demo_env ?S0 S1" unfolding S1_def
    by (rule sys_step.read [where i = "cuid demo_env 1"]) (use read in \<open>simp_all add: sys_start_def\<close>)
  moreover have "sys_step demo_env S1 S2" unfolding S2_def
    by (rule sys_step.read [where i = "cuid demo_env 1"]) (use read in \<open>simp_all add: S1_def sys_start_def\<close>)
  moreover have "sys_step demo_env S2 S3" unfolding S3_def
    by (rule sys_step.claim_won [where n = 1 and st = ?st])
       (use won in \<open>simp_all add: S2_def S1_def sys_start_def prod_eq_iff\<close>)
  ultimately have run: "(sys_step demo_env)\<^sup>*\<^sup>* ?S0 S3"
    by (intro rtranclp.rtrancl_into_rtrancl [OF rtranclp.rtrancl_into_rtrancl [OF r_into_rtranclp]])
  have stale: "0 < WEBHOOK_DELIVERY_PROCESSING_STALE_MS (cfg demo_env)"
    by (simp add: demo_env_def demo_config_def)
  have w: "sys_workers S3 0 = Sending 0 demo_delivery demo_endpoint"
    "sys_workers S3 1 = HasRead ?st demo_delivery demo_endpoint"
    "sys_db S3 = ?s1" "sys_clock S3 = 0"
    by (simp_all add: S3_def S2_def S1_def sys_start_def)
  have "?st = -60000" by (simp add: buildDeliveryStaleThreshold_def demo_env_def demo_config_def)
  with one_sender_per_delivery [OF run demo_hooks_wf demo_cuid_inj stale, THEN conjunct2, rule_format,
      of 0 0 demo_delivery demo_endpoint 1 ?st demo_delivery demo_endpoint] w
  show ?thesis by simp
qed

end
