(* ===== verification/Signing_Keys.thy ===== *)
theory Signing_Keys
  imports Audit_Service Recipients
begin

text \<open>
  The signing keys of \<open>backend/src/partners/partners.service.ts\<close>: registration by the operator or
  the partner, revocation, and the key an attestation is verified with.  A key is unique by its id
  within the partner and by its fingerprint in the network; the last active key cannot be revoked.
\<close>

record AuditActorContext =
  ac_actorIdentifier :: string
  ac_actorPartnerId :: "ident option"
  ac_actorType :: AuditActorType

definition buildPartnerAuditContext :: "AuthenticatedPartner \<Rightarrow> AuditActorContext" where
  "buildPartnerAuditContext p =
     \<lparr>ac_actorIdentifier = ap_actorIdentifier p, ac_actorPartnerId = Some (ap_partnerId p),
      ac_actorType = (if ap_actorType p = PARTNER_USER then AuditActorType_USER else AuditActorType_PARTNER)\<rparr>"

definition admin_context :: AuditActorContext where
  "admin_context = \<lparr>ac_actorIdentifier = ''admin-token'', ac_actorPartnerId = None, ac_actorType = AuditActorType_SYSTEM\<rparr>"

text \<open>An audit entry about a partner by an actor.\<close>

definition context_event ::
    "AuditActorContext \<Rightarrow> ident \<Rightarrow> string \<Rightarrow> string \<Rightarrow> ident \<Rightarrow> string \<Rightarrow> json \<Rightarrow> RecordAuditEventInput" where
  "context_event actor subjectPartnerId action entityType entityId summary metadata =
     \<lparr>ai_actorType = ac_actorType actor, ai_actorPartnerId = ac_actorPartnerId actor,
      ai_subjectPartnerId = Some subjectPartnerId, ai_actorIdentifier = Some (ac_actorIdentifier actor),
      ai_action = action, ai_entityType = entityType, ai_entityId = entityId, ai_summary = Some summary,
      ai_metadata = Some metadata\<rparr>"

definition getPartnerBySlug :: "string \<Rightarrow> db \<Rightarrow> Partner option result" where
  "getPartnerBySlug slug s =
     rbind (normalizePartnerSlug slug) (\<lambda>n. Inr (List.find (\<lambda>p. pa_slug p = n) (partners s)))"

definition getPartnerBySlugOrThrow :: "string \<Rightarrow> db \<Rightarrow> Partner result" where
  "getPartnerBySlugOrThrow slug s =
     rbind (normalizePartnerSlug slug) (\<lambda>n.
       case List.find (\<lambda>p. pa_slug p = n) (partners s) of
         None \<Rightarrow> Inl (NotFound (''Partner '' @ quoted n @ '' does not exist. Register the partner first.''))
       | Some p \<Rightarrow> Inr p)"

definition getPartnerByIdOrThrow :: "ident \<Rightarrow> db \<Rightarrow> Partner result" where
  "getPartnerByIdOrThrow partnerId s =
     (case partner_row s partnerId of
        None \<Rightarrow> Inl (NotFound (''Partner '' @ quoted partnerId @ '' was not found.''))
      | Some p \<Rightarrow> Inr p)"

section \<open>Registration\<close>

record RegisterKeyInput =
  rk_keyId :: string
  rk_algorithm :: SigningKeyAlgorithm
  rk_publicKeyPem :: string
  rk_validFrom :: string
  rk_validTo :: "string option"

definition assertValidPublicKey :: "env \<Rightarrow> string \<Rightarrow> unit result" where
  "assertValidPublicKey E pem =
     (if validPublicKey E pem then Inr () else Inl (BadRequest ''Invalid public key PEM supplied.''))"

definition required_date :: "env \<Rightarrow> string \<Rightarrow> time result" where
  "required_date E v = (case parseDate E v of None \<Rightarrow> Inl (JsError ''Invalid Date'') | Some t \<Rightarrow> Inr t)"

definition optional_date :: "env \<Rightarrow> string option \<Rightarrow> time option result" where
  "optional_date E v = (if falsy v then Inr None else map_sum id Some (required_date E (or_else v [])))"

definition signing_key_event :: "AuditActorContext \<Rightarrow> Partner \<Rightarrow> PartnerSigningKey \<Rightarrow> RecordAuditEventInput" where
  "signing_key_event actor partner k =
     context_event actor (pa_id partner) ''partner.signing_key.registered'' ''PartnerSigningKey'' (sk_id k)
       (''Registered signing key '' @ quoted (sk_keyId k) @ '' for partner '' @ quoted (pa_slug partner) @ ''.'')
       (JObj [(''algorithm'', JStr (name_SigningKeyAlgorithm (sk_algorithm k))),
              (''fingerprint'', JStr (sk_fingerprint k)), (''keyId'', JStr (sk_keyId k)),
              (''partnerSlug'', JStr (pa_slug partner))])"

text \<open>The transaction; the unique keys of the table may refuse the row.\<close>

definition insert_signing_key ::
    "env \<Rightarrow> time \<Rightarrow> Partner \<Rightarrow> AuditActorContext \<Rightarrow> string \<Rightarrow> SigningKeyAlgorithm \<Rightarrow> string \<Rightarrow> time \<Rightarrow> time option \<Rightarrow>
     db \<Rightarrow> PartnerSigningKey result \<times> db" where
  "insert_signing_key E now partner actor keyId algorithm pem validFrom validTo s =
     (let fingerprint = sha256_hex E pem in
      if \<exists>k \<in> set (signingKeys s). sk_fingerprint k = fingerprint \<or>
           (sk_partnerId k = pa_id partner \<and> sk_keyId k = keyId)
      then (Inl UniqueViolation, s)
      else
        let (i, s1) = fresh E s;
            k = \<lparr>sk_id = i, sk_partnerId = pa_id partner, sk_keyId = keyId, sk_algorithm = algorithm,
                 sk_publicKeyPem = pem, sk_fingerprint = fingerprint, sk_status = SigningKeyStatus_ACTIVE,
                 sk_validFrom = validFrom, sk_validTo = validTo, sk_rotatesAt = None,
                 sk_revokedAt = None, sk_createdAt = now\<rparr>;
            s2 = s1\<lparr>signingKeys := signingKeys s1 @ [k]\<rparr>
        in (Inr k, recordEvent E now (signing_key_event actor partner k) s2))"

definition registerSigningKeyForPartner ::
    "env \<Rightarrow> time \<Rightarrow> Partner \<Rightarrow> RegisterKeyInput \<Rightarrow> AuditActorContext \<Rightarrow> db \<Rightarrow> PartnerSigningKey result \<times> db" where
  "registerSigningKeyForPartner E now partner dto actor s =
     (if pa_status partner \<noteq> PartnerStatus_ACTIVE
      then (Inl (Conflict (''Partner '' @ quoted (pa_slug partner) @ '' is not active for signing-key registration.'')), s)
      else
        let keyId = js_trim (rk_keyId dto); pem = js_trim (rk_publicKeyPem dto) in
        if length keyId = 0 then (Inl (BadRequest ''Signing key identifier is required.''), s)
        else if List.find (\<lambda>k. sk_partnerId k = pa_id partner \<and> sk_keyId k = keyId) (signingKeys s) \<noteq> None
        then (Inl (Conflict (''Key '' @ quoted keyId @ '' is already registered for partner '' @
                quoted (pa_slug partner) @ ''.'')), s)
        else if length pem = 0 then (Inl (BadRequest ''Public key PEM is required.''), s)
        else
          case assertValidPublicKey E pem of
            Inl e \<Rightarrow> (Inl e, s)
          | Inr _ \<Rightarrow>
            (case required_date E (rk_validFrom dto) of
               Inl e \<Rightarrow> (Inl e, s)
             | Inr validFrom \<Rightarrow>
               (case optional_date E (rk_validTo dto) of
                  Inl e \<Rightarrow> (Inl e, s)
                | Inr validTo \<Rightarrow>
                    if \<not> not_expired validFrom validTo
                    then (Inl (BadRequest ''Signing key validity window is invalid.''), s)
                    else insert_signing_key E now partner actor keyId (rk_algorithm dto) pem validFrom validTo s)))"

definition registerSigningKey ::
    "env \<Rightarrow> time \<Rightarrow> string \<Rightarrow> RegisterKeyInput \<Rightarrow> db \<Rightarrow> PartnerSigningKey result \<times> db" where
  "registerSigningKey E now partnerSlug dto s =
     (case getPartnerBySlugOrThrow partnerSlug s of
        Inl e \<Rightarrow> (Inl e, s)
      | Inr partner \<Rightarrow> registerSigningKeyForPartner E now partner dto admin_context s)"

definition registerPartnerSigningKey ::
    "env \<Rightarrow> time \<Rightarrow> AuthenticatedPartner \<Rightarrow> RegisterKeyInput \<Rightarrow> db \<Rightarrow> PartnerSigningKey result \<times> db" where
  "registerPartnerSigningKey E now p dto s =
     (case getPartnerByIdOrThrow (ap_partnerId p) s of
        Inl e \<Rightarrow> (Inl e, s)
      | Inr partner \<Rightarrow> registerSigningKeyForPartner E now partner dto (buildPartnerAuditContext p) s)"

definition listPartnerSigningKeys :: "ident \<Rightarrow> db \<Rightarrow> PartnerSigningKey list" where
  "listPartnerSigningKeys partnerId s =
     order_desc sk_createdAt (filter (\<lambda>k. sk_partnerId k = partnerId) (signingKeys s))"

section \<open>Revocation and use\<close>

definition usable_key :: "PartnerSigningKey \<Rightarrow> bool" where
  "usable_key k \<longleftrightarrow> sk_status k = SigningKeyStatus_ACTIVE \<and> sk_revokedAt k = None"

definition activeSigningKeyCount :: "ident \<Rightarrow> db \<Rightarrow> nat" where
  "activeSigningKeyCount partnerId s =
     count_where (\<lambda>k. sk_partnerId k = partnerId \<and> usable_key k) (signingKeys s)"

definition revokePartnerSigningKey ::
    "env \<Rightarrow> time \<Rightarrow> AuthenticatedPartner \<Rightarrow> ident \<Rightarrow> db \<Rightarrow> PartnerSigningKey result \<times> db" where
  "revokePartnerSigningKey E now p signingKeyId s =
     (let i = js_trim signingKeyId in
      if length i = 0 then (Inl (BadRequest ''Signing key identifier is required.''), s)
      else
        case List.find (\<lambda>k. sk_id k = i \<and> sk_partnerId k = ap_partnerId p) (signingKeys s) of
          None \<Rightarrow> (Inl (NotFound (''Signing key '' @ quoted i @ '' was not found for this partner.'')), s)
        | Some k \<Rightarrow>
            if sk_status k \<noteq> SigningKeyStatus_ACTIVE \<or> sk_revokedAt k \<noteq> None
            then (Inl (Conflict (''Signing key '' @ quoted (sk_keyId k) @ '' is already inactive.'')), s)
            else if activeSigningKeyCount (ap_partnerId p) s \<le> 1
            then (Inl (Conflict ''Cannot revoke the last active signing key.''), s)
            else
              let f = (\<lambda>k. k\<lparr>sk_status := SigningKeyStatus_REVOKED, sk_revokedAt := Some now\<rparr>);
                  s1 = s\<lparr>signingKeys := update_where (\<lambda>x. sk_id x = sk_id k) f (signingKeys s)\<rparr>
              in (Inr (f k), recordEvent E now
                   (context_event (buildPartnerAuditContext p) (ap_partnerId p) ''partner.signing_key.revoked''
                      ''PartnerSigningKey'' (sk_id k)
                      (''Revoked signing key '' @ quoted (sk_keyId k) @ '' for partner '' @ quoted (ap_partnerSlug p) @ ''.'')
                      (JObj [(''algorithm'', JStr (name_SigningKeyAlgorithm (sk_algorithm k))),
                             (''fingerprint'', JStr (sk_fingerprint k)), (''keyId'', JStr (sk_keyId k))])) s1))"

definition getActiveSigningKey :: "time \<Rightarrow> ident \<Rightarrow> string \<Rightarrow> db \<Rightarrow> PartnerSigningKey result" where
  "getActiveSigningKey now partnerId keyId s =
     (case List.find (\<lambda>k. sk_partnerId k = partnerId \<and> sk_keyId k = js_trim keyId) (signingKeys s) of
        None \<Rightarrow> Inl (NotFound (''Signing key '' @ quoted keyId @ '' was not found.''))
      | Some k \<Rightarrow>
          if sk_status k \<noteq> SigningKeyStatus_ACTIVE
          then Inl (Conflict (''Signing key '' @ quoted keyId @ '' is not active.''))
          else if \<not> not_expired now (sk_validTo k)
          then Inl (Conflict (''Signing key '' @ quoted keyId @ '' has expired.''))
          else Inr k)"

section \<open>Keys are unique and never run out\<close>

definition keys_ok :: "env \<Rightarrow> db \<Rightarrow> bool" where
  "keys_ok E s \<longleftrightarrow>
     distinct (map sk_id (signingKeys s)) \<and> drawn E (nextId s) (map sk_id (signingKeys s)) \<and>
     distinct (map sk_fingerprint (signingKeys s)) \<and>
     distinct (map (\<lambda>k. (sk_partnerId k, sk_keyId k)) (signingKeys s)) \<and>
     (\<forall>k \<in> set (signingKeys s). 1 \<le> activeSigningKeyCount (sk_partnerId k) s)"

text \<open>What may happen to the keys: a registration, a revocation, and anything that does not touch them.\<close>

inductive key_step :: "env \<Rightarrow> db \<Rightarrow> db \<Rightarrow> bool" for E where
  register: "key_step E s (snd (registerSigningKeyForPartner E now partner dto actor s))"
| revoke: "key_step E s (snd (revokePartnerSigningKey E now p i s))"
| other: "signingKeys s' = signingKeys s \<Longrightarrow> nextId s \<le> nextId s' \<Longrightarrow> key_step E s s'"

lemma keys_ok_same:
  "keys_ok E s \<Longrightarrow> signingKeys s' = signingKeys s \<Longrightarrow> nextId s \<le> nextId s' \<Longrightarrow> keys_ok E s'"
  by (auto simp: keys_ok_def activeSigningKeyCount_def intro: drawn_mono)

lemma insert_signing_key_cases:
  assumes "insert_signing_key E now partner actor keyId alg pem vf vt s = (r, s')"
  obtains "s' = s"
  | k where "signingKeys s' = signingKeys s @ [k]" "nextId s' = Suc (Suc (nextId s))" "sk_id k = cuid E (nextId s)"
      "usable_key k" "\<forall>x \<in> set (signingKeys s). sk_fingerprint x \<noteq> sk_fingerprint k \<and>
         (sk_partnerId x, sk_keyId x) \<noteq> (sk_partnerId k, sk_keyId k)"
proof (cases "\<exists>k \<in> set (signingKeys s). sk_fingerprint k = sha256_hex E pem \<or>
    (sk_partnerId k = pa_id partner \<and> sk_keyId k = keyId)")
  case True
  with assms have "s' = s" by (simp add: insert_signing_key_def)
  then show ?thesis by (rule that(1))
next
  case False
  then have new: "\<forall>x \<in> set (signingKeys s). sk_fingerprint x \<noteq> sha256_hex E pem \<and>
      (sk_partnerId x, sk_keyId x) \<noteq> (pa_id partner, keyId)" by auto
  define k where "k = \<lparr>sk_id = cuid E (nextId s), sk_partnerId = pa_id partner, sk_keyId = keyId, sk_algorithm = alg,
      sk_publicKeyPem = pem, sk_fingerprint = sha256_hex E pem, sk_status = SigningKeyStatus_ACTIVE,
      sk_validFrom = vf, sk_validTo = vt, sk_rotatesAt = None, sk_revokedAt = None, sk_createdAt = now\<rparr>"
  have s': "s' = recordEvent E now (signing_key_event actor partner k)
      (s\<lparr>nextId := Suc (nextId s), signingKeys := signingKeys s @ [k]\<rparr>)"
    using assms unfolding insert_signing_key_def Let_def if_not_P [OF False] fresh_def k_def by simp
  show ?thesis
    by (rule that(2) [of k]) (use new in \<open>simp_all add: s' k_def usable_key_def\<close>)
qed

lemma keys_ok_insert:
  assumes ok: "keys_ok E s" and inj: "inj (cuid E)"
    and ins: "insert_signing_key E now partner actor keyId alg pem vf vt s = (r, s')"
  shows "keys_ok E s'"
  using ins
proof (cases rule: insert_signing_key_cases)
  case (2 k)
  note ok' = ok [unfolded keys_ok_def]
  have new: "cuid E (nextId s) \<notin> set (map sk_id (signingKeys s))"
    using ok' by (intro drawn_fresh [OF _ inj order_refl]) simp
  have drawn: "drawn E (Suc (Suc (nextId s))) (map sk_id (signingKeys s))"
    by (rule drawn_mono [OF conjunct1 [OF conjunct2 [OF ok']]]) simp
  have count: "activeSigningKeyCount q s \<le> activeSigningKeyCount q s'" for q
    by (simp add: activeSigningKeyCount_def 2(1))
  have "1 \<le> activeSigningKeyCount (sk_partnerId k) s'"
    using 2(4) by (simp add: activeSigningKeyCount_def 2(1))
  with ok' count have "\<forall>x \<in> set (signingKeys s'). 1 \<le> activeSigningKeyCount (sk_partnerId x) s'"
    by (auto simp: 2(1) intro: order_trans)
  moreover have "distinct (map sk_id (signingKeys s'))" using ok' new 2(3) by (simp add: 2(1))
  moreover have "drawn E (nextId s') (map sk_id (signingKeys s'))"
    using drawn 2(3) by (auto simp: 2(1,2))
  moreover have "distinct (map sk_fingerprint (signingKeys s'))"
    using ok' 2(5) by (force simp: 2(1))
  moreover have "distinct (map (\<lambda>k. (sk_partnerId k, sk_keyId k)) (signingKeys s'))"
    using ok' 2(5) by (force simp: 2(1))
  ultimately show ?thesis by (simp add: keys_ok_def)
qed (use ok in simp)

lemma registerSigningKey_inserts:
  "snd (registerSigningKeyForPartner E now partner dto actor s) = s \<or>
   (\<exists>a b c d e. snd (registerSigningKeyForPartner E now partner dto actor s) = snd (insert_signing_key E now partner actor a b c d e s))"
  by (auto simp: registerSigningKeyForPartner_def Let_def split: sum.splits if_splits; blast)

text \<open>A revocation takes one usable key of a partner that has at least two.\<close>

lemma count_where_revoked:
  assumes "distinct (map sk_id ks)" "k \<in> set ks" "P k" "\<And>x. \<not> P (f x)"
  shows "Suc (count_where P (update_where (\<lambda>x. sk_id x = sk_id k) f ks)) = count_where P ks"
  using assms(1,2)
proof (induction ks)
  case (Cons x xs)
  show ?case
  proof (cases "x = k")
    case True
    then have "update_where (\<lambda>x. sk_id x = sk_id k) f xs = xs"
      using Cons.prems(1) by (intro update_where_id) (auto simp: image_iff)
    with True show ?thesis by (simp add: assms(3,4))
  next
    case False
    then have "k \<in> set xs" "sk_id x \<noteq> sk_id k" using Cons.prems by auto
    with Cons False show ?thesis by simp
  qed
qed simp

lemma revokeSigningKey_cases:
  assumes "revokePartnerSigningKey E now p i s = (r, s')"
  obtains e where "r = Inl e" "s' = s"
  | k where "k \<in> set (signingKeys s)" "sk_partnerId k = ap_partnerId p" "usable_key k"
      "2 \<le> activeSigningKeyCount (ap_partnerId p) s" "nextId s' = Suc (nextId s)"
      "r = Inr (k\<lparr>sk_status := SigningKeyStatus_REVOKED, sk_revokedAt := Some now\<rparr>)"
      "signingKeys s' = update_where (\<lambda>x. sk_id x = sk_id k)
         (\<lambda>x. x\<lparr>sk_status := SigningKeyStatus_REVOKED, sk_revokedAt := Some now\<rparr>) (signingKeys s)"
proof (cases r)
  case (Inl e)
  with assms have "s' = s"
    by (auto simp: revokePartnerSigningKey_def Let_def split: option.splits if_splits)
  with Inl show ?thesis by (rule that(1))
next
  case (Inr y)
  note r = assms [unfolded revokePartnerSigningKey_def Let_def Inr]
  obtain k where k: "List.find (\<lambda>k. sk_id k = js_trim i \<and> sk_partnerId k = ap_partnerId p) (signingKeys s) = Some k"
    using r by (auto split: if_splits option.splits)
  then have "k \<in> set (signingKeys s)" "sk_partnerId k = ap_partnerId p" by (auto dest!: find_SomeD)
  moreover have "usable_key k" "\<not> activeSigningKeyCount (ap_partnerId p) s \<le> 1" "length (js_trim i) \<noteq> 0"
    using r by (auto simp: k usable_key_def split: if_splits)
  moreover from this obtain ev where "s' = recordEvent E now ev (s\<lparr>signingKeys := update_where (\<lambda>x. sk_id x = sk_id k)
       (\<lambda>x. x\<lparr>sk_status := SigningKeyStatus_REVOKED, sk_revokedAt := Some now\<rparr>) (signingKeys s)\<rparr>)"
    "r = Inr (k\<lparr>sk_status := SigningKeyStatus_REVOKED, sk_revokedAt := Some now\<rparr>)"
    using r by (simp add: k usable_key_def Inr) blast
  ultimately show ?thesis by (intro that(2) [of k]) simp_all
qed

lemma revoke_counts:
  assumes ok: "keys_ok E s" and k: "k \<in> set (signingKeys s)" "usable_key k"
    and s': "signingKeys s' = update_where (\<lambda>x. sk_id x = sk_id k)
         (\<lambda>x. x\<lparr>sk_status := SigningKeyStatus_REVOKED, sk_revokedAt := Some now\<rparr>) (signingKeys s)"
  shows "Suc (activeSigningKeyCount (sk_partnerId k) s') = activeSigningKeyCount (sk_partnerId k) s"
    and "q \<noteq> sk_partnerId k \<Longrightarrow> activeSigningKeyCount q s' = activeSigningKeyCount q s"
proof -
  have dist: "distinct (map sk_id (signingKeys s))" using ok by (simp add: keys_ok_def)
  show "Suc (activeSigningKeyCount (sk_partnerId k) s') = activeSigningKeyCount (sk_partnerId k) s"
    unfolding activeSigningKeyCount_def s'
    by (rule count_where_revoked [OF dist k(1)]) (use k(2) in \<open>simp_all add: usable_key_def\<close>)
  have "filter (\<lambda>x. sk_partnerId x = q \<and> usable_key x) (update_where (\<lambda>x. sk_id x = sk_id k)
      (\<lambda>x. x\<lparr>sk_status := SigningKeyStatus_REVOKED, sk_revokedAt := Some now\<rparr>) ks) =
    filter (\<lambda>x. sk_partnerId x = q \<and> usable_key x) ks" if "\<forall>x \<in> set ks. sk_id x = sk_id k \<longrightarrow> x = k" "q \<noteq> sk_partnerId k" for ks
    using that by (induction ks) (auto simp: usable_key_def)
  moreover have "\<forall>x \<in> set (signingKeys s). sk_id x = sk_id k \<longrightarrow> x = k"
    using dist k(1) by (auto simp: distinct_map inj_on_def)
  ultimately show "q \<noteq> sk_partnerId k \<Longrightarrow> activeSigningKeyCount q s' = activeSigningKeyCount q s"
    by (simp add: activeSigningKeyCount_def count_where_def s')
qed

lemma keys_ok_revoke:
  assumes ok: "keys_ok E s" and r: "revokePartnerSigningKey E now p i s = (r, s')"
  shows "keys_ok E s'"
  using r
proof (cases rule: revokeSigningKey_cases)
  case (2 k)
  note counts = revoke_counts [OF ok 2(1,3,7)]
  let ?f = "\<lambda>x::PartnerSigningKey. x\<lparr>sk_status := SigningKeyStatus_REVOKED, sk_revokedAt := Some now\<rparr>"
  have cols: "map sk_id (signingKeys s') = map sk_id (signingKeys s)"
    "map sk_fingerprint (signingKeys s') = map sk_fingerprint (signingKeys s)"
    "map (\<lambda>k. (sk_partnerId k, sk_keyId k)) (signingKeys s') = map (\<lambda>k. (sk_partnerId k, sk_keyId k)) (signingKeys s)"
    unfolding 2(7) by (rule map_update_where, simp)+
  have "1 \<le> activeSigningKeyCount (sk_partnerId x) s'" if "x \<in> set (signingKeys s)" for x
    using counts(1) counts(2) [of "sk_partnerId x"] 2(2,4) ok that
    by (cases "sk_partnerId x = sk_partnerId k") (auto simp: keys_ok_def)
  moreover have "sk_partnerId ` set (signingKeys s') = sk_partnerId ` set (signingKeys s)"
    using arg_cong [OF cols(3), of "\<lambda>l. fst ` set l"] by (simp add: image_image)
  ultimately have "\<forall>q \<in> sk_partnerId ` set (signingKeys s'). 1 \<le> activeSigningKeyCount q s'" by simp
  then have "\<forall>x \<in> set (signingKeys s'). 1 \<le> activeSigningKeyCount (sk_partnerId x) s'" by simp
  moreover have "drawn E (nextId s') (map sk_id (signingKeys s))"
    by (rule drawn_mono [OF conjunct1 [OF conjunct2 [OF ok [unfolded keys_ok_def]]]]) (simp add: 2(5))
  ultimately show ?thesis using ok by (simp add: keys_ok_def cols)
qed (use ok in simp)

lemma keys_ok_step: "key_step E s s' \<Longrightarrow> inj (cuid E) \<Longrightarrow> keys_ok E s \<Longrightarrow> keys_ok E s'"
proof (induction rule: key_step.induct)
  case (register s now partner dto actor)
  have "keys_ok E (snd (insert_signing_key E now partner actor a b c d e s))" for a b c d e
    using register by (cases "insert_signing_key E now partner actor a b c d e s") (simp add: keys_ok_insert)
  with registerSigningKey_inserts [of E now partner dto actor s] register show ?case
    by (elim disjE exE) simp_all
next
  case (revoke s now p i)
  then show ?case by (cases "revokePartnerSigningKey E now p i s") (simp add: keys_ok_revoke)
qed (rule keys_ok_same)

text \<open>Signing keys are unique and never run out.  In every state reached from one without keys, by
  registrations and revocations in any order among whatever else happens, ids, fingerprints and key
  ids within a partner are unique, and every partner that ever registered a key still has an active
  one: the last active key cannot be revoked.\<close>

theorem signing_keys_never_run_out:
  assumes "(key_step E)\<^sup>*\<^sup>* s s'" and "signingKeys s = []" and "inj (cuid E)" and "k \<in> set (signingKeys s')"
  shows "distinct (map sk_id (signingKeys s')) \<and> distinct (map sk_fingerprint (signingKeys s')) \<and>
     distinct (map (\<lambda>k. (sk_partnerId k, sk_keyId k)) (signingKeys s')) \<and>
     (\<exists>x \<in> set (signingKeys s'). sk_partnerId x = sk_partnerId k \<and>
        sk_status x = SigningKeyStatus_ACTIVE \<and> sk_revokedAt x = None)"
proof -
  have "keys_ok E s'"
    using assms(1,2)
  proof (induction rule: rtranclp_induct)
    case base
    then show ?case by (simp add: keys_ok_def)
  qed (use keys_ok_step assms(3) in blast)
  then have ok: "distinct (map sk_id (signingKeys s'))" "distinct (map sk_fingerprint (signingKeys s'))"
    "distinct (map (\<lambda>k. (sk_partnerId k, sk_keyId k)) (signingKeys s'))"
    "1 \<le> activeSigningKeyCount (sk_partnerId k) s'"
    using assms(4) by (auto simp: keys_ok_def)
  from ok(4) have "count_where (\<lambda>x. sk_partnerId x = sk_partnerId k \<and> usable_key x) (signingKeys s') \<noteq> 0"
    by (simp add: activeSigningKeyCount_def)
  with ok(1-3) show ?thesis unfolding count_where_zero_iff usable_key_def by blast
qed

definition demo_key_input :: RegisterKeyInput where
  "demo_key_input =
     \<lparr>rk_keyId = '' key-1'', rk_algorithm = SigningKeyAlgorithm_ED25519, rk_publicKeyPem = ''pem'',
      rk_validFrom = ''2026-01-01T00:00:00.000Z'', rk_validTo = None\<rparr>"

lemma demo_registered:
  "map sk_keyId (signingKeys (snd (registerSigningKeyForPartner demo_env 0 demo_partner_row demo_key_input
     admin_context empty_db))) = [''key-1'']"
  by code_simp

theorem signing_keys_never_run_out_witness:
  "\<exists>k. signingKeys (snd (registerSigningKeyForPartner demo_env 0 demo_partner_row demo_key_input
     admin_context empty_db)) = [k] \<and> sk_status k = SigningKeyStatus_ACTIVE"
proof -
  let ?s = "snd (registerSigningKeyForPartner demo_env 0 demo_partner_row demo_key_input admin_context empty_db)"
  obtain k where k: "signingKeys ?s = [k]" using demo_registered by (cases "signingKeys ?s") auto
  have "(key_step demo_env)\<^sup>*\<^sup>* empty_db ?s" by (rule r_into_rtranclp) (rule key_step.register)
  then have "\<exists>x \<in> set (signingKeys ?s). sk_partnerId x = sk_partnerId k \<and>
      sk_status x = SigningKeyStatus_ACTIVE \<and> sk_revokedAt x = None"
    using signing_keys_never_run_out [of demo_env empty_db ?s k] demo_cuid_inj k by (simp add: empty_db_def)
  with k show ?thesis by simp
qed

end
