(* ===== verification/Destinations.thy ===== *)
theory Destinations
  imports Recipients
begin

text \<open>
  \<open>backend/src/destinations/destinations.service.ts\<close>: the payout destinations of recipients.  A
  partner registers a destination as pending, revokes it or replaces it; only an attestation makes
  one active (theory \<open>Attestations\<close>).
\<close>

section \<open>What a partner sees\<close>

definition findAssetNetwork :: "string \<Rightarrow> string \<Rightarrow> db \<Rightarrow> corridor result" where
  "findAssetNetwork chainInput assetInput s =
     rbind (normalizeChain chainInput) (\<lambda>chainSlug.
     rbind (normalizeAssetCode assetInput) (\<lambda>assetCode.
     rbind (normalizeAssetSymbol assetInput) (\<lambda>assetSymbol.
       case List.find (\<lambda>n. an_isActive n \<and>
              (case network_of s n of
                 None \<Rightarrow> False
               | Some (_, a, c) \<Rightarrow> ch_slug c = chainSlug \<and> ch_isActive c \<and>
                   (as_code a = assetCode \<or> as_symbol a = assetSymbol))) (assetNetworks s) of
         None \<Rightarrow> Inl (NotFound (''Asset network '' @ quoted assetInput @ '' on '' @ quoted chainInput @
                   '' is not registered.''))
       | Some n \<Rightarrow>
           (case network_of s n of
              None \<Rightarrow> Inl (NotFound (''Asset network '' @ quoted assetInput @ '' on '' @ quoted chainInput @
                   '' is not registered.''))
            | Some net \<Rightarrow> Inr net))))"

definition serializeDestination ::
    "env \<Rightarrow> RecipientDestination \<Rightarrow> Recipient \<Rightarrow> corridor \<Rightarrow> Attestation option \<Rightarrow> (string \<times> json) list result" where
  "serializeDestination E d r net latestAttestation =
     rbind (readProtectedString E (rc_displayName r) (rc_displayNameCiphertext r)) (\<lambda>displayName.
     rbind (readProtectedString E (Some (de_addressRaw d)) (de_addressRawCiphertext d)) (\<lambda>address. Inr
       [(''id'', JStr (de_id d)),
        (''recipient'', JObj [(''id'', JStr (rc_id r)), (''externalRecipientId'', JStr (rc_externalRecipientId r)),
           (''displayName'', j_nullable displayName)]),
        (''address'', j_nullable address), (''normalizedAddress'', JStr (de_addressNormalized d)),
        (''memoValue'', blank_null (de_memoValue d)),
        (''status'', JStr (name_DestinationStatus (de_status d))), (''isDefault'', JBool (de_isDefault d)),
        (''effectiveFrom'', j_time (de_effectiveFrom d)), (''expiresAt'', j_iso_nullable (de_expiresAt d)),
        (''revokedAt'', j_iso_nullable (de_revokedAt d)), (''lastAttestedAt'', j_iso_nullable (de_lastAttestedAt d)),
        (''assetNetwork'', network_json net),
        (''latestAttestation'',
           (case latestAttestation of
              None \<Rightarrow> JNull
            | Some a \<Rightarrow> JObj [(''id'', JStr (at_id a)),
                (''verificationStatus'', JStr (name_VerificationStatus (at_verificationStatus a))),
                (''issuedAt'', j_time (at_issuedAt a)), (''expiresAt'', j_iso_nullable (at_expiresAt a))]))]))"

definition first_option :: "'a list \<Rightarrow> 'a option" where
  "first_option xs = (case xs of [] \<Rightarrow> None | x # _ \<Rightarrow> Some x)"

text \<open>A destination with the relations the queries include.\<close>

definition joined_destination :: "db \<Rightarrow> RecipientDestination \<Rightarrow> (RecipientDestination \<times> Recipient \<times> corridor) option" where
  "joined_destination s d =
     (case recipient_row s (de_recipientId d) of
        None \<Rightarrow> None
      | Some r \<Rightarrow> map_option (\<lambda>net. (d, r, net)) (destination_network s d))"

record ListDestinationsDto =
  ld_recipientId :: "ident option"
  ld_chain :: "string option"
  ld_asset :: "string option"
  ld_status :: "DestinationStatus option"
  ld_limit :: "nat option"

text \<open>The filter on the corridor; an absent or empty input does not filter.\<close>

definition chain_filter :: "string option \<Rightarrow> (Chain \<Rightarrow> bool) result" where
  "chain_filter v =
     (if falsy v then Inr (\<lambda>c. True)
      else rbind (normalizeChain (or_else v [])) (\<lambda>slug. Inr (\<lambda>c. ch_slug c = slug)))"

definition asset_filter :: "string option \<Rightarrow> (Asset \<Rightarrow> bool) result" where
  "asset_filter v =
     (if falsy v then Inr (\<lambda>a. True)
      else rbind (normalizeAssetCode (or_else v [])) (\<lambda>code.
           rbind (normalizeAssetSymbol (or_else v [])) (\<lambda>symbol.
             Inr (\<lambda>a. as_code a = code \<or> as_symbol a = symbol))))"

definition listPartnerDestinations :: "env \<Rightarrow> ident \<Rightarrow> ListDestinationsDto \<Rightarrow> db \<Rightarrow> json list result" where
  "listPartnerDestinations E partnerId params s =
     rbind (chain_filter (ld_chain params)) (\<lambda>chainOk.
     rbind (asset_filter (ld_asset params)) (\<lambda>assetOk.
       let joined = List.map_filter (joined_destination s)
             (sort_key (\<lambda>d. (- de_updatedAt d, - de_createdAt d)) (destinations s));
           rows = take (or_else (ld_limit params) 50)
             (filter (\<lambda>(d, r, (n, a, c)). rc_partnerId r = partnerId \<and>
                 filter_eq (map_option js_trim (ld_recipientId params)) (de_recipientId d) \<and>
                 filter_eq (ld_status params) (de_status d) \<and> chainOk c \<and> assetOk a) joined);
           destinationIds = map (\<lambda>(d, _). de_id d) rows;
           latestAttestations = (if destinationIds = [] then []
             else order_desc at_issuedAt
                (filter (\<lambda>a. case at_destinationId a of None \<Rightarrow> False | Some i \<Rightarrow> i \<in> set destinationIds)
                  (attestations s)))
       in results (map (\<lambda>(d, r, net). map_sum id JObj (serializeDestination E d r net
            (List.find (\<lambda>a. at_destinationId a = Some (de_id d)) latestAttestations))) rows)))"

definition find_partner_destination ::
    "ident \<Rightarrow> ident \<Rightarrow> db \<Rightarrow> (RecipientDestination \<times> Recipient \<times> corridor) option" where
  "find_partner_destination partnerId destinationId s =
     List.find (\<lambda>(d, r, net). de_id d = destinationId \<and> rc_partnerId r = partnerId)
       (List.map_filter (joined_destination s) (destinations s))"

definition getPartnerDestination :: "env \<Rightarrow> ident \<Rightarrow> ident \<Rightarrow> db \<Rightarrow> json option result" where
  "getPartnerDestination E partnerId destinationId s =
     (case find_partner_destination partnerId destinationId s of
        None \<Rightarrow> Inr None
      | Some (d, r, net) \<Rightarrow>
          let history = take 20 (order_desc at_issuedAt
                (filter (\<lambda>a. at_destinationId a = Some destinationId) (attestations s)));
              recentUsage = take 20 (order_desc rr_requestedAt
                (filter (\<lambda>q. rr_requesterPartnerId q = Some partnerId \<and> rr_resolvedDestinationId q = Some destinationId)
                  (resolutionRequests s)))
          in rbind (serializeDestination E d r net (first_option history)) (\<lambda>fields. Inr (Some (JObj (fields @
               [(''attestationHistory'', JArr (map attestation_summary history)),
                (''recentUsage'', JArr (map request_summary recentUsage))])))))"

section \<open>Registering a destination\<close>

record CreateDestinationDto =
  nd_recipientId :: ident
  nd_chain :: string
  nd_asset :: string
  nd_address :: string
  nd_memoValue :: "string option"
  nd_isDefault :: "bool option"
  nd_effectiveFrom :: "string option"
  nd_expiresAt :: "string option"

text \<open>\<open>v ? new Date(v) : d\<close>; the date was validated, and an invalid one fails in the insert.\<close>

definition date_or :: "env \<Rightarrow> string option \<Rightarrow> 'a \<Rightarrow> (time \<Rightarrow> 'a) \<Rightarrow> 'a result" where
  "date_or E v d f =
     (if falsy v then Inr d
      else case parseDate E (or_else v []) of
             None \<Rightarrow> Inl (JsError ''Invalid Date'') | Some t \<Rightarrow> Inr (f t))"

definition same_destination ::
    "env \<Rightarrow> ident \<Rightarrow> ident \<Rightarrow> string \<Rightarrow> string \<Rightarrow> RecipientDestination \<Rightarrow> bool" where
  "same_destination E recipientId assetNetworkId normalizedAddress memoValue d \<longleftrightarrow>
     de_recipientId d = recipientId \<and> de_assetNetworkId d = assetNetworkId \<and> de_memoValue d = memoValue \<and>
     (de_addressNormalizedBlindIndex d = Some (blindIndexOf E normalizedAddress) \<or>
      de_addressNormalized d = normalizedAddress)"

definition clear_default :: "time \<Rightarrow> ident \<Rightarrow> ident \<Rightarrow> RecipientDestination list \<Rightarrow> RecipientDestination list" where
  "clear_default now recipientId assetNetworkId ds =
     update_where (\<lambda>d. de_recipientId d = recipientId \<and> de_assetNetworkId d = assetNetworkId \<and> de_isDefault d)
       (\<lambda>d. d\<lparr>de_isDefault := False, de_updatedAt := now\<rparr>) ds"

definition pending_destination ::
    "env \<Rightarrow> time \<Rightarrow> nat \<Rightarrow> ident \<Rightarrow> ident \<Rightarrow> CreateDestinationDto \<Rightarrow> string \<Rightarrow> time \<Rightarrow> time option \<Rightarrow> ident \<Rightarrow>
     RecipientDestination" where
  "pending_destination E now n recipientId assetNetworkId dto normalizedAddress effectiveFrom expiresAt i =
     \<lparr>de_id = i, de_recipientId = recipientId, de_assetNetworkId = assetNetworkId,
      de_addressRaw = js_trim (nd_address dto),
      de_addressRawCiphertext = sealOptionalString E n (Some (js_trim (nd_address dto))),
      de_addressNormalized = normalizedAddress,
      de_addressNormalizedBlindIndex = Some (blindIndexOf E normalizedAddress),
      de_memoValue = or_else (map_option js_trim (nd_memoValue dto)) [],
      de_status = DestinationStatus_PENDING, de_isDefault = or_else (nd_isDefault dto) False,
      de_effectiveFrom = effectiveFrom, de_lastAttestedAt = None, de_expiresAt = expiresAt,
      de_revokedAt = None, de_createdAt = now, de_updatedAt = now\<rparr>"

text \<open>The handler up to the row read back: the checks, then the transaction.\<close>

definition insert_destination ::
    "env \<Rightarrow> time \<Rightarrow> ident \<Rightarrow> CreateDestinationDto \<Rightarrow> db \<Rightarrow> ident result \<times> db" where
  "insert_destination E now partnerId dto s =
     (case findAssetNetwork (nd_chain dto) (nd_asset dto) s of
        Inl e \<Rightarrow> (Inl e, s)
      | Inr (n, a, c) \<Rightarrow>
     (case List.find (\<lambda>r. rc_id r = js_trim (nd_recipientId dto) \<and> rc_partnerId r = partnerId) (recipients s) of
        None \<Rightarrow> (Inl (NotFound ''Recipient was not found for the partner.''), s)
      | Some recipient \<Rightarrow>
     (case normalizeAddress (ch_slug c) (nd_address dto) of
        Inl e \<Rightarrow> (Inl e, s)
      | Inr normalizedAddress \<Rightarrow>
     (case date_or E (nd_effectiveFrom dto) now id of
        Inl e \<Rightarrow> (Inl e, s)
      | Inr effectiveFrom \<Rightarrow>
     (case date_or E (nd_expiresAt dto) None Some of
        Inl e \<Rightarrow> (Inl e, s)
      | Inr expiresAt \<Rightarrow>
          let memoValue = or_else (map_option js_trim (nd_memoValue dto)) [] in
          if \<not> not_expired effectiveFrom expiresAt
          then (Inl (BadRequest ''Destination validity window is invalid.''), s)
          else if List.find (same_destination E (rc_id recipient) (an_id n) normalizedAddress memoValue)
                    (destinations s) \<noteq> None
          then (Inl (Conflict ''That destination already exists for this recipient and asset network.''), s)
          else
            let ds = (if nd_isDefault dto = Some True then clear_default now (rc_id recipient) (an_id n) (destinations s)
                      else destinations s);
                (i, s1) = fresh E (s\<lparr>nextId := Suc (nextId s)\<rparr>);
                row = pending_destination E now (nextId s) (rc_id recipient) (an_id n) dto normalizedAddress
                        effectiveFrom expiresAt i
            in (Inr i, s1\<lparr>destinations := ds @ [row]\<rparr>))))))"

definition createPartnerDestination ::
    "env \<Rightarrow> time \<Rightarrow> ident \<Rightarrow> CreateDestinationDto \<Rightarrow> db \<Rightarrow> json result \<times> db" where
  "createPartnerDestination E now partnerId dto s =
     (case insert_destination E now partnerId dto s of
        (Inl e, s1) \<Rightarrow> (Inl e, s1)
      | (Inr i, s1) \<Rightarrow>
          reload ''Created destination could not be loaded.'' (getPartnerDestination E partnerId i s1) s1)"

section \<open>Revoking and replacing\<close>

definition update_destination :: "ident \<Rightarrow> (RecipientDestination \<Rightarrow> RecipientDestination) \<Rightarrow> db \<Rightarrow> db" where
  "update_destination i f s = s\<lparr>destinations := update_where (\<lambda>d. de_id d = i) f (destinations s)\<rparr>"

definition revoke :: "time \<Rightarrow> RecipientDestination \<Rightarrow> RecipientDestination" where
  "revoke now d =
     d\<lparr>de_status := DestinationStatus_REVOKED, de_revokedAt := Some now, de_expiresAt := Some now,
       de_isDefault := False, de_updatedAt := now\<rparr>"

definition revokePartnerDestination :: "env \<Rightarrow> time \<Rightarrow> ident \<Rightarrow> ident \<Rightarrow> db \<Rightarrow> json result \<times> db" where
  "revokePartnerDestination E now partnerId destinationId s =
     (case find_partner_destination partnerId destinationId s of
        None \<Rightarrow> (Inl (NotFound ''Destination was not found for the partner.''), s)
      | Some (destination, _) \<Rightarrow>
          if de_status destination = DestinationStatus_REVOKED
          then (Inl (Conflict ''Destination is already revoked.''), s)
          else
            let s1 = update_destination (de_id destination) (revoke now) s
            in reload ''Revoked destination could not be loaded.''
                 (getPartnerDestination E partnerId (de_id destination) s1) s1)"

record ReplaceDestinationDto =
  rd_chain :: "string option"
  rd_asset :: "string option"
  rd_address :: string
  rd_memoValue :: "string option"
  rd_isDefault :: "bool option"
  rd_effectiveFrom :: "string option"
  rd_expiresAt :: "string option"

definition replacement_dto ::
    "RecipientDestination \<Rightarrow> corridor \<Rightarrow> ReplaceDestinationDto \<Rightarrow> CreateDestinationDto" where
  "replacement_dto existing net dto =
     (case net of (n, a, c) \<Rightarrow>
        \<lparr>nd_recipientId = de_recipientId existing, nd_chain = or_else (rd_chain dto) (ch_slug c),
         nd_asset = or_else (rd_asset dto) (as_symbol a), nd_address = rd_address dto,
         nd_memoValue = rd_memoValue dto,
         nd_isDefault = Some (or_else (rd_isDefault dto) (de_isDefault existing)),
         nd_effectiveFrom = rd_effectiveFrom dto, nd_expiresAt = rd_expiresAt dto\<rparr>)"

definition replacePartnerDestination ::
    "env \<Rightarrow> time \<Rightarrow> ident \<Rightarrow> ident \<Rightarrow> ReplaceDestinationDto \<Rightarrow> db \<Rightarrow> json result \<times> db" where
  "replacePartnerDestination E now partnerId destinationId dto s =
     (case find_partner_destination partnerId destinationId s of
        None \<Rightarrow> (Inl (NotFound ''Destination was not found for the partner.''), s)
      | Some (existingDestination, _, net) \<Rightarrow>
          (case createPartnerDestination E now partnerId (replacement_dto existingDestination net dto) s of
             (Inl e, s1) \<Rightarrow> (Inl e, s1)
           | (Inr j, s1) \<Rightarrow> (Inr j, update_destination (de_id existingDestination) (revoke now) s1)))"

end
