(* ===== verification/Attestations.thy ===== *)
theory Attestations
  imports Signing_Keys Destinations Request_Hardening Webhooks
begin

text \<open>
  \<open>backend/src/attestations/attestations.service.ts\<close> and \<open>attestation-payload.ts\<close>: a partner
  submits a signed statement that a recipient is paid at an address.  The statement is brought into
  canonical form, its signature is checked against a registered key, the request is protected against
  replay, and in one transaction the recipient, the identifier and the destination are written, the
  attestation is stored, audited and announced to webhooks.  A failure is audited and thrown again.
\<close>

section \<open>Inputs\<close>

record CreateAttestationDto =
  ca_partnerSlug :: string
  ca_keyId :: string
  ca_algorithm :: SigningKeyAlgorithm
  ca_attestationType :: AttestationType
  ca_sequenceNumber :: int
  ca_recipientExternalId :: string
  ca_recipientDisplayName :: "string option"
  ca_recipientIdentifier :: "string option"
  ca_recipientIdentifierEncrypted :: "EncryptedFieldEnvelope option"
  ca_identifierKind :: IdentifierKind
  ca_chain :: string
  ca_assetCode :: string
  ca_assetSymbol :: string
  ca_tokenStandard :: TokenStandard
  ca_contractAddress :: "string option"
  ca_decimals :: "int option"
  ca_address :: "string option"
  ca_addressEncrypted :: "EncryptedFieldEnvelope option"
  ca_memo :: "string option"
  ca_issuedAt :: string
  ca_effectiveFrom :: string
  ca_expiresAt :: "string option"
  ca_signature :: string

text \<open>The same with its sensitive fields read.\<close>

record ResolvedCreateAttestationDto = CreateAttestationDto +
  ra_recipientIdentifier :: string
  ra_address :: string

record NormalizedAttestationFields =
  nf_address :: string
  nf_assetCode :: string
  nf_assetSymbol :: string
  nf_canonicalPayload :: string
  nf_payload :: json  \<comment> \<open>what \<open>JSON.parse\<close> makes of \<open>canonicalPayload\<close>\<close>
  nf_chain :: string
  nf_contractAddress :: string
  nf_memo :: string
  nf_partnerSlug :: string
  nf_payloadHash :: string
  nf_recipientIdentifier :: string

record AttestationTiming =
  ti_effectiveFrom :: time
  ti_expiresAt :: "time option"
  ti_issuedAt :: time

definition resolveSensitiveAttestationFields ::
    "env \<Rightarrow> PartnerEncryptedSubmissionPolicy \<Rightarrow> CreateAttestationDto \<Rightarrow> ResolvedCreateAttestationDto result" where
  "resolveSensitiveAttestationFields E policy dto =
     rbind (readSensitiveInput E policy (ca_recipientIdentifier dto) (ca_recipientIdentifierEncrypted dto)
              ''Recipient identifier'' (Some 128)) (\<lambda>recipientIdentifier.
     rbind (readSensitiveInput E policy (ca_address dto) (ca_addressEncrypted dto) ''Address'' None) (\<lambda>address.
       Inr (CreateAttestationDto.extend dto
              (ResolvedCreateAttestationDto.fields recipientIdentifier address))))"

section \<open>The canonical payload\<close>

text \<open>\<open>new Date(v).toISOString()\<close>\<close>

definition iso_string :: "env \<Rightarrow> string \<Rightarrow> string result" where
  "iso_string E v = (case parseDate E v of None \<Rightarrow> Inl (JsError ''Invalid time value'') | Some t \<Rightarrow> Inr (toISOString t))"

definition buildCanonicalAttestationInput ::
    "env \<Rightarrow> ResolvedCreateAttestationDto \<Rightarrow> string \<Rightarrow> string \<Rightarrow> string \<Rightarrow> string \<Rightarrow> string \<Rightarrow> string \<Rightarrow> string \<Rightarrow> string \<Rightarrow>
     json result" where
  "buildCanonicalAttestationInput E dto partnerSlug recipientIdentifier chain assetCode assetSymbol
       contractAddress address memo =
     rbind (iso_string E (ca_issuedAt dto)) (\<lambda>issuedAt.
     rbind (iso_string E (ca_effectiveFrom dto)) (\<lambda>effectiveFrom.
     rbind (if falsy (ca_expiresAt dto) then Inr JNull
            else map_sum id JStr (iso_string E (or_else (ca_expiresAt dto) []))) (\<lambda>expiresAt.
       Inr (JObj
         [(''partnerSlug'', JStr partnerSlug), (''keyId'', JStr (js_trim (ca_keyId dto))),
          (''algorithm'', JStr (name_SigningKeyAlgorithm (ca_algorithm dto))),
          (''attestationType'', JStr (name_AttestationType (ca_attestationType dto))),
          (''sequenceNumber'', JNum (ca_sequenceNumber dto)),
          (''recipientExternalId'', JStr (js_trim (ca_recipientExternalId dto))),
          (''recipientDisplayName'', JStr (or_else (map_option js_trim (ca_recipientDisplayName dto)) [])),
          (''recipientIdentifier'', JStr recipientIdentifier),
          (''identifierKind'', JStr (name_IdentifierKind (ca_identifierKind dto))),
          (''chain'', JStr chain), (''assetCode'', JStr assetCode), (''assetSymbol'', JStr assetSymbol),
          (''tokenStandard'', JStr (name_TokenStandard (ca_tokenStandard dto))),
          (''contractAddress'', JStr contractAddress), (''decimals'', j_null_num (ca_decimals dto)),
          (''address'', JStr address), (''memo'', JStr memo), (''issuedAt'', JStr issuedAt),
          (''effectiveFrom'', JStr effectiveFrom), (''expiresAt'', expiresAt)]))))"

definition serializeAttestationPayload :: "json \<Rightarrow> string" where
  "serializeAttestationPayload payload = json_stringify payload"

definition hashAttestationPayload :: "env \<Rightarrow> string \<Rightarrow> string" where
  "hashAttestationPayload E payload = sha256_hex E payload"

definition verifyAttestationSignature ::
    "env \<Rightarrow> SigningKeyAlgorithm \<Rightarrow> string \<Rightarrow> string \<Rightarrow> string \<Rightarrow> bool result" where
  "verifyAttestationSignature E algorithm publicKeyPem payload signature =
     (if algorithm \<noteq> SigningKeyAlgorithm_ED25519 then Inr False
      else verifySignature E algorithm publicKeyPem payload signature)"

definition normalizeAttestationFields ::
    "env \<Rightarrow> ResolvedCreateAttestationDto \<Rightarrow> NormalizedAttestationFields result" where
  "normalizeAttestationFields E dto =
     rbind (normalizePartnerSlug (ca_partnerSlug dto)) (\<lambda>partnerSlug.
     rbind (normalizeChain (ca_chain dto)) (\<lambda>chain.
     rbind (normalizeIdentifier (ra_recipientIdentifier dto)) (\<lambda>recipientIdentifier.
     rbind (normalizeAssetCode (ca_assetCode dto)) (\<lambda>assetCode.
     rbind (normalizeAssetSymbol (ca_assetSymbol dto)) (\<lambda>assetSymbol.
     rbind (normalizeContractAddress chain (ca_contractAddress dto)) (\<lambda>contractAddress.
     rbind (normalizeAddress chain (ra_address dto)) (\<lambda>address.
       let memo = normalizeMemo (ca_memo dto) in
     rbind (buildCanonicalAttestationInput E dto partnerSlug recipientIdentifier chain assetCode assetSymbol
              contractAddress address memo) (\<lambda>payload.
       let canonicalPayload = serializeAttestationPayload payload in
       Inr \<lparr>nf_address = address, nf_assetCode = assetCode, nf_assetSymbol = assetSymbol,
            nf_canonicalPayload = canonicalPayload, nf_payload = payload, nf_chain = chain,
            nf_contractAddress = contractAddress, nf_memo = memo, nf_partnerSlug = partnerSlug,
            nf_payloadHash = hashAttestationPayload E canonicalPayload,
            nf_recipientIdentifier = recipientIdentifier\<rparr>))))))))"

definition parseAttestationTiming :: "env \<Rightarrow> ResolvedCreateAttestationDto \<Rightarrow> AttestationTiming result" where
  "parseAttestationTiming E dto =
     rbind (required_date E (ca_issuedAt dto)) (\<lambda>issuedAt.
     rbind (required_date E (ca_effectiveFrom dto)) (\<lambda>effectiveFrom.
     rbind (optional_date E (ca_expiresAt dto)) (\<lambda>expiresAt.
       if issuedAt > effectiveFrom
       then Inl (BadRequest ''effectiveFrom must be the same as or later than issuedAt.'')
       else Inr \<lparr>ti_effectiveFrom = effectiveFrom, ti_expiresAt = expiresAt, ti_issuedAt = issuedAt\<rparr>)))"

section \<open>Corridor and destination\<close>

definition resolveAttestationCorridor ::
    "ResolvedCreateAttestationDto \<Rightarrow> NormalizedAttestationFields \<Rightarrow> db \<Rightarrow> corridor result" where
  "resolveAttestationCorridor dto nf s =
     (case List.find (\<lambda>c. ch_slug c = nf_chain nf \<and> ch_isActive c) (chains s) of
        None \<Rightarrow> Inl (BadRequest (''Chain '' @ quoted (js_trim (ca_chain dto)) @
                  '' is not enabled for attestation ingestion.''))
      | Some chain \<Rightarrow>
     (case List.find (\<lambda>a. as_code a = nf_assetCode nf \<and> as_symbol a = nf_assetSymbol nf \<and> as_isActive a) (assets s) of
        None \<Rightarrow> Inl (BadRequest (''Asset '' @ quoted (js_trim (ca_assetCode dto)) @
                  '' is not enabled for attestation ingestion.''))
      | Some asset \<Rightarrow>
     (case List.find (\<lambda>n. an_assetId n = as_id asset \<and> an_chainId n = ch_id chain \<and>
             an_contractAddressNormalized n = nf_contractAddress nf \<and>
             an_standard n = ca_tokenStandard dto \<and> an_isActive n) (assetNetworks s) of
        None \<Rightarrow> Inl (BadRequest ''The asset-network corridor is not enabled for attestation ingestion.'')
      | Some assetNetwork \<Rightarrow>
          if ca_decimals dto \<noteq> None \<and> an_decimals assetNetwork \<noteq> ca_decimals dto
          then Inl (BadRequest ''Attestation decimals do not match the registered asset-network corridor.'')
          else Inr (assetNetwork, asset, chain))))"

definition destination_key :: "RecipientDestination \<Rightarrow> ident \<times> ident \<times> string \<times> string" where
  "destination_key d = (de_recipientId d, de_assetNetworkId d, de_addressNormalized d, de_memoValue d)"

text \<open>What a revocation, a superseding attestation and an attestation do to a destination.\<close>

definition revoked_by :: "time \<Rightarrow> AttestationTiming \<Rightarrow> RecipientDestination \<Rightarrow> RecipientDestination" where
  "revoked_by now ti d =
     d\<lparr>de_status := DestinationStatus_REVOKED, de_isDefault := False,
       de_revokedAt := Some (ti_effectiveFrom ti), de_expiresAt := ti_expiresAt ti,
       de_lastAttestedAt := Some (ti_issuedAt ti), de_updatedAt := now\<rparr>"

definition superseded_by :: "time \<Rightarrow> AttestationTiming \<Rightarrow> RecipientDestination \<Rightarrow> RecipientDestination" where
  "superseded_by now ti d =
     d\<lparr>de_status := DestinationStatus_REVOKED, de_isDefault := False,
       de_revokedAt := Some (ti_effectiveFrom ti), de_updatedAt := now\<rparr>"

definition attested_by ::
    "time \<Rightarrow> AttestationTiming \<Rightarrow> string \<Rightarrow> string option \<Rightarrow> string \<Rightarrow> RecipientDestination \<Rightarrow> RecipientDestination" where
  "attested_by now ti address ciphertext blindIndex d =
     d\<lparr>de_addressRaw := address, de_addressRawCiphertext := ciphertext,
       de_addressNormalizedBlindIndex := Some blindIndex, de_status := DestinationStatus_ACTIVE,
       de_isDefault := True, de_effectiveFrom := ti_effectiveFrom ti,
       de_lastAttestedAt := Some (ti_issuedAt ti), de_expiresAt := ti_expiresAt ti,
       de_revokedAt := None, de_updatedAt := now\<rparr>"

definition attested_destination ::
    "time \<Rightarrow> ident \<Rightarrow> ident \<Rightarrow> ident \<Rightarrow> string \<Rightarrow> string \<Rightarrow> AttestationTiming \<Rightarrow> string \<Rightarrow> string option \<Rightarrow> string \<Rightarrow>
     RecipientDestination" where
  "attested_destination now i recipientId assetNetworkId addressNormalized memo ti address ciphertext blindIndex =
     \<lparr>de_id = i, de_recipientId = recipientId, de_assetNetworkId = assetNetworkId,
      de_addressRaw = address, de_addressRawCiphertext = ciphertext,
      de_addressNormalized = addressNormalized, de_addressNormalizedBlindIndex = Some blindIndex,
      de_memoValue = memo, de_status = DestinationStatus_ACTIVE, de_isDefault = True,
      de_effectiveFrom = ti_effectiveFrom ti, de_lastAttestedAt = Some (ti_issuedAt ti),
      de_expiresAt = ti_expiresAt ti, de_revokedAt = None, de_createdAt = now, de_updatedAt = now\<rparr>"

definition applyDestinationAttestation ::
    "env \<Rightarrow> time \<Rightarrow> ResolvedCreateAttestationDto \<Rightarrow> ident \<Rightarrow> ident \<Rightarrow> NormalizedAttestationFields \<Rightarrow>
     AttestationTiming \<Rightarrow> db \<Rightarrow> RecipientDestination result \<times> db" where
  "applyDestinationAttestation E now dto assetNetworkId recipientId nf ti s =
     (let key = (recipientId, assetNetworkId, nf_address nf, nf_memo nf);
          same = (\<lambda>d. destination_key d = key) in
      if ca_attestationType dto = AttestationType_DESTINATION_REVOCATION then
        (case List.find same (destinations s) of
           None \<Rightarrow> (Inl (BadRequest ''Cannot revoke a destination that is not registered for the recipient.''), s)
         | Some destination \<Rightarrow>
             (Inr (revoked_by now ti destination), update_destination (de_id destination) (revoked_by now ti) s))
      else
        let others = (\<lambda>d. de_recipientId d = recipientId \<and> de_assetNetworkId d = assetNetworkId \<and>
               de_status d = DestinationStatus_ACTIVE \<and>
               \<not> (de_addressNormalized d = nf_address nf \<and> de_memoValue d = nf_memo nf));
            ds = update_where others (superseded_by now ti) (destinations s);
            ciphertext = sealOptionalString E (nextId s) (Some (ra_address dto));
            blindIndex = blindIndexOf E (nf_address nf);
            (i, s1) = fresh E (s\<lparr>nextId := Suc (nextId s)\<rparr>);
            new = attested_destination now i recipientId assetNetworkId (nf_address nf) (nf_memo nf) ti
                    (ra_address dto) ciphertext blindIndex;
            rows = upsert_by same (attested_by now ti (ra_address dto) ciphertext blindIndex) new ds
        in (Inr (upserted same new rows), s1\<lparr>destinations := rows\<rparr>))"

section \<open>The transaction\<close>

record IngestedAttestation =
  ig_id :: ident
  ig_partner :: string
  ig_recipientIdentifier :: string
  ig_chain :: string
  ig_asset :: string
  ig_address :: string
  ig_status :: VerificationStatus
  ig_sequenceNumber :: string

text \<open>What the handler answers: the stored attestation of a repeated submission, or the new one.\<close>

datatype AttestationResponse =
    AlreadyStored ident VerificationStatus string
  | Ingested IngestedAttestation

definition buildAttestationWebhookPayload ::
    "time \<Rightarrow> WebhookEventType \<Rightarrow> string \<Rightarrow> AttestationType \<Rightarrow> string option \<Rightarrow> Attestation \<Rightarrow> corridor \<Rightarrow>
     RecipientDestination \<Rightarrow> json" where
  "buildAttestationWebhookPayload now eventType partner attestationType displayName attestation net destination =
     (case net of (n, asset, chain) \<Rightarrow>
        JObj [(''eventType'', JStr (name_WebhookEventType eventType)), (''occurredAt'', j_time now),
          (''partner'', JStr partner),
          (''recipientIdentifier'', JStr (at_recipientIdentifierSnapshot attestation)),
          (''recipientDisplayName'', j_nullable displayName),
          (''attestationType'', JStr (name_AttestationType attestationType)),
          (''chain'', JStr (ch_slug chain)), (''asset'', JStr (as_symbol asset)),
          (''address'', JStr (de_addressRaw destination)), (''memo'', JStr (de_memoValue destination)),
          (''expiresAt'', j_iso_nullable (de_expiresAt destination)), (''attestationId'', JStr (at_id attestation)),
          (''status'', JStr (name_VerificationStatus (at_verificationStatus attestation))),
          (''sequenceNumber'', JStr (show_int (at_sequenceNumber attestation)))])"

definition new_attestation ::
    "time \<Rightarrow> ident \<Rightarrow> AuthenticatedPartner \<Rightarrow> PartnerSigningKey \<Rightarrow> ResolvedCreateAttestationDto \<Rightarrow>
     NormalizedAttestationFields \<Rightarrow> AttestationTiming \<Rightarrow> Recipient \<Rightarrow> RecipientIdentifier \<Rightarrow> ident \<Rightarrow>
     RecipientDestination \<Rightarrow> Attestation" where
  "new_attestation now i p key dto nf ti recipient identifier assetNetworkId destination =
     \<lparr>at_id = i, at_partnerId = ap_partnerId p, at_signingKeyId = sk_id key,
      at_attestationType = ca_attestationType dto, at_recipientId = rc_id recipient,
      at_identifierId = Some (id_id identifier), at_assetNetworkId = Some assetNetworkId,
      at_destinationId = Some (de_id destination),
      at_recipientIdentifierSnapshot = id_normalizedValue identifier,
      at_displayNameSnapshot = rc_displayName recipient, at_addressRaw = Some (ra_address dto),
      at_addressNormalized = Some (nf_address nf), at_memoValue = nf_memo nf,
      at_canonicalPayload = nf_canonicalPayload nf, at_payload = nf_payload nf,
      at_payloadHash = nf_payloadHash nf, at_signature = js_trim (ca_signature dto),
      at_sequenceNumber = ca_sequenceNumber dto, at_issuedAt = ti_issuedAt ti,
      at_effectiveFrom = ti_effectiveFrom ti, at_expiresAt = ti_expiresAt ti,
      at_verificationStatus = VerificationStatus_VERIFIED, at_verifiedAt = Some now, at_revokedAt = None,
      at_supersedesAttestationId = None, at_ingestedAt = now\<rparr>"

text \<open>The insert of an attestation, which two unique keys may refuse.\<close>

definition insert_attestation :: "Attestation \<Rightarrow> db \<Rightarrow> unit result \<times> db" where
  "insert_attestation a s =
     (if \<exists>x \<in> set (attestations s). at_partnerId x = at_partnerId a \<and>
           (at_sequenceNumber x = at_sequenceNumber a \<or> at_payloadHash x = at_payloadHash a)
      then (Inl UniqueViolation, s)
      else (Inr (), s\<lparr>attestations := attestations s @ [a]\<rparr>))"

definition ingested_event ::
    "AuthenticatedPartner \<Rightarrow> ResolvedCreateAttestationDto \<Rightarrow> Attestation \<Rightarrow> corridor \<Rightarrow> ident \<Rightarrow> RecordAuditEventInput" where
  "ingested_event p dto a net destinationId =
     (case net of (n, asset, chain) \<Rightarrow>
        partner_event p ''attestation.ingested'' ''Attestation'' (at_id a)
          (''Ingested '' @ js_lower (name_AttestationType (ca_attestationType dto)) @ '' attestation for '' @
             quoted (at_recipientIdentifierSnapshot a) @ ''.'')
          (JObj [(''attestationType'', JStr (name_AttestationType (ca_attestationType dto))),
             (''recipientIdentifier'', JStr (at_recipientIdentifierSnapshot a)),
             (''chain'', JStr (ch_slug chain)), (''asset'', JStr (as_symbol asset)),
             (''destinationId'', JStr destinationId), (''sequenceNumber'', JNum (ca_sequenceNumber dto))]))"

definition webhook_event_of :: "AttestationType \<Rightarrow> WebhookEventType" where
  "webhook_event_of t =
     (if t = AttestationType_DESTINATION_REVOCATION then WebhookEventType_DESTINATION_REVOKED
      else WebhookEventType_DESTINATION_UPDATED)"

definition announce ::
    "env \<Rightarrow> time \<Rightarrow> AuthenticatedPartner \<Rightarrow> ResolvedCreateAttestationDto \<Rightarrow> string option \<Rightarrow> Attestation \<Rightarrow> corridor \<Rightarrow>
     RecipientDestination \<Rightarrow> db \<Rightarrow> db" where
  "announce E now p dto displayName a net destination s =
     (let s1 = recordEvent E now (ingested_event p dto a net (de_id destination)) s;
          eventType = webhook_event_of (ca_attestationType dto)
      in snd (enqueuePartnerWebhookEvent E now
           \<lparr>dp_partnerId = ap_partnerId p, dp_eventType = eventType,
            dp_payload = buildAttestationWebhookPayload now eventType (ap_partnerSlug p) (ca_attestationType dto)
              displayName a net destination\<rparr> s1))"

text \<open>The body of the transaction; a failure rolls its writes back.\<close>

definition ingest ::
    "env \<Rightarrow> time \<Rightarrow> AuthenticatedPartner \<Rightarrow> PartnerSigningKey \<Rightarrow> ResolvedCreateAttestationDto \<Rightarrow>
     NormalizedAttestationFields \<Rightarrow> AttestationTiming \<Rightarrow> db \<Rightarrow> IngestedAttestation result \<times> db" where
  "ingest E now p key dto nf ti s =
     (case resolveAttestationCorridor dto nf s of
        Inl e \<Rightarrow> (Inl e, s)
      | Inr (n, asset, chain) \<Rightarrow>
          let (recipient, s1) = upsertRecipient E now
                \<lparr>ur_partnerId = ap_partnerId p, ur_externalRecipientId = ca_recipientExternalId dto,
                 ur_displayName = ca_recipientDisplayName dto\<rparr> s in
     (case upsertIdentifier E now
             \<lparr>ui_partnerId = ap_partnerId p, ui_recipientId = rc_id recipient, ui_kind = ca_identifierKind dto,
              ui_value = ra_recipientIdentifier dto\<rparr> s1 of
        (Inl e, s2) \<Rightarrow> (Inl e, s)
      | (Inr identifier, s2) \<Rightarrow>
     (case applyDestinationAttestation E now dto (an_id n) (rc_id recipient) nf ti s2 of
        (Inl e, s3) \<Rightarrow> (Inl e, s)
      | (Inr destination, s3) \<Rightarrow>
          let (i, s4) = fresh E s3;
              a = new_attestation now i p key dto nf ti recipient identifier (an_id n) destination in
     (case insert_attestation a s4 of
        (Inl e, s5) \<Rightarrow> (Inl e, s)
      | (Inr _, s5) \<Rightarrow>
          (Inr \<lparr>ig_id = i, ig_partner = ap_partnerSlug p, ig_recipientIdentifier = id_normalizedValue identifier,
                ig_chain = ch_slug chain, ig_asset = as_symbol asset, ig_address = de_addressRaw destination,
                ig_status = at_verificationStatus a, ig_sequenceNumber = show_int (at_sequenceNumber a)\<rparr>,
           announce E now p dto (rc_displayName recipient) a (n, asset, chain) destination s5)))))"

section \<open>The handler\<close>

definition stringifyAttestationError :: "http_error \<Rightarrow> string" where
  "stringifyAttestationError e = error_message e"

text \<open>\<open>materialized\<close> is the identifier read so far, \<open>nf\<close> the canonical fields.\<close>

definition recordFailedAttestationIngestion ::
    "env \<Rightarrow> time \<Rightarrow> CreateAttestationDto \<Rightarrow> AuthenticatedPartner \<Rightarrow> http_error \<Rightarrow>
     NormalizedAttestationFields option \<Rightarrow> string option \<Rightarrow> db \<Rightarrow> db" where
  "recordFailedAttestationIngestion E now dto p error nf materialized s =
     (let recipientIdentifier =
            or_else (map_option nf_recipientIdentifier nf)
              (or_else materialized
                 (describeSubmittedSensitiveValue (ca_recipientIdentifier dto) (ca_recipientIdentifierEncrypted dto)
                    ''[encrypted recipient identifier]'' ''[missing recipient identifier]''))
      in recordEvent E now
           (context_event (buildPartnerAuditContext p) (ap_partnerId p) ''attestation.ingest_failed''
              ''AttestationIngestion''
              (or_else (map_option nf_payloadHash nf) (ap_partnerId p @ '':'' @ show_int (ca_sequenceNumber dto)))
              (''Rejected '' @ js_lower (name_AttestationType (ca_attestationType dto)) @ '' attestation for '' @
                 quoted recipientIdentifier @ ''.'')
              (JObj [(''algorithm'', JStr (name_SigningKeyAlgorithm (ca_algorithm dto))),
                 (''asset'', JStr (or_else (map_option nf_assetSymbol nf) (js_trim (ca_assetSymbol dto)))),
                 (''assetCode'', JStr (or_else (map_option nf_assetCode nf) (js_trim (ca_assetCode dto)))),
                 (''attestationType'', JStr (name_AttestationType (ca_attestationType dto))),
                 (''chain'', JStr (or_else (map_option nf_chain nf) (js_trim (ca_chain dto)))),
                 (''error'', JStr (stringifyAttestationError error)), (''keyId'', JStr (js_trim (ca_keyId dto))),
                 (''partnerSlug'', JStr (or_else (map_option nf_partnerSlug nf) (ca_partnerSlug dto))),
                 (''recipientExternalId'', JStr (js_trim (ca_recipientExternalId dto))),
                 (''recipientIdentifier'', JStr recipientIdentifier),
                 (''sequenceNumber'', JNum (ca_sequenceNumber dto))])) s)"

text \<open>Everything before the replay check: whose statement it is and whether its signature holds.\<close>

definition authenticate_attestation ::
    "env \<Rightarrow> time \<Rightarrow> AuthenticatedPartner \<Rightarrow> ResolvedCreateAttestationDto \<Rightarrow> NormalizedAttestationFields \<Rightarrow> db \<Rightarrow>
     PartnerSigningKey result" where
  "authenticate_attestation E now p dto nf s =
     (if nf_partnerSlug nf \<noteq> ap_partnerSlug p
      then Inl (Forbidden ''Authenticated partner does not match the attestation partner slug.'')
      else
        rbind (getActiveSigningKey now (ap_partnerId p) (ca_keyId dto) s) (\<lambda>key.
          if sk_algorithm key \<noteq> ca_algorithm dto
          then Inl (BadRequest (''Signing key '' @ quoted (ca_keyId dto) @ '' does not match algorithm '' @
                 quoted (name_SigningKeyAlgorithm (ca_algorithm dto)) @ ''.''))
          else
            rbind (verifyAttestationSignature E (ca_algorithm dto) (sk_publicKeyPem key)
                     (nf_canonicalPayload nf) (ca_signature dto)) (\<lambda>signatureIsValid.
              if \<not> signatureIsValid then Inl (Unauthorized ''Attestation signature verification failed.'')
              else Inr key)))"

text \<open>The replay check, the repeated submission, and the transaction.\<close>

definition accept_attestation ::
    "env \<Rightarrow> time \<Rightarrow> AuthenticatedPartner \<Rightarrow> string option \<Rightarrow> string option \<Rightarrow> ResolvedCreateAttestationDto \<Rightarrow>
     NormalizedAttestationFields \<Rightarrow> db \<Rightarrow> AttestationResponse result \<times> db" where
  "accept_attestation E now p requestNonce requestTimestamp dto nf s =
     (case authenticate_attestation E now p dto nf s of
        Inl e \<Rightarrow> (Inl e, s)
      | Inr key \<Rightarrow>
     (case assertAttestationReplayProtection E now
             \<lparr>rp_authenticatedPartner = p, rp_requestNonce = requestNonce, rp_requestTimestamp = requestTimestamp,
              rp_requestHash = nf_payloadHash nf\<rparr> s of
        (Inl e, s1) \<Rightarrow> (Inl e, s1)
      | (Inr _, s1) \<Rightarrow>
     (case List.find (\<lambda>a. at_partnerId a = ap_partnerId p \<and> at_sequenceNumber a = ca_sequenceNumber dto)
             (attestations s1) of
        Some existing \<Rightarrow>
          if at_payloadHash existing \<noteq> nf_payloadHash nf
          then (Inl (Conflict (''Sequence number '' @ quoted (show_int (ca_sequenceNumber dto)) @
                  '' was already used for a different attestation.'')), s1)
          else (Inr (AlreadyStored (at_id existing) (at_verificationStatus existing)
                       (show_int (at_sequenceNumber existing))), s1)
      | None \<Rightarrow>
     (case parseAttestationTiming E dto of
        Inl e \<Rightarrow> (Inl e, s1)
      | Inr ti \<Rightarrow>
          (case ingest E now p key dto nf ti s1 of
             (Inl e, s2) \<Rightarrow> (Inl e, s2)
           | (Inr r, s2) \<Rightarrow> (Inr (Ingested r), s2))))))"

text \<open>
  The handler up to its answer.  After a new attestation the code starts
  \<open>processPendingDeliveries({ limit: 25 })\<close> without waiting for it, ignoring its outcome; that run is
  a step of the delivery model (theories \<open>Webhooks\<close> and \<open>Webhook_Concurrency\<close>).
\<close>

definition createAttestation ::
    "env \<Rightarrow> time \<Rightarrow> CreateAttestationDto \<Rightarrow> AuthenticatedPartner \<Rightarrow> string option \<Rightarrow> string option \<Rightarrow> db \<Rightarrow>
     AttestationResponse result \<times> db" where
  "createAttestation E now dto p requestNonce requestTimestamp s =
     (case resolveSensitiveAttestationFields E (getPartnerPolicy (ap_partnerId p) s) dto of
        Inl e \<Rightarrow> (Inl e, recordFailedAttestationIngestion E now dto p e None None s)
      | Inr resolved \<Rightarrow>
          let materialized = Some (ra_recipientIdentifier resolved) in
     (case normalizeAttestationFields E resolved of
        Inl e \<Rightarrow> (Inl e, recordFailedAttestationIngestion E now dto p e None materialized s)
      | Inr nf \<Rightarrow>
          (case accept_attestation E now p requestNonce requestTimestamp resolved nf s of
             (Inl e, s1) \<Rightarrow> (Inl e, recordFailedAttestationIngestion E now dto p e (Some nf) materialized s1)
           | (Inr r, s1) \<Rightarrow> (Inr r, s1))))"

section \<open>What a partner sees\<close>

definition attestation_network :: "db \<Rightarrow> Attestation \<Rightarrow> corridor option" where
  "attestation_network s a =
     Option.bind (at_assetNetworkId a) (\<lambda>i.
       Option.bind (List.find (\<lambda>n. an_id n = i) (assetNetworks s)) (network_of s))"

definition attestation_destination :: "db \<Rightarrow> Attestation \<Rightarrow> RecipientDestination option" where
  "attestation_destination s a =
     Option.bind (at_destinationId a) (\<lambda>i. List.find (\<lambda>d. de_id d = i) (destinations s))"

definition attestation_key :: "db \<Rightarrow> Attestation \<Rightarrow> PartnerSigningKey option" where
  "attestation_key s a = List.find (\<lambda>k. sk_id k = at_signingKeyId a) (signingKeys s)"

definition j_of_network :: "(corridor \<Rightarrow> string) \<Rightarrow> corridor option \<Rightarrow> json" where
  "j_of_network f net = j_nullable (map_option f net)"

record ListAttestationsParams =
  la_asset :: "string option"
  la_attestationType :: "AttestationType option"
  la_chain :: "string option"
  la_limit :: nat
  la_recipientId :: "ident option"
  la_recipientIdentifier :: "string option"
  la_verificationStatus :: "VerificationStatus option"

text \<open>An absent or empty text does not filter; others must normalise.\<close>

definition normalized_filter :: "(string \<Rightarrow> string result) \<Rightarrow> string option \<Rightarrow> string option result" where
  "normalized_filter norm v = (if falsy v then Inr None else map_sum id Some (norm (or_else v [])))"

definition truthy :: "string option \<Rightarrow> string option" where
  "truthy v = (if falsy v then None else v)"

definition attestation_json :: "db \<Rightarrow> Attestation \<Rightarrow> json option" where
  "attestation_json s a =
     (case (recipient_row s (at_recipientId a), attestation_key s a) of
        (Some r, Some k) \<Rightarrow>
          let net = attestation_network s a in
          Some (JObj [(''id'', JStr (at_id a)), (''attestationType'', JStr (name_AttestationType (at_attestationType a))),
            (''verificationStatus'', JStr (name_VerificationStatus (at_verificationStatus a))),
            (''recipientId'', JStr (at_recipientId a)),
            (''recipientExternalId'', JStr (rc_externalRecipientId r)),
            (''recipientDisplayName'', j_nullable (at_displayNameSnapshot a)),
            (''recipientIdentifier'', JStr (at_recipientIdentifierSnapshot a)),
            (''chain'', j_of_network (\<lambda>(n, a, c). ch_slug c) net),
            (''assetCode'', j_of_network (\<lambda>(n, a, c). as_code a) net),
            (''assetSymbol'', j_of_network (\<lambda>(n, a, c). as_symbol a) net),
            (''address'', j_nullable (at_addressRaw a)), (''memo'', blank_null (at_memoValue a)),
            (''destinationId'', j_nullable (at_destinationId a)),
            (''destinationStatus'',
               j_nullable (map_option (\<lambda>d. name_DestinationStatus (de_status d)) (attestation_destination s a))),
            (''keyId'', JStr (sk_keyId k)), (''sequenceNumber'', JStr (show_int (at_sequenceNumber a))),
            (''issuedAt'', j_time (at_issuedAt a)), (''effectiveFrom'', j_time (at_effectiveFrom a)),
            (''expiresAt'', j_iso_nullable (at_expiresAt a)), (''verifiedAt'', j_iso_nullable (at_verifiedAt a)),
            (''ingestedAt'', j_time (at_ingestedAt a))])
      | _ \<Rightarrow> None)"

definition listPartnerAttestations :: "ident \<Rightarrow> ListAttestationsParams \<Rightarrow> db \<Rightarrow> json list result" where
  "listPartnerAttestations partnerId params s =
     rbind (normalized_filter normalizeIdentifier (la_recipientIdentifier params)) (\<lambda>ident.
     rbind (normalized_filter normalizeChain (la_chain params)) (\<lambda>chain.
     rbind (normalized_filter normalizeAssetCode (la_asset params)) (\<lambda>asset.
       let matches = (\<lambda>a. at_partnerId a = partnerId \<and>
             filter_eq (la_attestationType params) (at_attestationType a) \<and>
             filter_eq (truthy (la_recipientId params)) (at_recipientId a) \<and>
             filter_eq ident (at_recipientIdentifierSnapshot a) \<and>
             filter_eq (la_verificationStatus params) (at_verificationStatus a) \<and>
             (chain = None \<and> asset = None \<or>
              (case attestation_network s a of
                 None \<Rightarrow> False
               | Some (n, x, c) \<Rightarrow> filter_eq chain (ch_slug c) \<and> filter_eq asset (as_code x))))
       in Inr (List.map_filter (attestation_json s)
            (take (la_limit params) (sort_key (\<lambda>a. (- at_issuedAt a, - at_sequenceNumber a))
               (filter matches (attestations s)))))))) "

definition getPartnerAttestation :: "ident \<Rightarrow> ident \<Rightarrow> db \<Rightarrow> json option" where
  "getPartnerAttestation partnerId attestationId s =
     (case List.find (\<lambda>a. at_id a = attestationId \<and> at_partnerId a = partnerId) (attestations s) of
        None \<Rightarrow> None
      | Some a \<Rightarrow>
     (case (recipient_row s (at_recipientId a), attestation_key s a) of
        (Some r, Some k) \<Rightarrow>
          let identifier = Option.bind (at_identifierId a) (\<lambda>i. List.find (\<lambda>x. id_id x = i) (identifiers s));
              destination = attestation_destination s a;
              supersededBy = order_desc at_issuedAt
                (filter (\<lambda>x. at_supersedesAttestationId x = Some attestationId) (attestations s))
          in Some (JObj [(''id'', JStr (at_id a)),
            (''attestationType'', JStr (name_AttestationType (at_attestationType a))),
            (''verificationStatus'', JStr (name_VerificationStatus (at_verificationStatus a))),
            (''canonicalPayload'', JStr (at_canonicalPayload a)), (''payload'', at_payload a),
            (''payloadHash'', JStr (at_payloadHash a)), (''signature'', JStr (at_signature a)),
            (''partnerId'', JStr (at_partnerId a)),
            (''recipient'', JObj [(''id'', JStr (rc_id r)), (''externalRecipientId'', JStr (rc_externalRecipientId r)),
               (''displayName'', j_nullable (at_displayNameSnapshot a)),
               (''identifier'', JStr (at_recipientIdentifierSnapshot a))]),
            (''identifier'', (case identifier of None \<Rightarrow> JNull
               | Some i \<Rightarrow> JObj [(''id'', JStr (id_id i)), (''kind'', JStr (name_IdentifierKind (id_kind i))),
                   (''rawValue'', JStr (id_rawValue i)), (''normalizedValue'', JStr (id_normalizedValue i))])),
            (''destination'', (case destination of None \<Rightarrow> JNull
               | Some d \<Rightarrow> JObj [(''id'', JStr (de_id d)), (''address'', JStr (de_addressRaw d)),
                   (''normalizedAddress'', JStr (de_addressNormalized d)), (''memoValue'', blank_null (de_memoValue d)),
                   (''status'', JStr (name_DestinationStatus (de_status d)))])),
            (''assetNetwork'', (case attestation_network s a of None \<Rightarrow> JNull
               | Some (n, x, c) \<Rightarrow> JObj [(''id'', JStr (an_id n)), (''chain'', JStr (ch_slug c)),
                   (''chainDisplayName'', JStr (ch_displayName c)), (''assetCode'', JStr (as_code x)),
                   (''assetSymbol'', JStr (as_symbol x)), (''tokenStandard'', JStr (name_TokenStandard (an_standard n)))])),
            (''signingKey'', JObj [(''id'', JStr (sk_id k)), (''keyId'', JStr (sk_keyId k)),
               (''algorithm'', JStr (name_SigningKeyAlgorithm (sk_algorithm k))), (''fingerprint'', JStr (sk_fingerprint k))]),
            (''sequenceNumber'', JStr (show_int (at_sequenceNumber a))), (''issuedAt'', j_time (at_issuedAt a)),
            (''effectiveFrom'', j_time (at_effectiveFrom a)), (''expiresAt'', j_iso_nullable (at_expiresAt a)),
            (''verifiedAt'', j_iso_nullable (at_verifiedAt a)), (''revokedAt'', j_iso_nullable (at_revokedAt a)),
            (''ingestedAt'', j_time (at_ingestedAt a)),
            (''supersedesAttestationId'', j_nullable
               (map_option at_id (Option.bind (at_supersedesAttestationId a)
                  (\<lambda>i. List.find (\<lambda>x. at_id x = i) (attestations s))))),
            (''supersededByAttestationIds'', JArr (map (\<lambda>x. JStr (at_id x)) supersededBy))])
      | _ \<Rightarrow> None))"

end
