(* ===== verification/Attestation_Facts.thy ===== *)
theory Attestation_Facts
  imports Attestations Webhook_Facts
begin

text \<open>
  What the ingestion of attestations guarantees: only a statement signed with an active key of its
  partner is accepted, a refused one leaves no trace but an audit entry and its nonce, and a
  sequence number is used once.
\<close>

section \<open>The steps of a submission\<close>

lemma replay_check_cases:
  assumes "assertAttestationReplayProtection E t P s = (r, s1)"
  obtains e where "r = Inl e" "s1 = s"
  | n where "r = Inr ()" "s1 = s\<lparr>requestNonces := requestNonces s @ [n], nextId := Suc (nextId s)\<rparr>"
proof (cases r)
  case (Inl e)
  have "s1 = s"
    using assms Inl
    by (auto simp: assertAttestationReplayProtection_def insert_nonce_def isUniqueConstraintError_def Let_def
        fresh_def split: sum.splits option.splits if_splits)
  with Inl that(1) show ?thesis by blast
next
  case (Inr u)
  have "s1 = s\<lparr>requestNonces := requestNonces s @ [last (requestNonces s1)], nextId := Suc (nextId s)\<rparr>"
    using assms Inr
    by (auto simp: assertAttestationReplayProtection_def insert_nonce_def isUniqueConstraintError_def Let_def
        fresh_def split: sum.splits option.splits if_splits)
  moreover have "r = Inr ()" using Inr by simp
  ultimately show ?thesis by (rule that(2) [rotated])
qed

text \<open>The four ways a submission goes after its fields are canonical.\<close>

lemma accept_cases:
  assumes "accept_attestation E now p nonce ts dto nf s = (r, s')"
  obtains
    (unauthentic) e where "authenticate_attestation E now p dto nf s = Inl e" "r = Inl e" "s' = s"
  | (replayed) e key where "authenticate_attestation E now p dto nf s = Inr key" "r = Inl e" "s' = s"
  | (stopped) e key n where "authenticate_attestation E now p dto nf s = Inr key" "r = Inl e"
      "s' = s\<lparr>requestNonces := requestNonces s @ [n], nextId := Suc (nextId s)\<rparr>"
  | (known) key n a where "authenticate_attestation E now p dto nf s = Inr key"
      "assertAttestationReplayProtection E now \<lparr>rp_authenticatedPartner = p, rp_requestNonce = nonce,
         rp_requestTimestamp = ts, rp_requestHash = nf_payloadHash nf\<rparr> s = (Inr (), s')"
      "s' = s\<lparr>requestNonces := requestNonces s @ [n], nextId := Suc (nextId s)\<rparr>"
      "List.find (\<lambda>a. at_partnerId a = ap_partnerId p \<and> at_sequenceNumber a = ca_sequenceNumber dto)
         (attestations s) = Some a"
      "at_payloadHash a = nf_payloadHash nf"
      "r = Inr (AlreadyStored (at_id a) (at_verificationStatus a) (show_int (at_sequenceNumber a)))"
  | (ingested) key n ti g where "authenticate_attestation E now p dto nf s = Inr key"
      "assertAttestationReplayProtection E now \<lparr>rp_authenticatedPartner = p, rp_requestNonce = nonce,
         rp_requestTimestamp = ts, rp_requestHash = nf_payloadHash nf\<rparr> s =
         (Inr (), s\<lparr>requestNonces := requestNonces s @ [n], nextId := Suc (nextId s)\<rparr>)"
      "List.find (\<lambda>a. at_partnerId a = ap_partnerId p \<and> at_sequenceNumber a = ca_sequenceNumber dto)
         (attestations s) = None"
      "parseAttestationTiming E dto = Inr ti" "r = Inr (Ingested g)"
      "ingest E now p key dto nf ti (s\<lparr>requestNonces := requestNonces s @ [n], nextId := Suc (nextId s)\<rparr>) = (Inr g, s')"
proof (cases "authenticate_attestation E now p dto nf s")
  case (Inl e)
  show ?thesis by (rule unauthentic [OF Inl]) (use assms Inl in \<open>simp_all add: accept_attestation_def\<close>)
next
  case key: (Inr key)
  let ?P = "\<lparr>rp_authenticatedPartner = p, rp_requestNonce = nonce, rp_requestTimestamp = ts,
              rp_requestHash = nf_payloadHash nf\<rparr>"
  obtain q s1 where q: "assertAttestationReplayProtection E now ?P s = (q, s1)" by force
  from q show ?thesis
  proof (cases rule: replay_check_cases)
    case (1 e)
    show ?thesis by (rule replayed [OF key, of e]) (use assms q key 1 in \<open>simp_all add: accept_attestation_def\<close>)
  next
    case (2 n)
    note s1 = this
    have s1a: "attestations s1 = attestations s" by (simp add: s1(2))
    let ?find = "List.find (\<lambda>a. at_partnerId a = ap_partnerId p \<and> at_sequenceNumber a = ca_sequenceNumber dto) (attestations s)"
    show ?thesis
    proof (cases ?find)
      case (Some a)
      show ?thesis
      proof (cases "at_payloadHash a = nf_payloadHash nf")
        case True
        show ?thesis by (rule known [OF key, of n a]) (use assms q key s1 Some True in \<open>simp_all add: accept_attestation_def\<close>)
      next
        case False
        have "r = Inl (Conflict (''Sequence number '' @ quoted (show_int (ca_sequenceNumber dto)) @
            '' was already used for a different attestation.''))" "s' = s1"
          using assms q key s1(1) s1a Some False by (simp_all add: accept_attestation_def)
        with s1(2) show ?thesis by (intro stopped [OF key]) simp_all
      qed
    next
      case None
      show ?thesis
      proof (cases "parseAttestationTiming E dto")
        case (Inl e)
        have "r = Inl e" "s' = s1" using assms q key s1(1) s1a None Inl by (simp_all add: accept_attestation_def)
        with s1(2) show ?thesis by (intro stopped [OF key]) simp_all
      next
        case ti: (Inr ti)
        obtain g s2 where g: "ingest E now p key dto nf ti s1 = (g, s2)" by force
        show ?thesis
        proof (cases g)
          case (Inl e)
          then have "s2 = s1"
            using g by (auto simp: ingest_def Let_def split: sum.splits prod.splits)
          have "r = Inl e" "s' = s1"
            using assms q key s1(1) s1a None ti g Inl \<open>s2 = s1\<close> by (simp_all add: accept_attestation_def)
          with s1(2) show ?thesis by (intro stopped [OF key]) simp_all
        next
          case (Inr h)
          show ?thesis by (rule ingested [OF key _ None ti, of n h])
              (use assms q key s1 None ti g Inr in \<open>simp_all add: accept_attestation_def\<close>)
        qed
      qed
    qed
  qed
qed

lemma createAttestation_Inr:
  assumes "createAttestation E now dto p nonce ts s = (Inr r, s')"
  obtains dto' nf where
    "resolveSensitiveAttestationFields E (getPartnerPolicy (ap_partnerId p) s) dto = Inr dto'"
    "normalizeAttestationFields E dto' = Inr nf" "accept_attestation E now p nonce ts dto' nf s = (Inr r, s')"
proof -
  obtain dto' where d: "resolveSensitiveAttestationFields E (getPartnerPolicy (ap_partnerId p) s) dto = Inr dto'"
    using assms by (auto simp: createAttestation_def split: sum.splits)
  obtain nf where n: "normalizeAttestationFields E dto' = Inr nf"
    using assms by (auto simp: createAttestation_def d Let_def split: sum.splits)
  have "accept_attestation E now p nonce ts dto' nf s = (Inr r, s')"
    using assms by (auto simp: createAttestation_def d n Let_def split: sum.splits prod.splits)
  with d n that show ?thesis by blast
qed

lemma resolved_fields:
  "resolveSensitiveAttestationFields E policy dto = Inr dto' \<Longrightarrow>
     ca_sequenceNumber dto' = ca_sequenceNumber dto \<and> ca_keyId dto' = ca_keyId dto \<and>
     ca_algorithm dto' = ca_algorithm dto \<and> ca_signature dto' = ca_signature dto \<and>
     ca_attestationType dto' = ca_attestationType dto"
  by (auto simp: resolveSensitiveAttestationFields_def rbind_def CreateAttestationDto.defs
      ResolvedCreateAttestationDto.defs split: sum.splits)


section \<open>What the transaction writes\<close>

lemma upsertRecipient_tables:
  "upsertRecipient E now P s = (r, s1) \<Longrightarrow>
     s1 = s\<lparr>recipients := recipients s1, nextId := Suc (Suc (nextId s))\<rparr>"
  by (auto simp: upsertRecipient_def fresh_def Let_def)

lemma upsertIdentifier_tables:
  "upsertIdentifier E now P s = (Inr r, s1) \<Longrightarrow>
     s1 = s\<lparr>identifiers := identifiers s1, nextId := Suc (Suc (nextId s))\<rparr>"
  by (auto simp: upsertIdentifier_def fresh_def Let_def split: sum.splits)

lemma applyDestination_tables:
  "applyDestinationAttestation E now dto n r nf ti s = (Inr d, s1) \<Longrightarrow>
     s1 = s\<lparr>destinations := destinations s1, nextId := nextId s1\<rparr> \<and> nextId s \<le> nextId s1"
  by (auto simp: applyDestinationAttestation_def update_destination_def fresh_def Let_def
      split: option.splits if_splits)

lemma announce_tables:
  "announce E now p dto name a net d s =
     s\<lparr>auditLogs := auditLogs (announce E now p dto name a net d s),
       webhookDeliveries := webhookDeliveries (announce E now p dto name a net d s),
       nextId := nextId (announce E now p dto name a net d s)\<rparr>"
  "nextId s \<le> nextId (announce E now p dto name a net d s)"
  by (auto simp: announce_def Let_def enqueue_eq recordEvent_eq)

lemma ingest_Inr:
  assumes "ingest E now p key dto nf ti s = (Inr g, s')"
  obtains n asset chain recipient s1 idrow s2 destination s3 a where
    "resolveAttestationCorridor dto nf s = Inr (n, asset, chain)"
    "upsertRecipient E now
       \<lparr>ur_partnerId = ap_partnerId p, ur_externalRecipientId = ca_recipientExternalId dto,
        ur_displayName = ca_recipientDisplayName dto\<rparr> s = (recipient, s1)"
    "upsertIdentifier E now
       \<lparr>ui_partnerId = ap_partnerId p, ui_recipientId = rc_id recipient, ui_kind = ca_identifierKind dto,
        ui_value = ra_recipientIdentifier dto\<rparr> s1 = (Inr idrow, s2)"
    "applyDestinationAttestation E now dto (an_id n) (rc_id recipient) nf ti s2 = (Inr destination, s3)"
    "a = new_attestation now (cuid E (nextId s3)) p key dto nf ti recipient idrow (an_id n) destination"
    "\<forall>x \<in> set (attestations s3). \<not> (at_partnerId x = at_partnerId a \<and>
       (at_sequenceNumber x = at_sequenceNumber a \<or> at_payloadHash x = at_payloadHash a))"
    "g = \<lparr>ig_id = at_id a, ig_partner = ap_partnerSlug p, ig_recipientIdentifier = id_normalizedValue idrow,
          ig_chain = ch_slug chain, ig_asset = as_symbol asset, ig_address = de_addressRaw destination,
          ig_status = VerificationStatus_VERIFIED, ig_sequenceNumber = show_int (at_sequenceNumber a)\<rparr>"
    "s' = announce E now p dto (rc_displayName recipient) a (n, asset, chain) destination
       (s3\<lparr>nextId := Suc (nextId s3), attestations := attestations s3 @ [a]\<rparr>)"
proof -
  obtain n asset chain where net: "resolveAttestationCorridor dto nf s = Inr (n, asset, chain)"
    using assms by (auto simp: ingest_def split: sum.splits)
  let ?P = "\<lparr>ur_partnerId = ap_partnerId p, ur_externalRecipientId = ca_recipientExternalId dto,
        ur_displayName = ca_recipientDisplayName dto\<rparr>"
  obtain recipient s1 where r: "upsertRecipient E now ?P s = (recipient, s1)" by force
  let ?Q = "\<lparr>ui_partnerId = ap_partnerId p, ui_recipientId = rc_id recipient, ui_kind = ca_identifierKind dto,
        ui_value = ra_recipientIdentifier dto\<rparr>"
  obtain idrow s2 where i: "upsertIdentifier E now ?Q s1 = (Inr idrow, s2)"
    using assms by (auto simp: ingest_def net r split: sum.splits prod.splits)
  obtain destination s3 where d:
    "applyDestinationAttestation E now dto (an_id n) (rc_id recipient) nf ti s2 = (Inr destination, s3)"
    using assms by (auto simp: ingest_def net r i split: sum.splits prod.splits)
  let ?a = "new_attestation now (cuid E (nextId s3)) p key dto nf ti recipient idrow (an_id n) destination"
  have new: "\<forall>x \<in> set (attestations s3). \<not> (at_partnerId x = at_partnerId ?a \<and>
       (at_sequenceNumber x = at_sequenceNumber ?a \<or> at_payloadHash x = at_payloadHash ?a))"
    using assms by (auto simp: ingest_def net r i d fresh_def Let_def insert_attestation_def
        split: sum.splits prod.splits if_splits)
  have ins: "insert_attestation ?a (s3\<lparr>nextId := Suc (nextId s3)\<rparr>) =
      (Inr (), s3\<lparr>nextId := Suc (nextId s3), attestations := attestations s3 @ [?a]\<rparr>)"
    using new by (auto simp: insert_attestation_def)
  have "at_id ?a = cuid E (nextId s3)" "at_verificationStatus ?a = VerificationStatus_VERIFIED"
    by (simp_all add: new_attestation_def)
  then show ?thesis
    using assms by (intro that [OF net r i d refl new])
      (simp_all add: ingest_def net r i d fresh_def Let_def ins)
qed

text \<open>The tables an ingestion leaves alone, and the attestation it appends.\<close>

lemma ingest_tables:
  assumes "ingest E now p key dto nf ti s = (Inr g, s')"
  shows "s' = s\<lparr>recipients := recipients s', identifiers := identifiers s', destinations := destinations s',
           attestations := attestations s @ [last (attestations s')], auditLogs := auditLogs s',
           webhookDeliveries := webhookDeliveries s', nextId := nextId s'\<rparr>"
    and "nextId s \<le> nextId s'" and "ig_id g = at_id (last (attestations s'))"
    and "at_partnerId (last (attestations s')) = ap_partnerId p"
    and "at_sequenceNumber (last (attestations s')) = ca_sequenceNumber dto"
    and "at_payloadHash (last (attestations s')) = nf_payloadHash nf"
proof -
  obtain n asset chain recipient s1 idrow s2 destination s3 a where
    r: "upsertRecipient E now \<lparr>ur_partnerId = ap_partnerId p,
       ur_externalRecipientId = ca_recipientExternalId dto, ur_displayName = ca_recipientDisplayName dto\<rparr> s = (recipient, s1)"
    and i: "upsertIdentifier E now \<lparr>ui_partnerId = ap_partnerId p, ui_recipientId = rc_id recipient,
       ui_kind = ca_identifierKind dto, ui_value = ra_recipientIdentifier dto\<rparr> s1 = (Inr idrow, s2)"
    and d: "applyDestinationAttestation E now dto (an_id n) (rc_id recipient) nf ti s2 = (Inr destination, s3)"
    and a: "a = new_attestation now (cuid E (nextId s3)) p key dto nf ti recipient idrow (an_id n) destination"
    and g: "g = \<lparr>ig_id = at_id a, ig_partner = ap_partnerSlug p, ig_recipientIdentifier = id_normalizedValue idrow,
          ig_chain = ch_slug chain, ig_asset = as_symbol asset, ig_address = de_addressRaw destination,
          ig_status = VerificationStatus_VERIFIED, ig_sequenceNumber = show_int (at_sequenceNumber a)\<rparr>"
    and s': "s' = announce E now p dto (rc_displayName recipient) a (n, asset, chain) destination
       (s3\<lparr>nextId := Suc (nextId s3), attestations := attestations s3 @ [a]\<rparr>)"
    using assms by (elim ingest_Inr) blast
  note t1 = upsertRecipient_tables [OF r] and t2 = upsertIdentifier_tables [OF i]
    and t3 = applyDestination_tables [OF d]
  obtain R I D L W N where s'_eq: "s' = s\<lparr>recipients := R, identifiers := I, destinations := D,
      attestations := attestations s @ [a], auditLogs := L, webhookDeliveries := W, nextId := N\<rparr>" "nextId s \<le> N"
  proof -
    obtain R where u1: "s1 = s\<lparr>recipients := R, nextId := Suc (Suc (nextId s))\<rparr>" using t1 by blast
    obtain I where u2: "s2 = s1\<lparr>identifiers := I, nextId := Suc (Suc (nextId s1))\<rparr>" using t2 by blast
    obtain D N where u3: "s3 = s2\<lparr>destinations := D, nextId := N\<rparr>" "nextId s2 \<le> N" using t3 by (metis order_refl)
    obtain L W M where u4: "s' = (s3\<lparr>nextId := Suc (nextId s3), attestations := attestations s3 @ [a]\<rparr>)
        \<lparr>auditLogs := L, webhookDeliveries := W, nextId := M\<rparr>" "Suc (nextId s3) \<le> M"
    proof -
      let ?s4 = "s3\<lparr>nextId := Suc (nextId s3), attestations := attestations s3 @ [a]\<rparr>"
      show ?thesis
        by (rule that [of "nextId s'" "webhookDeliveries s'" "auditLogs s'"])
           (use announce_tables(1) [of E now p dto "rc_displayName recipient" a "(n, asset, chain)" destination ?s4]
              announce_tables(2) [of ?s4 E now p dto "rc_displayName recipient" a "(n, asset, chain)" destination]
            in \<open>simp_all add: s' [symmetric]\<close>)
    qed
    show ?thesis
      by (rule that [of M W L D I R]) (use u1 u2 u3 u4 in simp_all)
  qed
  then show "s' = s\<lparr>recipients := recipients s', identifiers := identifiers s', destinations := destinations s',
           attestations := attestations s @ [last (attestations s')], auditLogs := auditLogs s',
           webhookDeliveries := webhookDeliveries s', nextId := nextId s'\<rparr>"
    "nextId s \<le> nextId s'" "ig_id g = at_id (last (attestations s'))"
    "at_partnerId (last (attestations s')) = ap_partnerId p"
    "at_sequenceNumber (last (attestations s')) = ca_sequenceNumber dto"
    "at_payloadHash (last (attestations s')) = nf_payloadHash nf"
    by (simp_all add: g a new_attestation_def)
qed


lemma ingest_kept:
  assumes "ingest E now p key dto nf ti s = (Inr g, s')"
  shows "requestNonces s' = requestNonces s" "signingKeys s' = signingKeys s"
    "attestations s' = attestations s @ [last (attestations s')]" "securitySettings s' = securitySettings s"
  using arg_cong [where f = requestNonces, OF ingest_tables(1) [OF assms]]
    arg_cong [where f = signingKeys, OF ingest_tables(1) [OF assms]]
    arg_cong [where f = attestations, OF ingest_tables(1) [OF assms]]
    arg_cong [where f = securitySettings, OF ingest_tables(1) [OF assms]] by simp_all

section \<open>Refused submissions\<close>

text \<open>The audit entry of a refused submission names its error.\<close>

definition refusal_log :: "AuthenticatedPartner \<Rightarrow> http_error \<Rightarrow> AuditLog \<Rightarrow> bool" where
  "refusal_log p e log \<longleftrightarrow>
     al_action log = ''attestation.ingest_failed'' \<and> al_subjectPartnerId log = Some (ap_partnerId p) \<and>
     Option.bind (al_metadata log) (\<lambda>m. j_get m ''error'') = Some (JStr (error_message e))"

lemma recordFailed_eq:
  obtains log where
    "recordFailedAttestationIngestion E now dto p e nf m s =
       s\<lparr>auditLogs := auditLogs s @ [log], nextId := Suc (nextId s)\<rparr>"
    "refusal_log p e log"
proof -
  let ?s = "recordFailedAttestationIngestion E now dto p e nf m s"
  have "?s = s\<lparr>auditLogs := auditLogs s @ [last (auditLogs ?s)], nextId := Suc (nextId s)\<rparr>"
    by (simp add: recordFailedAttestationIngestion_def recordEvent_eq Let_def)
  moreover have "refusal_log p e (last (auditLogs ?s))"
    by (simp add: recordFailedAttestationIngestion_def recordEvent_eq Let_def refusal_log_def audit_row_def
        context_event_def stringifyAttestationError_def)
  ultimately show ?thesis by (rule that)
qed

text \<open>C17: a refused attestation leaves no trace in the directory.  Whatever the reason, the only
  changes are one audit entry that names the error and, when the request was authentic and its
  nonce fresh, that nonce: no recipient, identifier, destination, attestation or delivery.\<close>

theorem refused_attestation_leaves_no_trace:
  assumes "createAttestation E now dto p nonce ts s = (Inl e, s')"
  shows "\<exists>log ns n. s' = s\<lparr>requestNonces := requestNonces s @ ns, auditLogs := auditLogs s @ [log], nextId := n\<rparr> \<and>
     refusal_log p e log \<and> length ns \<le> 1 \<and>
     (ns \<noteq> [] \<longrightarrow> (\<exists>dto' nf key.
        resolveSensitiveAttestationFields E (getPartnerPolicy (ap_partnerId p) s) dto = Inr dto' \<and>
        normalizeAttestationFields E dto' = Inr nf \<and> authenticate_attestation E now p dto' nf s = Inr key))"
proof -
  have early: ?thesis if "s' = recordFailedAttestationIngestion E now dto p e nf m s" for nf m
  proof -
    obtain log where "recordFailedAttestationIngestion E now dto p e nf m s =
        s\<lparr>auditLogs := auditLogs s @ [log], nextId := Suc (nextId s)\<rparr>" "refusal_log p e log"
      by (rule recordFailed_eq)
    note log = this [folded that]
    from log show ?thesis by (intro exI [of _ log] exI [of _ "[]"] exI [of _ "Suc (nextId s)"]) simp
  qed
  show ?thesis
  proof (cases "resolveSensitiveAttestationFields E (getPartnerPolicy (ap_partnerId p) s) dto")
    case (Inl e')
    with assms show ?thesis by (intro early) (auto simp: createAttestation_def)
  next
    case d: (Inr dto')
    show ?thesis
    proof (cases "normalizeAttestationFields E dto'")
      case (Inl e')
      with assms d show ?thesis by (intro early) (auto simp: createAttestation_def Let_def)
    next
      case n: (Inr nf)
      obtain r s1 where a: "accept_attestation E now p nonce ts dto' nf s = (r, s1)" by force
      with assms d n have r: "r = Inl e" and
        s': "s' = recordFailedAttestationIngestion E now dto p e (Some nf) (Some (ra_recipientIdentifier dto')) s1"
        by (auto simp: createAttestation_def Let_def split: sum.splits)
      from a show ?thesis
      proof (cases rule: accept_cases)
        case unauthentic
        with s' show ?thesis by (intro early) simp
      next
        case replayed
        with s' show ?thesis by (intro early) simp
      next
        case (stopped e' key x)
        obtain log where "recordFailedAttestationIngestion E now dto p e (Some nf) (Some (ra_recipientIdentifier dto')) s1 =
            s1\<lparr>auditLogs := auditLogs s1 @ [log], nextId := Suc (nextId s1)\<rparr>" "refusal_log p e log"
          by (rule recordFailed_eq)
        with s' stopped d n show ?thesis
          by (intro exI [of _ log] exI [of _ "[x]"] exI [of _ "Suc (Suc (nextId s))"]) simp
      qed (use r in simp_all)
    qed
  qed
qed

section \<open>Accepted submissions\<close>

text \<open>C16: only authentic statements are accepted.  An attestation is answered with success only when
  it names the authenticated partner, is signed over its canonical payload with an Ed25519 key of that
  partner that is active and not expired and has the id and the algorithm the request states, its timestamp is within the accepted age and its nonce was
  never used by the credential; the nonce is then stored.\<close>

theorem accepted_attestation_authentic:
  assumes "createAttestation E now dto p nonce ts s = (Inr r, s')"
  shows "\<exists>dto' nf key c v t.
     resolveSensitiveAttestationFields E (getPartnerPolicy (ap_partnerId p) s) dto = Inr dto' \<and>
     normalizeAttestationFields E dto' = Inr nf \<and> nf_partnerSlug nf = ap_partnerSlug p \<and>
     key \<in> set (signingKeys s) \<and> sk_partnerId key = ap_partnerId p \<and> sk_keyId key = js_trim (ca_keyId dto) \<and>
     sk_status key = SigningKeyStatus_ACTIVE \<and> not_expired now (sk_validTo key) \<and>
     sk_algorithm key = ca_algorithm dto \<and> ca_algorithm dto = SigningKeyAlgorithm_ED25519 \<and>
     verifySignature E SigningKeyAlgorithm_ED25519 (sk_publicKeyPem key) (nf_canonicalPayload nf) (ca_signature dto) = Inr True \<and>
     ap_credentialId p = Some c \<and> parseRequestNonce nonce = Inr v \<and> parseRequestTimestamp E ts = Inr t \<and>
     \<bar>now - t\<bar> \<le> ATTESTATION_REQUEST_MAX_AGE_MS (cfg E) \<and>
     (c, v) \<notin> nonce_key ` set (requestNonces s) \<and> (c, v) \<in> nonce_key ` set (requestNonces s')"
proof -
  obtain dto' nf where d: "resolveSensitiveAttestationFields E (getPartnerPolicy (ap_partnerId p) s) dto = Inr dto'"
    and n: "normalizeAttestationFields E dto' = Inr nf"
    and a: "accept_attestation E now p nonce ts dto' nf s = (Inr r, s')"
    using assms by (rule createAttestation_Inr)
  let ?P = "\<lparr>rp_authenticatedPartner = p, rp_requestNonce = nonce, rp_requestTimestamp = ts,
              rp_requestHash = nf_payloadHash nf\<rparr>"
  obtain key s1 where key: "authenticate_attestation E now p dto' nf s = Inr key"
    and ok: "assertAttestationReplayProtection E now ?P s = (Inr (), s1)"
    and kept: "requestNonces s' = requestNonces s1"
    using a
  proof (cases rule: accept_cases)
    case known
    with that show ?thesis by blast
  next
    case ingested
    with that ingest_kept(1) [OF ingested(6)] show ?thesis by blast
  qed simp_all
  have "sk_algorithm key = ca_algorithm dto' \<and> getActiveSigningKey now (ap_partnerId p) (ca_keyId dto') s = Inr key \<and>
     verifyAttestationSignature E (ca_algorithm dto') (sk_publicKeyPem key) (nf_canonicalPayload nf) (ca_signature dto') = Inr True \<and>
     nf_partnerSlug nf = ap_partnerSlug p"
    using key by (auto simp: authenticate_attestation_def elim!: rbind_InrE split: if_splits)
  moreover have "getActiveSigningKey now (ap_partnerId p) k s = Inr key \<Longrightarrow>
     key \<in> set (signingKeys s) \<and> sk_partnerId key = ap_partnerId p \<and> sk_keyId key = js_trim k \<and>
     sk_status key = SigningKeyStatus_ACTIVE \<and> not_expired now (sk_validTo key)" for k
    by (auto simp: getActiveSigningKey_def split: option.splits if_splits dest!: find_SomeD)
  moreover have "verifyAttestationSignature E alg pem pl sig = Inr True \<Longrightarrow>
     alg = SigningKeyAlgorithm_ED25519 \<and> verifySignature E alg pem pl sig = Inr True" for alg pem pl sig
    by (simp add: verifyAttestationSignature_def split: if_splits)
  moreover have "\<exists>v t c. parseRequestNonce nonce = Inr v \<and> parseRequestTimestamp E ts = Inr t \<and>
    ap_credentialId p = Some c \<and> \<bar>now - t\<bar> \<le> ATTESTATION_REQUEST_MAX_AGE_MS (cfg E) \<and>
    (c, v) \<notin> nonce_key ` set (requestNonces s) \<and> (c, v) \<in> nonce_key ` set (requestNonces s')"
  proof -
    have acc: "fst (assertAttestationReplayProtection E now ?P s) = Inr ()" by (simp add: ok)
    obtain v t c x where "parseRequestNonce nonce = Inr v" "parseRequestTimestamp E ts = Inr t"
      "ap_credentialId p = Some c" "\<bar>now - t\<bar> \<le> ATTESTATION_REQUEST_MAX_AGE_MS (cfg E)"
      "(c, v) \<notin> nonce_key ` set (requestNonces s)" "x \<in> set (requestNonces s1)" "nonce_key x = (c, v)"
      by (rule assert_accepted [OF acc]) (auto simp: ok)
    with kept show ?thesis by (metis image_eqI)
  qed
  ultimately show ?thesis using d n resolved_fields [OF d] by metis
qed


section \<open>Sequence numbers\<close>

lemma ingested_row:
  assumes "createAttestation E now dto p nonce ts s = (Inr (Ingested g), s1)"
    and "resolveSensitiveAttestationFields E (getPartnerPolicy (ap_partnerId p) s) dto = Inr dto'"
    and "normalizeAttestationFields E dto' = Inr nf"
  obtains a where "attestations s1 = attestations s @ [a]" "at_id a = ig_id g"
    "at_partnerId a = ap_partnerId p" "at_sequenceNumber a = ca_sequenceNumber dto"
    "at_payloadHash a = nf_payloadHash nf"
    "\<forall>x \<in> set (attestations s). \<not> (at_partnerId x = ap_partnerId p \<and> at_sequenceNumber x = ca_sequenceNumber dto)"
proof -
  have "accept_attestation E now p nonce ts dto' nf s = (Inr (Ingested g), s1)"
    using assms(1) by (rule createAttestation_Inr) (use assms(2,3) in simp)
  then show ?thesis
  proof (cases rule: accept_cases)
    case (ingested key n ti h)
    have seq: "ca_sequenceNumber dto' = ca_sequenceNumber dto" using resolved_fields [OF assms(2)] by simp
    have g: "h = g" using ingested(5) by simp
    show ?thesis
    proof (rule that)
      show "attestations s1 = attestations s @ [last (attestations s1)]" using ingest_kept(3) [OF ingested(6)] by simp
    qed (use ingest_tables(3-6) [OF ingested(6)] ingested(3) seq g in \<open>auto simp: find_None_iff\<close>)
  qed simp_all
qed

text \<open>C18: a sequence number is used once.  After an attestation was ingested, whatever is ingested
  later, no other submission of the partner under its sequence number is ingested: it is refused, or
  answered with the id of the stored attestation, and the latter only for a payload with the same
  hash and without any change but its nonce.\<close>

theorem sequence_number_used_once:
  assumes "createAttestation E now dto p nonce ts s = (Inr (Ingested g), s1)"
    and "attestations s2 = attestations s1 @ later"
    and "ca_sequenceNumber dto2 = ca_sequenceNumber dto" and "ap_partnerId q = ap_partnerId p"
    and "createAttestation E t2 dto2 q nonce2 ts2 s2 = (Inr r, s3)"
  shows "\<exists>st n dto' nf dto2' nf2. r = AlreadyStored (ig_id g) st (show_int (ca_sequenceNumber dto)) \<and>
     s3 = s2\<lparr>requestNonces := requestNonces s2 @ [n], nextId := Suc (nextId s2)\<rparr> \<and>
     resolveSensitiveAttestationFields E (getPartnerPolicy (ap_partnerId p) s) dto = Inr dto' \<and>
     normalizeAttestationFields E dto' = Inr nf \<and>
     resolveSensitiveAttestationFields E (getPartnerPolicy (ap_partnerId p) s2) dto2 = Inr dto2' \<and>
     normalizeAttestationFields E dto2' = Inr nf2 \<and> nf_payloadHash nf2 = nf_payloadHash nf"
proof -
  obtain dto' nf where d: "resolveSensitiveAttestationFields E (getPartnerPolicy (ap_partnerId p) s) dto = Inr dto'"
    and n: "normalizeAttestationFields E dto' = Inr nf" using assms(1) by (rule createAttestation_Inr)
  obtain a where a: "attestations s1 = attestations s @ [a]" "at_id a = ig_id g" "at_partnerId a = ap_partnerId p"
    "at_sequenceNumber a = ca_sequenceNumber dto" "at_payloadHash a = nf_payloadHash nf"
    "\<forall>x \<in> set (attestations s). \<not> (at_partnerId x = ap_partnerId p \<and> at_sequenceNumber x = ca_sequenceNumber dto)"
    by (rule ingested_row [OF assms(1) d n])
  obtain dto2' nf2 where d2: "resolveSensitiveAttestationFields E (getPartnerPolicy (ap_partnerId q) s2) dto2 = Inr dto2'"
    and n2: "normalizeAttestationFields E dto2' = Inr nf2"
    and acc: "accept_attestation E t2 q nonce2 ts2 dto2' nf2 s2 = (Inr r, s3)"
    using assms(5) by (rule createAttestation_Inr)
  have "List.find (\<lambda>x. at_partnerId x = ap_partnerId q \<and> at_sequenceNumber x = ca_sequenceNumber dto2')
      (attestations s2) = Some a"
    using a resolved_fields [OF d2] assms(2-4)
    by (auto simp: find_append find_None_iff split: option.splits dest!: find_SomeD)
  with acc show ?thesis using a d n d2 n2 assms(4) by (cases rule: accept_cases) auto
qed

lemma authenticate_cong:
  "signingKeys s1 = signingKeys s \<Longrightarrow>
   authenticate_attestation E now p dto nf s1 = authenticate_attestation E now p dto nf s"
  unfolding authenticate_attestation_def getActiveSigningKey_def by (erule ssubst) (rule refl)

text \<open>What an ingestion keeps, and the nonce it stores.\<close>

lemma ingested_keeps:
  assumes "createAttestation E now dto p nonce ts s = (Inr (Ingested g), s1)"
  obtains n c v where "signingKeys s1 = signingKeys s" "securitySettings s1 = securitySettings s"
    "requestNonces s1 = requestNonces s @ [n]" "ap_credentialId p = Some c" "parseRequestNonce nonce = Inr v"
    "(c, v) \<notin> nonce_key ` set (requestNonces s)" "(c, v) \<in> nonce_key ` set (requestNonces s1)"
proof -
  obtain dto' nf where d: "resolveSensitiveAttestationFields E (getPartnerPolicy (ap_partnerId p) s) dto = Inr dto'"
    "normalizeAttestationFields E dto' = Inr nf"
    and acc: "accept_attestation E now p nonce ts dto' nf s = (Inr (Ingested g), s1)"
    using assms by (rule createAttestation_Inr)
  from acc show ?thesis
  proof (cases rule: accept_cases)
    case (ingested key n ti h)
    let ?P = "\<lparr>rp_authenticatedPartner = p, rp_requestNonce = nonce, rp_requestTimestamp = ts,
              rp_requestHash = nf_payloadHash nf\<rparr>"
    note k = ingest_kept [OF ingested(6)]
    have "fst (assertAttestationReplayProtection E now ?P s) = Inr ()" by (simp add: ingested(2))
    then obtain v t c x where "parseRequestNonce nonce = Inr v" "ap_credentialId p = Some c"
      "(c, v) \<notin> nonce_key ` set (requestNonces s)" "x \<in> set (requestNonces s1)" "nonce_key x = (c, v)"
      by (rule assert_accepted) (auto simp: ingested(2) k(1))
    then show ?thesis using k by (intro that [of n c v]) (auto intro!: image_eqI)
  qed simp_all
qed

text \<open>The same statement submitted again with another nonce is answered with the stored row.\<close>

lemma resubmission_answered:
  assumes "createAttestation E now dto p nonce ts s = (Inr (Ingested g), s1)"
    and "attestations s2 = attestations s1 @ later" and "securitySettings s2 = securitySettings s"
    and "resolveSensitiveAttestationFields E (getPartnerPolicy (ap_partnerId p) s) dto = Inr dto'"
    and "normalizeAttestationFields E dto' = Inr nf" and "authenticate_attestation E t2 p dto' nf s2 = Inr key"
    and "parseRequestNonce nonce2 = Inr v" and "parseRequestTimestamp E ts2 = Inr t"
    and "ap_credentialId p = Some c" and "c \<noteq> []" and "\<bar>t2 - t\<bar> \<le> ATTESTATION_REQUEST_MAX_AGE_MS (cfg E)"
    and "(c, v) \<notin> nonce_key ` set (requestNonces s2)"
  shows "\<exists>st s3. createAttestation E t2 dto p nonce2 ts2 s2 =
     (Inr (AlreadyStored (ig_id g) st (show_int (ca_sequenceNumber dto))), s3)"
proof -
  let ?P = "\<lparr>rp_authenticatedPartner = p, rp_requestNonce = nonce2, rp_requestTimestamp = ts2,
              rp_requestHash = nf_payloadHash nf\<rparr>"
  obtain s3 where ok: "assertAttestationReplayProtection E t2 ?P s2 = (Inr (), s3)"
    using assms(7-12) by (auto simp: assertAttestationReplayProtection_def insert_nonce_def fresh_def Let_def)
  then have tables: "attestations s3 = attestations s2" by (auto elim!: replay_check_cases)
  obtain a where a: "attestations s1 = attestations s @ [a]" "at_id a = ig_id g" "at_partnerId a = ap_partnerId p"
    "at_sequenceNumber a = ca_sequenceNumber dto" "at_payloadHash a = nf_payloadHash nf"
    "\<forall>x \<in> set (attestations s). \<not> (at_partnerId x = ap_partnerId p \<and> at_sequenceNumber x = ca_sequenceNumber dto)"
    by (rule ingested_row [OF assms(1,4,5)])
  have "List.find (\<lambda>x. at_partnerId x = ap_partnerId p \<and> at_sequenceNumber x = ca_sequenceNumber dto')
      (attestations s3) = Some a"
    using a resolved_fields [OF assms(4)] assms(2) tables
    by (auto simp: find_append find_None_iff split: option.splits dest!: find_SomeD)
  then have "accept_attestation E t2 p nonce2 ts2 dto' nf s2 =
      (Inr (AlreadyStored (ig_id g) (at_verificationStatus a) (show_int (ca_sequenceNumber dto))), s3)"
    using assms(6) ok a by (simp add: accept_attestation_def)
  moreover have "getPartnerPolicy (ap_partnerId p) s2 = getPartnerPolicy (ap_partnerId p) s"
    by (simp add: getPartnerPolicy_def assms(3))
  ultimately show ?thesis using assms(4,5) by (simp add: createAttestation_def)
qed

section \<open>Authentic submissions are ingested\<close>

lemma applyDestination_Inr:
  "ca_attestationType dto \<noteq> AttestationType_DESTINATION_REVOCATION \<Longrightarrow>
     \<exists>d s1. applyDestinationAttestation E now dto n r nf ti s = (Inr d, s1)"
  by (simp add: applyDestinationAttestation_def fresh_def Let_def)

lemma ingest_succeeds:
  assumes "resolveAttestationCorridor dto nf s = Inr net"
    and "normalizeIdentifier (ra_recipientIdentifier dto) = Inr v"
    and "ca_attestationType dto \<noteq> AttestationType_DESTINATION_REVOCATION"
    and "\<forall>x \<in> set (attestations s). at_partnerId x = ap_partnerId p \<longrightarrow>
           at_sequenceNumber x \<noteq> ca_sequenceNumber dto \<and> at_payloadHash x \<noteq> nf_payloadHash nf"
  shows "\<exists>g s'. ingest E now p key dto nf ti s = (Inr g, s')"
proof -
  obtain n asset chain where net: "resolveAttestationCorridor dto nf s = Inr (n, asset, chain)"
    using assms(1) by (cases net) auto
  let ?P = "\<lparr>ur_partnerId = ap_partnerId p, ur_externalRecipientId = ca_recipientExternalId dto,
        ur_displayName = ca_recipientDisplayName dto\<rparr>"
  obtain r s1 where r: "upsertRecipient E now ?P s = (r, s1)" by force
  let ?Q = "\<lparr>ui_partnerId = ap_partnerId p, ui_recipientId = rc_id r, ui_kind = ca_identifierKind dto,
        ui_value = ra_recipientIdentifier dto\<rparr>"
  obtain i s2 where i: "upsertIdentifier E now ?Q s1 = (Inr i, s2)"
    using assms(2) by (auto simp: upsertIdentifier_def fresh_def Let_def)
  obtain d s3 where d: "applyDestinationAttestation E now dto (an_id n) (rc_id r) nf ti s2 = (Inr d, s3)"
    using applyDestination_Inr [OF assms(3)] by blast
  have "attestations s3 = attestations s"
    using arg_cong [where f = attestations, OF upsertRecipient_tables [OF r]]
      arg_cong [where f = attestations, OF upsertIdentifier_tables [OF i]]
      arg_cong [where f = attestations, OF conjunct1 [OF applyDestination_tables [OF d]]] by simp
  moreover have "at_partnerId (new_attestation now j p key dto nf ti r i (an_id n) d) = ap_partnerId p"
    "at_sequenceNumber (new_attestation now j p key dto nf ti r i (an_id n) d) = ca_sequenceNumber dto"
    "at_payloadHash (new_attestation now j p key dto nf ti r i (an_id n) d) = nf_payloadHash nf" for j
    by (simp_all add: new_attestation_def)
  ultimately have "insert_attestation (new_attestation now j p key dto nf ti r i (an_id n) d) (s3\<lparr>nextId := m\<rparr>) =
      (Inr (), s3\<lparr>nextId := m, attestations := attestations s @ [new_attestation now j p key dto nf ti r i (an_id n) d]\<rparr>)" for j m
    using assms(4) by (auto simp: insert_attestation_def)
  then show ?thesis by (simp add: ingest_def net r i d fresh_def Let_def)
qed

lemma authentic_is_ingested:
  assumes "resolveSensitiveAttestationFields E (getPartnerPolicy (ap_partnerId p) s) dto = Inr dto'"
    and "normalizeAttestationFields E dto' = Inr nf"
    and "authenticate_attestation E now p dto' nf s = Inr key"
    and "parseRequestNonce nonce = Inr v" and "parseRequestTimestamp E ts = Inr t"
    and "ap_credentialId p = Some c" and "c \<noteq> []" and "\<bar>now - t\<bar> \<le> ATTESTATION_REQUEST_MAX_AGE_MS (cfg E)"
    and "(c, v) \<notin> nonce_key ` set (requestNonces s)"
    and "parseAttestationTiming E dto' = Inr ti"
    and "resolveAttestationCorridor dto' nf s = Inr net"
    and "ca_attestationType dto' \<noteq> AttestationType_DESTINATION_REVOCATION"
    and "\<forall>x \<in> set (attestations s). at_partnerId x = ap_partnerId p \<longrightarrow>
           at_sequenceNumber x \<noteq> ca_sequenceNumber dto' \<and> at_payloadHash x \<noteq> nf_payloadHash nf"
  shows "\<exists>g s'. createAttestation E now dto p nonce ts s = (Inr (Ingested g), s')"
proof -
  let ?P = "\<lparr>rp_authenticatedPartner = p, rp_requestNonce = nonce, rp_requestTimestamp = ts,
              rp_requestHash = nf_payloadHash nf\<rparr>"
  obtain s1 where ok: "assertAttestationReplayProtection E now ?P s = (Inr (), s1)"
    using assms(4-9) by (auto simp: assertAttestationReplayProtection_def insert_nonce_def fresh_def Let_def)
  have tables: "attestations s1 = attestations s" "chains s1 = chains s" "assets s1 = assets s"
    "assetNetworks s1 = assetNetworks s"
    using ok by (auto elim!: replay_check_cases)
  have "normalizeIdentifier (ra_recipientIdentifier dto') = Inr (nf_recipientIdentifier nf)"
    using assms(2) by (auto simp: normalizeAttestationFields_def Let_def elim!: rbind_InrE)
  moreover have "resolveAttestationCorridor dto' nf s1 = Inr net"
    using assms(11) unfolding resolveAttestationCorridor_def tables .
  ultimately obtain g s' where "ingest E now p key dto' nf ti s1 = (Inr g, s')"
    using ingest_succeeds [of dto' nf s1 net] assms(12,13) tables(1) by metis
  moreover have "List.find (\<lambda>a. at_partnerId a = ap_partnerId p \<and> at_sequenceNumber a = ca_sequenceNumber dto')
      (attestations s1) = None"
    using assms(13) by (auto simp: find_None_iff tables)
  ultimately have "accept_attestation E now p nonce ts dto' nf s = (Inr (Ingested g), s')"
    using assms(3,10) ok by (simp add: accept_attestation_def)
  then show ?thesis using assms(1,2) by (simp add: createAttestation_def)
qed

text \<open>C19: an authentic attestation is ingested, unless it revokes a destination.  When its fields are canonical, its corridor is
  registered, its signature holds under an active key of its partner, its nonce is new, its timestamp
  fresh, its dates in order and its sequence number and payload unused, an attestation that is not a
  revocation is ingested at the first attempt, and a row with its id, sequence number and payload hash
  is appended to the attestations.\<close>

theorem authentic_attestation_ingested:
  assumes "resolveSensitiveAttestationFields E (getPartnerPolicy (ap_partnerId p) s) dto = Inr dto'"
    and "normalizeAttestationFields E dto' = Inr nf"
    and "authenticate_attestation E now p dto' nf s = Inr key"
    and "parseRequestNonce nonce = Inr v" and "parseRequestTimestamp E ts = Inr t"
    and "ap_credentialId p = Some c" and "c \<noteq> []" and "\<bar>now - t\<bar> \<le> ATTESTATION_REQUEST_MAX_AGE_MS (cfg E)"
    and "(c, v) \<notin> nonce_key ` set (requestNonces s)"
    and "parseAttestationTiming E dto' = Inr ti"
    and "resolveAttestationCorridor dto' nf s = Inr net"
    and "ca_attestationType dto' \<noteq> AttestationType_DESTINATION_REVOCATION"
    and "\<forall>x \<in> set (attestations s). at_partnerId x = ap_partnerId p \<longrightarrow>
           at_sequenceNumber x \<noteq> ca_sequenceNumber dto' \<and> at_payloadHash x \<noteq> nf_payloadHash nf"
  shows "\<exists>g s' a. createAttestation E now dto p nonce ts s = (Inr (Ingested g), s') \<and>
     attestations s' = attestations s @ [a] \<and> at_id a = ig_id g \<and> at_partnerId a = ap_partnerId p \<and>
     at_sequenceNumber a = ca_sequenceNumber dto \<and> at_payloadHash a = nf_payloadHash nf"
proof -
  obtain g s' where c: "createAttestation E now dto p nonce ts s = (Inr (Ingested g), s')"
    using authentic_is_ingested [OF assms] by blast
  obtain a where "attestations s' = attestations s @ [a]" "at_id a = ig_id g" "at_partnerId a = ap_partnerId p"
    "at_sequenceNumber a = ca_sequenceNumber dto" "at_payloadHash a = nf_payloadHash nf"
    by (rule ingested_row [OF c assms(1,2)])
  with c show ?thesis by blast
qed

section \<open>A submission evaluated\<close>

definition demo_key :: PartnerSigningKey where
  "demo_key =
     \<lparr>sk_id = ''k'', sk_partnerId = ''p'', sk_keyId = ''key-1'', sk_algorithm = SigningKeyAlgorithm_ED25519,
      sk_publicKeyPem = ''pem'', sk_fingerprint = ''pem'', sk_status = SigningKeyStatus_ACTIVE, sk_validFrom = 0,
      sk_validTo = None, sk_rotatesAt = None, sk_revokedAt = None, sk_createdAt = 0\<rparr>"

definition demo_chain :: Chain where
  "demo_chain =
     \<lparr>ch_id = ''ch'', ch_slug = ''ethereum'', ch_displayName = ''Ethereum'', ch_family = ChainFamily_EVM,
      ch_caip2 = None, ch_isActive = True, ch_metadata = None, ch_createdAt = 0\<rparr>"

definition demo_asset :: Asset where
  "demo_asset =
     \<lparr>as_id = ''as'', as_code = ''usdc'', as_symbol = ''USDC'', as_displayName = ''USD Coin'',
      as_isActive = True, as_metadata = None, as_createdAt = 0\<rparr>"

definition demo_network :: AssetNetwork where
  "demo_network =
     \<lparr>an_id = ''an'', an_assetId = ''as'', an_chainId = ''ch'', an_standard = TokenStandard_ERC20,
      an_contractAddressRaw = None, an_contractAddressNormalized = [], an_decimals = None,
      an_memoPolicy = MemoPolicy_NONE, an_memoLabel = None, an_isActive = True, an_metadata = None,
      an_createdAt = 0\<rparr>"

definition demo_partner_db :: db where
  "demo_partner_db =
     empty_db\<lparr>partners := [demo_partner_row], signingKeys := [demo_key], chains := [demo_chain],
       assets := [demo_asset], assetNetworks := [demo_network]\<rparr>"

definition demo_address :: string where
  "demo_address = ''0x'' @ replicate 40 CHR ''a''"

definition demo_iso :: string where
  "demo_iso = ''2026-01-01T00:00:00.000Z''"

definition demo_attestation :: CreateAttestationDto where
  "demo_attestation =
     \<lparr>ca_partnerSlug = ''demo'', ca_keyId = ''key-1'', ca_algorithm = SigningKeyAlgorithm_ED25519,
      ca_attestationType = AttestationType_IDENTIFIER_BINDING, ca_sequenceNumber = 1,
      ca_recipientExternalId = ''user-1'', ca_recipientDisplayName = None,
      ca_recipientIdentifier = Some ''bob'', ca_recipientIdentifierEncrypted = None,
      ca_identifierKind = IdentifierKind_PARTNER_HANDLE, ca_chain = ''ethereum'', ca_assetCode = ''usdc'',
      ca_assetSymbol = ''usdc'', ca_tokenStandard = TokenStandard_ERC20, ca_contractAddress = None,
      ca_decimals = None, ca_address = Some demo_address, ca_addressEncrypted = None, ca_memo = None,
      ca_issuedAt = demo_iso, ca_effectiveFrom = demo_iso, ca_expiresAt = None, ca_signature = ''signed''\<rparr>"


definition demo_now :: time where
  "demo_now = 1767225600000"

definition demo_timestamp :: string where
  "demo_timestamp = ''1767225600000''"

definition demo_resolved :: ResolvedCreateAttestationDto where
  "demo_resolved =
     CreateAttestationDto.extend demo_attestation (ResolvedCreateAttestationDto.fields ''bob'' demo_address)"

lemma demo_resolves:
  "resolveSensitiveAttestationFields demo_env (getPartnerPolicy ''p'' demo_partner_db) demo_attestation = Inr demo_resolved"
  by code_simp

lemma demo_canonical:
  "\<exists>c pl h. normalizeAttestationFields demo_env demo_resolved =
     Inr \<lparr>nf_address = demo_address, nf_assetCode = ''usdc'', nf_assetSymbol = ''USDC'', nf_canonicalPayload = c,
          nf_payload = pl, nf_chain = ''ethereum'', nf_contractAddress = [], nf_memo = [],
          nf_partnerSlug = ''demo'', nf_payloadHash = h, nf_recipientIdentifier = ''bob''\<rparr>"
proof -
  have "map_sum id (\<lambda>nf. (nf_address nf, nf_assetCode nf, nf_assetSymbol nf, nf_chain nf, nf_contractAddress nf,
          nf_memo nf, nf_partnerSlug nf, nf_recipientIdentifier nf)) (normalizeAttestationFields demo_env demo_resolved) =
      Inr (demo_address, ''usdc'', ''USDC'', ''ethereum'', [], [], ''demo'', ''bob'')"
    by code_simp
  then obtain nf where "normalizeAttestationFields demo_env demo_resolved = Inr nf" "nf_address nf = demo_address"
    "nf_assetCode nf = ''usdc''" "nf_assetSymbol nf = ''USDC''" "nf_chain nf = ''ethereum''"
    "nf_contractAddress nf = []" "nf_memo nf = []" "nf_partnerSlug nf = ''demo''" "nf_recipientIdentifier nf = ''bob''"
    by (auto simp: map_sum_def split: sum.splits)
  then show ?thesis by (cases nf) simp
qed

lemma demo_dates:
  "parseAttestationTiming demo_env demo_resolved =
     Inr \<lparr>ti_effectiveFrom = demo_now, ti_expiresAt = None, ti_issuedAt = demo_now\<rparr>"
  by code_simp

lemma demo_replay:
  "parseRequestNonce (Some ''n1'') = Inr ''n1''"
  "parseRequestTimestamp demo_env (Some demo_timestamp) = Inr demo_now"
  by code_simp+

lemma demo_key_active: "getActiveSigningKey demo_now ''p'' ''key-1'' demo_partner_db = Inr demo_key"
  by code_simp

lemma demo_corridor:
  "nf_chain nf = ''ethereum'' \<Longrightarrow> nf_assetCode nf = ''usdc'' \<Longrightarrow> nf_assetSymbol nf = ''USDC'' \<Longrightarrow>
   nf_contractAddress nf = [] \<Longrightarrow> chains s = [demo_chain] \<Longrightarrow> assets s = [demo_asset] \<Longrightarrow>
   assetNetworks s = [demo_network] \<Longrightarrow>
   resolveAttestationCorridor demo_resolved nf s = Inr (demo_network, demo_asset, demo_chain)"
  by (simp add: resolveAttestationCorridor_def demo_chain_def demo_asset_def demo_network_def demo_resolved_def
      CreateAttestationDto.defs ResolvedCreateAttestationDto.defs demo_attestation_def)


lemma demo_authentic:
  "nf_partnerSlug nf = ''demo'' \<Longrightarrow>
   authenticate_attestation demo_env demo_now demo_partner demo_resolved nf demo_partner_db = Inr demo_key"
proof -
  assume "nf_partnerSlug nf = ''demo''"
  moreover have "ca_keyId demo_resolved = ''key-1''" "ca_algorithm demo_resolved = SigningKeyAlgorithm_ED25519"
    "ca_signature demo_resolved = ''signed''" "sk_algorithm demo_key = SigningKeyAlgorithm_ED25519"
    "ap_partnerSlug demo_partner = ''demo''" "ap_partnerId demo_partner = ''p''"
    by (simp_all add: demo_resolved_def demo_attestation_def CreateAttestationDto.defs
        ResolvedCreateAttestationDto.defs demo_key_def demo_partner_def)
  moreover have "verifyAttestationSignature demo_env SigningKeyAlgorithm_ED25519 k c ''signed'' = Inr True" for k c
    by (simp add: verifyAttestationSignature_def demo_env_def)
  ultimately show ?thesis by (simp add: authenticate_attestation_def demo_key_active)
qed

lemma demo_ages: "ATTESTATION_REQUEST_MAX_AGE_MS (cfg demo_env) = 300000"
  by (simp add: demo_env_def demo_config_def)

text \<open>Its hypotheses, for a nonce that is not stored.\<close>

lemma demo_facts:
  obtains nf where "normalizeAttestationFields demo_env demo_resolved = Inr nf" "nf_partnerSlug nf = ''demo''"
    "resolveAttestationCorridor demo_resolved nf demo_partner_db = Inr (demo_network, demo_asset, demo_chain)"
    "resolveSensitiveAttestationFields demo_env (getPartnerPolicy (ap_partnerId demo_partner) demo_partner_db)
       demo_attestation = Inr demo_resolved"
proof -
  obtain nf where nf: "normalizeAttestationFields demo_env demo_resolved = Inr nf" "nf_partnerSlug nf = ''demo''"
    "nf_chain nf = ''ethereum''" "nf_assetCode nf = ''usdc''" "nf_assetSymbol nf = ''USDC''" "nf_contractAddress nf = []"
    using demo_canonical by fastforce
  have net: "resolveAttestationCorridor demo_resolved nf demo_partner_db = Inr (demo_network, demo_asset, demo_chain)"
    by (rule demo_corridor [OF nf(3-6)]) (simp_all add: demo_partner_db_def)
  show ?thesis using demo_resolves by (intro that [OF nf(1,2) net]) (simp add: demo_partner_def)
qed

lemma demo_conditions:
  "ap_credentialId demo_partner = Some ''cred''" "''cred'' \<noteq> []"
  "\<bar>demo_now - demo_now\<bar> \<le> ATTESTATION_REQUEST_MAX_AGE_MS (cfg demo_env)"
  "(''cred'', ''n1'') \<notin> nonce_key ` set (requestNonces demo_partner_db)"
  "ca_attestationType demo_resolved \<noteq> AttestationType_DESTINATION_REVOCATION"
  "\<forall>x \<in> set (attestations demo_partner_db). at_partnerId x = ap_partnerId demo_partner \<longrightarrow>
     at_sequenceNumber x \<noteq> ca_sequenceNumber demo_resolved \<and> at_payloadHash x \<noteq> h"
  by (simp_all add: demo_partner_def demo_ages demo_partner_db_def empty_db_def demo_resolved_def demo_attestation_def
      CreateAttestationDto.defs ResolvedCreateAttestationDto.defs)

lemma demo_ingested:
  obtains g s' where "createAttestation demo_env demo_now demo_attestation demo_partner (Some ''n1'')
     (Some demo_timestamp) demo_partner_db = (Inr (Ingested g), s')"
proof -
  obtain nf where nf: "normalizeAttestationFields demo_env demo_resolved = Inr nf" "nf_partnerSlug nf = ''demo''"
    "resolveAttestationCorridor demo_resolved nf demo_partner_db = Inr (demo_network, demo_asset, demo_chain)"
    "resolveSensitiveAttestationFields demo_env (getPartnerPolicy (ap_partnerId demo_partner) demo_partner_db)
       demo_attestation = Inr demo_resolved" by (rule demo_facts)
  show ?thesis
    using authentic_is_ingested [OF nf(4,1) demo_authentic [OF nf(2)] demo_replay demo_conditions(1-4)
          demo_dates nf(3) demo_conditions(5,6)] that by blast
qed

theorem authentic_attestation_ingested_witness:
  "\<exists>g s' a. createAttestation demo_env demo_now demo_attestation demo_partner (Some ''n1'') (Some demo_timestamp)
     demo_partner_db = (Inr (Ingested g), s') \<and> attestations s' = [a] \<and> at_id a = ig_id g"
proof -
  obtain nf where nf: "normalizeAttestationFields demo_env demo_resolved = Inr nf" "nf_partnerSlug nf = ''demo''"
    "resolveAttestationCorridor demo_resolved nf demo_partner_db = Inr (demo_network, demo_asset, demo_chain)"
    "resolveSensitiveAttestationFields demo_env (getPartnerPolicy (ap_partnerId demo_partner) demo_partner_db)
       demo_attestation = Inr demo_resolved" by (rule demo_facts)
  have "attestations demo_partner_db = []" by (simp add: demo_partner_db_def empty_db_def)
  with authentic_attestation_ingested [OF nf(4,1) demo_authentic [OF nf(2)] demo_replay demo_conditions(1-4)
          demo_dates nf(3) demo_conditions(5,6)] show ?thesis by fastforce
qed

theorem accepted_attestation_authentic_witness:
  "\<exists>g s' nf key. createAttestation demo_env demo_now demo_attestation demo_partner (Some ''n1'') (Some demo_timestamp)
     demo_partner_db = (Inr (Ingested g), s') \<and>
   normalizeAttestationFields demo_env demo_resolved = Inr nf \<and> nf_partnerSlug nf = ''demo'' \<and>
   key \<in> set (signingKeys demo_partner_db) \<and> sk_algorithm key = ca_algorithm demo_attestation \<and>
   verifySignature demo_env SigningKeyAlgorithm_ED25519 (sk_publicKeyPem key) (nf_canonicalPayload nf)
     (ca_signature demo_attestation) = Inr True \<and>
   requestNonces demo_partner_db = [] \<and> (''cred'', ''n1'') \<in> nonce_key ` set (requestNonces s')"
proof -
  obtain nf where nf: "normalizeAttestationFields demo_env demo_resolved = Inr nf" "nf_partnerSlug nf = ''demo''"
    "resolveAttestationCorridor demo_resolved nf demo_partner_db = Inr (demo_network, demo_asset, demo_chain)"
    "resolveSensitiveAttestationFields demo_env (getPartnerPolicy (ap_partnerId demo_partner) demo_partner_db)
       demo_attestation = Inr demo_resolved" by (rule demo_facts)
  obtain g s' where c: "createAttestation demo_env demo_now demo_attestation demo_partner (Some ''n1'')
     (Some demo_timestamp) demo_partner_db = (Inr (Ingested g), s')" by (rule demo_ingested)
  have "requestNonces demo_partner_db = []" by (simp add: demo_partner_db_def empty_db_def)
  with accepted_attestation_authentic [OF c] c nf demo_replay(1) demo_conditions(1) show ?thesis by auto
qed

theorem refused_attestation_leaves_no_trace_witness:
  "\<exists>log. auditLogs (snd (createAttestation demo_env demo_now (demo_attestation\<lparr>ca_address := None\<rparr>) demo_partner
     (Some ''n1'') (Some demo_timestamp) demo_partner_db)) = [log] \<and> al_action log = ''attestation.ingest_failed''"
proof -
  have "readSensitiveInput demo_env pol (Some ''bob'') None ''Recipient identifier'' (Some 128) = Inr ''bob''" for pol
    using readSensitiveInput_plain [of "''bob''" "Some 128" demo_env pol] by (simp add: demo_spelling(1))
  moreover have "readSensitiveInput demo_env pol None None ''Address'' None = Inl (BadRequest ''Address is required.'')" for pol
    by (simp add: readSensitiveInput_def)
  ultimately have "resolveSensitiveAttestationFields demo_env pol (demo_attestation\<lparr>ca_address := None\<rparr>) =
      Inl (BadRequest ''Address is required.'')" for pol
    by (simp add: resolveSensitiveAttestationFields_def demo_attestation_def)
  then obtain s' where c: "createAttestation demo_env demo_now (demo_attestation\<lparr>ca_address := None\<rparr>) demo_partner
     (Some ''n1'') (Some demo_timestamp) demo_partner_db = (Inl (BadRequest ''Address is required.''), s')"
    by (simp add: createAttestation_def)
  have "auditLogs demo_partner_db = []" by (simp add: demo_partner_db_def empty_db_def)
  with refused_attestation_leaves_no_trace [OF c] c show ?thesis by (auto simp: refusal_log_def)
qed

theorem sequence_number_used_once_witness:
  "\<exists>g s1 st s3. createAttestation demo_env demo_now demo_attestation demo_partner (Some ''n1'') (Some demo_timestamp)
     demo_partner_db = (Inr (Ingested g), s1) \<and>
   createAttestation demo_env demo_now demo_attestation demo_partner (Some ''n2'') (Some demo_timestamp) s1 =
     (Inr (AlreadyStored (ig_id g) st (show_int 1)), s3)"
proof -
  obtain g s1 where c: "createAttestation demo_env demo_now demo_attestation demo_partner (Some ''n1'')
     (Some demo_timestamp) demo_partner_db = (Inr (Ingested g), s1)" by (rule demo_ingested)
  obtain nf where nf: "normalizeAttestationFields demo_env demo_resolved = Inr nf" "nf_partnerSlug nf = ''demo''"
    "resolveAttestationCorridor demo_resolved nf demo_partner_db = Inr (demo_network, demo_asset, demo_chain)"
    "resolveSensitiveAttestationFields demo_env (getPartnerPolicy (ap_partnerId demo_partner) demo_partner_db)
       demo_attestation = Inr demo_resolved" by (rule demo_facts)
  obtain n x v where kept: "signingKeys s1 = signingKeys demo_partner_db" "securitySettings s1 = securitySettings demo_partner_db"
    "requestNonces s1 = requestNonces demo_partner_db @ [n]" "ap_credentialId demo_partner = Some x"
    "parseRequestNonce (Some ''n1'') = Inr v" "(x, v) \<in> nonce_key ` set (requestNonces s1)"
    by (rule ingested_keeps [OF c])
  have "requestNonces demo_partner_db = []" by (simp add: demo_partner_db_def empty_db_def)
  then have "nonce_key n = (''cred'', ''n1'')" using kept(3-6) demo_replay(1) demo_conditions(1) by auto
  then have fresh: "(''cred'', ''n2'') \<notin> nonce_key ` set (requestNonces s1)"
    using kept(3) \<open>requestNonces demo_partner_db = []\<close> by simp
  have auth: "authenticate_attestation demo_env demo_now demo_partner demo_resolved nf s1 = Inr demo_key"
    using demo_authentic [OF nf(2)] authenticate_cong [OF kept(1)] by simp
  have n2: "parseRequestNonce (Some ''n2'') = Inr ''n2''" by code_simp
  obtain st s3 where again: "createAttestation demo_env demo_now demo_attestation demo_partner (Some ''n2'')
      (Some demo_timestamp) s1 = (Inr (AlreadyStored (ig_id g) st (show_int (ca_sequenceNumber demo_attestation))), s3)"
    using resubmission_answered [OF c _ kept(2) nf(4,1) auth n2 demo_replay(2) demo_conditions(1-3) fresh, of "[]"] by auto
  have "ca_sequenceNumber demo_attestation = 1" by (simp add: demo_attestation_def)
  with sequence_number_used_once [OF c _ refl refl again, of "[]"] c again show ?thesis by auto
qed

end
