(* ===== verification/Directory.thy ===== *)
theory Directory
  imports Attestation_Facts
begin

text \<open>
  The directory the network keeps for its partners: for each recipient and asset network at most one
  address that attestations have made payable.  This theory states it abstractly, as a map with three
  operations, and proves that the destinations table implements it under every operation of
  \<open>DestinationsService\<close> and \<open>AttestationsService\<close>.
\<close>

section \<open>The abstract directory\<close>

record payout =
  po_destinationId :: ident
  po_address :: string
  po_addressNormalized :: string
  po_memo :: string
  po_from :: time
  po_until :: "time option"

type_synonym slot = "ident \<times> ident"  \<comment> \<open>a recipient and an asset network\<close>

type_synonym directory = "slot \<Rightarrow> payout option"

text \<open>
  An attestation makes an address payable in its slot, in the place of any other; an attested
  revocation withdraws the address it names; a partner takes a destination out of service.
\<close>

datatype directory_op =
    Publish slot payout
  | Withdraw slot string string
  | Remove ident
  | Keep

fun apply_op :: "directory_op \<Rightarrow> directory \<Rightarrow> directory" where
  "apply_op (Publish k po) D = D(k \<mapsto> po)"
| "apply_op (Withdraw k address memo) D =
     (case D k of
        None \<Rightarrow> D
      | Some po \<Rightarrow> if po_addressNormalized po = address \<and> po_memo po = memo then D(k := None) else D)"
| "apply_op (Remove i) D =
     (\<lambda>k. case D k of None \<Rightarrow> None | Some po \<Rightarrow> if po_destinationId po = i then None else Some po)"
| "apply_op Keep D = D"

section \<open>The directory in the database\<close>

definition slot_of :: "RecipientDestination \<Rightarrow> slot" where
  "slot_of d = (de_recipientId d, de_assetNetworkId d)"

definition active :: "RecipientDestination \<Rightarrow> bool" where
  "active d \<longleftrightarrow> de_status d = DestinationStatus_ACTIVE"

definition payout_of :: "RecipientDestination \<Rightarrow> payout" where
  "payout_of d =
     \<lparr>po_destinationId = de_id d, po_address = de_addressRaw d, po_addressNormalized = de_addressNormalized d,
      po_memo = de_memoValue d, po_from = de_effectiveFrom d, po_until = de_expiresAt d\<rparr>"

definition directory_rows :: "RecipientDestination list \<Rightarrow> directory" where
  "directory_rows ds k = map_option payout_of (List.find (\<lambda>d. slot_of d = k \<and> active d) ds)"

definition directory_of :: "db \<Rightarrow> directory" where
  "directory_of s = directory_rows (destinations s)"

text \<open>The invariant of the table: unique ids and keys, and one attested active row per slot.\<close>

definition rows_ok :: "RecipientDestination list \<Rightarrow> bool" where
  "rows_ok ds \<longleftrightarrow>
     distinct (map de_id ds) \<and> distinct (map destination_key ds) \<and>
     (\<forall>d \<in> set ds. \<forall>e \<in> set ds. active d \<and> active e \<and> slot_of d = slot_of e \<longrightarrow> d = e) \<and>
     (\<forall>d \<in> set ds. active d \<longrightarrow> de_lastAttestedAt d \<noteq> None \<and> de_revokedAt d = None) \<and>
     (\<forall>d \<in> set ds. de_status d = DestinationStatus_REVOKED \<longrightarrow> de_revokedAt d \<noteq> None \<and> \<not> de_isDefault d)"

definition destinations_ok :: "env \<Rightarrow> db \<Rightarrow> bool" where
  "destinations_ok E s \<longleftrightarrow> rows_ok (destinations s) \<and> drawn E (nextId s) (map de_id (destinations s))"

lemma rows_okD:
  assumes "rows_ok ds" "d \<in> set ds" "e \<in> set ds"
  shows "de_id d = de_id e \<Longrightarrow> d = e" "destination_key d = destination_key e \<Longrightarrow> d = e"
    "active d \<Longrightarrow> active e \<Longrightarrow> slot_of d = slot_of e \<Longrightarrow> d = e"
    "active d \<Longrightarrow> de_lastAttestedAt d \<noteq> None \<and> de_revokedAt d = None"
    "de_status d = DestinationStatus_REVOKED \<Longrightarrow> de_revokedAt d \<noteq> None \<and> \<not> de_isDefault d"
  using assms by (auto simp: rows_ok_def distinct_map inj_on_def)

lemma directory_rows_iff:
  assumes "rows_ok ds"
  shows "directory_rows ds k = Some po \<longleftrightarrow> (\<exists>d \<in> set ds. slot_of d = k \<and> active d \<and> payout_of d = po)"
proof
  assume "directory_rows ds k = Some po"
  then show "\<exists>d \<in> set ds. slot_of d = k \<and> active d \<and> payout_of d = po"
    by (auto simp: directory_rows_def dest!: find_SomeD)
next
  assume "\<exists>d \<in> set ds. slot_of d = k \<and> active d \<and> payout_of d = po"
  then obtain d where d: "d \<in> set ds" "slot_of d = k" "active d" "payout_of d = po" by blast
  have "List.find (\<lambda>d. slot_of d = k \<and> active d) ds = Some d"
    by (rule find_unique) (use d rows_okD(3) [OF assms] in auto)
  with d(4) show "directory_rows ds k = Some po" by (simp add: directory_rows_def)
qed

lemma directory_eqI:
  fixes D D' :: directory
  assumes "\<And>k po. D k = Some po \<longleftrightarrow> D' k = Some po"
  shows "D = D'"
proof
  fix k show "D k = D' k" using assms [of k] by (cases "D' k"; cases "D k") auto
qed


section \<open>Rewriting rows\<close>

lemma slot_key: "slot_of d = (fst (destination_key d), fst (snd (destination_key d)))"
  by (simp add: slot_of_def destination_key_def)

definition attested_row :: "RecipientDestination \<Rightarrow> bool" where
  "attested_row d \<longleftrightarrow>
     (active d \<longrightarrow> de_lastAttestedAt d \<noteq> None \<and> de_revokedAt d = None) \<and>
     (de_status d = DestinationStatus_REVOKED \<longrightarrow> de_revokedAt d \<noteq> None \<and> \<not> de_isDefault d)"

lemma rows_ok_alt:
  "rows_ok ds \<longleftrightarrow> distinct (map de_id ds) \<and> distinct (map destination_key ds) \<and>
     (\<forall>d \<in> set ds. \<forall>e \<in> set ds. active d \<and> active e \<and> slot_of d = slot_of e \<longrightarrow> d = e) \<and>
     (\<forall>d \<in> set ds. attested_row d)"
  unfolding rows_ok_def attested_row_def by blast

lemma rows_ok_map:
  assumes "rows_ok ds"
    and same: "\<And>d. de_id (f d) = de_id d" "\<And>d. destination_key (f d) = destination_key d"
    and att: "\<And>d. d \<in> set ds \<Longrightarrow> attested_row d \<Longrightarrow> attested_row (f d)"
    and one: "\<And>d e. \<lbrakk>d \<in> set ds; e \<in> set ds; active (f d); active (f e); slot_of d = slot_of e\<rbrakk> \<Longrightarrow> d = e"
  shows "rows_ok (map f ds)"
proof -
  have slots: "slot_of (f d) = slot_of d" for d by (simp add: slot_key same)
  show ?thesis
    using assms(1) att one unfolding rows_ok_alt by (auto simp: comp_def same slots)
qed

lemma rows_ok_deactivate:
  assumes "rows_ok ds"
    and "\<And>d. de_id (f d) = de_id d" "\<And>d. destination_key (f d) = destination_key d"
    and "\<And>d. attested_row d \<Longrightarrow> attested_row (f d)" "\<And>d. active (f d) \<Longrightarrow> active d"
  shows "rows_ok (update_where P f ds)"
  unfolding update_where_def
  by (rule rows_ok_map [OF assms(1)]) (use assms rows_okD(3) [OF assms(1)] in \<open>auto split: if_splits\<close>)

lemma rows_ok_append:
  assumes "rows_ok ds" "de_id d \<notin> de_id ` set ds" "destination_key d \<notin> destination_key ` set ds"
    "attested_row d" "active d \<Longrightarrow> \<forall>e \<in> set ds. active e \<longrightarrow> slot_of e \<noteq> slot_of d"
  shows "rows_ok (ds @ [d])"
  using assms unfolding rows_ok_alt by auto

text \<open>The directory after rows are rewritten without touching what it shows, or taken out of service.\<close>

lemma directory_rows_same:
  assumes "\<And>d. d \<in> set ds \<Longrightarrow> P d \<Longrightarrow> slot_of (f d) = slot_of d \<and> active (f d) = active d \<and> payout_of (f d) = payout_of d"
  shows "directory_rows (update_where P f ds) = directory_rows ds"
proof
  fix k show "directory_rows (update_where P f ds) k = directory_rows ds k"
    using assms by (induction ds) (auto simp: directory_rows_def)
qed

lemma directory_rows_inactive:
  "\<not> active d \<Longrightarrow> directory_rows (ds @ [d]) = directory_rows ds"
  by (rule ext) (auto simp: directory_rows_def find_append split: option.splits)

lemma directory_rows_retire:
  assumes "rows_ok ds" "rows_ok (update_where P f ds)"
    and "\<And>d. d \<in> set ds \<Longrightarrow> P d \<Longrightarrow> \<not> active (f d)"
  shows "directory_rows (update_where P f ds) k = Some po \<longleftrightarrow>
     (\<exists>d \<in> set ds. slot_of d = k \<and> active d \<and> \<not> P d \<and> payout_of d = po)"
  unfolding directory_rows_iff [OF assms(2)] set_update_where using assms(3) by auto

lemma payout_id [simp]: "po_destinationId (payout_of d) = de_id d"
    "po_addressNormalized (payout_of d) = de_addressNormalized d" "po_memo (payout_of d) = de_memoValue d"
  by (simp_all add: payout_of_def)

lemma apply_remove: "apply_op (Remove i) D k = Some po \<longleftrightarrow> D k = Some po \<and> po_destinationId po \<noteq> i"
  by (auto split: option.splits)

lemma apply_withdraw:
  "apply_op (Withdraw k' a m) D k = Some po \<longleftrightarrow>
     D k = Some po \<and> \<not> (k = k' \<and> po_addressNormalized po = a \<and> po_memo po = m)"
  by (auto split: option.splits)

lemma remove_iff:
  assumes "rows_ok ds"
  shows "apply_op (Remove i) (directory_rows ds) k = Some po \<longleftrightarrow>
     (\<exists>d \<in> set ds. slot_of d = k \<and> active d \<and> de_id d \<noteq> i \<and> payout_of d = po)"
  unfolding apply_remove directory_rows_iff [OF assms] by auto

text \<open>Taking the row with id \<open>i\<close> out of service.\<close>

lemma revoke_simps [simp]:
  "de_id (revoke now d) = de_id d" "destination_key (revoke now d) = destination_key d"
  "\<not> active (revoke now d)" "attested_row (revoke now d)"
  by (simp_all add: revoke_def destination_key_def active_def attested_row_def)

lemma revoke_rows:
  assumes "rows_ok ds"
  shows "rows_ok (update_where (\<lambda>d. de_id d = i) (revoke now) ds)"
    and "directory_rows (update_where (\<lambda>d. de_id d = i) (revoke now) ds) = apply_op (Remove i) (directory_rows ds)"
proof -
  show ok: "rows_ok (update_where (\<lambda>d. de_id d = i) (revoke now) ds)"
    by (rule rows_ok_deactivate [OF assms]) auto
  show "directory_rows (update_where (\<lambda>d. de_id d = i) (revoke now) ds) = apply_op (Remove i) (directory_rows ds)"
    by (rule directory_eqI) (auto simp: directory_rows_retire [OF assms ok] remove_iff [OF assms] simp del: apply_op.simps)
qed


section \<open>What the operations do to the table\<close>

lemma clear_default_same:
  assumes "rows_ok ds"
  shows "rows_ok (clear_default now r n ds)" "directory_rows (clear_default now r n ds) = directory_rows ds"
    "map de_id (clear_default now r n ds) = map de_id ds"
    "map destination_key (clear_default now r n ds) = map destination_key ds"
proof -
  show "rows_ok (clear_default now r n ds)" unfolding clear_default_def
    by (rule rows_ok_deactivate [OF assms]) (auto simp: destination_key_def attested_row_def active_def)
  show "directory_rows (clear_default now r n ds) = directory_rows ds" unfolding clear_default_def
    by (rule directory_rows_same) (simp add: slot_of_def active_def payout_of_def)
  show "map de_id (clear_default now r n ds) = map de_id ds"
    "map destination_key (clear_default now r n ds) = map destination_key ds"
    unfolding clear_default_def by (rule map_update_where, simp add: destination_key_def)+
qed

lemma insert_destination_effect:
  assumes ok: "destinations_ok E s" and inj: "inj (cuid E)"
    and c: "insert_destination E now p dto s = (r, s')"
  shows "destinations_ok E s' \<and> directory_of s' = directory_of s"
proof (cases r)
  case (Inl e)
  then have "s' = s"
    using c by (auto simp: insert_destination_def Let_def fresh_def split: sum.splits prod.splits option.splits if_splits)
  with ok show ?thesis by simp
next
  case (Inr i)
  note c' = c [unfolded insert_destination_def Inr]
  obtain n a ch where f: "findAssetNetwork (nd_chain dto) (nd_asset dto) s = Inr (n, a, ch)"
    using c' by (auto split: sum.splits)
  obtain recipient where
    r: "List.find (\<lambda>r. rc_id r = js_trim (nd_recipientId dto) \<and> rc_partnerId r = p) (recipients s) = Some recipient"
    using c' by (auto simp: f split: option.splits)
  obtain addr where a: "normalizeAddress (ch_slug ch) (nd_address dto) = Inr addr"
    using c' by (auto simp: f r split: sum.splits)
  obtain since where t: "date_or E (nd_effectiveFrom dto) now id = Inr since"
    using c' by (auto simp: f r a split: sum.splits)
  obtain till where u: "date_or E (nd_expiresAt dto) None Some = Inr till"
    using c' by (auto simp: f r a t split: sum.splits)
  define ds where ds: "ds = (if nd_isDefault dto = Some True
    then clear_default now (rc_id recipient) (an_id n) (destinations s) else destinations s)"
  have new: "List.find (same_destination E (rc_id recipient) (an_id n) addr
      (or_else (map_option js_trim (nd_memoValue dto)) [])) (destinations s) = None"
    using c' by (auto simp: f r a t u Let_def split: if_splits)
  have s': "s' = s\<lparr>nextId := Suc (Suc (nextId s)), destinations := ds @
      [pending_destination E now (nextId s) (rc_id recipient) (an_id n) dto addr since till (cuid E (Suc (nextId s)))]\<rparr>"
    using c' by (auto simp: f r a t u new fresh_def ds Let_def split: if_splits)
  let ?d = "pending_destination E now (nextId s) (rc_id recipient) (an_id n) dto addr since till (cuid E (Suc (nextId s)))"
  have d: "de_id ?d = cuid E (Suc (nextId s))" "\<not> active ?d" "attested_row ?d"
    "destination_key ?d = (rc_id recipient, an_id n, addr, or_else (map_option js_trim (nd_memoValue dto)) [])"
    by (simp_all add: pending_destination_def active_def attested_row_def destination_key_def)
  have rows: "rows_ok (destinations s)" and drawn: "drawn E (nextId s) (map de_id (destinations s))"
    using ok by (auto simp: destinations_ok_def)
  have same: "rows_ok ds" "directory_rows ds = directory_rows (destinations s)"
    "map de_id ds = map de_id (destinations s)" "map destination_key ds = map destination_key (destinations s)"
    using clear_default_same [OF rows] rows by (auto simp: ds)
  have "cuid E (Suc (nextId s)) \<notin> set (map de_id (destinations s))"
    by (rule drawn_fresh [OF drawn inj]) simp
  then have id: "de_id ?d \<notin> de_id ` set ds" using same(3) d(1) by (metis list.set_map)
  have key: "destination_key ?d \<notin> destination_key ` set ds"
  proof -
    have "destination_key ?d \<notin> set (map destination_key (destinations s))"
      using new by (auto simp: find_None_iff same_destination_def destination_key_def pending_destination_def)
    then show ?thesis using same(4) by (metis list.set_map)
  qed
  have "rows_ok (ds @ [?d])" by (rule rows_ok_append [OF same(1) id key d(3)]) (use d(2) in simp)
  moreover have "drawn E (Suc (Suc (nextId s))) (map de_id (ds @ [?d]))"
    using drawn_mono [OF drawn] d(1) by (auto simp: same(3))
  ultimately show ?thesis
    using same(2) directory_rows_inactive [OF d(2), of ds] by (simp add: destinations_ok_def directory_of_def s')
qed

lemma create_effect:
  assumes "destinations_ok E s" "inj (cuid E)"
  shows "destinations_ok E (snd (createPartnerDestination E now p dto s)) \<and>
         directory_of (snd (createPartnerDestination E now p dto s)) = directory_of s"
proof -
  obtain r s' where c: "insert_destination E now p dto s = (r, s')" by force
  then have "snd (createPartnerDestination E now p dto s) = s'"
    by (simp add: createPartnerDestination_def reload_def split: sum.splits option.splits)
  with insert_destination_effect [OF assms c] show ?thesis by simp
qed

lemma revoke_effect:
  assumes "destinations_ok E s"
  shows "destinations_ok E (update_destination i (revoke now) s) \<and>
         directory_of (update_destination i (revoke now) s) = apply_op (Remove i) (directory_of s)"
  using revoke_rows [of "destinations s" i now] assms
  by (auto simp: destinations_ok_def directory_of_def update_destination_def map_update_where simp del: apply_op.simps)


section \<open>What attestations do to the table\<close>

interpretation destination_upsert: keyed_upsert destination_key "(r, n, a, m)" "attested_by now ti raw c b"
    "attested_destination now i r n a m ti raw c b"
  for r n a m now ti raw c b i
  by unfold_locales (simp_all add: destination_key_def attested_by_def attested_destination_def)

definition others :: "ident \<Rightarrow> ident \<Rightarrow> string \<Rightarrow> string \<Rightarrow> RecipientDestination \<Rightarrow> bool" where
  "others r n a m d \<longleftrightarrow> de_recipientId d = r \<and> de_assetNetworkId d = n \<and> de_status d = DestinationStatus_ACTIVE \<and>
     \<not> (de_addressNormalized d = a \<and> de_memoValue d = m)"

definition attested_payout ::
    "AttestationTiming \<Rightarrow> string \<Rightarrow> string \<Rightarrow> string \<Rightarrow> ident \<Rightarrow> payout" where
  "attested_payout ti raw a m i =
     \<lparr>po_destinationId = i, po_address = raw, po_addressNormalized = a, po_memo = m,
      po_from = ti_effectiveFrom ti, po_until = ti_expiresAt ti\<rparr>"

lemma superseded_simps [simp]:
  "de_id (superseded_by now ti d) = de_id d" "destination_key (superseded_by now ti d) = destination_key d"
  "\<not> active (superseded_by now ti d)" "attested_row (superseded_by now ti d)"
  by (simp_all add: superseded_by_def destination_key_def active_def attested_row_def)

lemma attested_simps [simp]:
  "de_id (attested_by now ti raw c b d) = de_id d"
  "destination_key (attested_by now ti raw c b d) = destination_key d"
  "active (attested_by now ti raw c b d)" "attested_row (attested_by now ti raw c b d)"
  by (simp_all add: attested_by_def destination_key_def active_def attested_row_def)

lemma attested_new_simps [simp]:
  "de_id (attested_destination now i r n a m ti raw c b) = i"
  "destination_key (attested_destination now i r n a m ti raw c b) = (r, n, a, m)"
  "active (attested_destination now i r n a m ti raw c b)"
  "attested_row (attested_destination now i r n a m ti raw c b)"
  "payout_of (attested_destination now i r n a m ti raw c b) = attested_payout ti raw a m i"
  by (simp_all add: attested_destination_def destination_key_def active_def attested_row_def payout_of_def
      attested_payout_def)

lemma payout_attested_by:
  "destination_key d = (r, n, a, m) \<Longrightarrow>
     payout_of (attested_by now ti raw c b d) = attested_payout ti raw a m (de_id d)"
  by (simp add: attested_by_def destination_key_def payout_of_def attested_payout_def)

lemma superseded_rows:
  assumes "rows_ok ds" and "ds1 = update_where (others r n a m) (superseded_by now ti) ds"
  shows "rows_ok ds1" "map de_id ds1 = map de_id ds"
    "\<lbrakk>d \<in> set ds1; active d; slot_of d = (r, n)\<rbrakk> \<Longrightarrow> destination_key d = (r, n, a, m)"
    "slot_of d \<noteq> (r, n) \<Longrightarrow> d \<in> set ds1 \<longleftrightarrow> d \<in> set ds"
proof -
  show "rows_ok ds1" unfolding assms(2) by (rule rows_ok_deactivate [OF assms(1)]) auto
  show "map de_id ds1 = map de_id ds" unfolding assms(2) by (rule map_update_where) simp
  show "destination_key d = (r, n, a, m)" if "d \<in> set ds1" "active d" "slot_of d = (r, n)"
    using that(1) unfolding assms(2)
  proof (rule in_update_whereE)
    fix q assume "d = superseded_by now ti q"
    with that(2) show ?thesis by simp
  next
    assume "d \<in> set ds" "\<not> others r n a m d"
    with that(2,3) show ?thesis by (simp add: others_def slot_of_def destination_key_def active_def)
  qed
  have "slot_of (superseded_by now ti q) = slot_of q" for q by (simp add: slot_key)
  then show "d \<in> set ds1 \<longleftrightarrow> d \<in> set ds" if "slot_of d \<noteq> (r, n)"
    using that unfolding assms(2) set_update_where by (auto simp: others_def slot_of_def)
qed

lemma attested_rows_ok:
  assumes ok: "rows_ok ds" and new_id: "i \<notin> de_id ` set ds"
    and ds1: "ds1 = update_where (others r n a m) (superseded_by now ti) ds"
  shows "rows_ok (destination_upsert.put r n a m now ti raw c b i ds1)"
proof -
  note s1 = superseded_rows [OF ok ds1]
  let ?same = "\<lambda>d. destination_key d = (r, n, a, m)"
  let ?new = "attested_destination now i r n a m ti raw c b"
  have slot: "destination_key d = (r, n, a, m) \<Longrightarrow> slot_of d = (r, n)" for d by (simp add: slot_key)
  show ?thesis
  proof (cases "List.find ?same ds1")
    case None
    have "rows_ok (ds1 @ [?new])"
    proof (rule rows_ok_append [OF s1(1)])
      show "de_id ?new \<notin> de_id ` set ds1" using new_id s1(2) by (metis attested_new_simps(1) list.set_map)
    qed (use None s1(3) in \<open>auto simp: find_None_iff slot\<close>)
    with None show ?thesis by (simp add: destination_upsert.put_def upsert_by_def)
  next
    case (Some q)
    have "rows_ok (update_where ?same (attested_by now ti raw c b) ds1)"
      unfolding update_where_def
    proof (rule rows_ok_map [OF s1(1)])
      fix d e assume "d \<in> set ds1" "e \<in> set ds1" "slot_of d = slot_of e"
        "active (if ?same d then attested_by now ti raw c b d else d)"
        "active (if ?same e then attested_by now ti raw c b e else e)"
      note de = this
      show "d = e"
      proof (cases "?same d \<or> ?same e")
        case True
        with de(3) have "slot_of d = (r, n)" "slot_of e = (r, n)" using slot by auto
        then have "?same d" "?same e" using de s1(3) by (auto split: if_splits)
        with rows_okD(2) [OF s1(1) de(1,2)] show ?thesis by simp
      next
        case False
        with de rows_okD(3) [OF s1(1) de(1,2)] show ?thesis by simp
      qed
    qed auto
    with Some show ?thesis by (simp add: destination_upsert.put_def upsert_by_def)
  qed
qed

lemma attested_directory:
  assumes ok: "rows_ok ds" and new_id: "i \<notin> de_id ` set ds"
    and ds1: "ds1 = update_where (others r n a m) (superseded_by now ti) ds"
    and rows: "rows = destination_upsert.put r n a m now ti raw c b i ds1"
    and q: "q = upserted (\<lambda>d. destination_key d = (r, n, a, m)) (attested_destination now i r n a m ti raw c b) rows"
  shows "directory_rows rows = (directory_rows ds)((r, n) \<mapsto> attested_payout ti raw a m (de_id q))"
    and "q \<in> set rows" "de_addressRaw q = raw" "payout_of q = attested_payout ti raw a m (de_id q)"
proof -
  note s1 = superseded_rows [OF ok ds1]
  have rows_ok: "rows_ok rows" unfolding rows by (rule attested_rows_ok [OF ok new_id ds1])
  have found: "List.find (\<lambda>d. destination_key d = (r, n, a, m)) rows = Some q"
    using destination_upsert.put_find by (simp add: q upserted_def rows)
  then have q_in: "q \<in> set rows" and key: "destination_key q = (r, n, a, m)" by (auto dest!: find_SomeD)
  have q_cases: "q = attested_destination now i r n a m ti raw c b \<or>
      (\<exists>d. destination_key d = (r, n, a, m) \<and> q = attested_by now ti raw c b d)"
    using found destination_upsert.put_find [of r n a m now ti raw c b i ds1] unfolding rows
    by (auto split: option.splits dest!: find_SomeD)
  have act: "active q" and pay: "payout_of q = attested_payout ti raw a m (de_id q)" and slot: "slot_of q = (r, n)"
    using q_cases key by (auto simp: payout_attested_by slot_key)
  have here: "d = q" if "d \<in> set rows" "active d" "slot_of d = (r, n)" for d
    using rows_okD(3) [OF rows_ok that(1) q_in that(2) act] slot that(3) by simp
  have other: "d \<in> set rows \<longleftrightarrow> d \<in> set ds" if "slot_of d \<noteq> (r, n)" for d
  proof -
    have "destination_key d \<noteq> (r, n, a, m)" using that by (auto simp: slot_key)
    then show ?thesis using destination_upsert.put_other s1(4) [OF that] by (simp add: rows)
  qed
  show "directory_rows rows = (directory_rows ds)((r, n) \<mapsto> attested_payout ti raw a m (de_id q))"
  proof (rule directory_eqI)
    fix k po
    have "(\<exists>d \<in> set rows. slot_of d = k \<and> active d \<and> payout_of d = po) \<longleftrightarrow>
        (if k = (r, n) then po = payout_of q else (\<exists>d \<in> set ds. slot_of d = k \<and> active d \<and> payout_of d = po))"
    proof (cases "k = (r, n)")
      case True
      have "(\<exists>d \<in> set rows. slot_of d = (r, n) \<and> active d \<and> payout_of d = po) \<longleftrightarrow> po = payout_of q"
      proof
        assume "\<exists>d \<in> set rows. slot_of d = (r, n) \<and> active d \<and> payout_of d = po"
        then obtain d where "d \<in> set rows" "slot_of d = (r, n)" "active d" "payout_of d = po" by blast
        with here [of d] show "po = payout_of q" by simp
      next
        assume "po = payout_of q"
        with q_in act slot show "\<exists>d \<in> set rows. slot_of d = (r, n) \<and> active d \<and> payout_of d = po"
          by (intro bexI [of _ q]) simp_all
      qed
      with True show ?thesis by simp
    next
      case False
      then have "d \<in> set rows \<and> slot_of d = k \<longleftrightarrow> d \<in> set ds \<and> slot_of d = k" for d
        using other [of d] by metis
      then show ?thesis using False unfolding Bex_def by (simp only: if_False) metis
    qed
    then show "directory_rows rows k = Some po \<longleftrightarrow>
        ((directory_rows ds)((r, n) \<mapsto> attested_payout ti raw a m (de_id q))) k = Some po"
      unfolding directory_rows_iff [OF rows_ok] pay fun_upd_apply directory_rows_iff [OF ok, symmetric]
      by (cases "k = (r, n)") (simp_all add: eq_commute [of po])
  qed
  show "q \<in> set rows" "payout_of q = attested_payout ti raw a m (de_id q)" using q_in pay by auto
  from q_cases show "de_addressRaw q = raw" by (auto simp: attested_destination_def attested_by_def)
qed


lemma revoked_simps [simp]:
  "de_id (revoked_by now ti d) = de_id d" "destination_key (revoked_by now ti d) = destination_key d"
  "\<not> active (revoked_by now ti d)" "attested_row (revoked_by now ti d)"
  by (simp_all add: revoked_by_def destination_key_def active_def attested_row_def)

lemma withdrawn_rows:
  assumes ok: "rows_ok ds" and q: "q \<in> set ds" "destination_key q = (r, n, a, m)"
  shows "rows_ok (update_where (\<lambda>d. de_id d = de_id q) (revoked_by now ti) ds)"
    and "directory_rows (update_where (\<lambda>d. de_id d = de_id q) (revoked_by now ti) ds) =
           apply_op (Withdraw (r, n) a m) (directory_rows ds)"
proof -
  show ok': "rows_ok (update_where (\<lambda>d. de_id d = de_id q) (revoked_by now ti) ds)"
    by (rule rows_ok_deactivate [OF ok]) auto
  have same: "de_id d = de_id q \<longleftrightarrow> slot_of d = (r, n) \<and> de_addressNormalized d = a \<and> de_memoValue d = m"
    if "d \<in> set ds" for d
    using rows_okD(1,2) [OF ok that q(1)] q(2) by (auto simp: slot_of_def destination_key_def)
  show "directory_rows (update_where (\<lambda>d. de_id d = de_id q) (revoked_by now ti) ds) =
           apply_op (Withdraw (r, n) a m) (directory_rows ds)"
  proof (rule directory_eqI)
    fix k po
    have "directory_rows (update_where (\<lambda>d. de_id d = de_id q) (revoked_by now ti) ds) k = Some po \<longleftrightarrow>
        (\<exists>d \<in> set ds. slot_of d = k \<and> active d \<and> de_id d \<noteq> de_id q \<and> payout_of d = po)"
      by (rule directory_rows_retire [OF ok ok']) simp
    also have "\<dots> \<longleftrightarrow> (\<exists>d \<in> set ds. slot_of d = k \<and> active d \<and> payout_of d = po) \<and>
        \<not> (k = (r, n) \<and> po_addressNormalized po = a \<and> po_memo po = m)"
      using same by (metis payout_id(2,3))
    also have "\<dots> \<longleftrightarrow> apply_op (Withdraw (r, n) a m) (directory_rows ds) k = Some po"
      unfolding apply_withdraw directory_rows_iff [OF ok] ..
    finally show "directory_rows (update_where (\<lambda>d. de_id d = de_id q) (revoked_by now ti) ds) k = Some po \<longleftrightarrow>
        apply_op (Withdraw (r, n) a m) (directory_rows ds) k = Some po" .
  qed
qed

text \<open>The operation a stored attestation stands for.\<close>

definition attestation_op :: "Attestation \<Rightarrow> directory_op" where
  "attestation_op a =
     (let k = (at_recipientId a, or_else (at_assetNetworkId a) []); address = or_else (at_addressNormalized a) [] in
      if at_attestationType a = AttestationType_DESTINATION_REVOCATION then Withdraw k address (at_memoValue a)
      else Publish k
        \<lparr>po_destinationId = or_else (at_destinationId a) [], po_address = or_else (at_addressRaw a) [],
         po_addressNormalized = address, po_memo = at_memoValue a, po_from = at_effectiveFrom a,
         po_until = at_expiresAt a\<rparr>)"

lemma applyDestination_effect:
  assumes ok: "destinations_ok E s" and inj: "inj (cuid E)"
    and d: "applyDestinationAttestation E now dto n r nf ti s = (Inr q, s')"
  shows "destinations_ok E s'"
    and "directory_of s' = apply_op
      (if ca_attestationType dto = AttestationType_DESTINATION_REVOCATION then Withdraw (r, n) (nf_address nf) (nf_memo nf)
       else Publish (r, n) (attested_payout ti (ra_address dto) (nf_address nf) (nf_memo nf) (de_id q)))
      (directory_of s)"
proof -
  have rows: "rows_ok (destinations s)" and drawn: "drawn E (nextId s) (map de_id (destinations s))"
    using ok by (auto simp: destinations_ok_def)
  have "destinations_ok E s' \<and> directory_of s' = apply_op
      (if ca_attestationType dto = AttestationType_DESTINATION_REVOCATION then Withdraw (r, n) (nf_address nf) (nf_memo nf)
       else Publish (r, n) (attested_payout ti (ra_address dto) (nf_address nf) (nf_memo nf) (de_id q)))
      (directory_of s)"
  proof (cases "ca_attestationType dto = AttestationType_DESTINATION_REVOCATION")
    case True
    then obtain x where x: "List.find (\<lambda>d. destination_key d = (r, n, nf_address nf, nf_memo nf)) (destinations s) = Some x"
      and s': "s' = update_destination (de_id x) (revoked_by now ti) s"
      using d by (auto simp: applyDestinationAttestation_def Let_def split: option.splits)
    have "x \<in> set (destinations s)" "destination_key x = (r, n, nf_address nf, nf_memo nf)"
      using find_SomeD [OF x] by auto
    from withdrawn_rows [OF rows this] True drawn show ?thesis
      by (simp add: s' update_destination_def destinations_ok_def directory_of_def map_update_where del: apply_op.simps)
  next
    case False
    let ?i = "cuid E (Suc (nextId s))"
    let ?c = "sealOptionalString E (nextId s) (Some (ra_address dto))" and ?b = "blindIndexOf E (nf_address nf)"
    define ds1 where "ds1 = update_where (others r n (nf_address nf) (nf_memo nf)) (superseded_by now ti) (destinations s)"
    define rs where "rs = destination_upsert.put r n (nf_address nf) (nf_memo nf) now ti (ra_address dto) ?c ?b ?i ds1"
    have s': "s' = s\<lparr>nextId := Suc (Suc (nextId s)), destinations := rs\<rparr>" and
      q: "q = upserted (\<lambda>d. destination_key d = (r, n, nf_address nf, nf_memo nf))
        (attested_destination now ?i r n (nf_address nf) (nf_memo nf) ti (ra_address dto) ?c ?b) rs"
      using d False
      by (auto simp: applyDestinationAttestation_def fresh_def Let_def rs_def ds1_def destination_upsert.put_def
          others_def [abs_def])
    have new: "?i \<notin> de_id ` set (destinations s)"
      using drawn_fresh [OF drawn inj, of "Suc (nextId s)"] by simp
    have "map de_id rs = map de_id ds1 \<or> map de_id rs = map de_id ds1 @ [?i]"
      by (cases "List.find (\<lambda>d. destination_key d = (r, n, nf_address nf, nf_memo nf)) ds1")
        (simp_all add: rs_def destination_upsert.put_def upsert_by_def map_update_where)
    then have ids: "set (map de_id rs) \<subseteq> insert ?i (set (map de_id (destinations s)))"
      unfolding superseded_rows(2) [OF rows ds1_def] by (elim disjE) (simp_all add: subset_insertI)
    have "drawn E (Suc (Suc (nextId s))) (map de_id (destinations s))" by (rule drawn_mono [OF drawn]) simp
    then have drawn': "drawn E (Suc (Suc (nextId s))) (map de_id rs)"
      using ids by (auto simp: drawn_def)
    have "rows_ok rs" unfolding rs_def by (rule attested_rows_ok [OF rows new ds1_def])
    moreover note attested_directory(1) [OF rows new ds1_def rs_def q]
    ultimately show ?thesis using drawn' False by (simp add: destinations_ok_def directory_of_def s')
  qed
  then show "destinations_ok E s'" "directory_of s' = apply_op
      (if ca_attestationType dto = AttestationType_DESTINATION_REVOCATION then Withdraw (r, n) (nf_address nf) (nf_memo nf)
       else Publish (r, n) (attested_payout ti (ra_address dto) (nf_address nf) (nf_memo nf) (de_id q)))
      (directory_of s)" by auto
qed


section \<open>Every operation as a step of the directory\<close>

lemma directory_kept:
  assumes "destinations_ok E s" "destinations s' = destinations s" "nextId s \<le> nextId s'"
  shows "destinations_ok E s' \<and> directory_of s' = apply_op Keep (directory_of s)"
  using assms by (auto simp: destinations_ok_def directory_of_def intro: drawn_mono)

lemma attestation_op_new:
  "attestation_op (new_attestation now i p key dto nf ti recipient idrow n d) =
     (if ca_attestationType dto = AttestationType_DESTINATION_REVOCATION
      then Withdraw (rc_id recipient, n) (nf_address nf) (nf_memo nf)
      else Publish (rc_id recipient, n) (attested_payout ti (ra_address dto) (nf_address nf) (nf_memo nf) (de_id d)))"
  by (simp add: attestation_op_def new_attestation_def attested_payout_def)

lemma ingest_effect:
  assumes ok: "destinations_ok E s" and inj: "inj (cuid E)"
    and i: "ingest E now p key dto nf ti s = (Inr g, s')"
  shows "destinations_ok E s' \<and> directory_of s' = apply_op (attestation_op (last (attestations s'))) (directory_of s)"
proof -
  obtain n asset chain recipient s1 idrow s2 d s3 a where
    r: "upsertRecipient E now \<lparr>ur_partnerId = ap_partnerId p,
       ur_externalRecipientId = ca_recipientExternalId dto, ur_displayName = ca_recipientDisplayName dto\<rparr> s = (recipient, s1)"
    and u: "upsertIdentifier E now \<lparr>ui_partnerId = ap_partnerId p, ui_recipientId = rc_id recipient,
       ui_kind = ca_identifierKind dto, ui_value = ra_recipientIdentifier dto\<rparr> s1 = (Inr idrow, s2)"
    and d: "applyDestinationAttestation E now dto (an_id n) (rc_id recipient) nf ti s2 = (Inr d, s3)"
    and a: "a = new_attestation now (cuid E (nextId s3)) p key dto nf ti recipient idrow (an_id n) d"
    and s': "s' = announce E now p dto (rc_displayName recipient) a (n, asset, chain) d
       (s3\<lparr>nextId := Suc (nextId s3), attestations := attestations s3 @ [a]\<rparr>)"
    using i by (elim ingest_Inr) blast
  let ?s4 = "s3\<lparr>nextId := Suc (nextId s3), attestations := attestations s3 @ [a]\<rparr>"
  have s2: "destinations s2 = destinations s" "nextId s \<le> nextId s2"
    using arg_cong [where f = destinations, OF upsertRecipient_tables [OF r]]
      arg_cong [where f = nextId, OF upsertRecipient_tables [OF r]]
      arg_cong [where f = destinations, OF upsertIdentifier_tables [OF u]]
      arg_cong [where f = nextId, OF upsertIdentifier_tables [OF u]] by simp_all
  have ok2: "destinations_ok E s2" and dir2: "directory_of s2 = directory_of s"
    using directory_kept [OF ok s2] by simp_all
  note e = applyDestination_effect [OF ok2 inj d]
  have kept: "destinations s' = destinations s3" "nextId s3 \<le> nextId s'" "attestations s' = attestations s3 @ [a]"
    using arg_cong [where f = destinations, OF announce_tables(1) [of E now p dto "rc_displayName recipient" a "(n, asset, chain)" d ?s4]]
      arg_cong [where f = attestations, OF announce_tables(1) [of E now p dto "rc_displayName recipient" a "(n, asset, chain)" d ?s4]]
      announce_tables(2) [of ?s4 E now p dto "rc_displayName recipient" a "(n, asset, chain)" d]
    by (simp_all add: s')
  have "destinations_ok E s'" "directory_of s' = directory_of s3"
    using directory_kept [OF e(1) kept(1,2)] by simp_all
  moreover have "directory_of s3 = apply_op (attestation_op a) (directory_of s)"
    using e(2) by (simp add: dir2 a attestation_op_new)
  ultimately show ?thesis by (simp add: kept(3))
qed

text \<open>What a submission and a revocation mean for the directory, read off their outcome.\<close>

definition submission_op :: "AttestationResponse result \<Rightarrow> db \<Rightarrow> directory_op" where
  "submission_op r s' = (case r of Inr (Ingested g) \<Rightarrow> attestation_op (last (attestations s')) | _ \<Rightarrow> Keep)"

definition revocation_op :: "ident \<Rightarrow> ident \<Rightarrow> db \<Rightarrow> directory_op" where
  "revocation_op p i s =
     (case find_partner_destination p i s of
        None \<Rightarrow> Keep
      | Some (d, _) \<Rightarrow> if de_status d = DestinationStatus_REVOKED then Keep else Remove i)"

definition replacement_op :: "ident \<Rightarrow> json result \<Rightarrow> directory_op" where
  "replacement_op i r = (case r of Inl _ \<Rightarrow> Keep | Inr _ \<Rightarrow> Remove i)"

inductive directory_step :: "env \<Rightarrow> db \<Rightarrow> directory_op \<Rightarrow> db \<Rightarrow> bool" for E where
  create: "createPartnerDestination E now p dto s = (r, s') \<Longrightarrow> directory_step E s Keep s'"
| revoke: "revokePartnerDestination E now p i s = (r, s') \<Longrightarrow> directory_step E s (revocation_op p i s) s'"
| replace: "replacePartnerDestination E now p i dto' s = (r, s') \<Longrightarrow> directory_step E s (replacement_op i r) s'"
| attest: "createAttestation E now dto'' partner nonce ts s = (r', s') \<Longrightarrow> directory_step E s (submission_op r' s') s'"
| other: "\<lbrakk>destinations s' = destinations s; nextId s \<le> nextId s'\<rbrakk> \<Longrightarrow> directory_step E s Keep s'"

inductive directory_run :: "env \<Rightarrow> db \<Rightarrow> directory_op list \<Rightarrow> db \<Rightarrow> bool" for E where
  start: "directory_run E s [] s"
| step: "\<lbrakk>directory_run E s ops s1; directory_step E s1 op s2\<rbrakk> \<Longrightarrow> directory_run E s (ops @ [op]) s2"

lemma find_partner_destination_id: "find_partner_destination p i s = Some (d, r, net) \<Longrightarrow> de_id d = i"
  by (auto simp: find_partner_destination_def dest!: find_SomeD)

lemma reload_state [simp]: "snd (reload e r s) = s"
  by (simp add: reload_def split: sum.splits option.splits)

lemma revocation_effect:
  assumes "destinations_ok E s" "revokePartnerDestination E now p i s = (r, s')"
  shows "destinations_ok E s' \<and> directory_of s' = apply_op (revocation_op p i s) (directory_of s)"
proof (cases "find_partner_destination p i s")
  case None
  with assms show ?thesis by (simp add: revokePartnerDestination_def revocation_op_def)
next
  case (Some row)
  obtain d q net where row: "row = (d, q, net)" by (metis prod_cases3)
  then have i: "de_id d = i" using Some find_partner_destination_id by blast
  show ?thesis
  proof (cases "de_status d = DestinationStatus_REVOKED")
    case True
    with assms Some row show ?thesis by (simp add: revokePartnerDestination_def revocation_op_def)
  next
    case False
    then have "s' = update_destination i (revoke now) s"
      using arg_cong [where f = snd, OF assms(2)] by (simp add: revokePartnerDestination_def Some row i Let_def)
    with revoke_effect [OF assms(1), of i now] False show ?thesis by (simp add: revocation_op_def Some row)
  qed
qed

lemma replacement_effect:
  assumes "destinations_ok E s" "inj (cuid E)" "replacePartnerDestination E now p i dto s = (r, s')"
  shows "destinations_ok E s' \<and> directory_of s' = apply_op (replacement_op i r) (directory_of s)"
proof (cases "find_partner_destination p i s")
  case None
  with assms(1,3) show ?thesis by (auto simp: replacePartnerDestination_def replacement_op_def)
next
  case (Some row)
  obtain d q net where row: "row = (d, q, net)" by (metis prod_cases3)
  then have i: "de_id d = i" using Some find_partner_destination_id by blast
  obtain r1 s1 where c: "createPartnerDestination E now p (replacement_dto d net dto) s = (r1, s1)" by force
  have e: "destinations_ok E s1" "directory_of s1 = directory_of s"
    using create_effect [OF assms(1,2), of now p "replacement_dto d net dto"] by (simp_all add: c)
  show ?thesis
  proof (cases r1)
    case (Inl x)
    with assms(3) e show ?thesis by (auto simp: replacePartnerDestination_def Some row c replacement_op_def)
  next
    case (Inr j)
    then have "r = Inr j" "s' = update_destination i (revoke now) s1"
      using assms(3) by (auto simp: replacePartnerDestination_def Some row c i)
    with revoke_effect [OF e(1), of i now] e(2) show ?thesis by (simp add: replacement_op_def)
  qed
qed


lemma submission_effect:
  assumes ok: "destinations_ok E s" and inj: "inj (cuid E)"
    and c: "createAttestation E now dto p nonce ts s = (r, s')"
  shows "destinations_ok E s' \<and> directory_of s' = apply_op (submission_op r s') (directory_of s)"
proof -
  have recorded: ?thesis
    if f: "r = Inl e" "s' = recordFailedAttestationIngestion E now dto p e nf m s1"
      "destinations s1 = destinations s" "nextId s \<le> nextId s1" for e nf m s1
  proof -
    obtain log where "s' = s1\<lparr>auditLogs := auditLogs s1 @ [log], nextId := Suc (nextId s1)\<rparr>"
      using f(2) recordFailed_eq [of E now dto p e nf m s1] by metis
    then have "destinations s' = destinations s" "nextId s \<le> nextId s'" using f(3,4) by simp_all
    from directory_kept [OF ok this] f(1) show ?thesis by (simp add: submission_op_def)
  qed
  show ?thesis
  proof (cases "resolveSensitiveAttestationFields E (getPartnerPolicy (ap_partnerId p) s) dto")
    case (Inl e)
    with c show ?thesis by (intro recorded [of e None None s]) (auto simp: createAttestation_def)
  next
    case dto': (Inr dto')
    show ?thesis
    proof (cases "normalizeAttestationFields E dto'")
      case (Inl e)
      with c dto' show ?thesis
        by (intro recorded [of e None "Some (ra_recipientIdentifier dto')" s]) (auto simp: createAttestation_def Let_def)
    next
      case nf: (Inr nf)
      obtain r1 s1 where a: "accept_attestation E now p nonce ts dto' nf s = (r1, s1)" by force
      have refused: ?thesis if "r1 = Inl e" "destinations s1 = destinations s" "nextId s \<le> nextId s1" for e
        by (rule recorded [of e "Some nf" "Some (ra_recipientIdentifier dto')" s1])
          (use c a that in \<open>auto simp: createAttestation_def dto' nf Let_def\<close>)
      from a show ?thesis
      proof (cases rule: accept_cases)
        case (known key n a)
        then have "r = r1" "s' = s1" using c a by (auto simp: createAttestation_def dto' nf Let_def)
        with known directory_kept [OF ok, of s1] show ?thesis by (simp add: submission_op_def)
      next
        case (ingested key n ti g)
        then have "r = r1" "s' = s1" using c a by (auto simp: createAttestation_def dto' nf Let_def)
        moreover have "destinations_ok E (s\<lparr>requestNonces := requestNonces s @ [n], nextId := Suc (nextId s)\<rparr>)"
          "directory_of (s\<lparr>requestNonces := requestNonces s @ [n], nextId := Suc (nextId s)\<rparr>) = directory_of s"
          using directory_kept [OF ok, of "s\<lparr>requestNonces := requestNonces s @ [n], nextId := Suc (nextId s)\<rparr>"] by simp_all
        ultimately show ?thesis using ingest_effect [OF _ inj ingested(6)] ingested(5) by (simp add: submission_op_def)
      qed (use refused in simp_all)
    qed
  qed
qed

lemma directory_step_effect:
  assumes "directory_step E s op s'" "destinations_ok E s" "inj (cuid E)"
  shows "destinations_ok E s' \<and> directory_of s' = apply_op op (directory_of s)"
  using assms
proof cases
  case (create now p dto r)
  with create_effect [OF assms(2,3), of now p dto] show ?thesis by simp
next
  case (revoke now p i r)
  with revocation_effect [OF assms(2)] show ?thesis by blast
next
  case (replace now p i dto' r)
  with replacement_effect [OF assms(2,3)] show ?thesis by blast
next
  case (attest now dto'' partner nonce ts r')
  with submission_effect [OF assms(2,3)] show ?thesis by blast
next
  case other
  with directory_kept [OF assms(2)] show ?thesis by blast
qed

lemma directory_run_effect:
  "\<lbrakk>directory_run E s ops s'; inj (cuid E); destinations_ok E s\<rbrakk> \<Longrightarrow>
     destinations_ok E s' \<and> directory_of s' = fold apply_op ops (directory_of s)"
  by (induction rule: directory_run.induct) (auto dest: directory_step_effect)

text \<open>C1: the destinations table implements the abstract directory.  Whatever sequence of
  registrations, revocations, replacements, attestation submissions and other operations runs, the
  table keeps at most one attested active row per recipient and asset network, and shows exactly the
  result of the directory operations the steps stand for: a stored attestation publishes or withdraws
  one address, a revocation or a replacement takes the old destination out of service at once,
  registrations and refused or repeated submissions change nothing.\<close>

theorem destinations_implement_directory:
  assumes "directory_run E s ops s'" and "inj (cuid E)" and "destinations_ok E s"
  shows "destinations_ok E s' \<and> directory_of s' = fold apply_op ops (directory_of s)"
  using assms by (rule directory_run_effect)

text \<open>C20: an address stops being payable only for a reason.  A payout that is in the directory and
  later no longer is, was withdrawn by an attested revocation of that very address, replaced by an
  attestation for the same recipient and network, or taken out of service by its partner.\<close>

theorem payout_ends_for_a_reason:
  assumes "directory_run E s ops s'" and "inj (cuid E)" and "destinations_ok E s"
    and "directory_of s k = Some po" and "directory_of s' k \<noteq> Some po"
  shows "\<exists>op \<in> set ops. op = Withdraw k (po_addressNormalized po) (po_memo po) \<or>
           (\<exists>po'. op = Publish k po' \<and> po' \<noteq> po) \<or> op = Remove (po_destinationId po)"
proof -
  have kept: "apply_op op D k = Some po"
    if "D k = Some po" "op \<noteq> Withdraw k (po_addressNormalized po) (po_memo po)"
      "\<forall>po'. op = Publish k po' \<longrightarrow> po' = po" "op \<noteq> Remove (po_destinationId po)" for op D
    using that by (cases op) (auto split: option.splits)
  have "fold apply_op ops D k = Some po"
    if "D k = Some po" "\<not> (\<exists>op \<in> set ops. op = Withdraw k (po_addressNormalized po) (po_memo po) \<or>
           (\<exists>po'. op = Publish k po' \<and> po' \<noteq> po) \<or> op = Remove (po_destinationId po))" for D
    using that
  proof (induction ops arbitrary: D)
    case (Cons op ops)
    then have "apply_op op D k = Some po" by (intro kept) auto
    with Cons show ?case by simp
  qed simp
  with directory_run_effect [OF assms(1-3)] assms(4,5) show ?thesis by metis
qed


section \<open>Reading the directory\<close>

definition in_force :: "time \<Rightarrow> payout \<Rightarrow> bool" where
  "in_force now po \<longleftrightarrow> po_from po \<le> now \<and> not_expired now (po_until po)"

definition payable :: "time \<Rightarrow> directory \<Rightarrow> slot \<Rightarrow> payout option" where
  "payable now D k = (case D k of None \<Rightarrow> None | Some po \<Rightarrow> if in_force now po then Some po else None)"

lemma filter_unique:
  assumes "distinct xs" "\<And>x y. \<lbrakk>x \<in> set xs; y \<in> set xs; P x; P y\<rbrakk> \<Longrightarrow> x = y"
  shows "filter P xs = (case List.find P xs of None \<Rightarrow> [] | Some x \<Rightarrow> [x])"
  using assms
proof (induction xs)
  case (Cons x xs)
  show ?case
  proof (cases "P x")
    case True
    then have "filter P xs = []" using Cons.prems by (auto simp: filter_empty_conv)
    with True show ?thesis by simp
  next
    case False
    with Cons show ?thesis by (auto split: option.splits)
  qed
qed simp

lemma active_destinations:
  assumes "destinations_ok E s"
  shows "getActiveDestinations r n now s = [] \<and> payable now (directory_of s) (r, n) = None \<or>
    (\<exists>d. getActiveDestinations r n now s = [d] \<and> d \<in> set (destinations s) \<and> active d \<and> slot_of d = (r, n) \<and>
       payable now (directory_of s) (r, n) = Some (payout_of d))"
proof -
  have ok: "rows_ok (destinations s)" using assms by (simp add: destinations_ok_def)
  then have distinct: "distinct (destinations s)" by (simp add: rows_ok_def distinct_map)
  let ?here = "\<lambda>d. slot_of d = (r, n) \<and> active d"
  let ?now = "\<lambda>d. de_effectiveFrom d \<le> now \<and> not_expired now (de_expiresAt d)"
  have "getActiveDestinations r n now s = default_first (filter ?now (filter ?here (destinations s)))"
    unfolding getActiveDestinations_def filter_filter
    by (rule arg_cong [where f = default_first], rule filter_cong) (auto simp: slot_of_def active_def)
  also have "filter ?here (destinations s) = (case List.find ?here (destinations s) of None \<Rightarrow> [] | Some d \<Rightarrow> [d])"
    by (rule filter_unique [OF distinct]) (use rows_okD(3) [OF ok] in auto)
  finally show ?thesis
    by (cases "List.find ?here (destinations s)")
      (auto simp: default_first_def directory_of_def directory_rows_def payable_def in_force_def payout_of_def
         dest!: find_SomeD)
qed


section \<open>A directory evaluated\<close>

text \<open>A recipient of the demo partner with one attested address.\<close>

definition demo_recipient :: Recipient where
  "demo_recipient =
     \<lparr>rc_id = ''r'', rc_partnerId = ''p'', rc_externalRecipientId = ''user-1'', rc_displayName = None,
      rc_displayNameCiphertext = None, rc_status = RecipientStatus_ACTIVE, rc_profile = None, rc_createdAt = 0,
      rc_updatedAt = 0\<rparr>"

definition demo_identifier :: RecipientIdentifier where
  "demo_identifier =
     \<lparr>id_id = ''i'', id_recipientId = ''r'', id_partnerId = ''p'', id_kind = IdentifierKind_PARTNER_HANDLE,
      id_rawValue = ''bob'', id_rawValueCiphertext = None, id_normalizedValue = ''bob'',
      id_normalizedValueBlindIndex = None, id_status = IdentifierStatus_ACTIVE,
      id_visibility = IdentifierVisibility_RESOLVABLE, id_isPrimary = True, id_verifiedAt = None,
      id_expiresAt = None, id_createdAt = 0, id_updatedAt = 0\<rparr>"

definition demo_destination :: RecipientDestination where
  "demo_destination =
     \<lparr>de_id = ''d'', de_recipientId = ''r'', de_assetNetworkId = ''an'', de_addressRaw = demo_address,
      de_addressRawCiphertext = None, de_addressNormalized = demo_address, de_addressNormalizedBlindIndex = None,
      de_memoValue = [], de_status = DestinationStatus_ACTIVE, de_isDefault = True, de_effectiveFrom = 0,
      de_lastAttestedAt = Some 0, de_expiresAt = None, de_revokedAt = None, de_createdAt = 0, de_updatedAt = 0\<rparr>"

definition demo_paid_db :: db where
  "demo_paid_db =
     demo_partner_db\<lparr>recipients := [demo_recipient], identifiers := [demo_identifier],
       destinations := [demo_destination\<lparr>de_id := cuid demo_env 0\<rparr>], nextId := 1\<rparr>"

definition demo_payout :: payout where
  "demo_payout =
     \<lparr>po_destinationId = cuid demo_env 0, po_address = demo_address, po_addressNormalized = demo_address,
      po_memo = [], po_from = 0, po_until = None\<rparr>"

lemma demo_paid:
  "destinations_ok demo_env demo_paid_db" "directory_of demo_paid_db (''r'', ''an'') = Some demo_payout"
  "directory_step demo_env demo_paid_db (Remove (cuid demo_env 0))
     (snd (revokePartnerDestination demo_env 1 ''p'' (cuid demo_env 0) demo_paid_db))"
proof -
  show "destinations_ok demo_env demo_paid_db" "directory_of demo_paid_db (''r'', ''an'') = Some demo_payout"
    by (simp_all add: destinations_ok_def rows_ok_def demo_paid_db_def demo_destination_def active_def
        directory_of_def directory_rows_def slot_of_def payout_of_def demo_payout_def)
  have "revocation_op ''p'' (cuid demo_env 0) demo_paid_db = Remove (cuid demo_env 0)"
    by code_simp
  with directory_step.revoke [of demo_env 1 "''p''" "cuid demo_env 0" demo_paid_db]
  show "directory_step demo_env demo_paid_db (Remove (cuid demo_env 0))
     (snd (revokePartnerDestination demo_env 1 ''p'' (cuid demo_env 0) demo_paid_db))"
    by (metis prod.collapse)
qed

theorem destinations_implement_directory_witness:
  "\<exists>s'. directory_run demo_env demo_paid_db [Remove (cuid demo_env 0)] s' \<and>
     directory_of demo_paid_db (''r'', ''an'') = Some demo_payout \<and> directory_of s' (''r'', ''an'') = None"
proof -
  let ?s = "snd (revokePartnerDestination demo_env 1 ''p'' (cuid demo_env 0) demo_paid_db)"
  have run: "directory_run demo_env demo_paid_db [Remove (cuid demo_env 0)] ?s"
    using directory_run.step [OF directory_run.start demo_paid(3)] by simp
  from destinations_implement_directory [OF this demo_cuid_inj demo_paid(1)]
  have "directory_of ?s (''r'', ''an'') = None" by (simp add: demo_paid(2)) (simp add: demo_payout_def)
  with run demo_paid(2) show ?thesis by blast
qed

theorem payout_ends_for_a_reason_witness:
  "\<exists>s'. directory_run demo_env demo_paid_db [Remove (cuid demo_env 0)] s' \<and>
     directory_of s' (''r'', ''an'') \<noteq> Some demo_payout \<and> po_destinationId demo_payout = cuid demo_env 0"
proof -
  let ?s = "snd (revokePartnerDestination demo_env 1 ''p'' (cuid demo_env 0) demo_paid_db)"
  have run: "directory_run demo_env demo_paid_db [Remove (cuid demo_env 0)] ?s"
    using directory_run.step [OF directory_run.start demo_paid(3)] by simp
  have gone: "directory_of ?s (''r'', ''an'') \<noteq> Some demo_payout"
    using directory_run_effect [OF run demo_cuid_inj demo_paid(1)] by (simp add: demo_paid(2)) (simp add: demo_payout_def)
  from payout_ends_for_a_reason [OF run demo_cuid_inj demo_paid(1,2) gone] run gone show ?thesis by auto
qed

end
