(* ===== verification/Resolution_Lookup.thy ===== *)
theory Resolution_Lookup
  imports Destinations "HOL-Library.List_Lexorder"
begin

text \<open>
  The lookups of \<open>backend/src/resolution/resolution.service.ts\<close>: from a recipient identifier to its
  verified destination (\<open>lookupVerifiedDestination\<close>), from an address to its recipient
  (\<open>lookupRecipientConfirmation\<close>), the comparison of a submitted address with the attested one, and
  the disclosure and retention policies of partners.
\<close>

section \<open>Results\<close>

datatype DisclosureMode = FULL_LABEL | MASKED_LABEL | VERIFICATION_ONLY

fun name_DisclosureMode :: "DisclosureMode \<Rightarrow> string" where
  "name_DisclosureMode FULL_LABEL = ''FULL_LABEL''"
| "name_DisclosureMode MASKED_LABEL = ''MASKED_LABEL''"
| "name_DisclosureMode VERIFICATION_ONLY = ''VERIFICATION_ONLY''"

record CandidatePlatform =
  cp_id :: ident
  cp_slug :: string
  cp_displayName :: string

record LookupResult =
  lu_outcome :: ResolutionOutcome
  lu_riskLevel :: RiskLevel
  lu_recommendation :: string
  lu_flags :: "RiskSignalKind list"
  lu_recipientDisplayName :: "string option"
  lu_platform :: "string option"
  lu_address :: "string option"
  lu_chain :: "string option"
  lu_asset :: "string option"
  lu_verified :: bool
  lu_expiresAt :: "string option"
  lu_recipientId :: "ident option"
  lu_identifierId :: "ident option"
  lu_destinationId :: "ident option"
  lu_attestationId :: "ident option"
  lu_disclosureMode :: DisclosureMode
  lu_candidatePlatforms :: "CandidatePlatform list"
  lu_requiresPlatformSelection :: bool

text \<open>A lookup that did not verify, before the fields a case adds.\<close>

definition unverified ::
    "ResolutionOutcome \<Rightarrow> RiskLevel \<Rightarrow> string \<Rightarrow> RiskSignalKind list \<Rightarrow> LookupResult" where
  "unverified outcome riskLevel recommendation flags =
     \<lparr>lu_outcome = outcome, lu_riskLevel = riskLevel, lu_recommendation = recommendation, lu_flags = flags,
      lu_recipientDisplayName = None, lu_platform = None, lu_address = None, lu_chain = None, lu_asset = None,
      lu_verified = False, lu_expiresAt = None, lu_recipientId = None, lu_identifierId = None,
      lu_destinationId = None, lu_attestationId = None, lu_disclosureMode = VERIFICATION_ONLY,
      lu_candidatePlatforms = [], lu_requiresPlatformSelection = False\<rparr>"

record NormalizedLookupInput =
  li_recipientIdentifierInput :: string
  li_recipientIdentifierNormalized :: string
  li_chainInput :: string
  li_chainNormalized :: string
  li_assetInput :: string
  li_assetCodeNormalized :: string
  li_assetSymbolNormalized :: string

record NormalizedConfirmInput =
  ci_platformInput :: "string option"
  ci_platformNormalized :: "string option"
  ci_chainInput :: string
  ci_chainNormalized :: string
  ci_assetInput :: string
  ci_assetCodeNormalized :: string
  ci_assetSymbolNormalized :: string
  ci_addressInput :: string
  ci_addressNormalized :: string

definition normalizeLookupInput :: "string \<Rightarrow> string \<Rightarrow> string \<Rightarrow> NormalizedLookupInput result" where
  "normalizeLookupInput recipientIdentifier chain asset =
     (let recipientIdentifierInput = js_trim recipientIdentifier;
          chainInput = js_trim chain; assetInput = js_trim asset in
      rbind (normalizeIdentifier recipientIdentifierInput) (\<lambda>ident.
      rbind (normalizeChain chainInput) (\<lambda>chainNormalized.
      rbind (normalizeAssetCode assetInput) (\<lambda>code.
      rbind (normalizeAssetSymbol assetInput) (\<lambda>symbol.
        Inr \<lparr>li_recipientIdentifierInput = recipientIdentifierInput,
             li_recipientIdentifierNormalized = ident, li_chainInput = chainInput,
             li_chainNormalized = chainNormalized, li_assetInput = assetInput,
             li_assetCodeNormalized = code, li_assetSymbolNormalized = symbol\<rparr>)))))"

definition normalizeConfirmInput ::
    "string option \<Rightarrow> string \<Rightarrow> string \<Rightarrow> string \<Rightarrow> NormalizedConfirmInput result" where
  "normalizeConfirmInput platform chain asset address =
     (let platformInput = trim_or_null platform; chainInput = js_trim chain;
          assetInput = js_trim asset; addressInput = js_trim address in
      rbind (case platformInput of None \<Rightarrow> Inr None | Some p \<Rightarrow> map_sum id Some (normalizePartnerSlug p)) (\<lambda>slug.
      rbind (normalizeChain chainInput) (\<lambda>chainNormalized.
      rbind (normalizeAssetCode assetInput) (\<lambda>code.
      rbind (normalizeAssetSymbol assetInput) (\<lambda>symbol.
      rbind (normalizeAddress chainNormalized addressInput) (\<lambda>addressNormalized.
        Inr \<lparr>ci_platformInput = platformInput, ci_platformNormalized = slug, ci_chainInput = chainInput,
             ci_chainNormalized = chainNormalized, ci_assetInput = assetInput,
             ci_assetCodeNormalized = code, ci_assetSymbolNormalized = symbol,
             ci_addressInput = addressInput, ci_addressNormalized = addressNormalized\<rparr>))))))"

section \<open>Privacy settings\<close>

record PartnerPrivacySettings =
  ps_defaultDisclosureMode :: string
  ps_allowFullLabelDisclosure :: bool
  ps_rawVerificationRetentionMode :: string
  ps_rawVerificationRetentionHours :: int

definition readStoredDisclosureMode :: "string option \<Rightarrow> string \<Rightarrow> string" where
  "readStoredDisclosureMode value fallback =
     (case value of
        Some v \<Rightarrow> if v = ''MASKED_LABEL'' \<or> v = ''VERIFICATION_ONLY'' then v else fallback
      | None \<Rightarrow> fallback)"

definition readRawVerificationRetentionMode :: "string option \<Rightarrow> string \<Rightarrow> string" where
  "readRawVerificationRetentionMode value fallback =
     (case value of
        Some v \<Rightarrow> if v = ''NO_RETAIN'' \<or> v = ''SHORT_RETENTION'' \<or> v = ''STANDARD_RETENTION'' then v else fallback
      | None \<Rightarrow> fallback)"

definition getPartnerPrivacySettings :: "env \<Rightarrow> ident \<Rightarrow> db \<Rightarrow> PartnerPrivacySettings" where
  "getPartnerPrivacySettings E partnerId s =
     (let settings = List.find (\<lambda>r. ss_partnerId r = partnerId) (securitySettings s) in
      \<lparr>ps_defaultDisclosureMode = readStoredDisclosureMode (map_option ss_defaultDisclosureMode settings)
         (PARTNER_SECURITY_DEFAULT_DISCLOSURE_MODE (cfg E)),
       ps_allowFullLabelDisclosure = or_else (map_option ss_allowFullLabelDisclosure settings) False,
       ps_rawVerificationRetentionMode =
         readRawVerificationRetentionMode (map_option ss_rawVerificationRetentionMode settings)
           (PARTNER_SECURITY_DEFAULT_RAW_VERIFICATION_RETENTION_MODE (cfg E)),
       ps_rawVerificationRetentionHours =
         or_else (map_option ss_rawVerificationRetentionHours settings)
           (PARTNER_SECURITY_DEFAULT_RAW_VERIFICATION_RETENTION_HOURS (cfg E))\<rparr>)"

definition buildRetentionExpiresAt :: "time \<Rightarrow> PartnerPrivacySettings \<Rightarrow> time option" where
  "buildRetentionExpiresAt now settings =
     (if ps_rawVerificationRetentionMode settings = ''NO_RETAIN'' then Some now
      else if ps_rawVerificationRetentionMode settings = ''SHORT_RETENTION''
      then Some (now + ps_rawVerificationRetentionHours settings * 60 * 60 * 1000)
      else None)"

section \<open>Disclosure\<close>

lemma dropWhile_shorter [termination_simp]: "length (dropWhile P xs) < Suc (length xs)"
  by (simp add: length_dropWhile_le less_Suc_eq_le)

text \<open>\<open>value.split(/\s+/)\<close> without the empty segments.\<close>

fun js_segments :: "string \<Rightarrow> string list" where
  "js_segments [] = []"
| "js_segments (c # cs) =
     (if is_ws c then js_segments cs
      else (c # takeWhile (\<lambda>d. \<not> is_ws d) cs) # js_segments (dropWhile (\<lambda>d. \<not> is_ws d) cs))"

definition mask_segment :: "nat \<Rightarrow> nat \<Rightarrow> string \<Rightarrow> string" where
  "mask_segment final index segment =
     (if length segment \<le> 1 then ''*''
      else if index = final then take 1 segment @ ''.''
      else take 2 segment @ ''***'')"

definition maskRecipientDisplayName :: "string \<Rightarrow> string" where
  "maskRecipientDisplayName value =
     (let trimmedValue = js_trim value in
      if length trimmedValue \<le> 2
      then (case trimmedValue of [] \<Rightarrow> ''*'' | c # _ \<Rightarrow> [c]) @ ''*''
      else
        let segments = js_segments trimmedValue in
        if length segments > 1
        then join_with '' '' (map (\<lambda>(i, g). mask_segment (length segments - 1) i g) (enumerate 0 segments))
        else take 2 trimmedValue @ ''***'')"

definition applyDisclosurePolicy ::
    "PartnerPrivacySettings \<Rightarrow> string option \<Rightarrow> DisclosureMode \<times> string option" where
  "applyDisclosurePolicy settings value =
     (if falsy value then (VERIFICATION_ONLY, None)
      else if ps_allowFullLabelDisclosure settings then (FULL_LABEL, value)
      else if ps_defaultDisclosureMode settings = ''MASKED_LABEL''
      then (MASKED_LABEL, map_option maskRecipientDisplayName value)
      else (VERIFICATION_ONLY, None))"

section \<open>From an identifier to its destination\<close>

definition findAssetNetworkForLookup :: "string \<Rightarrow> string \<Rightarrow> string \<Rightarrow> db \<Rightarrow> corridor option" where
  "findAssetNetworkForLookup chainNormalized assetCode assetSymbol s =
     (case List.find (\<lambda>n. an_isActive n \<and>
              (case network_of s n of
                 None \<Rightarrow> False
               | Some (_, a, c) \<Rightarrow> ch_slug c = chainNormalized \<and> ch_isActive c \<and>
                   (as_code a = assetCode \<or> as_symbol a = assetSymbol))) (assetNetworks s) of
        None \<Rightarrow> None
      | Some n \<Rightarrow> network_of s n)"

definition latest_verified_attestation :: "ident \<Rightarrow> db \<Rightarrow> Attestation option" where
  "latest_verified_attestation destinationId s =
     first_option (order_desc at_issuedAt (filter (\<lambda>a. at_destinationId a = Some destinationId \<and>
       at_verificationStatus a = VerificationStatus_VERIFIED) (attestations s)))"

text \<open>What a lookup shows of a recipient it knows.\<close>

definition disclosed :: "DisclosureMode \<times> string option \<Rightarrow> Partner \<Rightarrow> LookupResult \<Rightarrow> LookupResult" where
  "disclosed disclosure partner r =
     r\<lparr>lu_recipientDisplayName := snd disclosure, lu_platform := Some (pa_slug partner),
       lu_disclosureMode := fst disclosure\<rparr>"

definition resolved_lookup ::
    "RecipientDestination \<Rightarrow> corridor \<Rightarrow> ident option \<Rightarrow> Attestation option \<Rightarrow> LookupResult" where
  "resolved_lookup destination net identifierId latestAttestation =
     (unverified ResolutionOutcome_RESOLVED RiskLevel_LOW ''safe_to_send'' [])
       \<lparr>lu_verified := True, lu_chain := Some (ch_slug (snd (snd net))), lu_asset := Some (as_symbol (fst (snd net))),
        lu_expiresAt := map_option toISOString (de_expiresAt destination),
        lu_recipientId := Some (de_recipientId destination), lu_identifierId := identifierId,
        lu_destinationId := Some (de_id destination), lu_attestationId := map_option at_id latestAttestation\<rparr>"

definition lookupVerifiedDestination :: "env \<Rightarrow> time \<Rightarrow> NormalizedLookupInput \<Rightarrow> db \<Rightarrow> LookupResult" where
  "lookupVerifiedDestination E now lookupInput s =
     (case findResolvableIdentifier E (li_recipientIdentifierNormalized lookupInput) s of
        None \<Rightarrow> unverified ResolutionOutcome_NO_MATCH RiskLevel_HIGH ''recipient_not_found''
                  [RiskSignalKind_IDENTIFIER_MISMATCH]
      | Some (identifier, recipient, partner) \<Rightarrow>
          let disclosure = applyDisclosurePolicy (getPartnerPrivacySettings E (pa_id partner) s)
                (case rc_displayName recipient of Some n \<Rightarrow> Some n | None \<Rightarrow> Some (id_rawValue identifier)) in
          case findAssetNetworkForLookup (li_chainNormalized lookupInput) (li_assetCodeNormalized lookupInput)
                 (li_assetSymbolNormalized lookupInput) s of
            None \<Rightarrow> disclosed disclosure partner
              (unverified ResolutionOutcome_UNVERIFIED RiskLevel_HIGH ''unsupported_asset_network''
                 [RiskSignalKind_UNSUPPORTED_ASSET_NETWORK])
          | Some net \<Rightarrow>
              (case getActiveDestinations (id_recipientId identifier) (an_id (fst net)) now s of
                 [] \<Rightarrow> disclosed disclosure partner
                   (unverified ResolutionOutcome_UNVERIFIED RiskLevel_HIGH ''no_verified_destination''
                      [RiskSignalKind_ADDRESS_NOT_ATTESTED])
               | [destination] \<Rightarrow>
                   (disclosed disclosure partner
                      (resolved_lookup destination net (Some (id_id identifier))
                         (latest_verified_attestation (de_id destination) s)))
                     \<lparr>lu_address := Some (de_addressRaw destination),
                      lu_recipientId := Some (id_recipientId identifier)\<rparr>
               | _ \<Rightarrow> disclosed disclosure partner
                   (unverified ResolutionOutcome_AMBIGUOUS RiskLevel_CRITICAL ''manual_review_required''
                      [RiskSignalKind_MULTIPLE_ACTIVE_DESTINATIONS])))"

section \<open>From an address to its recipient\<close>

definition confirming_destination ::
    "env \<Rightarrow> time \<Rightarrow> NormalizedConfirmInput \<Rightarrow> ident \<Rightarrow> RecipientDestination \<times> Recipient \<times> Partner \<Rightarrow> bool" where
  "confirming_destination E now input assetNetworkId row =
     (case row of (d, r, p) \<Rightarrow>
        (de_addressNormalizedBlindIndex d = Some (blindIndexOf E (ci_addressNormalized input)) \<or>
         de_addressNormalized d = ci_addressNormalized input) \<and>
        not_expired now (de_expiresAt d) \<and> de_assetNetworkId d = assetNetworkId \<and>
        de_status d = DestinationStatus_ACTIVE \<and> de_effectiveFrom d \<le> now \<and>
        (case ci_platformNormalized input of
           None \<Rightarrow> pa_isDirectoryListed p
         | Some slug \<Rightarrow> if slug = [] then pa_isDirectoryListed p else pa_slug p = slug))"

definition with_owner :: "db \<Rightarrow> RecipientDestination list \<Rightarrow> (RecipientDestination \<times> Recipient \<times> Partner) list" where
  "with_owner s ds = List.map_filter (\<lambda>d. map_option (Pair d) (recipient_owner s (de_recipientId d))) ds"

definition activeConfirmations ::
    "env \<Rightarrow> time \<Rightarrow> NormalizedConfirmInput \<Rightarrow> ident \<Rightarrow> db \<Rightarrow> (RecipientDestination \<times> Recipient \<times> Partner) list" where
  "activeConfirmations E now input assetNetworkId s =
     filter (\<lambda>(d, r, p). rc_status r = RecipientStatus_ACTIVE \<and> pa_status p = PartnerStatus_ACTIVE)
       (filter (confirming_destination E now input assetNetworkId)
          (with_owner s (default_first (destinations s))))"

text \<open>\<open>new Map(...)\<close> keyed by the partner id, in order of first appearance.\<close>

fun uniq_by :: "('a \<Rightarrow> 'k) \<Rightarrow> 'a list \<Rightarrow> 'a list" where
  "uniq_by f [] = []"
| "uniq_by f (x # xs) = x # uniq_by f (filter (\<lambda>y. f y \<noteq> f x) xs)"

definition candidatePlatformsOf :: "env \<Rightarrow> (RecipientDestination \<times> Recipient \<times> Partner) list \<Rightarrow> CandidatePlatform list" where
  "candidatePlatformsOf E rows =
     sort_key (\<lambda>c. collation_key E (cp_displayName c))
       (uniq_by cp_id (map (\<lambda>(d, r, p). \<lparr>cp_id = pa_id p, cp_slug = pa_slug p, cp_displayName = pa_displayName p\<rparr>) rows))"

definition lookupRecipientConfirmation :: "env \<Rightarrow> time \<Rightarrow> NormalizedConfirmInput \<Rightarrow> db \<Rightarrow> LookupResult" where
  "lookupRecipientConfirmation E now input s =
     (case findAssetNetworkForLookup (ci_chainNormalized input) (ci_assetCodeNormalized input)
             (ci_assetSymbolNormalized input) s of
        None \<Rightarrow> (unverified ResolutionOutcome_UNVERIFIED RiskLevel_HIGH ''unsupported_asset_network''
                   [RiskSignalKind_UNSUPPORTED_ASSET_NETWORK])
                  \<lparr>lu_platform := ci_platformNormalized input, lu_chain := Some (ci_chainNormalized input),
                   lu_asset := Some (ci_assetSymbolNormalized input)\<rparr>
      | Some net \<Rightarrow>
          let inCorridor = (\<lambda>r. r\<lparr>lu_chain := Some (ch_slug (snd (snd net))), lu_asset := Some (as_symbol (fst (snd net)))\<rparr>);
              active = activeConfirmations E now input (an_id (fst net)) s;
              candidates = candidatePlatformsOf E active
          in
          case active of
            [] \<Rightarrow> (inCorridor (unverified ResolutionOutcome_NO_MATCH RiskLevel_HIGH ''address_not_confirmed''
                    [RiskSignalKind_ADDRESS_NOT_ATTESTED]))\<lparr>lu_platform := ci_platformNormalized input\<rparr>
          | [(destination, recipient, partner)] \<Rightarrow>
              let primaryIdentifier = first_option (recipient_identifiers s (rc_id recipient));
                  recipientDisplayName =
                    (case rc_displayName recipient of Some n \<Rightarrow> n
                     | None \<Rightarrow> (case primaryIdentifier of Some i \<Rightarrow> id_rawValue i
                                | None \<Rightarrow> rc_externalRecipientId recipient));
                  disclosure = applyDisclosurePolicy (getPartnerPrivacySettings E (pa_id partner) s)
                    (Some recipientDisplayName)
              in disclosed disclosure partner
                   (resolved_lookup destination net (map_option id_id primaryIdentifier)
                      (latest_verified_attestation (de_id destination) s))
          | _ \<Rightarrow>
              if falsy (ci_platformNormalized input) \<and> length candidates > 1
              then (inCorridor (unverified ResolutionOutcome_AMBIGUOUS RiskLevel_HIGH ''select_platform''
                      [RiskSignalKind_MULTIPLE_ACTIVE_DESTINATIONS]))
                     \<lparr>lu_candidatePlatforms := candidates, lu_requiresPlatformSelection := True\<rparr>
              else (inCorridor (unverified ResolutionOutcome_AMBIGUOUS RiskLevel_CRITICAL ''manual_review_required''
                      [RiskSignalKind_MULTIPLE_ACTIVE_DESTINATIONS]))
                     \<lparr>lu_platform := (case ci_platformNormalized input of
                          Some slug \<Rightarrow> Some slug | None \<Rightarrow> map_option cp_slug (first_option candidates)),
                      lu_candidatePlatforms := candidates\<rparr>)"

section \<open>Comparing a submitted address\<close>

record AddressComparison =
  cm_match :: bool
  cm_riskLevel :: RiskLevel
  cm_recommendation :: string
  cm_flags :: "RiskSignalKind list"

text \<open>The comparison \<open>verify\<close> and \<open>evaluateVerifyLookup\<close> share.\<close>

definition compareAddress :: "string \<Rightarrow> string \<Rightarrow> LookupResult \<Rightarrow> AddressComparison result" where
  "compareAddress chainNormalized normalizedAddress lookup =
     (let asIs = \<lparr>cm_match = False, cm_riskLevel = lu_riskLevel lookup,
                 cm_recommendation = lu_recommendation lookup, cm_flags = lu_flags lookup\<rparr> in
      if falsy (lu_address lookup) then Inr asIs
      else
        rbind (normalizeAddress chainNormalized (or_else (lu_address lookup) [])) (\<lambda>normalizedResolvedAddress.
          if normalizedAddress = normalizedResolvedAddress then Inr (asIs\<lparr>cm_match := True\<rparr>)
          else Inr \<lparr>cm_match = False, cm_riskLevel = RiskLevel_HIGH, cm_recommendation = ''do_not_send'',
                    cm_flags = lu_flags lookup @ [RiskSignalKind_ADDRESS_MISMATCH] @
                      (if addressLooksLikeReference normalizedAddress normalizedResolvedAddress
                       then [RiskSignalKind_ADDRESS_LOOKALIKE] else [])\<rparr>))"

end
