(* ===== verification/Resolution.thy ===== *)
theory Resolution
  imports Resolution_Lookup Request_Hardening Audit_Service
begin

text \<open>
  The handlers of \<open>backend/src/resolution/resolution.service.ts\<close>: \<open>resolve\<close>, \<open>confirmAddress\<close> and
  \<open>verify\<close> with their idempotency keys, lookup limits and request log, the batch of verifications,
  the log queries and the retention clean-up.
\<close>

section \<open>Responses\<close>

datatype LookupDirection = FORWARD_LOOKUP | REVERSE_LOOKUP | TRANSFER_VERIFICATION

fun name_LookupDirection :: "LookupDirection \<Rightarrow> string" where
  "name_LookupDirection FORWARD_LOOKUP = ''FORWARD_LOOKUP''"
| "name_LookupDirection REVERSE_LOOKUP = ''REVERSE_LOOKUP''"
| "name_LookupDirection TRANSFER_VERIFICATION = ''TRANSFER_VERIFICATION''"

definition flags_json :: "RiskSignalKind list \<Rightarrow> json" where
  "flags_json flags = JArr (map (\<lambda>f. JStr (name_RiskSignalKind f)) flags)"

definition candidate_json :: "CandidatePlatform \<Rightarrow> json" where
  "candidate_json c = JObj [(''id'', JStr (cp_id c)), (''slug'', JStr (cp_slug c)), (''displayName'', JStr (cp_displayName c))]"

definition resolve_response :: "LookupResult \<Rightarrow> json" where
  "resolve_response lookup =
     JObj [(''lookupDirection'', JStr (name_LookupDirection FORWARD_LOOKUP)),
       (''disclosureMode'', JStr (name_DisclosureMode (lu_disclosureMode lookup))),
       (''recipientDisplayName'', j_nullable (lu_recipientDisplayName lookup)),
       (''platform'', j_nullable (lu_platform lookup)), (''address'', j_nullable (lu_address lookup)),
       (''chain'', j_nullable (lu_chain lookup)), (''asset'', j_nullable (lu_asset lookup)),
       (''verified'', JBool (lu_verified lookup)), (''expiresAt'', j_nullable (lu_expiresAt lookup)),
       (''riskLevel'', JStr (name_RiskLevel (lu_riskLevel lookup))), (''flags'', flags_json (lu_flags lookup)),
       (''recommendation'', JStr (lu_recommendation lookup))]"

definition confirm_response :: "LookupResult \<Rightarrow> json" where
  "confirm_response lookup =
     JObj [(''lookupDirection'', JStr (name_LookupDirection REVERSE_LOOKUP)),
       (''disclosureMode'', JStr (name_DisclosureMode (lu_disclosureMode lookup))),
       (''confirmed'', JBool (lu_verified lookup)), (''verified'', JBool (lu_verified lookup)),
       (''recipientDisplayName'', j_nullable (lu_recipientDisplayName lookup)),
       (''platform'', j_nullable (lu_platform lookup)), (''chain'', j_nullable (lu_chain lookup)),
       (''asset'', j_nullable (lu_asset lookup)), (''expiresAt'', j_nullable (lu_expiresAt lookup)),
       (''riskLevel'', JStr (name_RiskLevel (lu_riskLevel lookup))), (''flags'', flags_json (lu_flags lookup)),
       (''recommendation'', JStr (lu_recommendation lookup)),
       (''candidatePlatforms'', JArr (map candidate_json (lu_candidatePlatforms lookup))),
       (''requiresPlatformSelection'', JBool (lu_requiresPlatformSelection lookup))]"

definition verify_response :: "LookupResult \<Rightarrow> AddressComparison \<Rightarrow> json" where
  "verify_response lookup comparison =
     JObj [(''lookupDirection'', JStr (name_LookupDirection TRANSFER_VERIFICATION)),
       (''disclosureMode'', JStr (name_DisclosureMode (lu_disclosureMode lookup))),
       (''match'', JBool (cm_match comparison)), (''verified'', JBool (lu_verified lookup \<and> cm_match comparison)),
       (''recipientDisplayName'', j_nullable (lu_recipientDisplayName lookup)),
       (''platform'', j_nullable (lu_platform lookup)),
       (''riskLevel'', JStr (name_RiskLevel (cm_riskLevel comparison))), (''flags'', flags_json (cm_flags comparison)),
       (''recommendation'', JStr (cm_recommendation comparison))]"

section \<open>Checks on stored responses\<close>

text \<open>A property that may be missing is an option, as \<open>undefined\<close> is.\<close>

definition isNullableString :: "json option \<Rightarrow> bool" where
  "isNullableString v = (case v of Some JNull \<Rightarrow> True | Some (JStr _) \<Rightarrow> True | _ \<Rightarrow> False)"

definition is_string :: "json option \<Rightarrow> bool" where
  "is_string v = (case v of Some (JStr _) \<Rightarrow> True | _ \<Rightarrow> False)"

definition is_boolean :: "json option \<Rightarrow> bool" where
  "is_boolean v = (case v of Some (JBool _) \<Rightarrow> True | _ \<Rightarrow> False)"

definition is_one_of :: "string list \<Rightarrow> json option \<Rightarrow> bool" where
  "is_one_of names v = (case v of Some (JStr s) \<Rightarrow> s \<in> set names | _ \<Rightarrow> False)"

definition isDisclosureMode :: "json option \<Rightarrow> bool" where
  "isDisclosureMode v = is_one_of [''FULL_LABEL'', ''MASKED_LABEL'', ''VERIFICATION_ONLY''] v"

definition isLookupDirection :: "json option \<Rightarrow> bool" where
  "isLookupDirection v = is_one_of [''FORWARD_LOOKUP'', ''REVERSE_LOOKUP'', ''TRANSFER_VERIFICATION''] v"

definition riskLevelValues :: "string list" where
  "riskLevelValues = map name_RiskLevel [RiskLevel_LOW, RiskLevel_MEDIUM, RiskLevel_HIGH, RiskLevel_CRITICAL]"

definition riskSignalKindValues :: "string list" where
  "riskSignalKindValues = map name_RiskSignalKind
     [RiskSignalKind_ADDRESS_NOT_ATTESTED, RiskSignalKind_ADDRESS_MISMATCH, RiskSignalKind_NEW_DESTINATION,
      RiskSignalKind_RECENT_ROTATION, RiskSignalKind_IDENTIFIER_MISMATCH, RiskSignalKind_ADDRESS_LOOKALIKE,
      RiskSignalKind_EXPIRED_ATTESTATION, RiskSignalKind_KEY_REVOKED, RiskSignalKind_ENUMERATION_SUSPECTED,
      RiskSignalKind_MULTIPLE_ACTIVE_DESTINATIONS, RiskSignalKind_UNSUPPORTED_ASSET_NETWORK]"

definition isRiskLevel :: "json option \<Rightarrow> bool" where
  "isRiskLevel v = is_one_of riskLevelValues v"

definition isRiskSignalKindArray :: "json option \<Rightarrow> bool" where
  "isRiskSignalKindArray v =
     (case v of Some (JArr xs) \<Rightarrow> list_all (\<lambda>x. is_one_of riskSignalKindValues (Some x)) xs | _ \<Rightarrow> False)"

definition isJsonObject :: "json option \<Rightarrow> bool" where
  "isJsonObject v = (case v of Some (JObj _) \<Rightarrow> True | _ \<Rightarrow> False)"

definition isCandidatePlatformArray :: "json option \<Rightarrow> bool" where
  "isCandidatePlatformArray v =
     (case v of
        Some (JArr xs) \<Rightarrow> list_all (\<lambda>x. isJsonObject (Some x) \<and> is_string (j_get x ''id'') \<and>
          is_string (j_get x ''slug'') \<and> is_string (j_get x ''displayName'')) xs
      | _ \<Rightarrow> False)"

definition isResolveResponse :: "json option \<Rightarrow> bool" where
  "isResolveResponse value =
     (case value of
        None \<Rightarrow> False
      | Some v \<Rightarrow> isJsonObject value \<and> isLookupDirection (j_get v ''lookupDirection'') \<and>
          isDisclosureMode (j_get v ''disclosureMode'') \<and> isNullableString (j_get v ''recipientDisplayName'') \<and>
          isNullableString (j_get v ''platform'') \<and> isNullableString (j_get v ''address'') \<and>
          isNullableString (j_get v ''chain'') \<and> isNullableString (j_get v ''asset'') \<and>
          is_boolean (j_get v ''verified'') \<and> isNullableString (j_get v ''expiresAt'') \<and>
          isRiskLevel (j_get v ''riskLevel'') \<and> isRiskSignalKindArray (j_get v ''flags'') \<and>
          is_string (j_get v ''recommendation''))"

definition isConfirmResponse :: "json option \<Rightarrow> bool" where
  "isConfirmResponse value =
     (case value of
        None \<Rightarrow> False
      | Some v \<Rightarrow> isJsonObject value \<and> isLookupDirection (j_get v ''lookupDirection'') \<and>
          isDisclosureMode (j_get v ''disclosureMode'') \<and> is_boolean (j_get v ''confirmed'') \<and>
          is_boolean (j_get v ''verified'') \<and> isNullableString (j_get v ''recipientDisplayName'') \<and>
          isNullableString (j_get v ''platform'') \<and> isNullableString (j_get v ''chain'') \<and>
          isNullableString (j_get v ''asset'') \<and> isNullableString (j_get v ''expiresAt'') \<and>
          isRiskLevel (j_get v ''riskLevel'') \<and> isRiskSignalKindArray (j_get v ''flags'') \<and>
          is_string (j_get v ''recommendation'') \<and>
          (j_get v ''requiresPlatformSelection'' = None \<or> is_boolean (j_get v ''requiresPlatformSelection'')) \<and>
          (j_get v ''candidatePlatforms'' = None \<or> isCandidatePlatformArray (j_get v ''candidatePlatforms'')))"

definition isVerifyResponse :: "json option \<Rightarrow> bool" where
  "isVerifyResponse value =
     (case value of
        None \<Rightarrow> False
      | Some v \<Rightarrow> isJsonObject value \<and> isLookupDirection (j_get v ''lookupDirection'') \<and>
          isDisclosureMode (j_get v ''disclosureMode'') \<and> is_boolean (j_get v ''match'') \<and>
          is_boolean (j_get v ''verified'') \<and> isNullableString (j_get v ''recipientDisplayName'') \<and>
          isNullableString (j_get v ''platform'') \<and> isRiskLevel (j_get v ''riskLevel'') \<and>
          isRiskSignalKindArray (j_get v ''flags'') \<and> is_string (j_get v ''recommendation''))"

section \<open>The request log\<close>

record ResolutionRecord =
  rl_queryType :: QueryType
  rl_requesterPartnerId :: ident
  rl_resolutionBatchRunId :: "ident option"
  rl_recipientIdentifier :: string
  rl_recipientIdentifierNormalized :: string
  rl_platformInput :: "string option"
  rl_chainInput :: string
  rl_assetInput :: string
  rl_address :: "string option"
  rl_normalizedAddress :: "string option"
  rl_idempotencyKey :: "string option"
  rl_requestFingerprint :: "string option"
  rl_retentionExpiresAt :: "time option"
  rl_responseData :: "json option"
  rl_metadata :: "json option"
  rl_lookup :: LookupResult

definition request_row :: "time \<Rightarrow> ident \<Rightarrow> ResolutionRecord \<Rightarrow> ResolutionRequest" where
  "request_row now i params =
     (let lookup = rl_lookup params in
      \<lparr>rr_id = i, rr_queryType = rl_queryType params, rr_requesterPartnerId = Some (rl_requesterPartnerId params),
       rr_resolutionBatchRunId = rl_resolutionBatchRunId params,
       rr_recipientIdentifierInput = rl_recipientIdentifier params,
       rr_recipientIdentifierNormalized = rl_recipientIdentifierNormalized params,
       rr_platformInput = rl_platformInput params, rr_chainInput = rl_chainInput params,
       rr_assetInput = rl_assetInput params, rr_providedAddressRaw = rl_address params,
       rr_providedAddressNormalized = rl_normalizedAddress params,
       rr_resolvedRecipientId = lu_recipientId lookup, rr_resolvedIdentifierId = lu_identifierId lookup,
       rr_resolvedDestinationId = lu_destinationId lookup, rr_resolvedAttestationId = lu_attestationId lookup,
       rr_outcome = lu_outcome lookup, rr_riskLevel = lu_riskLevel lookup,
       rr_recommendation = Some (lu_recommendation lookup),
       rr_flags = map name_RiskSignalKind (lu_flags lookup), rr_clientReference = None,
       rr_idempotencyKey = (if falsy (rl_idempotencyKey params) then None else rl_idempotencyKey params),
       rr_requestFingerprint = (if falsy (rl_requestFingerprint params) then None else rl_requestFingerprint params),
       rr_requestedAt = now, rr_respondedAt = Some now,
       rr_retentionExpiresAt = rl_retentionExpiresAt params, rr_responseData = rl_responseData params,
       rr_metadata = rl_metadata params\<rparr>)"

definition risk_signal :: "env \<Rightarrow> time \<Rightarrow> ident \<Rightarrow> RiskLevel \<Rightarrow> RiskSignalKind \<Rightarrow> nat \<Rightarrow> RiskSignal" where
  "risk_signal E now requestId severity kind n =
     \<lparr>rs_id = cuid E n, rs_resolutionRequestId = requestId, rs_kind = kind, rs_severity = severity,
      rs_details = None, rs_createdAt = now\<rparr>"

text \<open>
  The log row and a risk signal for each flag.  The schema has no unique key on the idempotency key,
  so the insert is never refused and the fallback of the handlers for \<open>P2002\<close> is not reached.
\<close>

definition recordResolutionRequest :: "env \<Rightarrow> time \<Rightarrow> ResolutionRecord \<Rightarrow> db \<Rightarrow> ident \<times> db" where
  "recordResolutionRequest E now params s =
     (let (i, s1) = fresh E s;
          s2 = s1\<lparr>resolutionRequests := resolutionRequests s1 @ [request_row now i params]\<rparr>;
          flags = lu_flags (rl_lookup params); n = length flags
      in
      if n > 0 then
        (i, s2\<lparr>riskSignals := riskSignals s2 @ map2 (risk_signal E now i (lu_riskLevel (rl_lookup params))) flags
                  [nextId s2 ..< nextId s2 + n],
               nextId := nextId s2 + n\<rparr>)
      else (i, s2))"

section \<open>Idempotency\<close>

definition buildRequestFingerprint ::
    "env \<Rightarrow> QueryType \<Rightarrow> string option \<Rightarrow> string \<Rightarrow> string \<Rightarrow> string \<Rightarrow> string \<Rightarrow> string option \<Rightarrow> string" where
  "buildRequestFingerprint E queryType platform recipientIdentifier chain assetCode assetSymbol address =
     sha256_hex E (join_with ''|''
       [name_QueryType queryType, or_else platform [], recipientIdentifier, chain, assetCode, assetSymbol,
        or_else address []])"

definition findStoredIdempotentRequest ::
    "ident \<Rightarrow> QueryType \<Rightarrow> string option \<Rightarrow> string \<Rightarrow> db \<Rightarrow> ResolutionRequest option result" where
  "findStoredIdempotentRequest partnerId queryType idempotencyKey requestFingerprint s =
     (if falsy idempotencyKey then Inr None
      else
        case List.find (\<lambda>r. rr_requesterPartnerId r = Some partnerId \<and> rr_queryType r = queryType \<and>
               rr_idempotencyKey r = idempotencyKey) (resolutionRequests s) of
          None \<Rightarrow> Inr None
        | Some storedRequest \<Rightarrow>
            if rr_requestFingerprint storedRequest \<noteq> Some requestFingerprint
            then Inl (Conflict ''Idempotency-Key was already used for a different resolution request.'')
            else Inr (Some storedRequest))"

definition getStoredResponse ::
    "QueryType \<Rightarrow> (json option \<Rightarrow> bool) \<Rightarrow> string \<Rightarrow> ident \<Rightarrow> string option \<Rightarrow> string \<Rightarrow> db \<Rightarrow> json option result" where
  "getStoredResponse queryType valid invalidMessage partnerId idempotencyKey requestFingerprint s =
     rbind (findStoredIdempotentRequest partnerId queryType idempotencyKey requestFingerprint s) (\<lambda>stored.
       case stored of
         None \<Rightarrow> Inr None
       | Some r \<Rightarrow> if \<not> valid (rr_responseData r) then Inl (InternalError invalidMessage)
                   else Inr (rr_responseData r))"

definition getStoredResolveResponse :: "ident \<Rightarrow> string option \<Rightarrow> string \<Rightarrow> db \<Rightarrow> json option result" where
  "getStoredResolveResponse =
     getStoredResponse QueryType_RESOLVE isResolveResponse ''Stored resolve idempotency response is invalid.''"

definition getStoredConfirmResponse :: "ident \<Rightarrow> string option \<Rightarrow> string \<Rightarrow> db \<Rightarrow> json option result" where
  "getStoredConfirmResponse =
     getStoredResponse QueryType_CONFIRM_ADDRESS isConfirmResponse ''Stored confirm idempotency response is invalid.''"

definition getStoredVerifyResponse :: "ident \<Rightarrow> string option \<Rightarrow> string \<Rightarrow> db \<Rightarrow> json option result" where
  "getStoredVerifyResponse =
     getStoredResponse QueryType_VERIFY_ADDRESS isVerifyResponse ''Stored verify idempotency response is invalid.''"

section \<open>Blocked lookups\<close>

definition resolutionLookupThrottledMessage :: string where
  "resolutionLookupThrottledMessage = ''Resolution lookup temporarily throttled.''"

definition blocked_lookup :: "BlockedLookup \<Rightarrow> LookupResult" where
  "blocked_lookup d =
     unverified ResolutionOutcome_BLOCKED (bl_riskLevel d) (bl_recommendation d) (bl_flags d)"

definition blocked_event :: "AuthenticatedPartner \<Rightarrow> BlockedLookup \<Rightarrow> ident \<Rightarrow> RecordAuditEventInput" where
  "blocked_event p d requestId =
     \<lparr>ai_actorType = AuditActorType_PARTNER, ai_actorPartnerId = Some (ap_partnerId p),
      ai_subjectPartnerId = Some (ap_partnerId p), ai_actorIdentifier = Some (ap_partnerSlug p),
      ai_action = (if bl_reason d = enumeration then ''resolution.lookup.blocked.enumeration''
                   else ''resolution.lookup.blocked.rate_limit''),
      ai_entityType = ''ResolutionRequest'', ai_entityId = requestId,
      ai_summary = Some (if bl_reason d = enumeration then ''Blocked resolution lookup due to anti-enumeration control.''
                         else ''Blocked resolution lookup due to rate limiting.''),
      ai_metadata = Some (bl_metadata d)\<rparr>"

text \<open>\<open>params\<close> carries the query, the inputs and the addresses; the rest is set here.\<close>

definition blockResolutionLookup ::
    "env \<Rightarrow> time \<Rightarrow> AuthenticatedPartner \<Rightarrow> ResolutionRecord \<Rightarrow> BlockedLookup \<Rightarrow> db \<Rightarrow> json result \<times> db" where
  "blockResolutionLookup E now p params d s =
     (let retentionExpiresAt = buildRetentionExpiresAt now (getPartnerPrivacySettings E (ap_partnerId p) s);
          (i, s1) = recordResolutionRequest E now
            (params\<lparr>rl_requesterPartnerId := ap_partnerId p, rl_resolutionBatchRunId := None,
                    rl_idempotencyKey := None, rl_requestFingerprint := None,
                    rl_retentionExpiresAt := retentionExpiresAt, rl_responseData := None,
                    rl_metadata := Some (bl_metadata d), rl_lookup := blocked_lookup d\<rparr>) s
      in (Inl (TooManyRequests resolutionLookupThrottledMessage),
          recordEvent E now (blocked_event p d i) s1))"

section \<open>Single lookups\<close>

record ResolutionRequestContext =
  rx_authenticatedPartner :: AuthenticatedPartner
  rx_idempotencyKey :: "string option"

definition rx_partnerId :: "ResolutionRequestContext \<Rightarrow> ident" where
  "rx_partnerId ctx = ap_partnerId (rx_authenticatedPartner ctx)"

text \<open>
  What the three handlers share after their inputs are normalised: answer a repeated key with the
  stored response, apply the limits, look up, record, answer.  \<open>params\<close> is the log row without
  response, \<open>answer\<close> the lookup recorded, the response and its metadata.
\<close>

definition serveLookup ::
    "env \<Rightarrow> time \<Rightarrow> ResolutionRequestContext \<Rightarrow> (ident \<Rightarrow> string option \<Rightarrow> string \<Rightarrow> db \<Rightarrow> json option result) \<Rightarrow>
     string \<Rightarrow> ResolutionRecord \<Rightarrow> LookupParams \<Rightarrow> string \<Rightarrow>
     (LookupResult \<times> json \<times> json \<times> string) result \<Rightarrow> db \<Rightarrow> json result \<times> db" where
  "serveLookup E now ctx getStored requestFingerprint params limits blockedIdentifier answer s =
     (case getStored (rx_partnerId ctx) (rx_idempotencyKey ctx) requestFingerprint s of
        Inl e \<Rightarrow> (Inl e, s)
      | Inr (Some idempotentResponse) \<Rightarrow> (Inr idempotentResponse, s)
      | Inr None \<Rightarrow>
     (case evaluateResolutionLookup E now limits s of
        Inl e \<Rightarrow> (Inl e, s)
      | Inr (Blocked d) \<Rightarrow>
          blockResolutionLookup E now (rx_authenticatedPartner ctx) (params\<lparr>rl_recipientIdentifier := blockedIdentifier\<rparr>) d s
      | Inr Allowed \<Rightarrow>
     (case answer of
        Inl e \<Rightarrow> (Inl e, s)
      | Inr (lookup, response, metadata, recipientIdentifier) \<Rightarrow>
          (Inr response,
           snd (recordResolutionRequest E now
             (params\<lparr>rl_requesterPartnerId := rx_partnerId ctx, rl_recipientIdentifier := recipientIdentifier,
                     rl_idempotencyKey := rx_idempotencyKey ctx,
                     rl_requestFingerprint := Some requestFingerprint,
                     rl_retentionExpiresAt :=
                       buildRetentionExpiresAt now (getPartnerPrivacySettings E (rx_partnerId ctx) s),
                     rl_responseData := Some response, rl_metadata := Some metadata, rl_lookup := lookup\<rparr>) s)))))"

definition base_record ::
    "QueryType \<Rightarrow> string \<Rightarrow> string option \<Rightarrow> string \<Rightarrow> string \<Rightarrow> string option \<Rightarrow> string option \<Rightarrow> ResolutionRecord" where
  "base_record queryType recipientIdentifierNormalized platformInput chainInput assetInput address normalizedAddress =
     \<lparr>rl_queryType = queryType, rl_requesterPartnerId = [], rl_resolutionBatchRunId = None,
      rl_recipientIdentifier = [], rl_recipientIdentifierNormalized = recipientIdentifierNormalized,
      rl_platformInput = platformInput, rl_chainInput = chainInput, rl_assetInput = assetInput,
      rl_address = address, rl_normalizedAddress = normalizedAddress, rl_idempotencyKey = None,
      rl_requestFingerprint = None, rl_retentionExpiresAt = None, rl_responseData = None, rl_metadata = None,
      rl_lookup = unverified ResolutionOutcome_ERROR RiskLevel_HIGH [] []\<rparr>"

definition lookup_metadata :: "LookupDirection \<Rightarrow> LookupResult \<Rightarrow> string option \<Rightarrow> (string \<times> json) list" where
  "lookup_metadata direction lookup platform =
     [(''lookupDirection'', JStr (name_LookupDirection direction)),
      (''disclosureMode'', JStr (name_DisclosureMode (lu_disclosureMode lookup))),
      (''platform'', j_nullable platform)]"

record ResolveRecipientDto =
  dr_recipientIdentifier :: "string option"
  dr_recipientIdentifierEncrypted :: "EncryptedFieldEnvelope option"
  dr_chain :: string
  dr_asset :: string

definition resolve :: "env \<Rightarrow> time \<Rightarrow> ResolveRecipientDto \<Rightarrow> ResolutionRequestContext \<Rightarrow> db \<Rightarrow> json result \<times> db" where
  "resolve E now dto ctx s =
     (case rbind (readSensitiveInput E (getPartnerPolicy (rx_partnerId ctx) s) (dr_recipientIdentifier dto)
                    (dr_recipientIdentifierEncrypted dto) ''Recipient identifier'' (Some 128))
             (\<lambda>recipientIdentifier. normalizeLookupInput recipientIdentifier (dr_chain dto) (dr_asset dto)) of
        Inl e \<Rightarrow> (Inl e, s)
      | Inr input \<Rightarrow>
          let lookup = lookupVerifiedDestination E now input s in
          serveLookup E now ctx getStoredResolveResponse
            (buildRequestFingerprint E QueryType_RESOLVE None (li_recipientIdentifierNormalized input)
               (li_chainNormalized input) (li_assetCodeNormalized input) (li_assetSymbolNormalized input) None)
            (base_record QueryType_RESOLVE (li_recipientIdentifierNormalized input) None (li_chainInput input)
               (li_assetInput input) None None)
            \<lparr>lk_partnerId = rx_partnerId ctx, lk_queryType = QueryType_RESOLVE,
             lk_recipientIdentifierNormalized = Some (li_recipientIdentifierNormalized input),
             lk_providedAddressNormalized = None\<rparr>
            (li_recipientIdentifierInput input)
            (Inr (lookup, resolve_response lookup,
                  JObj (lookup_metadata FORWARD_LOOKUP lookup (lu_platform lookup)),
                  li_recipientIdentifierInput input)) s)"

record ConfirmRecipientDto =
  dc_platform :: "string option"
  dc_address :: "string option"
  dc_addressEncrypted :: "EncryptedFieldEnvelope option"
  dc_chain :: string
  dc_asset :: string

definition address_first :: string where
  "address_first = ''Address-first lookup''"

definition confirmAddress ::
    "env \<Rightarrow> time \<Rightarrow> ConfirmRecipientDto \<Rightarrow> ResolutionRequestContext \<Rightarrow> db \<Rightarrow> json result \<times> db" where
  "confirmAddress E now dto ctx s =
     (case rbind (readSensitiveInput E (getPartnerPolicy (rx_partnerId ctx) s) (dc_address dto)
                    (dc_addressEncrypted dto) ''Address'' (Some 200))
             (\<lambda>address. normalizeConfirmInput (dc_platform dto) (dc_chain dto) (dc_asset dto) address) of
        Inl e \<Rightarrow> (Inl e, s)
      | Inr input \<Rightarrow>
          let lookup = lookupRecipientConfirmation E now input s in
          serveLookup E now ctx getStoredConfirmResponse
            (buildRequestFingerprint E QueryType_CONFIRM_ADDRESS (ci_platformNormalized input) []
               (ci_chainNormalized input) (ci_assetCodeNormalized input) (ci_assetSymbolNormalized input)
               (Some (ci_addressNormalized input)))
            (base_record QueryType_CONFIRM_ADDRESS [] (ci_platformInput input) (ci_chainInput input)
               (ci_assetInput input) (Some (ci_addressInput input)) (Some (ci_addressNormalized input)))
            \<lparr>lk_partnerId = rx_partnerId ctx, lk_queryType = QueryType_CONFIRM_ADDRESS,
             lk_recipientIdentifierNormalized = None,
             lk_providedAddressNormalized = Some (ci_addressNormalized input)\<rparr>
            (or_else (ci_platformInput input) address_first)
            (Inr (lookup, confirm_response lookup,
                  JObj (lookup_metadata REVERSE_LOOKUP lookup
                    (case lu_platform lookup of Some v \<Rightarrow> Some v | None \<Rightarrow> ci_platformNormalized input)),
                  or_else (lu_recipientDisplayName lookup) (or_else (ci_platformInput input) address_first))) s)"

record VerifyDestinationDto =
  dv_recipientIdentifier :: "string option"
  dv_recipientIdentifierEncrypted :: "EncryptedFieldEnvelope option"
  dv_address :: "string option"
  dv_addressEncrypted :: "EncryptedFieldEnvelope option"
  dv_chain :: string
  dv_asset :: string

text \<open>The lookup recorded by \<open>verify\<close>: a mismatch whenever the addresses did not match.\<close>

definition recorded_verification :: "LookupResult \<Rightarrow> AddressComparison \<Rightarrow> LookupResult" where
  "recorded_verification lookup c =
     lookup\<lparr>lu_outcome := (if cm_match c then lu_outcome lookup else ResolutionOutcome_MISMATCH),
            lu_riskLevel := cm_riskLevel c, lu_recommendation := cm_recommendation c, lu_flags := cm_flags c\<rparr>"

definition verify_input ::
    "env \<Rightarrow> VerifyDestinationDto \<Rightarrow> ident \<Rightarrow> db \<Rightarrow> (NormalizedLookupInput \<times> string \<times> string) result" where
  "verify_input E dto partnerId s =
     (let policy = getPartnerPolicy partnerId s in
      rbind (readSensitiveInput E policy (dv_recipientIdentifier dto) (dv_recipientIdentifierEncrypted dto)
               ''Recipient identifier'' (Some 128)) (\<lambda>recipientIdentifier.
      rbind (readSensitiveInput E policy (dv_address dto) (dv_addressEncrypted dto) ''Address'' (Some 200)) (\<lambda>address.
      rbind (normalizeLookupInput recipientIdentifier (dv_chain dto) (dv_asset dto)) (\<lambda>input.
      rbind (normalizeAddress (li_chainNormalized input) address) (\<lambda>normalizedAddress.
        Inr (input, address, normalizedAddress))))))"

definition verify :: "env \<Rightarrow> time \<Rightarrow> VerifyDestinationDto \<Rightarrow> ResolutionRequestContext \<Rightarrow> db \<Rightarrow> json result \<times> db" where
  "verify E now dto ctx s =
     (case verify_input E dto (rx_partnerId ctx) s of
        Inl e \<Rightarrow> (Inl e, s)
      | Inr (input, address, normalizedAddress) \<Rightarrow>
          let lookup = lookupVerifiedDestination E now input s in
          serveLookup E now ctx getStoredVerifyResponse
            (buildRequestFingerprint E QueryType_VERIFY_ADDRESS None (li_recipientIdentifierNormalized input)
               (li_chainNormalized input) (li_assetCodeNormalized input) (li_assetSymbolNormalized input)
               (Some normalizedAddress))
            (base_record QueryType_VERIFY_ADDRESS (li_recipientIdentifierNormalized input) None (li_chainInput input)
               (li_assetInput input) (Some address) (Some normalizedAddress))
            \<lparr>lk_partnerId = rx_partnerId ctx, lk_queryType = QueryType_VERIFY_ADDRESS,
             lk_recipientIdentifierNormalized = Some (li_recipientIdentifierNormalized input),
             lk_providedAddressNormalized = None\<rparr>
            (li_recipientIdentifierInput input)
            (rbind (compareAddress (li_chainNormalized input) normalizedAddress lookup) (\<lambda>c.
               Inr (recorded_verification lookup c, verify_response lookup c,
                    JObj (lookup_metadata TRANSFER_VERIFICATION lookup (lu_platform lookup) @
                      [(''resolutionContext'', JStr ''RECIPIENT_CONTEXT'')]),
                    li_recipientIdentifierInput input))) s)"

end
