(* ===== verification/Resolution_Batch.thy ===== *)
theory Resolution_Batch
  imports Resolution
begin

text \<open>
  The rest of \<open>backend/src/resolution/resolution.service.ts\<close>: the batch of verifications
  (\<open>batchVerify\<close>) with the two evaluations of a row, the queries on the request log and the
  retention clean-up.
\<close>

section \<open>Evaluating a row\<close>

record VerifyEvaluation =
  ve_lookup :: LookupResult
  ve_lookupInput :: NormalizedLookupInput
  ve_normalizedAddress :: string
  ve_match :: bool
  ve_response :: json

text \<open>The lookup of a row: a mismatch only where there was an attested address to differ from.\<close>

definition compared_lookup :: "LookupResult \<Rightarrow> AddressComparison \<Rightarrow> LookupResult" where
  "compared_lookup lookup c =
     lookup\<lparr>lu_outcome := (if falsy (lu_address lookup) \<or> cm_match c then lu_outcome lookup
                            else ResolutionOutcome_MISMATCH),
            lu_riskLevel := cm_riskLevel c, lu_recommendation := cm_recommendation c, lu_flags := cm_flags c\<rparr>"

definition evaluateVerifyLookup ::
    "env \<Rightarrow> time \<Rightarrow> string \<Rightarrow> string \<Rightarrow> string \<Rightarrow> string \<Rightarrow> db \<Rightarrow> VerifyEvaluation result" where
  "evaluateVerifyLookup E now recipientIdentifier chain asset address s =
     rbind (normalizeLookupInput recipientIdentifier chain asset) (\<lambda>lookupInput.
     rbind (normalizeAddress (li_chainNormalized lookupInput) address) (\<lambda>normalizedAddress.
       let lookup = lookupVerifiedDestination E now lookupInput s in
       rbind (compareAddress (li_chainNormalized lookupInput) normalizedAddress lookup) (\<lambda>c.
         Inr \<lparr>ve_lookup = compared_lookup lookup c, ve_lookupInput = lookupInput,
              ve_normalizedAddress = normalizedAddress, ve_match = cm_match c,
              ve_response = verify_response lookup c\<rparr>)))"

record ConfirmEvaluation =
  ce_lookup :: LookupResult
  ce_lookupInput :: NormalizedConfirmInput
  ce_response :: json

definition evaluateConfirmLookup ::
    "env \<Rightarrow> time \<Rightarrow> string \<Rightarrow> string \<Rightarrow> string \<Rightarrow> string \<Rightarrow> db \<Rightarrow> ConfirmEvaluation result" where
  "evaluateConfirmLookup E now platform chain asset address s =
     rbind (normalizeConfirmInput (Some platform) chain asset address) (\<lambda>lookupInput.
       let lookup = lookupRecipientConfirmation E now lookupInput s in
       Inr \<lparr>ce_lookup = lookup, ce_lookupInput = lookupInput, ce_response = confirm_response lookup\<rparr>)"

section \<open>The batch\<close>

datatype BatchLookupMode = BY_RECIPIENT | BY_ADDRESS | MIXED

fun name_BatchLookupMode :: "BatchLookupMode \<Rightarrow> string" where
  "name_BatchLookupMode BY_RECIPIENT = ''BY_RECIPIENT''"
| "name_BatchLookupMode BY_ADDRESS = ''BY_ADDRESS''"
| "name_BatchLookupMode MIXED = ''MIXED''"

record BatchVerifyRowDto =
  bv_clientReference :: "string option"
  bv_lookupMode :: "string option"
  bv_recipientIdentifier :: "string option"
  bv_recipientIdentifierEncrypted :: "EncryptedFieldEnvelope option"
  bv_platform :: "string option"
  bv_address :: "string option"
  bv_addressEncrypted :: "EncryptedFieldEnvelope option"

record BatchVerifyDto =
  bd_inputFormat :: ResolutionBatchInputFormat
  bd_chain :: string
  bd_asset :: string
  bd_lookupMode :: "string option"
  bd_stopOnFirstHighRisk :: "bool option"
  bd_requireExactAttestedMatch :: "bool option"
  bd_rows :: "BatchVerifyRowDto list"

definition readBatchLookupMode :: "string option \<Rightarrow> BatchLookupMode" where
  "readBatchLookupMode value =
     (if value = Some ''BY_ADDRESS'' then BY_ADDRESS
      else if value = Some ''MIXED'' then MIXED else BY_RECIPIENT)"

definition resolveBatchRowLookupMode :: "BatchLookupMode \<Rightarrow> string option \<Rightarrow> BatchLookupMode" where
  "resolveBatchRowLookupMode batchLookupMode rowLookupMode =
     (if batchLookupMode = MIXED
      then (if rowLookupMode = Some ''BY_ADDRESS'' then BY_ADDRESS else BY_RECIPIENT)
      else if batchLookupMode = BY_ADDRESS then BY_ADDRESS else BY_RECIPIENT)"

definition blank :: "string option \<Rightarrow> bool" where
  "blank v = falsy (map_option js_trim v)"

fun assertBatchLookupRequirements :: "BatchLookupMode \<Rightarrow> BatchVerifyRowDto list \<Rightarrow> unit result" where
  "assertBatchLookupRequirements lookupMode [] = Inr ()"
| "assertBatchLookupRequirements lookupMode (row # rows) =
     (let rowLookupMode = resolveBatchRowLookupMode lookupMode (bv_lookupMode row) in
      if rowLookupMode = BY_RECIPIENT \<and> blank (bv_recipientIdentifier row) \<and>
         bv_recipientIdentifierEncrypted row = None
      then Inl (BadRequest ''Recipient-based batch rows require a recipient identifier.'')
      else if blank (bv_address row) \<and> bv_addressEncrypted row = None
      then Inl (BadRequest ''Batch rows require an address.'')
      else if rowLookupMode = BY_ADDRESS \<and> blank (bv_platform row)
      then Inl (BadRequest ''Address-based batch rows require a platform.'')
      else assertBatchLookupRequirements lookupMode rows)"

record BatchVerifyRowResponse =
  ro_clientReference :: "string option"
  ro_lookupMode :: BatchLookupMode
  ro_platform :: "string option"
  ro_recipientIdentifier :: "string option"
  ro_submittedAddress :: string
  ro_match :: bool
  ro_verified :: bool
  ro_recipientDisplayName :: "string option"
  ro_disclosureMode :: "DisclosureMode option"
  ro_riskLevel :: RiskLevel
  ro_flags :: "RiskSignalKind list"
  ro_recommendation :: string

definition batch_row_json :: "BatchVerifyRowResponse \<Rightarrow> json" where
  "batch_row_json r =
     JObj [(''clientReference'', j_nullable (ro_clientReference r)),
       (''lookupMode'', JStr (name_BatchLookupMode (ro_lookupMode r))), (''platform'', j_nullable (ro_platform r)),
       (''recipientIdentifier'', j_nullable (ro_recipientIdentifier r)),
       (''submittedAddress'', JStr (ro_submittedAddress r)), (''match'', JBool (ro_match r)),
       (''verified'', JBool (ro_verified r)), (''recipientDisplayName'', j_nullable (ro_recipientDisplayName r)),
       (''disclosureMode'', j_nullable (map_option name_DisclosureMode (ro_disclosureMode r))),
       (''riskLevel'', JStr (name_RiskLevel (ro_riskLevel r))), (''flags'', flags_json (ro_flags r)),
       (''recommendation'', JStr (ro_recommendation r))]"

text \<open>What a row leaves in the variables of the loop: its answer, what the counters and the audit read.\<close>

record BatchRowResult =
  wr_response :: BatchVerifyRowResponse
  wr_outcome :: ResolutionOutcome
  wr_riskLevel :: RiskLevel
  wr_flags :: "RiskSignalKind list"
  wr_recommendation :: string
  wr_requestId :: ident
  wr_recipientIdentifierInput :: "string option"

record BatchContext =
  bc_batchRunId :: ident
  bc_lookupMode :: BatchLookupMode
  bc_retentionExpiresAt :: "time option"
  bc_dto :: BatchVerifyDto
  bc_partner :: AuthenticatedPartner

definition insert_batch_row ::
    "env \<Rightarrow> time \<Rightarrow> BatchContext \<Rightarrow> nat \<Rightarrow> BatchVerifyRowDto \<Rightarrow> string \<Rightarrow> BatchVerifyRowResponse \<Rightarrow>
     ResolutionOutcome \<Rightarrow> json \<Rightarrow> db \<Rightarrow> db" where
  "insert_batch_row E now ctx index row recipientIdentifierInput rowResponse outcome responseData s =
     (let (i, s1) = fresh E s in
      s1\<lparr>batchRows := batchRows s1 @
        [\<lparr>bw_id = i, bw_batchRunId = bc_batchRunId ctx, bw_rowIndex = int index,
          bw_clientReference = trim_or_null (bv_clientReference row),
          bw_recipientIdentifierInput = recipientIdentifierInput,
          bw_submittedAddressRaw = ro_submittedAddress rowResponse, bw_outcome = outcome,
          bw_riskLevel = ro_riskLevel rowResponse, bw_recommendation = Some (ro_recommendation rowResponse),
          bw_flags = map name_RiskSignalKind (ro_flags rowResponse),
          bw_retentionExpiresAt = bc_retentionExpiresAt ctx, bw_responseData = Some responseData,
          bw_createdAt = now\<rparr>]\<rparr>)"

definition with_lookup_mode :: "json \<Rightarrow> BatchLookupMode \<Rightarrow> json" where
  "with_lookup_mode response mode =
     (case response of
        JObj entries \<Rightarrow> JObj (entries @ [(''lookupMode'', JStr (name_BatchLookupMode mode))]) | j \<Rightarrow> j)"

definition batch_record ::
    "BatchContext \<Rightarrow> BatchLookupMode \<Rightarrow> LookupDirection \<Rightarrow> string \<Rightarrow> string \<Rightarrow> string option \<Rightarrow> string \<Rightarrow> string \<Rightarrow>
     string \<Rightarrow> json \<Rightarrow> LookupResult \<Rightarrow> ResolutionRecord" where
  "batch_record ctx mode direction recipientIdentifier recipientIdentifierNormalized platformInput address
     normalizedAddress requestFingerprint response lookup =
     \<lparr>rl_queryType = QueryType_BATCH_VERIFY, rl_requesterPartnerId = ap_partnerId (bc_partner ctx),
      rl_resolutionBatchRunId = Some (bc_batchRunId ctx), rl_recipientIdentifier = recipientIdentifier,
      rl_recipientIdentifierNormalized = recipientIdentifierNormalized, rl_platformInput = platformInput,
      rl_chainInput = js_trim (bd_chain (bc_dto ctx)), rl_assetInput = js_trim (bd_asset (bc_dto ctx)),
      rl_address = Some address, rl_normalizedAddress = Some normalizedAddress, rl_idempotencyKey = None,
      rl_requestFingerprint = Some requestFingerprint, rl_retentionExpiresAt = bc_retentionExpiresAt ctx,
      rl_responseData = Some response,
      rl_metadata = Some (JObj ((''lookupMode'', JStr (name_BatchLookupMode mode)) #
        lookup_metadata direction lookup (lu_platform lookup))),
      rl_lookup = lookup\<rparr>"

definition processed_row ::
    "BatchVerifyRowDto \<Rightarrow> BatchLookupMode \<Rightarrow> string option \<Rightarrow> string \<Rightarrow> bool \<Rightarrow> bool \<Rightarrow> LookupResult \<Rightarrow>
     BatchVerifyRowResponse" where
  "processed_row row mode recipientIdentifier address matched verified lookup =
     \<lparr>ro_clientReference = trim_or_null (bv_clientReference row), ro_lookupMode = mode,
      ro_platform = lu_platform lookup, ro_recipientIdentifier = recipientIdentifier,
      ro_submittedAddress = address, ro_match = matched, ro_verified = verified,
      ro_recipientDisplayName = lu_recipientDisplayName lookup,
      ro_disclosureMode = Some (lu_disclosureMode lookup), ro_riskLevel = lu_riskLevel lookup,
      ro_flags = lu_flags lookup, ro_recommendation = lu_recommendation lookup\<rparr>"

definition row_result ::
    "BatchVerifyRowResponse \<Rightarrow> LookupResult \<Rightarrow> ident \<Rightarrow> string option \<Rightarrow> BatchRowResult" where
  "row_result rowResponse lookup requestId recipientIdentifierInput =
     \<lparr>wr_response = rowResponse, wr_outcome = lu_outcome lookup, wr_riskLevel = lu_riskLevel lookup,
      wr_flags = lu_flags lookup, wr_recommendation = lu_recommendation lookup, wr_requestId = requestId,
      wr_recipientIdentifierInput = recipientIdentifierInput\<rparr>"

text \<open>The \<open>catch\<close>: the row is answered and stored as an error, the batch goes on.\<close>

definition failed_row ::
    "env \<Rightarrow> time \<Rightarrow> BatchContext \<Rightarrow> nat \<Rightarrow> BatchVerifyRowDto \<Rightarrow> string option \<Rightarrow> string \<Rightarrow> http_error \<Rightarrow> db \<Rightarrow>
     BatchRowResult \<times> db" where
  "failed_row E now ctx index row recipientIdentifierInput addressInput error s =
     (let rowResponse =
            \<lparr>ro_clientReference = trim_or_null (bv_clientReference row),
             ro_lookupMode = resolveBatchRowLookupMode (bc_lookupMode ctx) (bv_lookupMode row),
             ro_platform = map_option js_trim (bv_platform row),
             ro_recipientIdentifier = recipientIdentifierInput, ro_submittedAddress = addressInput,
             ro_match = False, ro_verified = False, ro_recipientDisplayName = None, ro_disclosureMode = None,
             ro_riskLevel = RiskLevel_HIGH, ro_flags = [RiskSignalKind_ADDRESS_MISMATCH],
             ro_recommendation = error_message error\<rparr>
      in (\<lparr>wr_response = rowResponse, wr_outcome = ResolutionOutcome_ERROR, wr_riskLevel = RiskLevel_HIGH,
           wr_flags = [RiskSignalKind_ADDRESS_MISMATCH], wr_recommendation = ''invalid_request'',
           wr_requestId = [], wr_recipientIdentifierInput = recipientIdentifierInput\<rparr>,
          insert_batch_row E now ctx index row
            (if falsy recipientIdentifierInput then or_else (map_option js_trim (bv_platform row)) []
             else or_else recipientIdentifierInput [])
            rowResponse ResolutionOutcome_ERROR (batch_row_json rowResponse) s))"

definition row_label :: "nat \<Rightarrow> string \<Rightarrow> string" where
  "row_label index what = ''Batch row '' @ show_nat (index + 1) @ what"

definition verify_row ::
    "env \<Rightarrow> time \<Rightarrow> BatchContext \<Rightarrow> nat \<Rightarrow> BatchVerifyRowDto \<Rightarrow> string \<Rightarrow> string \<Rightarrow> VerifyEvaluation \<Rightarrow> db \<Rightarrow>
     BatchRowResult \<times> db" where
  "verify_row E now ctx index row identifier address ev s =
     (let input = ve_lookupInput ev; lookup = ve_lookup ev;
          fingerprint = buildRequestFingerprint E QueryType_BATCH_VERIFY None (li_recipientIdentifierNormalized input)
            (li_chainNormalized input) (li_assetCodeNormalized input) (li_assetSymbolNormalized input)
            (Some (ve_normalizedAddress ev));
          (requestId, s1) = recordResolutionRequest E now
            (batch_record ctx BY_RECIPIENT TRANSFER_VERIFICATION identifier (li_recipientIdentifierNormalized input)
               None address (ve_normalizedAddress ev) fingerprint (ve_response ev) lookup) s;
          rowResponse = processed_row row BY_RECIPIENT (Some identifier) address (ve_match ev)
            (lu_verified lookup \<and> ve_match ev) lookup
      in (row_result rowResponse lookup requestId (Some identifier),
          insert_batch_row E now ctx index row identifier rowResponse (lu_outcome lookup)
            (with_lookup_mode (ve_response ev) BY_RECIPIENT) s1))"

definition confirm_row ::
    "env \<Rightarrow> time \<Rightarrow> BatchContext \<Rightarrow> nat \<Rightarrow> BatchVerifyRowDto \<Rightarrow> string option \<Rightarrow> string \<Rightarrow> string \<Rightarrow>
     ConfirmEvaluation \<Rightarrow> db \<Rightarrow> BatchRowResult \<times> db" where
  "confirm_row E now ctx index row recipientIdentifierInput platform address ev s =
     (let input = ce_lookupInput ev; lookup = ce_lookup ev;
          fingerprint = buildRequestFingerprint E QueryType_BATCH_VERIFY (ci_platformNormalized input) []
            (ci_chainNormalized input) (ci_assetCodeNormalized input) (ci_assetSymbolNormalized input)
            (Some (ci_addressNormalized input));
          (requestId, s1) = recordResolutionRequest E now
            (batch_record ctx BY_ADDRESS REVERSE_LOOKUP (or_else (lu_recipientDisplayName lookup) platform) []
               (Some platform) address (ci_addressNormalized input) fingerprint (ce_response ev) lookup) s;
          rowResponse = processed_row row BY_ADDRESS None address (lu_verified lookup) (lu_verified lookup) lookup
      in (row_result rowResponse lookup requestId recipientIdentifierInput,
          insert_batch_row E now ctx index row platform rowResponse (lu_outcome lookup)
            (with_lookup_mode (ce_response ev) BY_ADDRESS) s1))"

text \<open>The \<open>try\<close> of the loop; nothing is written before its last failure.\<close>

definition process_row ::
    "env \<Rightarrow> time \<Rightarrow> BatchContext \<Rightarrow> nat \<Rightarrow> BatchVerifyRowDto \<Rightarrow> db \<Rightarrow> BatchRowResult \<times> db" where
  "process_row E now ctx index row s =
     (let policy = getPartnerPolicy (ap_partnerId (bc_partner ctx)) s;
          chain = bd_chain (bc_dto ctx); asset = bd_asset (bc_dto ctx);
          recipient0 = (case trim_or_null (bv_recipientIdentifier row) of
              Some v \<Rightarrow> Some v
            | None \<Rightarrow> if bv_recipientIdentifierEncrypted row \<noteq> None
                      then Some ''[encrypted recipient identifier]'' else None);
          address0 = describeSubmittedSensitiveValue (bv_address row) (bv_addressEncrypted row)
            ''[encrypted address]'' []
      in
      case readSensitiveInput E policy (bv_address row) (bv_addressEncrypted row) (row_label index '' address'')
             (Some 200) of
        Inl e \<Rightarrow> failed_row E now ctx index row recipient0 address0 e s
      | Inr address \<Rightarrow>
          if resolveBatchRowLookupMode (bc_lookupMode ctx) (bv_lookupMode row) = BY_RECIPIENT then
            (case readSensitiveInput E policy (bv_recipientIdentifier row) (bv_recipientIdentifierEncrypted row)
                    (row_label index '' recipient identifier'') (Some 160) of
               Inl e \<Rightarrow> failed_row E now ctx index row recipient0 address e s
             | Inr identifier \<Rightarrow>
                 (case evaluateVerifyLookup E now identifier chain asset address s of
                    Inl e \<Rightarrow> failed_row E now ctx index row (Some identifier) address e s
                  | Inr ev \<Rightarrow> verify_row E now ctx index row identifier address ev s))
          else
            (case trim_or_null (bv_platform row) of
               None \<Rightarrow> failed_row E now ctx index row recipient0 address
                 (BadRequest ''Address-based batch rows require a platform.'') s
             | Some platform \<Rightarrow>
                 (case evaluateConfirmLookup E now platform chain asset address s of
                    Inl e \<Rightarrow> failed_row E now ctx index row recipient0 address e s
                  | Inr ev \<Rightarrow> confirm_row E now ctx index row recipient0 platform address ev s)))"

record BatchCounts =
  bt_verified :: nat
  bt_warning :: nat
  bt_blocked :: nat
  bt_unsupported :: nat

definition high_risk :: "RiskLevel \<Rightarrow> bool" where
  "high_risk r \<longleftrightarrow> r = RiskLevel_HIGH \<or> r = RiskLevel_CRITICAL"

definition count_row :: "BatchRowResult \<Rightarrow> BatchCounts \<Rightarrow> BatchCounts" where
  "count_row w c =
     (if ro_verified (wr_response w) then c\<lparr>bt_verified := bt_verified c + 1\<rparr>
      else if wr_recommendation w = ''unsupported_asset_network''
      then c\<lparr>bt_unsupported := bt_unsupported c + 1\<rparr>
      else if high_risk (wr_riskLevel w) then c\<lparr>bt_blocked := bt_blocked c + 1\<rparr>
      else c\<lparr>bt_warning := bt_warning c + 1\<rparr>)"

definition row_event :: "BatchContext \<Rightarrow> nat \<Rightarrow> BatchRowResult \<Rightarrow> RecordAuditEventInput" where
  "row_event ctx index w =
     (let p = bc_partner ctx in
      \<lparr>ai_actorType = AuditActorType_PARTNER, ai_actorPartnerId = Some (ap_partnerId p),
       ai_subjectPartnerId = Some (ap_partnerId p), ai_actorIdentifier = Some (ap_actorIdentifier p),
       ai_action = ''resolution.batch.row_processed'',
       ai_entityType = (if wr_requestId w \<noteq> [] then ''ResolutionRequest'' else ''ResolutionBatchRow''),
       ai_entityId = (if wr_requestId w \<noteq> [] then wr_requestId w
                      else bc_batchRunId ctx @ '':'' @ show_nat index),
       ai_summary = Some (''Processed batch verification row '' @ show_nat (index + 1) @ ''.''),
       ai_metadata = Some (JObj [(''batchRunId'', JStr (bc_batchRunId ctx)), (''rowIndex'', JNum (int index)),
         (''recipientIdentifier'', j_nullable (wr_recipientIdentifierInput w)),
         (''outcome'', JStr (name_ResolutionOutcome (wr_outcome w))),
         (''riskLevel'', JStr (name_RiskLevel (wr_riskLevel w))), (''flags'', flags_json (wr_flags w))])\<rparr>)"

text \<open>The loop; \<open>acc\<close> holds the results so far.\<close>

fun process_rows ::
    "env \<Rightarrow> time \<Rightarrow> BatchContext \<Rightarrow> nat \<Rightarrow> BatchVerifyRowDto list \<Rightarrow> BatchRowResult list \<times> BatchCounts \<Rightarrow> db \<Rightarrow>
     (BatchRowResult list \<times> BatchCounts) \<times> db" where
  "process_rows E now ctx index [] acc s = (acc, s)"
| "process_rows E now ctx index (row # rows) (done, counts) s =
     (let (w, s1) = process_row E now ctx index row s;
          s2 = recordEvent E now (row_event ctx index w) s1;
          acc = (done @ [w], count_row w counts)
      in if bd_stopOnFirstHighRisk (bc_dto ctx) = Some True \<and> high_risk (wr_riskLevel w) then (acc, s2)
         else process_rows E now ctx (Suc index) rows acc s2)"

definition new_batch_run ::
    "time \<Rightarrow> ident \<Rightarrow> AuthenticatedPartner \<Rightarrow> BatchVerifyDto \<Rightarrow> string \<Rightarrow> string \<Rightarrow> ResolutionBatchRun" where
  "new_batch_run now i p dto normalizedChain normalizedAssetSymbol =
     \<lparr>br_id = i, br_partnerId = ap_partnerId p, br_requestedByUserId = ap_partnerUserId p,
      br_inputFormat = bd_inputFormat dto, br_chainInput = normalizedChain, br_assetInput = normalizedAssetSymbol,
      br_stopOnFirstHighRisk = or_else (bd_stopOnFirstHighRisk dto) False,
      br_requireExactAttestedMatch = or_else (bd_requireExactAttestedMatch dto) True,
      br_rowCount = int (length (bd_rows dto)), br_verifiedCount = 0, br_warningCount = 0,
      br_blockedCount = 0, br_unsupportedCount = 0, br_durationMs = None, br_createdAt = now,
      br_completedAt = None\<rparr>"

definition complete_batch_run :: "time \<Rightarrow> time \<Rightarrow> ident \<Rightarrow> BatchCounts \<Rightarrow> db \<Rightarrow> db" where
  "complete_batch_run now finished i c s =
     s\<lparr>batchRuns := update_where (\<lambda>r. br_id r = i)
        (\<lambda>r. r\<lparr>br_verifiedCount := int (bt_verified c), br_warningCount := int (bt_warning c),
               br_blockedCount := int (bt_blocked c), br_unsupportedCount := int (bt_unsupported c),
               br_durationMs := Some (finished - now), br_completedAt := Some finished\<rparr>) (batchRuns s)\<rparr>"

record BatchVerifyResponse =
  bo_batchRunId :: ident
  bo_inputFormat :: ResolutionBatchInputFormat
  bo_lookupMode :: BatchLookupMode
  bo_chain :: string
  bo_asset :: string
  bo_totalRows :: nat
  bo_counts :: BatchCounts
  bo_rows :: "BatchVerifyRowResponse list"

text \<open>\<open>now\<close> is read when the batch starts, \<open>finished\<close> when its last row is done.\<close>

definition batchVerify ::
    "env \<Rightarrow> time \<Rightarrow> time \<Rightarrow> BatchVerifyDto \<Rightarrow> ResolutionRequestContext \<Rightarrow> db \<Rightarrow> BatchVerifyResponse result \<times> db" where
  "batchVerify E now finished dto requestContext s =
     (let p = rx_authenticatedPartner requestContext;
          configuredMaxRows = RESOLUTION_BATCH_MAX_ROWS (cfg E);
          lookupMode = readBatchLookupMode (bd_lookupMode dto)
      in
      if bd_rows dto = [] then (Inl (BadRequest ''At least one batch verification row is required.''), s)
      else if int (length (bd_rows dto)) > configuredMaxRows
      then (Inl (BadRequest (''Batch verification supports at most '' @ show_int configuredMaxRows @ '' rows.'')), s)
      else
        case rbind (assertBatchLookupRequirements lookupMode (bd_rows dto)) (\<lambda>_.
             rbind (normalizeChain (bd_chain dto)) (\<lambda>normalizedChain.
             rbind (normalizeAssetSymbol (bd_asset dto)) (\<lambda>normalizedAssetSymbol.
               Inr (normalizedChain, normalizedAssetSymbol)))) of
          Inl e \<Rightarrow> (Inl e, s)
        | Inr (normalizedChain, normalizedAssetSymbol) \<Rightarrow>
            let (i, s1) = fresh E s;
                s2 = s1\<lparr>batchRuns := batchRuns s1 @ [new_batch_run now i p dto normalizedChain normalizedAssetSymbol]\<rparr>;
                ctx = \<lparr>bc_batchRunId = i, bc_lookupMode = lookupMode,
                       bc_retentionExpiresAt = buildRetentionExpiresAt now (getPartnerPrivacySettings E (ap_partnerId p) s),
                       bc_dto = dto, bc_partner = p\<rparr>;
                ((done, counts), s3) = process_rows E now ctx 0 (bd_rows dto)
                  ([], \<lparr>bt_verified = 0, bt_warning = 0, bt_blocked = 0, bt_unsupported = 0\<rparr>) s2
            in (Inr \<lparr>bo_batchRunId = i, bo_inputFormat = bd_inputFormat dto, bo_lookupMode = lookupMode,
                     bo_chain = js_trim (bd_chain dto), bo_asset = js_trim (bd_asset dto),
                     bo_totalRows = length done, bo_counts = counts, bo_rows = map wr_response done\<rparr>,
                complete_batch_run now finished i counts s3))"

section \<open>The request log\<close>

definition readStringFromJsonObject :: "json option \<Rightarrow> string \<Rightarrow> string option" where
  "readStringFromJsonObject value key =
     (if \<not> isJsonObject value then None
      else case value of
        None \<Rightarrow> None
      | Some v \<Rightarrow> (case j_get v key of Some (JStr x) \<Rightarrow> Some x | _ \<Rightarrow> None))"

definition resolveLookupDirection :: "QueryType \<Rightarrow> json option \<Rightarrow> string" where
  "resolveLookupDirection queryType metadata =
     (let metadataDirection = readStringFromJsonObject metadata ''lookupDirection'' in
      if isLookupDirection (map_option JStr metadataDirection) then or_else metadataDirection []
      else case queryType of
        QueryType_CONFIRM_ADDRESS \<Rightarrow> ''REVERSE_LOOKUP''
      | QueryType_VERIFY_ADDRESS \<Rightarrow> ''TRANSFER_VERIFICATION''
      | _ \<Rightarrow> ''FORWARD_LOOKUP'')"

definition readDisclosureMode :: "json option \<Rightarrow> json option \<Rightarrow> string" where
  "readDisclosureMode responseData metadata =
     (let responseDisclosureMode = readStringFromJsonObject responseData ''disclosureMode'';
          metadataDisclosureMode = readStringFromJsonObject metadata ''disclosureMode'' in
      if isDisclosureMode (map_option JStr responseDisclosureMode) then or_else responseDisclosureMode []
      else if isDisclosureMode (map_option JStr metadataDisclosureMode) then or_else metadataDisclosureMode []
      else ''VERIFICATION_ONLY'')"

record ListResolutionLogsDto =
  lr_queryType :: "QueryType option"
  lr_outcome :: "ResolutionOutcome option"
  lr_riskLevel :: "RiskLevel option"
  lr_chain :: "string option"
  lr_asset :: "string option"
  lr_recipientIdentifier :: "string option"
  lr_platform :: "string option"
  lr_limit :: nat

text \<open>A filter on a normalised column; an absent or empty parameter does not filter.\<close>

definition normalized_in :: "string option \<Rightarrow> (string \<Rightarrow> string list result) \<Rightarrow> (string \<Rightarrow> bool) result" where
  "normalized_in v values =
     (if falsy v then Inr (\<lambda>_. True) else rbind (values (or_else v [])) (\<lambda>vs. Inr (\<lambda>x. x \<in> set vs)))"

definition asset_spellings :: "string \<Rightarrow> string list result" where
  "asset_spellings asset =
     rbind (normalizeAssetCode asset) (\<lambda>code. rbind (normalizeAssetSymbol asset) (\<lambda>symbol.
       Inr [code, symbol, js_trim asset]))"

definition log_fields :: "ResolutionRequest \<Rightarrow> (string \<times> json) list" where
  "log_fields log =
     [(''id'', JStr (rr_id log)), (''queryType'', JStr (name_QueryType (rr_queryType log))),
      (''outcome'', JStr (name_ResolutionOutcome (rr_outcome log))),
      (''riskLevel'', JStr (name_RiskLevel (rr_riskLevel log))),
      (''recommendation'', j_nullable (rr_recommendation log)), (''flags'', JArr (map JStr (rr_flags log))),
      (''lookupDirection'', JStr (resolveLookupDirection (rr_queryType log) (rr_metadata log))),
      (''disclosureMode'', JStr (readDisclosureMode (rr_responseData log) (rr_metadata log))),
      (''requestedAt'', j_time (rr_requestedAt log)), (''respondedAt'', j_iso_nullable (rr_respondedAt log))]"

definition matching_logs :: "ident \<Rightarrow> ListResolutionLogsDto \<Rightarrow> db \<Rightarrow> ResolutionRequest list result" where
  "matching_logs partnerId params s =
     rbind (normalized_in (lr_chain params) (\<lambda>v. map_sum id (\<lambda>x. [x]) (normalizeChain v))) (\<lambda>chainOk.
     rbind (normalized_in (lr_asset params) asset_spellings) (\<lambda>assetOk.
     rbind (normalized_in (lr_recipientIdentifier params) (\<lambda>v. map_sum id (\<lambda>x. [x]) (normalizeIdentifier v)))
       (\<lambda>identifierOk.
     rbind (if falsy (lr_platform params) then Inr None
            else map_sum id Some (normalizePartnerSlug (or_else (lr_platform params) []))) (\<lambda>platform.
       Inr (take (lr_limit params) (order_desc rr_requestedAt (filter (\<lambda>log.
         rr_requesterPartnerId log = Some partnerId \<and>
         filter_eq (lr_queryType params) (rr_queryType log) \<and> filter_eq (lr_outcome params) (rr_outcome log) \<and>
         filter_eq (lr_riskLevel params) (rr_riskLevel log) \<and> chainOk (rr_chainInput log) \<and>
         assetOk (rr_assetInput log) \<and> identifierOk (rr_recipientIdentifierNormalized log) \<and>
         (platform = None \<or> rr_platformInput log = platform)) (resolutionRequests s))))))))"

definition listResolutionLogs :: "ident \<Rightarrow> ListResolutionLogsDto \<Rightarrow> db \<Rightarrow> json list result" where
  "listResolutionLogs partnerId params s =
     rbind (matching_logs partnerId params s) (\<lambda>logs. Inr (map (\<lambda>log. JObj (log_fields log @
       [(''recipientIdentifier'', JStr (rr_recipientIdentifierInput log)),
        (''platform'', j_nullable (rr_platformInput log)), (''chain'', JStr (rr_chainInput log)),
        (''asset'', JStr (rr_assetInput log)), (''providedAddress'', j_nullable (rr_providedAddressRaw log))])) logs))"

definition joined_json :: "('a \<Rightarrow> json) \<Rightarrow> ('a \<Rightarrow> ident) \<Rightarrow> ident option \<Rightarrow> 'a list \<Rightarrow> json" where
  "joined_json view key i rows =
     (case i of None \<Rightarrow> JNull
      | Some v \<Rightarrow> (case List.find (\<lambda>r. key r = v) rows of None \<Rightarrow> JNull | Some r \<Rightarrow> view r))"

definition getResolutionLog :: "ident \<Rightarrow> ident \<Rightarrow> db \<Rightarrow> json option" where
  "getResolutionLog partnerId requestId s =
     map_option (\<lambda>log. JObj (log_fields log @
       [(''recipientIdentifierInput'', JStr (rr_recipientIdentifierInput log)),
        (''recipientIdentifierNormalized'', JStr (rr_recipientIdentifierNormalized log)),
        (''platformInput'', j_nullable (rr_platformInput log)), (''chainInput'', JStr (rr_chainInput log)),
        (''assetInput'', JStr (rr_assetInput log)), (''providedAddressRaw'', j_nullable (rr_providedAddressRaw log)),
        (''providedAddressNormalized'', j_nullable (rr_providedAddressNormalized log)),
        (''responseData'', or_else (rr_responseData log) JNull), (''metadata'', or_else (rr_metadata log) JNull),
        (''resolvedRecipient'', joined_json (\<lambda>r. JObj [(''id'', JStr (rc_id r)),
           (''externalRecipientId'', JStr (rc_externalRecipientId r)), (''displayName'', j_nullable (rc_displayName r))])
           rc_id (rr_resolvedRecipientId log) (recipients s)),
        (''resolvedIdentifier'', joined_json (\<lambda>r. JObj [(''id'', JStr (id_id r)), (''rawValue'', JStr (id_rawValue r)),
           (''normalizedValue'', JStr (id_normalizedValue r)), (''kind'', JStr (name_IdentifierKind (id_kind r)))])
           id_id (rr_resolvedIdentifierId log) (identifiers s)),
        (''resolvedDestination'', joined_json (\<lambda>r. JObj [(''id'', JStr (de_id r)),
           (''addressRaw'', JStr (de_addressRaw r)), (''addressNormalized'', JStr (de_addressNormalized r)),
           (''memoValue'', JStr (de_memoValue r)), (''status'', JStr (name_DestinationStatus (de_status r)))])
           de_id (rr_resolvedDestinationId log) (destinations s)),
        (''resolvedAttestation'', joined_json (\<lambda>r. JObj [(''id'', JStr (at_id r)),
           (''attestationType'', JStr (name_AttestationType (at_attestationType r))),
           (''verificationStatus'', JStr (name_VerificationStatus (at_verificationStatus r))),
           (''issuedAt'', j_time (at_issuedAt r)), (''expiresAt'', j_iso_nullable (at_expiresAt r))])
           at_id (rr_resolvedAttestationId log) (attestations s)),
        (''riskSignals'', JArr (map (\<lambda>g. JObj [(''kind'', JStr (name_RiskSignalKind (rs_kind g))),
           (''severity'', JStr (name_RiskLevel (rs_severity g))), (''details'', or_else (rs_details g) JNull),
           (''createdAt'', j_time (rs_createdAt g))])
           (filter (\<lambda>g. rs_resolutionRequestId g = requestId) (riskSignals s))))]))
       (List.find (\<lambda>log. rr_id log = requestId \<and> rr_requesterPartnerId log = Some partnerId) (resolutionRequests s))"

section \<open>Retention\<close>

definition retention_over :: "time \<Rightarrow> time \<Rightarrow> time option \<Rightarrow> time \<Rightarrow> bool" where
  "retention_over now cutoff retentionExpiresAt at =
     (case retentionExpiresAt of Some t \<Rightarrow> t \<le> now | None \<Rightarrow> at < cutoff)"

text \<open>The deletes; the risk signals of a deleted request go with it.\<close>

definition cleanupHistoricalResolutionRequests :: "time \<Rightarrow> time \<Rightarrow> db \<Rightarrow> nat \<times> db" where
  "cleanupHistoricalResolutionRequests now retentionMs s =
     (let cutoff = now - retentionMs;
          rowOver = (\<lambda>r. retention_over now cutoff (bw_retentionExpiresAt r) (bw_createdAt r));
          requestOver = (\<lambda>r. retention_over now cutoff (rr_retentionExpiresAt r) (rr_requestedAt r));
          deleted = rr_id ` set (filter requestOver (resolutionRequests s))
      in (count_where rowOver (batchRows s) + count_where requestOver (resolutionRequests s),
          s\<lparr>batchRows := delete_where rowOver (batchRows s),
            resolutionRequests := delete_where requestOver (resolutionRequests s),
            riskSignals := delete_where (\<lambda>g. rs_resolutionRequestId g \<in> deleted) (riskSignals s)\<rparr>))"

end
