(* ===== verification/Payout_Lookup.thy ===== *)
theory Payout_Lookup
  imports Directory Resolution_Batch
begin

text \<open>
  The forward lookup read on the abstract directory: which address a payer is given, when, and why.
  \<open>lookupVerifiedDestination\<close> is shown to answer from the directory alone, never with more than one
  candidate, and an address a partner attested is shown to be what the next lookup answers.
\<close>

section \<open>The lookup over the directory\<close>

text \<open>What the answer says about the destination.\<close>

definition shown_payout :: "LookupResult \<Rightarrow> (string \<times> ident \<times> string option) option" where
  "shown_payout r =
     (case (lu_address r, lu_destinationId r) of
        (Some a, Some i) \<Rightarrow> Some (a, i, lu_expiresAt r) | _ \<Rightarrow> None)"

definition payout_view :: "payout \<Rightarrow> string \<times> ident \<times> string option" where
  "payout_view po = (po_address po, po_destinationId po, map_option toISOString (po_until po))"

definition lookup_slot :: "env \<Rightarrow> NormalizedLookupInput \<Rightarrow> db \<Rightarrow> slot option" where
  "lookup_slot E input s =
     (case findResolvableIdentifier E (li_recipientIdentifierNormalized input) s of
        None \<Rightarrow> None
      | Some (identifier, r, p) \<Rightarrow>
          map_option (\<lambda>net. (id_recipientId identifier, an_id (fst net)))
            (findAssetNetworkForLookup (li_chainNormalized input) (li_assetCodeNormalized input)
               (li_assetSymbolNormalized input) s))"

lemma unverified_fields [simp]:
  "lu_verified (unverified o' l r f) = False" "lu_address (unverified o' l r f) = None"
  "lu_outcome (unverified o' l r f) = o'" "lu_riskLevel (unverified o' l r f) = l"
  "lu_recommendation (unverified o' l r f) = r" "lu_flags (unverified o' l r f) = f"
  "lu_destinationId (unverified o' l r f) = None"
  by (simp_all add: unverified_def)

lemma disclosed_fields [simp]:
  "lu_verified (disclosed d p r) = lu_verified r" "lu_address (disclosed d p r) = lu_address r"
  "lu_outcome (disclosed d p r) = lu_outcome r" "lu_riskLevel (disclosed d p r) = lu_riskLevel r"
  "lu_recommendation (disclosed d p r) = lu_recommendation r" "lu_flags (disclosed d p r) = lu_flags r"
  "lu_destinationId (disclosed d p r) = lu_destinationId r" "lu_expiresAt (disclosed d p r) = lu_expiresAt r"
  by (simp_all add: disclosed_def)

lemma resolved_fields_shown [simp]:
  "lu_verified (resolved_lookup d net i a) = True" "lu_outcome (resolved_lookup d net i a) = ResolutionOutcome_RESOLVED"
  "lu_riskLevel (resolved_lookup d net i a) = RiskLevel_LOW"
  "lu_destinationId (resolved_lookup d net i a) = Some (de_id d)"
  "lu_expiresAt (resolved_lookup d net i a) = map_option toISOString (de_expiresAt d)"
  "lu_recommendation (resolved_lookup d net i a) = ''safe_to_send''" "lu_flags (resolved_lookup d net i a) = []"
  by (simp_all add: resolved_lookup_def)

lemma lookup_on_directory:
  assumes ok: "destinations_ok E s"
  shows "shown_payout (lookupVerifiedDestination E now input s) =
           Option.bind (lookup_slot E input s) (\<lambda>k. map_option payout_view (payable now (directory_of s) k))"
    and "lu_verified (lookupVerifiedDestination E now input s) \<longleftrightarrow>
           shown_payout (lookupVerifiedDestination E now input s) \<noteq> None"
    and "lu_outcome (lookupVerifiedDestination E now input s) \<noteq> ResolutionOutcome_AMBIGUOUS"
    and "lu_outcome (lookupVerifiedDestination E now input s) = ResolutionOutcome_RESOLVED \<longleftrightarrow>
           lu_verified (lookupVerifiedDestination E now input s)"
    and "lu_address (lookupVerifiedDestination E now input s) =
           map_option fst (shown_payout (lookupVerifiedDestination E now input s))"
    and "lu_recommendation (lookupVerifiedDestination E now input s) = ''safe_to_send'' \<longleftrightarrow>
           lu_verified (lookupVerifiedDestination E now input s)"
    and "lu_riskLevel (lookupVerifiedDestination E now input s) =
           (if lu_verified (lookupVerifiedDestination E now input s) then RiskLevel_LOW else RiskLevel_HIGH)"
proof -
  let ?r = "lookupVerifiedDestination E now input s"
  have "shown_payout ?r = Option.bind (lookup_slot E input s) (\<lambda>k. map_option payout_view (payable now (directory_of s) k)) \<and>
      (lu_verified ?r \<longleftrightarrow> shown_payout ?r \<noteq> None) \<and> lu_outcome ?r \<noteq> ResolutionOutcome_AMBIGUOUS \<and>
      (lu_outcome ?r = ResolutionOutcome_RESOLVED \<longleftrightarrow> lu_verified ?r) \<and>
      lu_address ?r = map_option fst (shown_payout ?r) \<and>
      (lu_recommendation ?r = ''safe_to_send'' \<longleftrightarrow> lu_verified ?r) \<and>
      lu_riskLevel ?r = (if lu_verified ?r then RiskLevel_LOW else RiskLevel_HIGH)"
  proof (cases "findResolvableIdentifier E (li_recipientIdentifierNormalized input) s")
    case None
    then show ?thesis by (simp add: lookupVerifiedDestination_def lookup_slot_def shown_payout_def)
  next
    case (Some row)
    then obtain idr q p where
      i: "findResolvableIdentifier E (li_recipientIdentifierNormalized input) s = Some (idr, q, p)"
      by (metis prod_cases3)
    show ?thesis
    proof (cases "findAssetNetworkForLookup (li_chainNormalized input) (li_assetCodeNormalized input)
               (li_assetSymbolNormalized input) s")
      case None
      with i show ?thesis by (simp add: lookupVerifiedDestination_def lookup_slot_def shown_payout_def Let_def)
    next
      case net: (Some net)
      note unfold = lookupVerifiedDestination_def lookup_slot_def shown_payout_def Let_def i net
      from active_destinations [OF ok, of "id_recipientId idr" "an_id (fst net)" now] show ?thesis
      proof (elim disjE exE conjE)
        assume "getActiveDestinations (id_recipientId idr) (an_id (fst net)) now s = []"
          "payable now (directory_of s) (id_recipientId idr, an_id (fst net)) = None"
        then show ?thesis by (simp add: unfold)
      next
        fix d assume "getActiveDestinations (id_recipientId idr) (an_id (fst net)) now s = [d]"
          "payable now (directory_of s) (id_recipientId idr, an_id (fst net)) = Some (payout_of d)"
        then show ?thesis by (simp add: unfold payout_view_def payout_of_def)
      qed
    qed
  qed
  then show "shown_payout ?r = Option.bind (lookup_slot E input s) (\<lambda>k. map_option payout_view (payable now (directory_of s) k))"
    "lu_verified ?r \<longleftrightarrow> shown_payout ?r \<noteq> None" "lu_outcome ?r \<noteq> ResolutionOutcome_AMBIGUOUS"
    "lu_outcome ?r = ResolutionOutcome_RESOLVED \<longleftrightarrow> lu_verified ?r"
    "lu_address ?r = map_option fst (shown_payout ?r)" "lu_recommendation ?r = ''safe_to_send'' \<longleftrightarrow> lu_verified ?r"
    "lu_riskLevel ?r = (if lu_verified ?r then RiskLevel_LOW else RiskLevel_HIGH)" by - (elim conjE, assumption)+
qed


text \<open>C4: a payer is answered from the directory.  After any sequence of operations, the lookup shows an
  address exactly when the directory those operations build has one in force for the recipient and
  network asked for, and then that address with its id and expiry; it never finds several candidates.\<close>

theorem lookup_answers_from_directory:
  assumes "directory_run E s0 ops s" and "inj (cuid E)" and "destinations_ok E s0"
  shows "shown_payout (lookupVerifiedDestination E now input s) =
           Option.bind (lookup_slot E input s)
             (\<lambda>k. map_option payout_view (payable now (fold apply_op ops (directory_of s0)) k)) \<and>
         (lu_verified (lookupVerifiedDestination E now input s) \<longleftrightarrow>
            shown_payout (lookupVerifiedDestination E now input s) \<noteq> None) \<and>
         (lu_outcome (lookupVerifiedDestination E now input s) = ResolutionOutcome_RESOLVED \<longleftrightarrow>
            lu_verified (lookupVerifiedDestination E now input s)) \<and>
         lu_outcome (lookupVerifiedDestination E now input s) \<noteq> ResolutionOutcome_AMBIGUOUS"
proof -
  have ok: "destinations_ok E s" and dir: "directory_of s = fold apply_op ops (directory_of s0)"
    using directory_run_effect [OF assms] by simp_all
  show ?thesis using lookup_on_directory(1-4) [OF ok, of now input] unfolding dir by (intro conjI) assumption+
qed

section \<open>What an attestation makes the lookup answer\<close>

definition recipients_ok :: "env \<Rightarrow> db \<Rightarrow> bool" where
  "recipients_ok E s \<longleftrightarrow> distinct (map rc_id (recipients s)) \<and> drawn E (nextId s) (map rc_id (recipients s))"

context keyed_upsert
begin

lemma put_at: "\<lbrakk>r \<in> set (put rows); key r = k\<rbrakk> \<Longrightarrow> r = new \<or> (\<exists>q. r = upd q)"
  by (auto simp: put_def upsert_by_def set_update_where find_None_iff split: if_splits)

end

lemma recipient_put:
  assumes "upsertRecipient E now P s = (r, s1)"
  shows "recipients s1 = recipient_upsert.put (ur_partnerId P, js_trim (ur_externalRecipientId P)) now
      (trim_or_null (ur_displayName P)) (sealOptionalString E (nextId s) (trim_or_null (ur_displayName P)))
      (cuid E (Suc (nextId s))) None (recipients s)"
    and "List.find (\<lambda>x. recipient_key x = (ur_partnerId P, js_trim (ur_externalRecipientId P))) (recipients s1) = Some r"
proof -
  let ?k = "(ur_partnerId P, js_trim (ur_externalRecipientId P))"
  show rows: "recipients s1 = recipient_upsert.put ?k now
      (trim_or_null (ur_displayName P)) (sealOptionalString E (nextId s) (trim_or_null (ur_displayName P)))
      (cuid E (Suc (nextId s))) None (recipients s)"
    using arg_cong [where f = "\<lambda>x. recipients (snd x)", OF assms] unfolding recipient_upsert.put_def
    by (simp add: upsertRecipient_def fresh_def Let_def)
  obtain q where q: "List.find (\<lambda>x. recipient_key x = ?k) (recipients s1) = Some q"
    unfolding rows recipient_upsert.put_find by blast
  have "r = upserted (\<lambda>x. recipient_key x = ?k) (recipient_create now (cuid E (Suc (nextId s))) (fst ?k) (snd ?k)
      (trim_or_null (ur_displayName P)) (sealOptionalString E (nextId s) (trim_or_null (ur_displayName P))) None) (recipients s1)"
    using arg_cong [where f = fst, OF assms] unfolding rows recipient_upsert.put_def
    by (simp add: upsertRecipient_def fresh_def Let_def)
  with q show "List.find (\<lambda>x. recipient_key x = ?k) (recipients s1) = Some r" by (simp add: upserted_def)
qed

lemma upserted_recipient_found:
  assumes "upsertRecipient E now P s = (r, s1)" and ok: "recipients_ok E s" and inj: "inj (cuid E)"
  shows "List.find (\<lambda>x. rc_id x = rc_id r) (recipients s1) = Some r" "rc_status r = RecipientStatus_ACTIVE"
    "rc_partnerId r = ur_partnerId P"
proof -
  define k where "k = (ur_partnerId P, js_trim (ur_externalRecipientId P))"
  define d where "d = trim_or_null (ur_displayName P)"
  define c where "c = sealOptionalString E (nextId s) d"
  define i where "i = cuid E (Suc (nextId s))"
  define rows where "rows = recipient_upsert.put k now d c i None (recipients s)"
  note put = recipient_put [OF assms(1)]
  have rows1: "recipients s1 = rows" using put(1) by (simp add: k_def d_def c_def i_def rows_def)
  have found: "List.find (\<lambda>x. recipient_key x = k) rows = Some r" using put(2) rows1 by (simp add: k_def)
  then have r_in: "r \<in> set rows" and key: "recipient_key r = k" by (auto dest!: find_SomeD)
  then have "r = recipient_create now i (fst k) (snd k) d c None \<or> (\<exists>q. r = recipient_update now d c q)"
    unfolding rows_def by (rule recipient_upsert.put_at)
  then show "rc_status r = RecipientStatus_ACTIVE" by (auto simp: recipient_create_def recipient_update_def)
  show "rc_partnerId r = ur_partnerId P" using key by (simp add: recipient_key_def k_def)
  have new: "i \<notin> set (map rc_id (recipients s))"
    unfolding i_def by (rule drawn_fresh [OF _ inj]) (use ok in \<open>auto simp: recipients_ok_def\<close>)
  have kept: "rc_id (recipient_update now d c q) = rc_id q" for q by (simp add: recipient_update_def)
  have "map rc_id rows = map rc_id (recipients s) \<or> map rc_id rows = map rc_id (recipients s) @ [i]"
    unfolding rows_def recipient_upsert.put_def upsert_by_def
    by (simp add: map_update_where kept recipient_create_def split: option.split)
  then have "distinct (map rc_id rows)" using ok new by (auto simp: recipients_ok_def)
  then have "\<And>x. x \<in> set rows \<Longrightarrow> rc_id x = rc_id r \<Longrightarrow> x = r" using r_in by (auto simp: distinct_map inj_on_def)
  then show "List.find (\<lambda>x. rc_id x = rc_id r) (recipients s1) = Some r"
    unfolding rows1 by (intro find_unique) (use r_in in auto)
qed

text \<open>The identifier, once no other kind or partner spells it.\<close>

lemma upserted_identifier_resolves:
  assumes u: "upsertIdentifier E now P s = (Inr idrow, s1)" and n: "normalizeIdentifier (ui_value P) = Inr n"
    and own: "\<forall>i \<in> set (identifiers s). spells E n i \<longrightarrow> identifier_key i = (ui_partnerId P, ui_kind P, n)"
    and s': "identifiers s' = identifiers s1" "recipient_owner s' (ui_recipientId P) = Some (r, partner)"
    and active: "rc_status r = RecipientStatus_ACTIVE" "pa_status partner = PartnerStatus_ACTIVE"
  shows "\<exists>i. findResolvableIdentifier E n s' = Some (i, r, partner) \<and> id_recipientId i = ui_recipientId P"
proof -
  define k where "k = (ui_partnerId P, ui_kind P, n)"
  define c where "c = sealOptionalString E (nextId s) (Some (js_trim (ui_value P)))"
  define j where "j = cuid E (Suc (nextId s))"
  define rows where "rows = identifier_upsert.put k now (ui_recipientId P) (js_trim (ui_value P)) c
    (blindIndexOf E n) j IdentifierVisibility_RESOLVABLE (identifiers s)"
  have rows1: "identifiers s1 = rows"
    using u unfolding rows_def identifier_upsert.put_def
    by (auto simp: upsertIdentifier_def n fresh_def Let_def k_def c_def j_def)
  let ?Q = "\<lambda>i. id_status i = IdentifierStatus_ACTIVE \<and> id_visibility i = IdentifierVisibility_RESOLVABLE \<and>
    id_recipientId i = ui_recipientId P"
  have spelled: "?Q i" if "i \<in> set rows" "spells E n i" for i
  proof -
    have key: "identifier_key i = k"
      using that(1) own that(2) identifier_upsert.put_other [of i k now "ui_recipientId P" "js_trim (ui_value P)" c
        "blindIndexOf E n" j IdentifierVisibility_RESOLVABLE "identifiers s"] unfolding k_def rows_def by blast
    from identifier_upsert.put_at [OF that(1) [unfolded rows_def] key] show ?thesis
      by (auto simp: identifier_create_def identifier_update_def)
  qed
  obtain x where x0: "List.find (\<lambda>r. identifier_key r = k) rows = Some x"
    unfolding rows_def identifier_upsert.put_find by blast
  from find_SomeD [OF x0] have x: "x \<in> set rows" "identifier_key x = k" by blast+
  from x have "spells E n x" by (simp add: spells_def identifier_key_def k_def)
  define M where "M = (\<lambda>i. spells E n i \<and> id_status i = IdentifierStatus_ACTIVE \<and>
    id_visibility i = IdentifierVisibility_RESOLVABLE \<and>
    (case recipient_owner s' (id_recipientId i) of None \<Rightarrow> False
     | Some (r, p) \<Rightarrow> rc_status r = RecipientStatus_ACTIVE \<and> pa_status p = PartnerStatus_ACTIVE))"
  have "M x" using spelled [OF x(1) \<open>spells E n x\<close>] \<open>spells E n x\<close> s'(2) active by (simp add: M_def)
  then obtain i where i: "List.find M rows = Some i" using x(1) by (metis find_None_iff option.exhaust)
  then have "i \<in> set rows" "M i" by (auto dest: find_SomeD)
  then have r_id: "id_recipientId i = ui_recipientId P" using spelled unfolding M_def by blast
  have "findResolvableIdentifier E n s' = Some (i, r, partner)"
    using i s'(2) r_id by (simp add: findResolvableIdentifier_def s'(1) rows1 M_def spells_def Let_def)
  with r_id show ?thesis by blast
qed


lemma normalized_identifier:
  "normalizeAttestationFields E dto = Inr nf \<Longrightarrow> normalizeIdentifier (ra_recipientIdentifier dto) = Inr (nf_recipientIdentifier nf)"
  by (auto simp: normalizeAttestationFields_def rbind_def Let_def split: sum.splits)

lemma normalized_address:
  "normalizeAttestationFields E dto = Inr nf \<Longrightarrow>
     normalizeChain (ca_chain dto) = Inr (nf_chain nf) \<and> normalizeAddress (nf_chain nf) (ra_address dto) = Inr (nf_address nf)"
  by (auto simp: normalizeAttestationFields_def rbind_def Let_def split: sum.splits)

text \<open>No payout has an empty address.\<close>

definition directory_ok :: "directory \<Rightarrow> bool" where
  "directory_ok D \<longleftrightarrow> (\<forall>k po. D k = Some po \<longrightarrow> po_address po \<noteq> [])"

lemma normalizeAddress_blank: "normalizeAddress c [] \<noteq> Inr n"
  by (simp add: normalizeAddress_def requireTrimmed_def)

lemma step_publishes:
  assumes "directory_step E s (Publish k po) s'"
  shows "po_address po \<noteq> []"
  using assms
proof cases
  case (attest now dto p nonce ts r)
  then obtain g where r: "r = Inr (Ingested g)" and op: "Publish k po = attestation_op (last (attestations s'))"
    by (auto simp: submission_op_def split: sum.splits AttestationResponse.splits)
  from attest(2) [unfolded r] obtain dto' nf where nf: "normalizeAttestationFields E dto' = Inr nf"
    and a: "accept_attestation E now p nonce ts dto' nf s = (Inr (Ingested g), s')" by (rule createAttestation_Inr)
  from a obtain key ti s1 where "ingest E now p key dto' nf ti s1 = (Inr g, s')"
    by (cases rule: accept_cases) auto
  then obtain n asset chain recipient idrow s2 d s3 b where
    b: "b = new_attestation now (cuid E (nextId s3)) p key dto' nf ti recipient idrow (an_id n) d"
    and s': "s' = announce E now p dto' (rc_displayName recipient) b (n, asset, chain) d
       (s3\<lparr>nextId := Suc (nextId s3), attestations := attestations s3 @ [b]\<rparr>)"
    by (elim ingest_Inr) blast
  have "attestations s' = attestations s3 @ [b]"
    using arg_cong [where f = attestations, OF announce_tables(1) [of E now p dto' "rc_displayName recipient" b
      "(n, asset, chain)" d "s3\<lparr>nextId := Suc (nextId s3), attestations := attestations s3 @ [b]\<rparr>"]] by (simp add: s')
  then have "po_address po = ra_address dto'"
    using op by (simp add: b attestation_op_new attested_payout_def split: if_splits)
  with normalized_address [OF nf] normalizeAddress_blank show ?thesis by metis
qed (auto simp: revocation_op_def replacement_op_def split: option.splits sum.splits if_splits prod.splits)

lemma run_directory_ok: "\<lbrakk>directory_run E s ops s'; directory_ok D\<rbrakk> \<Longrightarrow> directory_ok (fold apply_op ops D)"
proof (induction rule: directory_run.induct)
  case (step s ops s1 op s2)
  then have "directory_ok (fold apply_op ops D)" by simp
  moreover have "directory_ok (apply_op op D')" if "directory_ok D'" for D'
    using that step_publishes [of E s1 _ _ s2] step(2)
    by (cases op) (auto simp: directory_ok_def split: option.splits if_splits)
  ultimately show ?case by simp
qed simp

lemma ingested_in_directory:
  assumes ok: "destinations_ok E s" and rec: "recipients_ok E s" and inj: "inj (cuid E)"
    and i: "ingest E now p key dto nf ti s = (Inr g, s')"
    and type: "ca_attestationType dto \<noteq> AttestationType_DESTINATION_REVOCATION"
    and n: "normalizeIdentifier (ra_recipientIdentifier dto) = Inr (nf_recipientIdentifier nf)"
    and net: "resolveAttestationCorridor dto nf s = Inr net"
    and partner: "partner_row s (ap_partnerId p) = Some partner" "pa_status partner = PartnerStatus_ACTIVE"
    and own: "\<forall>i \<in> set (identifiers s). spells E (nf_recipientIdentifier nf) i \<longrightarrow>
        identifier_key i = (ap_partnerId p, ca_identifierKind dto, nf_recipientIdentifier nf)"
  shows "\<exists>idr r j. findResolvableIdentifier E (nf_recipientIdentifier nf) s' = Some (idr, r, partner) \<and>
      directory_of s' (id_recipientId idr, an_id (fst net)) =
        Some (attested_payout ti (ra_address dto) (nf_address nf) (nf_memo nf) j)"
proof -
  obtain n asset chain recipient s1 idrow s2 d s3 a where
    net': "resolveAttestationCorridor dto nf s = Inr (n, asset, chain)"
    and r: "upsertRecipient E now \<lparr>ur_partnerId = ap_partnerId p,
       ur_externalRecipientId = ca_recipientExternalId dto, ur_displayName = ca_recipientDisplayName dto\<rparr> s = (recipient, s1)"
    and u: "upsertIdentifier E now \<lparr>ui_partnerId = ap_partnerId p, ui_recipientId = rc_id recipient,
       ui_kind = ca_identifierKind dto, ui_value = ra_recipientIdentifier dto\<rparr> s1 = (Inr idrow, s2)"
    and d: "applyDestinationAttestation E now dto (an_id n) (rc_id recipient) nf ti s2 = (Inr d, s3)"
    and a: "a = new_attestation now (cuid E (nextId s3)) p key dto nf ti recipient idrow (an_id n) d"
    and s': "s' = announce E now p dto (rc_displayName recipient) a (n, asset, chain) d
       (s3\<lparr>nextId := Suc (nextId s3), attestations := attestations s3 @ [a]\<rparr>)"
    using i by (elim ingest_Inr) blast
  let ?s4 = "s3\<lparr>nextId := Suc (nextId s3), attestations := attestations s3 @ [a]\<rparr>"
  note t1 = upsertRecipient_tables [OF r] and t2 = upsertIdentifier_tables [OF u]
    and t3 = applyDestination_tables [OF d, THEN conjunct1]
    and t4 = announce_tables(1) [of E now p dto "rc_displayName recipient" a "(n, asset, chain)" d ?s4, folded s']
  have tabs: "recipients s' = recipients s1" "identifiers s' = identifiers s2" "partners s' = partners s"
      "attestations s' = attestations s3 @ [a]" "identifiers s1 = identifiers s"
    using arg_cong [where f = recipients, OF t4] arg_cong [where f = identifiers, OF t4]
      arg_cong [where f = partners, OF t4] arg_cong [where f = attestations, OF t4]
      arg_cong [where f = recipients, OF t3] arg_cong [where f = identifiers, OF t3] arg_cong [where f = partners, OF t3]
      arg_cong [where f = recipients, OF t2] arg_cong [where f = partners, OF t2]
      arg_cong [where f = partners, OF t1] arg_cong [where f = identifiers, OF t1] by simp_all
  note found = upserted_recipient_found [OF r rec inj]
  have owner: "recipient_owner s' (rc_id recipient) = Some (recipient, partner)"
    using found(1,3) partner(1) by (simp add: recipient_owner_def recipient_row_def partner_row_def tabs)
  obtain idr where idr: "findResolvableIdentifier E (nf_recipientIdentifier nf) s' = Some (idr, recipient, partner)"
      "id_recipientId idr = rc_id recipient"
    using upserted_identifier_resolves [OF u, of "nf_recipientIdentifier nf" s' recipient partner] assms(6) own owner
      found(2) partner(2) by (auto simp: tabs)
  have "directory_of s' = apply_op (attestation_op a) (directory_of s)"
    using ingest_effect [OF ok inj i] by (simp add: tabs)
  then have "directory_of s' (rc_id recipient, an_id n) =
      Some (attested_payout ti (ra_address dto) (nf_address nf) (nf_memo nf) (de_id d))"
    using type by (simp add: a attestation_op_new)
  with idr net net' show ?thesis by auto
qed


text \<open>C3: what a partner attests, payers get.  An attestation that is not a revocation was ingested for a partner
  that is active, and every identifier in the directory that is spelled like the one attested is that identifier
  itself (same partner, kind and normalised value).  Then, in the state the ingestion leaves, at any time from the
  start of its validity until the end, looking the recipient identifier up on the network it names is verified and
  answers exactly the attested address, whatever the recipient resolved to before.\<close>

theorem attested_address_is_answered:
  assumes "createAttestation E now dto p nonce ts s = (Inr (Ingested g), s')"
    and "resolveSensitiveAttestationFields E (getPartnerPolicy (ap_partnerId p) s) dto = Inr dto'"
    and "normalizeAttestationFields E dto' = Inr nf" and "parseAttestationTiming E dto' = Inr ti"
    and "ca_attestationType dto' \<noteq> AttestationType_DESTINATION_REVOCATION"
    and "resolveAttestationCorridor dto' nf s = Inr net"
    and "partner_row s (ap_partnerId p) = Some partner" and "pa_status partner = PartnerStatus_ACTIVE"
    and "\<forall>i \<in> set (identifiers s). spells E (nf_recipientIdentifier nf) i \<longrightarrow>
        identifier_key i = (ap_partnerId p, ca_identifierKind dto', nf_recipientIdentifier nf)"
    and "destinations_ok E s" and "recipients_ok E s" and "inj (cuid E)"
    and "li_recipientIdentifierNormalized input = nf_recipientIdentifier nf"
    and "findAssetNetworkForLookup (li_chainNormalized input) (li_assetCodeNormalized input)
           (li_assetSymbolNormalized input) s' = Some net"
    and "ti_effectiveFrom ti \<le> later" and "not_expired later (ti_expiresAt ti)"
  shows "lu_verified (lookupVerifiedDestination E later input s') \<and>
    lu_outcome (lookupVerifiedDestination E later input s') = ResolutionOutcome_RESOLVED \<and>
    lu_address (lookupVerifiedDestination E later input s') = Some (ra_address dto')"
proof -
  have "accept_attestation E now p nonce ts dto' nf s = (Inr (Ingested g), s')"
    using assms(1) by (rule createAttestation_Inr) (use assms(2,3) in simp)
  then obtain key n where i: "ingest E now p key dto' nf ti
      (s\<lparr>requestNonces := requestNonces s @ [n], nextId := Suc (nextId s)\<rparr>) = (Inr g, s')"
    by (cases rule: accept_cases) (use assms(4) in auto)
  let ?s = "s\<lparr>requestNonces := requestNonces s @ [n], nextId := Suc (nextId s)\<rparr>"
  have ok: "destinations_ok E ?s" "recipients_ok E ?s"
    using assms(10,11) by (auto simp: destinations_ok_def recipients_ok_def intro: drawn_mono)
  have "resolveAttestationCorridor dto' nf ?s = resolveAttestationCorridor dto' nf s"
    by (simp add: resolveAttestationCorridor_def cong: option.case_cong)
  then have net: "resolveAttestationCorridor dto' nf ?s = Inr net" using assms(6) by simp
  have ok': "destinations_ok E s'" using ingest_effect [OF ok(1) assms(12) i] by simp
  obtain idr r j where found: "findResolvableIdentifier E (nf_recipientIdentifier nf) s' = Some (idr, r, partner)"
    "directory_of s' (id_recipientId idr, an_id (fst net)) =
        Some (attested_payout ti (ra_address dto') (nf_address nf) (nf_memo nf) j)"
    using ingested_in_directory [OF ok assms(12) i assms(5) normalized_identifier [OF assms(3)] net, of partner]
      assms(7-9) by (auto simp: partner_row_def)
  have slot: "lookup_slot E input s' = Some (id_recipientId idr, an_id (fst net))"
    using found(1) assms(13,14) by (simp add: lookup_slot_def)
  have "payable later (directory_of s') (id_recipientId idr, an_id (fst net)) =
      Some (attested_payout ti (ra_address dto') (nf_address nf) (nf_memo nf) j)"
    using found(2) assms(15,16) by (simp add: payable_def in_force_def attested_payout_def)
  then have shown: "shown_payout (lookupVerifiedDestination E later input s') =
      Some (ra_address dto', j, map_option toISOString (ti_expiresAt ti))"
    using lookup_on_directory(1) [OF ok', of later input] slot by (simp add: payout_view_def attested_payout_def)
  then have "lu_address (lookupVerifiedDestination E later input s') = Some (ra_address dto')"
    by (auto simp: shown_payout_def split: option.splits)
  with shown lookup_on_directory(2,4) [OF ok', of later input] show ?thesis by simp
qed

section \<open>Lookups evaluated\<close>

definition demo_input :: NormalizedLookupInput where
  "demo_input =
     \<lparr>li_recipientIdentifierInput = ''bob'', li_recipientIdentifierNormalized = ''bob'', li_chainInput = ''ethereum'',
      li_chainNormalized = ''ethereum'', li_assetInput = ''usdc'', li_assetCodeNormalized = ''usdc'',
      li_assetSymbolNormalized = ''USDC''\<rparr>"

lemma demo_slot: "lookup_slot demo_env demo_input demo_paid_db = Some (''r'', ''an'')"
  by code_simp

theorem lookup_answers_from_directory_witness:
  "shown_payout (lookupVerifiedDestination demo_env 1 demo_input demo_paid_db) = Some (demo_address, cuid demo_env 0, None)"
  using lookup_answers_from_directory [OF directory_run.start demo_cuid_inj demo_paid(1), of 1 demo_input]
  by (simp add: demo_slot demo_paid(2) payable_def in_force_def not_expired_def payout_view_def) (simp add: demo_payout_def
      payable_def in_force_def not_expired_def)

text \<open>The demo attestation, ingested in a directory without recipients.\<close>

lemma demo_lookup_network:
  assumes "chains s = [demo_chain]" "assets s = [demo_asset]" "assetNetworks s = [demo_network]"
  shows "findAssetNetworkForLookup ''ethereum'' ''usdc'' ''USDC'' s = Some (demo_network, demo_asset, demo_chain)"
  using assms by (simp add: findAssetNetworkForLookup_def network_of_def demo_chain_def demo_asset_def demo_network_def)

theorem attested_address_is_answered_witness:
  "\<exists>g s'. createAttestation demo_env demo_now demo_attestation demo_partner (Some ''n1'') (Some demo_timestamp)
     demo_partner_db = (Inr (Ingested g), s') \<and>
   lu_address (lookupVerifiedDestination demo_env (demo_now + 1) demo_input s') = Some demo_address"
proof -
  obtain g s1 where c: "createAttestation demo_env demo_now demo_attestation demo_partner (Some ''n1'')
     (Some demo_timestamp) demo_partner_db = (Inr (Ingested g), s1)" by (rule demo_ingested)
  obtain nf where nf: "normalizeAttestationFields demo_env demo_resolved = Inr nf" "nf_chain nf = ''ethereum''"
    "nf_assetCode nf = ''usdc''" "nf_assetSymbol nf = ''USDC''" "nf_contractAddress nf = []" "nf_recipientIdentifier nf = ''bob''"
    using demo_canonical by fastforce
  have res: "resolveSensitiveAttestationFields demo_env (getPartnerPolicy (ap_partnerId demo_partner) demo_partner_db)
       demo_attestation = Inr demo_resolved" using demo_resolves by (simp add: demo_partner_def)
  have net: "resolveAttestationCorridor demo_resolved nf demo_partner_db = Inr (demo_network, demo_asset, demo_chain)"
    by (rule demo_corridor [OF nf(2-5)]) (simp_all add: demo_partner_db_def)
  have "accept_attestation demo_env demo_now demo_partner (Some ''n1'') (Some demo_timestamp) demo_resolved nf demo_partner_db =
      (Inr (Ingested g), s1)"
    using c by (rule createAttestation_Inr) (use res nf(1) in simp)
  then obtain key n where i: "ingest demo_env demo_now demo_partner key demo_resolved nf
      \<lparr>ti_effectiveFrom = demo_now, ti_expiresAt = None, ti_issuedAt = demo_now\<rparr>
      (demo_partner_db\<lparr>requestNonces := requestNonces demo_partner_db @ [n], nextId := Suc (nextId demo_partner_db)\<rparr>) = (Inr g, s1)"
    by (cases rule: accept_cases) (use demo_dates in auto)
  have tabs: "chains s1 = [demo_chain]" "assets s1 = [demo_asset]" "assetNetworks s1 = [demo_network]"
    using arg_cong [where f = chains, OF ingest_tables(1) [OF i]] arg_cong [where f = assets, OF ingest_tables(1) [OF i]]
      arg_cong [where f = assetNetworks, OF ingest_tables(1) [OF i]] by (simp_all add: demo_partner_db_def)
  have "partner_row demo_partner_db (ap_partnerId demo_partner) = Some demo_partner_row"
    "pa_status demo_partner_row = PartnerStatus_ACTIVE" "identifiers demo_partner_db = []"
    "destinations_ok demo_env demo_partner_db" "recipients_ok demo_env demo_partner_db"
    by (simp_all add: partner_row_def demo_partner_db_def demo_partner_def demo_partner_row_def empty_db_def
        destinations_ok_def rows_ok_def recipients_ok_def)
  note facts = this
  have input: "li_recipientIdentifierNormalized demo_input = nf_recipientIdentifier nf"
    "findAssetNetworkForLookup (li_chainNormalized demo_input) (li_assetCodeNormalized demo_input)
       (li_assetSymbolNormalized demo_input) s1 = Some (demo_network, demo_asset, demo_chain)"
    using demo_lookup_network [OF tabs] by (simp_all add: demo_input_def nf(6))
  have "ra_address demo_resolved = demo_address"
    by (simp add: demo_resolved_def CreateAttestationDto.defs ResolvedCreateAttestationDto.defs)
  with attested_address_is_answered [OF c res nf(1) demo_dates demo_conditions(5) net facts(1,2) _ facts(4,5)
      demo_cuid_inj input, of "demo_now + 1"] facts(3) c
  show ?thesis by (intro exI [of _ g] exI [of _ s1]) (simp add: not_expired_def)
qed

end
