(* ===== verification/Resolution_Facts.thy ===== *)
theory Resolution_Facts
  imports Payout_Lookup
begin

text \<open>
  What the three lookups promise: a repeated idempotency key is answered from the log, every lookup is
  logged with what it answered, a throttled one reveals nothing, and an address is verified exactly when
  the directory pays to it.
\<close>

section \<open>The log\<close>

definition signals_of :: "env \<Rightarrow> time \<Rightarrow> ResolutionRecord \<Rightarrow> nat \<Rightarrow> RiskSignal list" where
  "signals_of E now P n =
     map2 (risk_signal E now (cuid E n) (lu_riskLevel (rl_lookup P))) (lu_flags (rl_lookup P))
       [Suc n ..< Suc n + length (lu_flags (rl_lookup P))]"

lemma recordResolutionRequest_eq:
  "recordResolutionRequest E now P s =
     (cuid E (nextId s),
      s\<lparr>resolutionRequests := resolutionRequests s @ [request_row now (cuid E (nextId s)) P],
        riskSignals := riskSignals s @ signals_of E now P (nextId s),
        nextId := Suc (nextId s) + length (lu_flags (rl_lookup P))\<rparr>)"
  by (simp add: recordResolutionRequest_def fresh_def signals_of_def Let_def)

lemma signals_of_exact:
  "length (signals_of E now P n) = length (lu_flags (rl_lookup P))"
  "map rs_kind (signals_of E now P n) = lu_flags (rl_lookup P)"
  "\<forall>g \<in> set (signals_of E now P n). rs_resolutionRequestId g = cuid E n \<and> rs_severity g = lu_riskLevel (rl_lookup P)"
proof -
  show "length (signals_of E now P n) = length (lu_flags (rl_lookup P))"
    by (simp add: signals_of_def del: upt_Suc)
  show "map rs_kind (signals_of E now P n) = lu_flags (rl_lookup P)"
    by (rule nth_equalityI) (simp_all add: signals_of_def risk_signal_def del: upt_Suc)
  show "\<forall>g \<in> set (signals_of E now P n). rs_resolutionRequestId g = cuid E n \<and> rs_severity g = lu_riskLevel (rl_lookup P)"
    by (auto simp: signals_of_def risk_signal_def)
qed

section \<open>The contract of a lookup handler\<close>

text \<open>
  The three handlers differ in their inputs, their fingerprint and their answer, and share
  \<open>serveLookup\<close>.  What the facts below rely on: the log row carries the handler's query type, its own
  responses pass its check of stored responses, and the directory is read by the answer alone.
\<close>

locale lookup_kind =
  fixes queryType :: QueryType
    and valid :: "json option \<Rightarrow> bool"
    and message :: string
    and inputs :: "env \<Rightarrow> 'dto \<Rightarrow> ident \<Rightarrow> db \<Rightarrow> 'i result"
    and fingerprint :: "env \<Rightarrow> 'i \<Rightarrow> string"
    and params :: "'i \<Rightarrow> ResolutionRecord"
    and limits :: "ident \<Rightarrow> 'i \<Rightarrow> LookupParams"
    and blocked :: "'i \<Rightarrow> string"
    and answer :: "env \<Rightarrow> time \<Rightarrow> 'i \<Rightarrow> db \<Rightarrow> (LookupResult \<times> json \<times> json \<times> string) result"
    and handler :: "env \<Rightarrow> time \<Rightarrow> 'dto \<Rightarrow> ResolutionRequestContext \<Rightarrow> db \<Rightarrow> json result \<times> db"
  assumes handler_eq: "handler E now dto ctx s =
      (case inputs E dto (rx_partnerId ctx) s of
         Inl e \<Rightarrow> (Inl e, s)
       | Inr i \<Rightarrow> serveLookup E now ctx (getStoredResponse queryType valid message) (fingerprint E i) (params i)
           (limits (rx_partnerId ctx) i) (blocked i) (answer E now i s) s)"
    and kind: "rl_queryType (params i) = queryType"
    and answer_valid: "answer E now i s = Inr (l, j, m, r) \<Longrightarrow> valid (Some j)"
    and valid_some: "\<not> valid None"
    and fingerprint_some: "(\<And>x. x \<noteq> [] \<Longrightarrow> sha256_hex E x \<noteq> []) \<Longrightarrow> fingerprint E i \<noteq> []"
    and inputs_policy: "getPartnerPolicy p s = getPartnerPolicy p t \<Longrightarrow> inputs E dto p s = inputs E dto p t"
begin

text \<open>The log row of an answered lookup.\<close>

definition logged :: "env \<Rightarrow> time \<Rightarrow> ResolutionRequestContext \<Rightarrow> 'i \<Rightarrow> db \<Rightarrow>
    LookupResult \<times> json \<times> json \<times> string \<Rightarrow> ResolutionRecord" where
  "logged E now ctx i s a =
     (case a of (l, j, m, r) \<Rightarrow>
        (params i)\<lparr>rl_requesterPartnerId := rx_partnerId ctx, rl_recipientIdentifier := r,
           rl_idempotencyKey := rx_idempotencyKey ctx, rl_requestFingerprint := Some (fingerprint E i),
           rl_retentionExpiresAt := buildRetentionExpiresAt now (getPartnerPrivacySettings E (rx_partnerId ctx) s),
           rl_responseData := Some j, rl_metadata := Some m, rl_lookup := l\<rparr>)"

lemma handler_cases:
  assumes "handler E now dto ctx s = (r, s')"
  obtains
    (invalid) e where "inputs E dto (rx_partnerId ctx) s = Inl e" "r = Inl e" "s' = s"
  | (refused) i e where "inputs E dto (rx_partnerId ctx) s = Inr i" "r = Inl e" "s' = s"
      "getStoredResponse queryType valid message (rx_partnerId ctx) (rx_idempotencyKey ctx) (fingerprint E i) s = Inr None \<longrightarrow>
       (\<forall>d. evaluateResolutionLookup E now (limits (rx_partnerId ctx) i) s \<noteq> Inr (Blocked d))"
  | (repeated) i j where "inputs E dto (rx_partnerId ctx) s = Inr i" "r = Inr j" "s' = s"
      "getStoredResponse queryType valid message (rx_partnerId ctx) (rx_idempotencyKey ctx) (fingerprint E i) s = Inr (Some j)"
  | (throttled) i d where "inputs E dto (rx_partnerId ctx) s = Inr i"
      "getStoredResponse queryType valid message (rx_partnerId ctx) (rx_idempotencyKey ctx) (fingerprint E i) s = Inr None"
      "evaluateResolutionLookup E now (limits (rx_partnerId ctx) i) s = Inr (Blocked d)"
      "(r, s') = blockResolutionLookup E now (rx_authenticatedPartner ctx)
         ((params i)\<lparr>rl_recipientIdentifier := blocked i\<rparr>) d s"
  | (answered) i l j m n where "inputs E dto (rx_partnerId ctx) s = Inr i"
      "getStoredResponse queryType valid message (rx_partnerId ctx) (rx_idempotencyKey ctx) (fingerprint E i) s = Inr None"
      "evaluateResolutionLookup E now (limits (rx_partnerId ctx) i) s = Inr Allowed"
      "answer E now i s = Inr (l, j, m, n)" "r = Inr j"
      "s' = snd (recordResolutionRequest E now (logged E now ctx i s (l, j, m, n)) s)"
proof (cases "inputs E dto (rx_partnerId ctx) s")
  case (Inl e)
  show ?thesis by (rule invalid [OF Inl]) (use assms in \<open>simp_all add: handler_eq Inl\<close>)
next
  case i: (Inr i)
  note h = assms [unfolded handler_eq i sum.case serveLookup_def]
  show ?thesis
  proof (cases "getStoredResponse queryType valid message (rx_partnerId ctx) (rx_idempotencyKey ctx) (fingerprint E i) s")
    case (Inl e)
    have "r = Inl e" "s' = s" using h by (auto simp: Inl)
    then show ?thesis by (rule refused [OF i]) (simp add: Inl)
  next
    case stored: (Inr v)
    show ?thesis
    proof (cases v)
      case (Some j)
      show ?thesis by (rule repeated [OF i]) (use h stored in \<open>simp_all add: Some\<close>)
    next
      case None
      note n = stored [unfolded None]
      show ?thesis
      proof (cases "evaluateResolutionLookup E now (limits (rx_partnerId ctx) i) s")
        case (Inl e)
        have "r = Inl e" "s' = s" using h by (auto simp: n Inl)
        then show ?thesis by (rule refused [OF i]) (simp add: Inl)
      next
        case ev: (Inr v)
        show ?thesis
        proof (cases v)
          case (Blocked d)
          note ev' = ev [unfolded Blocked]
          show ?thesis by (rule throttled [OF i n ev']) (use h in \<open>simp add: n ev'\<close>)
        next
          case Allowed
          note ev' = ev [unfolded Allowed]
          show ?thesis
          proof (cases "answer E now i s")
            case (Inl e)
            have "r = Inl e" "s' = s" using h by (auto simp: n ev' Inl)
            then show ?thesis by (rule refused [OF i]) (simp add: ev')
          next
            case (Inr a)
            obtain l j m k where a: "a = (l, j, m, k)" by (metis prod_cases4)
            show ?thesis
              by (rule answered [OF i n ev' Inr [unfolded a]]) (use h in \<open>simp_all add: n ev' Inr a logged_def\<close>)
          qed
        qed
      qed
    qed
  qed
qed

text \<open>The row a key is answered from.\<close>

definition keyed :: "ident \<Rightarrow> string option \<Rightarrow> ResolutionRequest \<Rightarrow> bool" where
  "keyed p idempotencyKey r \<longleftrightarrow>
     rr_requesterPartnerId r = Some p \<and> rr_queryType r = queryType \<and> rr_idempotencyKey r = idempotencyKey"

lemma stored_response:
  assumes "\<not> falsy k"
  shows "getStoredResponse queryType valid message p k f s =
     (case List.find (keyed p k) (resolutionRequests s) of
        None \<Rightarrow> Inr None
      | Some row \<Rightarrow>
          if rr_requestFingerprint row \<noteq> Some f
          then Inl (Conflict ''Idempotency-Key was already used for a different resolution request.'')
          else if \<not> valid (rr_responseData row) then Inl (InternalError message) else Inr (rr_responseData row))"
  using assms
  by (simp add: getStoredResponse_def findStoredIdempotentRequest_def rbind_def keyed_def [abs_def] split: option.split)

lemma answered_row:
  assumes h: "handler E now dto ctx s = (Inr j, s1)" and key: "\<not> falsy (rx_idempotencyKey ctx)"
    and sha: "\<And>x. x \<noteq> [] \<Longrightarrow> sha256_hex E x \<noteq> []"
  obtains i row where "inputs E dto (rx_partnerId ctx) s = Inr i"
    "List.find (keyed (rx_partnerId ctx) (rx_idempotencyKey ctx)) (resolutionRequests s1) = Some row"
    "rr_requestFingerprint row = Some (fingerprint E i)" "rr_responseData row = Some j" "valid (Some j)"
    "getPartnerPolicy (rx_partnerId ctx) s1 = getPartnerPolicy (rx_partnerId ctx) s"
  using h
proof (cases rule: handler_cases)
  case (repeated i j')
  then show ?thesis
    using that valid_some by (auto simp: stored_response [OF key] split: option.splits if_splits)
next
  case (throttled i d)
  then show ?thesis by (simp add: blockResolutionLookup_def split: prod.splits)
next
  case (answered i l j' m n)
  let ?P = "logged E now ctx i s (l, j', m, n)"
  define row where row: "row = request_row now (cuid E (nextId s)) ?P"
  have s1: "resolutionRequests s1 = resolutionRequests s @ [row]" "securitySettings s1 = securitySettings s"
    using answered(6) by (simp_all add: recordResolutionRequest_eq row)
  have none: "List.find (keyed (rx_partnerId ctx) (rx_idempotencyKey ctx)) (resolutionRequests s) = None"
    using answered(2) by (auto simp: stored_response [OF key] valid_some split: option.splits if_splits)
  have fields: "rr_requestFingerprint row = Some (fingerprint E i)" "rr_responseData row = Some j"
      "keyed (rx_partnerId ctx) (rx_idempotencyKey ctx) row"
    using fingerprint_some [OF sha, of i] key kind answered(5)
    by (auto simp: row request_row_def logged_def keyed_def falsy_def Let_def)
  show ?thesis
    using none fields(3) answered(5)
    by (intro that [OF answered(1) _ fields(1,2)])
      (auto simp: s1 find_append getPartnerPolicy_def answer_valid [OF answered(4)])
qed simp_all

lemma repeated_key:
  assumes h: "handler E now dto ctx s = (Inr j, s1)" and key: "\<not> falsy (rx_idempotencyKey ctx)"
    and sha: "\<And>x. x \<noteq> [] \<Longrightarrow> sha256_hex E x \<noteq> []"
    and s2: "resolutionRequests s2 = resolutionRequests s1 @ rows"
    and f: "map_sum id (fingerprint E) (inputs E dto' (rx_partnerId ctx) s2) = Inr f"
  shows "handler E later dto' ctx s2 =
    (if map_sum id (fingerprint E) (inputs E dto (rx_partnerId ctx) s) = Inr f then (Inr j, s2)
     else (Inl (Conflict ''Idempotency-Key was already used for a different resolution request.''), s2))"
proof -
  obtain i row where i: "inputs E dto (rx_partnerId ctx) s = Inr i" and
    "List.find (keyed (rx_partnerId ctx) (rx_idempotencyKey ctx)) (resolutionRequests s1) = Some row"
    "rr_requestFingerprint row = Some (fingerprint E i)" "rr_responseData row = Some j" "valid (Some j)"
    by (rule answered_row [OF h key sha])
  then have stored: "getStoredResponse queryType valid message (rx_partnerId ctx) (rx_idempotencyKey ctx) f s2 =
      (if f = fingerprint E i then Inr (Some j)
       else Inl (Conflict ''Idempotency-Key was already used for a different resolution request.''))" for f
    by (simp add: stored_response [OF key] s2 find_append)
  obtain i' where i': "inputs E dto' (rx_partnerId ctx) s2 = Inr i'" "fingerprint E i' = f"
    using f by (auto simp: map_sum_def split: sum.splits)
  show ?thesis by (simp add: handler_eq i i' serveLookup_def stored)
qed

end

section \<open>The three handlers meet the contract\<close>

definition resolve_input :: "env \<Rightarrow> ResolveRecipientDto \<Rightarrow> ident \<Rightarrow> db \<Rightarrow> NormalizedLookupInput result" where
  "resolve_input E dto p s =
     rbind (readSensitiveInput E (getPartnerPolicy p s) (dr_recipientIdentifier dto)
              (dr_recipientIdentifierEncrypted dto) ''Recipient identifier'' (Some 128))
       (\<lambda>recipientIdentifier. normalizeLookupInput recipientIdentifier (dr_chain dto) (dr_asset dto))"

definition resolve_fingerprint :: "env \<Rightarrow> NormalizedLookupInput \<Rightarrow> string" where
  "resolve_fingerprint E i =
     buildRequestFingerprint E QueryType_RESOLVE None (li_recipientIdentifierNormalized i)
       (li_chainNormalized i) (li_assetCodeNormalized i) (li_assetSymbolNormalized i) None"

definition identifier_limits :: "QueryType \<Rightarrow> ident \<Rightarrow> NormalizedLookupInput \<Rightarrow> LookupParams" where
  "identifier_limits q p i =
     \<lparr>lk_partnerId = p, lk_queryType = q,
      lk_recipientIdentifierNormalized = Some (li_recipientIdentifierNormalized i), lk_providedAddressNormalized = None\<rparr>"

definition resolve_answer ::
    "env \<Rightarrow> time \<Rightarrow> NormalizedLookupInput \<Rightarrow> db \<Rightarrow> (LookupResult \<times> json \<times> json \<times> string) result" where
  "resolve_answer E now i s =
     (let lookup = lookupVerifiedDestination E now i s in
      Inr (lookup, resolve_response lookup, JObj (lookup_metadata FORWARD_LOOKUP lookup (lu_platform lookup)),
           li_recipientIdentifierInput i))"

lemma one_of_names [simp]:
  "isRiskLevel (Some (JStr (name_RiskLevel l)))"
  "isDisclosureMode (Some (JStr (name_DisclosureMode d)))"
  "isLookupDirection (Some (JStr (name_LookupDirection w)))"
  "isRiskSignalKindArray (Some (flags_json fs))"
  "is_boolean (Some (JBool b))" "is_string (Some (JStr v))" "isNullableString (Some (j_nullable v'))"
proof -
  show "isRiskLevel (Some (JStr (name_RiskLevel l)))"
    by (cases l) (simp_all add: isRiskLevel_def is_one_of_def riskLevelValues_def)
  show "isDisclosureMode (Some (JStr (name_DisclosureMode d)))"
    by (cases d) (simp_all add: isDisclosureMode_def is_one_of_def)
  show "isLookupDirection (Some (JStr (name_LookupDirection w)))"
    by (cases w) (simp_all add: isLookupDirection_def is_one_of_def)
  have "name_RiskSignalKind k \<in> set riskSignalKindValues" for k by (cases k) (simp_all add: riskSignalKindValues_def)
  then show "isRiskSignalKindArray (Some (flags_json fs))"
    by (simp add: isRiskSignalKindArray_def flags_json_def is_one_of_def list_all_iff)
  show "is_boolean (Some (JBool b))" "is_string (Some (JStr v))" by (simp_all add: is_boolean_def is_string_def)
  show "isNullableString (Some (j_nullable v'))" by (cases v') (simp_all add: isNullableString_def j_nullable_def)
qed

lemma directions [simp]:
  "isLookupDirection (Some (JStr ''FORWARD_LOOKUP''))" "isLookupDirection (Some (JStr ''REVERSE_LOOKUP''))"
  "isLookupDirection (Some (JStr ''TRANSFER_VERIFICATION''))"
  by (simp_all add: isLookupDirection_def is_one_of_def)

lemma own_responses_valid:
  "isResolveResponse (Some (resolve_response l))" "\<not> isResolveResponse None"
  "isConfirmResponse (Some (confirm_response l))" "\<not> isConfirmResponse None"
  "isVerifyResponse (Some (verify_response l c))" "\<not> isVerifyResponse None"
proof -
  show "isResolveResponse (Some (resolve_response l))"
    by (simp add: isResolveResponse_def resolve_response_def isJsonObject_def)
  have "isCandidatePlatformArray (Some (JArr (map candidate_json cs)))" for cs
    by (auto simp: isCandidatePlatformArray_def list_all_iff candidate_json_def isJsonObject_def)
  then show "isConfirmResponse (Some (confirm_response l))"
    by (simp add: isConfirmResponse_def confirm_response_def isJsonObject_def)
  show "isVerifyResponse (Some (verify_response l c))"
    by (simp add: isVerifyResponse_def verify_response_def isJsonObject_def)
qed (simp_all add: isResolveResponse_def isConfirmResponse_def isVerifyResponse_def)

lemma fingerprint_nonempty:
  "(\<And>x. x \<noteq> [] \<Longrightarrow> sha256_hex E x \<noteq> []) \<Longrightarrow> buildRequestFingerprint E q pl r c a b ad \<noteq> []"
  by (simp add: buildRequestFingerprint_def)

interpretation resolve_kind: lookup_kind QueryType_RESOLVE isResolveResponse
    "''Stored resolve idempotency response is invalid.''" resolve_input resolve_fingerprint
    "\<lambda>i. base_record QueryType_RESOLVE (li_recipientIdentifierNormalized i) None (li_chainInput i) (li_assetInput i) None None"
    "identifier_limits QueryType_RESOLVE" li_recipientIdentifierInput resolve_answer resolve
proof unfold_locales
  fix E now dto ctx s
  show "resolve E now dto ctx s =
      (case resolve_input E dto (rx_partnerId ctx) s of
         Inl e \<Rightarrow> (Inl e, s)
       | Inr i \<Rightarrow> serveLookup E now ctx
           (getStoredResponse QueryType_RESOLVE isResolveResponse ''Stored resolve idempotency response is invalid.'')
           (resolve_fingerprint E i)
           (base_record QueryType_RESOLVE (li_recipientIdentifierNormalized i) None (li_chainInput i) (li_assetInput i) None None)
           (identifier_limits QueryType_RESOLVE (rx_partnerId ctx) i) (li_recipientIdentifierInput i)
           (resolve_answer E now i s) s)"
    unfolding resolve_def resolve_input_def resolve_fingerprint_def identifier_limits_def resolve_answer_def
      getStoredResolveResponse_def Let_def by (rule refl)
next
  fix E now i s l j m r assume "resolve_answer E now i s = Inr (l, j, m, r)"
  then have "j = resolve_response l" by (auto simp: resolve_answer_def Let_def)
  then show "isResolveResponse (Some j)" by (simp add: own_responses_valid)
next
  fix E :: env and i assume "\<And>x. x \<noteq> [] \<Longrightarrow> sha256_hex E x \<noteq> []"
  then show "resolve_fingerprint E i \<noteq> []" unfolding resolve_fingerprint_def by (rule fingerprint_nonempty)
next
  fix p s t E dto assume "getPartnerPolicy p s = getPartnerPolicy p t"
  then show "resolve_input E dto p s = resolve_input E dto p t" unfolding resolve_input_def by (simp only:)
qed (simp_all add: base_record_def own_responses_valid)

definition confirm_input :: "env \<Rightarrow> ConfirmRecipientDto \<Rightarrow> ident \<Rightarrow> db \<Rightarrow> NormalizedConfirmInput result" where
  "confirm_input E dto p s =
     rbind (readSensitiveInput E (getPartnerPolicy p s) (dc_address dto)
              (dc_addressEncrypted dto) ''Address'' (Some 200))
       (\<lambda>address. normalizeConfirmInput (dc_platform dto) (dc_chain dto) (dc_asset dto) address)"

definition confirm_fingerprint :: "env \<Rightarrow> NormalizedConfirmInput \<Rightarrow> string" where
  "confirm_fingerprint E i =
     buildRequestFingerprint E QueryType_CONFIRM_ADDRESS (ci_platformNormalized i) []
       (ci_chainNormalized i) (ci_assetCodeNormalized i) (ci_assetSymbolNormalized i) (Some (ci_addressNormalized i))"

definition confirm_record :: "NormalizedConfirmInput \<Rightarrow> ResolutionRecord" where
  "confirm_record i =
     base_record QueryType_CONFIRM_ADDRESS [] (ci_platformInput i) (ci_chainInput i)
       (ci_assetInput i) (Some (ci_addressInput i)) (Some (ci_addressNormalized i))"

definition confirm_limits :: "ident \<Rightarrow> NormalizedConfirmInput \<Rightarrow> LookupParams" where
  "confirm_limits p i =
     \<lparr>lk_partnerId = p, lk_queryType = QueryType_CONFIRM_ADDRESS,
      lk_recipientIdentifierNormalized = None, lk_providedAddressNormalized = Some (ci_addressNormalized i)\<rparr>"

definition confirm_answer ::
    "env \<Rightarrow> time \<Rightarrow> NormalizedConfirmInput \<Rightarrow> db \<Rightarrow> (LookupResult \<times> json \<times> json \<times> string) result" where
  "confirm_answer E now i s =
     (let lookup = lookupRecipientConfirmation E now i s in
      Inr (lookup, confirm_response lookup,
           JObj (lookup_metadata REVERSE_LOOKUP lookup
             (case lu_platform lookup of Some v \<Rightarrow> Some v | None \<Rightarrow> ci_platformNormalized i)),
           or_else (lu_recipientDisplayName lookup) (or_else (ci_platformInput i) address_first)))"

interpretation confirm_kind: lookup_kind QueryType_CONFIRM_ADDRESS isConfirmResponse
    "''Stored confirm idempotency response is invalid.''" confirm_input confirm_fingerprint confirm_record
    confirm_limits "\<lambda>i. or_else (ci_platformInput i) address_first" confirm_answer confirmAddress
proof unfold_locales
  fix E now dto ctx s
  show "confirmAddress E now dto ctx s =
      (case confirm_input E dto (rx_partnerId ctx) s of
         Inl e \<Rightarrow> (Inl e, s)
       | Inr i \<Rightarrow> serveLookup E now ctx
           (getStoredResponse QueryType_CONFIRM_ADDRESS isConfirmResponse ''Stored confirm idempotency response is invalid.'')
           (confirm_fingerprint E i) (confirm_record i) (confirm_limits (rx_partnerId ctx) i)
           (or_else (ci_platformInput i) address_first) (confirm_answer E now i s) s)"
    unfolding confirmAddress_def confirm_input_def confirm_fingerprint_def confirm_record_def confirm_limits_def
      confirm_answer_def getStoredConfirmResponse_def Let_def by (rule refl)
next
  fix E now i s l j m r assume "confirm_answer E now i s = Inr (l, j, m, r)"
  then have "j = confirm_response l" by (auto simp: confirm_answer_def Let_def)
  then show "isConfirmResponse (Some j)" by (simp add: own_responses_valid)
next
  fix E :: env and i assume "\<And>x. x \<noteq> [] \<Longrightarrow> sha256_hex E x \<noteq> []"
  then show "confirm_fingerprint E i \<noteq> []" unfolding confirm_fingerprint_def by (rule fingerprint_nonempty)
next
  fix p s t E dto assume "getPartnerPolicy p s = getPartnerPolicy p t"
  then show "confirm_input E dto p s = confirm_input E dto p t" unfolding confirm_input_def by (simp only:)
qed (simp_all add: confirm_record_def base_record_def own_responses_valid)

type_synonym verification = "NormalizedLookupInput \<times> string \<times> string"

definition verify_fingerprint :: "env \<Rightarrow> verification \<Rightarrow> string" where
  "verify_fingerprint E v =
     (case v of (i, address, normalizedAddress) \<Rightarrow>
        buildRequestFingerprint E QueryType_VERIFY_ADDRESS None (li_recipientIdentifierNormalized i)
          (li_chainNormalized i) (li_assetCodeNormalized i) (li_assetSymbolNormalized i) (Some normalizedAddress))"

definition verify_record :: "verification \<Rightarrow> ResolutionRecord" where
  "verify_record v =
     (case v of (i, address, normalizedAddress) \<Rightarrow>
        base_record QueryType_VERIFY_ADDRESS (li_recipientIdentifierNormalized i) None (li_chainInput i)
          (li_assetInput i) (Some address) (Some normalizedAddress))"

definition verify_answer ::
    "env \<Rightarrow> time \<Rightarrow> verification \<Rightarrow> db \<Rightarrow> (LookupResult \<times> json \<times> json \<times> string) result" where
  "verify_answer E now v s =
     (case v of (i, address, normalizedAddress) \<Rightarrow>
        let lookup = lookupVerifiedDestination E now i s in
        rbind (compareAddress (li_chainNormalized i) normalizedAddress lookup) (\<lambda>c.
          Inr (recorded_verification lookup c, verify_response lookup c,
               JObj (lookup_metadata TRANSFER_VERIFICATION lookup (lu_platform lookup) @
                 [(''resolutionContext'', JStr ''RECIPIENT_CONTEXT'')]),
               li_recipientIdentifierInput i)))"

interpretation verify_kind: lookup_kind QueryType_VERIFY_ADDRESS isVerifyResponse
    "''Stored verify idempotency response is invalid.''" verify_input verify_fingerprint verify_record
    "\<lambda>p v. identifier_limits QueryType_VERIFY_ADDRESS p (fst v)" "\<lambda>v. li_recipientIdentifierInput (fst v)"
    verify_answer verify
proof unfold_locales
  fix E now dto ctx s
  show "verify E now dto ctx s =
      (case verify_input E dto (rx_partnerId ctx) s of
         Inl e \<Rightarrow> (Inl e, s)
       | Inr v \<Rightarrow> serveLookup E now ctx
           (getStoredResponse QueryType_VERIFY_ADDRESS isVerifyResponse ''Stored verify idempotency response is invalid.'')
           (verify_fingerprint E v) (verify_record v) (identifier_limits QueryType_VERIFY_ADDRESS (rx_partnerId ctx) (fst v))
           (li_recipientIdentifierInput (fst v)) (verify_answer E now v s) s)"
    unfolding verify_def verify_fingerprint_def verify_record_def identifier_limits_def verify_answer_def
      getStoredVerifyResponse_def Let_def by (simp split: sum.split prod.split)
next
  fix E now v s l j m r assume "verify_answer E now v s = Inr (l, j, m, r)"
  then obtain l' c where "j = verify_response l' c"
    by (auto simp: verify_answer_def Let_def rbind_def split: prod.splits sum.splits)
  then show "isVerifyResponse (Some j)" by (simp add: own_responses_valid)
next
  fix E :: env and v assume "\<And>x. x \<noteq> [] \<Longrightarrow> sha256_hex E x \<noteq> []"
  then show "verify_fingerprint E v \<noteq> []"
    by (cases v) (simp add: verify_fingerprint_def fingerprint_nonempty)
next
  fix p s t E dto assume "getPartnerPolicy p s = getPartnerPolicy p t"
  then show "verify_input E dto p s = verify_input E dto p t" unfolding verify_input_def by (simp only:)
qed (auto simp: verify_record_def base_record_def own_responses_valid split: prod.split)

section \<open>Any of the three\<close>

datatype lookup_request =
    Resolve ResolveRecipientDto
  | Confirm ConfirmRecipientDto
  | Verify VerifyDestinationDto

fun serve :: "env \<Rightarrow> time \<Rightarrow> lookup_request \<Rightarrow> ResolutionRequestContext \<Rightarrow> db \<Rightarrow> json result \<times> db" where
  "serve E now (Resolve dto) ctx s = resolve E now dto ctx s"
| "serve E now (Confirm dto) ctx s = confirmAddress E now dto ctx s"
| "serve E now (Verify dto) ctx s = verify E now dto ctx s"

text \<open>What a request asks: its fingerprint, or the error its inputs make.\<close>

fun request_fingerprint :: "env \<Rightarrow> lookup_request \<Rightarrow> ident \<Rightarrow> db \<Rightarrow> string result" where
  "request_fingerprint E (Resolve dto) p s = map_sum id (resolve_fingerprint E) (resolve_input E dto p s)"
| "request_fingerprint E (Confirm dto) p s = map_sum id (confirm_fingerprint E) (confirm_input E dto p s)"
| "request_fingerprint E (Verify dto) p s = map_sum id (verify_fingerprint E) (verify_input E dto p s)"

fun same_kind :: "lookup_request \<Rightarrow> lookup_request \<Rightarrow> bool" where
  "same_kind (Resolve _) (Resolve _) = True"
| "same_kind (Confirm _) (Confirm _) = True"
| "same_kind (Verify _) (Verify _) = True"
| "same_kind _ _ = False"

text \<open>C21: an idempotency key stands for one request.  Once a lookup with a key was answered, and while its
  log row is kept, any later request of the partner of that kind under the key gets exactly the first
  answer if it asks the same (whatever the directory says by then), and a conflict if it asks anything
  else; neither changes the database, so it is not counted, logged or looked up again.\<close>

theorem repeated_key_same_answer:
  assumes "serve E now req ctx s = (Inr j, s1)" and "\<not> falsy (rx_idempotencyKey ctx)"
    and "\<And>x. x \<noteq> [] \<Longrightarrow> sha256_hex E x \<noteq> []"
    and "resolutionRequests s2 = resolutionRequests s1 @ rows"
    and "same_kind req' req" and "request_fingerprint E req' (rx_partnerId ctx) s2 = Inr f"
  shows "serve E later req' ctx s2 =
    (if request_fingerprint E req (rx_partnerId ctx) s = Inr f then (Inr j, s2)
     else (Inl (Conflict ''Idempotency-Key was already used for a different resolution request.''), s2))"
proof (cases req)
  case (Resolve dto)
  with assms(5) obtain dto' where "req' = Resolve dto'" by (cases req') auto
  with resolve_kind.repeated_key [OF assms(1) [unfolded Resolve serve.simps] assms(2-4)] assms(6) Resolve
  show ?thesis by simp
next
  case (Confirm dto)
  with assms(5) obtain dto' where "req' = Confirm dto'" by (cases req') auto
  with confirm_kind.repeated_key [OF assms(1) [unfolded Confirm serve.simps] assms(2-4)] assms(6) Confirm
  show ?thesis by simp
next
  case (Verify dto)
  with assms(5) obtain dto' where "req' = Verify dto'" by (cases req') auto
  with verify_kind.repeated_key [OF assms(1) [unfolded Verify serve.simps] assms(2-4)] assms(6) Verify
  show ?thesis by simp
qed

text \<open>A lookup evaluated.\<close>

definition demo_context :: ResolutionRequestContext where
  "demo_context = \<lparr>rx_authenticatedPartner = demo_partner, rx_idempotencyKey = Some ''key''\<rparr>"

definition demo_verify :: VerifyDestinationDto where
  "demo_verify =
     \<lparr>dv_recipientIdentifier = Some ''bob'', dv_recipientIdentifierEncrypted = None,
      dv_address = Some demo_address, dv_addressEncrypted = None, dv_chain = ''ethereum'', dv_asset = ''usdc''\<rparr>"

lemma demo_sha: "x \<noteq> [] \<Longrightarrow> sha256_hex demo_env x \<noteq> []"
  by (simp add: demo_env_def)

lemma demo_verified:
  "(case verify demo_env 1 demo_verify demo_context demo_paid_db of
      (Inl _, s) \<Rightarrow> None
    | (Inr j, s) \<Rightarrow> Some (j_get j ''match'', j_get j ''verified'', length (resolutionRequests s))) =
   Some (Some (JBool True), Some (JBool True), 1)"
  by code_simp

lemma demo_verified_response:
  obtains j s1 where "verify demo_env 1 demo_verify demo_context demo_paid_db = (Inr j, s1)"
    "j_get j ''match'' = Some (JBool True)" "j_get j ''verified'' = Some (JBool True)" "length (resolutionRequests s1) = 1"
  using demo_verified by (auto split: sum.splits prod.splits)

lemma demo_verify_input:
  "map_sum id (verify_fingerprint demo_env) (verify_input demo_env demo_verify ''p'' demo_paid_db) \<noteq> Inl e"
  "map_sum id (verify_fingerprint demo_env) (verify_input demo_env (demo_verify\<lparr>dv_recipientIdentifier := Some ''eve''\<rparr>) ''p'' demo_paid_db)
     \<noteq> map_sum id (verify_fingerprint demo_env) (verify_input demo_env demo_verify ''p'' demo_paid_db)"
proof -
  have "case verify_input demo_env demo_verify ''p'' demo_paid_db of Inl _ \<Rightarrow> False | Inr _ \<Rightarrow> True" by code_simp
  then show "map_sum id (verify_fingerprint demo_env) (verify_input demo_env demo_verify ''p'' demo_paid_db) \<noteq> Inl e"
    by (auto simp: map_sum_def split: sum.splits)
qed code_simp

theorem repeated_key_same_answer_witness:
  "\<exists>j s1. serve demo_env 1 (Verify demo_verify) demo_context demo_paid_db = (Inr j, s1) \<and>
     j_get j ''verified'' = Some (JBool True) \<and>
     serve demo_env 99 (Verify demo_verify) demo_context (s1\<lparr>destinations := []\<rparr>) = (Inr j, s1\<lparr>destinations := []\<rparr>)"
proof -
  obtain j s1 where v: "verify demo_env 1 demo_verify demo_context demo_paid_db = (Inr j, s1)"
    "j_get j ''verified'' = Some (JBool True)" by (rule demo_verified_response)
  have p: "rx_partnerId demo_context = ''p''" by (simp add: rx_partnerId_def demo_context_def demo_partner_def)
  have "\<not> falsy (rx_idempotencyKey demo_context)" by (simp add: demo_context_def falsy_def)
  note key = this
  obtain i where "getPartnerPolicy ''p'' s1 = getPartnerPolicy ''p'' demo_paid_db"
    using verify_kind.answered_row [OF v(1) key demo_sha] by (metis p)
  then have "getPartnerPolicy ''p'' (s1\<lparr>destinations := []\<rparr>) = getPartnerPolicy ''p'' demo_paid_db"
    by (simp add: getPartnerPolicy_def)
  then have same: "verify_input demo_env demo_verify ''p'' (s1\<lparr>destinations := []\<rparr>) = verify_input demo_env demo_verify ''p'' demo_paid_db"
    by (rule verify_kind.inputs_policy)
  obtain f where f: "request_fingerprint demo_env (Verify demo_verify) ''p'' demo_paid_db = Inr f"
    using demo_verify_input(1) by (cases "request_fingerprint demo_env (Verify demo_verify) ''p'' demo_paid_db") auto
  have "serve demo_env 99 (Verify demo_verify) demo_context (s1\<lparr>destinations := []\<rparr>) = (Inr j, s1\<lparr>destinations := []\<rparr>)"
    using repeated_key_same_answer [of demo_env 1 "Verify demo_verify" demo_context demo_paid_db j s1
        "s1\<lparr>destinations := []\<rparr>" "[]" "Verify demo_verify" f 99] v(1) key demo_sha f same p by simp
  with v show ?thesis by (intro exI [of _ j] exI [of _ s1]) simp
qed

section \<open>Verified means payable\<close>

lemma comparison_matches:
  assumes "compareAddress c n lookup = Inr cm"
  shows "cm_match cm \<longleftrightarrow> (\<exists>a. lu_address lookup = Some a \<and> normalizeAddress c a = Inr n)"
proof (cases "falsy (lu_address lookup)")
  case True
  with assms show ?thesis
    by (cases "lu_address lookup") (auto simp: compareAddress_def falsy_def normalizeAddress_blank)
next
  case False
  then obtain a where a: "lu_address lookup = Some a" by (cases "lu_address lookup") (auto simp: falsy_def)
  from assms False a obtain m where m: "normalizeAddress c a = Inr m"
    by (auto simp: compareAddress_def rbind_def Let_def split: sum.splits)
  with assms False a show ?thesis by (auto simp: compareAddress_def rbind_def Let_def split: if_splits)
qed

lemma comparison_recommends:
  assumes "compareAddress c n lookup = Inr cm" and "lu_address lookup = Some a" "a \<noteq> []"
  shows "if cm_match cm then cm_riskLevel cm = lu_riskLevel lookup \<and> cm_recommendation cm = lu_recommendation lookup \<and>
           cm_flags cm = lu_flags lookup
         else cm_riskLevel cm = RiskLevel_HIGH \<and> cm_recommendation cm = ''do_not_send'' \<and>
           RiskSignalKind_ADDRESS_MISMATCH \<in> set (cm_flags cm)"
  using assms by (auto simp: compareAddress_def rbind_def Let_def falsy_def split: sum.splits if_splits)

text \<open>C2: verified means payable.  When \<open>verify\<close> looks an address up and logs the lookup (so it is not the repetition of
  an idempotency key, which gets the stored answer), it answers a verified match exactly when the directory that the operations so far have built pays the recipient, on that network and at that
  moment, to an address with the same canonical form.  Only then does it recommend sending; a different
  address in force makes the answer a high risk not to be sent to.\<close>

theorem verified_exactly_when_payable:
  assumes "verify E now dto ctx s = (Inr j, s')" and "resolutionRequests s' \<noteq> resolutionRequests s"
    and "directory_run E s0 ops s" and "inj (cuid E)" and "destinations_ok E s0" and "directory_ok (directory_of s0)"
  shows "\<exists>input address n. verify_input E dto (rx_partnerId ctx) s = Inr (input, address, n) \<and>
    (let due = Option.bind (lookup_slot E input s) (payable now (fold apply_op ops (directory_of s0)));
         same = (case due of None \<Rightarrow> False | Some po \<Rightarrow> normalizeAddress (li_chainNormalized input) (po_address po) = Inr n)
     in j_get j ''match'' = Some (JBool same) \<and> j_get j ''verified'' = Some (JBool same) \<and>
        (j_get j ''recommendation'' = Some (JStr ''safe_to_send'') \<longleftrightarrow> same) \<and>
        j_get j ''riskLevel'' = Some (JStr (if same then ''LOW'' else ''HIGH'')) \<and>
        (due \<noteq> None \<and> \<not> same \<longrightarrow> j_get j ''recommendation'' = Some (JStr ''do_not_send'')))"
  using assms(1)
proof (cases rule: verify_kind.handler_cases)
  case (answered v l j' m k)
  obtain input address n where v: "v = (input, address, n)" by (metis prod_cases3)
  let ?r = "lookupVerifiedDestination E now input s"
  obtain c where c: "compareAddress (li_chainNormalized input) n ?r = Inr c" and j: "j = verify_response ?r c"
    using answered(4,5) by (auto simp: v verify_answer_def Let_def rbind_def split: sum.splits)
  have ok: "destinations_ok E s" and dir: "directory_of s = fold apply_op ops (directory_of s0)"
    using directory_run_effect [OF assms(3-5)] by simp_all
  note l = lookup_on_directory [OF ok, of now input, unfolded dir]
  define due where "due = Option.bind (lookup_slot E input s) (payable now (fold apply_op ops (directory_of s0)))"
  have shown: "shown_payout ?r = map_option payout_view due"
    unfolding l(1) due_def by (cases "lookup_slot E input s") simp_all
  have addr: "lu_address ?r = map_option po_address due" unfolding l(5) shown
    by (cases due) (simp_all add: payout_view_def)
  have ver: "lu_verified ?r \<longleftrightarrow> due \<noteq> None" unfolding l(2) shown by simp
  have match: "cm_match c \<longleftrightarrow> (case due of None \<Rightarrow> False
      | Some po \<Rightarrow> normalizeAddress (li_chainNormalized input) (po_address po) = Inr n)"
    unfolding comparison_matches [OF c] addr by (cases due) simp_all
  have rest: "if cm_match c then cm_riskLevel c = RiskLevel_LOW \<and> cm_recommendation c = ''safe_to_send''
      else cm_riskLevel c = RiskLevel_HIGH \<and> cm_recommendation c \<noteq> ''safe_to_send'' \<and>
        (due \<noteq> None \<longrightarrow> cm_recommendation c = ''do_not_send'')"
  proof (cases due)
    case None
    then have "c = \<lparr>cm_match = False, cm_riskLevel = lu_riskLevel ?r, cm_recommendation = lu_recommendation ?r,
        cm_flags = lu_flags ?r\<rparr>"
      using c by (simp add: compareAddress_def addr falsy_def Let_def)
    with None l(6,7) ver show ?thesis by simp
  next
    case (Some po)
    have "directory_ok (fold apply_op ops (directory_of s0))" by (rule run_directory_ok [OF assms(3,6)])
    moreover obtain k where "fold apply_op ops (directory_of s0) k = Some po"
      using Some by (auto simp: due_def payable_def bind_eq_Some_conv split: option.splits if_splits)
    ultimately have ne: "po_address po \<noteq> []" unfolding directory_ok_def by blast
    have "lu_address ?r = Some (po_address po)" by (simp add: addr Some)
    from comparison_recommends [OF c this ne] l(6,7) ver Some show ?thesis by (simp split: if_splits)
  qed
  show ?thesis
    using match rest ver
    by (intro exI [of _ input] exI [of _ address] exI [of _ n])
      (auto simp: answered(1) v due_def [symmetric] Let_def j verify_response_def split: if_splits option.splits)
next
  case (throttled i d)
  then show ?thesis by (simp add: blockResolutionLookup_def split: prod.splits)
qed (use assms(2) in simp_all)

theorem verified_exactly_when_payable_witness:
  "\<exists>j s' po. verify demo_env 1 demo_verify demo_context demo_paid_db = (Inr j, s') \<and>
     j_get j ''recommendation'' = Some (JStr ''safe_to_send'') \<and>
     directory_of demo_paid_db (''r'', ''an'') = Some po \<and> po_address po = demo_address"
proof -
  obtain j s1 where v: "verify demo_env 1 demo_verify demo_context demo_paid_db = (Inr j, s1)"
    "j_get j ''verified'' = Some (JBool True)" "length (resolutionRequests s1) = 1" by (rule demo_verified_response)
  have "resolutionRequests demo_paid_db = []" by (simp add: demo_paid_db_def demo_partner_db_def empty_db_def)
  with v(3) have new: "resolutionRequests s1 \<noteq> resolutionRequests demo_paid_db" by auto
  have "directory_ok (directory_of demo_paid_db)"
    by (auto simp: directory_ok_def directory_of_def directory_rows_def demo_paid_db_def demo_destination_def
        payout_of_def demo_address_def split: if_splits)
  from verified_exactly_when_payable [OF v(1) new directory_run.start demo_cuid_inj demo_paid(1) this] v(2)
  have "j_get j ''recommendation'' = Some (JStr ''safe_to_send'')" by (auto simp: Let_def)
  with v(1) demo_paid(2) show ?thesis by (intro exI [of _ j] exI [of _ s1] exI [of _ demo_payout]) (simp add: demo_payout_def)
qed

section \<open>Every lookup is in the log\<close>

definition retention_of :: "env \<Rightarrow> time \<Rightarrow> ident \<Rightarrow> db \<Rightarrow> time option" where
  "retention_of E now p s = buildRetentionExpiresAt now (getPartnerPrivacySettings E p s)"

text \<open>What a lookup writes: its row, a signal for each flag, and an audit entry if it was throttled.\<close>

definition logged_as ::
    "env \<Rightarrow> time \<Rightarrow> ident \<Rightarrow> json result \<Rightarrow> db \<Rightarrow> db \<Rightarrow> bool" where
  "logged_as E now p r s s' \<longleftrightarrow>
     (\<exists>row signals events n.
        s' = s\<lparr>resolutionRequests := resolutionRequests s @ [row], riskSignals := riskSignals s @ signals,
               auditLogs := auditLogs s @ events, nextId := n\<rparr> \<and>
        rr_requesterPartnerId row = Some p \<and> rr_requestedAt row = now \<and>
        rr_retentionExpiresAt row = retention_of E now p s \<and>
        map (\<lambda>g. name_RiskSignalKind (rs_kind g)) signals = rr_flags row \<and>
        (\<forall>g \<in> set signals. rs_resolutionRequestId g = rr_id row \<and> rs_severity g = rr_riskLevel row) \<and>
        (case r of
           Inr j \<Rightarrow> rr_responseData row = Some j \<and> events = []
         | Inl e \<Rightarrow> e = TooManyRequests resolutionLookupThrottledMessage \<and> rr_outcome row = ResolutionOutcome_BLOCKED \<and>
             rr_responseData row = None \<and> rr_resolvedRecipientId row = None \<and> rr_resolvedIdentifierId row = None \<and>
             rr_resolvedDestinationId row = None \<and> rr_resolvedAttestationId row = None \<and>
             rr_idempotencyKey row = None \<and> (\<exists>x. events = [x] \<and> al_entityId x = rr_id row)))"

lemma signal_names:
  "map (\<lambda>g. name_RiskSignalKind (rs_kind g)) (signals_of E now P n) = map name_RiskSignalKind (lu_flags (rl_lookup P))"
  using arg_cong [where f = "map name_RiskSignalKind", OF signals_of_exact(2) [of E now P n]] by (simp add: comp_def)

lemma row_fields:
  "rr_id (request_row now i P) = i" "rr_requesterPartnerId (request_row now i P) = Some (rl_requesterPartnerId P)"
  "rr_requestedAt (request_row now i P) = now" "rr_retentionExpiresAt (request_row now i P) = rl_retentionExpiresAt P"
  "rr_flags (request_row now i P) = map name_RiskSignalKind (lu_flags (rl_lookup P))"
  "rr_riskLevel (request_row now i P) = lu_riskLevel (rl_lookup P)"
  "rr_outcome (request_row now i P) = lu_outcome (rl_lookup P)"
  "rr_responseData (request_row now i P) = rl_responseData P"
  "rr_resolvedRecipientId (request_row now i P) = lu_recipientId (rl_lookup P)"
  "rr_resolvedIdentifierId (request_row now i P) = lu_identifierId (rl_lookup P)"
  "rr_resolvedDestinationId (request_row now i P) = lu_destinationId (rl_lookup P)"
  "rr_resolvedAttestationId (request_row now i P) = lu_attestationId (rl_lookup P)"
  by (simp_all add: request_row_def Let_def)

lemma logged_asI:
  assumes "s' = s\<lparr>resolutionRequests := resolutionRequests s @ [request_row now (cuid E (nextId s)) P],
      riskSignals := riskSignals s @ signals_of E now P (nextId s), auditLogs := auditLogs s @ events, nextId := n\<rparr>"
    and "rl_requesterPartnerId P = p" "rl_retentionExpiresAt P = retention_of E now p s"
    and "case r of
        Inr j \<Rightarrow> rl_responseData P = Some j \<and> events = []
      | Inl e \<Rightarrow> e = TooManyRequests resolutionLookupThrottledMessage \<and> (\<exists>d. rl_lookup P = blocked_lookup d) \<and>
          rl_responseData P = None \<and> rl_idempotencyKey P = None \<and> (\<exists>x. events = [x] \<and> al_entityId x = cuid E (nextId s))"
  shows "logged_as E now p r s s'"
proof -
  let ?row = "request_row now (cuid E (nextId s)) P"
  have "rr_idempotencyKey ?row = None" if "rl_idempotencyKey P = None" using that by (simp add: request_row_def Let_def)
  then have "case r of
      Inr j \<Rightarrow> rr_responseData ?row = Some j \<and> events = []
    | Inl e \<Rightarrow> e = TooManyRequests resolutionLookupThrottledMessage \<and> rr_outcome ?row = ResolutionOutcome_BLOCKED \<and>
        rr_responseData ?row = None \<and> rr_resolvedRecipientId ?row = None \<and> rr_resolvedIdentifierId ?row = None \<and>
        rr_resolvedDestinationId ?row = None \<and> rr_resolvedAttestationId ?row = None \<and>
        rr_idempotencyKey ?row = None \<and> (\<exists>x. events = [x] \<and> al_entityId x = rr_id ?row)"
    using assms(4) by (auto simp: row_fields blocked_lookup_def unverified_def split: sum.splits)
  moreover have "rr_requesterPartnerId ?row = Some p" "rr_requestedAt ?row = now"
    "rr_retentionExpiresAt ?row = retention_of E now p s"
    "map (\<lambda>g. name_RiskSignalKind (rs_kind g)) (signals_of E now P (nextId s)) = rr_flags ?row"
    "\<forall>g \<in> set (signals_of E now P (nextId s)). rs_resolutionRequestId g = rr_id ?row \<and> rs_severity g = rr_riskLevel ?row"
    using assms(2,3) signals_of_exact(3) [of E now P "nextId s"] by (simp_all add: row_fields signal_names)
  ultimately show ?thesis using assms(1) unfolding logged_as_def by blast
qed

lemma throttled_logged:
  assumes "(r, s') = blockResolutionLookup E now partner P d s"
  shows "logged_as E now (ap_partnerId partner) r s s'" "\<exists>e. r = Inl e"
proof -
  let ?p = "ap_partnerId partner"
  let ?P = "P\<lparr>rl_requesterPartnerId := ?p, rl_resolutionBatchRunId := None, rl_idempotencyKey := None,
     rl_requestFingerprint := None, rl_retentionExpiresAt := retention_of E now ?p s, rl_responseData := None,
     rl_metadata := Some (bl_metadata d), rl_lookup := blocked_lookup d\<rparr>"
  let ?x = "audit_row (cuid E (Suc (nextId s) + length (lu_flags (blocked_lookup d)))) now
     (blocked_event partner d (cuid E (nextId s)))"
  have r: "r = Inl (TooManyRequests resolutionLookupThrottledMessage)"
    and s': "s' = s\<lparr>resolutionRequests := resolutionRequests s @ [request_row now (cuid E (nextId s)) ?P],
      riskSignals := riskSignals s @ signals_of E now ?P (nextId s), auditLogs := auditLogs s @ [?x],
      nextId := Suc (Suc (nextId s) + length (lu_flags (blocked_lookup d)))\<rparr>"
    using assms by (simp_all add: blockResolutionLookup_def recordResolutionRequest_eq recordEvent_eq retention_of_def Let_def)
  show "logged_as E now ?p r s s'"
    by (rule logged_asI [OF s']) (auto simp: r audit_row_def blocked_event_def)
  show "\<exists>e. r = Inl e" using r by simp
qed

context lookup_kind
begin

lemma handler_logged:
  assumes h: "handler E now dto ctx s = (r, s')"
  shows "s' = s \<or> logged_as E now (rx_partnerId ctx) r s s'"
  using h
proof (cases rule: handler_cases)
  case (throttled i d)
  from throttled_logged(1) [OF throttled(4)] show ?thesis by (simp add: rx_partnerId_def)
next
  case (answered i l j m n)
  let ?P = "logged E now ctx i s (l, j, m, n)"
  have s': "s' = s\<lparr>resolutionRequests := resolutionRequests s @ [request_row now (cuid E (nextId s)) ?P],
      riskSignals := riskSignals s @ signals_of E now ?P (nextId s), auditLogs := auditLogs s @ [],
      nextId := Suc (nextId s) + length (lu_flags l)\<rparr>"
    using answered(6) by (simp add: recordResolutionRequest_eq logged_def)
  have "logged_as E now (rx_partnerId ctx) r s s'"
    by (rule logged_asI [OF s']) (simp_all add: answered(5) logged_def retention_of_def)
  then show ?thesis ..
qed simp_all

end

text \<open>The row an idempotency key is answered from: the first of the partner's requests of that kind under the key.\<close>

definition earlier_request :: "QueryType \<Rightarrow> ident \<Rightarrow> string option \<Rightarrow> db \<Rightarrow> ResolutionRequest option" where
  "earlier_request q p k s =
     (if falsy k then None
      else List.find (\<lambda>r. rr_requesterPartnerId r = Some p \<and> rr_queryType r = q \<and> rr_idempotencyKey r = k)
        (resolutionRequests s))"

text \<open>What the two limits say of a request whose inputs are valid.\<close>

fun lookup_decision :: "env \<Rightarrow> time \<Rightarrow> lookup_request \<Rightarrow> ident \<Rightarrow> db \<Rightarrow> ResolutionLookupDecision result" where
  "lookup_decision E now (Resolve dto) p s =
     rbind (resolve_input E dto p s) (\<lambda>i. evaluateResolutionLookup E now (identifier_limits QueryType_RESOLVE p i) s)"
| "lookup_decision E now (Confirm dto) p s =
     rbind (confirm_input E dto p s) (\<lambda>i. evaluateResolutionLookup E now (confirm_limits p i) s)"
| "lookup_decision E now (Verify dto) p s =
     rbind (verify_input E dto p s)
       (\<lambda>v. evaluateResolutionLookup E now (identifier_limits QueryType_VERIFY_ADDRESS p (fst v)) s)"

fun request_kind :: "lookup_request \<Rightarrow> QueryType" where
  "request_kind (Resolve dto) = QueryType_RESOLVE"
| "request_kind (Confirm dto) = QueryType_CONFIRM_ADDRESS"
| "request_kind (Verify dto) = QueryType_VERIFY_ADDRESS"

text \<open>What an answer or a refusal must have left behind, given the row of the key, the fingerprint and the limits.\<close>

definition accounted ::
    "env \<Rightarrow> time \<Rightarrow> ResolutionRequestContext \<Rightarrow> QueryType \<Rightarrow> string result \<Rightarrow> ResolutionLookupDecision result \<Rightarrow>
     json result \<Rightarrow> db \<Rightarrow> db \<Rightarrow> bool" where
  "accounted E now ctx q fp decision r s s' \<longleftrightarrow>
     (let earlier = earlier_request q (rx_partnerId ctx) (rx_idempotencyKey ctx) s;
          row = last (resolutionRequests s')
      in
      (case r of
         Inr j \<Rightarrow>
           (case earlier of
              Some old \<Rightarrow> s' = s \<and> rr_responseData old = Some j \<and> map_sum id Some fp = Inr (rr_requestFingerprint old)
            | None \<Rightarrow> decision = Inr Allowed \<and> logged_as E now (rx_partnerId ctx) r s s' \<and> rr_queryType row = q \<and>
                rr_idempotencyKey row = (if falsy (rx_idempotencyKey ctx) then None else rx_idempotencyKey ctx) \<and>
                map_sum id (\<lambda>f. if f = [] then None else Some f) fp = Inr (rr_requestFingerprint row))
       | Inl e \<Rightarrow>
           (if earlier = None \<and> (\<exists>d. decision = Inr (Blocked d))
            then logged_as E now (rx_partnerId ctx) r s s' \<and> rr_queryType row = q else s' = s)))"

context lookup_kind
begin

lemma none_stored:
  "getStoredResponse queryType valid message p k f s = Inr None \<longleftrightarrow> earlier_request queryType p k s = None"
proof (cases "falsy k")
  case True
  then show ?thesis
    by (simp add: getStoredResponse_def findStoredIdempotentRequest_def rbind_def earlier_request_def)
next
  case False
  have "rr_responseData row \<noteq> None" if "valid (rr_responseData row)" for row using that valid_some by metis
  then show ?thesis
    using False by (auto simp: stored_response [OF False] earlier_request_def keyed_def [abs_def] split: option.split if_splits)
qed

lemma stored_from:
  assumes stored: "getStoredResponse queryType valid message p k f s = Inr (Some j)"
  shows "\<exists>old. earlier_request queryType p k s = Some old \<and> rr_responseData old = Some j \<and> rr_requestFingerprint old = Some f"
proof (cases "falsy k")
  case True
  with stored show ?thesis by (simp add: getStoredResponse_def findStoredIdempotentRequest_def rbind_def)
next
  case False
  then have "earlier_request queryType p k s = List.find (keyed p k) (resolutionRequests s)"
    by (simp add: earlier_request_def keyed_def [abs_def])
  with stored show ?thesis by (auto simp: stored_response [OF False] split: option.splits if_splits)
qed

lemma handler_accounted:
  assumes h: "handler E now dto ctx s = (r, s')"
  shows "accounted E now ctx queryType (map_sum id (fingerprint E) (inputs E dto (rx_partnerId ctx) s))
    (rbind (inputs E dto (rx_partnerId ctx) s) (\<lambda>i. evaluateResolutionLookup E now (limits (rx_partnerId ctx) i) s)) r s s'"
  using h
proof (cases rule: handler_cases)
  case (invalid e)
  then show ?thesis by (simp add: accounted_def rbind_def)
next
  case (refused i e)
  then show ?thesis by (auto simp: accounted_def rbind_def none_stored)
next
  case (repeated i j)
  then show ?thesis using stored_from [OF repeated(4)] by (auto simp: accounted_def)
next
  case (throttled i d)
  have "logged_as E now (rx_partnerId ctx) r s s'"
    using throttled_logged(1) [OF throttled(4)] by (simp add: rx_partnerId_def)
  moreover have "rr_queryType (last (resolutionRequests s')) = queryType"
    using throttled(4)
    by (simp add: blockResolutionLookup_def recordResolutionRequest_eq recordEvent_eq Let_def request_row_def kind)
  ultimately show ?thesis
    using throttled_logged(2) [OF throttled(4)] throttled(1-3) by (auto simp: accounted_def rbind_def none_stored)
next
  case (answered i l j m n)
  let ?P = "logged E now ctx i s (l, j, m, n)"
  have "length (resolutionRequests s') = Suc (length (resolutionRequests s))"
    using answered(6) by (simp add: recordResolutionRequest_eq)
  then have "s' \<noteq> s" by auto
  then have "logged_as E now (rx_partnerId ctx) r s s'" using handler_logged [OF h] by simp
  moreover have "last (resolutionRequests s') = request_row now (cuid E (nextId s)) ?P"
    using answered(6) by (simp add: recordResolutionRequest_eq)
  ultimately show ?thesis
    using answered(1-3,5) by (simp add: accounted_def rbind_def none_stored request_row_def logged_def kind falsy_def Let_def)
qed

end

text \<open>C22: every lookup is in the log.  An answer is given in one of two ways.  Either the partner has asked the same
  (the fingerprint is equal) under the same idempotency key and kind before: then it is the stored answer, and nothing
  changes.  Or no request under the key is in the log: then the limits allow the lookup, and exactly one row of the
  asking partner is added, with this answer, the key, the fingerprint and the retention of the partner, and one risk
  signal per flag.  A refusal changes nothing, except when the inputs are valid, the key is new and a limit is exceeded:
  then one row is added that is marked blocked, with no answer, no key and nothing it resolved to, and one audit entry
  about that row.  No other table changes.\<close>

theorem every_lookup_logged:
  assumes "serve E now req ctx s = (r, s')"
  shows "accounted E now ctx (request_kind req) (request_fingerprint E req (rx_partnerId ctx) s)
    (lookup_decision E now req (rx_partnerId ctx) s) r s s'"
proof (cases req)
  case (Resolve dto)
  from resolve_kind.handler_accounted [OF assms [unfolded Resolve serve.simps]] show ?thesis by (simp add: Resolve)
next
  case (Confirm dto)
  from confirm_kind.handler_accounted [OF assms [unfolded Confirm serve.simps]] show ?thesis by (simp add: Confirm)
next
  case (Verify dto)
  from verify_kind.handler_accounted [OF assms [unfolded Verify serve.simps]] show ?thesis by (simp add: Verify)
qed

text \<open>With no request allowed in the window, the demo lookup is throttled.\<close>

definition demo_strict :: env where
  "demo_strict = demo_env\<lparr>cfg := demo_config\<lparr>RESOLUTION_LOOKUP_RATE_LIMIT_MAX_REQUESTS := 0\<rparr>\<rparr>"

lemma demo_throttled:
  "(case verify demo_strict 1 demo_verify demo_context demo_paid_db of
      (Inl _, s) \<Rightarrow> length (resolutionRequests s) = 1 | (Inr j, s) \<Rightarrow> False)"
  by code_simp

theorem every_lookup_logged_witness:
  "(\<exists>j s'. serve demo_env 1 (Verify demo_verify) demo_context demo_paid_db = (Inr j, s') \<and>
     logged_as demo_env 1 ''p'' (Inr j) demo_paid_db s' \<and>
     rr_idempotencyKey (last (resolutionRequests s')) = rx_idempotencyKey demo_context) \<and>
   (\<exists>e s'. serve demo_strict 1 (Verify demo_verify) demo_context demo_paid_db = (Inl e, s') \<and>
     logged_as demo_strict 1 ''p'' (Inl e) demo_paid_db s')"
proof -
  have p: "rx_partnerId demo_context = ''p''" by (simp add: rx_partnerId_def demo_context_def demo_partner_def)
  have empty: "resolutionRequests demo_paid_db = []" by (simp add: demo_paid_db_def demo_partner_db_def empty_db_def)
  then have none: "earlier_request q ''p'' k demo_paid_db = None" for q k by (simp add: earlier_request_def)
  have key: "\<not> falsy (rx_idempotencyKey demo_context)" by (simp add: demo_context_def falsy_def)
  obtain j s1 where v: "verify demo_env 1 demo_verify demo_context demo_paid_db = (Inr j, s1)"
    by (rule demo_verified_response)
  obtain e s2 where t: "verify demo_strict 1 demo_verify demo_context demo_paid_db = (Inl e, s2)"
    "length (resolutionRequests s2) = 1" using demo_throttled by (simp split: sum.splits prod.splits) (metis sum.exhaust)
  have "s2 \<noteq> demo_paid_db" using t(2) empty by auto
  then show ?thesis
    using every_lookup_logged [of demo_env 1 "Verify demo_verify" demo_context demo_paid_db "Inr j" s1] v
      every_lookup_logged [of demo_strict 1 "Verify demo_verify" demo_context demo_paid_db "Inl e" s2] t(1)
    using key by (simp add: accounted_def p none Let_def split: if_splits)
qed

section \<open>Throttled lookups\<close>

text \<open>Two databases that differ in nothing a throttled lookup may depend on.\<close>

definition same_log :: "db \<Rightarrow> db \<Rightarrow> bool" where
  "same_log s t \<longleftrightarrow>
     resolutionRequests t = resolutionRequests s \<and> riskSignals t = riskSignals s \<and> auditLogs t = auditLogs s \<and>
     securitySettings t = securitySettings s \<and> nextId t = nextId s"

lemma same_log_reads:
  assumes "same_log s t"
  shows "getPartnerPolicy p t = getPartnerPolicy p s"
    "evaluateResolutionLookup E now L t = evaluateResolutionLookup E now L s"
    "getStoredResponse q v m p k f t = getStoredResponse q v m p k f s"
    "fst (blockResolutionLookup E now partner P d t) = fst (blockResolutionLookup E now partner P d s)"
    "same_log (snd (blockResolutionLookup E now partner P d s)) (snd (blockResolutionLookup E now partner P d t))"
proof -
  have "requests_since p w t = requests_since p w s" for p w using assms by (simp add: requests_since_def same_log_def)
  then show "evaluateResolutionLookup E now L t = evaluateResolutionLookup E now L s"
    unfolding evaluateResolutionLookup_def by (simp only:)
qed (use assms in \<open>simp_all add: same_log_def getPartnerPolicy_def getStoredResponse_def
      findStoredIdempotentRequest_def blockResolutionLookup_def recordResolutionRequest_eq
      recordEvent_eq getPartnerPrivacySettings_def Let_def\<close>)

context lookup_kind
begin

lemma throttled_same:
  assumes h: "handler E now dto ctx s = (Inl e, s')" "s' \<noteq> s" and same: "same_log s t"
  shows "fst (handler E now dto ctx t) = Inl e \<and> same_log s' (snd (handler E now dto ctx t))"
  using h(1)
proof (cases rule: handler_cases)
  case (throttled i d)
  have "inputs E dto (rx_partnerId ctx) t = Inr i"
    using throttled(1) inputs_policy [OF same_log_reads(1) [OF same]] by metis
  then have "handler E now dto ctx t =
      blockResolutionLookup E now (rx_authenticatedPartner ctx) ((params i)\<lparr>rl_recipientIdentifier := blocked i\<rparr>) d t"
    using throttled(2,3) by (simp add: handler_eq serveLookup_def same_log_reads [OF same])
  moreover have "fst (blockResolutionLookup E now (rx_authenticatedPartner ctx)
        ((params i)\<lparr>rl_recipientIdentifier := blocked i\<rparr>) d s) = Inl e"
    "snd (blockResolutionLookup E now (rx_authenticatedPartner ctx)
        ((params i)\<lparr>rl_recipientIdentifier := blocked i\<rparr>) d s) = s'"
    using throttled(4) by (metis fst_conv) (metis throttled(4) snd_conv)
  ultimately show ?thesis using same_log_reads(4,5) [OF same] by metis
qed (use h(2) in simp_all)

end

text \<open>C23: a throttled lookup reveals nothing.  If a lookup was refused and logged, then it is refused with the
  same answer and the same log whatever recipients, identifiers, destinations and attestations the
  database holds: what a partner that is being throttled learns is independent of the directory.\<close>

theorem throttled_lookup_reveals_nothing:
  assumes "serve E now req ctx s = (Inl e, s')" and "s' \<noteq> s" and "same_log s t"
  shows "e = TooManyRequests resolutionLookupThrottledMessage \<and> fst (serve E now req ctx t) = Inl e \<and>
    same_log s' (snd (serve E now req ctx t))"
proof -
  have e: "e = TooManyRequests resolutionLookupThrottledMessage" if "logged_as E now (rx_partnerId ctx) (Inl e) s s'"
    using that by (auto simp: logged_as_def)
  show ?thesis
  proof (cases req)
    case (Resolve dto)
    note h = assms(1) [unfolded Resolve serve.simps]
    from resolve_kind.handler_logged [OF h] resolve_kind.throttled_same [OF h assms(2,3)] assms(2) e
    show ?thesis by (simp add: Resolve)
  next
    case (Confirm dto)
    note h = assms(1) [unfolded Confirm serve.simps]
    from confirm_kind.handler_logged [OF h] confirm_kind.throttled_same [OF h assms(2,3)] assms(2) e
    show ?thesis by (simp add: Confirm)
  next
    case (Verify dto)
    note h = assms(1) [unfolded Verify serve.simps]
    from verify_kind.handler_logged [OF h] verify_kind.throttled_same [OF h assms(2,3)] assms(2) e
    show ?thesis by (simp add: Verify)
  qed
qed

theorem throttled_lookup_reveals_nothing_witness:
  "fst (serve demo_strict 1 (Verify demo_verify) demo_context (demo_paid_db\<lparr>destinations := [], recipients := []\<rparr>)) =
     Inl (TooManyRequests resolutionLookupThrottledMessage)"
proof -
  obtain e s' where v: "verify demo_strict 1 demo_verify demo_context demo_paid_db = (Inl e, s')"
    "length (resolutionRequests s') = 1" using demo_throttled by (simp split: sum.splits prod.splits) (metis sum.exhaust)
  have "resolutionRequests demo_paid_db = []" by (simp add: demo_paid_db_def demo_partner_db_def empty_db_def)
  with v(2) have "s' \<noteq> demo_paid_db" by auto
  moreover have "same_log demo_paid_db (demo_paid_db\<lparr>destinations := [], recipients := []\<rparr>)" by (simp add: same_log_def)
  ultimately show ?thesis
    using throttled_lookup_reveals_nothing [of demo_strict 1 "Verify demo_verify" demo_context demo_paid_db e s'] v(1) by simp
qed

end
