(* ===== verification/Batch_Facts.thy ===== *)
theory Batch_Facts
  imports Disclosure
begin

text \<open>
  The batch of verifications stores, counts and audits every row it processes and stops only where it
  was asked to; and the retention clean-up deletes a log row exactly when the retention it was logged
  under has ended.
\<close>

section \<open>One row of a batch\<close>

definition row_stored :: "BatchContext \<Rightarrow> nat \<Rightarrow> BatchRowResult \<Rightarrow> ResolutionBatchRow \<Rightarrow> bool" where
  "row_stored ctx index w b \<longleftrightarrow>
     bw_batchRunId b = bc_batchRunId ctx \<and> bw_rowIndex b = int index \<and> bw_outcome b = wr_outcome w \<and>
     bw_riskLevel b = ro_riskLevel (wr_response w) \<and> bw_flags b = map name_RiskSignalKind (ro_flags (wr_response w)) \<and>
     bw_submittedAddressRaw b = ro_submittedAddress (wr_response w) \<and>
     bw_clientReference b = ro_clientReference (wr_response w) \<and>
     bw_retentionExpiresAt b = bc_retentionExpiresAt ctx"

definition row_effect :: "BatchContext \<Rightarrow> nat \<Rightarrow> db \<Rightarrow> BatchRowResult \<times> db \<Rightarrow> bool" where
  "row_effect ctx index s res \<longleftrightarrow>
     (\<exists>b. batchRows (snd res) = batchRows s @ [b] \<and> row_stored ctx index (fst res) b) \<and>
     ro_riskLevel (wr_response (fst res)) = wr_riskLevel (fst res) \<and>
     auditLogs (snd res) = auditLogs s \<and> batchRuns (snd res) = batchRuns s"

lemma insert_batch_row_eq:
  "insert_batch_row E now ctx index row i r oc data s =
     s\<lparr>nextId := Suc (nextId s), batchRows := batchRows s @
        [\<lparr>bw_id = cuid E (nextId s), bw_batchRunId = bc_batchRunId ctx, bw_rowIndex = int index,
          bw_clientReference = trim_or_null (bv_clientReference row), bw_recipientIdentifierInput = i,
          bw_submittedAddressRaw = ro_submittedAddress r, bw_outcome = oc, bw_riskLevel = ro_riskLevel r,
          bw_recommendation = Some (ro_recommendation r), bw_flags = map name_RiskSignalKind (ro_flags r),
          bw_retentionExpiresAt = bc_retentionExpiresAt ctx, bw_responseData = Some data, bw_createdAt = now\<rparr>]\<rparr>"
  by (simp add: insert_batch_row_def fresh_def Let_def)

lemma row_effects:
  "row_effect ctx index s (failed_row E now ctx index row i a e s)"
  "row_effect ctx index s (verify_row E now ctx index row j a ev s)"
  "row_effect ctx index s (confirm_row E now ctx index row i p a ec s)"
  by (simp_all add: row_effect_def row_stored_def failed_row_def verify_row_def confirm_row_def insert_batch_row_eq
      recordResolutionRequest_eq processed_row_def row_result_def Let_def)

lemma process_row_effect: "row_effect ctx index s (process_row E now ctx index row s)"
  by (simp add: process_row_def Let_def row_effects split: sum.split option.split)

section \<open>What a row reads\<close>

text \<open>The tables a batch writes; a lookup reads none of them.\<close>

definition aside ::
    "nat \<Rightarrow> ResolutionRequest list \<Rightarrow> RiskSignal list \<Rightarrow> ResolutionBatchRow list \<Rightarrow> ResolutionBatchRun list \<Rightarrow>
     AuditLog list \<Rightarrow> db \<Rightarrow> db" where
  "aside n requests signals rows runs logs s =
     s\<lparr>nextId := n, resolutionRequests := requests, riskSignals := signals, batchRows := rows, batchRuns := runs,
       auditLogs := logs\<rparr>"

definition beside :: "db \<Rightarrow> db \<Rightarrow> bool" where
  "beside s t \<longleftrightarrow> (\<exists>n requests signals rows runs logs. t = aside n requests signals rows runs logs s)"

lemma aside_reads:
  "getPartnerPolicy p (aside n a b c d e s) = getPartnerPolicy p s"
  "getPartnerPrivacySettings E p (aside n a b c d e s) = getPartnerPrivacySettings E p s"
  "recipient_owner (aside n a b c d e s) = recipient_owner s"
  "network_of (aside n a b c d e s) = network_of s"
  "recipient_identifiers (aside n a b c d e s) = recipient_identifiers s"
  "latest_verified_attestation i (aside n a b c d e s) = latest_verified_attestation i s"
  "getActiveDestinations i j now (aside n a b c d e s) = getActiveDestinations i j now s"
  by (auto simp: aside_def getPartnerPolicy_def getPartnerPrivacySettings_def recipient_owner_def recipient_row_def
      partner_row_def network_of_def recipient_identifiers_def latest_verified_attestation_def getActiveDestinations_def
      fun_eq_iff split: option.split)

lemma aside_tables:
  "identifiers (aside n a b c d e s) = identifiers s" "assetNetworks (aside n a b c d e s) = assetNetworks s"
  "destinations (aside n a b c d e s) = destinations s"
  by (simp_all add: aside_def)

lemma aside_finds:
  "findResolvableIdentifier E v (aside n a b c d e s) = findResolvableIdentifier E v s"
  "findAssetNetworkForLookup x y z (aside n a b c d e s) = findAssetNetworkForLookup x y z s"
  "activeConfirmations E now i j (aside n a b c d e s) = activeConfirmations E now i j s"
  unfolding findResolvableIdentifier_def findAssetNetworkForLookup_def activeConfirmations_def with_owner_def
    aside_reads aside_tables by (rule refl)+

lemma aside_lookups:
  "evaluateVerifyLookup E now i ch as ad (aside n a b c d e s) = evaluateVerifyLookup E now i ch as ad s"
  "evaluateConfirmLookup E now p ch as ad (aside n a b c d e s) = evaluateConfirmLookup E now p ch as ad s"
  unfolding evaluateVerifyLookup_def evaluateConfirmLookup_def lookupVerifiedDestination_def
    lookupRecipientConfirmation_def aside_reads aside_finds by (rule refl)+

lemma beside_refl: "beside s s"
  unfolding beside_def
  by (intro exI [of _ "nextId s"] exI [of _ "resolutionRequests s"] exI [of _ "riskSignals s"] exI [of _ "batchRows s"]
      exI [of _ "batchRuns s"] exI [of _ "auditLogs s"]) (simp add: aside_def)

lemma aside_updates:
  "(aside n a b c d e s)\<lparr>nextId := m\<rparr> = aside m a b c d e s"
  "(aside n a b c d e s)\<lparr>resolutionRequests := a'\<rparr> = aside n a' b c d e s"
  "(aside n a b c d e s)\<lparr>riskSignals := b'\<rparr> = aside n a b' c d e s"
  "(aside n a b c d e s)\<lparr>batchRows := c'\<rparr> = aside n a b c' d e s"
  "(aside n a b c d e s)\<lparr>batchRuns := d'\<rparr> = aside n a b c d' e s"
  "(aside n a b c d e s)\<lparr>auditLogs := e'\<rparr> = aside n a b c d e' s"
  by (simp_all add: aside_def)

lemma beside_updates:
  "beside s t \<Longrightarrow> beside s (t\<lparr>nextId := n\<rparr>)" "beside s t \<Longrightarrow> beside s (t\<lparr>resolutionRequests := a\<rparr>)"
  "beside s t \<Longrightarrow> beside s (t\<lparr>riskSignals := b\<rparr>)" "beside s t \<Longrightarrow> beside s (t\<lparr>batchRows := c\<rparr>)"
  "beside s t \<Longrightarrow> beside s (t\<lparr>batchRuns := d\<rparr>)" "beside s t \<Longrightarrow> beside s (t\<lparr>auditLogs := e\<rparr>)"
  unfolding beside_def by (elim exE; hypsubst; unfold aside_updates; blast)+

lemma row_writes:
  assumes "beside s t"
  shows "beside s (insert_batch_row E now ctx index row i r oc data t)"
    "beside s (snd (recordResolutionRequest E now P t))" "beside s (recordEvent E now x t)"
  using assms by (simp_all add: insert_batch_row_eq recordResolutionRequest_eq recordEvent_eq beside_updates)

text \<open>What a row is answered, but for the id of its log row.\<close>

definition answer_of :: "BatchRowResult \<times> db \<Rightarrow> BatchRowResult" where
  "answer_of res = (fst res)\<lparr>wr_requestId := []\<rparr>"

lemma rows_beside:
  assumes "beside s t"
  shows "beside s (snd (failed_row E now ctx index row i a e t))"
    "beside s (snd (verify_row E now ctx index row j a ev t))"
    "beside s (snd (confirm_row E now ctx index row i p a ec t))"
  using assms by (simp_all add: failed_row_def verify_row_def confirm_row_def Let_def split_beta row_writes)

lemma rows_answer:
  "answer_of (failed_row E now ctx index row i a e t) = answer_of (failed_row E now ctx index row i a e s)"
  "answer_of (verify_row E now ctx index row j a ev t) = answer_of (verify_row E now ctx index row j a ev s)"
  "answer_of (confirm_row E now ctx index row i p a ec t) = answer_of (confirm_row E now ctx index row i p a ec s)"
  by (simp_all add: answer_of_def failed_row_def verify_row_def confirm_row_def row_result_def Let_def split_beta)

lemma process_row_beside:
  assumes t: "beside s t"
  shows "answer_of (process_row E now ctx index row t) = answer_of (process_row E now ctx index row s) \<and>
    beside s (snd (process_row E now ctx index row t))"
proof -
  have reads: "getPartnerPolicy p t = getPartnerPolicy p s"
    "evaluateVerifyLookup E now i ch as ad t = evaluateVerifyLookup E now i ch as ad s"
    "evaluateConfirmLookup E now f ch as ad t = evaluateConfirmLookup E now f ch as ad s" for p i ch as ad f
    using t by (auto simp: beside_def aside_reads aside_lookups)
  note row = process_row_def Let_def reads rows_beside [OF t] rows_answer [where t = t and s = s]
  let ?policy = "getPartnerPolicy (ap_partnerId (bc_partner ctx)) s"
    and ?chain = "bd_chain (bc_dto ctx)" and ?asset = "bd_asset (bc_dto ctx)"
  show ?thesis
  proof (cases "readSensitiveInput E ?policy (bv_address row) (bv_addressEncrypted row) (row_label index '' address'') (Some 200)")
    case (Inl e)
    then show ?thesis by (simp add: row)
  next
    case address: (Inr address)
    show ?thesis
    proof (cases "resolveBatchRowLookupMode (bc_lookupMode ctx) (bv_lookupMode row) = BY_RECIPIENT")
      case by_recipient: True
      show ?thesis
      proof (cases "readSensitiveInput E ?policy (bv_recipientIdentifier row) (bv_recipientIdentifierEncrypted row)
          (row_label index '' recipient identifier'') (Some 160)")
        case (Inl e)
        then show ?thesis by (simp add: row address by_recipient)
      next
        case (Inr name)
        then show ?thesis
          by (cases "evaluateVerifyLookup E now name ?chain ?asset address s") (simp_all add: row address by_recipient)
      qed
    next
      case by_recipient: False
      show ?thesis
      proof (cases "trim_or_null (bv_platform row)")
        case None
        then show ?thesis by (simp add: row address by_recipient)
      next
        case (Some platform)
        then show ?thesis
          by (cases "evaluateConfirmLookup E now platform ?chain ?asset address s") (simp_all add: row address by_recipient)
      qed
    qed
  qed
qed

section \<open>The loop\<close>

definition stops :: "BatchContext \<Rightarrow> bool" where
  "stops ctx \<longleftrightarrow> bd_stopOnFirstHighRisk (bc_dto ctx) = Some True"

text \<open>The rows that are processed: all of them, or up to the first high risk when the batch stops there.\<close>

definition processed_exactly :: "bool \<Rightarrow> nat \<Rightarrow> RiskLevel list \<Rightarrow> bool" where
  "processed_exactly stop n levels \<longleftrightarrow>
     length levels \<le> n \<and> (\<forall>l \<in> set (butlast levels). stop \<longrightarrow> \<not> high_risk l) \<and>
     (length levels < n \<longrightarrow> stop \<and> levels \<noteq> [] \<and> high_risk (last levels))"

definition row_summary :: "nat \<Rightarrow> string option" where
  "row_summary i = Some (''Processed batch verification row '' @ show_nat (i + 1) @ ''.'')"

definition without_request :: "BatchRowResult \<Rightarrow> BatchRowResult" where
  "without_request w = w\<lparr>wr_requestId := []\<rparr>"

definition rows_alone :: "env \<Rightarrow> time \<Rightarrow> BatchContext \<Rightarrow> nat \<Rightarrow> BatchVerifyRowDto list \<Rightarrow> db \<Rightarrow> BatchRowResult list" where
  "rows_alone E now ctx k rows s = map (\<lambda>(i, row). answer_of (process_row E now ctx i row s)) (enumerate k rows)"

lemma rows_alone_simps [simp]:
  "rows_alone E now ctx k [] s = []"
  "rows_alone E now ctx k (row # rows) s = answer_of (process_row E now ctx k row s) # rows_alone E now ctx (Suc k) rows s"
  by (simp_all add: rows_alone_def)

definition rows_done ::
    "env \<Rightarrow> time \<Rightarrow> BatchContext \<Rightarrow> nat \<Rightarrow> BatchVerifyRowDto list \<Rightarrow> db \<Rightarrow> db \<Rightarrow> db \<Rightarrow> BatchRowResult list \<Rightarrow> bool" where
  "rows_done E now ctx k rows s0 s s' ws \<longleftrightarrow>
     map without_request ws = rows_alone E now ctx k (take (length ws) rows) s0 \<and>
     (\<exists>bs es. batchRows s' = batchRows s @ bs \<and> auditLogs s' = auditLogs s @ es \<and>
        map al_summary es = map row_summary [k ..< k + length ws] \<and>
        list_all2 (\<lambda>(i, w) b. row_stored ctx i w b) (enumerate k ws) bs) \<and>
     batchRuns s' = batchRuns s \<and> (\<forall>w \<in> set ws. ro_riskLevel (wr_response w) = wr_riskLevel w) \<and>
     processed_exactly (stops ctx) (length rows) (map wr_riskLevel ws)"

lemma process_rows_effect:
  assumes "process_rows E now ctx k rows (done0, c) s = ((done', c'), s')" and "beside s0 s"
  shows "\<exists>ws. done' = done0 @ ws \<and> c' = fold count_row ws c \<and> rows_done E now ctx k rows s0 s s' ws"
  using assms
proof (induction rows arbitrary: k done0 c s)
  case Nil
  then show ?case by (simp add: processed_exactly_def rows_done_def)
next
  case (Cons row rows)
  obtain w s1 where w: "process_row E now ctx k row s = (w, s1)" by force
  then have e: "row_effect ctx k s (w, s1)" using process_row_effect [of ctx k s E now row] by simp
  then obtain b where b: "batchRows s1 = batchRows s @ [b]" "row_stored ctx k w b"
    and w': "ro_riskLevel (wr_response w) = wr_riskLevel w" "auditLogs s1 = auditLogs s" "batchRuns s1 = batchRuns s"
    by (auto simp: row_effect_def)
  have alone: "without_request w = answer_of (process_row E now ctx k row s0)" and "beside s0 s1"
    using process_row_beside [OF Cons.prems(2), of E now ctx k row] by (simp_all add: w answer_of_def without_request_def)
  let ?s2 = "recordEvent E now (row_event ctx k w) s1"
  have near: "beside s0 ?s2" using \<open>beside s0 s1\<close> by (rule row_writes)
  obtain x where s2: "batchRows ?s2 = batchRows s @ [b]" "auditLogs ?s2 = auditLogs s @ [x]" "batchRuns ?s2 = batchRuns s"
    "al_summary x = row_summary k"
    using b(1) w' by (simp add: recordEvent_eq audit_row_def row_event_def row_summary_def Let_def)
  show ?case
  proof (cases "stops ctx \<and> high_risk (wr_riskLevel w)")
    case True
    then have "done' = done0 @ [w]" "c' = count_row w c" "s' = ?s2"
      using Cons.prems by (simp_all add: w Let_def stops_def)
    moreover have "rows_done E now ctx k (row # rows) s0 s ?s2 [w]"
      using True b(2) w'(1) s2 alone unfolding rows_done_def
      by (intro conjI exI [of _ "[b]"] exI [of _ "[x]"]) (simp_all add: processed_exactly_def)
    ultimately show ?thesis by (intro exI [of _ "[w]"]) simp
  next
    case False
    then have "process_rows E now ctx (Suc k) rows (done0 @ [w], count_row w c) ?s2 = ((done', c'), s')"
      using Cons.prems by (auto simp: w Let_def stops_def)
    from Cons.IH [OF this near] obtain ws where
      d: "done' = (done0 @ [w]) @ ws" "c' = fold count_row ws (count_row w c)"
      and r: "rows_done E now ctx (Suc k) rows s0 ?s2 s' ws" by blast
    from r obtain bs es where r': "map without_request ws = rows_alone E now ctx (Suc k) (take (length ws) rows) s0"
      "batchRows s' = batchRows ?s2 @ bs" "auditLogs s' = auditLogs ?s2 @ es" "batchRuns s' = batchRuns ?s2"
      "map al_summary es = map row_summary [Suc k ..< Suc k + length ws]"
      "list_all2 (\<lambda>(i, w) b. row_stored ctx i w b) (enumerate (Suc k) ws) bs"
      "\<forall>w \<in> set ws. ro_riskLevel (wr_response w) = wr_riskLevel w"
      "processed_exactly (stops ctx) (length rows) (map wr_riskLevel ws)" by (auto simp: rows_done_def)
    have "[k ..< k + length (w # ws)] = k # [Suc k ..< Suc k + length ws]" by (simp add: upt_rec)
    then have "rows_done E now ctx k (row # rows) s0 s s' (w # ws)"
      unfolding rows_done_def using False b(2) w'(1) s2 r' alone
      by (intro conjI exI [of _ "b # bs"] exI [of _ "x # es"]) (auto simp: processed_exactly_def)
    with d show ?thesis by (intro exI [of _ "w # ws"]) simp
  qed
qed

text \<open>The counters: each row in exactly one of them.\<close>

definition row_unsupported :: "BatchRowResult \<Rightarrow> bool" where
  "row_unsupported w \<longleftrightarrow> \<not> ro_verified (wr_response w) \<and> wr_recommendation w = ''unsupported_asset_network''"

definition row_blocked :: "BatchRowResult \<Rightarrow> bool" where
  "row_blocked w \<longleftrightarrow> \<not> ro_verified (wr_response w) \<and> \<not> row_unsupported w \<and> high_risk (wr_riskLevel w)"

definition row_warning :: "BatchRowResult \<Rightarrow> bool" where
  "row_warning w \<longleftrightarrow> \<not> ro_verified (wr_response w) \<and> \<not> row_unsupported w \<and> \<not> high_risk (wr_riskLevel w)"

lemmas row_classes = row_unsupported_def row_blocked_def row_warning_def

lemma counts_of:
  "bt_verified (fold count_row ws c) = bt_verified c + length (filter (\<lambda>w. ro_verified (wr_response w)) ws)"
  "bt_unsupported (fold count_row ws c) = bt_unsupported c + length (filter row_unsupported ws)"
  "bt_blocked (fold count_row ws c) = bt_blocked c + length (filter row_blocked ws)"
  "bt_warning (fold count_row ws c) = bt_warning c + length (filter row_warning ws)"
  by (induction ws arbitrary: c) (auto simp: count_row_def row_classes)

lemma without_request_same [simp]:
  "wr_response (without_request w) = wr_response w" "wr_riskLevel (without_request w) = wr_riskLevel w"
  "wr_outcome (without_request w) = wr_outcome w" "wr_recommendation (without_request w) = wr_recommendation w"
  "row_unsupported (without_request w) = row_unsupported w" "row_blocked (without_request w) = row_blocked w"
  "row_warning (without_request w) = row_warning w"
  by (simp_all add: without_request_def row_classes)

text \<open>What the rows of a batch have in common.\<close>

definition batch_context :: "env \<Rightarrow> time \<Rightarrow> BatchVerifyDto \<Rightarrow> ResolutionRequestContext \<Rightarrow> db \<Rightarrow> BatchContext" where
  "batch_context E now dto ctx s =
     \<lparr>bc_batchRunId = cuid E (nextId s), bc_lookupMode = readBatchLookupMode (bd_lookupMode dto),
      bc_retentionExpiresAt = buildRetentionExpiresAt now (getPartnerPrivacySettings E (rx_partnerId ctx) s),
      bc_dto = dto, bc_partner = rx_authenticatedPartner ctx\<rparr>"

lemma batchVerify_Inr:
  assumes "batchVerify E now finished dto ctx s = (Inr out, s')"
  obtains chain asset s2 ws c s3 where
    "s2 = s\<lparr>nextId := Suc (nextId s), batchRuns := batchRuns s @
       [new_batch_run now (cuid E (nextId s)) (rx_authenticatedPartner ctx) dto chain asset]\<rparr>"
    "process_rows E now (batch_context E now dto ctx s) 0 (bd_rows dto)
       ([], \<lparr>bt_verified = 0, bt_warning = 0, bt_blocked = 0, bt_unsupported = 0\<rparr>) s2 = ((ws, c), s3)"
    "bo_batchRunId out = cuid E (nextId s)" "bo_rows out = map wr_response ws" "bo_totalRows out = length ws"
    "bo_counts out = c" "s' = complete_batch_run now finished (cuid E (nextId s)) c s3"
    "bd_rows dto \<noteq> []" "int (length (bd_rows dto)) \<le> RESOLUTION_BATCH_MAX_ROWS (cfg E)"
proof -
  let ?p = "rx_authenticatedPartner ctx" and ?mode = "readBatchLookupMode (bd_lookupMode dto)"
  obtain chain asset where n: "rbind (assertBatchLookupRequirements ?mode (bd_rows dto)) (\<lambda>_.
             rbind (normalizeChain (bd_chain dto)) (\<lambda>normalizedChain.
             rbind (normalizeAssetSymbol (bd_asset dto)) (\<lambda>normalizedAssetSymbol.
               Inr (normalizedChain, normalizedAssetSymbol)))) = Inr (chain, asset)"
    using assms by (auto simp: batchVerify_def Let_def split: if_splits sum.splits)
  let ?ctx = "batch_context E now dto ctx s"
  let ?s2 = "s\<lparr>nextId := Suc (nextId s), batchRuns := batchRuns s @ [new_batch_run now (cuid E (nextId s)) ?p dto chain asset]\<rparr>"
  obtain ws c s3 where w: "process_rows E now ?ctx 0 (bd_rows dto)
       ([], \<lparr>bt_verified = 0, bt_warning = 0, bt_blocked = 0, bt_unsupported = 0\<rparr>) ?s2 = ((ws, c), s3)"
    by (metis prod.collapse)
  have sizes: "bd_rows dto \<noteq> []" "int (length (bd_rows dto)) \<le> RESOLUTION_BATCH_MAX_ROWS (cfg E)"
    using assms by (auto simp: batchVerify_def Let_def split: if_splits)
  have "out = \<lparr>bo_batchRunId = cuid E (nextId s), bo_inputFormat = bd_inputFormat dto, bo_lookupMode = ?mode,
       bo_chain = js_trim (bd_chain dto), bo_asset = js_trim (bd_asset dto),
       bo_totalRows = length ws, bo_counts = c, bo_rows = map wr_response ws\<rparr> \<and>
     s' = complete_batch_run now finished (cuid E (nextId s)) c s3"
    using assms sizes w n by (simp add: batchVerify_def batch_context_def rx_partnerId_def Let_def fresh_def)
  then show ?thesis by (intro that [OF refl w _ _ _ _ _ sizes]) simp_all
qed

lemma stored_columns:
  assumes rows: "list_all2 (\<lambda>(i, w) b. row_stored ctx i w b) (enumerate 0 ws) bs"
    and levels: "\<forall>w \<in> set ws. ro_riskLevel (wr_response w) = wr_riskLevel w"
  shows "map bw_rowIndex bs = map int [0 ..< length ws]" "map bw_batchRunId bs = replicate (length ws) (bc_batchRunId ctx)"
    "map bw_clientReference bs = map ro_clientReference (map wr_response ws)"
    "map bw_submittedAddressRaw bs = map ro_submittedAddress (map wr_response ws)"
    "map bw_outcome bs = map wr_outcome ws" "map bw_riskLevel bs = map wr_riskLevel ws"
proof -
  have len: "length bs = length ws" using list_all2_lengthD [OF rows] by simp
  have stored: "row_stored ctx i (ws ! i) (bs ! i)" if "i < length ws" for i
    using list_all2_nthD [OF rows, of i] that by (simp add: nth_enumerate_eq)
  show "map bw_rowIndex bs = map int [0 ..< length ws]" "map bw_batchRunId bs = replicate (length ws) (bc_batchRunId ctx)"
    "map bw_clientReference bs = map ro_clientReference (map wr_response ws)"
    "map bw_submittedAddressRaw bs = map ro_submittedAddress (map wr_response ws)"
    "map bw_outcome bs = map wr_outcome ws" "map bw_riskLevel bs = map wr_riskLevel ws"
    by (rule nth_equalityI; use stored len levels in \<open>simp add: row_stored_def\<close>)+
qed

lemma without_request_lists:
  "map wr_response (map without_request ws) = map wr_response ws"
  "map wr_riskLevel (map without_request ws) = map wr_riskLevel ws"
  "map wr_outcome (map without_request ws) = map wr_outcome ws"
  "length (filter row_unsupported (map without_request ws)) = length (filter row_unsupported ws)"
  "length (filter row_blocked (map without_request ws)) = length (filter row_blocked ws)"
  "length (filter row_warning (map without_request ws)) = length (filter row_warning ws)"
  by (simp_all add: comp_def filter_map)

lemma completed_run:
  assumes "batchRuns s = runs @ [new_batch_run now i p dto chain asset]"
  shows "last (batchRuns (complete_batch_run now finished i c s)) = (new_batch_run now i p dto chain asset)
    \<lparr>br_verifiedCount := int (bt_verified c), br_warningCount := int (bt_warning c), br_blockedCount := int (bt_blocked c),
     br_unsupportedCount := int (bt_unsupported c), br_durationMs := Some (finished - now), br_completedAt := Some finished\<rparr>"
  by (simp add: complete_batch_run_def assms update_where_def new_batch_run_def)

text \<open>C30: a batch is worked off exactly.  A batch that is answered has processed its rows in the order given, all of
  them, or up to and including the first high risk when it was asked to stop there and not before.  Row \<open>i\<close> of the
  answer is what row \<open>i\<close> of the request gets looked up on its own, in the database as it was when the batch came: no row
  affects another.  Each row processed is stored once, under its index and with the reference, outcome, risk and address
  it was answered with, and audited once.  The four counters count the verified rows, the unsupported, the blocked (of
  high risk) and the others, and the batch run is completed with these four counters.\<close>

theorem batch_run_exact:
  assumes "batchVerify E now finished dto ctx s = (Inr out, s')"
  shows "let n = length (bo_rows out); c = bo_counts out; run = last (batchRuns s');
      ws = rows_alone E now (batch_context E now dto ctx s) 0 (take n (bd_rows dto)) s
    in processed_exactly (bd_stopOnFirstHighRisk dto = Some True) (length (bd_rows dto)) (map wr_riskLevel ws) \<and>
      bo_rows out = map wr_response ws \<and> bo_totalRows out = n \<and>
      (\<exists>bs es. batchRows s' = batchRows s @ bs \<and> auditLogs s' = auditLogs s @ es \<and>
         map al_summary es = map row_summary [0 ..< n] \<and>
         map bw_rowIndex bs = map int [0 ..< n] \<and> map bw_batchRunId bs = replicate n (bo_batchRunId out) \<and>
         map bw_clientReference bs = map ro_clientReference (bo_rows out) \<and>
         map bw_submittedAddressRaw bs = map ro_submittedAddress (bo_rows out) \<and>
         map bw_outcome bs = map wr_outcome ws \<and> map bw_riskLevel bs = map wr_riskLevel ws) \<and>
      bt_verified c = length (filter ro_verified (bo_rows out)) \<and> bt_unsupported c = length (filter row_unsupported ws) \<and>
      bt_blocked c = length (filter row_blocked ws) \<and> bt_warning c = length (filter row_warning ws) \<and>
      br_id run = bo_batchRunId out \<and> br_completedAt run = Some finished \<and>
      br_rowCount run = int (length (bd_rows dto)) \<and>
      br_verifiedCount run = int (bt_verified c) \<and> br_unsupportedCount run = int (bt_unsupported c) \<and>
      br_blockedCount run = int (bt_blocked c) \<and> br_warningCount run = int (bt_warning c)"
proof -
  let ?ctx = "batch_context E now dto ctx s"
  have ctx: "stops ?ctx \<longleftrightarrow> bd_stopOnFirstHighRisk dto = Some True" "bc_batchRunId ?ctx = cuid E (nextId s)"
    by (simp_all add: stops_def batch_context_def)
  obtain chain asset s2 ws c s3 where
    s2: "s2 = s\<lparr>nextId := Suc (nextId s), batchRuns := batchRuns s @
       [new_batch_run now (cuid E (nextId s)) (rx_authenticatedPartner ctx) dto chain asset]\<rparr>"
    and w: "process_rows E now ?ctx 0 (bd_rows dto)
       ([], \<lparr>bt_verified = 0, bt_warning = 0, bt_blocked = 0, bt_unsupported = 0\<rparr>) s2 = ((ws, c), s3)"
    and out: "bo_batchRunId out = cuid E (nextId s)" "bo_rows out = map wr_response ws" "bo_totalRows out = length ws"
      "bo_counts out = c" "s' = complete_batch_run now finished (cuid E (nextId s)) c s3"
    by (rule batchVerify_Inr [OF assms])
  have near: "beside s s2" by (simp add: s2 beside_refl beside_updates)
  obtain bs es where c: "c = fold count_row ws \<lparr>bt_verified = 0, bt_warning = 0, bt_blocked = 0, bt_unsupported = 0\<rparr>"
    and alone: "map without_request ws = rows_alone E now ?ctx 0 (take (length ws) (bd_rows dto)) s"
    and e: "batchRows s3 = batchRows s @ bs" "auditLogs s3 = auditLogs s @ es" "batchRuns s3 = batchRuns s2"
    "map al_summary es = map row_summary [0 ..< length ws]"
    "list_all2 (\<lambda>(i, w) b. row_stored ?ctx i w b) (enumerate 0 ws) bs"
    "\<forall>w \<in> set ws. ro_riskLevel (wr_response w) = wr_riskLevel w"
    "processed_exactly (stops ?ctx) (length (bd_rows dto)) (map wr_riskLevel ws)"
    using process_rows_effect [OF w near] by (auto simp: rows_done_def s2)
  note rows = stored_columns [OF e(5,6), unfolded ctx]
  have counts: "bt_verified c = length (filter ro_verified (map wr_response ws))"
    "bt_unsupported c = length (filter row_unsupported ws)" "bt_blocked c = length (filter row_blocked ws)"
    "bt_warning c = length (filter row_warning ws)"
    by (simp_all add: c counts_of filter_map comp_def)
  have "batchRuns s3 = batchRuns s @ [new_batch_run now (cuid E (nextId s)) (rx_authenticatedPartner ctx) dto chain asset]"
    by (simp add: e(3) s2)
  note run = completed_run [OF this, of finished c, folded out(5)]
  have written: "batchRows s' = batchRows s @ bs" "auditLogs s' = auditLogs s @ es"
    using e(1,2) by (simp_all add: out(5) complete_batch_run_def)
  show ?thesis
    unfolding Let_def out(1-4) length_map alone [symmetric] without_request_lists run
    using e(7) written e(4) rows counts unfolding ctx
    by (intro conjI exI [of _ bs] exI [of _ es]) (simp_all add: new_batch_run_def)
qed

text \<open>A batch that stops at its second row.\<close>

definition demo_row :: "string \<Rightarrow> BatchVerifyRowDto" where
  "demo_row address =
     \<lparr>bv_clientReference = None, bv_lookupMode = None, bv_recipientIdentifier = Some ''bob'',
      bv_recipientIdentifierEncrypted = None, bv_platform = None, bv_address = Some address, bv_addressEncrypted = None\<rparr>"

definition demo_batch :: BatchVerifyDto where
  "demo_batch =
     \<lparr>bd_inputFormat = ResolutionBatchInputFormat_CSV, bd_chain = ''ethereum'', bd_asset = ''usdc'', bd_lookupMode = None,
      bd_stopOnFirstHighRisk = Some True, bd_requireExactAttestedMatch = None,
      bd_rows = [demo_row demo_address, demo_row ''bad'', demo_row demo_address]\<rparr>"

lemma demo_batch_runs:
  "(case batchVerify demo_env 1 2 demo_batch demo_context demo_paid_db of
      (Inl _, s) \<Rightarrow> False
    | (Inr out, s) \<Rightarrow> map ro_verified (bo_rows out) = [True, False] \<and> bt_blocked (bo_counts out) = 1)"
  by code_simp

theorem batch_run_exact_witness:
  "\<exists>out s' bs. batchVerify demo_env 1 2 demo_batch demo_context demo_paid_db = (Inr out, s') \<and>
     bo_totalRows out = 2 \<and> bt_verified (bo_counts out) = 1 \<and>
     br_verifiedCount (last (batchRuns s')) = 1 \<and> br_blockedCount (last (batchRuns s')) = 1 \<and>
     batchRows s' = batchRows demo_paid_db @ bs \<and> map bw_rowIndex bs = [0, 1] \<and>
     map wr_response (rows_alone demo_env 1 (batch_context demo_env 1 demo_batch demo_context demo_paid_db) 0
       [demo_row demo_address, demo_row ''bad''] demo_paid_db) = bo_rows out"
proof -
  obtain out s' where b: "batchVerify demo_env 1 2 demo_batch demo_context demo_paid_db = (Inr out, s')"
    "map ro_verified (bo_rows out) = [True, False]" "bt_blocked (bo_counts out) = 1"
    using demo_batch_runs by (simp split: sum.splits prod.splits)
  have "length (filter ro_verified (bo_rows out)) = length (filter id (map ro_verified (bo_rows out)))"
    by (simp add: filter_map comp_def)
  then have one: "length (filter ro_verified (bo_rows out)) = 1" by (simp add: b(2))
  have two: "length (bo_rows out) = 2" using arg_cong [where f = length, OF b(2)] by simp
  have rows: "take 2 (bd_rows demo_batch) = [demo_row demo_address, demo_row ''bad'']" by (simp add: demo_batch_def)
  note exact = batch_run_exact [OF b(1), unfolded Let_def two rows]
  from exact obtain bs where bs: "batchRows s' = batchRows demo_paid_db @ bs" "map bw_rowIndex bs = map int [0 ..< 2]" by blast
  have "map int [0 ..< 2] = [0, 1]" by (simp add: numeral_2_eq_2)
  with exact bs b one show ?thesis by (intro exI [of _ out] exI [of _ s'] exI [of _ bs]) simp
qed

section \<open>Retention\<close>

lemma cleanup_eq:
  "resolutionRequests (snd (cleanupHistoricalResolutionRequests now ms s)) =
     filter (\<lambda>r. \<not> retention_over now (now - ms) (rr_retentionExpiresAt r) (rr_requestedAt r)) (resolutionRequests s)"
  by (simp add: cleanupHistoricalResolutionRequests_def delete_where_def Let_def)

text \<open>A lookup is remembered as long as its partner chose, and no longer.  The row a lookup logged
  is deleted by a clean-up run exactly when, counting from the lookup, the retention that held then is
  over: at once without retention, after the partner's hours with a short one, otherwise after the
  platform's period.  Nothing else decides it, and no other row is touched by it.\<close>

theorem log_row_deleted_exactly:
  assumes "serve E asked req ctx s = (r, s')" and "s' \<noteq> s"
    and "resolutionRequests t = resolutionRequests s' @ rows"
  shows "last (resolutionRequests s') \<in> set (resolutionRequests (snd (cleanupHistoricalResolutionRequests now ms t))) \<longleftrightarrow>
      (let settings = getPartnerPrivacySettings E (rx_partnerId ctx) s; mode = ps_rawVerificationRetentionMode settings in
       if mode = ''NO_RETAIN'' then now < asked
       else if mode = ''SHORT_RETENTION'' then now < asked + ps_rawVerificationRetentionHours settings * 3600000
       else now - ms \<le> asked)"
proof -
  have "s' = s \<or> logged_as E asked (rx_partnerId ctx) r s s'"
    using assms(1) resolve_kind.handler_logged confirm_kind.handler_logged verify_kind.handler_logged
    by (cases req) auto
  with assms(2) obtain row where row: "resolutionRequests s' = resolutionRequests s @ [row]"
    "rr_requestedAt row = asked" "rr_retentionExpiresAt row = retention_of E asked (rx_partnerId ctx) s"
    unfolding logged_as_def by auto
  have "row \<in> set (resolutionRequests (snd (cleanupHistoricalResolutionRequests now ms t))) \<longleftrightarrow>
      \<not> retention_over now (now - ms) (retention_of E asked (rx_partnerId ctx) s) asked"
    by (simp add: cleanup_eq assms(3) row)
  then show ?thesis
    by (auto simp: row(1) retention_over_def retention_of_def buildRetentionExpiresAt_def Let_def)
qed

theorem log_row_deleted_exactly_witness:
  "\<exists>j s'. serve demo_env 1 (Verify demo_verify) demo_context demo_paid_db = (Inr j, s') \<and>
     (last (resolutionRequests s') \<in> set (resolutionRequests (snd (cleanupHistoricalResolutionRequests 100 50 s'))) \<longleftrightarrow>
      (let settings = getPartnerPrivacySettings demo_env ''p'' demo_paid_db; mode = ps_rawVerificationRetentionMode settings in
       if mode = ''NO_RETAIN'' then (100::int) < 1
       else if mode = ''SHORT_RETENTION'' then 100 < 1 + ps_rawVerificationRetentionHours settings * 3600000
       else 100 - 50 \<le> (1::int)))"
proof -
  obtain j s1 where v: "verify demo_env 1 demo_verify demo_context demo_paid_db = (Inr j, s1)"
    "length (resolutionRequests s1) = 1" by (rule demo_verified_response)
  have "resolutionRequests demo_paid_db = []" by (simp add: demo_paid_db_def demo_partner_db_def empty_db_def)
  with v(2) have "s1 \<noteq> demo_paid_db" by auto
  with log_row_deleted_exactly [of demo_env 1 "Verify demo_verify" demo_context demo_paid_db "Inr j" s1 s1 "[]" 100 50] v(1)
  show ?thesis by (intro exI [of _ j] exI [of _ s1]) (simp add: rx_partnerId_def demo_context_def demo_partner_def Let_def)
qed

end
