(* ===== verification/Access_Tokens.thy ===== *)
theory Access_Tokens
  imports Signing_Keys "HOL-Library.List_Lexorder"
begin

text \<open>
  How a caller proves who it is: the bearer tokens of
  \<open>backend/src/partners/api-credential.util.ts\<close>, \<open>dashboard-session.util.ts\<close> and
  \<open>partner-user-invite.util.ts\<close>, the issue, listing and revocation of API credentials, dashboard
  login and logout and the authentication of both kinds of token in \<open>partners.service.ts\<close>, the plan
  catalogue they read, and the guards of \<open>backend/src/auth\<close> with their access policies.  The two
  maps in which the service remembers when it last wrote a token's use are the record
  \<open>use_writes\<close>; an amount in US dollars is a number of cents.
\<close>

section \<open>Scopes\<close>

definition credentialScopes :: "string list" where
  "credentialScopes =
     [''partners:read'', ''partners:write'', ''attestations:write'', ''attestations:read'', ''recipients:read'',
      ''recipients:write'', ''destinations:read'', ''destinations:write'', ''resolution:read'', ''resolution:batch'',
      ''webhooks:write'', ''webhooks:read'', ''webhooks:replay'', ''team:read'', ''team:write'', ''security:read'',
      ''security:write'', ''audit:read'', ''audit:export'']"

definition defaultCredentialScopes :: "string list" where
  "defaultCredentialScopes = [''attestations:write'']"

definition isCredentialScope :: "string \<Rightarrow> bool" where
  "isCredentialScope value \<longleftrightarrow> List.member credentialScopes value"

text \<open>\<open>sort()\<close> compares code units.\<close>

definition js_sort :: "string list \<Rightarrow> string list" where
  "js_sort xs = sort_key (map (of_char :: char \<Rightarrow> nat)) xs"

definition normalizeCredentialScopes :: "string list \<Rightarrow> string list" where
  "normalizeCredentialScopes scopes = js_sort (js_uniq (filter isCredentialScope scopes))"

lemma set_js_sort [simp]: "set (js_sort xs) = set xs"
  by (simp add: js_sort_def)

lemma distinct_js_sort [simp]: "distinct (js_sort xs) = distinct xs"
  by (simp add: js_sort_def)

lemma set_normalizeCredentialScopes [simp]:
  "set (normalizeCredentialScopes scopes) = set scopes \<inter> set credentialScopes"
  by (auto simp: normalizeCredentialScopes_def isCredentialScope_def)

lemma distinct_normalizeCredentialScopes [simp]: "distinct (normalizeCredentialScopes scopes)"
  by (simp add: normalizeCredentialScopes_def)

section \<open>Tokens\<close>

text \<open>A token is a public prefix, a dot and a secret body; the hash of the whole is stored.\<close>

record GeneratedToken =
  gt_keyPrefix :: string
  gt_secret :: string
  gt_secretHash :: string

definition generate_token :: "env \<Rightarrow> string \<Rightarrow> db \<Rightarrow> GeneratedToken \<times> db" where
  "generate_token E tokenPrefix s =
     (let n = nextId s;
          keyPrefix = tokenPrefix @ randomBase64url E n 9;
          secretBody = randomBase64url E (n + 1) 24;
          secret = keyPrefix @ ''.'' @ secretBody
      in (\<lparr>gt_keyPrefix = keyPrefix, gt_secret = secret, gt_secretHash = hashSecret E (n + 2) secret\<rparr>,
          s\<lparr>nextId := n + 3\<rparr>))"

definition extract_prefix :: "string \<Rightarrow> string \<Rightarrow> string option" where
  "extract_prefix tokenPrefix secret =
     (case take 2 (split_on (CHR ''.'') secret) of
        [prefix, body] \<Rightarrow>
          (if prefix = [] \<or> body = [] \<or> \<not> js_starts_with tokenPrefix prefix then None else Some prefix)
      | _ \<Rightarrow> None)"

definition credentialSecretPrefix :: string where "credentialSecretPrefix = ''vpk_''"
definition dashboardSessionPrefix :: string where "dashboardSessionPrefix = ''vds_''"
definition partnerUserInvitePrefix :: string where "partnerUserInvitePrefix = ''vdi_''"

definition generateApiCredential :: "env \<Rightarrow> db \<Rightarrow> GeneratedToken \<times> db" where
  "generateApiCredential E s = generate_token E credentialSecretPrefix s"

definition extractApiCredentialPrefix :: "string \<Rightarrow> string option" where
  "extractApiCredentialPrefix secret = extract_prefix credentialSecretPrefix secret"

definition generateDashboardSessionToken :: "env \<Rightarrow> db \<Rightarrow> GeneratedToken \<times> db" where
  "generateDashboardSessionToken E s = generate_token E dashboardSessionPrefix s"

definition extractDashboardSessionPrefix :: "string \<Rightarrow> string option" where
  "extractDashboardSessionPrefix secret = extract_prefix dashboardSessionPrefix secret"

definition generatePartnerUserInviteToken :: "env \<Rightarrow> db \<Rightarrow> GeneratedToken \<times> db" where
  "generatePartnerUserInviteToken E s = generate_token E partnerUserInvitePrefix s"

definition extractPartnerUserInvitePrefix :: "string \<Rightarrow> string option" where
  "extractPartnerUserInvitePrefix secret = extract_prefix partnerUserInvitePrefix secret"

text \<open>The verifiers of the three kinds of token all hand over to \<open>verifySecret\<close>.\<close>

definition verifyApiCredentialSecret :: "env \<Rightarrow> string \<Rightarrow> string \<Rightarrow> bool" where
  "verifyApiCredentialSecret E secret storedHash = verifySecret E secret storedHash"

definition verifyDashboardSessionToken :: "env \<Rightarrow> string \<Rightarrow> string \<Rightarrow> bool" where
  "verifyDashboardSessionToken E secret storedHash = verifySecret E secret storedHash"

definition verifyPartnerUserInviteToken :: "env \<Rightarrow> string \<Rightarrow> string \<Rightarrow> bool" where
  "verifyPartnerUserInviteToken E secret storedHash = verifySecret E secret storedHash"

text \<open>
  What \<open>randomBytes(n).toString('base64url')\<close> promises: text without a dot, and not empty.  (The
  unique keys of the tables, not chance, keep prefixes apart.)
\<close>

definition token_contract :: "env \<Rightarrow> bool" where
  "token_contract E \<longleftrightarrow> (\<forall>n b. randomBase64url E n b \<noteq> [] \<and> CHR ''.'' \<notin> set (randomBase64url E n b))"

lemma split_on_none: "c \<notin> set xs \<Longrightarrow> split_on c xs = [xs]"
  by (induction xs) auto

lemma split_on_first: "c \<notin> set xs \<Longrightarrow> split_on c (xs @ c # ys) = xs # split_on c ys"
  by (induction xs) auto

lemma extract_generated:
  assumes "token_contract E" "CHR ''.'' \<notin> set p" "p \<noteq> []"
  shows "extract_prefix p (gt_secret (fst (generate_token E p s))) = Some (gt_keyPrefix (fst (generate_token E p s)))"
proof -
  define k where "k = p @ randomBase64url E (nextId s) 9"
  define b where "b = randomBase64url E (nextId s + 1) 24"
  have "CHR ''.'' \<notin> set k" "CHR ''.'' \<notin> set b" "b \<noteq> []" "k \<noteq> []" "js_starts_with p k"
    using assms by (simp_all add: k_def b_def token_contract_def js_starts_with_def)
  moreover have "fst (generate_token E p s) = \<lparr>gt_keyPrefix = k, gt_secret = k @ CHR ''.'' # b,
      gt_secretHash = hashSecret E (nextId s + 2) (k @ CHR ''.'' # b)\<rparr>"
    by (simp add: generate_token_def Let_def k_def b_def)
  ultimately show ?thesis by (simp add: extract_prefix_def split_on_first split_on_none)
qed

text \<open>Tokens of one kind are not read as another: the prefixes differ.\<close>

lemma extract_prefixD: "extract_prefix p secret = Some q \<Longrightarrow> js_starts_with p q"
  by (auto simp: extract_prefix_def split: list.splits if_splits)

lemma extract_prefix_kinds:
  assumes "extract_prefix p secret = Some k" "length p = length q" "p \<noteq> q"
  shows "extract_prefix q secret = None"
proof (cases "extract_prefix q secret")
  case (Some k')
  then have "k' = k" using assms(1) by (auto simp: extract_prefix_def split: list.splits if_splits)
  then have "take (length p) k = p" "take (length q) k = q"
    using extract_prefixD [OF assms(1)] extract_prefixD [OF Some] by (simp_all add: js_starts_with_def)
  then show ?thesis using assms(2,3) by simp
qed

section \<open>Plans and capabilities\<close>

record PartnerPricingPlanDefinition =
  pp_label :: string
  pp_monthlyBasePriceUsd :: "int option"
  pp_includedVerifications :: "int option"
  pp_overagePriceUsd :: "int option"
  pp_overagePolicyNote :: string
  pp_bestFor :: string
  pp_supportTierLabel :: string
  pp_featureHighlights :: "string list"
  pp_mustContributeOwnAttestationData :: bool
  pp_requirementNote :: "string option"
  pp_entitlements :: AuthenticatedPartnerPlanEntitlements

definition standard_overage_note :: string where
  "standard_overage_note =
     ''Verification requests continue beyond the included monthly volume and accrue the standard overage rate.''"

fun partnerPricingPlanCatalog :: "PartnerPricingPlan \<Rightarrow> PartnerPricingPlanDefinition" where
  "partnerPricingPlanCatalog PartnerPricingPlan_STARTER =
     \<lparr>pp_label = ''Starter'', pp_monthlyBasePriceUsd = Some 9900, pp_includedVerifications = Some 2000,
      pp_overagePriceUsd = Some 1, pp_overagePolicyNote = standard_overage_note,
      pp_bestFor = ''Smaller platforms getting started.'', pp_supportTierLabel = ''Standard support'',
      pp_featureHighlights = [''Multi-chain support'', ''By Recipient, By Address, and Verify Transfer'',
        ''Operational setup for your own attestation contribution''],
      pp_mustContributeOwnAttestationData = True,
      pp_requirementNote =
        Some ''Starter organizations are expected to contribute attestation data for their own platform.'',
      pp_entitlements = \<lparr>ent_verificationAnalyticsEnabled = False, ent_bulkVerificationEnabled = False,
        ent_prioritySupportEnabled = False, ent_dedicatedIntegrationSupportEnabled = False,
        ent_customPricing = False\<rparr>\<rparr>"
| "partnerPricingPlanCatalog PartnerPricingPlan_GROWTH =
     \<lparr>pp_label = ''Growth'', pp_monthlyBasePriceUsd = Some 29900, pp_includedVerifications = Some 15000,
      pp_overagePriceUsd = Some 1, pp_overagePolicyNote = standard_overage_note,
      pp_bestFor = ''Growing platforms that need analytics and faster support.'',
      pp_supportTierLabel = ''Priority support'',
      pp_featureHighlights = [''Everything in Starter'', ''Verification analytics dashboard'', ''Priority support''],
      pp_mustContributeOwnAttestationData = False, pp_requirementNote = None,
      pp_entitlements = \<lparr>ent_verificationAnalyticsEnabled = True, ent_bulkVerificationEnabled = False,
        ent_prioritySupportEnabled = True, ent_dedicatedIntegrationSupportEnabled = False,
        ent_customPricing = False\<rparr>\<rparr>"
| "partnerPricingPlanCatalog PartnerPricingPlan_SCALE =
     \<lparr>pp_label = ''Scale'', pp_monthlyBasePriceUsd = Some 79900, pp_includedVerifications = Some 75000,
      pp_overagePriceUsd = Some 1, pp_overagePolicyNote = standard_overage_note,
      pp_bestFor = ''Treasury, payroll, and high-volume operations teams.'',
      pp_supportTierLabel = ''Dedicated integration support'',
      pp_featureHighlights = [''Everything in Growth'', ''Bulk verification for treasury and payroll'',
        ''Dedicated integration support''],
      pp_mustContributeOwnAttestationData = False, pp_requirementNote = None,
      pp_entitlements = \<lparr>ent_verificationAnalyticsEnabled = True, ent_bulkVerificationEnabled = True,
        ent_prioritySupportEnabled = True, ent_dedicatedIntegrationSupportEnabled = True,
        ent_customPricing = False\<rparr>\<rparr>"
| "partnerPricingPlanCatalog PartnerPricingPlan_ENTERPRISE =
     \<lparr>pp_label = ''Enterprise'', pp_monthlyBasePriceUsd = None, pp_includedVerifications = None,
      pp_overagePriceUsd = None,
      pp_overagePolicyNote = ''Verification volume and any overage handling follow your enterprise agreement.'',
      pp_bestFor = ''Top-tier exchanges and payment platforms with custom requirements.'',
      pp_supportTierLabel = ''Enterprise SLA and custom support'',
      pp_featureHighlights = [''Unlimited verification volume'', ''Custom integrations and SLA support'',
        ''Dedicated operational partnership''],
      pp_mustContributeOwnAttestationData = False, pp_requirementNote = None,
      pp_entitlements = \<lparr>ent_verificationAnalyticsEnabled = True, ent_bulkVerificationEnabled = True,
        ent_prioritySupportEnabled = True, ent_dedicatedIntegrationSupportEnabled = True,
        ent_customPricing = True\<rparr>\<rparr>"

definition getPartnerPricingPlanDefinition :: "PartnerPricingPlan \<Rightarrow> PartnerPricingPlanDefinition" where
  "getPartnerPricingPlanDefinition plan = partnerPricingPlanCatalog plan"

definition resolvePartnerCapabilityLabel :: "Partner \<Rightarrow> string" where
  "resolvePartnerCapabilityLabel p =
     (if pa_fullAttestationPartnerEnabled p then ''FULL_ATTESTATION_PARTNER''
      else if pa_apiConsumerEnabled p \<and> pa_dataPartnerEnabled p then ''CONSUMER_AND_DATA_PARTNER''
      else if pa_dataPartnerEnabled p then ''DATA_PARTNER''
      else if pa_apiConsumerEnabled p then ''API_CONSUMER''
      else ''LIMITED_PARTNER'')"

text \<open>The label is shown with a profile; an authenticated partner carries the flags only.\<close>

record PartnerCapabilityProfile = AuthenticatedPartnerCapabilities +
  cap_profileLabel :: string

definition buildPartnerCapabilities :: "Partner \<Rightarrow> PartnerCapabilityProfile" where
  "buildPartnerCapabilities p =
     \<lparr>cap_apiConsumerEnabled = pa_apiConsumerEnabled p, cap_dataPartnerEnabled = pa_dataPartnerEnabled p,
      cap_fullAttestationPartnerEnabled = pa_fullAttestationPartnerEnabled p,
      cap_webhooksEnabled = pa_webhooksEnabled p,
      cap_batchVerificationEnabled = pa_batchVerificationEnabled p,
      cap_auditExportsEnabled = pa_auditExportsEnabled p, cap_sandboxEnabled = pa_sandboxEnabled p,
      cap_productionEnabled = pa_productionEnabled p,
      cap_profileLabel = resolvePartnerCapabilityLabel p\<rparr>"

section \<open>Authentication\<close>

record use_writes =
  lastCredentialUseWriteAt :: "ident \<Rightarrow> time option"
  lastDashboardSessionUseWriteAt :: "ident \<Rightarrow> time option"

definition no_writes :: use_writes where
  "no_writes = \<lparr>lastCredentialUseWriteAt = (\<lambda>i. None), lastDashboardSessionUseWriteAt = (\<lambda>i. None)\<rparr>"

definition written_lately :: "time \<Rightarrow> int \<Rightarrow> time option \<Rightarrow> bool" where
  "written_lately now minimumIntervalMs previousWriteAt =
     (case previousWriteAt of None \<Rightarrow> False | Some t \<Rightarrow> now - t < minimumIntervalMs)"

definition maybeRecordCredentialUse :: "env \<Rightarrow> time \<Rightarrow> ident \<Rightarrow> use_writes \<Rightarrow> db \<Rightarrow> use_writes \<times> db" where
  "maybeRecordCredentialUse E now credentialId w s =
     (if written_lately now (PARTNER_API_CREDENTIAL_LAST_USED_MIN_INTERVAL_MS (cfg E))
           (lastCredentialUseWriteAt w credentialId)
      then (w, s)
      else (w\<lparr>lastCredentialUseWriteAt := (lastCredentialUseWriteAt w)(credentialId \<mapsto> now)\<rparr>,
            s\<lparr>apiCredentials := update_where (\<lambda>c. cr_id c = credentialId) (\<lambda>c. c\<lparr>cr_lastUsedAt := Some now\<rparr>)
                (apiCredentials s)\<rparr>))"

definition maybeRecordDashboardSessionUse :: "env \<Rightarrow> time \<Rightarrow> ident \<Rightarrow> use_writes \<Rightarrow> db \<Rightarrow> use_writes \<times> db" where
  "maybeRecordDashboardSessionUse E now sessionId w s =
     (if written_lately now (PARTNER_DASHBOARD_SESSION_LAST_USED_MIN_INTERVAL_MS (cfg E))
           (lastDashboardSessionUseWriteAt w sessionId)
      then (w, s)
      else (w\<lparr>lastDashboardSessionUseWriteAt := (lastDashboardSessionUseWriteAt w)(sessionId \<mapsto> now)\<rparr>,
            s\<lparr>dashboardSessions := update_where (\<lambda>d. se_id d = sessionId) (\<lambda>d. d\<lparr>se_lastUsedAt := Some now\<rparr>)
                (dashboardSessions s)\<rparr>))"

definition missing_scopes :: "string list \<Rightarrow> string list \<Rightarrow> string list" where
  "missing_scopes requiredScopes held = filter (\<lambda>scope. \<not> List.member held scope) requiredScopes"

text \<open>A row and its partner, by the public prefix of its token.\<close>

definition find_credential :: "db \<Rightarrow> string \<Rightarrow> (PartnerApiCredential \<times> Partner) option" where
  "find_credential s keyPrefix =
     (case List.find (\<lambda>c. cr_keyPrefix c = keyPrefix) (apiCredentials s) of
        None \<Rightarrow> None
      | Some c \<Rightarrow> map_option (Pair c) (partner_row s (cr_partnerId c)))"

definition credential_accepted :: "env \<Rightarrow> string \<Rightarrow> PartnerApiCredential \<Rightarrow> Partner \<Rightarrow> bool" where
  "credential_accepted E secret c p \<longleftrightarrow>
     cr_status c = PartnerStatus_ACTIVE \<and> cr_revokedAt c = None \<and> pa_status p = PartnerStatus_ACTIVE \<and>
     verifyApiCredentialSecret E secret (cr_secretHash c)"

definition credential_partner :: "PartnerApiCredential \<Rightarrow> Partner \<Rightarrow> AuthenticatedPartner" where
  "credential_partner c p =
     \<lparr>ap_actorIdentifier = cr_id c, ap_actorType = API_CREDENTIAL, ap_credentialId = Some (cr_id c),
      ap_dashboardSessionId = None, ap_partnerId = cr_partnerId c, ap_partnerSlug = pa_slug p,
      ap_partnerStatus = pa_status p, ap_partnerPricingPlan = pa_pricingPlan p,
      ap_partnerCapabilities = AuthenticatedPartnerCapabilities.truncate (buildPartnerCapabilities p),
      ap_partnerPlanEntitlements = pp_entitlements (getPartnerPricingPlanDefinition (pa_pricingPlan p)),
      ap_partnerFeedHealthStatus = pa_feedHealthStatus p, ap_partnerOnboardingStage = pa_onboardingStage p,
      ap_partnerUserEmail = None, ap_partnerUserId = None, ap_partnerUserRole = None,
      ap_scopes = cr_scopes c\<rparr>"

definition authenticateApiCredential ::
    "env \<Rightarrow> time \<Rightarrow> string \<Rightarrow> string list \<Rightarrow> use_writes \<Rightarrow> db \<Rightarrow> AuthenticatedPartner result \<times> use_writes \<times> db" where
  "authenticateApiCredential E now secret requiredScopes w s =
     (let invalid = (Inl (Unauthorized ''Invalid API credential.''), w, s) in
      case extractApiCredentialPrefix secret of
        None \<Rightarrow> invalid
      | Some keyPrefix \<Rightarrow>
     (case find_credential s keyPrefix of
        None \<Rightarrow> invalid
      | Some (c, p) \<Rightarrow>
          if \<not> credential_accepted E secret c p then invalid
          else if missing_scopes requiredScopes (cr_scopes c) \<noteq> []
          then (Inl (Forbidden ''Credential does not have the required scope.''), w, s)
          else (Inr (credential_partner c p), maybeRecordCredentialUse E now (cr_id c) w s)))"

definition find_session :: "db \<Rightarrow> string \<Rightarrow> (DashboardSession \<times> PartnerUser \<times> Partner) option" where
  "find_session s keyPrefix =
     (case List.find (\<lambda>d. se_keyPrefix d = keyPrefix) (dashboardSessions s) of
        None \<Rightarrow> None
      | Some d \<Rightarrow>
     (case List.find (\<lambda>u. us_id u = se_partnerUserId d) (partnerUsers s) of
        None \<Rightarrow> None
      | Some u \<Rightarrow> map_option (\<lambda>p. (d, u, p)) (partner_row s (us_partnerId u))))"

definition user_active :: "PartnerUser \<Rightarrow> bool" where
  "user_active u \<longleftrightarrow> us_status u = PartnerUserStatus_ACTIVE \<and> us_disabledAt u = None"

definition session_accepted :: "env \<Rightarrow> time \<Rightarrow> string \<Rightarrow> DashboardSession \<Rightarrow> PartnerUser \<Rightarrow> Partner \<Rightarrow> bool" where
  "session_accepted E now secret d u p \<longleftrightarrow>
     se_revokedAt d = None \<and> now < se_expiresAt d \<and> user_active u \<and> pa_status p = PartnerStatus_ACTIVE \<and>
     verifyDashboardSessionToken E secret (se_secretHash d)"

definition session_partner :: "DashboardSession \<Rightarrow> PartnerUser \<Rightarrow> Partner \<Rightarrow> AuthenticatedPartner" where
  "session_partner d u p =
     \<lparr>ap_actorIdentifier = us_email u, ap_actorType = PARTNER_USER, ap_credentialId = None,
      ap_dashboardSessionId = Some (se_id d), ap_partnerId = us_partnerId u, ap_partnerSlug = pa_slug p,
      ap_partnerStatus = pa_status p, ap_partnerPricingPlan = pa_pricingPlan p,
      ap_partnerCapabilities = AuthenticatedPartnerCapabilities.truncate (buildPartnerCapabilities p),
      ap_partnerPlanEntitlements = pp_entitlements (getPartnerPricingPlanDefinition (pa_pricingPlan p)),
      ap_partnerFeedHealthStatus = pa_feedHealthStatus p, ap_partnerOnboardingStage = pa_onboardingStage p,
      ap_partnerUserEmail = Some (us_email u), ap_partnerUserId = Some (us_id u),
      ap_partnerUserRole = Some (us_role u), ap_scopes = us_scopes u\<rparr>"

definition authenticateDashboardSession ::
    "env \<Rightarrow> time \<Rightarrow> string \<Rightarrow> string list \<Rightarrow> use_writes \<Rightarrow> db \<Rightarrow> AuthenticatedPartner result \<times> use_writes \<times> db" where
  "authenticateDashboardSession E now secret requiredScopes w s =
     (let invalid = (Inl (Unauthorized ''Invalid dashboard session.''), w, s) in
      case extractDashboardSessionPrefix secret of
        None \<Rightarrow> invalid
      | Some keyPrefix \<Rightarrow>
     (case find_session s keyPrefix of
        None \<Rightarrow> invalid
      | Some (d, u, p) \<Rightarrow>
          if \<not> session_accepted E now secret d u p then invalid
          else if missing_scopes requiredScopes (us_scopes u) \<noteq> []
          then (Inl (Forbidden ''Session does not have the required scope.''), w, s)
          else (Inr (session_partner d u p), maybeRecordDashboardSessionUse E now (se_id d) w s)))"

definition authenticatePartnerAccessToken ::
    "env \<Rightarrow> time \<Rightarrow> string \<Rightarrow> string list \<Rightarrow> use_writes \<Rightarrow> db \<Rightarrow> AuthenticatedPartner result \<times> use_writes \<times> db" where
  "authenticatePartnerAccessToken E now secret requiredScopes w s =
     (if extractDashboardSessionPrefix secret \<noteq> None
      then authenticateDashboardSession E now secret requiredScopes w s
      else authenticateApiCredential E now secret requiredScopes w s)"

section \<open>API credentials\<close>

text \<open>The columns a handler returns of a credential; the hash is not one of them.\<close>

record ApiCredentialView =
  cv_id :: ident
  cv_label :: string
  cv_keyPrefix :: string
  cv_scopes :: "string list"
  cv_status :: PartnerStatus
  cv_lastUsedAt :: "time option"
  cv_createdAt :: time
  cv_revokedAt :: "time option"
  cv_isCurrent :: bool

definition credential_view :: "bool \<Rightarrow> PartnerApiCredential \<Rightarrow> ApiCredentialView" where
  "credential_view isCurrent c =
     \<lparr>cv_id = cr_id c, cv_label = cr_label c, cv_keyPrefix = cr_keyPrefix c, cv_scopes = cr_scopes c,
      cv_status = cr_status c, cv_lastUsedAt = cr_lastUsedAt c, cv_createdAt = cr_createdAt c,
      cv_revokedAt = cr_revokedAt c, cv_isCurrent = isCurrent\<rparr>"

record IssuedApiCredential =
  ci_credential :: ApiCredentialView
  ci_partner :: string
  ci_secret :: string

definition credential_issued_event :: "AuditActorContext \<Rightarrow> Partner \<Rightarrow> PartnerApiCredential \<Rightarrow> RecordAuditEventInput" where
  "credential_issued_event actor partner c =
     context_event actor (pa_id partner) ''partner.api_credential.issued'' ''PartnerApiCredential'' (cr_id c)
       (''Issued API credential '' @ quoted (cr_label c) @ '' for partner '' @ quoted (pa_slug partner) @ ''.'')
       (JObj [(''keyPrefix'', JStr (cr_keyPrefix c)), (''partnerSlug'', JStr (pa_slug partner)),
              (''scopes'', JArr (map JStr (cr_scopes c)))])"

text \<open>One transaction: the unique key prefix may refuse the row.\<close>

definition insert_credential ::
    "env \<Rightarrow> time \<Rightarrow> Partner \<Rightarrow> string \<Rightarrow> string list \<Rightarrow> GeneratedToken \<Rightarrow> AuditActorContext \<Rightarrow> db \<Rightarrow>
     PartnerApiCredential result \<times> db" where
  "insert_credential E now partner label scopes g actor s =
     (if List.find (\<lambda>c. cr_keyPrefix c = gt_keyPrefix g) (apiCredentials s) \<noteq> None then (Inl UniqueViolation, s)
      else
        let (i, s1) = fresh E s;
            c = \<lparr>cr_id = i, cr_partnerId = pa_id partner, cr_label = label, cr_keyPrefix = gt_keyPrefix g,
                 cr_secretHash = gt_secretHash g, cr_scopes = scopes, cr_status = PartnerStatus_ACTIVE,
                 cr_lastUsedAt = None, cr_createdAt = now, cr_revokedAt = None\<rparr>
        in (Inr c, recordEvent E now (credential_issued_event actor partner c)
                     (s1\<lparr>apiCredentials := apiCredentials s1 @ [c]\<rparr>)))"

text \<open>The loop: a new token after each collision, \<open>n\<close> attempts.\<close>

fun issue_attempts ::
    "nat \<Rightarrow> env \<Rightarrow> time \<Rightarrow> Partner \<Rightarrow> string \<Rightarrow> string list \<Rightarrow> AuditActorContext \<Rightarrow> db \<Rightarrow>
     IssuedApiCredential result \<times> db" where
  "issue_attempts 0 E now partner label scopes actor s =
     (Inl (Conflict ''Failed to generate a unique API credential.''), s)"
| "issue_attempts (Suc n) E now partner label scopes actor s =
     (let (g, s1) = generateApiCredential E s in
      case insert_credential E now partner label scopes g actor s1 of
        (Inr c, s2) \<Rightarrow>
          (Inr \<lparr>ci_credential = credential_view False c, ci_partner = pa_slug partner, ci_secret = gt_secret g\<rparr>, s2)
      | (Inl e, s2) \<Rightarrow>
          (if e = UniqueViolation then issue_attempts n E now partner label scopes actor s2 else (Inl e, s2)))"

definition issueApiCredentialForPartner ::
    "env \<Rightarrow> time \<Rightarrow> Partner \<Rightarrow> string \<Rightarrow> string list option \<Rightarrow> AuditActorContext \<Rightarrow> db \<Rightarrow>
     IssuedApiCredential result \<times> db" where
  "issueApiCredentialForPartner E now partner label scopes actor s =
     (if pa_status partner \<noteq> PartnerStatus_ACTIVE
      then (Inl (Conflict (''Partner '' @ quoted (pa_slug partner) @ '' is not active for credential issuance.'')), s)
      else if length (js_trim label) = 0 then (Inl (BadRequest ''Credential label is required.''), s)
      else
        let normalized = normalizeCredentialScopes (or_else scopes defaultCredentialScopes) in
        if length normalized = 0 then (Inl (BadRequest ''At least one supported scope is required.''), s)
        else issue_attempts 5 E now partner (js_trim label) normalized actor s)"

definition issueApiCredential ::
    "env \<Rightarrow> time \<Rightarrow> string \<Rightarrow> string \<Rightarrow> string list option \<Rightarrow> db \<Rightarrow> IssuedApiCredential result \<times> db" where
  "issueApiCredential E now partnerSlug label scopes s =
     (case getPartnerBySlugOrThrow partnerSlug s of
        Inl e \<Rightarrow> (Inl e, s)
      | Inr partner \<Rightarrow> issueApiCredentialForPartner E now partner label scopes admin_context s)"

definition issuePartnerApiCredential ::
    "env \<Rightarrow> time \<Rightarrow> AuthenticatedPartner \<Rightarrow> string \<Rightarrow> string list option \<Rightarrow> db \<Rightarrow> IssuedApiCredential result \<times> db" where
  "issuePartnerApiCredential E now p label scopes s =
     (case getPartnerByIdOrThrow (ap_partnerId p) s of
        Inl e \<Rightarrow> (Inl e, s)
      | Inr partner \<Rightarrow> issueApiCredentialForPartner E now partner label scopes (buildPartnerAuditContext p) s)"

definition listPartnerApiCredentials :: "AuthenticatedPartner \<Rightarrow> db \<Rightarrow> ApiCredentialView list" where
  "listPartnerApiCredentials p s =
     map (\<lambda>c. credential_view (ap_credentialId p = Some (cr_id c)) c)
       (order_desc cr_createdAt (filter (\<lambda>c. cr_partnerId c = ap_partnerId p) (apiCredentials s)))"

definition revoke_credential :: "time \<Rightarrow> PartnerApiCredential \<Rightarrow> PartnerApiCredential" where
  "revoke_credential now c = c\<lparr>cr_status := PartnerStatus_DISABLED, cr_revokedAt := Some now\<rparr>"

definition credential_revoked_event :: "AuthenticatedPartner \<Rightarrow> PartnerApiCredential \<Rightarrow> RecordAuditEventInput" where
  "credential_revoked_event p c =
     context_event (buildPartnerAuditContext p) (ap_partnerId p) ''partner.api_credential.revoked''
       ''PartnerApiCredential'' (cr_id c)
       (''Revoked API credential '' @ quoted (cr_label c) @ '' for partner '' @ quoted (ap_partnerSlug p) @ ''.'')
       (JObj [(''keyPrefix'', JStr (cr_keyPrefix c)), (''label'', JStr (cr_label c)),
              (''scopes'', JArr (map JStr (cr_scopes c)))])"

definition revokePartnerApiCredential ::
    "env \<Rightarrow> time \<Rightarrow> AuthenticatedPartner \<Rightarrow> ident \<Rightarrow> db \<Rightarrow> ApiCredentialView result \<times> db" where
  "revokePartnerApiCredential E now p credentialId s =
     (let i = js_trim credentialId in
      if length i = 0 then (Inl (BadRequest ''Credential identifier is required.''), s)
      else if Some i = ap_credentialId p
      then (Inl (Conflict ''Cannot revoke the credential currently used by this session.''), s)
      else
        case List.find (\<lambda>c. cr_id c = i \<and> cr_partnerId c = ap_partnerId p) (apiCredentials s) of
          None \<Rightarrow> (Inl (NotFound (''Credential '' @ quoted i @ '' was not found for this partner.'')), s)
        | Some c \<Rightarrow>
            if cr_status c \<noteq> PartnerStatus_ACTIVE \<or> cr_revokedAt c \<noteq> None
            then (Inl (Conflict (''Credential '' @ quoted (cr_label c) @ '' is already inactive.'')), s)
            else
              (Inr (credential_view False (revoke_credential now c)),
               recordEvent E now (credential_revoked_event p c)
                 (s\<lparr>apiCredentials := update_where (\<lambda>x. cr_id x = cr_id c) (revoke_credential now) (apiCredentials s)\<rparr>)))"

section \<open>Dashboard sessions\<close>

definition normalizeUserEmail :: "string \<Rightarrow> string result" where
  "normalizeUserEmail email =
     (let normalizedEmail = js_lower (js_trim email) in
      if length normalizedEmail = 0 then Inl (BadRequest ''Email is required.'') else Inr normalizedEmail)"

record DashboardUserView =
  dv_id :: ident
  dv_email :: string
  dv_fullName :: string
  dv_role :: PartnerUserRole
  dv_scopes :: "string list"

record DashboardLogin =
  lg_accessToken :: string
  lg_expiresAt :: string
  lg_partnerId :: ident
  lg_partnerSlug :: string
  lg_partnerDisplayName :: string
  lg_user :: DashboardUserView

definition user_context :: "string \<Rightarrow> AuditActorContext" where
  "user_context email =
     \<lparr>ac_actorIdentifier = email, ac_actorPartnerId = None, ac_actorType = AuditActorType_USER\<rparr>"

definition session_created_event ::
    "ident \<Rightarrow> string \<Rightarrow> PartnerUserRole \<Rightarrow> string list \<Rightarrow> DashboardSession \<Rightarrow> RecordAuditEventInput" where
  "session_created_event partnerId email role scopes d =
     context_event (user_context email) partnerId ''partner.user.session.created'' ''DashboardSession'' (se_id d)
       (''Created a dashboard session for '' @ quoted email @ ''.'')
       (JObj [(''email'', JStr email), (''role'', JStr (name_PartnerUserRole role)),
              (''scopes'', JArr (map JStr scopes)), (''expiresAt'', j_time (se_expiresAt d))])"

definition insert_session ::
    "env \<Rightarrow> time \<Rightarrow> ident \<Rightarrow> GeneratedToken \<Rightarrow> db \<Rightarrow> DashboardSession result \<times> db" where
  "insert_session E now partnerUserId g s =
     (if List.find (\<lambda>d. se_keyPrefix d = gt_keyPrefix g) (dashboardSessions s) \<noteq> None then (Inl UniqueViolation, s)
      else
        let (i, s1) = fresh E s;
            d = \<lparr>se_id = i, se_partnerUserId = partnerUserId, se_keyPrefix = gt_keyPrefix g,
                 se_secretHash = gt_secretHash g, se_expiresAt = now + PARTNER_DASHBOARD_SESSION_TTL_MS (cfg E),
                 se_revokedAt = None, se_lastUsedAt = None, se_createdAt = now\<rparr>
        in (Inr d, s1\<lparr>dashboardSessions := dashboardSessions s1 @ [d]\<rparr>))"

definition createDashboardSessionForPartnerUser ::
    "env \<Rightarrow> time \<Rightarrow> Partner \<Rightarrow> PartnerUser \<Rightarrow> db \<Rightarrow> DashboardLogin result \<times> db" where
  "createDashboardSessionForPartnerUser E now p u s =
     (let (g, s1) = generateDashboardSessionToken E s in
      case insert_session E now (us_id u) g s1 of
        (Inl e, s2) \<Rightarrow> (Inl e, s2)
      | (Inr d, s2) \<Rightarrow>
          (Inr \<lparr>lg_accessToken = gt_secret g, lg_expiresAt = toISOString (se_expiresAt d),
                lg_partnerId = us_partnerId u, lg_partnerSlug = pa_slug p, lg_partnerDisplayName = pa_displayName p,
                lg_user = \<lparr>dv_id = us_id u, dv_email = us_email u, dv_fullName = us_fullName u,
                  dv_role = us_role u, dv_scopes = us_scopes u\<rparr>\<rparr>,
           recordEvent E now (session_created_event (us_partnerId u) (us_email u) (us_role u) (us_scopes u) d)
             (s2\<lparr>partnerUsers := update_where (\<lambda>x. us_id x = us_id u) (\<lambda>x. x\<lparr>us_lastLoginAt := Some now\<rparr>)
                (partnerUsers s2)\<rparr>)))"

definition loginDashboardUser :: "env \<Rightarrow> time \<Rightarrow> string \<Rightarrow> string \<Rightarrow> db \<Rightarrow> DashboardLogin result \<times> db" where
  "loginDashboardUser E now email password s =
     (let invalid = (Inl (Unauthorized ''Invalid email or password.''), s) in
      case normalizeUserEmail email of
        Inl e \<Rightarrow> (Inl e, s)
      | Inr email' \<Rightarrow>
     (case List.find (\<lambda>u. us_email u = email') (partnerUsers s) of
        None \<Rightarrow> invalid
      | Some u \<Rightarrow>
     (case partner_row s (us_partnerId u) of
        None \<Rightarrow> invalid
      | Some p \<Rightarrow>
          if \<not> user_active u \<or> pa_status p \<noteq> PartnerStatus_ACTIVE \<or> \<not> verifySecret E password (us_passwordHash u)
          then invalid
          else createDashboardSessionForPartnerUser E now p u s)))"

definition logoutDashboardSession :: "env \<Rightarrow> time \<Rightarrow> AuthenticatedPartner \<Rightarrow> db \<Rightarrow> bool result \<times> db" where
  "logoutDashboardSession E now p s =
     (case (ap_dashboardSessionId p, ap_partnerUserId p) of
        (Some sessionId, Some partnerUserId) \<Rightarrow>
          (if sessionId = [] \<or> partnerUserId = [] then (Inl (Unauthorized ''No dashboard session is active.''), s)
           else
             let open_one = (\<lambda>d. se_id d = sessionId \<and> se_partnerUserId d = partnerUserId \<and> se_revokedAt d = None);
                 n = count_where open_one (dashboardSessions s);
                 s1 = s\<lparr>dashboardSessions := update_where open_one (\<lambda>d. d\<lparr>se_revokedAt := Some now\<rparr>) (dashboardSessions s)\<rparr>
             in (Inr (n > 0),
                 if n > 0 then
                   recordEvent E now (context_event (user_context (ap_actorIdentifier p)) (ap_partnerId p)
                     ''partner.user.session.revoked'' ''DashboardSession'' sessionId
                     (''Revoked the active dashboard session for '' @ quoted (ap_actorIdentifier p) @ ''.'')
                     (JObj [(''partnerUserId'', JStr partnerUserId)])) s1
                 else s1))
      | _ \<Rightarrow> (Inl (Unauthorized ''No dashboard session is active.''), s))"

section \<open>The guards\<close>

definition partnerOnboardingStageOrder :: "PartnerOnboardingStage list" where
  "partnerOnboardingStageOrder =
     [PartnerOnboardingStage_ACCOUNT_CREATED, PartnerOnboardingStage_API_ACCESS_READY,
      PartnerOnboardingStage_TRUST_SETUP_READY, PartnerOnboardingStage_DATA_MAPPING_IN_PROGRESS,
      PartnerOnboardingStage_BOOTSTRAP_IMPORT_COMPLETED, PartnerOnboardingStage_LIVE_FEED_CONNECTED,
      PartnerOnboardingStage_PRODUCTION_APPROVED]"

fun index_of :: "'a \<Rightarrow> 'a list \<Rightarrow> int" where
  "index_of x [] = -1"
| "index_of x (y # ys) = (if y = x then 0 else let i = index_of x ys in if i = -1 then -1 else i + 1)"

definition getOnboardingStageRank :: "PartnerOnboardingStage \<Rightarrow> int" where
  "getOnboardingStageRank stage = index_of stage partnerOnboardingStageOrder"

datatype PartnerCapabilityFlag =
    Flag_apiConsumerEnabled | Flag_dataPartnerEnabled | Flag_fullAttestationPartnerEnabled | Flag_webhooksEnabled
  | Flag_batchVerificationEnabled | Flag_auditExportsEnabled | Flag_sandboxEnabled | Flag_productionEnabled

fun capability_flag :: "AuthenticatedPartnerCapabilities \<Rightarrow> PartnerCapabilityFlag \<Rightarrow> bool" where
  "capability_flag c Flag_apiConsumerEnabled = cap_apiConsumerEnabled c"
| "capability_flag c Flag_dataPartnerEnabled = cap_dataPartnerEnabled c"
| "capability_flag c Flag_fullAttestationPartnerEnabled = cap_fullAttestationPartnerEnabled c"
| "capability_flag c Flag_webhooksEnabled = cap_webhooksEnabled c"
| "capability_flag c Flag_batchVerificationEnabled = cap_batchVerificationEnabled c"
| "capability_flag c Flag_auditExportsEnabled = cap_auditExportsEnabled c"
| "capability_flag c Flag_sandboxEnabled = cap_sandboxEnabled c"
| "capability_flag c Flag_productionEnabled = cap_productionEnabled c"

datatype PartnerPlanEntitlementFlag =
    Flag_verificationAnalyticsEnabled | Flag_bulkVerificationEnabled | Flag_prioritySupportEnabled
  | Flag_dedicatedIntegrationSupportEnabled | Flag_customPricing

fun entitlement_flag :: "AuthenticatedPartnerPlanEntitlements \<Rightarrow> PartnerPlanEntitlementFlag \<Rightarrow> bool" where
  "entitlement_flag e Flag_verificationAnalyticsEnabled = ent_verificationAnalyticsEnabled e"
| "entitlement_flag e Flag_bulkVerificationEnabled = ent_bulkVerificationEnabled e"
| "entitlement_flag e Flag_prioritySupportEnabled = ent_prioritySupportEnabled e"
| "entitlement_flag e Flag_dedicatedIntegrationSupportEnabled = ent_dedicatedIntegrationSupportEnabled e"
| "entitlement_flag e Flag_customPricing = ent_customPricing e"

record PartnerAccessPolicyDefinition =
  po_actorTypes :: "PartnerAccessActorType list option"
  po_allCapabilities :: "PartnerCapabilityFlag list option"
  po_anyCapabilities :: "PartnerCapabilityFlag list option"
  po_allPlanEntitlements :: "PartnerPlanEntitlementFlag list option"
  po_anyPlanEntitlements :: "PartnerPlanEntitlementFlag list option"
  po_minOnboardingStage :: "PartnerOnboardingStage option"
  po_partnerUserRoles :: "PartnerUserRole list option"
  po_requireOperationalEnvironment :: bool

definition no_policy :: PartnerAccessPolicyDefinition where
  "no_policy =
     \<lparr>po_actorTypes = None, po_allCapabilities = None, po_anyCapabilities = None, po_allPlanEntitlements = None,
      po_anyPlanEntitlements = None, po_minOnboardingStage = None, po_partnerUserRoles = None,
      po_requireOperationalEnvironment = False\<rparr>"

text \<open>A condition of a policy holds when it is absent.\<close>

definition given :: "('a \<Rightarrow> bool) \<Rightarrow> 'a option \<Rightarrow> bool" where
  "given P v = (case v of None \<Rightarrow> False | Some x \<Rightarrow> P x)"

definition check_policy :: "AuthenticatedPartner \<Rightarrow> PartnerAccessPolicyDefinition \<Rightarrow> unit result" where
  "check_policy p policy =
     (let flag = capability_flag (ap_partnerCapabilities p);
          plan = entitlement_flag (ap_partnerPlanEntitlements p) in
      if given (\<lambda>types. \<not> List.member types (ap_actorType p)) (po_actorTypes policy)
      then Inl (Forbidden (if po_actorTypes policy = Some [PARTNER_USER]
             then ''This endpoint requires a dashboard user session.''
             else ''This endpoint is not available for the current actor type.''))
      else if given (\<lambda>fs. \<not> list_ex flag fs) (po_anyCapabilities policy)
      then Inl (Forbidden ''This endpoint is not enabled for the partner capability profile.'')
      else if given (\<lambda>fs. \<not> list_all flag fs) (po_allCapabilities policy)
      then Inl (Forbidden ''This endpoint is not enabled for the partner capability profile.'')
      else if given (\<lambda>es. \<not> list_ex plan es) (po_anyPlanEntitlements policy)
      then Inl (Forbidden ''This endpoint is not enabled for the partner pricing plan.'')
      else if given (\<lambda>es. \<not> list_all plan es) (po_allPlanEntitlements policy)
      then Inl (Forbidden ''This endpoint is not enabled for the partner pricing plan.'')
      else if given (\<lambda>m. getOnboardingStageRank (ap_partnerOnboardingStage p) < getOnboardingStageRank m)
                (po_minOnboardingStage policy)
      then Inl (Forbidden ''Complete the required onboarding steps before accessing this endpoint.'')
      else if given (\<lambda>roles. ap_actorType p = PARTNER_USER \<and>
                   (case ap_partnerUserRole p of None \<Rightarrow> True | Some r \<Rightarrow> \<not> List.member roles r))
                (po_partnerUserRoles policy)
      then Inl (Forbidden (''This endpoint requires one of the following partner roles: '' @
             join_with '', '' (map name_PartnerUserRole (or_else (po_partnerUserRoles policy) [])) @ ''.''))
      else if po_requireOperationalEnvironment policy \<and>
              \<not> cap_sandboxEnabled (ap_partnerCapabilities p) \<and> \<not> cap_productionEnabled (ap_partnerCapabilities p)
      then Inl (Forbidden ''This endpoint requires sandbox or production access for the partner.'')
      else Inr ())"

text \<open>The policies of the controller and of the handler, in that order, those that are declared.\<close>

fun assertPartnerAccessPolicy :: "AuthenticatedPartner \<Rightarrow> PartnerAccessPolicyDefinition list \<Rightarrow> unit result" where
  "assertPartnerAccessPolicy p [] = Inr ()"
| "assertPartnerAccessPolicy p (policy # policies) =
     (case check_policy p policy of Inl e \<Rightarrow> Inl e | Inr _ \<Rightarrow> assertPartnerAccessPolicy p policies)"

definition bearer_token :: "string option \<Rightarrow> string option" where
  "bearer_token authorizationHeader =
     (case authorizationHeader of
        None \<Rightarrow> None
      | Some h \<Rightarrow>
          (if \<not> js_starts_with ''Bearer '' h then None
           else let accessToken = js_trim (drop (length ''Bearer '') h)
                in if accessToken = [] then None else Some accessToken))"

definition partner_canActivate ::
    "env \<Rightarrow> time \<Rightarrow> string option \<Rightarrow> string list option \<Rightarrow> PartnerAccessPolicyDefinition list \<Rightarrow> use_writes \<Rightarrow> db \<Rightarrow>
     AuthenticatedPartner result \<times> use_writes \<times> db" where
  "partner_canActivate E now authorizationHeader requiredScopes policies w s =
     (case bearer_token authorizationHeader of
        None \<Rightarrow> (Inl (Unauthorized ''Missing bearer token.''), w, s)
      | Some accessToken \<Rightarrow>
     (case authenticatePartnerAccessToken E now accessToken (or_else requiredScopes []) w s of
        (Inl e, w', s') \<Rightarrow> (Inl e, w', s')
      | (Inr p, w', s') \<Rightarrow>
          (case assertPartnerAccessPolicy p policies of
             Inl e \<Rightarrow> (Inl e, w', s')
           | Inr _ \<Rightarrow> (Inr p, w', s'))))"

text \<open>The operator's guard.  Below code point 256, two texts have the same bytes exactly when they are the same.\<close>

definition admin_canActivate :: "env \<Rightarrow> string option \<Rightarrow> bool result" where
  "admin_canActivate E providedToken =
     (case providedToken of
        None \<Rightarrow> Inl (Unauthorized ''Missing admin token.'')
      | Some t \<Rightarrow>
          (if js_trim t = [] then Inl (Unauthorized ''Missing admin token.'')
           else if js_trim t \<noteq> ADMIN_API_TOKEN (cfg E) then Inl (Unauthorized ''Invalid admin token.'')
           else Inr True))"

definition authenticated_context :: "AuthenticatedPartner option \<Rightarrow> AuthenticatedPartner result" where
  "authenticated_context attached =
     (case attached of
        None \<Rightarrow> Inl (InternalError ''Authenticated partner context was not attached to request.'')
      | Some p \<Rightarrow> Inr p)"

end
