(* ===== verification/Partner_Team.thy ===== *)
theory Partner_Team
  imports Access_Tokens
begin

text \<open>
  Partners, their dashboard users, invitations and security settings, of
  \<open>backend/src/partners/partners.service.ts\<close>.  A user has the scopes of their role, an invitation
  is accepted with its token, deactivating a user ends their sessions.  A transaction that fails
  leaves the tables as they were; only random draws are spent.
\<close>

section \<open>Roles\<close>

definition ownerDashboardScopes :: "string list" where
  "ownerDashboardScopes = normalizeCredentialScopes
     [''partners:read'', ''partners:write'', ''attestations:read'', ''attestations:write'', ''recipients:read'',
      ''recipients:write'', ''destinations:read'', ''destinations:write'', ''resolution:read'', ''resolution:batch'',
      ''webhooks:read'', ''webhooks:write'', ''webhooks:replay'', ''team:read'', ''team:write'', ''security:read'',
      ''security:write'', ''audit:read'', ''audit:export'']"

definition adminDashboardScopes :: "string list" where
  "adminDashboardScopes = normalizeCredentialScopes
     [''partners:read'', ''partners:write'', ''attestations:read'', ''attestations:write'', ''recipients:read'',
      ''recipients:write'', ''destinations:read'', ''destinations:write'', ''resolution:read'', ''resolution:batch'',
      ''webhooks:read'', ''webhooks:write'', ''webhooks:replay'', ''team:read'', ''team:write'', ''security:read'',
      ''audit:read'', ''audit:export'']"

definition developerDashboardScopes :: "string list" where
  "developerDashboardScopes = normalizeCredentialScopes
     [''partners:read'', ''partners:write'', ''attestations:read'', ''recipients:read'', ''destinations:read'',
      ''resolution:read'', ''resolution:batch'', ''webhooks:read'', ''webhooks:write'', ''webhooks:replay'',
      ''audit:read'']"

definition analystDashboardScopes :: "string list" where
  "analystDashboardScopes = normalizeCredentialScopes
     [''partners:read'', ''attestations:read'', ''recipients:read'', ''destinations:read'', ''resolution:read'',
      ''webhooks:read'', ''audit:read'']"

definition readOnlyDashboardScopes :: "string list" where
  "readOnlyDashboardScopes = normalizeCredentialScopes
     [''partners:read'', ''attestations:read'', ''recipients:read'', ''destinations:read'', ''resolution:read'',
      ''webhooks:read'', ''audit:read'']"

fun getPartnerUserScopes :: "PartnerUserRole \<Rightarrow> string list" where
  "getPartnerUserScopes PartnerUserRole_DEVELOPER = developerDashboardScopes"
| "getPartnerUserScopes PartnerUserRole_ANALYST = analystDashboardScopes"
| "getPartnerUserScopes PartnerUserRole_READ_ONLY = readOnlyDashboardScopes"
| "getPartnerUserScopes PartnerUserRole_ADMIN = adminDashboardScopes"
| "getPartnerUserScopes PartnerUserRole_OWNER = ownerDashboardScopes"

definition role_order :: "PartnerUserRole list" where
  "role_order = [PartnerUserRole_OWNER, PartnerUserRole_ADMIN, PartnerUserRole_DEVELOPER, PartnerUserRole_ANALYST,
     PartnerUserRole_READ_ONLY]"

definition normalizeUserFullName :: "string \<Rightarrow> string result" where
  "normalizeUserFullName fullName =
     (if length (js_trim fullName) = 0 then Inl (BadRequest ''Full name is required.'') else Inr (js_trim fullName))"

definition assertValidDashboardPassword :: "string \<Rightarrow> unit result" where
  "assertValidDashboardPassword password =
     (if length password < 12 then Inl (BadRequest ''Password must be at least 12 characters long.'') else Inr ())"

section \<open>Views\<close>

record PartnerUserView =
  uv_id :: ident
  uv_email :: string
  uv_fullName :: string
  uv_role :: PartnerUserRole
  uv_scopes :: "string list"
  uv_status :: PartnerUserStatus
  uv_lastLoginAt :: "time option"
  uv_createdAt :: time

definition user_view :: "PartnerUser \<Rightarrow> PartnerUserView" where
  "user_view u =
     \<lparr>uv_id = us_id u, uv_email = us_email u, uv_fullName = us_fullName u, uv_role = us_role u,
      uv_scopes = us_scopes u, uv_status = us_status u, uv_lastLoginAt = us_lastLoginAt u,
      uv_createdAt = us_createdAt u\<rparr>"

record PartnerUserInviteView =
  nv_id :: ident
  nv_email :: string
  nv_fullName :: "string option"
  nv_role :: PartnerUserRole
  nv_scopes :: "string list"
  nv_status :: PartnerUserInviteStatus
  nv_expiresAt :: time
  nv_acceptedAt :: "time option"
  nv_revokedAt :: "time option"
  nv_createdAt :: time

definition invite_view :: "PartnerUserInvite \<Rightarrow> PartnerUserInviteView" where
  "invite_view i =
     \<lparr>nv_id = iv_id i, nv_email = iv_email i, nv_fullName = iv_fullName i, nv_role = iv_role i,
      nv_scopes = iv_scopes i, nv_status = iv_status i, nv_expiresAt = iv_expiresAt i,
      nv_acceptedAt = iv_acceptedAt i, nv_revokedAt = iv_revokedAt i, nv_createdAt = iv_createdAt i\<rparr>"

section \<open>Partners\<close>

record CreatePartnerDto =
  cp_slug :: string
  cp_displayName :: string
  cp_partnerType :: PartnerType
  cp_pricingPlan :: "PartnerPricingPlan option"

definition new_partner :: "time \<Rightarrow> ident \<Rightarrow> string \<Rightarrow> CreatePartnerDto \<Rightarrow> Partner" where
  "new_partner now i slug dto =
     \<lparr>pa_id = i, pa_slug = slug, pa_displayName = js_trim (cp_displayName dto), pa_partnerType = cp_partnerType dto,
      pa_status = PartnerStatus_ACTIVE, pa_pricingPlan = or_else (cp_pricingPlan dto) PartnerPricingPlan_STARTER,
      pa_isDirectoryListed = False, pa_apiConsumerEnabled = True, pa_dataPartnerEnabled = False,
      pa_fullAttestationPartnerEnabled = False, pa_webhooksEnabled = True, pa_batchVerificationEnabled = True,
      pa_auditExportsEnabled = True, pa_sandboxEnabled = True, pa_productionEnabled = False,
      pa_onboardingStage = PartnerOnboardingStage_ACCOUNT_CREATED,
      pa_feedHealthStatus = PartnerFeedHealthStatus_UNKNOWN, pa_countryCode = None, pa_metadata = None,
      pa_createdAt = now\<rparr>"

text \<open>The settings a partner starts with: two values from the configuration, the rest the schema's defaults.\<close>

definition initial_settings :: "env \<Rightarrow> time \<Rightarrow> ident \<Rightarrow> ident \<Rightarrow> PartnerSecuritySettings" where
  "initial_settings E now i partnerId =
     \<lparr>ss_id = i, ss_partnerId = partnerId,
      ss_sessionIdleTimeoutMinutes = PARTNER_SECURITY_DEFAULT_SESSION_IDLE_TIMEOUT_MINUTES (cfg E),
      ss_enforceMfa = False, ss_ipAllowlist = [],
      ss_credentialRotationDays = PARTNER_SECURITY_DEFAULT_CREDENTIAL_ROTATION_DAYS (cfg E),
      ss_defaultDisclosureMode = ''VERIFICATION_ONLY'', ss_allowFullLabelDisclosure = False,
      ss_enableEncryptedSubmission = False, ss_rawVerificationRetentionMode = ''SHORT_RETENTION'',
      ss_rawVerificationRetentionHours = 24, ss_encryptAuditExports = True, ss_enterpriseByokEnabled = False,
      ss_customerKeyArn = None, ss_customerKeyStatus = None, ss_createdAt = now\<rparr>"

definition createPartner :: "env \<Rightarrow> time \<Rightarrow> CreatePartnerDto \<Rightarrow> db \<Rightarrow> Partner result \<times> db" where
  "createPartner E now dto s =
     (case normalizePartnerSlug (cp_slug dto) of
        Inl e \<Rightarrow> (Inl e, s)
      | Inr slug \<Rightarrow>
          if List.find (\<lambda>p. pa_slug p = slug) (partners s) \<noteq> None
          then (Inl (Conflict (''Partner '' @ quoted slug @ '' already exists.'')), s)
          else
            let (i, s1) = fresh E s;
                p = new_partner now i slug dto;
                (j, s2) = fresh E (s1\<lparr>partners := partners s1 @ [p]\<rparr>);
                s3 = s2\<lparr>securitySettings := securitySettings s2 @ [initial_settings E now j i]\<rparr>
            in (Inr p, recordEvent E now
                  (context_event admin_context i ''partner.created'' ''Partner'' i
                     (''Created partner '' @ quoted slug @ ''.'')
                     (JObj [(''partnerSlug'', JStr slug), (''partnerType'', JStr (name_PartnerType (pa_partnerType p))),
                            (''pricingPlan'', JStr (name_PartnerPricingPlan (pa_pricingPlan p)))])) s3))"

section \<open>Users\<close>

record CreatePartnerUserDto =
  cu_partnerSlug :: string
  cu_email :: string
  cu_fullName :: string
  cu_password :: string
  cu_role :: "PartnerUserRole option"

definition new_user ::
    "time \<Rightarrow> ident \<Rightarrow> ident \<Rightarrow> string \<Rightarrow> string \<Rightarrow> PartnerUserRole \<Rightarrow> string list \<Rightarrow> string \<Rightarrow> time option \<Rightarrow> PartnerUser" where
  "new_user now i partnerId email fullName role scopes passwordHash lastLoginAt =
     \<lparr>us_id = i, us_partnerId = partnerId, us_email = email, us_fullName = fullName, us_role = role,
      us_scopes = scopes, us_passwordHash = passwordHash, us_status = PartnerUserStatus_ACTIVE,
      us_lastLoginAt = lastLoginAt, us_disabledAt = None, us_createdAt = now\<rparr>"

definition find_user :: "db \<Rightarrow> string \<Rightarrow> PartnerUser option" where
  "find_user s email = List.find (\<lambda>u. us_email u = email) (partnerUsers s)"

definition user_created_event :: "Partner \<Rightarrow> PartnerUser \<Rightarrow> RecordAuditEventInput" where
  "user_created_event p u =
     context_event admin_context (pa_id p) ''partner.user.created'' ''PartnerUser'' (us_id u)
       (''Created partner user '' @ quoted (us_email u) @ '' for partner '' @ quoted (pa_slug p) @ ''.'')
       (JObj [(''email'', JStr (us_email u)), (''fullName'', JStr (us_fullName u)),
              (''role'', JStr (name_PartnerUserRole (us_role u))), (''scopes'', JArr (map JStr (us_scopes u)))])"

definition createPartnerUser :: "env \<Rightarrow> time \<Rightarrow> CreatePartnerUserDto \<Rightarrow> db \<Rightarrow> PartnerUserView result \<times> db" where
  "createPartnerUser E now dto s =
     (case getPartnerBySlugOrThrow (cu_partnerSlug dto) s of
        Inl e \<Rightarrow> (Inl e, s)
      | Inr p \<Rightarrow>
          if pa_status p \<noteq> PartnerStatus_ACTIVE
          then (Inl (Conflict (''Partner '' @ quoted (pa_slug p) @ '' is not active for user creation.'')), s)
          else
     (case normalizeUserEmail (cu_email dto) of
        Inl e \<Rightarrow> (Inl e, s)
      | Inr email \<Rightarrow>
     (case normalizeUserFullName (cu_fullName dto) of
        Inl e \<Rightarrow> (Inl e, s)
      | Inr fullName \<Rightarrow>
     (case assertValidDashboardPassword (cu_password dto) of
        Inl e \<Rightarrow> (Inl e, s)
      | Inr _ \<Rightarrow>
          if find_user s email \<noteq> None
          then (Inl (Conflict (''Partner user '' @ quoted email @ '' already exists.'')), s)
          else
            let role = or_else (cu_role dto) PartnerUserRole_OWNER;
                passwordHash = hashSecret E (nextId s) (cu_password dto);
                (i, s1) = fresh E (s\<lparr>nextId := Suc (nextId s)\<rparr>);
                u = new_user now i (pa_id p) email fullName role (getPartnerUserScopes role) passwordHash None
            in (Inr (user_view u),
                recordEvent E now (user_created_event p u) (s1\<lparr>partnerUsers := partnerUsers s1 @ [u]\<rparr>))))))"

text \<open>Users by role, in the order the enumeration is declared, the newest first within a role.\<close>

definition listPartnerUsers :: "AuthenticatedPartner \<Rightarrow> db \<Rightarrow> PartnerUserView list \<times> PartnerUserInviteView list" where
  "listPartnerUsers p s =
     (map user_view (sort_key (\<lambda>u. (index_of (us_role u) role_order, - us_createdAt u))
        (filter (\<lambda>u. us_partnerId u = ap_partnerId p) (partnerUsers s))),
      map invite_view (order_desc iv_createdAt (filter (\<lambda>i. iv_partnerId i = ap_partnerId p) (userInvites s))))"

record UpdatePartnerUserDto =
  uu_fullName :: "string option"
  uu_role :: "PartnerUserRole option"

definition own_user :: "AuthenticatedPartner \<Rightarrow> ident \<Rightarrow> db \<Rightarrow> PartnerUser option" where
  "own_user p i s = List.find (\<lambda>u. us_id u = i \<and> us_partnerId u = ap_partnerId p) (partnerUsers s)"

definition put_user :: "ident \<Rightarrow> (PartnerUser \<Rightarrow> PartnerUser) \<Rightarrow> db \<Rightarrow> db" where
  "put_user i f s = s\<lparr>partnerUsers := update_where (\<lambda>u. us_id u = i) f (partnerUsers s)\<rparr>"

definition user_update :: "string option \<Rightarrow> PartnerUserRole option \<Rightarrow> PartnerUser \<Rightarrow> PartnerUser" where
  "user_update fullName role u =
     (let u1 = u\<lparr>us_fullName := or_else fullName (us_fullName u)\<rparr> in
      case role of None \<Rightarrow> u1 | Some r \<Rightarrow> u1\<lparr>us_role := r, us_scopes := getPartnerUserScopes r\<rparr>)"

definition user_updated_event :: "AuthenticatedPartner \<Rightarrow> PartnerUser \<Rightarrow> RecordAuditEventInput" where
  "user_updated_event p u =
     context_event (buildPartnerAuditContext p) (ap_partnerId p) ''partner.user.updated'' ''PartnerUser'' (us_id u)
       (''Updated dashboard user '' @ quoted (us_email u) @ ''.'')
       (JObj [(''role'', JStr (name_PartnerUserRole (us_role u))), (''scopes'', JArr (map JStr (us_scopes u))),
              (''fullName'', JStr (us_fullName u))])"

definition updatePartnerUser ::
    "env \<Rightarrow> time \<Rightarrow> AuthenticatedPartner \<Rightarrow> ident \<Rightarrow> UpdatePartnerUserDto \<Rightarrow> db \<Rightarrow> PartnerUserView result \<times> db" where
  "updatePartnerUser E now p userId dto s =
     (let i = js_trim userId in
      if length i = 0 then (Inl (BadRequest ''Partner user identifier is required.''), s)
      else
        case own_user p i s of
          None \<Rightarrow> (Inl (NotFound (''Partner user '' @ quoted i @ '' was not found for this partner.'')), s)
        | Some u \<Rightarrow>
            let newRole = (if uu_role dto = Some (us_role u) then None else uu_role dto) in
            if ap_partnerUserId p = Some (us_id u) \<and> newRole \<noteq> None
            then (Inl (Conflict ''You cannot change your own role.''), s)
            else
              case (case uu_fullName dto of None \<Rightarrow> Inr None | Some n \<Rightarrow> map_sum id Some (normalizeUserFullName n)) of
                Inl e \<Rightarrow> (Inl e, s)
              | Inr fullName \<Rightarrow>
                  if fullName = None \<and> newRole = None
                  then (Inl (BadRequest ''At least one partner user field must be updated.''), s)
                  else
                    let u' = user_update fullName newRole u
                    in (Inr (user_view u'),
                        recordEvent E now (user_updated_event p u') (put_user (us_id u) (user_update fullName newRole) s)))"

definition active_owner :: "ident \<Rightarrow> PartnerUser \<Rightarrow> bool" where
  "active_owner partnerId u \<longleftrightarrow> us_partnerId u = partnerId \<and> us_role u = PartnerUserRole_OWNER \<and> user_active u"

definition deactivate_user :: "time \<Rightarrow> PartnerUser \<Rightarrow> PartnerUser" where
  "deactivate_user now u = u\<lparr>us_status := PartnerUserStatus_DISABLED, us_disabledAt := Some now\<rparr>"

definition end_sessions :: "time \<Rightarrow> ident \<Rightarrow> db \<Rightarrow> db" where
  "end_sessions now partnerUserId s =
     s\<lparr>dashboardSessions := update_where (\<lambda>d. se_partnerUserId d = partnerUserId \<and> se_revokedAt d = None)
         (\<lambda>d. d\<lparr>se_revokedAt := Some now\<rparr>) (dashboardSessions s)\<rparr>"

definition user_deactivated_event :: "AuthenticatedPartner \<Rightarrow> PartnerUser \<Rightarrow> RecordAuditEventInput" where
  "user_deactivated_event p u =
     context_event (buildPartnerAuditContext p) (ap_partnerId p) ''partner.user.deactivated'' ''PartnerUser'' (us_id u)
       (''Deactivated dashboard user '' @ quoted (us_email u) @ ''.'')
       (JObj [(''role'', JStr (name_PartnerUserRole (us_role u)))])"

definition deactivatePartnerUser ::
    "env \<Rightarrow> time \<Rightarrow> AuthenticatedPartner \<Rightarrow> ident \<Rightarrow> db \<Rightarrow> PartnerUserView result \<times> db" where
  "deactivatePartnerUser E now p userId s =
     (let i = js_trim userId in
      if length i = 0 then (Inl (BadRequest ''Partner user identifier is required.''), s)
      else if Some i = ap_partnerUserId p then (Inl (Conflict ''You cannot deactivate your own account.''), s)
      else
        case own_user p i s of
          None \<Rightarrow> (Inl (NotFound (''Partner user '' @ quoted i @ '' was not found for this partner.'')), s)
        | Some u \<Rightarrow>
            if us_status u \<noteq> PartnerUserStatus_ACTIVE
            then (Inl (Conflict (''Partner user '' @ quoted (us_email u) @ '' is already inactive.'')), s)
            else if us_role u = PartnerUserRole_OWNER \<and>
                    count_where (active_owner (ap_partnerId p)) (partnerUsers s) \<le> 1
            then (Inl (Conflict ''Cannot deactivate the last active owner for this partner.''), s)
            else
              (Inr (user_view (deactivate_user now u)),
               recordEvent E now (user_deactivated_event p u)
                 (end_sessions now (us_id u) (put_user (us_id u) (deactivate_user now) s))))"

section \<open>Invitations\<close>

record CreatePartnerUserInviteDto =
  xi_email :: string
  xi_fullName :: "string option"
  xi_role :: PartnerUserRole

definition invite_open :: "time \<Rightarrow> PartnerUserInvite \<Rightarrow> bool" where
  "invite_open now i \<longleftrightarrow>
     iv_status i = PartnerUserInviteStatus_PENDING \<and> iv_revokedAt i = None \<and> now < iv_expiresAt i"

definition invite_key :: "PartnerUserInvite \<Rightarrow> ident \<times> string \<times> PartnerUserInviteStatus" where
  "invite_key i = (iv_partnerId i, iv_email i, iv_status i)"

text \<open>Both unique keys of the table may refuse the row.\<close>

definition insert_invite :: "PartnerUserInvite \<Rightarrow> db \<Rightarrow> PartnerUserInvite result \<times> db" where
  "insert_invite i s =
     (if list_ex (\<lambda>x. iv_keyPrefix x = iv_keyPrefix i \<or> invite_key x = invite_key i) (userInvites s)
      then (Inl UniqueViolation, s)
      else (Inr i, s\<lparr>userInvites := userInvites s @ [i]\<rparr>))"

definition user_invited_event :: "AuthenticatedPartner \<Rightarrow> PartnerUserInvite \<Rightarrow> RecordAuditEventInput" where
  "user_invited_event p i =
     context_event (buildPartnerAuditContext p) (ap_partnerId p) ''partner.user.invited'' ''PartnerUserInvite'' (iv_id i)
       (''Invited dashboard user '' @ quoted (iv_email i) @ ''.'')
       (JObj [(''email'', JStr (iv_email i)), (''role'', JStr (name_PartnerUserRole (iv_role i))),
              (''expiresAt'', j_time (iv_expiresAt i)), (''scopes'', JArr (map JStr (iv_scopes i)))])"

definition invitePartnerUser ::
    "env \<Rightarrow> time \<Rightarrow> AuthenticatedPartner \<Rightarrow> CreatePartnerUserInviteDto \<Rightarrow> db \<Rightarrow>
     (PartnerUserInviteView \<times> string) result \<times> db" where
  "invitePartnerUser E now p dto s =
     (case getPartnerByIdOrThrow (ap_partnerId p) s of
        Inl e \<Rightarrow> (Inl e, s)
      | Inr _ \<Rightarrow>
     (case normalizeUserEmail (xi_email dto) of
        Inl e \<Rightarrow> (Inl e, s)
      | Inr email \<Rightarrow>
          if (case find_user s email of None \<Rightarrow> False | Some u \<Rightarrow> us_status u = PartnerUserStatus_ACTIVE)
          then (Inl (Conflict (''Partner user '' @ quoted email @ '' already exists for dashboard access.'')), s)
          else if list_ex (\<lambda>i. iv_partnerId i = ap_partnerId p \<and> iv_email i = email \<and> invite_open now i) (userInvites s)
          then (Inl (Conflict (''An active invite for '' @ quoted email @ '' already exists.'')), s)
          else
            let (g, s1) = generatePartnerUserInviteToken E s;
                (i, s2) = fresh E s1;
                invite = \<lparr>iv_id = i, iv_partnerId = ap_partnerId p, iv_email = email,
                  iv_fullName = trim_or_null (xi_fullName dto), iv_role = xi_role dto,
                  iv_scopes = getPartnerUserScopes (xi_role dto), iv_keyPrefix = gt_keyPrefix g,
                  iv_secretHash = gt_secretHash g, iv_status = PartnerUserInviteStatus_PENDING,
                  iv_createdByUserId = ap_partnerUserId p,
                  iv_expiresAt = now + PARTNER_USER_INVITE_TTL_MS (cfg E), iv_acceptedAt = None,
                  iv_revokedAt = None, iv_createdAt = now\<rparr>
            in (case insert_invite invite s2 of
                  (Inl e, s3) \<Rightarrow> (Inl e, s3)
                | (Inr x, s3) \<Rightarrow>
                    (Inr (invite_view x, gt_secret g), recordEvent E now (user_invited_event p x) s3))))"

definition find_invite :: "db \<Rightarrow> string \<Rightarrow> (PartnerUserInvite \<times> Partner) option" where
  "find_invite s keyPrefix =
     (case List.find (\<lambda>i. iv_keyPrefix i = keyPrefix) (userInvites s) of
        None \<Rightarrow> None
      | Some i \<Rightarrow> map_option (Pair i) (partner_row s (iv_partnerId i)))"

definition invite_accepted :: "env \<Rightarrow> time \<Rightarrow> string \<Rightarrow> PartnerUserInvite \<Rightarrow> Partner \<Rightarrow> bool" where
  "invite_accepted E now token i p \<longleftrightarrow>
     invite_open now i \<and> pa_status p = PartnerStatus_ACTIVE \<and> verifyPartnerUserInviteToken E token (iv_secretHash i)"

definition accept_invite :: "time \<Rightarrow> PartnerUserInvite \<Rightarrow> PartnerUserInvite" where
  "accept_invite now i = i\<lparr>iv_status := PartnerUserInviteStatus_ACCEPTED, iv_acceptedAt := Some now\<rparr>"

definition update_invite :: "time \<Rightarrow> PartnerUserInvite \<Rightarrow> db \<Rightarrow> unit result \<times> db" where
  "update_invite now i s =
     (if list_ex (\<lambda>x. iv_id x \<noteq> iv_id i \<and> invite_key x = invite_key (accept_invite now i)) (userInvites s)
      then (Inl UniqueViolation, s)
      else (Inr (), s\<lparr>userInvites := update_where (\<lambda>x. iv_id x = iv_id i) (accept_invite now) (userInvites s)\<rparr>))"

definition invite_accepted_event :: "PartnerUserInvite \<Rightarrow> RecordAuditEventInput" where
  "invite_accepted_event i =
     context_event (user_context (iv_email i)) (iv_partnerId i) ''partner.user.invite.accepted'' ''PartnerUserInvite''
       (iv_id i) (''Accepted dashboard invite for '' @ quoted (iv_email i) @ ''.'')
       (JObj [(''role'', JStr (name_PartnerUserRole (iv_role i))), (''expiresAt'', j_time (iv_expiresAt i))])"

record AcceptedInvite =
  ak_accessToken :: string
  ak_expiresAt :: string
  ak_partnerId :: ident
  ak_partnerSlug :: string
  ak_partnerDisplayName :: string
  ak_user :: PartnerUserView

text \<open>The transaction of an acceptance: all of it, or nothing but the draws.\<close>

definition accept_transaction ::
    "env \<Rightarrow> time \<Rightarrow> PartnerUserInvite \<Rightarrow> Partner \<Rightarrow> string \<Rightarrow> string \<Rightarrow> db \<Rightarrow> AcceptedInvite result \<times> db" where
  "accept_transaction E now i p fullName password s =
     (let passwordHash = hashSecret E (nextId s) password;
          (g, s1) = generateDashboardSessionToken E (s\<lparr>nextId := Suc (nextId s)\<rparr>);
          (ui, s2) = fresh E s1;
          u = new_user now ui (iv_partnerId i) (iv_email i) fullName (iv_role i) (iv_scopes i) passwordHash (Some now);
          s3 = s2\<lparr>partnerUsers := partnerUsers s2 @ [u]\<rparr>
      in case insert_session E now ui g s3 of
           (Inl e, _) \<Rightarrow> (Inl e, s2)
         | (Inr d, s4) \<Rightarrow>
        (case update_invite now i s4 of
           (Inl e, _) \<Rightarrow> (Inl e, s\<lparr>nextId := nextId s4\<rparr>)
         | (Inr _, s5) \<Rightarrow>
             (Inr \<lparr>ak_accessToken = gt_secret g, ak_expiresAt = toISOString (se_expiresAt d),
                   ak_partnerId = pa_id p, ak_partnerSlug = pa_slug p, ak_partnerDisplayName = pa_displayName p,
                   ak_user = user_view u\<rparr>,
              recordEvent E now (session_created_event (iv_partnerId i) (iv_email i) (iv_role i) (iv_scopes i) d)
                (recordEvent E now (invite_accepted_event i) s5))))"

definition acceptPartnerUserInvite ::
    "env \<Rightarrow> time \<Rightarrow> string \<Rightarrow> string \<Rightarrow> string \<Rightarrow> db \<Rightarrow> AcceptedInvite result \<times> db" where
  "acceptPartnerUserInvite E now inviteToken fullName password s =
     (let invalid = (Inl (Unauthorized ''Invalid partner invite.''), s) in
      case extractPartnerUserInvitePrefix inviteToken of
        None \<Rightarrow> invalid
      | Some keyPrefix \<Rightarrow>
     (case find_invite s keyPrefix of
        None \<Rightarrow> invalid
      | Some (i, p) \<Rightarrow>
          if \<not> invite_accepted E now inviteToken i p then invalid
          else if find_user s (iv_email i) \<noteq> None
          then (Inl (Conflict (''Partner user '' @ quoted (iv_email i) @ '' already exists for dashboard access.'')), s)
          else
            let name = (if length (js_trim fullName) > 0 then Some (js_trim fullName) else iv_fullName i) in
            if falsy name then (Inl (BadRequest ''Full name is required.''), s)
            else
     (case assertValidDashboardPassword password of
        Inl e \<Rightarrow> (Inl e, s)
      | Inr _ \<Rightarrow> accept_transaction E now i p (or_else name []) password s)))"

section \<open>Security settings\<close>

definition default_settings :: "env \<Rightarrow> time \<Rightarrow> ident \<Rightarrow> ident \<Rightarrow> PartnerSecuritySettings" where
  "default_settings E now i partnerId =
     (initial_settings E now i partnerId)
       \<lparr>ss_defaultDisclosureMode := PARTNER_SECURITY_DEFAULT_DISCLOSURE_MODE (cfg E),
        ss_rawVerificationRetentionMode := PARTNER_SECURITY_DEFAULT_RAW_VERIFICATION_RETENTION_MODE (cfg E),
        ss_rawVerificationRetentionHours := PARTNER_SECURITY_DEFAULT_RAW_VERIFICATION_RETENTION_HOURS (cfg E),
        ss_encryptAuditExports := PARTNER_SECURITY_DEFAULT_ENCRYPT_AUDIT_EXPORTS (cfg E)\<rparr>"

definition getOrCreatePartnerSecuritySettings ::
    "env \<Rightarrow> time \<Rightarrow> ident \<Rightarrow> db \<Rightarrow> PartnerSecuritySettings \<times> db" where
  "getOrCreatePartnerSecuritySettings E now partnerId s =
     (case List.find (\<lambda>r. ss_partnerId r = partnerId) (securitySettings s) of
        Some r \<Rightarrow> (r, s)
      | None \<Rightarrow>
          let (i, s1) = fresh E s; r = default_settings E now i partnerId
          in (r, s1\<lparr>securitySettings := securitySettings s1 @ [r]\<rparr>))"

definition getPartnerSecuritySettings ::
    "env \<Rightarrow> time \<Rightarrow> ident \<Rightarrow> db \<Rightarrow> PartnerSecuritySettings \<times> db" where
  "getPartnerSecuritySettings E now partnerId s = getOrCreatePartnerSecuritySettings E now partnerId s"

definition normalizeIpAllowlist :: "string list \<Rightarrow> string list" where
  "normalizeIpAllowlist ipAllowlist = js_sort (js_uniq (filter (\<lambda>e. e \<noteq> []) (map js_trim ipAllowlist)))"

record UpdatePartnerSecuritySettingsDto =
  ud_sessionIdleTimeoutMinutes :: "int option"
  ud_enforceMfa :: "bool option"
  ud_ipAllowlist :: "string list option"
  ud_credentialRotationDays :: "int option"
  ud_defaultDisclosureMode :: "string option"
  ud_allowFullLabelDisclosure :: "bool option"
  ud_enableEncryptedSubmission :: "bool option"
  ud_rawVerificationRetentionMode :: "string option"
  ud_rawVerificationRetentionHours :: "int option"
  ud_encryptAuditExports :: "bool option"

definition settings_given :: "UpdatePartnerSecuritySettingsDto \<Rightarrow> bool" where
  "settings_given dto \<longleftrightarrow>
     ud_sessionIdleTimeoutMinutes dto \<noteq> None \<or> ud_enforceMfa dto \<noteq> None \<or> ud_ipAllowlist dto \<noteq> None \<or>
     ud_credentialRotationDays dto \<noteq> None \<or> ud_defaultDisclosureMode dto \<noteq> None \<or>
     ud_allowFullLabelDisclosure dto \<noteq> None \<or> ud_enableEncryptedSubmission dto \<noteq> None \<or>
     ud_rawVerificationRetentionMode dto \<noteq> None \<or> ud_rawVerificationRetentionHours dto \<noteq> None \<or>
     ud_encryptAuditExports dto \<noteq> None"

definition settings_update :: "UpdatePartnerSecuritySettingsDto \<Rightarrow> PartnerSecuritySettings \<Rightarrow> PartnerSecuritySettings" where
  "settings_update dto r =
     r\<lparr>ss_sessionIdleTimeoutMinutes := or_else (ud_sessionIdleTimeoutMinutes dto) (ss_sessionIdleTimeoutMinutes r),
       ss_enforceMfa := or_else (ud_enforceMfa dto) (ss_enforceMfa r),
       ss_ipAllowlist := or_else (map_option normalizeIpAllowlist (ud_ipAllowlist dto)) (ss_ipAllowlist r),
       ss_credentialRotationDays := or_else (ud_credentialRotationDays dto) (ss_credentialRotationDays r),
       ss_defaultDisclosureMode := or_else (ud_defaultDisclosureMode dto) (ss_defaultDisclosureMode r),
       ss_allowFullLabelDisclosure := or_else (ud_allowFullLabelDisclosure dto) (ss_allowFullLabelDisclosure r),
       ss_enableEncryptedSubmission := or_else (ud_enableEncryptedSubmission dto) (ss_enableEncryptedSubmission r),
       ss_rawVerificationRetentionMode :=
         or_else (ud_rawVerificationRetentionMode dto) (ss_rawVerificationRetentionMode r),
       ss_rawVerificationRetentionHours :=
         or_else (ud_rawVerificationRetentionHours dto) (ss_rawVerificationRetentionHours r),
       ss_encryptAuditExports := or_else (ud_encryptAuditExports dto) (ss_encryptAuditExports r)\<rparr>"

definition settings_json :: "PartnerSecuritySettings \<Rightarrow> json" where
  "settings_json r =
     JObj [(''sessionIdleTimeoutMinutes'', JNum (ss_sessionIdleTimeoutMinutes r)),
       (''enforceMfa'', JBool (ss_enforceMfa r)), (''ipAllowlist'', JArr (map JStr (ss_ipAllowlist r))),
       (''credentialRotationDays'', JNum (ss_credentialRotationDays r)),
       (''defaultDisclosureMode'', JStr (ss_defaultDisclosureMode r)),
       (''allowFullLabelDisclosure'', JBool (ss_allowFullLabelDisclosure r)),
       (''enableEncryptedSubmission'', JBool (ss_enableEncryptedSubmission r)),
       (''rawVerificationRetentionMode'', JStr (ss_rawVerificationRetentionMode r)),
       (''rawVerificationRetentionHours'', JNum (ss_rawVerificationRetentionHours r)),
       (''encryptAuditExports'', JBool (ss_encryptAuditExports r)),
       (''enterpriseByokEnabled'', JBool (ss_enterpriseByokEnabled r)),
       (''customerKeyStatus'', j_nullable (ss_customerKeyStatus r))]"

text \<open>The row is created before the request is checked and stays when the request is refused.\<close>

definition updatePartnerSecuritySettings ::
    "env \<Rightarrow> time \<Rightarrow> AuthenticatedPartner \<Rightarrow> UpdatePartnerSecuritySettingsDto \<Rightarrow> db \<Rightarrow>
     PartnerSecuritySettings result \<times> db" where
  "updatePartnerSecuritySettings E now p dto s =
     (let (currentSettings, s1) = getOrCreatePartnerSecuritySettings E now (ap_partnerId p) s in
      if \<not> settings_given dto
      then (Inl (BadRequest ''At least one security settings field must be updated.''), s1)
      else
        let r = settings_update dto currentSettings in
        (Inr r, recordEvent E now
           (context_event (buildPartnerAuditContext p) (ap_partnerId p) ''partner.security_settings.updated''
              ''PartnerSecuritySettings'' (ss_id r)
              (''Updated partner security settings for '' @ quoted (ap_partnerSlug p) @ ''.'') (settings_json r))
           (s1\<lparr>securitySettings :=
              update_where (\<lambda>x. ss_id x = ss_id currentSettings) (settings_update dto) (securitySettings s1)\<rparr>)))"

end
