(* ===== verification/Access_Facts.thy ===== *)
theory Access_Facts
  imports Partner_Team
begin

text \<open>
  What the tokens are worth: an issued credential and a dashboard session authenticate exactly until
  something the service does ends them, whatever else happens in between; what passes the guard is
  well formed; an invitation makes one user.  The service is a step relation labelled with what a step
  ends; a step that touches none of the four tables is any other operation of the backend.
\<close>

section \<open>Rows found again\<close>

text \<open>A table after an operation: its rows in order, each related to what it was, then new rows.\<close>

definition evolves :: "('r \<Rightarrow> 'r \<Rightarrow> bool) \<Rightarrow> 'r list \<Rightarrow> 'r list \<Rightarrow> bool" where
  "evolves R xs ys \<longleftrightarrow> (\<exists>ys1 zs. ys = ys1 @ zs \<and> list_all2 R xs ys1)"

lemma evolves_append: "(\<And>x. R x x) \<Longrightarrow> evolves R xs (xs @ zs)"
  by (auto simp: evolves_def list.rel_refl)

lemma evolves_refl: "(\<And>x. R x x) \<Longrightarrow> evolves R xs xs"
  using evolves_append [of R xs "[]"] by simp

lemma evolves_update: "(\<And>x. \<not> P x \<Longrightarrow> R x x) \<Longrightarrow> (\<And>x. P x \<Longrightarrow> R x (f x)) \<Longrightarrow> evolves R xs (update_where P f xs)"
proof -
  assume r: "\<And>x. \<not> P x \<Longrightarrow> R x x" "\<And>x. P x \<Longrightarrow> R x (f x)"
  have "list_all2 R xs (update_where P f xs)" by (induction xs) (simp_all add: r)
  then show ?thesis unfolding evolves_def by (metis append_Nil2)
qed

lemma evolves_find:
  assumes "evolves R xs ys" and "List.find (\<lambda>x. k x = i) xs = Some x" and "\<And>x y. R x y \<Longrightarrow> k y = k x"
  shows "\<exists>y. List.find (\<lambda>y. k y = i) ys = Some y \<and> R x y"
proof -
  obtain ys1 zs where ys: "ys = ys1 @ zs" and "list_all2 R xs ys1"
    using assms(1) by (auto simp: evolves_def)
  from this(2) assms(2) have "\<exists>y. List.find (\<lambda>y. k y = i) ys1 = Some y \<and> R x y"
    by (induction rule: list_all2_induct) (auto dest: assms(3) split: if_splits)
  then show ?thesis by (auto simp: ys find_append)
qed

section \<open>What each operation does to the tables\<close>

lemma verify_own_secret: "scrypt_contract E \<Longrightarrow> verifySecret E secret (hashSecret E n secret)"
proof -
  assume c: "scrypt_contract E"
  let ?b = "scrypt E secret (randomHex E n)"
  have b: "is_bytes ?b" "length ?b = 64" "randomHex E n \<noteq> []" using c by (simp_all add: scrypt_contract_def)
  have "to_hex ?b \<noteq> []" using b(2) length_to_hex [of ?b] by auto
  with b show ?thesis by (simp add: verifySecret_def split_hashSecret [OF c] of_hex_to_hex Let_def)
qed

text \<open>A stored prefix and hash belong to a token.\<close>

definition token_of :: "env \<Rightarrow> string \<Rightarrow> string \<Rightarrow> string \<Rightarrow> string \<Rightarrow> bool" where
  "token_of E tokenPrefix secret keyPrefix secretHash \<longleftrightarrow>
     extract_prefix tokenPrefix secret = Some keyPrefix \<and> verifySecret E secret secretHash"

lemma generated_token:
  assumes "token_contract E" "scrypt_contract E" "CHR ''.'' \<notin> set p" "p \<noteq> []" "generate_token E p s = (g, s1)"
  shows "token_of E p (gt_secret g) (gt_keyPrefix g) (gt_secretHash g)"
  using extract_generated [OF assms(1,3,4), of s] verify_own_secret [OF assms(2)] assms(5)
  by (auto simp: token_of_def generate_token_def Let_def)

definition access_tables ::
    "db \<Rightarrow> PartnerApiCredential list \<times> DashboardSession list \<times> PartnerUser list \<times> PartnerUserInvite list" where
  "access_tables s = (apiCredentials s, dashboardSessions s, partnerUsers s, userInvites s)"

declare access_tables_def [simp]

lemma generate_token_tables: "generate_token E p s = (g, s1) \<Longrightarrow> access_tables s1 = access_tables s"
  by (auto simp: generate_token_def Let_def)

lemma insert_credential_cases:
  assumes "insert_credential E now partner label scopes g actor s = (r, s')"
  obtains "r = Inl UniqueViolation" "s' = s"
  | c where "r = Inr c" "List.find (\<lambda>c. cr_keyPrefix c = gt_keyPrefix g) (apiCredentials s) = None"
      "access_tables s' = (apiCredentials s @ [c], dashboardSessions s, partnerUsers s, userInvites s)"
      "c = \<lparr>cr_id = cuid E (nextId s), cr_partnerId = pa_id partner, cr_label = label, cr_keyPrefix = gt_keyPrefix g,
        cr_secretHash = gt_secretHash g, cr_scopes = scopes, cr_status = PartnerStatus_ACTIVE,
        cr_lastUsedAt = None, cr_createdAt = now, cr_revokedAt = None\<rparr>"
proof (cases "List.find (\<lambda>c. cr_keyPrefix c = gt_keyPrefix g) (apiCredentials s) = None")
  case True
  show ?thesis
    by (rule that(2)) (use assms True in \<open>auto simp: insert_credential_def fresh_def Let_def\<close>)
next
  case False
  show ?thesis by (rule that(1)) (use assms False in \<open>auto simp: insert_credential_def\<close>)
qed

definition issued_row ::
    "env \<Rightarrow> Partner \<Rightarrow> string list \<Rightarrow> IssuedApiCredential \<Rightarrow> PartnerApiCredential \<Rightarrow> bool" where
  "issued_row E partner scopes v c \<longleftrightarrow>
     ci_credential v = credential_view False c \<and> cr_partnerId c = pa_id partner \<and> cr_scopes c = scopes \<and>
     cr_status c = PartnerStatus_ACTIVE \<and> cr_revokedAt c = None \<and>
     token_of E credentialSecretPrefix (ci_secret v) (cr_keyPrefix c) (cr_secretHash c)"

lemma issue_attempts_cases:
  assumes "issue_attempts n E now partner label scopes actor s = (r, s')"
  obtains e where "r = Inl e" "access_tables s' = access_tables s"
  | v c where "r = Inr v"
      "access_tables s' = (apiCredentials s @ [c], dashboardSessions s, partnerUsers s, userInvites s)"
      "List.find (\<lambda>x. cr_keyPrefix x = cr_keyPrefix c) (apiCredentials s) = None"
      "cr_scopes c = scopes" "token_contract E \<Longrightarrow> scrypt_contract E \<Longrightarrow> issued_row E partner scopes v c"
  using assms
proof (induction n arbitrary: s thesis)
  case 0
  show ?case by (rule "0.prems"(1)) (use "0.prems"(3) in auto)
next
  case (Suc n)
  obtain g s1 where g: "generateApiCredential E s = (g, s1)" by fastforce
  then have g': "generate_token E credentialSecretPrefix s = (g, s1)" by (simp add: generateApiCredential_def)
  note t = generate_token_tables [OF g']
  have tok: "token_of E credentialSecretPrefix (gt_secret g) (gt_keyPrefix g) (gt_secretHash g)"
    if "token_contract E" "scrypt_contract E"
    by (rule generated_token [OF that _ _ g']) (simp_all add: credentialSecretPrefix_def)
  obtain q s2 where q: "insert_credential E now partner label scopes g actor s1 = (q, s2)" by fastforce
  show ?case
  proof (cases rule: insert_credential_cases [OF q])
    case 1
    then have "issue_attempts n E now partner label scopes actor s1 = (r, s')"
      using Suc.prems(3) g q by simp
    then show ?thesis
      by (rule Suc.IH [rotated 2]) (use t Suc.prems(1,2) in auto)
  next
    case (2 c)
    from Suc.prems(3) g q 2(1) have r: "r = Inr \<lparr>ci_credential = credential_view False c,
        ci_partner = pa_slug partner, ci_secret = gt_secret g\<rparr>" "s' = s2" by auto
    show ?thesis
      by (rule Suc.prems(2) [OF r(1), of c])
         (use t 2 r(2) tok in \<open>auto simp: issued_row_def\<close>)
  qed
qed

lemma issue_cases:
  assumes "issueApiCredentialForPartner E now partner label scopes actor s = (r, s')"
  obtains e where "r = Inl e" "access_tables s' = access_tables s"
  | v c where "r = Inr v" "pa_status partner = PartnerStatus_ACTIVE"
      "access_tables s' = (apiCredentials s @ [c], dashboardSessions s, partnerUsers s, userInvites s)"
      "List.find (\<lambda>x. cr_keyPrefix x = cr_keyPrefix c) (apiCredentials s) = None"
      "cr_scopes c = normalizeCredentialScopes (or_else scopes defaultCredentialScopes)"
      "cr_scopes c \<noteq> []"
      "token_contract E \<Longrightarrow> scrypt_contract E \<Longrightarrow>
         issued_row E partner (normalizeCredentialScopes (or_else scopes defaultCredentialScopes)) v c"
proof (cases "pa_status partner \<noteq> PartnerStatus_ACTIVE \<or> length (js_trim label) = 0 \<or>
    normalizeCredentialScopes (or_else scopes defaultCredentialScopes) = []")
  case True
  then show ?thesis
    using assms that(1) by (auto simp: issueApiCredentialForPartner_def Let_def split: if_splits)
next
  case False
  then have i: "issue_attempts 5 E now partner (js_trim label)
      (normalizeCredentialScopes (or_else scopes defaultCredentialScopes)) actor s = (r, s')"
    using assms by (simp add: issueApiCredentialForPartner_def Let_def)
  show ?thesis
    by (cases rule: issue_attempts_cases [OF i]) (use that False in auto)
qed

lemma revoke_credential_cases:
  assumes "revokePartnerApiCredential E now p i s = (r, s')"
  obtains e where "r = Inl e" "s' = s"
  | c where "r = Inr (credential_view False (revoke_credential now c))"
      "List.find (\<lambda>c. cr_id c = js_trim i \<and> cr_partnerId c = ap_partnerId p) (apiCredentials s) = Some c"
      "access_tables s' = (update_where (\<lambda>x. cr_id x = cr_id c) (revoke_credential now) (apiCredentials s),
         dashboardSessions s, partnerUsers s, userInvites s)"
proof (cases r)
  case (Inl e)
  then have "s' = s"
    using assms by (auto simp: revokePartnerApiCredential_def Let_def split: if_splits option.splits)
  with Inl show ?thesis by (rule that(1))
next
  case (Inr v)
  then obtain c where
    "List.find (\<lambda>c. cr_id c = js_trim i \<and> cr_partnerId c = ap_partnerId p) (apiCredentials s) = Some c"
    using assms by (auto simp: revokePartnerApiCredential_def Let_def split: if_splits option.splits)
  moreover from this have "r = Inr (credential_view False (revoke_credential now c))"
    "access_tables s' = (update_where (\<lambda>x. cr_id x = cr_id c) (revoke_credential now) (apiCredentials s),
         dashboardSessions s, partnerUsers s, userInvites s)"
    using assms Inr by (auto simp: revokePartnerApiCredential_def Let_def split: if_splits)
  ultimately show ?thesis by (intro that(2))
qed

lemma authenticate_cases:
  assumes "authenticatePartnerAccessToken E now secret req w s = (r, w', s')"
  obtains "access_tables s' = access_tables s"
  | i where "access_tables s' = (update_where (\<lambda>c. cr_id c = i) (\<lambda>c. c\<lparr>cr_lastUsedAt := Some now\<rparr>) (apiCredentials s),
       dashboardSessions s, partnerUsers s, userInvites s)"
  | i where "access_tables s' = (apiCredentials s, update_where (\<lambda>d. se_id d = i)
       (\<lambda>d. d\<lparr>se_lastUsedAt := Some now\<rparr>) (dashboardSessions s), partnerUsers s, userInvites s)"
  using assms
  by (auto simp: authenticatePartnerAccessToken_def authenticateDashboardSession_def authenticateApiCredential_def
      maybeRecordCredentialUse_def maybeRecordDashboardSessionUse_def Let_def
      split: if_splits option.splits prod.splits)

lemma insert_session_cases:
  assumes "insert_session E now u g s = (r, s')"
  obtains "r = Inl UniqueViolation" "s' = s"
  | d where "r = Inr d" "List.find (\<lambda>d. se_keyPrefix d = gt_keyPrefix g) (dashboardSessions s) = None"
      "access_tables s' = (apiCredentials s, dashboardSessions s @ [d], partnerUsers s, userInvites s)"
      "d = \<lparr>se_id = cuid E (nextId s), se_partnerUserId = u, se_keyPrefix = gt_keyPrefix g,
        se_secretHash = gt_secretHash g, se_expiresAt = now + PARTNER_DASHBOARD_SESSION_TTL_MS (cfg E),
        se_revokedAt = None, se_lastUsedAt = None, se_createdAt = now\<rparr>"
proof (cases "List.find (\<lambda>d. se_keyPrefix d = gt_keyPrefix g) (dashboardSessions s) = None")
  case True
  show ?thesis by (rule that(2)) (use assms True in \<open>auto simp: insert_session_def fresh_def Let_def\<close>)
next
  case False
  show ?thesis by (rule that(1)) (use assms False in \<open>auto simp: insert_session_def\<close>)
qed

text \<open>The row of a new session and the token that opens it.\<close>

definition session_row :: "env \<Rightarrow> time \<Rightarrow> PartnerUser \<Rightarrow> string \<Rightarrow> DashboardSession \<Rightarrow> bool" where
  "session_row E now u secret d \<longleftrightarrow>
     se_partnerUserId d = us_id u \<and> se_expiresAt d = now + PARTNER_DASHBOARD_SESSION_TTL_MS (cfg E) \<and>
     se_revokedAt d = None \<and> token_of E dashboardSessionPrefix secret (se_keyPrefix d) (se_secretHash d)"

definition logged_in :: "time \<Rightarrow> PartnerUser \<Rightarrow> PartnerUser" where
  "logged_in now u = u\<lparr>us_lastLoginAt := Some now\<rparr>"

lemma create_session_cases:
  assumes "createDashboardSessionForPartnerUser E now p u s = (r, s')"
  obtains e where "r = Inl e" "access_tables s' = access_tables s"
  | v d where "r = Inr v"
      "access_tables s' = (apiCredentials s, dashboardSessions s @ [d],
         update_where (\<lambda>x. us_id x = us_id u) (logged_in now) (partnerUsers s), userInvites s)"
      "List.find (\<lambda>x. se_keyPrefix x = se_keyPrefix d) (dashboardSessions s) = None"
      "dv_id (lg_user v) = us_id u"
      "token_contract E \<Longrightarrow> scrypt_contract E \<Longrightarrow> session_row E now u (lg_accessToken v) d"
proof -
  obtain g s1 where "generateDashboardSessionToken E s = (g, s1)" by fastforce
  then have g: "generate_token E dashboardSessionPrefix s = (g, s1)" by (simp add: generateDashboardSessionToken_def)
  note t = generate_token_tables [OF g]
  have tok: "token_of E dashboardSessionPrefix (gt_secret g) (gt_keyPrefix g) (gt_secretHash g)"
    if "token_contract E" "scrypt_contract E"
    by (rule generated_token [OF that _ _ g]) (simp_all add: dashboardSessionPrefix_def)
  obtain q s2 where q: "insert_session E now (us_id u) g s1 = (q, s2)" by fastforce
  note r = assms [unfolded createDashboardSessionForPartnerUser_def generateDashboardSessionToken_def g Let_def prod.case q]
  show ?thesis
  proof (cases rule: insert_session_cases [OF q])
    case 1
    show ?thesis by (rule that(1)) (use r 1 t in auto)
  next
    case (2 d)
    show ?thesis
      by (rule that(2) [of _ d])
         (use r 2 t tok in \<open>auto simp: session_row_def logged_in_def [abs_def]\<close>)
  qed
qed

lemma login_cases:
  assumes "loginDashboardUser E now email password s = (r, s')"
  obtains e where "r = Inl e" "access_tables s' = access_tables s"
  | v d u p where "r = Inr v" "u \<in> set (partnerUsers s)" "user_active u"
      "us_email u = js_lower (js_trim email)" "verifySecret E password (us_passwordHash u)"
      "partner_row s (us_partnerId u) = Some p" "pa_status p = PartnerStatus_ACTIVE"
      "access_tables s' = (apiCredentials s, dashboardSessions s @ [d],
         update_where (\<lambda>x. us_id x = us_id u) (logged_in now) (partnerUsers s), userInvites s)"
      "List.find (\<lambda>x. se_keyPrefix x = se_keyPrefix d) (dashboardSessions s) = None"
      "dv_id (lg_user v) = us_id u"
      "token_contract E \<Longrightarrow> scrypt_contract E \<Longrightarrow> session_row E now u (lg_accessToken v) d"
proof (cases r)
  case (Inl e)
  show ?thesis
  proof (rule that(1) [OF Inl])
    show "access_tables s' = access_tables s"
      using assms Inl by (auto simp: loginDashboardUser_def Let_def split: if_splits option.splits sum.splits
          elim!: create_session_cases)
  qed
next
  case (Inr v)
  then obtain u p where u: "List.find (\<lambda>u. us_email u = js_lower (js_trim email)) (partnerUsers s) = Some u"
    "partner_row s (us_partnerId u) = Some p" "user_active u" "pa_status p = PartnerStatus_ACTIVE"
    "verifySecret E password (us_passwordHash u)"
    and c: "createDashboardSessionForPartnerUser E now p u s = (Inr v, s')"
    using assms by (auto simp: loginDashboardUser_def normalizeUserEmail_def Let_def
        split: if_splits option.splits sum.splits)
  show ?thesis
    by (cases rule: create_session_cases [OF c])
       (use that(2) [of v u p] Inr u find_SomeD [OF u(1)] in auto)
qed

lemma logout_cases:
  assumes "logoutDashboardSession E now p s = (r, s')"
  obtains "access_tables s' = access_tables s" "r \<noteq> Inr True"
  | i u where "r = Inr True" "ap_dashboardSessionId p = Some i" "ap_partnerUserId p = Some u"
      "access_tables s' = (apiCredentials s,
         update_where (\<lambda>d. se_id d = i \<and> se_partnerUserId d = u \<and> se_revokedAt d = None)
           (\<lambda>d. d\<lparr>se_revokedAt := Some now\<rparr>) (dashboardSessions s), partnerUsers s, userInvites s)"
proof (cases "r = Inr True")
  case True
  then obtain i u where "ap_dashboardSessionId p = Some i" "ap_partnerUserId p = Some u"
    using assms by (auto simp: logoutDashboardSession_def split: option.splits if_splits)
  then show ?thesis
    by (intro that(2)) (use assms True in \<open>auto simp: logoutDashboardSession_def Let_def split: if_splits\<close>)
next
  case False
  have "access_tables s' = access_tables s"
  proof (cases "\<exists>i u. ap_dashboardSessionId p = Some i \<and> ap_partnerUserId p = Some u \<and> i \<noteq> [] \<and> u \<noteq> []")
    case True
    then obtain i u where i: "ap_dashboardSessionId p = Some i" "ap_partnerUserId p = Some u" "i \<noteq> []" "u \<noteq> []" by blast
    then have "count_where (\<lambda>d. se_id d = i \<and> se_partnerUserId d = u \<and> se_revokedAt d = None) (dashboardSessions s) = 0"
      using assms False by (auto simp: logoutDashboardSession_def Let_def)
    then have "update_where (\<lambda>d. se_id d = i \<and> se_partnerUserId d = u \<and> se_revokedAt d = None)
        (\<lambda>d. d\<lparr>se_revokedAt := Some now\<rparr>) (dashboardSessions s) = dashboardSessions s"
      by (intro update_where_id) (simp add: count_where_zero_iff)
    then show ?thesis using assms i by (auto simp: logoutDashboardSession_def Let_def)
  next
    case False
    then show ?thesis using assms by (auto simp: logoutDashboardSession_def split: option.splits)
  qed
  then show ?thesis using False by (rule that(1))
qed

lemma create_user_cases:
  assumes "createPartnerUser E now dto s = (r, s')"
  obtains e where "r = Inl e" "s' = s"
  | u where "r = Inr (user_view u)" "find_user s (us_email u) = None" "us_scopes u = getPartnerUserScopes (us_role u)"
      "us_id u = cuid E (Suc (nextId s))" "nextId s' = Suc (Suc (Suc (nextId s)))"
      "access_tables s' = (apiCredentials s, dashboardSessions s, partnerUsers s @ [u], userInvites s)"
proof (cases r)
  case (Inl e)
  then have "s' = s"
    using assms by (auto simp: createPartnerUser_def fresh_def Let_def split: if_splits sum.splits)
  with Inl show ?thesis by (rule that(1))
next
  case (Inr v)
  then show ?thesis
    using assms that(2) by (fastforce simp: createPartnerUser_def fresh_def new_user_def Let_def split: if_splits sum.splits)
qed

lemma update_user_cases:
  assumes "updatePartnerUser E now p i dto s = (r, s')"
  obtains e where "r = Inl e" "s' = s"
  | j n q where "access_tables s' = (apiCredentials s, dashboardSessions s,
      update_where (\<lambda>u. us_id u = j) (user_update n q) (partnerUsers s), userInvites s)" "nextId s' = Suc (nextId s)"
proof (cases r)
  case (Inl e)
  then have "s' = s"
    using assms by (auto simp: updatePartnerUser_def Let_def split: if_splits option.splits sum.splits)
  with Inl show ?thesis by (rule that(1))
next
  case (Inr v)
  then show ?thesis
    using assms that(2)
    by (fastforce simp: updatePartnerUser_def put_user_def Let_def split: if_splits option.splits sum.splits)
qed

lemma deactivate_cases:
  assumes "deactivatePartnerUser E now p i s = (r, s')"
  obtains e where "r = Inl e" "s' = s"
  | u where "r = Inr (user_view (deactivate_user now u))" "own_user p (js_trim i) s = Some u"
      "us_role u = PartnerUserRole_OWNER \<longrightarrow> 1 < count_where (active_owner (ap_partnerId p)) (partnerUsers s)"
      "us_status u = PartnerUserStatus_ACTIVE"
      "access_tables s' = (apiCredentials s,
         update_where (\<lambda>d. se_partnerUserId d = us_id u \<and> se_revokedAt d = None)
           (\<lambda>d. d\<lparr>se_revokedAt := Some now\<rparr>) (dashboardSessions s),
         update_where (\<lambda>x. us_id x = us_id u) (deactivate_user now) (partnerUsers s), userInvites s)"
      "nextId s' = Suc (nextId s)"
proof (cases r)
  case (Inl e)
  then have "s' = s"
    using assms by (auto simp: deactivatePartnerUser_def Let_def split: if_splits option.splits)
  with Inl show ?thesis by (rule that(1))
next
  case (Inr v)
  then show ?thesis
    using assms that(2)
    by (fastforce simp: deactivatePartnerUser_def end_sessions_def put_user_def Let_def split: if_splits option.splits)
qed

lemma invite_cases:
  assumes "invitePartnerUser E now p dto s = (r, s')"
  obtains e where "r = Inl e" "access_tables s' = access_tables s"
  | i secret where "r = Inr (invite_view i, secret)" "iv_role i = xi_role dto" "iv_partnerId i = ap_partnerId p"
      "iv_status i = PartnerUserInviteStatus_PENDING" "iv_revokedAt i = None"
      "iv_scopes i = getPartnerUserScopes (iv_role i)"
      "access_tables s' = (apiCredentials s, dashboardSessions s, partnerUsers s, userInvites s @ [i])"
      "\<forall>x \<in> set (userInvites s). iv_keyPrefix x \<noteq> iv_keyPrefix i"
      "iv_expiresAt i = now + PARTNER_USER_INVITE_TTL_MS (cfg E)"
      "token_contract E \<Longrightarrow> scrypt_contract E \<Longrightarrow>
         token_of E partnerUserInvitePrefix secret (iv_keyPrefix i) (iv_secretHash i)"
proof (cases r)
  case (Inl e)
  have "access_tables s' = access_tables s"
    using assms Inl
    by (auto simp: invitePartnerUser_def insert_invite_def generatePartnerUserInviteToken_def generate_token_def
        fresh_def Let_def split: if_splits sum.splits)
  with Inl show ?thesis by (rule that(1))
next
  case (Inr v)
  obtain g s1 where "generatePartnerUserInviteToken E s = (g, s1)" by fastforce
  then have g: "generate_token E partnerUserInvitePrefix s = (g, s1)" by (simp add: generatePartnerUserInviteToken_def)
  note t = generate_token_tables [OF g]
  have tok: "token_of E partnerUserInvitePrefix (gt_secret g) (gt_keyPrefix g) (gt_secretHash g)"
    if "token_contract E" "scrypt_contract E"
    by (rule generated_token [OF that _ _ g]) (simp_all add: partnerUserInvitePrefix_def)
  show ?thesis
    using assms Inr t that(2) tok
    by (fastforce simp: invitePartnerUser_def insert_invite_def generatePartnerUserInviteToken_def g
        fresh_def Let_def list_ex_iff split: if_splits sum.splits)
qed

lemma accept_transaction_cases:
  assumes "accept_transaction E now i p name password s = (r, s')"
  obtains e where "r = Inl e" "access_tables s' = access_tables s"
  | v u d where "r = Inr v" "ak_user v = user_view u"
      "u = new_user now (us_id u) (iv_partnerId i) (iv_email i) name (iv_role i) (iv_scopes i) (us_passwordHash u) (Some now)"
      "access_tables s' = (apiCredentials s, dashboardSessions s @ [d], partnerUsers s @ [u],
         update_where (\<lambda>x. iv_id x = iv_id i) (accept_invite now) (userInvites s))"
      "List.find (\<lambda>x. se_keyPrefix x = se_keyPrefix d) (dashboardSessions s) = None"
      "token_contract E \<Longrightarrow> scrypt_contract E \<Longrightarrow> session_row E now u (ak_accessToken v) d"
proof -
  let ?s0 = "s\<lparr>nextId := Suc (nextId s)\<rparr>"
  obtain g s1 where "generateDashboardSessionToken E ?s0 = (g, s1)" by fastforce
  then have g: "generate_token E dashboardSessionPrefix ?s0 = (g, s1)" by (simp add: generateDashboardSessionToken_def)
  note t = generate_token_tables [OF g]
  have tok: "token_of E dashboardSessionPrefix (gt_secret g) (gt_keyPrefix g) (gt_secretHash g)"
    if "token_contract E" "scrypt_contract E"
    by (rule generated_token [OF that _ _ g]) (simp_all add: dashboardSessionPrefix_def)
  define s2 where "s2 = s1\<lparr>nextId := Suc (nextId s1)\<rparr>"
  define u where "u = new_user now (cuid E (nextId s1)) (iv_partnerId i) (iv_email i) name (iv_role i) (iv_scopes i)
    (hashSecret E (nextId s) password) (Some now)"
  define s3 where "s3 = s2\<lparr>partnerUsers := partnerUsers s2 @ [u]\<rparr>"
  obtain q s4 where q: "insert_session E now (us_id u) g s3 = (q, s4)" by fastforce
  note r = assms [unfolded accept_transaction_def generateDashboardSessionToken_def g fresh_def Let_def prod.case,
      folded s2_def u_def, folded s3_def]
  have uid: "us_id u = cuid E (nextId s1)" by (simp add: u_def new_user_def)
  show ?thesis
  proof (cases rule: insert_session_cases [OF q])
    case 1
    then show ?thesis
      by (intro that(1)) (use r q t uid in \<open>auto simp: s2_def\<close>)
  next
    case (2 d)
    obtain q' s5 where q': "update_invite now i s4 = (q', s5)" by fastforce
    show ?thesis
    proof (cases q')
      case (Inl e)
      then show ?thesis
        by (intro that(1)) (use r q q' 2(1) uid in auto)
    next
      case (Inr v)
      have s5: "access_tables s5 = (apiCredentials s, dashboardSessions s @ [d], partnerUsers s @ [u],
         update_where (\<lambda>x. iv_id x = iv_id i) (accept_invite now) (userInvites s))"
        using q' Inr 2(3) t by (auto simp: update_invite_def s3_def s2_def split: if_splits)
      have row: "session_row E now u (gt_secret g) d" if "token_contract E" "scrypt_contract E"
        using tok [OF that] 2(4) by (simp add: session_row_def)
      from r q q' Inr 2(1) uid s5
      have e: "r = Inr \<lparr>ak_accessToken = gt_secret g, ak_expiresAt = toISOString (se_expiresAt d),
          ak_partnerId = pa_id p, ak_partnerSlug = pa_slug p, ak_partnerDisplayName = pa_displayName p,
          ak_user = user_view u\<rparr>" "access_tables s' = access_tables s5" by auto
      show ?thesis
      proof (rule that(2) [OF e(1)])
        show "u = new_user now (us_id u) (iv_partnerId i) (iv_email i) name (iv_role i) (iv_scopes i) (us_passwordHash u) (Some now)"
          by (simp add: u_def new_user_def)
        show "List.find (\<lambda>x. se_keyPrefix x = se_keyPrefix d) (dashboardSessions s) = None"
          using 2(2,4) t by (simp add: s3_def s2_def)
      qed (use e s5 row in simp_all)
    qed
  qed
qed

lemma invitation_cases:
  assumes "acceptPartnerUserInvite E now token fullName password s = (r, s')"
  obtains e where "r = Inl e" "access_tables s' = access_tables s"
  | v i p u d where "r = Inr v" "ak_user v = user_view u"
      "extract_prefix partnerUserInvitePrefix token = Some (iv_keyPrefix i)"
      "find_invite s (iv_keyPrefix i) = Some (i, p)" "invite_accepted E now token i p" "find_user s (iv_email i) = None"
      "us_partnerId u = iv_partnerId i" "us_email u = iv_email i" "us_role u = iv_role i" "us_scopes u = iv_scopes i"
      "user_active u"
      "access_tables s' = (apiCredentials s, dashboardSessions s @ [d], partnerUsers s @ [u],
         update_where (\<lambda>x. iv_id x = iv_id i) (accept_invite now) (userInvites s))"
      "List.find (\<lambda>x. se_keyPrefix x = se_keyPrefix d) (dashboardSessions s) = None"
      "token_contract E \<Longrightarrow> scrypt_contract E \<Longrightarrow> session_row E now u (ak_accessToken v) d"
proof (cases "\<exists>k i p n. extractPartnerUserInvitePrefix token = Some k \<and> find_invite s k = Some (i, p) \<and>
    invite_accepted E now token i p \<and> find_user s (iv_email i) = None \<and>
    accept_transaction E now i p n password s = (r, s')")
  case True
  then obtain k i p n where k: "extractPartnerUserInvitePrefix token = Some k" "find_invite s k = Some (i, p)"
    "invite_accepted E now token i p" "find_user s (iv_email i) = None"
    and a: "accept_transaction E now i p n password s = (r, s')" by blast
  from k(2) have ik: "iv_keyPrefix i = k"
    by (auto simp: find_invite_def split: option.splits dest: find_SomeD)
  show ?thesis
  proof (cases rule: accept_transaction_cases [OF a])
    case (1 e)
    then show ?thesis by (rule that(1))
  next
    case (2 v u d)
    from 2(3) have u: "us_partnerId u = iv_partnerId i" "us_email u = iv_email i" "us_role u = iv_role i"
      "us_scopes u = iv_scopes i" "user_active u"
      by (metis (no_types, lifting) PartnerUser.select_convs new_user_def user_active_def)+
    show ?thesis
      by (rule that(2) [OF 2(1,2)]) (use k ik u 2 in \<open>simp_all add: extractPartnerUserInvitePrefix_def\<close>)
  qed
next
  case False
  then have "s' = s \<and> (\<exists>e. r = Inl e)"
    using assms
    by (auto simp: acceptPartnerUserInvite_def Let_def split: if_splits option.splits sum.splits)
  then show ?thesis using that(1) by auto
qed

section \<open>The service as a step relation\<close>

text \<open>What a step ends; a handler that refuses changes none of the tables and is an \<open>other\<close> step.\<close>

datatype access_event =
    Credential_revoked ident | Session_ended ident ident | User_deactivated ident | Quiet

inductive access_step :: "env \<Rightarrow> db \<Rightarrow> access_event \<Rightarrow> db \<Rightarrow> bool" for E where
  issue: "issueApiCredentialForPartner E now partner label scopes actor s = (r, s') \<Longrightarrow> access_step E s Quiet s'"
| revoke: "revokePartnerApiCredential E now p i s = (Inr v, s') \<Longrightarrow> access_step E s (Credential_revoked (cv_id v)) s'"
| login: "loginDashboardUser E now email password s = (r, s') \<Longrightarrow> access_step E s Quiet s'"
| logout: "logoutDashboardSession E now p s = (Inr True, s') \<Longrightarrow> ap_dashboardSessionId p = Some i \<Longrightarrow>
    ap_partnerUserId p = Some u \<Longrightarrow> access_step E s (Session_ended i u) s'"
| authenticate: "authenticatePartnerAccessToken E now secret required w s = (r, w', s') \<Longrightarrow> access_step E s Quiet s'"
| create_user: "createPartnerUser E now cdto s = (r, s') \<Longrightarrow> access_step E s Quiet s'"
| update_user: "updatePartnerUser E now p i udto s = (r, s') \<Longrightarrow> access_step E s Quiet s'"
| deactivate: "deactivatePartnerUser E now p i s = (Inr v, s') \<Longrightarrow> access_step E s (User_deactivated (uv_id v)) s'"
| invite: "invitePartnerUser E now p idto s = (r, s') \<Longrightarrow> access_step E s Quiet s'"
| accept: "acceptPartnerUserInvite E now token fullName password s = (r, s') \<Longrightarrow> access_step E s Quiet s'"
| other: "access_tables s' = access_tables s \<Longrightarrow> access_step E s Quiet s'"

inductive access_run :: "env \<Rightarrow> db \<Rightarrow> access_event list \<Rightarrow> db \<Rightarrow> bool" for E where
  stop: "access_run E s [] s"
| step: "access_step E s ev s1 \<Longrightarrow> access_run E s1 evs s' \<Longrightarrow> access_run E s (ev # evs) s'"

inductive_cases access_stepE: "access_step E s ev s'"

text \<open>What a row keeps through a step, and what the step may end.\<close>

definition credential_kept :: "access_event \<Rightarrow> PartnerApiCredential \<Rightarrow> PartnerApiCredential \<Rightarrow> bool" where
  "credential_kept ev x y \<longleftrightarrow>
     cr_id y = cr_id x \<and> cr_partnerId y = cr_partnerId x \<and> cr_keyPrefix y = cr_keyPrefix x \<and>
     cr_secretHash y = cr_secretHash x \<and> cr_scopes y = cr_scopes x \<and>
     (if ev = Credential_revoked (cr_id x) then cr_revokedAt y \<noteq> None
      else cr_status y = cr_status x \<and> cr_revokedAt y = cr_revokedAt x)"

definition session_kept :: "access_event \<Rightarrow> DashboardSession \<Rightarrow> DashboardSession \<Rightarrow> bool" where
  "session_kept ev x y \<longleftrightarrow>
     se_id y = se_id x \<and> se_partnerUserId y = se_partnerUserId x \<and> se_keyPrefix y = se_keyPrefix x \<and>
     se_secretHash y = se_secretHash x \<and> se_expiresAt y = se_expiresAt x \<and>
     (if ev = Session_ended (se_id x) (se_partnerUserId x) \<or> ev = User_deactivated (se_partnerUserId x)
      then se_revokedAt y \<noteq> None else se_revokedAt y = se_revokedAt x)"

definition user_kept :: "access_event \<Rightarrow> PartnerUser \<Rightarrow> PartnerUser \<Rightarrow> bool" where
  "user_kept ev x y \<longleftrightarrow>
     us_id y = us_id x \<and> us_partnerId y = us_partnerId x \<and> us_email y = us_email x \<and>
     (if ev = User_deactivated (us_id x) then \<not> user_active y else user_active y = user_active x)"

definition invite_kept :: "PartnerUserInvite \<Rightarrow> PartnerUserInvite \<Rightarrow> bool" where
  "invite_kept x y \<longleftrightarrow>
     iv_id y = iv_id x \<and> iv_keyPrefix y = iv_keyPrefix x \<and> iv_secretHash y = iv_secretHash x \<and>
     iv_partnerId y = iv_partnerId x \<and> iv_email y = iv_email x \<and>
     (iv_status x \<noteq> PartnerUserInviteStatus_PENDING \<longrightarrow> iv_status y \<noteq> PartnerUserInviteStatus_PENDING)"

lemma kept_refl [simp]:
  "credential_kept Quiet c c" "session_kept Quiet d d" "user_kept Quiet u u" "invite_kept i i"
  "session_kept (Credential_revoked k) d d" "user_kept (Credential_revoked k) u u"
  "credential_kept (Session_ended k l) c c" "user_kept (Session_ended k l) u u"
  "credential_kept (User_deactivated k) c c"
  by (simp_all add: credential_kept_def session_kept_def user_kept_def invite_kept_def)

lemmas evolves_simps = evolves_refl evolves_append evolves_update

lemma user_update_kept: "user_kept Quiet u (user_update n q u)"
  by (auto simp: user_kept_def user_update_def user_active_def Let_def split: option.splits)

lemma step_evolves:
  assumes "access_step E s ev s'"
  shows "evolves (credential_kept ev) (apiCredentials s) (apiCredentials s') \<and>
         evolves (session_kept ev) (dashboardSessions s) (dashboardSessions s') \<and>
         evolves (user_kept ev) (partnerUsers s) (partnerUsers s') \<and>
         evolves invite_kept (userInvites s) (userInvites s')"
  using assms
proof cases
  case (issue now partner label scopes actor r)
  then show ?thesis by (cases rule: issue_cases [OF issue(2)]) (simp_all add: evolves_simps)
next
  case (revoke now p i v)
  show ?thesis
    by (cases rule: revoke_credential_cases [OF revoke(2)])
       (auto simp: revoke(1) evolves_refl credential_view_def revoke_credential_def credential_kept_def intro!: evolves_update)
next
  case (login now email password r)
  then show ?thesis
    by (cases rule: login_cases [OF login(2)])
       (auto simp: evolves_refl evolves_append logged_in_def user_kept_def user_active_def intro!: evolves_update)
next
  case (logout now p i u)
  then show ?thesis
    by (cases rule: logout_cases [OF logout(2)])
       (auto simp: evolves_refl session_kept_def split: if_splits intro!: evolves_update)
next
  case (authenticate now secret required w r w')
  then show ?thesis
    by (cases rule: authenticate_cases [OF authenticate(2)])
       (auto simp: evolves_refl credential_kept_def session_kept_def intro!: evolves_update)
next
  case (create_user now cdto r)
  then show ?thesis by (cases rule: create_user_cases [OF create_user(2)]) (simp_all add: evolves_simps)
next
  case (update_user now p i udto r)
  then show ?thesis
    by (cases rule: update_user_cases [OF update_user(2)])
       (auto simp: evolves_refl user_update_kept intro!: evolves_update)
next
  case (deactivate now p i v)
  then show ?thesis
    by (cases rule: deactivate_cases [OF deactivate(2)])
       (auto simp: evolves_refl user_view_def session_kept_def user_kept_def deactivate_user_def user_active_def
         split: if_splits intro!: evolves_update)
next
  case (invite now p idto r)
  then show ?thesis by (cases rule: invite_cases [OF invite(2)]) (simp_all add: evolves_simps)
next
  case (accept now token fullName password r)
  then show ?thesis
    by (cases rule: invitation_cases [OF accept(2)])
       (auto simp: evolves_refl evolves_append accept_invite_def invite_kept_def intro!: evolves_update)
next
  case other
  then show ?thesis by (simp add: evolves_refl)
qed

section \<open>Rows through a run\<close>

lemma run_credential:
  assumes "access_run E s evs s'" and "List.find (\<lambda>c. cr_keyPrefix c = k) (apiCredentials s) = Some c"
  shows "\<exists>c'. List.find (\<lambda>c. cr_keyPrefix c = k) (apiCredentials s') = Some c' \<and> cr_id c' = cr_id c \<and>
    cr_partnerId c' = cr_partnerId c \<and> cr_secretHash c' = cr_secretHash c \<and> cr_scopes c' = cr_scopes c \<and>
    (if Credential_revoked (cr_id c) \<in> set evs then cr_revokedAt c' \<noteq> None
     else cr_status c' = cr_status c \<and> cr_revokedAt c' = cr_revokedAt c)"
  using assms
proof (induction arbitrary: c rule: access_run.induct)
  case (step s ev s1 evs s')
  obtain c1 where c1: "List.find (\<lambda>c. cr_keyPrefix c = k) (apiCredentials s1) = Some c1" "credential_kept ev c c1"
    using evolves_find [OF conjunct1 [OF step_evolves [OF step.hyps(1)]] step.prems] by (auto simp: credential_kept_def)
  from step.IH [OF c1(1)] c1(2) show ?case by (auto simp: credential_kept_def split: if_splits)
qed auto

lemma run_session:
  assumes "access_run E s evs s'" and "List.find (\<lambda>d. se_keyPrefix d = k) (dashboardSessions s) = Some d"
  shows "\<exists>d'. List.find (\<lambda>d. se_keyPrefix d = k) (dashboardSessions s') = Some d' \<and> se_id d' = se_id d \<and>
    se_partnerUserId d' = se_partnerUserId d \<and> se_secretHash d' = se_secretHash d \<and> se_expiresAt d' = se_expiresAt d \<and>
    (if Session_ended (se_id d) (se_partnerUserId d) \<in> set evs \<or> User_deactivated (se_partnerUserId d) \<in> set evs
     then se_revokedAt d' \<noteq> None else se_revokedAt d' = se_revokedAt d)"
  using assms
proof (induction arbitrary: d rule: access_run.induct)
  case (step s ev s1 evs s')
  obtain d1 where d1: "List.find (\<lambda>d. se_keyPrefix d = k) (dashboardSessions s1) = Some d1" "session_kept ev d d1"
    using evolves_find [OF conjunct1 [OF conjunct2 [OF step_evolves [OF step.hyps(1)]]] step.prems]
    by (auto simp: session_kept_def)
  from step.IH [OF d1(1)] d1(2) show ?case by (auto simp: session_kept_def split: if_splits)
qed auto

lemma run_user:
  assumes "access_run E s evs s'" and "List.find (\<lambda>u. us_id u = k) (partnerUsers s) = Some u"
  shows "\<exists>u'. List.find (\<lambda>u. us_id u = k) (partnerUsers s') = Some u' \<and> us_partnerId u' = us_partnerId u \<and>
    us_email u' = us_email u \<and>
    user_active u' = (user_active u \<and> User_deactivated k \<notin> set evs)"
  using assms
proof (induction arbitrary: u rule: access_run.induct)
  case (step s ev s1 evs s')
  obtain u1 where u1: "List.find (\<lambda>u. us_id u = k) (partnerUsers s1) = Some u1" "user_kept ev u u1"
    using evolves_find [OF conjunct1 [OF conjunct2 [OF conjunct2 [OF step_evolves [OF step.hyps(1)]]]] step.prems]
    by (auto simp: user_kept_def)
  have "us_id u = k" using find_SomeD [OF step.prems] by blast
  with step.IH [OF u1(1)] u1(2) show ?case by (auto simp: user_kept_def split: if_splits)
qed auto

lemma run_invite:
  assumes "access_run E s evs s'" and "List.find (\<lambda>i. iv_keyPrefix i = k) (userInvites s) = Some i"
    and "iv_status i \<noteq> PartnerUserInviteStatus_PENDING"
  shows "\<exists>i'. List.find (\<lambda>i. iv_keyPrefix i = k) (userInvites s') = Some i' \<and>
    iv_status i' \<noteq> PartnerUserInviteStatus_PENDING"
  using assms
proof (induction arbitrary: i rule: access_run.induct)
  case (step s ev s1 evs s')
  obtain i1 where "List.find (\<lambda>i. iv_keyPrefix i = k) (userInvites s1) = Some i1" "invite_kept i i1"
    using evolves_find [OF conjunct2 [OF conjunct2 [OF conjunct2 [OF step_evolves [OF step.hyps(1)]]]] step.prems(1)]
    by (auto simp: invite_kept_def)
  then show ?case using step.IH step.prems(2) by (auto simp: invite_kept_def)
qed auto

section \<open>Credentials\<close>

definition partner_active :: "db \<Rightarrow> ident \<Rightarrow> bool" where
  "partner_active s partnerId \<longleftrightarrow>
     (case partner_row s partnerId of None \<Rightarrow> False | Some q \<Rightarrow> pa_status q = PartnerStatus_ACTIVE)"

lemma token_kind:
  assumes "token_of E p secret k h" "length p = length q" "p \<noteq> q"
  shows "extract_prefix q secret = None"
  using extract_prefix_kinds [OF _ assms(2,3)] assms(1) by (auto simp: token_of_def)

lemma missing_scopes_Nil [simp]: "missing_scopes required held = [] \<longleftrightarrow> set required \<subseteq> set held"
  by (auto simp: missing_scopes_def filter_empty_conv)

lemma authenticate_credential:
  assumes tok: "token_of E credentialSecretPrefix secret k h"
    and c: "List.find (\<lambda>c. cr_keyPrefix c = k) (apiCredentials s) = Some c" "cr_secretHash c = h"
    and auth: "authenticatePartnerAccessToken E now secret required w s = (r, w', s')"
  shows "(\<exists>p. r = Inr p) \<longleftrightarrow> cr_status c = PartnerStatus_ACTIVE \<and> cr_revokedAt c = None \<and>
           partner_active s (cr_partnerId c) \<and> set required \<subseteq> set (cr_scopes c)"
    and "r = Inr p \<Longrightarrow> ap_partnerId p = cr_partnerId c \<and> ap_scopes p = cr_scopes c \<and>
           ap_actorType p = API_CREDENTIAL \<and> ap_credentialId p = Some (cr_id c)"
proof -
  have "extract_prefix dashboardSessionPrefix secret = None"
    by (rule token_kind [OF tok]) (simp_all add: credentialSecretPrefix_def dashboardSessionPrefix_def)
  then have a: "authenticateApiCredential E now secret required w s = (r, w', s')"
    using auth by (simp add: authenticatePartnerAccessToken_def extractDashboardSessionPrefix_def)
  have k: "extractApiCredentialPrefix secret = Some k" "verifyApiCredentialSecret E secret (cr_secretHash c)"
    using tok c(2) by (simp_all add: token_of_def extractApiCredentialPrefix_def verifyApiCredentialSecret_def)
  show "(\<exists>p. r = Inr p) \<longleftrightarrow> cr_status c = PartnerStatus_ACTIVE \<and> cr_revokedAt c = None \<and>
           partner_active s (cr_partnerId c) \<and> set required \<subseteq> set (cr_scopes c)"
    using a c(1) k
    by (auto simp: authenticateApiCredential_def find_credential_def credential_accepted_def partner_active_def Let_def
        split: if_splits option.splits)
  show "r = Inr p \<Longrightarrow> ap_partnerId p = cr_partnerId c \<and> ap_scopes p = cr_scopes c \<and>
           ap_actorType p = API_CREDENTIAL \<and> ap_credentialId p = Some (cr_id c)"
    using a c(1) k
    by (auto simp: authenticateApiCredential_def find_credential_def credential_partner_def Let_def
        split: if_splits option.splits)
qed

text \<open>C5: an API credential is worth exactly what it was issued for, until it is revoked.  After any
  sequence of operations, presenting the secret authenticates exactly when the credential has not been
  revoked, its partner is active and every required scope is one of those it was issued with; the
  caller then is its partner, with exactly those scopes.\<close>

theorem credential_access_exact:
  assumes "token_contract E" "scrypt_contract E"
    and "issueApiCredentialForPartner E t0 partner label scopes actor s0 = (Inr v, s1)"
    and "access_run E s1 evs s"
    and "authenticatePartnerAccessToken E now (ci_secret v) required w s = (r, w', s')"
  shows "((\<exists>p. r = Inr p) \<longleftrightarrow>
            Credential_revoked (cv_id (ci_credential v)) \<notin> set evs \<and> partner_active s (pa_id partner) \<and>
            set required \<subseteq> set (cv_scopes (ci_credential v))) \<and>
         (\<forall>p. r = Inr p \<longrightarrow> ap_partnerId p = pa_id partner \<and> ap_actorType p = API_CREDENTIAL \<and>
            ap_credentialId p = Some (cv_id (ci_credential v)) \<and>
            ap_scopes p = normalizeCredentialScopes (or_else scopes defaultCredentialScopes))"
proof -
  obtain c where c: "apiCredentials s1 = apiCredentials s0 @ [c]"
      "List.find (\<lambda>x. cr_keyPrefix x = cr_keyPrefix c) (apiCredentials s0) = None"
      "issued_row E partner (normalizeCredentialScopes (or_else scopes defaultCredentialScopes)) v c"
    by (cases rule: issue_cases [OF assms(3)]) (use assms(1,2) in auto)
  note row = c(3) [unfolded issued_row_def]
  have "List.find (\<lambda>x. cr_keyPrefix x = cr_keyPrefix c) (apiCredentials s1) = Some c"
    using c(1,2) by (simp add: find_append)
  from run_credential [OF assms(4) this] obtain c' where
    c': "List.find (\<lambda>x. cr_keyPrefix x = cr_keyPrefix c) (apiCredentials s) = Some c'" "cr_id c' = cr_id c"
      "cr_partnerId c' = cr_partnerId c" "cr_secretHash c' = cr_secretHash c" "cr_scopes c' = cr_scopes c"
      "if Credential_revoked (cr_id c) \<in> set evs then cr_revokedAt c' \<noteq> None
       else cr_status c' = cr_status c \<and> cr_revokedAt c' = cr_revokedAt c"
    by blast
  from row have tok: "token_of E credentialSecretPrefix (ci_secret v) (cr_keyPrefix c) (cr_secretHash c)" by blast
  note a = authenticate_credential [OF tok c'(1,4) assms(5)]
  show ?thesis
  proof (intro conjI allI impI)
    show "(\<exists>p. r = Inr p) \<longleftrightarrow>
            Credential_revoked (cv_id (ci_credential v)) \<notin> set evs \<and> partner_active s (pa_id partner) \<and>
            set required \<subseteq> set (cv_scopes (ci_credential v))"
      using a(1) c'(3,5,6) row by (auto simp: credential_view_def split: if_splits)
  qed (use a(2) c'(2,3,5) row in \<open>auto simp: credential_view_def\<close>)
qed

section \<open>Sessions\<close>

lemma authenticate_session:
  assumes tok: "token_of E dashboardSessionPrefix secret k h"
    and d: "List.find (\<lambda>d. se_keyPrefix d = k) (dashboardSessions s) = Some d" "se_secretHash d = h"
    and u: "List.find (\<lambda>u. us_id u = se_partnerUserId d) (partnerUsers s) = Some u"
    and auth: "authenticatePartnerAccessToken E now secret required w s = (r, w', s')"
  shows "(\<exists>p. r = Inr p) \<longleftrightarrow> se_revokedAt d = None \<and> now < se_expiresAt d \<and> user_active u \<and>
           partner_active s (us_partnerId u) \<and> set required \<subseteq> set (us_scopes u)"
    and "r = Inr p \<Longrightarrow> ap_partnerUserId p = Some (us_id u) \<and> ap_dashboardSessionId p = Some (se_id d) \<and>
           ap_partnerUserRole p = Some (us_role u) \<and> ap_scopes p = us_scopes u"
proof -
  have k: "extractDashboardSessionPrefix secret = Some k" "verifyDashboardSessionToken E secret (se_secretHash d)"
    using tok d(2) by (simp_all add: token_of_def extractDashboardSessionPrefix_def verifyDashboardSessionToken_def)
  then have a: "authenticateDashboardSession E now secret required w s = (r, w', s')"
    using auth by (simp add: authenticatePartnerAccessToken_def)
  show "(\<exists>p. r = Inr p) \<longleftrightarrow> se_revokedAt d = None \<and> now < se_expiresAt d \<and> user_active u \<and>
           partner_active s (us_partnerId u) \<and> set required \<subseteq> set (us_scopes u)"
    using a d(1) u k
    by (auto simp: authenticateDashboardSession_def find_session_def session_accepted_def partner_active_def Let_def
        split: if_splits option.splits)
  show "r = Inr p \<Longrightarrow> ap_partnerUserId p = Some (us_id u) \<and> ap_dashboardSessionId p = Some (se_id d) \<and>
           ap_partnerUserRole p = Some (us_role u) \<and> ap_scopes p = us_scopes u"
    using a d(1) u k
    by (auto simp: authenticateDashboardSession_def find_session_def session_partner_def Let_def
        split: if_splits option.splits)
qed

text \<open>What a session row gives its token in a state reached from the one that has it: the user while the session is
  neither over nor ended.\<close>

definition session_serves ::
    "env \<Rightarrow> db \<Rightarrow> access_event list \<Rightarrow> string \<Rightarrow> time \<Rightarrow> ident \<Rightarrow> ident \<Rightarrow> bool" where
  "session_serves E s evs secret ends sid uid \<longleftrightarrow>
     (\<forall>now required w r w' s'. authenticatePartnerAccessToken E now secret required w s = (r, w', s') \<longrightarrow>
        (\<exists>u. List.find (\<lambda>u. us_id u = uid) (partnerUsers s) = Some u \<and>
          ((\<exists>p. r = Inr p) \<longleftrightarrow>
             now < ends \<and> Session_ended sid uid \<notin> set evs \<and> User_deactivated uid \<notin> set evs \<and>
             partner_active s (us_partnerId u) \<and> set required \<subseteq> set (us_scopes u)) \<and>
          (\<forall>p. r = Inr p \<longrightarrow> ap_partnerUserId p = Some uid \<and> ap_dashboardSessionId p = Some sid \<and>
             ap_partnerUserRole p = Some (us_role u) \<and> ap_scopes p = us_scopes u)))"

lemma session_lives:
  assumes row: "session_row E t0 u secret d"
    and find_d: "List.find (\<lambda>x. se_keyPrefix x = se_keyPrefix d) (dashboardSessions s1) = Some d"
    and find_u: "List.find (\<lambda>x. us_id x = us_id u) (partnerUsers s1) = Some u1" "user_active u1"
    and run: "access_run E s1 evs s"
  shows "session_serves E s evs secret (t0 + PARTNER_DASHBOARD_SESSION_TTL_MS (cfg E)) (se_id d) (us_id u)"
  unfolding session_serves_def
proof (intro allI impI)
  fix now required w r w' s'
  assume auth: "authenticatePartnerAccessToken E now secret required w s = (r, w', s')"
  note row = row [unfolded session_row_def]
  obtain d' where d': "List.find (\<lambda>x. se_keyPrefix x = se_keyPrefix d) (dashboardSessions s) = Some d'"
      "se_partnerUserId d' = us_id u" "se_id d' = se_id d" "se_secretHash d' = se_secretHash d" "se_expiresAt d' = se_expiresAt d"
      "if Session_ended (se_id d) (us_id u) \<in> set evs \<or> User_deactivated (us_id u) \<in> set evs
       then se_revokedAt d' \<noteq> None else se_revokedAt d' = se_revokedAt d"
    using run_session [OF run find_d] row by auto
  obtain u' where u': "List.find (\<lambda>x. us_id x = us_id u) (partnerUsers s) = Some u'"
      "user_active u' = (user_active u1 \<and> User_deactivated (us_id u) \<notin> set evs)"
    using run_user [OF run find_u(1)] by blast
  have id: "us_id u' = us_id u" using find_SomeD [OF u'(1)] by simp
  have tok: "token_of E dashboardSessionPrefix secret (se_keyPrefix d) (se_secretHash d)"
    using row by blast
  note a = authenticate_session [OF tok d'(1,4) _ auth, unfolded d'(2), OF u'(1)]
  show "\<exists>u'. List.find (\<lambda>u'. us_id u' = us_id u) (partnerUsers s) = Some u' \<and>
      ((\<exists>p. r = Inr p) \<longleftrightarrow>
         now < t0 + PARTNER_DASHBOARD_SESSION_TTL_MS (cfg E) \<and> Session_ended (se_id d) (us_id u) \<notin> set evs \<and>
         User_deactivated (us_id u) \<notin> set evs \<and> partner_active s (us_partnerId u') \<and>
         set required \<subseteq> set (us_scopes u')) \<and>
      (\<forall>p. r = Inr p \<longrightarrow> ap_partnerUserId p = Some (us_id u) \<and> ap_dashboardSessionId p = Some (se_id d) \<and>
         ap_partnerUserRole p = Some (us_role u') \<and> ap_scopes p = us_scopes u')"
    using a d' row u' find_u(2) id by (intro exI [of _ u']) (auto split: if_splits)
qed

text \<open>C6: a dashboard session lasts exactly until it expires, is logged out or its user is
  deactivated.  After any sequence of operations, presenting the token of a login authenticates exactly
  when its lifetime since the login is not over, neither that session was logged out nor that user
  deactivated in the meantime, the partner is active, and every required scope is one the user holds
  now: a change of role takes effect on the sessions already open.\<close>

theorem session_access_exact:
  assumes "token_contract E" "scrypt_contract E"
    and "distinct (map us_id (partnerUsers s0))"
    and "loginDashboardUser E t0 email password s0 = (Inr v, s1)"
  shows "\<exists>sid. \<forall>evs s now required w r w' s'.
           access_run E s1 evs s \<longrightarrow> authenticatePartnerAccessToken E now (lg_accessToken v) required w s = (r, w', s') \<longrightarrow>
           (let uid = dv_id (lg_user v) in
            \<exists>u. List.find (\<lambda>u. us_id u = uid) (partnerUsers s) = Some u \<and>
              ((\<exists>p. r = Inr p) \<longleftrightarrow>
                 now < t0 + PARTNER_DASHBOARD_SESSION_TTL_MS (cfg E) \<and> Session_ended sid uid \<notin> set evs \<and>
                 User_deactivated uid \<notin> set evs \<and> partner_active s (us_partnerId u) \<and>
                 set required \<subseteq> set (us_scopes u)) \<and>
              (\<forall>p. r = Inr p \<longrightarrow> ap_partnerUserId p = Some uid \<and> ap_dashboardSessionId p = Some sid \<and>
                 ap_partnerUserRole p = Some (us_role u) \<and> ap_scopes p = us_scopes u))"
proof -
  obtain d u where u: "u \<in> set (partnerUsers s0)" "user_active u" "dv_id (lg_user v) = us_id u"
    and d: "dashboardSessions s1 = dashboardSessions s0 @ [d]"
      "List.find (\<lambda>x. se_keyPrefix x = se_keyPrefix d) (dashboardSessions s0) = None"
      "session_row E t0 u (lg_accessToken v) d"
    and us: "partnerUsers s1 = update_where (\<lambda>x. us_id x = us_id u) (logged_in t0) (partnerUsers s0)"
    by (cases rule: login_cases [OF assms(4)]) (use assms(1,2) in auto)
  have find_d: "List.find (\<lambda>x. se_keyPrefix x = se_keyPrefix d) (dashboardSessions s1) = Some d"
    using d(1,2) by (simp add: find_append)
  have "List.find (\<lambda>x. us_id x = us_id u) (partnerUsers s0) = Some u"
    by (rule find_unique [OF u(1)]) (use assms(3) u(1) in \<open>auto simp: distinct_map inj_on_def\<close>)
  then have find_u: "List.find (\<lambda>x. us_id x = us_id u) (partnerUsers s1) = Some (logged_in t0 u)"
    unfolding us by (rule find_update_where_same) (simp add: logged_in_def)
  have "user_active (logged_in t0 u)" using u(2) by (simp add: logged_in_def user_active_def)
  note lives = session_lives [OF d(3) find_d find_u this, unfolded session_serves_def]
  show ?thesis
    unfolding Let_def u(3) by (intro exI [of _ "se_id d"] allI impI) (erule (1) lives [rule_format])
qed

section \<open>What passes the guard\<close>

text \<open>Scopes as they are stored: of a credential some known ones, of a user those of the role.\<close>

definition credential_scopes_ok :: "PartnerApiCredential \<Rightarrow> bool" where
  "credential_scopes_ok c \<longleftrightarrow>
     cr_scopes c \<noteq> [] \<and> set (cr_scopes c) \<subseteq> set credentialScopes \<and> distinct (cr_scopes c)"

definition user_scopes_ok :: "PartnerUser \<Rightarrow> bool" where
  "user_scopes_ok u \<longleftrightarrow> us_scopes u = getPartnerUserScopes (us_role u)"

definition invite_scopes_ok :: "PartnerUserInvite \<Rightarrow> bool" where
  "invite_scopes_ok i \<longleftrightarrow> iv_scopes i = getPartnerUserScopes (iv_role i)"

definition scopes_ok :: "db \<Rightarrow> bool" where
  "scopes_ok s \<longleftrightarrow>
     list_all credential_scopes_ok (apiCredentials s) \<and> list_all user_scopes_ok (partnerUsers s) \<and>
     list_all invite_scopes_ok (userInvites s)"

lemma scopes_ok_tables: "scopes_ok s \<Longrightarrow> access_tables s' = access_tables s \<Longrightarrow> scopes_ok s'"
  by (simp add: scopes_ok_def)

lemma list_all_update_where:
  "list_all Q rows \<Longrightarrow> (\<And>r. Q r \<Longrightarrow> Q (f r)) \<Longrightarrow> list_all Q (update_where P f rows)"
  by (induction rows) simp_all

lemma user_update_scopes:
  "user_scopes_ok u \<Longrightarrow> user_scopes_ok (user_update n q u)"
  by (simp add: user_scopes_ok_def user_update_def Let_def split: option.splits)

lemma scopes_ok_step:
  assumes "access_step E s ev s'" and ok: "scopes_ok s"
  shows "scopes_ok s'"
  using assms(1)
proof cases
  case (issue now partner label scopes actor r)
  show ?thesis
  proof (cases rule: issue_cases [OF issue(2)])
    case (2 v c)
    then have "credential_scopes_ok c" by (simp add: credential_scopes_ok_def)
    with ok 2(3) show ?thesis by (simp add: scopes_ok_def)
  qed (rule scopes_ok_tables [OF ok])
next
  case (revoke now p i v)
  show ?thesis
    by (cases rule: revoke_credential_cases [OF revoke(2)])
       (use ok in \<open>auto simp: scopes_ok_def credential_scopes_ok_def revoke_credential_def intro!: list_all_update_where\<close>)
next
  case (login now email password r)
  show ?thesis
    by (cases rule: login_cases [OF login(2)])
       (use ok in \<open>auto simp: scopes_ok_def user_scopes_ok_def logged_in_def intro!: list_all_update_where\<close>)
next
  case (logout now p i u)
  show ?thesis
    by (cases rule: logout_cases [OF logout(2)]) (use ok in \<open>simp_all add: scopes_ok_def\<close>)
next
  case (authenticate now secret required w r w')
  show ?thesis
    by (cases rule: authenticate_cases [OF authenticate(2)])
       (use ok in \<open>auto simp: scopes_ok_def credential_scopes_ok_def intro!: list_all_update_where\<close>)
next
  case (create_user now cdto r)
  show ?thesis
    by (cases rule: create_user_cases [OF create_user(2)]) (use ok in \<open>simp_all add: scopes_ok_def user_scopes_ok_def\<close>)
next
  case (update_user now p i udto r)
  show ?thesis
    by (cases rule: update_user_cases [OF update_user(2)])
       (use ok in \<open>auto simp: scopes_ok_def user_update_scopes intro!: list_all_update_where\<close>)
next
  case (deactivate now p i v)
  show ?thesis
    by (cases rule: deactivate_cases [OF deactivate(2)])
       (use ok in \<open>auto simp: scopes_ok_def user_scopes_ok_def deactivate_user_def intro!: list_all_update_where\<close>)
next
  case (invite now p idto r)
  show ?thesis
    by (cases rule: invite_cases [OF invite(2)]) (use ok in \<open>simp_all add: scopes_ok_def invite_scopes_ok_def\<close>)
next
  case (accept now token fullName password r)
  show ?thesis
  proof (cases rule: invitation_cases [OF accept(2)])
    case (2 v i p u d)
    have "i \<in> set (userInvites s)"
      using 2(4) by (auto simp: find_invite_def split: option.splits dest: find_SomeD)
    then have "user_scopes_ok u"
      using ok 2(9,10) by (simp add: scopes_ok_def user_scopes_ok_def invite_scopes_ok_def list_all_iff)
    then show ?thesis
      using ok 2(12) by (auto simp: scopes_ok_def invite_scopes_ok_def accept_invite_def intro!: list_all_update_where)
  qed (rule scopes_ok_tables [OF ok])
next
  case other
  then show ?thesis by (intro scopes_ok_tables [OF ok])
qed

lemma scopes_ok_run: "access_run E s evs s' \<Longrightarrow> scopes_ok s \<Longrightarrow> scopes_ok s'"
  by (induction rule: access_run.induct) (auto intro: scopes_ok_step)

lemma scopes_ok_empty: "scopes_ok empty_db"
  by (simp add: scopes_ok_def empty_db_def)

text \<open>The conditions of an access policy, an absent one holding of everybody.\<close>

definition allowed_by :: "AuthenticatedPartner \<Rightarrow> PartnerAccessPolicyDefinition \<Rightarrow> bool" where
  "allowed_by p policy \<longleftrightarrow>
     (\<forall>types. po_actorTypes policy = Some types \<longrightarrow> ap_actorType p \<in> set types) \<and>
     (\<forall>fs. po_anyCapabilities policy = Some fs \<longrightarrow> (\<exists>f \<in> set fs. capability_flag (ap_partnerCapabilities p) f)) \<and>
     (\<forall>fs. po_allCapabilities policy = Some fs \<longrightarrow> (\<forall>f \<in> set fs. capability_flag (ap_partnerCapabilities p) f)) \<and>
     (\<forall>es. po_anyPlanEntitlements policy = Some es \<longrightarrow> (\<exists>e \<in> set es. entitlement_flag (ap_partnerPlanEntitlements p) e)) \<and>
     (\<forall>es. po_allPlanEntitlements policy = Some es \<longrightarrow> (\<forall>e \<in> set es. entitlement_flag (ap_partnerPlanEntitlements p) e)) \<and>
     (\<forall>m. po_minOnboardingStage policy = Some m \<longrightarrow>
        getOnboardingStageRank m \<le> getOnboardingStageRank (ap_partnerOnboardingStage p)) \<and>
     (\<forall>roles. po_partnerUserRoles policy = Some roles \<longrightarrow> ap_actorType p = PARTNER_USER \<longrightarrow>
        (\<exists>role \<in> set roles. ap_partnerUserRole p = Some role)) \<and>
     (po_requireOperationalEnvironment policy \<longrightarrow>
        cap_sandboxEnabled (ap_partnerCapabilities p) \<or> cap_productionEnabled (ap_partnerCapabilities p))"

lemma given_iff: "given P v \<longleftrightarrow> (\<exists>x. v = Some x \<and> P x)"
  by (cases v) (simp_all add: given_def)

lemma check_policy_iff: "check_policy p policy = Inr () \<longleftrightarrow> allowed_by p policy"
  by (auto simp: check_policy_def allowed_by_def given_iff Let_def list_ex_iff list_all_iff not_less
      split: option.splits)

lemma assertPolicies_iff: "assertPartnerAccessPolicy p policies = Inr () \<longleftrightarrow> (\<forall>policy \<in> set policies. allowed_by p policy)"
  by (induction policies) (auto simp: check_policy_iff [symmetric] split: sum.splits)

text \<open>The shape of an authenticated partner: a credential or a user, never a mixture.\<close>

definition well_formed_actor :: "AuthenticatedPartner \<Rightarrow> bool" where
  "well_formed_actor p \<longleftrightarrow>
     (case ap_actorType p of
        API_CREDENTIAL \<Rightarrow>
          ap_credentialId p = Some (ap_actorIdentifier p) \<and> ap_dashboardSessionId p = None \<and>
          ap_partnerUserId p = None \<and> ap_partnerUserEmail p = None \<and> ap_partnerUserRole p = None \<and>
          set (ap_scopes p) \<subseteq> set credentialScopes \<and> distinct (ap_scopes p) \<and> ap_scopes p \<noteq> []
      | PARTNER_USER \<Rightarrow>
          ap_credentialId p = None \<and> ap_dashboardSessionId p \<noteq> None \<and> ap_partnerUserId p \<noteq> None \<and>
          ap_partnerUserEmail p = Some (ap_actorIdentifier p) \<and>
          (\<exists>role. ap_partnerUserRole p = Some role \<and> ap_scopes p = getPartnerUserScopes role))"

definition of_partner :: "AuthenticatedPartner \<Rightarrow> Partner \<Rightarrow> bool" where
  "of_partner p q \<longleftrightarrow>
     ap_partnerId p = pa_id q \<and> ap_partnerSlug p = pa_slug q \<and> ap_partnerStatus p = pa_status q \<and>
     ap_partnerPricingPlan p = pa_pricingPlan q \<and> ap_partnerOnboardingStage p = pa_onboardingStage q \<and>
     ap_partnerFeedHealthStatus p = pa_feedHealthStatus q \<and>
     ap_partnerCapabilities p = AuthenticatedPartnerCapabilities.truncate (buildPartnerCapabilities q) \<and>
     ap_partnerPlanEntitlements p = pp_entitlements (partnerPricingPlanCatalog (pa_pricingPlan q))"

lemma partner_rowD: "partner_row s i = Some q \<Longrightarrow> pa_id q = i"
  by (auto simp: partner_row_def dest: find_SomeD)

lemma authenticated_shape:
  assumes ok: "scopes_ok s" and auth: "authenticatePartnerAccessToken E now secret required w s = (Inr p, w', s')"
  shows "well_formed_actor p \<and> set required \<subseteq> set (ap_scopes p) \<and>
    (\<exists>q. partner_row s (ap_partnerId p) = Some q \<and> pa_status q = PartnerStatus_ACTIVE \<and> of_partner p q)"
proof (cases "extractDashboardSessionPrefix secret = None")
  case True
  then have a: "authenticateApiCredential E now secret required w s = (Inr p, w', s')"
    using auth by (simp add: authenticatePartnerAccessToken_def)
  then obtain k c q where k: "find_credential s k = Some (c, q)" "credential_accepted E secret c q"
    "missing_scopes required (cr_scopes c) = []" "p = credential_partner c q"
    by (auto simp: authenticateApiCredential_def Let_def split: if_splits option.splits)
  then have c: "c \<in> set (apiCredentials s)" "partner_row s (cr_partnerId c) = Some q"
    by (auto simp: find_credential_def split: option.splits dest: find_SomeD)
  then have "credential_scopes_ok c" using ok by (simp add: scopes_ok_def list_all_iff)
  with k c show ?thesis
    by (simp add: credential_partner_def well_formed_actor_def credential_scopes_ok_def of_partner_def partner_rowD
        credential_accepted_def getPartnerPricingPlanDefinition_def)
next
  case False
  then have a: "authenticateDashboardSession E now secret required w s = (Inr p, w', s')"
    using auth by (simp add: authenticatePartnerAccessToken_def)
  then obtain k d u q where k: "find_session s k = Some (d, u, q)" "session_accepted E now secret d u q"
    "missing_scopes required (us_scopes u) = []" "p = session_partner d u q"
    by (auto simp: authenticateDashboardSession_def Let_def split: if_splits option.splits)
  then have u: "u \<in> set (partnerUsers s)" "partner_row s (us_partnerId u) = Some q"
    by (auto simp: find_session_def split: option.splits dest: find_SomeD)
  then have "user_scopes_ok u" using ok by (simp add: scopes_ok_def list_all_iff)
  with k u show ?thesis
    by (simp add: session_partner_def well_formed_actor_def user_scopes_ok_def of_partner_def partner_rowD
        session_accepted_def getPartnerPricingPlanDefinition_def)
qed

text \<open>C7: a request passes the guard only as a well-formed actor that may do what the endpoint asks.
  In every state the service reaches from an empty database, the partner attached to a request is either
  a credential with some of the known scopes or a dashboard user with exactly the scopes of their role,
  belongs to an active partner whose plan, stage and capabilities it carries, holds every required scope
  and meets every condition of every policy declared for the endpoint.\<close>

theorem guard_admits_only_allowed:
  assumes "access_run E empty_db evs s"
    and "partner_canActivate E now authorizationHeader requiredScopes policies w s = (Inr p, w', s')"
  shows "well_formed_actor p \<and> set (or_else requiredScopes []) \<subseteq> set (ap_scopes p) \<and>
    (\<exists>q. partner_row s (ap_partnerId p) = Some q \<and> pa_status q = PartnerStatus_ACTIVE \<and> of_partner p q) \<and>
    (\<forall>policy \<in> set policies. allowed_by p policy)"
proof -
  obtain secret where a: "authenticatePartnerAccessToken E now secret (or_else requiredScopes []) w s = (Inr p, w', s')"
      "assertPartnerAccessPolicy p policies = Inr ()"
    using assms(2) by (auto simp: partner_canActivate_def split: option.splits sum.splits prod.splits)
  have "scopes_ok s" by (rule scopes_ok_run [OF assms(1) scopes_ok_empty])
  from authenticated_shape [OF this a(1)] a(2) show ?thesis by (simp add: assertPolicies_iff)
qed

section \<open>Invitations\<close>

lemma accepted_token_refused:
  assumes "extract_prefix partnerUserInvitePrefix token = Some (iv_keyPrefix i)" "find_invite s0 (iv_keyPrefix i) = Some (i, p)"
    and "userInvites s1 = update_where (\<lambda>x. iv_id x = iv_id i) (accept_invite t0) (userInvites s0)"
    and "access_run E s1 evs s" "acceptPartnerUserInvite E now token fullName password s = (r, s')"
  shows "r = Inl (Unauthorized ''Invalid partner invite.'') \<and> s' = s"
proof -
  have find0: "List.find (\<lambda>x. iv_keyPrefix x = iv_keyPrefix i) (userInvites s0) = Some i"
    using assms(2) by (auto simp: find_invite_def split: option.splits)
  have "evolves (\<lambda>x y. iv_keyPrefix y = iv_keyPrefix x \<and> (iv_id x = iv_id i \<longrightarrow> iv_status y = PartnerUserInviteStatus_ACCEPTED))
      (userInvites s0) (userInvites s1)"
    unfolding assms(3) by (rule evolves_update) (auto simp: accept_invite_def)
  from evolves_find [OF this find0] obtain i1 where
    "List.find (\<lambda>x. iv_keyPrefix x = iv_keyPrefix i) (userInvites s1) = Some i1"
    "iv_status i1 = PartnerUserInviteStatus_ACCEPTED" by auto
  from run_invite [OF assms(4) this(1)] this(2) obtain i2 where i2:
    "List.find (\<lambda>x. iv_keyPrefix x = iv_keyPrefix i) (userInvites s) = Some i2"
    "iv_status i2 \<noteq> PartnerUserInviteStatus_PENDING" by auto
  then show ?thesis
    using assms(5,1)
    by (auto simp: acceptPartnerUserInvite_def extractPartnerUserInvitePrefix_def find_invite_def invite_accepted_def
        invite_open_def Let_def split: if_splits option.splits)
qed

text \<open>C8: an invitation makes exactly one user, and signs it in once.  The user an acceptance creates is new, active,
  and has the email, the role, the scopes and the partner of an open invitation whose secret the token is.  With it one
  session is created, for that user: after any run of operations that follows, presenting the token of the answer
  authenticates as that user exactly while the session's lifetime is not over, it was not logged out, the user not
  deactivated, the partner active and every required scope one of the user's.  And whatever happens afterwards, the
  token of the invitation is refused.  (The ids of users are distinct, as the primary key of their table.)\<close>

theorem invitation_used_once:
  assumes "token_contract E" "scrypt_contract E" and "distinct (map us_id (partnerUsers s1))"
    and "acceptPartnerUserInvite E t0 token fullName password s0 = (Inr v, s1)"
    and "access_run E s1 evs s"
    and "acceptPartnerUserInvite E now token fullName' password' s = (r, s')"
  shows "(\<exists>i \<in> set (userInvites s0). invite_open t0 i \<and> verifySecret E token (iv_secretHash i) \<and>
            partner_active s0 (iv_partnerId i) \<and> find_user s0 (iv_email i) = None \<and>
            (\<exists>u d. partnerUsers s1 = partnerUsers s0 @ [u] \<and> ak_user v = user_view u \<and> user_active u \<and>
               us_email u = iv_email i \<and> us_partnerId u = iv_partnerId i \<and> us_role u = iv_role i \<and>
               us_scopes u = iv_scopes i \<and>
               dashboardSessions s1 = dashboardSessions s0 @ [d] \<and> se_partnerUserId d = us_id u \<and>
               session_serves E s evs (ak_accessToken v) (t0 + PARTNER_DASHBOARD_SESSION_TTL_MS (cfg E)) (se_id d) (us_id u))) \<and>
         r = Inl (Unauthorized ''Invalid partner invite.'') \<and> s' = s"
proof -
  obtain i p u d where i: "ak_user v = user_view u" "extract_prefix partnerUserInvitePrefix token = Some (iv_keyPrefix i)"
      "find_invite s0 (iv_keyPrefix i) = Some (i, p)" "invite_accepted E t0 token i p" "find_user s0 (iv_email i) = None"
      "us_partnerId u = iv_partnerId i" "us_email u = iv_email i" "us_role u = iv_role i" "us_scopes u = iv_scopes i"
      "user_active u" "partnerUsers s1 = partnerUsers s0 @ [u]"
      "userInvites s1 = update_where (\<lambda>x. iv_id x = iv_id i) (accept_invite t0) (userInvites s0)"
    and d: "dashboardSessions s1 = dashboardSessions s0 @ [d]"
      "List.find (\<lambda>x. se_keyPrefix x = se_keyPrefix d) (dashboardSessions s0) = None"
      "session_row E t0 u (ak_accessToken v) d"
    using assms(4)
  proof (cases rule: invitation_cases)
    case (2 v' i p u d)
    from 2(14) [OF assms(1,2)] 2(1) have "session_row E t0 u (ak_accessToken v) d" by simp
    from 2(1-13) this show ?thesis by (intro that [of u i p d]) simp_all
  qed simp
  have find_d: "List.find (\<lambda>x. se_keyPrefix x = se_keyPrefix d) (dashboardSessions s1) = Some d"
    using d(1,2) by (simp add: find_append)
  have find_u: "List.find (\<lambda>x. us_id x = us_id u) (partnerUsers s1) = Some u"
  proof -
    have "us_id u \<notin> us_id ` set (partnerUsers s0)" using assms(3) by (simp add: i(11))
    then have "List.find (\<lambda>x. us_id x = us_id u) (partnerUsers s0) = None"
      unfolding find_None_iff by (metis imageI)
    then show ?thesis by (simp add: i(11) find_append)
  qed
  have serves: "session_serves E s evs (ak_accessToken v) (t0 + PARTNER_DASHBOARD_SESSION_TTL_MS (cfg E)) (se_id d) (us_id u)"
    by (rule session_lives [OF d(3) find_d find_u i(10) assms(5)])
  have owner: "se_partnerUserId d = us_id u" using d(3) by (simp add: session_row_def)
  have find0: "List.find (\<lambda>x. iv_keyPrefix x = iv_keyPrefix i) (userInvites s0) = Some i"
    and row: "partner_row s0 (iv_partnerId i) = Some p"
    using i(3) by (auto simp: find_invite_def split: option.splits)
  have "r = Inl (Unauthorized ''Invalid partner invite.'') \<and> s' = s"
    by (rule accepted_token_refused [OF i(2,3,12) assms(5,6)])
  then show ?thesis
    using i find_SomeD [OF find0] row d(1) owner serves
    by (auto simp: invite_accepted_def verifyPartnerUserInviteToken_def partner_active_def)
qed

section \<open>Concrete runs\<close>

lemma show_nat_chars: "c \<in> set (show_nat n) \<Longrightarrow> 48 \<le> (of_char c :: nat) \<and> (of_char c :: nat) \<le> 57"
proof (induction n rule: show_nat.induct)
  case (1 n)
  show ?case
  proof (cases "n < 10")
    case True
    then show ?thesis using "1.prems" by (simp add: show_nat.simps [of n] of_char_char_of_nat)
  next
    case False
    have "n mod 10 < 10" by simp
    then have "(of_char (char_of (48 + n mod 10) :: char) :: nat) = 48 + n mod 10"
      by (intro of_char_char_of_nat) linarith
    with False "1.prems" "1.IH" \<open>n mod 10 < 10\<close> show ?thesis by (auto simp: show_nat.simps [of n])
  qed
qed

lemma demo_token_contract: "token_contract demo_env"
  by (auto simp: token_contract_def demo_env_def dest: show_nat_chars)

definition acme :: Partner where
  "acme = new_partner 0 ''p'' ''acme''
     \<lparr>cp_slug = ''acme'', cp_displayName = ''Acme'', cp_partnerType = PartnerType_WALLET, cp_pricingPlan = None\<rparr>"

definition acme_owner :: PartnerUser where
  "acme_owner = new_user 0 ''u'' ''p'' ''o@x.io'' ''Olive'' PartnerUserRole_OWNER ownerDashboardScopes
     (hashSecret demo_env 0 ''correct horse'') None"

definition acme_invite :: PartnerUserInvite where
  "acme_invite = \<lparr>iv_id = ''i'', iv_partnerId = ''p'', iv_email = ''d@x.io'', iv_fullName = None,
     iv_role = PartnerUserRole_DEVELOPER, iv_scopes = developerDashboardScopes, iv_keyPrefix = ''vdi_a'',
     iv_secretHash = hashSecret demo_env 0 ''vdi_a.b'', iv_status = PartnerUserInviteStatus_PENDING,
     iv_createdByUserId = None, iv_expiresAt = 100, iv_acceptedAt = None, iv_revokedAt = None, iv_createdAt = 0\<rparr>"

definition acme_db :: db where
  "acme_db = empty_db\<lparr>partners := [acme], nextId := 1\<rparr>"

definition acme_team_db :: db where
  "acme_team_db = acme_db\<lparr>partnerUsers := [acme_owner], userInvites := [acme_invite]\<rparr>"

lemma acme_simps [simp]:
  "pa_id acme = ''p''" "pa_status acme = PartnerStatus_ACTIVE"
  "partners acme_db = [acme]" "apiCredentials acme_db = []" "nextId acme_db = 1"
  "dashboardSessions acme_db = []" "partnerUsers acme_db = []" "userInvites acme_db = []"
  "partners acme_team_db = [acme]" "dashboardSessions acme_team_db = []" "nextId acme_team_db = 1"
  "partnerUsers acme_team_db = [acme_owner]" "userInvites acme_team_db = [acme_invite]"
  by (simp_all add: acme_def new_partner_def acme_db_def acme_team_db_def empty_db_def)

lemma default_scopes: "normalizeCredentialScopes defaultCredentialScopes = [''attestations:write'']"
  by code_simp

lemma demo_random [simp]: "randomBase64url demo_env n b = ''r'' @ show_nat n"
  by (simp add: demo_env_def)

lemma show_nat_samples:
  "show_nat 1 = ''1''" "show_nat 2 = ''2''" "show_nat (Suc 0) = ''1''" "show_nat (Suc (Suc 0)) = ''2''"
  by code_simp+

text \<open>Acme's first credential.\<close>

lemma acme_issue:
  obtains v s1 where "issueApiCredentialForPartner demo_env 5 acme ''key'' None admin_context acme_db = (Inr v, s1)"
    "ci_secret v = ''vpk_r1.r2''" "cv_scopes (ci_credential v) = [''attestations:write'']" "partners s1 = [acme]"
proof -
  have "js_trim ''key'' = ''key''" by code_simp
  then show ?thesis
    using that
    by (simp add: issueApiCredentialForPartner_def default_scopes numeral_eq_Suc generateApiCredential_def
        generate_token_def insert_credential_def fresh_def Let_def credentialSecretPrefix_def credential_view_def
        show_nat_samples)
qed

lemma acme_active: "partners s = [acme] \<Longrightarrow> partner_active s ''p''"
  by (simp add: partner_active_def partner_row_def)

theorem credential_access_exact_witness:
  "\<exists>v s1. issueApiCredentialForPartner demo_env 5 acme ''key'' None admin_context acme_db = (Inr v, s1) \<and>
     (\<exists>p. fst (authenticatePartnerAccessToken demo_env 6 (ci_secret v) [''attestations:write''] no_writes s1) = Inr p) \<and>
     \<not> (\<exists>p. fst (authenticatePartnerAccessToken demo_env 6 (ci_secret v) [''team:write''] no_writes s1) = Inr p)"
proof -
  obtain v s1 where v: "issueApiCredentialForPartner demo_env 5 acme ''key'' None admin_context acme_db = (Inr v, s1)"
    "cv_scopes (ci_credential v) = [''attestations:write'']" "partners s1 = [acme]" by (rule acme_issue)
  have x: "(\<exists>p. fst (authenticatePartnerAccessToken demo_env 6 (ci_secret v) req no_writes s1) = Inr p) \<longleftrightarrow>
      set req \<subseteq> {''attestations:write''}" for req
    using credential_access_exact [OF demo_token_contract demo_scrypt_contract v(1) access_run.stop,
        of 6 req no_writes "fst (authenticatePartnerAccessToken demo_env 6 (ci_secret v) req no_writes s1)"
        "fst (snd (authenticatePartnerAccessToken demo_env 6 (ci_secret v) req no_writes s1))"
        "snd (snd (authenticatePartnerAccessToken demo_env 6 (ci_secret v) req no_writes s1))"]
      acme_active [OF v(3)] v(2) by simp
  from x [of "[''attestations:write'']"] x [of "[''team:write'']"] v(1) show ?thesis by auto
qed

lemma acme_login:
  obtains v s1 where "loginDashboardUser demo_env 5 '' O@x.io'' ''correct horse'' acme_team_db = (Inr v, s1)"
    "partners s1 = [acme]" "dv_id (lg_user v) = ''u''"
    "partnerUsers s1 = [logged_in 5 acme_owner]"
proof -
  have "normalizeUserEmail '' O@x.io'' = Inr ''o@x.io''" by code_simp
  moreover have "verifySecret demo_env ''correct horse'' (us_passwordHash acme_owner)"
    by (simp add: acme_owner_def new_user_def verify_own_secret demo_scrypt_contract)
  moreover have "user_active acme_owner" "us_email acme_owner = ''o@x.io''" "us_partnerId acme_owner = ''p''"
    "us_id acme_owner = ''u''"
    by (simp_all add: acme_owner_def new_user_def user_active_def)
  ultimately show ?thesis
    using that
    by (simp add: loginDashboardUser_def partner_row_def createDashboardSessionForPartnerUser_def fresh_def
        generateDashboardSessionToken_def generate_token_def insert_session_def logged_in_def Let_def)
qed

theorem session_access_exact_witness:
  "\<exists>v s1. loginDashboardUser demo_env 5 '' O@x.io'' ''correct horse'' acme_team_db = (Inr v, s1) \<and>
     (\<exists>p. fst (authenticatePartnerAccessToken demo_env 6 (lg_accessToken v) [] no_writes s1) = Inr p) \<and>
     \<not> (\<exists>p. fst (authenticatePartnerAccessToken demo_env 43200005 (lg_accessToken v) [] no_writes s1) = Inr p)"
proof -
  obtain v s1 where v: "loginDashboardUser demo_env 5 '' O@x.io'' ''correct horse'' acme_team_db = (Inr v, s1)"
    "partners s1 = [acme]" "dv_id (lg_user v) = ''u''" "partnerUsers s1 = [logged_in 5 acme_owner]" by (rule acme_login)
  have u: "us_id (logged_in 5 acme_owner) = ''u''" "us_partnerId (logged_in 5 acme_owner) = ''p''"
    by (simp_all add: logged_in_def acme_owner_def new_user_def)
  have ttl: "PARTNER_DASHBOARD_SESSION_TTL_MS (cfg demo_env) = 43200000"
    by (simp add: demo_env_def demo_config_def)
  have "distinct (map us_id (partnerUsers acme_team_db))" by simp
  note exact = session_access_exact [OF demo_token_contract demo_scrypt_contract this v(1)]
  have x: "(\<exists>p. fst (authenticatePartnerAccessToken demo_env now (lg_accessToken v) [] no_writes s1) = Inr p) \<longleftrightarrow>
      now < 43200005" for now
    using exact
    apply (elim exE)
    apply (drule spec [of _ "[]"], drule spec [of _ s1], drule spec [of _ now], drule spec [of _ "[]"],
        drule spec [of _ no_writes],
        drule spec [of _ "fst (authenticatePartnerAccessToken demo_env now (lg_accessToken v) [] no_writes s1)"],
        drule spec [of _ "fst (snd (authenticatePartnerAccessToken demo_env now (lg_accessToken v) [] no_writes s1))"],
        drule spec [of _ "snd (snd (authenticatePartnerAccessToken demo_env now (lg_accessToken v) [] no_writes s1))"])
    apply (simp add: access_run.stop Let_def v(3,4) u ttl acme_active [OF v(2)])
    done
  from x [of 6] x [of 43200005] v(1) show ?thesis by auto
qed

theorem guard_admits_only_allowed_witness:
  "\<exists>v s1 p w s2. issueApiCredentialForPartner demo_env 5 acme ''key'' None admin_context acme_db = (Inr v, s1) \<and>
     partner_canActivate demo_env 6 (Some (''Bearer '' @ ci_secret v)) (Some [''attestations:write''])
        [no_policy\<lparr>po_anyCapabilities := Some [Flag_webhooksEnabled]\<rparr>] no_writes s1 = (Inr p, w, s2) \<and>
     well_formed_actor p \<and> capability_flag (ap_partnerCapabilities p) Flag_webhooksEnabled"
proof -
  obtain v s1 where v: "issueApiCredentialForPartner demo_env 5 acme ''key'' None admin_context acme_db = (Inr v, s1)"
    "ci_secret v = ''vpk_r1.r2''" "cv_scopes (ci_credential v) = [''attestations:write'']" "partners s1 = [acme]"
    by (rule acme_issue)
  have "access_step demo_env empty_db Quiet acme_db"
    by (rule access_step.other) (simp add: empty_db_def)
  then have run: "access_run demo_env empty_db [Quiet, Quiet] s1"
    by (rule access_run.step [OF _ access_run.step [OF access_step.issue [OF v(1)] access_run.stop]])
  obtain r w s2 where auth: "authenticatePartnerAccessToken demo_env 6 (ci_secret v) [''attestations:write''] no_writes s1 = (r, w, s2)"
    by (metis prod_cases3)
  obtain c where c: "apiCredentials s1 = [c]" "issued_row demo_env acme [''attestations:write''] v c"
    by (cases rule: issue_cases [OF v(1)])
       (use demo_token_contract demo_scrypt_contract default_scopes in auto)
  have tok: "token_of demo_env credentialSecretPrefix (ci_secret v) (cr_keyPrefix c) (cr_secretHash c)"
    using c(2) by (simp add: issued_row_def)
  have find: "List.find (\<lambda>x. cr_keyPrefix x = cr_keyPrefix c) (apiCredentials s1) = Some c" by (simp add: c(1))
  obtain p where p: "r = Inr p"
    using authenticate_credential(1) [OF tok find refl auth] c(2) acme_active [OF v(4)] by (auto simp: issued_row_def)
  have shape: "\<exists>q. partner_row s1 (ap_partnerId p) = Some q \<and> of_partner p q"
    using authenticated_shape [OF scopes_ok_run [OF run scopes_ok_empty]] auth p by blast
  then have "capability_flag (ap_partnerCapabilities p) Flag_webhooksEnabled"
    by (auto simp: partner_row_def v(4) of_partner_def AuthenticatedPartnerCapabilities.truncate_def
        buildPartnerCapabilities_def acme_def new_partner_def split: if_splits)
  then have pol: "assertPartnerAccessPolicy p [no_policy\<lparr>po_anyCapabilities := Some [Flag_webhooksEnabled]\<rparr>] = Inr ()"
    unfolding assertPolicies_iff by (simp add: allowed_by_def no_policy_def)
  have "bearer_token (Some (''Bearer '' @ ci_secret v)) = Some (ci_secret v)"
    unfolding v(2) by code_simp
  then have guard: "partner_canActivate demo_env 6 (Some (''Bearer '' @ ci_secret v)) (Some [''attestations:write''])
      [no_policy\<lparr>po_anyCapabilities := Some [Flag_webhooksEnabled]\<rparr>] no_writes s1 = (Inr p, w, s2)"
    using auth p pol by (simp add: partner_canActivate_def)
  from guard_admits_only_allowed [OF run guard] v(1) guard show ?thesis
    by (auto simp: allowed_by_def no_policy_def)
qed

lemma acme_accept:
  obtains v s1 where
    "acceptPartnerUserInvite demo_env 7 ''vdi_a.b'' '' Dev '' ''correct horse'' acme_team_db = (Inr v, s1)"
    "partners s1 = [acme]" "distinct (map us_id (partnerUsers s1))"
proof -
  have "extractPartnerUserInvitePrefix ''vdi_a.b'' = Some ''vdi_a''" "js_trim '' Dev '' = ''Dev''"
    "extractPartnerUserInvitePrefix ''vdi_a.b'' = Some ''vdi_a''"
    by code_simp+
  moreover have "iv_keyPrefix acme_invite = ''vdi_a''" "iv_partnerId acme_invite = ''p''" "iv_id acme_invite = ''i''"
    "iv_email acme_invite = ''d@x.io''" "us_email acme_owner = ''o@x.io''"
    by (simp_all add: acme_invite_def acme_owner_def new_user_def)
  moreover have "invite_accepted demo_env 7 ''vdi_a.b'' acme_invite acme"
    by (simp add: invite_accepted_def invite_open_def acme_invite_def verifyPartnerUserInviteToken_def verify_own_secret
        demo_scrypt_contract)
  moreover have "us_id acme_owner \<noteq> cuid demo_env n" for n
    by (simp add: demo_env_def acme_owner_def new_user_def)
  ultimately show ?thesis
    using that
    by (simp add: acceptPartnerUserInvite_def find_invite_def partner_row_def find_user_def falsy_def
        assertValidDashboardPassword_def accept_transaction_def generateDashboardSessionToken_def generate_token_def
        insert_session_def update_invite_def new_user_def fresh_def Let_def)
qed

theorem invitation_used_once_witness:
  "\<exists>v s1 r. acceptPartnerUserInvite demo_env 7 ''vdi_a.b'' '' Dev '' ''correct horse'' acme_team_db = (Inr v, s1) \<and>
     uv_role (ak_user v) = PartnerUserRole_DEVELOPER \<and>
     (\<exists>p. fst (authenticatePartnerAccessToken demo_env 8 (ak_accessToken v) [] no_writes s1) = Inr p \<and>
       ap_partnerUserRole p = Some PartnerUserRole_DEVELOPER) \<and>
     acceptPartnerUserInvite demo_env 8 ''vdi_a.b'' '' Eve '' ''battery staple'' s1 = (Inl r, s1)"
proof -
  obtain v s1 where v: "acceptPartnerUserInvite demo_env 7 ''vdi_a.b'' '' Dev '' ''correct horse'' acme_team_db = (Inr v, s1)"
    "partners s1 = [acme]" "distinct (map us_id (partnerUsers s1))" by (rule acme_accept)
  obtain r s2 where r: "acceptPartnerUserInvite demo_env 8 ''vdi_a.b'' '' Eve '' ''battery staple'' s1 = (r, s2)" by fastforce
  note once = invitation_used_once [OF demo_token_contract demo_scrypt_contract v(3,1) access_run.stop r]
  from once obtain i and u :: PartnerUser and d :: DashboardSession where "i \<in> set (userInvites acme_team_db)"
    and u: "partnerUsers s1 = partnerUsers acme_team_db @ [u]" "ak_user v = user_view u"
      "us_partnerId u = iv_partnerId i" "us_role u = iv_role i"
    and serves: "session_serves demo_env s1 [] (ak_accessToken v) (7 + PARTNER_DASHBOARD_SESSION_TTL_MS (cfg demo_env))
      (se_id d) (us_id u)"
    by (elim conjE bexE exE) (rule that; assumption)
  then have i: "iv_partnerId i = ''p''" "iv_role i = PartnerUserRole_DEVELOPER" by (simp_all add: acme_invite_def)
  have found: "List.find (\<lambda>x. us_id x = us_id u) (partnerUsers s1) = Some u"
    by (rule find_unique) (use v(3) in \<open>auto simp: u(1) distinct_map inj_on_def\<close>)
  have ttl: "PARTNER_DASHBOARD_SESSION_TTL_MS (cfg demo_env) = 43200000" by (simp add: demo_env_def demo_config_def)
  obtain q w t where q: "authenticatePartnerAccessToken demo_env 8 (ak_accessToken v) [] no_writes s1 = (q, w, t)"
    by (metis prod_cases3)
  from serves [unfolded session_serves_def, rule_format, OF q] found
  have "\<exists>p. q = Inr p \<and> ap_partnerUserRole p = Some PartnerUserRole_DEVELOPER"
    using acme_active [OF v(2)] by (auto simp: u(3,4) i ttl)
  with v(1) r u(2,4) i once q show ?thesis by (auto simp: user_view_def)
qed

end
