(* ===== verification/Partner_Billing.thy ===== *)
theory Partner_Billing
  imports Access_Tokens
begin

text \<open>
  The plan usage of a partner (\<open>getPartnerBillingUsage\<close> and \<open>buildPartnerBillingSummary\<close> of
  \<open>backend/src/partners/partners.service.ts\<close>): the lookups of the current month in UTC by kind, what
  the plan includes of them, the overage and the percentage used.  An amount in US dollars is a
  number of cents; below \<open>2 ^ 40\<close> lookups the rounding of \<open>toFixed(2)\<close> undoes the error of the
  multiplication by the price.  The percentage is a number of tenths, computed in the arithmetic of
  IEEE 754 double precision, because its rounding to one decimal depends on it.
\<close>

section \<open>Months\<close>

text \<open>The day number of a date, the inverse of \<open>civil_date\<close>; \<open>Date.UTC\<close> accepts month 13.\<close>

definition days_of_month_start :: "int \<Rightarrow> int \<Rightarrow> int" where
  "days_of_month_start year month =
     (let y0 = year + (month - 1) div 12;
          m = (month - 1) mod 12 + 1;
          y = (if m \<le> 2 then y0 - 1 else y0);
          era = y div 400;
          yoe = y mod 400;
          mp = (if m > 2 then m - 3 else m + 9);
          doy = (153 * mp + 2) div 5;
          doe = yoe * 365 + yoe div 4 - yoe div 100 + doy
      in era * 146097 + doe - 719468)"

definition getCurrentBillingPeriodBounds :: "time \<Rightarrow> time \<times> time" where
  "getCurrentBillingPeriodBounds now =
     (let (y, m, _) = civil_date (now div 86400000)
      in (days_of_month_start y m * 86400000, days_of_month_start y (m + 1) * 86400000))"

lemma billing_period_samples:
  "getCurrentBillingPeriodBounds 1767225600000 = (1767225600000, 1769904000000)"
  "getCurrentBillingPeriodBounds 1709251199999 = (1706745600000, 1709251200000)"
  "getCurrentBillingPeriodBounds 1767225599999 = (1764547200000, 1767225600000)"
  by code_simp+

section \<open>Usage\<close>

record PartnerBillingUsageSummary =
  bu_billingPeriodStart :: string
  bu_billingPeriodEnd :: string
  bu_verificationsUsed :: int
  bu_byRecipientVerifications :: int
  bu_byAddressVerifications :: int
  bu_verifyTransferVerifications :: int
  bu_batchVerifications :: int

text \<open>\<open>groupBy\<close> with a count: one entry for each value that occurs.\<close>

definition count_by :: "('a \<Rightarrow> 'k) \<Rightarrow> 'a list \<Rightarrow> ('k \<times> int) list" where
  "count_by f rows = map (\<lambda>k. (k, int (count_where (\<lambda>r. f r = k) rows))) (js_uniq (map f rows))"

definition usage_rows :: "ident \<Rightarrow> time \<Rightarrow> time \<Rightarrow> db \<Rightarrow> ResolutionRequest list" where
  "usage_rows partnerId periodStart periodEnd s =
     filter (\<lambda>r. rr_requesterPartnerId r = Some partnerId \<and> periodStart \<le> rr_requestedAt r \<and>
                 rr_requestedAt r < periodEnd) (resolutionRequests s)"

definition getPartnerBillingUsage :: "time \<Rightarrow> ident \<Rightarrow> db \<Rightarrow> PartnerBillingUsageSummary" where
  "getPartnerBillingUsage now partnerId s =
     (let (billingPeriodStart, billingPeriodEnd) = getCurrentBillingPeriodBounds now;
          usageByQueryType = count_by rr_queryType (usage_rows partnerId billingPeriodStart billingPeriodEnd s);
          get = (\<lambda>t. or_else (map_of usageByQueryType t) 0)
      in \<lparr>bu_billingPeriodStart = toISOString billingPeriodStart, bu_billingPeriodEnd = toISOString billingPeriodEnd,
          bu_verificationsUsed = foldl (\<lambda>total (t, n). total + n) 0 usageByQueryType,
          bu_byRecipientVerifications = get QueryType_RESOLVE,
          bu_byAddressVerifications = get QueryType_CONFIRM_ADDRESS,
          bu_verifyTransferVerifications = get QueryType_VERIFY_ADDRESS,
          bu_batchVerifications = get QueryType_BATCH_VERIFY\<rparr>)"

section \<open>Percentages in double precision\<close>

function bit_count :: "int \<Rightarrow> int" where
  "bit_count n = (if n \<le> 0 then 0 else 1 + bit_count (n div 2))"
  by pat_completeness auto
termination
  by (relation "measure nat") auto

declare bit_count.simps [simp del]

text \<open>\<open>a / b\<close> rounded to the nearest integer, ties to even.\<close>

definition round_div :: "int \<Rightarrow> int \<Rightarrow> int" where
  "round_div a b =
     (let q = a div b; r = a mod b in
      if 2 * r < b then q else if 2 * r > b then q + 1 else if q mod 2 = 0 then q else q + 1)"

text \<open>
  The double nearest to \<open>a / b\<close> for \<open>a \<ge> 0\<close> and \<open>b > 0\<close>, as a fraction: scaled so that its integer
  part has 53 bits, rounded, and scaled back.
\<close>

definition scaled :: "int \<Rightarrow> int \<Rightarrow> int \<Rightarrow> int \<times> int" where
  "scaled a b k = (if k \<ge> 0 then (a * 2 ^ nat k, b) else (a, b * 2 ^ nat (- k)))"

definition to_double :: "int \<times> int \<Rightarrow> int \<times> int" where
  "to_double = (\<lambda>(a, b).
     if a = 0 then (0, 1)
     else
       let k0 = 52 + bit_count b - bit_count a;
           (a0, b0) = scaled a b k0;
           k = (if a0 div b0 \<ge> 2 ^ 53 then k0 - 1 else if a0 div b0 < 2 ^ 52 then k0 + 1 else k0);
           (a1, b1) = scaled a b k;
           m = round_div a1 b1
       in if k \<ge> 0 then (m, 2 ^ nat k) else (m * 2 ^ nat (- k), 1))"

text \<open>\<open>toFixed(1)\<close> in tenths: the nearest tenth to the double, the larger one of two.\<close>

definition to_fixed_tenths :: "int \<times> int \<Rightarrow> int" where
  "to_fixed_tenths = (\<lambda>(a, b). (20 * a + b) div (2 * b))"

definition usage_tenths :: "int \<Rightarrow> int \<Rightarrow> int" where
  "usage_tenths used included =
     (let (a, b) = to_double (used, included) in to_fixed_tenths (to_double (a * 100, b)))"

lemma usage_tenths_samples:
  "usage_tenths 0 2000 = 0"
  "usage_tenths 1 2000 = 1"
  "usage_tenths 3 2000 = 1"
  "usage_tenths 5 2000 = 3"
  "usage_tenths 1000 2000 = 500"
  "usage_tenths 1999 2000 = 1000"
  "usage_tenths 2001 2000 = 1000"
  by code_simp+

section \<open>The summary\<close>

record PartnerBillingSummary =
  bs_code :: PartnerPricingPlan
  bs_plan :: PartnerPricingPlanDefinition
  bs_requirementStatus :: string
  bs_usage :: PartnerBillingUsageSummary
  bs_includedVerifications :: "int option"
  bs_remainingIncludedVerifications :: "int option"
  bs_overageVerifications :: int
  bs_projectedOverageUsd :: "int option"
  bs_usagePercent :: "int option"
  bs_verificationLimitExceeded :: bool

definition buildPartnerBillingSummary :: "Partner \<Rightarrow> PartnerBillingUsageSummary \<Rightarrow> PartnerBillingSummary" where
  "buildPartnerBillingSummary partner usage =
     (let pricingPlan = getPartnerPricingPlanDefinition (pa_pricingPlan partner);
          includedVerifications = pp_includedVerifications pricingPlan;
          used = bu_verificationsUsed usage;
          overageVerifications = (case includedVerifications of None \<Rightarrow> 0 | Some n \<Rightarrow> max (used - n) 0);
          ownAttestationContributionSatisfied =
            (\<not> pp_mustContributeOwnAttestationData pricingPlan \<or> pa_fullAttestationPartnerEnabled partner \<or>
             pa_dataPartnerEnabled partner)
      in \<lparr>bs_code = pa_pricingPlan partner, bs_plan = pricingPlan,
          bs_requirementStatus =
            (if pp_mustContributeOwnAttestationData pricingPlan
             then (if ownAttestationContributionSatisfied then ''SATISFIED'' else ''UNMET'')
             else ''NOT_APPLICABLE''),
          bs_usage = usage, bs_includedVerifications = includedVerifications,
          bs_remainingIncludedVerifications = map_option (\<lambda>n. max (n - used) 0) includedVerifications,
          bs_overageVerifications = overageVerifications,
          bs_projectedOverageUsd = map_option (\<lambda>price. overageVerifications * price) (pp_overagePriceUsd pricingPlan),
          bs_usagePercent =
            (case includedVerifications of
               None \<Rightarrow> None
             | Some n \<Rightarrow> (if n = 0 then None else Some (usage_tenths used n))),
          bs_verificationLimitExceeded = (case includedVerifications of None \<Rightarrow> False | Some n \<Rightarrow> used > n)\<rparr>)"

definition getPartnerPlanUsage :: "time \<Rightarrow> AuthenticatedPartner \<Rightarrow> db \<Rightarrow> PartnerBillingSummary result" where
  "getPartnerPlanUsage now p s =
     (case getPartnerByIdOrThrow (ap_partnerId p) s of
        Inl e \<Rightarrow> Inl e
      | Inr partner \<Rightarrow> Inr (buildPartnerBillingSummary partner (getPartnerBillingUsage now (ap_partnerId p) s)))"

end
