(* ===== verification/Production_Access.thy ===== *)
theory Production_Access
  imports Partner_Team Partner_Billing
begin

text \<open>
  Production access in \<open>backend/src/partners/partners.service.ts\<close>: the approval requests of a partner
  and their review, the production corridors granted and revoked, the state only the operator sets,
  and the profile that tells a partner where it stands.  A corridor is an asset network with its asset and
  chain.
\<close>

section \<open>Corridors\<close>

definition corridor_of :: "db \<Rightarrow> ident \<Rightarrow> corridor option" where
  "corridor_of s assetNetworkId =
     Option.bind (List.find (\<lambda>n. an_id n = assetNetworkId) (assetNetworks s)) (network_of s)"

definition corridor_active :: "corridor \<Rightarrow> bool" where
  "corridor_active = (\<lambda>(n, a, c). an_isActive n \<and> ch_isActive c \<and> as_isActive a)"

definition active_corridors :: "db \<Rightarrow> corridor list" where
  "active_corridors s = filter corridor_active (List.map_filter (network_of s) (assetNetworks s))"

definition corridor_id :: "corridor \<Rightarrow> ident" where
  "corridor_id c = an_id (fst c)"

definition corridor_sort_key :: "env \<Rightarrow> corridor \<Rightarrow> nat list \<times> nat list" where
  "corridor_sort_key E = (\<lambda>(n, a, c). (collation_key E (ch_displayName c), collation_key E (as_displayName a)))"

definition corridor_json :: "corridor \<Rightarrow> json" where
  "corridor_json = (\<lambda>(n, a, c). JObj [(''assetNetworkId'', JStr (an_id n)), (''chain'', JStr (ch_slug c)),
     (''asset'', JStr (as_symbol a))])"

definition listAdminAvailableProductionCorridors :: "env \<Rightarrow> db \<Rightarrow> corridor list" where
  "listAdminAvailableProductionCorridors E s = sort_key (corridor_sort_key E) (active_corridors s)"

definition listPartnerAvailableProductionCorridors ::
    "env \<Rightarrow> AuthenticatedPartner \<Rightarrow> db \<Rightarrow> corridor list result" where
  "listPartnerAvailableProductionCorridors E p s =
     (case getPartnerByIdOrThrow (ap_partnerId p) s of
        Inl e \<Rightarrow> Inl e
      | Inr _ \<Rightarrow> Inr (listAdminAvailableProductionCorridors E s))"

definition normalizeRequestedAssetNetworkIds :: "string list option \<Rightarrow> string list" where
  "normalizeRequestedAssetNetworkIds assetNetworkIds =
     (case assetNetworkIds of
        None \<Rightarrow> []
      | Some xs \<Rightarrow> js_uniq (filter (\<lambda>x. length x > 0) (map js_trim xs)))"

definition getActiveAssetNetworksByIds :: "string list \<Rightarrow> db \<Rightarrow> corridor list result" where
  "getActiveAssetNetworksByIds assetNetworkIds s =
     (let corridors = filter (\<lambda>c. List.member assetNetworkIds (corridor_id c)) (active_corridors s) in
      if length corridors \<noteq> length assetNetworkIds
      then Inl (BadRequest ''One or more requested production corridors are invalid or inactive.'')
      else Inr corridors)"

text \<open>A granted corridor with its asset network.\<close>

type_synonym granted_corridor = "PartnerProductionCorridor \<times> corridor"

definition with_corridor :: "db \<Rightarrow> PartnerProductionCorridor \<Rightarrow> granted_corridor option" where
  "with_corridor s r = map_option (Pair r) (corridor_of s (pc_assetNetworkId r))"

definition listGrantedProductionCorridors :: "env \<Rightarrow> ident \<Rightarrow> db \<Rightarrow> granted_corridor list" where
  "listGrantedProductionCorridors E partnerId s =
     sort_key (\<lambda>(r, c). corridor_sort_key E c)
       (List.map_filter (with_corridor s)
          (filter (\<lambda>r. pc_partnerId r = partnerId \<and> pc_status r = PartnerProductionCorridorStatus_GRANTED)
             (productionCorridors s)))"

definition listPartnerProductionCorridors :: "env \<Rightarrow> AuthenticatedPartner \<Rightarrow> db \<Rightarrow> granted_corridor list" where
  "listPartnerProductionCorridors E p s = listGrantedProductionCorridors E (ap_partnerId p) s"

definition listAdminPartnerProductionCorridors :: "env \<Rightarrow> ident \<Rightarrow> db \<Rightarrow> granted_corridor list result" where
  "listAdminPartnerProductionCorridors E partnerId s =
     (if length (js_trim partnerId) = 0 then Inl (BadRequest ''Partner identifier is required.'')
      else case getPartnerByIdOrThrow (js_trim partnerId) s of
        Inl e \<Rightarrow> Inl e
      | Inr _ \<Rightarrow> Inr (listGrantedProductionCorridors E (js_trim partnerId) s))"

section \<open>Where a partner stands\<close>

record PartnerOperationalCounts =
  oc_activeCredentialCount :: nat
  oc_activeSigningKeyCount :: nat
  oc_activeWebhookCount :: nat
  oc_activeRecipientCount :: nat
  oc_verifiedAttestationCount :: nat
  oc_resolutionRequestCount :: nat

definition getPartnerOperationalCounts :: "ident \<Rightarrow> db \<Rightarrow> PartnerOperationalCounts" where
  "getPartnerOperationalCounts partnerId s =
     \<lparr>oc_activeCredentialCount =
        count_where (\<lambda>c. cr_partnerId c = partnerId \<and> cr_revokedAt c = None \<and> cr_status c = PartnerStatus_ACTIVE)
          (apiCredentials s),
      oc_activeSigningKeyCount = activeSigningKeyCount partnerId s,
      oc_activeWebhookCount =
        count_where (\<lambda>e. ep_partnerId e = partnerId \<and>
            (ep_status e = WebhookStatus_ACTIVE \<or> ep_status e = WebhookStatus_PAUSED)) (webhookEndpoints s),
      oc_activeRecipientCount =
        count_where (\<lambda>r. rc_partnerId r = partnerId \<and> rc_status r = RecipientStatus_ACTIVE) (recipients s),
      oc_verifiedAttestationCount =
        count_where (\<lambda>a. at_partnerId a = partnerId \<and> at_verificationStatus a = VerificationStatus_VERIFIED)
          (attestations s),
      oc_resolutionRequestCount =
        count_where (\<lambda>r. rr_requesterPartnerId r = Some partnerId) (resolutionRequests s)\<rparr>"

definition getLatestProductionApprovalRequest :: "ident \<Rightarrow> db \<Rightarrow> PartnerProductionApprovalRequest option" where
  "getLatestProductionApprovalRequest partnerId s =
     List.find (\<lambda>r. True) (order_desc pr_requestedAt (filter (\<lambda>r. pr_partnerId r = partnerId) (approvalRequests s)))"

definition latest_is :: "ProductionApprovalRequestStatus \<Rightarrow> PartnerProductionApprovalRequest option \<Rightarrow> bool" where
  "latest_is status latest = (case latest of None \<Rightarrow> False | Some r \<Rightarrow> pr_status r = status)"

definition isDataContributorPartner :: "Partner \<Rightarrow> bool" where
  "isDataContributorPartner p \<longleftrightarrow> pa_dataPartnerEnabled p \<or> pa_fullAttestationPartnerEnabled p"

definition resolveNextRecommendedAction ::
    "Partner \<Rightarrow> PartnerOperationalCounts \<Rightarrow> PartnerProductionApprovalRequest option \<Rightarrow> string option" where
  "resolveNextRecommendedAction p counts latest =
     (if latest_is ProductionApprovalRequestStatus_PENDING latest then Some ''await_production_review''
      else if pa_apiConsumerEnabled p \<and> oc_activeCredentialCount counts = 0 then Some ''create_api_key''
      else if (pa_dataPartnerEnabled p \<or> pa_fullAttestationPartnerEnabled p) \<and> oc_activeSigningKeyCount counts = 0
      then Some ''register_signing_key''
      else if pa_webhooksEnabled p \<and> oc_activeWebhookCount counts = 0 then Some ''configure_webhook''
      else if pa_apiConsumerEnabled p \<and> oc_resolutionRequestCount counts = 0 then Some ''run_sandbox_request''
      else if isDataContributorPartner p \<and> oc_activeRecipientCount counts = 0 then Some ''map_recipient_data''
      else if isDataContributorPartner p \<and> oc_verifiedAttestationCount counts = 0 then Some ''ingest_attestation_data''
      else if \<not> pa_productionEnabled p then Some ''request_production_approval''
      else None)"

record OnboardingAction =
  oa_label :: string
  oa_description :: string
  oa_href :: string
  oa_ctaLabel :: string
  oa_blockedBy :: "string option"

definition onboardingActionCatalog :: "(string \<times> OnboardingAction) list" where
  "onboardingActionCatalog =
     [(''create_api_key'',
       \<lparr>oa_label = ''Create an API key'',
        oa_description = ''Issue the first API credential so your organization can authenticate against Vervet APIs.'',
        oa_href = ''/access/api-keys'', oa_ctaLabel = ''Open API Keys'',
        oa_blockedBy = Some ''api_consumer_capability_disabled''\<rparr>),
      (''register_signing_key'',
       \<lparr>oa_label = ''Register a signing key'',
        oa_description =
          ''Register the signing key Vervet will use to verify your attestation and trust updates.'',
        oa_href = ''/access/signing-keys'', oa_ctaLabel = ''Open Signing Keys'',
        oa_blockedBy = Some ''data_partner_capability_disabled''\<rparr>),
      (''configure_webhook'',
       \<lparr>oa_label = ''Configure a webhook'',
        oa_description =
          ''Create at least one webhook subscription for delivery updates and trust lifecycle events.'',
        oa_href = ''/webhooks'', oa_ctaLabel = ''Open Webhooks'',
        oa_blockedBy = Some ''webhooks_capability_disabled''\<rparr>),
      (''run_sandbox_request'',
       \<lparr>oa_label = ''Run a sandbox request'',
        oa_description =
          ''Run a sandbox or resolution request so the team can validate your integration path end to end.'',
        oa_href = ''/sandbox'', oa_ctaLabel = ''Open Sandbox'',
        oa_blockedBy = Some ''sandbox_capability_disabled''\<rparr>),
      (''map_recipient_data'',
       \<lparr>oa_label = ''Map recipient data'',
        oa_description =
          ''Map recipient and destination data into Vervet so your trust objects are ready for onboarding review.'',
        oa_href = ''/recipients'', oa_ctaLabel = ''Open Recipients'',
        oa_blockedBy = Some ''data_partner_capability_disabled''\<rparr>),
      (''ingest_attestation_data'',
       \<lparr>oa_label = ''Ingest attestation data'',
        oa_description =
          ''Begin attestation ingestion so Vervet can verify and materialize your trust data.'',
        oa_href = ''/attestations'', oa_ctaLabel = ''Open Attestations'',
        oa_blockedBy = Some ''data_partner_capability_disabled''\<rparr>),
      (''request_production_approval'',
       \<lparr>oa_label = ''Request production approval'',
        oa_description =
          ''Review your readiness and follow the production activation path with the Vervet team.'',
        oa_href = ''/setup'', oa_ctaLabel = ''Open production approval'', oa_blockedBy = None\<rparr>),
      (''await_production_review'',
       \<lparr>oa_label = ''Await production review'',
        oa_description = ''Your production approval request is pending Vervet review.'',
        oa_href = ''/setup'', oa_ctaLabel = ''Review approval status'', oa_blockedBy = None\<rparr>)]"

definition productionApprovalBlockedReasonDescriptions :: "(string \<times> string) list" where
  "productionApprovalBlockedReasonDescriptions =
     [(''dashboard_user_required'', ''A dashboard user session is required to request production approval.''),
      (''insufficient_role'', ''Only owners and admins can request or cancel production approval.''),
      (''already_production_enabled'', ''This organization is already production approved.''),
      (''pending_review'', ''A production approval request is already pending review.''),
      (''feed_health_not_ready'', ''Feed health must be healthy before production approval can be requested.''),
      (''onboarding_incomplete'', ''Complete the remaining onboarding steps before requesting production approval.'')]"

definition describeOnboardingAction :: "string option \<Rightarrow> string" where
  "describeOnboardingAction action =
     (if falsy action then ''Review workspace readiness''
      else case map_of onboardingActionCatalog (or_else action []) of
        None \<Rightarrow> ''Review workspace readiness''
      | Some a \<Rightarrow> oa_label a)"

definition describeProductionApprovalBlockedReason :: "string option \<Rightarrow> string" where
  "describeProductionApprovalBlockedReason blockedReason =
     (let fallback = ''Review readiness requirements before requesting production approval.'' in
      if falsy blockedReason then fallback
      else or_else (map_of productionApprovalBlockedReasonDescriptions (or_else blockedReason [])) fallback)"

record PartnerOnboardingSummary =
  ob_stage :: PartnerOnboardingStage
  ob_completedTasks :: "string list"
  ob_blockedTasks :: "string list"
  ob_nextRecommendedAction :: "string option"
  ob_nextRecommendedActionLabel :: string

definition tasks_of :: "(bool \<times> string) list \<Rightarrow> string list" where
  "tasks_of xs = map snd (filter fst xs)"

definition buildPartnerOnboardingSummary ::
    "Partner \<Rightarrow> PartnerOperationalCounts \<Rightarrow> PartnerProductionApprovalRequest option \<Rightarrow> PartnerOnboardingSummary" where
  "buildPartnerOnboardingSummary p counts latest =
     (let nextRecommendedAction = resolveNextRecommendedAction p counts latest;
          pending = latest_is ProductionApprovalRequestStatus_PENDING latest
      in \<lparr>ob_stage = pa_onboardingStage p,
          ob_completedTasks = tasks_of
            [(oc_activeCredentialCount counts > 0, ''create_api_key''),
             (oc_activeSigningKeyCount counts > 0, ''register_signing_key''),
             (oc_activeWebhookCount counts > 0, ''configure_webhook''),
             (oc_resolutionRequestCount counts > 0, ''run_sandbox_request''),
             (oc_activeRecipientCount counts > 0, ''map_recipient_data''),
             (oc_verifiedAttestationCount counts > 0, ''ingest_attestation_data''),
             (pending, ''request_production_approval''), (pa_productionEnabled p, ''production_enabled'')],
          ob_blockedTasks = tasks_of
            [(\<not> pa_apiConsumerEnabled p, ''api_consumer_capability_disabled''),
             (\<not> isDataContributorPartner p, ''data_partner_capability_disabled''),
             (\<not> pa_webhooksEnabled p, ''webhooks_capability_disabled''),
             (\<not> pa_sandboxEnabled p, ''sandbox_capability_disabled''),
             (pending, ''production_approval_pending'')],
          ob_nextRecommendedAction = nextRecommendedAction,
          ob_nextRecommendedActionLabel = describeOnboardingAction nextRecommendedAction\<rparr>)"

definition resolveReadinessLabel ::
    "Partner \<Rightarrow> string \<Rightarrow> PartnerProductionApprovalRequest option \<Rightarrow> nat \<Rightarrow> string" where
  "resolveReadinessLabel p environment latest approvedCorridorCount =
     (let corridors = show_nat approvedCorridorCount @ '' corridor'' @ (if approvedCorridorCount = 1 then [] else ''s'') in
      if environment = ''PRODUCTION_APPROVED'' then
        (if approvedCorridorCount = 0 then ''Production approved with no active production corridors''
         else if pa_feedHealthStatus p = PartnerFeedHealthStatus_DEGRADED
         then ''Production live with degraded feed health across '' @ corridors
         else ''Production approved across '' @ corridors)
      else if latest_is ProductionApprovalRequestStatus_PENDING latest then ''Pending production review''
      else if latest_is ProductionApprovalRequestStatus_REJECTED latest then ''Production review changes requested''
      else if environment = ''SANDBOX_ONLY'' then ''Sandbox only''
      else ''Restricted setup'')"

record PartnerReadinessSummary =
  rd_environment :: string
  rd_productionEnabled :: bool
  rd_feedHealthStatus :: PartnerFeedHealthStatus
  rd_approvedCorridorCount :: nat
  rd_statusLabel :: string

definition buildPartnerReadinessSummary ::
    "Partner \<Rightarrow> PartnerProductionApprovalRequest option \<Rightarrow> nat \<Rightarrow> PartnerReadinessSummary" where
  "buildPartnerReadinessSummary p latest approvedCorridorCount =
     (let environment =
            (if pa_productionEnabled p then ''PRODUCTION_APPROVED''
             else if pa_sandboxEnabled p then ''SANDBOX_ONLY'' else ''RESTRICTED'')
      in \<lparr>rd_environment = environment, rd_productionEnabled = pa_productionEnabled p,
          rd_feedHealthStatus = pa_feedHealthStatus p, rd_approvedCorridorCount = approvedCorridorCount,
          rd_statusLabel = resolveReadinessLabel p environment latest approvedCorridorCount\<rparr>)"

definition resolveProductionApprovalBlockedReason ::
    "Partner \<Rightarrow> string option \<Rightarrow> PartnerProductionApprovalRequest option \<Rightarrow> bool \<Rightarrow> bool \<Rightarrow> string option" where
  "resolveProductionApprovalBlockedReason p nextAction latest actorIsDashboardUser actorCanManageApproval =
     (if \<not> actorIsDashboardUser then Some ''dashboard_user_required''
      else if \<not> actorCanManageApproval then Some ''insufficient_role''
      else if pa_productionEnabled p then Some ''already_production_enabled''
      else if latest_is ProductionApprovalRequestStatus_PENDING latest then Some ''pending_review''
      else if (pa_dataPartnerEnabled p \<or> pa_fullAttestationPartnerEnabled p) \<and>
              pa_feedHealthStatus p \<noteq> PartnerFeedHealthStatus_HEALTHY
      then Some ''feed_health_not_ready''
      else if nextAction \<noteq> None \<and> nextAction \<noteq> Some ''request_production_approval'' \<and>
              nextAction \<noteq> Some ''await_production_review''
      then Some ''onboarding_incomplete''
      else None)"

record PartnerProductionApprovalSummary =
  as_canRequest :: bool
  as_canCancel :: bool
  as_blockedReason :: "string option"
  as_blockedReasonDescription :: string
  as_latestRequest :: "PartnerProductionApprovalRequest option"

definition manages_approval :: "PartnerUserRole \<Rightarrow> bool" where
  "manages_approval role \<longleftrightarrow> role = PartnerUserRole_OWNER \<or> role = PartnerUserRole_ADMIN"

definition buildPartnerProductionApprovalSummary ::
    "AuthenticatedPartner \<Rightarrow> PartnerUser option \<Rightarrow> Partner \<Rightarrow> PartnerOperationalCounts \<Rightarrow>
     PartnerProductionApprovalRequest option \<Rightarrow> PartnerProductionApprovalSummary" where
  "buildPartnerProductionApprovalSummary p authenticatedUser partner counts latest =
     (let nextAction = resolveNextRecommendedAction partner counts latest;
          actorIsDashboardUser = (ap_actorType p = PARTNER_USER \<and> ap_partnerUserId p \<noteq> None);
          actorCanManageApproval =
            (actorIsDashboardUser \<and> (case authenticatedUser of None \<Rightarrow> False | Some u \<Rightarrow> manages_approval (us_role u)));
          pending = latest_is ProductionApprovalRequestStatus_PENDING latest;
          blockedReason = resolveProductionApprovalBlockedReason partner nextAction latest actorIsDashboardUser
            actorCanManageApproval
      in \<lparr>as_canRequest =
            (actorCanManageApproval \<and> \<not> pa_productionEnabled partner \<and> \<not> pending \<and>
             (nextAction = Some ''request_production_approval'' \<or> nextAction = None) \<and>
             (if \<not> pa_dataPartnerEnabled partner \<and> \<not> pa_fullAttestationPartnerEnabled partner then True
              else pa_feedHealthStatus partner = PartnerFeedHealthStatus_HEALTHY)),
          as_canCancel = (actorCanManageApproval \<and> pending),
          as_blockedReason = blockedReason,
          as_blockedReasonDescription = describeProductionApprovalBlockedReason blockedReason,
          as_latestRequest = latest\<rparr>)"

end
