(* ===== verification/Production_Review.thy ===== *)
theory Production_Review
  imports Production_Access
begin

text \<open>
  The handlers of production access in \<open>backend/src/partners/partners.service.ts\<close>: the partner's
  profile, the request, cancellation and review of production approval, and the operator's changes to a
  partner's state and corridors.
\<close>

section \<open>Profiles\<close>

record PartnerProfile =
  pf_partner :: Partner
  pf_activeCredentialCount :: nat
  pf_activeSigningKeyCount :: nat
  pf_capabilities :: PartnerCapabilityProfile
  pf_onboarding :: PartnerOnboardingSummary
  pf_readiness :: PartnerReadinessSummary
  pf_billing :: PartnerBillingSummary
  pf_productionAccess :: "nat \<times> granted_corridor list"
  pf_productionApproval :: PartnerProductionApprovalSummary
  pf_authenticatedActor :: "PartnerAccessActorType \<times> string \<times> string list"
  pf_authenticatedCredential :: "(ident \<times> string list) option"
  pf_authenticatedUser :: "PartnerUserView option"

definition buildPartnerProductionAccessSummary :: "granted_corridor list \<Rightarrow> nat \<times> granted_corridor list" where
  "buildPartnerProductionAccessSummary corridors = (length corridors, corridors)"

definition signed_in_user :: "AuthenticatedPartner \<Rightarrow> db \<Rightarrow> PartnerUser option" where
  "signed_in_user p s =
     (if falsy (ap_partnerUserId p) then None else own_user p (or_else (ap_partnerUserId p) []) s)"

definition getPartnerProfile :: "env \<Rightarrow> time \<Rightarrow> AuthenticatedPartner \<Rightarrow> db \<Rightarrow> PartnerProfile result" where
  "getPartnerProfile E now p s =
     (case getPartnerByIdOrThrow (ap_partnerId p) s of
        Inl e \<Rightarrow> Inl e
      | Inr partner \<Rightarrow>
          let counts = getPartnerOperationalCounts (ap_partnerId p) s;
              authenticatedUser = signed_in_user p s;
              latest = getLatestProductionApprovalRequest (ap_partnerId p) s;
              corridors = listGrantedProductionCorridors E (ap_partnerId p) s
          in Inr \<lparr>pf_partner = partner, pf_activeCredentialCount = oc_activeCredentialCount counts,
               pf_activeSigningKeyCount = oc_activeSigningKeyCount counts,
               pf_capabilities = buildPartnerCapabilities partner,
               pf_onboarding = buildPartnerOnboardingSummary partner counts latest,
               pf_readiness = buildPartnerReadinessSummary partner latest (length corridors),
               pf_billing = buildPartnerBillingSummary partner (getPartnerBillingUsage now (ap_partnerId p) s),
               pf_productionAccess = buildPartnerProductionAccessSummary corridors,
               pf_productionApproval = buildPartnerProductionApprovalSummary p authenticatedUser partner counts latest,
               pf_authenticatedActor = (ap_actorType p, ap_actorIdentifier p, ap_scopes p),
               pf_authenticatedCredential =
                 (if falsy (ap_credentialId p) then None else Some (or_else (ap_credentialId p) [], ap_scopes p)),
               pf_authenticatedUser = map_option user_view authenticatedUser\<rparr>)"

record AdminPartnerWorkspace =
  aw_partner :: Partner
  aw_capabilities :: PartnerCapabilityProfile
  aw_onboarding :: PartnerOnboardingSummary
  aw_readiness :: PartnerReadinessSummary
  aw_billing :: PartnerBillingSummary
  aw_productionAccess :: "nat \<times> granted_corridor list"
  aw_counts :: PartnerOperationalCounts
  aw_latestProductionApprovalRequest :: "PartnerProductionApprovalRequest option"

definition buildAdminPartnerWorkspaceRecord :: "env \<Rightarrow> time \<Rightarrow> db \<Rightarrow> Partner \<Rightarrow> AdminPartnerWorkspace" where
  "buildAdminPartnerWorkspaceRecord E now s partner =
     (let counts = getPartnerOperationalCounts (pa_id partner) s;
          latest = getLatestProductionApprovalRequest (pa_id partner) s;
          corridors = listGrantedProductionCorridors E (pa_id partner) s
      in \<lparr>aw_partner = partner, aw_capabilities = buildPartnerCapabilities partner,
          aw_onboarding = buildPartnerOnboardingSummary partner counts latest,
          aw_readiness = buildPartnerReadinessSummary partner latest (length corridors),
          aw_billing = buildPartnerBillingSummary partner (getPartnerBillingUsage now (pa_id partner) s),
          aw_productionAccess = buildPartnerProductionAccessSummary corridors, aw_counts = counts,
          aw_latestProductionApprovalRequest = latest\<rparr>)"

definition listAdminPartners :: "env \<Rightarrow> time \<Rightarrow> db \<Rightarrow> AdminPartnerWorkspace list" where
  "listAdminPartners E now s =
     map (buildAdminPartnerWorkspaceRecord E now s) (order_desc pa_createdAt (partners s))"

section \<open>Approval requests\<close>

record RequestingUserView =
  qv_id :: ident
  qv_email :: string
  qv_fullName :: string
  qv_role :: PartnerUserRole

text \<open>A request with the corridors it asks for and those it was granted.\<close>

record ApprovalRequestView =
  vw_request :: PartnerProductionApprovalRequest
  vw_requestedByUser :: "RequestingUserView option"
  vw_requestedCorridors :: "corridor list"
  vw_approvedCorridors :: "corridor list"

definition requested_corridors :: "db \<Rightarrow> ident \<Rightarrow> corridor list" where
  "requested_corridors s requestId =
     List.map_filter (\<lambda>r. corridor_of s (rq_assetNetworkId r))
       (filter (\<lambda>r. rq_requestId r = requestId) (requestedCorridors s))"

definition approved_corridors :: "db \<Rightarrow> ident \<Rightarrow> corridor list" where
  "approved_corridors s requestId =
     List.map_filter (\<lambda>r. corridor_of s (aq_assetNetworkId r))
       (filter (\<lambda>r. aq_requestId r = requestId) (approvedCorridors s))"

definition requesting_user :: "db \<Rightarrow> ident option \<Rightarrow> RequestingUserView option" where
  "requesting_user s userId =
     map_option (\<lambda>u. \<lparr>qv_id = us_id u, qv_email = us_email u, qv_fullName = us_fullName u, qv_role = us_role u\<rparr>)
       (Option.bind userId (\<lambda>i. List.find (\<lambda>u. us_id u = i) (partnerUsers s)))"

definition request_view :: "db \<Rightarrow> PartnerProductionApprovalRequest \<Rightarrow> ApprovalRequestView" where
  "request_view s r =
     \<lparr>vw_request = r, vw_requestedByUser = requesting_user s (pr_requestedByUserId r),
      vw_requestedCorridors = requested_corridors s (pr_id r),
      vw_approvedCorridors = approved_corridors s (pr_id r)\<rparr>"

definition listProductionApprovalRequests :: "AuthenticatedPartner \<Rightarrow> db \<Rightarrow> ApprovalRequestView list" where
  "listProductionApprovalRequests p s =
     map (request_view s)
       (order_desc pr_requestedAt (filter (\<lambda>r. pr_partnerId r = ap_partnerId p) (approvalRequests s)))"

definition listAdminProductionApprovalRequests ::
    "ProductionApprovalRequestStatus option \<Rightarrow> db \<Rightarrow> (ApprovalRequestView \<times> Partner option) list" where
  "listAdminProductionApprovalRequests status s =
     map (\<lambda>r. (request_view s r, partner_row s (pr_partnerId r)))
       (order_desc pr_requestedAt (filter (\<lambda>r. filter_eq status (pr_status r)) (approvalRequests s)))"

definition assertProductionApprovalAccess :: "AuthenticatedPartner \<Rightarrow> db \<Rightarrow> unit result" where
  "assertProductionApprovalAccess p s =
     (if ap_actorType p \<noteq> PARTNER_USER \<or> falsy (ap_partnerUserId p)
      then Inl (Forbidden ''Production approval requests require a dashboard user session.'')
      else
        case List.find (\<lambda>u. Some (us_id u) = ap_partnerUserId p \<and> us_partnerId u = ap_partnerId p \<and> user_active u)
               (partnerUsers s) of
          None \<Rightarrow> Inl (Forbidden ''The active dashboard user could not be resolved for this partner.'')
        | Some u \<Rightarrow>
            if \<not> manages_approval (us_role u)
            then Inl (Forbidden ''Only owners and admins can change production approval state.'')
            else Inr ())"

definition normalizeOptionalNote :: "string option \<Rightarrow> string option" where
  "normalizeOptionalNote note =
     (case note of None \<Rightarrow> None | Some n \<Rightarrow> (if length (js_trim n) > 0 then Some (js_trim n) else None))"

text \<open>\<open>createMany\<close> for the corridors of a request.\<close>

fun insert_requested_corridors :: "env \<Rightarrow> time \<Rightarrow> ident \<Rightarrow> ident list \<Rightarrow> db \<Rightarrow> db" where
  "insert_requested_corridors E now requestId [] s = s"
| "insert_requested_corridors E now requestId (n # ns) s =
     (let (i, s1) = fresh E s;
          r = \<lparr>rq_id = i, rq_requestId = requestId, rq_assetNetworkId = n, rq_createdAt = now\<rparr>
      in insert_requested_corridors E now requestId ns (s1\<lparr>requestedCorridors := requestedCorridors s1 @ [r]\<rparr>))"

fun insert_approved_corridors :: "env \<Rightarrow> time \<Rightarrow> ident \<Rightarrow> ident list \<Rightarrow> db \<Rightarrow> db" where
  "insert_approved_corridors E now requestId [] s = s"
| "insert_approved_corridors E now requestId (n # ns) s =
     (let (i, s1) = fresh E s;
          r = \<lparr>aq_id = i, aq_requestId = requestId, aq_assetNetworkId = n, aq_createdAt = now\<rparr>
      in insert_approved_corridors E now requestId ns (s1\<lparr>approvedCorridors := approvedCorridors s1 @ [r]\<rparr>))"

text \<open>What a request must meet before it is made, in the order of the checks.\<close>

definition request_refused ::
    "Partner \<Rightarrow> PartnerOperationalCounts \<Rightarrow> PartnerProductionApprovalRequest option \<Rightarrow> http_error option" where
  "request_refused partner counts latest =
     (let nextAction = resolveNextRecommendedAction partner counts latest in
      if pa_productionEnabled partner
      then Some (Conflict (''Partner '' @ quoted (pa_slug partner) @ '' is already production approved.''))
      else if latest_is ProductionApprovalRequestStatus_PENDING latest
      then Some (Conflict ''A production approval request is already pending review.'')
      else if nextAction \<noteq> None \<and> nextAction \<noteq> Some ''request_production_approval'' \<and>
              nextAction \<noteq> Some ''await_production_review''
      then Some (BadRequest ''Complete the required onboarding steps before requesting production approval.'')
      else if (pa_dataPartnerEnabled partner \<or> pa_fullAttestationPartnerEnabled partner) \<and>
              pa_feedHealthStatus partner \<noteq> PartnerFeedHealthStatus_HEALTHY
      then Some (BadRequest ''Data partners must have healthy feed health before requesting production approval.'')
      else None)"

definition new_request :: "time \<Rightarrow> ident \<Rightarrow> AuthenticatedPartner \<Rightarrow> string option \<Rightarrow> PartnerProductionApprovalRequest" where
  "new_request now i p requestNote =
     \<lparr>pr_id = i, pr_partnerId = ap_partnerId p, pr_requestedByUserId = ap_partnerUserId p,
      pr_status = ProductionApprovalRequestStatus_PENDING, pr_requestNote = requestNote, pr_reviewNote = None,
      pr_reviewedByIdentifier = None, pr_requestedAt = now, pr_reviewedAt = None, pr_createdAt = now\<rparr>"

definition approval_event :: "AuditActorContext \<Rightarrow> ident \<Rightarrow> string \<Rightarrow> ident \<Rightarrow> string \<Rightarrow> json \<Rightarrow> RecordAuditEventInput" where
  "approval_event actor partnerId action requestId summary metadata =
     context_event actor partnerId action ''PartnerProductionApprovalRequest'' requestId summary metadata"

definition requestProductionApproval ::
    "env \<Rightarrow> time \<Rightarrow> AuthenticatedPartner \<Rightarrow> string option \<Rightarrow> string list option \<Rightarrow> db \<Rightarrow>
     ApprovalRequestView result \<times> db" where
  "requestProductionApproval E now p note assetNetworkIds s =
     (case assertProductionApprovalAccess p s of
        Inl e \<Rightarrow> (Inl e, s)
      | Inr _ \<Rightarrow>
     (case getPartnerByIdOrThrow (ap_partnerId p) s of
        Inl e \<Rightarrow> (Inl e, s)
      | Inr partner \<Rightarrow>
     (case request_refused partner (getPartnerOperationalCounts (ap_partnerId p) s)
             (getLatestProductionApprovalRequest (ap_partnerId p) s) of
        Some e \<Rightarrow> (Inl e, s)
      | None \<Rightarrow>
          let requestNote = normalizeOptionalNote note;
              requested = normalizeRequestedAssetNetworkIds assetNetworkIds in
     (case (if length requested > 0 then getActiveAssetNetworksByIds requested s else Inr []) of
        Inl e \<Rightarrow> (Inl e, s)
      | Inr corridors \<Rightarrow>
          let (i, s1) = fresh E s;
              r = new_request now i p requestNote;
              s2 = insert_requested_corridors E now i requested
                     (s1\<lparr>approvalRequests := approvalRequests s1 @ [r]\<rparr>);
              s3 = recordEvent E now
                     (approval_event (buildPartnerAuditContext p) (ap_partnerId p) ''partner.production_approval.requested'' i
                        (''Requested production approval for '' @ quoted (ap_partnerSlug p) @ ''.'')
                        (JObj [(''status'', JStr ''PENDING''), (''requestNote'', j_nullable requestNote),
                               (''requestedCorridors'', JArr (map corridor_json corridors))])) s2
          in (Inr (request_view s3 r), s3)))))"

definition update_request ::
    "ident \<Rightarrow> (PartnerProductionApprovalRequest \<Rightarrow> PartnerProductionApprovalRequest) \<Rightarrow> db \<Rightarrow> db" where
  "update_request i f s = s\<lparr>approvalRequests := update_where (\<lambda>r. pr_id r = i) f (approvalRequests s)\<rparr>"

definition cancel_request :: "time \<Rightarrow> string \<Rightarrow> PartnerProductionApprovalRequest \<Rightarrow> PartnerProductionApprovalRequest" where
  "cancel_request now by r =
     r\<lparr>pr_status := ProductionApprovalRequestStatus_CANCELLED, pr_reviewedAt := Some now,
       pr_reviewedByIdentifier := Some by\<rparr>"

definition cancelProductionApprovalRequest ::
    "env \<Rightarrow> time \<Rightarrow> AuthenticatedPartner \<Rightarrow> ident \<Rightarrow> db \<Rightarrow> ApprovalRequestView result \<times> db" where
  "cancelProductionApprovalRequest E now p requestId s =
     (case assertProductionApprovalAccess p s of
        Inl e \<Rightarrow> (Inl e, s)
      | Inr _ \<Rightarrow>
          let i = js_trim requestId in
          if length i = 0 then (Inl (BadRequest ''Production approval request identifier is required.''), s)
          else
     (case List.find (\<lambda>r. pr_id r = i \<and> pr_partnerId r = ap_partnerId p) (approvalRequests s) of
        None \<Rightarrow> (Inl (NotFound (''Production approval request '' @ quoted i @ '' was not found for this partner.'')), s)
      | Some r \<Rightarrow>
          if pr_status r \<noteq> ProductionApprovalRequestStatus_PENDING
          then (Inl (Conflict ''Only pending production approval requests can be cancelled.''), s)
          else
            let f = cancel_request now (ap_actorIdentifier p);
                s1 = recordEvent E now
                  (approval_event (buildPartnerAuditContext p) (ap_partnerId p) ''partner.production_approval.cancelled''
                     (pr_id r) (''Cancelled the production approval request for '' @ quoted (ap_partnerSlug p) @ ''.'')
                     (JObj [(''status'', JStr ''CANCELLED'')])) (update_request (pr_id r) f s)
            in (Inr (request_view s1 (f r)), s1)))"

section \<open>Review\<close>

datatype review_decision = Decision_APPROVED | Decision_REJECTED

definition corridor_key :: "PartnerProductionCorridor \<Rightarrow> ident \<times> ident" where
  "corridor_key r = (pc_partnerId r, pc_assetNetworkId r)"

definition grant_corridor :: "time \<Rightarrow> string option \<Rightarrow> PartnerProductionCorridor \<Rightarrow> PartnerProductionCorridor" where
  "grant_corridor now note r =
     r\<lparr>pc_status := PartnerProductionCorridorStatus_GRANTED, pc_note := note,
       pc_grantedByIdentifier := Some ''admin-token'', pc_grantedAt := now, pc_revokedAt := None\<rparr>"

definition new_corridor :: "time \<Rightarrow> ident \<Rightarrow> ident \<Rightarrow> ident \<Rightarrow> string option \<Rightarrow> PartnerProductionCorridor" where
  "new_corridor now i partnerId assetNetworkId note =
     \<lparr>pc_id = i, pc_partnerId = partnerId, pc_assetNetworkId = assetNetworkId,
      pc_status = PartnerProductionCorridorStatus_GRANTED, pc_note = note,
      pc_grantedByIdentifier = Some ''admin-token'', pc_grantedAt = now, pc_revokedAt = None, pc_createdAt = now\<rparr>"

definition upsert_corridor :: "env \<Rightarrow> time \<Rightarrow> ident \<Rightarrow> string option \<Rightarrow> ident \<Rightarrow> db \<Rightarrow> db" where
  "upsert_corridor E now partnerId note assetNetworkId s =
     (let (i, s1) = fresh E s in
      s1\<lparr>productionCorridors :=
           upsert_by (\<lambda>r. corridor_key r = (partnerId, assetNetworkId)) (grant_corridor now note)
             (new_corridor now i partnerId assetNetworkId note) (productionCorridors s1)\<rparr>)"

definition review_request ::
    "time \<Rightarrow> ProductionApprovalRequestStatus \<Rightarrow> string option \<Rightarrow> PartnerProductionApprovalRequest \<Rightarrow>
     PartnerProductionApprovalRequest" where
  "review_request now status reviewNote r =
     r\<lparr>pr_status := status, pr_reviewNote := reviewNote, pr_reviewedAt := Some now,
       pr_reviewedByIdentifier := Some ''admin-token''\<rparr>"

definition enable_production :: "Partner \<Rightarrow> Partner" where
  "enable_production p =
     p\<lparr>pa_productionEnabled := True, pa_onboardingStage := PartnerOnboardingStage_PRODUCTION_APPROVED\<rparr>"

text \<open>What approval adds to the transaction.\<close>

definition grant_approval ::
    "env \<Rightarrow> time \<Rightarrow> PartnerProductionApprovalRequest \<Rightarrow> string option \<Rightarrow> corridor list \<Rightarrow> db \<Rightarrow> db" where
  "grant_approval E now r reviewNote corridors s =
     (let ids = map corridor_id corridors;
          note = Some (or_else reviewNote
                   (or_else (pr_requestNote r) ''Granted during production approval review.''));
          s1 = insert_approved_corridors E now (pr_id r) ids
                 (s\<lparr>approvedCorridors := delete_where (\<lambda>a. aq_requestId a = pr_id r) (approvedCorridors s)\<rparr>);
          s2 = s1\<lparr>partners := update_where (\<lambda>p. pa_id p = pr_partnerId r) enable_production (partners s1)\<rparr>
      in fold (upsert_corridor E now (pr_partnerId r) note) ids s2)"

definition review_json ::
    "ProductionApprovalRequestStatus \<Rightarrow> string option \<Rightarrow> corridor list \<Rightarrow> corridor list \<Rightarrow> json" where
  "review_json status reviewNote requested approved =
     JObj [(''status'', JStr (name_ProductionApprovalRequestStatus status)), (''reviewNote'', j_nullable reviewNote),
           (''requestedCorridors'', JArr (map corridor_json requested)),
           (''approvedCorridors'', JArr (map corridor_json approved))]"

definition reviewProductionApprovalRequest ::
    "env \<Rightarrow> time \<Rightarrow> ident \<Rightarrow> review_decision \<Rightarrow> string option \<Rightarrow> string list option \<Rightarrow> db \<Rightarrow>
     ApprovalRequestView result \<times> db" where
  "reviewProductionApprovalRequest E now requestId decision note approvedAssetNetworkIds s =
     (let i = js_trim requestId in
      if length i = 0 then (Inl (BadRequest ''Production approval request identifier is required.''), s)
      else
     (case List.find (\<lambda>r. pr_id r = i) (approvalRequests s) of
        None \<Rightarrow> (Inl (NotFound (''Production approval request '' @ quoted i @ '' was not found.'')), s)
      | Some r \<Rightarrow>
          if pr_status r \<noteq> ProductionApprovalRequestStatus_PENDING
          then (Inl (Conflict ''Only pending production approval requests can be reviewed.''), s)
          else
     (case partner_row s (pr_partnerId r) of
        None \<Rightarrow> (Inl RecordNotFound, s)
      | Some partner \<Rightarrow>
          let approve = (decision = Decision_APPROVED);
              nextStatus = (if approve then ProductionApprovalRequestStatus_APPROVED
                            else ProductionApprovalRequestStatus_REJECTED);
              reviewNote = normalizeOptionalNote note;
              override = normalizeRequestedAssetNetworkIds approvedAssetNetworkIds;
              requested = requested_corridors s (pr_id r) in
     (case (if length override > 0 then getActiveAssetNetworksByIds override s else Inr requested) of
        Inl e \<Rightarrow> (Inl e, s)
      | Inr approved \<Rightarrow>
          if approve \<and> length approved = 0
          then (Inl (BadRequest
                 ''At least one production corridor must be approved before production access can be granted.''), s)
          else
            let f = review_request now nextStatus reviewNote;
                s1 = update_request (pr_id r) f s;
                s2 = (if approve then grant_approval E now r reviewNote approved s1 else s1);
                s3 = recordEvent E now
                  (approval_event admin_context (pa_id partner) ''partner.production_approval.reviewed'' (pr_id r)
                     ((if approve then ''Approved'' else ''Rejected'') @ '' production approval for '' @
                      quoted (pa_slug partner) @ ''.'')
                     (review_json nextStatus reviewNote requested approved)) s2;
                s4 = (if approve then
                        recordEvent E now
                          (context_event admin_context (pa_id partner) ''partner.production_enabled'' ''Partner''
                             (pa_id partner) (''Enabled production access for '' @ quoted (pa_slug partner) @ ''.'')
                             (JObj [(''onboardingStage'', JStr ''PRODUCTION_APPROVED''),
                                    (''approvedCorridors'', JArr (map corridor_json approved))])) s3
                      else s3)
            in (Inr (request_view s4 (f r)), s4)))))"

section \<open>The operator's changes\<close>

record UpdatePartnerAdminStateDto =
  ua_status :: "PartnerStatus option"
  ua_onboardingStage :: "PartnerOnboardingStage option"
  ua_feedHealthStatus :: "PartnerFeedHealthStatus option"
  ua_pricingPlan :: "PartnerPricingPlan option"
  ua_apiConsumerEnabled :: "bool option"
  ua_dataPartnerEnabled :: "bool option"
  ua_fullAttestationPartnerEnabled :: "bool option"
  ua_webhooksEnabled :: "bool option"
  ua_batchVerificationEnabled :: "bool option"
  ua_auditExportsEnabled :: "bool option"
  ua_sandboxEnabled :: "bool option"

definition admin_state_given :: "UpdatePartnerAdminStateDto \<Rightarrow> bool" where
  "admin_state_given dto \<longleftrightarrow>
     ua_status dto \<noteq> None \<or> ua_onboardingStage dto \<noteq> None \<or> ua_feedHealthStatus dto \<noteq> None \<or>
     ua_pricingPlan dto \<noteq> None \<or> ua_apiConsumerEnabled dto \<noteq> None \<or> ua_dataPartnerEnabled dto \<noteq> None \<or>
     ua_fullAttestationPartnerEnabled dto \<noteq> None \<or> ua_webhooksEnabled dto \<noteq> None \<or>
     ua_batchVerificationEnabled dto \<noteq> None \<or> ua_auditExportsEnabled dto \<noteq> None \<or> ua_sandboxEnabled dto \<noteq> None"

definition admin_state_update :: "UpdatePartnerAdminStateDto \<Rightarrow> Partner \<Rightarrow> Partner" where
  "admin_state_update dto p =
     p\<lparr>pa_status := or_else (ua_status dto) (pa_status p),
       pa_onboardingStage := or_else (ua_onboardingStage dto) (pa_onboardingStage p),
       pa_feedHealthStatus := or_else (ua_feedHealthStatus dto) (pa_feedHealthStatus p),
       pa_pricingPlan := or_else (ua_pricingPlan dto) (pa_pricingPlan p),
       pa_apiConsumerEnabled := or_else (ua_apiConsumerEnabled dto) (pa_apiConsumerEnabled p),
       pa_dataPartnerEnabled := or_else (ua_dataPartnerEnabled dto) (pa_dataPartnerEnabled p),
       pa_fullAttestationPartnerEnabled :=
         or_else (ua_fullAttestationPartnerEnabled dto) (pa_fullAttestationPartnerEnabled p),
       pa_webhooksEnabled := or_else (ua_webhooksEnabled dto) (pa_webhooksEnabled p),
       pa_batchVerificationEnabled := or_else (ua_batchVerificationEnabled dto) (pa_batchVerificationEnabled p),
       pa_auditExportsEnabled := or_else (ua_auditExportsEnabled dto) (pa_auditExportsEnabled p),
       pa_sandboxEnabled := or_else (ua_sandboxEnabled dto) (pa_sandboxEnabled p)\<rparr>"

definition admin_state_json :: "Partner \<Rightarrow> json" where
  "admin_state_json p =
     JObj [(''status'', JStr (name_PartnerStatus (pa_status p))),
       (''pricingPlan'', JStr (name_PartnerPricingPlan (pa_pricingPlan p))),
       (''onboardingStage'', JStr (name_PartnerOnboardingStage (pa_onboardingStage p))),
       (''feedHealthStatus'', JStr (name_PartnerFeedHealthStatus (pa_feedHealthStatus p))),
       (''apiConsumerEnabled'', JBool (pa_apiConsumerEnabled p)),
       (''dataPartnerEnabled'', JBool (pa_dataPartnerEnabled p)),
       (''fullAttestationPartnerEnabled'', JBool (pa_fullAttestationPartnerEnabled p)),
       (''webhooksEnabled'', JBool (pa_webhooksEnabled p)),
       (''batchVerificationEnabled'', JBool (pa_batchVerificationEnabled p)),
       (''auditExportsEnabled'', JBool (pa_auditExportsEnabled p)),
       (''sandboxEnabled'', JBool (pa_sandboxEnabled p))]"

definition updatePartnerAdminState ::
    "env \<Rightarrow> time \<Rightarrow> ident \<Rightarrow> UpdatePartnerAdminStateDto \<Rightarrow> db \<Rightarrow> AdminPartnerWorkspace result \<times> db" where
  "updatePartnerAdminState E now partnerId dto s =
     (if length (js_trim partnerId) = 0 then (Inl (BadRequest ''Partner identifier is required.''), s)
      else
     (case getPartnerByIdOrThrow (js_trim partnerId) s of
        Inl e \<Rightarrow> (Inl e, s)
      | Inr existing \<Rightarrow>
          let nextDataPartnerEnabled = or_else (ua_dataPartnerEnabled dto) (pa_dataPartnerEnabled existing);
              nextFullAttestationEnabled =
                or_else (ua_fullAttestationPartnerEnabled dto) (pa_fullAttestationPartnerEnabled existing);
              nextOnboardingStage = or_else (ua_onboardingStage dto) (pa_onboardingStage existing) in
          if nextFullAttestationEnabled \<and> \<not> nextDataPartnerEnabled
          then (Inl (BadRequest
                 ''Full attestation capability requires data partner capability to remain enabled.''), s)
          else if pa_productionEnabled existing \<and> nextOnboardingStage \<noteq> PartnerOnboardingStage_PRODUCTION_APPROVED
          then (Inl (BadRequest
                 ''Production-approved partners must remain in the production-approved onboarding stage.''), s)
          else if \<not> pa_productionEnabled existing \<and> nextOnboardingStage = PartnerOnboardingStage_PRODUCTION_APPROVED
          then (Inl (BadRequest
                 ''Partners cannot enter the production-approved stage until production approval is granted.''), s)
          else if \<not> admin_state_given dto
          then (Inl (BadRequest ''At least one partner state field is required.''), s)
          else
            let s1 = s\<lparr>partners := update_where (\<lambda>p. pa_id p = pa_id existing) (admin_state_update dto) (partners s)\<rparr>;
                s2 = recordEvent E now
                  (context_event admin_context (pa_id existing) ''partner.admin_state.updated'' ''Partner'' (pa_id existing)
                     (''Updated admin-controlled state for '' @ quoted (pa_slug existing) @ ''.'')
                     (JObj [(''previous'', admin_state_json existing),
                            (''next'', admin_state_json (admin_state_update dto existing))])) s1
            in (Inr (buildAdminPartnerWorkspaceRecord E now s2 (admin_state_update dto existing)), s2)))"

definition revoke_corridor :: "time \<Rightarrow> string option \<Rightarrow> PartnerProductionCorridor \<Rightarrow> PartnerProductionCorridor" where
  "revoke_corridor now note r =
     r\<lparr>pc_status := PartnerProductionCorridorStatus_REVOKED, pc_note := note,
       pc_grantedByIdentifier := Some ''admin-token'', pc_revokedAt := Some now\<rparr>"

definition corridor_event ::
    "bool \<Rightarrow> Partner \<Rightarrow> corridor \<Rightarrow> string option \<Rightarrow> PartnerProductionCorridor \<Rightarrow> RecordAuditEventInput" where
  "corridor_event enabled partner c note r =
     context_event admin_context (pa_id partner)
       (if enabled then ''partner.production_corridor.granted'' else ''partner.production_corridor.revoked'')
       ''PartnerProductionCorridor'' (pc_id r)
       ((if enabled then ''Granted'' else ''Revoked'') @ '' production corridor access for '' @
        quoted (pa_slug partner) @ '' on '' @ ch_slug (snd (snd c)) @ ''/'' @ as_symbol (fst (snd c)) @ ''.'')
       (JObj [(''assetNetworkId'', JStr (corridor_id c)), (''chain'', JStr (ch_slug (snd (snd c)))),
              (''asset'', JStr (as_symbol (fst (snd c)))), (''note'', j_nullable note),
              (''status'', JStr (name_PartnerProductionCorridorStatus (pc_status r)))])"

definition updatePartnerProductionCorridor ::
    "env \<Rightarrow> time \<Rightarrow> ident \<Rightarrow> ident \<Rightarrow> bool \<Rightarrow> string option \<Rightarrow> db \<Rightarrow> granted_corridor result \<times> db" where
  "updatePartnerProductionCorridor E now partnerId assetNetwork enabled noteInput s =
     (let i = js_trim partnerId; n = js_trim assetNetwork in
      if length i = 0 then (Inl (BadRequest ''Partner identifier is required.''), s)
      else if length n = 0 then (Inl (BadRequest ''Asset-network corridor is required.''), s)
      else
     (case getPartnerByIdOrThrow i s of
        Inl e \<Rightarrow> (Inl e, s)
      | Inr partner \<Rightarrow>
     (case List.find (\<lambda>c. corridor_id c = n) (active_corridors s) of
        None \<Rightarrow> (Inl (NotFound (''Active asset-network corridor '' @ quoted n @ '' was not found.'')), s)
      | Some c \<Rightarrow>
          let note = normalizeOptionalNote noteInput;
              f = (if enabled then grant_corridor now note else revoke_corridor now note) in
     (case List.find (\<lambda>r. corridor_key r = (i, n)) (productionCorridors s) of
        Some existing \<Rightarrow>
          (Inr (f existing, c),
           recordEvent E now (corridor_event enabled partner c note (f existing))
             (s\<lparr>productionCorridors := update_where (\<lambda>r. corridor_key r = (i, n)) f (productionCorridors s)\<rparr>))
      | None \<Rightarrow>
          if \<not> enabled
          then (Inl (NotFound
                 ''This partner does not currently have production access for the selected corridor.''), s)
          else
            let (j, s1) = fresh E s; r = new_corridor now j i n note
            in (Inr (r, c), recordEvent E now (corridor_event True partner c note r)
                  (s1\<lparr>productionCorridors := productionCorridors s1 @ [r]\<rparr>))))))"

end
