(* ===== verification/Production_Facts.thy ===== *)
theory Production_Facts
  imports Production_Review Attestation_Facts
begin

text \<open>
  What production access rests on: a partner is enabled for production only by a review that approved
  one of its requests with at least one corridor, at most one request of a partner is ever pending, a
  corridor has one row per partner, and what the profile says about requesting approval is what the
  request handler does.
\<close>

section \<open>What the operations do to the tables\<close>

definition production_tables ::
    "db \<Rightarrow> Partner list \<times> PartnerProductionApprovalRequest list \<times> PartnerProductionApprovalApprovedCorridor list \<times>
     PartnerProductionCorridor list" where
  "production_tables s = (partners s, approvalRequests s, approvedCorridors s, productionCorridors s)"

declare production_tables_def [simp]

lemma insert_requested_tables:
  "production_tables (insert_requested_corridors E now i ns s) = production_tables s \<and>
   nextId s \<le> nextId (insert_requested_corridors E now i ns s)"
proof (induction ns arbitrary: s)
  case (Cons n ns)
  let ?s1 = "s\<lparr>nextId := Suc (nextId s), requestedCorridors := requestedCorridors s @
    [\<lparr>rq_id = cuid E (nextId s), rq_requestId = i, rq_assetNetworkId = n, rq_createdAt = now\<rparr>]\<rparr>"
  show ?case using Cons.IH [of ?s1] by (simp add: fresh_def Let_def)
qed simp

lemma insert_approved_tables:
  "\<exists>ws. approvedCorridors (insert_approved_corridors E now i ns s) = approvedCorridors s @ ws \<and>
     length ws = length ns \<and> (\<forall>a \<in> set ws. aq_requestId a = i) \<and>
     partners (insert_approved_corridors E now i ns s) = partners s \<and>
     approvalRequests (insert_approved_corridors E now i ns s) = approvalRequests s \<and>
     productionCorridors (insert_approved_corridors E now i ns s) = productionCorridors s \<and>
     nextId s \<le> nextId (insert_approved_corridors E now i ns s)"
proof (induction ns arbitrary: s)
  case (Cons n ns)
  let ?a = "\<lparr>aq_id = cuid E (nextId s), aq_requestId = i, aq_assetNetworkId = n, aq_createdAt = now\<rparr>"
  let ?s1 = "s\<lparr>nextId := Suc (nextId s), approvedCorridors := approvedCorridors s @ [?a]\<rparr>"
  from Cons.IH [of ?s1] obtain ws where
    "approvedCorridors (insert_approved_corridors E now i ns ?s1) = approvedCorridors s @ ?a # ws"
    "length ws = length ns" "\<forall>a \<in> set ws. aq_requestId a = i"
    "partners (insert_approved_corridors E now i ns ?s1) = partners s"
    "approvalRequests (insert_approved_corridors E now i ns ?s1) = approvalRequests s"
    "productionCorridors (insert_approved_corridors E now i ns ?s1) = productionCorridors s"
    "nextId s \<le> nextId (insert_approved_corridors E now i ns ?s1)"
    by auto
  then show ?case by (intro exI [of _ "?a # ws"]) (simp add: fresh_def Let_def)
qed simp

text \<open>One row per partner and network: granting is the upsert of a unique key.\<close>

interpretation corridor_upsert: keyed_upsert corridor_key "(partnerId, assetNetworkId)" "grant_corridor now reason"
    "new_corridor now i partnerId assetNetworkId reason" for partnerId assetNetworkId now reason i
  by unfold_locales (auto simp: corridor_key_def grant_corridor_def new_corridor_def)

lemma upsert_corridor_tables:
  "productionCorridors (upsert_corridor E now partnerId note n s) =
     corridor_upsert.put partnerId n now note (cuid E (nextId s)) (productionCorridors s) \<and>
   partners (upsert_corridor E now partnerId note n s) = partners s \<and>
   approvalRequests (upsert_corridor E now partnerId note n s) = approvalRequests s \<and>
   approvedCorridors (upsert_corridor E now partnerId note n s) = approvedCorridors s \<and>
   nextId (upsert_corridor E now partnerId note n s) = Suc (nextId s)"
  unfolding corridor_upsert.put_def by (simp add: upsert_corridor_def fresh_def Let_def)

lemma fold_upsert_tables:
  "partners (fold (upsert_corridor E now partnerId note) ns s) = partners s \<and>
   approvalRequests (fold (upsert_corridor E now partnerId note) ns s) = approvalRequests s \<and>
   approvedCorridors (fold (upsert_corridor E now partnerId note) ns s) = approvedCorridors s \<and>
   nextId s \<le> nextId (fold (upsert_corridor E now partnerId note) ns s)"
proof (induction ns arbitrary: s)
  case (Cons n ns)
  then show ?case
    using upsert_corridor_tables [of E now partnerId "note" n s]
      Cons.IH [of "upsert_corridor E now partnerId note n s"] by simp
qed simp

lemma fold_upsert_distinct:
  "distinct (map corridor_key (productionCorridors s)) \<Longrightarrow>
   distinct (map corridor_key (productionCorridors (fold (upsert_corridor E now partnerId note) ns s)))"
proof (induction ns arbitrary: s)
  case (Cons n ns)
  then show ?case
    using upsert_corridor_tables [of E now partnerId "note" n s] corridor_upsert.put_distinct by simp
qed simp

lemma grant_approval_tables:
  assumes "grant_approval E now r reviewNote corridors s = s'" "corridors \<noteq> []"
  obtains ws where "approvedCorridors s' = delete_where (\<lambda>a. aq_requestId a = pr_id r) (approvedCorridors s) @ ws"
    "ws \<noteq> []" "\<forall>a \<in> set ws. aq_requestId a = pr_id r"
    "partners s' = update_where (\<lambda>p. pa_id p = pr_partnerId r) enable_production (partners s)"
    "approvalRequests s' = approvalRequests s" "nextId s \<le> nextId s'"
    "distinct (map corridor_key (productionCorridors s)) \<Longrightarrow> distinct (map corridor_key (productionCorridors s'))"
proof -
  let ?s0 = "s\<lparr>approvedCorridors := delete_where (\<lambda>a. aq_requestId a = pr_id r) (approvedCorridors s)\<rparr>"
  let ?s1 = "insert_approved_corridors E now (pr_id r) (map corridor_id corridors) ?s0"
  let ?note = "Some (or_else reviewNote (or_else (pr_requestNote r) ''Granted during production approval review.''))"
  let ?s2 = "?s1\<lparr>partners := update_where (\<lambda>p. pa_id p = pr_partnerId r) enable_production (partners ?s1)\<rparr>"
  have s': "s' = fold (upsert_corridor E now (pr_partnerId r) ?note) (map corridor_id corridors) ?s2"
    using assms(1) by (simp add: grant_approval_def Let_def)
  obtain ws where ws: "approvedCorridors ?s1 = approvedCorridors ?s0 @ ws" "length ws = length (map corridor_id corridors)"
    "\<forall>a \<in> set ws. aq_requestId a = pr_id r" "partners ?s1 = partners ?s0"
    "approvalRequests ?s1 = approvalRequests ?s0" "productionCorridors ?s1 = productionCorridors ?s0"
    "nextId ?s0 \<le> nextId ?s1"
    using insert_approved_tables [of E now "pr_id r" "map corridor_id corridors" ?s0] by blast
  note f = fold_upsert_tables [of E now "pr_partnerId r" ?note "map corridor_id corridors" ?s2, folded s']
  show ?thesis
  proof (rule that [of ws])
    show "ws \<noteq> []" using ws(2) assms(2) by auto
    show "distinct (map corridor_key (productionCorridors s'))" if "distinct (map corridor_key (productionCorridors s))"
      unfolding s' by (rule fold_upsert_distinct) (use that ws(6) in simp)
  qed (use f ws in simp_all)
qed

section \<open>The operations by cases\<close>

lemma request_cases:
  assumes "requestProductionApproval E now p note ids s = (r, s')"
  obtains e where "r = Inl e" "s' = s"
  | v partner where "r = Inr v" "partner_row s (ap_partnerId p) = Some partner"
      "request_refused partner (getPartnerOperationalCounts (ap_partnerId p) s)
         (getLatestProductionApprovalRequest (ap_partnerId p) s) = None"
      "production_tables s' = (partners s, approvalRequests s @
         [new_request now (cuid E (nextId s)) p (normalizeOptionalNote note)], approvedCorridors s, productionCorridors s)"
      "nextId s < nextId s'"
proof -
  let ?refused = "\<lambda>q. request_refused q (getPartnerOperationalCounts (ap_partnerId p) s)
    (getLatestProductionApprovalRequest (ap_partnerId p) s)"
  let ?ids = "normalizeRequestedAssetNetworkIds ids"
  let ?corridors = "if length ?ids > 0 then getActiveAssetNetworksByIds ?ids s else Inr []"
  note d = assms [unfolded requestProductionApproval_def]
  show ?thesis
  proof (cases "assertProductionApprovalAccess p s")
    case (Inl e)
    with d show ?thesis by (intro that(1) [of e]) simp_all
  next
    case (Inr x)
    note d = d [unfolded Inr sum.case]
    show ?thesis
    proof (cases "getPartnerByIdOrThrow (ap_partnerId p) s")
      case (Inl e)
      with d show ?thesis by (intro that(1) [of e]) simp_all
    next
      case (Inr partner)
      note d = d [unfolded Inr sum.case]
      have row: "partner_row s (ap_partnerId p) = Some partner"
        using Inr by (simp add: getPartnerByIdOrThrow_def split: option.splits)
      show ?thesis
      proof (cases "?refused partner")
        case (Some e)
        with d show ?thesis by (intro that(1) [of e]) simp_all
      next
        case None
        note d = d [unfolded None option.case Let_def]
        show ?thesis
        proof (cases ?corridors)
          case (Inl e)
          with d show ?thesis by (intro that(1) [of e]) simp_all
        next
          case (Inr cs)
          let ?s2 = "s\<lparr>nextId := Suc (nextId s), approvalRequests := approvalRequests s @
            [new_request now (cuid E (nextId s)) p (normalizeOptionalNote note)]\<rparr>"
          obtain ev v where "s' = recordEvent E now ev (insert_requested_corridors E now (cuid E (nextId s)) ?ids ?s2)"
            "r = Inr v"
            using d [unfolded Inr sum.case] by (auto simp: fresh_def Let_def)
          then show ?thesis
            using that(2) [OF _ row None] insert_requested_tables [of E now "cuid E (nextId s)" ?ids ?s2] by simp
        qed
      qed
    qed
  qed
qed

lemma cancel_cases:
  assumes "cancelProductionApprovalRequest E now p i s = (r, s')"
  obtains e where "r = Inl e" "s' = s"
  | v q where "r = Inr v" "q \<in> set (approvalRequests s)" "pr_status q = ProductionApprovalRequestStatus_PENDING"
      "production_tables s' = (partners s, update_where (\<lambda>x. pr_id x = pr_id q)
         (cancel_request now (ap_actorIdentifier p)) (approvalRequests s), approvedCorridors s, productionCorridors s)"
      "nextId s \<le> nextId s'"
proof (cases r)
  case (Inl e)
  then have "s' = s"
    using assms by (auto simp: cancelProductionApprovalRequest_def Let_def split: if_splits option.splits sum.splits)
  with Inl show ?thesis by (rule that(1))
next
  case (Inr v)
  then obtain q where "List.find (\<lambda>r. pr_id r = js_trim i \<and> pr_partnerId r = ap_partnerId p) (approvalRequests s) = Some q"
    "pr_status q = ProductionApprovalRequestStatus_PENDING"
    and "\<exists>ev. s' = recordEvent E now ev (update_request (pr_id q) (cancel_request now (ap_actorIdentifier p)) s)"
    using assms by (fastforce simp: cancelProductionApprovalRequest_def Let_def split: if_splits option.splits sum.splits)
  then show ?thesis
    using that(2) [of v q] Inr find_SomeD [of _ "approvalRequests s" q] by (auto simp: update_request_def)
qed

lemma review_cases:
  assumes "reviewProductionApprovalRequest E now i decision note ids s = (r, s')"
  obtains e where "r = Inl e" "s' = s"
  | q where "decision = Decision_REJECTED" "q \<in> set (approvalRequests s)"
      "pr_status q = ProductionApprovalRequestStatus_PENDING"
      "production_tables s' = (partners s, update_where (\<lambda>x. pr_id x = pr_id q)
         (review_request now ProductionApprovalRequestStatus_REJECTED (normalizeOptionalNote note))
         (approvalRequests s), approvedCorridors s, productionCorridors s)" "nextId s \<le> nextId s'"
  | q ws where "decision = Decision_APPROVED" "q \<in> set (approvalRequests s)"
      "pr_status q = ProductionApprovalRequestStatus_PENDING"
      "approvalRequests s' = update_where (\<lambda>x. pr_id x = pr_id q)
         (review_request now ProductionApprovalRequestStatus_APPROVED (normalizeOptionalNote note)) (approvalRequests s)"
      "approvedCorridors s' = delete_where (\<lambda>a. aq_requestId a = pr_id q) (approvedCorridors s) @ ws"
      "ws \<noteq> []" "\<forall>a \<in> set ws. aq_requestId a = pr_id q"
      "partners s' = update_where (\<lambda>p. pa_id p = pr_partnerId q) enable_production (partners s)"
      "nextId s \<le> nextId s'"
      "distinct (map corridor_key (productionCorridors s)) \<Longrightarrow> distinct (map corridor_key (productionCorridors s'))"
proof (cases r)
  case (Inl e)
  then have "s' = s"
    using assms by (auto simp: reviewProductionApprovalRequest_def Let_def split: if_splits option.splits sum.splits)
  with Inl show ?thesis by (rule that(1))
next
  case (Inr v)
  then obtain q where q: "List.find (\<lambda>r. pr_id r = js_trim i) (approvalRequests s) = Some q"
    using assms by (auto simp: reviewProductionApprovalRequest_def Let_def split: if_splits option.splits sum.splits)
  have pend: "pr_status q = ProductionApprovalRequestStatus_PENDING"
    using assms Inr q by (auto simp: reviewProductionApprovalRequest_def Let_def split: if_splits option.splits sum.splits)
  note mem = find_SomeD [OF q, THEN conjunct1]
  show ?thesis
  proof (cases decision)
    case Decision_REJECTED
    have "\<exists>ev. s' = recordEvent E now ev (update_request (pr_id q)
        (review_request now ProductionApprovalRequestStatus_REJECTED (normalizeOptionalNote note)) s)"
      using assms Inr q Decision_REJECTED
      by (auto simp: reviewProductionApprovalRequest_def Let_def split: if_splits option.splits sum.splits)
    then show ?thesis
      using that(2) [OF Decision_REJECTED mem pend] by (auto simp: update_request_def)
  next
    case Decision_APPROVED
    let ?s1 = "update_request (pr_id q)
        (review_request now ProductionApprovalRequestStatus_APPROVED (normalizeOptionalNote note)) s"
    have "\<exists>cs ev ev'. cs \<noteq> [] \<and> s' = recordEvent E now ev' (recordEvent E now ev
        (grant_approval E now q (normalizeOptionalNote note) cs ?s1))"
      using assms Inr q Decision_APPROVED
      by (auto simp: reviewProductionApprovalRequest_def Let_def split: if_splits option.splits sum.splits)
    then obtain cs ev ev' where cs: "cs \<noteq> []" and s': "s' = recordEvent E now ev' (recordEvent E now ev
        (grant_approval E now q (normalizeOptionalNote note) cs ?s1))" by blast
    obtain ws where ws: "approvedCorridors (grant_approval E now q (normalizeOptionalNote note) cs ?s1) =
        delete_where (\<lambda>a. aq_requestId a = pr_id q) (approvedCorridors ?s1) @ ws" "ws \<noteq> []"
      "\<forall>a \<in> set ws. aq_requestId a = pr_id q"
      "partners (grant_approval E now q (normalizeOptionalNote note) cs ?s1) =
         update_where (\<lambda>p. pa_id p = pr_partnerId q) enable_production (partners ?s1)"
      "approvalRequests (grant_approval E now q (normalizeOptionalNote note) cs ?s1) = approvalRequests ?s1"
      "nextId ?s1 \<le> nextId (grant_approval E now q (normalizeOptionalNote note) cs ?s1)"
      "distinct (map corridor_key (productionCorridors ?s1)) \<Longrightarrow>
         distinct (map corridor_key (productionCorridors (grant_approval E now q (normalizeOptionalNote note) cs ?s1)))"
      by (rule grant_approval_tables [OF refl cs]) blast
    show ?thesis
      by (rule that(3) [OF Decision_APPROVED mem pend]) (use ws s' in \<open>simp_all add: update_request_def\<close>)
  qed
qed

lemma admin_state_cases:
  assumes "updatePartnerAdminState E now i dto s = (r, s')"
  obtains e where "r = Inl e" "s' = s"
  | p where "p \<in> set (partners s)" "partner_row s (pa_id p) = Some p"
      "or_else (ua_fullAttestationPartnerEnabled dto) (pa_fullAttestationPartnerEnabled p) \<longrightarrow>
         or_else (ua_dataPartnerEnabled dto) (pa_dataPartnerEnabled p)"
      "pa_productionEnabled p \<longleftrightarrow>
         or_else (ua_onboardingStage dto) (pa_onboardingStage p) = PartnerOnboardingStage_PRODUCTION_APPROVED"
      "production_tables s' = (update_where (\<lambda>x. pa_id x = pa_id p) (admin_state_update dto) (partners s),
         approvalRequests s, approvedCorridors s, productionCorridors s)" "nextId s \<le> nextId s'"
proof (cases r)
  case (Inl e)
  then have "s' = s"
    using assms by (auto simp: updatePartnerAdminState_def Let_def split: if_splits sum.splits)
  with Inl show ?thesis by (rule that(1))
next
  case (Inr v)
  then obtain p where "getPartnerByIdOrThrow (js_trim i) s = Inr p"
    using assms by (auto simp: updatePartnerAdminState_def split: if_splits sum.splits)
  moreover from this have row: "partner_row s (js_trim i) = Some p"
    by (simp add: getPartnerByIdOrThrow_def split: option.splits)
  ultimately show ?thesis
    using assms Inr that(2) [of p] find_SomeD [OF row [unfolded partner_row_def]]
    by (auto simp: updatePartnerAdminState_def Let_def split: if_splits)
qed

lemma corridor_update_cases:
  assumes "updatePartnerProductionCorridor E now i n enabled note s = (r, s')"
  shows "partners s' = partners s \<and> approvalRequests s' = approvalRequests s \<and>
    approvedCorridors s' = approvedCorridors s \<and> nextId s \<le> nextId s' \<and>
    (distinct (map corridor_key (productionCorridors s)) \<longrightarrow> distinct (map corridor_key (productionCorridors s')))"
proof -
  have upd: "map corridor_key (update_where P (grant_corridor now m) rows) = map corridor_key rows"
    "map corridor_key (update_where P (revoke_corridor now m) rows) = map corridor_key rows" for P m rows
    by (auto intro!: map_update_where simp: corridor_key_def grant_corridor_def revoke_corridor_def)
  have new: "corridor_key (new_corridor now j q m x) = (q, m)" for j q m x
    by (simp add: corridor_key_def new_corridor_def)
  show ?thesis
    using assms
    by (auto simp: updatePartnerProductionCorridor_def fresh_def upd new find_None_iff Let_def simp del: map_map
        split: if_splits option.splits sum.splits) blast
qed

lemma create_partner_cases:
  assumes "createPartner E now dto s = (r, s')"
  obtains e where "r = Inl e" "s' = s"
  | p where "r = Inr p" "\<not> pa_productionEnabled p" "\<not> pa_fullAttestationPartnerEnabled p"
      "pa_onboardingStage p = PartnerOnboardingStage_ACCOUNT_CREATED" "pa_id p = cuid E (nextId s)"
      "production_tables s' = (partners s @ [p], approvalRequests s, approvedCorridors s, productionCorridors s)"
      "nextId s < nextId s'"
proof (cases r)
  case (Inl e)
  then have "s' = s"
    using assms by (auto simp: createPartner_def fresh_def Let_def split: if_splits sum.splits)
  with Inl show ?thesis by (rule that(1))
next
  case (Inr p)
  then obtain slug where slug: "normalizePartnerSlug (cp_slug dto) = Inr slug"
    using assms by (auto simp: createPartner_def split: sum.splits)
  note c = assms [unfolded createPartner_def slug sum.case fresh_def Let_def Inr]
  then have p: "p = new_partner now (cuid E (nextId s)) slug dto"
    by (auto split: if_splits)
  have "production_tables s' = (partners s @ [p], approvalRequests s, approvedCorridors s, productionCorridors s)"
    "nextId s < nextId s'"
    using c unfolding p by (auto split: if_splits)
  then show ?thesis
    by (intro that(2) [OF Inr]) (simp_all add: p new_partner_def)
qed

section \<open>Production access\<close>

definition pending_of :: "ident \<Rightarrow> PartnerProductionApprovalRequest \<Rightarrow> bool" where
  "pending_of partnerId r \<longleftrightarrow> pr_partnerId r = partnerId \<and> pr_status r = ProductionApprovalRequestStatus_PENDING"

text \<open>An approved request of a partner, with a corridor approved for it.\<close>

definition approval_of :: "db \<Rightarrow> Partner \<Rightarrow> PartnerProductionApprovalRequest \<Rightarrow> bool" where
  "approval_of s p r \<longleftrightarrow>
     r \<in> set (approvalRequests s) \<and> pr_partnerId r = pa_id p \<and> pr_status r = ProductionApprovalRequestStatus_APPROVED \<and>
     pr_reviewedByIdentifier r = Some ''admin-token'' \<and> (\<exists>a \<in> set (approvedCorridors s). aq_requestId a = pr_id r)"

definition partner_ok :: "db \<Rightarrow> Partner \<Rightarrow> bool" where
  "partner_ok s p \<longleftrightarrow>
     (pa_productionEnabled p \<longleftrightarrow> pa_onboardingStage p = PartnerOnboardingStage_PRODUCTION_APPROVED) \<and>
     (pa_fullAttestationPartnerEnabled p \<longrightarrow> pa_dataPartnerEnabled p) \<and>
     (pa_productionEnabled p \<longrightarrow> (\<exists>r. approval_of s p r))"

text \<open>A pending request is the latest of its partner, strictly.\<close>

definition pending_latest :: "PartnerProductionApprovalRequest list \<Rightarrow> bool" where
  "pending_latest rs \<longleftrightarrow>
     (\<forall>r \<in> set rs. pr_status r = ProductionApprovalRequestStatus_PENDING \<longrightarrow>
        (\<forall>q \<in> set rs. pr_partnerId q = pr_partnerId r \<longrightarrow> q = r \<or> pr_requestedAt q < pr_requestedAt r))"

definition production_ok :: "env \<Rightarrow> time \<Rightarrow> db \<Rightarrow> bool" where
  "production_ok E t s \<longleftrightarrow>
     distinct (map pr_id (approvalRequests s)) \<and> drawn E (nextId s) (map pr_id (approvalRequests s)) \<and>
     (\<forall>r \<in> set (approvalRequests s). pr_requestedAt r \<le> t) \<and> pending_latest (approvalRequests s) \<and>
     distinct (map pa_id (partners s)) \<and> drawn E (nextId s) (map pa_id (partners s)) \<and>
     (\<forall>p \<in> set (partners s). partner_ok s p) \<and> distinct (map corridor_key (productionCorridors s))"

text \<open>Steps at increasing times; an \<open>other\<close> step is any operation that leaves the four tables alone.\<close>

inductive production_step :: "env \<Rightarrow> time \<Rightarrow> db \<Rightarrow> db \<Rightarrow> bool" for E where
  create: "createPartner E now cdto s = (r, s') \<Longrightarrow> production_step E now s s'"
| request: "requestProductionApproval E now p reason ids s = (r, s') \<Longrightarrow> production_step E now s s'"
| cancel: "cancelProductionApprovalRequest E now p i s = (r, s') \<Longrightarrow> production_step E now s s'"
| review: "reviewProductionApprovalRequest E now i decision reason ids s = (r, s') \<Longrightarrow> production_step E now s s'"
| admin: "updatePartnerAdminState E now i adto s = (r, s') \<Longrightarrow> production_step E now s s'"
| corridor: "updatePartnerProductionCorridor E now i n enabled reason s = (r, s') \<Longrightarrow> production_step E now s s'"
| other: "production_tables s' = production_tables s \<Longrightarrow> nextId s \<le> nextId s' \<Longrightarrow> production_step E now s s'"

inductive production_run :: "env \<Rightarrow> db \<Rightarrow> time \<Rightarrow> db \<Rightarrow> bool" for E where
  start: "production_run E empty_db t empty_db"
| step: "production_run E s t s' \<Longrightarrow> t < now \<Longrightarrow> production_step E now s' s'' \<Longrightarrow> production_run E s now s''"

lemma latest_pending:
  assumes "pending_latest (approvalRequests s)" "r \<in> set (approvalRequests s)" "pending_of i r"
  shows "getLatestProductionApprovalRequest i s = Some r"
proof -
  let ?ys = "filter (\<lambda>r. pr_partnerId r = i) (approvalRequests s)"
  have r: "r \<in> set ?ys" using assms(2,3) by (simp add: pending_of_def)
  then obtain x xs where x: "order_desc pr_requestedAt ?ys = x # xs"
    by (metis list.exhaust list.set(1) set_order_desc empty_iff)
  then have "sorted (map (\<lambda>r. - pr_requestedAt r) (x # xs))"
    unfolding order_desc_def by (metis sorted_sort_key)
  moreover have set: "set (x # xs) = set ?ys" using x by (metis set_order_desc)
  ultimately have "pr_requestedAt r \<le> pr_requestedAt x"
    using r by (metis list.simps(9) neg_le_iff_le order_refl set_ConsD sorted_simps(2) image_eqI list.set_map)
  moreover have "x \<in> set (approvalRequests s)" "pr_partnerId x = i" using set by auto
  ultimately have "x = r"
    using assms unfolding pending_latest_def pending_of_def by (metis linorder_not_le)
  then show ?thesis by (simp add: getLatestProductionApprovalRequest_def x)
qed

lemma distinct_idD: "distinct (map f xs) \<Longrightarrow> x \<in> set xs \<Longrightarrow> y \<in> set xs \<Longrightarrow> f x = f y \<Longrightarrow> x = y"
  by (simp add: distinct_map inj_on_def)

text \<open>Closing a pending request: the row changes its status, the others stay.\<close>

locale close_request =
  fixes f :: "PartnerProductionApprovalRequest \<Rightarrow> PartnerProductionApprovalRequest"
  assumes closes: "pr_status (f r) \<noteq> ProductionApprovalRequestStatus_PENDING"
    and keeps: "pr_id (f r) = pr_id r" "pr_partnerId (f r) = pr_partnerId r" "pr_requestedAt (f r) = pr_requestedAt r"
begin

lemma close_ids: "map pr_id (update_where (\<lambda>x. pr_id x = i) f rs) = map pr_id rs"
  by (rule map_update_where) (simp add: keeps)

lemma close_times:
  "\<forall>r \<in> set rs. pr_requestedAt r \<le> t \<Longrightarrow> \<forall>r \<in> set (update_where (\<lambda>x. pr_id x = i) f rs). pr_requestedAt r \<le> t"
  by (auto simp: set_update_where keeps)

lemma close_latest:
  assumes "pending_latest rs"
  shows "pending_latest (update_where (\<lambda>x. pr_id x = i) f rs)"
  unfolding pending_latest_def
proof (intro ballI impI)
  fix r q assume r: "r \<in> set (update_where (\<lambda>x. pr_id x = i) f rs)"
    "pr_status r = ProductionApprovalRequestStatus_PENDING"
    and q: "q \<in> set (update_where (\<lambda>x. pr_id x = i) f rs)" "pr_partnerId q = pr_partnerId r"
  from r have r': "r \<in> set rs" "pr_id r \<noteq> i"
    using closes by (auto elim: in_update_whereE)
  from q(1) obtain q0 where q0: "q0 \<in> set rs" "q = q0 \<or> (pr_id q0 = i \<and> q = f q0)"
    by (auto elim: in_update_whereE)
  then have "pr_partnerId q0 = pr_partnerId r" "pr_requestedAt q = pr_requestedAt q0"
    using q(2) keeps by auto
  then have "q0 = r \<or> pr_requestedAt q0 < pr_requestedAt r"
    using assms r'(1) r(2) q0(1) by (auto simp: pending_latest_def)
  then show "q = r \<or> pr_requestedAt q < pr_requestedAt r"
    using q0 r'(2) \<open>pr_requestedAt q = pr_requestedAt q0\<close> by auto
qed

lemma close_others:
  assumes "distinct (map pr_id rs)" "q \<in> set rs" "pr_status q = ProductionApprovalRequestStatus_PENDING"
    and "r \<in> set rs" "pr_status r \<noteq> ProductionApprovalRequestStatus_PENDING"
  shows "r \<in> set (update_where (\<lambda>x. pr_id x = pr_id q) f rs) \<and> pr_id r \<noteq> pr_id q"
  using assms distinct_idD [OF assms(1,4,2)] by (auto simp: set_update_where)

end

interpretation cancelled: close_request "cancel_request now by_whom" for now by_whom
  by unfold_locales (simp_all add: cancel_request_def)

interpretation rejected: close_request "review_request now ProductionApprovalRequestStatus_REJECTED n" for now n
  by unfold_locales (simp_all add: review_request_def)

interpretation approved: close_request "review_request now ProductionApprovalRequestStatus_APPROVED n" for now n
  by unfold_locales (simp_all add: review_request_def)

lemma partner_ok_mono:
  assumes "partner_ok s p" "pa_id p' = pa_id p"
    "pa_productionEnabled p' \<longleftrightarrow> pa_onboardingStage p' = PartnerOnboardingStage_PRODUCTION_APPROVED"
    "pa_fullAttestationPartnerEnabled p' \<longrightarrow> pa_dataPartnerEnabled p'" "pa_productionEnabled p' \<longrightarrow> pa_productionEnabled p"
    "\<And>r. approval_of s p r \<Longrightarrow> approval_of s' p r"
  shows "partner_ok s' p'"
proof -
  have "approval_of s' p' r = approval_of s' p r" for r using assms(2) by (simp add: approval_of_def)
  then show ?thesis using assms by (auto simp: partner_ok_def)
qed

lemma partner_ok_same:
  "partner_ok s p \<Longrightarrow> (\<And>r. approval_of s p r \<Longrightarrow> approval_of s' p r) \<Longrightarrow> partner_ok s' p"
  by (auto simp: partner_ok_def)

text \<open>A step that closes a pending request without approving it.\<close>

lemma production_ok_close:
  assumes ok: "production_ok E t s" and c: "close_request f"
    and q: "q \<in> set (approvalRequests s)" "pr_status q = ProductionApprovalRequestStatus_PENDING"
    and s': "production_tables s' = (partners s, update_where (\<lambda>x. pr_id x = pr_id q) f (approvalRequests s),
      approvedCorridors s, productionCorridors s)" "nextId s \<le> nextId s'"
  shows "production_ok E t s'"
proof -
  note k = ok [unfolded production_ok_def]
  have approval: "approval_of s' p r" if "approval_of s p r" for p r
  proof -
    from that have r: "r \<in> set (approvalRequests s)" "pr_status r \<noteq> ProductionApprovalRequestStatus_PENDING"
      by (auto simp: approval_of_def)
    have "r \<in> set (approvalRequests s')"
      using close_request.close_others [OF c _ q r] k s'(1) by simp
    with that s'(1) show ?thesis by (simp add: approval_of_def)
  qed
  have "\<forall>p \<in> set (partners s'). partner_ok s' p"
    using k s'(1) approval by (auto intro: partner_ok_same)
  then show ?thesis
    using k s' close_request.close_ids [OF c, of "pr_id q" "approvalRequests s"]
      close_request.close_times [OF c, of "approvalRequests s" t "pr_id q"]
      close_request.close_latest [OF c, of "approvalRequests s" "pr_id q"]
      drawn_mono [OF _ s'(2), of E]
    by (simp add: production_ok_def)
qed

lemma production_ok_later: "production_ok E t s \<Longrightarrow> t \<le> now \<Longrightarrow> production_ok E now s"
  by (auto simp: production_ok_def)

lemma production_ok_same:
  assumes "production_ok E t s" "partners s' = partners s" "approvalRequests s' = approvalRequests s"
    "approvedCorridors s' = approvedCorridors s" "nextId s \<le> nextId s'"
    "distinct (map corridor_key (productionCorridors s'))"
  shows "production_ok E t s'"
proof -
  have "partner_ok s' p = partner_ok s p" for p
    using assms by (simp add: partner_ok_def approval_of_def)
  then show ?thesis using assms by (auto simp: production_ok_def intro: drawn_mono)
qed

lemma production_ok_request:
  assumes ok: "production_ok E t s" and lt: "t < now" and inj: "inj (cuid E)"
    and req: "requestProductionApproval E now p reason ids s = (r, s')"
  shows "production_ok E now s'"
proof (cases rule: request_cases [OF req])
  case (1 e)
  then show ?thesis using ok lt by (simp add: production_ok_later)
next
  case (2 v partner)
  note k = ok [unfolded production_ok_def]
  let ?n = "new_request now (cuid E (nextId s)) p (normalizeOptionalNote reason)"
  have n: "pr_id ?n = cuid E (nextId s)" "pr_partnerId ?n = ap_partnerId p" "pr_requestedAt ?n = now"
    by (simp_all add: new_request_def)
  have none: "\<not> pending_of (ap_partnerId p) x" if x: "x \<in> set (approvalRequests s)" for x
  proof
    assume "pending_of (ap_partnerId p) x"
    with latest_pending [OF _ x] k have "getLatestProductionApprovalRequest (ap_partnerId p) s = Some x" by blast
    with \<open>pending_of (ap_partnerId p) x\<close> 2(3) show False
      by (auto simp: request_refused_def latest_is_def pending_of_def Let_def split: if_splits)
  qed
  have early: "pr_requestedAt x < now" if "x \<in> set (approvalRequests s)" for x using k that lt by force
  have latest: "pending_latest (approvalRequests s @ [?n])"
    using k none early n by (auto simp: pending_latest_def pending_of_def)
  have new: "cuid E (nextId s) \<notin> set (map pr_id (approvalRequests s))"
    using k by (intro drawn_fresh [OF _ inj order_refl]) simp
  have tables: "partners s' = partners s" "approvalRequests s' = approvalRequests s @ [?n]"
    "approvedCorridors s' = approvedCorridors s" "productionCorridors s' = productionCorridors s"
    using 2(4) by simp_all
  have "partner_ok s' q" if "q \<in> set (partners s)" for q
  proof (rule partner_ok_same)
    show "partner_ok s q" using k that by blast
    show "approval_of s q r \<Longrightarrow> approval_of s' q r" for r by (simp add: approval_of_def tables)
  qed
  then have "\<forall>p \<in> set (partners s'). partner_ok s' p" by (simp add: tables)
  moreover have "drawn E (nextId s') (map pr_id (approvalRequests s))" "drawn E (nextId s') (map pa_id (partners s))"
    using k 2(5) by (auto intro: drawn_mono)
  moreover have "\<exists>m < nextId s'. cuid E (nextId s) = cuid E m" using 2(5) by blast
  moreover have "\<forall>r \<in> set (approvalRequests s'). pr_requestedAt r \<le> now"
    using early n(3) by (auto simp: tables intro: less_imp_le)
  ultimately show ?thesis
    using k n new latest by (simp add: production_ok_def tables)
qed

lemma production_ok_approve:
  assumes ok: "production_ok E t s"
    and q: "q \<in> set (approvalRequests s)" "pr_status q = ProductionApprovalRequestStatus_PENDING"
    and reqs: "approvalRequests s' = update_where (\<lambda>x. pr_id x = pr_id q)
      (review_request now ProductionApprovalRequestStatus_APPROVED n) (approvalRequests s)"
    and granted: "approvedCorridors s' = delete_where (\<lambda>a. aq_requestId a = pr_id q) (approvedCorridors s) @ ws"
      "ws \<noteq> []" "\<forall>a \<in> set ws. aq_requestId a = pr_id q"
    and enabled: "partners s' = update_where (\<lambda>p. pa_id p = pr_partnerId q) enable_production (partners s)"
    and later: "nextId s \<le> nextId s'"
    and corridors: "distinct (map corridor_key (productionCorridors s'))"
  shows "production_ok E t s'"
proof -
  let ?f = "review_request now ProductionApprovalRequestStatus_APPROVED n"
  note k = ok [unfolded production_ok_def]
  have approval: "approval_of s' p r" if "approval_of s p r" for p r
  proof -
    from that have r: "r \<in> set (approvalRequests s)" "pr_status r \<noteq> ProductionApprovalRequestStatus_PENDING"
      by (auto simp: approval_of_def)
    have "r \<in> set (approvalRequests s')" "pr_id r \<noteq> pr_id q"
      using approved.close_others [OF _ q r, of now n] k reqs by auto
    with that granted(1) show ?thesis by (auto simp: approval_of_def delete_where_def)
  qed
  have new: "approval_of s' p (?f q)" if "pa_id p = pr_partnerId q" for p
  proof -
    obtain a where "a \<in> set ws" using granted(2) by (cases ws) auto
    then show ?thesis
      using that q granted reqs by (auto simp: approval_of_def review_request_def set_update_where)
  qed
  have "partner_ok s' p'" if p': "p' \<in> set (partners s')" for p'
  proof -
    from p' enabled obtain p where p: "p \<in> set (partners s)"
      "p' = p \<and> pa_id p \<noteq> pr_partnerId q \<or> p' = enable_production p \<and> pa_id p = pr_partnerId q"
      by (auto elim: in_update_whereE)
    then have "partner_ok s p" using k by blast
    from p(2) show ?thesis
    proof
      assume "p' = p \<and> pa_id p \<noteq> pr_partnerId q"
      then show ?thesis using \<open>partner_ok s p\<close> approval by (auto intro: partner_ok_same)
    next
      assume p': "p' = enable_production p \<and> pa_id p = pr_partnerId q"
      then have "approval_of s' p' (?f q)" using new [of p'] by (simp add: enable_production_def)
      then show ?thesis using p' \<open>partner_ok s p\<close> by (auto simp: partner_ok_def enable_production_def)
    qed
  qed
  moreover have "map pa_id (partners s') = map pa_id (partners s)"
    unfolding enabled by (rule map_update_where) (simp add: enable_production_def)
  ultimately show ?thesis
    using k reqs later corridors approved.close_ids [of "pr_id q" now n "approvalRequests s"]
      approved.close_times [of "approvalRequests s" t "pr_id q" now n]
      approved.close_latest [of "approvalRequests s" "pr_id q" now n] drawn_mono [OF _ later, of E]
    by (simp add: production_ok_def)
qed

lemma production_ok_admin:
  assumes ok: "production_ok E t s" and adm: "updatePartnerAdminState E now i dto s = (r, s')"
  shows "production_ok E t s'"
proof (cases rule: admin_state_cases [OF adm])
  case (1 e)
  then show ?thesis using ok by simp
next
  case (2 p)
  note k = ok [unfolded production_ok_def]
  have tables: "partners s' = update_where (\<lambda>x. pa_id x = pa_id p) (admin_state_update dto) (partners s)"
    "approvalRequests s' = approvalRequests s" "approvedCorridors s' = approvedCorridors s"
    "productionCorridors s' = productionCorridors s"
    using 2(5) by simp_all
  have ids: "map pa_id (partners s') = map pa_id (partners s)"
    unfolding tables by (rule map_update_where) (simp add: admin_state_update_def)
  have approval: "approval_of s' q x = approval_of s q x" for q x by (simp add: approval_of_def tables)
  have "partner_ok s' q'" if q': "q' \<in> set (partners s')" for q'
  proof -
    from q' tables(1) obtain q where q: "q \<in> set (partners s)"
      "q' = q \<or> q' = admin_state_update dto q \<and> pa_id q = pa_id p"
      by (auto elim: in_update_whereE)
    have ok_q: "partner_ok s q" using k q(1) by blast
    from q(2) show ?thesis
    proof
      assume "q' = q"
      then show ?thesis using ok_q approval by (simp add: partner_ok_def)
    next
      assume "q' = admin_state_update dto q \<and> pa_id q = pa_id p"
      moreover from this have "q = p" using distinct_idD [of pa_id "partners s" q p] k q(1) 2(1) by blast
      ultimately have q'_eq: "q' = admin_state_update dto p" and ok_p: "partner_ok s p" using ok_q by auto
      show ?thesis
      proof (rule partner_ok_mono [OF ok_p])
        show "pa_productionEnabled q' \<longleftrightarrow> pa_onboardingStage q' = PartnerOnboardingStage_PRODUCTION_APPROVED"
          unfolding q'_eq using 2(4) by (simp add: admin_state_update_def)
        show "pa_fullAttestationPartnerEnabled q' \<longrightarrow> pa_dataPartnerEnabled q'"
          unfolding q'_eq using 2(3) by (simp add: admin_state_update_def)
      qed (simp_all add: q'_eq admin_state_update_def approval)
    qed
  qed
  then show ?thesis
    using k ids tables drawn_mono [OF _ 2(6), of E] by (simp add: production_ok_def)
qed

lemma production_ok_create:
  assumes ok: "production_ok E t s" and inj: "inj (cuid E)" and cr: "createPartner E now dto s = (r, s')"
  shows "production_ok E t s'"
proof (cases rule: create_partner_cases [OF cr])
  case (1 e)
  then show ?thesis using ok by simp
next
  case (2 p)
  note k = ok [unfolded production_ok_def]
  have tables: "partners s' = partners s @ [p]" "approvalRequests s' = approvalRequests s"
    "approvedCorridors s' = approvedCorridors s" "productionCorridors s' = productionCorridors s"
    using 2(6) by simp_all
  have "partner_ok s' p" using 2(2-4) by (simp add: partner_ok_def)
  moreover have "partner_ok s' q" if "q \<in> set (partners s)" for q
  proof (rule partner_ok_same)
    show "partner_ok s q" using k that by blast
    show "approval_of s q r \<Longrightarrow> approval_of s' q r" for r by (simp add: approval_of_def tables)
  qed
  moreover have "cuid E (nextId s) \<notin> set (map pa_id (partners s))"
    using k by (intro drawn_fresh [OF _ inj order_refl]) simp
  moreover have "drawn E (nextId s') (map pr_id (approvalRequests s))" "drawn E (nextId s') (map pa_id (partners s))"
    using k 2(7) by (auto intro: drawn_mono)
  moreover have "\<exists>m < nextId s'. cuid E (nextId s) = cuid E m" using 2(7) by blast
  ultimately show ?thesis
    using k 2(5) by (auto simp: production_ok_def tables)
qed

lemma production_ok_step:
  assumes ok: "production_ok E t s" and lt: "t < now" and inj: "inj (cuid E)" and st: "production_step E now s s'"
  shows "production_ok E now s'"
proof -
  have ok': "production_ok E now s" using ok lt by (simp add: production_ok_later)
  from st show ?thesis
  proof cases
    case create
    then show ?thesis using production_ok_create [OF ok' inj] by blast
  next
    case request
    then show ?thesis using production_ok_request [OF ok lt inj] by blast
  next
    case (cancel p i r)
    show ?thesis
    proof (cases rule: cancel_cases [OF cancel])
      case 2
      then show ?thesis using production_ok_close [OF ok' cancelled.close_request_axioms] by blast
    qed (use ok' in simp)
  next
    case (review i decision reason ids r)
    show ?thesis
    proof (cases rule: review_cases [OF review])
      case 2
      then show ?thesis using production_ok_close [OF ok' rejected.close_request_axioms] by blast
    next
      case (3 q ws)
      show ?thesis
        by (rule production_ok_approve [OF ok' 3(2-9)]) (use 3(10) ok' in \<open>simp add: production_ok_def\<close>)
    qed (use ok' in simp)
  next
    case admin
    then show ?thesis using production_ok_admin [OF ok'] by blast
  next
    case corridor
    note c = corridor_update_cases [OF corridor]
    show ?thesis
      by (rule production_ok_same [OF ok']) (use c ok' in \<open>simp_all add: production_ok_def\<close>)
  next
    case other
    show ?thesis
      by (rule production_ok_same [OF ok']) (use other ok' in \<open>simp_all add: production_ok_def\<close>)
  qed
qed

lemma production_run_ok:
  "production_run E s t s' \<Longrightarrow> s = empty_db \<Longrightarrow> inj (cuid E) \<Longrightarrow> production_ok E t s'"
proof (induction rule: production_run.induct)
  case start
  show ?case by (simp add: production_ok_def empty_db_def pending_latest_def)
next
  case step
  then show ?case by (blast intro: production_ok_step)
qed

text \<open>C14: In every state that the operations reach, a partner is enabled for production only with a request of
  its own that the operator reviewed and approved with at least one corridor, and exactly when its
  onboarding stage says so; full attestation implies data contribution; a partner has at most one pending
  request; and a corridor has one row per partner.\<close>

theorem production_only_after_review:
  assumes "production_run E empty_db t s" "inj (cuid E)"
  shows "(\<forall>p \<in> set (partners s).
        (pa_productionEnabled p \<longleftrightarrow> pa_onboardingStage p = PartnerOnboardingStage_PRODUCTION_APPROVED) \<and>
        (pa_fullAttestationPartnerEnabled p \<longrightarrow> pa_dataPartnerEnabled p) \<and>
        (pa_productionEnabled p \<longrightarrow>
          (\<exists>r \<in> set (approvalRequests s). pr_partnerId r = pa_id p \<and>
             pr_status r = ProductionApprovalRequestStatus_APPROVED \<and> pr_reviewedByIdentifier r = Some ''admin-token'' \<and>
             (\<exists>a \<in> set (approvedCorridors s). aq_requestId a = pr_id r)))) \<and>
     (\<forall>r \<in> set (approvalRequests s). \<forall>q \<in> set (approvalRequests s).
        pr_partnerId r = pr_partnerId q \<and> pr_status r = ProductionApprovalRequestStatus_PENDING \<and>
        pr_status q = ProductionApprovalRequestStatus_PENDING \<longrightarrow> r = q) \<and>
     distinct (map (\<lambda>c. (pc_partnerId c, pc_assetNetworkId c)) (productionCorridors s))"
proof (intro conjI)
  note k = production_run_ok [OF assms(1) refl assms(2), unfolded production_ok_def]
  show "\<forall>p \<in> set (partners s).
        (pa_productionEnabled p \<longleftrightarrow> pa_onboardingStage p = PartnerOnboardingStage_PRODUCTION_APPROVED) \<and>
        (pa_fullAttestationPartnerEnabled p \<longrightarrow> pa_dataPartnerEnabled p) \<and>
        (pa_productionEnabled p \<longrightarrow>
          (\<exists>r \<in> set (approvalRequests s). pr_partnerId r = pa_id p \<and>
             pr_status r = ProductionApprovalRequestStatus_APPROVED \<and> pr_reviewedByIdentifier r = Some ''admin-token'' \<and>
             (\<exists>a \<in> set (approvedCorridors s). aq_requestId a = pr_id r)))"
    using k unfolding partner_ok_def approval_of_def Bex_def by blast
  show "\<forall>r \<in> set (approvalRequests s). \<forall>q \<in> set (approvalRequests s).
        pr_partnerId r = pr_partnerId q \<and> pr_status r = ProductionApprovalRequestStatus_PENDING \<and>
        pr_status q = ProductionApprovalRequestStatus_PENDING \<longrightarrow> r = q"
    using k unfolding pending_latest_def by (metis order_less_asym)
  show "distinct (map (\<lambda>c. (pc_partnerId c, pc_assetNetworkId c)) (productionCorridors s))"
    using k by (simp add: corridor_key_def cong: map_cong)
qed

section \<open>The profile tells the truth\<close>

lemma corridors_found:
  assumes "distinct (map an_id (assetNetworks s))" "distinct ids"
  shows "(\<exists>cs. getActiveAssetNetworksByIds ids s = Inr cs) \<longleftrightarrow> set ids \<subseteq> corridor_id ` set (active_corridors s)"
proof -
  let ?cs = "filter (\<lambda>c. List.member ids (corridor_id c)) (active_corridors s)"
  have sub: "\<exists>ns :: AssetNetwork list. map corridor_id (active_corridors s) = map an_id ns \<and> distinct (map an_id ns)"
  proof -
    have "map corridor_id (filter corridor_active (List.map_filter (network_of s) xs)) =
        map an_id (filter (\<lambda>n. \<exists>c. network_of s n = Some c \<and> corridor_active c) xs)" for xs
      by (induction xs) (auto simp: List.map_filter_simps corridor_id_def network_of_def split: option.splits)
    then have "map corridor_id (active_corridors s) =
        map an_id (filter (\<lambda>n. \<exists>c. network_of s n = Some c \<and> corridor_active c) (assetNetworks s))"
      by (simp only: active_corridors_def)
    moreover have "distinct (map an_id (filter (\<lambda>n. \<exists>c. network_of s n = Some c \<and> corridor_active c) (assetNetworks s)))"
      by (rule distinct_map_filter [OF assms(1)])
    ultimately show ?thesis by blast
  qed
  then have "distinct (map corridor_id (active_corridors s))" by auto
  then have d: "distinct (map corridor_id ?cs)" by (rule distinct_map_filter)
  have s: "set (map corridor_id ?cs) = set ids \<inter> corridor_id ` set (active_corridors s)"
    by auto
  have "length ?cs = length ids \<longleftrightarrow> card (set ids \<inter> corridor_id ` set (active_corridors s)) = card (set ids)"
    using distinct_card [OF d] distinct_card [OF assms(2)] unfolding s by simp
  also have "\<dots> \<longleftrightarrow> set ids \<subseteq> corridor_id ` set (active_corridors s)"
    by (metis List.finite_set card_subset_eq inf.absorb_iff1 inf_le1)
  finally show ?thesis by (simp add: getActiveAssetNetworksByIds_def Let_def)
qed

text \<open>The check of the handlers and the profile agree on who may manage approval.\<close>

lemma approval_access_iff:
  assumes "distinct (map us_id (partnerUsers s))"
    "\<And>u. signed_in_user p s = Some u \<Longrightarrow> user_active u"
  shows "assertProductionApprovalAccess p s = Inr () \<longleftrightarrow>
     ap_actorType p = PARTNER_USER \<and> ap_partnerUserId p \<noteq> None \<and>
     (case signed_in_user p s of None \<Rightarrow> False | Some u \<Rightarrow> manages_approval (us_role u))"
proof (cases "ap_partnerUserId p")
  case None
  then show ?thesis by (simp add: assertProductionApprovalAccess_def falsy_def)
next
  case (Some i)
  show ?thesis
  proof (cases "i = []")
    case True
    then show ?thesis using Some by (simp add: assertProductionApprovalAccess_def falsy_def signed_in_user_def)
  next
    case False
    let ?P = "\<lambda>u. us_id u = i \<and> us_partnerId u = ap_partnerId p"
    have u: "signed_in_user p s = List.find ?P (partnerUsers s)"
      using Some False by (simp add: signed_in_user_def falsy_def own_user_def)
    have "List.find (\<lambda>u. Some (us_id u) = ap_partnerUserId p \<and> us_partnerId u = ap_partnerId p \<and> user_active u)
        (partnerUsers s) = signed_in_user p s"
    proof (cases "List.find ?P (partnerUsers s)")
      case None
      then have "List.find (\<lambda>u. Some (us_id u) = ap_partnerUserId p \<and> us_partnerId u = ap_partnerId p \<and> user_active u)
          (partnerUsers s) = None"
        using Some by (auto simp: find_None_iff)
      then show ?thesis using None u by simp
    next
      case (Some v)
      then have v: "v \<in> set (partnerUsers s)" "?P v" "user_active v"
        using find_SomeD [OF Some] assms(2) u by auto
      have "List.find (\<lambda>u. Some (us_id u) = ap_partnerUserId p \<and> us_partnerId u = ap_partnerId p \<and> user_active u)
          (partnerUsers s) = List.find ?P (partnerUsers s)"
      proof (rule find_cong [OF refl])
        fix x assume x: "x \<in> set (partnerUsers s)"
        have "x = v" if "us_id x = i" using distinct_idD [OF assms(1) x v(1)] v(2) that by simp
        then show "(Some (us_id x) = ap_partnerUserId p \<and> us_partnerId x = ap_partnerId p \<and> user_active x) = ?P x"
          using v(3) \<open>ap_partnerUserId p = Some i\<close> by auto
      qed
      then show ?thesis using u by simp
    qed
    then show ?thesis
      using Some False by (auto simp: assertProductionApprovalAccess_def falsy_def split: option.splits)
  qed
qed

lemma distinct_normalized: "distinct (normalizeRequestedAssetNetworkIds ids)"
  by (simp add: normalizeRequestedAssetNetworkIds_def split: option.split)

lemma requested_iff:
  assumes "getPartnerByIdOrThrow (ap_partnerId p) s = Inr partner"
  shows "(\<exists>v. fst (requestProductionApproval E now p reason ids s) = Inr v) \<longleftrightarrow>
     (assertProductionApprovalAccess p s = Inr () \<and>
      request_refused partner (getPartnerOperationalCounts (ap_partnerId p) s)
        (getLatestProductionApprovalRequest (ap_partnerId p) s) = None) \<and>
     (\<exists>cs. getActiveAssetNetworksByIds (normalizeRequestedAssetNetworkIds ids) s = Inr cs)"
proof -
  have nil: "\<exists>cs. getActiveAssetNetworksByIds [] s = Inr cs" by (simp add: getActiveAssetNetworksByIds_def)
  show ?thesis
  proof (cases "assertProductionApprovalAccess p s")
    case (Inr u)
    show ?thesis
    proof (cases "request_refused partner (getPartnerOperationalCounts (ap_partnerId p) s)
        (getLatestProductionApprovalRequest (ap_partnerId p) s)")
      case None
      show ?thesis
        using nil
        by (cases "normalizeRequestedAssetNetworkIds ids = []";
            cases "getActiveAssetNetworksByIds (normalizeRequestedAssetNetworkIds ids) s")
          (simp_all add: requestProductionApproval_def assms Inr None fresh_def Let_def)
    qed (simp add: requestProductionApproval_def assms Inr)
  qed (simp add: requestProductionApproval_def)
qed

lemma latest_mem:
  "getLatestProductionApprovalRequest i s = Some r \<Longrightarrow> r \<in> set (approvalRequests s) \<and> pr_partnerId r = i"
  unfolding getLatestProductionApprovalRequest_def by (drule find_SomeD) simp

lemma cancelled_iff:
  assumes r: "r \<in> set (approvalRequests s) \<and> pr_partnerId r = ap_partnerId p"
    and keys: "distinct (map pr_id (approvalRequests s))" and i: "js_trim (pr_id r) = pr_id r" "pr_id r \<noteq> []"
  shows "(\<exists>v. fst (cancelProductionApprovalRequest E now p (pr_id r) s) = Inr v) \<longleftrightarrow>
    assertProductionApprovalAccess p s = Inr () \<and> pr_status r = ProductionApprovalRequestStatus_PENDING"
proof -
  have "List.find (\<lambda>x. pr_id x = pr_id r \<and> pr_partnerId x = ap_partnerId p) (approvalRequests s) = Some r"
  proof (cases "List.find (\<lambda>x. pr_id x = pr_id r \<and> pr_partnerId x = ap_partnerId p) (approvalRequests s)")
    case None
    then show ?thesis using r by (auto simp: find_None_iff)
  next
    case (Some x)
    then show ?thesis using find_SomeD [OF Some] distinct_idD [OF keys, of x r] r by simp
  qed
  then show ?thesis
    using i by (cases "assertProductionApprovalAccess p s") (simp_all add: cancelProductionApprovalRequest_def Let_def)
qed

text \<open>C15: The profile tells a signed-in user exactly what the handlers do: it offers to request production
  approval when no reason blocks it, and then and only then a request is accepted, provided the corridors
  it names are active; it offers to cancel exactly when cancelling the latest request succeeds.\<close>

theorem request_accepted_iff_can_request:
  assumes profile: "getPartnerProfile E now p s = Inr f"
    and keys: "distinct (map us_id (partnerUsers s))" "distinct (map pr_id (approvalRequests s))"
      "distinct (map an_id (assetNetworks s))"
    and active: "\<And>u. signed_in_user p s = Some u \<Longrightarrow> user_active u"
  shows "(as_canRequest (pf_productionApproval f) \<longleftrightarrow> as_blockedReason (pf_productionApproval f) = None) \<and>
     ((\<exists>v. fst (requestProductionApproval E now p reason ids s) = Inr v) \<longleftrightarrow>
        as_canRequest (pf_productionApproval f) \<and>
        set (normalizeRequestedAssetNetworkIds ids) \<subseteq> corridor_id ` set (active_corridors s)) \<and>
     (case as_latestRequest (pf_productionApproval f) of
        None \<Rightarrow> \<not> as_canCancel (pf_productionApproval f)
      | Some r \<Rightarrow> js_trim (pr_id r) = pr_id r \<and> pr_id r \<noteq> [] \<longrightarrow>
          ((\<exists>v. fst (cancelProductionApprovalRequest E now p (pr_id r) s) = Inr v) \<longleftrightarrow>
             as_canCancel (pf_productionApproval f)))"
proof -
  from profile obtain partner where row: "getPartnerByIdOrThrow (ap_partnerId p) s = Inr partner"
    by (auto simp: getPartnerProfile_def split: sum.splits)
  let ?counts = "getPartnerOperationalCounts (ap_partnerId p) s"
  let ?latest = "getLatestProductionApprovalRequest (ap_partnerId p) s"
  let ?next = "resolveNextRecommendedAction partner ?counts ?latest"
  have f: "pf_productionApproval f = buildPartnerProductionApprovalSummary p (signed_in_user p s) partner ?counts ?latest"
    using profile row by (auto simp: getPartnerProfile_def Let_def)
  have access: "assertProductionApprovalAccess p s = Inr () \<longleftrightarrow>
     ap_actorType p = PARTNER_USER \<and> ap_partnerUserId p \<noteq> None \<and>
     (case signed_in_user p s of None \<Rightarrow> False | Some u \<Rightarrow> manages_approval (us_role u))"
    by (rule approval_access_iff) (use keys(1) active in blast)+
  have await: "?next = Some ''await_production_review'' \<longleftrightarrow> latest_is ProductionApprovalRequestStatus_PENDING ?latest"
    by (simp add: resolveNextRecommendedAction_def)
  have can: "as_canRequest (pf_productionApproval f) \<longleftrightarrow>
      assertProductionApprovalAccess p s = Inr () \<and> request_refused partner ?counts ?latest = None"
    unfolding access f using await
    by (auto simp: buildPartnerProductionApprovalSummary_def request_refused_def Let_def)
  have none: "as_canRequest (pf_productionApproval f) \<longleftrightarrow> as_blockedReason (pf_productionApproval f) = None"
    unfolding f using await
    by (auto simp: buildPartnerProductionApprovalSummary_def resolveProductionApprovalBlockedReason_def Let_def)
  have requested: "(\<exists>v. fst (requestProductionApproval E now p reason ids s) = Inr v) \<longleftrightarrow>
      as_canRequest (pf_productionApproval f) \<and>
      set (normalizeRequestedAssetNetworkIds ids) \<subseteq> corridor_id ` set (active_corridors s)"
    unfolding can requested_iff [OF row] using corridors_found [OF keys(3), of "normalizeRequestedAssetNetworkIds ids"]
    by (simp add: distinct_normalized)
  have cancel: "(\<exists>v. fst (cancelProductionApprovalRequest E now p (pr_id r) s) = Inr v) \<longleftrightarrow>
      as_canCancel (pf_productionApproval f)"
    if r: "as_latestRequest (pf_productionApproval f) = Some r" "js_trim (pr_id r) = pr_id r" "pr_id r \<noteq> []" for r
  proof -
    have "?latest = Some r" using r(1) f by (simp add: buildPartnerProductionApprovalSummary_def Let_def)
    then have "as_canCancel (pf_productionApproval f) \<longleftrightarrow>
        assertProductionApprovalAccess p s = Inr () \<and> pr_status r = ProductionApprovalRequestStatus_PENDING"
      unfolding access f by (auto simp: buildPartnerProductionApprovalSummary_def latest_is_def Let_def)
    then show ?thesis
      using cancelled_iff [OF latest_mem [OF \<open>?latest = Some r\<close>] keys(2) r(2,3)] by simp
  qed
  show ?thesis
    using none requested cancel f
    by (auto simp: buildPartnerProductionApprovalSummary_def latest_is_def Let_def split: option.splits)
qed

section \<open>A partner on its way to production\<close>

definition first_dto :: CreatePartnerDto where
  "first_dto = \<lparr>cp_slug = ''acme'', cp_displayName = ''Acme'', cp_partnerType = PartnerType_WALLET, cp_pricingPlan = None\<rparr>"

definition quiet_dto :: UpdatePartnerAdminStateDto where
  "quiet_dto = \<lparr>ua_status = None, ua_onboardingStage = None, ua_feedHealthStatus = None, ua_pricingPlan = None,
     ua_apiConsumerEnabled = Some False, ua_dataPartnerEnabled = None, ua_fullAttestationPartnerEnabled = None,
     ua_webhooksEnabled = Some False, ua_batchVerificationEnabled = None, ua_auditExportsEnabled = None,
     ua_sandboxEnabled = None\<rparr>"

definition first_owner :: PartnerUser where
  "first_owner = new_user 0 ''u'' ''c0'' ''o@x.io'' ''Olive'' PartnerUserRole_OWNER ownerDashboardScopes ''hash'' None"

definition first_principal :: AuthenticatedPartner where
  "first_principal = demo_partner\<lparr>ap_actorType := PARTNER_USER, ap_partnerId := ''c0'', ap_partnerUserId := Some ''u''\<rparr>"

definition with_corridors :: "db \<Rightarrow> db" where
  "with_corridors s = s\<lparr>partnerUsers := [first_owner], chains := [demo_chain], assets := [demo_asset],
     assetNetworks := [demo_network]\<rparr>"

definition created_db :: db where "created_db = snd (createPartner demo_env 1 first_dto empty_db)"
definition ready_db :: db where
  "ready_db = with_corridors (snd (updatePartnerAdminState demo_env 2 ''c0'' quiet_dto created_db))"
definition requested_db :: db where
  "requested_db = snd (requestProductionApproval demo_env 4 first_principal None (Some [''an'']) ready_db)"
definition approved_db :: db where
  "approved_db = snd (reviewProductionApprovalRequest demo_env 5 ''c4'' Decision_APPROVED None None requested_db)"


definition first_partner :: Partner where
  "first_partner = new_partner 1 ''c0'' ''acme'' first_dto"

lemma demo_ids: "cuid demo_env 0 = ''c0''" "cuid demo_env (Suc (Suc (Suc (Suc 0)))) = ''c4''"
  by code_simp+

lemma trims: "js_trim ''c0'' = ''c0''" "js_trim ''c4'' = ''c4''" "js_trim ''an'' = ''an''" "normalizePartnerSlug ''acme'' = Inr ''acme''"
  "js_trim ''Acme'' = ''Acme''"
  by code_simp+

lemma created_rows:
  "partners created_db = [first_partner]" "approvalRequests created_db = []" "nextId created_db = 3"
  "requestedCorridors created_db = []"
  by (simp_all add: created_db_def createPartner_def first_dto_def trims fresh_def Let_def demo_ids first_partner_def empty_db_def)

lemma ready_rows:
  "partners ready_db = [admin_state_update quiet_dto first_partner]" "approvalRequests ready_db = []" "nextId ready_db = 4"
  "requestedCorridors ready_db = []" "partnerUsers ready_db = [first_owner]"
  "assetNetworks ready_db = [demo_network]" "chains ready_db = [demo_chain]" "assets ready_db = [demo_asset]"
  using created_rows
  by (simp_all add: ready_db_def updatePartnerAdminState_def getPartnerByIdOrThrow_def partner_row_def trims with_corridors_def
    Let_def quiet_dto_def admin_state_given_def first_partner_def new_partner_def)

lemma ready_next:
  "resolveNextRecommendedAction (admin_state_update quiet_dto first_partner) counts None = Some ''request_production_approval''"
  by (simp add: resolveNextRecommendedAction_def latest_is_def isDataContributorPartner_def admin_state_update_def
    quiet_dto_def first_partner_def new_partner_def)

lemma requested_rows:
  "\<exists>r. approvalRequests requested_db = [r] \<and> pr_id r = ''c4'' \<and> pr_partnerId r = ''c0'' \<and>
     pr_status r = ProductionApprovalRequestStatus_PENDING"
  "partners requested_db = [admin_state_update quiet_dto first_partner]"
  "requested_corridors requested_db ''c4'' = [(demo_network, demo_asset, demo_chain)]"
proof -
  have access: "assertProductionApprovalAccess first_principal ready_db = Inr ()"
    using ready_rows(5) by (simp add: assertProductionApprovalAccess_def first_principal_def falsy_def first_owner_def
      new_user_def user_active_def manages_approval_def)
  have p: "getPartnerByIdOrThrow ''c0'' ready_db = Inr (admin_state_update quiet_dto first_partner)"
    using ready_rows(1) by (simp add: getPartnerByIdOrThrow_def partner_row_def admin_state_update_def first_partner_def new_partner_def)
  have latest: "getLatestProductionApprovalRequest ''c0'' ready_db = None"
    using ready_rows(2) by (simp add: getLatestProductionApprovalRequest_def order_desc_def)
  have ok: "request_refused (admin_state_update quiet_dto first_partner) counts None = None" for counts
    by (simp add: request_refused_def ready_next latest_is_def Let_def)
      (simp add: admin_state_update_def quiet_dto_def first_partner_def new_partner_def)
  have c: "getActiveAssetNetworksByIds [''an''] ready_db = Inr [(demo_network, demo_asset, demo_chain)]"
    using ready_rows(6-8)
    by (simp add: getActiveAssetNetworksByIds_def active_corridors_def network_of_def List.map_filter_simps
        demo_network_def demo_asset_def demo_chain_def corridor_active_def corridor_id_def)
  have i: "normalizeRequestedAssetNetworkIds (Some [''an'']) = [''an'']" by code_simp
  have pid: "ap_partnerId first_principal = ''c0''" by (simp add: first_principal_def)
  note unfold = requestProductionApproval_def access p pid latest ok i c fresh_def ready_rows demo_ids Let_def
    numeral_eq_Suc new_request_def
  show "\<exists>r. approvalRequests requested_db = [r] \<and> pr_id r = ''c4'' \<and> pr_partnerId r = ''c0'' \<and>
     pr_status r = ProductionApprovalRequestStatus_PENDING"
    by (simp add: requested_db_def unfold)
  show "partners requested_db = [admin_state_update quiet_dto first_partner]"
    by (simp add: requested_db_def unfold)
  show "requested_corridors requested_db ''c4'' = [(demo_network, demo_asset, demo_chain)]"
    by (simp add: requested_db_def unfold requested_corridors_def corridor_of_def network_of_def List.map_filter_simps
        demo_network_def demo_asset_def demo_chain_def)
qed
lemma approved:
  "\<exists>p. p \<in> set (partners approved_db) \<and> pa_productionEnabled p"
proof -
  obtain r where r: "approvalRequests requested_db = [r]" "pr_id r = ''c4''" "pr_partnerId r = ''c0''"
    "pr_status r = ProductionApprovalRequestStatus_PENDING"
    using requested_rows(1) by blast
  have partner: "pa_id (admin_state_update quiet_dto first_partner) = ''c0''"
    by (simp add: admin_state_update_def first_partner_def new_partner_def)
  have "\<exists>v. fst (reviewProductionApprovalRequest demo_env 5 ''c4'' Decision_APPROVED None None requested_db) = Inr v"
    using requested_rows(2,3) r trims(2) partner
    by (simp add: reviewProductionApprovalRequest_def partner_row_def normalizeRequestedAssetNetworkIds_def Let_def)
  then obtain v where "reviewProductionApprovalRequest demo_env 5 ''c4'' Decision_APPROVED None None requested_db =
      (Inr v, approved_db)"
    by (metis approved_db_def prod.collapse)
  then show ?thesis
  proof (cases rule: review_cases)
    case (3 q ws)
    then show ?thesis using requested_rows(2) r partner by (auto simp: set_update_where enable_production_def)
  qed simp_all
qed

lemmas step_of_snd =
  production_step.create [OF prod.collapse [symmetric]] production_step.admin [OF prod.collapse [symmetric]]
  production_step.request [OF prod.collapse [symmetric]] production_step.review [OF prod.collapse [symmetric]]

lemma corridors_step: "production_step E now s (with_corridors s)"
  by (rule production_step.other) (simp_all add: with_corridors_def)

lemma approved_run: "production_run demo_env empty_db 5 approved_db"
proof -
  have "production_run demo_env empty_db 1 created_db"
    unfolding created_db_def by (rule production_run.step [OF production_run.start [of _ 0] _ step_of_snd(1)]) simp
  then have "production_run demo_env empty_db 2 (snd (updatePartnerAdminState demo_env 2 ''c0'' quiet_dto created_db))"
    by (rule production_run.step [OF _ _ step_of_snd(2)]) simp
  then have "production_run demo_env empty_db 3 ready_db"
    unfolding ready_db_def by (rule production_run.step [OF _ _ corridors_step]) simp
  then have "production_run demo_env empty_db 4 requested_db"
    unfolding requested_db_def by (rule production_run.step [OF _ _ step_of_snd(3)]) simp
  then show ?thesis
    unfolding approved_db_def by (rule production_run.step [OF _ _ step_of_snd(4)]) simp
qed

theorem production_only_after_review_witness:
  "\<exists>p. p \<in> set (partners approved_db) \<and> pa_productionEnabled p \<and>
     pa_onboardingStage p = PartnerOnboardingStage_PRODUCTION_APPROVED \<and>
     (\<exists>r \<in> set (approvalRequests approved_db). pr_partnerId r = pa_id p)"
proof -
  obtain p where p: "p \<in> set (partners approved_db)" "pa_productionEnabled p"
    using approved by blast
  then show ?thesis
    using production_only_after_review [OF approved_run demo_cuid_inj] by blast
qed

theorem request_accepted_iff_can_request_witness:
  "\<exists>f v. getPartnerProfile demo_env 4 first_principal ready_db = Inr f \<and>
     as_canRequest (pf_productionApproval f) \<and>
     fst (requestProductionApproval demo_env 4 first_principal None (Some [''an'']) ready_db) = Inr v"
proof -
  have "signed_in_user first_principal ready_db = Some first_owner" "user_active first_owner"
    using ready_rows(5)
    by (simp_all add: signed_in_user_def own_user_def first_principal_def falsy_def first_owner_def new_user_def user_active_def)
  moreover have "getPartnerByIdOrThrow ''c0'' ready_db = Inr (admin_state_update quiet_dto first_partner)"
    using ready_rows(1)
    by (simp add: getPartnerByIdOrThrow_def partner_row_def admin_state_update_def first_partner_def new_partner_def)
  then obtain f where f: "getPartnerProfile demo_env 4 first_principal ready_db = Inr f"
    by (simp add: getPartnerProfile_def first_principal_def Let_def)
  moreover have "\<exists>v. fst (requestProductionApproval demo_env 4 first_principal None (Some [''an'']) ready_db) = Inr v"
  proof (cases rule: request_cases [of demo_env 4 first_principal None "Some [''an'']" ready_db, OF prod.collapse [symmetric]])
    case (1 e)
    then show ?thesis using ready_rows(2) requested_rows(1) by (simp add: requested_db_def)
  qed blast
  moreover have "(\<exists>v. fst (requestProductionApproval demo_env 4 first_principal None (Some [''an'']) ready_db) = Inr v) \<longleftrightarrow>
      as_canRequest (pf_productionApproval f) \<and>
      set (normalizeRequestedAssetNetworkIds (Some [''an''])) \<subseteq> corridor_id ` set (active_corridors ready_db)"
    by (rule request_accepted_iff_can_request [OF f, THEN conjunct2, THEN conjunct1])
      (use calculation(1,2) ready_rows in simp_all)
  ultimately show ?thesis using f by blast
qed

end
