(* ===== verification/Platforms.thy ===== *)
theory Platforms
  imports Resolution_Lookup Directory
begin

text \<open>
  \<open>backend/src/platforms/platforms.service.ts\<close>: the platforms a sender may choose from, those partners
  of the public directory that have someone to pay, optionally in one corridor or at one address; and the
  agreement of that list with the reverse lookup of \<open>Resolution_Lookup\<close>.
\<close>

section \<open>The service\<close>

datatype PlatformLookupMode = Platform_BY_ADDRESS | Platform_BY_RECIPIENT

record SupportedPlatformRecord =
  sp_id :: ident
  sp_slug :: string
  sp_displayName :: string
  sp_partnerType :: PartnerType
  sp_supportsByAddress :: bool
  sp_supportsByRecipient :: bool

record ListSupportedPlatformsParams =
  ls_address :: "string option"
  ls_asset :: "string option"
  ls_chain :: "string option"
  ls_lookupMode :: "PlatformLookupMode option"

text \<open>The condition on the network of a destination: its chain, and its asset by code or symbol.\<close>

record AssetNetworkFilter =
  nw_chainSlug :: "string option"
  nw_asset :: "(string \<times> string) option"

definition optional :: "('a \<Rightarrow> 'b result) \<Rightarrow> 'a option \<Rightarrow> 'b option result" where
  "optional f v = (case v of None \<Rightarrow> Inr None | Some x \<Rightarrow> map_sum id Some (f x))"

definition buildAssetNetworkFilter :: "ListSupportedPlatformsParams \<Rightarrow> AssetNetworkFilter option result" where
  "buildAssetNetworkFilter params =
     (let chain = trim_or_null (ls_chain params); asset = trim_or_null (ls_asset params) in
      if chain = None \<and> asset = None then Inr None
      else
        rbind (optional normalizeChain chain) (\<lambda>slug.
        rbind (optional normalizeAssetCode asset) (\<lambda>code.
        rbind (optional normalizeAssetSymbol asset) (\<lambda>symbol.
          Inr (Some \<lparr>nw_chainSlug = slug,
            nw_asset = (case (code, symbol) of (Some c, Some y) \<Rightarrow> Some (c, y) | _ \<Rightarrow> None)\<rparr>)))))"

definition buildAddressFilter :: "ListSupportedPlatformsParams \<Rightarrow> string option result" where
  "buildAddressFilter params =
     (case (trim_or_null (ls_address params), trim_or_null (ls_chain params)) of
        (Some address, Some chain) \<Rightarrow> map_sum id Some (normalizeAddress chain address)
      | _ \<Rightarrow> Inr None)"

definition asset_network_matches :: "AssetNetworkFilter \<Rightarrow> corridor \<Rightarrow> bool" where
  "asset_network_matches f = (\<lambda>(n, a, c). an_isActive n \<and>
     (case nw_chainSlug f of None \<Rightarrow> True | Some slug \<Rightarrow> ch_slug c = slug \<and> ch_isActive c) \<and>
     (case nw_asset f of None \<Rightarrow> True | Some (code, symbol) \<Rightarrow> as_code a = code \<or> as_symbol a = symbol))"

text \<open>The \<open>where\<close> clause of the destinations.  The spread of the address filter replaces the key \<open>OR\<close> of
  the expiry.\<close>

definition activeDestinationFilter ::
    "env \<Rightarrow> time \<Rightarrow> string option \<Rightarrow> AssetNetworkFilter option \<Rightarrow> db \<Rightarrow> RecipientDestination \<Rightarrow> bool" where
  "activeDestinationFilter E now addressFilter networkFilter s d \<longleftrightarrow>
     de_status d = DestinationStatus_ACTIVE \<and> de_effectiveFrom d \<le> now \<and>
     (if falsy addressFilter then not_expired now (de_expiresAt d)
      else de_addressNormalizedBlindIndex d = map_option (blindIndexOf E) addressFilter \<or>
           Some (de_addressNormalized d) = addressFilter) \<and>
     (case networkFilter of None \<Rightarrow> True
      | Some f \<Rightarrow> (case destination_network s d of None \<Rightarrow> False | Some c \<Rightarrow> asset_network_matches f c))"

definition listed :: "Partner \<Rightarrow> bool" where
  "listed p \<longleftrightarrow> pa_status p = PartnerStatus_ACTIVE \<and> pa_isDirectoryListed p"

definition some_destination :: "(RecipientDestination \<Rightarrow> bool) \<Rightarrow> db \<Rightarrow> Recipient \<Rightarrow> bool" where
  "some_destination P s r \<longleftrightarrow> list_ex (\<lambda>d. de_recipientId d = rc_id r \<and> P d) (destinations s)"

definition supports_by_address :: "(RecipientDestination \<Rightarrow> bool) \<Rightarrow> db \<Rightarrow> Partner \<Rightarrow> bool" where
  "supports_by_address P s p \<longleftrightarrow>
     listed p \<and> list_ex (\<lambda>r. rc_partnerId r = pa_id p \<and> rc_status r = RecipientStatus_ACTIVE \<and> some_destination P s r)
       (recipients s)"

definition supports_by_recipient :: "(RecipientDestination \<Rightarrow> bool) \<Rightarrow> db \<Rightarrow> Partner \<Rightarrow> bool" where
  "supports_by_recipient P s p \<longleftrightarrow>
     listed p \<and> list_ex (\<lambda>r. rc_partnerId r = pa_id p \<and> rc_status r = RecipientStatus_ACTIVE \<and>
         list_ex (\<lambda>i. id_recipientId i = rc_id r \<and> id_status i = IdentifierStatus_ACTIVE) (identifiers s) \<and>
         some_destination P s r)
       (recipients s)"

definition platform_ids :: "(Partner \<Rightarrow> bool) \<Rightarrow> db \<Rightarrow> ident list" where
  "platform_ids P s = js_uniq (map pa_id (filter P (partners s)))"

definition listSupportedPlatforms ::
    "env \<Rightarrow> time \<Rightarrow> ListSupportedPlatformsParams \<Rightarrow> db \<Rightarrow> SupportedPlatformRecord list result" where
  "listSupportedPlatforms E now params s =
     rbind (buildAssetNetworkFilter params) (\<lambda>networkFilter.
     rbind (buildAddressFilter params) (\<lambda>addressFilter.
       let P = activeDestinationFilter E now addressFilter networkFilter s;
           byAddress = platform_ids (supports_by_address P s) s;
           byRecipient = platform_ids (supports_by_recipient P s) s;
           supported =
             (case ls_lookupMode params of
                Some Platform_BY_ADDRESS \<Rightarrow> byAddress
              | Some Platform_BY_RECIPIENT \<Rightarrow> byRecipient
              | None \<Rightarrow> js_uniq (byAddress @ byRecipient))
       in Inr (if length supported = 0 then []
          else map (\<lambda>p. \<lparr>sp_id = pa_id p, sp_slug = pa_slug p, sp_displayName = pa_displayName p,
                 sp_partnerType = pa_partnerType p, sp_supportsByAddress = List.member byAddress (pa_id p),
                 sp_supportsByRecipient = List.member byRecipient (pa_id p)\<rparr>)
               (sort_key (\<lambda>p. (collation_key E (pa_displayName p), collation_key E (pa_slug p)))
                 (filter (\<lambda>p. List.member supported (pa_id p) \<and> listed p) (partners s))))))"

section \<open>What is listed\<close>

lemma supports_by_recipient_address: "supports_by_recipient P s p \<Longrightarrow> supports_by_address P s p"
  by (auto simp: supports_by_recipient_def supports_by_address_def list_ex_iff)

lemma platform_ids_iff:
  assumes "distinct (map pa_id (partners s))" "p \<in> set (partners s)"
  shows "pa_id p \<in> set (platform_ids P s) \<longleftrightarrow> P p"
  using assms by (auto simp: platform_ids_def distinct_map dest: inj_onD)

lemma listing_exact:
  assumes keys: "distinct (map pa_id (partners s))"
    and f: "buildAssetNetworkFilter params = Inr nf" "buildAddressFilter params = Inr af"
    and l: "listSupportedPlatforms E now params s = Inr rows"
  defines "P \<equiv> activeDestinationFilter E now af nf s"
  shows "sp_id ` set rows = pa_id ` {p \<in> set (partners s).
      (if ls_lookupMode params = Some Platform_BY_RECIPIENT then supports_by_recipient P s p else supports_by_address P s p)}"
    and "r \<in> set rows \<Longrightarrow> \<exists>p \<in> set (partners s). sp_id r = pa_id p \<and> sp_slug r = pa_slug p \<and>
      sp_displayName r = pa_displayName p \<and> (sp_supportsByAddress r \<longleftrightarrow> supports_by_address P s p) \<and>
      (sp_supportsByRecipient r \<longleftrightarrow> supports_by_recipient P s p)"
proof -
  let ?ids = "\<lambda>Q. platform_ids Q s"
  let ?supported = "case ls_lookupMode params of Some Platform_BY_ADDRESS \<Rightarrow> ?ids (supports_by_address P s)
      | Some Platform_BY_RECIPIENT \<Rightarrow> ?ids (supports_by_recipient P s)
      | None \<Rightarrow> js_uniq (?ids (supports_by_address P s) @ ?ids (supports_by_recipient P s))"
  let ?row = "\<lambda>p. \<lparr>sp_id = pa_id p, sp_slug = pa_slug p, sp_displayName = pa_displayName p,
       sp_partnerType = pa_partnerType p, sp_supportsByAddress = List.member (?ids (supports_by_address P s)) (pa_id p),
       sp_supportsByRecipient = List.member (?ids (supports_by_recipient P s)) (pa_id p)\<rparr>"
  have rows: "set rows = ?row ` {p \<in> set (partners s). pa_id p \<in> set ?supported \<and> listed p}"
    using l unfolding listSupportedPlatforms_def f rbind_simps Let_def P_def [symmetric]
    by (auto split: if_splits)
  have sup: "pa_id p \<in> set ?supported \<and> listed p \<longleftrightarrow>
      (if ls_lookupMode params = Some Platform_BY_RECIPIENT then supports_by_recipient P s p else supports_by_address P s p)"
    if "p \<in> set (partners s)" for p
    using platform_ids_iff [OF keys that] supports_by_recipient_address [of P s p]
    by (auto simp: supports_by_address_def supports_by_recipient_def split: option.splits PlatformLookupMode.splits)
  have "sp_id ` set rows = pa_id ` {p \<in> set (partners s). pa_id p \<in> set ?supported \<and> listed p}"
    unfolding rows by (simp add: image_image)
  also have "{p \<in> set (partners s). pa_id p \<in> set ?supported \<and> listed p} = {p \<in> set (partners s).
      (if ls_lookupMode params = Some Platform_BY_RECIPIENT then supports_by_recipient P s p else supports_by_address P s p)}"
    using sup by blast
  finally show "sp_id ` set rows = pa_id ` {p \<in> set (partners s).
      (if ls_lookupMode params = Some Platform_BY_RECIPIENT then supports_by_recipient P s p else supports_by_address P s p)}" .
  show "\<exists>p \<in> set (partners s). sp_id r = pa_id p \<and> sp_slug r = pa_slug p \<and>
      sp_displayName r = pa_displayName p \<and> (sp_supportsByAddress r \<longleftrightarrow> supports_by_address P s p) \<and>
      (sp_supportsByRecipient r \<longleftrightarrow> supports_by_recipient P s p)" if "r \<in> set rows"
    using that platform_ids_iff [OF keys] unfolding rows by auto
qed

section \<open>Agreement with the reverse lookup\<close>

lemma listing_filters:
  assumes "normalizeConfirmInput None chain asset address = Inr i"
    and "ls_chain params = Some chain" "ls_asset params = Some asset" "ls_address params = Some address"
  shows "buildAssetNetworkFilter params = Inr (Some \<lparr>nw_chainSlug = Some (ci_chainNormalized i),
      nw_asset = Some (ci_assetCodeNormalized i, ci_assetSymbolNormalized i)\<rparr>)"
    and "buildAddressFilter params = Inr (Some (ci_addressNormalized i))"
    and "ci_addressNormalized i \<noteq> []" "ci_platformNormalized i = None"
proof -
  have n: "normalizeChain (js_trim chain) = Inr (ci_chainNormalized i)"
    "normalizeAssetCode (js_trim asset) = Inr (ci_assetCodeNormalized i)"
    "normalizeAssetSymbol (js_trim asset) = Inr (ci_assetSymbolNormalized i)"
    "normalizeAddress (ci_chainNormalized i) (js_trim address) = Inr (ci_addressNormalized i)"
    "ci_platformNormalized i = None"
    using assms(1) by (auto simp: normalizeConfirmInput_def trim_or_null_def rbind_def Let_def split: sum.splits)
  have blank: "js_trim chain \<noteq> []" "js_trim asset \<noteq> []" "js_trim address \<noteq> []"
    using n(1,2,4)
    by (auto simp: normalizeChain_def normalizeAssetCode_def normalizeAddress_def requireTrimmed_def Let_def split: sum.splits)
  have "normalizeAddress (js_trim chain) (js_trim address) = Inr (ci_addressNormalized i)"
    using n(4) unfolding normalizeAddress_def detectChainFamily_normalizeChain [OF n(1)] .
  then show "buildAddressFilter params = Inr (Some (ci_addressNormalized i))"
    using assms(2,4) blank by (simp add: buildAddressFilter_def trim_or_null_def)
  show "buildAssetNetworkFilter params = Inr (Some \<lparr>nw_chainSlug = Some (ci_chainNormalized i),
      nw_asset = Some (ci_assetCodeNormalized i, ci_assetSymbolNormalized i)\<rparr>)"
    using assms(2,3) blank n by (simp add: buildAssetNetworkFilter_def trim_or_null_def optional_def Let_def)
  show "ci_addressNormalized i \<noteq> []"
    using n(4) blank(3)
    by (auto simp: normalizeAddress_def requireTrimmed_def js_lower_Nil_iff Let_def split: sum.splits if_splits ChainFamily.splits)
  show "ci_platformNormalized i = None" by (fact n(5))
qed

definition confirmed_platforms :: "env \<Rightarrow> time \<Rightarrow> NormalizedConfirmInput \<Rightarrow> ident \<Rightarrow> db \<Rightarrow> ident set" where
  "confirmed_platforms E now i n s = (\<lambda>(d, r, p). pa_id p) ` set (activeConfirmations E now i n s)"

text \<open>The corridors a query may mean, by chain and asset.\<close>

definition query_networks :: "NormalizedConfirmInput \<Rightarrow> db \<Rightarrow> ident set" where
  "query_networks i s = {an_id n |n c. n \<in> set (assetNetworks s) \<and> network_of s n = Some c \<and>
     asset_network_matches \<lparr>nw_chainSlug = Some (ci_chainNormalized i),
       nw_asset = Some (ci_assetCodeNormalized i, ci_assetSymbolNormalized i)\<rparr> c}"

lemma owner_rows:
  assumes "distinct (map rc_id (recipients s))" "distinct (map pa_id (partners s))"
    "r \<in> set (recipients s)" "p \<in> set (partners s)" "rc_partnerId r = pa_id p"
  shows "recipient_owner s (rc_id r) = Some (r, p)"
proof -
  have "List.find (\<lambda>x. rc_id x = rc_id r) (recipients s) = Some r"
    by (rule find_unique [OF assms(3)]) (use assms(1,3) in \<open>auto simp: distinct_map dest: inj_onD\<close>)
  moreover have "List.find (\<lambda>x. pa_id x = pa_id p) (partners s) = Some p"
    by (rule find_unique [OF assms(4)]) (use assms(2,4) in \<open>auto simp: distinct_map dest: inj_onD\<close>)
  ultimately show ?thesis using assms(5) by (simp add: recipient_owner_def recipient_row_def partner_row_def)
qed

lemma owner_in_tables:
  "recipient_owner s i = Some (r, p) \<Longrightarrow>
     r \<in> set (recipients s) \<and> rc_id r = i \<and> p \<in> set (partners s) \<and> rc_partnerId r = pa_id p"
  unfolding recipient_owner_def recipient_row_def partner_row_def
  by (auto split: option.splits dest: find_SomeD)

lemma confirmed_iff:
  assumes keys: "distinct (map rc_id (recipients s))" "distinct (map pa_id (partners s))"
    and i: "ci_platformNormalized i = None"
  shows "x \<in> confirmed_platforms E now i n s \<longleftrightarrow>
     (\<exists>p \<in> set (partners s). x = pa_id p \<and> supports_by_address (\<lambda>d.
        (de_addressNormalizedBlindIndex d = Some (blindIndexOf E (ci_addressNormalized i)) \<or>
         de_addressNormalized d = ci_addressNormalized i) \<and> not_expired now (de_expiresAt d) \<and>
        de_assetNetworkId d = n \<and> de_status d = DestinationStatus_ACTIVE \<and> de_effectiveFrom d \<le> now) s p)"
    (is "_ \<longleftrightarrow> (\<exists>p \<in> _. _ \<and> supports_by_address ?Q s p)")
proof
  assume "x \<in> confirmed_platforms E now i n s"
  then obtain d r p where d: "d \<in> set (destinations s)" "recipient_owner s (de_recipientId d) = Some (r, p)"
    "confirming_destination E now i n (d, r, p)" "rc_status r = RecipientStatus_ACTIVE"
    "pa_status p = PartnerStatus_ACTIVE" "x = pa_id p"
    by (auto simp: confirmed_platforms_def activeConfirmations_def with_owner_def default_first_def map_filter_def)
  note o = owner_in_tables [OF d(2)]
  have "?Q d" "listed p" using d(3,5) i by (auto simp: confirming_destination_def listed_def)
  with d(1) o have "some_destination ?Q s r" unfolding some_destination_def list_ex_iff by metis
  then have "supports_by_address ?Q s p"
    using o d(4) \<open>listed p\<close> unfolding supports_by_address_def list_ex_iff by blast
  with o d(6) show "\<exists>p \<in> set (partners s). x = pa_id p \<and> supports_by_address ?Q s p" by blast
next
  assume "\<exists>p \<in> set (partners s). x = pa_id p \<and> supports_by_address ?Q s p"
  then obtain p r d where p: "p \<in> set (partners s)" "x = pa_id p" "listed p"
    and r: "r \<in> set (recipients s)" "rc_partnerId r = pa_id p" "rc_status r = RecipientStatus_ACTIVE"
    and d: "d \<in> set (destinations s)" "de_recipientId d = rc_id r" "?Q d"
    by (auto simp: supports_by_address_def some_destination_def list_ex_iff)
  have "recipient_owner s (de_recipientId d) = Some (r, p)" using owner_rows [OF keys r(1) p(1) r(2)] d(2) by simp
  then have "(d, r, p) \<in> set (activeConfirmations E now i n s)"
    using d p(3) r(3) i
    by (force simp: activeConfirmations_def with_owner_def default_first_def map_filter_def listed_def confirming_destination_def)
  then show "x \<in> confirmed_platforms E now i n s" using p(2) by (force simp: confirmed_platforms_def)
qed

lemma network_of_fst: "network_of s n = Some c \<Longrightarrow> fst c = n"
  by (auto simp: network_of_def split: option.splits)

abbreviation query_filter :: "NormalizedConfirmInput \<Rightarrow> AssetNetworkFilter" where
  "query_filter i \<equiv> \<lparr>nw_chainSlug = Some (ci_chainNormalized i),
     nw_asset = Some (ci_assetCodeNormalized i, ci_assetSymbolNormalized i)\<rparr>"

lemma find_network:
  assumes "findAssetNetworkForLookup (ci_chainNormalized i) (ci_assetCodeNormalized i) (ci_assetSymbolNormalized i) s = Some net"
    and "distinct (map an_id (assetNetworks s))" "de_assetNetworkId d = an_id (fst net)"
  shows "destination_network s d = Some net \<and> asset_network_matches (query_filter i) net"
proof -
  let ?P = "\<lambda>n. an_isActive n \<and> (case network_of s n of None \<Rightarrow> False
    | Some (_, a, c) \<Rightarrow> ch_slug c = ci_chainNormalized i \<and> ch_isActive c \<and>
        (as_code a = ci_assetCodeNormalized i \<or> as_symbol a = ci_assetSymbolNormalized i))"
  obtain n where n: "List.find ?P (assetNetworks s) = Some n" "network_of s n = Some net"
    using assms(1) unfolding findAssetNetworkForLookup_def by (auto split: option.splits)
  have m: "n \<in> set (assetNetworks s)" "?P n" using find_SomeD [OF n(1)] by auto
  have "asset_network_matches (query_filter i) net"
    using m(2) n(2) network_of_fst [OF n(2)] by (auto simp: asset_network_matches_def split: prod.splits)
  moreover have "List.find (\<lambda>x. an_id x = an_id n) (assetNetworks s) = Some n"
    by (rule find_unique [OF m(1)]) (use assms(2) m(1) in \<open>auto simp: distinct_map dest: inj_onD\<close>)
  ultimately show ?thesis using n(2) network_of_fst [OF n(2)] assms(3) by (simp add: destination_network_def)
qed

lemma supports_by_address_mono:
  "\<lbrakk>supports_by_address Q s p; \<And>d. d \<in> set (destinations s) \<Longrightarrow> Q d \<Longrightarrow> P d\<rbrakk> \<Longrightarrow> supports_by_address P s p"
  unfolding supports_by_address_def some_destination_def list_ex_iff by blast

text \<open>C24: The list of platforms agrees with the reverse lookup.  Asked for a chain, an asset and an address,
  it names every partner whose recipients the lookup would confirm there; when the chain and the asset mean
  one corridor and no destination has expired, it names no other.\<close>

theorem listing_agrees_with_lookup:
  assumes keys: "distinct (map pa_id (partners s))" "distinct (map rc_id (recipients s))"
      "distinct (map an_id (assetNetworks s))"
    and input: "normalizeConfirmInput None chain asset address = Inr i"
    and net: "findAssetNetworkForLookup (ci_chainNormalized i) (ci_assetCodeNormalized i) (ci_assetSymbolNormalized i) s = Some net"
    and listing: "listSupportedPlatforms E now \<lparr>ls_address = Some address, ls_asset = Some asset, ls_chain = Some chain,
        ls_lookupMode = Some Platform_BY_ADDRESS\<rparr> s = Inr rows"
  shows "confirmed_platforms E now i (an_id (fst net)) s \<subseteq> sp_id ` set rows \<and>
     (query_networks i s = {an_id (fst net)} \<and> (\<forall>d \<in> set (destinations s). not_expired now (de_expiresAt d)) \<longrightarrow>
      confirmed_platforms E now i (an_id (fst net)) s = sp_id ` set rows)"
proof -
  let ?P = "activeDestinationFilter E now (Some (ci_addressNormalized i)) (Some (query_filter i)) s"
  let ?Q = "\<lambda>d. (de_addressNormalizedBlindIndex d = Some (blindIndexOf E (ci_addressNormalized i)) \<or>
         de_addressNormalized d = ci_addressNormalized i) \<and> not_expired now (de_expiresAt d) \<and>
        de_assetNetworkId d = an_id (fst net) \<and> de_status d = DestinationStatus_ACTIVE \<and> de_effectiveFrom d \<le> now"
  note f = listing_filters [OF input, of "\<lparr>ls_address = Some address, ls_asset = Some asset, ls_chain = Some chain,
        ls_lookupMode = Some Platform_BY_ADDRESS\<rparr>", simplified]
  have rows: "sp_id ` set rows = pa_id ` {p \<in> set (partners s). supports_by_address ?P s p}"
    using listing_exact(1) [OF keys(1) f(1,2) listing] by simp
  have confirmed: "confirmed_platforms E now i (an_id (fst net)) s = pa_id ` {p \<in> set (partners s). supports_by_address ?Q s p}"
    using confirmed_iff [OF keys(2,1) f(4)] by blast
  have sub: "?P d" if "?Q d" for d
    using that find_network [OF net keys(3), of d] f(3) by (simp add: activeDestinationFilter_def falsy_def)
  have sup: "?Q d" if d: "?P d" "d \<in> set (destinations s)" and one: "query_networks i s = {an_id (fst net)}"
    and fresh: "\<forall>d \<in> set (destinations s). not_expired now (de_expiresAt d)" for d
  proof -
    obtain c where c: "destination_network s d = Some c" "asset_network_matches (query_filter i) c"
      using d(1) by (auto simp: activeDestinationFilter_def split: option.splits)
    then obtain n where "n \<in> set (assetNetworks s)" "an_id n = de_assetNetworkId d" "network_of s n = Some c"
      by (auto simp: destination_network_def bind_eq_Some_conv dest: find_SomeD)
    with c(2) have "de_assetNetworkId d \<in> query_networks i s" by (cases c) (force simp: query_networks_def)
    with one fresh d f(3) show ?thesis by (auto simp: activeDestinationFilter_def falsy_def)
  qed
  have "confirmed_platforms E now i (an_id (fst net)) s \<subseteq> sp_id ` set rows"
    unfolding rows confirmed by (rule image_mono) (auto elim: supports_by_address_mono intro: sub)
  moreover have "sp_id ` set rows \<subseteq> confirmed_platforms E now i (an_id (fst net)) s"
    if "query_networks i s = {an_id (fst net)}" "\<forall>d \<in> set (destinations s). not_expired now (de_expiresAt d)"
    unfolding rows confirmed by (rule image_mono) (use sup [OF _ _ that] in \<open>blast intro: supports_by_address_mono\<close>)
  ultimately show ?thesis by blast
qed

section \<open>A listed platform\<close>

definition listed_db :: "time option \<Rightarrow> db" where
  "listed_db expiry =
     demo_paid_db\<lparr>partners := [demo_partner_row\<lparr>pa_isDirectoryListed := True\<rparr>],
       destinations := [demo_destination\<lparr>de_id := cuid demo_env 0, de_expiresAt := expiry\<rparr>]\<rparr>"

definition demo_query :: ListSupportedPlatformsParams where
  "demo_query = \<lparr>ls_address = Some demo_address, ls_asset = Some ''usdc'', ls_chain = Some ''ethereum'',
     ls_lookupMode = Some Platform_BY_ADDRESS\<rparr>"

lemma demo_listing:
  "map_sum id (map sp_id) (listSupportedPlatforms demo_env 5 demo_query (listed_db None)) = Inr [''p'']"
  "map_sum id (map sp_id) (listSupportedPlatforms demo_env 5 demo_query (listed_db (Some 3))) = Inr [''p'']"
  by code_simp+

definition demo_confirm :: NormalizedConfirmInput where
  "demo_confirm = \<lparr>ci_platformInput = None, ci_platformNormalized = None, ci_chainInput = ''ethereum'',
     ci_chainNormalized = ''ethereum'', ci_assetInput = ''usdc'', ci_assetCodeNormalized = ''usdc'',
     ci_assetSymbolNormalized = ''USDC'', ci_addressInput = demo_address, ci_addressNormalized = demo_address\<rparr>"

lemma demo_confirm:
  "normalizeConfirmInput None ''ethereum'' ''usdc'' demo_address = Inr demo_confirm"
  by code_simp

lemma demo_corridor_found:
  "findAssetNetworkForLookup (ci_chainNormalized demo_confirm) (ci_assetCodeNormalized demo_confirm)
     (ci_assetSymbolNormalized demo_confirm) (listed_db e) = Some (demo_network, demo_asset, demo_chain)"
  "query_networks demo_confirm (listed_db e) = {''an''}"
  by (simp_all add: findAssetNetworkForLookup_def network_of_def listed_db_def demo_paid_db_def demo_partner_db_def
      demo_network_def demo_asset_def demo_chain_def demo_confirm_def query_networks_def asset_network_matches_def)

text \<open>An expired destination is still listed, where the reverse lookup no longer confirms it.\<close>

lemma expired_still_listed:
  "map_sum id (map sp_id) (listSupportedPlatforms demo_env 5 demo_query (listed_db (Some 3))) = Inr [''p'']"
  "confirmed_platforms demo_env 5 demo_confirm ''an'' (listed_db (Some 3)) = {}"
  by (rule demo_listing)
    (simp add: confirmed_platforms_def activeConfirmations_def with_owner_def default_first_def listed_db_def
      demo_destination_def map_filter_simps confirming_destination_def not_expired_def recipient_owner_def split: option.splits)

theorem listing_agrees_with_lookup_witness:
  "\<exists>rows. listSupportedPlatforms demo_env 5 demo_query (listed_db None) = Inr rows \<and>
     confirmed_platforms demo_env 5 demo_confirm ''an'' (listed_db None) = {''p''} \<and> sp_id ` set rows = {''p''}"
proof -
  obtain rows where rows: "listSupportedPlatforms demo_env 5 demo_query (listed_db None) = Inr rows" "map sp_id rows = [''p'']"
    using demo_listing(1) by (cases "listSupportedPlatforms demo_env 5 demo_query (listed_db None)") auto
  have "distinct (map pa_id (partners (listed_db None)))" "distinct (map rc_id (recipients (listed_db None)))"
    "distinct (map an_id (assetNetworks (listed_db None)))"
    "\<forall>d \<in> set (destinations (listed_db None)). not_expired 5 (de_expiresAt d)"
    by (simp_all add: listed_db_def demo_paid_db_def demo_partner_db_def not_expired_def)
  moreover have "sp_id ` set rows = {''p''}" using rows(2) by (metis list.set(1,2) list.set_map)
  moreover have "an_id (fst (demo_network, demo_asset, demo_chain)) = ''an''" by (simp add: demo_network_def)
  ultimately show ?thesis
    using listing_agrees_with_lookup [OF _ _ _ demo_confirm demo_corridor_found(1) rows(1) [unfolded demo_query_def]]
      demo_corridor_found(2) rows(1) by simp
qed

end
