(* ===== verification/Delivery_Processor.thy ===== *)
theory Delivery_Processor
  imports Webhook_Facts Resolution_Batch
begin

text \<open>
  \<open>backend/src/operations/webhook-delivery-processor.service.ts\<close>: the timer of the backend.  A tick cleans
  up expired nonces, log rows and audit exports and then attempts a batch of webhook deliveries; a tick
  that finds another one running does nothing, and an exception ends a tick but never the timer.  Ticks
  drain a backlog of due deliveries, a batch at a time, and attempt each delivery once.
\<close>

section \<open>The service\<close>

record processor_state =
  ws_intervalMs :: "int option"  \<comment> \<open>the running timer\<close>
  ws_isProcessing :: bool

definition processor_idle :: processor_state where
  "processor_idle = \<lparr>ws_intervalMs = None, ws_isProcessing = False\<rparr>"

definition tick_log :: "run_counts \<Rightarrow> nat \<Rightarrow> nat \<Rightarrow> nat \<Rightarrow> string option" where
  "tick_log result expiredNonceCount deletedResolutionRequestCount expiredAuditExportCount =
     (if rc_processedCount result > 0 \<or> expiredNonceCount > 0 \<or> deletedResolutionRequestCount > 0 \<or>
         expiredAuditExportCount > 0
      then Some (''Processed '' @ show_nat (rc_processedCount result) @ '' webhook deliveries. '' @
        ''Succeeded='' @ show_nat (rc_succeededCount result) @ '' Rescheduled='' @ show_nat (rc_rescheduledCount result) @ '' '' @
        ''Abandoned='' @ show_nat (rc_abandonedCount result) @ '' Skipped='' @ show_nat (rc_skippedCount result) @ '' '' @
        ''ExpiredNoncesDeleted='' @ show_nat expiredNonceCount @ '' '' @
        ''ResolutionRequestsDeleted='' @ show_nat deletedResolutionRequestCount @ '' '' @
        ''AuditExportsExpired='' @ show_nat expiredAuditExportCount)
      else None)"

definition tick_params :: "env \<Rightarrow> ProcessPendingDeliveriesParams" where
  "tick_params E = \<lparr>pp_limit = Some (nat (WEBHOOK_DELIVERY_PROCESSOR_BATCH_SIZE (cfg E))), pp_ignoreSchedule = False\<rparr>"

text \<open>The clean-ups of a tick, in their order.\<close>

definition tick_cleanup :: "env \<Rightarrow> time \<Rightarrow> db \<Rightarrow> (nat \<times> nat \<times> nat) \<times> db" where
  "tick_cleanup E now s =
     (let (expiredNonceCount, s1) = cleanupExpiredRequestNonces now s;
          (deletedResolutionRequestCount, s2) =
            cleanupHistoricalResolutionRequests now (RESOLUTION_REQUEST_RETENTION_MS (cfg E)) s1;
          (expiredAuditExportCount, s3) = cleanupExpiredAuditExports now s2
      in ((expiredNonceCount, deletedResolutionRequestCount, expiredAuditExportCount), s3))"

definition runTick ::
    "env \<Rightarrow> network \<Rightarrow> time \<Rightarrow> processor_state \<Rightarrow> db \<Rightarrow> string option \<times> processor_state \<times> db" where
  "runTick E net now w s =
     (if ws_isProcessing w then (None, w, s)
      else
        let ((nonces, requests, exports), s1) = tick_cleanup E now s
        in (case processPendingDeliveries E net now (tick_params E) s1 of
              (Inl e, s2) \<Rightarrow> (Some ''Webhook delivery processor failed.'', w\<lparr>ws_isProcessing := False\<rparr>, s2)
            | (Inr result, s2) \<Rightarrow>
                (tick_log result nonces requests exports, w\<lparr>ws_isProcessing := False\<rparr>, s2)))"

definition onModuleInit ::
    "env \<Rightarrow> network \<Rightarrow> time \<Rightarrow> processor_state \<Rightarrow> db \<Rightarrow> string option \<times> processor_state \<times> db" where
  "onModuleInit E net now w s =
     (if \<not> WEBHOOK_DELIVERY_PROCESSOR_ENABLED (cfg E) then (Some ''Webhook delivery processor is disabled.'', w, s)
      else runTick E net now (w\<lparr>ws_intervalMs := Some (WEBHOOK_DELIVERY_PROCESSOR_INTERVAL_MS (cfg E))\<rparr>) s)"

definition onModuleDestroy :: "processor_state \<Rightarrow> processor_state" where
  "onModuleDestroy w = w\<lparr>ws_intervalMs := None\<rparr>"

section \<open>One tick\<close>

lemma tick_cleanup_tables:
  "snd (tick_cleanup E now s) = s\<lparr>
     requestNonces := filter (\<lambda>n. \<not> nn_expiresAt n < now) (requestNonces s),
     batchRows := batchRows (snd (cleanupHistoricalResolutionRequests now (RESOLUTION_REQUEST_RETENTION_MS (cfg E)) s)),
     resolutionRequests := resolutionRequests (snd (cleanupHistoricalResolutionRequests now (RESOLUTION_REQUEST_RETENTION_MS (cfg E)) s)),
     riskSignals := riskSignals (snd (cleanupHistoricalResolutionRequests now (RESOLUTION_REQUEST_RETENTION_MS (cfg E)) s)),
     auditExports := update_where (export_overdue now) expire_export (auditExports s)\<rparr>"
  by (simp add: tick_cleanup_def cleanupExpiredRequestNonces_def cleanupHistoricalResolutionRequests_def
      cleanupExpiredAuditExports_def delete_where_def Let_def)

lemma cleanup_same_hooks:
  "webhookEndpoints (snd (tick_cleanup E now s)) = webhookEndpoints s"
  "webhookDeliveries (snd (tick_cleanup E now s)) = webhookDeliveries s"
  "nextId (snd (tick_cleanup E now s)) = nextId s" "auditLogs (snd (tick_cleanup E now s)) = auditLogs s"
  by (simp_all add: tick_cleanup_tables)

definition due :: "env \<Rightarrow> time \<Rightarrow> db \<Rightarrow> WebhookDelivery \<Rightarrow> bool" where
  "due E now s d = due_delivery False now (buildDeliveryStaleThreshold E now) s d"

definition batch_size :: "env \<Rightarrow> nat" where
  "batch_size E = nat (WEBHOOK_DELIVERY_PROCESSOR_BATCH_SIZE (cfg E))"

lemma endpoints_agree:
  assumes "same_endpoints s s'"
  shows "endpoint_active s' d = endpoint_active s d"
proof -
  have "map_option endpoint_core (endpoint_of d s') = map_option endpoint_core (endpoint_of d s)"
    using assms unfolding endpoint_of_def find_endpoint_def find_map_core [symmetric]
    by (simp add: same_endpoints_def)
  then show ?thesis
    by (cases "endpoint_of d s'"; cases "endpoint_of d s") (auto simp: endpoint_active_def dest: endpoint_core_eqD(4))
qed

lemma due_agree: "same_endpoints s s' \<Longrightarrow> due E now s' d = due E now s d"
  by (simp add: due_def due_delivery_def endpoints_agree)

text \<open>A delivery just attempted is not due again for a minute: the first retry waits that long, later ones longer.\<close>

definition retryDelayMs :: time where
  "retryDelayMs = 60000"

lemma attempted_not_due:
  assumes "later < now + retryDelayMs"
  shows "\<not> due E later s (attempted now out d)"
proof -
  have "(1::int) \<le> 2 ^ nat (dl_attemptCount d)" by simp
  then have "later < now + 60000 * 2 ^ nat (dl_attemptCount d)" using assms unfolding retryDelayMs_def by linarith
  then show ?thesis
    by (auto simp: due_def due_delivery_def attempted_def attempt_result_def
        split: DeliveryProcessingResult.splits if_splits)
qed

text \<open>The worker writes to the webhook tables and the audit log only.\<close>

definition other_tables ::
    "db \<Rightarrow> PartnerRequestNonce list \<times> ResolutionRequest list \<times> ResolutionBatchRow list \<times> RiskSignal list \<times> AuditExportJob list" where
  "other_tables s = (requestNonces s, resolutionRequests s, batchRows s, riskSignals s, auditExports s)"

lemma other_tables_simps [simp]:
  "other_tables (recordEvent E now ev s) = other_tables s"
  "other_tables (update_delivery i f s) = other_tables s"
  "other_tables (update_endpoint i g s) = other_tables s"
  by (simp_all add: other_tables_def update_delivery_def update_endpoint_def)

lemma other_tables_attempt:
  "other_tables (snd (processWebhookDeliveryById E net now i s)) = other_tables s"
proof -
  have fail: "other_tables (snd (handleFailedDeliveryAttempt E now n d e l c x)) = other_tables x" for n d e l c x
    by (auto simp: handleFailedDeliveryAttempt_def markDeliveryAsAbandoned_def split: sum.splits bool.splits)
  have fin: "other_tables (snd (finishDelivery E now d e out x)) = other_tables x" for d e out x
    by (auto simp: finishDelivery_def fail Let_def split: fetch_outcome.splits)
  have claim: "other_tables (snd (claimDelivery t now d x)) = other_tables x" for t d x
    by (simp add: claimDelivery_def other_tables_def Let_def)
  show ?thesis
    unfolding processWebhookDeliveryById_def Let_def
    by (auto simp: fin markDeliveryAsAbandoned_def split: read_decision.splits prod.splits if_splits)
      (metis claim fin snd_conv)+
qed

lemma other_tables_run:
  "other_tables (snd (process_each E net now ids c s)) = other_tables s"
proof (induction ids arbitrary: c s)
  case (Cons i ids)
  obtain r s1 where p: "processWebhookDeliveryById E net now i s = (r, s1)" by fastforce
  then have "other_tables s1 = other_tables s" using other_tables_attempt [of E net now i s] by simp
  with Cons.IH p show ?case by (cases r) simp_all
qed simp

lemma tick_effect:
  assumes wf: "webhooks_wf E s" and idle: "\<not> ws_isProcessing w"
    and tick: "runTick E net now w s = (line, w', s')"
  defines "ids \<equiv> selected_deliveries E now (tick_params E) s"
  shows "w' = w" "webhooks_wf E s'" "same_endpoints s s'"
    "webhookDeliveries s' = map (\<lambda>d. if dl_id d \<in> set ids then attempted now (answer E net now s d) d else d) (webhookDeliveries s)"
    "set ids \<subseteq> dl_id ` {d \<in> set (webhookDeliveries s). due E now s d}" "distinct ids"
    "length ids = min (batch_size E) (count_where (due E now s) (webhookDeliveries s))"
    "other_tables s' = other_tables (snd (tick_cleanup E now s))"
proof -
  let ?s1 = "snd (tick_cleanup E now s)"
  note same = cleanup_same_hooks [of E now s]
  have wf1: "webhooks_wf E ?s1" by (rule wf_same [OF wf]) (simp_all add: same)
  have find: "find_endpoint i ?s1 = find_endpoint i s" for i by (simp add: find_endpoint_def same)
  have "due_delivery ig now t ?s1 = due_delivery ig now t s" for ig t
    by (simp add: fun_eq_iff due_delivery_def endpoint_active_def endpoint_of_def find)
  note due_same = this
  have eq: "selected_deliveries E now (tick_params E) ?s1 = ids"
    by (simp add: ids_def selected_deliveries_def same due_same)
  have ans: "answer E net now ?s1 = answer E net now s"
    by (simp add: fun_eq_iff answer_def endpoint_of_def find)
  note sel = selected_all_attemptable [OF wf1, of now "tick_params E", unfolded eq]
  obtain c s2 where run: "process_each E net now ids \<lparr>rc_processedCount = length ids, rc_succeededCount = 0,
       rc_rescheduledCount = 0, rc_abandonedCount = 0, rc_skippedCount = 0\<rparr> ?s1 = (Inr c, s2)"
    "webhookDeliveries s2 = map (\<lambda>d. if dl_id d \<in> set ids then attempted now (answer E net now s d) d else d)
       (webhookDeliveries ?s1)" "same_endpoints ?s1 s2"
    using process_each_exact [OF wf1 sel, of net "\<lparr>rc_processedCount = length ids, rc_succeededCount = 0,
       rc_rescheduledCount = 0, rc_abandonedCount = 0, rc_skippedCount = 0\<rparr>"] ans by auto
  then have "processPendingDeliveries E net now (tick_params E) ?s1 = (Inr c, s2)"
    by (simp add: processPendingDeliveries_def eq)
  with tick idle have t: "w' = w \<and> s' = s2" and "webhooks_wf E s2"
    using wf_processPending [OF wf1]
    by (auto simp: runTick_def split: prod.splits)
  then show "w' = w" "webhooks_wf E s'" by auto
  show "same_endpoints s s'" using run(3) t by (simp add: same_endpoints_def same)
  show "webhookDeliveries s' = map (\<lambda>d. if dl_id d \<in> set ids then attempted now (answer E net now s d) d else d) (webhookDeliveries s)"
    using run(2) t same by simp
  show "other_tables s' = other_tables ?s1"
    using other_tables_run [of E net now ids _ ?s1] run(1) t by (metis snd_conv)
  show "distinct ids" by (fact sel(1))
  have lim: "or_else (pp_limit (tick_params E)) 50 = batch_size E" "\<not> pp_ignoreSchedule (tick_params E)"
    by (simp_all add: tick_params_def batch_size_def)
  show "set ids \<subseteq> dl_id ` {d \<in> set (webhookDeliveries s). due E now s d}"
    using lim by (auto simp: ids_def selected_deliveries_def due_def dest!: in_set_takeD)
  show "length ids = min (batch_size E) (count_where (due E now s) (webhookDeliveries s))"
    using lim by (simp add: ids_def selected_deliveries_def due_def [abs_def] count_where_def min.commute)
qed

section \<open>Draining a backlog\<close>

text \<open>Successive firings of the timer, each with the time its tick reads.\<close>

fun run_ticks :: "env \<Rightarrow> network \<Rightarrow> time list \<Rightarrow> processor_state \<Rightarrow> db \<Rightarrow> processor_state \<times> db" where
  "run_ticks E net [] w s = (w, s)"
| "run_ticks E net (now # nows) w s =
     (case runTick E net now w s of (line, w', s') \<Rightarrow> run_ticks E net nows w' s')"

lemma dl_id_unique:
  "\<lbrakk>webhooks_wf E s; d \<in> set (webhookDeliveries s); d' \<in> set (webhookDeliveries s); dl_id d = dl_id d'\<rbrakk> \<Longrightarrow> d = d'"
  by (auto simp: webhooks_wf_def distinct_map dest: inj_onD)

lemma due_not_selected:
  assumes wf: "webhooks_wf E s" and ids: "set ids \<subseteq> dl_id ` {d \<in> set (webhookDeliveries s). due E now s d}"
    and dist: "distinct ids"
  shows "count_where (\<lambda>d. due E now s d \<and> dl_id d \<notin> set ids) (webhookDeliveries s) + length ids =
    count_where (due E now s) (webhookDeliveries s)"
proof -
  let ?ds = "webhookDeliveries s"
  have split: "count_where (\<lambda>d. P d \<and> \<not> Q d) xs + count_where (\<lambda>d. P d \<and> Q d) xs = count_where P xs"
    for P Q and xs :: "WebhookDelivery list"
    by (induction xs) (auto simp: count_where_def)
  have "distinct (map dl_id (filter (\<lambda>d. due E now s d \<and> dl_id d \<in> set ids) ?ds))"
    using wf by (auto simp: webhooks_wf_def distinct_map intro: inj_on_subset)
  then have "count_where (\<lambda>d. due E now s d \<and> dl_id d \<in> set ids) ?ds =
      card (set (map dl_id (filter (\<lambda>d. due E now s d \<and> dl_id d \<in> set ids) ?ds)))"
    by (simp only: distinct_card count_where_def length_map)
  also have "set (map dl_id (filter (\<lambda>d. due E now s d \<and> dl_id d \<in> set ids) ?ds)) = set ids"
    using ids by auto
  finally show ?thesis
    using split [of "due E now s" "\<lambda>d. dl_id d \<in> set ids" ?ds] dist by (simp add: distinct_card)
qed

lemma one_tick:
  assumes wf: "webhooks_wf E s" and idle: "\<not> ws_isProcessing w"
    and tick: "runTick E net now w s = (line, w', s')"
  obtains ids where "w' = w" "webhooks_wf E s'" "same_endpoints s s'"
    "set ids \<subseteq> dl_id ` {d \<in> set (webhookDeliveries s). due E now s d}"
    "webhookDeliveries s' =
       map (\<lambda>d. if dl_id d \<in> set ids then attempted now (answer E net now s d) d else d) (webhookDeliveries s)"
    "count_where (due E now s') (webhookDeliveries s') =
       count_where (due E now s) (webhookDeliveries s) - batch_size E"
proof -
  let ?ids = "selected_deliveries E now (tick_params E) s"
  note t = tick_effect [OF wf idle tick]
  have "count_where (due E now s') (webhookDeliveries s') =
      count_where (\<lambda>d. due E now s d \<and> dl_id d \<notin> set ?ids) (webhookDeliveries s)"
    unfolding t(4) count_where_def filter_map length_map comp_def due_agree [OF t(3)]
    by (intro arg_cong [where f = length] filter_cong) (auto simp: attempted_not_due retryDelayMs_def)
  with due_not_selected [OF wf t(5,6)] t(7) have
    "count_where (due E now s') (webhookDeliveries s') = count_where (due E now s) (webhookDeliveries s) - batch_size E"
    by simp
  with t(1-5) show thesis using that by blast
qed

lemma attempted_id [simp]: "dl_id (attempted now out d) = dl_id d"
  "dl_endpointId (attempted now out d) = dl_endpointId d"
  by (simp_all add: attempted_def)

lemma due_endpoint: "due E now s d \<Longrightarrow> \<exists>e. endpoint_of d s = Some e"
  by (auto simp: due_def due_delivery_def endpoint_active_def split: option.splits)

text \<open>The readings of a run of ticks that starts at \<open>start\<close>: none later than the first retry, and between them no
  other delivery comes due.\<close>

definition steady :: "env \<Rightarrow> time \<Rightarrow> time list \<Rightarrow> db \<Rightarrow> bool" where
  "steady E start nows s \<longleftrightarrow>
     (\<forall>t \<in> set nows. start \<le> t \<and> t < start + retryDelayMs \<and>
        (\<forall>d \<in> set (webhookDeliveries s). due E t s d = due E start s d))"

text \<open>What a run of ticks makes of the rows, given when each row was attempted.\<close>

definition drained :: "env \<Rightarrow> network \<Rightarrow> time \<Rightarrow> (ident \<Rightarrow> time) \<Rightarrow> db \<Rightarrow> WebhookDelivery \<Rightarrow> WebhookDelivery" where
  "drained E net start at s d =
     (if due E start s d then attempted (at (dl_id d)) (answer E net (at (dl_id d)) s d) d else d)"

lemma steady_tick:
  assumes wf: "webhooks_wf E s" and steady: "steady E start (now # nows) s" and same: "same_endpoints s s1"
    and ids: "set ids \<subseteq> dl_id ` {d \<in> set (webhookDeliveries s). due E now s d}"
    and rows: "webhookDeliveries s1 =
       map (\<lambda>d. if dl_id d \<in> set ids then attempted now (answer E net now s d) d else d) (webhookDeliveries s)"
  shows "steady E start nows s1"
    and "count_where (due E now s1) (webhookDeliveries s1) = count_where (due E start s1) (webhookDeliveries s1)"
    and "\<lbrakk>d \<in> set (webhookDeliveries s); dl_id d \<in> set ids\<rbrakk> \<Longrightarrow> due E start s d"
proof -
  have now: "start \<le> now" "now < start + retryDelayMs"
    and eq: "\<And>d. d \<in> set (webhookDeliveries s) \<Longrightarrow> due E now s d = due E start s d"
    using steady by (simp_all add: steady_def)
  have again: "\<not> due E t s (attempted now out d)" if "t < start + retryDelayMs" for t out d
    using attempted_not_due [of t now] that now(1) by simp
  have zero: "0 < retryDelayMs" by (simp add: retryDelayMs_def)
  show "steady E start nows s1"
    using steady again zero unfolding steady_def rows due_agree [OF same] by auto
  show "count_where (due E now s1) (webhookDeliveries s1) = count_where (due E start s1) (webhookDeliveries s1)"
    by (rule count_where_cong) (use eq again now zero in \<open>auto simp: rows due_agree [OF same]\<close>)
  show "due E start s d" if "d \<in> set (webhookDeliveries s)" "dl_id d \<in> set ids"
    using that ids eq dl_id_unique [OF wf] by blast
qed

lemma ticks_drain:
  assumes "webhooks_wf E s" "\<not> ws_isProcessing w" "run_ticks E net nows w s = (w', s')" "steady E start nows s"
    "count_where (due E start s) (webhookDeliveries s) \<le> length nows * batch_size E"
  shows "w' = w \<and> webhooks_wf E s' \<and> same_endpoints s s' \<and>
    (\<exists>at. (\<forall>d \<in> set (webhookDeliveries s). due E start s d \<longrightarrow> at (dl_id d) \<in> set nows) \<and>
       webhookDeliveries s' = map (drained E net start at s) (webhookDeliveries s))"
  using assms
proof (induction nows arbitrary: s)
  case Nil
  then have "\<not> due E start s d" if "d \<in> set (webhookDeliveries s)" for d
    using that by (simp add: count_where_zero_iff)
  with Nil show ?case by (auto simp: drained_def map_idI)
next
  case (Cons now nows)
  obtain line w1 s1 where tick: "runTick E net now w s = (line, w1, s1)" by (cases "runTick E net now w s") auto
  obtain ids where one: "w1 = w" "webhooks_wf E s1" "same_endpoints s s1"
    "set ids \<subseteq> dl_id ` {d \<in> set (webhookDeliveries s). due E now s d}"
    "webhookDeliveries s1 =
       map (\<lambda>d. if dl_id d \<in> set ids then attempted now (answer E net now s d) d else d) (webhookDeliveries s)"
    "count_where (due E now s1) (webhookDeliveries s1) =
       count_where (due E now s) (webhookDeliveries s) - batch_size E"
    by (rule one_tick [OF Cons.prems(1,2) tick])
  note st = steady_tick [OF Cons.prems(1,4) one(3-5)]
  have run: "run_ticks E net nows w s1 = (w', s')" using Cons.prems(3) tick one(1) by simp
  have now: "start \<le> now" "now < start + retryDelayMs"
    and eq: "\<And>d. d \<in> set (webhookDeliveries s) \<Longrightarrow> due E now s d = due E start s d"
    using Cons.prems(4) by (simp_all add: steady_def)
  have "count_where (due E now s) (webhookDeliveries s) = count_where (due E start s) (webhookDeliveries s)"
    by (rule count_where_cong) (rule eq)
  then have "count_where (due E start s1) (webhookDeliveries s1) \<le> length nows * batch_size E"
    using one(6) Cons.prems(5) st(2) by simp
  from Cons.IH [OF one(2) Cons.prems(2) run st(1) this] obtain at where
    rest: "w' = w" "webhooks_wf E s'" "same_endpoints s1 s'"
    and at: "\<forall>d \<in> set (webhookDeliveries s1). due E start s1 d \<longrightarrow> at (dl_id d) \<in> set nows"
    and rows: "webhookDeliveries s' = map (drained E net start at s1) (webhookDeliveries s1)" by blast
  define at' where "at' = (\<lambda>i. if i \<in> set ids then now else at i)"
  have again: "\<not> due E start s (attempted now out d)" for out d
    using attempted_not_due [of start now] now(1) by (simp add: retryDelayMs_def)
  have "drained E net start at s1 (if dl_id d \<in> set ids then attempted now (answer E net now s d) d else d) =
      drained E net start at' s d" if d: "d \<in> set (webhookDeliveries s)" for d
    using st(3) [OF d] again answer_same [OF one(3)] due_endpoint [of E start s d]
    by (auto simp: drained_def at'_def due_agree [OF one(3)])
  then have "webhookDeliveries s' = map (drained E net start at' s) (webhookDeliveries s)"
    by (simp add: rows one(5))
  moreover have "at' (dl_id d) \<in> set (now # nows)" if d: "d \<in> set (webhookDeliveries s)" "due E start s d" for d
  proof (cases "dl_id d \<in> set ids")
    case False
    then have "d \<in> set (webhookDeliveries s1)" using d(1) unfolding one(5) by force
    with at d(2) False show ?thesis by (simp add: at'_def due_agree [OF one(3)])
  qed (simp add: at'_def)
  ultimately show ?case
    using rest same_endpoints_trans [OF one(3)] by blast
qed

text \<open>C34: A backlog of due deliveries drains.  Let at most \<open>n\<close> batches of deliveries be due, and let the timer fire
\<open>n\<close> times within the minute before the first retry, each tick with its own clock reading, while no other delivery
comes due and nothing but the worker writes to the webhooks.  Then after the \<open>n\<close> ticks of the idle worker none is due
at any of the readings, each delivery that was due has been attempted exactly once, at one of the readings (its row is
what one attempt then, with the answer of its endpoint, makes of it), every other row is as before, and the worker is
idle again.\<close>

theorem backlog_drains:
  assumes "webhooks_wf E s" "\<not> ws_isProcessing w" "run_ticks E net nows w s = (w', s')" "steady E start nows s"
    "count_where (due E start s) (webhookDeliveries s) \<le> length nows * batch_size E"
  shows "(\<exists>at. (\<forall>d \<in> set (webhookDeliveries s). due E start s d \<longrightarrow> at (dl_id d) \<in> set nows) \<and>
      webhookDeliveries s' =
        map (\<lambda>d. if due E start s d then attempted (at (dl_id d)) (answer E net (at (dl_id d)) s d) d else d)
          (webhookDeliveries s)) \<and>
    (\<forall>t \<in> set nows. \<forall>d \<in> set (webhookDeliveries s'). \<not> due E t s' d) \<and> \<not> ws_isProcessing w'"
proof -
  note t = ticks_drain [OF assms]
  then obtain at where at: "\<forall>d \<in> set (webhookDeliveries s). due E start s d \<longrightarrow> at (dl_id d) \<in> set nows"
    and rows: "webhookDeliveries s' = map (drained E net start at s) (webhookDeliveries s)" by blast
  have due: "due E u s' d = due E u s d" for u d using t by (simp add: due_agree)
  have gone: "\<not> due E u s' (drained E net start at s d)" if u: "u \<in> set nows" and d: "d \<in> set (webhookDeliveries s)" for u d
  proof (cases "due E start s d")
    case True
    then have "at (dl_id d) \<in> set nows" using at d by blast
    then have "start \<le> at (dl_id d)" "u < start + retryDelayMs" using u assms(4) unfolding steady_def by blast+
    then have "u < at (dl_id d) + retryDelayMs" by linarith
    from attempted_not_due [OF this] True show ?thesis by (simp add: due drained_def)
  next
    case False
    then show ?thesis using assms(4) u d by (auto simp: due drained_def steady_def)
  qed
  have "webhookDeliveries s' =
      map (\<lambda>d. if due E start s d then attempted (at (dl_id d)) (answer E net (at (dl_id d)) s d) d else d) (webhookDeliveries s)"
    by (simp add: rows drained_def)
  moreover have "\<forall>t \<in> set nows. \<forall>d \<in> set (webhookDeliveries s'). \<not> due E t s' d"
    unfolding rows using gone by simp
  moreover have "\<not> ws_isProcessing w'" using t assms(2) by simp
  ultimately show ?thesis using at by blast
qed

theorem backlog_drains_witness:
  "\<exists>w s t. run_ticks demo_env bad_gateway [5000, 10000] processor_idle demo_hooks = (w, s) \<and>
     webhookDeliveries s = [attempted t (Response 502 ''bad gateway'') demo_delivery] \<and> (t = 5000 \<or> t = 10000) \<and>
     \<not> ws_isProcessing w"
proof -
  have due: "due demo_env u demo_hooks demo_delivery" if "5000 \<le> u" for u
    using demo_hooks_find(2) that
    by (simp add: due_def due_delivery_def endpoint_active_def demo_delivery_def demo_endpoint_def)
  have row: "webhookDeliveries demo_hooks = [demo_delivery]" by (simp add: demo_hooks_def)
  have steady: "steady demo_env 5000 [5000, 10000] demo_hooks"
    by (simp add: steady_def row due retryDelayMs_def)
  have "count_where (due demo_env 5000 demo_hooks) (webhookDeliveries demo_hooks) \<le>
      length [5000 :: time, 10000] * batch_size demo_env"
    by (simp add: demo_hooks_def batch_size_def demo_env_def demo_config_def count_where_def)
  note few = this
  obtain w s where run: "run_ticks demo_env bad_gateway [5000, 10000] processor_idle demo_hooks = (w, s)" by fastforce
  have "answer demo_env bad_gateway u demo_hooks demo_delivery = Response 502 ''bad gateway''" for u
    using demo_hooks_find(2) by (simp add: answer_def bad_gateway_def)
  with backlog_drains [OF demo_hooks_wf _ run steady few] due row run show ?thesis
    by (auto simp: processor_idle_def)
qed

end
