(* ===== verification/Data_Feed_Health.thy ===== *)
theory Data_Feed_Health
  imports Destinations Partner_Billing "HOL-Library.AList"
begin

text \<open>
  \<open>backend/src/data-feed-health/data-feed-health.service.ts\<close>: the report that tells a partner whether the
  data it attests is fresh, in total and for each corridor, with what is stale, what happened lately and what
  to do next.  The queries of a report run as one step.  The column \<open>updatedAt\<close> of a webhook delivery, which
  the database sets itself, is the argument \<open>deliveryUpdatedAt\<close>.
\<close>

section \<open>What is active and what is stale\<close>

definition destinationFreshnessWindowDays :: int where "destinationFreshnessWindowDays = 14"
definition attestationExpiryWindowDays :: int where "attestationExpiryWindowDays = 7"
definition recentOperationalWindowDays :: int where "recentOperationalWindowDays = 7"

definition day_ms :: time where "day_ms = 24 * 60 * 60 * 1000"

definition recentWindowStart :: "time \<Rightarrow> time" where
  "recentWindowStart now = now - recentOperationalWindowDays * day_ms"

definition destinationFreshnessThreshold :: "time \<Rightarrow> time" where
  "destinationFreshnessThreshold now = now - destinationFreshnessWindowDays * day_ms"

definition attestationExpiryThreshold :: "time \<Rightarrow> time" where
  "attestationExpiryThreshold now = now + attestationExpiryWindowDays * day_ms"

text \<open>\<open>{ not: null, lte: t }\<close>.\<close>

definition expires_by :: "time \<Rightarrow> time option \<Rightarrow> bool" where
  "expires_by t expiresAt = (case expiresAt of None \<Rightarrow> False | Some u \<Rightarrow> u \<le> t)"

definition destination_owned :: "ident \<Rightarrow> db \<Rightarrow> RecipientDestination \<Rightarrow> bool" where
  "destination_owned partnerId s d \<longleftrightarrow>
     (case recipient_row s (de_recipientId d) of None \<Rightarrow> False | Some r \<Rightarrow> rc_partnerId r = partnerId)"

definition activeDestinationWhere :: "time \<Rightarrow> ident \<Rightarrow> db \<Rightarrow> RecipientDestination \<Rightarrow> bool" where
  "activeDestinationWhere now partnerId s d \<longleftrightarrow>
     destination_owned partnerId s d \<and> de_status d = DestinationStatus_ACTIVE \<and> not_expired now (de_expiresAt d)"

definition staleDestinationWhere :: "time \<Rightarrow> ident \<Rightarrow> db \<Rightarrow> RecipientDestination \<Rightarrow> bool" where
  "staleDestinationWhere now partnerId s d \<longleftrightarrow>
     destination_owned partnerId s d \<and> de_status d = DestinationStatus_ACTIVE \<and>
     ((case de_lastAttestedAt d of None \<Rightarrow> True | Some t \<Rightarrow> t < destinationFreshnessThreshold now) \<or>
      expires_by (attestationExpiryThreshold now) (de_expiresAt d))"

definition activeVerifiedAttestationWhere :: "time \<Rightarrow> ident \<Rightarrow> Attestation \<Rightarrow> bool" where
  "activeVerifiedAttestationWhere now partnerId a \<longleftrightarrow>
     at_partnerId a = partnerId \<and> at_verificationStatus a = VerificationStatus_VERIFIED \<and> at_revokedAt a = None \<and>
     not_expired now (at_expiresAt a)"

definition staleAttestationWhere :: "time \<Rightarrow> ident \<Rightarrow> Attestation \<Rightarrow> bool" where
  "staleAttestationWhere now partnerId a \<longleftrightarrow>
     at_partnerId a = partnerId \<and>
     (at_verificationStatus a = VerificationStatus_EXPIRED \<or>
      at_verificationStatus a = VerificationStatus_VERIFIED \<and> at_revokedAt a = None \<and>
        expires_by (attestationExpiryThreshold now) (at_expiresAt a))"

section \<open>Grouping by corridor\<close>

text \<open>A \<open>Map\<close> is an association list, a key keeping its first position.\<close>

definition map_set :: "ident option \<Rightarrow> 'a \<Rightarrow> (ident \<times> 'a) list \<Rightarrow> (ident \<times> 'a) list" where
  "map_set k v m = (if falsy k then m else AList.update (or_else k []) v m)"

definition buildCountMap :: "(ident option \<times> int) list \<Rightarrow> (ident \<times> int) list" where
  "buildCountMap records = foldl (\<lambda>m (k, n). map_set k n m) [] records"

definition buildDateMap :: "(ident option \<times> time option) list \<Rightarrow> (ident \<times> string option) list" where
  "buildDateMap records = foldl (\<lambda>m (k, t). map_set k (map_option toISOString t) m) [] records"

text \<open>\<open>groupBy\<close> with \<open>_max\<close>: SQL's maximum ignores nulls.\<close>

definition max_option :: "time list \<Rightarrow> time option" where
  "max_option ts = (case ts of [] \<Rightarrow> None | t # ts \<Rightarrow> Some (foldl max t ts))"

definition max_by :: "('a \<Rightarrow> 'k) \<Rightarrow> ('a \<Rightarrow> time option) \<Rightarrow> 'a list \<Rightarrow> ('k \<times> time option) list" where
  "max_by f g rows =
     map (\<lambda>k. (k, max_option (List.map_filter g (filter (\<lambda>r. f r = k) rows)))) (js_uniq (map f rows))"

definition destination_counts :: "(RecipientDestination \<Rightarrow> bool) \<Rightarrow> db \<Rightarrow> (ident \<times> int) list" where
  "destination_counts P s =
     buildCountMap (count_by (\<lambda>d. Some (de_assetNetworkId d)) (filter P (destinations s)))"

definition attestation_counts :: "(Attestation \<Rightarrow> bool) \<Rightarrow> db \<Rightarrow> (ident \<times> int) list" where
  "attestation_counts P s =
     buildCountMap (count_by at_assetNetworkId (filter (\<lambda>a. P a \<and> at_assetNetworkId a \<noteq> None) (attestations s)))"

definition attestation_dates ::
    "(Attestation \<Rightarrow> bool) \<Rightarrow> (Attestation \<Rightarrow> time option) \<Rightarrow> db \<Rightarrow> (ident \<times> string option) list" where
  "attestation_dates P date s =
     buildDateMap (max_by at_assetNetworkId date
       (filter (\<lambda>a. P a \<and> at_assetNetworkId a \<noteq> None) (attestations s)))"

section \<open>The health of a corridor\<close>

record CorridorHealth =
  fc_assetNetworkId :: ident
  fc_chain :: string
  fc_chainDisplayName :: string
  fc_asset :: string
  fc_assetDisplayName :: string
  fc_contractAddress :: "string option"
  fc_productionGranted :: bool
  fc_activeDestinationCount :: int
  fc_staleDestinationCount :: int
  fc_verifiedAttestationCount :: int
  fc_staleAttestationCount :: int
  fc_recentIngestionCount7d :: int
  fc_lastAttestationReceivedAt :: "string option"
  fc_lastRevocationReceivedAt :: "string option"
  fc_status :: PartnerFeedHealthStatus
  fc_statusLabel :: string

definition resolveCorridorHealthStatus :: "int \<Rightarrow> bool \<Rightarrow> int \<Rightarrow> int \<Rightarrow> int \<Rightarrow> PartnerFeedHealthStatus" where
  "resolveCorridorHealthStatus activeDestinationCount productionGranted staleAttestationCount staleDestinationCount
     verifiedAttestationCount =
     (if activeDestinationCount = 0 \<and> verifiedAttestationCount = 0
      then (if productionGranted then PartnerFeedHealthStatus_DISCONNECTED else PartnerFeedHealthStatus_UNKNOWN)
      else if staleDestinationCount > 0 \<or> staleAttestationCount > 0 then PartnerFeedHealthStatus_DEGRADED
      else PartnerFeedHealthStatus_HEALTHY)"

definition resolveCorridorHealthStatusLabel :: "PartnerFeedHealthStatus \<Rightarrow> bool \<Rightarrow> string" where
  "resolveCorridorHealthStatusLabel status productionGranted =
     (case status of
        PartnerFeedHealthStatus_HEALTHY \<Rightarrow>
          ''Fresh destinations and verified attestations are available for this corridor.''
      | PartnerFeedHealthStatus_DEGRADED \<Rightarrow>
          ''This corridor has stale destinations or attestations that need review.''
      | PartnerFeedHealthStatus_DISCONNECTED \<Rightarrow>
          (if productionGranted
           then ''Production access is granted, but no live trust data is currently flowing for this corridor.''
           else ''This corridor has no live trust data.'')
      | PartnerFeedHealthStatus_UNKNOWN \<Rightarrow>
          ''This corridor has not built enough trust data to assess freshness yet.'')"

primrec resolveCorridorStatusSeverity :: "PartnerFeedHealthStatus \<Rightarrow> nat" where
  "resolveCorridorStatusSeverity PartnerFeedHealthStatus_DISCONNECTED = 0"
| "resolveCorridorStatusSeverity PartnerFeedHealthStatus_DEGRADED = 1"
| "resolveCorridorStatusSeverity PartnerFeedHealthStatus_HEALTHY = 2"
| "resolveCorridorStatusSeverity PartnerFeedHealthStatus_UNKNOWN = 3"

text \<open>The seven groupings of a report.\<close>

record corridor_groups =
  fg_activeDestinationCounts :: "(ident \<times> int) list"
  fg_staleDestinationCounts :: "(ident \<times> int) list"
  fg_verifiedAttestationCounts :: "(ident \<times> int) list"
  fg_staleAttestationCounts :: "(ident \<times> int) list"
  fg_recentIngestionCounts :: "(ident \<times> int) list"
  fg_lastAttestationDates :: "(ident \<times> string option) list"
  fg_lastRevocationDates :: "(ident \<times> string option) list"
  fg_grantedProductionCorridorIds :: "ident list"

definition corridor_groups_of :: "time \<Rightarrow> ident \<Rightarrow> db \<Rightarrow> corridor_groups" where
  "corridor_groups_of now partnerId s =
     \<lparr>fg_activeDestinationCounts = destination_counts (activeDestinationWhere now partnerId s) s,
      fg_staleDestinationCounts = destination_counts (staleDestinationWhere now partnerId s) s,
      fg_verifiedAttestationCounts = attestation_counts (activeVerifiedAttestationWhere now partnerId) s,
      fg_staleAttestationCounts = attestation_counts (staleAttestationWhere now partnerId) s,
      fg_recentIngestionCounts =
        attestation_counts (\<lambda>a. at_partnerId a = partnerId \<and> recentWindowStart now \<le> at_ingestedAt a) s,
      fg_lastAttestationDates =
        attestation_dates (\<lambda>a. at_partnerId a = partnerId) (\<lambda>a. Some (at_ingestedAt a)) s,
      fg_lastRevocationDates =
        attestation_dates (\<lambda>a. at_partnerId a = partnerId \<and> at_revokedAt a \<noteq> None) at_revokedAt s,
      fg_grantedProductionCorridorIds = js_uniq (map pc_assetNetworkId
        (filter (\<lambda>r. pc_partnerId r = partnerId \<and> pc_status r = PartnerProductionCorridorStatus_GRANTED)
          (productionCorridors s)))\<rparr>"

definition corridor_ids :: "corridor_groups \<Rightarrow> ident list" where
  "corridor_ids g = js_uniq
     (map fst (fg_activeDestinationCounts g) @ map fst (fg_staleDestinationCounts g) @
      map fst (fg_verifiedAttestationCounts g) @ map fst (fg_staleAttestationCounts g) @
      map fst (fg_recentIngestionCounts g) @ map fst (fg_lastAttestationDates g) @
      map fst (fg_lastRevocationDates g) @ fg_grantedProductionCorridorIds g)"

definition corridor_health :: "corridor_groups \<Rightarrow> corridor \<Rightarrow> CorridorHealth" where
  "corridor_health g = (\<lambda>(n, a, c).
     let get = (\<lambda>m. or_else (map_of m (an_id n)) 0);
         productionGranted = List.member (fg_grantedProductionCorridorIds g) (an_id n);
         status = resolveCorridorHealthStatus (get (fg_activeDestinationCounts g)) productionGranted
           (get (fg_staleAttestationCounts g)) (get (fg_staleDestinationCounts g)) (get (fg_verifiedAttestationCounts g))
     in \<lparr>fc_assetNetworkId = an_id n, fc_chain = ch_slug c, fc_chainDisplayName = ch_displayName c,
         fc_asset = as_symbol a, fc_assetDisplayName = as_displayName a,
         fc_contractAddress = trim_or_null (an_contractAddressRaw n), fc_productionGranted = productionGranted,
         fc_activeDestinationCount = get (fg_activeDestinationCounts g),
         fc_staleDestinationCount = get (fg_staleDestinationCounts g),
         fc_verifiedAttestationCount = get (fg_verifiedAttestationCounts g),
         fc_staleAttestationCount = get (fg_staleAttestationCounts g),
         fc_recentIngestionCount7d = get (fg_recentIngestionCounts g),
         fc_lastAttestationReceivedAt = or_else (map_of (fg_lastAttestationDates g) (an_id n)) None,
         fc_lastRevocationReceivedAt = or_else (map_of (fg_lastRevocationDates g) (an_id n)) None,
         fc_status = status, fc_statusLabel = resolveCorridorHealthStatusLabel status productionGranted\<rparr>)"

definition corridor_order :: "CorridorHealth \<Rightarrow> nat \<times> bool \<times> int" where
  "corridor_order h =
     (resolveCorridorStatusSeverity (fc_status h), \<not> fc_productionGranted h,
      - (fc_activeDestinationCount h + fc_verifiedAttestationCount h))"

definition corridors_of :: "time \<Rightarrow> ident \<Rightarrow> db \<Rightarrow> CorridorHealth list" where
  "corridors_of now partnerId s =
     (let g = corridor_groups_of now partnerId s; corridorIds = corridor_ids g;
          assetNetworks = (if length corridorIds = 0 then []
            else List.map_filter (network_of s) (filter (\<lambda>n. List.member corridorIds (an_id n)) (assetNetworks s)))
      in sort_key corridor_order (map (corridor_health g) assetNetworks))"

section \<open>Rates and labels\<close>

text \<open>The quotient and the product are doubles, \<open>Math.round\<close> the floor of half a unit more.\<close>

definition calculateDeliverySuccessRate :: "int \<Rightarrow> int \<Rightarrow> int" where
  "calculateDeliverySuccessRate totalDeliveryCount failedDeliveryCount =
     (if totalDeliveryCount = 0 then 100
      else
        let (a, b) = to_double (totalDeliveryCount - failedDeliveryCount, totalDeliveryCount);
            (c, d) = to_double (a * 100, b)
        in max 0 ((2 * c + d) div (2 * d)))"

definition resolveEnvironment :: "bool \<Rightarrow> bool \<Rightarrow> string" where
  "resolveEnvironment productionEnabled sandboxEnabled =
     (if productionEnabled then ''PRODUCTION_APPROVED''
      else if sandboxEnabled then ''SANDBOX_ONLY'' else ''RESTRICTED'')"

primrec resolveFeedStatusLabel :: "PartnerFeedHealthStatus \<Rightarrow> string" where
  "resolveFeedStatusLabel PartnerFeedHealthStatus_HEALTHY = ''Healthy feed''"
| "resolveFeedStatusLabel PartnerFeedHealthStatus_DEGRADED = ''Degraded feed health''"
| "resolveFeedStatusLabel PartnerFeedHealthStatus_DISCONNECTED = ''Feed disconnected''"
| "resolveFeedStatusLabel PartnerFeedHealthStatus_UNKNOWN = ''Feed health unknown''"

primrec resolveTrustEventType :: "AttestationType \<Rightarrow> string" where
  "resolveTrustEventType AttestationType_DESTINATION_ASSIGNMENT = ''Destination assignment''"
| "resolveTrustEventType AttestationType_DESTINATION_ROTATION = ''Destination rotation''"
| "resolveTrustEventType AttestationType_DESTINATION_REVOCATION = ''Destination revocation''"
| "resolveTrustEventType AttestationType_IDENTIFIER_BINDING = ''Identifier binding''"

definition resolveTrustEventTimestamp :: "Attestation \<Rightarrow> string" where
  "resolveTrustEventTimestamp a =
     or_else (map_option toISOString (at_revokedAt a))
       (or_else (map_option toISOString (at_verifiedAt a)) (toISOString (at_ingestedAt a)))"

section \<open>Recommended actions\<close>

record RecommendedAction =
  ff_key :: string
  ff_title :: string
  ff_description :: string
  ff_href :: string

record FeedMetrics =
  fm_activeDestinationCount :: int
  fm_activeAttestationCount :: int
  fm_activeSigningKeyCount :: int
  fm_activeWebhookCount :: int
  fm_staleDestinationCount :: int
  fm_staleAttestationCount :: int
  fm_failedDeliveryCount7d :: int
  fm_pendingDeliveryCount :: int
  fm_deliverySuccessRate7d :: int
  fm_recentIngestionSuccessCount7d :: int
  fm_recentIngestionFailureCount7d :: int
  fm_degradedCorridorCount :: int
  fm_disconnectedCorridorCount :: int

definition buildRecommendedActions :: "PartnerFeedHealthStatus \<Rightarrow> bool \<Rightarrow> FeedMetrics \<Rightarrow> RecommendedAction list" where
  "buildRecommendedActions partnerFeedHealthStatus webhooksEnabled m =
     (let recommendations = map snd (filter fst
        [(fm_activeSigningKeyCount m = 0,
          \<lparr>ff_key = ''register_signing_key'', ff_title = ''Register a signing key'',
           ff_description = ''Trust updates cannot be verified until at least one active signing key is registered.'',
           ff_href = ''/access/signing-keys''\<rparr>),
         (webhooksEnabled \<and> fm_activeWebhookCount m = 0,
          \<lparr>ff_key = ''configure_webhook'', ff_title = ''Configure feed webhooks'',
           ff_description =
             ''Create at least one webhook endpoint so feed lifecycle issues are surfaced immediately.'',
           ff_href = ''/webhooks''\<rparr>),
         (fm_recentIngestionFailureCount7d m > 0,
          \<lparr>ff_key = ''review_ingestion_failures'', ff_title = ''Review ingestion failures'',
           ff_description =
             ''Recent attestation-ingestion failures may indicate signing, corridor, or payload issues upstream.'',
           ff_href = ''/data-feed-health''\<rparr>),
         (fm_degradedCorridorCount m > 0 \<or> fm_disconnectedCorridorCount m > 0,
          \<lparr>ff_key = ''review_corridor_health'', ff_title = ''Review corridor health'',
           ff_description = ''One or more production or mapped corridors are degraded or disconnected.'',
           ff_href = ''/data-feed-health''\<rparr>),
         (fm_staleDestinationCount m > 0,
          \<lparr>ff_key = ''review_stale_destinations'', ff_title = ''Review stale destinations'',
           ff_description =
             ''Some active destinations have not been refreshed recently or are approaching expiry.'',
           ff_href = ''/destinations''\<rparr>),
         (fm_staleAttestationCount m > 0,
          \<lparr>ff_key = ''review_stale_attestations'', ff_title = ''Review stale attestations'',
           ff_description =
             ''Verified attestations are nearing expiry or have already expired and need attention.'',
           ff_href = ''/attestations''\<rparr>),
         (fm_failedDeliveryCount7d m > 0,
          \<lparr>ff_key = ''review_delivery_failures'', ff_title = ''Investigate delivery failures'',
           ff_description = ''Recent webhook delivery failures may hide downstream feed-health problems.'',
           ff_href = ''/webhooks/deliveries''\<rparr>)]);
        feed =
          \<lparr>ff_key = ''resolve_feed_health'', ff_title = ''Resolve degraded feed health'',
           ff_description = ''Your organization is currently marked as degraded or disconnected. Review stale data, delivery failures, and readiness before going live.'',
           ff_href = ''/setup''\<rparr>
      in take 6 (if partnerFeedHealthStatus = PartnerFeedHealthStatus_DEGRADED \<or>
                    partnerFeedHealthStatus = PartnerFeedHealthStatus_DISCONNECTED
                 then feed # recommendations else recommendations))"

section \<open>What is read from the audit log\<close>

definition readMetadataRecord :: "json option \<Rightarrow> (string \<times> json) list" where
  "readMetadataRecord metadata = (case metadata of Some (JObj fs) \<Rightarrow> fs | _ \<Rightarrow> [])"

definition readMetadataString :: "(string \<times> json) list \<Rightarrow> string \<Rightarrow> string option" where
  "readMetadataString metadata key =
     (case map_of metadata key of
        Some (JStr value) \<Rightarrow> (if length value > 0 then Some value else None)
      | Some (JNum value) \<Rightarrow> Some (show_int value)
      | _ \<Rightarrow> None)"

record IngestionHistoryRecord =
  fi_id :: ident
  fi_entityId :: ident
  fi_status :: string
  fi_summary :: "string option"
  fi_attestationType :: "string option"
  fi_recipientIdentifier :: "string option"
  fi_chain :: "string option"
  fi_asset :: "string option"
  fi_keyId :: "string option"
  fi_sequenceNumber :: "string option"
  fi_failureReason :: "string option"
  fi_occurredAt :: string

definition buildIngestionHistoryRecord :: "AuditLog \<Rightarrow> string \<Rightarrow> IngestionHistoryRecord" where
  "buildIngestionHistoryRecord l status =
     (let get = readMetadataString (readMetadataRecord (al_metadata l)) in
      \<lparr>fi_id = al_id l, fi_entityId = al_entityId l, fi_status = status, fi_summary = al_summary l,
       fi_attestationType = get ''attestationType'', fi_recipientIdentifier = get ''recipientIdentifier'',
       fi_chain = get ''chain'', fi_asset = get ''asset'', fi_keyId = get ''keyId'',
       fi_sequenceNumber = get ''sequenceNumber'', fi_failureReason = get ''error'',
       fi_occurredAt = toISOString (al_createdAt l)\<rparr>)"

record WebhookTestFailureRecord =
  fw_id :: ident
  fw_endpointId :: ident
  fw_summary :: "string option"
  fw_error :: "string option"
  fw_occurredAt :: string

definition buildWebhookTestFailureRecord :: "AuditLog \<Rightarrow> WebhookTestFailureRecord" where
  "buildWebhookTestFailureRecord l =
     \<lparr>fw_id = al_id l, fw_endpointId = al_entityId l, fw_summary = al_summary l,
      fw_error = readMetadataString (readMetadataRecord (al_metadata l)) ''error'',
      fw_occurredAt = toISOString (al_createdAt l)\<rparr>"

definition ingestion_actions :: "string list" where
  "ingestion_actions = [''attestation.ingested'', ''attestation.ingest_failed'']"

definition recent_ingestion_logs :: "ident \<Rightarrow> db \<Rightarrow> AuditLog list" where
  "recent_ingestion_logs partnerId s = take 20 (order_desc al_createdAt
     (filter (\<lambda>l. al_subjectPartnerId l = Some partnerId \<and> List.member ingestion_actions (al_action l)) (auditLogs s)))"

definition count_action :: "string \<Rightarrow> time \<Rightarrow> ident \<Rightarrow> db \<Rightarrow> int" where
  "count_action action start partnerId s =
     int (count_where (\<lambda>l. al_subjectPartnerId l = Some partnerId \<and> al_action l = action \<and> start \<le> al_createdAt l)
       (auditLogs s))"

definition recent_test_failures :: "time \<Rightarrow> ident \<Rightarrow> db \<Rightarrow> AuditLog list" where
  "recent_test_failures now partnerId s = take 6 (order_desc al_createdAt
     (filter (\<lambda>l. al_subjectPartnerId l = Some partnerId \<and> al_action l = ''webhook.endpoint.test_failed'' \<and>
        recentWindowStart now \<le> al_createdAt l) (auditLogs s)))"

section \<open>Webhook deliveries of a partner\<close>

definition delivery_owned :: "ident \<Rightarrow> db \<Rightarrow> WebhookDelivery \<Rightarrow> bool" where
  "delivery_owned partnerId s d \<longleftrightarrow>
     (case List.find (\<lambda>e. ep_id e = dl_endpointId d) (webhookEndpoints s) of
        None \<Rightarrow> False | Some e \<Rightarrow> ep_partnerId e = partnerId)"

definition delivery_lost :: "WebhookDelivery \<Rightarrow> bool" where
  "delivery_lost d \<longleftrightarrow> dl_status d = DeliveryStatus_FAILED \<or> dl_status d = DeliveryStatus_ABANDONED"

definition delivery_count :: "(WebhookDelivery \<Rightarrow> bool) \<Rightarrow> ident \<Rightarrow> db \<Rightarrow> int" where
  "delivery_count P partnerId s =
     int (count_where (\<lambda>d. delivery_owned partnerId s d \<and> P d) (webhookDeliveries s))"

record DeliveryFailureRecord =
  fl_id :: ident
  fl_endpointLabel :: string
  fl_endpointUrl :: string
  fl_eventType :: WebhookEventType
  fl_status :: DeliveryStatus
  fl_attemptCount :: int
  fl_responseCode :: "int option"
  fl_lastAttemptAt :: "string option"
  fl_nextAttemptAt :: "string option"

definition delivery_failure :: "db \<Rightarrow> WebhookDelivery \<Rightarrow> DeliveryFailureRecord option" where
  "delivery_failure s d =
     map_option (\<lambda>e. \<lparr>fl_id = dl_id d, fl_endpointLabel = ep_label e, fl_endpointUrl = ep_url e,
         fl_eventType = dl_eventType d, fl_status = dl_status d, fl_attemptCount = dl_attemptCount d,
         fl_responseCode = dl_responseCode d, fl_lastAttemptAt = map_option toISOString (dl_lastAttemptAt d),
         fl_nextAttemptAt = map_option toISOString (dl_nextAttemptAt d)\<rparr>)
       (List.find (\<lambda>e. ep_id e = dl_endpointId d) (webhookEndpoints s))"

definition delivery_failures ::
    "(WebhookDelivery \<Rightarrow> time) \<Rightarrow> time \<Rightarrow> ident \<Rightarrow> db \<Rightarrow> DeliveryFailureRecord list" where
  "delivery_failures deliveryUpdatedAt now partnerId s =
     List.map_filter (delivery_failure s) (take 8 (order_desc deliveryUpdatedAt
       (filter (\<lambda>d. delivery_owned partnerId s d \<and> recentWindowStart now \<le> dl_createdAt d \<and> delivery_lost d)
         (webhookDeliveries s))))"

section \<open>Stale rows and recent events\<close>

record StaleDestinationRecord =
  fs_id :: ident
  fs_recipientId :: ident
  fs_recipientIdentifier :: string
  fs_recipientDisplayName :: string
  fs_address :: string
  fs_chain :: string
  fs_asset :: string
  fs_status :: DestinationStatus
  fs_lastAttestedAt :: "string option"
  fs_expiresAt :: "string option"
  fs_updatedAt :: string

definition stale_destination :: "RecipientDestination \<times> Recipient \<times> corridor \<Rightarrow> StaleDestinationRecord" where
  "stale_destination = (\<lambda>(d, r, (n, a, c)).
     \<lparr>fs_id = de_id d, fs_recipientId = rc_id r, fs_recipientIdentifier = rc_externalRecipientId r,
      fs_recipientDisplayName = or_else (rc_displayName r) (rc_externalRecipientId r), fs_address = de_addressRaw d,
      fs_chain = ch_slug c, fs_asset = as_symbol a, fs_status = de_status d,
      fs_lastAttestedAt = map_option toISOString (de_lastAttestedAt d),
      fs_expiresAt = map_option toISOString (de_expiresAt d), fs_updatedAt = toISOString (de_updatedAt d)\<rparr>)"

definition stale_destinations :: "time \<Rightarrow> ident \<Rightarrow> db \<Rightarrow> StaleDestinationRecord list" where
  "stale_destinations now partnerId s = map stale_destination (List.map_filter (joined_destination s)
     (take 8 (sort_key (\<lambda>d. (nulls_last (de_lastAttestedAt d), de_updatedAt d))
       (filter (staleDestinationWhere now partnerId s) (destinations s)))))"

text \<open>The corridor of an attestation, which an identifier binding does not have.\<close>

definition attestation_corridor :: "db \<Rightarrow> Attestation \<Rightarrow> corridor option" where
  "attestation_corridor s a = Option.bind (at_assetNetworkId a)
     (\<lambda>i. Option.bind (List.find (\<lambda>n. an_id n = i) (assetNetworks s)) (network_of s))"

record StaleAttestationRecord =
  fa_id :: ident
  fa_attestationType :: AttestationType
  fa_verificationStatus :: VerificationStatus
  fa_recipientIdentifier :: string
  fa_recipientDisplayName :: string
  fa_chain :: "string option"
  fa_asset :: "string option"
  fa_issuedAt :: string
  fa_ingestedAt :: string
  fa_expiresAt :: "string option"
  fa_revokedAt :: "string option"

definition stale_attestation :: "db \<Rightarrow> Attestation \<Rightarrow> StaleAttestationRecord" where
  "stale_attestation s a =
     \<lparr>fa_id = at_id a, fa_attestationType = at_attestationType a, fa_verificationStatus = at_verificationStatus a,
      fa_recipientIdentifier = at_recipientIdentifierSnapshot a,
      fa_recipientDisplayName = or_else (at_displayNameSnapshot a) (at_recipientIdentifierSnapshot a),
      fa_chain = map_option (\<lambda>(n, t, c). ch_slug c) (attestation_corridor s a),
      fa_asset = map_option (\<lambda>(n, t, c). as_symbol t) (attestation_corridor s a),
      fa_issuedAt = toISOString (at_issuedAt a), fa_ingestedAt = toISOString (at_ingestedAt a),
      fa_expiresAt = map_option toISOString (at_expiresAt a), fa_revokedAt = map_option toISOString (at_revokedAt a)\<rparr>"

definition stale_attestations :: "time \<Rightarrow> ident \<Rightarrow> db \<Rightarrow> StaleAttestationRecord list" where
  "stale_attestations now partnerId s = map (stale_attestation s)
     (take 8 (sort_key (\<lambda>a. (nulls_last (at_expiresAt a), - at_ingestedAt a))
       (filter (staleAttestationWhere now partnerId) (attestations s))))"

record TrustEventRecord =
  ft_id :: ident
  ft_eventType :: string
  ft_verificationStatus :: VerificationStatus
  ft_recipientIdentifier :: string
  ft_recipientDisplayName :: string
  ft_address :: "string option"
  ft_chain :: "string option"
  ft_asset :: "string option"
  ft_occurredAt :: string

definition trust_event :: "db \<Rightarrow> Attestation \<Rightarrow> TrustEventRecord" where
  "trust_event s a =
     \<lparr>ft_id = at_id a, ft_eventType = resolveTrustEventType (at_attestationType a),
      ft_verificationStatus = at_verificationStatus a, ft_recipientIdentifier = at_recipientIdentifierSnapshot a,
      ft_recipientDisplayName = or_else (at_displayNameSnapshot a) (at_recipientIdentifierSnapshot a),
      ft_address = at_addressRaw a, ft_chain = map_option (\<lambda>(n, t, c). ch_slug c) (attestation_corridor s a),
      ft_asset = map_option (\<lambda>(n, t, c). as_symbol t) (attestation_corridor s a),
      ft_occurredAt = resolveTrustEventTimestamp a\<rparr>"

definition partner_attestations :: "ident \<Rightarrow> db \<Rightarrow> Attestation list" where
  "partner_attestations partnerId s =
     order_desc at_ingestedAt (filter (\<lambda>a. at_partnerId a = partnerId) (attestations s))"

text \<open>The latest revocation; its query keeps only attestations with a date.\<close>

definition last_revocation :: "ident \<Rightarrow> db \<Rightarrow> time option" where
  "last_revocation partnerId s =
     (case sort_key (\<lambda>a. nulls_first_desc (at_revokedAt a))
             (filter (\<lambda>a. at_partnerId a = partnerId \<and> at_revokedAt a \<noteq> None) (attestations s)) of
        [] \<Rightarrow> None
      | a # _ \<Rightarrow> at_revokedAt a)"

section \<open>The report\<close>

record DataFeedHealth =
  fh_partner :: "ident \<times> string \<times> string"
  fh_feedStatus :: PartnerFeedHealthStatus
  fh_feedStatusLabel :: string
  fh_onboardingStage :: PartnerOnboardingStage
  fh_environment :: string
  fh_lastAttestationReceivedAt :: "string option"
  fh_lastRevocationReceivedAt :: "string option"
  fh_metrics :: FeedMetrics
  fh_staleDestinations :: "StaleDestinationRecord list"
  fh_staleAttestations :: "StaleAttestationRecord list"
  fh_recentActivity :: "IngestionHistoryRecord list"
  fh_recentFailures :: "IngestionHistoryRecord list"
  fh_corridors :: "CorridorHealth list"
  fh_recentTrustEvents :: "TrustEventRecord list"
  fh_deliveryFailures :: "DeliveryFailureRecord list"
  fh_webhookTestFailures :: "WebhookTestFailureRecord list"
  fh_recommendedActions :: "RecommendedAction list"

definition status_count :: "PartnerFeedHealthStatus \<Rightarrow> CorridorHealth list \<Rightarrow> int" where
  "status_count status corridors = int (length (filter (\<lambda>h. fc_status h = status) corridors))"

definition feed_metrics :: "time \<Rightarrow> ident \<Rightarrow> CorridorHealth list \<Rightarrow> db \<Rightarrow> FeedMetrics" where
  "feed_metrics now partnerId corridors s =
     (let failedDeliveryCount7d = delivery_count (\<lambda>d. recentWindowStart now \<le> dl_createdAt d \<and> delivery_lost d) partnerId s
      in \<lparr>fm_activeDestinationCount = int (count_where (activeDestinationWhere now partnerId s) (destinations s)),
          fm_activeAttestationCount = int (count_where (activeVerifiedAttestationWhere now partnerId) (attestations s)),
          fm_activeSigningKeyCount = int (count_where
            (\<lambda>k. sk_partnerId k = partnerId \<and> sk_status k = SigningKeyStatus_ACTIVE \<and> sk_revokedAt k = None)
            (signingKeys s)),
          fm_activeWebhookCount = int (count_where
            (\<lambda>e. ep_partnerId e = partnerId \<and> (ep_status e = WebhookStatus_ACTIVE \<or> ep_status e = WebhookStatus_PAUSED))
            (webhookEndpoints s)),
          fm_staleDestinationCount = int (count_where (staleDestinationWhere now partnerId s) (destinations s)),
          fm_staleAttestationCount = int (count_where (staleAttestationWhere now partnerId) (attestations s)),
          fm_failedDeliveryCount7d = failedDeliveryCount7d,
          fm_pendingDeliveryCount = delivery_count
            (\<lambda>d. dl_status d = DeliveryStatus_PENDING \<or> dl_status d = DeliveryStatus_PROCESSING) partnerId s,
          fm_deliverySuccessRate7d = calculateDeliverySuccessRate
            (delivery_count (\<lambda>d. recentWindowStart now \<le> dl_createdAt d) partnerId s) failedDeliveryCount7d,
          fm_recentIngestionSuccessCount7d = count_action ''attestation.ingested'' (recentWindowStart now) partnerId s,
          fm_recentIngestionFailureCount7d =
            count_action ''attestation.ingest_failed'' (recentWindowStart now) partnerId s,
          fm_degradedCorridorCount = status_count PartnerFeedHealthStatus_DEGRADED corridors,
          fm_disconnectedCorridorCount = status_count PartnerFeedHealthStatus_DISCONNECTED corridors\<rparr>)"

definition getPartnerDataFeedHealth ::
    "(WebhookDelivery \<Rightarrow> time) \<Rightarrow> time \<Rightarrow> ident \<Rightarrow> db \<Rightarrow> DataFeedHealth result" where
  "getPartnerDataFeedHealth deliveryUpdatedAt now partnerId s =
     (case partner_row s partnerId of
        None \<Rightarrow> Inl RecordNotFound
      | Some partner \<Rightarrow>
          let corridors = corridors_of now partnerId s;
              metrics = feed_metrics now partnerId corridors s;
              logs = recent_ingestion_logs partnerId s
          in Inr \<lparr>fh_partner = (pa_id partner, pa_slug partner, pa_displayName partner),
               fh_feedStatus = pa_feedHealthStatus partner,
               fh_feedStatusLabel = resolveFeedStatusLabel (pa_feedHealthStatus partner),
               fh_onboardingStage = pa_onboardingStage partner,
               fh_environment = resolveEnvironment (pa_productionEnabled partner) (pa_sandboxEnabled partner),
               fh_lastAttestationReceivedAt =
                 map_option (\<lambda>a. toISOString (at_ingestedAt a)) (first_option (partner_attestations partnerId s)),
               fh_lastRevocationReceivedAt = map_option toISOString (last_revocation partnerId s),
               fh_metrics = metrics, fh_staleDestinations = stale_destinations now partnerId s,
               fh_staleAttestations = stale_attestations now partnerId s,
               fh_recentActivity = map (\<lambda>l. buildIngestionHistoryRecord l ''SUCCEEDED'')
                 (filter (\<lambda>l. al_action l = ''attestation.ingested'') logs),
               fh_recentFailures = map (\<lambda>l. buildIngestionHistoryRecord l ''FAILED'')
                 (filter (\<lambda>l. al_action l = ''attestation.ingest_failed'') logs),
               fh_corridors = corridors,
               fh_recentTrustEvents = map (trust_event s) (take 10 (partner_attestations partnerId s)),
               fh_deliveryFailures = delivery_failures deliveryUpdatedAt now partnerId s,
               fh_webhookTestFailures = map buildWebhookTestFailureRecord (recent_test_failures now partnerId s),
               fh_recommendedActions =
                 buildRecommendedActions (pa_feedHealthStatus partner) (pa_webhooksEnabled partner) metrics\<rparr>)"

end
