(* ===== verification/Overview.thy ===== *)
theory Overview
  imports Data_Feed_Health
begin

text \<open>
  \<open>backend/src/overview/overview.service.ts\<close>: the first page of the dashboard, with the counts of a partner,
  what needs attention, the rates of the last day and the latest activity.  A rate rounded to four decimals is
  a number of ten-thousandths.  The column \<open>updatedAt\<close> of a webhook delivery is the argument
  \<open>deliveryUpdatedAt\<close>.
\<close>

section \<open>The counts\<close>

record OverviewKpis =
  ok_activeRecipients :: nat
  ok_activeDestinations :: nat
  ok_activeAttestations :: nat
  ok_byRecipientRequests7d :: nat
  ok_byAddressRequests7d :: nat
  ok_verifyTransferRequests7d :: nat
  ok_blockedVerificationCount :: nat
  ok_webhookFailureCount :: nat

definition last24Hours :: "time \<Rightarrow> time" where "last24Hours now = now - 24 * 60 * 60 * 1000"
definition last7Days :: "time \<Rightarrow> time" where "last7Days now = now - 7 * 24 * 60 * 60 * 1000"
definition next7Days :: "time \<Rightarrow> time" where "next7Days now = now + 7 * 24 * 60 * 60 * 1000"

definition overview_requests :: "ident \<Rightarrow> time \<Rightarrow> (ResolutionRequest \<Rightarrow> bool) \<Rightarrow> db \<Rightarrow> ResolutionRequest list" where
  "overview_requests partnerId start P s =
     filter (\<lambda>q. rr_requesterPartnerId q = Some partnerId \<and> start \<le> rr_requestedAt q \<and> P q) (resolutionRequests s)"

definition risky_request :: "ResolutionRequest \<Rightarrow> bool" where
  "risky_request q \<longleftrightarrow> rr_riskLevel q = RiskLevel_HIGH \<or> rr_riskLevel q = RiskLevel_CRITICAL"

definition overview_kpis :: "time \<Rightarrow> ident \<Rightarrow> db \<Rightarrow> OverviewKpis" where
  "overview_kpis now partnerId s =
     \<lparr>ok_activeRecipients =
        count_where (\<lambda>r. rc_partnerId r = partnerId \<and> rc_status r = RecipientStatus_ACTIVE) (recipients s),
      ok_activeDestinations = count_where (\<lambda>d. destination_owned partnerId s d \<and>
          de_status d = DestinationStatus_ACTIVE \<and> not_expired now (de_expiresAt d)) (destinations s),
      ok_activeAttestations = count_where (\<lambda>a. at_partnerId a = partnerId \<and>
          at_verificationStatus a = VerificationStatus_VERIFIED \<and> at_revokedAt a = None \<and>
          not_expired now (at_expiresAt a)) (attestations s),
      ok_byRecipientRequests7d =
        length (overview_requests partnerId (last7Days now) (\<lambda>q. rr_queryType q = QueryType_RESOLVE) s),
      ok_byAddressRequests7d =
        length (overview_requests partnerId (last7Days now) (\<lambda>q. rr_queryType q = QueryType_CONFIRM_ADDRESS) s),
      ok_verifyTransferRequests7d =
        length (overview_requests partnerId (last7Days now) (\<lambda>q. rr_queryType q = QueryType_VERIFY_ADDRESS) s),
      ok_blockedVerificationCount = length (overview_requests partnerId (last7Days now) risky_request s),
      ok_webhookFailureCount = count_where (\<lambda>d. delivery_owned partnerId s d \<and> last7Days now \<le> dl_createdAt d \<and>
          delivery_lost d) (webhookDeliveries s)\<rparr>"

section \<open>What needs attention\<close>

record HighRiskVerification =
  ov_id :: ident
  ov_queryType :: QueryType
  ov_platformInput :: "string option"
  ov_recipientIdentifierInput :: string
  ov_chainInput :: string
  ov_assetInput :: string
  ov_outcome :: ResolutionOutcome
  ov_riskLevel :: RiskLevel
  ov_recommendation :: "string option"
  ov_flags :: "string list"
  ov_requestedAt :: string

definition highRiskVerifications :: "time \<Rightarrow> ident \<Rightarrow> db \<Rightarrow> HighRiskVerification list" where
  "highRiskVerifications now partnerId s =
     map (\<lambda>q. \<lparr>ov_id = rr_id q, ov_queryType = rr_queryType q, ov_platformInput = rr_platformInput q,
         ov_recipientIdentifierInput = rr_recipientIdentifierInput q, ov_chainInput = rr_chainInput q,
         ov_assetInput = rr_assetInput q, ov_outcome = rr_outcome q, ov_riskLevel = rr_riskLevel q,
         ov_recommendation = rr_recommendation q, ov_flags = rr_flags q,
         ov_requestedAt = toISOString (rr_requestedAt q)\<rparr>)
       (take 8 (order_desc rr_requestedAt (overview_requests partnerId (last7Days now) risky_request s)))"

text \<open>The recipient as the page shows it.\<close>

type_synonym labelled_recipient = "ident \<times> string \<times> string option"

definition recipient_label :: "Recipient \<Rightarrow> labelled_recipient" where
  "recipient_label r = (rc_id r, rc_externalRecipientId r, rc_displayName r)"

record RevokedDestination =
  od_id :: ident
  od_recipient :: labelled_recipient
  od_chain :: string
  od_asset :: string
  od_address :: string
  od_revokedAt :: "string option"

definition revokedDestinations :: "time \<Rightarrow> ident \<Rightarrow> db \<Rightarrow> RevokedDestination list" where
  "revokedDestinations now partnerId s =
     map (\<lambda>(d, r, (n, a, c)). \<lparr>od_id = de_id d, od_recipient = recipient_label r, od_chain = ch_slug c,
         od_asset = as_symbol a, od_address = de_addressRaw d, od_revokedAt = map_option toISOString (de_revokedAt d)\<rparr>)
       (List.map_filter (joined_destination s) (take 8 (sort_key (\<lambda>d. nulls_first_desc (de_revokedAt d))
         (filter (\<lambda>d. destination_owned partnerId s d \<and> de_status d = DestinationStatus_REVOKED \<and>
            (case de_revokedAt d of None \<Rightarrow> False | Some t \<Rightarrow> last7Days now \<le> t)) (destinations s)))))"

record ExpiringAttestation =
  oe_id :: ident
  oe_recipient :: labelled_recipient
  oe_recipientIdentifier :: string
  oe_attestationType :: AttestationType
  oe_expiresAt :: "string option"

definition expiring_attestation :: "db \<Rightarrow> Attestation \<Rightarrow> ExpiringAttestation option" where
  "expiring_attestation s a =
     map_option (\<lambda>r. \<lparr>oe_id = at_id a, oe_recipient = recipient_label r,
         oe_recipientIdentifier = at_recipientIdentifierSnapshot a, oe_attestationType = at_attestationType a,
         oe_expiresAt = map_option toISOString (at_expiresAt a)\<rparr>) (recipient_row s (at_recipientId a))"

definition expiringAttestations :: "time \<Rightarrow> ident \<Rightarrow> db \<Rightarrow> ExpiringAttestation list" where
  "expiringAttestations now partnerId s =
     List.map_filter (expiring_attestation s) (take 8 (sort_key (\<lambda>a. nulls_last (at_expiresAt a))
       (filter (\<lambda>a. at_partnerId a = partnerId \<and> at_verificationStatus a = VerificationStatus_VERIFIED \<and>
          (case at_expiresAt a of None \<Rightarrow> False | Some t \<Rightarrow> now \<le> t \<and> t \<le> next7Days now)) (attestations s))))"

record FailedWebhookDelivery =
  ow_id :: ident
  ow_endpoint :: "ident \<times> string \<times> string"
  ow_eventType :: WebhookEventType
  ow_status :: DeliveryStatus
  ow_attemptCount :: int
  ow_responseCode :: "int option"
  ow_lastError :: "string option"
  ow_updatedAt :: string

definition failed_delivery :: "(WebhookDelivery \<Rightarrow> time) \<Rightarrow> db \<Rightarrow> WebhookDelivery \<Rightarrow> FailedWebhookDelivery option" where
  "failed_delivery deliveryUpdatedAt s d =
     map_option (\<lambda>e. \<lparr>ow_id = dl_id d, ow_endpoint = (ep_id e, ep_label e, ep_url e), ow_eventType = dl_eventType d,
         ow_status = dl_status d, ow_attemptCount = dl_attemptCount d, ow_responseCode = dl_responseCode d,
         ow_lastError = dl_lastError d, ow_updatedAt = toISOString (deliveryUpdatedAt d)\<rparr>)
       (List.find (\<lambda>e. ep_id e = dl_endpointId d) (webhookEndpoints s))"

definition failedWebhookDeliveries ::
    "(WebhookDelivery \<Rightarrow> time) \<Rightarrow> ident \<Rightarrow> db \<Rightarrow> FailedWebhookDelivery list" where
  "failedWebhookDeliveries deliveryUpdatedAt partnerId s =
     List.map_filter (failed_delivery deliveryUpdatedAt s) (take 8 (order_desc deliveryUpdatedAt
       (filter (\<lambda>d. delivery_owned partnerId s d \<and> (delivery_lost d \<or> dl_status d = DeliveryStatus_PENDING))
         (webhookDeliveries s))))"

record KeyChange =
  oc_id :: ident
  oc_action :: string
  oc_summary :: "string option"
  oc_createdAt :: string

definition recentKeyChanges :: "env \<Rightarrow> ident \<Rightarrow> db \<Rightarrow> KeyChange list" where
  "recentKeyChanges E partnerId s =
     map (\<lambda>l. \<lparr>oc_id = al_id l, oc_action = al_action l, oc_summary = al_summary l,
         oc_createdAt = toISOString (al_createdAt l)\<rparr>)
       (take 6 (order_desc al_createdAt
         (filter (\<lambda>l. al_subjectPartnerId l = Some partnerId \<and> sql_contains E False ''key'' (al_action l))
           (auditLogs s))))"

record ActivityRecord =
  oa_id :: ident
  oa_action :: string
  oa_summary :: "string option"
  oa_entityType :: string
  oa_entityId :: ident
  oa_createdAt :: string
  oa_actorType :: AuditActorType
  oa_actorIdentifier :: "string option"

definition recentActivity :: "ident \<Rightarrow> db \<Rightarrow> ActivityRecord list" where
  "recentActivity partnerId s =
     map (\<lambda>l. \<lparr>oa_id = al_id l, oa_action = al_action l, oa_summary = al_summary l, oa_entityType = al_entityType l,
         oa_entityId = al_entityId l, oa_createdAt = toISOString (al_createdAt l), oa_actorType = al_actorType l,
         oa_actorIdentifier = al_actorIdentifier l\<rparr>)
       (take 16 (order_desc al_createdAt (filter (\<lambda>l. al_subjectPartnerId l = Some partnerId) (auditLogs s))))"

section \<open>Health\<close>

record OverviewHealth =
  oh_webhookSuccessRate :: "int option"
  oh_byRecipientResolutionSuccessRate :: "int option"
  oh_byAddressResolutionSuccessRate :: "int option"
  oh_attestationFreshnessScore :: "int option"
  oh_keyRotationStatus :: string

text \<open>\<open>Number((a / b).toFixed(4))\<close> on the double nearest to the quotient.\<close>

definition fixed4 :: "int \<Rightarrow> int \<Rightarrow> int" where
  "fixed4 a b = (let (x, y) = to_double (a, b) in (20000 * x + y) div (2 * y))"

definition stat_total :: "('k \<times> int) list \<Rightarrow> int" where
  "stat_total stats = foldl (\<lambda>sum (k, n). sum + n) 0 stats"

definition stat_of :: "'k \<Rightarrow> ('k \<times> int) list \<Rightarrow> int" where
  "stat_of k stats = or_else (map_of stats k) 0"

definition success_rate :: "'k \<Rightarrow> ('k \<times> int) list \<Rightarrow> int option" where
  "success_rate k stats =
     (let total = stat_total stats; succeeded = stat_of k stats in
      if total = 0 then None else Some (fixed4 succeeded total))"

definition overview_health :: "time \<Rightarrow> ident \<Rightarrow> nat \<Rightarrow> db \<Rightarrow> OverviewHealth" where
  "overview_health now partnerId activeAttestations s =
     (let webhookStats = count_by dl_status
            (filter (\<lambda>d. delivery_owned partnerId s d \<and> last24Hours now \<le> dl_createdAt d) (webhookDeliveries s));
          stats = (\<lambda>t. count_by rr_outcome (overview_requests partnerId (last24Hours now) (\<lambda>q. rr_queryType q = t) s));
          activeSigningKeys = filter (\<lambda>k. sk_partnerId k = partnerId \<and>
            (sk_status k = SigningKeyStatus_ACTIVE \<or> sk_status k = SigningKeyStatus_ROTATING)) (signingKeys s)
      in \<lparr>oh_webhookSuccessRate = success_rate DeliveryStatus_SUCCEEDED webhookStats,
          oh_byRecipientResolutionSuccessRate = success_rate ResolutionOutcome_RESOLVED (stats QueryType_RESOLVE),
          oh_byAddressResolutionSuccessRate =
            success_rate ResolutionOutcome_RESOLVED (stats QueryType_CONFIRM_ADDRESS),
          oh_attestationFreshnessScore =
            (if activeAttestations = 0 then None
             else Some (fixed4 (int activeAttestations) (int (max activeAttestations 1)))),
          oh_keyRotationStatus = (if length activeSigningKeys > 0 then ''healthy'' else ''missing'')\<rparr>)"

section \<open>The page\<close>

record PartnerOverview =
  oo_kpis :: OverviewKpis
  oo_highRiskVerifications :: "HighRiskVerification list"
  oo_revokedDestinations :: "RevokedDestination list"
  oo_expiringAttestations :: "ExpiringAttestation list"
  oo_failedWebhookDeliveries :: "FailedWebhookDelivery list"
  oo_recentKeyChanges :: "KeyChange list"
  oo_health :: OverviewHealth
  oo_recentActivity :: "ActivityRecord list"

definition getPartnerOverview ::
    "env \<Rightarrow> (WebhookDelivery \<Rightarrow> time) \<Rightarrow> time \<Rightarrow> ident \<Rightarrow> db \<Rightarrow> PartnerOverview" where
  "getPartnerOverview E deliveryUpdatedAt now partnerId s =
     (let kpis = overview_kpis now partnerId s in
      \<lparr>oo_kpis = kpis, oo_highRiskVerifications = highRiskVerifications now partnerId s,
       oo_revokedDestinations = revokedDestinations now partnerId s,
       oo_expiringAttestations = expiringAttestations now partnerId s,
       oo_failedWebhookDeliveries = failedWebhookDeliveries deliveryUpdatedAt partnerId s,
       oo_recentKeyChanges = recentKeyChanges E partnerId s,
       oo_health = overview_health now partnerId (ok_activeAttestations kpis) s,
       oo_recentActivity = recentActivity partnerId s\<rparr>)"

end
