(* ===== verification/Feed_Facts.thy ===== *)
theory Feed_Facts
  imports Overview Directory
begin

text \<open>
  What the feed report is worth: the counts of its corridors are the counts of the rows they name, they add
  up to the totals, the health of a corridor agrees with what the lookups answer from it, and the overview
  page agrees with the report.
\<close>

section \<open>The groupings count\<close>

lemma map_of_map_set: "map_of (map_set k v m) i = (if \<not> falsy k \<and> k = Some i then Some v else map_of m i)"
  by (auto simp: map_set_def falsy_def update_conv' split: option.splits)

lemma foldl_map_set:
  "distinct (map fst records) \<Longrightarrow>
   map_of (foldl (\<lambda>m (k, x). map_set k (g x) m) m records) i =
     (if i = [] then map_of m i
      else case map_of records (Some i) of None \<Rightarrow> map_of m i | Some x \<Rightarrow> Some (g x))"
proof (induction records arbitrary: m)
  case (Cons r records)
  then show ?case
    by (cases r) (auto simp: map_of_map_set falsy_def map_of_eq_None_iff [symmetric] split: option.splits)
qed simp

lemma map_of_keys: "map_of (map (\<lambda>k. (k, g k)) ks) k = (if k \<in> set ks then Some (g k) else None)"
  by (simp add: map_of_map_restrict restrict_map_def)

lemma count_by_keys: "distinct (map fst (count_by f rows))"
  by (simp add: count_by_def comp_def)

lemma map_of_count_by:
  "map_of (count_by f rows) k =
     (if k \<in> f ` set rows then Some (int (count_where (\<lambda>r. f r = k) rows)) else None)"
  unfolding count_by_def map_of_keys by simp

lemma map_of_buildCountMap:
  "map_of (buildCountMap (count_by f rows)) i =
     (if i \<noteq> [] \<and> Some i \<in> f ` set rows then Some (int (count_where (\<lambda>r. f r = Some i) rows)) else None)"
  using foldl_map_set [of "count_by f rows" "\<lambda>n. n" "[]" i, OF count_by_keys]
  by (simp add: buildCountMap_def map_of_count_by)

lemma count_where_filter: "count_where P (filter Q rows) = count_where (\<lambda>r. Q r \<and> P r) rows"
  by (simp add: count_where_def)

lemma count_where_posI: "\<lbrakk>r \<in> set rows; P r\<rbrakk> \<Longrightarrow> 0 < int (count_where P rows)"
  using count_where_zero_iff [of P rows] by auto

lemma destination_counts_exact:
  assumes "i \<noteq> []"
  shows "or_else (map_of (destination_counts P s) i) 0 =
    int (count_where (\<lambda>d. P d \<and> de_assetNetworkId d = i) (destinations s))"
proof (cases "Some i \<in> (\<lambda>d. Some (de_assetNetworkId d)) ` set (filter P (destinations s))")
  case True
  with assms show ?thesis
    by (simp add: destination_counts_def map_of_buildCountMap count_where_filter)
next
  case False
  then have "count_where (\<lambda>d. P d \<and> de_assetNetworkId d = i) (destinations s) = 0"
    unfolding count_where_zero_iff by auto
  with False show ?thesis by (simp add: destination_counts_def map_of_buildCountMap)
qed

lemma attestation_counts_exact:
  assumes "i \<noteq> []"
  shows "or_else (map_of (attestation_counts P s) i) 0 =
    int (count_where (\<lambda>a. P a \<and> at_assetNetworkId a = Some i) (attestations s))"
proof (cases "Some i \<in> at_assetNetworkId ` set (filter (\<lambda>a. P a \<and> at_assetNetworkId a \<noteq> None) (attestations s))")
  case True
  with assms show ?thesis
    by (auto simp: attestation_counts_def map_of_buildCountMap count_where_filter intro!: count_where_cong)
next
  case False
  then have "count_where (\<lambda>a. P a \<and> at_assetNetworkId a = Some i) (attestations s) = 0"
    unfolding count_where_zero_iff by force
  with False show ?thesis by (simp add: attestation_counts_def map_of_buildCountMap)
qed

lemma counted_destination_listed:
  assumes "d \<in> set (destinations s)" "P d" "de_assetNetworkId d \<noteq> []"
  shows "de_assetNetworkId d \<in> fst ` set (destination_counts P s)"
proof -
  have "map_of (destination_counts P s) (de_assetNetworkId d) \<noteq> None"
    using assms by (auto simp: destination_counts_def map_of_buildCountMap)
  then show ?thesis by (simp add: map_of_eq_None_iff)
qed

section \<open>The corridors of a report\<close>

lemma in_map_filter: "y \<in> set (List.map_filter f xs) \<longleftrightarrow> (\<exists>x \<in> set xs. f x = Some y)"
  by (force simp: List.map_filter_def)

lemma set_corridors_of:
  "set (corridors_of now partnerId s) = corridor_health (corridor_groups_of now partnerId s) `
     {c. \<exists>n \<in> set (assetNetworks s). network_of s n = Some c \<and>
         an_id n \<in> set (corridor_ids (corridor_groups_of now partnerId s))}"
proof -
  have "set (List.map_filter (network_of s) (filter (\<lambda>n. List.member ids (an_id n)) ns)) =
      {c. \<exists>n \<in> set ns. network_of s n = Some c \<and> an_id n \<in> set ids}" for ids ns
    by (auto simp: in_map_filter)
  then show ?thesis by (simp add: corridors_of_def Let_def)
qed

lemma corridor_health_id [simp]: "fc_assetNetworkId (corridor_health g c) = an_id (fst c)"
  by (cases c) (simp add: corridor_health_def Let_def)

lemma corridor_health_fields:
  fixes now :: time and partnerId :: ident and s :: db
  assumes "an_id (fst c) \<noteq> []"
  defines "i \<equiv> an_id (fst c)" and "h \<equiv> corridor_health (corridor_groups_of now partnerId s) c"
  shows "fc_activeDestinationCount h =
       int (count_where (\<lambda>d. activeDestinationWhere now partnerId s d \<and> de_assetNetworkId d = i) (destinations s))"
    "fc_staleDestinationCount h =
       int (count_where (\<lambda>d. staleDestinationWhere now partnerId s d \<and> de_assetNetworkId d = i) (destinations s))"
    "fc_verifiedAttestationCount h = int (count_where
       (\<lambda>a. activeVerifiedAttestationWhere now partnerId a \<and> at_assetNetworkId a = Some i) (attestations s))"
    "fc_staleAttestationCount h = int (count_where
       (\<lambda>a. staleAttestationWhere now partnerId a \<and> at_assetNetworkId a = Some i) (attestations s))"
    "fc_status h = resolveCorridorHealthStatus (fc_activeDestinationCount h) (fc_productionGranted h)
       (fc_staleAttestationCount h) (fc_staleDestinationCount h) (fc_verifiedAttestationCount h)"
  using assms
  by (cases c; simp add: corridor_health_def Let_def corridor_groups_of_def destination_counts_exact
      attestation_counts_exact)+

lemma corridor_listed:
  assumes "n \<in> set (assetNetworks s)" "network_of s n = Some c" "an_id n \<noteq> []"
    "d \<in> set (destinations s)" "de_assetNetworkId d = an_id n"
    "activeDestinationWhere now partnerId s d \<or> staleDestinationWhere now partnerId s d"
  shows "corridor_health (corridor_groups_of now partnerId s) c \<in> set (corridors_of now partnerId s)"
proof -
  have "an_id n \<in> fst ` set (destination_counts (activeDestinationWhere now partnerId s) s) \<or>
      an_id n \<in> fst ` set (destination_counts (staleDestinationWhere now partnerId s) s)"
    using counted_destination_listed [of d s] assms(3-6) by metis
  then have "an_id n \<in> set (corridor_ids (corridor_groups_of now partnerId s))"
    by (auto simp: corridor_ids_def corridor_groups_of_def)
  with assms(1,2) show ?thesis unfolding set_corridors_of by blast
qed

lemma network_of_id: "network_of s n = Some c \<Longrightarrow> fst c = n"
  by (auto simp: network_of_def split: option.splits)

lemma answered_active:
  assumes "d \<in> set (getActiveDestinations r i now s)" "recipient_row s r = Some rcp" "rc_partnerId rcp = partnerId"
  shows "d \<in> set (destinations s)" "de_assetNetworkId d = i" "activeDestinationWhere now partnerId s d"
  using assms
  by (auto simp: getActiveDestinations_def default_first_def activeDestinationWhere_def destination_owned_def)

lemma not_stale:
  assumes "activeDestinationWhere now partnerId s d" "\<not> staleDestinationWhere now partnerId s d"
  shows "(\<exists>t. de_lastAttestedAt d = Some t \<and> now - 14 * day_ms \<le> t) \<and>
    (\<forall>e. de_expiresAt d = Some e \<longrightarrow> now + 7 * day_ms < e)"
  using assms
  by (auto simp: activeDestinationWhere_def staleDestinationWhere_def destinationFreshnessThreshold_def
      destinationFreshnessWindowDays_def attestationExpiryThreshold_def attestationExpiryWindowDays_def expires_by_def
      split: option.splits)

lemma report_corridors:
  "getPartnerDataFeedHealth u now partnerId s = Inr rep \<Longrightarrow>
   fh_corridors rep = corridors_of now partnerId s \<and>
   fh_metrics rep = feed_metrics now partnerId (corridors_of now partnerId s) s"
  by (auto simp: getPartnerDataFeedHealth_def Let_def split: option.splits)

lemma corridor_statuses:
  "resolveCorridorHealthStatus ad granted sa sd va \<in> {PartnerFeedHealthStatus_DISCONNECTED, PartnerFeedHealthStatus_UNKNOWN}
     \<longleftrightarrow> ad = 0 \<and> va = 0"
  "resolveCorridorHealthStatus ad granted sa sd va = PartnerFeedHealthStatus_HEALTHY \<longleftrightarrow>
     (ad \<noteq> 0 \<or> va \<noteq> 0) \<and> sd \<le> 0 \<and> sa \<le> 0"
  by (auto simp: resolveCorridorHealthStatus_def)

text \<open>C29: The feed report speaks for the lookups.  An address a lookup may answer is counted in the corridor
it is on, a corridor reported disconnected or unknown has no such address, and on a corridor reported healthy
every such address was attested within the last fourteen days and stays valid for more than seven.\<close>

theorem feed_health_speaks_for_lookups:
  assumes report: "getPartnerDataFeedHealth u now partnerId s = Inr rep"
    and net: "n \<in> set (assetNetworks s)" "network_of s n = Some c" "an_id n \<noteq> []"
    and owner: "recipient_row s r = Some rcp" "rc_partnerId rcp = partnerId"
    and answered: "d \<in> set (getActiveDestinations r (an_id n) now s)"
  shows "(\<exists>h \<in> set (fh_corridors rep). fc_assetNetworkId h = an_id n) \<and>
    (\<forall>h \<in> set (fh_corridors rep). fc_assetNetworkId h = an_id n \<longrightarrow>
       0 < fc_activeDestinationCount h \<and>
       fc_status h \<notin> {PartnerFeedHealthStatus_DISCONNECTED, PartnerFeedHealthStatus_UNKNOWN} \<and>
       (fc_status h = PartnerFeedHealthStatus_HEALTHY \<longrightarrow>
          (\<exists>t. de_lastAttestedAt d = Some t \<and> now - 14 * day_ms \<le> t) \<and>
          (\<forall>e. de_expiresAt d = Some e \<longrightarrow> now + 7 * day_ms < e)))"
proof (intro conjI ballI impI)
  note d = answered_active [OF answered owner]
  have rows: "fh_corridors rep = corridors_of now partnerId s" using report_corridors [OF report] by simp
  have "fst c = n" by (rule network_of_id [OF net(2)])
  then show "\<exists>h \<in> set (fh_corridors rep). fc_assetNetworkId h = an_id n"
    using corridor_listed [OF net d(1,2)] d(3) corridor_health_id net(3) rows by metis
  fix h assume h: "h \<in> set (fh_corridors rep)" "fc_assetNetworkId h = an_id n"
  then obtain c' where c': "h = corridor_health (corridor_groups_of now partnerId s) c'"
    unfolding rows set_corridors_of by blast
  have i: "an_id (fst c') = an_id n"
    using h(2) by (simp add: c')
  note fs = corridor_health_fields [of c' now partnerId s, unfolded i, OF net(3), folded c']
  show pos: "0 < fc_activeDestinationCount h"
    unfolding fs(1) by (rule count_where_posI [OF d(1)]) (simp add: d)
  show "fc_status h \<notin> {PartnerFeedHealthStatus_DISCONNECTED, PartnerFeedHealthStatus_UNKNOWN}"
    unfolding fs(5) corridor_statuses(1) using pos by simp
  assume "fc_status h = PartnerFeedHealthStatus_HEALTHY"
  then have "fc_staleDestinationCount h \<le> 0" unfolding fs(5) corridor_statuses(2) by simp
  then have "\<not> staleDestinationWhere now partnerId s d"
    using count_where_posI [OF d(1), of "\<lambda>d. staleDestinationWhere now partnerId s d \<and> de_assetNetworkId d = an_id n"]
      d(2) fs(2) by auto
  then show "\<exists>t. de_lastAttestedAt d = Some t \<and> now - 14 * day_ms \<le> t"
    "\<forall>e. de_expiresAt d = Some e \<longrightarrow> now + 7 * day_ms < e"
    using not_stale [OF d(3)] by blast+
qed

section \<open>The counts add up\<close>

lemma count_where_partition:
  assumes "finite A" "\<And>r. \<lbrakk>r \<in> set rows; P r\<rbrakk> \<Longrightarrow> f r \<in> A"
  shows "(\<Sum>i \<in> A. int (count_where (\<lambda>r. P r \<and> f r = i) rows)) = int (count_where P rows)"
  using assms(2)
proof (induction rows)
  case (Cons r rows)
  have "(\<Sum>i \<in> A. int (count_where (\<lambda>r. P r \<and> f r = i) (r # rows))) =
      (\<Sum>i \<in> A. (if f r = i then (if P r then 1 else 0) else 0) + int (count_where (\<lambda>r. P r \<and> f r = i) rows))"
    by (intro sum.cong) auto
  also have "\<dots> = (if P r then 1 else 0) + int (count_where P rows)"
    using Cons assms(1) by (auto simp: sum.distrib)
  finally show ?case by simp
qed simp

lemma map_filter_ids:
  "map (\<lambda>c. an_id (fst c)) (List.map_filter (network_of s) ns) = map an_id (filter (\<lambda>n. network_of s n \<noteq> None) ns)"
  by (induction ns) (auto simp: List.map_filter_simps network_of_id split: option.splits)

lemma distinct_corridors:
  assumes "distinct (map an_id (assetNetworks s))"
  shows "distinct (map fc_assetNetworkId (corridors_of now partnerId s))"
proof -
  have "distinct (map fc_assetNetworkId (map (corridor_health g) (List.map_filter (network_of s) (filter P (assetNetworks s)))))"
    for g P
    using assms by (simp add: comp_def map_filter_ids distinct_map_filter)
  then show ?thesis
    by (simp add: corridors_of_def Let_def distinct_map del: map_map)
qed

text \<open>The corridors of the feed report are consistent.  Each corridor is listed once, the worst health
first, and the active and the stale destinations of the corridors add up to the totals of the report.\<close>

theorem corridors_add_up:
  assumes report: "getPartnerDataFeedHealth u now partnerId s = Inr rep"
    and keys: "distinct (map an_id (assetNetworks s))" "[] \<notin> an_id ` set (assetNetworks s)"
    and refs: "\<forall>d \<in> set (destinations s). destination_network s d \<noteq> None"
  shows "sorted (map corridor_order (fh_corridors rep)) \<and>
    distinct (map fc_assetNetworkId (fh_corridors rep)) \<and>
    sum_list (map fc_activeDestinationCount (fh_corridors rep)) = fm_activeDestinationCount (fh_metrics rep) \<and>
    sum_list (map fc_staleDestinationCount (fh_corridors rep)) = fm_staleDestinationCount (fh_metrics rep)"
proof -
  let ?H = "corridors_of now partnerId s"
  note rep = report_corridors [OF report]
  have dist: "distinct (map fc_assetNetworkId ?H)" by (rule distinct_corridors [OF keys(1)])
  have row: "\<exists>c. h = corridor_health (corridor_groups_of now partnerId s) c \<and> an_id (fst c) \<noteq> []"
    if h: "h \<in> set ?H" for h
  proof -
    obtain n c where c: "h = corridor_health (corridor_groups_of now partnerId s) c" "n \<in> set (assetNetworks s)"
        "network_of s n = Some c"
      using h unfolding set_corridors_of by blast
    then have "an_id (fst c) \<noteq> []" using keys(2) network_of_id [OF c(3)] by (metis imageI)
    with c(1) show ?thesis by blast
  qed
  have total: "sum_list (map g ?H) = int (count_where P (destinations s))"
    if g: "\<And>c. an_id (fst c) \<noteq> [] \<Longrightarrow> g (corridor_health (corridor_groups_of now partnerId s) c) =
        int (count_where (\<lambda>d. P d \<and> de_assetNetworkId d = an_id (fst c)) (destinations s))"
      and P: "\<And>d. P d \<Longrightarrow> activeDestinationWhere now partnerId s d \<or> staleDestinationWhere now partnerId s d" for g P
  proof -
    let ?count = "\<lambda>i. int (count_where (\<lambda>d. P d \<and> de_assetNetworkId d = i) (destinations s))"
    have "g h = ?count (fc_assetNetworkId h)" if h: "h \<in> set ?H" for h
    proof -
      obtain c where "h = corridor_health (corridor_groups_of now partnerId s) c" "an_id (fst c) \<noteq> []"
        using row [OF h] by blast
      with g [of c] show ?thesis by simp
    qed
    then have "map g ?H = map ?count (map fc_assetNetworkId ?H)" by simp
    then have "sum_list (map g ?H) = (\<Sum>i \<in> set (map fc_assetNetworkId ?H). ?count i)"
      by (simp only: sum_list_distinct_conv_sum_set [OF dist])
    also have "\<dots> = int (count_where P (destinations s))"
    proof (rule count_where_partition)
      fix d assume d: "d \<in> set (destinations s)" "P d"
      obtain c where "destination_network s d = Some c" using refs d(1) by blast
      then obtain n where "List.find (\<lambda>n. an_id n = de_assetNetworkId d) (assetNetworks s) = Some n"
          "network_of s n = Some c"
        by (auto simp: destination_network_def bind_eq_Some_conv)
      note n = this(2) conjunct1 [OF find_SomeD [OF this(1)]] conjunct2 [OF find_SomeD [OF this(1)]]
      from corridor_listed [OF n(2,1) _ d(1) n(3) [symmetric] P [OF d(2)]] keys(2) n(2)
      have "corridor_health (corridor_groups_of now partnerId s) c \<in> set ?H" by force
      moreover have "fc_assetNetworkId (corridor_health (corridor_groups_of now partnerId s) c) = de_assetNetworkId d"
        using network_of_id [OF n(1)] n(3) by simp
      ultimately show "de_assetNetworkId d \<in> set (map fc_assetNetworkId ?H)" by force
    qed simp
    finally show ?thesis .
  qed
  have "sorted (map corridor_order ?H)" by (simp add: corridors_of_def Let_def)
  with dist total [of fc_activeDestinationCount "activeDestinationWhere now partnerId s"]
    total [of fc_staleDestinationCount "staleDestinationWhere now partnerId s"]
  show ?thesis by (simp add: rep feed_metrics_def Let_def corridor_health_fields)
qed

section \<open>A report\<close>

lemma demo_report:
  "\<exists>rep. getPartnerDataFeedHealth u now ''p'' demo_paid_db = Inr rep"
  "demo_network \<in> set (assetNetworks demo_paid_db)" "an_id demo_network = ''an''"
  "network_of demo_paid_db demo_network = Some (demo_network, demo_asset, demo_chain)"
  "recipient_row demo_paid_db ''r'' = Some demo_recipient" "rc_partnerId demo_recipient = ''p''"
  "demo_destination\<lparr>de_id := cuid demo_env 0\<rparr> \<in> set (getActiveDestinations ''r'' ''an'' 1000 demo_paid_db)"
  "destination_network demo_paid_db (demo_destination\<lparr>de_id := i\<rparr>) \<noteq> None"
  by (simp_all add: getPartnerDataFeedHealth_def partner_row_def demo_paid_db_def demo_partner_db_def
      demo_partner_row_def demo_network_def network_of_def demo_asset_def demo_chain_def recipient_row_def
      demo_recipient_def getActiveDestinations_def demo_destination_def not_expired_def default_first_def
      destination_network_def Let_def)

theorem feed_health_speaks_for_lookups_witness:
  "\<exists>rep. getPartnerDataFeedHealth (\<lambda>d. 0) 1000 ''p'' demo_paid_db = Inr rep \<and>
     (\<exists>h \<in> set (fh_corridors rep). fc_assetNetworkId h = ''an'' \<and> 0 < fc_activeDestinationCount h)"
proof -
  obtain rep where rep: "getPartnerDataFeedHealth (\<lambda>d. 0) 1000 ''p'' demo_paid_db = Inr rep"
    using demo_report(1) by blast
  show ?thesis
    using rep feed_health_speaks_for_lookups [OF rep demo_report(2,4) _ demo_report(5,6), unfolded demo_report(3),
        OF _ demo_report(7)] by auto
qed

theorem corridors_add_up_witness:
  "\<exists>rep. getPartnerDataFeedHealth (\<lambda>d. 0) 1000 ''p'' demo_paid_db = Inr rep \<and>
     sum_list (map fc_activeDestinationCount (fh_corridors rep)) = 1"
proof -
  obtain rep where rep: "getPartnerDataFeedHealth (\<lambda>d. 0) 1000 ''p'' demo_paid_db = Inr rep"
    using demo_report(1) by blast
  have rows: "map an_id (assetNetworks demo_paid_db) = [''an'']"
    "destinations demo_paid_db = [demo_destination\<lparr>de_id := cuid demo_env 0\<rparr>]"
    by (simp_all add: demo_paid_db_def demo_partner_db_def demo_network_def)
  then have "[] \<notin> an_id ` set (assetNetworks demo_paid_db)" by (metis list.set_map list.set(1,2) empty_iff insert_iff list.distinct(1))
  moreover have "\<forall>d \<in> set (destinations demo_paid_db). destination_network demo_paid_db d \<noteq> None"
    using demo_report(8) rows(2) by simp
  ultimately have "sum_list (map fc_activeDestinationCount (fh_corridors rep)) = fm_activeDestinationCount (fh_metrics rep)"
    using corridors_add_up [OF rep] rows(1) by simp
  also have "\<dots> = 1"
    using report_corridors [OF rep] demo_report(5,6) rows(2)
    by (simp add: feed_metrics_def Let_def activeDestinationWhere_def destination_owned_def demo_destination_def
        not_expired_def)
  finally show ?thesis using rep by blast
qed

section \<open>Rates in double precision\<close>

lemma bit_count_simps:
  "n \<le> 0 \<Longrightarrow> bit_count n = 0" "0 < n \<Longrightarrow> bit_count n = 1 + bit_count (n div 2)"
  by (simp_all add: bit_count.simps [of n])

lemma bit_count_less: "n < 2 ^ j \<Longrightarrow> bit_count n \<le> int j"
proof (induction j arbitrary: n)
  case (Suc j)
  show ?case
  proof (cases "0 < n")
    case True
    then show ?thesis using Suc.IH [of "n div 2"] Suc.prems by (simp add: bit_count_simps)
  qed (simp add: bit_count_simps)
qed (simp add: bit_count_simps)

lemma bit_count_nonneg: "0 \<le> bit_count n"
  by (induction n rule: bit_count.induct) (metis bit_count_simps add_nonneg_nonneg not_le order_refl zero_le_one)

lemma bit_count_upper: "n < 2 ^ nat (bit_count n)"
proof (induction n rule: bit_count.induct)
  case (1 n)
  show ?case
  proof (cases "0 < n")
    case True
    with 1 have "n div 2 < 2 ^ nat (bit_count (n div 2))" by simp
    then show ?thesis using True bit_count_nonneg [of "n div 2"] by (simp add: bit_count_simps nat_add_distrib)
  qed (simp add: bit_count_simps)
qed

lemma round_div_bounds:
  assumes "0 < b" "0 \<le> a" "a \<le> c * b"
  shows "0 \<le> round_div a b" "round_div a b \<le> c"
proof -
  have "0 \<le> a div b" using assms by (simp add: pos_imp_zdiv_nonneg_iff)
  then show "0 \<le> round_div a b" by (simp add: round_div_def Let_def)
  have q: "a div b \<le> c" using zdiv_mono1 [OF assms(3,1)] assms(1) by simp
  have "a mod b = 0" if "a div b = c"
    using that assms div_mult_mod_eq [of a b] by (metis add_le_same_cancel1 antisym pos_mod_sign)
  with q assms(1) show "round_div a b \<le> c" by (fastforce simp: round_div_def Let_def)
qed

text \<open>Rounding to double precision keeps small integer bounds, and a whole quotient exactly.\<close>

lemma to_double_bounds:
  assumes b: "0 < b" and a: "0 \<le> a" "a \<le> n * b" and n: "n < 2 ^ 7"
  obtains x y where "to_double (a, b) = (x, y)" "0 < y" "0 \<le> x" "x \<le> n * y"
proof (cases "a = 0")
  case True
  moreover have "0 \<le> n" using order_trans [OF a] b by (auto simp: zero_le_mult_iff)
  ultimately show thesis using that by (simp add: to_double_def)
next
  case False
  have "0 < n * b" using a False by linarith
  then have n0: "0 < n" using b by (simp add: zero_less_mult_iff)
  let ?k0 = "52 + bit_count b - bit_count a"
  define k where "k = (if fst (scaled a b ?k0) div snd (scaled a b ?k0) \<ge> 2 ^ 53 then ?k0 - 1
    else if fst (scaled a b ?k0) div snd (scaled a b ?k0) < 2 ^ 52 then ?k0 + 1 else ?k0)"
  have "a < 2 ^ (7 + nat (bit_count b))"
  proof -
    have "n * b < 2 ^ 7 * 2 ^ nat (bit_count b)"
      using n n0 b bit_count_upper [of b] by (intro mult_strict_mono) auto
    with a(2) show ?thesis by (simp add: power_add)
  qed
  from bit_count_less [OF this] have k: "0 \<le> k" using bit_count_nonneg [of b] by (simp add: k_def)
  have eq: "to_double (a, b) = (round_div (a * 2 ^ nat k) b, 2 ^ nat k)"
  proof -
    have "to_double (a, b) = (if k \<ge> 0 then (round_div (fst (scaled a b k)) (snd (scaled a b k)), 2 ^ nat k)
        else (round_div (fst (scaled a b k)) (snd (scaled a b k)) * 2 ^ nat (- k), 1))"
      unfolding to_double_def k_def Let_def case_prod_beta using False by (simp only: fst_conv snd_conv if_False)
    then show ?thesis using k by (simp add: scaled_def)
  qed
  have "a * 2 ^ nat k \<le> (n * 2 ^ nat k) * b" using a(2) by (simp add: mult.commute mult.left_commute)
  from that [OF eq] round_div_bounds [OF b _ this] a(1) show thesis by simp
qed

lemma to_double_same: "0 < b \<Longrightarrow> to_double (b, b) = (2 ^ 52, 2 ^ 52)"
proof -
  assume b: "0 < b"
  then have "round_div (b * 2 ^ 52) b = 2 ^ 52" by (simp add: round_div_def Let_def)
  with b show ?thesis by (simp add: to_double_def scaled_def Let_def)
qed

lemma fixed4_bounds:
  assumes "0 < b" "0 \<le> a" "a \<le> b"
  shows "0 \<le> fixed4 a b" "fixed4 a b \<le> 10000"
proof -
  obtain x y where xy: "to_double (a, b) = (x, y)" "0 < y" "0 \<le> x" "x \<le> 1 * y"
    using to_double_bounds [OF assms(1,2), of 1] assms(3) by auto
  have "(20000 * x + y) div (2 * y) \<le> (20001 * y) div (2 * y)" using xy by (intro zdiv_mono1) auto
  also have "\<dots> = 10000" using xy(2) by simp
  finally show "fixed4 a b \<le> 10000" by (simp add: fixed4_def xy(1))
  show "0 \<le> fixed4 a b" using xy by (simp add: fixed4_def pos_imp_zdiv_nonneg_iff)
qed

lemma fixed4_same: "0 < b \<Longrightarrow> fixed4 b b = 10000"
  by (simp add: fixed4_def to_double_same)

lemma delivery_rate_bounds:
  assumes "0 \<le> failed" "failed \<le> sent"
  shows "0 \<le> calculateDeliverySuccessRate sent failed" "calculateDeliverySuccessRate sent failed \<le> 100"
proof -
  show "0 \<le> calculateDeliverySuccessRate sent failed"
    by (simp add: calculateDeliverySuccessRate_def case_prod_beta Let_def)
  show "calculateDeliverySuccessRate sent failed \<le> 100"
  proof (cases "sent = 0")
    case False
    obtain a b where ab: "to_double (sent - failed, sent) = (a, b)" "0 < b" "0 \<le> a" "a \<le> 1 * b"
      using to_double_bounds [of sent "sent - failed" 1] assms False by auto
    obtain c d where cd: "to_double (a * 100, b) = (c, d)" "0 < d" "0 \<le> c" "c \<le> 100 * d"
      using to_double_bounds [of b "a * 100" 100] ab by auto
    have "(2 * c + d) div (2 * d) \<le> (201 * d) div (2 * d)" using cd by (intro zdiv_mono1) auto
    also have "\<dots> = 100" using cd(2) by simp
    finally show ?thesis by (simp add: calculateDeliverySuccessRate_def ab(1) cd(1))
  qed (simp add: calculateDeliverySuccessRate_def)
qed

section \<open>The overview\<close>

lemma stat_total_sum: "stat_total stats = sum_list (map snd stats)"
proof -
  have "foldl (\<lambda>sum (k, n). sum + n) z stats = z + sum_list (map snd stats)" for z
    by (induction stats arbitrary: z) auto
  then show ?thesis by (simp add: stat_total_def)
qed

lemma stat_total_count_by: "stat_total (count_by f rows) = int (length rows)"
proof -
  have "stat_total (count_by f rows) = (\<Sum>k \<in> f ` set rows. int (count_where (\<lambda>r. True \<and> f r = k) rows))"
    by (simp add: stat_total_sum count_by_def comp_def sum_list_distinct_conv_sum_set)
  also have "\<dots> = int (count_where (\<lambda>r. True) rows)" by (rule count_where_partition) auto
  finally show ?thesis by (simp add: count_where_def)
qed

lemma stat_of_count_by: "stat_of k (count_by f rows) = int (count_where (\<lambda>r. f r = k) rows)"
  using count_where_zero_iff [of "\<lambda>r. f r = k" rows] by (auto simp: stat_of_def map_of_count_by)

lemma success_rate_exact:
  "success_rate k (count_by f rows) =
     (if rows = [] then None else Some (fixed4 (int (count_where (\<lambda>r. f r = k) rows)) (int (length rows))))"
  by (simp add: success_rate_def stat_total_count_by stat_of_count_by Let_def)

definition a_rate :: "int option \<Rightarrow> bool" where
  "a_rate v \<longleftrightarrow> (case v of None \<Rightarrow> True | Some r \<Rightarrow> 0 \<le> r \<and> r \<le> 10000)"

lemma success_rate_bounds: "a_rate (success_rate k (count_by f rows))"
proof -
  have "count_where (\<lambda>r. f r = k) rows \<le> length rows" by (simp add: count_where_def)
  then show ?thesis
    using fixed4_bounds [of "int (length rows)" "int (count_where (\<lambda>r. f r = k) rows)"]
    by (simp add: success_rate_exact a_rate_def)
qed

text \<open>The overview and the feed report agree.  Both pages count the same active destinations, live
attestations and lost deliveries of the week; every rate they show lies between none and all.  The freshness
score of the overview carries no information: it is 1 whenever there is a live attestation.\<close>

theorem overview_agrees_with_feed:
  assumes report: "getPartnerDataFeedHealth u now partnerId s = Inr rep"
  shows "int (ok_activeDestinations (oo_kpis (getPartnerOverview E u now partnerId s))) =
      fm_activeDestinationCount (fh_metrics rep) \<and>
    int (ok_activeAttestations (oo_kpis (getPartnerOverview E u now partnerId s))) =
      fm_activeAttestationCount (fh_metrics rep) \<and>
    int (ok_webhookFailureCount (oo_kpis (getPartnerOverview E u now partnerId s))) =
      fm_failedDeliveryCount7d (fh_metrics rep) \<and>
    fm_deliverySuccessRate7d (fh_metrics rep) \<in> {0..100} \<and>
    a_rate (oh_webhookSuccessRate (oo_health (getPartnerOverview E u now partnerId s))) \<and>
    a_rate (oh_byRecipientResolutionSuccessRate (oo_health (getPartnerOverview E u now partnerId s))) \<and>
    a_rate (oh_byAddressResolutionSuccessRate (oo_health (getPartnerOverview E u now partnerId s))) \<and>
    oh_attestationFreshnessScore (oo_health (getPartnerOverview E u now partnerId s)) =
      (if ok_activeAttestations (oo_kpis (getPartnerOverview E u now partnerId s)) = 0 then None else Some 10000)"
proof -
  let ?o = "getPartnerOverview E u now partnerId s"
  have m: "fh_metrics rep = feed_metrics now partnerId (corridors_of now partnerId s) s"
    using report_corridors [OF report] by simp
  have same: "int (ok_activeDestinations (oo_kpis ?o)) = fm_activeDestinationCount (fh_metrics rep)"
    "int (ok_activeAttestations (oo_kpis ?o)) = fm_activeAttestationCount (fh_metrics rep)"
    "int (ok_webhookFailureCount (oo_kpis ?o)) = fm_failedDeliveryCount7d (fh_metrics rep)"
    by (simp_all add: m getPartnerOverview_def overview_kpis_def feed_metrics_def Let_def
        activeDestinationWhere_def [abs_def] activeVerifiedAttestationWhere_def [abs_def] delivery_count_def
        recentWindowStart_def recentOperationalWindowDays_def day_ms_def last7Days_def)
  have "delivery_count (\<lambda>d. recentWindowStart now \<le> dl_createdAt d \<and> delivery_lost d) partnerId s \<le>
      delivery_count (\<lambda>d. recentWindowStart now \<le> dl_createdAt d) partnerId s"
    unfolding delivery_count_def count_where_def
    by (simp add: length_filter_conv_card) (rule card_mono, auto)
  then have rate: "fm_deliverySuccessRate7d (fh_metrics rep) \<in> {0..100}"
    using delivery_rate_bounds [of "delivery_count (\<lambda>d. recentWindowStart now \<le> dl_createdAt d \<and> delivery_lost d) partnerId s"]
    by (simp add: m feed_metrics_def Let_def delivery_count_def)
  have "oh_attestationFreshnessScore (oo_health ?o) = (if ok_activeAttestations (oo_kpis ?o) = 0 then None else Some 10000)"
  proof (cases "ok_activeAttestations (oo_kpis ?o) = 0")
    case False
    then have "max (ok_activeAttestations (oo_kpis ?o)) 1 = ok_activeAttestations (oo_kpis ?o)" by simp
    with False fixed4_same [of "int (ok_activeAttestations (oo_kpis ?o))"] show ?thesis
      by (simp add: getPartnerOverview_def overview_health_def Let_def)
  qed (simp add: getPartnerOverview_def overview_health_def Let_def)
  with same rate show ?thesis
    by (simp add: getPartnerOverview_def overview_health_def Let_def success_rate_bounds)
qed

theorem overview_agrees_with_feed_witness:
  "ok_activeDestinations (oo_kpis (getPartnerOverview demo_env (\<lambda>d. 0) 1000 ''p'' demo_paid_db)) = 1 \<and>
   oh_attestationFreshnessScore (oo_health (getPartnerOverview demo_env (\<lambda>d. 0) 1000 ''p'' demo_paid_db)) = None"
proof -
  obtain rep where rep: "getPartnerDataFeedHealth (\<lambda>d. 0) 1000 ''p'' demo_paid_db = Inr rep"
    using demo_report(1) by blast
  have rows: "destinations demo_paid_db = [demo_destination\<lparr>de_id := cuid demo_env 0\<rparr>]" "attestations demo_paid_db = []"
    by (simp_all add: demo_paid_db_def demo_partner_db_def empty_db_def)
  have "fm_activeDestinationCount (fh_metrics rep) = 1" "fm_activeAttestationCount (fh_metrics rep) = 0"
    using report_corridors [OF rep] demo_report(5,6)
    by (simp_all add: feed_metrics_def Let_def rows activeDestinationWhere_def destination_owned_def demo_destination_def
        not_expired_def)
  with overview_agrees_with_feed [OF rep, of demo_env] show ?thesis by auto
qed

end
