(* ===== verification/Routes.thy ===== *)
theory Routes
  imports Access_Tokens
begin

text \<open>
  The REST interface of the backend: the controllers of \<^verbatim>\<open>src/backend/src\<close> as the table of routes their
  decorators declare, the order in which the modules register them (\<^verbatim>\<open>app.module.ts\<close>), and the guard that
  stands before each handler.

  A route is the method and the path of its decorator under the prefix of its controller, the guard of the
  controller or of the method with the credential scopes it asks for and the access policies it declares (the
  controller's first), and the name of the method that handles the request.  The names of the path's
  parameters are those of the source.

  Matching a path against a pattern is the work of Express, which is not part of the repository: it is the
  argument \<^verbatim>\<open>matches\<close> of the definitions, and \<^verbatim>\<open>router_contract\<close> states what its documentation promises of the
  paths that occur here.
\<close>

section \<open>Routes\<close>

datatype http_method = GET | POST | PATCH | DELETE

datatype segment = Lit string | Param string

datatype route_guard =
    No_guard
  | Admin_guard
  | Partner_guard "string list option" "PartnerAccessPolicyDefinition list"

record route =
  rt_method :: http_method
  rt_path :: "segment list"
  rt_guard :: route_guard
  rt_handler :: string

text \<open>The text of a path, with a value for each parameter; and the names that are safe as a segment of
  a URL: letters, digits, hyphens, underscores and dots, the two dot segments excepted.\<close>

fun path_text :: "string list \<Rightarrow> string" where
  "path_text [] = []"
| "path_text (x # xs) = ''/'' @ x @ path_text xs"

fun fill_path :: "segment list \<Rightarrow> string list \<Rightarrow> string list" where
  "fill_path [] args = []"
| "fill_path (Lit l # ps) args = l # fill_path ps args"
| "fill_path (Param n # ps) [] = fill_path ps []"
| "fill_path (Param n # ps) (x # args) = x # fill_path ps args"

fun path_params :: "segment list \<Rightarrow> nat" where
  "path_params [] = 0"
| "path_params (Lit l # ps) = path_params ps"
| "path_params (Param n # ps) = Suc (path_params ps)"

definition path_char :: "char \<Rightarrow> bool" where
  "path_char c \<longleftrightarrow>
     (let n = of_char c :: nat in (48 \<le> n \<and> n \<le> 57) \<or> (65 \<le> n \<and> n \<le> 90) \<or> (97 \<le> n \<and> n \<le> 122) \<or> List.member [45, 46, 95] n)"

definition path_safe :: "string \<Rightarrow> bool" where
  "path_safe s \<longleftrightarrow> s \<noteq> [] \<and> s \<noteq> ''.'' \<and> s \<noteq> ''..'' \<and> list_all path_char s"

fun fits :: "segment \<Rightarrow> string \<Rightarrow> bool" where
  "fits (Lit l) s \<longleftrightarrow> js_lower s = js_lower l"
| "fits (Param n) s \<longleftrightarrow> True"

text \<open>
  What Express promises of a path of plain segments: a pattern filled with values matches and gives them back,
  and a pattern that matches has as many segments, its literals equal to the path's but for the case of letters.
\<close>

type_synonym path_matcher = "segment list \<Rightarrow> string \<Rightarrow> string list option"

definition router_contract :: "path_matcher \<Rightarrow> bool" where
  "router_contract matches \<longleftrightarrow>
     (\<forall>pattern args. length args = path_params pattern \<longrightarrow> list_all path_safe (fill_path pattern args) \<longrightarrow>
        matches pattern (path_text (fill_path pattern args)) = Some args) \<and>
     (\<forall>pattern segments args. list_all path_safe segments \<longrightarrow> matches pattern (path_text segments) = Some args \<longrightarrow>
        list_all2 fits pattern segments)"

fun dispatch :: "path_matcher \<Rightarrow> route list \<Rightarrow> http_method \<Rightarrow> string \<Rightarrow> (route \<times> string list) option" where
  "dispatch matches [] m path = None"
| "dispatch matches (r # rs) m path =
     (if rt_method r \<noteq> m then dispatch matches rs m path
      else case matches (rt_path r) path of
             Some args \<Rightarrow> Some (r, args)
           | None \<Rightarrow> dispatch matches rs m path)"

section \<open>The controllers\<close>

definition route_Audit_listAuditLogs :: route where
  "route_Audit_listAuditLogs =
     \<lparr>rt_method = GET, rt_path = [Lit ''audit-logs''],
      rt_guard = Partner_guard (Some [''audit:read''])
            [],
      rt_handler = ''AuditController.listAuditLogs''\<rparr>"

definition route_Audit_getAuditLog :: route where
  "route_Audit_getAuditLog =
     \<lparr>rt_method = GET, rt_path = [Lit ''audit-logs'', Param ''eventId''],
      rt_guard = Partner_guard (Some [''audit:read''])
            [],
      rt_handler = ''AuditController.getAuditLog''\<rparr>"

definition Audit_routes :: "route list" where
  "Audit_routes =
     [route_Audit_listAuditLogs,
      route_Audit_getAuditLog]"

definition AuditExports_policy :: PartnerAccessPolicyDefinition where
  "AuditExports_policy =
     no_policy\<lparr>po_allCapabilities := Some [Flag_auditExportsEnabled],
                 po_actorTypes := Some [PARTNER_USER],
                 po_partnerUserRoles := Some [PartnerUserRole_OWNER, PartnerUserRole_ADMIN]\<rparr>"

definition route_AuditExports_listAuditExports :: route where
  "route_AuditExports_listAuditExports =
     \<lparr>rt_method = GET, rt_path = [Lit ''audit-exports''],
      rt_guard = Partner_guard (Some [''audit:export''])
            [AuditExports_policy],
      rt_handler = ''AuditExportsController.listAuditExports''\<rparr>"

definition route_AuditExports_getAuditExport :: route where
  "route_AuditExports_getAuditExport =
     \<lparr>rt_method = GET, rt_path = [Lit ''audit-exports'', Param ''exportId''],
      rt_guard = Partner_guard (Some [''audit:export''])
            [AuditExports_policy],
      rt_handler = ''AuditExportsController.getAuditExport''\<rparr>"

definition route_AuditExports_createAuditExport :: route where
  "route_AuditExports_createAuditExport =
     \<lparr>rt_method = POST, rt_path = [Lit ''audit-exports''],
      rt_guard = Partner_guard (Some [''audit:export''])
            [AuditExports_policy],
      rt_handler = ''AuditExportsController.createAuditExport''\<rparr>"

definition AuditExports_routes :: "route list" where
  "AuditExports_routes =
     [route_AuditExports_listAuditExports,
      route_AuditExports_getAuditExport,
      route_AuditExports_createAuditExport]"

definition route_Health_getHealth :: route where
  "route_Health_getHealth =
     \<lparr>rt_method = GET, rt_path = [Lit ''health''],
      rt_guard = No_guard,
      rt_handler = ''HealthController.getHealth''\<rparr>"

definition Health_routes :: "route list" where
  "Health_routes =
     [route_Health_getHealth]"

definition DataFeedHealth_policy :: PartnerAccessPolicyDefinition where
  "DataFeedHealth_policy =
     no_policy\<lparr>po_anyCapabilities := Some [Flag_dataPartnerEnabled, Flag_fullAttestationPartnerEnabled]\<rparr>"

definition route_DataFeedHealth_getDataFeedHealth :: route where
  "route_DataFeedHealth_getDataFeedHealth =
     \<lparr>rt_method = GET, rt_path = [Lit ''data-feed-health''],
      rt_guard = Partner_guard (Some [''partners:read''])
            [DataFeedHealth_policy],
      rt_handler = ''DataFeedHealthController.getDataFeedHealth''\<rparr>"

definition DataFeedHealth_routes :: "route list" where
  "DataFeedHealth_routes =
     [route_DataFeedHealth_getDataFeedHealth]"

definition route_Overview_getOverview :: route where
  "route_Overview_getOverview =
     \<lparr>rt_method = GET, rt_path = [Lit ''overview''],
      rt_guard = Partner_guard (Some [''partners:read''])
            [],
      rt_handler = ''OverviewController.getOverview''\<rparr>"

definition Overview_routes :: "route list" where
  "Overview_routes =
     [route_Overview_getOverview]"

definition route_Platforms_listPlatforms :: route where
  "route_Platforms_listPlatforms =
     \<lparr>rt_method = GET, rt_path = [Lit ''platforms''],
      rt_guard = Partner_guard (Some [''resolution:read''])
            [no_policy\<lparr>po_anyCapabilities := Some [Flag_apiConsumerEnabled, Flag_dataPartnerEnabled, Flag_fullAttestationPartnerEnabled],
                 po_requireOperationalEnvironment := True\<rparr>],
      rt_handler = ''PlatformsController.listPlatforms''\<rparr>"

definition Platforms_routes :: "route list" where
  "Platforms_routes =
     [route_Platforms_listPlatforms]"

definition route_PartnerAccount_getPartnerProfile :: route where
  "route_PartnerAccount_getPartnerProfile =
     \<lparr>rt_method = GET, rt_path = [Lit ''partners'', Lit ''me''],
      rt_guard = Partner_guard (Some [''partners:read''])
            [],
      rt_handler = ''PartnerAccountController.getPartnerProfile''\<rparr>"

definition route_PartnerAccount_getDashboardMetadata :: route where
  "route_PartnerAccount_getDashboardMetadata =
     \<lparr>rt_method = GET, rt_path = [Lit ''partners'', Lit ''me'', Lit ''dashboard-metadata''],
      rt_guard = Partner_guard (Some [''partners:read''])
            [],
      rt_handler = ''PartnerAccountController.getDashboardMetadata''\<rparr>"

definition route_PartnerAccount_getPartnerPlanUsage :: route where
  "route_PartnerAccount_getPartnerPlanUsage =
     \<lparr>rt_method = GET, rt_path = [Lit ''partners'', Lit ''me'', Lit ''plan-usage''],
      rt_guard = Partner_guard (Some [''partners:read''])
            [],
      rt_handler = ''PartnerAccountController.getPartnerPlanUsage''\<rparr>"

definition route_PartnerAccount_listApiCredentials :: route where
  "route_PartnerAccount_listApiCredentials =
     \<lparr>rt_method = GET, rt_path = [Lit ''partners'', Lit ''me'', Lit ''api-credentials''],
      rt_guard = Partner_guard (Some [''partners:read''])
            [no_policy\<lparr>po_anyCapabilities := Some [Flag_apiConsumerEnabled, Flag_dataPartnerEnabled, Flag_fullAttestationPartnerEnabled],
                 po_partnerUserRoles := Some [PartnerUserRole_OWNER, PartnerUserRole_ADMIN, PartnerUserRole_DEVELOPER]\<rparr>],
      rt_handler = ''PartnerAccountController.listApiCredentials''\<rparr>"

definition route_PartnerAccount_createApiCredential :: route where
  "route_PartnerAccount_createApiCredential =
     \<lparr>rt_method = POST, rt_path = [Lit ''partners'', Lit ''me'', Lit ''api-credentials''],
      rt_guard = Partner_guard (Some [''partners:write''])
            [no_policy\<lparr>po_anyCapabilities := Some [Flag_apiConsumerEnabled, Flag_dataPartnerEnabled, Flag_fullAttestationPartnerEnabled],
                 po_partnerUserRoles := Some [PartnerUserRole_OWNER, PartnerUserRole_ADMIN, PartnerUserRole_DEVELOPER]\<rparr>],
      rt_handler = ''PartnerAccountController.createApiCredential''\<rparr>"

definition route_PartnerAccount_revokeApiCredential :: route where
  "route_PartnerAccount_revokeApiCredential =
     \<lparr>rt_method = POST, rt_path = [Lit ''partners'', Lit ''me'', Lit ''api-credentials'', Param ''credentialId'', Lit ''revoke''],
      rt_guard = Partner_guard (Some [''partners:write''])
            [no_policy\<lparr>po_anyCapabilities := Some [Flag_apiConsumerEnabled, Flag_dataPartnerEnabled, Flag_fullAttestationPartnerEnabled],
                 po_partnerUserRoles := Some [PartnerUserRole_OWNER, PartnerUserRole_ADMIN, PartnerUserRole_DEVELOPER]\<rparr>],
      rt_handler = ''PartnerAccountController.revokeApiCredential''\<rparr>"

definition route_PartnerAccount_listSigningKeys :: route where
  "route_PartnerAccount_listSigningKeys =
     \<lparr>rt_method = GET, rt_path = [Lit ''partners'', Lit ''me'', Lit ''signing-keys''],
      rt_guard = Partner_guard (Some [''partners:read''])
            [no_policy\<lparr>po_anyCapabilities := Some [Flag_dataPartnerEnabled, Flag_fullAttestationPartnerEnabled],
                 po_partnerUserRoles := Some [PartnerUserRole_OWNER, PartnerUserRole_ADMIN, PartnerUserRole_DEVELOPER]\<rparr>],
      rt_handler = ''PartnerAccountController.listSigningKeys''\<rparr>"

definition route_PartnerAccount_registerSigningKey :: route where
  "route_PartnerAccount_registerSigningKey =
     \<lparr>rt_method = POST, rt_path = [Lit ''partners'', Lit ''me'', Lit ''signing-keys''],
      rt_guard = Partner_guard (Some [''partners:write''])
            [no_policy\<lparr>po_anyCapabilities := Some [Flag_dataPartnerEnabled, Flag_fullAttestationPartnerEnabled],
                 po_partnerUserRoles := Some [PartnerUserRole_OWNER, PartnerUserRole_ADMIN, PartnerUserRole_DEVELOPER]\<rparr>],
      rt_handler = ''PartnerAccountController.registerSigningKey''\<rparr>"

definition route_PartnerAccount_revokeSigningKey :: route where
  "route_PartnerAccount_revokeSigningKey =
     \<lparr>rt_method = POST, rt_path = [Lit ''partners'', Lit ''me'', Lit ''signing-keys'', Param ''signingKeyId'', Lit ''revoke''],
      rt_guard = Partner_guard (Some [''partners:write''])
            [no_policy\<lparr>po_anyCapabilities := Some [Flag_dataPartnerEnabled, Flag_fullAttestationPartnerEnabled],
                 po_partnerUserRoles := Some [PartnerUserRole_OWNER, PartnerUserRole_ADMIN, PartnerUserRole_DEVELOPER]\<rparr>],
      rt_handler = ''PartnerAccountController.revokeSigningKey''\<rparr>"

definition route_PartnerAccount_listPartnerUsers :: route where
  "route_PartnerAccount_listPartnerUsers =
     \<lparr>rt_method = GET, rt_path = [Lit ''partners'', Lit ''me'', Lit ''users''],
      rt_guard = Partner_guard (Some [''team:read''])
            [no_policy\<lparr>po_actorTypes := Some [PARTNER_USER],
                 po_partnerUserRoles := Some [PartnerUserRole_OWNER, PartnerUserRole_ADMIN]\<rparr>],
      rt_handler = ''PartnerAccountController.listPartnerUsers''\<rparr>"

definition route_PartnerAccount_invitePartnerUser :: route where
  "route_PartnerAccount_invitePartnerUser =
     \<lparr>rt_method = POST, rt_path = [Lit ''partners'', Lit ''me'', Lit ''users'', Lit ''invites''],
      rt_guard = Partner_guard (Some [''team:write''])
            [no_policy\<lparr>po_actorTypes := Some [PARTNER_USER],
                 po_partnerUserRoles := Some [PartnerUserRole_OWNER, PartnerUserRole_ADMIN]\<rparr>],
      rt_handler = ''PartnerAccountController.invitePartnerUser''\<rparr>"

definition route_PartnerAccount_updatePartnerUser :: route where
  "route_PartnerAccount_updatePartnerUser =
     \<lparr>rt_method = PATCH, rt_path = [Lit ''partners'', Lit ''me'', Lit ''users'', Param ''userId''],
      rt_guard = Partner_guard (Some [''team:write''])
            [no_policy\<lparr>po_actorTypes := Some [PARTNER_USER],
                 po_partnerUserRoles := Some [PartnerUserRole_OWNER, PartnerUserRole_ADMIN]\<rparr>],
      rt_handler = ''PartnerAccountController.updatePartnerUser''\<rparr>"

definition route_PartnerAccount_deactivatePartnerUser :: route where
  "route_PartnerAccount_deactivatePartnerUser =
     \<lparr>rt_method = POST, rt_path = [Lit ''partners'', Lit ''me'', Lit ''users'', Param ''userId'', Lit ''deactivate''],
      rt_guard = Partner_guard (Some [''team:write''])
            [no_policy\<lparr>po_actorTypes := Some [PARTNER_USER],
                 po_partnerUserRoles := Some [PartnerUserRole_OWNER, PartnerUserRole_ADMIN]\<rparr>],
      rt_handler = ''PartnerAccountController.deactivatePartnerUser''\<rparr>"

definition route_PartnerAccount_getSecuritySettings :: route where
  "route_PartnerAccount_getSecuritySettings =
     \<lparr>rt_method = GET, rt_path = [Lit ''partners'', Lit ''me'', Lit ''security-settings''],
      rt_guard = Partner_guard (Some [''security:read''])
            [no_policy\<lparr>po_actorTypes := Some [PARTNER_USER],
                 po_partnerUserRoles := Some [PartnerUserRole_OWNER, PartnerUserRole_ADMIN]\<rparr>],
      rt_handler = ''PartnerAccountController.getSecuritySettings''\<rparr>"

definition route_PartnerAccount_updateSecuritySettings :: route where
  "route_PartnerAccount_updateSecuritySettings =
     \<lparr>rt_method = PATCH, rt_path = [Lit ''partners'', Lit ''me'', Lit ''security-settings''],
      rt_guard = Partner_guard (Some [''security:write''])
            [no_policy\<lparr>po_actorTypes := Some [PARTNER_USER],
                 po_partnerUserRoles := Some [PartnerUserRole_OWNER]\<rparr>],
      rt_handler = ''PartnerAccountController.updateSecuritySettings''\<rparr>"

definition route_PartnerAccount_listProductionApprovalRequests :: route where
  "route_PartnerAccount_listProductionApprovalRequests =
     \<lparr>rt_method = GET, rt_path = [Lit ''partners'', Lit ''me'', Lit ''production-approval-requests''],
      rt_guard = Partner_guard (Some [''partners:read''])
            [no_policy\<lparr>po_actorTypes := Some [PARTNER_USER]\<rparr>],
      rt_handler = ''PartnerAccountController.listProductionApprovalRequests''\<rparr>"

definition route_PartnerAccount_listProductionCorridors :: route where
  "route_PartnerAccount_listProductionCorridors =
     \<lparr>rt_method = GET, rt_path = [Lit ''partners'', Lit ''me'', Lit ''production-corridors''],
      rt_guard = Partner_guard (Some [''partners:read''])
            [no_policy\<lparr>po_actorTypes := Some [PARTNER_USER]\<rparr>],
      rt_handler = ''PartnerAccountController.listProductionCorridors''\<rparr>"

definition route_PartnerAccount_listAvailableProductionCorridors :: route where
  "route_PartnerAccount_listAvailableProductionCorridors =
     \<lparr>rt_method = GET, rt_path = [Lit ''partners'', Lit ''me'', Lit ''available-production-corridors''],
      rt_guard = Partner_guard (Some [''partners:read''])
            [no_policy\<lparr>po_actorTypes := Some [PARTNER_USER]\<rparr>],
      rt_handler = ''PartnerAccountController.listAvailableProductionCorridors''\<rparr>"

definition route_PartnerAccount_requestProductionApproval :: route where
  "route_PartnerAccount_requestProductionApproval =
     \<lparr>rt_method = POST, rt_path = [Lit ''partners'', Lit ''me'', Lit ''production-approval-requests''],
      rt_guard = Partner_guard (Some [''partners:write''])
            [no_policy\<lparr>po_actorTypes := Some [PARTNER_USER],
                 po_partnerUserRoles := Some [PartnerUserRole_OWNER, PartnerUserRole_ADMIN]\<rparr>],
      rt_handler = ''PartnerAccountController.requestProductionApproval''\<rparr>"

definition route_PartnerAccount_cancelProductionApprovalRequest :: route where
  "route_PartnerAccount_cancelProductionApprovalRequest =
     \<lparr>rt_method = POST, rt_path = [Lit ''partners'', Lit ''me'', Lit ''production-approval-requests'', Param ''requestId'', Lit ''cancel''],
      rt_guard = Partner_guard (Some [''partners:write''])
            [no_policy\<lparr>po_actorTypes := Some [PARTNER_USER],
                 po_partnerUserRoles := Some [PartnerUserRole_OWNER, PartnerUserRole_ADMIN]\<rparr>],
      rt_handler = ''PartnerAccountController.cancelProductionApprovalRequest''\<rparr>"

definition PartnerAccount_routes :: "route list" where
  "PartnerAccount_routes =
     [route_PartnerAccount_getPartnerProfile,
      route_PartnerAccount_getDashboardMetadata,
      route_PartnerAccount_getPartnerPlanUsage,
      route_PartnerAccount_listApiCredentials,
      route_PartnerAccount_createApiCredential,
      route_PartnerAccount_revokeApiCredential,
      route_PartnerAccount_listSigningKeys,
      route_PartnerAccount_registerSigningKey,
      route_PartnerAccount_revokeSigningKey,
      route_PartnerAccount_listPartnerUsers,
      route_PartnerAccount_invitePartnerUser,
      route_PartnerAccount_updatePartnerUser,
      route_PartnerAccount_deactivatePartnerUser,
      route_PartnerAccount_getSecuritySettings,
      route_PartnerAccount_updateSecuritySettings,
      route_PartnerAccount_listProductionApprovalRequests,
      route_PartnerAccount_listProductionCorridors,
      route_PartnerAccount_listAvailableProductionCorridors,
      route_PartnerAccount_requestProductionApproval,
      route_PartnerAccount_cancelProductionApprovalRequest]"

definition route_PartnerDashboardAuth_login :: route where
  "route_PartnerDashboardAuth_login =
     \<lparr>rt_method = POST, rt_path = [Lit ''dashboard-auth'', Lit ''login''],
      rt_guard = No_guard,
      rt_handler = ''PartnerDashboardAuthController.login''\<rparr>"

definition route_PartnerDashboardAuth_acceptInvite :: route where
  "route_PartnerDashboardAuth_acceptInvite =
     \<lparr>rt_method = POST, rt_path = [Lit ''dashboard-auth'', Lit ''invitations'', Param ''inviteToken'', Lit ''accept''],
      rt_guard = No_guard,
      rt_handler = ''PartnerDashboardAuthController.acceptInvite''\<rparr>"

definition route_PartnerDashboardAuth_logout :: route where
  "route_PartnerDashboardAuth_logout =
     \<lparr>rt_method = POST, rt_path = [Lit ''dashboard-auth'', Lit ''logout''],
      rt_guard = Partner_guard None
            [],
      rt_handler = ''PartnerDashboardAuthController.logout''\<rparr>"

definition PartnerDashboardAuth_routes :: "route list" where
  "PartnerDashboardAuth_routes =
     [route_PartnerDashboardAuth_login,
      route_PartnerDashboardAuth_acceptInvite,
      route_PartnerDashboardAuth_logout]"

definition route_Partners_getSetupStatus :: route where
  "route_Partners_getSetupStatus =
     \<lparr>rt_method = GET, rt_path = [Lit ''partners'', Lit ''setup'', Lit ''status''],
      rt_guard = Admin_guard,
      rt_handler = ''PartnersController.getSetupStatus''\<rparr>"

definition route_Partners_getSetupMetadata :: route where
  "route_Partners_getSetupMetadata =
     \<lparr>rt_method = GET, rt_path = [Lit ''partners'', Lit ''setup'', Lit ''metadata''],
      rt_guard = Admin_guard,
      rt_handler = ''PartnersController.getSetupMetadata''\<rparr>"

definition route_Partners_createPartner :: route where
  "route_Partners_createPartner =
     \<lparr>rt_method = POST, rt_path = [Lit ''partners''],
      rt_guard = Admin_guard,
      rt_handler = ''PartnersController.createPartner''\<rparr>"

definition route_Partners_createApiCredential :: route where
  "route_Partners_createApiCredential =
     \<lparr>rt_method = POST, rt_path = [Lit ''partners'', Lit ''api-credentials''],
      rt_guard = Admin_guard,
      rt_handler = ''PartnersController.createApiCredential''\<rparr>"

definition route_Partners_registerSigningKey :: route where
  "route_Partners_registerSigningKey =
     \<lparr>rt_method = POST, rt_path = [Lit ''partners'', Lit ''signing-keys''],
      rt_guard = Admin_guard,
      rt_handler = ''PartnersController.registerSigningKey''\<rparr>"

definition route_Partners_createPartnerUser :: route where
  "route_Partners_createPartnerUser =
     \<lparr>rt_method = POST, rt_path = [Lit ''partners'', Lit ''users''],
      rt_guard = Admin_guard,
      rt_handler = ''PartnersController.createPartnerUser''\<rparr>"

definition route_Partners_listPartners :: route where
  "route_Partners_listPartners =
     \<lparr>rt_method = GET, rt_path = [Lit ''partners''],
      rt_guard = Admin_guard,
      rt_handler = ''PartnersController.listPartners''\<rparr>"

definition route_Partners_listAvailableProductionCorridors :: route where
  "route_Partners_listAvailableProductionCorridors =
     \<lparr>rt_method = GET, rt_path = [Lit ''partners'', Lit ''corridors''],
      rt_guard = Admin_guard,
      rt_handler = ''PartnersController.listAvailableProductionCorridors''\<rparr>"

definition route_Partners_listProductionApprovalRequests :: route where
  "route_Partners_listProductionApprovalRequests =
     \<lparr>rt_method = GET, rt_path = [Lit ''partners'', Lit ''production-approval-requests''],
      rt_guard = Admin_guard,
      rt_handler = ''PartnersController.listProductionApprovalRequests''\<rparr>"

definition route_Partners_reviewProductionApprovalRequest :: route where
  "route_Partners_reviewProductionApprovalRequest =
     \<lparr>rt_method = POST, rt_path = [Lit ''partners'', Lit ''production-approval-requests'', Param ''requestId'', Lit ''review''],
      rt_guard = Admin_guard,
      rt_handler = ''PartnersController.reviewProductionApprovalRequest''\<rparr>"

definition route_Partners_updatePartnerAdminState :: route where
  "route_Partners_updatePartnerAdminState =
     \<lparr>rt_method = PATCH, rt_path = [Lit ''partners'', Param ''partnerId'', Lit ''admin-state''],
      rt_guard = Admin_guard,
      rt_handler = ''PartnersController.updatePartnerAdminState''\<rparr>"

definition route_Partners_listPartnerProductionCorridors :: route where
  "route_Partners_listPartnerProductionCorridors =
     \<lparr>rt_method = GET, rt_path = [Lit ''partners'', Param ''partnerId'', Lit ''production-corridors''],
      rt_guard = Admin_guard,
      rt_handler = ''PartnersController.listPartnerProductionCorridors''\<rparr>"

definition route_Partners_updatePartnerProductionCorridor :: route where
  "route_Partners_updatePartnerProductionCorridor =
     \<lparr>rt_method = POST, rt_path = [Lit ''partners'', Param ''partnerId'', Lit ''production-corridors''],
      rt_guard = Admin_guard,
      rt_handler = ''PartnersController.updatePartnerProductionCorridor''\<rparr>"

definition Partners_routes :: "route list" where
  "Partners_routes =
     [route_Partners_getSetupStatus,
      route_Partners_getSetupMetadata,
      route_Partners_createPartner,
      route_Partners_createApiCredential,
      route_Partners_registerSigningKey,
      route_Partners_createPartnerUser,
      route_Partners_listPartners,
      route_Partners_listAvailableProductionCorridors,
      route_Partners_listProductionApprovalRequests,
      route_Partners_reviewProductionApprovalRequest,
      route_Partners_updatePartnerAdminState,
      route_Partners_listPartnerProductionCorridors,
      route_Partners_updatePartnerProductionCorridor]"

definition Recipients_policy :: PartnerAccessPolicyDefinition where
  "Recipients_policy =
     no_policy\<lparr>po_anyCapabilities := Some [Flag_dataPartnerEnabled, Flag_fullAttestationPartnerEnabled]\<rparr>"

definition route_Recipients_listRecipients :: route where
  "route_Recipients_listRecipients =
     \<lparr>rt_method = GET, rt_path = [Lit ''recipients''],
      rt_guard = Partner_guard (Some [''recipients:read''])
            [Recipients_policy],
      rt_handler = ''RecipientsController.listRecipients''\<rparr>"

definition route_Recipients_createRecipient :: route where
  "route_Recipients_createRecipient =
     \<lparr>rt_method = POST, rt_path = [Lit ''recipients''],
      rt_guard = Partner_guard (Some [''recipients:write''])
            [Recipients_policy,
             no_policy\<lparr>po_minOnboardingStage := Some PartnerOnboardingStage_DATA_MAPPING_IN_PROGRESS\<rparr>],
      rt_handler = ''RecipientsController.createRecipient''\<rparr>"

definition route_Recipients_getRecipient :: route where
  "route_Recipients_getRecipient =
     \<lparr>rt_method = GET, rt_path = [Lit ''recipients'', Param ''recipientId''],
      rt_guard = Partner_guard (Some [''recipients:read''])
            [Recipients_policy],
      rt_handler = ''RecipientsController.getRecipient''\<rparr>"

definition route_Recipients_updateRecipient :: route where
  "route_Recipients_updateRecipient =
     \<lparr>rt_method = PATCH, rt_path = [Lit ''recipients'', Param ''recipientId''],
      rt_guard = Partner_guard (Some [''recipients:write''])
            [Recipients_policy,
             no_policy\<lparr>po_minOnboardingStage := Some PartnerOnboardingStage_DATA_MAPPING_IN_PROGRESS\<rparr>],
      rt_handler = ''RecipientsController.updateRecipient''\<rparr>"

definition route_Recipients_disableRecipient :: route where
  "route_Recipients_disableRecipient =
     \<lparr>rt_method = POST, rt_path = [Lit ''recipients'', Param ''recipientId'', Lit ''disable''],
      rt_guard = Partner_guard (Some [''recipients:write''])
            [Recipients_policy,
             no_policy\<lparr>po_minOnboardingStage := Some PartnerOnboardingStage_DATA_MAPPING_IN_PROGRESS\<rparr>],
      rt_handler = ''RecipientsController.disableRecipient''\<rparr>"

definition Recipients_routes :: "route list" where
  "Recipients_routes =
     [route_Recipients_listRecipients,
      route_Recipients_createRecipient,
      route_Recipients_getRecipient,
      route_Recipients_updateRecipient,
      route_Recipients_disableRecipient]"

definition Destinations_policy :: PartnerAccessPolicyDefinition where
  "Destinations_policy =
     no_policy\<lparr>po_anyCapabilities := Some [Flag_dataPartnerEnabled, Flag_fullAttestationPartnerEnabled]\<rparr>"

definition route_Destinations_listDestinations :: route where
  "route_Destinations_listDestinations =
     \<lparr>rt_method = GET, rt_path = [Lit ''destinations''],
      rt_guard = Partner_guard (Some [''destinations:read''])
            [Destinations_policy],
      rt_handler = ''DestinationsController.listDestinations''\<rparr>"

definition route_Destinations_getDestination :: route where
  "route_Destinations_getDestination =
     \<lparr>rt_method = GET, rt_path = [Lit ''destinations'', Param ''destinationId''],
      rt_guard = Partner_guard (Some [''destinations:read''])
            [Destinations_policy],
      rt_handler = ''DestinationsController.getDestination''\<rparr>"

definition route_Destinations_createDestination :: route where
  "route_Destinations_createDestination =
     \<lparr>rt_method = POST, rt_path = [Lit ''destinations''],
      rt_guard = Partner_guard (Some [''destinations:write''])
            [Destinations_policy,
             no_policy\<lparr>po_minOnboardingStage := Some PartnerOnboardingStage_DATA_MAPPING_IN_PROGRESS\<rparr>],
      rt_handler = ''DestinationsController.createDestination''\<rparr>"

definition route_Destinations_revokeDestination :: route where
  "route_Destinations_revokeDestination =
     \<lparr>rt_method = POST, rt_path = [Lit ''destinations'', Param ''destinationId'', Lit ''revoke''],
      rt_guard = Partner_guard (Some [''destinations:write''])
            [Destinations_policy,
             no_policy\<lparr>po_minOnboardingStage := Some PartnerOnboardingStage_DATA_MAPPING_IN_PROGRESS\<rparr>],
      rt_handler = ''DestinationsController.revokeDestination''\<rparr>"

definition route_Destinations_replaceDestination :: route where
  "route_Destinations_replaceDestination =
     \<lparr>rt_method = POST, rt_path = [Lit ''destinations'', Param ''destinationId'', Lit ''replace''],
      rt_guard = Partner_guard (Some [''destinations:write''])
            [Destinations_policy,
             no_policy\<lparr>po_minOnboardingStage := Some PartnerOnboardingStage_DATA_MAPPING_IN_PROGRESS\<rparr>],
      rt_handler = ''DestinationsController.replaceDestination''\<rparr>"

definition Destinations_routes :: "route list" where
  "Destinations_routes =
     [route_Destinations_listDestinations,
      route_Destinations_getDestination,
      route_Destinations_createDestination,
      route_Destinations_revokeDestination,
      route_Destinations_replaceDestination]"

definition route_WebhookOperations_processPendingDeliveries :: route where
  "route_WebhookOperations_processPendingDeliveries =
     \<lparr>rt_method = POST, rt_path = [Lit ''webhooks'', Lit ''deliveries'', Lit ''process''],
      rt_guard = Admin_guard,
      rt_handler = ''WebhookOperationsController.processPendingDeliveries''\<rparr>"

definition WebhookOperations_routes :: "route list" where
  "WebhookOperations_routes =
     [route_WebhookOperations_processPendingDeliveries]"

definition Webhooks_policy :: PartnerAccessPolicyDefinition where
  "Webhooks_policy =
     no_policy\<lparr>po_allCapabilities := Some [Flag_webhooksEnabled]\<rparr>"

definition route_Webhooks_listWebhookEndpoints :: route where
  "route_Webhooks_listWebhookEndpoints =
     \<lparr>rt_method = GET, rt_path = [Lit ''webhooks''],
      rt_guard = Partner_guard (Some [''webhooks:read''])
            [Webhooks_policy],
      rt_handler = ''WebhooksController.listWebhookEndpoints''\<rparr>"

definition route_Webhooks_listWebhookDeliveries :: route where
  "route_Webhooks_listWebhookDeliveries =
     \<lparr>rt_method = GET, rt_path = [Lit ''webhooks'', Lit ''deliveries''],
      rt_guard = Partner_guard (Some [''webhooks:read''])
            [Webhooks_policy],
      rt_handler = ''WebhooksController.listWebhookDeliveries''\<rparr>"

definition route_Webhooks_getWebhookDelivery :: route where
  "route_Webhooks_getWebhookDelivery =
     \<lparr>rt_method = GET, rt_path = [Lit ''webhooks'', Lit ''deliveries'', Param ''deliveryId''],
      rt_guard = Partner_guard (Some [''webhooks:read''])
            [Webhooks_policy],
      rt_handler = ''WebhooksController.getWebhookDelivery''\<rparr>"

definition route_Webhooks_getWebhookEndpoint :: route where
  "route_Webhooks_getWebhookEndpoint =
     \<lparr>rt_method = GET, rt_path = [Lit ''webhooks'', Param ''endpointId''],
      rt_guard = Partner_guard (Some [''webhooks:read''])
            [Webhooks_policy],
      rt_handler = ''WebhooksController.getWebhookEndpoint''\<rparr>"

definition route_Webhooks_createWebhookEndpoint :: route where
  "route_Webhooks_createWebhookEndpoint =
     \<lparr>rt_method = POST, rt_path = [Lit ''webhooks''],
      rt_guard = Partner_guard (Some [''webhooks:write''])
            [Webhooks_policy],
      rt_handler = ''WebhooksController.createWebhookEndpoint''\<rparr>"

definition route_Webhooks_updateWebhookEndpoint :: route where
  "route_Webhooks_updateWebhookEndpoint =
     \<lparr>rt_method = PATCH, rt_path = [Lit ''webhooks'', Param ''endpointId''],
      rt_guard = Partner_guard (Some [''webhooks:write''])
            [Webhooks_policy],
      rt_handler = ''WebhooksController.updateWebhookEndpoint''\<rparr>"

definition route_Webhooks_rotateWebhookSigningSecret :: route where
  "route_Webhooks_rotateWebhookSigningSecret =
     \<lparr>rt_method = POST, rt_path = [Lit ''webhooks'', Param ''endpointId'', Lit ''rotate-secret''],
      rt_guard = Partner_guard (Some [''webhooks:write''])
            [Webhooks_policy],
      rt_handler = ''WebhooksController.rotateWebhookSigningSecret''\<rparr>"

definition route_Webhooks_testWebhookEndpoint :: route where
  "route_Webhooks_testWebhookEndpoint =
     \<lparr>rt_method = POST, rt_path = [Lit ''webhooks'', Param ''endpointId'', Lit ''test''],
      rt_guard = Partner_guard (Some [''webhooks:write''])
            [Webhooks_policy],
      rt_handler = ''WebhooksController.testWebhookEndpoint''\<rparr>"

definition route_Webhooks_replayWebhookDelivery :: route where
  "route_Webhooks_replayWebhookDelivery =
     \<lparr>rt_method = POST, rt_path = [Lit ''webhooks'', Lit ''deliveries'', Param ''deliveryId'', Lit ''replay''],
      rt_guard = Partner_guard (Some [''webhooks:replay''])
            [Webhooks_policy],
      rt_handler = ''WebhooksController.replayWebhookDelivery''\<rparr>"

definition route_Webhooks_disableWebhookEndpoint :: route where
  "route_Webhooks_disableWebhookEndpoint =
     \<lparr>rt_method = DELETE, rt_path = [Lit ''webhooks'', Param ''endpointId''],
      rt_guard = Partner_guard (Some [''webhooks:write''])
            [Webhooks_policy],
      rt_handler = ''WebhooksController.disableWebhookEndpoint''\<rparr>"

definition Webhooks_routes :: "route list" where
  "Webhooks_routes =
     [route_Webhooks_listWebhookEndpoints,
      route_Webhooks_listWebhookDeliveries,
      route_Webhooks_getWebhookDelivery,
      route_Webhooks_getWebhookEndpoint,
      route_Webhooks_createWebhookEndpoint,
      route_Webhooks_updateWebhookEndpoint,
      route_Webhooks_rotateWebhookSigningSecret,
      route_Webhooks_testWebhookEndpoint,
      route_Webhooks_replayWebhookDelivery,
      route_Webhooks_disableWebhookEndpoint]"

definition route_Attestations_listAttestations :: route where
  "route_Attestations_listAttestations =
     \<lparr>rt_method = GET, rt_path = [Lit ''attestations''],
      rt_guard = Partner_guard (Some [''attestations:read''])
            [no_policy\<lparr>po_anyCapabilities := Some [Flag_dataPartnerEnabled, Flag_fullAttestationPartnerEnabled]\<rparr>],
      rt_handler = ''AttestationsController.listAttestations''\<rparr>"

definition route_Attestations_getAttestation :: route where
  "route_Attestations_getAttestation =
     \<lparr>rt_method = GET, rt_path = [Lit ''attestations'', Param ''attestationId''],
      rt_guard = Partner_guard (Some [''attestations:read''])
            [no_policy\<lparr>po_anyCapabilities := Some [Flag_dataPartnerEnabled, Flag_fullAttestationPartnerEnabled]\<rparr>],
      rt_handler = ''AttestationsController.getAttestation''\<rparr>"

definition route_Attestations_createAttestation :: route where
  "route_Attestations_createAttestation =
     \<lparr>rt_method = POST, rt_path = [Lit ''attestations''],
      rt_guard = Partner_guard (Some [''attestations:write''])
            [no_policy\<lparr>po_allCapabilities := Some [Flag_fullAttestationPartnerEnabled],
                 po_minOnboardingStage := Some PartnerOnboardingStage_DATA_MAPPING_IN_PROGRESS\<rparr>],
      rt_handler = ''AttestationsController.createAttestation''\<rparr>"

definition Attestations_routes :: "route list" where
  "Attestations_routes =
     [route_Attestations_listAttestations,
      route_Attestations_getAttestation,
      route_Attestations_createAttestation]"

definition Resolution_policy :: PartnerAccessPolicyDefinition where
  "Resolution_policy =
     no_policy\<lparr>po_anyCapabilities := Some [Flag_apiConsumerEnabled, Flag_dataPartnerEnabled, Flag_fullAttestationPartnerEnabled]\<rparr>"

definition route_Resolution_listResolutionLogs :: route where
  "route_Resolution_listResolutionLogs =
     \<lparr>rt_method = GET, rt_path = [Lit ''resolution'', Lit ''logs''],
      rt_guard = Partner_guard (Some [''resolution:read''])
            [Resolution_policy],
      rt_handler = ''ResolutionController.listResolutionLogs''\<rparr>"

definition route_Resolution_getResolutionLog :: route where
  "route_Resolution_getResolutionLog =
     \<lparr>rt_method = GET, rt_path = [Lit ''resolution'', Lit ''logs'', Param ''requestId''],
      rt_guard = Partner_guard (Some [''resolution:read''])
            [Resolution_policy],
      rt_handler = ''ResolutionController.getResolutionLog''\<rparr>"

definition route_Resolution_resolveRecipient :: route where
  "route_Resolution_resolveRecipient =
     \<lparr>rt_method = POST, rt_path = [Lit ''resolution'', Lit ''resolve''],
      rt_guard = Partner_guard (Some [''resolution:read''])
            [Resolution_policy,
             no_policy\<lparr>po_requireOperationalEnvironment := True\<rparr>],
      rt_handler = ''ResolutionController.resolveRecipient''\<rparr>"

definition route_Resolution_resolveRecipientByRoute :: route where
  "route_Resolution_resolveRecipientByRoute =
     \<lparr>rt_method = POST, rt_path = [Lit ''resolution'', Lit ''by-recipient''],
      rt_guard = Partner_guard (Some [''resolution:read''])
            [Resolution_policy,
             no_policy\<lparr>po_requireOperationalEnvironment := True\<rparr>],
      rt_handler = ''ResolutionController.resolveRecipientByRoute''\<rparr>"

definition route_Resolution_confirmRecipientByAddress :: route where
  "route_Resolution_confirmRecipientByAddress =
     \<lparr>rt_method = POST, rt_path = [Lit ''resolution'', Lit ''by-address''],
      rt_guard = Partner_guard (Some [''resolution:read''])
            [Resolution_policy,
             no_policy\<lparr>po_requireOperationalEnvironment := True\<rparr>],
      rt_handler = ''ResolutionController.confirmRecipientByAddress''\<rparr>"

definition route_Resolution_verifyDestination :: route where
  "route_Resolution_verifyDestination =
     \<lparr>rt_method = POST, rt_path = [Lit ''resolution'', Lit ''verify''],
      rt_guard = Partner_guard (Some [''resolution:read''])
            [Resolution_policy,
             no_policy\<lparr>po_requireOperationalEnvironment := True\<rparr>],
      rt_handler = ''ResolutionController.verifyDestination''\<rparr>"

definition route_Resolution_verifyTransfer :: route where
  "route_Resolution_verifyTransfer =
     \<lparr>rt_method = POST, rt_path = [Lit ''resolution'', Lit ''verify-transfer''],
      rt_guard = Partner_guard (Some [''resolution:read''])
            [Resolution_policy,
             no_policy\<lparr>po_requireOperationalEnvironment := True\<rparr>],
      rt_handler = ''ResolutionController.verifyTransfer''\<rparr>"

definition route_Resolution_batchVerify :: route where
  "route_Resolution_batchVerify =
     \<lparr>rt_method = POST, rt_path = [Lit ''resolution'', Lit ''batch''],
      rt_guard = Partner_guard (Some [''resolution:batch''])
            [Resolution_policy,
             no_policy\<lparr>po_allCapabilities := Some [Flag_batchVerificationEnabled],
                 po_allPlanEntitlements := Some [Flag_bulkVerificationEnabled],
                 po_requireOperationalEnvironment := True\<rparr>],
      rt_handler = ''ResolutionController.batchVerify''\<rparr>"

definition Resolution_routes :: "route list" where
  "Resolution_routes =
     [route_Resolution_listResolutionLogs,
      route_Resolution_getResolutionLog,
      route_Resolution_resolveRecipient,
      route_Resolution_resolveRecipientByRoute,
      route_Resolution_confirmRecipientByAddress,
      route_Resolution_verifyDestination,
      route_Resolution_verifyTransfer,
      route_Resolution_batchVerify]"

definition routes :: "route list" where
  "routes =
     Audit_routes @ AuditExports_routes @ Health_routes @ DataFeedHealth_routes @ Overview_routes @ Platforms_routes @ PartnerAccount_routes @ PartnerDashboardAuth_routes @ Partners_routes @ Recipients_routes @ Destinations_routes @ WebhookOperations_routes @ Webhooks_routes @ Attestations_routes @ Resolution_routes"

definition globalPrefix :: string where
  "globalPrefix = ''v1''"

definition with_prefix :: "route \<Rightarrow> route" where
  "with_prefix r = r\<lparr>rt_path := Lit globalPrefix # rt_path r\<rparr>"

definition served_routes :: "route list" where
  "served_routes = map with_prefix routes"

section \<open>The guard of a route\<close>

record http_request =
  hq_method :: http_method
  hq_path :: string
  hq_authorization :: "string option"
  hq_adminToken :: "string option"

datatype caller = Anyone | Operator | Authenticated AuthenticatedPartner

definition route_canActivate ::
    "env \<Rightarrow> time \<Rightarrow> route_guard \<Rightarrow> http_request \<Rightarrow> use_writes \<Rightarrow> db \<Rightarrow> caller result \<times> use_writes \<times> db" where
  "route_canActivate E now g q w s =
     (case g of
        No_guard \<Rightarrow> (Inr Anyone, w, s)
      | Admin_guard \<Rightarrow>
          (case admin_canActivate E (hq_adminToken q) of
             Inl e \<Rightarrow> (Inl e, w, s)
           | Inr _ \<Rightarrow> (Inr Operator, w, s))
      | Partner_guard scopes policies \<Rightarrow>
          (case partner_canActivate E now (hq_authorization q) scopes policies w s of
             (Inl e, w', s') \<Rightarrow> (Inl e, w', s')
           | (Inr p, w', s') \<Rightarrow> (Inr (Authenticated p), w', s')))"

end
