(* ===== verification/Route_Facts.thy ===== *)
theory Route_Facts
  imports Routes
begin

text \<open>
  The table of routes is unambiguous: no path that fills the pattern of a route with plain names also fits a route
  registered before it, provided no name is one of the two literals that stand where another route has a parameter
  (\<open>deliveries\<close> and \<open>me\<close>).  Hence such a path is dispatched to that route.
\<close>

section \<open>No two routes compete\<close>

fun can_match :: "string list \<Rightarrow> segment list \<Rightarrow> segment list \<Rightarrow> bool" where
  "can_match R [] [] = True"
| "can_match R (Lit a # ps) (Lit b # qs) = (a = b \<and> can_match R ps qs)"
| "can_match R (Lit a # ps) (Param n # qs) = (\<not> List.member R a \<and> can_match R ps qs)"
| "can_match R (Param n # ps) (q # qs) = can_match R ps qs"
| "can_match R _ _ = False"

definition reserved :: "string list" where
  "reserved = [''deliveries'', ''me'']"

definition apart :: "http_method \<times> segment list \<Rightarrow> http_method \<times> segment list \<Rightarrow> bool" where
  "apart r r' \<longleftrightarrow> fst r = fst r' \<longrightarrow> \<not> can_match reserved (snd r) (snd r')"

definition shape :: "route \<Rightarrow> http_method \<times> segment list" where
  "shape r = (rt_method r, rt_path r)"

lemmas controller_routes =
  Audit_routes_def AuditExports_routes_def Health_routes_def DataFeedHealth_routes_def Overview_routes_def
  Platforms_routes_def PartnerAccount_routes_def PartnerDashboardAuth_routes_def Partners_routes_def
  Recipients_routes_def Destinations_routes_def WebhookOperations_routes_def Webhooks_routes_def
  Attestations_routes_def Resolution_routes_def

lemmas route_defs =
  route_Audit_listAuditLogs_def route_Audit_getAuditLog_def route_AuditExports_listAuditExports_def
  route_AuditExports_getAuditExport_def route_AuditExports_createAuditExport_def route_Health_getHealth_def
  route_DataFeedHealth_getDataFeedHealth_def route_Overview_getOverview_def
  route_Platforms_listPlatforms_def route_PartnerAccount_getPartnerProfile_def
  route_PartnerAccount_getDashboardMetadata_def route_PartnerAccount_getPartnerPlanUsage_def
  route_PartnerAccount_listApiCredentials_def route_PartnerAccount_createApiCredential_def
  route_PartnerAccount_revokeApiCredential_def route_PartnerAccount_listSigningKeys_def
  route_PartnerAccount_registerSigningKey_def route_PartnerAccount_revokeSigningKey_def
  route_PartnerAccount_listPartnerUsers_def route_PartnerAccount_invitePartnerUser_def
  route_PartnerAccount_updatePartnerUser_def route_PartnerAccount_deactivatePartnerUser_def
  route_PartnerAccount_getSecuritySettings_def route_PartnerAccount_updateSecuritySettings_def
  route_PartnerAccount_listProductionApprovalRequests_def route_PartnerAccount_listProductionCorridors_def
  route_PartnerAccount_listAvailableProductionCorridors_def
  route_PartnerAccount_requestProductionApproval_def
  route_PartnerAccount_cancelProductionApprovalRequest_def route_PartnerDashboardAuth_login_def
  route_PartnerDashboardAuth_acceptInvite_def route_PartnerDashboardAuth_logout_def
  route_Partners_getSetupStatus_def route_Partners_getSetupMetadata_def route_Partners_createPartner_def
  route_Partners_createApiCredential_def route_Partners_registerSigningKey_def
  route_Partners_createPartnerUser_def route_Partners_listPartners_def
  route_Partners_listAvailableProductionCorridors_def route_Partners_listProductionApprovalRequests_def
  route_Partners_reviewProductionApprovalRequest_def route_Partners_updatePartnerAdminState_def
  route_Partners_listPartnerProductionCorridors_def route_Partners_updatePartnerProductionCorridor_def
  route_Recipients_listRecipients_def route_Recipients_createRecipient_def
  route_Recipients_getRecipient_def route_Recipients_updateRecipient_def
  route_Recipients_disableRecipient_def route_Destinations_listDestinations_def
  route_Destinations_getDestination_def route_Destinations_createDestination_def
  route_Destinations_revokeDestination_def route_Destinations_replaceDestination_def
  route_WebhookOperations_processPendingDeliveries_def route_Webhooks_listWebhookEndpoints_def
  route_Webhooks_listWebhookDeliveries_def route_Webhooks_getWebhookDelivery_def
  route_Webhooks_getWebhookEndpoint_def route_Webhooks_createWebhookEndpoint_def
  route_Webhooks_updateWebhookEndpoint_def route_Webhooks_rotateWebhookSigningSecret_def
  route_Webhooks_testWebhookEndpoint_def route_Webhooks_replayWebhookDelivery_def
  route_Webhooks_disableWebhookEndpoint_def route_Attestations_listAttestations_def
  route_Attestations_getAttestation_def route_Attestations_createAttestation_def
  route_Resolution_listResolutionLogs_def route_Resolution_getResolutionLog_def
  route_Resolution_resolveRecipient_def route_Resolution_resolveRecipientByRoute_def
  route_Resolution_confirmRecipientByAddress_def route_Resolution_verifyDestination_def
  route_Resolution_verifyTransfer_def route_Resolution_batchVerify_def

lemma shape_simp: "shape \<lparr>rt_method = m, rt_path = p, rt_guard = g, rt_handler = h\<rparr> = (m, p)"
  by (simp add: shape_def)

text \<open>Routes of two controllers are apart when their paths begin with different literals.\<close>

definition begins :: "string list \<Rightarrow> route list \<Rightarrow> bool" where
  "begins as rs \<longleftrightarrow> (\<forall>r \<in> set rs. \<exists>a ps. rt_path r = Lit a # ps \<and> a \<in> set as)"

definition all_apart :: "route list \<Rightarrow> bool" where
  "all_apart rs \<longleftrightarrow> sorted_wrt apart (map shape rs)"

definition apart_lists :: "route list \<Rightarrow> route list \<Rightarrow> bool" where
  "apart_lists rs rs' \<longleftrightarrow> (\<forall>r \<in> set rs. \<forall>r' \<in> set rs'. apart (shape r) (shape r'))"

lemma all_apart_append: "all_apart (rs @ rs') \<longleftrightarrow> all_apart rs \<and> all_apart rs' \<and> apart_lists rs rs'"
  by (auto simp: all_apart_def apart_lists_def sorted_wrt_append)

lemma apart_lists_append: "apart_lists rs (xs @ ys) \<longleftrightarrow> apart_lists rs xs \<and> apart_lists rs ys"
  by (auto simp: apart_lists_def)

lemma apart_begins:
  assumes "begins as rs" "begins bs rs'" "set as \<inter> set bs = {}"
  shows "apart_lists rs rs'"
  unfolding apart_lists_def
proof (intro ballI)
  fix r r' assume "r \<in> set rs" "r' \<in> set rs'"
  then obtain a ps b qs where "rt_path r = Lit a # ps" "rt_path r' = Lit b # qs" "a \<noteq> b"
    using assms unfolding begins_def by (metis disjoint_iff)
  then show "apart (shape r) (shape r')" by (simp add: apart_def shape_def)
qed

lemma all_apart_groups:
  assumes "list_all (\<lambda>(as, rs). begins as rs \<and> all_apart rs) groups"
    and "sorted_wrt (\<lambda>(as, rs) (bs, rs'). set as \<inter> set bs = {}) groups"
  shows "all_apart (concat (map snd groups))"
  using assms
proof (induction groups)
  case Nil
  then show ?case by (simp add: all_apart_def)
next
  case (Cons g groups)
  obtain as rs where g: "g = (as, rs)" by (cases g)
  have "apart_lists rs (concat (map snd groups))"
    unfolding apart_lists_def
  proof (intro ballI)
    fix r r' assume r: "r \<in> set rs" "r' \<in> set (concat (map snd groups))"
    then obtain bs rs' where "(bs, rs') \<in> set groups" "r' \<in> set rs'" by auto
    with Cons.prems g have "apart_lists rs rs'"
      by (intro apart_begins [of as rs bs rs']) (auto simp: list_all_iff)
    with r \<open>r' \<in> set rs'\<close> show "apart (shape r) (shape r')" by (simp add: apart_lists_def)
  qed
  with Cons g show ?case by (simp add: all_apart_append)
qed

lemma begins_append: "begins as rs \<Longrightarrow> begins bs rs' \<Longrightarrow> begins (as @ bs) (rs @ rs')"
  by (auto simp: begins_def)

lemma apart_Audit_routes: "all_apart Audit_routes"
  by (simp add: all_apart_def Audit_routes_def shape_simp apart_def reserved_def route_defs)

lemma begins_Audit_routes: "begins [''audit-logs''] Audit_routes"
  by (simp add: begins_def Audit_routes_def route_defs)

lemma apart_AuditExports_routes: "all_apart AuditExports_routes"
  by (simp add: all_apart_def AuditExports_routes_def shape_simp apart_def reserved_def route_defs)

lemma begins_AuditExports_routes: "begins [''audit-exports''] AuditExports_routes"
  by (simp add: begins_def AuditExports_routes_def route_defs)

lemma apart_Health_routes: "all_apart Health_routes"
  by (simp add: all_apart_def Health_routes_def shape_simp apart_def reserved_def route_defs)

lemma begins_Health_routes: "begins [''health''] Health_routes"
  by (simp add: begins_def Health_routes_def route_defs)

lemma apart_DataFeedHealth_routes: "all_apart DataFeedHealth_routes"
  by (simp add: all_apart_def DataFeedHealth_routes_def shape_simp apart_def reserved_def route_defs)

lemma begins_DataFeedHealth_routes: "begins [''data-feed-health''] DataFeedHealth_routes"
  by (simp add: begins_def DataFeedHealth_routes_def route_defs)

lemma apart_Overview_routes: "all_apart Overview_routes"
  by (simp add: all_apart_def Overview_routes_def shape_simp apart_def reserved_def route_defs)

lemma begins_Overview_routes: "begins [''overview''] Overview_routes"
  by (simp add: begins_def Overview_routes_def route_defs)

lemma apart_Platforms_routes: "all_apart Platforms_routes"
  by (simp add: all_apart_def Platforms_routes_def shape_simp apart_def reserved_def route_defs)

lemma begins_Platforms_routes: "begins [''platforms''] Platforms_routes"
  by (simp add: begins_def Platforms_routes_def route_defs)

lemma apart_PartnerAccount_routes: "all_apart PartnerAccount_routes"
  by (simp add: all_apart_def PartnerAccount_routes_def shape_simp apart_def reserved_def route_defs)

lemma begins_PartnerAccount_routes: "begins [''partners''] PartnerAccount_routes"
  by (simp add: begins_def PartnerAccount_routes_def route_defs)

lemma apart_PartnerDashboardAuth_routes: "all_apart PartnerDashboardAuth_routes"
  by (simp add: all_apart_def PartnerDashboardAuth_routes_def shape_simp apart_def reserved_def route_defs)

lemma begins_PartnerDashboardAuth_routes: "begins [''dashboard-auth''] PartnerDashboardAuth_routes"
  by (simp add: begins_def PartnerDashboardAuth_routes_def route_defs)

lemma apart_Partners_routes: "all_apart Partners_routes"
  by (simp add: all_apart_def Partners_routes_def shape_simp apart_def reserved_def route_defs)

lemma begins_Partners_routes: "begins [''partners''] Partners_routes"
  by (simp add: begins_def Partners_routes_def route_defs)

lemma apart_Recipients_routes: "all_apart Recipients_routes"
  by (simp add: all_apart_def Recipients_routes_def shape_simp apart_def reserved_def route_defs)

lemma begins_Recipients_routes: "begins [''recipients''] Recipients_routes"
  by (simp add: begins_def Recipients_routes_def route_defs)

lemma apart_Destinations_routes: "all_apart Destinations_routes"
  by (simp add: all_apart_def Destinations_routes_def shape_simp apart_def reserved_def route_defs)

lemma begins_Destinations_routes: "begins [''destinations''] Destinations_routes"
  by (simp add: begins_def Destinations_routes_def route_defs)

lemma apart_WebhookOperations_routes: "all_apart WebhookOperations_routes"
  by (simp add: all_apart_def WebhookOperations_routes_def shape_simp apart_def reserved_def route_defs)

lemma begins_WebhookOperations_routes: "begins [''webhooks''] WebhookOperations_routes"
  by (simp add: begins_def WebhookOperations_routes_def route_defs)

lemma apart_Webhooks_routes: "all_apart Webhooks_routes"
  by (simp add: all_apart_def Webhooks_routes_def shape_simp apart_def reserved_def route_defs)

lemma begins_Webhooks_routes: "begins [''webhooks''] Webhooks_routes"
  by (simp add: begins_def Webhooks_routes_def route_defs)

lemma apart_Attestations_routes: "all_apart Attestations_routes"
  by (simp add: all_apart_def Attestations_routes_def shape_simp apart_def reserved_def route_defs)

lemma begins_Attestations_routes: "begins [''attestations''] Attestations_routes"
  by (simp add: begins_def Attestations_routes_def route_defs)

lemma apart_Resolution_routes: "all_apart Resolution_routes"
  by (simp add: all_apart_def Resolution_routes_def shape_simp apart_def reserved_def route_defs)

lemma begins_Resolution_routes: "begins [''resolution''] Resolution_routes"
  by (simp add: begins_def Resolution_routes_def route_defs)

text \<open>The partner's own account, under the literal \<open>me\<close>, and the webhook operations share their first literal with another controller.\<close>

lemma apart_partner_controllers: "all_apart (PartnerAccount_routes @ PartnerDashboardAuth_routes @ Partners_routes)"
proof -
  have "apart_lists PartnerAccount_routes Partners_routes"
    by (simp add: apart_lists_def PartnerAccount_routes_def Partners_routes_def shape_simp apart_def reserved_def route_defs)
  moreover have "apart_lists PartnerAccount_routes PartnerDashboardAuth_routes"
    by (rule apart_begins [OF begins_PartnerAccount_routes begins_PartnerDashboardAuth_routes]) simp
  moreover have "apart_lists PartnerDashboardAuth_routes Partners_routes"
    by (rule apart_begins [OF begins_PartnerDashboardAuth_routes begins_Partners_routes]) simp
  ultimately show ?thesis
    by (simp add: all_apart_append apart_lists_append apart_PartnerAccount_routes apart_PartnerDashboardAuth_routes
        apart_Partners_routes)
qed

lemma apart_webhook_controllers: "all_apart (WebhookOperations_routes @ Webhooks_routes)"
proof -
  have "apart_lists WebhookOperations_routes Webhooks_routes"
    by (simp add: apart_lists_def WebhookOperations_routes_def Webhooks_routes_def shape_simp apart_def reserved_def route_defs)
  then show ?thesis by (simp add: all_apart_append apart_WebhookOperations_routes apart_Webhooks_routes)
qed

definition route_groups :: "(string list \<times> route list) list" where
  "route_groups =
     [([''audit-logs''], Audit_routes), ([''audit-exports''], AuditExports_routes), ([''health''], Health_routes),
      ([''data-feed-health''], DataFeedHealth_routes), ([''overview''], Overview_routes), ([''platforms''], Platforms_routes),
      ([''partners'', ''dashboard-auth'', ''partners''],
       PartnerAccount_routes @ PartnerDashboardAuth_routes @ Partners_routes),
      ([''recipients''], Recipients_routes), ([''destinations''], Destinations_routes),
      ([''webhooks'', ''webhooks''], WebhookOperations_routes @ Webhooks_routes),
      ([''attestations''], Attestations_routes), ([''resolution''], Resolution_routes)]"

lemmas begins_controllers =
  begins_append [OF begins_PartnerAccount_routes begins_append [OF begins_PartnerDashboardAuth_routes begins_Partners_routes]]
  begins_append [OF begins_WebhookOperations_routes begins_Webhooks_routes]
  begins_Audit_routes begins_AuditExports_routes begins_Health_routes begins_DataFeedHealth_routes begins_Overview_routes
  begins_Platforms_routes begins_Recipients_routes begins_Destinations_routes begins_Attestations_routes begins_Resolution_routes

lemmas apart_controllers =
  apart_partner_controllers apart_webhook_controllers
  apart_Audit_routes apart_AuditExports_routes apart_Health_routes apart_DataFeedHealth_routes apart_Overview_routes
  apart_Platforms_routes apart_Recipients_routes apart_Destinations_routes apart_Attestations_routes apart_Resolution_routes

lemma routes_apart: "all_apart routes"
proof -
  have "all_apart (concat (map snd route_groups))"
  proof (rule all_apart_groups)
    show "list_all (\<lambda>(as, rs). begins as rs \<and> all_apart rs) route_groups"
      using begins_controllers by (simp add: route_groups_def apart_controllers)
    show "sorted_wrt (\<lambda>(as, rs) (bs, rs'). set as \<inter> set bs = {}) route_groups"
      by (simp add: route_groups_def)
  qed
  then show ?thesis by (simp add: route_groups_def routes_def)
qed

section \<open>Every path reaches its handler\<close>

lemma in_routes:
  "route_Audit_listAuditLogs \<in> set routes" "route_Audit_getAuditLog \<in> set routes"
  "route_AuditExports_listAuditExports \<in> set routes" "route_AuditExports_getAuditExport \<in> set routes"
  "route_AuditExports_createAuditExport \<in> set routes" "route_Health_getHealth \<in> set routes"
  "route_DataFeedHealth_getDataFeedHealth \<in> set routes" "route_Overview_getOverview \<in> set routes"
  "route_Platforms_listPlatforms \<in> set routes" "route_PartnerAccount_getPartnerProfile \<in> set routes"
  "route_PartnerAccount_getDashboardMetadata \<in> set routes" "route_PartnerAccount_getPartnerPlanUsage \<in> set routes"
  "route_PartnerAccount_listApiCredentials \<in> set routes" "route_PartnerAccount_createApiCredential \<in> set routes"
  "route_PartnerAccount_revokeApiCredential \<in> set routes" "route_PartnerAccount_listSigningKeys \<in> set routes"
  "route_PartnerAccount_registerSigningKey \<in> set routes" "route_PartnerAccount_revokeSigningKey \<in> set routes"
  "route_PartnerAccount_listPartnerUsers \<in> set routes" "route_PartnerAccount_invitePartnerUser \<in> set routes"
  "route_PartnerAccount_updatePartnerUser \<in> set routes" "route_PartnerAccount_deactivatePartnerUser \<in> set routes"
  "route_PartnerAccount_getSecuritySettings \<in> set routes" "route_PartnerAccount_updateSecuritySettings \<in> set routes"
  "route_PartnerAccount_listProductionApprovalRequests \<in> set routes" "route_PartnerAccount_listProductionCorridors \<in> set routes"
  "route_PartnerAccount_listAvailableProductionCorridors \<in> set routes" "route_PartnerAccount_requestProductionApproval \<in> set routes"
  "route_PartnerAccount_cancelProductionApprovalRequest \<in> set routes" "route_PartnerDashboardAuth_login \<in> set routes"
  "route_PartnerDashboardAuth_acceptInvite \<in> set routes" "route_PartnerDashboardAuth_logout \<in> set routes"
  "route_Partners_getSetupStatus \<in> set routes" "route_Partners_getSetupMetadata \<in> set routes"
  "route_Partners_createPartner \<in> set routes" "route_Partners_createApiCredential \<in> set routes"
  "route_Partners_registerSigningKey \<in> set routes" "route_Partners_createPartnerUser \<in> set routes"
  "route_Partners_listPartners \<in> set routes" "route_Partners_listAvailableProductionCorridors \<in> set routes"
  "route_Partners_listProductionApprovalRequests \<in> set routes" "route_Partners_reviewProductionApprovalRequest \<in> set routes"
  "route_Partners_updatePartnerAdminState \<in> set routes" "route_Partners_listPartnerProductionCorridors \<in> set routes"
  "route_Partners_updatePartnerProductionCorridor \<in> set routes" "route_Recipients_listRecipients \<in> set routes"
  "route_Recipients_createRecipient \<in> set routes" "route_Recipients_getRecipient \<in> set routes"
  "route_Recipients_updateRecipient \<in> set routes" "route_Recipients_disableRecipient \<in> set routes"
  "route_Destinations_listDestinations \<in> set routes" "route_Destinations_getDestination \<in> set routes"
  "route_Destinations_createDestination \<in> set routes" "route_Destinations_revokeDestination \<in> set routes"
  "route_Destinations_replaceDestination \<in> set routes" "route_WebhookOperations_processPendingDeliveries \<in> set routes"
  "route_Webhooks_listWebhookEndpoints \<in> set routes" "route_Webhooks_listWebhookDeliveries \<in> set routes"
  "route_Webhooks_getWebhookDelivery \<in> set routes" "route_Webhooks_getWebhookEndpoint \<in> set routes"
  "route_Webhooks_createWebhookEndpoint \<in> set routes" "route_Webhooks_updateWebhookEndpoint \<in> set routes"
  "route_Webhooks_rotateWebhookSigningSecret \<in> set routes" "route_Webhooks_testWebhookEndpoint \<in> set routes"
  "route_Webhooks_replayWebhookDelivery \<in> set routes" "route_Webhooks_disableWebhookEndpoint \<in> set routes"
  "route_Attestations_listAttestations \<in> set routes" "route_Attestations_getAttestation \<in> set routes"
  "route_Attestations_createAttestation \<in> set routes" "route_Resolution_listResolutionLogs \<in> set routes"
  "route_Resolution_getResolutionLog \<in> set routes" "route_Resolution_resolveRecipient \<in> set routes"
  "route_Resolution_resolveRecipientByRoute \<in> set routes" "route_Resolution_confirmRecipientByAddress \<in> set routes"
  "route_Resolution_verifyDestination \<in> set routes" "route_Resolution_verifyTransfer \<in> set routes"
  "route_Resolution_batchVerify \<in> set routes"
  by (simp_all add: routes_def controller_routes)

lemma lower_literals:
  "js_lower ''audit-logs'' = ''audit-logs''"
  "js_lower ''audit-exports'' = ''audit-exports''"
  "js_lower ''health'' = ''health''"
  "js_lower ''data-feed-health'' = ''data-feed-health''"
  "js_lower ''overview'' = ''overview''"
  "js_lower ''platforms'' = ''platforms''"
  "js_lower ''partners'' = ''partners''"
  "js_lower ''me'' = ''me''"
  "js_lower ''dashboard-metadata'' = ''dashboard-metadata''"
  "js_lower ''plan-usage'' = ''plan-usage''"
  "js_lower ''api-credentials'' = ''api-credentials''"
  "js_lower ''revoke'' = ''revoke''"
  "js_lower ''signing-keys'' = ''signing-keys''"
  "js_lower ''users'' = ''users''"
  "js_lower ''invites'' = ''invites''"
  "js_lower ''deactivate'' = ''deactivate''"
  "js_lower ''security-settings'' = ''security-settings''"
  "js_lower ''production-approval-requests'' = ''production-approval-requests''"
  "js_lower ''production-corridors'' = ''production-corridors''"
  "js_lower ''available-production-corridors'' = ''available-production-corridors''"
  "js_lower ''cancel'' = ''cancel''"
  "js_lower ''dashboard-auth'' = ''dashboard-auth''"
  "js_lower ''login'' = ''login''"
  "js_lower ''invitations'' = ''invitations''"
  "js_lower ''accept'' = ''accept''"
  "js_lower ''logout'' = ''logout''"
  "js_lower ''setup'' = ''setup''"
  "js_lower ''status'' = ''status''"
  "js_lower ''metadata'' = ''metadata''"
  "js_lower ''corridors'' = ''corridors''"
  "js_lower ''review'' = ''review''"
  "js_lower ''admin-state'' = ''admin-state''"
  "js_lower ''recipients'' = ''recipients''"
  "js_lower ''disable'' = ''disable''"
  "js_lower ''destinations'' = ''destinations''"
  "js_lower ''replace'' = ''replace''"
  "js_lower ''webhooks'' = ''webhooks''"
  "js_lower ''deliveries'' = ''deliveries''"
  "js_lower ''process'' = ''process''"
  "js_lower ''rotate-secret'' = ''rotate-secret''"
  "js_lower ''test'' = ''test''"
  "js_lower ''replay'' = ''replay''"
  "js_lower ''attestations'' = ''attestations''"
  "js_lower ''resolution'' = ''resolution''"
  "js_lower ''logs'' = ''logs''"
  "js_lower ''resolve'' = ''resolve''"
  "js_lower ''by-recipient'' = ''by-recipient''"
  "js_lower ''by-address'' = ''by-address''"
  "js_lower ''verify'' = ''verify''"
  "js_lower ''verify-transfer'' = ''verify-transfer''"
  "js_lower ''batch'' = ''batch''"
  by code_simp+

lemma safe_literals:
  "path_safe ''audit-logs''" "path_safe ''audit-exports''" "path_safe ''health''" "path_safe ''data-feed-health''"
  "path_safe ''overview''" "path_safe ''platforms''" "path_safe ''partners''" "path_safe ''me''"
  "path_safe ''dashboard-metadata''" "path_safe ''plan-usage''" "path_safe ''api-credentials''" "path_safe ''revoke''"
  "path_safe ''signing-keys''" "path_safe ''users''" "path_safe ''invites''" "path_safe ''deactivate''"
  "path_safe ''security-settings''" "path_safe ''production-approval-requests''" "path_safe ''production-corridors''" "path_safe ''available-production-corridors''"
  "path_safe ''cancel''" "path_safe ''dashboard-auth''" "path_safe ''login''" "path_safe ''invitations''"
  "path_safe ''accept''" "path_safe ''logout''" "path_safe ''setup''" "path_safe ''status''"
  "path_safe ''metadata''" "path_safe ''corridors''" "path_safe ''review''" "path_safe ''admin-state''"
  "path_safe ''recipients''" "path_safe ''disable''" "path_safe ''destinations''" "path_safe ''replace''"
  "path_safe ''webhooks''" "path_safe ''deliveries''" "path_safe ''process''" "path_safe ''rotate-secret''"
  "path_safe ''test''" "path_safe ''replay''" "path_safe ''attestations''" "path_safe ''resolution''"
  "path_safe ''logs''" "path_safe ''resolve''" "path_safe ''by-recipient''" "path_safe ''by-address''"
  "path_safe ''verify''" "path_safe ''verify-transfer''" "path_safe ''batch''"
  by code_simp+

lemma safe_prefix: "path_safe ''v1''"
  by code_simp

definition literals_of :: "segment list \<Rightarrow> string set" where
  "literals_of ps = {l. Lit l \<in> set ps}"

lemma literals_of_simps [simp]:
  "literals_of [] = {}"
  "literals_of (Lit l # ps) = insert l (literals_of ps)"
  "literals_of (Param n # ps) = literals_of ps"
  by (auto simp: literals_of_def)

fun plain_path :: "segment list \<Rightarrow> bool" where
  "plain_path [] = True"
| "plain_path (Lit l # ps) = (js_lower l = l \<and> path_safe l \<and> plain_path ps)"
| "plain_path (Param n # ps) = plain_path ps"

lemma plain_path_literals: "plain_path ps \<Longrightarrow> l \<in> literals_of ps \<Longrightarrow> js_lower l = l"
  by (induction ps rule: plain_path.induct) auto

definition plain_routes :: "route list \<Rightarrow> bool" where
  "plain_routes rs \<longleftrightarrow> list_all (\<lambda>p. plain_path (snd p)) (map shape rs)"

lemma plain_Audit_routes: "plain_routes Audit_routes"
  by (simp add: plain_routes_def Audit_routes_def route_defs shape_simp lower_literals safe_literals)

lemma plain_AuditExports_routes: "plain_routes AuditExports_routes"
  by (simp add: plain_routes_def AuditExports_routes_def route_defs shape_simp lower_literals safe_literals)

lemma plain_Health_routes: "plain_routes Health_routes"
  by (simp add: plain_routes_def Health_routes_def route_defs shape_simp lower_literals safe_literals)

lemma plain_DataFeedHealth_routes: "plain_routes DataFeedHealth_routes"
  by (simp add: plain_routes_def DataFeedHealth_routes_def route_defs shape_simp lower_literals safe_literals)

lemma plain_Overview_routes: "plain_routes Overview_routes"
  by (simp add: plain_routes_def Overview_routes_def route_defs shape_simp lower_literals safe_literals)

lemma plain_Platforms_routes: "plain_routes Platforms_routes"
  by (simp add: plain_routes_def Platforms_routes_def route_defs shape_simp lower_literals safe_literals)

lemma plain_PartnerAccount_routes: "plain_routes PartnerAccount_routes"
  by (simp add: plain_routes_def PartnerAccount_routes_def route_defs shape_simp lower_literals safe_literals)

lemma plain_PartnerDashboardAuth_routes: "plain_routes PartnerDashboardAuth_routes"
  by (simp add: plain_routes_def PartnerDashboardAuth_routes_def route_defs shape_simp lower_literals safe_literals)

lemma plain_Partners_routes: "plain_routes Partners_routes"
  by (simp add: plain_routes_def Partners_routes_def route_defs shape_simp lower_literals safe_literals)

lemma plain_Recipients_routes: "plain_routes Recipients_routes"
  by (simp add: plain_routes_def Recipients_routes_def route_defs shape_simp lower_literals safe_literals)

lemma plain_Destinations_routes: "plain_routes Destinations_routes"
  by (simp add: plain_routes_def Destinations_routes_def route_defs shape_simp lower_literals safe_literals)

lemma plain_WebhookOperations_routes: "plain_routes WebhookOperations_routes"
  by (simp add: plain_routes_def WebhookOperations_routes_def route_defs shape_simp lower_literals safe_literals)

lemma plain_Webhooks_routes: "plain_routes Webhooks_routes"
  by (simp add: plain_routes_def Webhooks_routes_def route_defs shape_simp lower_literals safe_literals)

lemma plain_Attestations_routes: "plain_routes Attestations_routes"
  by (simp add: plain_routes_def Attestations_routes_def route_defs shape_simp lower_literals safe_literals)

lemma plain_Resolution_routes: "plain_routes Resolution_routes"
  by (simp add: plain_routes_def Resolution_routes_def route_defs shape_simp lower_literals safe_literals)

lemma routes_plain: "r \<in> set routes \<Longrightarrow> plain_path (rt_path r)"
proof -
  have "plain_routes routes"
    using plain_Audit_routes plain_AuditExports_routes plain_Health_routes plain_DataFeedHealth_routes plain_Overview_routes
      plain_Platforms_routes plain_PartnerAccount_routes plain_PartnerDashboardAuth_routes plain_Partners_routes plain_Recipients_routes
      plain_Destinations_routes plain_WebhookOperations_routes plain_Webhooks_routes plain_Attestations_routes plain_Resolution_routes
    by (simp add: routes_def plain_routes_def)
  then show "r \<in> set routes \<Longrightarrow> plain_path (rt_path r)"
    by (auto simp: plain_routes_def list_all_iff shape_def)
qed

lemma fill_path_safe:
  "plain_path ps \<Longrightarrow> list_all path_safe args \<Longrightarrow> length args = path_params ps \<Longrightarrow> list_all path_safe (fill_path ps args)"
  by (induction ps args rule: fill_path.induct) auto

lemma length_fill_path: "length args = path_params ps \<Longrightarrow> length (fill_path ps args) = length ps"
  by (induction ps args rule: fill_path.induct) auto

lemma fill_path_Nil_iff: "length args = path_params ps \<Longrightarrow> fill_path ps args = [] \<longleftrightarrow> ps = []"
  by (metis length_0_conv length_fill_path)

lemma fits_can_match:
  assumes "list_all2 fits ps (fill_path qs args)" "length args = path_params qs"
    and "\<forall>a \<in> set args. js_lower a \<notin> set R"
    and "\<forall>l \<in> literals_of ps \<union> literals_of qs. js_lower l = l"
  shows "can_match R ps qs"
  using assms
proof (induction R ps qs arbitrary: args rule: can_match.induct)
  case (3 R a ps n qs)
  then obtain x xs where "args = x # xs" by (cases args) auto
  with 3 show ?case by auto
next
  case (4 R n ps q qs)
  then show ?case
    by (cases q; cases args) auto
qed (auto simp: fill_path_Nil_iff)

lemma dispatch_first:
  assumes m: "router_contract matches"
    and apart: "all_apart rs" and r: "r \<in> set rs"
    and lower: "\<forall>r \<in> set rs. \<forall>l \<in> literals_of (rt_path r). js_lower l = l"
    and args: "length args = path_params (rt_path r)" "list_all path_safe (globalPrefix # fill_path (rt_path r) args)"
      "\<forall>a \<in> set args. js_lower a \<notin> set reserved"
  shows "dispatch matches (map with_prefix rs) (rt_method r)
      (path_text (globalPrefix # fill_path (rt_path r) args)) = Some (with_prefix r, args)"
  using apart r lower
proof (induction rs)
  case (Cons x rs)
  let ?path = "path_text (globalPrefix # fill_path (rt_path r) args)"
  have own: "matches (Lit globalPrefix # rt_path r) ?path = Some args"
    using m [unfolded router_contract_def, THEN conjunct1, rule_format, of args "Lit globalPrefix # rt_path r"] args(1,2) by simp
  show ?case
  proof (cases "r = x")
    case True
    then show ?thesis using own by (simp add: with_prefix_def)
  next
    case False
    with Cons.prems have rs: "r \<in> set rs" "apart (shape x) (shape r)" "all_apart rs"
      by (auto simp: all_apart_def)
    have "matches (Lit globalPrefix # rt_path x) ?path = None" if "rt_method x = rt_method r"
    proof (rule ccontr)
      assume "matches (Lit globalPrefix # rt_path x) ?path \<noteq> None"
      then obtain a where "matches (Lit globalPrefix # rt_path x) ?path = Some a" by blast
      then have "list_all2 fits (Lit globalPrefix # rt_path x) (globalPrefix # fill_path (rt_path r) args)"
        using m [unfolded router_contract_def, THEN conjunct2, rule_format, OF args(2)] by blast
      then have "can_match reserved (rt_path x) (rt_path r)"
        using Cons.prems(2,3) by (intro fits_can_match [OF _ args(1,3)]) auto
      with rs(2) that show False by (simp add: apart_def shape_def)
    qed
    with Cons.IH rs Cons.prems(3) show ?thesis by (auto simp: with_prefix_def)
  qed
qed simp

text \<open>A request to a route, with values for its parameters that are plain names other than a literal in their place.\<close>

lemma served_route:
  assumes "router_contract matches" "r \<in> set routes" "length args = path_params (rt_path r)"
    and "list_all path_safe args" "\<forall>a \<in> set args. js_lower a \<notin> set reserved"
  shows "dispatch matches served_routes (rt_method r) (path_text (globalPrefix # fill_path (rt_path r) args)) =
    Some (with_prefix r, args)"
proof -
  have "path_safe globalPrefix" by (simp add: globalPrefix_def safe_prefix)
  then show ?thesis
    unfolding served_routes_def
    by (intro dispatch_first [OF assms(1) routes_apart assms(2)])
       (use assms routes_plain plain_path_literals fill_path_safe in auto)
qed

end
