(* ===== verification/Dashboard_Client.thy ===== *)
theory Dashboard_Client
  imports Routes Production_Review Js_Json
begin

text \<open>
  \<^verbatim>\<open>src/dashboard/src/lib/vervet-api.ts\<close>: the dashboard's client of the backend.  A call of the client is the request
  it makes (method, path, tokens, query, body and headers); \<open>buildUrl\<close> and \<open>fetchApi\<close> send it and
  turn the response into the answer or the error the pages handle.  Beside the calls, the decisions the pages take on
  the partner's profile: which modules are shown, and what a role may do.

  The constructor \<open>URL\<close> and \<open>fetch\<close> are arguments (\<^verbatim>\<open>resolveUrl\<close>, \<^verbatim>\<open>send\<close>), and so is SHA-256.  The definitions
  of the calls have the prefix \<^verbatim>\<open>client_\<close>, and functions with the name of a backend function \<^verbatim>\<open>dashboard_\<close>.
\<close>

section \<open>Errors\<close>

datatype dashboard_error =
    DashboardApiError string int
  | DashboardAuthError string
  | DashboardAdminAuthError string
  | OtherError string

fun dashboard_error_message :: "dashboard_error \<Rightarrow> string" where
  "dashboard_error_message (DashboardApiError m c) = m"
| "dashboard_error_message (DashboardAuthError m) = m"
| "dashboard_error_message (DashboardAdminAuthError m) = m"
| "dashboard_error_message (OtherError m) = m"

text \<open>\<open>statusCode\<close>; the two authentication errors extend the general one with 401.\<close>

fun dashboard_error_status :: "dashboard_error \<Rightarrow> int option" where
  "dashboard_error_status (DashboardApiError m c) = Some c"
| "dashboard_error_status (DashboardAuthError m) = Some 401"
| "dashboard_error_status (DashboardAdminAuthError m) = Some 401"
| "dashboard_error_status (OtherError m) = None"

definition dashboardAuthError :: dashboard_error where
  "dashboardAuthError = DashboardAuthError ''Your dashboard session is no longer valid.''"

definition dashboardAdminAuthError :: dashboard_error where
  "dashboardAdminAuthError = DashboardAdminAuthError ''Admin setup is not available.''"

definition humanizeDashboardError :: "dashboard_error \<Rightarrow> string" where
  "humanizeDashboardError e =
     (case e of OtherError m \<Rightarrow> ''The dashboard could not complete the backend request.'' | _ \<Rightarrow> dashboard_error_message e)"

section \<open>Requests\<close>

datatype query_value = QStr string | QNum int

type_synonym query = "(string \<times> query_value) list"

record client_request =
  wq_method :: http_method
  wq_pathname :: string
  wq_accessToken :: string
  wq_adminToken :: string
  wq_params :: "(string \<times> query_value option) list"
  wq_body :: "json option"
  wq_extraHeaders :: "(string \<times> string) list"

text \<open>A call with nothing but its path: a \<open>GET\<close> without token; an absent token is the empty one.\<close>

definition client_get :: "string \<Rightarrow> client_request" where
  "client_get pathname =
     \<lparr>wq_method = GET, wq_pathname = pathname, wq_accessToken = [], wq_adminToken = [], wq_params = [],
      wq_body = None, wq_extraHeaders = []\<rparr>"

text \<open>\<open>baseUrl.replace(/\/v1\/?$/u, "")\<close>.\<close>

definition strip_v1 :: "string \<Rightarrow> string" where
  "strip_v1 b =
     (if js_ends_with ''/v1/'' b then take (length b - 4) b
      else if js_ends_with ''/v1'' b then take (length b - 3) b else b)"

definition getApiBaseUrl :: "string option \<Rightarrow> string option \<Rightarrow> dashboard_error + string" where
  "getApiBaseUrl vervetApiBaseUrl nextPublicApiUrl =
     (case (if trim_or_null vervetApiBaseUrl \<noteq> None then trim_or_null vervetApiBaseUrl else trim_or_null nextPublicApiUrl) of
        None \<Rightarrow> Inl (DashboardApiError ''Neither VERVET_API_BASE_URL nor NEXT_PUBLIC_API_URL is configured.'' 500)
      | Some baseUrl \<Rightarrow>
          let normalizedBaseUrl = strip_v1 baseUrl in
          Inr (if js_ends_with ''/'' normalizedBaseUrl then normalizedBaseUrl else normalizedBaseUrl @ ''/''))"

definition query_text :: "query_value \<Rightarrow> string" where
  "query_text v = (case v of QStr s \<Rightarrow> s | QNum n \<Rightarrow> show_int n)"

text \<open>The parameters that are set: those neither undefined nor empty, a number never being empty.\<close>

definition set_params :: "(string \<times> query_value option) list \<Rightarrow> (string \<times> string) list" where
  "set_params params =
     List.map_filter (\<lambda>(k, v). case v of None \<Rightarrow> None | Some x \<Rightarrow> (if x = QStr [] then None else Some (k, query_text x))) params"

record built_url =
  bu_href :: string
  bu_search :: "(string \<times> string) list"

definition buildUrl ::
    "(string \<Rightarrow> string \<Rightarrow> string) \<Rightarrow> string option \<times> string option \<Rightarrow> string \<Rightarrow> (string \<times> query_value option) list \<Rightarrow>
     dashboard_error + built_url" where
  "buildUrl resolveUrl urls pathname params =
     (case getApiBaseUrl (fst urls) (snd urls) of
        Inl e \<Rightarrow> Inl e
      | Inr base \<Rightarrow>
          Inr \<lparr>built_url.bu_href = resolveUrl (if js_starts_with ''/'' pathname then tl pathname else pathname) base,
               bu_search = set_params params\<rparr>)"

definition client_headers :: "client_request \<Rightarrow> (string \<times> string) list" where
  "client_headers q =
     [(''accept'', ''application/json'')] @
     (if wq_body q \<noteq> None then [(''content-type'', ''application/json'')] else []) @
     (if wq_accessToken q \<noteq> [] then [(''authorization'', ''Bearer '' @ wq_accessToken q)] else []) @
     (if wq_adminToken q \<noteq> [] then [(''x-admin-token'', wq_adminToken q)] else []) @
     wq_extraHeaders q"

record sent_request =
  we_url :: built_url
  we_method :: http_method
  we_headers :: "(string \<times> string) list"
  we_body :: "string option"

text \<open>A response: its status, the status text, and its body when that is JSON; or \<open>fetch\<close> rejects.\<close>

record http_response =
  wh_status :: int
  wh_statusText :: string
  wh_json :: "json option"

text \<open>The text of a value in \<open>Array.prototype.join\<close>.\<close>

fun array_item_text :: "json \<Rightarrow> string" where
  "array_item_text JNull = []"
| "array_item_text (JBool b) = (if b then ''true'' else ''false'')"
| "array_item_text (JNum n) = show_int n"
| "array_item_text (JStr s) = s"
| "array_item_text (JArr xs) = join_with '','' (map array_item_text xs)"
| "array_item_text (JObj fs) = ''[object Object]''"

definition status_fallback :: "http_response \<Rightarrow> string" where
  "status_fallback response =
     (if wh_statusText response \<noteq> [] then wh_statusText response else ''Backend request failed.'')"

definition extractErrorMessage :: "http_response \<Rightarrow> string" where
  "extractErrorMessage response =
     (case wh_json response of
        None \<Rightarrow> status_fallback response
      | Some body \<Rightarrow>
          (case j_get body ''message'' of
             Some (JArr xs) \<Rightarrow> join_with '', '' (map array_item_text xs)
           | message \<Rightarrow>
               (case message of
                  Some (JStr (c # cs)) \<Rightarrow> c # cs
                | _ \<Rightarrow>
                    (case j_get body ''error'' of
                       Some (JStr (c # cs)) \<Rightarrow> c # cs
                     | _ \<Rightarrow> status_fallback response))))"

definition fetchApi ::
    "(string \<Rightarrow> string \<Rightarrow> string) \<Rightarrow> string option \<times> string option \<Rightarrow> (sent_request \<Rightarrow> string + http_response) \<Rightarrow>
     client_request \<Rightarrow> dashboard_error + json option" where
  "fetchApi resolveUrl urls send q =
     (case buildUrl resolveUrl urls (wq_pathname q) (wq_params q) of
        Inl e \<Rightarrow> Inl e
      | Inr url \<Rightarrow>
     (case send \<lparr>we_url = url, we_method = wq_method q, we_headers = client_headers q,
                 we_body = map_option json_stringify (wq_body q)\<rparr> of
        Inl reason \<Rightarrow> Inl (OtherError reason)
      | Inr response \<Rightarrow>
          (if wh_status response = 401
           then Inl (if wq_adminToken q \<noteq> [] then dashboardAdminAuthError else dashboardAuthError)
           else if \<not> (200 \<le> wh_status response \<and> wh_status response \<le> 299)
           then Inl (DashboardApiError (extractErrorMessage response) (wh_status response))
           else (case wh_json response of
                   None \<Rightarrow> Inl (OtherError ''Unexpected end of JSON input'')
                 | Some JNull \<Rightarrow> Inl (OtherError ''Cannot read properties of null'')
                 | Some payload \<Rightarrow> Inr (j_get payload ''data'')))))"

section \<open>What the pages show\<close>

definition credentialScopeOptions :: "string list" where
  "credentialScopeOptions =
     [''partners:read'', ''partners:write'', ''attestations:read'', ''attestations:write'',
      ''recipients:read'', ''recipients:write'', ''destinations:read'', ''destinations:write'',
      ''resolution:read'', ''resolution:batch'', ''webhooks:read'', ''webhooks:write'',
      ''webhooks:replay'', ''team:read'', ''team:write'', ''security:read'', ''security:write'',
      ''audit:read'', ''audit:export'']"

definition canAccessScope :: "string list \<Rightarrow> string list \<Rightarrow> bool" where
  "canAccessScope sessionScopes requiredScopes = list_all (\<lambda>scope. List.member sessionScopes scope) requiredScopes"

definition dashboard_partnerOnboardingStageOrder :: "PartnerOnboardingStage list" where
  "dashboard_partnerOnboardingStageOrder =
     [PartnerOnboardingStage_ACCOUNT_CREATED, PartnerOnboardingStage_API_ACCESS_READY,
      PartnerOnboardingStage_TRUST_SETUP_READY, PartnerOnboardingStage_DATA_MAPPING_IN_PROGRESS,
      PartnerOnboardingStage_BOOTSTRAP_IMPORT_COMPLETED, PartnerOnboardingStage_LIVE_FEED_CONNECTED,
      PartnerOnboardingStage_PRODUCTION_APPROVED]"

definition isDataContributorEnabled :: "PartnerCapabilityProfile \<Rightarrow> bool" where
  "isDataContributorEnabled capabilities \<longleftrightarrow>
     cap_dataPartnerEnabled capabilities \<or> cap_fullAttestationPartnerEnabled capabilities"

definition hasReachedOnboardingStage :: "PartnerOnboardingStage \<Rightarrow> PartnerOnboardingStage \<Rightarrow> bool" where
  "hasReachedOnboardingStage currentStage requiredStage \<longleftrightarrow>
     index_of currentStage dashboard_partnerOnboardingStageOrder \<ge> index_of requiredStage dashboard_partnerOnboardingStageOrder"

datatype DashboardModule =
    Module_overview | Module_plan_usage | Module_data_feed | Module_resolution | Module_batch_verification
  | Module_registry | Module_webhooks | Module_api_keys | Module_signing_keys | Module_team | Module_security
  | Module_audit | Module_audit_exports | Module_docs | Module_sandbox

definition profile_scopes :: "PartnerProfile \<Rightarrow> string list" where
  "profile_scopes profile = snd (snd (pf_authenticatedActor profile))"

definition resolution_access :: "PartnerProfile \<Rightarrow> bool" where
  "resolution_access profile \<longleftrightarrow>
     cap_apiConsumerEnabled (pf_capabilities profile) \<or> isDataContributorEnabled (pf_capabilities profile)"

fun canAccessModule :: "PartnerProfile \<Rightarrow> DashboardModule \<Rightarrow> bool" where
  "canAccessModule profile Module_overview = True"
| "canAccessModule profile Module_plan_usage = True"
| "canAccessModule profile Module_docs = True"
| "canAccessModule profile Module_data_feed = isDataContributorEnabled (pf_capabilities profile)"
| "canAccessModule profile Module_resolution = resolution_access profile"
| "canAccessModule profile Module_batch_verification =
     (resolution_access profile \<and> cap_batchVerificationEnabled (pf_capabilities profile) \<and>
      ent_bulkVerificationEnabled (pp_entitlements (bs_plan (pf_billing profile))))"
| "canAccessModule profile Module_registry = isDataContributorEnabled (pf_capabilities profile)"
| "canAccessModule profile Module_webhooks = cap_webhooksEnabled (pf_capabilities profile)"
| "canAccessModule profile Module_api_keys =
     (cap_apiConsumerEnabled (pf_capabilities profile) \<or> isDataContributorEnabled (pf_capabilities profile))"
| "canAccessModule profile Module_signing_keys = isDataContributorEnabled (pf_capabilities profile)"
| "canAccessModule profile Module_team = canAccessScope (profile_scopes profile) [''team:read'']"
| "canAccessModule profile Module_security = canAccessScope (profile_scopes profile) [''security:read'']"
| "canAccessModule profile Module_audit = canAccessScope (profile_scopes profile) [''audit:read'']"
| "canAccessModule profile Module_audit_exports =
     (cap_auditExportsEnabled (pf_capabilities profile) \<and> canAccessScope (profile_scopes profile) [''audit:export''])"
| "canAccessModule profile Module_sandbox = cap_sandboxEnabled (pf_capabilities profile)"

definition canRunOperationalResolution :: "PartnerProfile \<Rightarrow> bool" where
  "canRunOperationalResolution profile \<longleftrightarrow>
     canAccessModule profile Module_resolution \<and>
     (cap_sandboxEnabled (pf_capabilities profile) \<or> cap_productionEnabled (pf_capabilities profile))"

definition dashboard_describeOnboardingAction :: "string option \<Rightarrow> string" where
  "dashboard_describeOnboardingAction action =
     (if action = Some ''create_api_key'' then ''Create an API key''
      else if action = Some ''register_signing_key'' then ''Register a signing key''
      else if action = Some ''configure_webhook'' then ''Configure a webhook''
      else if action = Some ''run_sandbox_request'' then ''Run a sandbox request''
      else if action = Some ''map_recipient_data'' then ''Map recipient data''
      else if action = Some ''ingest_attestation_data'' then ''Ingest attestation data''
      else if action = Some ''request_production_approval'' then ''Request production approval''
      else if action = Some ''await_production_review'' then ''Await production review''
      else ''Review workspace readiness'')"

definition dashboard_describeProductionApprovalBlockedReason :: "string option \<Rightarrow> string" where
  "dashboard_describeProductionApprovalBlockedReason blockedReason =
     (if blockedReason = Some ''dashboard_user_required''
      then ''A dashboard user session is required to request production approval.''
      else if blockedReason = Some ''insufficient_role''
      then ''Only owners and admins can request or cancel production approval.''
      else if blockedReason = Some ''already_production_enabled'' then ''This organization is already production approved.''
      else if blockedReason = Some ''pending_review'' then ''A production approval request is already pending review.''
      else if blockedReason = Some ''feed_health_not_ready''
      then ''Feed health must be healthy before production approval can be requested.''
      else if blockedReason = Some ''onboarding_incomplete''
      then ''Complete the remaining onboarding steps before requesting production approval.''
      else ''Review readiness requirements before requesting production approval.'')"

definition canManageProductionApproval :: "string option \<Rightarrow> bool" where
  "canManageProductionApproval userRole \<longleftrightarrow> userRole = Some ''OWNER'' \<or> userRole = Some ''ADMIN''"

definition shouldSurfaceOnboardingSetup :: "PartnerProfile \<Rightarrow> bool" where
  "shouldSurfaceOnboardingSetup profile \<longleftrightarrow>
     ob_nextRecommendedAction (pf_onboarding profile) \<noteq> None \<or>
     rd_environment (pf_readiness profile) \<noteq> ''PRODUCTION_APPROVED''"

fun roleDefaultScopes :: "PartnerUserRole \<Rightarrow> string list" where
  "roleDefaultScopes PartnerUserRole_DEVELOPER =
     [''partners:read'', ''attestations:read'', ''recipients:read'', ''destinations:read'',
      ''resolution:read'', ''resolution:batch'', ''webhooks:read'', ''webhooks:write'',
      ''webhooks:replay'', ''audit:read'']"
| "roleDefaultScopes PartnerUserRole_ANALYST =
     [''partners:read'', ''attestations:read'', ''recipients:read'', ''destinations:read'',
      ''resolution:read'', ''webhooks:read'', ''audit:read'']"
| "roleDefaultScopes PartnerUserRole_READ_ONLY =
     [''partners:read'', ''attestations:read'', ''recipients:read'', ''destinations:read'',
      ''resolution:read'', ''webhooks:read'', ''audit:read'']"
| "roleDefaultScopes PartnerUserRole_ADMIN =
     [''partners:read'', ''partners:write'', ''attestations:read'', ''attestations:write'',
      ''recipients:read'', ''recipients:write'', ''destinations:read'', ''destinations:write'',
      ''resolution:read'', ''resolution:batch'', ''webhooks:read'', ''webhooks:write'',
      ''webhooks:replay'', ''team:read'', ''team:write'', ''security:read'', ''audit:read'',
      ''audit:export'']"
| "roleDefaultScopes PartnerUserRole_OWNER = credentialScopeOptions"

section \<open>Calls\<close>

definition createRequestIdempotencyKey :: "(string \<Rightarrow> string) \<Rightarrow> string \<Rightarrow> json \<Rightarrow> string" where
  "createRequestIdempotencyKey sha256 prefix v = prefix @ ''_'' @ take 24 (sha256 (json_stringify v))"

definition defaultListLimit :: int where
  "defaultListLimit = 20"

definition client_loginDashboardUser :: "json \<Rightarrow> client_request" where
  "client_loginDashboardUser input =
     (client_get ''/v1/dashboard-auth/login'')\<lparr>wq_method := POST,
        wq_body := Some input\<rparr>"

definition client_acceptPartnerInvite :: "string \<Rightarrow> string \<Rightarrow> string \<Rightarrow> client_request" where
  "client_acceptPartnerInvite inviteToken fullName password =
     (client_get (''/v1/dashboard-auth/invitations/'' @ inviteToken @ ''/accept''))\<lparr>wq_method := POST,
        wq_body := Some (JObj [(''fullName'', JStr fullName), (''password'', JStr password)])\<rparr>"

definition client_logoutDashboardSession :: "string \<Rightarrow> client_request" where
  "client_logoutDashboardSession accessToken =
     (client_get ''/v1/dashboard-auth/logout'')\<lparr>wq_method := POST,
        wq_accessToken := accessToken\<rparr>"

definition client_verifyAdminSetupToken :: "string \<Rightarrow> client_request" where
  "client_verifyAdminSetupToken adminToken =
     (client_get ''/v1/partners/setup/status'')\<lparr>wq_adminToken := adminToken\<rparr>"

definition client_createPartner :: "string \<Rightarrow> json \<Rightarrow> client_request" where
  "client_createPartner adminToken input =
     (client_get ''/v1/partners'')\<lparr>wq_method := POST,
        wq_adminToken := adminToken,
        wq_body := Some input\<rparr>"

definition client_createOwnerUser :: "string \<Rightarrow> ((string \<times> json) list) \<Rightarrow> client_request" where
  "client_createOwnerUser adminToken input =
     (client_get ''/v1/partners/users'')\<lparr>wq_method := POST,
        wq_adminToken := adminToken,
        wq_body := Some (JObj (filter (\<lambda>(k, v). k \<noteq> ''role'') input @ [(''role'', JStr ''OWNER'')]))\<rparr>"

definition client_registerInitialSigningKey :: "string \<Rightarrow> json \<Rightarrow> client_request" where
  "client_registerInitialSigningKey adminToken input =
     (client_get ''/v1/partners/signing-keys'')\<lparr>wq_method := POST,
        wq_adminToken := adminToken,
        wq_body := Some input\<rparr>"

definition client_fetchAdminPartners :: "string \<Rightarrow> client_request" where
  "client_fetchAdminPartners adminToken =
     (client_get ''/v1/partners'')\<lparr>wq_adminToken := adminToken\<rparr>"

definition client_fetchAdminAvailableProductionCorridors :: "string \<Rightarrow> client_request" where
  "client_fetchAdminAvailableProductionCorridors adminToken =
     (client_get ''/v1/partners/corridors'')\<lparr>wq_adminToken := adminToken\<rparr>"

definition client_fetchAdminSetupMetadata :: "string \<Rightarrow> client_request" where
  "client_fetchAdminSetupMetadata adminToken =
     (client_get ''/v1/partners/setup/metadata'')\<lparr>wq_adminToken := adminToken\<rparr>"

definition client_fetchAdminProductionApprovalRequests :: "string \<Rightarrow> query \<Rightarrow> client_request" where
  "client_fetchAdminProductionApprovalRequests adminToken params =
     (client_get ''/v1/partners/production-approval-requests'')\<lparr>wq_adminToken := adminToken,
        wq_params :=
        [(''status'', map_of params ''status'')]\<rparr>"

definition client_reviewAdminProductionApprovalRequest :: "string \<Rightarrow> string \<Rightarrow> json \<Rightarrow> client_request" where
  "client_reviewAdminProductionApprovalRequest adminToken requestId input =
     (client_get (''/v1/partners/production-approval-requests/'' @ requestId @ ''/review''))\<lparr>wq_method := POST,
        wq_adminToken := adminToken,
        wq_body := Some input\<rparr>"

definition client_updateAdminPartnerState :: "string \<Rightarrow> string \<Rightarrow> json \<Rightarrow> client_request" where
  "client_updateAdminPartnerState adminToken partnerId input =
     (client_get (''/v1/partners/'' @ partnerId @ ''/admin-state''))\<lparr>wq_method := PATCH,
        wq_adminToken := adminToken,
        wq_body := Some input\<rparr>"

definition client_updateAdminPartnerProductionCorridor :: "string \<Rightarrow> string \<Rightarrow> json \<Rightarrow> client_request" where
  "client_updateAdminPartnerProductionCorridor adminToken partnerId input =
     (client_get (''/v1/partners/'' @ partnerId @ ''/production-corridors''))\<lparr>wq_method := POST,
        wq_adminToken := adminToken,
        wq_body := Some input\<rparr>"

definition client_fetchPartnerProfile :: "string \<Rightarrow> client_request" where
  "client_fetchPartnerProfile accessToken =
     (client_get ''/v1/partners/me'')\<lparr>wq_accessToken := accessToken\<rparr>"

definition client_fetchPartnerPlanUsage :: "string \<Rightarrow> client_request" where
  "client_fetchPartnerPlanUsage accessToken =
     (client_get ''/v1/partners/me/plan-usage'')\<lparr>wq_accessToken := accessToken\<rparr>"

definition client_fetchPartnerDashboardMetadata :: "string \<Rightarrow> client_request" where
  "client_fetchPartnerDashboardMetadata accessToken =
     (client_get ''/v1/partners/me/dashboard-metadata'')\<lparr>wq_accessToken := accessToken\<rparr>"

definition client_fetchPartnerProductionCorridors :: "string \<Rightarrow> client_request" where
  "client_fetchPartnerProductionCorridors accessToken =
     (client_get ''/v1/partners/me/production-corridors'')\<lparr>wq_accessToken := accessToken\<rparr>"

definition client_fetchAvailableProductionCorridors :: "string \<Rightarrow> client_request" where
  "client_fetchAvailableProductionCorridors accessToken =
     (client_get ''/v1/partners/me/available-production-corridors'')\<lparr>wq_accessToken := accessToken\<rparr>"

definition client_fetchSupportedPlatforms :: "string \<Rightarrow> query \<Rightarrow> client_request" where
  "client_fetchSupportedPlatforms accessToken params =
     (client_get ''/v1/platforms'')\<lparr>wq_accessToken := accessToken,
        wq_params :=
        [(''address'', map_of params ''address''),
         (''asset'', map_of params ''asset''),
         (''chain'', map_of params ''chain''),
         (''lookupMode'', map_of params ''lookupMode'')]\<rparr>"

definition client_fetchOverview :: "string \<Rightarrow> client_request" where
  "client_fetchOverview accessToken =
     (client_get ''/v1/overview'')\<lparr>wq_accessToken := accessToken\<rparr>"

definition client_fetchDataFeedHealth :: "string \<Rightarrow> client_request" where
  "client_fetchDataFeedHealth accessToken =
     (client_get ''/v1/data-feed-health'')\<lparr>wq_accessToken := accessToken\<rparr>"

definition client_fetchPartnerApiCredentials :: "string \<Rightarrow> client_request" where
  "client_fetchPartnerApiCredentials accessToken =
     (client_get ''/v1/partners/me/api-credentials'')\<lparr>wq_accessToken := accessToken\<rparr>"

definition client_issuePartnerApiCredential :: "string \<Rightarrow> json \<Rightarrow> client_request" where
  "client_issuePartnerApiCredential accessToken input =
     (client_get ''/v1/partners/me/api-credentials'')\<lparr>wq_method := POST,
        wq_accessToken := accessToken,
        wq_body := Some input\<rparr>"

definition client_revokePartnerApiCredential :: "string \<Rightarrow> string \<Rightarrow> client_request" where
  "client_revokePartnerApiCredential accessToken credentialId =
     (client_get (''/v1/partners/me/api-credentials/'' @ credentialId @ ''/revoke''))\<lparr>wq_method := POST,
        wq_accessToken := accessToken\<rparr>"

definition client_fetchPartnerSigningKeys :: "string \<Rightarrow> client_request" where
  "client_fetchPartnerSigningKeys accessToken =
     (client_get ''/v1/partners/me/signing-keys'')\<lparr>wq_accessToken := accessToken\<rparr>"

definition client_registerPartnerSigningKey :: "string \<Rightarrow> json \<Rightarrow> client_request" where
  "client_registerPartnerSigningKey accessToken input =
     (client_get ''/v1/partners/me/signing-keys'')\<lparr>wq_method := POST,
        wq_accessToken := accessToken,
        wq_body := Some input\<rparr>"

definition client_revokePartnerSigningKey :: "string \<Rightarrow> string \<Rightarrow> client_request" where
  "client_revokePartnerSigningKey accessToken signingKeyId =
     (client_get (''/v1/partners/me/signing-keys/'' @ signingKeyId @ ''/revoke''))\<lparr>wq_method := POST,
        wq_accessToken := accessToken\<rparr>"

definition client_fetchPartnerUsers :: "string \<Rightarrow> client_request" where
  "client_fetchPartnerUsers accessToken =
     (client_get ''/v1/partners/me/users'')\<lparr>wq_accessToken := accessToken\<rparr>"

definition client_invitePartnerUser :: "string \<Rightarrow> json \<Rightarrow> client_request" where
  "client_invitePartnerUser accessToken input =
     (client_get ''/v1/partners/me/users/invites'')\<lparr>wq_method := POST,
        wq_accessToken := accessToken,
        wq_body := Some input\<rparr>"

definition client_updatePartnerUser :: "string \<Rightarrow> string \<Rightarrow> json \<Rightarrow> client_request" where
  "client_updatePartnerUser accessToken userId input =
     (client_get (''/v1/partners/me/users/'' @ userId))\<lparr>wq_method := PATCH,
        wq_accessToken := accessToken,
        wq_body := Some input\<rparr>"

definition client_deactivatePartnerUser :: "string \<Rightarrow> string \<Rightarrow> client_request" where
  "client_deactivatePartnerUser accessToken userId =
     (client_get (''/v1/partners/me/users/'' @ userId @ ''/deactivate''))\<lparr>wq_method := POST,
        wq_accessToken := accessToken\<rparr>"

definition client_fetchPartnerSecuritySettings :: "string \<Rightarrow> client_request" where
  "client_fetchPartnerSecuritySettings accessToken =
     (client_get ''/v1/partners/me/security-settings'')\<lparr>wq_accessToken := accessToken\<rparr>"

definition client_updatePartnerSecuritySettings :: "string \<Rightarrow> json \<Rightarrow> client_request" where
  "client_updatePartnerSecuritySettings accessToken input =
     (client_get ''/v1/partners/me/security-settings'')\<lparr>wq_method := PATCH,
        wq_accessToken := accessToken,
        wq_body := Some input\<rparr>"

definition client_fetchProductionApprovalRequests :: "string \<Rightarrow> client_request" where
  "client_fetchProductionApprovalRequests accessToken =
     (client_get ''/v1/partners/me/production-approval-requests'')\<lparr>wq_accessToken := accessToken\<rparr>"

definition client_requestProductionApproval :: "string \<Rightarrow> json \<Rightarrow> client_request" where
  "client_requestProductionApproval accessToken input =
     (client_get ''/v1/partners/me/production-approval-requests'')\<lparr>wq_method := POST,
        wq_accessToken := accessToken,
        wq_body := Some input\<rparr>"

definition client_cancelProductionApprovalRequest :: "string \<Rightarrow> string \<Rightarrow> client_request" where
  "client_cancelProductionApprovalRequest accessToken requestId =
     (client_get (''/v1/partners/me/production-approval-requests/'' @ requestId @ ''/cancel''))\<lparr>wq_method := POST,
        wq_accessToken := accessToken\<rparr>"

definition client_resolveRecipient :: "(string \<Rightarrow> string) \<Rightarrow> string \<Rightarrow> json \<Rightarrow> client_request" where
  "client_resolveRecipient sha256 accessToken input =
     (client_get ''/v1/resolution/by-recipient'')\<lparr>wq_method := POST,
        wq_accessToken := accessToken,
        wq_body := Some input,
        wq_extraHeaders := [(''idempotency-key'', createRequestIdempotencyKey sha256 ''by-recipient'' input)]\<rparr>"

definition client_confirmRecipientByAddress :: "(string \<Rightarrow> string) \<Rightarrow> string \<Rightarrow> json \<Rightarrow> client_request" where
  "client_confirmRecipientByAddress sha256 accessToken input =
     (client_get ''/v1/resolution/by-address'')\<lparr>wq_method := POST,
        wq_accessToken := accessToken,
        wq_body := Some input,
        wq_extraHeaders := [(''idempotency-key'', createRequestIdempotencyKey sha256 ''by-address'' input)]\<rparr>"

definition client_verifyDestination :: "(string \<Rightarrow> string) \<Rightarrow> string \<Rightarrow> json \<Rightarrow> client_request" where
  "client_verifyDestination sha256 accessToken input =
     (client_get ''/v1/resolution/verify-transfer'')\<lparr>wq_method := POST,
        wq_accessToken := accessToken,
        wq_body := Some input,
        wq_extraHeaders := [(''idempotency-key'', createRequestIdempotencyKey sha256 ''verify-transfer'' input)]\<rparr>"

definition client_batchVerifyDestinations :: "string \<Rightarrow> json \<Rightarrow> client_request" where
  "client_batchVerifyDestinations accessToken input =
     (client_get ''/v1/resolution/batch'')\<lparr>wq_method := POST,
        wq_accessToken := accessToken,
        wq_body := Some input\<rparr>"

definition client_fetchResolutionLogs :: "string \<Rightarrow> query \<Rightarrow> client_request" where
  "client_fetchResolutionLogs accessToken params =
     (client_get ''/v1/resolution/logs'')\<lparr>wq_accessToken := accessToken,
        wq_params :=
        [(''limit'', Some (or_else (map_of params ''limit'') (QNum defaultListLimit))),
         (''queryType'', map_of params ''queryType''),
         (''outcome'', map_of params ''outcome''),
         (''riskLevel'', map_of params ''riskLevel''),
         (''platform'', map_of params ''platform''),
         (''chain'', map_of params ''chain''),
         (''asset'', map_of params ''asset''),
         (''recipientIdentifier'', map_of params ''recipientIdentifier'')]\<rparr>"

definition client_fetchResolutionLog :: "string \<Rightarrow> string \<Rightarrow> client_request" where
  "client_fetchResolutionLog accessToken requestId =
     (client_get (''/v1/resolution/logs/'' @ requestId))\<lparr>wq_accessToken := accessToken\<rparr>"

definition client_fetchRecipients :: "string \<Rightarrow> query \<Rightarrow> client_request" where
  "client_fetchRecipients accessToken params =
     (client_get ''/v1/recipients'')\<lparr>wq_accessToken := accessToken,
        wq_params :=
        [(''search'', map_of params ''search''),
         (''status'', map_of params ''status''),
         (''limit'', Some (or_else (map_of params ''limit'') (QNum defaultListLimit)))]\<rparr>"

definition client_fetchRecipient :: "string \<Rightarrow> string \<Rightarrow> client_request" where
  "client_fetchRecipient accessToken recipientId =
     (client_get (''/v1/recipients/'' @ recipientId))\<lparr>wq_accessToken := accessToken\<rparr>"

definition client_createRecipient :: "string \<Rightarrow> json \<Rightarrow> client_request" where
  "client_createRecipient accessToken input =
     (client_get ''/v1/recipients'')\<lparr>wq_method := POST,
        wq_accessToken := accessToken,
        wq_body := Some input\<rparr>"

definition client_updateRecipient :: "string \<Rightarrow> string \<Rightarrow> json \<Rightarrow> client_request" where
  "client_updateRecipient accessToken recipientId input =
     (client_get (''/v1/recipients/'' @ recipientId))\<lparr>wq_method := PATCH,
        wq_accessToken := accessToken,
        wq_body := Some input\<rparr>"

definition client_disableRecipient :: "string \<Rightarrow> string \<Rightarrow> client_request" where
  "client_disableRecipient accessToken recipientId =
     (client_get (''/v1/recipients/'' @ recipientId @ ''/disable''))\<lparr>wq_method := POST,
        wq_accessToken := accessToken\<rparr>"

definition client_fetchDestinations :: "string \<Rightarrow> query \<Rightarrow> client_request" where
  "client_fetchDestinations accessToken params =
     (client_get ''/v1/destinations'')\<lparr>wq_accessToken := accessToken,
        wq_params :=
        [(''recipientId'', map_of params ''recipientId''),
         (''chain'', map_of params ''chain''),
         (''asset'', map_of params ''asset''),
         (''status'', map_of params ''status''),
         (''limit'', Some (or_else (map_of params ''limit'') (QNum 50)))]\<rparr>"

definition client_fetchDestination :: "string \<Rightarrow> string \<Rightarrow> client_request" where
  "client_fetchDestination accessToken destinationId =
     (client_get (''/v1/destinations/'' @ destinationId))\<lparr>wq_accessToken := accessToken\<rparr>"

definition client_createDestination :: "string \<Rightarrow> json \<Rightarrow> client_request" where
  "client_createDestination accessToken input =
     (client_get ''/v1/destinations'')\<lparr>wq_method := POST,
        wq_accessToken := accessToken,
        wq_body := Some input\<rparr>"

definition client_revokeDestination :: "string \<Rightarrow> string \<Rightarrow> client_request" where
  "client_revokeDestination accessToken destinationId =
     (client_get (''/v1/destinations/'' @ destinationId @ ''/revoke''))\<lparr>wq_method := POST,
        wq_accessToken := accessToken\<rparr>"

definition client_replaceDestination :: "string \<Rightarrow> string \<Rightarrow> json \<Rightarrow> client_request" where
  "client_replaceDestination accessToken destinationId input =
     (client_get (''/v1/destinations/'' @ destinationId @ ''/replace''))\<lparr>wq_method := POST,
        wq_accessToken := accessToken,
        wq_body := Some input\<rparr>"

definition client_fetchAttestations :: "string \<Rightarrow> query \<Rightarrow> client_request" where
  "client_fetchAttestations accessToken params =
     (client_get ''/v1/attestations'')\<lparr>wq_accessToken := accessToken,
        wq_params :=
        [(''recipientId'', map_of params ''recipientId''),
         (''recipientIdentifier'', map_of params ''recipientIdentifier''),
         (''chain'', map_of params ''chain''),
         (''asset'', map_of params ''asset''),
         (''attestationType'', map_of params ''attestationType''),
         (''verificationStatus'', map_of params ''verificationStatus''),
         (''limit'', Some (or_else (map_of params ''limit'') (QNum defaultListLimit)))]\<rparr>"

definition client_fetchAttestation :: "string \<Rightarrow> string \<Rightarrow> client_request" where
  "client_fetchAttestation accessToken attestationId =
     (client_get (''/v1/attestations/'' @ attestationId))\<lparr>wq_accessToken := accessToken\<rparr>"

definition client_fetchWebhookEndpoints :: "string \<Rightarrow> client_request" where
  "client_fetchWebhookEndpoints accessToken =
     (client_get ''/v1/webhooks'')\<lparr>wq_accessToken := accessToken\<rparr>"

definition client_fetchWebhookEndpoint :: "string \<Rightarrow> string \<Rightarrow> client_request" where
  "client_fetchWebhookEndpoint accessToken endpointId =
     (client_get (''/v1/webhooks/'' @ endpointId))\<lparr>wq_accessToken := accessToken\<rparr>"

definition client_createWebhookEndpoint :: "string \<Rightarrow> json \<Rightarrow> client_request" where
  "client_createWebhookEndpoint accessToken input =
     (client_get ''/v1/webhooks'')\<lparr>wq_method := POST,
        wq_accessToken := accessToken,
        wq_body := Some input\<rparr>"

definition client_updateWebhookEndpoint :: "string \<Rightarrow> string \<Rightarrow> json \<Rightarrow> client_request" where
  "client_updateWebhookEndpoint accessToken endpointId input =
     (client_get (''/v1/webhooks/'' @ endpointId))\<lparr>wq_method := PATCH,
        wq_accessToken := accessToken,
        wq_body := Some input\<rparr>"

definition client_rotateWebhookSigningSecret :: "string \<Rightarrow> string \<Rightarrow> client_request" where
  "client_rotateWebhookSigningSecret accessToken endpointId =
     (client_get (''/v1/webhooks/'' @ endpointId @ ''/rotate-secret''))\<lparr>wq_method := POST,
        wq_accessToken := accessToken\<rparr>"

definition client_disableWebhookEndpoint :: "string \<Rightarrow> string \<Rightarrow> client_request" where
  "client_disableWebhookEndpoint accessToken endpointId =
     (client_get (''/v1/webhooks/'' @ endpointId))\<lparr>wq_method := DELETE,
        wq_accessToken := accessToken\<rparr>"

definition client_testWebhookEndpoint :: "string \<Rightarrow> string \<Rightarrow> client_request" where
  "client_testWebhookEndpoint accessToken endpointId =
     (client_get (''/v1/webhooks/'' @ endpointId @ ''/test''))\<lparr>wq_method := POST,
        wq_accessToken := accessToken\<rparr>"

definition client_fetchWebhookDeliveries :: "string \<Rightarrow> query \<Rightarrow> client_request" where
  "client_fetchWebhookDeliveries accessToken params =
     (client_get ''/v1/webhooks/deliveries'')\<lparr>wq_accessToken := accessToken,
        wq_params :=
        [(''endpointId'', map_of params ''endpointId''),
         (''eventType'', map_of params ''eventType''),
         (''status'', map_of params ''status''),
         (''limit'', Some (or_else (map_of params ''limit'') (QNum 50)))]\<rparr>"

definition client_fetchWebhookDelivery :: "string \<Rightarrow> string \<Rightarrow> client_request" where
  "client_fetchWebhookDelivery accessToken deliveryId =
     (client_get (''/v1/webhooks/deliveries/'' @ deliveryId))\<lparr>wq_accessToken := accessToken\<rparr>"

definition client_replayWebhookDelivery :: "string \<Rightarrow> string \<Rightarrow> client_request" where
  "client_replayWebhookDelivery accessToken deliveryId =
     (client_get (''/v1/webhooks/deliveries/'' @ deliveryId @ ''/replay''))\<lparr>wq_method := POST,
        wq_accessToken := accessToken\<rparr>"

definition client_fetchAuditLogs :: "string \<Rightarrow> query \<Rightarrow> client_request" where
  "client_fetchAuditLogs accessToken params =
     (client_get ''/v1/audit-logs'')\<lparr>wq_accessToken := accessToken,
        wq_params :=
        [(''actorType'', map_of params ''actorType''),
         (''action'', map_of params ''action''),
         (''entityType'', map_of params ''entityType''),
         (''entityId'', map_of params ''entityId''),
         (''limit'', Some (or_else (map_of params ''limit'') (QNum 50)))]\<rparr>"

definition client_fetchAuditLog :: "string \<Rightarrow> string \<Rightarrow> client_request" where
  "client_fetchAuditLog accessToken eventId =
     (client_get (''/v1/audit-logs/'' @ eventId))\<lparr>wq_accessToken := accessToken\<rparr>"

definition client_fetchAuditExports :: "string \<Rightarrow> client_request" where
  "client_fetchAuditExports accessToken =
     (client_get ''/v1/audit-exports'')\<lparr>wq_accessToken := accessToken\<rparr>"

definition client_createAuditExport :: "string \<Rightarrow> json \<Rightarrow> client_request" where
  "client_createAuditExport accessToken input =
     (client_get ''/v1/audit-exports'')\<lparr>wq_method := POST,
        wq_accessToken := accessToken,
        wq_body := Some input\<rparr>"

definition client_fetchAuditExport :: "string \<Rightarrow> string \<Rightarrow> client_request" where
  "client_fetchAuditExport accessToken exportId =
     (client_get (''/v1/audit-exports/'' @ exportId))\<lparr>wq_accessToken := accessToken\<rparr>"

end
