(* ===== verification/Client_Facts.thy ===== *)
theory Client_Facts
  imports Route_Facts Dashboard_Client
begin

text \<open>
  The dashboard's client against the routes of the backend: every call is dispatched to the handler it is meant for,
  and carries the token the guard of that handler reads and no other.
\<close>

section \<open>The calls and the handlers they are meant for\<close>

definition auth_calls ::
    "string \<Rightarrow> string \<Rightarrow> string \<Rightarrow> json \<Rightarrow> ((string \<times> json) list) \<Rightarrow> query \<Rightarrow> string \<Rightarrow> string \<Rightarrow> (client_request \<times> route) list" where
  "auth_calls accessToken adminToken i input ownerInput params fullName password =
     [(client_loginDashboardUser input, route_PartnerDashboardAuth_login),
      (client_acceptPartnerInvite i fullName password, route_PartnerDashboardAuth_acceptInvite),
      (client_logoutDashboardSession accessToken, route_PartnerDashboardAuth_logout),
      (client_verifyAdminSetupToken adminToken, route_Partners_getSetupStatus),
      (client_createPartner adminToken input, route_Partners_createPartner),
      (client_createOwnerUser adminToken ownerInput, route_Partners_createPartnerUser),
      (client_registerInitialSigningKey adminToken input, route_Partners_registerSigningKey),
      (client_fetchAdminPartners adminToken, route_Partners_listPartners),
      (client_fetchAdminAvailableProductionCorridors adminToken, route_Partners_listAvailableProductionCorridors),
      (client_fetchAdminSetupMetadata adminToken, route_Partners_getSetupMetadata),
      (client_fetchAdminProductionApprovalRequests adminToken params, route_Partners_listProductionApprovalRequests),
      (client_reviewAdminProductionApprovalRequest adminToken i input, route_Partners_reviewProductionApprovalRequest),
      (client_updateAdminPartnerState adminToken i input, route_Partners_updatePartnerAdminState),
      (client_updateAdminPartnerProductionCorridor adminToken i input, route_Partners_updatePartnerProductionCorridor)]"

definition account_calls ::
    "string \<Rightarrow> string \<Rightarrow> json \<Rightarrow> (client_request \<times> route) list" where
  "account_calls accessToken i input =
     [(client_fetchPartnerProfile accessToken, route_PartnerAccount_getPartnerProfile),
      (client_fetchPartnerPlanUsage accessToken, route_PartnerAccount_getPartnerPlanUsage),
      (client_fetchPartnerDashboardMetadata accessToken, route_PartnerAccount_getDashboardMetadata),
      (client_fetchPartnerProductionCorridors accessToken, route_PartnerAccount_listProductionCorridors),
      (client_fetchAvailableProductionCorridors accessToken, route_PartnerAccount_listAvailableProductionCorridors),
      (client_fetchPartnerApiCredentials accessToken, route_PartnerAccount_listApiCredentials),
      (client_issuePartnerApiCredential accessToken input, route_PartnerAccount_createApiCredential),
      (client_revokePartnerApiCredential accessToken i, route_PartnerAccount_revokeApiCredential),
      (client_fetchPartnerSigningKeys accessToken, route_PartnerAccount_listSigningKeys),
      (client_registerPartnerSigningKey accessToken input, route_PartnerAccount_registerSigningKey),
      (client_revokePartnerSigningKey accessToken i, route_PartnerAccount_revokeSigningKey),
      (client_fetchPartnerUsers accessToken, route_PartnerAccount_listPartnerUsers),
      (client_invitePartnerUser accessToken input, route_PartnerAccount_invitePartnerUser),
      (client_updatePartnerUser accessToken i input, route_PartnerAccount_updatePartnerUser),
      (client_deactivatePartnerUser accessToken i, route_PartnerAccount_deactivatePartnerUser),
      (client_fetchPartnerSecuritySettings accessToken, route_PartnerAccount_getSecuritySettings),
      (client_updatePartnerSecuritySettings accessToken input, route_PartnerAccount_updateSecuritySettings),
      (client_fetchProductionApprovalRequests accessToken, route_PartnerAccount_listProductionApprovalRequests),
      (client_requestProductionApproval accessToken input, route_PartnerAccount_requestProductionApproval),
      (client_cancelProductionApprovalRequest accessToken i, route_PartnerAccount_cancelProductionApprovalRequest)]"

definition registry_calls ::
    "string \<Rightarrow> string \<Rightarrow> json \<Rightarrow> query \<Rightarrow> (client_request \<times> route) list" where
  "registry_calls accessToken i input params =
     [(client_fetchSupportedPlatforms accessToken params, route_Platforms_listPlatforms),
      (client_fetchOverview accessToken, route_Overview_getOverview),
      (client_fetchDataFeedHealth accessToken, route_DataFeedHealth_getDataFeedHealth),
      (client_fetchRecipients accessToken params, route_Recipients_listRecipients),
      (client_fetchRecipient accessToken i, route_Recipients_getRecipient),
      (client_createRecipient accessToken input, route_Recipients_createRecipient),
      (client_updateRecipient accessToken i input, route_Recipients_updateRecipient),
      (client_disableRecipient accessToken i, route_Recipients_disableRecipient),
      (client_fetchDestinations accessToken params, route_Destinations_listDestinations),
      (client_fetchDestination accessToken i, route_Destinations_getDestination),
      (client_createDestination accessToken input, route_Destinations_createDestination),
      (client_revokeDestination accessToken i, route_Destinations_revokeDestination),
      (client_replaceDestination accessToken i input, route_Destinations_replaceDestination),
      (client_fetchAttestations accessToken params, route_Attestations_listAttestations),
      (client_fetchAttestation accessToken i, route_Attestations_getAttestation)]"

definition operation_calls ::
    "string \<Rightarrow> string \<Rightarrow> (string \<Rightarrow> string) \<Rightarrow> json \<Rightarrow> query \<Rightarrow> (client_request \<times> route) list" where
  "operation_calls accessToken i sha256 input params =
     [(client_resolveRecipient sha256 accessToken input, route_Resolution_resolveRecipientByRoute),
      (client_confirmRecipientByAddress sha256 accessToken input, route_Resolution_confirmRecipientByAddress),
      (client_verifyDestination sha256 accessToken input, route_Resolution_verifyTransfer),
      (client_batchVerifyDestinations accessToken input, route_Resolution_batchVerify),
      (client_fetchResolutionLogs accessToken params, route_Resolution_listResolutionLogs),
      (client_fetchResolutionLog accessToken i, route_Resolution_getResolutionLog),
      (client_fetchWebhookEndpoints accessToken, route_Webhooks_listWebhookEndpoints),
      (client_fetchWebhookEndpoint accessToken i, route_Webhooks_getWebhookEndpoint),
      (client_createWebhookEndpoint accessToken input, route_Webhooks_createWebhookEndpoint),
      (client_updateWebhookEndpoint accessToken i input, route_Webhooks_updateWebhookEndpoint),
      (client_rotateWebhookSigningSecret accessToken i, route_Webhooks_rotateWebhookSigningSecret),
      (client_disableWebhookEndpoint accessToken i, route_Webhooks_disableWebhookEndpoint),
      (client_testWebhookEndpoint accessToken i, route_Webhooks_testWebhookEndpoint),
      (client_fetchWebhookDeliveries accessToken params, route_Webhooks_listWebhookDeliveries),
      (client_fetchWebhookDelivery accessToken i, route_Webhooks_getWebhookDelivery),
      (client_replayWebhookDelivery accessToken i, route_Webhooks_replayWebhookDelivery),
      (client_fetchAuditLogs accessToken params, route_Audit_listAuditLogs),
      (client_fetchAuditLog accessToken i, route_Audit_getAuditLog),
      (client_fetchAuditExports accessToken, route_AuditExports_listAuditExports),
      (client_createAuditExport accessToken input, route_AuditExports_createAuditExport),
      (client_fetchAuditExport accessToken i, route_AuditExports_getAuditExport)]"

text \<open>A call reaches a route when its path is dispatched to it and it carries the token the route's guard reads, and no other.\<close>

definition carries_token :: "client_request \<Rightarrow> route_guard \<Rightarrow> bool" where
  "carries_token q g \<longleftrightarrow>
     (case g of
        No_guard \<Rightarrow> wq_accessToken q = [] \<and> wq_adminToken q = []
      | Admin_guard \<Rightarrow> wq_accessToken q = [] \<and> wq_adminToken q \<noteq> []
      | Partner_guard scopes policies \<Rightarrow> wq_accessToken q \<noteq> [] \<and> wq_adminToken q = [])"

definition reaches :: "path_matcher \<Rightarrow> string \<Rightarrow> client_request \<times> route \<Rightarrow> bool" where
  "reaches matches i = (\<lambda>(q, r).
     carries_token q (rt_guard r) \<and>
     (\<exists>args. set args \<subseteq> {i} \<and>
        dispatch matches served_routes (wq_method q) (wq_pathname q) = Some (with_prefix r, args)))"

lemma reaches_plain:
  assumes "router_contract matches" "r \<in> set routes" "path_params (rt_path r) = 0"
    and "wq_method q = rt_method r" "wq_pathname q = path_text (globalPrefix # fill_path (rt_path r) [])"
    and "carries_token q (rt_guard r)"
  shows "reaches matches i (q, r)"
  using served_route [OF assms(1,2), of "[]"] assms by (auto simp: reaches_def)

lemma reaches_id:
  assumes "router_contract matches" "path_safe i" "js_lower i \<notin> set reserved" "r \<in> set routes"
    and "path_params (rt_path r) = 1"
    and "wq_method q = rt_method r" "wq_pathname q = path_text (globalPrefix # fill_path (rt_path r) [i])"
    and "carries_token q (rt_guard r)"
  shows "reaches matches i (q, r)"
  using served_route [OF assms(1,4), of "[i]"] assms by (auto simp: reaches_def)

lemmas client_request_defs =
  client_get_def
  client_loginDashboardUser_def client_acceptPartnerInvite_def client_logoutDashboardSession_def
  client_verifyAdminSetupToken_def client_createPartner_def client_createOwnerUser_def
  client_registerInitialSigningKey_def client_fetchAdminPartners_def
  client_fetchAdminAvailableProductionCorridors_def client_fetchAdminSetupMetadata_def
  client_fetchAdminProductionApprovalRequests_def client_reviewAdminProductionApprovalRequest_def
  client_updateAdminPartnerState_def client_updateAdminPartnerProductionCorridor_def
  client_fetchPartnerProfile_def client_fetchPartnerPlanUsage_def client_fetchPartnerDashboardMetadata_def
  client_fetchPartnerProductionCorridors_def client_fetchAvailableProductionCorridors_def
  client_fetchSupportedPlatforms_def client_fetchOverview_def client_fetchDataFeedHealth_def
  client_fetchPartnerApiCredentials_def client_issuePartnerApiCredential_def
  client_revokePartnerApiCredential_def client_fetchPartnerSigningKeys_def
  client_registerPartnerSigningKey_def client_revokePartnerSigningKey_def client_fetchPartnerUsers_def
  client_invitePartnerUser_def client_updatePartnerUser_def client_deactivatePartnerUser_def
  client_fetchPartnerSecuritySettings_def client_updatePartnerSecuritySettings_def
  client_fetchProductionApprovalRequests_def client_requestProductionApproval_def
  client_cancelProductionApprovalRequest_def client_resolveRecipient_def
  client_confirmRecipientByAddress_def client_verifyDestination_def client_batchVerifyDestinations_def
  client_fetchResolutionLogs_def client_fetchResolutionLog_def client_fetchRecipients_def
  client_fetchRecipient_def client_createRecipient_def client_updateRecipient_def
  client_disableRecipient_def client_fetchDestinations_def client_fetchDestination_def
  client_createDestination_def client_revokeDestination_def client_replaceDestination_def
  client_fetchAttestations_def client_fetchAttestation_def client_fetchWebhookEndpoints_def
  client_fetchWebhookEndpoint_def client_createWebhookEndpoint_def client_updateWebhookEndpoint_def
  client_rotateWebhookSigningSecret_def client_disableWebhookEndpoint_def client_testWebhookEndpoint_def
  client_fetchWebhookDeliveries_def client_fetchWebhookDelivery_def client_replayWebhookDelivery_def
  client_fetchAuditLogs_def client_fetchAuditLog_def client_fetchAuditExports_def
  client_createAuditExport_def client_fetchAuditExport_def

lemmas call_defs = carries_token_def globalPrefix_def route_defs

lemma reaches_auth_calls:
  assumes "router_contract matches" "path_safe i" "js_lower i \<notin> set reserved" "accessToken \<noteq> []" "adminToken \<noteq> []"
  shows "list_all (reaches matches i) (auth_calls accessToken adminToken i input ownerInput params fullName password)"
  unfolding auth_calls_def list.pred_inject
  by (intro conjI TrueI;
      (((rule reaches_plain [OF assms(1)], rule in_routes); simp add: client_request_defs call_defs assms; fail) |
       ((rule reaches_id [OF assms(1-3)], rule in_routes); simp add: client_request_defs call_defs assms; fail) |
       (simp; fail)))

lemma reaches_account_calls:
  assumes "router_contract matches" "path_safe i" "js_lower i \<notin> set reserved" "accessToken \<noteq> []" "adminToken \<noteq> []"
  shows "list_all (reaches matches i) (account_calls accessToken i input)"
  unfolding account_calls_def list.pred_inject
  by (intro conjI TrueI;
      (((rule reaches_plain [OF assms(1)], rule in_routes); simp add: client_request_defs call_defs assms; fail) |
       ((rule reaches_id [OF assms(1-3)], rule in_routes); simp add: client_request_defs call_defs assms; fail) |
       (simp; fail)))

lemma reaches_registry_calls:
  assumes "router_contract matches" "path_safe i" "js_lower i \<notin> set reserved" "accessToken \<noteq> []" "adminToken \<noteq> []"
  shows "list_all (reaches matches i) (registry_calls accessToken i input params)"
  unfolding registry_calls_def list.pred_inject
  by (intro conjI TrueI;
      (((rule reaches_plain [OF assms(1)], rule in_routes); simp add: client_request_defs call_defs assms; fail) |
       ((rule reaches_id [OF assms(1-3)], rule in_routes); simp add: client_request_defs call_defs assms; fail) |
       (simp; fail)))

lemma reaches_operation_calls:
  assumes "router_contract matches" "path_safe i" "js_lower i \<notin> set reserved" "accessToken \<noteq> []" "adminToken \<noteq> []"
  shows "list_all (reaches matches i) (operation_calls accessToken i sha256 input params)"
  unfolding operation_calls_def list.pred_inject
  by (intro conjI TrueI;
      (((rule reaches_plain [OF assms(1)], rule in_routes); simp add: client_request_defs call_defs assms; fail) |
       ((rule reaches_id [OF assms(1-3)], rule in_routes); simp add: client_request_defs call_defs assms; fail) |
       (simp; fail)))

definition client_calls ::
    "string \<Rightarrow> string \<Rightarrow> string \<Rightarrow> (string \<Rightarrow> string) \<Rightarrow> json \<Rightarrow> (string \<times> json) list \<Rightarrow> query \<Rightarrow> string \<Rightarrow> string \<Rightarrow>
     (client_request \<times> route) list" where
  "client_calls accessToken adminToken i sha256 input ownerInput params fullName password =
     auth_calls accessToken adminToken i input ownerInput params fullName password @
     account_calls accessToken i input @ registry_calls accessToken i input params @
     operation_calls accessToken i sha256 input params"

section \<open>A matcher\<close>

text \<open>A matcher with the behaviour the contract asks for: it compares the path segment by segment.\<close>

fun fit_args :: "segment list \<Rightarrow> string list \<Rightarrow> string list option" where
  "fit_args [] [] = Some []"
| "fit_args (Lit l # ps) (x # xs) = (if js_lower x = js_lower l then fit_args ps xs else None)"
| "fit_args (Param n # ps) (x # xs) = map_option ((#) x) (fit_args ps xs)"
| "fit_args _ _ = None"

definition segment_matcher :: path_matcher where
  "segment_matcher pattern path =
     fit_args pattern (if path = [] then [] else split_on (CHR ''/'') (tl path))"

lemma path_text_split:
  assumes "list_all path_safe xs"
  shows "(if path_text xs = [] then [] else split_on (CHR ''/'') (tl (path_text xs))) = xs"
proof (cases xs)
  case Nil
  then show ?thesis by simp
next
  case (Cons x ys)
  have slash: "CHR ''/'' \<notin> set x" if "path_safe x" for x
    using that by (auto simp: path_safe_def list_all_iff path_char_def Let_def)
  have "split_on (CHR ''/'') (y @ path_text zs) = y # zs" if "list_all path_safe (y # zs)" for y zs
    using that
  proof (induction zs arbitrary: y)
    case Nil
    then show ?case using slash by (simp add: split_on_no_sep)
  next
    case (Cons z zs)
    then show ?case using slash by (simp add: split_on_append)
  qed
  with assms Cons show ?thesis by simp
qed

lemma fit_args_fill: "length args = path_params ps \<Longrightarrow> fit_args ps (fill_path ps args) = Some args"
  by (induction ps args rule: fill_path.induct) auto

lemma fit_args_fits: "fit_args ps xs = Some args \<Longrightarrow> list_all2 fits ps xs"
  by (induction ps xs arbitrary: args rule: fit_args.induct) (auto split: if_splits)

lemma segment_matcher_contract: "router_contract segment_matcher"
  unfolding router_contract_def segment_matcher_def
proof (intro conjI allI impI)
  fix ps and args :: "string list"
  assume a: "length args = path_params ps" "list_all path_safe (fill_path ps args)"
  show "fit_args ps (if path_text (fill_path ps args) = [] then []
      else split_on (CHR ''/'') (tl (path_text (fill_path ps args)))) = Some args"
    unfolding path_text_split [OF a(2)] by (rule fit_args_fill [OF a(1)])
next
  fix ps xs args
  assume a: "list_all path_safe xs"
    "fit_args ps (if path_text xs = [] then [] else split_on (CHR ''/'') (tl (path_text xs))) = Some args"
  show "list_all2 fits ps xs"
    by (rule fit_args_fits [OF a(2) [unfolded path_text_split [OF a(1)]]])
qed

section \<open>The calls reach their handlers\<close>

text \<open>C10: every call of the dashboard's client reaches the handler it is meant for.  With Express matching paths as
  documented, an id in the path that is a plain name and not one of the literals \<open>deliveries\<close> and \<open>me\<close> in any
  spelling, and tokens that are not empty, each of the 70 calls of \<open>vervet-api.ts\<close> is dispatched to its route
  in the order the modules register them, with no other id than the one given, and it carries exactly the token that
  the guard of the route reads: none for the public routes, the operator's for \<open>AdminTokenAuthGuard\<close>, the access
  token for \<open>PartnerApiKeyAuthGuard\<close>.\<close>

theorem client_calls_reach_handlers:
  assumes "router_contract matches" and "path_safe i" "js_lower i \<notin> set reserved"
    and "accessToken \<noteq> []" "adminToken \<noteq> []"
  shows "list_all (reaches matches i)
    (client_calls accessToken adminToken i sha256 input ownerInput params fullName password)"
  using reaches_auth_calls [OF assms] reaches_account_calls [OF assms] reaches_registry_calls [OF assms]
    reaches_operation_calls [OF assms]
  by (simp add: client_calls_def)

theorem client_calls_reach_handlers_witness:
  "list_all (reaches segment_matcher ''ck1'')
     (client_calls ''vds_a.b'' ''token'' ''ck1'' (\<lambda>s. s) JNull [] [] ''Ada'' ''correct horse'')"
proof (rule client_calls_reach_handlers [OF segment_matcher_contract])
  show "path_safe ''ck1''" by code_simp
  show "js_lower ''ck1'' \<notin> set reserved" by code_simp
qed simp_all

end
