(* ===== verification/Dashboard_Nav.thy ===== *)
theory Dashboard_Nav
  imports Dashboard_Client
begin

text \<open>
  \<^verbatim>\<open>src/dashboard/src/components/dashboard-nav.tsx\<close>: the navigation of the dashboard.  An item is shown when the
  session has its scopes and the profile its module; a group when one of its items is.
\<close>

record NavigationItem =
  ni_href :: string
  ni_label :: string
  ni_module :: "DashboardModule option"
  ni_scopes :: "string list option"

definition nav_item :: "string \<Rightarrow> string \<Rightarrow> DashboardModule \<Rightarrow> string list option \<Rightarrow> NavigationItem" where
  "nav_item href label m scopes = \<lparr>ni_href = href, ni_label = label, ni_module = Some m, ni_scopes = scopes\<rparr>"

definition navigationGroups :: "(string \<times> NavigationItem list) list" where
  "navigationGroups =
     [(''Overview'',
       [nav_item ''/overview'' ''Overview'' Module_overview None,
        nav_item ''/access/plan-usage'' ''Plan & Usage'' Module_plan_usage (Some [''partners:read''])]),
      (''Data Feed'',
       [nav_item ''/data-feed-health'' ''Health'' Module_data_feed (Some [''partners:read''])]),
      (''Resolution'',
       [nav_item ''/resolution/by-recipient'' ''By Recipient'' Module_resolution (Some [''resolution:read'']),
        nav_item ''/resolution/by-address'' ''By Address'' Module_resolution (Some [''resolution:read'']),
        nav_item ''/resolution/verify-transfer'' ''Verify Transfer'' Module_resolution (Some [''resolution:read'']),
        nav_item ''/resolution/batch'' ''Batch Verify'' Module_batch_verification (Some [''resolution:batch'']),
        nav_item ''/resolution/logs'' ''Logs'' Module_resolution (Some [''resolution:read''])]),
      (''Recipients'',
       [nav_item ''/recipients'' ''Recipients'' Module_registry (Some [''recipients:read'']),
        nav_item ''/destinations'' ''Destinations'' Module_registry (Some [''destinations:read'']),
        nav_item ''/attestations'' ''Attestations'' Module_registry (Some [''attestations:read''])]),
      (''Webhooks'',
       [nav_item ''/webhooks'' ''Subscriptions'' Module_webhooks (Some [''webhooks:read'']),
        nav_item ''/webhooks/deliveries'' ''Deliveries'' Module_webhooks (Some [''webhooks:read''])]),
      (''Keys & Access'',
       [nav_item ''/access/api-keys'' ''API Keys'' Module_api_keys (Some [''partners:write'']),
        nav_item ''/access/signing-keys'' ''Signing Keys'' Module_signing_keys (Some [''partners:write'']),
        nav_item ''/access/team'' ''Team'' Module_team (Some [''team:read'']),
        nav_item ''/access/security'' ''Security'' Module_security (Some [''security:read''])]),
      (''Audit'',
       [nav_item ''/audit/logs'' ''Audit Log'' Module_audit (Some [''audit:read'']),
        nav_item ''/audit/exports'' ''Exports'' Module_audit_exports (Some [''audit:export''])]),
      (''Docs'',
       [nav_item ''/docs/quickstart'' ''Quickstart'' Module_docs None,
        nav_item ''/docs/api'' ''API Reference'' Module_docs None,
        nav_item ''/docs/webhooks'' ''Webhooks'' Module_docs None,
        nav_item ''/sandbox'' ''Sandbox'' Module_sandbox None])]"

definition visible_item :: "PartnerProfile \<Rightarrow> string list \<Rightarrow> NavigationItem \<Rightarrow> bool" where
  "visible_item partnerProfile sessionScopes item \<longleftrightarrow>
     (case ni_scopes item of None \<Rightarrow> True | Some scopes \<Rightarrow> canAccessScope sessionScopes scopes) \<and>
     (case ni_module item of None \<Rightarrow> True | Some m \<Rightarrow> canAccessModule partnerProfile m)"

definition group_active :: "string \<Rightarrow> string \<Rightarrow> NavigationItem list \<Rightarrow> bool" where
  "group_active pathname label visibleItems \<longleftrightarrow>
     list_ex (\<lambda>item. pathname = ni_href item \<or> js_starts_with (ni_href item @ ''/'') pathname \<or>
         (ni_href item \<noteq> ''/overview'' \<and> js_starts_with (ni_href item) pathname)) visibleItems \<or>
     (label = ''Docs'' \<and> (pathname = ''/docs'' \<or> js_starts_with ''/docs/'' pathname \<or> pathname = ''/sandbox''))"

text \<open>The sections that are rendered: the label, whether it is marked active, and the items, each with whether it is.\<close>

definition DashboardNav ::
    "PartnerProfile \<Rightarrow> string list \<Rightarrow> string \<Rightarrow> (string \<times> bool \<times> (NavigationItem \<times> bool) list) list" where
  "DashboardNav partnerProfile sessionScopes pathname =
     List.map_filter (\<lambda>(label, items).
       let visibleItems = filter (visible_item partnerProfile sessionScopes) items in
       (if visibleItems = [] then None
        else Some (label, group_active pathname label visibleItems,
          map (\<lambda>item. (item, pathname = ni_href item \<or> js_starts_with (ni_href item @ ''/'') pathname)) visibleItems)))
       navigationGroups"

text \<open>The items on the page.\<close>

definition shown_items :: "PartnerProfile \<Rightarrow> string list \<Rightarrow> string \<Rightarrow> NavigationItem list" where
  "shown_items partnerProfile sessionScopes pathname =
     concat (map (\<lambda>(label, active, items). map fst items) (DashboardNav partnerProfile sessionScopes pathname))"

lemma shown_items_filter:
  "shown_items partnerProfile sessionScopes pathname =
     filter (visible_item partnerProfile sessionScopes) (concat (map snd navigationGroups))"
proof -
  have "concat (map (\<lambda>(label, active, items). map fst items) (List.map_filter (\<lambda>(label, items).
       let visibleItems = filter P items in
       (if visibleItems = [] then None else Some (label, g label visibleItems, map (\<lambda>item. (item, h item)) visibleItems))) gs)) =
     filter P (concat (map snd gs))" for P :: "NavigationItem \<Rightarrow> bool" and g h gs
    by (induction gs) (auto simp: map_filter_simps Let_def comp_def split: option.splits if_splits)
  then show ?thesis by (simp add: shown_items_def DashboardNav_def)
qed

end
