(* ===== verification/Dashboard_Metadata.thy ===== *)
theory Dashboard_Metadata
  imports Production_Review Platforms
begin

text \<open>
  \<^verbatim>\<open>backend/src/partners/dashboard-metadata.service.ts\<close>: what the dashboard is told to show a partner.  The option
  sets of its forms (the values of the enumerations and the catalogue of credential scopes of
  \<^verbatim>\<open>api-credential.util.ts\<close>), the guidance texts and steps that depend on the partner's capabilities, the guide
  to submitting attestations with its example request, and the examples of the sandbox, built from a
  destination of the directory.
\<close>

section \<open>Option sets\<close>

definition credentialScopeCatalog :: "(string \<times> string \<times> string) list" where
  "credentialScopeCatalog =
     [(''partners:read'', ''Read partner profile'',
       ''View organization profile, capability, readiness, and setup metadata.''),
      (''partners:write'', ''Manage partner settings'',
       ''Update partner-owned settings and create integration credentials.''),
      (''attestations:write'', ''Write attestations'',
       ''Create or submit trust attestations and related partner trust updates.''),
      (''attestations:read'', ''Read attestations'',
       ''Inspect attestation records, statuses, expiry, and trust history.''),
      (''recipients:read'', ''Read recipients'',
       ''View recipient registry records, identifiers, and partner mappings.''),
      (''recipients:write'', ''Manage recipients'',
       ''Create, update, disable, or otherwise manage recipient records.''),
      (''destinations:read'', ''Read destinations'',
       ''View registered destinations, coverage, and lifecycle state.''),
      (''destinations:write'', ''Manage destinations'',
       ''Create, replace, revoke, or otherwise manage destination records.''),
      (''resolution:read'', ''Run resolution queries'',
       ''Call by-recipient, by-address, and transfer-verification lookup APIs.''),
      (''resolution:batch'', ''Run batch verification'',
       ''Submit bulk verification and resolution jobs for multiple transfers.''),
      (''webhooks:write'', ''Manage webhooks'',
       ''Create, update, pause, resume, rotate, or disable webhook endpoints.''),
      (''webhooks:read'', ''Read webhook health'',
       ''View webhook endpoints, delivery status, failures, and retry history.''),
      (''webhooks:replay'', ''Replay webhook deliveries'',
       ''Retry failed webhook deliveries and operational replay actions.''),
      (''team:read'', ''Read team access'',
       ''View dashboard users, pending invites, roles, and access status.''),
      (''team:write'', ''Manage team access'',
       ''Invite users, change roles, and deactivate dashboard access.''),
      (''security:read'', ''Read security settings'',
       ''View session policy, rotation policy, and recent security-sensitive events.''),
      (''security:write'', ''Manage security settings'',
       ''Update security policies such as session and credential settings.''),
      (''audit:read'', ''Read audit activity'',
       ''Inspect operational, security, and governance audit events.''),
      (''audit:export'', ''Export audit data'',
       ''Request and download audit exports for compliance and reporting.'')]"

record DashboardOptionSets =
  os_partnerTypes :: "string list"
  os_partnerStatuses :: "string list"
  os_partnerPricingPlans :: "string list"
  os_partnerOnboardingStages :: "string list"
  os_partnerFeedHealthStatuses :: "string list"
  os_partnerUserRoles :: "string list"
  os_partnerUserStatuses :: "string list"
  os_signingKeyAlgorithms :: "string list"
  os_credentialScopes :: "string list"
  os_credentialScopeDefinitions :: "(string \<times> string \<times> string) list"
  os_recommendedCredentialScopes :: "string list"
  os_webhookEventTypes :: "string list"
  os_webhookStatuses :: "string list"
  os_deliveryStatuses :: "string list"
  os_recipientStatuses :: "string list"
  os_identifierKinds :: "string list"
  os_identifierVisibilities :: "string list"
  os_destinationStatuses :: "string list"
  os_attestationTypes :: "string list"
  os_verificationStatuses :: "string list"
  os_auditActorTypes :: "string list"
  os_auditExportFormats :: "string list"
  os_queryTypes :: "string list"
  os_resolutionOutcomes :: "string list"
  os_riskLevels :: "string list"
  os_disclosureModes :: "string list"
  os_resolutionBatchLookupModes :: "string list"
  os_resolutionBatchInputFormats :: "string list"

definition buildDashboardOptionSets :: DashboardOptionSets where
  "buildDashboardOptionSets =
     \<lparr>os_partnerTypes =
        map name_PartnerType
          [PartnerType_EXCHANGE, PartnerType_WALLET, PartnerType_PAYMENT_PROCESSOR, PartnerType_MERCHANT,
           PartnerType_FINTECH, PartnerType_OTHER],
      os_partnerStatuses =
        map name_PartnerStatus
          [PartnerStatus_ACTIVE, PartnerStatus_SUSPENDED, PartnerStatus_DISABLED],
      os_partnerPricingPlans =
        map name_PartnerPricingPlan
          [PartnerPricingPlan_STARTER, PartnerPricingPlan_GROWTH, PartnerPricingPlan_SCALE,
           PartnerPricingPlan_ENTERPRISE],
      os_partnerOnboardingStages =
        map name_PartnerOnboardingStage
          [PartnerOnboardingStage_ACCOUNT_CREATED, PartnerOnboardingStage_API_ACCESS_READY,
           PartnerOnboardingStage_TRUST_SETUP_READY, PartnerOnboardingStage_DATA_MAPPING_IN_PROGRESS,
           PartnerOnboardingStage_BOOTSTRAP_IMPORT_COMPLETED, PartnerOnboardingStage_LIVE_FEED_CONNECTED,
           PartnerOnboardingStage_PRODUCTION_APPROVED],
      os_partnerFeedHealthStatuses =
        map name_PartnerFeedHealthStatus
          [PartnerFeedHealthStatus_UNKNOWN, PartnerFeedHealthStatus_HEALTHY, PartnerFeedHealthStatus_DEGRADED,
           PartnerFeedHealthStatus_DISCONNECTED],
      os_partnerUserRoles =
        map name_PartnerUserRole
          [PartnerUserRole_OWNER, PartnerUserRole_ADMIN, PartnerUserRole_DEVELOPER, PartnerUserRole_ANALYST,
           PartnerUserRole_READ_ONLY],
      os_partnerUserStatuses =
        map name_PartnerUserStatus
          [PartnerUserStatus_ACTIVE, PartnerUserStatus_DISABLED],
      os_signingKeyAlgorithms =
        map name_SigningKeyAlgorithm
          [SigningKeyAlgorithm_ED25519, SigningKeyAlgorithm_ES256K, SigningKeyAlgorithm_RSA_PSS_SHA256],
      os_credentialScopes =
        credentialScopes,
      os_credentialScopeDefinitions =
        map (\<lambda>scope. (scope, or_else (map_of credentialScopeCatalog scope) ([], []))) credentialScopes,
      os_recommendedCredentialScopes =
        [''resolution:read''],
      os_webhookEventTypes =
        map name_WebhookEventType
          [WebhookEventType_DESTINATION_UPDATED, WebhookEventType_DESTINATION_REVOKED,
           WebhookEventType_SIGNING_KEY_ROTATED, WebhookEventType_RECIPIENT_STATUS_CHANGED],
      os_webhookStatuses =
        map name_WebhookStatus
          [WebhookStatus_ACTIVE, WebhookStatus_PAUSED, WebhookStatus_DISABLED],
      os_deliveryStatuses =
        map name_DeliveryStatus
          [DeliveryStatus_PENDING, DeliveryStatus_PROCESSING, DeliveryStatus_SUCCEEDED, DeliveryStatus_FAILED,
           DeliveryStatus_ABANDONED],
      os_recipientStatuses =
        map name_RecipientStatus
          [RecipientStatus_ACTIVE, RecipientStatus_SUSPENDED, RecipientStatus_CLOSED],
      os_identifierKinds =
        map name_IdentifierKind
          [IdentifierKind_PARTNER_HANDLE, IdentifierKind_PARTNER_UID, IdentifierKind_EMAIL_HASH,
           IdentifierKind_PHONE_HASH, IdentifierKind_BUSINESS_ID, IdentifierKind_PAYMENT_HANDLE],
      os_identifierVisibilities =
        map name_IdentifierVisibility
          [IdentifierVisibility_PRIVATE, IdentifierVisibility_SEARCHABLE, IdentifierVisibility_RESOLVABLE],
      os_destinationStatuses =
        map name_DestinationStatus
          [DestinationStatus_PENDING, DestinationStatus_ACTIVE, DestinationStatus_REVOKED,
           DestinationStatus_EXPIRED],
      os_attestationTypes =
        map name_AttestationType
          [AttestationType_DESTINATION_ASSIGNMENT, AttestationType_DESTINATION_ROTATION,
           AttestationType_DESTINATION_REVOCATION, AttestationType_IDENTIFIER_BINDING],
      os_verificationStatuses =
        map name_VerificationStatus
          [VerificationStatus_PENDING, VerificationStatus_VERIFIED, VerificationStatus_FAILED,
           VerificationStatus_REVOKED, VerificationStatus_EXPIRED],
      os_auditActorTypes =
        map name_AuditActorType
          [AuditActorType_SYSTEM, AuditActorType_PARTNER, AuditActorType_USER],
      os_auditExportFormats =
        map name_AuditExportFormat
          [AuditExportFormat_CSV, AuditExportFormat_JSON],
      os_queryTypes =
        map name_QueryType
          [QueryType_RESOLVE, QueryType_CONFIRM_ADDRESS, QueryType_VERIFY_ADDRESS, QueryType_BATCH_VERIFY],
      os_resolutionOutcomes =
        map name_ResolutionOutcome
          [ResolutionOutcome_RESOLVED, ResolutionOutcome_NO_MATCH, ResolutionOutcome_MISMATCH,
           ResolutionOutcome_AMBIGUOUS, ResolutionOutcome_UNVERIFIED, ResolutionOutcome_BLOCKED,
           ResolutionOutcome_ERROR],
      os_riskLevels =
        map name_RiskLevel
          [RiskLevel_LOW, RiskLevel_MEDIUM, RiskLevel_HIGH, RiskLevel_CRITICAL],
      os_disclosureModes =
        [''FULL_LABEL'', ''MASKED_LABEL'', ''VERIFICATION_ONLY''],
      os_resolutionBatchLookupModes =
        [''BY_RECIPIENT'', ''BY_ADDRESS'', ''MIXED''],
      os_resolutionBatchInputFormats =
        map name_ResolutionBatchInputFormat
          [ResolutionBatchInputFormat_CSV, ResolutionBatchInputFormat_ROWS, ResolutionBatchInputFormat_JSON]\<rparr>"

record AdminOptionSets =
  ao_partnerTypes :: "string list"
  ao_partnerStatuses :: "string list"
  ao_partnerPricingPlans :: "string list"
  ao_partnerOnboardingStages :: "string list"
  ao_partnerFeedHealthStatuses :: "string list"
  ao_partnerUserRoles :: "string list"
  ao_signingKeyAlgorithms :: "string list"

definition buildAdminOptionSets :: AdminOptionSets where
  "buildAdminOptionSets =
     (let optionSets = buildDashboardOptionSets in
      \<lparr>ao_partnerTypes = os_partnerTypes optionSets,
       ao_partnerStatuses = os_partnerStatuses optionSets,
       ao_partnerPricingPlans = os_partnerPricingPlans optionSets,
       ao_partnerOnboardingStages = os_partnerOnboardingStages optionSets,
       ao_partnerFeedHealthStatuses = os_partnerFeedHealthStatuses optionSets,
       ao_partnerUserRoles = os_partnerUserRoles optionSets,
       ao_signingKeyAlgorithms = os_signingKeyAlgorithms optionSets\<rparr>)"

section \<open>Asset networks\<close>

definition listActiveAssetNetworks :: "env \<Rightarrow> db \<Rightarrow> corridor list" where
  "listActiveAssetNetworks E s =
     sort_key (\<lambda>(n, a, c). (collation_key E (ch_displayName c), collation_key E (as_displayName a)))
       (filter (\<lambda>(n, a, c). an_isActive n \<and> ch_isActive c \<and> as_isActive a)
          (List.map_filter (network_of s) (assetNetworks s)))"

section \<open>Onboarding\<close>

definition buildOnboardingActionLabels :: "(string \<times> string) list" where
  "buildOnboardingActionLabels = map (\<lambda>(key, value). (key, oa_label value)) onboardingActionCatalog"

definition onboardingAction :: "string \<Rightarrow> OnboardingAction" where
  "onboardingAction key = the (map_of onboardingActionCatalog key)"

definition buildOnboardingTaskDefinitions :: "(string \<times> OnboardingAction) list" where
  "buildOnboardingTaskDefinitions =
     map (\<lambda>key. (key, onboardingAction key))
       [''create_api_key'', ''register_signing_key'', ''configure_webhook'', ''run_sandbox_request'',
        ''map_recipient_data'', ''ingest_attestation_data'', ''request_production_approval'']"

section \<open>Guidance\<close>

record GuidanceStep =
  gs_title :: string
  gs_description :: string
  gs_href :: string

definition guidance_step :: "string \<Rightarrow> string \<Rightarrow> string \<Rightarrow> GuidanceStep" where
  "guidance_step t d h = \<lparr>gs_title = t, gs_description = d, gs_href = h\<rparr>"

definition describePartnerJourney :: "PartnerProfile \<Rightarrow> string" where
  "describePartnerJourney profile =
     (let label = cap_profileLabel (pf_capabilities profile) in
      if label = ''FULL_ATTESTATION_PARTNER'' then ''Full attestation partner''
      else if label = ''CONSUMER_AND_DATA_PARTNER'' then ''Consumer + data partner''
      else if label = ''DATA_PARTNER'' then ''Data partner''
      else if label = ''API_CONSUMER'' then ''API consumer''
      else ''Limited partner'')"

definition describePartnerJourneySummary :: "PartnerProfile \<Rightarrow> string" where
  "describePartnerJourneySummary profile =
     (let label = cap_profileLabel (pf_capabilities profile) in
      if label = ''API_CONSUMER''
      then ''Prioritize API keys, resolution flows, webhooks, and sandbox validation before requesting production access.''
      else if label = ''DATA_PARTNER''
      then ''Prioritize signing keys, recipient and destination mapping, attestation ingestion, and data feed health before go-live.''
      else if label = ''CONSUMER_AND_DATA_PARTNER''
      then ''You need both sender-side API readiness and data-partner trust freshness before moving into production.''
      else if label = ''FULL_ATTESTATION_PARTNER''
      then ''Your org is expected to operate both integration and attestation trust workflows, with production feed health held to the highest bar.''
      else ''Complete onboarding and capability enablement before expanding into additional platform modules.'')"

text \<open>Steps that are pushed under a condition.\<close>

definition step_if :: "bool \<Rightarrow> GuidanceStep list \<Rightarrow> GuidanceStep list" where
  "step_if c steps = (if c then steps else [])"

definition buildQuickstartSteps :: "PartnerProfile \<Rightarrow> GuidanceStep list" where
  "buildQuickstartSteps profile =
     (let c = pf_capabilities profile;
          contributor = (cap_dataPartnerEnabled c \<or> cap_fullAttestationPartnerEnabled c) in
      step_if (cap_apiConsumerEnabled c)
        [guidance_step (oa_label (onboardingAction ''create_api_key''))
           ''Issue the first credential your systems will use to call Vervet APIs.'' ''/access/api-keys''] @
      step_if contributor
        [guidance_step (oa_label (onboardingAction ''register_signing_key''))
           ''Add the public key Vervet will use to verify your attestation and trust updates.'' ''/access/signing-keys''] @
      step_if (cap_webhooksEnabled c)
        [guidance_step (oa_label (onboardingAction ''configure_webhook''))
           ''Subscribe to delivery and trust lifecycle events so operational failures surface immediately.'' ''/webhooks''] @
      step_if (cap_apiConsumerEnabled c)
        [guidance_step (oa_label (onboardingAction ''run_sandbox_request''))
           ''Validate by-recipient, by-address, and transfer verification flows before using live traffic.'' ''/sandbox''] @
      step_if contributor
        [guidance_step (oa_label (onboardingAction ''map_recipient_data''))
           ''Create registry records and pending destinations so your trust objects are ready for attestation ingestion.'' ''/recipients'',
         guidance_step ''Review data feed health''
           ''Confirm that trust artifacts are landing correctly and that stale data does not block production readiness.'' ''/data-feed-health''] @
      step_if (\<not> cap_productionEnabled c)
        [guidance_step (oa_label (onboardingAction ''request_production_approval''))
           ''Use setup and readiness guidance to complete the final production activation path with Vervet.'' ''/setup''])"

definition production_steps :: "PartnerProfile \<Rightarrow> GuidanceStep list" where
  "production_steps profile =
     (let c = pf_capabilities profile; ob = pf_onboarding profile in
      step_if (latest_is ProductionApprovalRequestStatus_PENDING (as_latestRequest (pf_productionApproval profile)))
        [guidance_step ''Track production review''
           ''Your latest production approval request is pending review. Monitor Setup for review notes or follow-up actions.'' ''/setup''] @
      step_if (ob_nextRecommendedAction ob \<noteq> None \<and> ob_nextRecommendedAction ob \<noteq> Some ''await_production_review'')
        [guidance_step (ob_nextRecommendedActionLabel ob)
           ''This is the highest-priority action currently blocking your onboarding or production progress.'' ''/setup''] @
      step_if (cap_dataPartnerEnabled c \<or> cap_fullAttestationPartnerEnabled c)
        [guidance_step ''Review data feed health''
           ''Check stale destinations, expiring attestations, and webhook failures before expanding customer-facing traffic.'' ''/data-feed-health''] @
      step_if (cap_sandboxEnabled c)
        [guidance_step ''Validate sandbox scenarios''
           ''Re-run representative by-recipient, by-address, and verify-transfer paths in the sandbox before promotion.'' ''/sandbox''] @
      step_if (\<not> cap_productionEnabled c)
        [guidance_step ''Finalize production readiness''
           ''Confirm key setup, webhook health, and partner-state readiness, then follow the setup path to request production approval.'' ''/setup''])"

definition buildProductionUpgradeSteps :: "PartnerProfile \<Rightarrow> GuidanceStep list" where
  "buildProductionUpgradeSteps profile = take 4 (production_steps profile)"

section \<open>The guide to submitting attestations\<close>

definition buildExampleAddress :: "ChainFamily \<Rightarrow> string" where
  "buildExampleAddress family =
     (case family of
        ChainFamily_TRON \<Rightarrow> ''TXLAQ63Xg1NAzckPwKHvzw7CSEmLMEqcdj''
      | ChainFamily_SOLANA \<Rightarrow> ''7YWH4M8v2u7c6ooQxW8RkNvztNFVQVw1Gc7YDxjx3s1m''
      | _ \<Rightarrow> ''0x71c7656EC7ab88b098defB751B7401B5f6d8976F'')"

definition preferredAssetNetwork :: "corridor list \<Rightarrow> corridor option" where
  "preferredAssetNetwork networks =
     (case List.find (\<lambda>(n, a, c). ch_slug c = ''ethereum'' \<and> js_upper (as_symbol a) = ''USDC'') networks of
        Some net \<Rightarrow> Some net
      | None \<Rightarrow> first_option networks)"

record DataSubmissionGuide =
  dg_summary :: string
  dg_steps :: "GuidanceStep list"
  dg_notes :: "string list"
  dg_endpointPath :: string
  dg_examplePayload :: json
  dg_exampleCurl :: string

definition example_payload :: "PartnerProfile \<Rightarrow> corridor option \<Rightarrow> string option \<Rightarrow> json" where
  "example_payload profile preferred activeSigningKeyId =
     (let slug = pa_slug (pf_partner profile);
          chain = (case preferred of None \<Rightarrow> ''ethereum'' | Some (n, a, c) \<Rightarrow> ch_slug c);
          assetCode = (case preferred of None \<Rightarrow> ''usdc'' | Some (n, a, c) \<Rightarrow> as_code a);
          assetSymbol = (case preferred of None \<Rightarrow> ''USDC'' | Some (n, a, c) \<Rightarrow> as_symbol a);
          tokenStandard = (case preferred of None \<Rightarrow> ''ERC20'' | Some (n, a, c) \<Rightarrow> name_TokenStandard (an_standard n));
          contractAddress = (case preferred of None \<Rightarrow> None | Some (n, a, c) \<Rightarrow> an_contractAddressRaw n);
          decimals = (case preferred of None \<Rightarrow> 6 | Some (n, a, c) \<Rightarrow> or_else (an_decimals n) 6);
          memo = (case preferred of None \<Rightarrow> [] | Some (n, a, c) \<Rightarrow>
                    if an_memoPolicy n = MemoPolicy_REQUIRED then ''<memo-or-tag>'' else []);
          family = (case preferred of None \<Rightarrow> ChainFamily_EVM | Some (n, a, c) \<Rightarrow> ch_family c)
      in JObj
        [(''partnerSlug'', JStr slug),
         (''keyId'', JStr (or_else activeSigningKeyId ''<registered-signing-key-id>'')),
         (''algorithm'', JStr ''ED25519''),
         (''attestationType'', JStr ''DESTINATION_ASSIGNMENT''),
         (''sequenceNumber'', JNum 1001),
         (''recipientExternalId'', JStr ''merchant-001''),
         (''recipientDisplayName'', JStr ''Acme Merchant''),
         (''recipientIdentifier'', JStr (''merchant@'' @ slug)),
         (''identifierKind'', JStr ''PARTNER_HANDLE''),
         (''chain'', JStr chain),
         (''assetCode'', JStr assetCode),
         (''assetSymbol'', JStr assetSymbol),
         (''tokenStandard'', JStr tokenStandard),
         (''contractAddress'', j_nullable contractAddress),
         (''decimals'', JNum decimals),
         (''address'', JStr (buildExampleAddress family)),
         (''memo'', JStr memo),
         (''issuedAt'', JStr ''2026-03-14T12:00:00.000Z''),
         (''effectiveFrom'', JStr ''2026-03-14T12:00:00.000Z''),
         (''expiresAt'', JStr ''2026-06-14T12:00:00.000Z''),
         (''signature'', JStr ''<signed-canonical-payload>'')])"

text \<open>A line of the shell that continues on the next one.\<close>

definition shell_line :: "string \<Rightarrow> string" where
  "shell_line l = l @ '' '' @ [CHR 0x5C]"

definition buildDataSubmissionGuide :: "PartnerProfile \<Rightarrow> corridor list \<Rightarrow> string option \<Rightarrow> DataSubmissionGuide" where
  "buildDataSubmissionGuide profile networks activeSigningKeyId =
     (let payload = example_payload profile (preferredAssetNetwork networks) activeSigningKeyId in
      \<lparr>dg_summary =
         ''Data partners send production trust data from their own backend by signing canonical attestation payloads and POSTing them to Vervet.'',
       dg_steps =
         [guidance_step ''Register signing key''
            ''Add the public key Vervet will use to verify your signed trust updates.'' ''/access/signing-keys'',
          guidance_step ''Issue API key''
            ''Create an integration credential for your backend attestation client.'' ''/access/api-keys'',
          guidance_step ''Sign and send the first attestation''
            ''Your backend signs the canonical payload and sends it to POST /v1/attestations with replay-protection headers.'' ''/docs/api'',
          guidance_step ''Confirm it landed''
            ''Use Data Feed Health, Recipients, Destinations, and Attestations to confirm the ingestion materialized correctly.'' ''/data-feed-health''],
       dg_notes =
         [''Recipients and destinations created in the dashboard are operational drafts until a matching signed attestation is ingested.'',
          ''The dashboard does not hold your private signing key. Signing happens in your own backend or signing service.'',
          ''Feed Health is the operational confirmation surface after you send data.''],
       dg_endpointPath = ''/v1/attestations'',
       dg_examplePayload = payload,
       dg_exampleCurl = join_with newline
         [shell_line (''curl -X POST '' @ quoted ''<VERVET_API_BASE_URL>/v1/attestations''),
          shell_line (''  -H '' @ quoted ''Authorization: Bearer <API_KEY>''),
          shell_line (''  -H '' @ quoted ''Content-Type: application/json''),
          shell_line (''  -H '' @ quoted ''x-request-nonce: <UNIQUE_NONCE>''),
          shell_line (''  -H '' @ quoted ''x-request-timestamp: <ISO8601_TIMESTAMP>''),
          ''  --data @- <<'' @ quoted ''JSON'',
          json_pretty 0 payload,
          ''JSON'']\<rparr>)"

record Guidance =
  gd_journeyLabel :: string
  gd_journeySummary :: string
  gd_quickstartSteps :: "GuidanceStep list"
  gd_productionUpgradeSteps :: "GuidanceStep list"
  gd_dataSubmission :: DataSubmissionGuide

definition buildGuidance :: "PartnerProfile \<Rightarrow> corridor list \<Rightarrow> string option \<Rightarrow> Guidance" where
  "buildGuidance profile networks activeSigningKeyId =
     \<lparr>gd_journeyLabel = describePartnerJourney profile,
      gd_journeySummary = describePartnerJourneySummary profile,
      gd_quickstartSteps = buildQuickstartSteps profile,
      gd_productionUpgradeSteps = buildProductionUpgradeSteps profile,
      gd_dataSubmission = buildDataSubmissionGuide profile networks activeSigningKeyId\<rparr>"

section \<open>The sandbox\<close>

text \<open>\<open>encodeURIComponent\<close>: the UTF-8 bytes of every character but the unreserved ones, in upper-case hexadecimal.\<close>

definition uri_unreserved :: "char \<Rightarrow> bool" where
  "uri_unreserved c \<longleftrightarrow>
     (let n = of_char c :: nat in
      (48 \<le> n \<and> n \<le> 57) \<or> (65 \<le> n \<and> n \<le> 90) \<or> (97 \<le> n \<and> n \<le> 122) \<or>
      List.member [45, 95, 46, 33, 126, 42, 39, 40, 41] n)"

definition percent_byte :: "nat \<Rightarrow> string" where
  "percent_byte n = ''%'' @ js_upper [hex_digit (n div 16), hex_digit (n mod 16)]"

definition encode_uri_char :: "char \<Rightarrow> string" where
  "encode_uri_char c =
     (let n = of_char c :: nat in
      if uri_unreserved c then [c]
      else if n < 128 then percent_byte n
      else percent_byte (192 + n div 64) @ percent_byte (128 + n mod 64))"

definition encodeURIComponent :: "string \<Rightarrow> string" where
  "encodeURIComponent s = concat (map encode_uri_char s)"

definition buildMismatchAddress :: "ChainFamily \<Rightarrow> string" where
  "buildMismatchAddress family =
     (case family of
        ChainFamily_SOLANA \<Rightarrow> ''11111111111111111111111111111111''
      | _ \<Rightarrow> ''0x0000000000000000000000000000000000000000'')"

text \<open>A destination of the directory with its recipient, partner and asset network, and the query that selects it.\<close>

type_synonym example_row = "RecipientDestination \<times> Recipient \<times> Partner \<times> corridor"

definition example_rows :: "db \<Rightarrow> example_row list" where
  "example_rows s =
     List.map_filter (\<lambda>d.
       case (recipient_owner s (de_recipientId d), destination_network s d) of
         (Some (r, p), Some net) \<Rightarrow> Some (d, r, p, net)
       | _ \<Rightarrow> None) (destinations s)"

definition sandbox_example :: "time \<Rightarrow> db \<Rightarrow> example_row \<Rightarrow> bool" where
  "sandbox_example now s =
     (\<lambda>(d, r, p, (n, a, c)).
        de_status d = DestinationStatus_ACTIVE \<and> de_effectiveFrom d \<le> now \<and> not_expired now (de_expiresAt d) \<and>
        rc_status r = RecipientStatus_ACTIVE \<and> pa_status p = PartnerStatus_ACTIVE \<and> pa_isDirectoryListed p \<and>
        list_ex (\<lambda>i. id_recipientId i = rc_id r \<and> id_status i = IdentifierStatus_ACTIVE) (identifiers s) \<and>
        an_isActive n \<and> ch_isActive c \<and> as_isActive a)"

definition exampleDestination :: "time \<Rightarrow> db \<Rightarrow> example_row option" where
  "exampleDestination now s =
     first_option (sort_key (\<lambda>(d, _). de_createdAt d) (filter (sandbox_example now s) (example_rows s)))"

definition example_identifier :: "db \<Rightarrow> ident \<Rightarrow> RecipientIdentifier option" where
  "example_identifier s recipientId =
     first_option (sort_key (\<lambda>i. (\<not> id_isPrimary i, id_createdAt i))
       (filter (\<lambda>i. id_recipientId i = recipientId \<and> id_status i = IdentifierStatus_ACTIVE) (identifiers s)))"

record SandboxPreset =
  sb_key :: string
  sb_title :: string
  sb_description :: string
  sb_href :: string

definition sandbox_preset :: "string \<Rightarrow> string \<Rightarrow> string \<Rightarrow> string \<Rightarrow> SandboxPreset" where
  "sandbox_preset k t d h = \<lparr>sb_key = k, sb_title = t, sb_description = d, sb_href = h\<rparr>"

record SandboxExamples =
  sx_presets :: "SandboxPreset list"
  sx_sampleResponse :: "json option"
  sx_batchDefaultInput :: "string option"

definition preset_link :: "string \<Rightarrow> (string \<times> string) list \<Rightarrow> string" where
  "preset_link path params = path @ ''?'' @ join_with ''&'' (map (\<lambda>(k, v). k @ ''='' @ encodeURIComponent v) params)"

definition buildSandboxExamples :: "time \<Rightarrow> db \<Rightarrow> SandboxExamples" where
  "buildSandboxExamples now s =
     (case exampleDestination now s of
        None \<Rightarrow> \<lparr>sx_presets = [], sx_sampleResponse = None, sx_batchDefaultInput = None\<rparr>
      | Some (d, r, p, (n, a, c)) \<Rightarrow>
          let identifierText =
                (case example_identifier s (rc_id r) of
                   Some i \<Rightarrow> id_rawValue i
                 | None \<Rightarrow> rc_externalRecipientId r @ ''@'' @ pa_slug p);
              platform = pa_slug p;
              chain = ch_slug c;
              asset = as_symbol a;
              address = de_addressRaw d;
              mismatchAddress = buildMismatchAddress (ch_family c)
          in
          \<lparr>sx_presets =
             [sandbox_preset ''by_address'' ''By Address''
                ''Confirm a pasted wallet address against a real supported platform and corridor.''
                (preset_link ''/resolution/by-address''
                   [(''platform'', platform), (''chain'', chain), (''asset'', asset), (''address'', address)]),
              sandbox_preset ''by_recipient'' ''By Recipient''
                ''Resolve a verified destination from a real recipient identifier and corridor.''
                (preset_link ''/resolution/by-recipient''
                   [(''recipientIdentifier'', identifierText), (''chain'', chain), (''asset'', asset)]),
              sandbox_preset ''verify_transfer'' ''Verify Transfer''
                ''Run a mismatch example and review the safety recommendation before send.''
                (preset_link ''/resolution/verify-transfer''
                   [(''mode'', ''RECIPIENT_CONTEXT''), (''recipientIdentifier'', identifierText), (''chain'', chain),
                    (''asset'', asset), (''address'', mismatchAddress)]),
              sandbox_preset ''batch_verify'' ''Batch Verify''
                ''Open the batch console with a starter row built from a real seeded recipient and corridor.''
                ''/resolution/batch''],
           sx_sampleResponse = Some (JObj
             [(''recipientDisplayName'', JStr (or_else (rc_displayName r) (rc_externalRecipientId r))),
              (''platform'', JStr platform),
              (''address'', JStr address),
              (''chain'', JStr chain),
              (''asset'', JStr asset),
              (''verified'', JBool True),
              (''riskLevel'', JStr ''LOW''),
              (''recommendation'', JStr ''safe_to_send'')]),
           sx_batchDefaultInput = Some (join_with newline
             [''client_ref,recipient_identifier,address'',
              ''sample-1,'' @ identifierText @ '','' @ address])\<rparr>)"

section \<open>The handlers of the service\<close>

record PartnerDashboardMetadata =
  dm_assetNetworks :: "corridor list"
  dm_optionSets :: DashboardOptionSets
  dm_actionLabels :: "(string \<times> string) list"
  dm_blockedReasonDescriptions :: "(string \<times> string) list"
  dm_taskDefinitions :: "(string \<times> OnboardingAction) list"
  dm_guidance :: Guidance
  dm_sandbox :: SandboxExamples

definition activeSigningKeyId :: "ident \<Rightarrow> db \<Rightarrow> string option" where
  "activeSigningKeyId partnerId s =
     map_option sk_keyId (first_option (sort_key sk_createdAt
       (filter (\<lambda>k. sk_partnerId k = partnerId \<and> sk_status k = SigningKeyStatus_ACTIVE) (signingKeys s))))"

definition getPartnerDashboardMetadata ::
    "env \<Rightarrow> time \<Rightarrow> AuthenticatedPartner \<Rightarrow> db \<Rightarrow> PartnerDashboardMetadata result" where
  "getPartnerDashboardMetadata E now p s =
     (case getPartnerProfile E now p s of
        Inl e \<Rightarrow> Inl e
      | Inr profile \<Rightarrow>
          let networks = listActiveAssetNetworks E s in
          Inr \<lparr>dm_assetNetworks = networks,
               dm_optionSets = buildDashboardOptionSets,
               dm_actionLabels = buildOnboardingActionLabels,
               dm_blockedReasonDescriptions = productionApprovalBlockedReasonDescriptions,
               dm_taskDefinitions = buildOnboardingTaskDefinitions,
               dm_guidance = buildGuidance profile networks (activeSigningKeyId (ap_partnerId p) s),
               dm_sandbox = buildSandboxExamples now s\<rparr>)"

definition getAdminSetupMetadata :: AdminOptionSets where
  "getAdminSetupMetadata = buildAdminOptionSets"

end
