(* ===== verification/Handlers.thy ===== *)
theory Handlers
  imports Routes Dashboard_Metadata Partner_Team Audit_Service Webhooks Resolution_Batch Attestations Overview
begin

text \<open>
  The handlers of the controllers: what each takes from the request and the authenticated partner, how it trims
  and defaults it, the service operation it calls, the \<^verbatim>\<open>NotFoundException\<close> it throws for an absent row, and the
  envelope it answers in (\<^verbatim>\<open>common/http/api-response.ts\<close>).  A handler is named by its controller and its method;
  its route is the definition of \<^verbatim>\<open>Routes\<close> with the prefix \<^verbatim>\<open>route_\<close>.
\<close>

section \<open>The envelope\<close>

datatype 'a ApiResponse = ApiResponse (response_status: bool) (response_data: 'a)

definition apiResponse :: "'a \<Rightarrow> 'a ApiResponse" where
  "apiResponse d = ApiResponse True d"

definition reply :: "'a result \<times> db \<Rightarrow> 'a ApiResponse result \<times> db" where
  "reply r = (case r of (Inl e, s) \<Rightarrow> (Inl e, s) | (Inr x, s) \<Rightarrow> (Inr (apiResponse x), s))"

text \<open>A handler that only reads, and one that throws when the row is absent.\<close>

definition replying :: "db \<Rightarrow> 'a result \<Rightarrow> 'a ApiResponse result \<times> db" where
  "replying s r = reply (r, s)"

definition or_not_found :: "string \<Rightarrow> 'a option \<Rightarrow> 'a result" where
  "or_not_found m v = (case v of None \<Rightarrow> Inl (NotFound m) | Some x \<Rightarrow> Inr x)"

section \<open>Queries and bodies that the services take apart\<close>

record ListAuditLogsDto =
  qa_action :: "string option"
  qa_actorType :: "AuditActorType option"
  qa_entityType :: "string option"
  qa_entityId :: "string option"
  qa_limit :: "nat option"

record ListWebhookDeliveriesDto =
  qw_endpointId :: "string option"
  qw_status :: "DeliveryStatus option"
  qw_eventType :: "WebhookEventType option"
  qw_limit :: "nat option"

record ListRecipientsDto =
  qr_search :: "string option"
  qr_status :: "RecipientStatus option"
  qr_limit :: "nat option"

record ListAttestationsDto =
  qt_recipientId :: "string option"
  qt_recipientIdentifier :: "string option"
  qt_attestationType :: "AttestationType option"
  qt_verificationStatus :: "VerificationStatus option"
  qt_chain :: "string option"
  qt_asset :: "string option"
  qt_limit :: "nat option"

record CreateSelfServiceApiCredentialDto =
  qc_label :: string
  qc_scopes :: "string list option"

record CreateApiCredentialDto = CreateSelfServiceApiCredentialDto +
  qc_partnerSlug :: string

record RegisterSigningKeyDto = RegisterKeyInput +
  qk_partnerSlug :: string

record DashboardLoginDto =
  ql_email :: string
  ql_password :: string

record AcceptPartnerUserInviteDto =
  qi_fullName :: string
  qi_password :: string

record RequestProductionApprovalDto =
  qp_requestNote :: "string option"
  qp_assetNetworkIds :: "string list option"

record ReviewProductionApprovalRequestDto =
  qd_decision :: review_decision
  qd_reviewNote :: "string option"
  qd_approvedAssetNetworkIds :: "string list option"

record UpdatePartnerProductionCorridorDto =
  qo_assetNetworkId :: string
  qo_enabled :: bool
  qo_note :: "string option"

section \<open>Audit\<close>

definition Audit_listAuditLogs ::
    "AuthenticatedPartner \<Rightarrow> ListAuditLogsDto \<Rightarrow> db \<Rightarrow> audit_view list ApiResponse result \<times> db" where
  "Audit_listAuditLogs p dto s =
     replying s (Inr (listPartnerAuditLogs (ap_partnerId p)
       \<lparr>lp_action = map_option js_trim (qa_action dto), lp_actorType = qa_actorType dto,
        lp_entityId = map_option js_trim (qa_entityId dto), lp_entityType = map_option js_trim (qa_entityType dto),
        lp_limit = or_else (qa_limit dto) 50\<rparr> s))"

definition Audit_getAuditLog :: "AuthenticatedPartner \<Rightarrow> string \<Rightarrow> db \<Rightarrow> audit_view ApiResponse result \<times> db" where
  "Audit_getAuditLog p eventId s =
     replying s (or_not_found ''Audit log event was not found for the partner.''
       (getPartnerAuditLog (ap_partnerId p) (js_trim eventId) s))"

definition AuditExports_listAuditExports :: "env \<Rightarrow> AuthenticatedPartner \<Rightarrow> db \<Rightarrow> AuditExportJob list ApiResponse result \<times> db" where
  "AuditExports_listAuditExports E p s = replying s (listPartnerAuditExports E (ap_partnerId p) s)"

definition AuditExports_getAuditExport ::
    "env \<Rightarrow> time \<Rightarrow> AuthenticatedPartner \<Rightarrow> string \<Rightarrow> db \<Rightarrow> AuditExportJob ApiResponse result \<times> db" where
  "AuditExports_getAuditExport E now p exportId s =
     reply (getAuditExportDownload E now (ap_partnerId p) (js_trim exportId) s)"

definition AuditExports_createAuditExport ::
    "env \<Rightarrow> time \<Rightarrow> AuthenticatedPartner \<Rightarrow> CreateAuditExportDto \<Rightarrow> db \<Rightarrow> AuditExportJob ApiResponse result \<times> db" where
  "AuditExports_createAuditExport E now p dto s =
     reply (createAuditExport E now (ap_partnerId p) (ap_partnerUserId p) dto s)"

section \<open>Health, feed health, overview and platforms\<close>

definition Health_getHealth :: "time \<Rightarrow> int \<Rightarrow> json ApiResponse" where
  "Health_getHealth now uptimeSeconds = apiResponse (JObj
     [(''service'', JStr ''vervet-network-backend''), (''timestamp'', j_time now),
      (''uptimeSeconds'', JNum uptimeSeconds)])"

definition DataFeedHealth_getDataFeedHealth ::
    "(WebhookDelivery \<Rightarrow> time) \<Rightarrow> time \<Rightarrow> AuthenticatedPartner \<Rightarrow> db \<Rightarrow> DataFeedHealth ApiResponse result \<times> db" where
  "DataFeedHealth_getDataFeedHealth deliveryUpdatedAt now p s =
     replying s (getPartnerDataFeedHealth deliveryUpdatedAt now (ap_partnerId p) s)"

definition Overview_getOverview ::
    "env \<Rightarrow> (WebhookDelivery \<Rightarrow> time) \<Rightarrow> time \<Rightarrow> AuthenticatedPartner \<Rightarrow> db \<Rightarrow> PartnerOverview ApiResponse result \<times> db" where
  "Overview_getOverview E deliveryUpdatedAt now p s =
     replying s (Inr (getPartnerOverview E deliveryUpdatedAt now (ap_partnerId p) s))"

definition Platforms_listPlatforms ::
    "env \<Rightarrow> time \<Rightarrow> ListSupportedPlatformsParams \<Rightarrow> db \<Rightarrow> SupportedPlatformRecord list ApiResponse result \<times> db" where
  "Platforms_listPlatforms E now dto s =
     replying s (listSupportedPlatforms E now
       \<lparr>ls_address = map_option js_trim (ls_address dto), ls_asset = map_option js_trim (ls_asset dto),
        ls_chain = map_option js_trim (ls_chain dto), ls_lookupMode = ls_lookupMode dto\<rparr> s)"

section \<open>The partner's own account\<close>

definition PartnerAccount_getPartnerProfile ::
    "env \<Rightarrow> time \<Rightarrow> AuthenticatedPartner \<Rightarrow> db \<Rightarrow> PartnerProfile ApiResponse result \<times> db" where
  "PartnerAccount_getPartnerProfile E now p s = replying s (getPartnerProfile E now p s)"

definition PartnerAccount_getDashboardMetadata ::
    "env \<Rightarrow> time \<Rightarrow> AuthenticatedPartner \<Rightarrow> db \<Rightarrow> PartnerDashboardMetadata ApiResponse result \<times> db" where
  "PartnerAccount_getDashboardMetadata E now p s = replying s (getPartnerDashboardMetadata E now p s)"

definition PartnerAccount_getPartnerPlanUsage ::
    "time \<Rightarrow> AuthenticatedPartner \<Rightarrow> db \<Rightarrow> PartnerBillingSummary ApiResponse result \<times> db" where
  "PartnerAccount_getPartnerPlanUsage now p s = replying s (getPartnerPlanUsage now p s)"

definition PartnerAccount_listApiCredentials ::
    "AuthenticatedPartner \<Rightarrow> db \<Rightarrow> ApiCredentialView list ApiResponse result \<times> db" where
  "PartnerAccount_listApiCredentials p s = replying s (Inr (listPartnerApiCredentials p s))"

definition PartnerAccount_createApiCredential ::
    "env \<Rightarrow> time \<Rightarrow> AuthenticatedPartner \<Rightarrow> CreateSelfServiceApiCredentialDto \<Rightarrow> db \<Rightarrow>
     IssuedApiCredential ApiResponse result \<times> db" where
  "PartnerAccount_createApiCredential E now p dto s =
     reply (issuePartnerApiCredential E now p (qc_label dto) (qc_scopes dto) s)"

definition PartnerAccount_revokeApiCredential ::
    "env \<Rightarrow> time \<Rightarrow> AuthenticatedPartner \<Rightarrow> string \<Rightarrow> db \<Rightarrow> ApiCredentialView ApiResponse result \<times> db" where
  "PartnerAccount_revokeApiCredential E now p credentialId s =
     reply (revokePartnerApiCredential E now p credentialId s)"

definition PartnerAccount_listSigningKeys ::
    "AuthenticatedPartner \<Rightarrow> db \<Rightarrow> PartnerSigningKey list ApiResponse result \<times> db" where
  "PartnerAccount_listSigningKeys p s = replying s (Inr (listPartnerSigningKeys (ap_partnerId p) s))"

definition PartnerAccount_registerSigningKey ::
    "env \<Rightarrow> time \<Rightarrow> AuthenticatedPartner \<Rightarrow> RegisterKeyInput \<Rightarrow> db \<Rightarrow> PartnerSigningKey ApiResponse result \<times> db" where
  "PartnerAccount_registerSigningKey E now p dto s = reply (registerPartnerSigningKey E now p dto s)"

definition PartnerAccount_revokeSigningKey ::
    "env \<Rightarrow> time \<Rightarrow> AuthenticatedPartner \<Rightarrow> string \<Rightarrow> db \<Rightarrow> PartnerSigningKey ApiResponse result \<times> db" where
  "PartnerAccount_revokeSigningKey E now p signingKeyId s = reply (revokePartnerSigningKey E now p signingKeyId s)"

definition PartnerAccount_listPartnerUsers ::
    "AuthenticatedPartner \<Rightarrow> db \<Rightarrow> (PartnerUserView list \<times> PartnerUserInviteView list) ApiResponse result \<times> db" where
  "PartnerAccount_listPartnerUsers p s = replying s (Inr (listPartnerUsers p s))"

definition PartnerAccount_invitePartnerUser ::
    "env \<Rightarrow> time \<Rightarrow> AuthenticatedPartner \<Rightarrow> CreatePartnerUserInviteDto \<Rightarrow> db \<Rightarrow>
     (PartnerUserInviteView \<times> string) ApiResponse result \<times> db" where
  "PartnerAccount_invitePartnerUser E now p dto s = reply (invitePartnerUser E now p dto s)"

definition PartnerAccount_updatePartnerUser ::
    "env \<Rightarrow> time \<Rightarrow> AuthenticatedPartner \<Rightarrow> string \<Rightarrow> UpdatePartnerUserDto \<Rightarrow> db \<Rightarrow>
     PartnerUserView ApiResponse result \<times> db" where
  "PartnerAccount_updatePartnerUser E now p userId dto s = reply (updatePartnerUser E now p userId dto s)"

definition PartnerAccount_deactivatePartnerUser ::
    "env \<Rightarrow> time \<Rightarrow> AuthenticatedPartner \<Rightarrow> string \<Rightarrow> db \<Rightarrow> PartnerUserView ApiResponse result \<times> db" where
  "PartnerAccount_deactivatePartnerUser E now p userId s = reply (deactivatePartnerUser E now p userId s)"

definition PartnerAccount_getSecuritySettings ::
    "env \<Rightarrow> time \<Rightarrow> AuthenticatedPartner \<Rightarrow> db \<Rightarrow> PartnerSecuritySettings ApiResponse result \<times> db" where
  "PartnerAccount_getSecuritySettings E now p s =
     (case getPartnerSecuritySettings E now (ap_partnerId p) s of (settings, s') \<Rightarrow> reply (Inr settings, s'))"

definition PartnerAccount_updateSecuritySettings ::
    "env \<Rightarrow> time \<Rightarrow> AuthenticatedPartner \<Rightarrow> UpdatePartnerSecuritySettingsDto \<Rightarrow> db \<Rightarrow>
     PartnerSecuritySettings ApiResponse result \<times> db" where
  "PartnerAccount_updateSecuritySettings E now p dto s = reply (updatePartnerSecuritySettings E now p dto s)"

definition PartnerAccount_listProductionApprovalRequests ::
    "AuthenticatedPartner \<Rightarrow> db \<Rightarrow> ApprovalRequestView list ApiResponse result \<times> db" where
  "PartnerAccount_listProductionApprovalRequests p s = replying s (Inr (listProductionApprovalRequests p s))"

definition PartnerAccount_listProductionCorridors ::
    "env \<Rightarrow> AuthenticatedPartner \<Rightarrow> db \<Rightarrow> granted_corridor list ApiResponse result \<times> db" where
  "PartnerAccount_listProductionCorridors E p s = replying s (Inr (listPartnerProductionCorridors E p s))"

definition PartnerAccount_listAvailableProductionCorridors ::
    "env \<Rightarrow> AuthenticatedPartner \<Rightarrow> db \<Rightarrow> corridor list ApiResponse result \<times> db" where
  "PartnerAccount_listAvailableProductionCorridors E p s =
     replying s (listPartnerAvailableProductionCorridors E p s)"

definition PartnerAccount_requestProductionApproval ::
    "env \<Rightarrow> time \<Rightarrow> AuthenticatedPartner \<Rightarrow> RequestProductionApprovalDto \<Rightarrow> db \<Rightarrow>
     ApprovalRequestView ApiResponse result \<times> db" where
  "PartnerAccount_requestProductionApproval E now p dto s =
     reply (requestProductionApproval E now p (qp_requestNote dto) (qp_assetNetworkIds dto) s)"

definition PartnerAccount_cancelProductionApprovalRequest ::
    "env \<Rightarrow> time \<Rightarrow> AuthenticatedPartner \<Rightarrow> string \<Rightarrow> db \<Rightarrow> ApprovalRequestView ApiResponse result \<times> db" where
  "PartnerAccount_cancelProductionApprovalRequest E now p requestId s =
     reply (cancelProductionApprovalRequest E now p requestId s)"

section \<open>Signing in\<close>

definition PartnerDashboardAuth_login ::
    "env \<Rightarrow> time \<Rightarrow> DashboardLoginDto \<Rightarrow> db \<Rightarrow> DashboardLogin ApiResponse result \<times> db" where
  "PartnerDashboardAuth_login E now dto s = reply (loginDashboardUser E now (ql_email dto) (ql_password dto) s)"

definition PartnerDashboardAuth_acceptInvite ::
    "env \<Rightarrow> time \<Rightarrow> string \<Rightarrow> AcceptPartnerUserInviteDto \<Rightarrow> db \<Rightarrow> AcceptedInvite ApiResponse result \<times> db" where
  "PartnerDashboardAuth_acceptInvite E now inviteToken dto s =
     reply (acceptPartnerUserInvite E now (js_trim inviteToken) (qi_fullName dto) (qi_password dto) s)"

definition PartnerDashboardAuth_logout ::
    "env \<Rightarrow> time \<Rightarrow> AuthenticatedPartner \<Rightarrow> db \<Rightarrow> bool ApiResponse result \<times> db" where
  "PartnerDashboardAuth_logout E now p s = reply (logoutDashboardSession E now p s)"

section \<open>The operator\<close>

definition Partners_getSetupStatus :: "json ApiResponse" where
  "Partners_getSetupStatus = apiResponse (JObj [(''authenticated'', JBool True)])"

definition Partners_getSetupMetadata :: "AdminOptionSets ApiResponse" where
  "Partners_getSetupMetadata = apiResponse getAdminSetupMetadata"

definition Partners_createPartner ::
    "env \<Rightarrow> time \<Rightarrow> CreatePartnerDto \<Rightarrow> db \<Rightarrow> Partner ApiResponse result \<times> db" where
  "Partners_createPartner E now dto s = reply (createPartner E now dto s)"

definition Partners_createApiCredential ::
    "env \<Rightarrow> time \<Rightarrow> CreateApiCredentialDto \<Rightarrow> db \<Rightarrow> IssuedApiCredential ApiResponse result \<times> db" where
  "Partners_createApiCredential E now dto s =
     reply (issueApiCredential E now (qc_partnerSlug dto) (qc_label dto) (qc_scopes dto) s)"

definition Partners_registerSigningKey ::
    "env \<Rightarrow> time \<Rightarrow> RegisterSigningKeyDto \<Rightarrow> db \<Rightarrow> PartnerSigningKey ApiResponse result \<times> db" where
  "Partners_registerSigningKey E now dto s =
     reply (registerSigningKey E now (qk_partnerSlug dto) (RegisterKeyInput.truncate dto) s)"

definition Partners_createPartnerUser ::
    "env \<Rightarrow> time \<Rightarrow> CreatePartnerUserDto \<Rightarrow> db \<Rightarrow> PartnerUserView ApiResponse result \<times> db" where
  "Partners_createPartnerUser E now dto s = reply (createPartnerUser E now dto s)"

definition Partners_listPartners :: "env \<Rightarrow> time \<Rightarrow> db \<Rightarrow> AdminPartnerWorkspace list ApiResponse result \<times> db" where
  "Partners_listPartners E now s = replying s (Inr (listAdminPartners E now s))"

definition Partners_listAvailableProductionCorridors :: "env \<Rightarrow> db \<Rightarrow> corridor list ApiResponse result \<times> db" where
  "Partners_listAvailableProductionCorridors E s = replying s (Inr (listAdminAvailableProductionCorridors E s))"

definition Partners_listProductionApprovalRequests ::
    "ProductionApprovalRequestStatus option \<Rightarrow> db \<Rightarrow> (ApprovalRequestView \<times> Partner option) list ApiResponse result \<times> db" where
  "Partners_listProductionApprovalRequests status s = replying s (Inr (listAdminProductionApprovalRequests status s))"

definition Partners_reviewProductionApprovalRequest ::
    "env \<Rightarrow> time \<Rightarrow> ReviewProductionApprovalRequestDto \<Rightarrow> string \<Rightarrow> db \<Rightarrow> ApprovalRequestView ApiResponse result \<times> db" where
  "Partners_reviewProductionApprovalRequest E now dto requestId s =
     reply (reviewProductionApprovalRequest E now requestId (qd_decision dto) (qd_reviewNote dto)
       (qd_approvedAssetNetworkIds dto) s)"

definition Partners_updatePartnerAdminState ::
    "env \<Rightarrow> time \<Rightarrow> string \<Rightarrow> UpdatePartnerAdminStateDto \<Rightarrow> db \<Rightarrow> AdminPartnerWorkspace ApiResponse result \<times> db" where
  "Partners_updatePartnerAdminState E now partnerId dto s = reply (updatePartnerAdminState E now partnerId dto s)"

definition Partners_listPartnerProductionCorridors ::
    "env \<Rightarrow> string \<Rightarrow> db \<Rightarrow> granted_corridor list ApiResponse result \<times> db" where
  "Partners_listPartnerProductionCorridors E partnerId s =
     replying s (listAdminPartnerProductionCorridors E partnerId s)"

definition Partners_updatePartnerProductionCorridor ::
    "env \<Rightarrow> time \<Rightarrow> string \<Rightarrow> UpdatePartnerProductionCorridorDto \<Rightarrow> db \<Rightarrow> granted_corridor ApiResponse result \<times> db" where
  "Partners_updatePartnerProductionCorridor E now partnerId dto s =
     reply (updatePartnerProductionCorridor E now partnerId (qo_assetNetworkId dto) (qo_enabled dto) (qo_note dto) s)"

section \<open>Recipients and destinations\<close>

definition Recipients_listRecipients ::
    "env \<Rightarrow> time \<Rightarrow> AuthenticatedPartner \<Rightarrow> ListRecipientsDto \<Rightarrow> db \<Rightarrow> json list ApiResponse result \<times> db" where
  "Recipients_listRecipients E now p dto s =
     replying s (listPartnerRecipients E now (ap_partnerId p)
       \<lparr>ListPartnerRecipientsParams.lr_limit = or_else (qr_limit dto) 20, lr_search = map_option js_trim (qr_search dto),
        lr_status = qr_status dto\<rparr> s)"

definition Recipients_createRecipient ::
    "env \<Rightarrow> time \<Rightarrow> AuthenticatedPartner \<Rightarrow> CreateRecipientDto \<Rightarrow> db \<Rightarrow> json ApiResponse result \<times> db" where
  "Recipients_createRecipient E now p dto s = reply (createPartnerRecipient E now (ap_partnerId p) dto s)"

definition Recipients_getRecipient ::
    "env \<Rightarrow> time \<Rightarrow> AuthenticatedPartner \<Rightarrow> string \<Rightarrow> db \<Rightarrow> json ApiResponse result \<times> db" where
  "Recipients_getRecipient E now p recipientId s =
     replying s (rbind (getPartnerRecipient E now (ap_partnerId p) (js_trim recipientId) s)
       (or_not_found ''Recipient was not found for the partner.''))"

definition Recipients_updateRecipient ::
    "env \<Rightarrow> time \<Rightarrow> AuthenticatedPartner \<Rightarrow> string \<Rightarrow> UpdateRecipientDto \<Rightarrow> db \<Rightarrow> json ApiResponse result \<times> db" where
  "Recipients_updateRecipient E now p recipientId dto s =
     reply (updatePartnerRecipient E now (ap_partnerId p) (js_trim recipientId) dto s)"

definition Recipients_disableRecipient ::
    "env \<Rightarrow> time \<Rightarrow> AuthenticatedPartner \<Rightarrow> string \<Rightarrow> db \<Rightarrow> json ApiResponse result \<times> db" where
  "Recipients_disableRecipient E now p recipientId s =
     reply (disablePartnerRecipient E now (ap_partnerId p) (js_trim recipientId) s)"

definition Destinations_listDestinations ::
    "env \<Rightarrow> AuthenticatedPartner \<Rightarrow> ListDestinationsDto \<Rightarrow> db \<Rightarrow> json list ApiResponse result \<times> db" where
  "Destinations_listDestinations E p dto s = replying s (listPartnerDestinations E (ap_partnerId p) dto s)"

definition Destinations_getDestination ::
    "env \<Rightarrow> AuthenticatedPartner \<Rightarrow> string \<Rightarrow> db \<Rightarrow> json ApiResponse result \<times> db" where
  "Destinations_getDestination E p destinationId s =
     replying s (rbind (getPartnerDestination E (ap_partnerId p) (js_trim destinationId) s)
       (or_not_found ''Destination was not found for the partner.''))"

definition Destinations_createDestination ::
    "env \<Rightarrow> time \<Rightarrow> AuthenticatedPartner \<Rightarrow> CreateDestinationDto \<Rightarrow> db \<Rightarrow> json ApiResponse result \<times> db" where
  "Destinations_createDestination E now p dto s = reply (createPartnerDestination E now (ap_partnerId p) dto s)"

definition Destinations_revokeDestination ::
    "env \<Rightarrow> time \<Rightarrow> AuthenticatedPartner \<Rightarrow> string \<Rightarrow> db \<Rightarrow> json ApiResponse result \<times> db" where
  "Destinations_revokeDestination E now p destinationId s =
     reply (revokePartnerDestination E now (ap_partnerId p) (js_trim destinationId) s)"

definition Destinations_replaceDestination ::
    "env \<Rightarrow> time \<Rightarrow> AuthenticatedPartner \<Rightarrow> string \<Rightarrow> ReplaceDestinationDto \<Rightarrow> db \<Rightarrow> json ApiResponse result \<times> db" where
  "Destinations_replaceDestination E now p destinationId dto s =
     reply (replacePartnerDestination E now (ap_partnerId p) (js_trim destinationId) dto s)"

section \<open>Webhooks\<close>

definition WebhookOperations_processPendingDeliveries ::
    "env \<Rightarrow> network \<Rightarrow> time \<Rightarrow> ProcessPendingDeliveriesParams \<Rightarrow> db \<Rightarrow> run_counts ApiResponse result \<times> db" where
  "WebhookOperations_processPendingDeliveries E net now dto s =
     reply (processPendingDeliveries E net now
       \<lparr>pp_limit = pp_limit dto, pp_ignoreSchedule = pp_ignoreSchedule dto\<rparr> s)"

definition Webhooks_listWebhookEndpoints :: "AuthenticatedPartner \<Rightarrow> db \<Rightarrow> endpoint_view list ApiResponse result \<times> db" where
  "Webhooks_listWebhookEndpoints p s = replying s (Inr (listWebhookEndpoints (ap_partnerId p) s))"

definition Webhooks_listWebhookDeliveries ::
    "AuthenticatedPartner \<Rightarrow> ListWebhookDeliveriesDto \<Rightarrow> db \<Rightarrow> delivery_view list ApiResponse result \<times> db" where
  "Webhooks_listWebhookDeliveries p dto s =
     replying s (Inr (listWebhookDeliveries (ap_partnerId p)
       \<lparr>ListWebhookDeliveriesParams.ld_endpointId = map_option js_trim (qw_endpointId dto), ld_eventType = qw_eventType dto,
        ld_limit = or_else (qw_limit dto) 50, ld_status = qw_status dto\<rparr> s))"

definition Webhooks_getWebhookDelivery ::
    "AuthenticatedPartner \<Rightarrow> string \<Rightarrow> db \<Rightarrow> (WebhookDelivery \<times> endpoint_view) ApiResponse result \<times> db" where
  "Webhooks_getWebhookDelivery p deliveryId s =
     replying s (or_not_found ''Webhook delivery was not found for the partner.''
       (getWebhookDeliveryDetail (ap_partnerId p) (js_trim deliveryId) s))"

definition Webhooks_getWebhookEndpoint ::
    "AuthenticatedPartner \<Rightarrow> string \<Rightarrow> db \<Rightarrow> endpoint_detail ApiResponse result \<times> db" where
  "Webhooks_getWebhookEndpoint p endpointId s =
     replying s (or_not_found ''Webhook endpoint was not found for the partner.''
       (getWebhookEndpointDetail (ap_partnerId p) (js_trim endpointId) s))"

definition Webhooks_createWebhookEndpoint ::
    "env \<Rightarrow> time \<Rightarrow> AuthenticatedPartner \<Rightarrow> CreateWebhookEndpointDto \<Rightarrow> db \<Rightarrow>
     (endpoint_view \<times> string) ApiResponse result \<times> db" where
  "Webhooks_createWebhookEndpoint E now p dto s = reply (createWebhookEndpoint E now p dto s)"

definition Webhooks_updateWebhookEndpoint ::
    "env \<Rightarrow> time \<Rightarrow> AuthenticatedPartner \<Rightarrow> string \<Rightarrow> UpdateWebhookEndpointDto \<Rightarrow> db \<Rightarrow>
     endpoint_view ApiResponse result \<times> db" where
  "Webhooks_updateWebhookEndpoint E now p endpointId dto s = reply (updateWebhookEndpoint E now p endpointId dto s)"

definition Webhooks_rotateWebhookSigningSecret ::
    "env \<Rightarrow> time \<Rightarrow> AuthenticatedPartner \<Rightarrow> string \<Rightarrow> db \<Rightarrow> (endpoint_view \<times> string) ApiResponse result \<times> db" where
  "Webhooks_rotateWebhookSigningSecret E now p endpointId s = reply (rotateWebhookSigningSecret E now p endpointId s)"

definition Webhooks_testWebhookEndpoint ::
    "env \<Rightarrow> network \<Rightarrow> time \<Rightarrow> AuthenticatedPartner \<Rightarrow> string \<Rightarrow> db \<Rightarrow> endpoint_test ApiResponse result \<times> db" where
  "Webhooks_testWebhookEndpoint E net now p endpointId s =
     reply (testWebhookEndpoint E net now p (js_trim endpointId) s)"

definition Webhooks_replayWebhookDelivery ::
    "env \<Rightarrow> network \<Rightarrow> time \<Rightarrow> AuthenticatedPartner \<Rightarrow> string \<Rightarrow> db \<Rightarrow>
     (WebhookDelivery \<times> endpoint_view) option ApiResponse result \<times> db" where
  "Webhooks_replayWebhookDelivery E net now p deliveryId s =
     reply (replayWebhookDelivery E net now p (js_trim deliveryId) s)"

definition Webhooks_disableWebhookEndpoint ::
    "env \<Rightarrow> time \<Rightarrow> AuthenticatedPartner \<Rightarrow> string \<Rightarrow> db \<Rightarrow> endpoint_view ApiResponse result \<times> db" where
  "Webhooks_disableWebhookEndpoint E now p endpointId s = reply (disableWebhookEndpoint E now p endpointId s)"

section \<open>Attestations\<close>

definition Attestations_listAttestations ::
    "AuthenticatedPartner \<Rightarrow> ListAttestationsDto \<Rightarrow> db \<Rightarrow> json list ApiResponse result \<times> db" where
  "Attestations_listAttestations p dto s =
     replying s (listPartnerAttestations (ap_partnerId p)
       \<lparr>la_asset = map_option js_trim (qt_asset dto), la_attestationType = qt_attestationType dto,
        la_chain = map_option js_trim (qt_chain dto), la_limit = or_else (qt_limit dto) 20,
        la_recipientId = map_option js_trim (qt_recipientId dto),
        la_recipientIdentifier = map_option js_trim (qt_recipientIdentifier dto),
        la_verificationStatus = qt_verificationStatus dto\<rparr> s)"

definition Attestations_getAttestation :: "AuthenticatedPartner \<Rightarrow> string \<Rightarrow> db \<Rightarrow> json ApiResponse result \<times> db" where
  "Attestations_getAttestation p attestationId s =
     replying s (or_not_found ''Attestation was not found for the partner.''
       (getPartnerAttestation (ap_partnerId p) (js_trim attestationId) s))"

definition Attestations_createAttestation ::
    "env \<Rightarrow> time \<Rightarrow> AuthenticatedPartner \<Rightarrow> string option \<Rightarrow> string option \<Rightarrow> CreateAttestationDto \<Rightarrow> db \<Rightarrow>
     AttestationResponse ApiResponse result \<times> db" where
  "Attestations_createAttestation E now p requestNonce requestTimestamp dto s =
     reply (createAttestation E now dto p requestNonce requestTimestamp s)"

section \<open>Resolution\<close>

definition normalizeIdempotencyKey :: "string option \<Rightarrow> string option result" where
  "normalizeIdempotencyKey value =
     (case value of
        None \<Rightarrow> Inr None
      | Some v \<Rightarrow>
          let normalizedValue = js_trim v in
          if length normalizedValue = 0 then Inr None
          else if length normalizedValue > 200 then Inl (BadRequest ''Idempotency-Key header is too long.'')
          else Inr (Some normalizedValue))"

definition lookup_context :: "AuthenticatedPartner \<Rightarrow> string option \<Rightarrow> ResolutionRequestContext" where
  "lookup_context p key = \<lparr>rx_authenticatedPartner = p, rx_idempotencyKey = key\<rparr>"

definition Resolution_listResolutionLogs ::
    "AuthenticatedPartner \<Rightarrow> ListResolutionLogsDto \<Rightarrow> nat option \<Rightarrow> db \<Rightarrow> json list ApiResponse result \<times> db" where
  "Resolution_listResolutionLogs p dto limit s =
     replying s (listResolutionLogs (ap_partnerId p)
       \<lparr>lr_queryType = lr_queryType dto, lr_outcome = lr_outcome dto, lr_riskLevel = lr_riskLevel dto,
        lr_chain = map_option js_trim (lr_chain dto), lr_asset = map_option js_trim (lr_asset dto),
        lr_recipientIdentifier = map_option js_trim (lr_recipientIdentifier dto),
        lr_platform = map_option js_trim (lr_platform dto), ListResolutionLogsDto.lr_limit = or_else limit 50\<rparr> s)"

definition Resolution_getResolutionLog :: "AuthenticatedPartner \<Rightarrow> string \<Rightarrow> db \<Rightarrow> json ApiResponse result \<times> db" where
  "Resolution_getResolutionLog p requestId s =
     replying s (or_not_found ''Resolution log was not found for the partner.''
       (getResolutionLog (ap_partnerId p) (js_trim requestId) s))"

definition Resolution_resolveRecipient ::
    "env \<Rightarrow> time \<Rightarrow> AuthenticatedPartner \<Rightarrow> string option \<Rightarrow> ResolveRecipientDto \<Rightarrow> db \<Rightarrow> json ApiResponse result \<times> db" where
  "Resolution_resolveRecipient E now p idempotencyKey dto s =
     (case normalizeIdempotencyKey idempotencyKey of
        Inl e \<Rightarrow> (Inl e, s)
      | Inr key \<Rightarrow> reply (resolve E now dto (lookup_context p key) s))"

definition Resolution_resolveRecipientByRoute ::
    "env \<Rightarrow> time \<Rightarrow> AuthenticatedPartner \<Rightarrow> string option \<Rightarrow> ResolveRecipientDto \<Rightarrow> db \<Rightarrow> json ApiResponse result \<times> db" where
  "Resolution_resolveRecipientByRoute E now p idempotencyKey dto s =
     (case normalizeIdempotencyKey idempotencyKey of
        Inl e \<Rightarrow> (Inl e, s)
      | Inr key \<Rightarrow> reply (resolve E now dto (lookup_context p key) s))"

definition Resolution_confirmRecipientByAddress ::
    "env \<Rightarrow> time \<Rightarrow> AuthenticatedPartner \<Rightarrow> string option \<Rightarrow> ConfirmRecipientDto \<Rightarrow> db \<Rightarrow> json ApiResponse result \<times> db" where
  "Resolution_confirmRecipientByAddress E now p idempotencyKey dto s =
     (case normalizeIdempotencyKey idempotencyKey of
        Inl e \<Rightarrow> (Inl e, s)
      | Inr key \<Rightarrow> reply (confirmAddress E now dto (lookup_context p key) s))"

definition Resolution_verifyDestination ::
    "env \<Rightarrow> time \<Rightarrow> AuthenticatedPartner \<Rightarrow> string option \<Rightarrow> VerifyDestinationDto \<Rightarrow> db \<Rightarrow> json ApiResponse result \<times> db" where
  "Resolution_verifyDestination E now p idempotencyKey dto s =
     (case normalizeIdempotencyKey idempotencyKey of
        Inl e \<Rightarrow> (Inl e, s)
      | Inr key \<Rightarrow> reply (verify E now dto (lookup_context p key) s))"

definition Resolution_verifyTransfer ::
    "env \<Rightarrow> time \<Rightarrow> AuthenticatedPartner \<Rightarrow> string option \<Rightarrow> VerifyDestinationDto \<Rightarrow> db \<Rightarrow> json ApiResponse result \<times> db" where
  "Resolution_verifyTransfer E now p idempotencyKey dto s =
     (case normalizeIdempotencyKey idempotencyKey of
        Inl e \<Rightarrow> (Inl e, s)
      | Inr key \<Rightarrow> reply (verify E now dto (lookup_context p key) s))"

definition Resolution_batchVerify ::
    "env \<Rightarrow> time \<Rightarrow> time \<Rightarrow> AuthenticatedPartner \<Rightarrow> BatchVerifyDto \<Rightarrow> db \<Rightarrow> BatchVerifyResponse ApiResponse result \<times> db" where
  "Resolution_batchVerify E now finished p dto s = reply (batchVerify E now finished dto (lookup_context p None) s)"

section \<open>An endpoint: the guard, then the handler\<close>

text \<open>
  The handler runs only when the guard lets the request pass, as the partner the guard attaches; the guard's own
  writes (when a token was last used) stay.
\<close>

definition partner_endpoint ::
    "env \<Rightarrow> time \<Rightarrow> route \<Rightarrow> (AuthenticatedPartner \<Rightarrow> db \<Rightarrow> 'a result \<times> db) \<Rightarrow> http_request \<Rightarrow> use_writes \<Rightarrow> db \<Rightarrow>
     'a result \<times> use_writes \<times> db" where
  "partner_endpoint E now r handler q w s =
     (case route_canActivate E now (rt_guard r) q w s of
        (Inr (Authenticated p), w', s') \<Rightarrow> (case handler p s' of (x, s'') \<Rightarrow> (x, w', s''))
      | (Inr _, w', s') \<Rightarrow> (Inl (InternalError ''Authenticated partner context was not attached to request.''), w', s')
      | (Inl e, w', s') \<Rightarrow> (Inl e, w', s'))"

definition operator_endpoint ::
    "env \<Rightarrow> time \<Rightarrow> route \<Rightarrow> (db \<Rightarrow> 'a result \<times> db) \<Rightarrow> http_request \<Rightarrow> use_writes \<Rightarrow> db \<Rightarrow> 'a result \<times> use_writes \<times> db" where
  "operator_endpoint E now r handler q w s =
     (case route_canActivate E now (rt_guard r) q w s of
        (Inr _, w', s') \<Rightarrow> (case handler s' of (x, s'') \<Rightarrow> (x, w', s''))
      | (Inl e, w', s') \<Rightarrow> (Inl e, w', s'))"

end
