(* ===== verification/Access_Matrix.thy ===== *)
theory Access_Matrix
  imports Route_Facts Dashboard_Nav Access_Facts Handlers
begin

text \<open>
  Who may call what: the routes with their guards, over the partners and users the guards attach.  Nothing but the
  three public handlers answers without a token; roles form a hierarchy; the administration of a team, its security
  settings and production access is for signed-in owners and administrators; and the navigation of the dashboard shows
  the pages whose requests the guards admit.
\<close>

section \<open>What a guard lets pass\<close>

definition admitted :: "AuthenticatedPartner \<Rightarrow> route \<Rightarrow> bool" where
  "admitted p r \<longleftrightarrow>
     (case rt_guard r of
        Partner_guard scopes policies \<Rightarrow>
          set (or_else scopes []) \<subseteq> set (ap_scopes p) \<and> (\<forall>policy \<in> set policies. allowed_by p policy)
      | _ \<Rightarrow> False)"

lemma canActivate_partner:
  assumes "scopes_ok s" and "route_canActivate E now (rt_guard r) q w s = (Inr (Authenticated p), w', s')"
  shows "admitted p r \<and> well_formed_actor p \<and>
    (\<exists>partner. partner_row s (ap_partnerId p) = Some partner \<and> pa_status partner = PartnerStatus_ACTIVE \<and> of_partner p partner)"
proof -
  obtain scopes policies secret where g: "rt_guard r = Partner_guard scopes policies"
    and a: "authenticatePartnerAccessToken E now secret (or_else scopes []) w s = (Inr p, w', s')"
    and b: "assertPartnerAccessPolicy p policies = Inr ()"
    using assms(2)
    by (auto simp: route_canActivate_def partner_canActivate_def split: route_guard.splits sum.splits prod.splits option.splits)
  from authenticated_shape [OF assms(1) a] b show ?thesis
    by (simp add: admitted_def g assertPolicies_iff)
qed

section \<open>Public routes\<close>

definition public_handlers :: "string list" where
  "public_handlers =
     [''HealthController.getHealth'', ''PartnerDashboardAuthController.login'',
      ''PartnerDashboardAuthController.acceptInvite'']"

definition guarded_route :: "route \<Rightarrow> bool" where
  "guarded_route r \<longleftrightarrow> rt_guard r \<noteq> No_guard \<or> rt_handler r \<in> set public_handlers"

lemma guarded_Audit_routes: "list_all guarded_route Audit_routes"
  by (simp add: Audit_routes_def route_defs guarded_route_def public_handlers_def)

lemma guarded_AuditExports_routes: "list_all guarded_route AuditExports_routes"
  by (simp add: AuditExports_routes_def route_defs guarded_route_def public_handlers_def)

lemma guarded_Health_routes: "list_all guarded_route Health_routes"
  by (simp add: Health_routes_def route_defs guarded_route_def public_handlers_def)

lemma guarded_DataFeedHealth_routes: "list_all guarded_route DataFeedHealth_routes"
  by (simp add: DataFeedHealth_routes_def route_defs guarded_route_def public_handlers_def)

lemma guarded_Overview_routes: "list_all guarded_route Overview_routes"
  by (simp add: Overview_routes_def route_defs guarded_route_def public_handlers_def)

lemma guarded_Platforms_routes: "list_all guarded_route Platforms_routes"
  by (simp add: Platforms_routes_def route_defs guarded_route_def public_handlers_def)

lemma guarded_PartnerAccount_routes: "list_all guarded_route PartnerAccount_routes"
  by (simp add: PartnerAccount_routes_def route_defs guarded_route_def public_handlers_def)

lemma guarded_PartnerDashboardAuth_routes: "list_all guarded_route PartnerDashboardAuth_routes"
  by (simp add: PartnerDashboardAuth_routes_def route_defs guarded_route_def public_handlers_def)

lemma guarded_Partners_routes: "list_all guarded_route Partners_routes"
  by (simp add: Partners_routes_def route_defs guarded_route_def public_handlers_def)

lemma guarded_Recipients_routes: "list_all guarded_route Recipients_routes"
  by (simp add: Recipients_routes_def route_defs guarded_route_def public_handlers_def)

lemma guarded_Destinations_routes: "list_all guarded_route Destinations_routes"
  by (simp add: Destinations_routes_def route_defs guarded_route_def public_handlers_def)

lemma guarded_WebhookOperations_routes: "list_all guarded_route WebhookOperations_routes"
  by (simp add: WebhookOperations_routes_def route_defs guarded_route_def public_handlers_def)

lemma guarded_Webhooks_routes: "list_all guarded_route Webhooks_routes"
  by (simp add: Webhooks_routes_def route_defs guarded_route_def public_handlers_def)

lemma guarded_Attestations_routes: "list_all guarded_route Attestations_routes"
  by (simp add: Attestations_routes_def route_defs guarded_route_def public_handlers_def)

lemma guarded_Resolution_routes: "list_all guarded_route Resolution_routes"
  by (simp add: Resolution_routes_def route_defs guarded_route_def public_handlers_def)

lemma routes_guarded: "r \<in> set routes \<Longrightarrow> guarded_route r"
  using guarded_Audit_routes guarded_AuditExports_routes guarded_Health_routes guarded_DataFeedHealth_routes
    guarded_Overview_routes guarded_Platforms_routes guarded_PartnerAccount_routes
    guarded_PartnerDashboardAuth_routes guarded_Partners_routes guarded_Recipients_routes
    guarded_Destinations_routes guarded_WebhookOperations_routes guarded_Webhooks_routes
    guarded_Attestations_routes guarded_Resolution_routes
  by (auto simp: routes_def list_all_iff)

text \<open>Nothing but the health check, signing in and accepting an invitation answers without a token.  A request
  that carries neither a bearer token nor the operator's token is refused with 401 by the guard of every other
  route, and nothing is written.\<close>

theorem no_token_no_access:
  assumes "r \<in> set routes" "rt_handler r \<notin> set public_handlers"
    and "bearer_token (hq_authorization q) = None" "hq_adminToken q = None"
  shows "\<exists>m. route_canActivate E now (rt_guard r) q w s = (Inl (Unauthorized m), w, s)"
  using routes_guarded [OF assms(1)] assms(2-4)
  by (auto simp: guarded_route_def route_canActivate_def admin_canActivate_def partner_canActivate_def split: route_guard.splits)

theorem no_token_no_access_witness:
  "\<exists>m. route_canActivate demo_env 0 (rt_guard route_Partners_createPartner)
      \<lparr>hq_method = POST, hq_path = ''/v1/partners'', hq_authorization = Some ''Bearer '', hq_adminToken = None\<rparr> no_writes empty_db =
    (Inl (Unauthorized m), no_writes, empty_db)"
proof (rule no_token_no_access)
  show "route_Partners_createPartner \<in> set routes" by (rule in_routes)
  show "rt_handler route_Partners_createPartner \<notin> set public_handlers"
    by (simp add: route_Partners_createPartner_def public_handlers_def)
  show "bearer_token (hq_authorization \<lparr>hq_method = POST, hq_path = ''/v1/partners'',
      hq_authorization = Some ''Bearer '', hq_adminToken = None\<rparr>) = None"
    by (simp add: bearer_token_def js_starts_with_def)
qed simp

section \<open>Roles\<close>

definition as_role :: "PartnerUserRole \<Rightarrow> AuthenticatedPartner \<Rightarrow> AuthenticatedPartner" where
  "as_role role p = p\<lparr>ap_partnerUserRole := Some role, ap_scopes := getPartnerUserScopes role\<rparr>"

definition at_least :: "PartnerUserRole \<Rightarrow> PartnerUserRole \<Rightarrow> bool" where
  "at_least high low \<longleftrightarrow> index_of high role_order \<le> index_of low role_order"

definition upward :: "PartnerAccessPolicyDefinition \<Rightarrow> bool" where
  "upward policy \<longleftrightarrow>
     (case po_partnerUserRoles policy of
        None \<Rightarrow> True
      | Some roles \<Rightarrow> (\<forall>low \<in> set roles. \<forall>high \<in> set role_order. at_least high low \<longrightarrow> high \<in> set roles))"

definition upward_route :: "route \<Rightarrow> bool" where
  "upward_route r \<longleftrightarrow>
     (case rt_guard r of Partner_guard scopes policies \<Rightarrow> list_all upward policies | _ \<Rightarrow> True)"

lemma upward_no_policy [simp]:
  "upward no_policy"
  "upward (policy\<lparr>po_actorTypes := a\<rparr>) = upward policy"
  "upward (policy\<lparr>po_allCapabilities := c\<rparr>) = upward policy"
  "upward (policy\<lparr>po_anyCapabilities := c\<rparr>) = upward policy"
  "upward (policy\<lparr>po_allPlanEntitlements := e\<rparr>) = upward policy"
  "upward (policy\<lparr>po_minOnboardingStage := m\<rparr>) = upward policy"
  "upward (policy\<lparr>po_requireOperationalEnvironment := b\<rparr>) = upward policy"
  by (simp_all add: upward_def no_policy_def)

lemma upward_roles [simp]:
  "upward (policy\<lparr>po_partnerUserRoles := Some [PartnerUserRole_OWNER]\<rparr>)"
  "upward (policy\<lparr>po_partnerUserRoles := Some [PartnerUserRole_OWNER, PartnerUserRole_ADMIN]\<rparr>)"
  "upward (policy\<lparr>po_partnerUserRoles :=
     Some [PartnerUserRole_OWNER, PartnerUserRole_ADMIN, PartnerUserRole_DEVELOPER]\<rparr>)"
  by (simp_all add: upward_def at_least_def role_order_def)

lemmas policy_defs =
  AuditExports_policy_def DataFeedHealth_policy_def Recipients_policy_def
  Destinations_policy_def Webhooks_policy_def Resolution_policy_def

lemma upward_Audit_routes: "list_all upward_route Audit_routes"
  by (simp add: Audit_routes_def route_defs upward_route_def policy_defs)

lemma upward_AuditExports_routes: "list_all upward_route AuditExports_routes"
  by (simp add: AuditExports_routes_def route_defs upward_route_def policy_defs)

lemma upward_Health_routes: "list_all upward_route Health_routes"
  by (simp add: Health_routes_def route_defs upward_route_def policy_defs)

lemma upward_DataFeedHealth_routes: "list_all upward_route DataFeedHealth_routes"
  by (simp add: DataFeedHealth_routes_def route_defs upward_route_def policy_defs)

lemma upward_Overview_routes: "list_all upward_route Overview_routes"
  by (simp add: Overview_routes_def route_defs upward_route_def policy_defs)

lemma upward_Platforms_routes: "list_all upward_route Platforms_routes"
  by (simp add: Platforms_routes_def route_defs upward_route_def policy_defs)

lemma upward_PartnerAccount_routes: "list_all upward_route PartnerAccount_routes"
  by (simp add: PartnerAccount_routes_def route_defs upward_route_def policy_defs)

lemma upward_PartnerDashboardAuth_routes: "list_all upward_route PartnerDashboardAuth_routes"
  by (simp add: PartnerDashboardAuth_routes_def route_defs upward_route_def policy_defs)

lemma upward_Partners_routes: "list_all upward_route Partners_routes"
  by (simp add: Partners_routes_def route_defs upward_route_def policy_defs)

lemma upward_Recipients_routes: "list_all upward_route Recipients_routes"
  by (simp add: Recipients_routes_def route_defs upward_route_def policy_defs)

lemma upward_Destinations_routes: "list_all upward_route Destinations_routes"
  by (simp add: Destinations_routes_def route_defs upward_route_def policy_defs)

lemma upward_WebhookOperations_routes: "list_all upward_route WebhookOperations_routes"
  by (simp add: WebhookOperations_routes_def route_defs upward_route_def policy_defs)

lemma upward_Webhooks_routes: "list_all upward_route Webhooks_routes"
  by (simp add: Webhooks_routes_def route_defs upward_route_def policy_defs)

lemma upward_Attestations_routes: "list_all upward_route Attestations_routes"
  by (simp add: Attestations_routes_def route_defs upward_route_def policy_defs)

lemma upward_Resolution_routes: "list_all upward_route Resolution_routes"
  by (simp add: Resolution_routes_def route_defs upward_route_def policy_defs)

lemma routes_upward: "r \<in> set routes \<Longrightarrow> upward_route r"
  using upward_Audit_routes upward_AuditExports_routes upward_Health_routes upward_DataFeedHealth_routes
    upward_Overview_routes upward_Platforms_routes upward_PartnerAccount_routes
    upward_PartnerDashboardAuth_routes upward_Partners_routes upward_Recipients_routes
    upward_Destinations_routes upward_WebhookOperations_routes upward_Webhooks_routes
    upward_Attestations_routes upward_Resolution_routes
  by (auto simp: routes_def list_all_iff)

lemma scopes_upward: "at_least high low \<Longrightarrow> set (getPartnerUserScopes low) \<subseteq> set (getPartnerUserScopes high)"
  by (cases high; cases low)
     (auto simp: at_least_def role_order_def ownerDashboardScopes_def adminDashboardScopes_def developerDashboardScopes_def
       analystDashboardScopes_def readOnlyDashboardScopes_def set_normalizeCredentialScopes)

lemma role_order_all: "role \<in> set role_order"
  by (cases role) (simp_all add: role_order_def)

lemma allowed_as_role:
  assumes "upward policy" "at_least high low" "allowed_by (as_role low p) policy"
  shows "allowed_by (as_role high p) policy"
proof -
  have "\<exists>role \<in> set roles. Some high = Some role"
    if "po_partnerUserRoles policy = Some roles" "ap_actorType p = PARTNER_USER" for roles
    using assms that role_order_all [of high] by (auto simp: allowed_by_def upward_def as_role_def)
  with assms(3) show ?thesis by (auto simp: allowed_by_def as_role_def)
qed

text \<open>The roles of a team form a hierarchy.  For any partner and any route of the backend, what a user may call in
  one role a user of the same partner may call in every role above it, from \<open>READ_ONLY\<close> over \<open>ANALYST\<close>,
  \<open>DEVELOPER\<close> and \<open>ADMIN\<close> to \<open>OWNER\<close>, with the scopes the service gives the roles.\<close>

theorem role_hierarchy:
  assumes "r \<in> set routes" "at_least high low" "admitted (as_role low p) r"
  shows "admitted (as_role high p) r"
proof (cases "rt_guard r")
  case (Partner_guard scopes policies)
  have up: "\<forall>policy \<in> set policies. upward policy"
    using routes_upward [OF assms(1)] by (simp add: upward_route_def Partner_guard list_all_iff)
  have "set (or_else scopes []) \<subseteq> set (ap_scopes (as_role high p))"
    using assms(3) scopes_upward [OF assms(2)] by (auto simp: admitted_def Partner_guard as_role_def)
  with up assms(3) show ?thesis
    using allowed_as_role [OF _ assms(2)] by (auto simp: admitted_def Partner_guard)
qed (use assms(3) in \<open>simp_all add: admitted_def\<close>)

theorem role_hierarchy_witness:
  "\<exists>p :: AuthenticatedPartner. admitted (as_role PartnerUserRole_OWNER p) route_PartnerAccount_listPartnerUsers \<and>
     \<not> admitted (as_role PartnerUserRole_DEVELOPER p) route_PartnerAccount_listPartnerUsers"
proof -
  fix p :: AuthenticatedPartner
  let ?p = "p\<lparr>ap_actorType := PARTNER_USER\<rparr>"
  have route: "route_PartnerAccount_listPartnerUsers \<in> set routes" by (rule in_routes)
  have "admitted (as_role PartnerUserRole_ADMIN ?p) route_PartnerAccount_listPartnerUsers"
    by (simp add: admitted_def as_role_def route_PartnerAccount_listPartnerUsers_def allowed_by_def no_policy_def
        adminDashboardScopes_def set_normalizeCredentialScopes credentialScopes_def)
  moreover have "at_least PartnerUserRole_OWNER PartnerUserRole_ADMIN" by (simp add: at_least_def role_order_def)
  ultimately have "admitted (as_role PartnerUserRole_OWNER ?p) route_PartnerAccount_listPartnerUsers"
    using role_hierarchy [OF route] by blast
  moreover have "\<not> admitted (as_role PartnerUserRole_DEVELOPER ?p) route_PartnerAccount_listPartnerUsers"
    by (simp add: admitted_def as_role_def route_PartnerAccount_listPartnerUsers_def allowed_by_def no_policy_def)
  ultimately show ?thesis by blast
qed

section \<open>Administration\<close>

text \<open>The routes that administer a partner: its team, its security settings, its production access and its exports.\<close>

definition administration :: "route list" where
  "administration =
     [route_PartnerAccount_listPartnerUsers, route_PartnerAccount_invitePartnerUser,
      route_PartnerAccount_updatePartnerUser, route_PartnerAccount_deactivatePartnerUser,
      route_PartnerAccount_getSecuritySettings, route_PartnerAccount_updateSecuritySettings,
      route_PartnerAccount_requestProductionApproval, route_PartnerAccount_cancelProductionApprovalRequest,
      route_AuditExports_listAuditExports, route_AuditExports_getAuditExport, route_AuditExports_createAuditExport]"

definition administrator :: "AuthenticatedPartner \<Rightarrow> bool" where
  "administrator p \<longleftrightarrow>
     ap_actorType p = PARTNER_USER \<and>
     (ap_partnerUserRole p = Some PartnerUserRole_OWNER \<or> ap_partnerUserRole p = Some PartnerUserRole_ADMIN)"

lemma administration_admitted:
  "list_all (\<lambda>r. (\<exists>scopes policies. rt_guard r = Partner_guard scopes policies) \<and> (admitted p r \<longrightarrow> administrator p)) administration"
  by (auto simp: administration_def admitted_def administrator_def allowed_by_def no_policy_def AuditExports_policy_def
      route_PartnerAccount_listPartnerUsers_def route_PartnerAccount_invitePartnerUser_def
      route_PartnerAccount_updatePartnerUser_def route_PartnerAccount_deactivatePartnerUser_def
      route_PartnerAccount_getSecuritySettings_def route_PartnerAccount_updateSecuritySettings_def
      route_PartnerAccount_requestProductionApproval_def route_PartnerAccount_cancelProductionApprovalRequest_def
      route_AuditExports_listAuditExports_def route_AuditExports_getAuditExport_def
      route_AuditExports_createAuditExport_def)

lemma security_settings_admitted:
  "admitted p route_PartnerAccount_updateSecuritySettings \<Longrightarrow> ap_partnerUserRole p = Some PartnerUserRole_OWNER"
  by (auto simp: admitted_def route_PartnerAccount_updateSecuritySettings_def allowed_by_def no_policy_def)

text \<open>C9: a partner is administered by its signed-in owners and administrators alone.  In every state the service
  reaches, whatever request the guard of an administrative route lets through comes from a dashboard user of an active
  partner who is its owner or an administrator, and the security settings are changed by an owner; API credentials,
  whatever their scopes, are refused.\<close>

theorem administration_by_administrators:
  assumes "access_run E s0 evs s" "scopes_ok s0"
    and "r \<in> set administration"
    and "route_canActivate E now (rt_guard r) q w s = (Inr c, w', s')"
  shows "\<exists>p partner. c = Authenticated p \<and> administrator p \<and>
    (r = route_PartnerAccount_updateSecuritySettings \<longrightarrow> ap_partnerUserRole p = Some PartnerUserRole_OWNER) \<and>
    partner_row s (ap_partnerId p) = Some partner \<and> pa_status partner = PartnerStatus_ACTIVE"
proof -
  obtain scopes policies where g: "rt_guard r = Partner_guard scopes policies"
    using administration_admitted assms(3) unfolding list_all_iff by blast
  then obtain p where c: "c = Authenticated p"
    using assms(4) by (auto simp: route_canActivate_def split: prod.splits sum.splits)
  have "scopes_ok s" by (rule scopes_ok_run [OF assms(1,2)])
  then have p: "admitted p r"
    "\<exists>partner. partner_row s (ap_partnerId p) = Some partner \<and> pa_status partner = PartnerStatus_ACTIVE \<and> of_partner p partner"
    using canActivate_partner assms(4) c by blast+
  then have "administrator p" using administration_admitted [of p] assms(3) by (auto simp: list_all_iff)
  then show ?thesis using c p security_settings_admitted by blast
qed

lemma acme_signed_in:
  obtains q evs s p w' s' where "access_run demo_env acme_team_db evs s"
    "route_canActivate demo_env 6 (rt_guard route_PartnerAccount_listPartnerUsers) q no_writes s = (Inr (Authenticated p), w', s')"
    "ap_partnerUserRole p = Some PartnerUserRole_OWNER"
proof -
  obtain v s1 where v: "loginDashboardUser demo_env 5 '' O@x.io'' ''correct horse'' acme_team_db = (Inr v, s1)"
    "partners s1 = [acme]" "DashboardUserView.dv_id (lg_user v) = ''u''" "partnerUsers s1 = [logged_in 5 acme_owner]" by (rule acme_login)
  obtain d u where d: "dashboardSessions s1 = [d]" "session_row demo_env 5 u (lg_accessToken v) d" "us_id u = ''u''"
    by (cases rule: login_cases [OF v(1)]) (use demo_token_contract demo_scrypt_contract v(3) in auto)
  have run: "access_run demo_env acme_team_db [Quiet] s1"
    by (rule access_run.step [OF access_step.login [OF v(1)] access_run.stop])
  have tok: "token_of demo_env dashboardSessionPrefix (lg_accessToken v) (se_keyPrefix d) (se_secretHash d)"
    using d(2) by (simp add: session_row_def)
  obtain r w' s' where auth:
    "authenticatePartnerAccessToken demo_env 6 (lg_accessToken v) [''team:read''] no_writes s1 = (r, w', s')"
    by (metis prod_cases3)
  have u: "List.find (\<lambda>u. us_id u = se_partnerUserId d) (partnerUsers s1) = Some (logged_in 5 acme_owner)"
    using d v(4) by (simp add: session_row_def logged_in_def acme_owner_def new_user_def)
  have "\<exists>p. r = Inr p"
    using authenticate_session(1) [OF tok _ refl u auth] d acme_active [OF v(2)]
    by (simp add: session_row_def logged_in_def acme_owner_def new_user_def user_active_def demo_env_def demo_config_def
        ownerDashboardScopes_def set_normalizeCredentialScopes credentialScopes_def)
  then obtain p where p: "r = Inr p" ..
  then have role: "ap_partnerUserRole p = Some PartnerUserRole_OWNER"
    using authenticate_session(2) [OF tok _ refl u auth] d(1) by (simp add: logged_in_def acme_owner_def new_user_def)
  have token: "lg_accessToken v = ''vds_r1.r2''"
  proof -
    have "normalizeUserEmail '' O@x.io'' = Inr ''o@x.io''" by code_simp
    moreover have "verifySecret demo_env ''correct horse'' (us_passwordHash acme_owner)"
      by (simp add: acme_owner_def new_user_def verify_own_secret demo_scrypt_contract)
    moreover have "user_active acme_owner" "us_email acme_owner = ''o@x.io''" "us_partnerId acme_owner = ''p''"
      by (simp_all add: acme_owner_def new_user_def user_active_def)
    ultimately have "\<exists>v' s'. loginDashboardUser demo_env 5 '' O@x.io'' ''correct horse'' acme_team_db = (Inr v', s') \<and>
        lg_accessToken v' = ''vds_r1.r2''"
      by (simp add: loginDashboardUser_def partner_row_def createDashboardSessionForPartnerUser_def fresh_def
          generateDashboardSessionToken_def generate_token_def insert_session_def logged_in_def Let_def show_nat_samples
          dashboardSessionPrefix_def)
    then show ?thesis using v(1) by simp
  qed
  have ok: "scopes_ok acme_team_db"
    by (simp add: scopes_ok_def acme_team_db_def acme_db_def empty_db_def user_scopes_ok_def invite_scopes_ok_def
        acme_owner_def acme_invite_def new_user_def)
  have shape: "well_formed_actor p"
    using authenticated_shape [OF scopes_ok_run [OF run ok] auth [unfolded p]] by blast
  have "administrator p"
    using shape role by (cases "ap_actorType p") (simp_all add: well_formed_actor_def administrator_def)
  then have "assertPartnerAccessPolicy p [no_policy\<lparr>po_actorTypes := Some [PARTNER_USER],
      po_partnerUserRoles := Some [PartnerUserRole_OWNER, PartnerUserRole_ADMIN]\<rparr>] = Inr ()"
    unfolding assertPolicies_iff by (auto simp: administrator_def allowed_by_def no_policy_def)
  moreover have "bearer_token (Some (''Bearer '' @ lg_accessToken v)) = Some (lg_accessToken v)"
    unfolding token by code_simp
  ultimately have "route_canActivate demo_env 6 (rt_guard route_PartnerAccount_listPartnerUsers)
      \<lparr>hq_method = GET, hq_path = [], hq_authorization = Some (''Bearer '' @ lg_accessToken v), hq_adminToken = None\<rparr>
      no_writes s1 = (Inr (Authenticated p), w', s')"
    using auth p by (simp add: route_canActivate_def partner_canActivate_def route_PartnerAccount_listPartnerUsers_def)
  from that [OF run this role] show thesis .
qed

theorem administration_by_administrators_witness:
  "\<exists>evs s q c w' s' p. access_run demo_env acme_team_db evs s \<and>
     route_canActivate demo_env 6 (rt_guard route_PartnerAccount_listPartnerUsers) q no_writes s = (Inr c, w', s') \<and>
     c = Authenticated p \<and> administrator p"
proof -
  obtain q evs s p w' s' where s: "access_run demo_env acme_team_db evs s"
    "route_canActivate demo_env 6 (rt_guard route_PartnerAccount_listPartnerUsers) q no_writes s = (Inr (Authenticated p), w', s')"
    by (rule acme_signed_in)
  have "scopes_ok acme_team_db"
    by (simp add: scopes_ok_def acme_team_db_def acme_db_def empty_db_def user_scopes_ok_def invite_scopes_ok_def
        acme_owner_def acme_invite_def new_user_def)
  moreover have "route_PartnerAccount_listPartnerUsers \<in> set administration" by (simp add: administration_def)
  ultimately show ?thesis using administration_by_administrators [OF s(1) _ _ s(2)] s by blast
qed

section \<open>What the dashboard shows\<close>

text \<open>The request a page of the navigation is for; the documentation and the sandbox need none of their own.\<close>

definition page_table :: "(NavigationItem \<times> route) list" where
  "page_table =
     [(nav_item ''/overview'' ''Overview'' Module_overview None, route_Overview_getOverview),
      (nav_item ''/access/plan-usage'' ''Plan & Usage'' Module_plan_usage (Some [''partners:read'']), route_PartnerAccount_getPartnerPlanUsage),
      (nav_item ''/data-feed-health'' ''Health'' Module_data_feed (Some [''partners:read'']), route_DataFeedHealth_getDataFeedHealth),
      (nav_item ''/resolution/by-recipient'' ''By Recipient'' Module_resolution (Some [''resolution:read'']), route_Resolution_resolveRecipientByRoute),
      (nav_item ''/resolution/by-address'' ''By Address'' Module_resolution (Some [''resolution:read'']), route_Resolution_confirmRecipientByAddress),
      (nav_item ''/resolution/verify-transfer'' ''Verify Transfer'' Module_resolution (Some [''resolution:read'']), route_Resolution_verifyTransfer),
      (nav_item ''/resolution/batch'' ''Batch Verify'' Module_batch_verification (Some [''resolution:batch'']), route_Resolution_batchVerify),
      (nav_item ''/resolution/logs'' ''Logs'' Module_resolution (Some [''resolution:read'']), route_Resolution_listResolutionLogs),
      (nav_item ''/recipients'' ''Recipients'' Module_registry (Some [''recipients:read'']), route_Recipients_listRecipients),
      (nav_item ''/destinations'' ''Destinations'' Module_registry (Some [''destinations:read'']), route_Destinations_listDestinations),
      (nav_item ''/attestations'' ''Attestations'' Module_registry (Some [''attestations:read'']), route_Attestations_listAttestations),
      (nav_item ''/webhooks'' ''Subscriptions'' Module_webhooks (Some [''webhooks:read'']), route_Webhooks_listWebhookEndpoints),
      (nav_item ''/webhooks/deliveries'' ''Deliveries'' Module_webhooks (Some [''webhooks:read'']), route_Webhooks_listWebhookDeliveries),
      (nav_item ''/access/api-keys'' ''API Keys'' Module_api_keys (Some [''partners:write'']), route_PartnerAccount_listApiCredentials),
      (nav_item ''/access/signing-keys'' ''Signing Keys'' Module_signing_keys (Some [''partners:write'']), route_PartnerAccount_listSigningKeys),
      (nav_item ''/access/team'' ''Team'' Module_team (Some [''team:read'']), route_PartnerAccount_listPartnerUsers),
      (nav_item ''/access/security'' ''Security'' Module_security (Some [''security:read'']), route_PartnerAccount_getSecuritySettings),
      (nav_item ''/audit/logs'' ''Audit Log'' Module_audit (Some [''audit:read'']), route_Audit_listAuditLogs),
      (nav_item ''/audit/exports'' ''Exports'' Module_audit_exports (Some [''audit:export'']), route_AuditExports_listAuditExports)]"

definition plain_pages :: "NavigationItem list" where
  "plain_pages =
     [nav_item ''/docs/quickstart'' ''Quickstart'' Module_docs None,
      nav_item ''/docs/api'' ''API Reference'' Module_docs None,
      nav_item ''/docs/webhooks'' ''Webhooks'' Module_docs None,
      nav_item ''/sandbox'' ''Sandbox'' Module_sandbox None]"

lemma navigation_pages: "concat (map snd navigationGroups) = map fst page_table @ plain_pages"
  by (simp add: navigationGroups_def page_table_def plain_pages_def)

lemmas page_route_defs =
  route_Overview_getOverview_def route_PartnerAccount_getPartnerPlanUsage_def
  route_DataFeedHealth_getDataFeedHealth_def route_Resolution_resolveRecipientByRoute_def
  route_Resolution_confirmRecipientByAddress_def route_Resolution_verifyTransfer_def
  route_Resolution_batchVerify_def route_Resolution_listResolutionLogs_def route_Recipients_listRecipients_def
  route_Destinations_listDestinations_def route_Attestations_listAttestations_def
  route_Webhooks_listWebhookEndpoints_def route_Webhooks_listWebhookDeliveries_def
  route_PartnerAccount_listApiCredentials_def route_PartnerAccount_listSigningKeys_def
  route_PartnerAccount_listPartnerUsers_def route_PartnerAccount_getSecuritySettings_def
  route_Audit_listAuditLogs_def route_AuditExports_listAuditExports_def

text \<open>The pages that look something up are closed to an organisation without an operational environment.\<close>

definition lookup_pages :: "string list" where
  "lookup_pages =
     [''/resolution/by-recipient'', ''/resolution/by-address'', ''/resolution/verify-transfer'', ''/resolution/batch'']"

definition page_open :: "PartnerProfile \<Rightarrow> string list \<Rightarrow> NavigationItem \<Rightarrow> bool" where
  "page_open profile sessionScopes item \<longleftrightarrow>
     visible_item profile sessionScopes item \<and>
     (ni_href item \<in> set lookup_pages \<longrightarrow> canRunOperationalResolution profile)"

lemma profile_of_partner:
  assumes "partner_row s (ap_partnerId p) = Some partner" "of_partner p partner" "getPartnerProfile E now p s = Inr profile"
  shows "cap_apiConsumerEnabled (pf_capabilities profile) = cap_apiConsumerEnabled (ap_partnerCapabilities p)"
    "cap_dataPartnerEnabled (pf_capabilities profile) = cap_dataPartnerEnabled (ap_partnerCapabilities p)"
    "cap_fullAttestationPartnerEnabled (pf_capabilities profile) = cap_fullAttestationPartnerEnabled (ap_partnerCapabilities p)"
    "cap_webhooksEnabled (pf_capabilities profile) = cap_webhooksEnabled (ap_partnerCapabilities p)"
    "cap_batchVerificationEnabled (pf_capabilities profile) = cap_batchVerificationEnabled (ap_partnerCapabilities p)"
    "cap_auditExportsEnabled (pf_capabilities profile) = cap_auditExportsEnabled (ap_partnerCapabilities p)"
    "cap_sandboxEnabled (pf_capabilities profile) = cap_sandboxEnabled (ap_partnerCapabilities p)"
    "cap_productionEnabled (pf_capabilities profile) = cap_productionEnabled (ap_partnerCapabilities p)"
    "pp_entitlements (bs_plan (pf_billing profile)) = ap_partnerPlanEntitlements p"
    "profile_scopes profile = ap_scopes p"
proof -
  have "getPartnerByIdOrThrow (ap_partnerId p) s = Inr partner"
    using assms(1) by (simp add: getPartnerByIdOrThrow_def partner_row_def)
  with assms(2,3) show
    "cap_apiConsumerEnabled (pf_capabilities profile) = cap_apiConsumerEnabled (ap_partnerCapabilities p)"
    "cap_dataPartnerEnabled (pf_capabilities profile) = cap_dataPartnerEnabled (ap_partnerCapabilities p)"
    "cap_fullAttestationPartnerEnabled (pf_capabilities profile) = cap_fullAttestationPartnerEnabled (ap_partnerCapabilities p)"
    "cap_webhooksEnabled (pf_capabilities profile) = cap_webhooksEnabled (ap_partnerCapabilities p)"
    "cap_batchVerificationEnabled (pf_capabilities profile) = cap_batchVerificationEnabled (ap_partnerCapabilities p)"
    "cap_auditExportsEnabled (pf_capabilities profile) = cap_auditExportsEnabled (ap_partnerCapabilities p)"
    "cap_sandboxEnabled (pf_capabilities profile) = cap_sandboxEnabled (ap_partnerCapabilities p)"
    "cap_productionEnabled (pf_capabilities profile) = cap_productionEnabled (ap_partnerCapabilities p)"
    "pp_entitlements (bs_plan (pf_billing profile)) = ap_partnerPlanEntitlements p"
    "profile_scopes profile = ap_scopes p"
    by (auto simp: getPartnerProfile_def Let_def of_partner_def AuthenticatedPartnerCapabilities.truncate_def
        buildPartnerBillingSummary_def getPartnerPricingPlanDefinition_def profile_scopes_def)
qed

lemma canAccessScope_iff: "canAccessScope held required \<longleftrightarrow> set required \<subseteq> set held"
  by (auto simp: canAccessScope_def list_all_iff)

text \<open>The scopes the pages ask for, by role.\<close>

lemma role_scopes:
  "''partners:read'' \<in> set (getPartnerUserScopes role)"
  "''resolution:read'' \<in> set (getPartnerUserScopes role)"
  "''recipients:read'' \<in> set (getPartnerUserScopes role)"
  "''destinations:read'' \<in> set (getPartnerUserScopes role)"
  "''attestations:read'' \<in> set (getPartnerUserScopes role)"
  "''webhooks:read'' \<in> set (getPartnerUserScopes role)"
  "''audit:read'' \<in> set (getPartnerUserScopes role)"
  "''partners:write'' \<in> set (getPartnerUserScopes role) \<longleftrightarrow>
     role \<in> {PartnerUserRole_OWNER, PartnerUserRole_ADMIN, PartnerUserRole_DEVELOPER}"
  "''team:read'' \<in> set (getPartnerUserScopes role) \<longleftrightarrow> role \<in> {PartnerUserRole_OWNER, PartnerUserRole_ADMIN}"
  "''security:read'' \<in> set (getPartnerUserScopes role) \<longleftrightarrow> role \<in> {PartnerUserRole_OWNER, PartnerUserRole_ADMIN}"
  "''audit:export'' \<in> set (getPartnerUserScopes role) \<longleftrightarrow> role \<in> {PartnerUserRole_OWNER, PartnerUserRole_ADMIN}"
  by (cases role;
      simp add: ownerDashboardScopes_def adminDashboardScopes_def developerDashboardScopes_def
        analystDashboardScopes_def readOnlyDashboardScopes_def set_normalizeCredentialScopes credentialScopes_def)+

lemma page_open_iff:
  assumes "partner_row s (ap_partnerId p) = Some partner" "of_partner p partner" "getPartnerProfile E now p s = Inr profile"
    and "ap_actorType p = PARTNER_USER" "ap_partnerUserRole p = Some role" "ap_scopes p = getPartnerUserScopes role"
  shows "list_all (\<lambda>(item, r). page_open profile (ap_scopes p) item \<longleftrightarrow> admitted p r) page_table"
  using assms(4-6) profile_of_partner [OF assms(1-3)]
  unfolding page_table_def list.pred_inject prod.case
  by (intro conjI TrueI;
      auto simp: nav_item_def page_open_def visible_item_def lookup_pages_def canRunOperationalResolution_def admitted_def
        allowed_by_def no_policy_def page_route_defs policy_defs canAccessScope_iff resolution_access_def
        isDataContributorEnabled_def role_scopes)

text \<open>C11: the navigation shows exactly what the backend serves.  For every signed-in user, of whatever role, partner and
  plan: a page of the dashboard's navigation is open to them (the item is shown, and a lookup page is not closed for
  want of an environment) exactly when the guard of the request that page is for admits them.\<close>

theorem navigation_shows_what_is_served:
  assumes "access_run E s0 evs s" "scopes_ok s0"
    and "route_canActivate E t (rt_guard (r0 :: route)) q w s = (Inr (Authenticated p), w', s')" "ap_actorType p = PARTNER_USER"
    and "getPartnerProfile E now p s = Inr profile"
    and "(item, r) \<in> set page_table"
  shows "page_open profile (ap_scopes p) item \<longleftrightarrow> admitted p r"
proof -
  obtain partner where p: "well_formed_actor p" "partner_row s (ap_partnerId p) = Some partner" "of_partner p partner"
    using canActivate_partner [OF scopes_ok_run [OF assms(1,2)] assms(3)] by blast
  obtain role where "ap_partnerUserRole p = Some role" "ap_scopes p = getPartnerUserScopes role"
    using p(1) assms(4) by (auto simp: well_formed_actor_def)
  from page_open_iff [OF p(2,3) assms(5,4) this] assms(6) show ?thesis by (auto simp: list_all_iff)
qed

theorem navigation_shows_what_is_served_witness:
  "\<exists>evs s q p w' s' profile. access_run demo_env acme_team_db evs s \<and>
     route_canActivate demo_env 6 (rt_guard route_PartnerAccount_listPartnerUsers) q no_writes s = (Inr (Authenticated p), w', s') \<and>
     getPartnerProfile demo_env 7 p s = Inr profile \<and>
     (page_open profile (ap_scopes p) (nav_item ''/access/team'' ''Team'' Module_team (Some [''team:read''])) \<longleftrightarrow>
        admitted p route_PartnerAccount_listPartnerUsers)"
proof -
  obtain q evs s p w' s' where s: "access_run demo_env acme_team_db evs s"
    "route_canActivate demo_env 6 (rt_guard route_PartnerAccount_listPartnerUsers) q no_writes s = (Inr (Authenticated p), w', s')"
    "ap_partnerUserRole p = Some PartnerUserRole_OWNER"
    by (rule acme_signed_in)
  have ok: "scopes_ok acme_team_db"
    by (simp add: scopes_ok_def acme_team_db_def acme_db_def empty_db_def user_scopes_ok_def invite_scopes_ok_def
        acme_owner_def acme_invite_def new_user_def)
  obtain partner where p: "well_formed_actor p" "partner_row s (ap_partnerId p) = Some partner"
    using canActivate_partner [OF scopes_ok_run [OF s(1) ok] s(2)] by blast
  then have user: "ap_actorType p = PARTNER_USER"
    using s(3) by (cases "ap_actorType p") (simp_all add: well_formed_actor_def)
  obtain profile where profile: "getPartnerProfile demo_env 7 p s = Inr profile"
    using p(2) by (simp add: getPartnerProfile_def Let_def getPartnerByIdOrThrow_def partner_row_def)
  let ?item = "nav_item ''/access/team'' ''Team'' Module_team (Some [''team:read''])"
  have "(?item, route_PartnerAccount_listPartnerUsers) \<in> set page_table" by (simp add: page_table_def)
  from navigation_shows_what_is_served [OF s(1) ok s(2) user profile this] s profile show ?thesis by blast
qed

text \<open>The dashboard's list of what a role may do is the backend's, up to one scope: a developer also holds
  \<open>partners:write\<close>, with which credentials and signing keys are managed.\<close>

theorem role_scopes_shown:
  "set (getPartnerUserScopes role) =
     set (roleDefaultScopes role) \<union> (if role = PartnerUserRole_DEVELOPER then {''partners:write''} else {})"
  by (cases role)
     (auto simp: ownerDashboardScopes_def adminDashboardScopes_def developerDashboardScopes_def
       analystDashboardScopes_def readOnlyDashboardScopes_def set_normalizeCredentialScopes credentialScopes_def
       credentialScopeOptions_def)

end
