(* ===== verification/Dashboard_Session.thy ===== *)
theory Dashboard_Session
  imports Dashboard_Client Secure_Fields
begin

text \<open>
  What the dashboard keeps in the browser, and how it reads what the browser sends: \<^verbatim>\<open>src/dashboard/src/lib\<close>
  with \<^verbatim>\<open>secure-cookie.ts\<close> (JSON sealed with AES-256-GCM), \<^verbatim>\<open>session.ts\<close> and \<^verbatim>\<open>flash.ts\<close> (the cookies), and
  \<^verbatim>\<open>form-input.ts\<close>, \<^verbatim>\<open>search-params.ts\<close>, \<^verbatim>\<open>dashboard-metadata.ts\<close> and the part of \<^verbatim>\<open>format.ts\<close> that does not depend on
  the platform's number and date formats.

  The primitives of \<^verbatim>\<open>node:crypto\<close> are those of the environment, with the \<open>base64url\<close> texts they are stored as;
  \<open>JSON.parse\<close> and \<open>Number.parseInt\<close> are fields of \<^verbatim>\<open>dashboard_env\<close>.
\<close>

record dashboard_env =
  dx_env :: env
  dx_sessionSecret :: "string option"
  dx_parseJson :: "string \<Rightarrow> json option"
  dx_parseInt :: "string \<Rightarrow> int option"

section \<open>Sealed cookies\<close>

definition getSessionKey :: "dashboard_env \<Rightarrow> string result" where
  "getSessionKey D =
     (case dx_sessionSecret D of
        None \<Rightarrow> Inl (JsError ''DASHBOARD_SESSION_SECRET must be set to at least 32 characters.'')
      | Some secret \<Rightarrow>
          (if length (js_trim secret) < 32
           then Inl (JsError ''DASHBOARD_SESSION_SECRET must be set to at least 32 characters.'')
           else Inr (sha256_hex (dx_env D) (js_trim secret))))"

text \<open>\<open>n\<close> selects the random nonce.\<close>

definition sealCookiePayload :: "dashboard_env \<Rightarrow> nat \<Rightarrow> json \<Rightarrow> string result" where
  "sealCookiePayload D n payload =
     (case getSessionKey D of
        Inl e \<Rightarrow> Inl e
      | Inr sessionKey \<Rightarrow>
          let iv = randomIv (dx_env D) n;
              (authTag, ciphertext) = gcm_encrypt (dx_env D) sessionKey iv (json_stringify payload)
          in Inr (join_with ''.'' [iv, authTag, ciphertext]))"

definition unsealCookiePayload :: "dashboard_env \<Rightarrow> string \<Rightarrow> (json \<Rightarrow> bool) \<Rightarrow> json option" where
  "unsealCookiePayload D sealedPayload guard =
     (case take 3 (split_on (CHR ''.'') sealedPayload) of
        [ivPart, authTagPart, ciphertextPart] \<Rightarrow>
          (if ivPart = [] \<or> authTagPart = [] \<or> ciphertextPart = [] then None
           else case getSessionKey D of
             Inl e \<Rightarrow> None
           | Inr sessionKey \<Rightarrow>
               (case gcm_decrypt (dx_env D) sessionKey ivPart authTagPart ciphertextPart of
                  None \<Rightarrow> None
                | Some plaintext \<Rightarrow>
                    (case dx_parseJson D plaintext of
                       None \<Rightarrow> None
                     | Some parsedValue \<Rightarrow> (if guard parsedValue then Some parsedValue else None))))
      | _ \<Rightarrow> None)"

section \<open>The cookie jar\<close>

text \<open>The cookies by name, and how many nonces were drawn.\<close>

record cookie_jar =
  ck_cookies :: "string \<Rightarrow> string option"
  ck_drawn :: nat

definition set_cookie :: "dashboard_env \<Rightarrow> string \<Rightarrow> json \<Rightarrow> cookie_jar \<Rightarrow> cookie_jar result" where
  "set_cookie D name payload jar =
     (case sealCookiePayload D (ck_drawn jar) payload of
        Inl e \<Rightarrow> Inl e
      | Inr text \<Rightarrow> Inr \<lparr>ck_cookies = (ck_cookies jar)(name \<mapsto> text), ck_drawn = Suc (ck_drawn jar)\<rparr>)"

definition delete_cookie :: "string \<Rightarrow> cookie_jar \<Rightarrow> cookie_jar" where
  "delete_cookie name jar = jar\<lparr>ck_cookies := (ck_cookies jar)(name := None)\<rparr>"

definition read_cookie :: "dashboard_env \<Rightarrow> string \<Rightarrow> (json \<Rightarrow> bool) \<Rightarrow> cookie_jar \<Rightarrow> json option" where
  "read_cookie D name guard jar =
     (if falsy (ck_cookies jar name) then None
      else unsealCookiePayload D (or_else (ck_cookies jar name) []) guard)"

section \<open>Sessions\<close>

definition sessionCookieName :: string where "sessionCookieName = ''vervet_dashboard_session''"
definition adminSessionCookieName :: string where "adminSessionCookieName = ''vervet_dashboard_admin_session''"
definition flashCookieName :: string where "flashCookieName = ''vervet_dashboard_flash''"

definition non_empty_text :: "json \<Rightarrow> string \<Rightarrow> bool" where
  "non_empty_text v k \<longleftrightarrow> (case j_get v k of Some (JStr s) \<Rightarrow> s \<noteq> [] | _ \<Rightarrow> False)"

definition is_text :: "json \<Rightarrow> bool" where
  "is_text v \<longleftrightarrow> (case v of JStr s \<Rightarrow> True | _ \<Rightarrow> False)"

definition isDashboardSession :: "json \<Rightarrow> bool" where
  "isDashboardSession v \<longleftrightarrow>
     list_all (non_empty_text v)
       [''accessToken'', ''expiresAt'', ''partnerDisplayName'', ''partnerSlug'', ''userEmail'', ''userFullName'', ''userRole''] \<and>
     (case j_get v ''scopes'' of Some (JArr scopes) \<Rightarrow> list_all is_text scopes | _ \<Rightarrow> False)"

definition isAdminSetupSession :: "json \<Rightarrow> bool" where
  "isAdminSetupSession v \<longleftrightarrow> non_empty_text v ''adminToken''"

definition session_text :: "json \<Rightarrow> string \<Rightarrow> string" where
  "session_text v k = (case j_get v k of Some (JStr s) \<Rightarrow> s | _ \<Rightarrow> [])"

definition getDashboardSession :: "dashboard_env \<Rightarrow> cookie_jar \<Rightarrow> json option" where
  "getDashboardSession D jar = read_cookie D sessionCookieName isDashboardSession jar"

definition getAdminSetupSession :: "dashboard_env \<Rightarrow> cookie_jar \<Rightarrow> json option" where
  "getAdminSetupSession D jar = read_cookie D adminSessionCookieName isAdminSetupSession jar"

text \<open>The session, or the redirect to the entry page.\<close>

definition requireDashboardSession :: "dashboard_env \<Rightarrow> cookie_jar \<Rightarrow> string + json" where
  "requireDashboardSession D jar = (case getDashboardSession D jar of None \<Rightarrow> Inl ''/'' | Some session \<Rightarrow> Inr session)"

definition setDashboardSession :: "dashboard_env \<Rightarrow> json \<Rightarrow> cookie_jar \<Rightarrow> cookie_jar result" where
  "setDashboardSession D session jar = set_cookie D sessionCookieName session jar"

definition setAdminSetupSession :: "dashboard_env \<Rightarrow> json \<Rightarrow> cookie_jar \<Rightarrow> cookie_jar result" where
  "setAdminSetupSession D session jar = set_cookie D adminSessionCookieName session jar"

definition clearDashboardSession :: "cookie_jar \<Rightarrow> cookie_jar" where
  "clearDashboardSession jar = delete_cookie sessionCookieName jar"

definition clearAdminSetupSession :: "cookie_jar \<Rightarrow> cookie_jar" where
  "clearAdminSetupSession jar = delete_cookie adminSessionCookieName jar"

section \<open>Flash messages\<close>

record dashboard_flash =
  fw_success :: bool
  fw_title :: string
  fw_message :: string
  fw_secret :: "(string \<times> string option) option"

text \<open>A missing secret value is \<open>undefined\<close>, which \<open>JSON.stringify\<close> drops.\<close>

definition flash_json :: "dashboard_flash \<Rightarrow> json" where
  "flash_json f = JObj
     ([(''level'', JStr (if fw_success f then ''success'' else ''error'')),
       (''title'', JStr (fw_title f)), (''message'', JStr (fw_message f))] @
      (case fw_secret f of
         None \<Rightarrow> []
       | Some (label, v) \<Rightarrow>
           (''secretLabel'', JStr label) # (case v of None \<Rightarrow> [] | Some s \<Rightarrow> [(''secretValue'', JStr s)])))"

definition isDashboardFlash :: "json \<Rightarrow> bool" where
  "isDashboardFlash v \<longleftrightarrow>
     (j_get v ''level'' = Some (JStr ''success'') \<or> j_get v ''level'' = Some (JStr ''error'')) \<and>
     non_empty_text v ''title'' \<and> non_empty_text v ''message'' \<and>
     (case j_get v ''secretLabel'' of None \<Rightarrow> True | Some l \<Rightarrow> is_text l) \<and>
     (case j_get v ''secretValue'' of None \<Rightarrow> True | Some l \<Rightarrow> is_text l)"

definition setDashboardFlash :: "dashboard_env \<Rightarrow> dashboard_flash \<Rightarrow> cookie_jar \<Rightarrow> cookie_jar result" where
  "setDashboardFlash D f jar = set_cookie D flashCookieName (flash_json f) jar"

definition clearDashboardFlash :: "cookie_jar \<Rightarrow> cookie_jar" where
  "clearDashboardFlash jar = delete_cookie flashCookieName jar"

definition consumeDashboardFlash :: "dashboard_env \<Rightarrow> cookie_jar \<Rightarrow> json option" where
  "consumeDashboardFlash D jar = read_cookie D flashCookieName isDashboardFlash jar"

section \<open>Forms\<close>

datatype form_value = Text string | File

type_synonym form = "(string \<times> form_value) list"

definition form_get :: "form \<Rightarrow> string \<Rightarrow> form_value option" where
  "form_get f k = map_of f k"

definition form_get_all :: "form \<Rightarrow> string \<Rightarrow> form_value list" where
  "form_get_all f k = map snd (filter (\<lambda>(n, v). n = k) f)"

definition readRequiredTextField :: "form_value option \<Rightarrow> string option" where
  "readRequiredTextField v =
     (case v of Some (Text s) \<Rightarrow> (if length (js_trim s) = 0 then None else Some (js_trim s)) | _ \<Rightarrow> None)"

definition readOptionalTextField :: "form_value option \<Rightarrow> string option" where
  "readOptionalTextField v =
     (case v of Some (Text s) \<Rightarrow> (if length (js_trim s) = 0 then None else Some (js_trim s)) | _ \<Rightarrow> None)"

definition readCheckboxField :: "form_value option \<Rightarrow> bool" where
  "readCheckboxField v \<longleftrightarrow> v = Some (Text ''on'') \<or> v = Some (Text ''true'')"

text \<open>\<open>string | null | undefined\<close>.\<close>

datatype iso_field = Iso_text string | Iso_null | Iso_undefined

definition readIsoDateTimeField :: "dashboard_env \<Rightarrow> form_value option \<Rightarrow> bool \<Rightarrow> iso_field" where
  "readIsoDateTimeField D v required =
     (case v of
        Some (Text s) \<Rightarrow>
          (if length (js_trim s) = 0 then (if required then Iso_null else Iso_undefined)
           else case parseDate (dx_env D) s of None \<Rightarrow> Iso_null | Some t \<Rightarrow> Iso_text (toISOString t))
      | _ \<Rightarrow> (if required then Iso_null else Iso_undefined))"

definition isCredentialScopeValue :: "form_value \<Rightarrow> bool" where
  "isCredentialScopeValue v \<longleftrightarrow> (case v of Text s \<Rightarrow> length (js_trim s) > 0 | File \<Rightarrow> False)"

definition isSigningKeyAlgorithmValue :: "form_value option \<Rightarrow> bool" where
  "isSigningKeyAlgorithmValue v \<longleftrightarrow> (case v of Some (Text s) \<Rightarrow> length (js_trim s) > 0 | _ \<Rightarrow> False)"

definition readRequiredEnumField :: "form_value option \<Rightarrow> string option" where
  "readRequiredEnumField v =
     (case v of Some (Text s) \<Rightarrow> (if length (js_trim s) = 0 then None else Some (js_trim s)) | _ \<Rightarrow> None)"

definition readOptionalEnumField :: "form_value option \<Rightarrow> string option" where
  "readOptionalEnumField v =
     (case v of Some (Text s) \<Rightarrow> (if length (js_trim s) = 0 then None else Some (js_trim s)) | _ \<Rightarrow> None)"

section \<open>Search parameters\<close>

datatype search_param = One_value string | Many_values "string list"

definition readSearchParam :: "search_param option \<Rightarrow> string option" where
  "readSearchParam v =
     (case v of Some (One_value s) \<Rightarrow> (if length (js_trim s) > 0 then Some (js_trim s) else None) | _ \<Rightarrow> None)"

definition readSearchParamArray :: "search_param option \<Rightarrow> string list" where
  "readSearchParamArray v =
     (case v of
        Some (One_value s) \<Rightarrow> (if length (js_trim s) > 0 then [js_trim s] else [])
      | Some (Many_values xs) \<Rightarrow> map js_trim (filter (\<lambda>x. length (js_trim x) > 0) xs)
      | None \<Rightarrow> [])"

definition readPositiveIntParam :: "dashboard_env \<Rightarrow> search_param option \<Rightarrow> int \<Rightarrow> int" where
  "readPositiveIntParam D v fallback =
     (case dx_parseInt D (or_else (readSearchParam v) []) of
        None \<Rightarrow> fallback
      | Some n \<Rightarrow> (if n \<le> 0 then fallback else n))"

section \<open>Options of the forms\<close>

record select_option =
  so_label :: string
  so_value :: string

fun dedupe_from :: "string list \<Rightarrow> select_option list \<Rightarrow> select_option list" where
  "dedupe_from seen [] = []"
| "dedupe_from seen (x # xs) =
     (if List.member seen (so_value x) then dedupe_from seen xs
      else x # dedupe_from (so_value x # seen) xs)"

definition dedupeOptions :: "select_option list \<Rightarrow> select_option list" where
  "dedupeOptions options = dedupe_from [] options"

definition buildChainOptions :: "corridor list \<Rightarrow> select_option list" where
  "buildChainOptions networks =
     dedupeOptions (map (\<lambda>(n, a, c). \<lparr>so_label = ch_displayName c, so_value = ch_slug c\<rparr>) networks)"

definition buildAssetOptions :: "corridor list \<Rightarrow> select_option list" where
  "buildAssetOptions networks =
     dedupeOptions (map (\<lambda>(n, a, c). \<lparr>so_label = as_symbol a, so_value = as_symbol a\<rparr>) networks)"

definition preferred_option :: "select_option list \<Rightarrow> string option \<Rightarrow> string" where
  "preferred_option options preferred =
     (if \<not> falsy preferred \<and> list_ex (\<lambda>x. so_value x = or_else preferred []) options then or_else preferred []
      else (case options of [] \<Rightarrow> [] | x # _ \<Rightarrow> so_value x))"

definition resolveDefaultChain :: "corridor list \<Rightarrow> string option \<Rightarrow> string" where
  "resolveDefaultChain networks preferredChain = preferred_option (buildChainOptions networks) preferredChain"

definition resolveDefaultAsset :: "corridor list \<Rightarrow> string option \<Rightarrow> string" where
  "resolveDefaultAsset networks preferredAsset = preferred_option (buildAssetOptions networks) preferredAsset"

definition metadata_describeOnboardingAction :: "(string \<times> string) list option \<Rightarrow> string option \<Rightarrow> string" where
  "metadata_describeOnboardingAction actionLabels action =
     (if falsy action then ''Review workspace readiness''
      else or_else (Option.bind actionLabels (\<lambda>ls. map_of ls (or_else action []))) ''Review workspace readiness'')"

definition metadata_describeProductionApprovalBlockedReason :: "(string \<times> string) list option \<Rightarrow> string option \<Rightarrow> string" where
  "metadata_describeProductionApprovalBlockedReason descriptions blockedReason =
     (if falsy blockedReason then ''Review readiness requirements before requesting production approval.''
      else or_else (Option.bind descriptions (\<lambda>ds. map_of ds (or_else blockedReason [])))
        ''Review readiness requirements before requesting production approval.'')"

definition readAllowedOption :: "string option \<Rightarrow> string list \<Rightarrow> string option" where
  "readAllowedOption v options =
     (if \<not> falsy v \<and> List.member options (or_else v []) then v else None)"

definition findOnboardingTaskDefinition :: "(string \<times> OnboardingAction) list option \<Rightarrow> string option \<Rightarrow> (string \<times> OnboardingAction) option" where
  "findOnboardingTaskDefinition taskDefinitions key =
     (if falsy key then None
      else Option.bind taskDefinitions (List.find (\<lambda>(k, d). k = or_else key [])))"

section \<open>Formatting\<close>

definition summarizeMetadata :: "json option \<Rightarrow> string" where
  "summarizeMetadata v =
     (if v = None \<or> v = Some JNull then ''No metadata''
      else let serializedValue = json_stringify (or_else v JNull) in
        (if length serializedValue \<le> 120 then serializedValue else take 117 serializedValue @ ''...''))"

definition truncateMiddle :: "string option \<Rightarrow> nat \<Rightarrow> string" where
  "truncateMiddle v visibleCharacters =
     (if falsy v then ''Not available''
      else let s = or_else v [] in
        (if length s \<le> visibleCharacters * 2 + 3 then s
         else take visibleCharacters s @ ''...'' @
           (if visibleCharacters = 0 then s else drop (length s - visibleCharacters) s)))"

definition capitalize :: "string \<Rightarrow> string" where
  "capitalize s = js_upper (take 1 s) @ drop 1 s"

definition formatConstantLabel :: "string \<Rightarrow> string" where
  "formatConstantLabel v = join_with '' '' (map capitalize (split_on (CHR ''_'') (js_lower v)))"

definition formatResolutionQueryType :: "string \<Rightarrow> string" where
  "formatResolutionQueryType v =
     (if v = ''RESOLVE'' then ''By Recipient''
      else if v = ''CONFIRM_ADDRESS'' then ''By Address''
      else if v = ''VERIFY_ADDRESS'' then ''Verify Transfer''
      else if v = ''BATCH_VERIFY'' then ''Batch Verify''
      else formatConstantLabel v)"

definition formatDisclosureMode :: "string \<Rightarrow> string" where
  "formatDisclosureMode v =
     (if v = ''FULL_LABEL'' then ''Full Label''
      else if v = ''MASKED_LABEL'' then ''Masked Label''
      else if v = ''VERIFICATION_ONLY'' then ''Verification Only''
      else formatConstantLabel v)"

text \<open>A date that does not parse is \<open>NaN\<close>, with which every comparison fails.\<close>

definition expiresWithinDays :: "dashboard_env \<Rightarrow> time \<Rightarrow> string option \<Rightarrow> int \<Rightarrow> bool" where
  "expiresWithinDays D now v days \<longleftrightarrow>
     \<not> falsy v \<and>
     (case parseDate (dx_env D) (or_else v []) of
        None \<Rightarrow> False
      | Some expiresAtMs \<Rightarrow> expiresAtMs - now \<le> days * 24 * 60 * 60 * 1000)"

definition isOlderThanDays :: "dashboard_env \<Rightarrow> time \<Rightarrow> string option \<Rightarrow> int \<Rightarrow> bool" where
  "isOlderThanDays D now v days \<longleftrightarrow>
     falsy v \<or>
     (case parseDate (dx_env D) (or_else v []) of
        None \<Rightarrow> False
      | Some updatedAtMs \<Rightarrow> now - updatedAtMs > days * 24 * 60 * 60 * 1000)"

section \<open>What is sealed is read back\<close>

text \<open>
  What Node's AES-GCM and \<open>base64url\<close> promise: decryption inverts encryption, the encoded texts are not empty and
  have no dot; and, of a value, that \<open>JSON.parse\<close> inverts \<open>JSON.stringify\<close>.
\<close>

definition cookie_contract :: "dashboard_env \<Rightarrow> bool" where
  "cookie_contract D \<longleftrightarrow>
     (\<forall>k n v. let (tag, c) = gcm_encrypt (dx_env D) k (randomIv (dx_env D) n) v in
        gcm_decrypt (dx_env D) k (randomIv (dx_env D) n) tag c = Some v \<and>
        tag \<noteq> [] \<and> CHR ''.'' \<notin> set tag \<and> CHR ''.'' \<notin> set c \<and> (v \<noteq> [] \<longrightarrow> c \<noteq> [])) \<and>
     (\<forall>n. randomIv (dx_env D) n \<noteq> [] \<and> CHR ''.'' \<notin> set (randomIv (dx_env D) n))"

definition parsed_back :: "dashboard_env \<Rightarrow> json \<Rightarrow> bool" where
  "parsed_back D v \<longleftrightarrow> dx_parseJson D (json_stringify v) = Some v"

lemma json_stringify_nonempty: "json_stringify v \<noteq> []"
proof (cases v)
  case (JNum n)
  have "show_nat k \<noteq> []" for k by (subst show_nat.simps) simp
  then show ?thesis by (simp add: JNum show_int_def)
qed (simp_all add: json_string_def)

lemma unseal_seal:
  assumes "cookie_contract D" "sealCookiePayload D n v = Inr sealed" "parsed_back D v" "guard v"
  shows "unsealCookiePayload D sealed guard = Some v \<and> sealed \<noteq> []"
proof -
  obtain key where key: "getSessionKey D = Inr key"
    using assms(2) by (auto simp: sealCookiePayload_def split: sum.splits)
  let ?iv = "randomIv (dx_env D) n"
  obtain tag c where e: "gcm_encrypt (dx_env D) key ?iv (json_stringify v) = (tag, c)"
    by (cases "gcm_encrypt (dx_env D) key ?iv (json_stringify v)")
  have f: "gcm_decrypt (dx_env D) key ?iv tag c = Some (json_stringify v)" "tag \<noteq> []" "c \<noteq> []"
    "CHR ''.'' \<notin> set tag" "CHR ''.'' \<notin> set c" "?iv \<noteq> []" "CHR ''.'' \<notin> set ?iv"
    using assms(1) [unfolded cookie_contract_def, THEN conjunct1, rule_format, of key n "json_stringify v"]
      assms(1) [unfolded cookie_contract_def, THEN conjunct2] e json_stringify_nonempty [of v] by auto
  have sealed: "sealed = join_with ''.'' [?iv, tag, c]"
    using assms(2) by (simp add: sealCookiePayload_def key e Let_def)
  have "split_on (CHR ''.'') (join_with [CHR ''.''] [?iv, tag, c]) = [?iv, tag, c]"
    by (rule split_on_join) (use f in auto)
  with f assms(3,4) sealed key show ?thesis by (simp add: unsealCookiePayload_def parsed_back_def)
qed

text \<open>A cookie that was set is read back as long as its guard holds of it; setting another leaves it as it is.\<close>

lemma read_set_cookie:
  assumes "cookie_contract D" "set_cookie D name v jar = Inr jar'"
  shows "parsed_back D v \<Longrightarrow> guard v \<Longrightarrow> read_cookie D name guard jar' = Some v"
    and "other \<noteq> name \<Longrightarrow> read_cookie D other guard jar' = read_cookie D other guard jar"
proof -
  obtain sealed where t: "sealCookiePayload D (ck_drawn jar) v = Inr sealed"
    "jar' = \<lparr>ck_cookies = (ck_cookies jar)(name \<mapsto> sealed), ck_drawn = Suc (ck_drawn jar)\<rparr>"
    using assms(2) by (auto simp: set_cookie_def split: sum.splits)
  show "parsed_back D v \<Longrightarrow> guard v \<Longrightarrow> read_cookie D name guard jar' = Some v"
    using unseal_seal [OF assms(1) t(1)] t(2) by (simp add: read_cookie_def falsy_def)
  show "other \<noteq> name \<Longrightarrow> read_cookie D other guard jar' = read_cookie D other guard jar"
    using t(2) by (simp add: read_cookie_def)
qed

lemma read_delete_cookie:
  "read_cookie D name guard (delete_cookie name jar) = None"
  "other \<noteq> name \<Longrightarrow> read_cookie D other guard (delete_cookie name jar) = read_cookie D other guard jar"
  by (simp_all add: read_cookie_def delete_cookie_def falsy_def)

lemma cookie_names [simp]:
  "sessionCookieName \<noteq> adminSessionCookieName" "sessionCookieName \<noteq> flashCookieName"
  "adminSessionCookieName \<noteq> flashCookieName" "adminSessionCookieName \<noteq> sessionCookieName"
  "flashCookieName \<noteq> sessionCookieName" "flashCookieName \<noteq> adminSessionCookieName"
  by (simp_all add: sessionCookieName_def adminSessionCookieName_def flashCookieName_def)

lemma set_cookie_succeeds:
  "getSessionKey D = Inr k \<Longrightarrow> \<exists>jar'. set_cookie D name v jar = Inr jar'"
  by (simp add: set_cookie_def sealCookiePayload_def Let_def split: prod.splits)

text \<open>A dashboard for the examples, whose \<open>JSON.parse\<close> knows the one text it is given.\<close>

definition demo_dashboard :: "json \<Rightarrow> dashboard_env" where
  "demo_dashboard v =
     \<lparr>dx_env = demo_env, dx_sessionSecret = Some ''0123456789abcdef0123456789abcdef'',
      dx_parseJson = (\<lambda>s. if s = json_stringify v then Some v else None), dx_parseInt = parseInt\<rparr>"

lemma demo_encode_no_dot: "CHR ''.'' \<notin> set (demo_encode v)"
proof -
  have "CHR ''.'' \<noteq> hex_digit n" if "n < 16" for n
  proof
    assume "CHR ''.'' = hex_digit n"
    then have "hex_value (CHR ''.'') = Some n" using hex_value_digit [OF that] by simp
    then show False by (simp add: hex_value_def)
  qed
  then show ?thesis
    by (auto simp: demo_encode_def to_hex_def less_mult_imp_div_less)
qed

lemma demo_dashboard_contract: "cookie_contract (demo_dashboard v)"
  by (simp add: cookie_contract_def demo_dashboard_def demo_env_def demo_decode_encode demo_encode_no_dot demo_encode_Nil)

lemma demo_dashboard_facts: "parsed_back (demo_dashboard v) v" "\<exists>k. getSessionKey (demo_dashboard v) = Inr k"
proof -
  have "length (js_trim ''0123456789abcdef0123456789abcdef'') = 32" by code_simp
  then show "parsed_back (demo_dashboard v) v" "\<exists>k. getSessionKey (demo_dashboard v) = Inr k"
    by (simp_all add: parsed_back_def demo_dashboard_def getSessionKey_def)
qed

end
