(* ===== verification/Dashboard_Actions.thy ===== *)
theory Dashboard_Actions
  imports Dashboard_Session
begin

text \<open>
  The form handlers of the dashboard: \<^verbatim>\<open>src/dashboard/src/app/*/actions/*/route.ts\<close> and \<^verbatim>\<open>session-actions.ts\<close>.  A
  handler reads the session cookie, reads its form, calls the backend, leaves a flash message and redirects.  What it
  makes of the form is its plan: to refuse, with a message, or to make a call; \<^verbatim>\<open>partner_action\<close> and \<^verbatim>\<open>admin_action\<close>
  are what all handlers of one kind do around it.  A location is relative to the request's URL.

  The backend is the argument \<^verbatim>\<open>xe_send\<close>; an exception that leaves a handler (the cookie secret is not configured) is
  the left of its result.
\<close>

section \<open>Handlers\<close>

record action_env =
  xe_dashboard :: dashboard_env
  xe_resolveUrl :: "string \<Rightarrow> string \<Rightarrow> string"
  xe_urls :: "string option \<times> string option"
  xe_send :: "sent_request \<Rightarrow> string + http_response"

datatype form_plan =
    Refuse dashboard_flash built_url
  | Submit client_request "json option \<Rightarrow> dashboard_error + dashboard_flash" string built_url

definition to_page :: "string \<Rightarrow> built_url" where
  "to_page path = \<lparr>built_url.bu_href = path, bu_search = []\<rparr>"

definition buildSetupRedirectUrl :: "string option \<Rightarrow> built_url" where
  "buildSetupRedirectUrl partnerSlug =
     \<lparr>built_url.bu_href = ''/setup'',
      bu_search = (if falsy partnerSlug then [] else [(''partnerSlug'', or_else partnerSlug [])])\<rparr>"

definition flash_success :: "string \<Rightarrow> string \<Rightarrow> dashboard_flash" where
  "flash_success title message = \<lparr>fw_success = True, fw_title = title, fw_message = message, fw_secret = None\<rparr>"

definition flash_error :: "string \<Rightarrow> string \<Rightarrow> dashboard_flash" where
  "flash_error title message = \<lparr>fw_success = False, fw_title = title, fw_message = message, fw_secret = None\<rparr>"

definition with_secret :: "string \<Rightarrow> string option \<Rightarrow> dashboard_flash \<Rightarrow> dashboard_flash" where
  "with_secret label v f = f\<lparr>fw_secret := Some (label, v)\<rparr>"

definition call_backend :: "action_env \<Rightarrow> client_request \<Rightarrow> dashboard_error + json option" where
  "call_backend X q = fetchApi (xe_resolveUrl X) (xe_urls X) (xe_send X) q"

definition js_error_text :: "http_error \<Rightarrow> string" where
  "js_error_text e = (case e of JsError m \<Rightarrow> m | _ \<Rightarrow> [])"

text \<open>The body of the \<open>try\<close>: the call, the message made of its answer, and the flash cookie.\<close>

definition attempt ::
    "action_env \<Rightarrow> client_request \<Rightarrow> (json option \<Rightarrow> dashboard_error + dashboard_flash) \<Rightarrow> cookie_jar \<Rightarrow>
     dashboard_error + cookie_jar" where
  "attempt X q message jar =
     (case call_backend X q of
        Inl e \<Rightarrow> Inl e
      | Inr data \<Rightarrow>
     (case message data of
        Inl e \<Rightarrow> Inl e
      | Inr f \<Rightarrow>
     (case setDashboardFlash (xe_dashboard X) f jar of
        Inl e \<Rightarrow> Inl (OtherError (js_error_text e))
      | Inr jar' \<Rightarrow> Inr jar')))"

definition flash_and_go :: "action_env \<Rightarrow> dashboard_flash \<Rightarrow> built_url \<Rightarrow> cookie_jar \<Rightarrow> (built_url \<times> cookie_jar) result" where
  "flash_and_go X f location jar = map_sum id (Pair location) (setDashboardFlash (xe_dashboard X) f jar)"

definition partner_action ::
    "action_env \<Rightarrow> (dashboard_env \<Rightarrow> string \<Rightarrow> form \<Rightarrow> form_plan) \<Rightarrow> form \<Rightarrow> cookie_jar \<Rightarrow> (built_url \<times> cookie_jar) result" where
  "partner_action X plan formData jar =
     (case getDashboardSession (xe_dashboard X) jar of
        None \<Rightarrow> Inr (to_page ''/'', jar)
      | Some session \<Rightarrow>
     (case plan (xe_dashboard X) (session_text session ''accessToken'') formData of
        Refuse f location \<Rightarrow> flash_and_go X f location jar
      | Submit q message title location \<Rightarrow>
          (case attempt X q message jar of
             Inr jar' \<Rightarrow> Inr (location, jar')
           | Inl e \<Rightarrow>
               (case e of
                  DashboardAuthError m \<Rightarrow> Inr (to_page ''/'', clearDashboardSession jar)
                | _ \<Rightarrow> flash_and_go X (flash_error title (humanizeDashboardError e)) location jar))))"

definition admin_action ::
    "action_env \<Rightarrow> (dashboard_env \<Rightarrow> string \<Rightarrow> form \<Rightarrow> form_plan) \<Rightarrow> form \<Rightarrow> cookie_jar \<Rightarrow> (built_url \<times> cookie_jar) result" where
  "admin_action X plan formData jar =
     (case getAdminSetupSession (xe_dashboard X) jar of
        None \<Rightarrow> Inr (to_page ''/setup'', jar)
      | Some session \<Rightarrow>
     (case plan (xe_dashboard X) (session_text session ''adminToken'') formData of
        Refuse f location \<Rightarrow> flash_and_go X f location jar
      | Submit q message title location \<Rightarrow>
          (case attempt X q message jar of
             Inr jar' \<Rightarrow> Inr (location, jar')
           | Inl e \<Rightarrow>
               (case e of
                  DashboardAdminAuthError m \<Rightarrow>
                    flash_and_go X (flash_error ''Admin setup expired'' m) (to_page ''/setup'') (clearAdminSetupSession jar)
                | _ \<Rightarrow> flash_and_go X (flash_error title (humanizeDashboardError e)) location jar))))"

section \<open>Reading the form and the answer\<close>

definition form_text :: "form \<Rightarrow> string \<Rightarrow> string option" where
  "form_text f k = readRequiredTextField (form_get f k)"

definition optional_text :: "form \<Rightarrow> string \<Rightarrow> string option" where
  "optional_text f k = readOptionalTextField (form_get f k)"

definition form_enum :: "form \<Rightarrow> string \<Rightarrow> string option" where
  "form_enum f k = readRequiredEnumField (form_get f k)"

definition optional_enum :: "form \<Rightarrow> string \<Rightarrow> string option" where
  "optional_enum f k = readOptionalEnumField (form_get f k)"

definition form_checked :: "form \<Rightarrow> string \<Rightarrow> bool" where
  "form_checked f k = readCheckboxField (form_get f k)"

definition chosen_texts :: "form \<Rightarrow> string \<Rightarrow> string list" where
  "chosen_texts f k =
     List.map_filter (\<lambda>v. case v of Text s \<Rightarrow> if length (js_trim s) > 0 then Some (js_trim s) else None | File \<Rightarrow> None)
       (form_get_all f k)"

text \<open>A property that is spread, or passed as \<open>undefined\<close>, is in the JSON body only when it has a value.\<close>

definition given_text :: "string \<Rightarrow> string option \<Rightarrow> (string \<times> json) list" where
  "given_text k v = (if falsy v then [] else [(k, JStr (or_else v []))])"

definition given_json :: "string \<Rightarrow> json option \<Rightarrow> (string \<times> json) list" where
  "given_json k v = (case v of None \<Rightarrow> [] | Some x \<Rightarrow> [(k, x)])"

definition nullable_text :: "string option \<Rightarrow> json" where
  "nullable_text v = (case v of None \<Rightarrow> JNull | Some s \<Rightarrow> JStr s)"

definition the_text :: "string option \<Rightarrow> json" where
  "the_text v = JStr (or_else v [])"

definition iso_or_undefined :: "iso_field \<Rightarrow> json option" where
  "iso_or_undefined v = (case v of Iso_text s \<Rightarrow> Some (JStr s) | _ \<Rightarrow> None)"

definition iso_missing :: "iso_field \<Rightarrow> bool" where
  "iso_missing v \<longleftrightarrow> (case v of Iso_text s \<Rightarrow> s = [] | _ \<Rightarrow> True)"

definition missing :: "string option list \<Rightarrow> bool" where
  "missing vs \<longleftrightarrow> list_ex falsy vs"

text \<open>\<open>answer.k\<close> of an answer that may be \<open>undefined\<close> or \<open>null\<close>, and a value inside a template.\<close>

definition answer_get :: "json option \<Rightarrow> string \<Rightarrow> dashboard_error + json option" where
  "answer_get data k =
     (case data of
        None \<Rightarrow> Inl (OtherError ''Cannot read properties of undefined'')
      | Some JNull \<Rightarrow> Inl (OtherError ''Cannot read properties of null'')
      | Some v \<Rightarrow> Inr (j_get v k))"

definition template_text :: "json option \<Rightarrow> string" where
  "template_text v =
     (case v of None \<Rightarrow> ''undefined'' | Some JNull \<Rightarrow> ''null'' | Some x \<Rightarrow> array_item_text x)"

definition lower_text :: "json option \<Rightarrow> dashboard_error + string" where
  "lower_text v =
     (case v of
        Some (JStr s) \<Rightarrow> Inr (js_lower s)
      | _ \<Rightarrow> Inl (OtherError ''toLowerCase is not a function''))"

definition json_present :: "json option \<Rightarrow> bool" where
  "json_present v \<longleftrightarrow> v \<noteq> None \<and> v \<noteq> Some JNull"

definition json_truthy :: "json option \<Rightarrow> bool" where
  "json_truthy v \<longleftrightarrow>
     (case v of
        None \<Rightarrow> False
      | Some x \<Rightarrow> x \<noteq> JNull \<and> x \<noteq> JBool False \<and> x \<noteq> JNum 0 \<and> x \<noteq> JStr [])"

definition then_message :: "dashboard_error + 'a \<Rightarrow> ('a \<Rightarrow> dashboard_error + 'b) \<Rightarrow> dashboard_error + 'b" where
  "then_message r f = (case r of Inl e \<Rightarrow> Inl e | Inr x \<Rightarrow> f x)"

text \<open>A message that shows one property of the answer.\<close>

definition about_answer :: "string \<Rightarrow> string \<Rightarrow> string \<Rightarrow> string \<Rightarrow> json option \<Rightarrow> dashboard_error + dashboard_flash" where
  "about_answer title before k after data =
     then_message (answer_get data k) (\<lambda>v. Inr (flash_success title (before @ template_text v @ after)))"

definition optional_json_text :: "json option \<Rightarrow> string option" where
  "optional_json_text v = (case v of Some (JStr s) \<Rightarrow> Some s | _ \<Rightarrow> None)"

text \<open>The same, with a secret of the answer that is shown once.\<close>

definition about_answer_with_secret ::
    "string \<Rightarrow> string \<Rightarrow> string \<Rightarrow> string \<Rightarrow> string \<Rightarrow> string \<Rightarrow> json option \<Rightarrow> dashboard_error + dashboard_flash" where
  "about_answer_with_secret title before k after label secretKey data =
     then_message (about_answer title before k after data) (\<lambda>f.
     then_message (answer_get data secretKey) (\<lambda>s. Inr (with_secret label (optional_json_text s) f)))"

definition fixed_message :: "string \<Rightarrow> string \<Rightarrow> json option \<Rightarrow> dashboard_error + dashboard_flash" where
  "fixed_message title message data = Inr (flash_success title message)"

definition squote :: string where
  "squote = [CHR 0x27]"

section \<open>Credentials, keys, team and security settings\<close>

definition create_credential_plan :: "dashboard_env \<Rightarrow> string \<Rightarrow> form \<Rightarrow> form_plan" where
  "create_credential_plan D accessToken f =
     (let label = form_text f ''label'';
         scopes = filter isCredentialScopeValue (form_get_all f ''scopes'');
         page = to_page ''/access/api-keys''
      in
     (if falsy label \<or> scopes = []
      then Refuse (flash_error ''Credential issuance failed'' ''A label and at least one supported scope are required.'') page
      else Submit
        (client_issuePartnerApiCredential accessToken
          (JObj [(''label'', the_text label),
                 (''scopes'', JArr (map (\<lambda>v. case v of Text s \<Rightarrow> JStr s | File \<Rightarrow> JNull) scopes))]))
        (about_answer_with_secret ''Credential issued'' (''Credential '' @ squote) ''label'' (squote @ '' is ready. The secret is shown once below.'')
          ''Credential secret'' ''secret'')
        ''Credential issuance failed'' page))"

definition create_credential_POST :: "action_env \<Rightarrow> form \<Rightarrow> cookie_jar \<Rightarrow> (built_url \<times> cookie_jar) result" where
  "create_credential_POST X f jar = partner_action X create_credential_plan f jar"

definition deactivate_user_plan :: "dashboard_env \<Rightarrow> string \<Rightarrow> form \<Rightarrow> form_plan" where
  "deactivate_user_plan D accessToken f =
     (let userId = form_text f ''userId'';
         page = to_page ''/access/team''
      in
     (if falsy userId then Refuse (flash_error ''User deactivation failed'' ''A user identifier is required.'') page
      else Submit (client_deactivatePartnerUser accessToken (or_else userId []))
        (about_answer ''User deactivated'' [] ''fullName'' '' can no longer access the dashboard.'')
        ''User deactivation failed'' page))"

definition deactivate_user_POST :: "action_env \<Rightarrow> form \<Rightarrow> cookie_jar \<Rightarrow> (built_url \<times> cookie_jar) result" where
  "deactivate_user_POST X f jar = partner_action X deactivate_user_plan f jar"

definition invite_user_plan :: "dashboard_env \<Rightarrow> string \<Rightarrow> form \<Rightarrow> form_plan" where
  "invite_user_plan D accessToken f =
     (let email = form_text f ''email'';
         fullName = optional_text f ''fullName'';
         role = form_enum f ''role'';
         page = to_page ''/access/team''
      in
     (if missing [email, role]
      then Refuse (flash_error ''Invite failed'' ''Email address and role are required to invite a team user.'') page
      else Submit
        (client_invitePartnerUser accessToken
          (JObj ((''email'', the_text email) # given_text ''fullName'' fullName @ [(''role'', the_text role)])))
        (about_answer_with_secret ''Invite created'' ''Invite ready for '' ''email''
          ''. Copy the invite token below into your delivery workflow.'' ''Invite token'' ''inviteToken'')
        ''Invite failed'' page))"

definition invite_user_POST :: "action_env \<Rightarrow> form \<Rightarrow> cookie_jar \<Rightarrow> (built_url \<times> cookie_jar) result" where
  "invite_user_POST X f jar = partner_action X invite_user_plan f jar"

definition register_signing_key_plan :: "dashboard_env \<Rightarrow> string \<Rightarrow> form \<Rightarrow> form_plan" where
  "register_signing_key_plan D accessToken f =
     (let keyId = form_text f ''keyId'';
         publicKeyPem = form_text f ''publicKeyPem'';
         validFrom = readIsoDateTimeField D (form_get f ''validFrom'') True;
         validTo = readIsoDateTimeField D (form_get f ''validTo'') False;
         algorithm = form_enum f ''algorithm'';
         page = to_page ''/access/signing-keys''
      in
     (if missing [keyId, publicKeyPem] \<or> iso_missing validFrom \<or> falsy algorithm
      then Refuse (flash_error ''Signing-key registration failed''
             ''Key id, algorithm, public key PEM, and a valid start time are required.'') page
      else Submit
        (client_registerPartnerSigningKey accessToken
          (JObj ([(''algorithm'', the_text algorithm), (''keyId'', the_text keyId), (''publicKeyPem'', the_text publicKeyPem)] @
                 given_json ''validFrom'' (iso_or_undefined validFrom) @
                 (if falsy (optional_text f ''validTo'') then [] else given_json ''validTo'' (iso_or_undefined validTo)))))
        (about_answer ''Signing key registered'' (''Signing key '' @ squote) ''keyId''
          (squote @ '' is active and available for attestation verification.''))
        ''Signing-key registration failed'' page))"

definition register_signing_key_POST :: "action_env \<Rightarrow> form \<Rightarrow> cookie_jar \<Rightarrow> (built_url \<times> cookie_jar) result" where
  "register_signing_key_POST X f jar = partner_action X register_signing_key_plan f jar"

definition revoke_credential_plan :: "dashboard_env \<Rightarrow> string \<Rightarrow> form \<Rightarrow> form_plan" where
  "revoke_credential_plan D accessToken f =
     (let credentialId = form_text f ''credentialId'';
         page = to_page ''/access/api-keys''
      in
     (if falsy credentialId
      then Refuse (flash_error ''Credential revocation failed'' ''A credential identifier is required.'') page
      else Submit (client_revokePartnerApiCredential accessToken (or_else credentialId []))
        (about_answer ''Credential revoked'' (''Credential '' @ squote) ''label'' (squote @ '' has been revoked.''))
        ''Credential revocation failed'' page))"

definition revoke_credential_POST :: "action_env \<Rightarrow> form \<Rightarrow> cookie_jar \<Rightarrow> (built_url \<times> cookie_jar) result" where
  "revoke_credential_POST X f jar = partner_action X revoke_credential_plan f jar"

definition revoke_signing_key_plan :: "dashboard_env \<Rightarrow> string \<Rightarrow> form \<Rightarrow> form_plan" where
  "revoke_signing_key_plan D accessToken f =
     (let signingKeyId = form_text f ''signingKeyId'';
         page = to_page ''/access/signing-keys''
      in
     (if falsy signingKeyId
      then Refuse (flash_error ''Signing-key revocation failed'' ''A signing key identifier is required.'') page
      else Submit (client_revokePartnerSigningKey accessToken (or_else signingKeyId []))
        (about_answer ''Signing key revoked'' (''Signing key '' @ squote) ''keyId'' (squote @ '' has been revoked.''))
        ''Signing-key revocation failed'' page))"

definition revoke_signing_key_POST :: "action_env \<Rightarrow> form \<Rightarrow> cookie_jar \<Rightarrow> (built_url \<times> cookie_jar) result" where
  "revoke_signing_key_POST X f jar = partner_action X revoke_signing_key_plan f jar"

definition readPositiveInteger :: "dashboard_env \<Rightarrow> form_value option \<Rightarrow> int option" where
  "readPositiveInteger D v =
     (case v of
        Some (Text s) \<Rightarrow>
          (if length (js_trim s) = 0 then None
           else case dx_parseInt D s of None \<Rightarrow> None | Some n \<Rightarrow> (if n \<le> 0 then None else Some n))
      | _ \<Rightarrow> None)"

definition ip_allowlist :: "string option \<Rightarrow> json" where
  "ip_allowlist v =
     (if falsy v then JArr []
      else JArr (map JStr (filter (\<lambda>x. length x > 0) (map js_trim (split_on (CHR 0x0A) (or_else v []))))))"

definition given_number :: "string \<Rightarrow> int option \<Rightarrow> (string \<times> json) list" where
  "given_number k v = (case v of None \<Rightarrow> [] | Some n \<Rightarrow> [(k, JNum n)])"

definition update_security_plan :: "dashboard_env \<Rightarrow> string \<Rightarrow> form \<Rightarrow> form_plan" where
  "update_security_plan D accessToken f =
     (let sessionIdleTimeoutMinutes = readPositiveInteger D (form_get f ''sessionIdleTimeoutMinutes'');
         credentialRotationDays = readPositiveInteger D (form_get f ''credentialRotationDays'');
         ipAllowlist = optional_text f ''ipAllowlist'';
         defaultDisclosureMode = form_enum f ''defaultDisclosureMode'';
         rawVerificationRetentionMode = form_enum f ''rawVerificationRetentionMode'';
         rawVerificationRetentionHours = readPositiveInteger D (form_get f ''rawVerificationRetentionHours'');
         page = to_page ''/access/security''
      in
     (if sessionIdleTimeoutMinutes = None \<or> credentialRotationDays = None \<or>
         missing [defaultDisclosureMode, rawVerificationRetentionMode]
      then Refuse (flash_error ''Security settings failed''
             ''Session, rotation, disclosure, and retention settings must be valid values.'') page
      else if rawVerificationRetentionMode = Some ''SHORT_RETENTION'' \<and> rawVerificationRetentionHours = None
      then Refuse (flash_error ''Security settings failed''
             ''Short-retention mode requires a positive retention window in hours.'') page
      else Submit
        (client_updatePartnerSecuritySettings accessToken
          (JObj (given_number ''sessionIdleTimeoutMinutes'' sessionIdleTimeoutMinutes @
                 given_number ''credentialRotationDays'' credentialRotationDays @
                 [(''enforceMfa'', JBool (form_checked f ''enforceMfa'')),
                  (''defaultDisclosureMode'', the_text defaultDisclosureMode),
                  (''allowFullLabelDisclosure'', JBool (form_checked f ''allowFullLabelDisclosure'')),
                  (''enableEncryptedSubmission'', JBool (form_checked f ''enableEncryptedSubmission'')),
                  (''rawVerificationRetentionMode'', the_text rawVerificationRetentionMode)] @
                 given_number ''rawVerificationRetentionHours''
                   (if rawVerificationRetentionMode = Some ''SHORT_RETENTION'' then rawVerificationRetentionHours else None) @
                 [(''encryptAuditExports'', JBool (form_checked f ''encryptAuditExports'')),
                  (''ipAllowlist'', ip_allowlist ipAllowlist)])))
        (fixed_message ''Security settings updated'' ''Partner security defaults are now saved.'')
        ''Security settings failed'' page))"

definition update_security_POST :: "action_env \<Rightarrow> form \<Rightarrow> cookie_jar \<Rightarrow> (built_url \<times> cookie_jar) result" where
  "update_security_POST X f jar = partner_action X update_security_plan f jar"

definition update_user_plan :: "dashboard_env \<Rightarrow> string \<Rightarrow> form \<Rightarrow> form_plan" where
  "update_user_plan D accessToken f =
     (let userId = form_text f ''userId'';
         fullName = optional_text f ''fullName'';
         role = optional_enum f ''role'';
         page = to_page ''/access/team''
      in
     (if falsy userId \<or> (falsy fullName \<and> falsy role)
      then Refuse (flash_error ''User update failed'' ''A user id and at least one field to update are required.'') page
      else Submit
        (client_updatePartnerUser accessToken (or_else userId []) (JObj (given_text ''fullName'' fullName @ given_text ''role'' role)))
        (\<lambda>data. then_message (answer_get data ''fullName'') (\<lambda>n.
          then_message (answer_get data ''role'') (\<lambda>r.
          then_message (lower_text r) (\<lambda>l.
          Inr (flash_success ''User updated'' (template_text n @ '' now has the '' @ l @ '' role.''))))))
        ''User update failed'' page))"

definition update_user_POST :: "action_env \<Rightarrow> form \<Rightarrow> cookie_jar \<Rightarrow> (built_url \<times> cookie_jar) result" where
  "update_user_POST X f jar = partner_action X update_user_plan f jar"

section \<open>Audit exports\<close>

definition create_export_plan :: "dashboard_env \<Rightarrow> string \<Rightarrow> form \<Rightarrow> form_plan" where
  "create_export_plan D accessToken f =
     (let format = form_enum f ''format'';
         page = to_page ''/audit/exports''
      in
     (if falsy format
      then Refuse (flash_error ''Audit export failed'' ''Select a supported export format.'') page
      else Submit
        (client_createAuditExport accessToken
          (JObj ((''format'', the_text format) #
                 given_text ''actorType'' (optional_enum f ''actorType'') @
                 given_text ''action'' (optional_text f ''action'') @
                 given_text ''entityType'' (optional_text f ''entityType'') @
                 given_text ''dateFrom'' (optional_text f ''dateFrom'') @
                 given_text ''dateTo'' (optional_text f ''dateTo''))))
        (\<lambda>data. then_message (answer_get data ''id'') (\<lambda>i.
          then_message (answer_get data ''status'') (\<lambda>st.
          then_message (lower_text st) (\<lambda>l.
          Inr (flash_success ''Audit export requested'' (''Export '' @ template_text i @ '' is now '' @ l @ ''.''))))))
        ''Audit export failed'' page))"

definition create_export_POST :: "action_env \<Rightarrow> form \<Rightarrow> cookie_jar \<Rightarrow> (built_url \<times> cookie_jar) result" where
  "create_export_POST X f jar = partner_action X create_export_plan f jar"

section \<open>Destinations and recipients\<close>

definition back_to :: "form \<Rightarrow> string \<Rightarrow> built_url" where
  "back_to f fallback = to_page (or_else (optional_text f ''redirectTo'') fallback)"

definition create_destination_plan :: "dashboard_env \<Rightarrow> string \<Rightarrow> form \<Rightarrow> form_plan" where
  "create_destination_plan D accessToken f =
     (let recipientId = form_text f ''recipientId'';
         chain = form_text f ''chain'';
         asset = form_text f ''asset'';
         address = form_text f ''address'';
         memoValue = optional_text f ''memoValue'';
         effectiveFrom = readIsoDateTimeField D (form_get f ''effectiveFrom'') False;
         expiresAt = readIsoDateTimeField D (form_get f ''expiresAt'') False;
         page = back_to f ''/destinations''
      in
     (if missing [recipientId, chain, asset, address]
      then Refuse (flash_error ''Destination creation failed'' ''Recipient, chain, asset, and address are required.'') page
      else Submit
        (client_createDestination accessToken
          (JObj ([(''recipientId'', the_text recipientId), (''chain'', the_text chain), (''asset'', the_text asset),
                  (''address'', the_text address)] @ given_text ''memoValue'' memoValue @
                 [(''isDefault'', JBool (form_get f ''isDefault'' = Some (Text ''on'')))] @
                 given_json ''effectiveFrom'' (iso_or_undefined effectiveFrom) @
                 given_json ''expiresAt'' (iso_or_undefined expiresAt))))
        (about_answer ''Destination created'' ''Destination '' ''address'' '' is now pending signed attestation coverage.'')
        ''Destination creation failed'' page))"

definition create_destination_POST :: "action_env \<Rightarrow> form \<Rightarrow> cookie_jar \<Rightarrow> (built_url \<times> cookie_jar) result" where
  "create_destination_POST X f jar = partner_action X create_destination_plan f jar"

definition replace_destination_plan :: "dashboard_env \<Rightarrow> string \<Rightarrow> form \<Rightarrow> form_plan" where
  "replace_destination_plan D accessToken f =
     (let destinationId = form_text f ''destinationId'';
         address = form_text f ''address'';
         effectiveFrom = readIsoDateTimeField D (form_get f ''effectiveFrom'') False;
         expiresAt = readIsoDateTimeField D (form_get f ''expiresAt'') False;
         page = back_to f ''/destinations''
      in
     (if missing [destinationId, address]
      then Refuse (flash_error ''Destination replacement failed'' ''Destination id and the replacement address are required.'') page
      else Submit
        (client_replaceDestination accessToken (or_else destinationId [])
          (JObj ((''address'', the_text address) # given_text ''memoValue'' (optional_text f ''memoValue'') @
                 given_text ''chain'' (optional_text f ''chain'') @ given_text ''asset'' (optional_text f ''asset'') @
                 [(''isDefault'', JBool (form_get f ''isDefault'' = Some (Text ''on'')))] @
                 given_json ''effectiveFrom'' (iso_or_undefined effectiveFrom) @
                 given_json ''expiresAt'' (iso_or_undefined expiresAt))))
        (about_answer ''Destination replaced'' ''Replacement destination '' ''address'' '' is now pending attestation coverage.'')
        ''Destination replacement failed'' page))"

definition replace_destination_POST :: "action_env \<Rightarrow> form \<Rightarrow> cookie_jar \<Rightarrow> (built_url \<times> cookie_jar) result" where
  "replace_destination_POST X f jar = partner_action X replace_destination_plan f jar"

definition revoke_destination_plan :: "dashboard_env \<Rightarrow> string \<Rightarrow> form \<Rightarrow> form_plan" where
  "revoke_destination_plan D accessToken f =
     (let destinationId = form_text f ''destinationId'';
         page = back_to f ''/destinations''
      in
     (if falsy destinationId
      then Refuse (flash_error ''Destination revocation failed'' ''Destination id is required.'') page
      else Submit (client_revokeDestination accessToken (or_else destinationId []))
        (\<lambda>data. then_message (answer_get data ''address'') (\<lambda>a.
          then_message (answer_get data ''status'') (\<lambda>st.
          then_message (lower_text st) (\<lambda>l.
          Inr (flash_success ''Destination revoked'' (''Destination '' @ template_text a @ '' is now '' @ l @ ''.''))))))
        ''Destination revocation failed'' page))"

definition revoke_destination_POST :: "action_env \<Rightarrow> form \<Rightarrow> cookie_jar \<Rightarrow> (built_url \<times> cookie_jar) result" where
  "revoke_destination_POST X f jar = partner_action X revoke_destination_plan f jar"

text \<open>\<open>recipient.displayName ?? recipient.externalRecipientId\<close>.\<close>

definition about_recipient :: "string \<Rightarrow> string \<Rightarrow> json option \<Rightarrow> dashboard_error + dashboard_flash" where
  "about_recipient title after data =
     then_message (answer_get data ''displayName'') (\<lambda>d.
     then_message (answer_get data ''externalRecipientId'') (\<lambda>x.
     Inr (flash_success title (template_text (if json_present d then d else x) @ after))))"

definition create_recipient_plan :: "dashboard_env \<Rightarrow> string \<Rightarrow> form \<Rightarrow> form_plan" where
  "create_recipient_plan D accessToken f =
     (let externalRecipientId = form_text f ''externalRecipientId'';
         displayName = optional_text f ''displayName'';
         primaryIdentifier = form_text f ''primaryIdentifier'';
         page = to_page ''/recipients''
      in
     (if missing [externalRecipientId, primaryIdentifier]
      then Refuse (flash_error ''Recipient creation failed'' ''Recipient id and primary identifier are required.'') page
      else Submit
        (client_createRecipient accessToken
          (JObj ([(''externalRecipientId'', the_text externalRecipientId), (''primaryIdentifier'', the_text primaryIdentifier)] @
                 given_text ''displayName'' displayName @
                 given_text ''identifierKind'' (optional_enum f ''identifierKind'') @
                 given_text ''visibility'' (optional_enum f ''visibility''))))
        (about_recipient ''Recipient created'' '' is now in the registry.'')
        ''Recipient creation failed'' page))"

definition create_recipient_POST :: "action_env \<Rightarrow> form \<Rightarrow> cookie_jar \<Rightarrow> (built_url \<times> cookie_jar) result" where
  "create_recipient_POST X f jar = partner_action X create_recipient_plan f jar"

definition disable_recipient_plan :: "dashboard_env \<Rightarrow> string \<Rightarrow> form \<Rightarrow> form_plan" where
  "disable_recipient_plan D accessToken f =
     (let recipientId = form_text f ''recipientId'';
         page = back_to f ''/recipients''
      in
     (if falsy recipientId then Refuse (flash_error ''Recipient disable failed'' ''Recipient id is required.'') page
      else Submit (client_disableRecipient accessToken (or_else recipientId []))
        (about_recipient ''Recipient disabled'' '' is no longer active.'')
        ''Recipient disable failed'' page))"

definition disable_recipient_POST :: "action_env \<Rightarrow> form \<Rightarrow> cookie_jar \<Rightarrow> (built_url \<times> cookie_jar) result" where
  "disable_recipient_POST X f jar = partner_action X disable_recipient_plan f jar"

definition update_recipient_plan :: "dashboard_env \<Rightarrow> string \<Rightarrow> form \<Rightarrow> form_plan" where
  "update_recipient_plan D accessToken f =
     (let recipientId = form_text f ''recipientId'';
         displayName = optional_text f ''displayName''
      in
     (if missing [recipientId, displayName]
      then Refuse (flash_error ''Recipient update failed'' ''Recipient id and a display name are required.'') (back_to f ''/recipients'')
      else Submit
        (client_updateRecipient accessToken (or_else recipientId []) (JObj [(''displayName'', the_text displayName)]))
        (\<lambda>data. then_message (answer_get data ''externalRecipientId'') (\<lambda>x.
          then_message (answer_get data ''displayName'') (\<lambda>d.
          Inr (flash_success ''Recipient updated'' (template_text x @ '' now shows as '' @ template_text d @ ''.'')))))
        ''Recipient update failed'' (back_to f (''/recipients/'' @ or_else recipientId []))))"

definition update_recipient_POST :: "action_env \<Rightarrow> form \<Rightarrow> cookie_jar \<Rightarrow> (built_url \<times> cookie_jar) result" where
  "update_recipient_POST X f jar = partner_action X update_recipient_plan f jar"

section \<open>Webhooks\<close>

definition readRequiredField :: "form_value option \<Rightarrow> string option" where
  "readRequiredField v =
     (case v of Some (Text s) \<Rightarrow> (if length (js_trim s) = 0 then None else Some (js_trim s)) | _ \<Rightarrow> None)"

definition create_webhook_plan :: "dashboard_env \<Rightarrow> string \<Rightarrow> form \<Rightarrow> form_plan" where
  "create_webhook_plan D accessToken f =
     (let label = readRequiredField (form_get f ''label'');
         url = readRequiredField (form_get f ''url'');
         eventTypes = List.map_filter (\<lambda>v. readRequiredEnumField (Some v)) (form_get_all f ''eventTypes'');
         page = to_page ''/webhooks''
      in
     (if missing [label, url] \<or> eventTypes = []
      then Refuse (flash_error ''Webhook creation failed''
             ''Label, URL, and at least one event type are required to create a webhook endpoint.'') page
      else Submit
        (client_createWebhookEndpoint accessToken
          (JObj [(''label'', the_text label), (''url'', the_text url), (''eventTypes'', JArr (map JStr eventTypes))]))
        (about_answer_with_secret ''Endpoint created'' (''Webhook endpoint '' @ squote) ''label''
          (squote @ '' is active and ready for deliveries.'') ''Signing secret'' ''signingSecret'')
        ''Webhook creation failed'' page))"

definition create_webhook_POST :: "action_env \<Rightarrow> form \<Rightarrow> cookie_jar \<Rightarrow> (built_url \<times> cookie_jar) result" where
  "create_webhook_POST X f jar = partner_action X create_webhook_plan f jar"

definition replay_delivery_plan :: "dashboard_env \<Rightarrow> string \<Rightarrow> form \<Rightarrow> form_plan" where
  "replay_delivery_plan D accessToken f =
     (let deliveryId = form_text f ''deliveryId''
      in
     (if falsy deliveryId
      then Refuse (flash_error ''Replay failed'' ''Delivery id is required.'') (back_to f ''/webhooks/deliveries'')
      else Submit (client_replayWebhookDelivery accessToken (or_else deliveryId []))
        (\<lambda>data.
          if json_truthy data
          then then_message (answer_get data ''id'') (\<lambda>i.
            then_message (answer_get data ''status'') (\<lambda>st.
            then_message (lower_text st) (\<lambda>l.
            Inr (flash_success ''Replay queued'' (''Replay delivery '' @ template_text i @ '' is now '' @ l @ ''.'')))))
          else Inr (flash_success ''Replay queued'' ''The delivery was replayed.''))
        ''Replay failed'' (back_to f (''/webhooks/deliveries/'' @ or_else deliveryId []))))"

definition replay_delivery_POST :: "action_env \<Rightarrow> form \<Rightarrow> cookie_jar \<Rightarrow> (built_url \<times> cookie_jar) result" where
  "replay_delivery_POST X f jar = partner_action X replay_delivery_plan f jar"

definition rotate_secret_plan :: "dashboard_env \<Rightarrow> string \<Rightarrow> form \<Rightarrow> form_plan" where
  "rotate_secret_plan D accessToken f =
     (let endpointId = readRequiredField (form_get f ''endpointId'');
         page = back_to f ''/webhooks''
      in
     (if falsy endpointId
      then Refuse (flash_error ''Secret rotation failed'' ''Endpoint ID is required to rotate the signing secret.'') page
      else Submit (client_rotateWebhookSigningSecret accessToken (or_else endpointId []))
        (\<lambda>data. then_message (answer_get data ''label'') (\<lambda>a.
          then_message (answer_get data ''signingSecretVersion'') (\<lambda>v.
          then_message (answer_get data ''signingSecret'') (\<lambda>sec.
          Inr (with_secret ''Rotated signing secret'' (optional_json_text sec)
            (flash_success ''Signing secret rotated''
              (''Webhook endpoint '' @ quoted (template_text a) @ '' now uses signing secret version '' @ template_text v @ ''.'')))))))
        ''Secret rotation failed'' page))"

definition rotate_secret_POST :: "action_env \<Rightarrow> form \<Rightarrow> cookie_jar \<Rightarrow> (built_url \<times> cookie_jar) result" where
  "rotate_secret_POST X f jar = partner_action X rotate_secret_plan f jar"

definition update_status_plan :: "dashboard_env \<Rightarrow> string \<Rightarrow> form \<Rightarrow> form_plan" where
  "update_status_plan D accessToken f =
     (let endpointId = readRequiredField (form_get f ''endpointId'');
         nextStatus = optional_enum f ''nextStatus'';
         page = back_to f ''/webhooks''
      in
     (if missing [endpointId, nextStatus]
      then Refuse (flash_error ''Endpoint update failed'' ''Endpoint ID and next status are required.'') page
      else Submit
        (if nextStatus = Some ''DISABLED'' then client_disableWebhookEndpoint accessToken (or_else endpointId [])
         else client_updateWebhookEndpoint accessToken (or_else endpointId []) (JObj [(''status'', the_text nextStatus)]))
        (\<lambda>data. then_message (answer_get data ''label'') (\<lambda>a.
          then_message (answer_get data ''status'') (\<lambda>st.
          then_message (lower_text st) (\<lambda>l.
          Inr (flash_success ''Endpoint updated'' (''Webhook endpoint '' @ quoted (template_text a) @ '' is now '' @ l @ ''.''))))))
        ''Endpoint update failed'' page))"

definition update_status_POST :: "action_env \<Rightarrow> form \<Rightarrow> cookie_jar \<Rightarrow> (built_url \<times> cookie_jar) result" where
  "update_status_POST X f jar = partner_action X update_status_plan f jar"

definition test_webhook_plan :: "dashboard_env \<Rightarrow> string \<Rightarrow> form \<Rightarrow> form_plan" where
  "test_webhook_plan D accessToken f =
     (let endpointId = form_text f ''endpointId'';
         redirectTo = form_text f ''redirectTo''
      in
     (if falsy endpointId
      then Refuse (flash_error ''Test failed'' ''Endpoint id is required.'') (to_page (or_else redirectTo ''/webhooks''))
      else Submit (client_testWebhookEndpoint accessToken (or_else endpointId []))
        (\<lambda>data. then_message (answer_get data ''ok'') (\<lambda>ok.
          then_message (answer_get data ''responseCode'') (\<lambda>code.
          then_message (answer_get data ''responseBody'') (\<lambda>body.
          Inr (if json_truthy ok
               then flash_success ''Endpoint test succeeded''
                 (''Endpoint responded with '' @ (if json_present code then template_text code else ''no status code'') @ ''.'')
               else flash_error ''Endpoint test failed''
                 (if json_truthy body then template_text body else ''The endpoint did not return a successful response.''))))))
        ''Test failed'' (to_page (or_else redirectTo (''/webhooks/'' @ or_else endpointId [])))))"

definition test_webhook_POST :: "action_env \<Rightarrow> form \<Rightarrow> cookie_jar \<Rightarrow> (built_url \<times> cookie_jar) result" where
  "test_webhook_POST X f jar = partner_action X test_webhook_plan f jar"

section \<open>Production access\<close>

definition request_production_approval_plan :: "dashboard_env \<Rightarrow> string \<Rightarrow> form \<Rightarrow> form_plan" where
  "request_production_approval_plan D accessToken f =
     (let requestNote = optional_text f ''requestNote'';
         assetNetworkIds = chosen_texts f ''assetNetworkIds''
      in
     Submit
       (client_requestProductionApproval accessToken
         (JObj ((''assetNetworkIds'', JArr (map JStr assetNetworkIds)) # given_text ''requestNote'' requestNote)))
       (fixed_message ''Production approval requested''
         ''Your organization has submitted a production approval request. Review status will appear in Setup.'')
       ''Production approval request failed'' (to_page ''/setup''))"

definition request_production_approval_POST :: "action_env \<Rightarrow> form \<Rightarrow> cookie_jar \<Rightarrow> (built_url \<times> cookie_jar) result" where
  "request_production_approval_POST X f jar = partner_action X request_production_approval_plan f jar"

definition cancel_production_approval_plan :: "dashboard_env \<Rightarrow> string \<Rightarrow> form \<Rightarrow> form_plan" where
  "cancel_production_approval_plan D accessToken f =
     (let requestId = form_text f ''requestId'';
         page = to_page ''/setup''
      in
     (if falsy requestId
      then Refuse (flash_error ''Cancellation failed'' ''A production approval request identifier is required.'') page
      else Submit (client_cancelProductionApprovalRequest accessToken (or_else requestId []))
        (fixed_message ''Production approval request cancelled''
          ''The pending production approval request has been cancelled. You can submit a new request after making the required changes.'')
        ''Cancellation failed'' page))"

definition cancel_production_approval_POST :: "action_env \<Rightarrow> form \<Rightarrow> cookie_jar \<Rightarrow> (built_url \<times> cookie_jar) result" where
  "cancel_production_approval_POST X f jar = partner_action X cancel_production_approval_plan f jar"

section \<open>Administration\<close>

definition create_owner_user_plan :: "dashboard_env \<Rightarrow> string \<Rightarrow> form \<Rightarrow> form_plan" where
  "create_owner_user_plan D adminToken f =
     (let partnerSlug = form_text f ''partnerSlug'';
         fullName = form_text f ''fullName'';
         email = form_text f ''email'';
         password = form_text f ''password'';
         page = buildSetupRedirectUrl partnerSlug
      in
     (if missing [partnerSlug, fullName, email, password]
      then Refuse (flash_error ''Owner user creation failed''
             ''Partner slug, full name, work email, and a password are required.'') page
      else Submit
        (client_createOwnerUser adminToken
          [(''email'', the_text email), (''fullName'', the_text fullName), (''partnerSlug'', the_text partnerSlug),
           (''password'', the_text password)])
        (about_answer ''Owner user created'' (''Owner user '' @ squote) ''email'' (squote @ '' is ready to sign in to the partner dashboard.''))
        ''Owner user creation failed'' page))"

definition create_owner_user_POST :: "action_env \<Rightarrow> form \<Rightarrow> cookie_jar \<Rightarrow> (built_url \<times> cookie_jar) result" where
  "create_owner_user_POST X f jar = admin_action X create_owner_user_plan f jar"

definition create_partner_plan :: "dashboard_env \<Rightarrow> string \<Rightarrow> form \<Rightarrow> form_plan" where
  "create_partner_plan D adminToken f =
     (let slug = form_text f ''slug'';
         displayName = form_text f ''displayName'';
         partnerType = form_enum f ''partnerType'';
         pricingPlan = form_enum f ''pricingPlan''
      in
     (if missing [slug, displayName, partnerType, pricingPlan]
      then Refuse (flash_error ''Partner creation failed''
             ''Slug, display name, partner type, and pricing plan are required.'') (to_page ''/setup'')
      else Submit
        (client_createPartner adminToken
          (JObj [(''displayName'', the_text displayName), (''partnerType'', the_text partnerType),
                 (''pricingPlan'', the_text pricingPlan), (''slug'', the_text slug)]))
        (about_answer ''Partner created'' (''Partner '' @ squote) ''slug'' (squote @ '' is ready for key registration and owner-user setup.''))
        ''Partner creation failed'' (buildSetupRedirectUrl slug)))"

definition create_partner_POST :: "action_env \<Rightarrow> form \<Rightarrow> cookie_jar \<Rightarrow> (built_url \<times> cookie_jar) result" where
  "create_partner_POST X f jar = admin_action X create_partner_plan f jar"

definition register_initial_key_plan :: "dashboard_env \<Rightarrow> string \<Rightarrow> form \<Rightarrow> form_plan" where
  "register_initial_key_plan D adminToken f =
     (let partnerSlug = form_text f ''partnerSlug'';
         keyId = form_text f ''keyId'';
         publicKeyPem = form_text f ''publicKeyPem'';
         validFrom = readIsoDateTimeField D (form_get f ''validFrom'') True;
         validTo = readIsoDateTimeField D (form_get f ''validTo'') False;
         algorithm = form_enum f ''algorithm'';
         page = buildSetupRedirectUrl partnerSlug
      in
     (if missing [partnerSlug, keyId, publicKeyPem] \<or> iso_missing validFrom \<or> falsy algorithm
      then Refuse (flash_error ''Signing-key registration failed''
             ''Partner slug, key id, algorithm, public key PEM, and a valid start time are required.'') page
      else Submit
        (client_registerInitialSigningKey adminToken
          (JObj ([(''algorithm'', the_text algorithm), (''keyId'', the_text keyId), (''partnerSlug'', the_text partnerSlug),
                  (''publicKeyPem'', the_text publicKeyPem)] @
                 given_json ''validFrom'' (iso_or_undefined validFrom) @ given_json ''validTo'' (iso_or_undefined validTo))))
        (about_answer ''Signing key registered'' (''Signing key '' @ squote) ''keyId''
          (squote @ '' is active for partner '' @ quoted (or_else partnerSlug []) @ ''.''))
        ''Signing-key registration failed'' page))"

definition register_initial_key_POST :: "action_env \<Rightarrow> form \<Rightarrow> cookie_jar \<Rightarrow> (built_url \<times> cookie_jar) result" where
  "register_initial_key_POST X f jar = admin_action X register_initial_key_plan f jar"

definition review_production_approval_plan :: "dashboard_env \<Rightarrow> string \<Rightarrow> form \<Rightarrow> form_plan" where
  "review_production_approval_plan D adminToken f =
     (let requestId = form_text f ''requestId'';
         partnerSlug = form_text f ''partnerSlug'';
         decision = form_get f ''decision'';
         reviewNote = optional_text f ''reviewNote'';
         approvedAssetNetworkIds = chosen_texts f ''approvedAssetNetworkIds'';
         page = buildSetupRedirectUrl partnerSlug
      in
     (if missing [requestId, partnerSlug] \<or> (decision \<noteq> Some (Text ''APPROVED'') \<and> decision \<noteq> Some (Text ''REJECTED''))
      then Refuse (flash_error ''Review failed''
             ''A request identifier, decision, and partner reference are required for production review.'') page
      else Submit
        (client_reviewAdminProductionApprovalRequest adminToken (or_else requestId [])
          (JObj [(''decision'', JStr (if decision = Some (Text ''APPROVED'') then ''APPROVED'' else ''REJECTED'')),
                 (''reviewNote'', nullable_text reviewNote),
                 (''approvedAssetNetworkIds'', JArr (map JStr approvedAssetNetworkIds))]))
        (fixed_message ''Production review recorded''
          (if decision = Some (Text ''APPROVED'') then ''Approved production access for '' @ quoted (or_else partnerSlug []) @ ''.''
           else ''Rejected production access for '' @ quoted (or_else partnerSlug []) @ ''.''))
        ''Production review failed'' page))"

definition review_production_approval_POST :: "action_env \<Rightarrow> form \<Rightarrow> cookie_jar \<Rightarrow> (built_url \<times> cookie_jar) result" where
  "review_production_approval_POST X f jar = admin_action X review_production_approval_plan f jar"

definition update_partner_admin_state_plan :: "dashboard_env \<Rightarrow> string \<Rightarrow> form \<Rightarrow> form_plan" where
  "update_partner_admin_state_plan D adminToken f =
     (let partnerId = form_text f ''partnerId'';
         partnerSlug = form_text f ''partnerSlug'';
         status = form_enum f ''status'';
         pricingPlan = form_enum f ''pricingPlan'';
         onboardingStage = form_enum f ''onboardingStage'';
         feedHealthStatus = form_enum f ''feedHealthStatus'';
         page = buildSetupRedirectUrl partnerSlug
      in
     (if missing [partnerId, partnerSlug, status, pricingPlan, onboardingStage, feedHealthStatus]
      then Refuse (flash_error ''Partner update failed''
             ''Partner status, pricing plan, onboarding stage, and feed health must be selected before updating admin state.'') page
      else Submit
        (client_updateAdminPartnerState adminToken (or_else partnerId [])
          (JObj [(''status'', the_text status), (''pricingPlan'', the_text pricingPlan),
                 (''onboardingStage'', the_text onboardingStage), (''feedHealthStatus'', the_text feedHealthStatus),
                 (''apiConsumerEnabled'', JBool (form_checked f ''apiConsumerEnabled'')),
                 (''dataPartnerEnabled'', JBool (form_checked f ''dataPartnerEnabled'')),
                 (''fullAttestationPartnerEnabled'', JBool (form_checked f ''fullAttestationPartnerEnabled'')),
                 (''webhooksEnabled'', JBool (form_checked f ''webhooksEnabled'')),
                 (''batchVerificationEnabled'', JBool (form_checked f ''batchVerificationEnabled'')),
                 (''auditExportsEnabled'', JBool (form_checked f ''auditExportsEnabled'')),
                 (''sandboxEnabled'', JBool (form_checked f ''sandboxEnabled''))]))
        (fixed_message ''Partner state updated''
          (''Updated admin capability and readiness controls for '' @ quoted (or_else partnerSlug []) @ ''.''))
        ''Partner update failed'' page))"

definition update_partner_admin_state_POST :: "action_env \<Rightarrow> form \<Rightarrow> cookie_jar \<Rightarrow> (built_url \<times> cookie_jar) result" where
  "update_partner_admin_state_POST X f jar = admin_action X update_partner_admin_state_plan f jar"

definition update_production_corridor_plan :: "dashboard_env \<Rightarrow> string \<Rightarrow> form \<Rightarrow> form_plan" where
  "update_production_corridor_plan D adminToken f =
     (let partnerId = form_text f ''partnerId'';
         partnerSlug = form_text f ''partnerSlug'';
         assetNetworkId = form_text f ''assetNetworkId'';
         enabled = form_checked f ''enabled'';
         remark = optional_text f ''note'';
         page = buildSetupRedirectUrl partnerSlug
      in
     (if missing [partnerId, partnerSlug, assetNetworkId]
      then Refuse (flash_error ''Production corridor update failed''
             ''Partner, corridor, and action details are required before updating corridor access.'') page
      else Submit
        (client_updateAdminPartnerProductionCorridor adminToken (or_else partnerId [])
          (JObj [(''assetNetworkId'', the_text assetNetworkId), (''enabled'', JBool enabled), (''note'', nullable_text remark)]))
        (fixed_message (if enabled then ''Production corridor granted'' else ''Production corridor revoked'')
          ((if enabled then ''Granted'' else ''Revoked'') @ '' production corridor access for '' @ quoted (or_else partnerSlug []) @ ''.''))
        ''Production corridor update failed'' page))"

definition update_production_corridor_POST :: "action_env \<Rightarrow> form \<Rightarrow> cookie_jar \<Rightarrow> (built_url \<times> cookie_jar) result" where
  "update_production_corridor_POST X f jar = admin_action X update_production_corridor_plan f jar"

section \<open>Signing in and out\<close>

text \<open>
  \<^verbatim>\<open>session-actions.ts\<close>.  A form action ends with a message for the form, or with a redirect.  Signing out
  asks the backend to revoke the session and goes on whatever comes of it, so the request is part of the result.
\<close>

datatype form_reply = Form_error string | Redirected string

definition login_session :: "json option \<Rightarrow> dashboard_error + json" where
  "login_session data =
     then_message (answer_get data ''accessToken'') (\<lambda>accessToken.
     then_message (answer_get data ''expiresAt'') (\<lambda>expiresAt.
     then_message (answer_get data ''partner'') (\<lambda>partner.
     then_message (answer_get partner ''displayName'') (\<lambda>partnerDisplayName.
     then_message (answer_get partner ''slug'') (\<lambda>partnerSlug.
     then_message (answer_get data ''user'') (\<lambda>user.
     then_message (answer_get user ''email'') (\<lambda>userEmail.
     then_message (answer_get user ''fullName'') (\<lambda>userFullName.
     then_message (answer_get user ''role'') (\<lambda>userRole.
     then_message (answer_get user ''scopes'') (\<lambda>scopes.
       Inr (JObj (given_json ''accessToken'' accessToken @ given_json ''expiresAt'' expiresAt @
                  given_json ''partnerDisplayName'' partnerDisplayName @ given_json ''partnerSlug'' partnerSlug @
                  given_json ''userEmail'' userEmail @ given_json ''userFullName'' userFullName @
                  given_json ''userRole'' userRole @ given_json ''scopes'' scopes))))))))))))"

definition cookie_error :: "'a result \<Rightarrow> dashboard_error + 'a" where
  "cookie_error r = (case r of Inl e \<Rightarrow> Inl (OtherError (js_error_text e)) | Inr x \<Rightarrow> Inr x)"

definition loginAction :: "action_env \<Rightarrow> form \<Rightarrow> cookie_jar \<Rightarrow> form_reply \<times> cookie_jar" where
  "loginAction X formData jar =
     (case form_get formData ''email'' of
        Some (Text email) \<Rightarrow>
          (if length (js_trim email) = 0 then (Form_error ''Enter your work email address.'', jar)
           else case form_get formData ''password'' of
             Some (Text password) \<Rightarrow>
               (if length password = 0 then (Form_error ''Enter your dashboard password.'', jar)
                else
                  let trimmedEmail = js_lower (js_trim email) in
                  (case then_message (call_backend X
                           (client_loginDashboardUser (JObj [(''email'', JStr trimmedEmail), (''password'', JStr password)])))
                         (\<lambda>data. then_message (login_session data)
                         (\<lambda>session. cookie_error (setDashboardSession (xe_dashboard X) session jar))) of
                     Inl (OtherError m) \<Rightarrow>
                       (Form_error ''The dashboard could not validate your sign-in against the backend.'', jar)
                   | Inl e \<Rightarrow> (Form_error (dashboard_error_message e), jar)
                   | Inr jar' \<Rightarrow> (Redirected ''/overview'', jar')))
           | _ \<Rightarrow> (Form_error ''Enter your dashboard password.'', jar))
      | _ \<Rightarrow> (Form_error ''Enter your work email address.'', jar))"

definition logoutAction :: "action_env \<Rightarrow> cookie_jar \<Rightarrow> client_request option \<times> form_reply \<times> cookie_jar" where
  "logoutAction X jar =
     (map_option (\<lambda>session. client_logoutDashboardSession (session_text session ''accessToken''))
        (getDashboardSession (xe_dashboard X) jar),
      Redirected ''/'', clearDashboardSession jar)"

definition adminSetupLoginAction :: "action_env \<Rightarrow> form \<Rightarrow> cookie_jar \<Rightarrow> form_reply \<times> cookie_jar" where
  "adminSetupLoginAction X formData jar =
     (case form_get formData ''adminToken'' of
        Some (Text adminToken) \<Rightarrow>
          (if length (js_trim adminToken) = 0
           then (Form_error ''Enter the admin setup token to access partner onboarding.'', jar)
           else
             let trimmedToken = js_trim adminToken in
             (case then_message (call_backend X (client_verifyAdminSetupToken trimmedToken))
                    (\<lambda>data. cookie_error (setAdminSetupSession (xe_dashboard X) (JObj [(''adminToken'', JStr trimmedToken)]) jar)) of
                Inl (DashboardAdminAuthError m) \<Rightarrow> (Form_error m, jar)
              | Inl e \<Rightarrow>
                  (Form_error ''The dashboard could not validate the admin setup token against the backend.'', jar)
              | Inr jar' \<Rightarrow> (Redirected ''/setup'', jar')))
      | _ \<Rightarrow> (Form_error ''Enter the admin setup token to access partner onboarding.'', jar))"

definition adminSetupLogoutAction :: "cookie_jar \<Rightarrow> form_reply \<times> cookie_jar" where
  "adminSetupLogoutAction jar = (Redirected ''/setup'', clearAdminSetupSession jar)"

text \<open>\<^verbatim>\<open>flash/clear/route.ts\<close>: 204 without a body.\<close>

definition clear_flash_POST :: "cookie_jar \<Rightarrow> int \<times> cookie_jar" where
  "clear_flash_POST jar = (204, clearDashboardFlash jar)"

end
