(* ===== verification/Request_Dtos.thy ===== *)
theory Request_Dtos
  imports Access_Tokens Js_Json
begin

text \<open>
  The classes of \<^verbatim>\<open>dto/*.dto.ts\<close> that describe what a request may carry, as the list of their properties, each
  with whether it is optional and the decorators on it, in the order of the source; and what the global
  \<open>ValidationPipe\<close> of \<^verbatim>\<open>main.ts\<close> (\<open>whitelist\<close>, \<open>forbidNonWhitelisted\<close>, \<open>transform\<close>) makes of them.

  The decorators belong to \<^verbatim>\<open>class-validator\<close> and \<^verbatim>\<open>class-transformer\<close>, which are not part of the repository: the
  check of a single decorator and the conversions of \<open>@Type\<close> are arguments of the definitions, and
  \<^verbatim>\<open>validator_contract\<close> states what is documented of those the proofs use.
\<close>

section \<open>Decorated classes\<close>

datatype dto_rule =
    Is_string | Is_int | Is_boolean | Is_array | Is_object | Is_email | Is_url | Is_date_string
  | Max_length nat
  | Min_length nat
  | Min_value int
  | Max_value int
  | Is_enum "string list"
  | Is_in "string list"
  | Array_not_empty
  | Array_max_size nat
  | Array_unique
  | To_number
  | To_boolean
  | Each dto_rule
  | Nested "dto_field list"
and dto_field = Field string bool "dto_rule list"

primrec field_name :: "dto_field \<Rightarrow> string" where
  "field_name (Field n optional rules) = n"

primrec field_optional :: "dto_field \<Rightarrow> bool" where
  "field_optional (Field n optional rules) = optional"

record validation_library =
  vl_check :: "dto_rule \<Rightarrow> json \<Rightarrow> bool"
  vl_convert :: "dto_rule \<Rightarrow> json \<Rightarrow> json"

text \<open>The value a property's decorators are checked on: the value given, converted when the property has a \<open>@Type\<close>.\<close>

definition converted :: "validation_library \<Rightarrow> dto_rule list \<Rightarrow> json \<Rightarrow> json" where
  "converted V rules v =
     (if To_number \<in> set rules then vl_convert V To_number v
      else if To_boolean \<in> set rules then vl_convert V To_boolean v else v)"

text \<open>A request may carry only the properties of the class, and must carry those that are not optional.\<close>

definition known_fields :: "dto_field list \<Rightarrow> (string \<times> json) list \<Rightarrow> bool" where
  "known_fields fs body \<longleftrightarrow> list_all (\<lambda>(k, v). List.member (map field_name fs) k) body"

definition required_fields :: "dto_field list \<Rightarrow> (string \<times> json) list \<Rightarrow> bool" where
  "required_fields fs body \<longleftrightarrow> list_all (\<lambda>f. field_optional f \<or> map_of body (field_name f) \<noteq> None) fs"

fun rule_holds :: "validation_library \<Rightarrow> dto_rule \<Rightarrow> json \<Rightarrow> bool"
  and field_holds :: "validation_library \<Rightarrow> dto_field \<Rightarrow> (string \<times> json) list \<Rightarrow> bool" where
  "rule_holds V (Each r) v = (case v of JArr xs \<Rightarrow> (\<forall>x \<in> set xs. rule_holds V r x) | _ \<Rightarrow> False)"
| "rule_holds V (Nested fs) v =
     (case v of JObj body \<Rightarrow> known_fields fs body \<and> (\<forall>f \<in> set fs. field_holds V f body) | _ \<Rightarrow> False)"
| "rule_holds V To_number v = True"
| "rule_holds V To_boolean v = True"
| "rule_holds V r v = vl_check V r v"
| "field_holds V (Field n optional rules) body =
     (case map_of body n of
        None \<Rightarrow> optional
      | Some v \<Rightarrow> (if v = JNull then optional else (\<forall>r \<in> set rules. rule_holds V r (converted V rules v))))"

definition dto_accepts :: "validation_library \<Rightarrow> dto_field list \<Rightarrow> json \<Rightarrow> bool" where
  "dto_accepts V fs body \<longleftrightarrow> rule_holds V (Nested fs) body"

text \<open>What the documentation of the libraries says of the decorators that occur on values of the expected type.\<close>

definition validator_contract :: "validation_library \<Rightarrow> bool" where
  "validator_contract V \<longleftrightarrow>
     (\<forall>s. vl_check V Is_string (JStr s)) \<and>
     (\<forall>i. vl_check V Is_int (JNum i)) \<and>
     (\<forall>b. vl_check V Is_boolean (JBool b)) \<and>
     (\<forall>xs. vl_check V Is_array (JArr xs)) \<and>
     (\<forall>n s. vl_check V (Max_length n) (JStr s) \<longleftrightarrow> length s \<le> n) \<and>
     (\<forall>n s. vl_check V (Min_length n) (JStr s) \<longleftrightarrow> n \<le> length s) \<and>
     (\<forall>m i. vl_check V (Min_value m) (JNum i) \<longleftrightarrow> m \<le> i) \<and>
     (\<forall>m i. vl_check V (Max_value m) (JNum i) \<longleftrightarrow> i \<le> m) \<and>
     (\<forall>vs s. vl_check V (Is_enum vs) (JStr s) \<longleftrightarrow> s \<in> set vs) \<and>
     (\<forall>vs s. vl_check V (Is_in vs) (JStr s) \<longleftrightarrow> s \<in> set vs) \<and>
     (\<forall>xs. vl_check V Array_not_empty (JArr xs) \<longleftrightarrow> xs \<noteq> []) \<and>
     (\<forall>n xs. vl_check V (Array_max_size n) (JArr xs) \<longleftrightarrow> length xs \<le> n) \<and>
     (\<forall>t. vl_check V Is_date_string (JStr (toISOString t)))"

text \<open>A library with that behaviour, for the examples.\<close>

definition demo_check :: "dto_rule \<Rightarrow> json \<Rightarrow> bool" where
  "demo_check r v =
     (case (r, v) of
        (Is_int, JNum i) \<Rightarrow> True
      | (Is_boolean, JBool b) \<Rightarrow> True
      | (Is_object, JObj fs) \<Rightarrow> True
      | (Is_array, JArr xs) \<Rightarrow> True
      | (Array_not_empty, JArr xs) \<Rightarrow> xs \<noteq> []
      | (Array_max_size n, JArr xs) \<Rightarrow> length xs \<le> n
      | (Array_unique, JArr xs) \<Rightarrow> distinct xs
      | (Min_value m, JNum i) \<Rightarrow> m \<le> i
      | (Max_value m, JNum i) \<Rightarrow> i \<le> m
      | (Is_string, JStr s) \<Rightarrow> True
      | (Is_email, JStr s) \<Rightarrow> List.member s (CHR ''@'')
      | (Is_url, JStr s) \<Rightarrow> s \<noteq> []
      | (Is_date_string, JStr s) \<Rightarrow> s \<noteq> []
      | (Max_length n, JStr s) \<Rightarrow> length s \<le> n
      | (Min_length n, JStr s) \<Rightarrow> n \<le> length s
      | (Is_enum vs, JStr s) \<Rightarrow> List.member vs s
      | (Is_in vs, JStr s) \<Rightarrow> List.member vs s
      | _ \<Rightarrow> False)"

definition demo_library :: validation_library where
  "demo_library = \<lparr>vl_check = demo_check, vl_convert = (\<lambda>r v. v)\<rparr>"

lemma demo_library_contract: "validator_contract demo_library"
proof -
  have "toISOString t \<noteq> []" for t
    by (auto simp: toISOString_def Let_def iso_year_def split: prod.splits)
  then show ?thesis
    by (simp add: validator_contract_def demo_library_def demo_check_def)
qed

section \<open>The classes\<close>

definition EncryptedFieldDto_fields :: "dto_field list" where
  "EncryptedFieldDto_fields =
     [Field ''alg'' False [Is_in [''AES-256-GCM'']],
      Field ''keyId'' False [Is_string, Max_length 128],
      Field ''iv'' False [Is_string, Max_length 512],
      Field ''ciphertext'' False [Is_string],
      Field ''authTag'' True [Is_string, Max_length 512],
      Field ''aad'' True [Is_string, Max_length 256],
      Field ''blindIndex'' True [Is_string, Max_length 128]]"

definition CreateAttestationDto_fields :: "dto_field list" where
  "CreateAttestationDto_fields =
     [Field ''partnerSlug'' False [Is_string, Max_length 64],
      Field ''keyId'' False [Is_string, Max_length 128],
      Field ''algorithm'' False [Is_enum [''ED25519'', ''ES256K'', ''RSA_PSS_SHA256'']],
      Field ''attestationType'' False [Is_enum [''DESTINATION_ASSIGNMENT'', ''DESTINATION_ROTATION'',
          ''DESTINATION_REVOCATION'', ''IDENTIFIER_BINDING'']],
      Field ''sequenceNumber'' False [Is_int, Min_value 1],
      Field ''recipientExternalId'' False [Is_string, Max_length 128],
      Field ''recipientDisplayName'' True [Is_string, Max_length 120],
      Field ''recipientIdentifier'' True [Is_string, Max_length 128],
      Field ''recipientIdentifierEncrypted'' True [Nested EncryptedFieldDto_fields],
      Field ''identifierKind'' False [Is_enum [''PARTNER_HANDLE'', ''PARTNER_UID'', ''EMAIL_HASH'', ''PHONE_HASH'',
          ''BUSINESS_ID'', ''PAYMENT_HANDLE'']],
      Field ''chain'' False [Is_string, Max_length 64],
      Field ''assetCode'' False [Is_string, Max_length 32],
      Field ''assetSymbol'' False [Is_string, Max_length 32],
      Field ''tokenStandard'' False [Is_enum [''NATIVE'', ''ERC20'', ''TRC20'', ''SPL'', ''OTHER'']],
      Field ''contractAddress'' True [Is_string],
      Field ''decimals'' True [Is_int, Min_value 0],
      Field ''address'' True [Is_string],
      Field ''addressEncrypted'' True [Nested EncryptedFieldDto_fields],
      Field ''memo'' True [Is_string],
      Field ''issuedAt'' False [Is_date_string],
      Field ''effectiveFrom'' False [Is_date_string],
      Field ''expiresAt'' True [Is_date_string],
      Field ''signature'' False [Is_string]]"

definition ListAttestationsDto_fields :: "dto_field list" where
  "ListAttestationsDto_fields =
     [Field ''recipientId'' True [Is_string, Max_length 64],
      Field ''recipientIdentifier'' True [Is_string, Max_length 160],
      Field ''attestationType'' True [Is_enum [''DESTINATION_ASSIGNMENT'', ''DESTINATION_ROTATION'',
          ''DESTINATION_REVOCATION'', ''IDENTIFIER_BINDING'']],
      Field ''verificationStatus'' True [Is_enum [''PENDING'', ''VERIFIED'', ''FAILED'', ''REVOKED'', ''EXPIRED'']],
      Field ''chain'' True [Is_string, Max_length 64],
      Field ''asset'' True [Is_string, Max_length 32],
      Field ''limit'' True [To_number, Is_int, Min_value 1, Max_value 100]]"

definition CreateAuditExportDto_fields :: "dto_field list" where
  "CreateAuditExportDto_fields =
     [Field ''format'' False [Is_enum [''CSV'', ''JSON'']],
      Field ''actorType'' True [Is_enum [''SYSTEM'', ''PARTNER'', ''USER'']],
      Field ''action'' True [Is_string, Max_length 160],
      Field ''entityType'' True [Is_string, Max_length 120],
      Field ''dateFrom'' True [Is_date_string],
      Field ''dateTo'' True [Is_date_string]]"

definition ListAuditLogsDto_fields :: "dto_field list" where
  "ListAuditLogsDto_fields =
     [Field ''action'' True [Is_string, Max_length 120],
      Field ''actorType'' True [Is_enum [''SYSTEM'', ''PARTNER'', ''USER'']],
      Field ''entityType'' True [Is_string, Max_length 120],
      Field ''entityId'' True [Is_string, Max_length 120],
      Field ''limit'' True [To_number, Is_int, Min_value 1, Max_value 100]]"

definition CreateDestinationDto_fields :: "dto_field list" where
  "CreateDestinationDto_fields =
     [Field ''recipientId'' False [Is_string, Max_length 64],
      Field ''chain'' False [Is_string, Max_length 64],
      Field ''asset'' False [Is_string, Max_length 32],
      Field ''address'' False [Is_string, Max_length 200],
      Field ''memoValue'' True [Is_string, Max_length 120],
      Field ''isDefault'' True [Is_boolean],
      Field ''effectiveFrom'' True [Is_date_string],
      Field ''expiresAt'' True [Is_date_string]]"

definition ListDestinationsDto_fields :: "dto_field list" where
  "ListDestinationsDto_fields =
     [Field ''recipientId'' True [Is_string, Max_length 64],
      Field ''chain'' True [Is_string, Max_length 64],
      Field ''asset'' True [Is_string, Max_length 32],
      Field ''status'' True [Is_enum [''PENDING'', ''ACTIVE'', ''REVOKED'', ''EXPIRED'']],
      Field ''limit'' True [To_number, Is_int, Min_value 1, Max_value 100]]"

definition ReplaceDestinationDto_fields :: "dto_field list" where
  "ReplaceDestinationDto_fields =
     [Field ''chain'' True [Is_string, Max_length 64],
      Field ''asset'' True [Is_string, Max_length 32],
      Field ''address'' False [Is_string, Max_length 200],
      Field ''memoValue'' True [Is_string, Max_length 120],
      Field ''isDefault'' True [Is_boolean],
      Field ''effectiveFrom'' True [Is_date_string],
      Field ''expiresAt'' True [Is_date_string]]"

definition AcceptPartnerUserInviteDto_fields :: "dto_field list" where
  "AcceptPartnerUserInviteDto_fields =
     [Field ''fullName'' False [Is_string, Max_length 160],
      Field ''password'' False [Is_string, Min_length 12, Max_length 200]]"

definition CreateApiCredentialDto_fields :: "dto_field list" where
  "CreateApiCredentialDto_fields =
     [Field ''partnerSlug'' False [Is_string, Max_length 64],
      Field ''label'' False [Is_string, Max_length 120],
      Field ''scopes'' True [Is_array, Array_not_empty, Each (Is_string), Each (Is_in credentialScopes)]]"

definition CreatePartnerUserInviteDto_fields :: "dto_field list" where
  "CreatePartnerUserInviteDto_fields =
     [Field ''email'' False [Is_email, Max_length 320],
      Field ''fullName'' True [Is_string, Max_length 160],
      Field ''role'' False [Is_enum [''OWNER'', ''ADMIN'', ''DEVELOPER'', ''ANALYST'', ''READ_ONLY'']]]"

definition CreatePartnerUserDto_fields :: "dto_field list" where
  "CreatePartnerUserDto_fields =
     [Field ''partnerSlug'' False [Is_string, Max_length 80],
      Field ''email'' False [Is_email, Max_length 320],
      Field ''fullName'' False [Is_string, Max_length 160],
      Field ''password'' False [Is_string, Min_length 12, Max_length 200],
      Field ''role'' True [Is_enum [''OWNER'', ''ADMIN'', ''DEVELOPER'', ''ANALYST'', ''READ_ONLY'']]]"

definition CreatePartnerDto_fields :: "dto_field list" where
  "CreatePartnerDto_fields =
     [Field ''slug'' False [Is_string, Max_length 64],
      Field ''displayName'' False [Is_string, Max_length 120],
      Field ''partnerType'' False [Is_enum [''EXCHANGE'', ''WALLET'', ''PAYMENT_PROCESSOR'', ''MERCHANT'',
          ''FINTECH'', ''OTHER'']],
      Field ''pricingPlan'' True [Is_enum [''STARTER'', ''GROWTH'', ''SCALE'', ''ENTERPRISE'']]]"

definition CreateSelfServiceApiCredentialDto_fields :: "dto_field list" where
  "CreateSelfServiceApiCredentialDto_fields =
     [Field ''label'' False [Is_string, Max_length 120],
      Field ''scopes'' True [Is_array, Array_not_empty, Each (Is_string), Each (Is_in credentialScopes)]]"

definition DashboardLoginDto_fields :: "dto_field list" where
  "DashboardLoginDto_fields =
     [Field ''email'' False [Is_email, Max_length 320],
      Field ''password'' False [Is_string, Min_length 12, Max_length 200]]"

definition ListAdminProductionApprovalRequestsDto_fields :: "dto_field list" where
  "ListAdminProductionApprovalRequestsDto_fields =
     [Field ''status'' True [Is_enum [''PENDING'', ''APPROVED'', ''REJECTED'', ''CANCELLED'']]]"

definition RegisterSelfServiceSigningKeyDto_fields :: "dto_field list" where
  "RegisterSelfServiceSigningKeyDto_fields =
     [Field ''keyId'' False [Is_string, Max_length 128],
      Field ''algorithm'' False [Is_enum [''ED25519'', ''ES256K'', ''RSA_PSS_SHA256'']],
      Field ''publicKeyPem'' False [Is_string],
      Field ''validFrom'' False [Is_date_string],
      Field ''validTo'' True [Is_date_string]]"

definition RegisterSigningKeyDto_fields :: "dto_field list" where
  "RegisterSigningKeyDto_fields =
     [Field ''partnerSlug'' False [Is_string, Max_length 64],
      Field ''keyId'' False [Is_string, Max_length 128],
      Field ''algorithm'' False [Is_enum [''ED25519'', ''ES256K'', ''RSA_PSS_SHA256'']],
      Field ''publicKeyPem'' False [Is_string],
      Field ''validFrom'' False [Is_date_string],
      Field ''validTo'' True [Is_date_string]]"

definition RequestProductionApprovalDto_fields :: "dto_field list" where
  "RequestProductionApprovalDto_fields =
     [Field ''requestNote'' True [Is_string, Max_length 2000],
      Field ''assetNetworkIds'' True [Is_array, Array_unique, Array_max_size 25, Each (Is_string)]]"

definition ReviewProductionApprovalRequestDto_fields :: "dto_field list" where
  "ReviewProductionApprovalRequestDto_fields =
     [Field ''decision'' False [Is_in [''APPROVED'', ''REJECTED'']],
      Field ''reviewNote'' True [Is_string, Max_length 2000],
      Field ''approvedAssetNetworkIds'' True [Is_array, Array_unique, Array_max_size 25, Each (Is_string)]]"

definition UpdatePartnerAdminStateDto_fields :: "dto_field list" where
  "UpdatePartnerAdminStateDto_fields =
     [Field ''status'' True [Is_enum [''ACTIVE'', ''SUSPENDED'', ''DISABLED'']],
      Field ''onboardingStage'' True [Is_enum [''ACCOUNT_CREATED'', ''API_ACCESS_READY'', ''TRUST_SETUP_READY'',
          ''DATA_MAPPING_IN_PROGRESS'', ''BOOTSTRAP_IMPORT_COMPLETED'', ''LIVE_FEED_CONNECTED'',
          ''PRODUCTION_APPROVED'']],
      Field ''feedHealthStatus'' True [Is_enum [''UNKNOWN'', ''HEALTHY'', ''DEGRADED'', ''DISCONNECTED'']],
      Field ''pricingPlan'' True [Is_enum [''STARTER'', ''GROWTH'', ''SCALE'', ''ENTERPRISE'']],
      Field ''apiConsumerEnabled'' True [Is_boolean],
      Field ''dataPartnerEnabled'' True [Is_boolean],
      Field ''fullAttestationPartnerEnabled'' True [Is_boolean],
      Field ''webhooksEnabled'' True [Is_boolean],
      Field ''batchVerificationEnabled'' True [Is_boolean],
      Field ''auditExportsEnabled'' True [Is_boolean],
      Field ''sandboxEnabled'' True [Is_boolean]]"

definition UpdatePartnerProductionCorridorDto_fields :: "dto_field list" where
  "UpdatePartnerProductionCorridorDto_fields =
     [Field ''assetNetworkId'' False [Is_string],
      Field ''enabled'' False [Is_boolean],
      Field ''note'' True [Is_string, Max_length 500]]"

definition UpdatePartnerSecuritySettingsDto_fields :: "dto_field list" where
  "UpdatePartnerSecuritySettingsDto_fields =
     [Field ''sessionIdleTimeoutMinutes'' True [To_number, Min_value 5],
      Field ''enforceMfa'' True [Is_boolean],
      Field ''ipAllowlist'' True [Is_array, Each (Is_string), Each (Max_length 120)],
      Field ''credentialRotationDays'' True [To_number, Min_value 1],
      Field ''defaultDisclosureMode'' True [Is_in [''MASKED_LABEL'', ''VERIFICATION_ONLY'']],
      Field ''allowFullLabelDisclosure'' True [Is_boolean],
      Field ''enableEncryptedSubmission'' True [Is_boolean],
      Field ''rawVerificationRetentionMode'' True [Is_in [''NO_RETAIN'', ''SHORT_RETENTION'', ''STANDARD_RETENTION'']],
      Field ''rawVerificationRetentionHours'' True [To_number, Min_value 1, Max_value 720],
      Field ''encryptAuditExports'' True [Is_boolean]]"

definition UpdatePartnerUserDto_fields :: "dto_field list" where
  "UpdatePartnerUserDto_fields =
     [Field ''fullName'' True [Is_string, Max_length 160],
      Field ''role'' True [Is_enum [''OWNER'', ''ADMIN'', ''DEVELOPER'', ''ANALYST'', ''READ_ONLY'']]]"

definition ListSupportedPlatformsDto_fields :: "dto_field list" where
  "ListSupportedPlatformsDto_fields =
     [Field ''chain'' True [Is_string, Max_length 64],
      Field ''asset'' True [Is_string, Max_length 32],
      Field ''address'' True [Is_string, Max_length 200],
      Field ''lookupMode'' True [Is_in [''BY_ADDRESS'', ''BY_RECIPIENT'']]]"

definition CreateRecipientDto_fields :: "dto_field list" where
  "CreateRecipientDto_fields =
     [Field ''externalRecipientId'' False [Is_string, Max_length 120],
      Field ''displayName'' True [Is_string, Max_length 160],
      Field ''primaryIdentifier'' False [Is_string, Max_length 160],
      Field ''identifierKind'' True [Is_enum [''PARTNER_HANDLE'', ''PARTNER_UID'', ''EMAIL_HASH'', ''PHONE_HASH'',
          ''BUSINESS_ID'', ''PAYMENT_HANDLE'']],
      Field ''visibility'' True [Is_enum [''PRIVATE'', ''SEARCHABLE'', ''RESOLVABLE'']],
      Field ''profile'' True [Is_object]]"

definition ListRecipientsDto_fields :: "dto_field list" where
  "ListRecipientsDto_fields =
     [Field ''search'' True [Is_string, Max_length 160],
      Field ''status'' True [Is_enum [''ACTIVE'', ''SUSPENDED'', ''CLOSED'']],
      Field ''limit'' True [To_number, Is_int, Min_value 1, Max_value 100]]"

definition UpdateRecipientDto_fields :: "dto_field list" where
  "UpdateRecipientDto_fields =
     [Field ''displayName'' True [Is_string, Max_length 160],
      Field ''profile'' True [Is_object]]"

definition BatchVerifyRowDto_fields :: "dto_field list" where
  "BatchVerifyRowDto_fields =
     [Field ''clientReference'' True [Is_string, Max_length 160],
      Field ''lookupMode'' True [Is_in [''BY_RECIPIENT'', ''BY_ADDRESS'']],
      Field ''recipientIdentifier'' True [Is_string, Max_length 160],
      Field ''recipientIdentifierEncrypted'' True [Nested EncryptedFieldDto_fields],
      Field ''platform'' True [Is_string, Max_length 120],
      Field ''address'' True [Is_string, Max_length 200],
      Field ''addressEncrypted'' True [Nested EncryptedFieldDto_fields]]"

definition BatchVerifyDto_fields :: "dto_field list" where
  "BatchVerifyDto_fields =
     [Field ''inputFormat'' False [Is_enum [''CSV'', ''ROWS'', ''JSON'']],
      Field ''chain'' False [Is_string, Max_length 64],
      Field ''asset'' False [Is_string, Max_length 32],
      Field ''lookupMode'' True [Is_in [''BY_RECIPIENT'', ''BY_ADDRESS'', ''MIXED'']],
      Field ''stopOnFirstHighRisk'' True [Is_boolean],
      Field ''requireExactAttestedMatch'' True [Is_boolean],
      Field ''rows'' False [Is_array, Array_max_size 250, Each (Nested BatchVerifyRowDto_fields)]]"

definition ConfirmRecipientDto_fields :: "dto_field list" where
  "ConfirmRecipientDto_fields =
     [Field ''platform'' True [Is_string, Max_length 120],
      Field ''address'' True [Is_string, Max_length 200],
      Field ''addressEncrypted'' True [Nested EncryptedFieldDto_fields],
      Field ''chain'' False [Is_string, Max_length 64],
      Field ''asset'' False [Is_string, Max_length 32]]"

definition ListResolutionLogsDto_fields :: "dto_field list" where
  "ListResolutionLogsDto_fields =
     [Field ''queryType'' True [Is_enum [''RESOLVE'', ''CONFIRM_ADDRESS'', ''VERIFY_ADDRESS'', ''BATCH_VERIFY'']],
      Field ''outcome'' True [Is_enum [''RESOLVED'', ''NO_MATCH'', ''MISMATCH'', ''AMBIGUOUS'', ''UNVERIFIED'',
          ''BLOCKED'', ''ERROR'']],
      Field ''riskLevel'' True [Is_enum [''LOW'', ''MEDIUM'', ''HIGH'', ''CRITICAL'']],
      Field ''chain'' True [Is_string, Max_length 64],
      Field ''asset'' True [Is_string, Max_length 32],
      Field ''recipientIdentifier'' True [Is_string, Max_length 160],
      Field ''platform'' True [Is_string, Max_length 120],
      Field ''limit'' True [To_number, Is_int, Min_value 1, Max_value 100]]"

definition ResolveRecipientDto_fields :: "dto_field list" where
  "ResolveRecipientDto_fields =
     [Field ''recipientIdentifier'' True [Is_string, Max_length 128],
      Field ''recipientIdentifierEncrypted'' True [Nested EncryptedFieldDto_fields],
      Field ''chain'' False [Is_string, Max_length 64],
      Field ''asset'' False [Is_string, Max_length 32]]"

definition VerifyDestinationDto_fields :: "dto_field list" where
  "VerifyDestinationDto_fields =
     [Field ''recipientIdentifier'' True [Is_string, Max_length 128],
      Field ''recipientIdentifierEncrypted'' True [Nested EncryptedFieldDto_fields],
      Field ''chain'' False [Is_string, Max_length 64],
      Field ''asset'' False [Is_string, Max_length 32],
      Field ''address'' True [Is_string],
      Field ''addressEncrypted'' True [Nested EncryptedFieldDto_fields]]"

definition CreateWebhookEndpointDto_fields :: "dto_field list" where
  "CreateWebhookEndpointDto_fields =
     [Field ''label'' False [Is_string, Max_length 120],
      Field ''url'' False [Is_url, Max_length 2048],
      Field ''eventTypes'' False [Is_array, Array_not_empty, Each (Is_enum [''DESTINATION_UPDATED'',
          ''DESTINATION_REVOKED'', ''SIGNING_KEY_ROTATED'', ''RECIPIENT_STATUS_CHANGED''])]]"

definition ListWebhookDeliveriesDto_fields :: "dto_field list" where
  "ListWebhookDeliveriesDto_fields =
     [Field ''endpointId'' True [Is_string, Max_length 120],
      Field ''status'' True [Is_enum [''PENDING'', ''PROCESSING'', ''SUCCEEDED'', ''FAILED'', ''ABANDONED'']],
      Field ''eventType'' True [Is_enum [''DESTINATION_UPDATED'', ''DESTINATION_REVOKED'', ''SIGNING_KEY_ROTATED'',
          ''RECIPIENT_STATUS_CHANGED'']],
      Field ''limit'' True [To_number, Is_int, Min_value 1, Max_value 100]]"

definition ProcessWebhookDeliveriesDto_fields :: "dto_field list" where
  "ProcessWebhookDeliveriesDto_fields =
     [Field ''limit'' True [To_number, Is_int, Min_value 1, Max_value 100],
      Field ''ignoreSchedule'' True [To_boolean, Is_boolean]]"

definition UpdateWebhookEndpointDto_fields :: "dto_field list" where
  "UpdateWebhookEndpointDto_fields =
     [Field ''label'' True [Is_string, Max_length 120],
      Field ''url'' True [Is_url, Max_length 2048],
      Field ''eventTypes'' True [Is_array, Array_not_empty, Each (Is_enum [''DESTINATION_UPDATED'',
          ''DESTINATION_REVOKED'', ''SIGNING_KEY_ROTATED'', ''RECIPIENT_STATUS_CHANGED''])],
      Field ''status'' True [Is_enum [''ACTIVE'', ''PAUSED'', ''DISABLED'']]]"

end
