(* ===== verification/Action_Facts.thy ===== *)
theory Action_Facts
  imports Dashboard_Actions Request_Dtos
begin

text \<open>
  What the form handlers of the dashboard keep to: the requests they make have the fields the backend's DTOs
  declare, with values of the declared types; a session ends only when the backend says so; and what signing in
  stores is what every later request reads.
\<close>

section \<open>Requests\<close>

text \<open>The type a property's decorators ask for: every decorator but the conversions takes values of one JSON type,
  \<open>@IsEnum\<close>, \<open>@IsIn\<close>, \<open>@IsEmail\<close>, \<open>@IsUrl\<close>, \<open>@IsDateString\<close> and the lengths a string, \<open>@IsInt\<close>, \<open>@Min\<close> and
  \<open>@Max\<close> a number.  Whether the value is one of the choices, well formed, or in the range is left to the user.\<close>

fun rule_type :: "dto_rule \<Rightarrow> json \<Rightarrow> bool" where
  "rule_type (Each r) v = (case v of JArr xs \<Rightarrow> (\<forall>x \<in> set xs. rule_type r x) | _ \<Rightarrow> False)"
| "rule_type r v =
     (case r of
        Is_int \<Rightarrow> (case v of JNum i \<Rightarrow> True | _ \<Rightarrow> False)
      | Min_value m \<Rightarrow> (case v of JNum i \<Rightarrow> True | _ \<Rightarrow> False)
      | Max_value m \<Rightarrow> (case v of JNum i \<Rightarrow> True | _ \<Rightarrow> False)
      | Is_boolean \<Rightarrow> (case v of JBool b \<Rightarrow> True | _ \<Rightarrow> False)
      | Is_array \<Rightarrow> (case v of JArr xs \<Rightarrow> True | _ \<Rightarrow> False)
      | Array_not_empty \<Rightarrow> (case v of JArr xs \<Rightarrow> True | _ \<Rightarrow> False)
      | Array_max_size n \<Rightarrow> (case v of JArr xs \<Rightarrow> True | _ \<Rightarrow> False)
      | Array_unique \<Rightarrow> (case v of JArr xs \<Rightarrow> True | _ \<Rightarrow> False)
      | Is_object \<Rightarrow> (case v of JObj fs \<Rightarrow> True | _ \<Rightarrow> False)
      | Nested fs \<Rightarrow> (case v of JObj fs \<Rightarrow> True | _ \<Rightarrow> False)
      | To_number \<Rightarrow> True
      | To_boolean \<Rightarrow> True
      | _ \<Rightarrow> (case v of JStr s \<Rightarrow> True | _ \<Rightarrow> False))"

text \<open>The decorators that ask for no more than the type (and that a list is not empty): these are checked as the
  library checks them.\<close>

fun type_rule :: "dto_rule \<Rightarrow> bool" where
  "type_rule Is_string = True"
| "type_rule Is_int = True"
| "type_rule Is_boolean = True"
| "type_rule Is_array = True"
| "type_rule Is_object = True"
| "type_rule Array_not_empty = True"
| "type_rule (Each r) = type_rule r"
| "type_rule r = False"

fun field_fits :: "validation_library \<Rightarrow> json \<Rightarrow> dto_field \<Rightarrow> bool" where
  "field_fits V v (Field n optional rules) =
     (if v = JNull then optional
      else list_all (\<lambda>r. rule_type r v \<and> (type_rule r \<longrightarrow> rule_holds V r (converted V rules v))) rules)"

definition entry_fits :: "validation_library \<Rightarrow> dto_field list \<Rightarrow> string \<times> json \<Rightarrow> bool" where
  "entry_fits V fs e \<longleftrightarrow> list_ex (\<lambda>f. field_name f = fst e \<and> field_fits V (snd e) f) fs"

definition body_fits :: "validation_library \<Rightarrow> dto_field list \<Rightarrow> client_request \<Rightarrow> bool" where
  "body_fits V fs q \<longleftrightarrow>
     (case wq_body q of
        None \<Rightarrow> list_all field_optional fs
      | Some (JObj body) \<Rightarrow>
          list_all (entry_fits V fs) body \<and> list_all (\<lambda>f. field_optional f \<or> field_name f \<in> fst ` set body) fs
      | _ \<Rightarrow> False)"

definition partner_request :: "string \<Rightarrow> client_request \<Rightarrow> bool" where
  "partner_request token q \<longleftrightarrow> wq_accessToken q = token \<and> wq_adminToken q = []"

definition admin_request :: "string \<Rightarrow> client_request \<Rightarrow> bool" where
  "admin_request token q \<longleftrightarrow> wq_adminToken q = token \<and> wq_accessToken q = []"

text \<open>The forms of the dashboard with the class the backend reads their request with.\<close>

definition dashboard_forms ::
    "((dashboard_env \<Rightarrow> string \<Rightarrow> form \<Rightarrow> form_plan) \<times> (string \<Rightarrow> client_request \<Rightarrow> bool) \<times> dto_field list) list" where
  "dashboard_forms =
     [(create_credential_plan, partner_request, CreateSelfServiceApiCredentialDto_fields),
      (deactivate_user_plan, partner_request, []),
      (invite_user_plan, partner_request, CreatePartnerUserInviteDto_fields),
      (register_signing_key_plan, partner_request, RegisterSelfServiceSigningKeyDto_fields),
      (revoke_credential_plan, partner_request, []),
      (revoke_signing_key_plan, partner_request, []),
      (update_security_plan, partner_request, UpdatePartnerSecuritySettingsDto_fields),
      (update_user_plan, partner_request, UpdatePartnerUserDto_fields),
      (create_export_plan, partner_request, CreateAuditExportDto_fields),
      (create_destination_plan, partner_request, CreateDestinationDto_fields),
      (replace_destination_plan, partner_request, ReplaceDestinationDto_fields),
      (revoke_destination_plan, partner_request, []),
      (create_recipient_plan, partner_request, CreateRecipientDto_fields),
      (disable_recipient_plan, partner_request, []),
      (update_recipient_plan, partner_request, UpdateRecipientDto_fields),
      (create_webhook_plan, partner_request, CreateWebhookEndpointDto_fields),
      (replay_delivery_plan, partner_request, []),
      (rotate_secret_plan, partner_request, []),
      (update_status_plan, partner_request, UpdateWebhookEndpointDto_fields),
      (test_webhook_plan, partner_request, []),
      (request_production_approval_plan, partner_request, RequestProductionApprovalDto_fields),
      (cancel_production_approval_plan, partner_request, []),
      (create_owner_user_plan, admin_request, CreatePartnerUserDto_fields),
      (create_partner_plan, admin_request, CreatePartnerDto_fields),
      (register_initial_key_plan, admin_request, RegisterSigningKeyDto_fields),
      (review_production_approval_plan, admin_request, ReviewProductionApprovalRequestDto_fields),
      (update_partner_admin_state_plan, admin_request, UpdatePartnerAdminStateDto_fields),
      (update_production_corridor_plan, admin_request, UpdatePartnerProductionCorridorDto_fields)]"

lemma contract_types:
  assumes "validator_contract V"
  shows "vl_check V Is_string (JStr s)" "vl_check V Is_int (JNum i)" "vl_check V Is_boolean (JBool b)"
    "vl_check V Is_array (JArr xs)"
    "vl_check V Array_not_empty (JArr xs) \<longleftrightarrow> xs \<noteq> []"
  using assms by (auto simp: validator_contract_def)

lemma list_all_given:
  "list_all P (given_text k v) \<longleftrightarrow> falsy v \<or> P (k, JStr (or_else v []))"
  "list_all P (given_number k n) \<longleftrightarrow> (case n of None \<Rightarrow> True | Some i \<Rightarrow> P (k, JNum i))"
  "list_all P (given_json k (iso_or_undefined w)) \<longleftrightarrow> (\<forall>s. w = Iso_text s \<longrightarrow> P (k, JStr s))"
  by (auto simp: given_text_def given_number_def given_json_def iso_or_undefined_def split: option.splits iso_field.splits)

lemma given_iso_keys: "\<not> iso_missing w \<Longrightarrow> fst ` set (given_json k (iso_or_undefined w)) = {k}"
  by (auto simp: iso_missing_def iso_or_undefined_def given_json_def split: iso_field.splits)

lemma credential_scope_text:
  "isCredentialScopeValue v \<Longrightarrow> (case v of Text s \<Rightarrow> JStr s | File \<Rightarrow> JNull) = JStr (case v of Text s \<Rightarrow> s | File \<Rightarrow> [])"
  by (auto simp: isCredentialScopeValue_def split: form_value.splits)

text \<open>An exception raised while a message is made of the answer is one of JavaScript's own, never one of the client's.\<close>

definition plain :: "dashboard_error + 'a \<Rightarrow> bool" where
  "plain r \<longleftrightarrow> (\<forall>e. r = Inl e \<longrightarrow> (\<exists>m. e = OtherError m))"

definition plain_message :: "(json option \<Rightarrow> dashboard_error + dashboard_flash) \<Rightarrow> bool" where
  "plain_message message \<longleftrightarrow> (\<forall>data. plain (message data))"

lemma plain_simps [simp]:
  "plain (Inr x)" "plain (answer_get data k)" "plain (lower_text v)" "plain (about_answer title before k after data)"
  by (auto simp: plain_def answer_get_def lower_text_def about_answer_def then_message_def split: option.splits json.splits)

lemma plain_then [simp]: "plain r \<Longrightarrow> (\<And>x. plain (f x)) \<Longrightarrow> plain (then_message r f)"
  by (auto simp: plain_def then_message_def split: sum.splits)

lemma plain_messages [simp]:
  "plain (about_answer_with_secret title before k after label secretKey data)"
  "plain (fixed_message title content data)" "plain (about_recipient title after data)"
  by (simp_all add: about_answer_with_secret_def fixed_message_def about_recipient_def)

text \<open>What holds of a form: the request it makes carries the token and fits its class, and its message is plain.\<close>

definition form_ok ::
    "validation_library \<Rightarrow> (dashboard_env \<Rightarrow> string \<Rightarrow> form \<Rightarrow> form_plan) \<times> (string \<Rightarrow> client_request \<Rightarrow> bool) \<times>
     dto_field list \<Rightarrow> bool" where
  "form_ok V =
     (\<lambda>(plan, carries, dto). \<forall>D token f q message title page.
        plan D token f = Submit q message title page \<longrightarrow>
        carries token q \<and> body_fits V dto q \<and> plain_message message)"

lemmas form_facts =
  Let_def client_get_def body_fits_def entry_fits_def contract_types list_all_given converted_def the_text_def
  given_iso_keys image_Un credential_scope_text nullable_text_def plain_message_def form_ok_def

lemma create_credential_ok:
  "validator_contract V \<Longrightarrow> form_ok V (create_credential_plan, partner_request, CreateSelfServiceApiCredentialDto_fields)"
  by (auto simp: create_credential_plan_def client_issuePartnerApiCredential_def partner_request_def CreateSelfServiceApiCredentialDto_fields_def form_facts split: if_splits option.splits)

lemma deactivate_user_ok:
  "validator_contract V \<Longrightarrow> form_ok V (deactivate_user_plan, partner_request, [])"
  by (auto simp: deactivate_user_plan_def client_deactivatePartnerUser_def partner_request_def  form_facts split: if_splits option.splits)

lemma invite_user_ok:
  "validator_contract V \<Longrightarrow> form_ok V (invite_user_plan, partner_request, CreatePartnerUserInviteDto_fields)"
  by (auto simp: invite_user_plan_def client_invitePartnerUser_def partner_request_def CreatePartnerUserInviteDto_fields_def form_facts split: if_splits option.splits)

lemma register_signing_key_ok:
  "validator_contract V \<Longrightarrow> form_ok V (register_signing_key_plan, partner_request, RegisterSelfServiceSigningKeyDto_fields)"
  by (auto simp: register_signing_key_plan_def client_registerPartnerSigningKey_def partner_request_def RegisterSelfServiceSigningKeyDto_fields_def form_facts split: if_splits option.splits)

lemma revoke_credential_ok:
  "validator_contract V \<Longrightarrow> form_ok V (revoke_credential_plan, partner_request, [])"
  by (auto simp: revoke_credential_plan_def client_revokePartnerApiCredential_def partner_request_def  form_facts split: if_splits option.splits)

lemma revoke_signing_key_ok:
  "validator_contract V \<Longrightarrow> form_ok V (revoke_signing_key_plan, partner_request, [])"
  by (auto simp: revoke_signing_key_plan_def client_revokePartnerSigningKey_def partner_request_def  form_facts split: if_splits option.splits)

lemma update_security_ok:
  "validator_contract V \<Longrightarrow> form_ok V (update_security_plan, partner_request, UpdatePartnerSecuritySettingsDto_fields)"
  by (auto simp: update_security_plan_def ip_allowlist_def client_updatePartnerSecuritySettings_def partner_request_def UpdatePartnerSecuritySettingsDto_fields_def form_facts split: if_splits option.splits)

lemma update_user_ok:
  "validator_contract V \<Longrightarrow> form_ok V (update_user_plan, partner_request, UpdatePartnerUserDto_fields)"
  by (auto simp: update_user_plan_def client_updatePartnerUser_def partner_request_def UpdatePartnerUserDto_fields_def form_facts split: if_splits option.splits)

lemma create_export_ok:
  "validator_contract V \<Longrightarrow> form_ok V (create_export_plan, partner_request, CreateAuditExportDto_fields)"
  by (auto simp: create_export_plan_def client_createAuditExport_def partner_request_def CreateAuditExportDto_fields_def form_facts split: if_splits option.splits)

lemma create_destination_ok:
  "validator_contract V \<Longrightarrow> form_ok V (create_destination_plan, partner_request, CreateDestinationDto_fields)"
  by (auto simp: create_destination_plan_def client_createDestination_def partner_request_def CreateDestinationDto_fields_def form_facts split: if_splits option.splits)

lemma replace_destination_ok:
  "validator_contract V \<Longrightarrow> form_ok V (replace_destination_plan, partner_request, ReplaceDestinationDto_fields)"
  by (auto simp: replace_destination_plan_def client_replaceDestination_def partner_request_def ReplaceDestinationDto_fields_def form_facts split: if_splits option.splits)

lemma revoke_destination_ok:
  "validator_contract V \<Longrightarrow> form_ok V (revoke_destination_plan, partner_request, [])"
  by (auto simp: revoke_destination_plan_def client_revokeDestination_def partner_request_def  form_facts split: if_splits option.splits)

lemma create_recipient_ok:
  "validator_contract V \<Longrightarrow> form_ok V (create_recipient_plan, partner_request, CreateRecipientDto_fields)"
  by (auto simp: create_recipient_plan_def client_createRecipient_def partner_request_def CreateRecipientDto_fields_def form_facts split: if_splits option.splits)

lemma disable_recipient_ok:
  "validator_contract V \<Longrightarrow> form_ok V (disable_recipient_plan, partner_request, [])"
  by (auto simp: disable_recipient_plan_def client_disableRecipient_def partner_request_def  form_facts split: if_splits option.splits)

lemma update_recipient_ok:
  "validator_contract V \<Longrightarrow> form_ok V (update_recipient_plan, partner_request, UpdateRecipientDto_fields)"
  by (auto simp: update_recipient_plan_def client_updateRecipient_def partner_request_def UpdateRecipientDto_fields_def form_facts split: if_splits option.splits)

lemma create_webhook_ok:
  "validator_contract V \<Longrightarrow> form_ok V (create_webhook_plan, partner_request, CreateWebhookEndpointDto_fields)"
  by (auto simp: create_webhook_plan_def client_createWebhookEndpoint_def partner_request_def CreateWebhookEndpointDto_fields_def form_facts split: if_splits option.splits)

lemma replay_delivery_ok:
  "validator_contract V \<Longrightarrow> form_ok V (replay_delivery_plan, partner_request, [])"
  by (auto simp: replay_delivery_plan_def client_replayWebhookDelivery_def partner_request_def  form_facts split: if_splits option.splits)

lemma rotate_secret_ok:
  "validator_contract V \<Longrightarrow> form_ok V (rotate_secret_plan, partner_request, [])"
  by (auto simp: rotate_secret_plan_def client_rotateWebhookSigningSecret_def partner_request_def  form_facts split: if_splits option.splits)

lemma update_status_ok:
  "validator_contract V \<Longrightarrow> form_ok V (update_status_plan, partner_request, UpdateWebhookEndpointDto_fields)"
  by (auto simp: update_status_plan_def client_disableWebhookEndpoint_def client_updateWebhookEndpoint_def partner_request_def UpdateWebhookEndpointDto_fields_def form_facts split: if_splits option.splits)

lemma test_webhook_ok:
  "validator_contract V \<Longrightarrow> form_ok V (test_webhook_plan, partner_request, [])"
  by (auto simp: test_webhook_plan_def client_testWebhookEndpoint_def partner_request_def  form_facts split: if_splits option.splits)

lemma request_production_approval_ok:
  "validator_contract V \<Longrightarrow> form_ok V (request_production_approval_plan, partner_request, RequestProductionApprovalDto_fields)"
  by (auto simp: request_production_approval_plan_def client_requestProductionApproval_def partner_request_def RequestProductionApprovalDto_fields_def form_facts split: if_splits option.splits)

lemma cancel_production_approval_ok:
  "validator_contract V \<Longrightarrow> form_ok V (cancel_production_approval_plan, partner_request, [])"
  by (auto simp: cancel_production_approval_plan_def client_cancelProductionApprovalRequest_def partner_request_def  form_facts split: if_splits option.splits)

lemma create_owner_user_ok:
  "validator_contract V \<Longrightarrow> form_ok V (create_owner_user_plan, admin_request, CreatePartnerUserDto_fields)"
  by (auto simp: create_owner_user_plan_def client_createOwnerUser_def admin_request_def CreatePartnerUserDto_fields_def form_facts split: if_splits option.splits)

lemma create_partner_ok:
  "validator_contract V \<Longrightarrow> form_ok V (create_partner_plan, admin_request, CreatePartnerDto_fields)"
  by (auto simp: create_partner_plan_def client_createPartner_def admin_request_def CreatePartnerDto_fields_def form_facts split: if_splits option.splits)

lemma register_initial_key_ok:
  "validator_contract V \<Longrightarrow> form_ok V (register_initial_key_plan, admin_request, RegisterSigningKeyDto_fields)"
  by (auto simp: register_initial_key_plan_def client_registerInitialSigningKey_def admin_request_def RegisterSigningKeyDto_fields_def form_facts split: if_splits option.splits)

lemma review_production_approval_ok:
  "validator_contract V \<Longrightarrow> form_ok V (review_production_approval_plan, admin_request, ReviewProductionApprovalRequestDto_fields)"
  by (auto simp: review_production_approval_plan_def client_reviewAdminProductionApprovalRequest_def admin_request_def ReviewProductionApprovalRequestDto_fields_def form_facts split: if_splits option.splits)

lemma update_partner_admin_state_ok:
  "validator_contract V \<Longrightarrow> form_ok V (update_partner_admin_state_plan, admin_request, UpdatePartnerAdminStateDto_fields)"
  by (auto simp: update_partner_admin_state_plan_def client_updateAdminPartnerState_def admin_request_def UpdatePartnerAdminStateDto_fields_def form_facts split: if_splits option.splits)

lemma update_production_corridor_ok:
  "validator_contract V \<Longrightarrow> form_ok V (update_production_corridor_plan, admin_request, UpdatePartnerProductionCorridorDto_fields)"
  by (auto simp: update_production_corridor_plan_def client_updateAdminPartnerProductionCorridor_def admin_request_def UpdatePartnerProductionCorridorDto_fields_def form_facts split: if_splits option.splits)

lemmas form_oks =
  create_credential_ok deactivate_user_ok invite_user_ok register_signing_key_ok revoke_credential_ok
  revoke_signing_key_ok update_security_ok update_user_ok create_export_ok create_destination_ok
  replace_destination_ok revoke_destination_ok create_recipient_ok disable_recipient_ok update_recipient_ok
  create_webhook_ok replay_delivery_ok rotate_secret_ok update_status_ok test_webhook_ok
  request_production_approval_ok cancel_production_approval_ok create_owner_user_ok create_partner_ok register_initial_key_ok
  review_production_approval_ok update_partner_admin_state_ok update_production_corridor_ok

lemma dashboard_forms_ok: "validator_contract V \<Longrightarrow> list_all (form_ok V) dashboard_forms"
  by (simp add: dashboard_forms_def form_oks)

lemma form_okD:
  assumes "validator_contract V" "(plan, carries, dto) \<in> set dashboard_forms" "plan D token f = Submit q message title page"
  shows "carries token q \<and> body_fits V dto q \<and> plain_message message"
  using dashboard_forms_ok [OF assms(1)] assms(2,3) by (fastforce simp: list_all_iff form_ok_def)

text \<open>C25: what the dashboard submits is what the backend declares.  For each of the forms listed in
  \<open>dashboard_forms\<close> (the route handlers that make one request of a form), whatever a user enters, the request the
  handler makes carries the token of the session and nothing else to sign in with, has only properties the DTO of its
  route declares, each a value of the JSON type that all decorators on the property take (a list with that of its
  items, and not empty where the DTO asks so), and has all properties that are not optional.  Lengths, formats, choices
  and ranges depend on what the user entered and are not claimed.  The sign-in forms, the switch of the environment and
  the batch form are not in the list.\<close>

theorem form_requests_fit:
  assumes "validator_contract V" "(plan, carries, dto) \<in> set dashboard_forms"
    and "plan D token f = Submit q message title page"
  shows "carries token q \<and> body_fits V dto q"
  using form_okD [OF assms] by simp

theorem form_requests_fit_witness:
  "\<exists>q message title page.
     update_recipient_plan (demo_dashboard JNull) ''token'' [(''recipientId'', Text ''r1''), (''displayName'', Text '' Ada '')] =
       Submit q message title page \<and>
     wq_body q = Some (JObj [(''displayName'', JStr ''Ada'')]) \<and> partner_request ''token'' q \<and>
     body_fits demo_library UpdateRecipientDto_fields q"
proof -
  have trims: "js_trim ''r1'' = ''r1''" "js_trim '' Ada '' = ''Ada''" by code_simp+
  obtain q message title page where plan: "update_recipient_plan (demo_dashboard JNull) ''token''
      [(''recipientId'', Text ''r1''), (''displayName'', Text '' Ada '')] = Submit q message title page"
    and body: "wq_body q = Some (JObj [(''displayName'', JStr ''Ada'')])"
    by (simp add: update_recipient_plan_def form_text_def optional_text_def form_get_def readRequiredTextField_def
        readOptionalTextField_def trims missing_def falsy_def client_updateRecipient_def client_get_def the_text_def)
  have "(update_recipient_plan, partner_request, UpdateRecipientDto_fields) \<in> set dashboard_forms"
    by (simp add: dashboard_forms_def)
  from form_requests_fit [OF demo_library_contract this plan] plan body show ?thesis by blast
qed

section \<open>Sessions\<close>







text \<open>The form of the sign-in page, and a backend that answers every request alike.\<close>

definition login_form :: "string \<Rightarrow> string \<Rightarrow> form" where
  "login_form email password = [(''email'', Text email), (''password'', Text password)]"

definition answering :: "dashboard_env \<Rightarrow> int \<Rightarrow> json \<Rightarrow> action_env" where
  "answering D status body =
     \<lparr>xe_dashboard = D, xe_resolveUrl = (\<lambda>path base. base @ path), xe_urls = (Some ''http://api'', None),
      xe_send = (\<lambda>r. Inr \<lparr>wh_status = status, wh_statusText = [], wh_json = Some body\<rparr>)\<rparr>"

definition login_request :: "string \<Rightarrow> string \<Rightarrow> client_request" where
  "login_request email password =
     client_loginDashboardUser (JObj [(''email'', JStr (js_lower (js_trim email))), (''password'', JStr password)])"

lemma login_request_fits: "validator_contract V \<Longrightarrow> body_fits V DashboardLoginDto_fields (login_request email password)"
  by (simp add: login_request_def client_loginDashboardUser_def DashboardLoginDto_fields_def form_facts)

text \<open>C26: signing in opens the session the backend granted, and signing out ends it.  When the backend accepts the email
  and the password of the form, the dashboard keeps what it answered, sealed in a cookie, and reads it back unchanged:
  the user is sent to the overview and is signed in with the token of that answer.  Signing out asks the backend to
  revoke that very token, and afterwards the user is signed in no more.\<close>

theorem signing_in_and_out:
  assumes "cookie_contract (xe_dashboard X)" "getSessionKey (xe_dashboard X) = Inr key"
    and "js_trim email \<noteq> []" "password \<noteq> []"
    and "call_backend X (login_request email password) = Inr data" "login_session data = Inr session"
    and "isDashboardSession session" "parsed_back (xe_dashboard X) session"
  shows "\<exists>jar1 jar2. loginAction X (login_form email password) jar = (Redirected ''/overview'', jar1) \<and>
    getDashboardSession (xe_dashboard X) jar1 = Some session \<and>
    logoutAction X jar1 =
      (Some (client_logoutDashboardSession (session_text session ''accessToken'')), Redirected ''/'', jar2) \<and>
    getDashboardSession (xe_dashboard X) jar2 = None"
proof -
  obtain jar1 where set: "set_cookie (xe_dashboard X) sessionCookieName session jar = Inr jar1"
    using set_cookie_succeeds [OF assms(2)] by blast
  then have "getDashboardSession (xe_dashboard X) jar1 = Some session"
    using read_set_cookie(1) [OF assms(1) set] assms(7,8) by (simp add: getDashboardSession_def)
  moreover have "loginAction X (login_form email password) jar = (Redirected ''/overview'', jar1)"
    using assms(3-6) set
    by (simp add: loginAction_def login_form_def form_get_def login_request_def then_message_def cookie_error_def
        setDashboardSession_def Let_def)
  ultimately show ?thesis
    by (simp add: logoutAction_def getDashboardSession_def clearDashboardSession_def read_delete_cookie)
qed

text \<open>A wrong password is reported as an expired session: every answer 401 is the same error of the client.\<close>

theorem wrong_password_message:
  assumes "js_trim email \<noteq> []" "password \<noteq> []" "call_backend X (login_request email password) = Inl dashboardAuthError"
  shows "loginAction X (login_form email password) jar = (Form_error ''Your dashboard session is no longer valid.'', jar)"
  using assms
  by (simp add: loginAction_def login_form_def form_get_def login_request_def then_message_def Let_def dashboardAuthError_def)

text \<open>The password of a new owner is trimmed before it is sent, the password of a sign-in is not.\<close>

theorem owner_password_trimmed:
  assumes "create_owner_user_plan D token f = Submit q message title page" "form_get f ''password'' = Some (Text password)"
  shows "\<exists>fs. wq_body q = Some (JObj fs) \<and> map_of fs ''password'' = Some (JStr (js_trim password)) \<and>
    (\<exists>gs. wq_body (login_request email password) = Some (JObj gs) \<and> map_of gs ''password'' = Some (JStr password))"
  using assms
  by (auto simp: create_owner_user_plan_def Let_def client_createOwnerUser_def client_get_def form_text_def missing_def
      readRequiredTextField_def falsy_def the_text_def login_request_def client_loginDashboardUser_def split: if_splits)

section \<open>Examples\<close>

lemma answering_simps:
  "call_backend (answering D 200 (JObj fs)) q = Inr (j_get (JObj fs) ''data'')"
  "wq_adminToken q = [] \<Longrightarrow> call_backend (answering D 401 body) q = Inl dashboardAuthError"
proof -
  have "getApiBaseUrl (Some ''http://api'') None = Inr ''http://api/''" by code_simp
  then show "call_backend (answering D 200 (JObj fs)) q = Inr (j_get (JObj fs) ''data'')"
    "wq_adminToken q = [] \<Longrightarrow> call_backend (answering D 401 body) q = Inl dashboardAuthError"
    by (simp_all add: call_backend_def answering_def fetchApi_def buildUrl_def)
qed

definition demo_login :: json where
  "demo_login = JObj
     [(''accessToken'', JStr ''vds_a.b''), (''expiresAt'', JStr ''2026-01-01T00:00:00.000Z''),
      (''partner'', JObj [(''displayName'', JStr ''Acme''), (''slug'', JStr ''acme'')]),
      (''user'', JObj [(''email'', JStr ''o@x.io''), (''fullName'', JStr ''Olive''), (''role'', JStr ''OWNER''),
                     (''scopes'', JArr [JStr ''team:read''])])]"

definition demo_session :: json where
  "demo_session = JObj
     [(''accessToken'', JStr ''vds_a.b''), (''expiresAt'', JStr ''2026-01-01T00:00:00.000Z''),
      (''partnerDisplayName'', JStr ''Acme''), (''partnerSlug'', JStr ''acme''), (''userEmail'', JStr ''o@x.io''),
      (''userFullName'', JStr ''Olive''), (''userRole'', JStr ''OWNER''), (''scopes'', JArr [JStr ''team:read''])]"

lemma demo_session_facts: "login_session (Some demo_login) = Inr demo_session" "isDashboardSession demo_session"
  by (simp_all add: login_session_def demo_login_def demo_session_def then_message_def answer_get_def given_json_def
      isDashboardSession_def non_empty_text_def is_text_def)

theorem signing_in_and_out_witness:
  "\<exists>jar1. loginAction (answering (demo_dashboard demo_session) 200 (JObj [(''data'', demo_login)]))
      (login_form '' O@x.io'' ''correct horse'') \<lparr>ck_cookies = Map.empty, ck_drawn = 0\<rparr> = (Redirected ''/overview'', jar1) \<and>
     getDashboardSession (demo_dashboard demo_session) jar1 = Some demo_session"
proof -
  let ?X = "answering (demo_dashboard demo_session) 200 (JObj [(''data'', demo_login)])"
  have X: "xe_dashboard ?X = demo_dashboard demo_session" by (simp add: answering_def)
  obtain k where k: "getSessionKey (demo_dashboard demo_session) = Inr k" using demo_dashboard_facts(2) by blast
  have "js_trim '' O@x.io'' \<noteq> []" by code_simp
  moreover have "call_backend ?X (login_request '' O@x.io'' ''correct horse'') = Inr (Some demo_login)"
    by (simp add: answering_simps)
  ultimately show ?thesis
    using signing_in_and_out [of ?X k "'' O@x.io''" "''correct horse''" "Some demo_login" demo_session]
      demo_session_facts demo_dashboard_contract demo_dashboard_facts(1) k
    unfolding X by blast
qed


end
