(* ===== verification/Dashboard_Batch.thy ===== *)
theory Dashboard_Batch
  imports Dashboard_Actions Request_Dtos
begin

text \<open>
  The two JSON handlers of the dashboard's resolution pages, \<^verbatim>\<open>src/dashboard/src/app/resolution/actions\<close>:
  \<^verbatim>\<open>batch/route.ts\<close>, which parses what a user pastes as CSV, lines or JSON into the rows of a batch, and
  \<^verbatim>\<open>platforms/route.ts\<close>.  A row is a JSON object in the order the code builds it, without the properties that are
  \<open>undefined\<close>.  The texts of the errors JavaScript itself raises are the engine's.
\<close>

section \<open>Rows\<close>

definition normalizeRowLookupMode :: "string \<Rightarrow> json option \<Rightarrow> string option" where
  "normalizeRowLookupMode lookupMode candidate =
     (if lookupMode \<noteq> ''MIXED'' then Some (if lookupMode = ''BY_ADDRESS'' then ''BY_ADDRESS'' else ''BY_RECIPIENT'')
      else if candidate = Some (JStr ''BY_ADDRESS'') then Some ''BY_ADDRESS''
      else if candidate = Some (JStr ''BY_RECIPIENT'') then Some ''BY_RECIPIENT''
      else None)"

definition readBatchFormat :: "json option \<Rightarrow> json option \<Rightarrow> dashboard_error + string option" where
  "readBatchFormat v options =
     (case v of
        Some (JStr s) \<Rightarrow>
          (case options of
             Some (JArr xs) \<Rightarrow> Inr (if List.member xs (JStr s) then Some s else None)
           | _ \<Rightarrow> Inl (OtherError ''Cannot read properties of undefined''))
      | _ \<Rightarrow> Inr None)"

definition dashboard_readBatchLookupMode :: "json option \<Rightarrow> json option \<Rightarrow> dashboard_error + string option" where
  "dashboard_readBatchLookupMode v options =
     (case v of
        Some (JStr s) \<Rightarrow>
          (case options of
             Some (JArr xs) \<Rightarrow> Inr (if List.member xs (JStr s) then Some s else None)
           | _ \<Rightarrow> Inl (OtherError ''Cannot read properties of undefined''))
      | _ \<Rightarrow> Inr None)"

text \<open>A property that is a string and not blank, trimmed.\<close>

definition trimmed_property :: "json \<Rightarrow> string \<Rightarrow> (string \<times> json) list" where
  "trimmed_property v k =
     (case j_get v k of
        Some (JStr s) \<Rightarrow> (if length (js_trim s) > 0 then [(k, JStr (js_trim s))] else [])
      | _ \<Rightarrow> [])"

definition text_property :: "json \<Rightarrow> string \<Rightarrow> bool" where
  "text_property v k \<longleftrightarrow> (case j_get v k of Some (JStr s) \<Rightarrow> True | _ \<Rightarrow> False)"

definition json_row :: "string \<Rightarrow> json \<Rightarrow> json option" where
  "json_row lookupMode row =
     (let rowLookupMode = normalizeRowLookupMode lookupMode (j_get row ''lookupMode'') in
      (if \<not> text_property row ''address'' then None
       else if rowLookupMode = Some ''BY_RECIPIENT'' \<and> \<not> text_property row ''recipientIdentifier'' then None
       else if rowLookupMode = Some ''BY_ADDRESS'' \<and> \<not> text_property row ''platform'' then None
       else Some (JObj (given_text ''lookupMode'' rowLookupMode @ trimmed_property row ''platform'' @
              trimmed_property row ''recipientIdentifier'' @ [(''address'', JStr (js_trim (session_text row ''address'')))] @
              trimmed_property row ''clientReference''))))"

definition parseJsonRows :: "dashboard_env \<Rightarrow> string \<Rightarrow> string \<Rightarrow> dashboard_error + json list" where
  "parseJsonRows D lookupMode input =
     (case dx_parseJson D input of
        None \<Rightarrow> Inl (OtherError ''Unexpected token in JSON'')
      | Some (JArr rows) \<Rightarrow> Inr (List.map_filter (json_row lookupMode) rows)
      | Some v \<Rightarrow> Inl (OtherError ''JSON input must be an array of rows.''))"

text \<open>The lines of the input that are not blank, trimmed; their columns; a column that is there and not empty.\<close>

definition input_lines :: "string \<Rightarrow> string list" where
  "input_lines input = filter (\<lambda>line. length line > 0) (map js_trim (split_on (CHR 0x0A) input))"

definition line_columns :: "char \<Rightarrow> string \<Rightarrow> string list" where
  "line_columns sep line = map js_trim (split_on sep line)"

definition column :: "string list \<Rightarrow> nat \<Rightarrow> string option" where
  "column columns i = (if i < length columns then Some (columns ! i) else None)"

definition row_line :: "string \<Rightarrow> string \<Rightarrow> json option" where
  "row_line lookupMode line =
     (let columns = line_columns (CHR ''|'') line in
      (if lookupMode = ''MIXED'' then
         let hasClientReference = column columns 0 \<noteq> Some ''BY_RECIPIENT'' \<and> column columns 0 \<noteq> Some ''BY_ADDRESS'';
             offset = (if hasClientReference then 1 else 0);
             rowLookupMode = normalizeRowLookupMode lookupMode (map_option JStr (column columns offset));
             clientReference = (if hasClientReference then column columns 0 else None)
         in (if rowLookupMode = Some ''BY_RECIPIENT'' \<and> \<not> falsy (column columns (offset + 1)) \<and>
                \<not> falsy (column columns (offset + 2))
             then Some (JObj (given_text ''clientReference'' clientReference @
                    [(''lookupMode'', the_text rowLookupMode),
                     (''recipientIdentifier'', the_text (column columns (offset + 1))),
                     (''address'', the_text (column columns (offset + 2)))]))
             else if rowLookupMode = Some ''BY_ADDRESS'' \<and> \<not> falsy (column columns (offset + 1)) \<and>
                \<not> falsy (column columns (offset + 2))
             then Some (JObj (given_text ''clientReference'' clientReference @
                    [(''lookupMode'', the_text rowLookupMode),
                     (''platform'', the_text (column columns (offset + 1))),
                     (''address'', the_text (column columns (offset + 2)))]))
             else None)
       else if falsy (column columns 1) \<or> falsy (column columns 2) then None
       else Some (JObj ([(if lookupMode = ''BY_ADDRESS'' then ''platform'' else ''recipientIdentifier'',
                          the_text (column columns 1)),
                         (''address'', the_text (column columns 2))] @
                        given_text ''clientReference'' (column columns 0)))))"

definition parseRowLines :: "string \<Rightarrow> string \<Rightarrow> json list" where
  "parseRowLines lookupMode input = List.map_filter (row_line lookupMode) (input_lines input)"

fun js_includes :: "string \<Rightarrow> string \<Rightarrow> bool" where
  "js_includes part [] = (part = [])"
| "js_includes part (c # cs) = (js_starts_with part (c # cs) \<or> js_includes part cs)"

definition csv_header_line :: "string list \<Rightarrow> bool" where
  "csv_header_line columns \<longleftrightarrow>
     (case column columns 0 of None \<Rightarrow> False | Some c \<Rightarrow> js_includes ''client'' (js_lower c))"

definition csv_row :: "string \<Rightarrow> string list \<Rightarrow> json option" where
  "csv_row lookupMode columns =
     (let rowLookupMode = normalizeRowLookupMode lookupMode (map_option JStr (column columns 1)) in
      (if lookupMode = ''MIXED'' \<and> length columns \<ge> 4 \<and> rowLookupMode = Some ''BY_RECIPIENT''
       then Some (JObj (given_text ''clientReference'' (column columns 0) @
              [(''lookupMode'', the_text rowLookupMode), (''recipientIdentifier'', the_text (column columns 2)),
               (''address'', the_text (column columns 3))]))
       else if lookupMode = ''MIXED'' \<and> length columns \<ge> 4 \<and> rowLookupMode = Some ''BY_ADDRESS''
       then Some (JObj (given_text ''clientReference'' (column columns 0) @
              [(''lookupMode'', the_text rowLookupMode), (''platform'', the_text (column columns 2)),
               (''address'', the_text (column columns 3))]))
       else if length columns \<ge> 3
       then Some (JObj (given_text ''clientReference'' (column columns 0) @
              [(if lookupMode = ''BY_ADDRESS'' then ''platform'' else ''recipientIdentifier'', the_text (column columns 1)),
               (''address'', the_text (column columns 2))]))
       else if length columns = 2
       then Some (JObj
              [(if lookupMode = ''BY_ADDRESS'' then ''platform'' else ''recipientIdentifier'', the_text (column columns 0)),
               (''address'', the_text (column columns 1))])
       else None))"

definition parseCsvRows :: "string \<Rightarrow> string \<Rightarrow> json list" where
  "parseCsvRows lookupMode input =
     (case map (line_columns (CHR '','')) (input_lines input) of
        [] \<Rightarrow> []
      | first # rest \<Rightarrow> List.map_filter (csv_row lookupMode) (if csv_header_line first then rest else first # rest))"

definition parseBatchRows :: "dashboard_env \<Rightarrow> string \<Rightarrow> string \<Rightarrow> string \<Rightarrow> dashboard_error + json list" where
  "parseBatchRows D inputFormat lookupMode input =
     (if inputFormat = ''JSON'' then parseJsonRows D lookupMode input
      else if inputFormat = ''ROWS'' then Inr (parseRowLines lookupMode input)
      else Inr (parseCsvRows lookupMode input))"

section \<open>Handlers\<close>

text \<open>The status and the JSON of a reply; \<open>undefined\<close> has none.\<close>

type_synonym json_reply = "int \<times> json option"

definition message_reply :: "int \<Rightarrow> string \<Rightarrow> json_reply" where
  "message_reply status m = (status, Some (JObj [(''message'', JStr m)]))"

definition failed_reply :: "dashboard_error \<Rightarrow> cookie_jar \<Rightarrow> json_reply \<times> cookie_jar" where
  "failed_reply e jar =
     (case e of
        DashboardAuthError m \<Rightarrow> (message_reply 401 ''Your session is no longer valid.'', clearDashboardSession jar)
      | _ \<Rightarrow> (message_reply 500 (dashboard_error_message e), jar))"

definition blank_property :: "json option \<Rightarrow> string \<Rightarrow> dashboard_error + bool" where
  "blank_property body k =
     then_message (answer_get body k)
       (\<lambda>v. Inr (case v of Some (JStr s) \<Rightarrow> length (js_trim s) = 0 | _ \<Rightarrow> True))"

text \<open>The \<open>try\<close>: a reply, or the rows' request for the backend.\<close>

definition batch_request :: "action_env \<Rightarrow> string \<Rightarrow> json option \<Rightarrow> dashboard_error + (json_reply + client_request)" where
  "batch_request X accessToken body =
     then_message (blank_property body ''chain'') (\<lambda>noChain.
     then_message (blank_property body ''asset'') (\<lambda>noAsset.
     then_message (blank_property body ''input'') (\<lambda>noInput.
       if noChain \<or> noAsset \<or> noInput then Inr (Inl (message_reply 400 ''Chain, asset, and batch input are required.''))
       else
         then_message (call_backend X (client_fetchPartnerDashboardMetadata accessToken)) (\<lambda>metadata.
         then_message (answer_get metadata ''optionSets'') (\<lambda>optionSets.
         then_message (answer_get optionSets ''resolutionBatchInputFormats'') (\<lambda>formats.
         then_message (readBatchFormat (j_get (or_else body JNull) ''inputFormat'') formats) (\<lambda>inputFormat.
         then_message (answer_get optionSets ''resolutionBatchLookupModes'') (\<lambda>modes.
         then_message (dashboard_readBatchLookupMode (j_get (or_else body JNull) ''lookupMode'') modes) (\<lambda>lookupMode.
           if falsy inputFormat \<or> falsy lookupMode
           then Inr (Inl (message_reply 400 ''Choose a supported input format and lookup mode.''))
           else
             then_message (parseBatchRows (xe_dashboard X) (or_else inputFormat []) (or_else lookupMode [])
               (session_text (or_else body JNull) ''input'')) (\<lambda>rows.
               if rows = [] then Inr (Inl (message_reply 400 ''At least one batch row is required.''))
               else Inr (Inr (client_batchVerifyDestinations accessToken
                 (JObj [(''inputFormat'', the_text inputFormat), (''lookupMode'', the_text lookupMode),
                        (''chain'', JStr (js_trim (session_text (or_else body JNull) ''chain''))),
                        (''asset'', JStr (js_trim (session_text (or_else body JNull) ''asset''))),
                        (''stopOnFirstHighRisk'',
                         JBool (j_get (or_else body JNull) ''stopOnFirstHighRisk'' = Some (JBool True))),
                        (''requireExactAttestedMatch'',
                         JBool (j_get (or_else body JNull) ''requireExactAttestedMatch'' = Some (JBool True))),
                        (''rows'', JArr rows)])))))))))))))"

text \<open>\<^verbatim>\<open>body\<close> is the body of the request when that is JSON.\<close>

definition batch_POST :: "action_env \<Rightarrow> json option \<Rightarrow> cookie_jar \<Rightarrow> json_reply \<times> cookie_jar" where
  "batch_POST X body jar =
     (case getDashboardSession (xe_dashboard X) jar of
        None \<Rightarrow> (message_reply 401 ''Authentication required.'', jar)
      | Some session \<Rightarrow>
     (if body = None then failed_reply (OtherError ''Unexpected token in JSON'') jar
      else case batch_request X (session_text session ''accessToken'') body of
        Inl e \<Rightarrow> failed_reply e jar
      | Inr (Inl r) \<Rightarrow> (r, jar)
      | Inr (Inr q) \<Rightarrow>
          (case call_backend X q of
             Inl e \<Rightarrow> failed_reply e jar
           | Inr None \<Rightarrow> failed_reply (OtherError ''Value is not JSON serializable'') jar
           | Inr data \<Rightarrow> ((200, data), jar))))"

definition trimmed_param :: "(string \<times> string) list \<Rightarrow> string \<Rightarrow> string" where
  "trimmed_param params k = (case map_of params k of None \<Rightarrow> [] | Some s \<Rightarrow> js_trim s)"

definition given_param :: "string \<Rightarrow> string \<Rightarrow> query" where
  "given_param k v = (if length v > 0 then [(k, QStr v)] else [])"

definition platforms_GET :: "action_env \<Rightarrow> (string \<times> string) list \<Rightarrow> cookie_jar \<Rightarrow> json_reply \<times> cookie_jar" where
  "platforms_GET X params jar =
     (case getDashboardSession (xe_dashboard X) jar of
        None \<Rightarrow> (message_reply 401 ''Authentication required.'', jar)
      | Some session \<Rightarrow>
          let lookupModeValue = trimmed_param params ''lookupMode'' in
          (case call_backend X
             (client_fetchSupportedPlatforms (session_text session ''accessToken'')
               (given_param ''address'' (trimmed_param params ''address'') @
                given_param ''chain'' (trimmed_param params ''chain'') @
                given_param ''asset'' (trimmed_param params ''asset'') @
                (if lookupModeValue = ''BY_ADDRESS'' \<or> lookupModeValue = ''BY_RECIPIENT''
                 then [(''lookupMode'', QStr lookupModeValue)] else []))) of
             Inl e \<Rightarrow> failed_reply e jar
           | Inr None \<Rightarrow> failed_reply (OtherError ''Value is not JSON serializable'') jar
           | Inr data \<Rightarrow> ((200, data), jar)))"

end
