(* ===== verification/Sandbox_Facts.thy ===== *)
theory Sandbox_Facts
  imports Dashboard_Batch Dashboard_Metadata
begin

text \<open>
  The batch form and the examples offered for it: a table written as CSV is read back row by row, the batch the
  backend proposes is one row, and what the parser does with lines it does not expect.
\<close>

section \<open>Trimmed text\<close>

lemma trimmed_iff: "js_trim s = s \<longleftrightarrow> s = [] \<or> (\<not> is_ws (hd s) \<and> \<not> is_ws (last s))"
proof
  assume trimmed: "js_trim s = s"
  have "length s = length (dropWhile is_ws (rev (dropWhile is_ws s)))"
    using arg_cong [OF trimmed, of length] by (simp add: js_trim_def js_trim_start_def js_trim_end_def)
  then have "length s \<le> length (dropWhile is_ws s)"
    using length_dropWhile_le [of is_ws "rev (dropWhile is_ws s)"] by simp
  moreover have "length (takeWhile is_ws s) + length (dropWhile is_ws s) = length s"
    by (metis length_append takeWhile_dropWhile_id)
  ultimately have "length (takeWhile is_ws s) = 0" by linarith
  then have "takeWhile is_ws s = []" by simp
  then have start: "dropWhile is_ws s = s"
    using takeWhile_dropWhile_id [of is_ws s] by simp
  then have "dropWhile is_ws (rev s) = rev s"
    using trimmed by (simp add: js_trim_def js_trim_start_def js_trim_end_def rev_swap)
  with start show "s = [] \<or> (\<not> is_ws (hd s) \<and> \<not> is_ws (last s))"
    by (auto simp: dropWhile_eq_self_iff hd_rev)
next
  assume "s = [] \<or> (\<not> is_ws (hd s) \<and> \<not> is_ws (last s))"
  then have "dropWhile is_ws s = s" "dropWhile is_ws (rev s) = rev s"
    by (auto simp: dropWhile_eq_self_iff hd_rev)
  then show "js_trim s = s" by (simp add: js_trim_def js_trim_start_def js_trim_end_def)
qed

section \<open>Tables as CSV\<close>

definition clean_cell :: "string \<Rightarrow> bool" where
  "clean_cell c \<longleftrightarrow> js_trim c = c \<and> CHR '','' \<notin> set c \<and> CHR 0x0A \<notin> set c"

definition csv_line :: "string list \<Rightarrow> string" where
  "csv_line cells = join_with '','' cells"

definition csv_table :: "string list list \<Rightarrow> string" where
  "csv_table table = join_with newline (map csv_line table)"

lemma set_join_with: "set (join_with sep ss) \<subseteq> set sep \<union> (\<Union>s \<in> set ss. set s)"
proof (induction ss)
  case (Cons x zs)
  then show ?case by (cases zs) auto
qed simp

lemma csv_line_shape:
  assumes "\<forall>c \<in> set cells. clean_cell c" "2 \<le> length cells"
  shows "csv_line cells \<noteq> [] \<and> js_trim (csv_line cells) = csv_line cells \<and> CHR 0x0A \<notin> set (csv_line cells)"
proof -
  have comma: "\<not> is_ws (CHR '','')" by code_simp
  have last: "cs \<noteq> [] \<Longrightarrow> \<forall>c \<in> set cs. clean_cell c \<Longrightarrow> csv_line cs \<noteq> [] \<Longrightarrow> \<not> is_ws (last (csv_line cs))" for cs
  proof (induction cs)
    case (Cons c cs)
    then show ?case
      using comma by (cases cs; cases "csv_line cs = []") (auto simp: csv_line_def clean_cell_def trimmed_iff)
  qed simp
  have nl: "\<forall>c \<in> set cs. clean_cell c \<Longrightarrow> CHR 0x0A \<notin> set (csv_line cs)" for cs
    using set_join_with [of "'',''" cs] by (auto simp: csv_line_def clean_cell_def)
  obtain a b cs where cells: "cells = a # b # cs" using assms(2) by (cases cells; cases "tl cells") auto
  have "csv_line cells \<noteq> []" by (simp add: cells csv_line_def)
  moreover have "\<not> is_ws (hd (csv_line cells))"
    using assms(1) comma by (cases a) (auto simp: cells csv_line_def clean_cell_def trimmed_iff)
  moreover have "\<not> is_ws (last (csv_line cells))" using last [of cells] assms(1) calculation(1) by (simp add: cells)
  ultimately show ?thesis using nl assms(1) by (simp add: trimmed_iff)
qed

lemma columns_of_line:
  assumes "\<forall>c \<in> set cells. clean_cell c" "2 \<le> length cells"
  shows "line_columns (CHR '','') (csv_line cells) = cells"
proof -
  have "split_on (CHR '','') (csv_line cells) = cells"
    unfolding csv_line_def by (rule split_on_join) (use assms in \<open>auto simp: clean_cell_def\<close>)
  then show ?thesis using assms(1) by (auto simp: line_columns_def clean_cell_def intro: map_idI)
qed

lemma lines_of_table:
  assumes "table \<noteq> []" "\<forall>cells \<in> set table. (\<forall>c \<in> set cells. clean_cell c) \<and> 2 \<le> length cells"
  shows "input_lines (csv_table table) = map csv_line table"
proof -
  have "split_on (CHR 0x0A) (csv_table table) = map csv_line table"
    unfolding csv_table_def newline_def
    by (rule split_on_join) (use assms csv_line_shape in \<open>auto\<close>)
  then show ?thesis
    using assms csv_line_shape by (auto simp: input_lines_def comp_def intro!: filter_True map_cong)
qed

lemma csv_triple:
  "csv_row mode [r, k, a] = Some (JObj (given_text ''clientReference'' (Some r) @
     [(if mode = ''BY_ADDRESS'' then ''platform'' else ''recipientIdentifier'', JStr k), (''address'', JStr a)]))"
  by (simp add: csv_row_def column_def the_text_def Let_def)

text \<open>C40: a table written as plain CSV is read back row by row.  Take rows of three cells, and a header of at least two
  whose first names the client reference, all cells without commas, line breaks and surrounding spaces, written with
  commas between them and without quotes (the form splits a line at every comma and knows no quoting).  Then the batch
  form makes of the text exactly one row of the batch for each row of the table, in order, with the cells where they
  belong: the reference when it is not empty, the recipient's identifier, or the platform in a batch by address, and the
  address.\<close>

theorem csv_table_parsed:
  assumes "\<forall>cells \<in> set (header # map (\<lambda>(r, k, a). [r, k, a]) rows). \<forall>c \<in> set cells. clean_cell c"
    and "2 \<le> length header" "csv_header_line header"
  shows "parseCsvRows mode (csv_table (header # map (\<lambda>(r, k, a). [r, k, a]) rows)) =
    map (\<lambda>(r, k, a). JObj (given_text ''clientReference'' (Some r) @
      [(if mode = ''BY_ADDRESS'' then ''platform'' else ''recipientIdentifier'', JStr k), (''address'', JStr a)])) rows"
proof -
  let ?table = "header # map (\<lambda>(r, k, a). [r, k, a]) rows"
  have cells: "\<forall>cells \<in> set ?table. (\<forall>c \<in> set cells. clean_cell c) \<and> 2 \<le> length cells"
    using assms by auto
  then have "map (line_columns (CHR '','')) (input_lines (csv_table ?table)) = ?table"
    using lines_of_table [of ?table] columns_of_line by (auto simp: comp_def intro: map_idI)
  then have "parseCsvRows mode (csv_table ?table) = List.map_filter (csv_row mode) (map (\<lambda>(r, k, a). [r, k, a]) rows)"
    using assms(3) by (simp add: parseCsvRows_def)
  also have "\<dots> = map (\<lambda>(r, k, a). JObj (given_text ''clientReference'' (Some r) @
      [(if mode = ''BY_ADDRESS'' then ''platform'' else ''recipientIdentifier'', JStr k), (''address'', JStr a)])) rows"
    by (induction rows) (simp_all add: map_filter_simps csv_triple split_beta)
  finally show ?thesis .
qed

theorem csv_table_parsed_witness:
  "parseCsvRows ''BY_RECIPIENT''
     (csv_table [[''client_ref'', ''recipient_identifier'', ''address''], [''ref-1'', ''ada@acme'', ''0xabc''], [[], ''bob@acme'', ''0xdef'']]) =
   [JObj [(''clientReference'', JStr ''ref-1''), (''recipientIdentifier'', JStr ''ada@acme''), (''address'', JStr ''0xabc'')],
    JObj [(''recipientIdentifier'', JStr ''bob@acme''), (''address'', JStr ''0xdef'')]]"
proof -
  let ?h = "[''client_ref'', ''recipient_identifier'', ''address'']"
  let ?rows = "[(''ref-1'', ''ada@acme'', ''0xabc''), ([], ''bob@acme'', ''0xdef'')]"
  have cells: "\<forall>cells \<in> set (?h # map (\<lambda>(r, k, a). [r, k, a]) ?rows). \<forall>c \<in> set cells. clean_cell c"
    by code_simp
  have "csv_header_line ?h" by code_simp
  from csv_table_parsed [OF cells _ this, of "''BY_RECIPIENT''"] show ?thesis
    by (simp add: given_text_def falsy_def)
qed

section \<open>The batch the backend proposes\<close>

text \<open>The batch input of the sandbox examples is one row of the batch form, unless the example's identifier or address
  has a comma or a line break in it.\<close>

theorem sandbox_batch_parsed:
  assumes "exampleDestination now s = Some (d, r, p, net)" "example_identifier s (rc_id r) = Some i"
    and "clean_cell (id_rawValue i)" "clean_cell (de_addressRaw d)"
  shows "\<exists>input. sx_batchDefaultInput (buildSandboxExamples now s) = Some input \<and>
    parseCsvRows ''BY_RECIPIENT'' input =
      [JObj [(''clientReference'', JStr ''sample-1''), (''recipientIdentifier'', JStr (id_rawValue i)),
             (''address'', JStr (de_addressRaw d))]]"
proof -
  let ?h = "[''client_ref'', ''recipient_identifier'', ''address'']"
  let ?rows = "[(''sample-1'', id_rawValue i, de_addressRaw d)]"
  have "clean_cell ''client_ref''" "clean_cell ''recipient_identifier''" "clean_cell ''address''" "clean_cell ''sample-1''"
    by code_simp+
  with assms(3,4) have cells: "\<forall>cells \<in> set (?h # map (\<lambda>(r, k, a). [r, k, a]) ?rows). \<forall>c \<in> set cells. clean_cell c"
    by simp
  have header: "csv_header_line ?h" by code_simp
  have "sx_batchDefaultInput (buildSandboxExamples now s) = Some (csv_table (?h # map (\<lambda>(r, k, a). [r, k, a]) ?rows))"
    using assms(1,2) by (cases net) (simp add: buildSandboxExamples_def Let_def csv_table_def csv_line_def)
  moreover have "map (line_columns (CHR '','')) (input_lines (csv_table (?h # map (\<lambda>(r, k, a). [r, k, a]) ?rows))) =
      ?h # map (\<lambda>(r, k, a). [r, k, a]) ?rows"
    using lines_of_table [of "?h # map (\<lambda>(r, k, a). [r, k, a]) ?rows"] columns_of_line cells by simp
  ultimately show ?thesis
    using header by (simp add: parseCsvRows_def map_filter_simps csv_triple given_text_def falsy_def)
qed

lemma insort_key_map: "insort_key f (g x) (map g xs) = map g (insort_key (\<lambda>x. f (g x)) x xs)"
  by (induction xs) simp_all

lemma sort_key_map_swap: "sort_key f (map g xs) = map g (sort_key (\<lambda>x. f (g x)) xs)"
  by (induction xs) (simp_all add: insort_key_map)

text \<open>Whether an identifier may be looked up plays no part in showing it as an example: with every identifier of the
  directory made private, the example is the same.\<close>

theorem example_ignores_visibility:
  "example_identifier (s\<lparr>identifiers := map (\<lambda>i. i\<lparr>id_visibility := v\<rparr>) (identifiers s)\<rparr>) recipientId =
     map_option (\<lambda>i. i\<lparr>id_visibility := v\<rparr>) (example_identifier s recipientId)"
proof -
  have "filter (\<lambda>i. id_recipientId i = recipientId \<and> id_status i = IdentifierStatus_ACTIVE)
      (map (\<lambda>i. i\<lparr>id_visibility := v\<rparr>) (identifiers s)) =
    map (\<lambda>i. i\<lparr>id_visibility := v\<rparr>)
      (filter (\<lambda>i. id_recipientId i = recipientId \<and> id_status i = IdentifierStatus_ACTIVE) (identifiers s))"
    by (simp add: filter_map comp_def)
  moreover have "first_option (map g xs) = map_option g (first_option xs)" for g :: "RecipientIdentifier \<Rightarrow> RecipientIdentifier" and xs
    by (cases xs) (simp_all add: first_option_def)
  ultimately show ?thesis
    by (simp add: example_identifier_def sort_key_map_swap)
qed

section \<open>Lines the parser does not expect\<close>

text \<open>The first row is taken for a header when its reference mentions a client; and in a mixed batch, a row whose mode is
  not spelled in capitals is read without it: the mode becomes the recipient and the recipient the address.\<close>

theorem csv_rows_misread:
  "parseCsvRows ''BY_RECIPIENT'' ''client-7,ada@acme,0xabc'' = [] \<and>
   parseCsvRows ''MIXED'' ''ref-1,by_recipient,ada@acme,0xabc'' =
     [JObj [(''clientReference'', JStr ''ref-1''), (''recipientIdentifier'', JStr ''by_recipient''), (''address'', JStr ''ada@acme'')]]"
  by code_simp

end
