(* ===== verification/Dashboard_Pages.thy ===== *)
theory Dashboard_Pages
  imports Dashboard_Batch Dashboard_Metadata
begin

text \<open>
  The pages of the dashboard, \<^verbatim>\<open>src/dashboard/src/app/(ops)/**/page.tsx\<close>, as what each of them decides before it
  renders: the session it needs, the requests it makes (some of them together, with \<open>Promise.all\<close>), the modules and
  scopes it asks for, the forms it offers, the rows it counts, and what it does when a request fails.  The markup, the
  descriptions, the cells of the tables and the figures that show a field of an answer as it is are left out.

  A page is run on the requests it makes, the page that results, and the cookies.  The answers of the backend come
  from \<^verbatim>\<open>call_backend\<close>; \<^verbatim>\<open>pe_profile\<close>, \<^verbatim>\<open>pe_metadata\<close>, \<^verbatim>\<open>pe_partners\<close> and \<^verbatim>\<open>pe_corridors\<close> read some of them
  as the types that \<^verbatim>\<open>vervet-api.ts\<close> declares.  \<^verbatim>\<open>pe_settles\<close> tells when an answer arrives.  \<^verbatim>\<open>pe_deleteCookie\<close> is what \<open>cookies().delete\<close> of Next.js
  does in a page that is being rendered, where it may be an exception.
\<close>

section \<open>Running a page\<close>

record page_env =
  pe_action :: action_env
  pe_sha256 :: "string \<Rightarrow> string"
  pe_now :: time
  pe_settles :: "client_request \<Rightarrow> nat"
  pe_profile :: "json option \<Rightarrow> PartnerProfile"
  pe_metadata :: "json option \<Rightarrow> PartnerDashboardMetadata"
  pe_partners :: "json option \<Rightarrow> AdminPartnerWorkspace list"
  pe_corridors :: "json option \<Rightarrow> corridor list"
  pe_deleteCookie :: "string \<Rightarrow> cookie_jar \<Rightarrow> string + cookie_jar"

record page_view =
  pv_title :: string
  pv_flash :: "json option"
  pv_banner :: "string option"
  pv_figures :: "(string \<times> int) list"
  pv_forms :: "string list"
  pv_data :: "json option list"
  pv_error :: "string option"

text \<open>A redirect; a module that is not available, with the title of the page, that of the banner and its link; an
  error panel; the page; an exception.\<close>

datatype page =
    Goes string
  | Locked string string string
  | Unavailable string string
  | Shown page_view
  | Fails string

type_synonym 'a load = "client_request list \<times> (dashboard_error + 'a)"

type_synonym page_run = "client_request list \<times> page \<times> cookie_jar"

definition load_done :: "'a \<Rightarrow> 'a load" where
  "load_done x = ([], Inr x)"

definition load_then :: "'a load \<Rightarrow> ('a \<Rightarrow> 'b load) \<Rightarrow> 'b load" where
  "load_then m f =
     (case m of
        (qs, Inl e) \<Rightarrow> (qs, Inl e)
      | (qs, Inr x) \<Rightarrow> (case f x of (qs', r) \<Rightarrow> (qs @ qs', r)))"

definition load_of :: "dashboard_error + 'a \<Rightarrow> 'a load" where
  "load_of r = ([], r)"

definition fetch_one :: "page_env \<Rightarrow> client_request \<Rightarrow> json option load" where
  "fetch_one E q = ([q], call_backend (pe_action E) q)"

text \<open>\<open>Promise.all\<close>: all answers, or the error that arrives first.\<close>

definition fetch_failures :: "page_env \<Rightarrow> client_request list \<Rightarrow> (client_request \<times> dashboard_error) list" where
  "fetch_failures E qs =
     List.map_filter (\<lambda>q. case call_backend (pe_action E) q of Inl e \<Rightarrow> Some (q, e) | Inr data \<Rightarrow> None) qs"

definition fetch_answers :: "page_env \<Rightarrow> client_request list \<Rightarrow> json option list" where
  "fetch_answers E qs = map (\<lambda>q. case call_backend (pe_action E) q of Inl e \<Rightarrow> None | Inr data \<Rightarrow> data) qs"

definition fetch_all :: "page_env \<Rightarrow> client_request list \<Rightarrow> json option list load" where
  "fetch_all E qs =
     (qs, (case sort_key (\<lambda>(q, e). pe_settles E q) (fetch_failures E qs) of
             (q, e) # _ \<Rightarrow> Inl e
           | [] \<Rightarrow> Inr (fetch_answers E qs)))"

definition dashboard_of :: "page_env \<Rightarrow> dashboard_env" where
  "dashboard_of E = xe_dashboard (pe_action E)"

definition session_token :: "json \<Rightarrow> string" where
  "session_token session = session_text session ''accessToken''"

definition session_scopes :: "json \<Rightarrow> string list" where
  "session_scopes session =
     (case j_get session ''scopes'' of
        Some (JArr xs) \<Rightarrow> List.map_filter (\<lambda>x. case x of JStr s \<Rightarrow> Some s | _ \<Rightarrow> None) xs
      | _ \<Rightarrow> [])"

text \<open>A page that catches the errors of its requests: a session the backend refuses is cleared and the user sent to
  the entry page; any other error is what \<open>unavailable\<close> makes of it.\<close>

definition caught_page :: "page_env \<Rightarrow> (dashboard_error \<Rightarrow> page) \<Rightarrow> (json \<Rightarrow> page load) \<Rightarrow> cookie_jar \<Rightarrow> page_run" where
  "caught_page E unavailable body jar =
     (case requireDashboardSession (dashboard_of E) jar of
        Inl location \<Rightarrow> ([], Goes location, jar)
      | Inr session \<Rightarrow>
          (case body session of
             (qs, Inr p) \<Rightarrow> (qs, p, jar)
           | (qs, Inl e) \<Rightarrow>
               (case e of
                  DashboardAuthError m \<Rightarrow>
                    (case pe_deleteCookie E sessionCookieName jar of
                       Inl reason \<Rightarrow> (qs, Fails reason, jar)
                     | Inr jar' \<Rightarrow> (qs, Goes ''/'', jar'))
                | _ \<Rightarrow> (qs, unavailable e, jar))))"

text \<open>One that does not: the exception leaves it.\<close>

definition uncaught_page :: "page_env \<Rightarrow> (json \<Rightarrow> page load) \<Rightarrow> cookie_jar \<Rightarrow> page_run" where
  "uncaught_page E body jar =
     (case requireDashboardSession (dashboard_of E) jar of
        Inl location \<Rightarrow> ([], Goes location, jar)
      | Inr session \<Rightarrow>
          (case body session of
             (qs, Inr p) \<Rightarrow> (qs, p, jar)
           | (qs, Inl e) \<Rightarrow> (qs, Fails (dashboard_error_message e), jar)))"

definition panel :: "string \<Rightarrow> dashboard_error \<Rightarrow> page" where
  "panel title e = Unavailable title (humanizeDashboardError e)"

definition view :: "string \<Rightarrow> page_view" where
  "view title =
     \<lparr>pv_title = title, pv_flash = None, pv_banner = None, pv_figures = [], pv_forms = [], pv_data = [], pv_error = None\<rparr>"

definition flash_of :: "page_env \<Rightarrow> cookie_jar \<Rightarrow> json option" where
  "flash_of E jar = consumeDashboardFlash (dashboard_of E) jar"

type_synonym search_params = "string \<Rightarrow> search_param option"

text \<open>A filter that is \<open>undefined\<close> is not among the parameters of the query.\<close>

definition filter_param :: "string \<Rightarrow> string option \<Rightarrow> query" where
  "filter_param k v = (case v of None \<Rightarrow> [] | Some s \<Rightarrow> [(k, QStr s)])"

definition search_filter :: "search_params \<Rightarrow> string \<Rightarrow> query" where
  "search_filter params k = filter_param k (readSearchParam (params k))"

definition option_filter :: "search_params \<Rightarrow> string \<Rightarrow> string list \<Rightarrow> query" where
  "option_filter params k options = filter_param k (readAllowedOption (readSearchParam (params k)) options)"

definition profile_and_metadata :: "page_env \<Rightarrow> string \<Rightarrow> (PartnerProfile \<times> PartnerDashboardMetadata) load" where
  "profile_and_metadata E token =
     load_then (fetch_all E [client_fetchPartnerProfile token, client_fetchPartnerDashboardMetadata token])
       (\<lambda>answers. load_done (pe_profile E (answers ! 0), pe_metadata E (answers ! 1)))"

definition profile_only :: "page_env \<Rightarrow> string \<Rightarrow> PartnerProfile load" where
  "profile_only E token =
     load_then (fetch_one E (client_fetchPartnerProfile token)) (\<lambda>data. load_done (pe_profile E data))"

definition metadata_only :: "page_env \<Rightarrow> string \<Rightarrow> PartnerDashboardMetadata load" where
  "metadata_only E token =
     load_then (fetch_one E (client_fetchPartnerDashboardMetadata token)) (\<lambda>data. load_done (pe_metadata E data))"

text \<open>The rows of an answer, and how many of them satisfy a condition.\<close>

definition answer_rows :: "json option \<Rightarrow> dashboard_error + json list" where
  "answer_rows data =
     (case data of Some (JArr rows) \<Rightarrow> Inr rows | _ \<Rightarrow> Inl (OtherError ''filter is not a function''))"

definition row_count :: "(json \<Rightarrow> bool) \<Rightarrow> json list \<Rightarrow> int" where
  "row_count P rows = int (length (filter P rows))"

definition row_is :: "string \<Rightarrow> string \<Rightarrow> json \<Rightarrow> bool" where
  "row_is k v row \<longleftrightarrow> j_get row k = Some (JStr v)"

definition expires_soon :: "page_env \<Rightarrow> json \<Rightarrow> bool" where
  "expires_soon E row \<longleftrightarrow>
     expiresWithinDays (dashboard_of E) (pe_now E) (optional_json_text (j_get row ''expiresAt'')) 7"

text \<open>A field below others, where reading a field of nothing is an exception.\<close>

fun value_at :: "json option \<Rightarrow> string list \<Rightarrow> dashboard_error + json option" where
  "value_at v [] = Inr v"
| "value_at v (k # ks) = then_message (answer_get v k) (\<lambda>w. value_at w ks)"

definition number_or_zero :: "json option \<Rightarrow> int" where
  "number_or_zero v = (case v of Some (JNum n) \<Rightarrow> n | _ \<Rightarrow> 0)"

definition corridors_at_risk :: "json option \<Rightarrow> dashboard_error + int" where
  "corridors_at_risk dataFeedHealth =
     then_message (value_at dataFeedHealth [''metrics'', ''degradedCorridorCount'']) (\<lambda>degraded.
     then_message (value_at dataFeedHealth [''metrics'', ''disconnectedCorridorCount'']) (\<lambda>disconnected.
       Inr (number_or_zero degraded + number_or_zero disconnected)))"

section \<open>Registry\<close>

text \<open>What a page lets a user change: the scope, once the organisation maps its data.\<close>

definition can_write_registry :: "string list \<Rightarrow> PartnerProfile \<Rightarrow> string \<Rightarrow> bool" where
  "can_write_registry sessionScopes partnerProfile scope \<longleftrightarrow>
     canAccessScope sessionScopes [scope] \<and>
     hasReachedOnboardingStage (ob_stage (pf_onboarding partnerProfile)) PartnerOnboardingStage_DATA_MAPPING_IN_PROGRESS"

definition write_lock_banner :: "string list \<Rightarrow> PartnerProfile \<Rightarrow> string \<Rightarrow> string \<Rightarrow> string option" where
  "write_lock_banner sessionScopes partnerProfile scope title =
     (if canAccessScope sessionScopes [scope] \<and> \<not> can_write_registry sessionScopes partnerProfile scope
      then Some title else None)"

definition expiring_recipient :: "page_env \<Rightarrow> json \<Rightarrow> bool" where
  "expiring_recipient E recipient \<longleftrightarrow>
     (case j_get recipient ''recentAttestations'' of Some (JArr xs) \<Rightarrow> list_ex (expires_soon E) xs | _ \<Rightarrow> False)"

definition active_destinations :: "json \<Rightarrow> int" where
  "active_destinations recipient = (case j_get recipient ''activeDestinationsCount'' of Some (JNum n) \<Rightarrow> n | _ \<Rightarrow> 0)"

definition RecipientsPage :: "page_env \<Rightarrow> search_params \<Rightarrow> cookie_jar \<Rightarrow> page_run" where
  "RecipientsPage E params jar =
     caught_page E (panel ''Recipients unavailable'') (\<lambda>session.
       let accessToken = session_token session; sessionScopes = session_scopes session in
       load_then (profile_and_metadata E accessToken) (\<lambda>(partnerProfile, metadata).
       let filters = search_filter params ''search'' @
             option_filter params ''status'' (os_recipientStatuses (dm_optionSets metadata));
           canWriteRecipients = can_write_registry sessionScopes partnerProfile ''recipients:write''
       in
       if \<not> canAccessModule partnerProfile Module_registry
       then load_done (Locked ''Recipients'' ''Recipient registry is not enabled for this organization'' ''/setup'')
       else load_then (fetch_all E [client_fetchRecipients accessToken filters, client_fetchDataFeedHealth accessToken])
         (\<lambda>answers. load_then (load_of (answer_rows (answers ! 0))) (\<lambda>recipients.
         load_then (load_of (corridors_at_risk (answers ! 1))) (\<lambda>atRisk.
         load_done (Shown ((view ''Recipients'')
           \<lparr>pv_flash := flash_of E jar,
            pv_banner := write_lock_banner sessionScopes partnerProfile ''recipients:write''
              ''Recipient write actions unlock during data mapping'',
            pv_figures :=
              [(''Total recipients'', int (length recipients)),
               (''Active recipients'', row_count (row_is ''status'' ''ACTIVE'') recipients),
               (''Without destination'', row_count (\<lambda>r. j_get r ''activeDestinationsCount'' = Some (JNum 0)) recipients),
               (''Expiring attestations'', row_count (expiring_recipient E) recipients),
               (''Reverse lookup ready'', row_count (\<lambda>r. active_destinations r > 0) recipients),
               (''Corridors at risk'', atRisk)],
            pv_forms := (if canWriteRecipients then [''/recipients/actions/create''] else []),
            pv_data := answers\<rparr>))))))) jar"

definition RecipientDetailPage :: "page_env \<Rightarrow> string \<Rightarrow> cookie_jar \<Rightarrow> page_run" where
  "RecipientDetailPage E recipientId jar =
     caught_page E (panel ''Recipient unavailable'') (\<lambda>session.
       let accessToken = session_token session; sessionScopes = session_scopes session in
       load_then (profile_only E accessToken) (\<lambda>partnerProfile.
       if \<not> canAccessModule partnerProfile Module_registry
       then load_done (Locked ''Recipient detail'' ''Recipient detail is unavailable'' ''/setup'')
       else
         let canWriteRecipients = can_write_registry sessionScopes partnerProfile ''recipients:write'' in
         load_then (fetch_all E
           [client_fetchRecipient accessToken recipientId,
            client_fetchDestinations accessToken [(''recipientId'', QStr recipientId)],
            client_fetchAttestations accessToken [(''recipientId'', QStr recipientId), (''limit'', QNum 10)]])
         (\<lambda>answers. load_done (Shown ((view
           (case optional_json_text (j_get (or_else (answers ! 0) JNull) ''displayName'') of
              Some name \<Rightarrow> name
            | None \<Rightarrow> session_text (or_else (answers ! 0) JNull) ''externalRecipientId''))
           \<lparr>pv_flash := flash_of E jar,
            pv_banner := write_lock_banner sessionScopes partnerProfile ''recipients:write''
              ''Recipient changes unlock during data mapping'',
            pv_forms :=
              (if canWriteRecipients then [''/recipients/actions/update'', ''/recipients/actions/disable''] else []),
            pv_data := answers\<rparr>))))) jar"

definition RecipientDestinationsPage :: "page_env \<Rightarrow> string \<Rightarrow> cookie_jar \<Rightarrow> page_run" where
  "RecipientDestinationsPage E recipientId jar =
     caught_page E (panel ''Recipient destinations unavailable'') (\<lambda>session.
       let accessToken = session_token session in
       load_then (profile_only E accessToken) (\<lambda>partnerProfile.
       if \<not> canAccessModule partnerProfile Module_registry
       then load_done (Locked ''Recipient Destinations'' ''Recipient destinations are unavailable'' ''/setup'')
       else load_then (fetch_all E
           [client_fetchRecipient accessToken recipientId,
            client_fetchDestinations accessToken [(''recipientId'', QStr recipientId)]])
         (\<lambda>answers. load_done (Shown ((view ''Recipient Destinations'')\<lparr>pv_data := answers\<rparr>))))) jar"

definition RecipientAttestationsPage :: "page_env \<Rightarrow> string \<Rightarrow> cookie_jar \<Rightarrow> page_run" where
  "RecipientAttestationsPage E recipientId jar =
     caught_page E (panel ''Recipient attestations unavailable'') (\<lambda>session.
       let accessToken = session_token session in
       load_then (profile_only E accessToken) (\<lambda>partnerProfile.
       if \<not> canAccessModule partnerProfile Module_registry
       then load_done (Locked ''Recipient Attestations'' ''Recipient attestations are unavailable'' ''/setup'')
       else load_then (fetch_all E
           [client_fetchRecipient accessToken recipientId,
            client_fetchAttestations accessToken [(''recipientId'', QStr recipientId), (''limit'', QNum 50)]])
         (\<lambda>answers. load_done (Shown ((view ''Recipient Attestations'')\<lparr>pv_data := answers\<rparr>))))) jar"

definition DestinationsPage :: "page_env \<Rightarrow> search_params \<Rightarrow> cookie_jar \<Rightarrow> page_run" where
  "DestinationsPage E params jar =
     caught_page E (panel ''Destinations unavailable'') (\<lambda>session.
       let accessToken = session_token session; sessionScopes = session_scopes session in
       load_then (profile_and_metadata E accessToken) (\<lambda>(partnerProfile, metadata).
       let filters = search_filter params ''recipientId'' @ search_filter params ''chain'' @ search_filter params ''asset'' @
             option_filter params ''status'' (os_destinationStatuses (dm_optionSets metadata));
           canWriteDestinations = can_write_registry sessionScopes partnerProfile ''destinations:write''
       in
       if \<not> canAccessModule partnerProfile Module_registry
       then load_done (Locked ''Destinations'' ''Destinations are unavailable for this organization'' ''/setup'')
       else load_then (fetch_all E
           [client_fetchDestinations accessToken filters, client_fetchRecipients accessToken [(''limit'', QNum 100)],
            client_fetchDataFeedHealth accessToken])
         (\<lambda>answers. load_then (load_of (answer_rows (answers ! 0))) (\<lambda>destinations.
         load_done (Shown ((view ''Destinations'')
           \<lparr>pv_flash := flash_of E jar,
            pv_banner := write_lock_banner sessionScopes partnerProfile ''destinations:write''
              ''Destination write actions unlock during data mapping'',
            pv_figures :=
              [(''Total destinations'', int (length destinations)),
               (''Active'', row_count (row_is ''status'' ''ACTIVE'') destinations),
               (''Pending'', row_count (row_is ''status'' ''PENDING'') destinations),
               (''Revoked / expired'',
                row_count (\<lambda>r. row_is ''status'' ''REVOKED'' r \<or> row_is ''status'' ''EXPIRED'' r) destinations)],
            pv_forms := (if canWriteDestinations then [''/destinations/actions/create''] else []),
            pv_data := answers\<rparr>)))))) jar"

definition DestinationDetailPage :: "page_env \<Rightarrow> string \<Rightarrow> cookie_jar \<Rightarrow> page_run" where
  "DestinationDetailPage E destinationId jar =
     caught_page E (panel ''Destination unavailable'') (\<lambda>session.
       let accessToken = session_token session; sessionScopes = session_scopes session in
       load_then (profile_only E accessToken) (\<lambda>partnerProfile.
       if \<not> canAccessModule partnerProfile Module_registry
       then load_done (Locked ''Destination detail'' ''Destination detail is unavailable'' ''/setup'')
       else
         let canWriteDestinations = can_write_registry sessionScopes partnerProfile ''destinations:write'' in
         load_then (fetch_one E (client_fetchDestination accessToken destinationId)) (\<lambda>destination.
         load_done (Shown ((view ''Destination Detail'')
           \<lparr>pv_flash := flash_of E jar,
            pv_banner := write_lock_banner sessionScopes partnerProfile ''destinations:write''
              ''Destination changes unlock during data mapping'',
            pv_forms :=
              (if canWriteDestinations then [''/destinations/actions/replace'', ''/destinations/actions/revoke''] else []),
            pv_data := [destination]\<rparr>))))) jar"

definition AttestationsPage :: "page_env \<Rightarrow> search_params \<Rightarrow> cookie_jar \<Rightarrow> page_run" where
  "AttestationsPage E params jar =
     caught_page E (panel ''Attestations unavailable'') (\<lambda>session.
       let accessToken = session_token session in
       load_then (profile_and_metadata E accessToken) (\<lambda>(partnerProfile, metadata).
       let filters = search_filter params ''recipientIdentifier'' @ search_filter params ''chain'' @
             search_filter params ''asset'' @
             option_filter params ''attestationType'' (os_attestationTypes (dm_optionSets metadata)) @
             option_filter params ''verificationStatus'' (os_verificationStatuses (dm_optionSets metadata))
       in
       if \<not> canAccessModule partnerProfile Module_registry
       then load_done (Locked ''Attestations'' ''Attestations are not enabled for this organization'' ''/setup'')
       else load_then (fetch_all E [client_fetchAttestations accessToken filters, client_fetchDataFeedHealth accessToken])
         (\<lambda>answers. load_then (load_of (answer_rows (answers ! 0))) (\<lambda>attestations.
         load_then (load_of (corridors_at_risk (answers ! 1))) (\<lambda>atRisk.
         load_done (Shown ((view ''Attestations'')
           \<lparr>pv_figures :=
              [(''Active'', row_count (row_is ''verificationStatus'' ''VERIFIED'') attestations),
               (''Expiring soon'', row_count (expires_soon E) attestations),
               (''Expired'', row_count (row_is ''verificationStatus'' ''EXPIRED'') attestations),
               (''Revoked'', row_count (row_is ''verificationStatus'' ''REVOKED'') attestations),
               (''Corridors at risk'', atRisk)],
            pv_data := answers\<rparr>))))))) jar"

definition AttestationDetailPage :: "page_env \<Rightarrow> string \<Rightarrow> cookie_jar \<Rightarrow> page_run" where
  "AttestationDetailPage E attestationId jar =
     caught_page E (panel ''Attestation unavailable'') (\<lambda>session.
       let accessToken = session_token session in
       load_then (profile_only E accessToken) (\<lambda>partnerProfile.
       if \<not> canAccessModule partnerProfile Module_registry
       then load_done (Locked ''Attestation detail'' ''Attestation detail is unavailable'' ''/setup'')
       else load_then (fetch_one E (client_fetchAttestation accessToken attestationId)) (\<lambda>attestation.
         load_done (Shown ((view ''Attestation Detail'')\<lparr>pv_data := [attestation]\<rparr>))))) jar"

end
