(* ===== verification/Operations_Pages.thy ===== *)
theory Operations_Pages
  imports Dashboard_Pages Dashboard_Nav
begin

text \<open>
  The pages of the dashboard beside the registry's: webhooks, keys and access, audit, resolution, the overview and the
  feed's health, the documentation; and the layout around them all.  As in \<^verbatim>\<open>Dashboard_Pages\<close>, a page is what it
  decides before it renders.
\<close>

section \<open>Webhooks\<close>

definition webhook_matches :: "string option \<Rightarrow> string option \<Rightarrow> string option \<Rightarrow> json \<Rightarrow> bool" where
  "webhook_matches status eventType search endpoint \<longleftrightarrow>
     \<not> (\<not> falsy status \<and> \<not> row_is ''status'' (or_else status []) endpoint) \<and>
     \<not> (\<not> falsy eventType \<and>
        \<not> (case j_get endpoint ''eventTypes'' of
             Some (JArr xs) \<Rightarrow> List.member xs (JStr (or_else eventType [])) | _ \<Rightarrow> False)) \<and>
     \<not> (\<not> falsy search \<and>
        \<not> js_includes (js_lower (or_else search [])) (js_lower (session_text endpoint ''label'')) \<and>
        \<not> js_includes (js_lower (or_else search [])) (js_lower (session_text endpoint ''url'')))"

definition delivery_stat :: "string \<Rightarrow> json \<Rightarrow> int" where
  "delivery_stat status endpoint =
     number_or_zero (Option.bind (j_get endpoint ''deliveryStats'') (\<lambda>stats. j_get stats status))"

text \<open>The quotient and the product are doubles.\<close>

definition calculateWebhookSuccessRate :: "json list \<Rightarrow> int" where
  "calculateWebhookSuccessRate endpoints =
     (let succeeded = sum_list (map (delivery_stat ''SUCCEEDED'') endpoints);
          failed = sum_list (map (delivery_stat ''FAILED'') endpoints);
          attempts = succeeded + failed
      in
      if attempts = 0 then 100
      else let (a, b) = to_double (succeeded, attempts); (c, d) = to_double (a * 100, b) in (2 * c + d) div (2 * d))"

definition WebhooksPage :: "page_env \<Rightarrow> search_params \<Rightarrow> cookie_jar \<Rightarrow> page_run" where
  "WebhooksPage E params jar =
     caught_page E (panel ''Webhooks unavailable'') (\<lambda>session.
       let accessToken = session_token session;
           canWriteWebhooks = canAccessScope (session_scopes session) [''webhooks:write''] in
       load_then (profile_and_metadata E accessToken) (\<lambda>(partnerProfile, metadata).
       let status = readAllowedOption (readSearchParam (params ''status'')) (os_webhookStatuses (dm_optionSets metadata));
           eventType = readAllowedOption (readSearchParam (params ''eventType''))
             (os_webhookEventTypes (dm_optionSets metadata));
           search = readSearchParam (params ''search'')
       in
       if \<not> cap_webhooksEnabled (pf_capabilities partnerProfile)
       then load_done (Locked ''Webhooks'' ''Webhooks are not enabled'' ''/setup'')
       else load_then (fetch_one E (client_fetchWebhookEndpoints accessToken)) (\<lambda>answer.
         load_then (load_of (answer_rows answer)) (\<lambda>rows.
         let endpoints = filter (webhook_matches status eventType search) rows in
         load_done (Shown ((view ''Webhooks'')
           \<lparr>pv_flash := flash_of E jar,
            pv_figures :=
              [(''Active endpoints'', row_count (row_is ''status'' ''ACTIVE'') endpoints),
               (''Paused endpoints'', row_count (row_is ''status'' ''PAUSED'') endpoints),
               (''Recent failures'', sum_list (map (delivery_stat ''FAILED'') endpoints)),
               (''Delivery success'', calculateWebhookSuccessRate endpoints)],
            pv_forms := (if canWriteWebhooks then [''/webhooks/actions/create''] else []),
            pv_data := [Some (JArr endpoints)]\<rparr>)))))) jar"

definition WebhookDetailPage :: "page_env \<Rightarrow> string \<Rightarrow> cookie_jar \<Rightarrow> page_run" where
  "WebhookDetailPage E webhookId jar =
     caught_page E (panel ''Webhook unavailable'') (\<lambda>session.
       let accessToken = session_token session;
           canWriteWebhooks = canAccessScope (session_scopes session) [''webhooks:write''] in
       load_then (profile_only E accessToken) (\<lambda>partnerProfile.
       if \<not> canAccessModule partnerProfile Module_webhooks
       then load_done (Locked ''Webhook detail'' ''Webhook detail is unavailable'' ''/setup'')
       else load_then (fetch_one E (client_fetchWebhookEndpoint accessToken webhookId)) (\<lambda>endpoint.
         load_done (Shown ((view (session_text (or_else endpoint JNull) ''label''))
           \<lparr>pv_flash := flash_of E jar,
            pv_forms :=
              (if canWriteWebhooks
               then [''/webhooks/actions/test'', ''/webhooks/actions/rotate-secret'', ''/webhooks/actions/status'']
               else []),
            pv_data := [endpoint]\<rparr>))))) jar"

definition WebhookDeliveriesPage :: "page_env \<Rightarrow> search_params \<Rightarrow> cookie_jar \<Rightarrow> page_run" where
  "WebhookDeliveriesPage E params jar =
     caught_page E (panel ''Deliveries unavailable'') (\<lambda>session.
       let accessToken = session_token session in
       load_then (profile_and_metadata E accessToken) (\<lambda>(partnerProfile, metadata).
       let filters = search_filter params ''endpointId'' @
             option_filter params ''eventType'' (os_webhookEventTypes (dm_optionSets metadata)) @
             option_filter params ''status'' (os_deliveryStatuses (dm_optionSets metadata))
       in
       if \<not> canAccessModule partnerProfile Module_webhooks
       then load_done (Locked ''Deliveries'' ''Webhook deliveries are unavailable'' ''/setup'')
       else load_then (fetch_one E (client_fetchWebhookDeliveries accessToken filters)) (\<lambda>deliveries.
         load_done (Shown ((view ''Deliveries'')\<lparr>pv_flash := flash_of E jar, pv_data := [deliveries]\<rparr>))))) jar"

definition WebhookDeliveryDetailPage :: "page_env \<Rightarrow> string \<Rightarrow> cookie_jar \<Rightarrow> page_run" where
  "WebhookDeliveryDetailPage E deliveryId jar =
     caught_page E (panel ''Delivery unavailable'') (\<lambda>session.
       let accessToken = session_token session;
           canReplay = canAccessScope (session_scopes session) [''webhooks:replay''] in
       load_then (profile_only E accessToken) (\<lambda>partnerProfile.
       if \<not> canAccessModule partnerProfile Module_webhooks
       then load_done (Locked ''Delivery detail'' ''Delivery detail is unavailable'' ''/setup'')
       else load_then (fetch_one E (client_fetchWebhookDelivery accessToken deliveryId)) (\<lambda>delivery.
         load_done (Shown ((view ''Delivery Detail'')
           \<lparr>pv_flash := flash_of E jar,
            pv_forms := (if canReplay then [''/webhooks/actions/replay-delivery''] else []),
            pv_data := [delivery]\<rparr>))))) jar"

section \<open>Keys and access\<close>

text \<open>A row whose button is not disabled: nothing has been revoked.\<close>

definition revocable :: "json \<Rightarrow> bool" where
  "revocable row \<longleftrightarrow> j_get row ''revokedAt'' = Some JNull"

definition unused_credential :: "page_env \<Rightarrow> json \<Rightarrow> bool" where
  "unused_credential E credential \<longleftrightarrow>
     isOlderThanDays (dashboard_of E) (pe_now E) (optional_json_text (j_get credential ''lastUsedAt'')) 30"

definition ApiKeysPage :: "page_env \<Rightarrow> cookie_jar \<Rightarrow> page_run" where
  "ApiKeysPage E jar =
     caught_page E (panel ''API keys unavailable'') (\<lambda>session.
       let accessToken = session_token session;
           canWriteKeys = canAccessScope (session_scopes session) [''partners:write''] in
       load_then (profile_and_metadata E accessToken) (\<lambda>(partnerProfile, metadata).
       if \<not> canAccessModule partnerProfile Module_api_keys
       then load_done (Locked ''API Keys'' ''API key management is unavailable'' ''/setup'')
       else if \<not> canWriteKeys
       then load_done (Locked ''API Keys'' ''API key management requires elevated access'' ''/overview'')
       else load_then (fetch_one E (client_fetchPartnerApiCredentials accessToken)) (\<lambda>answer.
         load_then (load_of (answer_rows answer)) (\<lambda>credentials.
         load_done (Shown ((view ''API Keys'')
           \<lparr>pv_flash := flash_of E jar,
            pv_figures :=
              [(''Active keys'', row_count (row_is ''status'' ''ACTIVE'') credentials),
               (''Revoked keys'', row_count (\<lambda>r. \<not> revocable r) credentials),
               (''Unused 30d'', row_count (unused_credential E) credentials)],
            pv_forms := ''/access/actions/create-credential'' #
              (if list_ex revocable credentials then [''/access/actions/revoke-credential''] else []),
            pv_data := [answer]\<rparr>)))))) jar"

definition SigningKeysPage :: "page_env \<Rightarrow> cookie_jar \<Rightarrow> page_run" where
  "SigningKeysPage E jar =
     caught_page E (panel ''Signing keys unavailable'') (\<lambda>session.
       let accessToken = session_token session;
           canWriteKeys = canAccessScope (session_scopes session) [''partners:write''] in
       load_then (profile_and_metadata E accessToken) (\<lambda>(partnerProfile, metadata).
       if \<not> canAccessModule partnerProfile Module_signing_keys
       then load_done (Locked ''Signing Keys'' ''Signing keys are unavailable'' ''/setup'')
       else if \<not> canWriteKeys
       then load_done (Locked ''Signing Keys'' ''Signing key management requires elevated access'' ''/overview'')
       else load_then (fetch_one E (client_fetchPartnerSigningKeys accessToken)) (\<lambda>answer.
         load_then (load_of (answer_rows answer)) (\<lambda>signingKeys.
         load_done (Shown ((view ''Signing Keys'')
           \<lparr>pv_flash := flash_of E jar,
            pv_figures :=
              [(''Active key versions'', row_count (row_is ''status'' ''ACTIVE'') signingKeys),
               (''Revoked'', row_count (\<lambda>r. \<not> revocable r) signingKeys)],
            pv_forms := ''/access/actions/register-signing-key'' #
              (if list_ex revocable signingKeys then [''/access/actions/revoke-signing-key''] else []),
            pv_data := [answer]\<rparr>)))))) jar"

definition TeamPage :: "page_env \<Rightarrow> cookie_jar \<Rightarrow> page_run" where
  "TeamPage E jar =
     caught_page E (panel ''Team unavailable'') (\<lambda>session.
       let accessToken = session_token session;
           canWriteTeam = canAccessScope (session_scopes session) [''team:write''] in
       load_then (metadata_only E accessToken) (\<lambda>metadata.
       load_then (fetch_one E (client_fetchPartnerUsers accessToken)) (\<lambda>answer.
       load_then (load_of (then_message (answer_get answer ''invites'') answer_rows)) (\<lambda>invites.
       load_then (load_of (then_message (answer_get answer ''users'') answer_rows)) (\<lambda>users.
         load_done (Shown ((view ''Team'')
           \<lparr>pv_flash := flash_of E jar,
            pv_figures :=
              [(''Active users'', int (length users)),
               (''Pending invites'', row_count (row_is ''status'' ''PENDING'') invites),
               (''Owners'', row_count (row_is ''role'' ''OWNER'') users)],
            pv_forms :=
              (if \<not> canWriteTeam then []
               else ''/access/actions/invite-user'' #
                 (if users = [] then [] else [''/access/actions/update-user'', ''/access/actions/deactivate-user''])),
            pv_data := [answer]\<rparr>))))))) jar"

definition SecurityPage :: "page_env \<Rightarrow> cookie_jar \<Rightarrow> page_run" where
  "SecurityPage E jar =
     caught_page E (panel ''Security unavailable'') (\<lambda>session.
       let accessToken = session_token session;
           canWriteSecurity = canAccessScope (session_scopes session) [''security:write''] in
       load_then (fetch_all E
         [client_fetchPartnerSecuritySettings accessToken, client_fetchAuditLogs accessToken [(''limit'', QNum 10)],
          client_fetchPartnerProfile accessToken])
       (\<lambda>answers. load_then (load_of (then_message (answer_get (answers ! 0) ''ipAllowlist'') answer_rows)) (\<lambda>ipAllowlist.
         load_done (Shown ((view ''Security'')
           \<lparr>pv_flash := flash_of E jar,
            pv_figures := [(''IP allowlist entries'', int (length ipAllowlist))],
            pv_forms := (if canWriteSecurity then [''/access/actions/update-security''] else []),
            pv_data := answers\<rparr>))))) jar"

definition page_formatDisclosureMode :: "string \<Rightarrow> bool \<Rightarrow> string" where
  "page_formatDisclosureMode mode allowFullLabelDisclosure =
     (if allowFullLabelDisclosure then ''Full label allowed''
      else if mode = ''MASKED_LABEL'' then ''Masked label'' else ''Verification only'')"

definition formatRetentionMode :: "string \<Rightarrow> int \<Rightarrow> string" where
  "formatRetentionMode mode retentionHours =
     (if mode = ''NO_RETAIN'' then ''No retain''
      else if mode = ''SHORT_RETENTION'' then show_int retentionHours @ ''h''
      else ''Standard'')"

definition PlanUsagePage :: "page_env \<Rightarrow> cookie_jar \<Rightarrow> page_run" where
  "PlanUsagePage E jar =
     caught_page E (panel ''Plan & usage unavailable'') (\<lambda>session.
       load_then (fetch_one E (client_fetchPartnerProfile (session_token session))) (\<lambda>profile.
         load_done (Shown ((view ''Plan & Usage'')\<lparr>pv_data := [profile]\<rparr>)))) jar"

section \<open>Audit\<close>

definition AuditLogsPage :: "page_env \<Rightarrow> search_params \<Rightarrow> cookie_jar \<Rightarrow> page_run" where
  "AuditLogsPage E params jar =
     caught_page E (panel ''Audit log unavailable'') (\<lambda>session.
       let accessToken = session_token session in
       load_then (metadata_only E accessToken) (\<lambda>metadata.
       load_then (fetch_one E (client_fetchAuditLogs accessToken
         (option_filter params ''actorType'' (os_auditActorTypes (dm_optionSets metadata)) @
          search_filter params ''action'' @ search_filter params ''entityType'' @ search_filter params ''entityId'')))
       (\<lambda>auditLogs. load_done (Shown ((view ''Audit Log'')\<lparr>pv_data := [auditLogs]\<rparr>))))) jar"

definition readCorridorLabels :: "json option \<Rightarrow> string list" where
  "readCorridorLabels v =
     (case v of
        Some (JArr entries) \<Rightarrow>
          List.map_filter (\<lambda>entry.
            case (j_get entry ''chain'', j_get entry ''asset'') of
              (Some (JStr chain), Some (JStr asset)) \<Rightarrow> Some (chain @ '' / '' @ asset)
            | _ \<Rightarrow> None) entries
      | _ \<Rightarrow> [])"

text \<open>The corridors requested and approved, when the metadata names any.\<close>

definition extractProductionScope :: "json option \<Rightarrow> (string list \<times> string list) option" where
  "extractProductionScope metadata =
     (let requested = readCorridorLabels (Option.bind metadata (\<lambda>m. j_get m ''requestedCorridors''));
          approved = readCorridorLabels (Option.bind metadata (\<lambda>m. j_get m ''approvedCorridors''))
      in (if requested = [] \<and> approved = [] then None else Some (requested, approved)))"

definition AuditLogDetailPage :: "page_env \<Rightarrow> string \<Rightarrow> cookie_jar \<Rightarrow> page_run" where
  "AuditLogDetailPage E eventId jar =
     caught_page E (panel ''Audit event unavailable'') (\<lambda>session.
       load_then (fetch_one E (client_fetchAuditLog (session_token session) eventId)) (\<lambda>auditLog.
       load_then (load_of (answer_get auditLog ''metadata'')) (\<lambda>metadata.
         load_done (Shown ((view ''Audit Event Detail'')
           \<lparr>pv_banner :=
              map_option (\<lambda>(requested, approved). join_with '', '' requested @ '' | '' @ join_with '', '' approved)
                (extractProductionScope metadata),
            pv_data := [auditLog]\<rparr>))))) jar"

definition AuditExportsPage :: "page_env \<Rightarrow> cookie_jar \<Rightarrow> page_run" where
  "AuditExportsPage E jar =
     caught_page E (panel ''Audit exports unavailable'') (\<lambda>session.
       let accessToken = session_token session in
       load_then (profile_and_metadata E accessToken) (\<lambda>(partnerProfile, metadata).
       if \<not> cap_auditExportsEnabled (pf_capabilities partnerProfile)
       then load_done (Locked ''Audit Exports'' ''Audit exports are unavailable'' ''/setup'')
       else load_then (fetch_one E (client_fetchAuditExports accessToken)) (\<lambda>exports.
         load_done (Shown ((view ''Audit Exports'')
           \<lparr>pv_flash := flash_of E jar, pv_forms := [''/audit/actions/create-export''], pv_data := [exports]\<rparr>))))) jar"

section \<open>Resolution\<close>

text \<open>A page that shows the message of a failed request in its place.\<close>

definition message_page :: "string \<Rightarrow> dashboard_error \<Rightarrow> page" where
  "message_page title e = Shown ((view title)\<lparr>pv_error := Some (humanizeDashboardError e)\<rparr>)"

definition ByRecipientPage :: "page_env \<Rightarrow> search_params \<Rightarrow> cookie_jar \<Rightarrow> page_run" where
  "ByRecipientPage E params jar =
     caught_page E (message_page ''By Recipient'') (\<lambda>session.
       let accessToken = session_token session;
           recipientIdentifier = or_else (readSearchParam (params ''recipientIdentifier'')) [] in
       load_then (profile_and_metadata E accessToken) (\<lambda>(partnerProfile, metadata).
       let chain = resolveDefaultChain (dm_assetNetworks metadata) (readSearchParam (params ''chain''));
           asset = resolveDefaultAsset (dm_assetNetworks metadata) (readSearchParam (params ''asset''))
       in
       if \<not> canAccessModule partnerProfile Module_resolution
       then load_done (Locked ''By Recipient'' ''Resolution is not enabled for this organization'' ''/setup'')
       else if \<not> canRunOperationalResolution partnerProfile
       then load_done (Locked ''By Recipient'' ''Resolution execution is currently unavailable'' ''/setup'')
       else if recipientIdentifier = [] then load_done (Shown (view ''By Recipient''))
       else load_then (fetch_one E (client_resolveRecipient (pe_sha256 E) accessToken
           (JObj [(''recipientIdentifier'', JStr recipientIdentifier), (''chain'', JStr chain), (''asset'', JStr asset)])))
         (\<lambda>answer. load_done (Shown ((view ''By Recipient'')\<lparr>pv_data := [answer]\<rparr>))))) jar"

definition address_body :: "string \<Rightarrow> string \<Rightarrow> string \<Rightarrow> string \<Rightarrow> json" where
  "address_body platform address chain asset =
     JObj (given_text ''platform'' (Some platform) @
       [(''address'', JStr address), (''chain'', JStr chain), (''asset'', JStr asset)])"

definition ByAddressPage :: "page_env \<Rightarrow> search_params \<Rightarrow> cookie_jar \<Rightarrow> page_run" where
  "ByAddressPage E params jar =
     caught_page E (message_page ''By Address'') (\<lambda>session.
       let accessToken = session_token session;
           platform = or_else (readSearchParam (params ''platform'')) [];
           address = or_else (readSearchParam (params ''address'')) [] in
       load_then (profile_and_metadata E accessToken) (\<lambda>(partnerProfile, metadata).
       let chain = resolveDefaultChain (dm_assetNetworks metadata) (readSearchParam (params ''chain''));
           asset = resolveDefaultAsset (dm_assetNetworks metadata) (readSearchParam (params ''asset''))
       in
       if \<not> canAccessModule partnerProfile Module_resolution
       then load_done (Locked ''By Address'' ''Address-led resolution is unavailable'' ''/setup'')
       else if \<not> canRunOperationalResolution partnerProfile
       then load_done (Locked ''By Address'' ''Address confirmation is currently unavailable'' ''/setup'')
       else load_then (fetch_one E (client_fetchSupportedPlatforms accessToken
           [(''chain'', QStr chain), (''asset'', QStr asset), (''lookupMode'', QStr ''BY_ADDRESS'')]))
         (\<lambda>platforms.
           if address = [] then load_done (Shown ((view ''By Address'')\<lparr>pv_data := [platforms]\<rparr>))
           else load_then (fetch_one E (client_confirmRecipientByAddress (pe_sha256 E) accessToken
               (address_body platform address chain asset)))
             (\<lambda>answer. load_done (Shown ((view ''By Address'')\<lparr>pv_data := [platforms, answer]\<rparr>)))))) jar"

definition readMode :: "string option \<Rightarrow> string" where
  "readMode v = (if v = Some ''ADDRESS_CONTEXT'' then ''ADDRESS_CONTEXT'' else ''RECIPIENT_CONTEXT'')"

definition VerifyTransferPage :: "page_env \<Rightarrow> search_params \<Rightarrow> cookie_jar \<Rightarrow> page_run" where
  "VerifyTransferPage E params jar =
     caught_page E (message_page ''Verify Transfer'') (\<lambda>session.
       let accessToken = session_token session;
           mode = readMode (readSearchParam (params ''mode''));
           recipientIdentifier = or_else (readSearchParam (params ''recipientIdentifier'')) [];
           platform = or_else (readSearchParam (params ''platform'')) [];
           address = or_else (readSearchParam (params ''address'')) [] in
       load_then (profile_and_metadata E accessToken) (\<lambda>(partnerProfile, metadata).
       let chain = resolveDefaultChain (dm_assetNetworks metadata) (readSearchParam (params ''chain''));
           asset = resolveDefaultAsset (dm_assetNetworks metadata) (readSearchParam (params ''asset''))
       in
       if \<not> canAccessModule partnerProfile Module_resolution
       then load_done (Locked ''Verify Transfer'' ''Transfer verification is unavailable'' ''/setup'')
       else if \<not> canRunOperationalResolution partnerProfile
       then load_done (Locked ''Verify Transfer'' ''Transfer verification is currently unavailable'' ''/setup'')
       else load_then (fetch_one E (client_fetchSupportedPlatforms accessToken
           ([(''chain'', QStr chain), (''asset'', QStr asset)] @
            (if mode = ''ADDRESS_CONTEXT'' then [(''lookupMode'', QStr ''BY_ADDRESS'')] else []))))
         (\<lambda>platforms.
           if address \<noteq> [] \<and> (mode = ''RECIPIENT_CONTEXT'' \<and> recipientIdentifier \<noteq> [] \<or> mode = ''ADDRESS_CONTEXT'')
           then load_then (fetch_one E
               (if mode = ''RECIPIENT_CONTEXT''
                then client_verifyDestination (pe_sha256 E) accessToken
                  (JObj [(''recipientIdentifier'', JStr recipientIdentifier), (''address'', JStr address),
                         (''chain'', JStr chain), (''asset'', JStr asset)])
                else client_confirmRecipientByAddress (pe_sha256 E) accessToken (address_body platform address chain asset)))
             (\<lambda>answer. load_done (Shown ((view ''Verify Transfer'')\<lparr>pv_data := [platforms, answer]\<rparr>)))
           else load_done (Shown ((view ''Verify Transfer'')\<lparr>pv_data := [platforms]\<rparr>))))) jar"

definition BatchVerifyPage :: "page_env \<Rightarrow> cookie_jar \<Rightarrow> page_run" where
  "BatchVerifyPage E jar =
     caught_page E (panel ''Batch verification unavailable'') (\<lambda>session.
       load_then (profile_and_metadata E (session_token session)) (\<lambda>(partnerProfile, metadata).
       load_done
         (if \<not> canAccessModule partnerProfile Module_resolution
          then Locked ''Batch Verify'' ''Batch verification is unavailable'' ''/setup''
          else if \<not> canAccessModule partnerProfile Module_batch_verification
          then Locked ''Batch Verify'' ''Batch verification is disabled''
            (if ent_bulkVerificationEnabled (pp_entitlements (bs_plan (pf_billing partnerProfile)))
             then ''/setup'' else ''/access/plan-usage'')
          else if \<not> canRunOperationalResolution partnerProfile
          then Locked ''Batch Verify'' ''Batch verification is currently unavailable'' ''/setup''
          else Shown ((view ''Batch Verify'')\<lparr>pv_forms := [''/resolution/actions/batch'']\<rparr>)))) jar"

definition readOption :: "string option \<Rightarrow> string list \<Rightarrow> string option" where
  "readOption v options = (if \<not> falsy v \<and> List.member options (or_else v []) then v else None)"

definition ResolutionLogsPage :: "page_env \<Rightarrow> search_params \<Rightarrow> cookie_jar \<Rightarrow> page_run" where
  "ResolutionLogsPage E params jar =
     caught_page E (panel ''Resolution logs unavailable'') (\<lambda>session.
       let accessToken = session_token session in
       load_then (profile_and_metadata E accessToken) (\<lambda>(partnerProfile, metadata).
       let options = dm_optionSets metadata;
           filters =
             filter_param ''queryType'' (readOption (readSearchParam (params ''queryType'')) (os_queryTypes options)) @
             filter_param ''outcome'' (readOption (readSearchParam (params ''outcome'')) (os_resolutionOutcomes options)) @
             filter_param ''riskLevel'' (readOption (readSearchParam (params ''riskLevel'')) (os_riskLevels options)) @
             search_filter params ''platform'' @ search_filter params ''chain'' @ search_filter params ''asset'' @
             search_filter params ''recipientIdentifier''
       in
       if \<not> canAccessModule partnerProfile Module_resolution
       then load_done (Locked ''Logs'' ''Resolution logs are unavailable'' ''/setup'')
       else load_then (fetch_all E
           [client_fetchResolutionLogs accessToken filters,
            client_fetchSupportedPlatforms accessToken (search_filter params ''chain'' @ search_filter params ''asset'')])
         (\<lambda>answers. load_done (Shown ((view ''Logs'')\<lparr>pv_data := answers\<rparr>))))) jar"

definition ResolutionLogDetailPage :: "page_env \<Rightarrow> string \<Rightarrow> cookie_jar \<Rightarrow> page_run" where
  "ResolutionLogDetailPage E i jar =
     caught_page E (panel ''Resolution log unavailable'') (\<lambda>session.
       load_then (fetch_one E (client_fetchResolutionLog (session_token session) i)) (\<lambda>log.
         load_done (Shown ((view ''Log Detail'')\<lparr>pv_data := [log]\<rparr>)))) jar"

section \<open>Overview and feed health\<close>

definition OverviewPage :: "page_env \<Rightarrow> cookie_jar \<Rightarrow> page_run" where
  "OverviewPage E jar =
     caught_page E (panel ''Overview unavailable'') (\<lambda>session.
       let accessToken = session_token session in
       load_then (fetch_all E [client_fetchOverview accessToken, client_fetchPartnerProfile accessToken]) (\<lambda>answers.
       let partnerProfile = pe_profile E (answers ! 1) in
       if canAccessModule partnerProfile Module_data_feed
       then load_then (fetch_one E (client_fetchDataFeedHealth accessToken)) (\<lambda>dataFeedHealth.
         load_done (Shown ((view ''Overview'')\<lparr>pv_data := answers @ [dataFeedHealth]\<rparr>)))
       else load_done (Shown ((view ''Overview'')\<lparr>pv_data := answers\<rparr>)))) jar"

text \<open>The newest failures of any kind, twelve at most: the key and the moment of each, one without a moment being the
  oldest.  The dates are those the backend sends.\<close>

definition rows_at :: "json option \<Rightarrow> string list \<Rightarrow> dashboard_error + json list" where
  "rows_at v ks = then_message (value_at v ks) answer_rows"

definition first_text :: "json \<Rightarrow> string list \<Rightarrow> string option" where
  "first_text row ks =
     (case List.map_filter (\<lambda>k. optional_json_text (j_get row k)) ks of [] \<Rightarrow> None | s # _ \<Rightarrow> Some s)"

definition occurred_ms :: "page_env \<Rightarrow> string option \<Rightarrow> time" where
  "occurred_ms E v = (if falsy v then 0 else or_else (parseDate (dx_env (dashboard_of E)) (or_else v [])) 0)"

definition failure_rows :: "string \<Rightarrow> string list \<Rightarrow> json list \<Rightarrow> (string \<times> string option) list" where
  "failure_rows prefix moments rows = map (\<lambda>r. (prefix @ session_text r ''id'', first_text r moments)) rows"

definition buildRecentFailureRows ::
    "page_env \<Rightarrow> json option \<Rightarrow> dashboard_error + (string \<times> string option) list" where
  "buildRecentFailureRows E dataFeedHealth =
     then_message (rows_at dataFeedHealth [''ingestion'', ''recentFailures'']) (\<lambda>ingestion.
     then_message (rows_at dataFeedHealth [''deliveryFailures'']) (\<lambda>deliveries.
     then_message (rows_at dataFeedHealth [''eventHealth'', ''webhookTestFailures'']) (\<lambda>tests.
       Inr (take 12 (sort_key (\<lambda>(key, moment). - occurred_ms E moment)
         (failure_rows ''ingestion-'' [''occurredAt''] ingestion @
          failure_rows ''delivery-'' [''lastAttemptAt'', ''nextAttemptAt''] deliveries @
          failure_rows ''test-'' [''occurredAt''] tests))))))"

definition waiting_for_first_attestation :: "json option \<Rightarrow> dashboard_error + bool" where
  "waiting_for_first_attestation dataFeedHealth =
     then_message (value_at dataFeedHealth [''metrics'', ''activeAttestationCount'']) (\<lambda>active.
     if active \<noteq> Some (JNum 0) then Inr False
     else then_message (value_at dataFeedHealth [''metrics'', ''recentIngestionSuccessCount7d'']) (\<lambda>recent.
       Inr (recent = Some (JNum 0))))"

text \<open>This page throws what it catches.\<close>

definition DataFeedHealthPage :: "page_env \<Rightarrow> cookie_jar \<Rightarrow> page_run" where
  "DataFeedHealthPage E jar =
     caught_page E (\<lambda>e. Fails (''Data feed health unavailable: '' @ humanizeDashboardError e)) (\<lambda>session.
       let accessToken = session_token session in
       load_then (profile_only E accessToken) (\<lambda>partnerProfile.
       if \<not> canAccessModule partnerProfile Module_data_feed
       then load_done (Locked ''Data Feed Health'' ''Data feed health is unavailable'' ''/setup'')
       else load_then (fetch_all E
           [client_fetchDataFeedHealth accessToken, client_fetchPartnerDashboardMetadata accessToken])
         (\<lambda>answers.
           load_then (load_of (buildRecentFailureRows E (answers ! 0))) (\<lambda>failures.
           load_then (load_of (waiting_for_first_attestation (answers ! 0))) (\<lambda>waiting.
           load_done (Shown ((view ''Data Feed Health'')
             \<lparr>pv_banner := (if waiting then Some ''Waiting for your first signed trust update'' else None),
              pv_figures := [(''Recent failures'', int (length failures))],
              pv_data := answers\<rparr>))))))) jar"

section \<open>Documentation and sandbox\<close>

definition docs_page :: "page_env \<Rightarrow> string \<Rightarrow> cookie_jar \<Rightarrow> page_run" where
  "docs_page E title jar =
     uncaught_page E (\<lambda>session.
       load_then (profile_and_metadata E (session_token session)) (\<lambda>loaded. load_done (Shown (view title)))) jar"

definition DocsHomePage :: "page_env \<Rightarrow> cookie_jar \<Rightarrow> page_run" where
  "DocsHomePage E jar = docs_page E ''Docs'' jar"

definition QuickstartPage :: "page_env \<Rightarrow> cookie_jar \<Rightarrow> page_run" where
  "QuickstartPage E jar = docs_page E ''Quickstart'' jar"

definition ApiDocsPage :: "page_env \<Rightarrow> cookie_jar \<Rightarrow> page_run" where
  "ApiDocsPage E jar = docs_page E ''API Reference'' jar"

text \<open>The endpoints the API reference names, with their links.\<close>

definition relevantEndpoints :: "PartnerProfile \<Rightarrow> (string \<times> string) list" where
  "relevantEndpoints partnerProfile =
     (if cap_apiConsumerEnabled (pf_capabilities partnerProfile) then [(''Resolution APIs'', ''/sandbox'')] else []) @
     (if isDataContributorEnabled (pf_capabilities partnerProfile)
      then [(''Trust ingestion APIs'', ''/data-feed-health'')] else []) @
     [(''Webhook APIs'', ''/docs/webhooks'')]"

definition WebhookDocsPage :: "page_env \<Rightarrow> cookie_jar \<Rightarrow> page_run" where
  "WebhookDocsPage E jar =
     uncaught_page E (\<lambda>session.
       let accessToken = session_token session in
       load_then (profile_and_metadata E accessToken) (\<lambda>(partnerProfile, metadata).
       if isDataContributorEnabled (pf_capabilities partnerProfile)
       then load_then (fetch_one E (client_fetchDataFeedHealth accessToken)) (\<lambda>dataFeedHealth.
         load_done (Shown ((view ''Webhook Guide'')\<lparr>pv_data := [dataFeedHealth]\<rparr>)))
       else load_done (Shown (view ''Webhook Guide'')))) jar"

definition SandboxPage :: "page_env \<Rightarrow> cookie_jar \<Rightarrow> page_run" where
  "SandboxPage E jar =
     uncaught_page E (\<lambda>session.
       let accessToken = session_token session in
       load_then (profile_and_metadata E accessToken) (\<lambda>(partnerProfile, metadata).
       if \<not> cap_sandboxEnabled (pf_capabilities partnerProfile)
       then load_done (Locked ''Sandbox'' ''Sandbox is unavailable'' ''/setup'')
       else if isDataContributorEnabled (pf_capabilities partnerProfile)
       then load_then (fetch_one E (client_fetchDataFeedHealth accessToken)) (\<lambda>dataFeedHealth.
         load_done (Shown ((view ''Sandbox'')\<lparr>pv_data := [dataFeedHealth]\<rparr>)))
       else load_done (Shown (view ''Sandbox'')))) jar"

section \<open>Layout, redirects and the entry page\<close>

text \<open>What the layout renders around every page: the navigation, and the link to the setup.\<close>

record app_shell =
  sh_navigation :: "(string \<times> bool \<times> (NavigationItem \<times> bool) list) list"
  sh_setupAction :: bool

definition AppShell :: "PartnerProfile \<Rightarrow> string list \<Rightarrow> string \<Rightarrow> app_shell" where
  "AppShell partnerProfile sessionScopes pathname =
     \<lparr>sh_navigation = DashboardNav partnerProfile sessionScopes pathname,
      sh_setupAction = shouldSurfaceOnboardingSetup partnerProfile\<rparr>"

definition OperationsLayout ::
    "page_env \<Rightarrow> string \<Rightarrow> cookie_jar \<Rightarrow> client_request list \<times> (string + (dashboard_error + app_shell))" where
  "OperationsLayout E pathname jar =
     (case requireDashboardSession (dashboard_of E) jar of
        Inl location \<Rightarrow> ([], Inl location)
      | Inr session \<Rightarrow>
          (case profile_only E (session_token session) of
             (qs, r) \<Rightarrow> (qs, Inr (map_sum id (\<lambda>profile. AppShell profile (session_scopes session) pathname) r))))"

definition redirect_pages :: "(string \<times> string) list" where
  "redirect_pages =
     [(''/access'', ''/access/api-keys''), (''/audit-logs'', ''/audit/logs''),
      (''/deliveries'', ''/webhooks/deliveries''), (''/resolution'', ''/resolution/by-recipient''),
      (''/resolution/resolve'', ''/resolution/by-recipient''), (''/resolution/verify'', ''/resolution/verify-transfer'')]"

text \<open>The entry page: a user who is signed in goes on, and the link to the setup says whether one is under way.\<close>

definition HomePage :: "page_env \<Rightarrow> cookie_jar \<Rightarrow> string + string" where
  "HomePage E jar =
     (if getDashboardSession (dashboard_of E) jar \<noteq> None then Inl ''/overview''
      else Inr (if getAdminSetupSession (dashboard_of E) jar \<noteq> None then ''Resume admin setup'' else ''Admin setup''))"

end
