(* ===== verification/Setup_Page.thy ===== *)
theory Setup_Page
  imports Dashboard_Pages
begin

text \<open>
  The setup page, \<^verbatim>\<open>src/dashboard/src/app/setup/page.tsx\<close>, with what it renders: a signed-in user's onboarding
  (\<^verbatim>\<open>components/partner-onboarding-home.tsx\<close>: the checklist, the forms for production approval), or the operator's
  workspace (\<^verbatim>\<open>components/admin-setup-workspace.tsx\<close>: the selected partner, the corridors to grant).  The page has no
  \<open>try\<close>: the error of a request leaves it.
\<close>

section \<open>Labels\<close>

definition middle_dot :: string where
  "middle_dot = '' '' @ [CHR 0xB7] @ '' ''"

definition formatAvailableCorridorLabel :: "corridor \<Rightarrow> string" where
  "formatAvailableCorridorLabel = (\<lambda>(n, a, c).
     (if falsy (an_contractAddressRaw n) then ch_displayName c @ '' / '' @ as_displayName a
      else ch_displayName c @ '' / '' @ as_displayName a @ middle_dot @ or_else (an_contractAddressRaw n) []))"

definition formatCorridorLabel :: "granted_corridor \<Rightarrow> string" where
  "formatCorridorLabel = (\<lambda>(r, n, a, c).
     (if falsy (an_contractAddressRaw n) then as_displayName a @ '' on '' @ ch_displayName c
      else as_displayName a @ '' on '' @ ch_displayName c @ middle_dot @ or_else (an_contractAddressRaw n) []))"

definition formatGrantedCorridorLabel :: "granted_corridor \<Rightarrow> string" where
  "formatGrantedCorridorLabel = (\<lambda>(r, n, a, c). ch_displayName c @ '' / '' @ as_symbol a)"

section \<open>A partner's onboarding\<close>

definition checklist_tasks :: "string list" where
  "checklist_tasks =
     [''create_api_key'', ''register_signing_key'', ''configure_webhook'', ''run_sandbox_request'',
      ''map_recipient_data'', ''ingest_attestation_data'', ''request_production_approval'']"

definition shouldIncludeTask :: "PartnerProfile \<Rightarrow> string \<Rightarrow> bool" where
  "shouldIncludeTask profile task \<longleftrightarrow>
     (if task = ''register_signing_key'' \<or> task = ''map_recipient_data'' \<or> task = ''ingest_attestation_data''
      then isDataContributorEnabled (pf_capabilities profile)
      else if task = ''request_production_approval'' then \<not> cap_productionEnabled (pf_capabilities profile)
      else if task = ''run_sandbox_request'' then cap_sandboxEnabled (pf_capabilities profile)
      else if task = ''configure_webhook'' then cap_webhooksEnabled (pf_capabilities profile)
      else True)"

record checklist_item =
  cl_key :: string
  cl_index :: string
  cl_title :: string
  cl_description :: string
  cl_href :: string
  cl_cta :: string
  cl_state :: string

definition checklist_entry :: "PartnerDashboardMetadata \<Rightarrow> PartnerProfile \<Rightarrow> nat \<times> string \<Rightarrow> checklist_item option" where
  "checklist_entry metadata profile = (\<lambda>(index, task).
     let completed = List.member (ob_completedTasks (pf_onboarding profile)) task in
     (case findOnboardingTaskDefinition (Some (dm_taskDefinitions metadata)) (Some task) of
        None \<Rightarrow> None
      | Some (k, d) \<Rightarrow>
          let blocked = (case oa_blockedBy d of
                None \<Rightarrow> False | Some reason \<Rightarrow> List.member (ob_blockedTasks (pf_onboarding profile)) reason) in
          Some \<lparr>cl_key = task, cl_index = ''0'' @ show_nat (index + 1),
            cl_title = metadata_describeOnboardingAction (Some (dm_actionLabels metadata)) (Some task),
            cl_description = oa_description d, cl_href = oa_href d, cl_cta = oa_ctaLabel d,
            cl_state = (if completed then ''completed'' else if blocked then ''blocked'' else ''pending'')\<rparr>))"

definition buildChecklist :: "PartnerDashboardMetadata \<Rightarrow> PartnerProfile \<Rightarrow> checklist_item list" where
  "buildChecklist metadata profile =
     (let tasks = filter (shouldIncludeTask profile) checklist_tasks in
      List.map_filter (checklist_entry metadata profile) (zip [0..<length tasks] tasks))"

record onboarding_home =
  oh_nextLink :: "(string \<times> string) option"
  oh_figures :: "(string \<times> int) list"
  oh_requirementUnmet :: bool
  oh_forms :: "string list"
  oh_cancelId :: "string option"
  oh_explainsBlocked :: bool
  oh_corridorOptions :: "(string \<times> string) list"
  oh_recentRequests :: "json list"
  oh_grantedCorridors :: "string list"
  oh_checklist :: "checklist_item list"

definition next_link :: "PartnerDashboardMetadata \<Rightarrow> PartnerProfile \<Rightarrow> (string \<times> string) option" where
  "next_link metadata profile =
     (let nextAction = ob_nextRecommendedAction (pf_onboarding profile) in
      (if falsy nextAction then None
       else case findOnboardingTaskDefinition (Some (dm_taskDefinitions metadata)) nextAction of
         Some (k, d) \<Rightarrow> Some (oa_href d, oa_ctaLabel d)
       | None \<Rightarrow> Some (''/setup'', ob_nextRecommendedActionLabel (pf_onboarding profile))))"

definition PartnerOnboardingHome ::
    "PartnerDashboardMetadata \<Rightarrow> PartnerProfile \<Rightarrow> json list \<Rightarrow> corridor list \<Rightarrow> onboarding_home" where
  "PartnerOnboardingHome metadata profile productionApprovalRequests availableProductionCorridors =
     (let approval = pf_productionApproval profile;
          latestApprovalRequest = as_latestRequest approval;
          canManageApproval = canManageProductionApproval
            (map_option (\<lambda>u. name_PartnerUserRole (uv_role u)) (pf_authenticatedUser profile));
          requestForm = as_canRequest approval \<and> canManageApproval;
          cancelForm = as_canCancel approval \<and> canManageApproval \<and> latestApprovalRequest \<noteq> None
      in \<lparr>oh_nextLink = next_link metadata profile,
          oh_figures =
            [(''Completed tasks'', int (length (ob_completedTasks (pf_onboarding profile)))),
             (''Blocked tasks'', int (length (ob_blockedTasks (pf_onboarding profile))))],
          oh_requirementUnmet = (bs_requirementStatus (pf_billing profile) = ''UNMET''),
          oh_forms =
            (if requestForm then [''/setup/actions/request-production-approval''] else []) @
            (if cancelForm then [''/setup/actions/cancel-production-approval''] else []),
          oh_cancelId = (if cancelForm then map_option pr_id latestApprovalRequest else None),
          oh_explainsBlocked = (\<not> as_canRequest approval \<and> \<not> as_canCancel approval),
          oh_corridorOptions = map (\<lambda>(n, a, c). (an_id n, formatAvailableCorridorLabel (n, a, c))) availableProductionCorridors,
          oh_recentRequests = take 3 productionApprovalRequests,
          oh_grantedCorridors = map formatCorridorLabel (snd (pf_productionAccess profile)),
          oh_checklist = buildChecklist metadata profile\<rparr>)"

section \<open>The operator's workspace\<close>

record admin_workspace =
  ah_figures :: "(string \<times> int) list"
  ah_selected :: "AdminPartnerWorkspace option"
  ah_partnerSlug :: string
  ah_reviews :: "json list"
  ah_revocable :: "(ident \<times> string) list"
  ah_grantable :: "(ident \<times> string) list"
  ah_forms :: "string list"

definition selected_partner :: "string \<Rightarrow> AdminPartnerWorkspace list \<Rightarrow> AdminPartnerWorkspace option" where
  "selected_partner partnerSlug workspaces =
     (case List.find (\<lambda>w. pa_slug (aw_partner w) = partnerSlug) workspaces of
        Some w \<Rightarrow> Some w
      | None \<Rightarrow> (case workspaces of [] \<Rightarrow> None | w # _ \<Rightarrow> Some w))"

definition granted_to :: "AdminPartnerWorkspace option \<Rightarrow> granted_corridor list" where
  "granted_to w = (case w of None \<Rightarrow> [] | Some x \<Rightarrow> snd (aw_productionAccess x))"

definition grantable_corridors :: "AdminPartnerWorkspace option \<Rightarrow> corridor list \<Rightarrow> corridor list" where
  "grantable_corridors selected available =
     filter (\<lambda>(n, a, c). \<not> list_ex (\<lambda>(r, n', a', c'). an_id n' = an_id n) (granted_to selected)) available"

definition AdminSetupWorkspace ::
    "AdminPartnerWorkspace list \<Rightarrow> json list \<Rightarrow> corridor list \<Rightarrow> string \<Rightarrow> admin_workspace" where
  "AdminSetupWorkspace workspaces productionApprovalRequests availableProductionCorridors partnerSlug =
     (let selected = selected_partner partnerSlug workspaces;
          grantable = grantable_corridors selected availableProductionCorridors
      in \<lparr>ah_figures =
            [(''Partners'', int (length workspaces)),
             (''Pending approvals'', int (length productionApprovalRequests)),
             (''Production live'',
              int (length (filter (\<lambda>w. cap_productionEnabled (aw_capabilities w)) workspaces))),
             (''Data-capable'',
              int (length (filter (\<lambda>w. isDataContributorEnabled (aw_capabilities w)) workspaces))),
             (''Production corridors'', sum_list (map (\<lambda>w. int (fst (aw_productionAccess w))) workspaces))],
          ah_selected = selected,
          ah_partnerSlug = (case selected of None \<Rightarrow> partnerSlug | Some w \<Rightarrow> pa_slug (aw_partner w)),
          ah_reviews = productionApprovalRequests,
          ah_revocable = map (\<lambda>g. (an_id (fst (snd g)), formatGrantedCorridorLabel g)) (granted_to selected),
          ah_grantable = map (\<lambda>(n, a, c). (an_id n, formatAvailableCorridorLabel (n, a, c))) grantable,
          ah_forms =
            [''/setup/actions/create-partner'', ''/setup/actions/register-signing-key'', ''/setup/actions/create-owner-user''] @
            (if productionApprovalRequests = [] then [] else [''/setup/actions/review-production-approval'']) @
            (if selected = None then []
             else ''/setup/actions/update-partner-admin-state'' #
               (if granted_to selected = [] \<and> grantable = [] then []
                else [''/setup/actions/update-production-corridor'']))\<rparr>)"

section \<open>The page\<close>

datatype setup_view =
    Partner_setup onboarding_home
  | Admin_entry
  | Admin_setup admin_workspace

definition setup_slug :: "search_params \<Rightarrow> string" where
  "setup_slug params = or_else (readSearchParam (params ''partnerSlug'')) []"

definition SetupPage ::
    "page_env \<Rightarrow> search_params \<Rightarrow> cookie_jar \<Rightarrow> client_request list \<times> (dashboard_error + setup_view)" where
  "SetupPage E params jar =
     (case getDashboardSession (dashboard_of E) jar of
        Some session \<Rightarrow>
          let accessToken = session_token session in
          load_then (fetch_all E
            [client_fetchPartnerProfile accessToken, client_fetchPartnerDashboardMetadata accessToken,
             client_fetchProductionApprovalRequests accessToken, client_fetchAvailableProductionCorridors accessToken])
          (\<lambda>answers. load_then (load_of (answer_rows (answers ! 2))) (\<lambda>requests.
            load_done (Partner_setup (PartnerOnboardingHome (pe_metadata E (answers ! 1)) (pe_profile E (answers ! 0))
              requests (pe_corridors E (answers ! 3))))))
      | None \<Rightarrow>
          (case getAdminSetupSession (dashboard_of E) jar of
             None \<Rightarrow> load_done Admin_entry
           | Some admin \<Rightarrow>
               let adminToken = session_text admin ''adminToken'' in
               load_then (fetch_all E
                 [client_fetchAdminPartners adminToken,
                  client_fetchAdminProductionApprovalRequests adminToken [(''status'', QStr ''PENDING'')],
                  client_fetchAdminAvailableProductionCorridors adminToken, client_fetchAdminSetupMetadata adminToken])
               (\<lambda>answers. load_then (load_of (answer_rows (answers ! 1))) (\<lambda>requests.
                 load_done (Admin_setup (AdminSetupWorkspace (pe_partners E (answers ! 0)) requests
                   (pe_corridors E (answers ! 2)) (setup_slug params)))))))"

end
