(* ===== verification/Page_Facts.thy ===== *)
theory Page_Facts
  imports Operations_Pages Setup_Page Access_Matrix Client_Facts
begin

text \<open>
  The pages of the dashboard against the guards of the backend.  Every request a page makes is one its user may make,
  and a form is on a page exactly when the guard of the handler its request is for lets the user pass; what happens
  when the backend no longer accepts a session.
\<close>

section \<open>Reasoning about a page\<close>

text \<open>Every request satisfies \<open>Q\<close> and the value, when there is one, \<open>R\<close>.\<close>

definition runs :: "(client_request \<Rightarrow> bool) \<Rightarrow> ('a \<Rightarrow> bool) \<Rightarrow> 'a load \<Rightarrow> bool" where
  "runs Q R m \<longleftrightarrow> list_all Q (fst m) \<and> (\<forall>x. snd m = Inr x \<longrightarrow> R x)"

named_theorems page_rule

lemma runs_done [page_rule]: "R x \<Longrightarrow> runs Q R (load_done x)"
  by (simp add: runs_def load_done_def)

lemma runs_of [page_rule]: "(\<And>x. r = Inr x \<Longrightarrow> R x) \<Longrightarrow> runs Q R (load_of r)"
  by (simp add: runs_def load_of_def)

lemma runs_then [page_rule]: "runs Q (\<lambda>x. runs Q R (f x)) m \<Longrightarrow> runs Q R (load_then m f)"
  by (auto simp: runs_def load_then_def split: prod.splits sum.splits)

lemma runs_one [page_rule]: "Q q \<Longrightarrow> (\<And>data. R data) \<Longrightarrow> runs Q R (fetch_one E q)"
  by (simp add: runs_def fetch_one_def)

lemma runs_all [page_rule]: "list_all Q qs \<Longrightarrow> (\<And>answers. snd (fetch_all E qs) = Inr answers \<Longrightarrow> R answers) \<Longrightarrow> runs Q R (fetch_all E qs)"
  by (auto simp: runs_def fetch_all_def)

lemma runs_metadata [page_rule]:
  "Q (client_fetchPartnerDashboardMetadata token) \<Longrightarrow> (\<And>md. R md) \<Longrightarrow> runs Q R (metadata_only E token)"
  by (simp add: metadata_only_def runs_then runs_one runs_done)

lemma runs_if [page_rule]: "(c \<Longrightarrow> runs Q R m) \<Longrightarrow> (\<not> c \<Longrightarrow> runs Q R m') \<Longrightarrow> runs Q R (if c then m else m')"
  by simp

text \<open>The backend answers the request for the profile with this one.\<close>

definition answers_profile :: "page_env \<Rightarrow> string \<Rightarrow> PartnerProfile \<Rightarrow> bool" where
  "answers_profile E token profile \<longleftrightarrow>
     (\<forall>data. call_backend (pe_action E) (client_fetchPartnerProfile token) = Inr data \<longrightarrow> pe_profile E data = profile)"

lemma fetch_all_answers:
  "snd (fetch_all E qs) = Inr answers \<Longrightarrow> i < length qs \<Longrightarrow> call_backend (pe_action E) (qs ! i) = Inr (answers ! i)"
proof -
  assume a: "snd (fetch_all E qs) = Inr answers" and i: "i < length qs"
  then have none: "fetch_failures E qs = []"
    by (auto simp: fetch_all_def simp flip: length_0_conv split: list.splits prod.splits)
  have "\<exists>data. call_backend (pe_action E) q = Inr data" if "q \<in> set qs" for q
    using none that by (induction qs) (auto simp: fetch_failures_def map_filter_simps split: sum.splits option.splits)
  moreover have "answers = fetch_answers E qs" using a none by (simp add: fetch_all_def)
  ultimately show ?thesis using i nth_mem [OF i] by (fastforce simp: fetch_answers_def)
qed

lemma fetched_profile:
  "snd (fetch_all E qs) = Inr answers \<Longrightarrow> answers_profile E token profile \<Longrightarrow> i < length qs \<Longrightarrow>
     qs ! i = client_fetchPartnerProfile token \<Longrightarrow> pe_profile E (answers ! i) = profile"
  using fetch_all_answers [of E qs answers i] by (simp add: answers_profile_def)

lemma runs_profile:
  assumes "answers_profile E token profile" "Q (client_fetchPartnerProfile token)" "R profile"
  shows "runs Q R (profile_only E token)"
  using assms by (auto simp: runs_def profile_only_def fetch_one_def load_then_def load_done_def answers_profile_def
      split: prod.splits sum.splits)

lemma runs_profile_and_metadata:
  assumes "answers_profile E token profile" "Q (client_fetchPartnerProfile token)"
    "Q (client_fetchPartnerDashboardMetadata token)" "\<And>md. R (profile, md)"
  shows "runs Q R (profile_and_metadata E token)"
proof -
  have "R x" if "snd (profile_and_metadata E token) = Inr x" for x
  proof -
    let ?qs = "[client_fetchPartnerProfile token, client_fetchPartnerDashboardMetadata token]"
    have "\<exists>answers. snd (fetch_all E ?qs) = Inr answers \<and> x = (pe_profile E (answers ! 0), pe_metadata E (answers ! 1))"
      using that by (auto simp: profile_and_metadata_def load_then_def load_done_def split: prod.splits sum.splits)
    then obtain answers where a: "snd (fetch_all E ?qs) = Inr answers"
      "x = (pe_profile E (answers ! 0), pe_metadata E (answers ! 1))" by blast
    have "pe_profile E (answers ! 0) = profile" by (rule fetched_profile [OF a(1) assms(1)]) simp_all
    with a assms(4) show ?thesis by simp
  qed
  moreover have "fst (profile_and_metadata E token) =
      [client_fetchPartnerProfile token, client_fetchPartnerDashboardMetadata token]"
    by (auto simp: profile_and_metadata_def load_then_def load_done_def fetch_all_def split: prod.splits sum.splits)
  ultimately show ?thesis using assms(2,3) by (simp add: runs_def)
qed

text \<open>A page that is not shown satisfies what is said of the pages that are.\<close>

definition page_fits :: "(client_request \<Rightarrow> bool) \<Rightarrow> (page_view \<Rightarrow> bool) \<Rightarrow> page_run \<Rightarrow> bool" where
  "page_fits Q F = (\<lambda>(qs, p, jar). list_all Q qs \<and> (\<forall>v. p = Shown v \<longrightarrow> F v))"

lemma caught_fits:
  assumes "getDashboardSession (dashboard_of E) jar = Some session"
    and "runs Q (\<lambda>p. \<forall>v. p = Shown v \<longrightarrow> F v) (body session)" "\<And>e v. unavailable e = Shown v \<Longrightarrow> F v"
  shows "page_fits Q F (caught_page E unavailable body jar)"
  using assms by (auto simp: page_fits_def caught_page_def requireDashboardSession_def runs_def
      split: prod.splits sum.splits dashboard_error.splits)

lemma uncaught_fits:
  assumes "getDashboardSession (dashboard_of E) jar = Some session"
    and "runs Q (\<lambda>p. \<forall>v. p = Shown v \<longrightarrow> F v) (body session)"
  shows "page_fits Q F (uncaught_page E body jar)"
  using assms by (auto simp: page_fits_def uncaught_page_def requireDashboardSession_def runs_def
      split: prod.splits sum.splits)

text \<open>What a page's proof goes through: its requests and, where it is shown, its forms.\<close>

lemma panel_not_shown [simp]: "panel title e \<noteq> Shown v"
  by (simp add: panel_def)

section \<open>What a signed-in user may do\<close>

text \<open>The profile is that of the partner of a dashboard user.\<close>

definition user_profile :: "AuthenticatedPartner \<Rightarrow> PartnerUserRole \<Rightarrow> PartnerProfile \<Rightarrow> bool" where
  "user_profile p role profile \<longleftrightarrow>
     ap_actorType p = PARTNER_USER \<and> ap_partnerUserRole p = Some role \<and> ap_scopes p = getPartnerUserScopes role \<and>
     profile_scopes profile = ap_scopes p \<and>
     AuthenticatedPartnerCapabilities.truncate (pf_capabilities profile) = ap_partnerCapabilities p \<and>
     pp_entitlements (bs_plan (pf_billing profile)) = ap_partnerPlanEntitlements p \<and>
     ob_stage (pf_onboarding profile) = ap_partnerOnboardingStage p"

lemma user_profile_of:
  assumes "scopes_ok s" "route_canActivate E t (rt_guard (r0 :: route)) q w s = (Inr (Authenticated p), w', s')"
    and "ap_actorType p = PARTNER_USER" "getPartnerProfile E now p s = Inr profile"
  shows "\<exists>role. user_profile p role profile"
proof -
  obtain partner where p: "well_formed_actor p" "partner_row s (ap_partnerId p) = Some partner" "of_partner p partner"
    using canActivate_partner [OF assms(1,2)] by blast
  obtain role where role: "ap_partnerUserRole p = Some role" "ap_scopes p = getPartnerUserScopes role"
    using p(1) assms(3) by (auto simp: well_formed_actor_def)
  have "getPartnerByIdOrThrow (ap_partnerId p) s = Inr partner"
    using p(2) by (simp add: getPartnerByIdOrThrow_def partner_row_def)
  then have "user_profile p role profile"
    using assms(3,4) role p(3)
    by (auto simp: user_profile_def getPartnerProfile_def Let_def of_partner_def buildPartnerBillingSummary_def
        getPartnerPricingPlanDefinition_def profile_scopes_def buildPartnerOnboardingSummary_def)
  then show ?thesis ..
qed

text \<open>What a guard asks of a dashboard user, in terms of the role and the profile.\<close>

definition profile_flag :: "PartnerProfile \<Rightarrow> PartnerCapabilityFlag \<Rightarrow> bool" where
  "profile_flag profile = capability_flag (AuthenticatedPartnerCapabilities.truncate (pf_capabilities profile))"

lemma profile_flag_simps [simp]:
  "profile_flag profile Flag_apiConsumerEnabled = cap_apiConsumerEnabled (pf_capabilities profile)"
  "profile_flag profile Flag_dataPartnerEnabled = cap_dataPartnerEnabled (pf_capabilities profile)"
  "profile_flag profile Flag_fullAttestationPartnerEnabled = cap_fullAttestationPartnerEnabled (pf_capabilities profile)"
  "profile_flag profile Flag_webhooksEnabled = cap_webhooksEnabled (pf_capabilities profile)"
  "profile_flag profile Flag_batchVerificationEnabled = cap_batchVerificationEnabled (pf_capabilities profile)"
  "profile_flag profile Flag_auditExportsEnabled = cap_auditExportsEnabled (pf_capabilities profile)"
  "profile_flag profile Flag_sandboxEnabled = cap_sandboxEnabled (pf_capabilities profile)"
  "profile_flag profile Flag_productionEnabled = cap_productionEnabled (pf_capabilities profile)"
  by (simp_all add: profile_flag_def AuthenticatedPartnerCapabilities.truncate_def)

definition profile_entitlement :: "PartnerProfile \<Rightarrow> PartnerPlanEntitlementFlag \<Rightarrow> bool" where
  "profile_entitlement profile = entitlement_flag (pp_entitlements (bs_plan (pf_billing profile)))"

definition asked :: "('a \<Rightarrow> bool) \<Rightarrow> 'a option \<Rightarrow> bool" where
  "asked P v \<longleftrightarrow> (case v of None \<Rightarrow> True | Some x \<Rightarrow> P x)"

lemma asked_simps [simp]: "asked P None" "asked P (Some x) = P x"
  by (simp_all add: asked_def)

definition user_allowed :: "PartnerUserRole \<Rightarrow> PartnerProfile \<Rightarrow> PartnerAccessPolicyDefinition \<Rightarrow> bool" where
  "user_allowed role profile policy \<longleftrightarrow>
     asked (\<lambda>types. PARTNER_USER \<in> set types) (po_actorTypes policy) \<and>
     asked (list_ex (profile_flag profile)) (po_anyCapabilities policy) \<and>
     asked (list_all (profile_flag profile)) (po_allCapabilities policy) \<and>
     asked (list_ex (profile_entitlement profile)) (po_anyPlanEntitlements policy) \<and>
     asked (list_all (profile_entitlement profile)) (po_allPlanEntitlements policy) \<and>
     asked (\<lambda>stage. hasReachedOnboardingStage (ob_stage (pf_onboarding profile)) stage) (po_minOnboardingStage policy) \<and>
     asked (\<lambda>roles. role \<in> set roles) (po_partnerUserRoles policy) \<and>
     (po_requireOperationalEnvironment policy \<longrightarrow>
        profile_flag profile Flag_sandboxEnabled \<or> profile_flag profile Flag_productionEnabled)"

definition user_admitted :: "PartnerUserRole \<Rightarrow> PartnerProfile \<Rightarrow> route \<Rightarrow> bool" where
  "user_admitted role profile r \<longleftrightarrow>
     (case rt_guard r of
        Partner_guard scopes policies \<Rightarrow>
          list_all (\<lambda>scope. scope \<in> set (getPartnerUserScopes role)) (or_else scopes []) \<and>
          list_all (user_allowed role profile) policies
      | _ \<Rightarrow> False)"

lemma reached_stage:
  "hasReachedOnboardingStage a b \<longleftrightarrow> getOnboardingStageRank b \<le> getOnboardingStageRank a"
  by (simp add: hasReachedOnboardingStage_def getOnboardingStageRank_def dashboard_partnerOnboardingStageOrder_def
      partnerOnboardingStageOrder_def)

lemma admitted_iff:
  assumes "user_profile p role profile"
  shows "admitted p r \<longleftrightarrow> user_admitted role profile r"
proof -
  have facts: "ap_actorType p = PARTNER_USER" "ap_partnerUserRole p = Some role" "ap_scopes p = getPartnerUserScopes role"
    "ap_partnerOnboardingStage p = ob_stage (pf_onboarding profile)"
    "capability_flag (ap_partnerCapabilities p) = profile_flag profile"
    "entitlement_flag (ap_partnerPlanEntitlements p) = profile_entitlement profile"
    using assms by (simp_all add: user_profile_def profile_flag_def profile_entitlement_def)
  have "cap_sandboxEnabled (ap_partnerCapabilities p) = profile_flag profile Flag_sandboxEnabled"
    "cap_productionEnabled (ap_partnerCapabilities p) = profile_flag profile Flag_productionEnabled"
    unfolding facts(5) [symmetric] by (rule capability_flag.simps(7) [symmetric], rule capability_flag.simps(8) [symmetric])
  then have "allowed_by p policy = user_allowed role profile policy" for policy
    by (simp add: allowed_by_def user_allowed_def facts reached_stage asked_def list_all_iff list_ex_iff
        del: profile_flag_simps split: option.splits)
  then show ?thesis
    by (auto simp: admitted_def user_admitted_def facts list_all_iff split: route_guard.splits)
qed

lemma role_write_scopes:
  "''recipients:write'' \<in> set (getPartnerUserScopes role) \<longleftrightarrow> role \<in> {PartnerUserRole_OWNER, PartnerUserRole_ADMIN}"
  "''destinations:write'' \<in> set (getPartnerUserScopes role) \<longleftrightarrow> role \<in> {PartnerUserRole_OWNER, PartnerUserRole_ADMIN}"
  "''team:write'' \<in> set (getPartnerUserScopes role) \<longleftrightarrow> role \<in> {PartnerUserRole_OWNER, PartnerUserRole_ADMIN}"
  "''webhooks:write'' \<in> set (getPartnerUserScopes role) \<longleftrightarrow>
     role \<in> {PartnerUserRole_OWNER, PartnerUserRole_ADMIN, PartnerUserRole_DEVELOPER}"
  "''webhooks:replay'' \<in> set (getPartnerUserScopes role) \<longleftrightarrow>
     role \<in> {PartnerUserRole_OWNER, PartnerUserRole_ADMIN, PartnerUserRole_DEVELOPER}"
  "''security:write'' \<in> set (getPartnerUserScopes role) \<longleftrightarrow> role = PartnerUserRole_OWNER"
  by (cases role;
      simp add: ownerDashboardScopes_def adminDashboardScopes_def developerDashboardScopes_def
        analystDashboardScopes_def readOnlyDashboardScopes_def set_normalizeCredentialScopes credentialScopes_def)+

lemmas guard_facts = user_admitted_def user_allowed_def policy_defs no_policy_def

text \<open>The requests of the pages.\<close>

lemma registry_requests:
  "user_admitted role profile route_Recipients_listRecipients = isDataContributorEnabled (pf_capabilities profile)"
  "user_admitted role profile route_Recipients_getRecipient = isDataContributorEnabled (pf_capabilities profile)"
  "user_admitted role profile route_Destinations_listDestinations = isDataContributorEnabled (pf_capabilities profile)"
  "user_admitted role profile route_Destinations_getDestination = isDataContributorEnabled (pf_capabilities profile)"
  "user_admitted role profile route_Attestations_listAttestations = isDataContributorEnabled (pf_capabilities profile)"
  "user_admitted role profile route_Attestations_getAttestation = isDataContributorEnabled (pf_capabilities profile)"
  "user_admitted role profile route_DataFeedHealth_getDataFeedHealth = isDataContributorEnabled (pf_capabilities profile)"
  by (simp_all add: guard_facts role_scopes isDataContributorEnabled_def
      route_Recipients_listRecipients_def route_Recipients_getRecipient_def route_Destinations_listDestinations_def
      route_Destinations_getDestination_def route_Attestations_listAttestations_def
      route_Attestations_getAttestation_def route_DataFeedHealth_getDataFeedHealth_def)

lemma account_requests:
  "user_admitted role profile route_PartnerAccount_getPartnerProfile"
  "user_admitted role profile route_PartnerAccount_getDashboardMetadata"
  "user_admitted role profile route_PartnerAccount_listProductionApprovalRequests"
  "user_admitted role profile route_PartnerAccount_listAvailableProductionCorridors"
  "user_admitted role profile route_Overview_getOverview"
  "user_admitted role profile route_Audit_listAuditLogs"
  "user_admitted role profile route_Audit_getAuditLog"
  "user_admitted role profile route_PartnerAccount_listApiCredentials \<longleftrightarrow>
     canAccessModule profile Module_api_keys \<and> ''partners:write'' \<in> set (getPartnerUserScopes role)"
  "user_admitted role profile route_PartnerAccount_listSigningKeys \<longleftrightarrow>
     canAccessModule profile Module_signing_keys \<and> ''partners:write'' \<in> set (getPartnerUserScopes role)"
  "user_admitted role profile route_PartnerAccount_listPartnerUsers \<longleftrightarrow> ''team:read'' \<in> set (getPartnerUserScopes role)"
  "user_admitted role profile route_PartnerAccount_getSecuritySettings \<longleftrightarrow>
     ''security:read'' \<in> set (getPartnerUserScopes role)"
  "user_admitted role profile route_AuditExports_listAuditExports \<longleftrightarrow>
     cap_auditExportsEnabled (pf_capabilities profile) \<and> ''audit:export'' \<in> set (getPartnerUserScopes role)"
  by (auto simp: guard_facts role_scopes isDataContributorEnabled_def
      route_PartnerAccount_getPartnerProfile_def route_PartnerAccount_getDashboardMetadata_def
      route_PartnerAccount_listProductionApprovalRequests_def
      route_PartnerAccount_listAvailableProductionCorridors_def route_Overview_getOverview_def
      route_Audit_listAuditLogs_def route_Audit_getAuditLog_def route_PartnerAccount_listApiCredentials_def
      route_PartnerAccount_listSigningKeys_def route_PartnerAccount_listPartnerUsers_def
      route_PartnerAccount_getSecuritySettings_def route_AuditExports_listAuditExports_def)

lemma operation_requests:
  "user_admitted role profile route_Webhooks_listWebhookEndpoints = cap_webhooksEnabled (pf_capabilities profile)"
  "user_admitted role profile route_Webhooks_getWebhookEndpoint = cap_webhooksEnabled (pf_capabilities profile)"
  "user_admitted role profile route_Webhooks_listWebhookDeliveries = cap_webhooksEnabled (pf_capabilities profile)"
  "user_admitted role profile route_Webhooks_getWebhookDelivery = cap_webhooksEnabled (pf_capabilities profile)"
  "user_admitted role profile route_Resolution_listResolutionLogs = resolution_access profile"
  "user_admitted role profile route_Resolution_getResolutionLog = resolution_access profile"
  "user_admitted role profile route_Platforms_listPlatforms = canRunOperationalResolution profile"
  "user_admitted role profile route_Resolution_resolveRecipientByRoute = canRunOperationalResolution profile"
  "user_admitted role profile route_Resolution_confirmRecipientByAddress = canRunOperationalResolution profile"
  "user_admitted role profile route_Resolution_verifyTransfer = canRunOperationalResolution profile"
  by (simp_all add: guard_facts role_scopes isDataContributorEnabled_def resolution_access_def canRunOperationalResolution_def
      conj_commute
      route_Webhooks_listWebhookEndpoints_def route_Webhooks_getWebhookEndpoint_def
      route_Webhooks_listWebhookDeliveries_def route_Webhooks_getWebhookDelivery_def
      route_Resolution_listResolutionLogs_def route_Resolution_getResolutionLog_def route_Platforms_listPlatforms_def
      route_Resolution_resolveRecipientByRoute_def route_Resolution_confirmRecipientByAddress_def
      route_Resolution_verifyTransfer_def)

section \<open>Requests\<close>

text \<open>A request that is dispatched to a route whose guard lets the user pass.\<close>

definition served :: "path_matcher \<Rightarrow> string \<Rightarrow> PartnerUserRole \<Rightarrow> PartnerProfile \<Rightarrow> client_request \<Rightarrow> bool" where
  "served matches i role profile q \<longleftrightarrow> (\<exists>r. reaches matches i (q, r) \<and> user_admitted role profile r)"

lemma servedI: "reaches matches i (q, r) \<Longrightarrow> user_admitted role profile r \<Longrightarrow> served matches i role profile q"
  by (auto simp: served_def)

lemma page_calls:
  assumes "router_contract matches" "path_safe i" "js_lower i \<notin> set reserved" "token \<noteq> []"
  shows "reaches matches i (client_fetchPartnerProfile token, route_PartnerAccount_getPartnerProfile)"
    "reaches matches i (client_fetchPartnerDashboardMetadata token, route_PartnerAccount_getDashboardMetadata)"
    "reaches matches i (client_fetchProductionApprovalRequests token, route_PartnerAccount_listProductionApprovalRequests)"
    "reaches matches i (client_fetchAvailableProductionCorridors token, route_PartnerAccount_listAvailableProductionCorridors)"
    "reaches matches i (client_fetchPartnerApiCredentials token, route_PartnerAccount_listApiCredentials)"
    "reaches matches i (client_fetchPartnerSigningKeys token, route_PartnerAccount_listSigningKeys)"
    "reaches matches i (client_fetchPartnerUsers token, route_PartnerAccount_listPartnerUsers)"
    "reaches matches i (client_fetchPartnerSecuritySettings token, route_PartnerAccount_getSecuritySettings)"
    "reaches matches i (client_fetchSupportedPlatforms token params, route_Platforms_listPlatforms)"
    "reaches matches i (client_fetchOverview token, route_Overview_getOverview)"
    "reaches matches i (client_fetchDataFeedHealth token, route_DataFeedHealth_getDataFeedHealth)"
    "reaches matches i (client_fetchRecipients token params, route_Recipients_listRecipients)"
    "reaches matches i (client_fetchRecipient token i, route_Recipients_getRecipient)"
    "reaches matches i (client_fetchDestinations token params, route_Destinations_listDestinations)"
    "reaches matches i (client_fetchDestination token i, route_Destinations_getDestination)"
    "reaches matches i (client_fetchAttestations token params, route_Attestations_listAttestations)"
    "reaches matches i (client_fetchAttestation token i, route_Attestations_getAttestation)"
    "reaches matches i (client_resolveRecipient sha256 token input, route_Resolution_resolveRecipientByRoute)"
    "reaches matches i (client_confirmRecipientByAddress sha256 token input, route_Resolution_confirmRecipientByAddress)"
    "reaches matches i (client_verifyDestination sha256 token input, route_Resolution_verifyTransfer)"
    "reaches matches i (client_fetchResolutionLogs token params, route_Resolution_listResolutionLogs)"
    "reaches matches i (client_fetchResolutionLog token i, route_Resolution_getResolutionLog)"
    "reaches matches i (client_fetchWebhookEndpoints token, route_Webhooks_listWebhookEndpoints)"
    "reaches matches i (client_fetchWebhookEndpoint token i, route_Webhooks_getWebhookEndpoint)"
    "reaches matches i (client_fetchWebhookDeliveries token params, route_Webhooks_listWebhookDeliveries)"
    "reaches matches i (client_fetchWebhookDelivery token i, route_Webhooks_getWebhookDelivery)"
    "reaches matches i (client_fetchAuditLogs token params, route_Audit_listAuditLogs)"
    "reaches matches i (client_fetchAuditLog token i, route_Audit_getAuditLog)"
    "reaches matches i (client_fetchAuditExports token, route_AuditExports_listAuditExports)"
  using reaches_account_calls [OF assms, of "''x''" input] reaches_registry_calls [OF assms, of "''x''" input params]
    reaches_operation_calls [OF assms, of "''x''" sha256 input params]
  by (simp_all add: account_calls_def registry_calls_def operation_calls_def)

text \<open>The pages for partners, with the item of the navigation each belongs to: the page for one row belongs to the
  item of the list it is opened from.\<close>

definition item_of :: "string \<Rightarrow> NavigationItem" where
  "item_of href = the (List.find (\<lambda>item. ni_href item = href) (concat (map snd navigationGroups)))"

definition page_runs :: "page_env \<Rightarrow> search_params \<Rightarrow> string \<Rightarrow> (string \<times> (cookie_jar \<Rightarrow> page_run)) list" where
  "page_runs E params i =
     [(''/recipients'', RecipientsPage E params), (''/recipients'', RecipientDetailPage E i),
      (''/recipients'', RecipientDestinationsPage E i), (''/recipients'', RecipientAttestationsPage E i),
      (''/destinations'', DestinationsPage E params), (''/destinations'', DestinationDetailPage E i),
      (''/attestations'', AttestationsPage E params), (''/attestations'', AttestationDetailPage E i),
      (''/webhooks'', WebhooksPage E params), (''/webhooks'', WebhookDetailPage E i),
      (''/webhooks/deliveries'', WebhookDeliveriesPage E params),
      (''/webhooks/deliveries'', WebhookDeliveryDetailPage E i),
      (''/access/api-keys'', ApiKeysPage E), (''/access/signing-keys'', SigningKeysPage E),
      (''/access/team'', TeamPage E), (''/access/security'', SecurityPage E),
      (''/access/plan-usage'', PlanUsagePage E), (''/audit/logs'', AuditLogsPage E params),
      (''/audit/logs'', AuditLogDetailPage E i), (''/audit/exports'', AuditExportsPage E),
      (''/resolution/by-recipient'', ByRecipientPage E params), (''/resolution/by-address'', ByAddressPage E params),
      (''/resolution/verify-transfer'', VerifyTransferPage E params), (''/resolution/batch'', BatchVerifyPage E),
      (''/resolution/logs'', ResolutionLogDetailPage E i), (''/overview'', OverviewPage E),
      (''/data-feed-health'', DataFeedHealthPage E), (''/docs/quickstart'', DocsHomePage E),
      (''/docs/quickstart'', QuickstartPage E), (''/docs/api'', ApiDocsPage E),
      (''/docs/webhooks'', WebhookDocsPage E), (''/sandbox'', SandboxPage E)]"

text \<open>With the page of the resolution log, for an organisation that has sandbox or production.\<close>

definition pages_of :: "page_env \<Rightarrow> search_params \<Rightarrow> string \<Rightarrow> PartnerProfile \<Rightarrow> (string \<times> (cookie_jar \<Rightarrow> page_run)) list" where
  "pages_of E params i profile =
     page_runs E params i @
     (if canRunOperationalResolution profile then [(''/resolution/logs'', ResolutionLogsPage E params)] else [])"

definition run_ok :: "(client_request \<Rightarrow> bool) \<Rightarrow> page_run \<Rightarrow> bool" where
  "run_ok Q run \<longleftrightarrow> page_fits Q (\<lambda>v. True) run"

lemma caught_ok:
  "getDashboardSession (dashboard_of E) jar = Some session \<Longrightarrow> runs Q (\<lambda>p. True) (body session) \<Longrightarrow>
     run_ok Q (caught_page E unavailable body jar)"
  by (simp add: run_ok_def caught_fits)

lemma uncaught_ok:
  "getDashboardSession (dashboard_of E) jar = Some session \<Longrightarrow> runs Q (\<lambda>p. True) (body session) \<Longrightarrow>
     run_ok Q (uncaught_page E body jar)"
  by (simp add: run_ok_def uncaught_fits)

lemma registry_pages_ok:
  assumes "getDashboardSession (dashboard_of E) jar = Some session" "session_token session = token"
    and "answers_profile E token profile"
    and "router_contract matches" "path_safe i" "js_lower i \<notin> set reserved" "token \<noteq> []"
  shows "run_ok (served matches i role profile) (RecipientsPage E params jar)"
    "run_ok (served matches i role profile) (RecipientDetailPage E i jar)"
    "run_ok (served matches i role profile) (RecipientDestinationsPage E i jar)"
    "run_ok (served matches i role profile) (RecipientAttestationsPage E i jar)"
    "run_ok (served matches i role profile) (DestinationsPage E params jar)"
    "run_ok (served matches i role profile) (DestinationDetailPage E i jar)"
    "run_ok (served matches i role profile) (AttestationsPage E params jar)"
    "run_ok (served matches i role profile) (AttestationDetailPage E i jar)"
  unfolding RecipientsPage_def RecipientDetailPage_def RecipientDestinationsPage_def RecipientAttestationsPage_def DestinationsPage_def DestinationDetailPage_def AttestationsPage_def AttestationDetailPage_def
  by ((rule caught_ok [OF assms(1)] uncaught_ok [OF assms(1)];
       auto simp: Let_def assms page_calls [OF assms(4-7), THEN servedI] account_requests registry_requests operation_requests
         canAccessScope_iff
         intro!: page_rule runs_profile_and_metadata [OF assms(3)] runs_profile [OF assms(3)])+)

lemma webhook_pages_ok:
  assumes "getDashboardSession (dashboard_of E) jar = Some session" "session_token session = token"
    and "answers_profile E token profile"
    and "router_contract matches" "path_safe i" "js_lower i \<notin> set reserved" "token \<noteq> []"
  shows "run_ok (served matches i role profile) (WebhooksPage E params jar)"
    "run_ok (served matches i role profile) (WebhookDetailPage E i jar)"
    "run_ok (served matches i role profile) (WebhookDeliveriesPage E params jar)"
    "run_ok (served matches i role profile) (WebhookDeliveryDetailPage E i jar)"
  unfolding WebhooksPage_def WebhookDetailPage_def WebhookDeliveriesPage_def WebhookDeliveryDetailPage_def
  by ((rule caught_ok [OF assms(1)] uncaught_ok [OF assms(1)];
       auto simp: Let_def assms page_calls [OF assms(4-7), THEN servedI] account_requests registry_requests operation_requests
         canAccessScope_iff
         intro!: page_rule runs_profile_and_metadata [OF assms(3)] runs_profile [OF assms(3)])+)

lemma key_pages_ok:
  assumes "getDashboardSession (dashboard_of E) jar = Some session" "session_token session = token"
    and "answers_profile E token profile"
    and "router_contract matches" "path_safe i" "js_lower i \<notin> set reserved" "token \<noteq> []"
    and "session_scopes session = getPartnerUserScopes role"
  shows "run_ok (served matches i role profile) (ApiKeysPage E jar)"
    "run_ok (served matches i role profile) (SigningKeysPage E jar)"
  unfolding ApiKeysPage_def SigningKeysPage_def
  by ((rule caught_ok [OF assms(1)] uncaught_ok [OF assms(1)];
       auto simp: Let_def assms page_calls [OF assms(4-7), THEN servedI] account_requests registry_requests operation_requests
         canAccessScope_iff
         intro!: page_rule runs_profile_and_metadata [OF assms(3)] runs_profile [OF assms(3)])+)

lemma team_pages_ok:
  assumes "getDashboardSession (dashboard_of E) jar = Some session" "session_token session = token"
    and "answers_profile E token profile"
    and "router_contract matches" "path_safe i" "js_lower i \<notin> set reserved" "token \<noteq> []"
    and "''team:read'' \<in> set (getPartnerUserScopes role)"
  shows "run_ok (served matches i role profile) (TeamPage E jar)"
  unfolding TeamPage_def
  by ((rule caught_ok [OF assms(1)] uncaught_ok [OF assms(1)];
       auto simp: Let_def assms page_calls [OF assms(4-7), THEN servedI] account_requests registry_requests operation_requests
         canAccessScope_iff
         intro!: page_rule runs_profile_and_metadata [OF assms(3)] runs_profile [OF assms(3)])+)

lemma security_pages_ok:
  assumes "getDashboardSession (dashboard_of E) jar = Some session" "session_token session = token"
    and "answers_profile E token profile"
    and "router_contract matches" "path_safe i" "js_lower i \<notin> set reserved" "token \<noteq> []"
    and "''security:read'' \<in> set (getPartnerUserScopes role)"
  shows "run_ok (served matches i role profile) (SecurityPage E jar)"
  unfolding SecurityPage_def
  by ((rule caught_ok [OF assms(1)] uncaught_ok [OF assms(1)];
       auto simp: Let_def assms page_calls [OF assms(4-7), THEN servedI] account_requests registry_requests operation_requests
         canAccessScope_iff
         intro!: page_rule runs_profile_and_metadata [OF assms(3)] runs_profile [OF assms(3)])+)

lemma export_pages_ok:
  assumes "getDashboardSession (dashboard_of E) jar = Some session" "session_token session = token"
    and "answers_profile E token profile"
    and "router_contract matches" "path_safe i" "js_lower i \<notin> set reserved" "token \<noteq> []"
    and "''audit:export'' \<in> set (getPartnerUserScopes role)"
  shows "run_ok (served matches i role profile) (AuditExportsPage E jar)"
  unfolding AuditExportsPage_def
  by ((rule caught_ok [OF assms(1)] uncaught_ok [OF assms(1)];
       auto simp: Let_def assms page_calls [OF assms(4-7), THEN servedI] account_requests registry_requests operation_requests
         canAccessScope_iff
         intro!: page_rule runs_profile_and_metadata [OF assms(3)] runs_profile [OF assms(3)])+)

lemma account_pages_ok:
  assumes "getDashboardSession (dashboard_of E) jar = Some session" "session_token session = token"
    and "answers_profile E token profile"
    and "router_contract matches" "path_safe i" "js_lower i \<notin> set reserved" "token \<noteq> []"
  shows "run_ok (served matches i role profile) (PlanUsagePage E jar)"
    "run_ok (served matches i role profile) (AuditLogsPage E params jar)"
    "run_ok (served matches i role profile) (AuditLogDetailPage E i jar)"
    "run_ok (served matches i role profile) (DataFeedHealthPage E jar)"
    "run_ok (served matches i role profile) (WebhookDocsPage E jar)"
    "run_ok (served matches i role profile) (SandboxPage E jar)"
  unfolding PlanUsagePage_def AuditLogsPage_def AuditLogDetailPage_def DataFeedHealthPage_def WebhookDocsPage_def SandboxPage_def
  by ((rule caught_ok [OF assms(1)] uncaught_ok [OF assms(1)];
       auto simp: Let_def assms page_calls [OF assms(4-7), THEN servedI] account_requests registry_requests operation_requests
         canAccessScope_iff
         intro!: page_rule runs_profile_and_metadata [OF assms(3)] runs_profile [OF assms(3)])+)

lemma docs_pages_ok:
  assumes "getDashboardSession (dashboard_of E) jar = Some session" "session_token session = token"
    and "answers_profile E token profile"
    and "router_contract matches" "path_safe i" "js_lower i \<notin> set reserved" "token \<noteq> []"
  shows "run_ok (served matches i role profile) (docs_page E title jar)"
  unfolding docs_page_def
  by ((rule caught_ok [OF assms(1)] uncaught_ok [OF assms(1)];
       auto simp: Let_def assms page_calls [OF assms(4-7), THEN servedI] account_requests registry_requests operation_requests
         canAccessScope_iff
         intro!: page_rule runs_profile_and_metadata [OF assms(3)] runs_profile [OF assms(3)])+)

lemma resolution_pages_ok:
  assumes "getDashboardSession (dashboard_of E) jar = Some session" "session_token session = token"
    and "answers_profile E token profile"
    and "router_contract matches" "path_safe i" "js_lower i \<notin> set reserved" "token \<noteq> []"
  shows "run_ok (served matches i role profile) (ByRecipientPage E params jar)"
    "run_ok (served matches i role profile) (ByAddressPage E params jar)"
    "run_ok (served matches i role profile) (VerifyTransferPage E params jar)"
    "run_ok (served matches i role profile) (BatchVerifyPage E jar)"
  unfolding ByRecipientPage_def ByAddressPage_def VerifyTransferPage_def BatchVerifyPage_def
  by ((rule caught_ok [OF assms(1)] uncaught_ok [OF assms(1)];
       auto simp: Let_def assms page_calls [OF assms(4-7), THEN servedI] account_requests registry_requests operation_requests
         canAccessScope_iff
         intro!: page_rule runs_profile_and_metadata [OF assms(3)] runs_profile [OF assms(3)])+)

lemma log_pages_ok:
  assumes "getDashboardSession (dashboard_of E) jar = Some session" "session_token session = token"
    and "answers_profile E token profile"
    and "router_contract matches" "path_safe i" "js_lower i \<notin> set reserved" "token \<noteq> []"
    and "resolution_access profile"
  shows "run_ok (served matches i role profile) (ResolutionLogDetailPage E i jar)"
  unfolding ResolutionLogDetailPage_def
  by ((rule caught_ok [OF assms(1)] uncaught_ok [OF assms(1)];
       auto simp: Let_def assms page_calls [OF assms(4-7), THEN servedI] account_requests registry_requests operation_requests
         canAccessScope_iff
         intro!: page_rule runs_profile_and_metadata [OF assms(3)] runs_profile [OF assms(3)])+)

lemma logs_page_ok:
  assumes "getDashboardSession (dashboard_of E) jar = Some session" "session_token session = token"
    and "answers_profile E token profile"
    and "router_contract matches" "path_safe i" "js_lower i \<notin> set reserved" "token \<noteq> []"
    and "canRunOperationalResolution profile"
  shows "run_ok (served matches i role profile) (ResolutionLogsPage E params jar)"
  unfolding ResolutionLogsPage_def
  by (rule caught_ok [OF assms(1)];
       auto simp: Let_def assms page_calls [OF assms(4-7), THEN servedI] account_requests registry_requests operation_requests
         canAccessScope_iff resolution_access_def
         intro!: page_rule runs_profile_and_metadata [OF assms(3)] runs_profile [OF assms(3)])

lemma overview_page_ok:
  assumes "getDashboardSession (dashboard_of E) jar = Some session" "session_token session = token"
    and "answers_profile E token profile"
    and "router_contract matches" "path_safe i" "js_lower i \<notin> set reserved" "token \<noteq> []"
  shows "run_ok (served matches i role profile) (OverviewPage E jar)"
proof -
  have "pe_profile E (answers ! Suc 0) = profile"
    if "snd (fetch_all E [client_fetchOverview token, client_fetchPartnerProfile token]) = Inr answers" for answers
    by (rule fetched_profile [OF that assms(3)]) simp_all
  then show ?thesis
    unfolding OverviewPage_def
    by (intro caught_ok [OF assms(1)])
      (auto simp: Let_def assms page_calls [OF assms(4-7), THEN servedI] account_requests registry_requests
        intro!: page_rule)
qed

lemma session_token_nonempty: "getDashboardSession D jar = Some session \<Longrightarrow> session_token session \<noteq> []"
  by (auto simp: getDashboardSession_def read_cookie_def unsealCookiePayload_def isDashboardSession_def non_empty_text_def
      session_token_def session_text_def split: if_splits list.splits sum.splits option.splits json.splits)

text \<open>C12: a page only asks for what its user may have.  Take a user signed in with the scopes of its role, a backend that
  answers the profile request with the user's profile, and a page of \<open>pages_of\<close> (the pages of the partner's dashboard
  without the entry, setup and administration pages; the page of the resolution log only when the organisation has
  sandbox or production), a detail page for an id that is a plain path segment and none of the literals the routes
  reserve.  When the navigation shows the user the item the page belongs to, each request the page makes, however far it
  gets, is dispatched to a route whose guard admits the user, with the token that guard reads.\<close>

theorem page_requests_admitted:
  assumes "user_profile p role profile"
    and "getDashboardSession (dashboard_of E) jar = Some session" "session_scopes session = ap_scopes p"
    and "answers_profile E (session_token session) profile"
    and "router_contract matches" "path_safe i" "js_lower i \<notin> set reserved"
    and "(href, run) \<in> set (pages_of E params i profile)" "run jar = (qs, result, jar')"
    and "visible_item profile (session_scopes session) (item_of href)"
    and "q \<in> set qs"
  shows "\<exists>r. reaches matches i (q, r) \<and> admitted p r"
proof -
  note facts = assms(2) refl assms(4-7) session_token_nonempty [OF assms(2)]
  have scopes: "session_scopes session = getPartnerUserScopes role"
    using assms(1,3) by (simp add: user_profile_def)
  consider "(href, run) \<in> set (page_runs E params i)"
    | "run = ResolutionLogsPage E params" "canRunOperationalResolution profile"
    using assms(8) by (auto simp: pages_of_def split: if_splits)
  then have "run_ok (served matches i role profile) (run jar)"
  proof cases
    case 1
    then show ?thesis
      using assms(10)
      by (auto simp: page_runs_def DocsHomePage_def QuickstartPage_def ApiDocsPage_def
          item_of_def navigationGroups_def visible_item_def nav_item_def canAccessScope_iff scopes
          intro: registry_pages_ok [OF facts] webhook_pages_ok [OF facts] key_pages_ok [OF facts scopes]
            team_pages_ok [OF facts] security_pages_ok [OF facts] export_pages_ok [OF facts] account_pages_ok [OF facts]
            docs_pages_ok [OF facts] resolution_pages_ok [OF facts] log_pages_ok [OF facts] overview_page_ok [OF facts])
  next
    case 2
    from logs_page_ok [OF facts 2(2)] show ?thesis by (simp add: 2(1))
  qed
  then have "served matches i role profile q"
    using assms(9,11) by (simp add: run_ok_def page_fits_def list_all_iff)
  then show ?thesis by (auto simp: served_def admitted_iff [OF assms(1)])
qed

text \<open>The resolution log is the exception.  Its page is open to an organisation without an operational environment, and
  so is the request for the log; but it asks for the platforms together with it, which the backend refuses such an
  organisation, and shows neither.\<close>

theorem logs_page_needs_environment:
  assumes "user_profile p role profile"
    and "getDashboardSession (dashboard_of E) jar = Some session" "session_token session = token"
    and "answers_profile E token profile" "snd (profile_and_metadata E token) = Inr loaded"
    and "router_contract matches"
    and "resolution_access profile" "\<not> canRunOperationalResolution profile"
    and "\<And>params. call_backend (pe_action E) (client_fetchSupportedPlatforms token params) = Inl (DashboardApiError m 403)"
    and "\<And>params. \<exists>data. call_backend (pe_action E) (client_fetchResolutionLogs token params) = Inr data"
  shows "fst (snd (ResolutionLogsPage E params jar)) = Unavailable ''Resolution logs unavailable'' m \<and>
    (\<exists>q \<in> set (fst (ResolutionLogsPage E params jar)). reaches matches ''x'' (q, route_Platforms_listPlatforms)) \<and>
    \<not> admitted p route_Platforms_listPlatforms \<and> admitted p route_Resolution_listResolutionLogs"
proof -
  have token: "token \<noteq> []" using session_token_nonempty [OF assms(2)] assms(3) by simp
  have x: "path_safe ''x''" "js_lower ''x'' \<notin> set reserved" by code_simp+
  obtain md where md: "loaded = (profile, md)"
    using runs_profile_and_metadata [OF assms(4), of "\<lambda>q. True" "\<lambda>x. fst x = profile"] assms(5)
    by (cases loaded) (auto simp: runs_def)
  obtain qs where load: "profile_and_metadata E token = (qs, Inr (profile, md))"
    using assms(5) md by (cases "profile_and_metadata E token") simp
  let ?P = "search_filter params ''chain'' @ search_filter params ''asset''"
  have refused: "fetch_all E [client_fetchResolutionLogs token filters, client_fetchSupportedPlatforms token ?P] =
      ([client_fetchResolutionLogs token filters, client_fetchSupportedPlatforms token ?P], Inl (DashboardApiError m 403))"
    for filters
    using assms(9) assms(10) [of filters]
    by (auto simp: fetch_all_def fetch_failures_def map_filter_simps)
  have page: "\<exists>filters. ResolutionLogsPage E params jar =
      (qs @ [client_fetchResolutionLogs token filters, client_fetchSupportedPlatforms token ?P],
       Unavailable ''Resolution logs unavailable'' m, jar)"
    using assms(2,3,7) load refused
    by (auto simp: ResolutionLogsPage_def caught_page_def requireDashboardSession_def Let_def load_then_def panel_def
        humanizeDashboardError_def)
  then have "fst (snd (ResolutionLogsPage E params jar)) = Unavailable ''Resolution logs unavailable'' m \<and>
      (\<exists>q \<in> set (fst (ResolutionLogsPage E params jar)). reaches matches ''x'' (q, route_Platforms_listPlatforms))"
    using page_calls(9) [OF assms(6) x token] by auto
  moreover have "\<not> admitted p route_Platforms_listPlatforms" "admitted p route_Resolution_listResolutionLogs"
    using assms(7,8) by (simp_all add: admitted_iff [OF assms(1)] operation_requests)
  ultimately show ?thesis by blast
qed

section \<open>Examples\<close>

text \<open>A user of any role and a profile with given capabilities; a dashboard whose backend answers every request with the
  same data, except that it may refuse one path; and its cookies.\<close>

definition demo_user :: "PartnerUserRole \<Rightarrow> PartnerProfile \<Rightarrow> AuthenticatedPartner \<Rightarrow> AuthenticatedPartner" where
  "demo_user role f p =
     p\<lparr>ap_actorType := PARTNER_USER, ap_partnerUserRole := Some role, ap_scopes := getPartnerUserScopes role,
       ap_partnerCapabilities := AuthenticatedPartnerCapabilities.truncate (pf_capabilities f),
       ap_partnerPlanEntitlements := pp_entitlements (bs_plan (pf_billing f)),
       ap_partnerOnboardingStage := ob_stage (pf_onboarding f)\<rparr>"

definition demo_profile :: "PartnerUserRole \<Rightarrow> PartnerCapabilityProfile \<Rightarrow> PartnerOnboardingSummary \<Rightarrow> PartnerProfile \<Rightarrow> PartnerProfile" where
  "demo_profile role c b f =
     f\<lparr>pf_capabilities := c, pf_onboarding := b, pf_authenticatedActor := (PARTNER_USER, [], getPartnerUserScopes role)\<rparr>"

lemma demo_user_profile: "user_profile (demo_user role (demo_profile role c b f) p) role (demo_profile role c b f)"
  by (simp add: user_profile_def demo_user_def demo_profile_def profile_scopes_def)

definition page_session :: "PartnerUserRole \<Rightarrow> json" where
  "page_session role = JObj
     (map (\<lambda>k. (k, JStr ''t'')) [''accessToken'', ''expiresAt'', ''partnerDisplayName'', ''partnerSlug'', ''userEmail'',
        ''userFullName'', ''userRole''] @ [(''scopes'', JArr (map JStr (getPartnerUserScopes role)))])"

definition demo_response :: "string \<Rightarrow> json \<Rightarrow> sent_request \<Rightarrow> string + http_response" where
  "demo_response refused data q =
     Inr (if built_url.bu_href (we_url q) = refused
          then \<lparr>wh_status = 403, wh_statusText = ''Forbidden'', wh_json = None\<rparr>
          else \<lparr>wh_status = 200, wh_statusText = ''OK'', wh_json = Some (JObj [(''data'', data)])\<rparr>)"

definition demo_pages :: "string \<Rightarrow> json \<Rightarrow> PartnerUserRole \<Rightarrow> PartnerProfile \<Rightarrow> PartnerDashboardMetadata \<Rightarrow> page_env" where
  "demo_pages refused data role f md =
     \<lparr>pe_action = \<lparr>xe_dashboard = demo_dashboard (page_session role), xe_resolveUrl = (\<lambda>path base. path),
        xe_urls = (Some ''https://api.x'', None), xe_send = demo_response refused data\<rparr>,
      pe_sha256 = (\<lambda>s. s), pe_now = 0, pe_settles = (\<lambda>q. 0), pe_profile = (\<lambda>d. f), pe_metadata = (\<lambda>d. md),
      pe_partners = (\<lambda>d. []), pe_corridors = (\<lambda>d. []), pe_deleteCookie = (\<lambda>name jar. Inl ''read only'')\<rparr>"

lemma demo_base_url: "\<exists>u. getApiBaseUrl (Some ''https://api.x'') None = Inr u"
proof -
  have "\<not> (case getApiBaseUrl (Some ''https://api.x'') None of Inl e \<Rightarrow> True | Inr u \<Rightarrow> False)" by code_simp
  then show ?thesis by (auto split: sum.splits)
qed

lemma demo_call:
  "call_backend (pe_action (demo_pages refused data role f md)) q =
     (if tl (wq_pathname q) = refused \<and> js_starts_with ''/'' (wq_pathname q) \<or>
         wq_pathname q = refused \<and> \<not> js_starts_with ''/'' (wq_pathname q)
      then Inl (DashboardApiError ''Forbidden'' 403) else Inr (Some data))"
proof -
  obtain u where "getApiBaseUrl (Some ''https://api.x'') None = Inr u" using demo_base_url ..
  then show ?thesis
    by (auto simp: call_backend_def demo_pages_def fetchApi_def buildUrl_def demo_response_def extractErrorMessage_def
        status_fallback_def split: json.splits)
qed

lemma texts_of_JStr: "List.map_filter (\<lambda>x. case x of JStr s \<Rightarrow> Some s | _ \<Rightarrow> None) (map JStr xs) = xs"
  by (induction xs) (simp_all add: map_filter_simps)

lemma page_session_facts:
  "isDashboardSession (page_session role)" "session_token (page_session role) = ''t''"
  "session_scopes (page_session role) = getPartnerUserScopes role"
  by (simp_all add: page_session_def isDashboardSession_def non_empty_text_def session_token_def session_text_def
      session_scopes_def list_all_iff is_text_def texts_of_JStr)

lemma demo_signed_in:
  "\<exists>jar. getDashboardSession (dashboard_of (demo_pages refused data role f md)) jar = Some (page_session role)"
proof -
  let ?D = "demo_dashboard (page_session role)"
  obtain k where k: "getSessionKey ?D = Inr k" using demo_dashboard_facts(2) ..
  obtain jar where jar: "set_cookie ?D sessionCookieName (page_session role) \<lparr>ck_cookies = (\<lambda>n. None), ck_drawn = 0\<rparr> = Inr jar"
    using set_cookie_succeeds [OF k] by blast
  have "getDashboardSession ?D jar = Some (page_session role)"
    unfolding getDashboardSession_def
    by (rule read_set_cookie(1) [where guard = isDashboardSession, OF demo_dashboard_contract [of "page_session role"] jar
        demo_dashboard_facts(1) [of "page_session role"] page_session_facts(1) [of role]])
  then show ?thesis by (auto simp: dashboard_of_def demo_pages_def)
qed

lemma demo_answers: "answers_profile (demo_pages refused data role f md) token f"
  by (simp add: answers_profile_def demo_pages_def)

theorem page_requests_admitted_witness:
  "\<exists>E jar qs result jar' p r. TeamPage E jar = (qs, result, jar') \<and> client_fetchPartnerUsers ''t'' \<in> set qs \<and>
     reaches segment_matcher ''x'' (client_fetchPartnerUsers ''t'', r) \<and> admitted p r"
proof -
  fix c :: PartnerCapabilityProfile and b :: PartnerOnboardingSummary and f0 :: PartnerProfile
    and p0 :: AuthenticatedPartner and md :: PartnerDashboardMetadata
  let ?role = PartnerUserRole_ADMIN
  let ?f = "demo_profile ?role c b f0" and ?p = "demo_user ?role (demo_profile ?role c b f0) p0"
  let ?E = "demo_pages [] JNull ?role ?f md"
  obtain jar where jar: "getDashboardSession (dashboard_of ?E) jar = Some (page_session ?role)" using demo_signed_in ..
  obtain qs result jar' where run: "TeamPage ?E jar = (qs, result, jar')" by (metis prod_cases3)
  have q: "client_fetchPartnerUsers ''t'' \<in> set qs"
    using run jar
    by (auto simp: TeamPage_def caught_page_def requireDashboardSession_def Let_def metadata_only_def load_then_def
        load_done_def fetch_one_def demo_call page_session_facts client_fetchPartnerDashboardMetadata_def client_get_def
        js_starts_with_def split: prod.splits sum.splits dashboard_error.splits)
  have scopes: "session_scopes (page_session ?role) = ap_scopes ?p" by (simp add: page_session_facts demo_user_def)
  have shown: "visible_item ?f (session_scopes (page_session ?role)) (item_of ''/access/team'')"
    by (simp add: visible_item_def item_of_def navigationGroups_def nav_item_def canAccessScope_iff page_session_facts
        role_scopes demo_profile_def profile_scopes_def del: getPartnerUserScopes.simps)
  have x: "path_safe ''x''" "js_lower ''x'' \<notin> set reserved" by code_simp+
  have "(''/access/team'', TeamPage ?E) \<in> set (pages_of ?E (\<lambda>k. None) ''x'' ?f)"
    by (simp add: pages_of_def page_runs_def)
  from page_requests_admitted [OF demo_user_profile jar scopes demo_answers segment_matcher_contract x this run shown q]
  show ?thesis using run q by blast
qed

theorem logs_page_needs_environment_witness:
  "\<exists>E jar p. fst (snd (ResolutionLogsPage E (\<lambda>k. None) jar)) = Unavailable ''Resolution logs unavailable'' ''Forbidden'' \<and>
     admitted p route_Resolution_listResolutionLogs"
proof -
  fix c0 :: PartnerCapabilityProfile and b :: PartnerOnboardingSummary and f0 :: PartnerProfile
    and p0 :: AuthenticatedPartner and md :: PartnerDashboardMetadata
  let ?c = "c0\<lparr>cap_apiConsumerEnabled := True, cap_sandboxEnabled := False, cap_productionEnabled := False\<rparr>"
  let ?role = PartnerUserRole_ANALYST
  let ?f = "demo_profile ?role ?c b f0" and ?p = "demo_user ?role (demo_profile ?role ?c b f0) p0"
  let ?E = "demo_pages ''v1/platforms'' JNull ?role ?f md"
  obtain jar where jar: "getDashboardSession (dashboard_of ?E) jar = Some (page_session ?role)" using demo_signed_in ..
  have loaded: "snd (profile_and_metadata ?E ''t'') = Inr (?f, md)"
    by (simp add: profile_and_metadata_def load_then_def load_done_def fetch_all_def fetch_failures_def fetch_answers_def
        map_filter_simps demo_call client_fetchPartnerProfile_def client_fetchPartnerDashboardMetadata_def client_get_def
        js_starts_with_def)
      (simp add: demo_pages_def)
  have access: "resolution_access ?f" "\<not> canRunOperationalResolution ?f"
    by (simp_all add: demo_profile_def resolution_access_def canRunOperationalResolution_def)
  have refused: "call_backend (pe_action ?E) (client_fetchSupportedPlatforms ''t'' params) =
      Inl (DashboardApiError ''Forbidden'' 403)" for params
    by (simp add: demo_call client_fetchSupportedPlatforms_def client_get_def js_starts_with_def)
  have logs: "\<exists>data. call_backend (pe_action ?E) (client_fetchResolutionLogs ''t'' params) = Inr data" for params
    by (simp add: demo_call client_fetchResolutionLogs_def client_get_def js_starts_with_def)
  from logs_page_needs_environment [OF demo_user_profile jar page_session_facts(2) demo_answers loaded
      segment_matcher_contract access refused logs] show ?thesis by blast
qed

end
