(* ===== verification/Page_Forms.thy ===== *)
theory Page_Forms
  imports Page_Facts
begin

text \<open>
  The forms of the pages: each posts to a handler of the dashboard, whose request is for one route of the backend.  A
  page offers a form to a user only when the guard of that route lets the user pass, and its standing forms always then.
\<close>

section \<open>The handlers' routes\<close>

text \<open>The address a form posts to, what its handler makes of it, and the route its request is for; an endpoint
  is disabled by another route than it is changed.\<close>

definition form_actions :: "(string \<times> (dashboard_env \<Rightarrow> string \<Rightarrow> form \<Rightarrow> form_plan) \<times> route list) list" where
  "form_actions =
     [(''/recipients/actions/create'', create_recipient_plan, [route_Recipients_createRecipient]),
      (''/recipients/actions/update'', update_recipient_plan, [route_Recipients_updateRecipient]),
      (''/recipients/actions/disable'', disable_recipient_plan, [route_Recipients_disableRecipient]),
      (''/destinations/actions/create'', create_destination_plan, [route_Destinations_createDestination]),
      (''/destinations/actions/replace'', replace_destination_plan, [route_Destinations_replaceDestination]),
      (''/destinations/actions/revoke'', revoke_destination_plan, [route_Destinations_revokeDestination]),
      (''/webhooks/actions/create'', create_webhook_plan, [route_Webhooks_createWebhookEndpoint]),
      (''/webhooks/actions/test'', test_webhook_plan, [route_Webhooks_testWebhookEndpoint]),
      (''/webhooks/actions/rotate-secret'', rotate_secret_plan, [route_Webhooks_rotateWebhookSigningSecret]),
      (''/webhooks/actions/status'', update_status_plan, [route_Webhooks_updateWebhookEndpoint, route_Webhooks_disableWebhookEndpoint]),
      (''/webhooks/actions/replay-delivery'', replay_delivery_plan, [route_Webhooks_replayWebhookDelivery]),
      (''/access/actions/create-credential'', create_credential_plan, [route_PartnerAccount_createApiCredential]),
      (''/access/actions/revoke-credential'', revoke_credential_plan, [route_PartnerAccount_revokeApiCredential]),
      (''/access/actions/register-signing-key'', register_signing_key_plan, [route_PartnerAccount_registerSigningKey]),
      (''/access/actions/revoke-signing-key'', revoke_signing_key_plan, [route_PartnerAccount_revokeSigningKey]),
      (''/access/actions/invite-user'', invite_user_plan, [route_PartnerAccount_invitePartnerUser]),
      (''/access/actions/update-user'', update_user_plan, [route_PartnerAccount_updatePartnerUser]),
      (''/access/actions/deactivate-user'', deactivate_user_plan, [route_PartnerAccount_deactivatePartnerUser]),
      (''/access/actions/update-security'', update_security_plan, [route_PartnerAccount_updateSecuritySettings]),
      (''/audit/actions/create-export'', create_export_plan, [route_AuditExports_createAuditExport]),
      (''/setup/actions/request-production-approval'', request_production_approval_plan,
       [route_PartnerAccount_requestProductionApproval]),
      (''/setup/actions/cancel-production-approval'', cancel_production_approval_plan,
       [route_PartnerAccount_cancelProductionApprovalRequest])]"

definition request_for :: "route \<Rightarrow> string \<Rightarrow> client_request \<Rightarrow> bool" where
  "request_for r token q \<longleftrightarrow>
     wq_method q = rt_method r \<and> wq_accessToken q = token \<and> wq_adminToken q = [] \<and>
     (\<exists>args. length args = path_params (rt_path r) \<and> wq_pathname q = path_text (globalPrefix # fill_path (rt_path r) args))"

definition plan_for :: "(string \<times> (dashboard_env \<Rightarrow> string \<Rightarrow> form \<Rightarrow> form_plan) \<times> route list) \<Rightarrow> bool" where
  "plan_for = (\<lambda>(url, plan, rs). \<forall>D token f q message title page.
     plan D token f = Submit q message title page \<longrightarrow> list_ex (\<lambda>r. request_for r token q) rs)"

lemma request_for_plain:
  "wq_method q = rt_method r \<Longrightarrow> wq_accessToken q = token \<Longrightarrow> wq_adminToken q = [] \<Longrightarrow> path_params (rt_path r) = 0 \<Longrightarrow>
     wq_pathname q = path_text (globalPrefix # fill_path (rt_path r) []) \<Longrightarrow> request_for r token q"
  by (auto simp: request_for_def)

lemma request_for_id:
  "wq_method q = rt_method r \<Longrightarrow> wq_accessToken q = token \<Longrightarrow> wq_adminToken q = [] \<Longrightarrow> path_params (rt_path r) = 1 \<Longrightarrow>
     wq_pathname q = path_text (globalPrefix # fill_path (rt_path r) [i]) \<Longrightarrow> request_for r token q"
  unfolding request_for_def by (intro conjI exI [of _ "[i]"]) simp_all

lemma registry_calls_for:
  "request_for route_Recipients_createRecipient token (client_createRecipient token input)"
  "request_for route_Recipients_updateRecipient token (client_updateRecipient token i input)"
  "request_for route_Recipients_disableRecipient token (client_disableRecipient token i)"
  "request_for route_Destinations_createDestination token (client_createDestination token input)"
  "request_for route_Destinations_replaceDestination token (client_replaceDestination token i input)"
  "request_for route_Destinations_revokeDestination token (client_revokeDestination token i)"
  "request_for route_Webhooks_createWebhookEndpoint token (client_createWebhookEndpoint token input)"
  "request_for route_Webhooks_testWebhookEndpoint token (client_testWebhookEndpoint token i)"
  "request_for route_Webhooks_rotateWebhookSigningSecret token (client_rotateWebhookSigningSecret token i)"
  "request_for route_Webhooks_updateWebhookEndpoint token (client_updateWebhookEndpoint token i input)"
  "request_for route_Webhooks_disableWebhookEndpoint token (client_disableWebhookEndpoint token i)"
  "request_for route_Webhooks_replayWebhookDelivery token (client_replayWebhookDelivery token i)"
  by ((rule request_for_plain; simp add: client_request_defs route_defs globalPrefix_def; fail) |
      (rule request_for_id [where i = i]; simp add: client_request_defs route_defs globalPrefix_def; fail))+

lemma account_calls_for:
  "request_for route_PartnerAccount_createApiCredential token (client_issuePartnerApiCredential token input)"
  "request_for route_PartnerAccount_revokeApiCredential token (client_revokePartnerApiCredential token i)"
  "request_for route_PartnerAccount_registerSigningKey token (client_registerPartnerSigningKey token input)"
  "request_for route_PartnerAccount_revokeSigningKey token (client_revokePartnerSigningKey token i)"
  "request_for route_PartnerAccount_invitePartnerUser token (client_invitePartnerUser token input)"
  "request_for route_PartnerAccount_updatePartnerUser token (client_updatePartnerUser token i input)"
  "request_for route_PartnerAccount_deactivatePartnerUser token (client_deactivatePartnerUser token i)"
  "request_for route_PartnerAccount_updateSecuritySettings token (client_updatePartnerSecuritySettings token input)"
  "request_for route_AuditExports_createAuditExport token (client_createAuditExport token input)"
  "request_for route_PartnerAccount_requestProductionApproval token (client_requestProductionApproval token input)"
  "request_for route_PartnerAccount_cancelProductionApprovalRequest token (client_cancelProductionApprovalRequest token i)"
  by ((rule request_for_plain; simp add: client_request_defs route_defs globalPrefix_def; fail) |
      (rule request_for_id [where i = i]; simp add: client_request_defs route_defs globalPrefix_def; fail))+

lemma plans_for: "list_all plan_for form_actions"
  by (simp add: form_actions_def plan_for_def)
    (auto simp: create_recipient_plan_def update_recipient_plan_def disable_recipient_plan_def create_destination_plan_def
      replace_destination_plan_def revoke_destination_plan_def create_webhook_plan_def test_webhook_plan_def
      rotate_secret_plan_def update_status_plan_def replay_delivery_plan_def create_credential_plan_def
      revoke_credential_plan_def register_signing_key_plan_def revoke_signing_key_plan_def invite_user_plan_def
      update_user_plan_def deactivate_user_plan_def update_security_plan_def create_export_plan_def
      request_production_approval_plan_def cancel_production_approval_plan_def
      Let_def registry_calls_for account_calls_for split: if_splits)

section \<open>What the guards ask\<close>

lemma form_guards:
  "user_admitted role profile route_Recipients_createRecipient \<longleftrightarrow>
     canAccessModule profile Module_registry \<and> can_write_registry (getPartnerUserScopes role) profile ''recipients:write''"
  "user_admitted role profile route_Recipients_updateRecipient \<longleftrightarrow>
     canAccessModule profile Module_registry \<and> can_write_registry (getPartnerUserScopes role) profile ''recipients:write''"
  "user_admitted role profile route_Recipients_disableRecipient \<longleftrightarrow>
     canAccessModule profile Module_registry \<and> can_write_registry (getPartnerUserScopes role) profile ''recipients:write''"
  "user_admitted role profile route_Destinations_createDestination \<longleftrightarrow>
     canAccessModule profile Module_registry \<and> can_write_registry (getPartnerUserScopes role) profile ''destinations:write''"
  "user_admitted role profile route_Destinations_replaceDestination \<longleftrightarrow>
     canAccessModule profile Module_registry \<and> can_write_registry (getPartnerUserScopes role) profile ''destinations:write''"
  "user_admitted role profile route_Destinations_revokeDestination \<longleftrightarrow>
     canAccessModule profile Module_registry \<and> can_write_registry (getPartnerUserScopes role) profile ''destinations:write''"
  by (auto simp: guard_facts canAccessScope_iff can_write_registry_def isDataContributorEnabled_def
      route_Recipients_createRecipient_def route_Recipients_updateRecipient_def route_Recipients_disableRecipient_def
      route_Destinations_createDestination_def route_Destinations_replaceDestination_def
      route_Destinations_revokeDestination_def)

lemma webhook_form_guards:
  "user_admitted role profile route_Webhooks_createWebhookEndpoint \<longleftrightarrow>
     cap_webhooksEnabled (pf_capabilities profile) \<and> ''webhooks:write'' \<in> set (getPartnerUserScopes role)"
  "user_admitted role profile route_Webhooks_testWebhookEndpoint \<longleftrightarrow>
     cap_webhooksEnabled (pf_capabilities profile) \<and> ''webhooks:write'' \<in> set (getPartnerUserScopes role)"
  "user_admitted role profile route_Webhooks_rotateWebhookSigningSecret \<longleftrightarrow>
     cap_webhooksEnabled (pf_capabilities profile) \<and> ''webhooks:write'' \<in> set (getPartnerUserScopes role)"
  "user_admitted role profile route_Webhooks_updateWebhookEndpoint \<longleftrightarrow>
     cap_webhooksEnabled (pf_capabilities profile) \<and> ''webhooks:write'' \<in> set (getPartnerUserScopes role)"
  "user_admitted role profile route_Webhooks_disableWebhookEndpoint \<longleftrightarrow>
     cap_webhooksEnabled (pf_capabilities profile) \<and> ''webhooks:write'' \<in> set (getPartnerUserScopes role)"
  "user_admitted role profile route_Webhooks_replayWebhookDelivery \<longleftrightarrow>
     cap_webhooksEnabled (pf_capabilities profile) \<and> ''webhooks:replay'' \<in> set (getPartnerUserScopes role)"
  by (auto simp: guard_facts route_Webhooks_createWebhookEndpoint_def route_Webhooks_testWebhookEndpoint_def
      route_Webhooks_rotateWebhookSigningSecret_def route_Webhooks_updateWebhookEndpoint_def
      route_Webhooks_disableWebhookEndpoint_def route_Webhooks_replayWebhookDelivery_def)

lemma access_form_guards:
  "user_admitted role profile route_PartnerAccount_createApiCredential \<longleftrightarrow>
     canAccessModule profile Module_api_keys \<and> ''partners:write'' \<in> set (getPartnerUserScopes role)"
  "user_admitted role profile route_PartnerAccount_revokeApiCredential \<longleftrightarrow>
     canAccessModule profile Module_api_keys \<and> ''partners:write'' \<in> set (getPartnerUserScopes role)"
  "user_admitted role profile route_PartnerAccount_registerSigningKey \<longleftrightarrow>
     canAccessModule profile Module_signing_keys \<and> ''partners:write'' \<in> set (getPartnerUserScopes role)"
  "user_admitted role profile route_PartnerAccount_revokeSigningKey \<longleftrightarrow>
     canAccessModule profile Module_signing_keys \<and> ''partners:write'' \<in> set (getPartnerUserScopes role)"
  "user_admitted role profile route_PartnerAccount_invitePartnerUser \<longleftrightarrow> ''team:write'' \<in> set (getPartnerUserScopes role)"
  "user_admitted role profile route_PartnerAccount_updatePartnerUser \<longleftrightarrow> ''team:write'' \<in> set (getPartnerUserScopes role)"
  "user_admitted role profile route_PartnerAccount_deactivatePartnerUser \<longleftrightarrow> ''team:write'' \<in> set (getPartnerUserScopes role)"
  "user_admitted role profile route_PartnerAccount_updateSecuritySettings \<longleftrightarrow>
     ''security:write'' \<in> set (getPartnerUserScopes role)"
  "user_admitted role profile route_AuditExports_createAuditExport \<longleftrightarrow>
     cap_auditExportsEnabled (pf_capabilities profile) \<and> ''audit:export'' \<in> set (getPartnerUserScopes role)"
  "user_admitted role profile route_PartnerAccount_requestProductionApproval \<longleftrightarrow> manages_approval role"
  "user_admitted role profile route_PartnerAccount_cancelProductionApprovalRequest \<longleftrightarrow> manages_approval role"
  by (auto simp: guard_facts role_scopes role_write_scopes isDataContributorEnabled_def manages_approval_def
      route_PartnerAccount_createApiCredential_def route_PartnerAccount_revokeApiCredential_def
      route_PartnerAccount_registerSigningKey_def route_PartnerAccount_revokeSigningKey_def
      route_PartnerAccount_invitePartnerUser_def route_PartnerAccount_updatePartnerUser_def
      route_PartnerAccount_deactivatePartnerUser_def route_PartnerAccount_updateSecuritySettings_def
      route_AuditExports_createAuditExport_def route_PartnerAccount_requestProductionApproval_def
      route_PartnerAccount_cancelProductionApprovalRequest_def)

section \<open>What the pages offer\<close>

definition form_routes :: "string \<Rightarrow> route list" where
  "form_routes url = (case map_of form_actions url of None \<Rightarrow> [] | Some (plan, rs) \<Rightarrow> rs)"

text \<open>Every request the form's handler may make is one the backend lets the user make.\<close>

definition form_open :: "PartnerUserRole \<Rightarrow> PartnerProfile \<Rightarrow> string \<Rightarrow> bool" where
  "form_open role profile url \<longleftrightarrow> form_routes url \<noteq> [] \<and> list_all (user_admitted role profile) (form_routes url)"

lemmas form_open_defs = form_open_def form_routes_def form_actions_def

lemma registry_forms_open:
  "form_open role profile ''/recipients/actions/create'' \<longleftrightarrow>
     canAccessModule profile Module_registry \<and> can_write_registry (getPartnerUserScopes role) profile ''recipients:write''"
  "form_open role profile ''/recipients/actions/update'' \<longleftrightarrow>
     canAccessModule profile Module_registry \<and> can_write_registry (getPartnerUserScopes role) profile ''recipients:write''"
  "form_open role profile ''/recipients/actions/disable'' \<longleftrightarrow>
     canAccessModule profile Module_registry \<and> can_write_registry (getPartnerUserScopes role) profile ''recipients:write''"
  "form_open role profile ''/destinations/actions/create'' \<longleftrightarrow>
     canAccessModule profile Module_registry \<and> can_write_registry (getPartnerUserScopes role) profile ''destinations:write''"
  "form_open role profile ''/destinations/actions/replace'' \<longleftrightarrow>
     canAccessModule profile Module_registry \<and> can_write_registry (getPartnerUserScopes role) profile ''destinations:write''"
  "form_open role profile ''/destinations/actions/revoke'' \<longleftrightarrow>
     canAccessModule profile Module_registry \<and> can_write_registry (getPartnerUserScopes role) profile ''destinations:write''"
  by (simp_all add: form_open_defs form_guards del: canAccessModule.simps)

lemma webhook_forms_open:
  "form_open role profile ''/webhooks/actions/create'' \<longleftrightarrow>
     cap_webhooksEnabled (pf_capabilities profile) \<and> ''webhooks:write'' \<in> set (getPartnerUserScopes role)"
  "form_open role profile ''/webhooks/actions/test'' \<longleftrightarrow>
     cap_webhooksEnabled (pf_capabilities profile) \<and> ''webhooks:write'' \<in> set (getPartnerUserScopes role)"
  "form_open role profile ''/webhooks/actions/rotate-secret'' \<longleftrightarrow>
     cap_webhooksEnabled (pf_capabilities profile) \<and> ''webhooks:write'' \<in> set (getPartnerUserScopes role)"
  "form_open role profile ''/webhooks/actions/status'' \<longleftrightarrow>
     cap_webhooksEnabled (pf_capabilities profile) \<and> ''webhooks:write'' \<in> set (getPartnerUserScopes role)"
  "form_open role profile ''/webhooks/actions/replay-delivery'' \<longleftrightarrow>
     cap_webhooksEnabled (pf_capabilities profile) \<and> ''webhooks:replay'' \<in> set (getPartnerUserScopes role)"
  by (simp_all add: form_open_defs webhook_form_guards)

lemma access_forms_open:
  "form_open role profile ''/access/actions/create-credential'' \<longleftrightarrow>
     canAccessModule profile Module_api_keys \<and> ''partners:write'' \<in> set (getPartnerUserScopes role)"
  "form_open role profile ''/access/actions/revoke-credential'' \<longleftrightarrow>
     canAccessModule profile Module_api_keys \<and> ''partners:write'' \<in> set (getPartnerUserScopes role)"
  "form_open role profile ''/access/actions/register-signing-key'' \<longleftrightarrow>
     canAccessModule profile Module_signing_keys \<and> ''partners:write'' \<in> set (getPartnerUserScopes role)"
  "form_open role profile ''/access/actions/revoke-signing-key'' \<longleftrightarrow>
     canAccessModule profile Module_signing_keys \<and> ''partners:write'' \<in> set (getPartnerUserScopes role)"
  "form_open role profile ''/access/actions/invite-user'' \<longleftrightarrow> ''team:write'' \<in> set (getPartnerUserScopes role)"
  "form_open role profile ''/access/actions/update-user'' \<longleftrightarrow> ''team:write'' \<in> set (getPartnerUserScopes role)"
  "form_open role profile ''/access/actions/deactivate-user'' \<longleftrightarrow> ''team:write'' \<in> set (getPartnerUserScopes role)"
  "form_open role profile ''/access/actions/update-security'' \<longleftrightarrow> ''security:write'' \<in> set (getPartnerUserScopes role)"
  "form_open role profile ''/audit/actions/create-export'' \<longleftrightarrow>
     cap_auditExportsEnabled (pf_capabilities profile) \<and> ''audit:export'' \<in> set (getPartnerUserScopes role)"
  by (simp_all add: form_open_defs access_form_guards del: canAccessModule.simps)

text \<open>A page with forms: the item it belongs to, the forms that do not depend on its rows, and those of its rows.\<close>

definition page_forms ::
    "page_env \<Rightarrow> search_params \<Rightarrow> string \<Rightarrow> (string \<times> (cookie_jar \<Rightarrow> page_run) \<times> string list \<times> string list) list" where
  "page_forms E params i =
     [(''/recipients'', RecipientsPage E params, [''/recipients/actions/create''], []),
      (''/recipients'', RecipientDetailPage E i, [''/recipients/actions/update'', ''/recipients/actions/disable''], []),
      (''/destinations'', DestinationsPage E params, [''/destinations/actions/create''], []),
      (''/destinations'', DestinationDetailPage E i,
       [''/destinations/actions/replace'', ''/destinations/actions/revoke''], []),
      (''/webhooks'', WebhooksPage E params, [''/webhooks/actions/create''], []),
      (''/webhooks'', WebhookDetailPage E i,
       [''/webhooks/actions/test'', ''/webhooks/actions/rotate-secret'', ''/webhooks/actions/status''], []),
      (''/webhooks/deliveries'', WebhookDeliveryDetailPage E i, [''/webhooks/actions/replay-delivery''], []),
      (''/access/api-keys'', ApiKeysPage E, [''/access/actions/create-credential''],
       [''/access/actions/revoke-credential'']),
      (''/access/signing-keys'', SigningKeysPage E, [''/access/actions/register-signing-key''],
       [''/access/actions/revoke-signing-key'']),
      (''/access/team'', TeamPage E, [''/access/actions/invite-user''],
       [''/access/actions/update-user'', ''/access/actions/deactivate-user'']),
      (''/access/security'', SecurityPage E, [''/access/actions/update-security''], []),
      (''/audit/exports'', AuditExportsPage E, [''/audit/actions/create-export''], [])]"

definition forms_fit :: "PartnerUserRole \<Rightarrow> PartnerProfile \<Rightarrow> string list \<Rightarrow> string list \<Rightarrow> page_view \<Rightarrow> bool" where
  "forms_fit role profile standing rows v \<longleftrightarrow>
     list_all (\<lambda>url. List.member (standing @ rows) url \<and> form_open role profile url) (pv_forms v) \<and>
     list_all (\<lambda>url. form_open role profile url \<longrightarrow> List.member (pv_forms v) url) standing"

lemma pv_forms_view [simp]: "pv_forms (view title) = []"
  by (simp add: view_def)

lemma registry_forms_fit:
  assumes "getDashboardSession (dashboard_of E) jar = Some session" "answers_profile E (session_token session) profile"
    and "session_scopes session = getPartnerUserScopes role"
  shows "page_fits (\<lambda>q. True) (forms_fit role profile [''/recipients/actions/create''] []) (RecipientsPage E params jar)"
    "page_fits (\<lambda>q. True) (forms_fit role profile [''/recipients/actions/update'', ''/recipients/actions/disable''] [])
       (RecipientDetailPage E i jar)"
    "page_fits (\<lambda>q. True) (forms_fit role profile [''/destinations/actions/create''] []) (DestinationsPage E params jar)"
    "page_fits (\<lambda>q. True) (forms_fit role profile [''/destinations/actions/replace'', ''/destinations/actions/revoke''] [])
       (DestinationDetailPage E i jar)"
  unfolding RecipientsPage_def RecipientDetailPage_def DestinationsPage_def DestinationDetailPage_def
  by ((rule caught_fits [OF assms(1)];
       auto simp: Let_def assms(3) forms_fit_def registry_forms_open list_all_iff simp del: canAccessModule.simps
         intro!: page_rule runs_profile_and_metadata [OF assms(2)] runs_profile [OF assms(2)])+)

lemma webhook_forms_fit:
  assumes "getDashboardSession (dashboard_of E) jar = Some session" "answers_profile E (session_token session) profile"
    and "session_scopes session = getPartnerUserScopes role"
  shows "page_fits (\<lambda>q. True) (forms_fit role profile [''/webhooks/actions/create''] []) (WebhooksPage E params jar)"
    "page_fits (\<lambda>q. True)
       (forms_fit role profile [''/webhooks/actions/test'', ''/webhooks/actions/rotate-secret'', ''/webhooks/actions/status''] [])
       (WebhookDetailPage E i jar)"
    "page_fits (\<lambda>q. True) (forms_fit role profile [''/webhooks/actions/replay-delivery''] [])
       (WebhookDeliveryDetailPage E i jar)"
  unfolding WebhooksPage_def WebhookDetailPage_def WebhookDeliveryDetailPage_def
  by ((rule caught_fits [OF assms(1)];
       auto simp: Let_def assms(3) forms_fit_def webhook_forms_open list_all_iff canAccessScope_iff
         intro!: page_rule runs_profile_and_metadata [OF assms(2)] runs_profile [OF assms(2)])+)

lemma access_forms_fit:
  assumes "getDashboardSession (dashboard_of E) jar = Some session" "answers_profile E (session_token session) profile"
    and "session_scopes session = getPartnerUserScopes role"
  shows "page_fits (\<lambda>q. True)
       (forms_fit role profile [''/access/actions/create-credential''] [''/access/actions/revoke-credential''])
       (ApiKeysPage E jar)"
    "page_fits (\<lambda>q. True)
       (forms_fit role profile [''/access/actions/register-signing-key''] [''/access/actions/revoke-signing-key''])
       (SigningKeysPage E jar)"
    "page_fits (\<lambda>q. True)
       (forms_fit role profile [''/access/actions/invite-user'']
          [''/access/actions/update-user'', ''/access/actions/deactivate-user''])
       (TeamPage E jar)"
    "page_fits (\<lambda>q. True) (forms_fit role profile [''/access/actions/update-security''] []) (SecurityPage E jar)"
  unfolding ApiKeysPage_def SigningKeysPage_def TeamPage_def SecurityPage_def
  by ((rule caught_fits [OF assms(1)];
       auto simp: Let_def assms(3) forms_fit_def access_forms_open list_all_iff canAccessScope_iff simp del: canAccessModule.simps
         split: if_splits intro!: page_rule runs_profile_and_metadata [OF assms(2)] runs_profile [OF assms(2)])+)

lemma export_forms_fit:
  assumes "getDashboardSession (dashboard_of E) jar = Some session" "answers_profile E (session_token session) profile"
    and "''audit:export'' \<in> set (getPartnerUserScopes role)"
  shows "page_fits (\<lambda>q. True) (forms_fit role profile [''/audit/actions/create-export''] []) (AuditExportsPage E jar)"
  unfolding AuditExportsPage_def
  by (rule caught_fits [OF assms(1)];
      auto simp: Let_def assms(3) forms_fit_def access_forms_open list_all_iff
        intro!: page_rule runs_profile_and_metadata [OF assms(2)])

text \<open>The setup page offers its two forms to a user exactly when the profile's flags for them are set; the check of the
  role in the page adds nothing to them.\<close>

lemma setup_forms_follow_profile:
  assumes "getPartnerProfile E now p s = Inr f"
  shows "oh_forms (PartnerOnboardingHome md f requests corridors) =
      (if as_canRequest (pf_productionApproval f) then [''/setup/actions/request-production-approval''] else []) @
      (if as_canCancel (pf_productionApproval f) then [''/setup/actions/cancel-production-approval''] else [])"
    "as_canCancel (pf_productionApproval f) \<longleftrightarrow> oh_cancelId (PartnerOnboardingHome md f requests corridors) \<noteq> None"
proof -
  obtain partner where f: "pf_productionApproval f = buildPartnerProductionApprovalSummary p (signed_in_user p s) partner
      (getPartnerOperationalCounts (ap_partnerId p) s) (getLatestProductionApprovalRequest (ap_partnerId p) s)"
    "pf_authenticatedUser f = map_option user_view (signed_in_user p s)"
    using assms by (auto simp: getPartnerProfile_def Let_def split: sum.splits)
  have manages: "canManageProductionApproval (map_option (\<lambda>u. name_PartnerUserRole (uv_role u)) (pf_authenticatedUser f)) \<longleftrightarrow>
      (case signed_in_user p s of None \<Rightarrow> False | Some u \<Rightarrow> manages_approval (us_role u))"
    by (cases "signed_in_user p s"; cases "us_role (the (signed_in_user p s))")
      (simp_all add: f(2) canManageProductionApproval_def manages_approval_def user_view_def)
  have latest: "as_canCancel (pf_productionApproval f) \<Longrightarrow> as_latestRequest (pf_productionApproval f) \<noteq> None"
    by (auto simp: f(1) buildPartnerProductionApprovalSummary_def latest_is_def Let_def split: option.splits)
  have "as_canRequest (pf_productionApproval f) \<or> as_canCancel (pf_productionApproval f) \<Longrightarrow>
      (case signed_in_user p s of None \<Rightarrow> False | Some u \<Rightarrow> manages_approval (us_role u))"
    by (auto simp: f(1) buildPartnerProductionApprovalSummary_def Let_def)
  with latest show
    "oh_forms (PartnerOnboardingHome md f requests corridors) =
      (if as_canRequest (pf_productionApproval f) then [''/setup/actions/request-production-approval''] else []) @
      (if as_canCancel (pf_productionApproval f) then [''/setup/actions/cancel-production-approval''] else [])"
    "as_canCancel (pf_productionApproval f) \<longleftrightarrow> oh_cancelId (PartnerOnboardingHome md f requests corridors) \<noteq> None"
    unfolding PartnerOnboardingHome_def Let_def manages by (auto split: if_splits option.splits)
qed

text \<open>C13: a page offers its user only forms the backend will accept, and its own forms whenever it will.  Take a user
  signed in with the scopes of its role, a backend that answers the profile request with the user's profile, and a page
  of \<open>page_forms\<close> that is shown and whose item the navigation shows.  Every form on the page posts to a handler
  whose request, whatever is entered, carries the token of the session and is for a route whose guard lets the user pass.
  Conversely every form in the list \<open>standing\<close> of the page is there when the guard of each route its handler may call
  lets the user pass.  The forms of single rows (revoking a credential or a key, changing or deactivating a user) are
  there only for some rows, and only the first direction is claimed of them; the forms of the setup page, the batch page
  and the administration are not in \<open>page_forms\<close>.\<close>

theorem forms_offered_iff_accepted:
  assumes "user_profile p role profile"
    and "getDashboardSession (dashboard_of E) jar = Some session" "session_scopes session = ap_scopes p"
    and "answers_profile E (session_token session) profile"
    and "(href, run, standing, rows) \<in> set (page_forms E params i)" "run jar = (qs, Shown v, jar')"
    and "visible_item profile (session_scopes session) (item_of href)"
  shows "(\<forall>url \<in> set (pv_forms v). url \<in> set (standing @ rows) \<and>
       (\<exists>plan rs. map_of form_actions url = Some (plan, rs) \<and>
          (\<forall>D f q message title page. plan D (session_token session) f = Submit q message title page \<longrightarrow>
             (\<exists>r. request_for r (session_token session) q \<and> admitted p r)))) \<and>
     (\<forall>url \<in> set standing. \<forall>plan rs. map_of form_actions url = Some (plan, rs) \<and> rs \<noteq> [] \<and> (\<forall>r \<in> set rs. admitted p r) \<longrightarrow>
        url \<in> set (pv_forms v))"
proof -
  have scopes: "session_scopes session = getPartnerUserScopes role"
    using assms(1,3) by (simp add: user_profile_def)
  note fits = registry_forms_fit [OF assms(2,4) scopes] webhook_forms_fit [OF assms(2,4) scopes]
    access_forms_fit [OF assms(2,4) scopes] export_forms_fit [OF assms(2,4)]
  have "page_fits (\<lambda>q. True) (forms_fit role profile standing rows) (run jar)"
    using assms(5,7) fits
    by (auto simp: page_forms_def item_of_def navigationGroups_def visible_item_def nav_item_def canAccessScope_iff scopes
        simp del: getPartnerUserScopes.simps)
  then have fit: "forms_fit role profile standing rows v"
    using assms(6) by (simp add: page_fits_def)
  have sent: "\<exists>r \<in> set rs. request_for r token q"
    if "map_of form_actions url = Some (plan, rs)" "plan D token f = Submit q message title page"
    for url plan rs D token f q message title page
    using plans_for that map_of_SomeD [OF that(1)] by (fastforce simp: list_all_iff list_ex_iff plan_for_def)
  have offered: "url \<in> set (standing @ rows) \<and>
      (\<exists>plan rs. map_of form_actions url = Some (plan, rs) \<and>
         (\<forall>D f q message title page. plan D (session_token session) f = Submit q message title page \<longrightarrow>
            (\<exists>r. request_for r (session_token session) q \<and> admitted p r)))" if "url \<in> set (pv_forms v)" for url
  proof -
    have mem: "url \<in> set (standing @ rows)" "form_open role profile url"
      using fit that by (auto simp: forms_fit_def list_all_iff)
    then obtain plan rs where m: "map_of form_actions url = Some (plan, rs)" "\<forall>r \<in> set rs. user_admitted role profile r"
      by (auto simp: form_open_def form_routes_def list_all_iff split: option.splits)
    have "\<exists>r. request_for r (session_token session) q \<and> admitted p r"
      if "plan D (session_token session) f = Submit q message title page" for D f q message title page
      using sent [OF m(1) that] m(2) admitted_iff [OF assms(1)] by blast
    with mem(1) m(1) show ?thesis by blast
  qed
  have kept: "url \<in> set (pv_forms v)"
    if "url \<in> set standing" "map_of form_actions url = Some (plan, rs)" "rs \<noteq> []" "\<forall>r \<in> set rs. admitted p r" for url plan rs
  proof -
    have "form_open role profile url"
      using that by (simp add: form_open_def form_routes_def list_all_iff admitted_iff [OF assms(1)])
    with fit that(1) show ?thesis by (simp add: forms_fit_def list_all_iff)
  qed
  show ?thesis using offered kept by blast
qed

theorem forms_offered_iff_accepted_witness:
  "\<exists>E jar qs v jar' p. TeamPage E jar = (qs, Shown v, jar') \<and> ''/access/actions/invite-user'' \<in> set (pv_forms v) \<and>
     (\<forall>D f q message title page. invite_user_plan D ''t'' f = Submit q message title page \<longrightarrow>
        (\<exists>r. request_for r ''t'' q \<and> admitted p r))"
proof -
  fix c :: PartnerCapabilityProfile and b :: PartnerOnboardingSummary and f0 :: PartnerProfile
    and p0 :: AuthenticatedPartner and md :: PartnerDashboardMetadata
  let ?role = PartnerUserRole_ADMIN and ?answer = "JObj [(''invites'', JArr []), (''users'', JArr [])]"
  let ?f = "demo_profile ?role c b f0" and ?p = "demo_user ?role (demo_profile ?role c b f0) p0"
  let ?E = "demo_pages [] ?answer ?role ?f md"
  obtain jar where jar: "getDashboardSession (dashboard_of ?E) jar = Some (page_session ?role)" using demo_signed_in ..
  have run: "\<exists>qs v. TeamPage ?E jar = (qs, Shown v, jar) \<and> ''/access/actions/invite-user'' \<in> set (pv_forms v)"
    using jar
    by (simp add: TeamPage_def caught_page_def requireDashboardSession_def Let_def metadata_only_def load_then_def
        load_done_def load_of_def fetch_one_def demo_call page_session_facts client_fetchPartnerDashboardMetadata_def
        client_fetchPartnerUsers_def client_get_def js_starts_with_def answer_get_def answer_rows_def then_message_def
        canAccessScope_iff
        role_write_scopes del: getPartnerUserScopes.simps)
  then obtain qs v where shown: "TeamPage ?E jar = (qs, Shown v, jar)" "''/access/actions/invite-user'' \<in> set (pv_forms v)"
    by blast
  have scopes: "session_scopes (page_session ?role) = ap_scopes ?p" by (simp add: page_session_facts demo_user_def)
  have item: "visible_item ?f (session_scopes (page_session ?role)) (item_of ''/access/team'')"
    by (simp add: visible_item_def item_of_def navigationGroups_def nav_item_def canAccessScope_iff page_session_facts
        role_scopes demo_profile_def profile_scopes_def del: getPartnerUserScopes.simps)
  have page: "(''/access/team'', TeamPage ?E, [''/access/actions/invite-user''],
      [''/access/actions/update-user'', ''/access/actions/deactivate-user'']) \<in> set (page_forms ?E (\<lambda>k. None) ''x'')"
    by (simp add: page_forms_def)
  have plan: "map_of form_actions ''/access/actions/invite-user'' =
      Some (invite_user_plan, [route_PartnerAccount_invitePartnerUser])"
    by (simp add: form_actions_def)
  from forms_offered_iff_accepted [OF demo_user_profile jar scopes demo_answers page shown(1) item] shown(2) plan
  have "\<forall>D f q message title page. invite_user_plan D ''t'' f = Submit q message title page \<longrightarrow>
      (\<exists>r. request_for r ''t'' q \<and> admitted ?p r)"
    by (fastforce simp: page_session_facts)
  with shown show ?thesis by blast
qed

end
