(* ===== verification/Page_Sessions.thy ===== *)
theory Page_Sessions
  imports Page_Facts
begin

text \<open>
  A session the backend no longer accepts, because it expired, was revoked or its user was deactivated: what each page
  does with the cookie that still holds it.
\<close>

text \<open>A request with the token of a session, and a backend that answers each of them with 401.\<close>

definition session_call :: "string \<Rightarrow> client_request \<Rightarrow> bool" where
  "session_call token q \<longleftrightarrow> wq_accessToken q = token \<and> wq_adminToken q = []"

definition token_refused :: "page_env \<Rightarrow> string \<Rightarrow> bool" where
  "token_refused E token \<longleftrightarrow>
     (\<forall>q. session_call token q \<longrightarrow> (\<exists>m. call_backend (pe_action E) q = Inl (DashboardAuthError m)))"

definition load_stops :: "'a load \<Rightarrow> bool" where
  "load_stops m \<longleftrightarrow> (\<exists>message. snd m = Inl (DashboardAuthError message))"

named_theorems stops_rule

lemma stops_then [stops_rule]: "load_stops m \<Longrightarrow> load_stops (load_then m f)"
  by (auto simp: load_stops_def load_then_def split: prod.splits sum.splits)

lemma stops_one: "token_refused E token \<Longrightarrow> session_call token q \<Longrightarrow> load_stops (fetch_one E q)"
  by (simp add: load_stops_def token_refused_def fetch_one_def)

lemma stops_all:
  assumes "token_refused E token" "list_all (session_call token) qs" "qs \<noteq> []"
  shows "load_stops (fetch_all E qs)"
proof -
  have refused: "\<exists>m. call_backend (pe_action E) q = Inl (DashboardAuthError m)" if "q \<in> set qs" for q
    using assms(1,2) that by (auto simp: token_refused_def list_all_iff)
  have "fetch_failures E qs \<noteq> []"
    using refused assms(3) by (cases qs) (fastforce simp: fetch_failures_def map_filter_simps)+
  then obtain q e rest where first: "sort_key (\<lambda>(q, e). pe_settles E q) (fetch_failures E qs) = (q, e) # rest"
    by (metis list.exhaust set_empty2 set_sort surj_pair)
  then have "(q, e) \<in> set (fetch_failures E qs)" by (metis list.set_intros(1) set_sort)
  then have "q \<in> set qs" "call_backend (pe_action E) q = Inl e"
    by (auto simp: fetch_failures_def map_filter_def split: sum.splits)
  with refused first show ?thesis by (fastforce simp: load_stops_def fetch_all_def)
qed

lemma loads_stop:
  assumes "token_refused E token"
  shows "load_stops (profile_and_metadata E token)" "load_stops (profile_only E token)" "load_stops (metadata_only E token)"
  unfolding profile_and_metadata_def profile_only_def metadata_only_def
  by (simp_all add: stops_then stops_all [OF assms] stops_one [OF assms] session_call_def
      client_fetchPartnerProfile_def client_fetchPartnerDashboardMetadata_def client_get_def)

text \<open>Where the cookie can be deleted the user goes to the entry page without it; else the page fails and keeps it.\<close>

definition signs_out :: "page_env \<Rightarrow> cookie_jar \<Rightarrow> page_run \<Rightarrow> bool" where
  "signs_out E jar = (\<lambda>(qs, p, jar'). (p, jar') =
     (case pe_deleteCookie E sessionCookieName jar of Inl reason \<Rightarrow> (Fails reason, jar) | Inr cleared \<Rightarrow> (Goes ''/'', cleared)))"

definition gives_up :: "cookie_jar \<Rightarrow> page_run \<Rightarrow> bool" where
  "gives_up jar = (\<lambda>(qs, p, jar'). (\<exists>m. p = Fails m) \<and> jar' = jar)"

lemma caught_signs_out:
  assumes "getDashboardSession (dashboard_of E) jar = Some session" "load_stops (body session)"
  shows "signs_out E jar (caught_page E unavailable body jar)"
  using assms by (cases "body session")
    (auto simp: signs_out_def caught_page_def requireDashboardSession_def load_stops_def split: sum.splits)

lemma uncaught_gives_up:
  assumes "getDashboardSession (dashboard_of E) jar = Some session" "load_stops (body session)"
  shows "gives_up jar (uncaught_page E body jar)"
  using assms by (cases "body session")
    (auto simp: gives_up_def uncaught_page_def requireDashboardSession_def load_stops_def)

lemma first_calls:
  "session_call token (client_fetchPartnerProfile token)" "session_call token (client_fetchOverview token)"
  "session_call token (client_fetchPartnerSecuritySettings token)"
  "session_call token (client_fetchAuditLogs token params)" "session_call token (client_fetchAuditLog token i)"
  "session_call token (client_fetchResolutionLog token i)"
  by (simp_all add: session_call_def client_request_defs)

lemma registry_pages_sign_out:
  assumes "getDashboardSession (dashboard_of E) jar = Some session" "token_refused E (session_token session)"
  shows "signs_out E jar (RecipientsPage E params jar)" "signs_out E jar (RecipientDetailPage E i jar)"
    "signs_out E jar (RecipientDestinationsPage E i jar)" "signs_out E jar (RecipientAttestationsPage E i jar)"
    "signs_out E jar (DestinationsPage E params jar)" "signs_out E jar (DestinationDetailPage E i jar)"
    "signs_out E jar (AttestationsPage E params jar)" "signs_out E jar (AttestationDetailPage E i jar)"
    "signs_out E jar (WebhooksPage E params jar)" "signs_out E jar (WebhookDetailPage E i jar)"
    "signs_out E jar (WebhookDeliveriesPage E params jar)" "signs_out E jar (WebhookDeliveryDetailPage E i jar)"
  unfolding RecipientsPage_def RecipientDetailPage_def RecipientDestinationsPage_def RecipientAttestationsPage_def
    DestinationsPage_def DestinationDetailPage_def AttestationsPage_def AttestationDetailPage_def
    WebhooksPage_def WebhookDetailPage_def WebhookDeliveriesPage_def WebhookDeliveryDetailPage_def
  by (rule caught_signs_out [OF assms(1)], simp only: Let_def, rule stops_then, rule loads_stop [OF assms(2)])+

lemma account_pages_sign_out:
  assumes "getDashboardSession (dashboard_of E) jar = Some session" "token_refused E (session_token session)"
  shows "signs_out E jar (ApiKeysPage E jar)" "signs_out E jar (SigningKeysPage E jar)" "signs_out E jar (TeamPage E jar)"
    "signs_out E jar (SecurityPage E jar)" "signs_out E jar (PlanUsagePage E jar)"
    "signs_out E jar (AuditLogsPage E params jar)" "signs_out E jar (AuditLogDetailPage E i jar)"
    "signs_out E jar (AuditExportsPage E jar)"
  unfolding ApiKeysPage_def SigningKeysPage_def TeamPage_def SecurityPage_def PlanUsagePage_def AuditLogsPage_def
    AuditLogDetailPage_def AuditExportsPage_def
  by (rule caught_signs_out [OF assms(1)];
      simp add: Let_def stops_then loads_stop [OF assms(2)] stops_one [OF assms(2)] stops_all [OF assms(2)] first_calls)+

lemma operation_pages_sign_out:
  assumes "getDashboardSession (dashboard_of E) jar = Some session" "token_refused E (session_token session)"
  shows "signs_out E jar (ByRecipientPage E params jar)" "signs_out E jar (ByAddressPage E params jar)"
    "signs_out E jar (VerifyTransferPage E params jar)" "signs_out E jar (BatchVerifyPage E jar)"
    "signs_out E jar (ResolutionLogsPage E params jar)" "signs_out E jar (ResolutionLogDetailPage E i jar)"
    "signs_out E jar (OverviewPage E jar)" "signs_out E jar (DataFeedHealthPage E jar)"
  unfolding ByRecipientPage_def ByAddressPage_def VerifyTransferPage_def BatchVerifyPage_def ResolutionLogsPage_def
    ResolutionLogDetailPage_def OverviewPage_def DataFeedHealthPage_def
  by (rule caught_signs_out [OF assms(1)];
      simp add: Let_def stops_then loads_stop [OF assms(2)] stops_one [OF assms(2)] stops_all [OF assms(2)] first_calls)+

lemma docs_pages_give_up:
  assumes "getDashboardSession (dashboard_of E) jar = Some session" "token_refused E (session_token session)"
  shows "gives_up jar (docs_page E title jar)" "gives_up jar (WebhookDocsPage E jar)" "gives_up jar (SandboxPage E jar)"
  unfolding docs_page_def WebhookDocsPage_def SandboxPage_def
  by (rule uncaught_gives_up [OF assms(1)]; simp add: Let_def stops_then loads_stop [OF assms(2)])+

text \<open>C28: once the backend refuses a session, no page goes on with it.  A page that may delete the cookie does, and sends
  the user to the entry page; the pages of the documentation and the sandbox fail.  But where a page may not delete the
  cookie while it is rendered, every page fails and keeps it, the layout fails too, and the entry page, which only looks
  at the cookie, sends the user back to the overview.\<close>

definition documentation_items :: "string list" where
  "documentation_items = [''/docs/quickstart'', ''/docs/api'', ''/docs/webhooks'', ''/sandbox'']"

theorem refused_session_pages:
  assumes "getDashboardSession (dashboard_of E) jar = Some session" "token_refused E (session_token session)"
    and "(href, run) \<in> set ((''/resolution/logs'', ResolutionLogsPage E params) # page_runs E params i)"
    and "run jar = (qs, result, jar')"
  shows "case pe_deleteCookie E sessionCookieName jar of
      Inr cleared \<Rightarrow>
        (if List.member documentation_items href then (\<exists>m. result = Fails m) \<and> jar' = jar
         else result = Goes ''/'' \<and> jar' = cleared)
    | Inl reason \<Rightarrow>
        (\<exists>m. result = Fails m) \<and> jar' = jar \<and> HomePage E jar' = Inl ''/overview'' \<and>
        (\<exists>q m. OperationsLayout E pathname jar' = (q, Inr (Inl (DashboardAuthError m))))"
proof -
  note pages = registry_pages_sign_out [OF assms(1,2)] account_pages_sign_out [OF assms(1,2)]
    operation_pages_sign_out [OF assms(1,2)] docs_pages_give_up [OF assms(1,2)]
  have "list_all (\<lambda>(h, r). if List.member documentation_items h then gives_up jar (r jar) else signs_out E jar (r jar))
      ((''/resolution/logs'', ResolutionLogsPage E params) # page_runs E params i)"
    by (simp add: page_runs_def documentation_items_def DocsHomePage_def QuickstartPage_def ApiDocsPage_def pages)
  then have page: "if List.member documentation_items href then gives_up jar (run jar) else signs_out E jar (run jar)"
    using assms(3) by (fastforce simp: list_all_iff)
  have home: "HomePage E jar = Inl ''/overview''" using assms(1) by (simp add: HomePage_def)
  have layout: "\<exists>q m. OperationsLayout E pathname jar = (q, Inr (Inl (DashboardAuthError m)))"
    using loads_stop(2) [OF assms(2)] assms(1)
    by (cases "profile_only E (session_token session)") (auto simp: OperationsLayout_def requireDashboardSession_def load_stops_def)
  show ?thesis
    using page assms(4) home layout by (auto simp: gives_up_def signs_out_def split: sum.splits if_splits)
qed

theorem refused_session_pages_witness:
  "\<exists>E jar qs m jar'. getDashboardSession (dashboard_of E) jar \<noteq> None \<and> OverviewPage E jar = (qs, Fails m, jar') \<and> jar' = jar \<and>
     HomePage E jar' = Inl ''/overview''"
proof -
  fix f :: PartnerProfile and md :: PartnerDashboardMetadata
  let ?role = PartnerUserRole_OWNER
  let ?D = "demo_pages [] JNull ?role f md"
  let ?E = "?D\<lparr>pe_action := (pe_action ?D)
      \<lparr>xe_send := (\<lambda>q. Inr \<lparr>wh_status = 401, wh_statusText = ''Unauthorized'', wh_json = None\<rparr>)\<rparr>\<rparr>"
  have "dashboard_of ?E = dashboard_of ?D" by (simp add: dashboard_of_def)
  then obtain jar where jar: "getDashboardSession (dashboard_of ?E) jar = Some (page_session ?role)"
    using demo_signed_in by metis
  obtain u where "getApiBaseUrl (Some ''https://api.x'') None = Inr u" using demo_base_url ..
  then have refused: "token_refused ?E token" for token
    by (auto simp: token_refused_def session_call_def call_backend_def demo_pages_def fetchApi_def buildUrl_def dashboardAuthError_def
        dashboardAdminAuthError_def split: json.splits)
  obtain qs result jar' where run: "OverviewPage ?E jar = (qs, result, jar')" by (metis prod_cases3)
  have page: "(''/overview'', OverviewPage ?E) \<in>
      set ((''/resolution/logs'', ResolutionLogsPage ?E (\<lambda>k. None)) # page_runs ?E (\<lambda>k. None) ''x'')"
    by (simp add: page_runs_def)
  have kept: "pe_deleteCookie ?E sessionCookieName jar = Inl ''read only''" by (simp add: demo_pages_def)
  have "(\<exists>m. result = Fails m) \<and> jar' = jar \<and> HomePage ?E jar' = Inl ''/overview''"
    using refused_session_pages [OF jar refused page run, unfolded kept sum.case] by blast
  then show ?thesis using run jar by (metis option.discI)
qed

end
