(* ===== verification/Spec2Isabelle.thy ===== *)
theory Spec2Isabelle
  imports Request_Hardening Protected_Fields Recipients Normalization Environment Audit_Service Webhook_Facts
    Webhook_Concurrency Attestation_Facts Batch_Facts Access_Facts Production_Facts
    Platforms Delivery_Processor Feed_Facts Client_Facts Access_Matrix Action_Facts Sandbox_Facts
    Page_Forms Page_Sessions
begin

text \<open>
  A verification library for the Vervet network: its backend (\<open>backend/src\<close>), the directory in which
  partners attest which address a recipient is paid at and the lookups with which others verify an
  address before they send; and the server side of its dashboard (\<open>dashboard/src\<close>), the client of that backend.

  \<^bold>\<open>How the program is modelled.\<close>  The backend is a set of NestJS services over one PostgreSQL database.
  The database is the record \<open>db\<close> of \<open>Vervet_Schema\<close>: a list of rows per table, in insertion order, a record
  per model of \<open>backend/prisma/schema.prisma\<close>, and the counter \<open>nextId\<close> from which ids and random values
  are drawn.  A handler of a service is a function of the environment \<open>E\<close>, the time, its arguments and the
  database, and returns its answer or the exception it throws (\<open>Inl\<close> of an \<open>http_error\<close>) with the database it
  leaves.  A transaction that throws leaves the database it found; what a handler writes outside of a
  transaction before it throws stays.  The environment \<open>env\<close> holds the configuration and what the code calls
  and does not define: \<open>cuid\<close>, random bytes, SHA-256, HMAC, scrypt, AES-GCM, signature checks, the parsing
  of dates, numbers, URLs and IP addresses, DNS, and the collation of the database.  What a property needs of
  them (ids do not repeat, decryption undoes encryption, a derived key has 64 bytes, tokens have no dot) is a
  named hypothesis, and \<open>demo_env\<close> satisfies all of them.  Times are milliseconds since 1970 as \<open>int\<close>; numbers
  that TypeScript keeps as doubles and that stay integers below 2^53 are \<open>int\<close> or \<open>nat\<close>, the one quotient
  that is shown rounded (the plan usage) is computed in double precision.

  \<^bold>\<open>The theories.\<close>

  \<^item> \<open>Js_Strings\<close>, \<open>Js_Json\<close>, \<open>Vervet_Prelude\<close>: the string operations of JavaScript that the code uses, ISO
    dates and JSON text; exceptions, JSON values, the Prisma queries on lists of rows (find, filter, update,
    upsert, ordering, pagination), and the locale \<open>keyed_upsert\<close>, the contract of an upsert on a unique key,
    interpreted by recipients, identifiers, destinations and production corridors.
  \<^item> \<open>Vervet_Enums\<close>, \<open>Vervet_Schema\<close>: the enumerations and tables of the schema, the environment.
  \<^item> \<open>Normalization\<close> (\<open>common/normalization\<close>), \<open>Environment\<close> (\<open>config/environment.ts\<close>), \<open>Secure_Fields\<close>
    and \<open>Protected_Fields\<close> (\<open>common/security\<close>): canonical forms (locale \<open>canonical_form\<close>, interpreted by the
    six normalisers), the validated settings, sealed text and secret hashes, blind indexes and encrypted
    submissions.
  \<^item> \<open>Audit_Service\<close> (\<open>audit\<close>): the audit log, its queries and exports.
  \<^item> \<open>Webhook_Targets\<close>, \<open>Webhook_Util\<close>, \<open>Webhooks\<close>, \<open>Webhook_Facts\<close>, \<open>Webhook_Concurrency\<close>
    (\<open>webhooks\<close>): the guard of target URLs, the retry schedule and signatures, endpoints and deliveries, the
    invariant of their tables, and several workers on one database as an interleaved step relation.
  \<^item> \<open>Request_Hardening\<close> (\<open>security\<close>): nonces against replay, rate and enumeration limits.
  \<^item> \<open>Recipients\<close>, \<open>Destinations\<close>, \<open>Signing_Keys\<close>, \<open>Attestations\<close>, \<open>Attestation_Facts\<close>
    (\<open>recipients\<close>, \<open>destinations\<close>, the signing keys of \<open>partners/partners.service.ts\<close>, \<open>attestations\<close>): who
    is paid where, and how a signed statement of a partner changes it.
  \<^item> \<open>Resolution_Lookup\<close>, \<open>Resolution\<close>, \<open>Resolution_Batch\<close>, \<open>Resolution_Facts\<close>, \<open>Batch_Facts\<close>,
    \<open>Disclosure\<close> (\<open>resolution\<close>): the three lookups with idempotency keys, limits, blocking and logging, the
    batch, the log and its retention.
  \<^item> \<open>Directory\<close>, \<open>Payout_Lookup\<close>: the abstract specification.  A directory is a map from recipient and
    network to an address with its validity; \<open>Directory\<close> proves that the destinations table implements it
    under every operation of the destination and attestation services, \<open>Payout_Lookup\<close> that the lookups
    answer from the directory alone.
  \<^item> \<open>Access_Tokens\<close>, \<open>Partner_Team\<close>, \<open>Access_Facts\<close> (\<open>partners/*.util.ts\<close>, \<open>partners/partners.service.ts\<close>,
    \<open>auth\<close>): credentials, sessions, invitations, users with their roles, security settings and the guards; the
    service as a step relation labelled with what a step ends.
  \<^item> \<open>Partner_Billing\<close>, \<open>Production_Access\<close>, \<open>Production_Review\<close>, \<open>Production_Facts\<close> (the rest of
    \<open>partners/partners.service.ts\<close>): plan usage, onboarding and readiness, requests for production approval and
    their review, corridors; the invariant of the step relation \<open>production_step\<close> (locale \<open>close_request\<close>, the
    contract of the three ways to close a request).

  \<^item> \<open>Platforms\<close> (\<open>platforms\<close>): the public list of platforms and its agreement with the reverse lookup.
  \<^item> \<open>Delivery_Processor\<close> (\<open>operations\<close>): the timer that cleans up and attempts due deliveries; enough
    ticks drain a backlog before its first retry comes due.

  \<^item> \<open>Data_Feed_Health\<close>, \<open>Overview\<close>, \<open>Feed_Facts\<close> (\<open>data-feed-health\<close>, \<open>overview\<close>): the report on the freshness
    of a partner's data and the first page of its dashboard, their agreement with each other and with the
    lookups.

  \<^item> \<open>Routes\<close>, \<open>Handlers\<close>, \<open>Request_Dtos\<close>, \<open>Dashboard_Metadata\<close>, \<open>Route_Facts\<close>, \<open>Access_Matrix\<close> (the
    \<open>*.controller.ts\<close> and \<open>*.dto.ts\<close> of the backend, \<open>partners/dashboard-metadata.service.ts\<close>): the routes with their
    guards and the handlers behind them, the declared request bodies, the option sets, guides and examples a
    dashboard is given; every plain path is answered by the route it was made for, and who may call what.
  \<^item> \<open>Dashboard_Client\<close>, \<open>Client_Facts\<close> (\<open>dashboard/src/lib/vervet-api.ts\<close>): the calls of the dashboard, and that
    each reaches its handler with the token that handler reads.
  \<^item> \<open>Dashboard_Session\<close>, \<open>Dashboard_Actions\<close>, \<open>Dashboard_Batch\<close>, \<open>Action_Facts\<close>, \<open>Sandbox_Facts\<close> (the rest of
    \<open>dashboard/src/lib\<close> and the handlers \<open>dashboard/src/app/*/actions\<close>): sealed cookies, sessions and flash
    messages, forms and the requests made of them, signing in and out, and the batches a user pastes.
  \<^item> \<open>Dashboard_Nav\<close>, \<open>Dashboard_Pages\<close>, \<open>Operations_Pages\<close>, \<open>Setup_Page\<close>, \<open>Page_Facts\<close>, \<open>Page_Forms\<close>,
    \<open>Page_Sessions\<close> (\<open>dashboard/src/app/*/page.tsx\<close>, \<open>app/(ops)/layout.tsx\<close>, \<open>components/dashboard-nav.tsx\<close>,
    \<open>app-shell.tsx\<close>, \<open>partner-onboarding-home.tsx\<close>, \<open>admin-setup-workspace.tsx\<close>): the navigation and the pages, each
    as the session it needs, the requests it makes, the forms it offers and what it does when a request fails;
    what a page asks for and offers against the guards of the backend, and what a refused session leads to.

  \<^bold>\<open>What the lemmas show.\<close>  Each component theory gives the functional behaviour of its operations and the
  facts its clients use; the theories named Facts hold invariants by induction over step relations and the
  properties that span components.  The most important ones: a lookup verifies an address exactly when the
  directory pays to it; the directory changes only by authentic attestations and the operations of the owner
  of a recipient; a token is worth exactly what it was issued for; production access rests on a review; a
  delivery has one sender at a time and a bounded number of attempts; a limit refuses exactly what it
  describes; retention deletes exactly what has expired; the administration of a partner is for its owners and
  administrators; every call and form of the dashboard is one the backend knows and declares, and the dashboard
  shows what the backend serves: its items, the requests of its pages and their forms.

  \<^bold>\<open>Bounds.\<close>  No definition runs on fuel except \<open>issue_attempts\<close>, whose five attempts are those of the
  code.  Loops over rows are structural recursions (\<open>process_rows\<close>, \<open>process_run\<close>, \<open>issue_attempts\<close>), so
  every handler is total.

  \<^bold>\<open>Modelled with a difference.\<close>  A handler reads the clock once, except where the code's two readings can
  be told apart (a batch run, a webhook delivery).  Handlers of different requests interleave only in
  \<open>Webhook_Concurrency\<close>; elsewhere a handler runs as one step, which for the reads before a transaction is
  more than the code promises, and the findings of the manifest say where that matters.  A handler is given a
  well-typed dto, and \<open>insert_destination\<close> reports a date that does not parse before the check for a duplicate,
  where the code reports it when the row is written; what the decorators of its class accept is the subject of \<open>Request_Dtos\<close>, where the check of a
  single decorator is a parameter, as is the matching of path patterns in \<open>Routes\<close> and, on the dashboard, the
  resolution of URLs, \<open>fetch\<close>, \<open>JSON.parse\<close> and \<open>Number.parseInt\<close>.

  \<^bold>\<open>Not modelled.\<close>  Modules, the Prisma client and process start are wiring without logic of their own; the
  seed script and the test suites run the modelled code; of the pages of the dashboard
  the markup, the cells of tables, the state that widgets keep in the browser and the platform's formats of dates and
  numbers are left out; whether a page may delete a cookie while it is rendered is a parameter; the site is static
  with an animated demonstration.
\<close>

end
